(* ===== verification/Prelude.thy ===== *)
theory Prelude
  imports Complex_Main "HOL-Library.Char_ord" "HOL-Library.List_Lexorder"
    "HOL-Library.Product_Lexorder" "HOL-Library.Sublist"
begin

text \<open>
  The prelude of the OpenQilin development: the Python string and dictionary operations the
  sources use, optional strings with Python's truthiness, association-list dictionaries, the
  exceptions that cross component boundaries, a state-and-exception sequencing combinator, the
  supply of \<^verbatim>\<open>uuid4()\<close> and \<^verbatim>\<open>datetime.now()\<close> values, and three interface
  locales used by several components (status machines, claim stores and replay caches).

  A Python \<^verbatim>\<open>str\<close> is a \<^typ>\<open>string\<close> whose characters stand for the code points
  U+0000 to U+00FF; \<open>py_isspace\<close> and \<open>py_lower\<close> are Python's
  \<^verbatim>\<open>str.isspace\<close> and \<^verbatim>\<open>str.lower\<close> on that range.
\<close>

named_theorems frame_simps "what an operation leaves unchanged"
named_theorems status_simps "closed facts about status tables"
named_theorems inv_intros "preservation of component invariants"

section \<open>Types shared by the components\<close>

type_synonym time = int
type_synonym kvs = "(string \<times> string) list"

section \<open>Python strings\<close>

definition py_isspace :: "char \<Rightarrow> bool" where
  "py_isspace c = (let n = (of_char c :: nat) in
     (9 \<le> n \<and> n \<le> 13) \<or> (28 \<le> n \<and> n \<le> 32) \<or> n = 133 \<or> n = 160)"

definition py_lower_char :: "char \<Rightarrow> char" where
  "py_lower_char c = (let n = (of_char c :: nat) in
     if (65 \<le> n \<and> n \<le> 90) \<or> (192 \<le> n \<and> n \<le> 222 \<and> n \<noteq> 215) then char_of (n + 32) else c)"

definition py_lower :: "string \<Rightarrow> string" where
  "py_lower s = map py_lower_char s"

definition py_lstrip :: "string \<Rightarrow> string" where
  "py_lstrip s = dropWhile py_isspace s"

definition py_strip :: "string \<Rightarrow> string" where
  "py_strip s = rev (py_lstrip (rev (py_lstrip s)))"

definition py_startswith :: "string \<Rightarrow> string \<Rightarrow> bool" where
  "py_startswith s p = (take (length p) s = p)"

text \<open>\<^verbatim>\<open>p in s\<close> on strings.\<close>

fun py_contains :: "string \<Rightarrow> string \<Rightarrow> bool" where
  "py_contains [] p = (p = [])"
| "py_contains (c # s) p = (py_startswith (c # s) p \<or> py_contains s p)"

text \<open>\<^verbatim>\<open>s.find(p)\<close>, with \<^verbatim>\<open>-1\<close> as \<^term>\<open>None\<close>.\<close>

fun py_find :: "string \<Rightarrow> string \<Rightarrow> nat option" where
  "py_find [] p = (if p = [] then Some 0 else None)"
| "py_find (c # s) p = (if py_startswith (c # s) p then Some 0 else map_option Suc (py_find s p))"

text \<open>\<^verbatim>\<open>s.split(sep)\<close> for a one-character separator.\<close>

fun py_split :: "char \<Rightarrow> string \<Rightarrow> string list" where
  "py_split d [] = [[]]"
| "py_split d (c # s) =
     (if c = d then [] # py_split d s
      else case py_split d s of [] \<Rightarrow> [[c]] | w # ws \<Rightarrow> (c # w) # ws)"

text \<open>\<^verbatim>\<open>s.split()\<close>: maximal runs of non-whitespace.\<close>

fun py_split_ws_acc :: "string \<Rightarrow> string \<Rightarrow> string list" where
  "py_split_ws_acc acc [] = (if acc = [] then [] else [rev acc])"
| "py_split_ws_acc acc (c # s) =
     (if py_isspace c then (if acc = [] then [] else [rev acc]) @ py_split_ws_acc [] s
      else py_split_ws_acc (c # acc) s)"

definition py_split_ws :: "string \<Rightarrow> string list" where
  "py_split_ws s = py_split_ws_acc [] s"

text \<open>\<^verbatim>\<open>sep.join(xs)\<close>.\<close>

fun py_join :: "string \<Rightarrow> string list \<Rightarrow> string" where
  "py_join sep [] = []"
| "py_join sep [x] = x"
| "py_join sep (x # y # ys) = x @ sep @ py_join sep (y # ys)"

text \<open>\<^verbatim>\<open>sorted({...})\<close>: the sorted list of distinct elements.\<close>

definition py_sorted_set :: "'a::linorder list \<Rightarrow> 'a list" where
  "py_sorted_set xs = sort (remdups xs)"

text \<open>\<^verbatim>\<open>str(n)\<close> of an integer.\<close>

fun show_nat_acc :: "nat \<Rightarrow> string \<Rightarrow> string" where
  "show_nat_acc n acc =
     (let acc' = char_of (48 + n mod 10) # acc
      in if n < 10 then acc' else show_nat_acc (n div 10) acc')"

declare show_nat_acc.simps [simp del]

definition show_nat :: "nat \<Rightarrow> string" where
  "show_nat n = show_nat_acc n []"

definition show_int :: "int \<Rightarrow> string" where
  "show_int i = (if i < 0 then ''-'' @ show_nat (nat (- i)) else show_nat (nat i))"

text \<open>\<^verbatim>\<open>round(x, 6)\<close>: to the nearest multiple, ties to the even one.\<close>

definition round6 :: "rat \<Rightarrow> rat" where
  "round6 x =
     (let y = x * 1000000; f = \<lfloor>y\<rfloor>; d = y - of_int f
      in of_int (if d < 1 / 2 \<or> d = 1 / 2 \<and> even f then f else f + 1) / 1000000)"

text \<open>\<^verbatim>\<open>repr(s)\<close> of a string without quotes, backslashes and control characters.\<close>

definition py_repr :: "string \<Rightarrow> string" where
  "py_repr s = [CHR 0x27] @ s @ [CHR 0x27]"

section \<open>Optional strings and truthiness\<close>

text \<open>\<^verbatim>\<open>x or default\<close> for an optional string: both \<^verbatim>\<open>None\<close> and the empty string are false.\<close>

definition truthy :: "string option \<Rightarrow> bool" where
  "truthy x = (case x of None \<Rightarrow> False | Some s \<Rightarrow> s \<noteq> [])"

definition or_str :: "string option \<Rightarrow> string \<Rightarrow> string" where
  "or_str x d = (case x of None \<Rightarrow> d | Some s \<Rightarrow> if s = [] then d else s)"

definition or_opt :: "string option \<Rightarrow> string option \<Rightarrow> string option" where
  "or_opt x y = (if truthy x then x else y)"

text \<open>\<^verbatim>\<open>s or None\<close> and \<^verbatim>\<open>x if x else None\<close>.\<close>

definition or_none :: "string \<Rightarrow> string option" where
  "or_none s = (if s = [] then None else Some s)"

definition nonempty_opt :: "string option \<Rightarrow> string option" where
  "nonempty_opt x = (if truthy x then x else None)"

text \<open>SQL \<^verbatim>\<open>COALESCE(new, old)\<close>.\<close>

definition coalesce :: "'a option \<Rightarrow> 'a option \<Rightarrow> 'a option" where
  "coalesce new old = (case new of None \<Rightarrow> old | Some v \<Rightarrow> Some v)"

section \<open>Dictionaries\<close>

text \<open>\<^verbatim>\<open>dict(pairs).get(k)\<close>: the last binding of a key wins.\<close>

definition dict_get :: "('k \<times> 'v) list \<Rightarrow> 'k \<Rightarrow> 'v option" where
  "dict_get kv k = map_of (rev kv) k"

text \<open>
  \<^verbatim>\<open>d[k] = v\<close> on a Python dictionary kept as an association list: an existing key keeps
  its position, a new key is appended (insertion order).
\<close>

fun dict_put :: "('k \<times> 'v) list \<Rightarrow> 'k \<Rightarrow> 'v \<Rightarrow> ('k \<times> 'v) list" where
  "dict_put [] k v = [(k, v)]"
| "dict_put ((k', v') # d) k v = (if k' = k then (k, v) # d else (k', v') # dict_put d k v)"

section \<open>Exceptions and sequencing\<close>

text \<open>
  The exceptions that leave a component. \<open>CodedError\<close> stands for the classes that carry a code
  and a message; the last constructor is any other exception, with its text.
\<close>

datatype py_exn =
    LoopCapBreachError string int int "(string \<times> string) option"
  | InvalidStateTransitionError string string
  | DispatchTargetError string
  | SpecialistDispatchAuthError string
  | IntegrityError string
  | RuntimeErr string
  | CodedError string string
  | OtherExn string

text \<open>\<^verbatim>\<open>str(error)\<close>.\<close>

fun exn_text :: "py_exn \<Rightarrow> string" where
  "exn_text (LoopCapBreachError cap_type n limit pair) =
     ''Loop cap breached: '' @ cap_type @ ''='' @ show_int n @ '' exceeded limit='' @ show_int limit @
     (case pair of None \<Rightarrow> [] | Some (a, b) \<Rightarrow> '' pair=('' @ py_repr a @ '', '' @ py_repr b @ '')'')"
| "exn_text (InvalidStateTransitionError s t) = ''illegal task state transition: '' @ py_repr s @ '' -> '' @ py_repr t"
| "exn_text (DispatchTargetError m) = m"
| "exn_text (SpecialistDispatchAuthError m) = m"
| "exn_text (IntegrityError m) = m"
| "exn_text (RuntimeErr m) = m"
| "exn_text (CodedError code m) = m"
| "exn_text (OtherExn m) = m"

text \<open>
  A stateful call that may raise: the state reached so far is kept when it raises, as Python
  keeps it.
\<close>

type_synonym ('e, 'a, 's) run = "('e + 'a) \<times> 's"

definition and_then :: "('e, 'a, 's) run \<Rightarrow> ('a \<Rightarrow> 's \<Rightarrow> ('e, 'b, 's) run) \<Rightarrow> ('e, 'b, 's) run" where
  "and_then r f = (case r of (Inl e, s) \<Rightarrow> (Inl e, s) | (Inr x, s) \<Rightarrow> f x s)"

lemma and_then_simps [simp]:
  "and_then (Inl e, s) f = (Inl e, s)"
  "and_then (Inr x, s) f = f x s"
  by (simp_all add: and_then_def)

text \<open>What holds of the state after each stage holds after the sequence.\<close>

lemma and_then_inv: "P (snd r) \<Longrightarrow> (\<And>x s. P s \<Longrightarrow> P (snd (f x s))) \<Longrightarrow> P (snd (and_then r f))"
  by (cases r; cases "fst r") auto

lemma and_then_Inr:
  "and_then r f = (Inr y, s') \<longleftrightarrow> (\<exists>x s. r = (Inr x, s) \<and> f x s = (Inr y, s'))"
  by (cases r; cases "fst r") auto

text \<open>
  A run ends well: a returned value and its state satisfy \<open>Q\<close>, a raised exception and its state
  satisfy \<open>E\<close>.
\<close>

definition run_ok :: "('a \<Rightarrow> 's \<Rightarrow> bool) \<Rightarrow> ('e \<Rightarrow> 's \<Rightarrow> bool) \<Rightarrow> ('e, 'a, 's) run \<Rightarrow> bool" where
  "run_ok Q E r = (case r of (Inl e, s) \<Rightarrow> E e s | (Inr x, s) \<Rightarrow> Q x s)"

lemma run_ok_simps [simp]: "run_ok Q E (Inl e, s) = E e s" "run_ok Q E (Inr x, s) = Q x s"
  by (simp_all add: run_ok_def)

lemma run_ok_and_then:
  "run_ok Q E r \<Longrightarrow> (\<And>x s. Q x s \<Longrightarrow> run_ok R E (f x s)) \<Longrightarrow> run_ok R E (and_then r f)"
  by (cases r; cases "fst r") auto

lemma run_ok_mono:
  "run_ok Q E r \<Longrightarrow> (\<And>x s. Q x s \<Longrightarrow> Q' x s) \<Longrightarrow> (\<And>e s. E e s \<Longrightarrow> E' e s) \<Longrightarrow> run_ok Q' E' r"
  by (cases r; cases "fst r") auto

lemma run_ok_never_raises: "run_ok Q (\<lambda>_ _. False) r \<Longrightarrow> run_ok Q E r"
  by (erule run_ok_mono) simp_all

section \<open>Fresh identifiers and the clock\<close>

text \<open>
  \<^verbatim>\<open>str(uuid4())\<close> and \<^verbatim>\<open>datetime.now(tz=UTC)\<close> are draws from two sequences that
  the run time supplies; the positions count the draws made so far. Where freshness matters a
  statement assumes that the identifier sequence is injective.
\<close>

record py_runtime =
  rt_uuid_seq :: "nat \<Rightarrow> string"
  rt_uuid_pos :: nat
  rt_clock_seq :: "nat \<Rightarrow> time"
  rt_clock_pos :: nat

definition uuid4 :: "py_runtime \<Rightarrow> string \<times> py_runtime" where
  "uuid4 rt = (rt_uuid_seq rt (rt_uuid_pos rt), rt\<lparr>rt_uuid_pos := Suc (rt_uuid_pos rt)\<rparr>)"

definition now_utc :: "py_runtime \<Rightarrow> time \<times> py_runtime" where
  "now_utc rt = (rt_clock_seq rt (rt_clock_pos rt), rt\<lparr>rt_clock_pos := Suc (rt_clock_pos rt)\<rparr>)"

section \<open>Lemmas on strings, options and dictionaries\<close>

lemma py_lstrip_idem [simp]: "py_lstrip (py_lstrip s) = py_lstrip s"
  by (simp add: py_lstrip_def)

lemma dropWhile_suffix_hd: "xs \<noteq> [] \<Longrightarrow> \<not> P (hd xs) \<Longrightarrow> dropWhile P xs = xs"
  by (cases xs) auto

lemma py_lstrip_rev_lstrip:
  "py_lstrip (rev (py_lstrip (rev (py_lstrip s)))) = rev (py_lstrip (rev (py_lstrip s)))"
proof (cases "rev (py_lstrip (rev (py_lstrip s)))")
  case Nil
  show ?thesis unfolding Nil by (simp add: py_lstrip_def)
next
  case (Cons c t)
  let ?u = "py_lstrip s"
  obtain zs where zs: "rev ?u = zs @ py_lstrip (rev ?u)"
    unfolding py_lstrip_def by (metis takeWhile_dropWhile_id)
  then have u: "?u = rev (py_lstrip (rev ?u)) @ rev zs"
    by (metis rev_append rev_rev_ident)
  with Cons have "hd ?u = c" by (metis append_Cons list.sel(1))
  moreover have "?u \<noteq> []" using u Cons by auto
  ultimately have "\<not> py_isspace c"
    unfolding py_lstrip_def using hd_dropWhile by metis
  then show ?thesis
    unfolding Cons by (simp add: py_lstrip_def)
qed

lemma py_strip_idem [simp]: "py_strip (py_strip s) = py_strip s"
  by (simp add: py_strip_def py_lstrip_rev_lstrip)

lemma py_strip_Nil [simp]: "py_strip [] = []"
  by (simp add: py_strip_def py_lstrip_def)

lemma py_lower_Nil [simp]: "py_lower [] = []"
  and py_lower_eq_Nil [simp]: "(py_lower s = []) = (s = [])"
  by (simp_all add: py_lower_def)

lemma py_lower_char_idem [simp]: "py_lower_char (py_lower_char c) = py_lower_char c"
  by (cases "of_char c :: nat") (auto simp: py_lower_char_def Let_def of_char_of)

lemma py_lower_idem [simp]: "py_lower (py_lower s) = py_lower s"
  by (simp add: py_lower_def)

lemma py_isspace_lower [simp]: "py_isspace (py_lower_char c) = py_isspace c"
  by (cases "of_char c :: nat") (auto simp: py_isspace_def py_lower_char_def Let_def of_char_of)

lemma py_lstrip_lower: "py_lstrip (py_lower s) = py_lower (py_lstrip s)"
  by (simp add: py_lstrip_def py_lower_def dropWhile_map o_def)

lemma py_strip_lower: "py_strip (py_lower s) = py_lower (py_strip s)"
proof -
  have rev: "rev (py_lower t) = py_lower (rev t)" for t
    by (simp add: py_lower_def rev_map)
  show ?thesis by (simp add: py_strip_def py_lstrip_lower rev)
qed

lemma set_py_sorted_set [simp]: "set (py_sorted_set xs) = set xs"
  by (simp add: py_sorted_set_def)

lemma py_split_neq_Nil [simp]: "py_split d s \<noteq> []"
  by (cases s) (auto split: list.splits)

lemma py_split_no_sep: "w \<in> set (py_split d s) \<Longrightarrow> d \<notin> set w"
  by (induction s arbitrary: w) (auto split: if_splits list.splits)

lemma py_split_no_occ: "d \<notin> set s \<Longrightarrow> py_split d s = [s]"
  by (induction s) auto

lemma py_split_append: "d \<notin> set x \<Longrightarrow> py_split d (x @ d # s) = x # py_split d s"
  by (induction x) auto

lemma py_split_join:
  "xs \<noteq> [] \<Longrightarrow> (\<And>x. x \<in> set xs \<Longrightarrow> d \<notin> set x) \<Longrightarrow> py_split d (py_join [d] xs) = xs"
proof (induction "[d]" xs rule: py_join.induct)
  case (3 x y ys)
  then have "py_split d (py_join [d] (y # ys)) = y # ys" by simp
  with 3 show ?case by (simp add: py_split_append)
qed (auto simp: py_split_no_occ)

lemma or_str_simps [simp]:
  "or_str None d = d" "or_str (Some []) d = d" "or_str (Some (c # s)) d = c # s"
  by (simp_all add: or_str_def)

lemma truthy_simps [simp]:
  "truthy None = False" "truthy (Some []) = False" "truthy (Some (c # s)) = True"
  by (simp_all add: truthy_def)

lemma or_str_eq_Nil [simp]: "(or_str x d = []) = (\<not> truthy x \<and> d = [])"
  by (auto simp: or_str_def truthy_def split: option.splits)

lemma nonempty_opt_idem [simp]: "nonempty_opt (nonempty_opt x) = nonempty_opt x"
  by (simp add: nonempty_opt_def)

lemma nonempty_opt_None [simp]: "nonempty_opt None = None"
  by (simp add: nonempty_opt_def)

lemma nonempty_opt_Some: "s \<noteq> [] \<Longrightarrow> nonempty_opt (Some s) = Some s"
  by (simp add: nonempty_opt_def truthy_def)

lemma coalesce_simps [simp]: "coalesce None y = y" "coalesce (Some x) y = Some x"
  by (simp_all add: coalesce_def)

lemma find_append_eq: "find P (xs @ ys) = (case find P xs of None \<Rightarrow> find P ys | Some x \<Rightarrow> Some x)"
  by (induction xs) auto

lemma map_of_dict_put: "map_of (dict_put d k v) = (map_of d)(k \<mapsto> v)"
  by (induction d) (auto simp: fun_eq_iff)

lemma dict_put_put [simp]: "dict_put (dict_put d k v) k v' = dict_put d k v'"
  by (induction d) auto

lemma keys_dict_put: "set (map fst (dict_put d k v)) = insert k (set (map fst d))"
  by (induction d k v rule: dict_put.induct) (simp_all add: insert_commute)

lemma distinct_dict_put [intro]: "distinct (map fst d) \<Longrightarrow> distinct (map fst (dict_put d k v))"
proof (induction d)
  case (Cons kv d)
  then show ?case using keys_dict_put [of d k v] by (cases kv) auto
qed simp

lemma dict_put_in: "map_of d k = Some v' \<Longrightarrow> map fst (dict_put d k v) = map fst d"
  by (induction d) (auto split: if_splits)

lemma dict_get_sort:
  fixes xs :: "('k::linorder \<times> 'v::linorder) list"
  assumes "distinct (map fst xs)" "(k, v) \<in> set xs" shows "dict_get (sort xs) k = Some v"
proof -
  have "distinct (map fst (rev (sort xs)))"
    using assms(1) by (simp add: distinct_map)
  then show ?thesis using assms(2) by (simp add: dict_get_def)
qed

lemma length_show_nat_acc: "length (show_nat_acc n acc) > length acc"
proof (induction n acc rule: show_nat_acc.induct)
  case (1 n acc)
  then show ?case by (subst show_nat_acc.simps) (auto simp: Let_def)
qed

lemma show_nat_neq_Nil [simp]: "show_nat n \<noteq> []"
  using length_show_nat_acc [of "[]" n] by (auto simp: show_nat_def)

section \<open>Status machines\<close>

text \<open>
  Three components keep a status whose changes a table guards (tasks, ledger messages and
  projects). The interface is the table's step relation and its terminal statuses; what follows
  for histories of statuses is proved once.
\<close>

fun legal_path :: "('s \<Rightarrow> 's \<Rightarrow> bool) \<Rightarrow> 's \<Rightarrow> 's list \<Rightarrow> bool" where
  "legal_path step s [] = True"
| "legal_path step s (t # ts) = (step s t \<and> legal_path step t ts)"

lemma legal_path_append:
  "legal_path step s (ts @ us) = (legal_path step s ts \<and> legal_path step (last (s # ts)) us)"
  by (induction ts arbitrary: s) auto

lemma legal_path_rtranclp: "legal_path step s ts \<Longrightarrow> step\<^sup>*\<^sup>* s (last (s # ts))"
proof (induction ts arbitrary: s)
  case (Cons t ts)
  then have "step s t" and "step\<^sup>*\<^sup>* t (last (t # ts))" by auto
  then show ?case by (simp add: converse_rtranclp_into_rtranclp)
qed simp

locale status_machine =
  fixes step :: "'s \<Rightarrow> 's \<Rightarrow> bool" and terminal :: "'s \<Rightarrow> bool"
  assumes terminal_no_step: "terminal s \<Longrightarrow> \<not> step s t"
begin

lemma terminal_stays: "step\<^sup>*\<^sup>* s t \<Longrightarrow> terminal s \<Longrightarrow> t = s"
  by (induction rule: rtranclp_induct) (auto dest: terminal_no_step)

lemma terminal_path_Nil: "legal_path step s ts \<Longrightarrow> terminal s \<Longrightarrow> ts = []"
  by (cases ts) (auto dest: terminal_no_step)

lemma terminal_only_last: "legal_path step s (ts @ t # us) \<Longrightarrow> terminal t \<Longrightarrow> us = []"
  by (auto simp: legal_path_append intro: terminal_path_Nil)

end

section \<open>Claim stores\<close>

text \<open>
  Idempotency claims: a store remembers, per key, the payload hash of the first claim. The
  interface is shared by the ingress de-duplication store, the in-process delivery store and the
  Redis store.
\<close>

datatype claim_status = ClaimNew | ClaimReplay | ClaimConflict | ClaimInProgress

fun run_claims ::
  "('k \<Rightarrow> 'h \<Rightarrow> 'st \<Rightarrow> claim_status \<times> 'st) \<Rightarrow> ('k \<times> 'h) list \<Rightarrow> 'st \<Rightarrow> claim_status list \<times> 'st" where
  "run_claims claim [] st = ([], st)"
| "run_claims claim ((k, h) # cs) st =
     (let (r, st') = claim k h st; (rs, st'') = run_claims claim cs st' in (r # rs, st''))"

locale claim_store =
  fixes claim :: "'k \<Rightarrow> 'h \<Rightarrow> 'st \<Rightarrow> claim_status \<times> 'st"
    and stored :: "'st \<Rightarrow> 'k \<Rightarrow> 'h option"
  assumes claim_fresh: "stored st k = None \<Longrightarrow> fst (claim k h st) = ClaimNew"
    and claim_fresh_stored: "stored st k = None \<Longrightarrow> stored (snd (claim k h st)) = (stored st)(k \<mapsto> h)"
    and claim_taken: "stored st k = Some h' \<Longrightarrow> fst (claim k h st) \<noteq> ClaimNew"
    and claim_taken_stored: "stored st k = Some h' \<Longrightarrow> snd (claim k h st) = st"
begin

lemma claim_new_iff: "(fst (claim k h st) = ClaimNew) = (stored st k = None)"
  by (cases "stored st k") (auto simp: claim_fresh dest: claim_taken)

lemma claim_keeps_hash: "stored st k' = Some h' \<Longrightarrow> stored (snd (claim k h st)) k' = Some h'"
  by (cases "stored st k") (auto simp: claim_fresh_stored claim_taken_stored)

lemma claim_stores: "\<exists>h'. stored (snd (claim k h st)) k = Some h'"
  by (cases "stored st k") (auto simp: claim_fresh_stored claim_taken_stored)

lemma run_claims_keeps_hash:
  "stored st k = Some h \<Longrightarrow> stored (snd (run_claims claim cs st)) k = Some h"
proof (induction cs arbitrary: st)
  case (Cons c cs)
  obtain k' h' where c: "c = (k', h')" by (cases c)
  from Cons.prems have "stored (snd (claim k' h' st)) k = Some h"
    by (rule claim_keeps_hash)
  then show ?case using Cons.IH by (simp add: c case_prod_beta Let_def)
qed simp

lemma run_claims_taken_not_new:
  "stored st k = Some h \<Longrightarrow> i < length cs \<Longrightarrow> fst (cs ! i) = k \<Longrightarrow>
   fst (run_claims claim cs st) ! i \<noteq> ClaimNew"
proof (induction cs arbitrary: st i)
  case (Cons c cs)
  obtain k' h' where c: "c = (k', h')" by (cases c)
  have stay: "stored (snd (claim k' h' st)) k = Some h"
    using Cons.prems(1) by (rule claim_keeps_hash)
  show ?case
  proof (cases i)
    case 0
    with Cons.prems have "k' = k" by (simp add: c)
    with claim_taken [OF Cons.prems(1)] show ?thesis
      by (simp add: c 0 case_prod_beta Let_def)
  next
    case (Suc j)
    with Cons.prems Cons.IH [OF stay, of j] show ?thesis
      by (simp add: c case_prod_beta Let_def)
  qed
qed simp

lemma run_claims_new_once:
  "i < j \<Longrightarrow> j < length cs \<Longrightarrow> fst (cs ! i) = fst (cs ! j) \<Longrightarrow>
   fst (run_claims claim cs st) ! j \<noteq> ClaimNew"
proof (induction cs arbitrary: st i j)
  case (Cons c cs)
  obtain k' h' where c: "c = (k', h')" by (cases c)
  obtain j' where j: "j = Suc j'" using Cons.prems(1) by (cases j) auto
  let ?st = "snd (claim k' h' st)"
  show ?case
  proof (cases i)
    case 0
    obtain g where g: "stored ?st k' = Some g" using claim_stores by blast
    have "fst (run_claims claim cs ?st) ! j' \<noteq> ClaimNew"
      by (rule run_claims_taken_not_new [OF g]) (use Cons.prems c j 0 in auto)
    then show ?thesis by (simp add: c j case_prod_beta Let_def)
  next
    case (Suc i')
    with Cons.prems Cons.IH [of i' j' ?st] show ?thesis
      by (simp add: c j case_prod_beta Let_def)
  qed
qed simp

end

section \<open>Replay caches\<close>

text \<open>
  Services that answer a repeated call from the stored answer of the first one (budget reservation
  and task dispatch, both keyed by the task): a stored answer is returned without any effect, a
  stored answer is never lost, and an answer that is good to keep is stored (\<open>replayed\<close> says how it
  is marked when it is given again). What a client gets from such a service over any sequence of
  calls is proved once.
\<close>

fun run_calls :: "('a \<Rightarrow> 's \<Rightarrow> 'r \<times> 's) \<Rightarrow> 'a list \<Rightarrow> 's \<Rightarrow> 's" where
  "run_calls call [] s = s"
| "run_calls call (a # as) s = run_calls call as (snd (call a s))"

locale replay_cache =
  fixes call :: "'a \<Rightarrow> 's \<Rightarrow> 'r \<times> 's"
    and key :: "'a \<Rightarrow> 'k"
    and answer :: "'s \<Rightarrow> 'k \<Rightarrow> 'r option"
    and kept :: "'r \<Rightarrow> bool"
    and replayed :: "'r \<Rightarrow> 'r"
  assumes answer_hit: "answer s (key a) = Some r \<Longrightarrow> call a s = (r, s)"
    and answer_stays: "answer s k = Some r \<Longrightarrow> answer (snd (call a s)) k = Some r"
    and answer_stored: "kept (fst (call a s)) \<Longrightarrow> answer (snd (call a s)) (key a) = Some (replayed (fst (call a s)))"
begin

lemma answer_stays_run: "answer s k = Some r \<Longrightarrow> answer (run_calls call as s) k = Some r"
  by (induction as arbitrary: s) (auto intro: answer_stays)

lemma replayed_after_run:
  assumes "kept (fst (call a s))" "key b = key a"
  shows "call b (run_calls call as (snd (call a s))) =
    (replayed (fst (call a s)), run_calls call as (snd (call a s)))"
proof -
  have "answer (run_calls call as (snd (call a s))) (key b) = Some (replayed (fst (call a s)))"
    using answer_stored [OF assms(1)] assms(2) by (simp add: answer_stays_run)
  then show ?thesis by (rule answer_hit)
qed

end

end
