(* ===== verification/Task_State.thy ===== *)
theory Task_State
  imports Prelude
begin

text \<open>
  The task record, its persistence and its life cycle.
  \<^item> \<^verbatim>\<open>task_orchestrator/state/transition_guard.py\<close>: the table of legal status changes
    (\<open>legal_transitions\<close>, \<open>assert_legal_transition\<close>);
  \<^item> \<^verbatim>\<open>data_access/repositories/runtime_state.py\<close> and
    \<^verbatim>\<open>admission/envelope_validator.py\<close>: \<open>task_record\<close>, \<open>admission_envelope\<close>;
  \<^item> \<^verbatim>\<open>data_access/repositories/postgres/task_repository.py\<close>: the \<^verbatim>\<open>tasks\<close> table
    as a list of rows, with each SQL statement as an operation on it;
  \<^item> \<^verbatim>\<open>task_orchestrator/services/lifecycle_service.py\<close>: \<open>mark_dispatched\<close>,
    \<open>mark_blocked_dispatch\<close>, \<open>mark_failed\<close>;
  \<^item> \<^verbatim>\<open>task_orchestrator/loop_control.py\<close>: the hop and pair-round caps.

  A row is a \<open>task_record\<close>; \<open>task_from_row\<close> is the normalisation that reading a row applies.
  \<^verbatim>\<open>created_at\<close> is an integer instant.
\<close>

section \<open>Transition guard\<close>

definition legal_transitions_table :: "(string \<times> string list) list" where
  "legal_transitions_table =
     [(''queued'', [''authorized'', ''blocked'', ''cancelled'', ''failed'']),
      (''authorized'', [''dispatched'', ''blocked'', ''failed'', ''cancelled'']),
      (''dispatched'', [''running'', ''blocked'', ''completed'', ''failed'', ''cancelled'']),
      (''running'', [''completed'', ''failed'', ''blocked'', ''cancelled'']),
      (''blocked'', [''queued'', ''dispatched'', ''cancelled'', ''failed'']),
      (''completed'', []),
      (''failed'', []),
      (''cancelled'', [])]"

definition legal_transitions :: "string \<Rightarrow> string list" where
  "legal_transitions s = (case map_of legal_transitions_table s of None \<Rightarrow> [] | Some ts \<Rightarrow> ts)"

definition assert_legal_transition :: "string \<Rightarrow> string \<Rightarrow> py_exn + unit" where
  "assert_legal_transition current next_state =
     (if next_state \<in> set (legal_transitions current) then Inr ()
      else Inl (InvalidStateTransitionError current next_state))"

text \<open>The statuses the table knows, and those without a successor.\<close>

definition task_statuses :: "string list" where
  "task_statuses = map fst legal_transitions_table"

definition terminal_task_status :: "string \<Rightarrow> bool" where
  "terminal_task_status s = (s \<in> {''completed'', ''failed'', ''cancelled''})"

definition task_step :: "string \<Rightarrow> string \<Rightarrow> bool" where
  "task_step s t = (t \<in> set (legal_transitions s))"

section \<open>Task records and admission envelopes\<close>

record admission_envelope =
  env_request_id :: string
  env_trace_id :: string
  env_principal_id :: string
  env_principal_role :: string
  env_trust_domain :: string
  env_connector :: string
  env_command :: string
  env_target :: string
  env_args :: "string list"
  env_metadata :: kvs
  env_project_id :: "string option"
  env_idempotency_key :: string

record task_record =
  tk_task_id :: string
  tk_request_id :: string
  tk_trace_id :: string
  tk_principal_id :: string
  tk_principal_role :: string
  tk_trust_domain :: string
  tk_connector :: string
  tk_command :: string
  tk_target :: string
  tk_args :: "string list"
  tk_metadata :: kvs
  tk_project_id :: "string option"
  tk_idempotency_key :: string
  tk_status :: string
  tk_created_at :: time
  tk_outcome_source :: "string option"
  tk_outcome_error_code :: "string option"
  tk_outcome_message :: "string option"
  tk_outcome_details :: "kvs option"
  tk_dispatch_target :: "string option"
  tk_dispatch_id :: "string option"

section \<open>The task repository\<close>

type_synonym task_repo = "task_record list"

text \<open>
  Reading a row: empty text columns come back as \<^verbatim>\<open>None\<close>, and an empty list of outcome
  details does too; the JSON columns hold lists of strings and of string pairs, which
  \<^verbatim>\<open>json.dumps\<close> and \<^verbatim>\<open>json.loads\<close> carry unchanged.
\<close>

definition task_from_row :: "task_record \<Rightarrow> task_record" where
  "task_from_row r = r\<lparr>
     tk_project_id := nonempty_opt (tk_project_id r),
     tk_outcome_source := nonempty_opt (tk_outcome_source r),
     tk_outcome_error_code := nonempty_opt (tk_outcome_error_code r),
     tk_outcome_message := nonempty_opt (tk_outcome_message r),
     tk_outcome_details := (if tk_outcome_details r = Some [] then None else tk_outcome_details r),
     tk_dispatch_target := nonempty_opt (tk_dispatch_target r),
     tk_dispatch_id := nonempty_opt (tk_dispatch_id r)\<rparr>"

definition new_task :: "admission_envelope \<Rightarrow> string \<Rightarrow> time \<Rightarrow> task_record" where
  "new_task e task_id now = \<lparr>
     tk_task_id = task_id,
     tk_request_id = env_request_id e,
     tk_trace_id = env_trace_id e,
     tk_principal_id = env_principal_id e,
     tk_principal_role = env_principal_role e,
     tk_trust_domain = env_trust_domain e,
     tk_connector = env_connector e,
     tk_command = env_command e,
     tk_target = env_target e,
     tk_args = env_args e,
     tk_metadata = env_metadata e,
     tk_project_id = env_project_id e,
     tk_idempotency_key = env_idempotency_key e,
     tk_status = ''queued'',
     tk_created_at = now,
     tk_outcome_source = None,
     tk_outcome_error_code = None,
     tk_outcome_message = None,
     tk_outcome_details = None,
     tk_dispatch_target = None,
     tk_dispatch_id = None\<rparr>"

definition find_row :: "task_repo \<Rightarrow> string \<Rightarrow> task_record option" where
  "find_row repo task_id = find (\<lambda>r. tk_task_id r = task_id) repo"

definition get_task_by_id :: "task_repo \<Rightarrow> string \<Rightarrow> task_record option" where
  "get_task_by_id repo task_id = map_option task_from_row (find_row repo task_id)"

text \<open>
  The identifier and the instant are the values \<^verbatim>\<open>uuid4()\<close> and
  \<^verbatim>\<open>datetime.now()\<close> returned; the primary key of \<^verbatim>\<open>tasks\<close> refuses a second row
  with the same identifier.
\<close>

definition create_task_from_envelope ::
  "task_repo \<Rightarrow> admission_envelope \<Rightarrow> string \<Rightarrow> time \<Rightarrow> (py_exn, task_record, task_repo) run" where
  "create_task_from_envelope repo e task_id now =
     (if find_row repo task_id \<noteq> None then (Inl (IntegrityError task_id), repo)
      else (Inr (new_task e task_id now), repo @ [new_task e task_id now]))"

text \<open>\<^verbatim>\<open>ORDER BY created_at DESC LIMIT 1\<close>: the first of the newest rows.\<close>

fun newest :: "task_record list \<Rightarrow> task_record option" where
  "newest [] = None"
| "newest (r # rs) =
     (case newest rs of None \<Rightarrow> Some r
      | Some r' \<Rightarrow> if tk_created_at r < tk_created_at r' then Some r' else Some r)"

definition get_task_by_principal_and_idempotency ::
  "task_repo \<Rightarrow> string \<Rightarrow> string \<Rightarrow> task_record option" where
  "get_task_by_principal_and_idempotency repo principal_id idempotency_key =
     map_option task_from_row
       (newest (filter (\<lambda>r. tk_principal_id r = principal_id \<and> tk_idempotency_key r = idempotency_key) repo))"

text \<open>The keyword arguments of \<^verbatim>\<open>update_task_status\<close>, all optional.\<close>

record status_update =
  up_outcome_source :: "string option"
  up_outcome_error_code :: "string option"
  up_outcome_message :: "string option"
  up_outcome_details :: "kvs option"
  up_dispatch_target :: "string option"
  up_dispatch_id :: "string option"

definition no_update :: status_update where
  "no_update = \<lparr>up_outcome_source = None, up_outcome_error_code = None, up_outcome_message = None,
     up_outcome_details = None, up_dispatch_target = None, up_dispatch_id = None\<rparr>"

text \<open>The \<^verbatim>\<open>UPDATE tasks SET ...\<close> statement on one row.\<close>

definition set_row :: "task_record \<Rightarrow> string \<Rightarrow> status_update \<Rightarrow> task_record" where
  "set_row r status u = r\<lparr>
     tk_status := status,
     tk_outcome_source := coalesce (up_outcome_source u) (tk_outcome_source r),
     tk_outcome_error_code := coalesce (up_outcome_error_code u) (tk_outcome_error_code r),
     tk_outcome_message := coalesce (up_outcome_message u) (tk_outcome_message r),
     tk_outcome_details := coalesce (map_option sort (up_outcome_details u)) (tk_outcome_details r),
     tk_dispatch_target := coalesce (up_dispatch_target u) (tk_dispatch_target r),
     tk_dispatch_id := coalesce (up_dispatch_id u) (tk_dispatch_id r)\<rparr>"

definition update_task_status ::
  "task_repo \<Rightarrow> string \<Rightarrow> string \<Rightarrow> status_update \<Rightarrow> (py_exn, task_record option, task_repo) run" where
  "update_task_status repo task_id status u =
     (case get_task_by_id repo task_id of
        None \<Rightarrow> (Inr None, repo)
      | Some existing \<Rightarrow>
          (case (if tk_status existing \<noteq> status
                 then assert_legal_transition (tk_status existing) status else Inr ()) of
             Inl e \<Rightarrow> (Inl e, repo)
           | Inr _ \<Rightarrow>
               let repo' = map (\<lambda>r. if tk_task_id r = task_id then set_row r status u else r) repo
               in (Inr (get_task_by_id repo' task_id), repo')))"

definition list_tasks :: "task_repo \<Rightarrow> task_record list" where
  "list_tasks repo = map task_from_row (sort_key tk_created_at repo)"

section \<open>Life-cycle service\<close>

definition mark_dispatched ::
  "task_repo \<Rightarrow> string \<Rightarrow> string \<Rightarrow> string \<Rightarrow> string \<Rightarrow> (py_exn, task_record option, task_repo) run" where
  "mark_dispatched repo task_id dispatch_target dispatch_id message =
     update_task_status repo task_id ''dispatched''
       (no_update\<lparr>up_outcome_source := Some (''dispatch_'' @ dispatch_target),
          up_outcome_message := Some message,
          up_dispatch_target := Some dispatch_target,
          up_dispatch_id := Some dispatch_id\<rparr>)"

definition mark_blocked_dispatch ::
  "task_repo \<Rightarrow> string \<Rightarrow> string option \<Rightarrow> string \<Rightarrow> string \<Rightarrow> string \<Rightarrow>
   (py_exn, task_record option, task_repo) run" where
  "mark_blocked_dispatch repo task_id error_code message dispatch_target outcome_source =
     update_task_status repo task_id ''blocked''
       (no_update\<lparr>up_outcome_source := Some outcome_source,
          up_outcome_error_code := error_code,
          up_outcome_message := Some message,
          up_dispatch_target := Some dispatch_target\<rparr>)"

definition mark_failed ::
  "task_repo \<Rightarrow> string \<Rightarrow> string \<Rightarrow> string \<Rightarrow> string \<Rightarrow> (py_exn, task_record option, task_repo) run" where
  "mark_failed repo task_id error_code message outcome_source =
     update_task_status repo task_id ''failed''
       (no_update\<lparr>up_outcome_source := Some outcome_source,
          up_outcome_error_code := Some error_code,
          up_outcome_message := Some message\<rparr>)"

section \<open>Loop control\<close>

record loop_state =
  ls_hop_count :: int
  ls_pair_rounds :: "((string \<times> string) \<times> int) list"

definition fresh_loop_state :: loop_state where
  "fresh_loop_state = \<lparr>ls_hop_count = 0, ls_pair_rounds = []\<rparr>"

definition check_and_increment_hop :: "int \<Rightarrow> loop_state \<Rightarrow> (py_exn, unit, loop_state) run" where
  "check_and_increment_hop limit ls =
     (let ls' = ls\<lparr>ls_hop_count := ls_hop_count ls + 1\<rparr>
      in if ls_hop_count ls' > limit
         then (Inl (LoopCapBreachError ''hop_count'' (ls_hop_count ls') limit None), ls')
         else (Inr (), ls'))"

definition hop_limit :: int where
  "hop_limit = 5"

definition check_and_increment_pair ::
  "int \<Rightarrow> string \<Rightarrow> string \<Rightarrow> loop_state \<Rightarrow> (py_exn, unit, loop_state) run" where
  "check_and_increment_pair limit sender recipient ls =
     (let pair = (sender, recipient);
          current = (case map_of (ls_pair_rounds ls) pair of None \<Rightarrow> 0 | Some n \<Rightarrow> n) + 1;
          ls' = ls\<lparr>ls_pair_rounds := dict_put (ls_pair_rounds ls) pair current\<rparr>
      in if current > limit
         then (Inl (LoopCapBreachError ''pair_rounds'' current limit (Some pair)), ls')
         else (Inr (), ls'))"

definition pair_limit :: int where
  "pair_limit = 2"

section \<open>Histories of the repository\<close>

text \<open>Every way the repository changes: an admission or a status update, successful or not.\<close>

inductive repo_step :: "task_repo \<Rightarrow> task_repo \<Rightarrow> bool" where
  create: "create_task_from_envelope repo e task_id now = (r, repo') \<Longrightarrow> repo_step repo repo'"
| update: "update_task_status repo task_id status u = (r, repo') \<Longrightarrow> repo_step repo repo'"

definition known_statuses :: "task_repo \<Rightarrow> bool" where
  "known_statuses repo = (\<forall>r \<in> set repo. tk_status r \<in> set task_statuses)"

definition repo_wf :: "task_repo \<Rightarrow> bool" where
  "repo_wf repo = (distinct (map tk_task_id repo) \<and> known_statuses repo)"

text \<open>The abstract view: a partial map from task identifiers to statuses.\<close>

definition status_of :: "task_repo \<Rightarrow> string \<Rightarrow> string option" where
  "status_of repo task_id = map_option tk_status (get_task_by_id repo task_id)"

definition may_move :: "string \<Rightarrow> string \<Rightarrow> bool" where
  "may_move s t = (s = t \<or> task_step s t)"

definition abs_update :: "(string \<rightharpoonup> string) \<Rightarrow> string \<Rightarrow> string \<Rightarrow> (string \<rightharpoonup> string)" where
  "abs_update m task_id status =
     (case m task_id of None \<Rightarrow> m
      | Some s \<Rightarrow> if may_move s status then m(task_id \<mapsto> status) else m)"

section \<open>Lemmas\<close>

lemma legal_transitions_simps [status_simps]:
  "legal_transitions ''queued'' = [''authorized'', ''blocked'', ''cancelled'', ''failed'']"
  "legal_transitions ''authorized'' = [''dispatched'', ''blocked'', ''failed'', ''cancelled'']"
  "legal_transitions ''dispatched'' = [''running'', ''blocked'', ''completed'', ''failed'', ''cancelled'']"
  "legal_transitions ''running'' = [''completed'', ''failed'', ''blocked'', ''cancelled'']"
  "legal_transitions ''blocked'' = [''queued'', ''dispatched'', ''cancelled'', ''failed'']"
  "legal_transitions ''completed'' = []"
  "legal_transitions ''failed'' = []"
  "legal_transitions ''cancelled'' = []"
  by (simp_all add: legal_transitions_def legal_transitions_table_def)

lemma assert_legal_transition_step:
  "assert_legal_transition s t =
     (if task_step s t then Inr () else Inl (InvalidStateTransitionError s t))"
  by (simp add: assert_legal_transition_def task_step_def)

lemma set_task_statuses:
  "set task_statuses =
     {''queued'', ''authorized'', ''dispatched'', ''running'', ''blocked'', ''completed'', ''failed'', ''cancelled''}"
  by (simp add: task_statuses_def legal_transitions_table_def)

lemma task_step_source: "task_step s t \<Longrightarrow> s \<in> set task_statuses"
  by (cases "map_of legal_transitions_table s")
    (force simp: task_step_def legal_transitions_def task_statuses_def dest: map_of_SomeD)+

lemma task_step_target: "task_step s t \<Longrightarrow> t \<in> set task_statuses"
proof -
  assume st: "task_step s t"
  then have "s \<in> set task_statuses" by (rule task_step_source)
  with st show ?thesis
    unfolding set_task_statuses task_step_def by (auto simp: status_simps)
qed

interpretation task_machine: status_machine task_step terminal_task_status
proof
  fix s t :: string
  assume "terminal_task_status s"
  then show "\<not> task_step s t"
    by (auto simp: terminal_task_status_def task_step_def status_simps)
qed

lemma task_from_row_fields [simp]:
  "tk_task_id (task_from_row r) = tk_task_id r"
  "tk_request_id (task_from_row r) = tk_request_id r"
  "tk_trace_id (task_from_row r) = tk_trace_id r"
  "tk_principal_id (task_from_row r) = tk_principal_id r"
  "tk_principal_role (task_from_row r) = tk_principal_role r"
  "tk_connector (task_from_row r) = tk_connector r"
  "tk_command (task_from_row r) = tk_command r"
  "tk_target (task_from_row r) = tk_target r"
  "tk_args (task_from_row r) = tk_args r"
  "tk_metadata (task_from_row r) = tk_metadata r"
  "tk_idempotency_key (task_from_row r) = tk_idempotency_key r"
  "tk_status (task_from_row r) = tk_status r"
  "tk_created_at (task_from_row r) = tk_created_at r"
  by (simp_all add: task_from_row_def)

lemma task_from_row_idem [simp]: "task_from_row (task_from_row r) = task_from_row r"
  by (simp add: task_from_row_def)

lemma set_row_fields [simp]:
  "tk_task_id (set_row r st u) = tk_task_id r"
  "tk_principal_id (set_row r st u) = tk_principal_id r"
  "tk_idempotency_key (set_row r st u) = tk_idempotency_key r"
  "tk_created_at (set_row r st u) = tk_created_at r"
  "tk_status (set_row r st u) = st"
  by (simp_all add: set_row_def)

lemma new_task_fields [simp]:
  "tk_task_id (new_task e i now) = i" "tk_status (new_task e i now) = ''queued''"
  "tk_principal_id (new_task e i now) = env_principal_id e"
  "tk_idempotency_key (new_task e i now) = env_idempotency_key e"
  "tk_created_at (new_task e i now) = now"
  by (simp_all add: new_task_def)

lemma find_row_map_set:
  "find_row (map (\<lambda>r. if tk_task_id r = i then f r else r) repo) j =
     (if j = i then map_option f (find_row repo j) else find_row repo j)"
  if "\<And>r. tk_task_id (f r) = tk_task_id r"
  using that by (induction repo) (auto simp: find_row_def)

lemma find_row_id: "find_row repo i = Some r \<Longrightarrow> tk_task_id r = i \<and> r \<in> set repo"
  by (auto simp: find_row_def find_Some_iff)

lemma find_row_None: "(find_row repo i = None) = (i \<notin> tk_task_id ` set repo)"
  by (auto simp: find_row_def find_None_iff)

lemma find_row_append: "find_row (xs @ ys) i = (case find_row xs i of None \<Rightarrow> find_row ys i | Some r \<Rightarrow> Some r)"
  by (induction xs) (auto simp: find_row_def)

lemma find_row_single: "find_row [r] i = (if tk_task_id r = i then Some r else None)"
  by (simp add: find_row_def)

lemma get_task_by_id_id: "get_task_by_id repo i = Some t \<Longrightarrow> tk_task_id t = i"
  by (auto simp: get_task_by_id_def dest: find_row_id)

lemma update_task_status_eq:
  "update_task_status repo i st u =
     (case find_row repo i of
        None \<Rightarrow> (Inr None, repo)
      | Some r \<Rightarrow>
          if may_move (tk_status r) st
          then (Inr (Some (task_from_row (set_row r st u))),
                map (\<lambda>r. if tk_task_id r = i then set_row r st u else r) repo)
          else (Inl (InvalidStateTransitionError (tk_status r) st), repo))"
  by (auto simp: update_task_status_def get_task_by_id_def assert_legal_transition_step may_move_def
      find_row_map_set Let_def split: option.splits)

text \<open>Reading after an update: the row itself, and every other row as before.\<close>

lemma find_after_update:
  "find_row (snd (update_task_status repo i st u)) j =
     (case find_row repo j of None \<Rightarrow> None
      | Some r \<Rightarrow> Some (if j = i \<and> may_move (tk_status r) st then set_row r st u else r))"
  by (auto simp: update_task_status_eq find_row_map_set split: option.splits)

lemma get_after_update:
  "get_task_by_id (snd (update_task_status repo i st u)) j =
     (case find_row repo j of None \<Rightarrow> None
      | Some r \<Rightarrow> Some (task_from_row (if j = i \<and> may_move (tk_status r) st then set_row r st u else r)))"
  by (auto simp: get_task_by_id_def find_after_update split: option.splits)

lemma get_after_update_other [frame_simps]:
  "j \<noteq> i \<Longrightarrow> get_task_by_id (snd (update_task_status repo i st u)) j = get_task_by_id repo j"
  by (simp add: get_after_update) (simp add: get_task_by_id_def split: option.splits)

lemma status_of_alt: "status_of repo i = map_option tk_status (find_row repo i)"
  by (simp add: status_of_def get_task_by_id_def option.map_comp o_def)

lemma status_of_update: "status_of (snd (update_task_status repo i st u)) = abs_update (status_of repo) i st"
  by (auto simp: fun_eq_iff status_of_alt find_after_update abs_update_def split: option.splits)

lemma update_result:
  "status_of repo i = Some s \<Longrightarrow> may_move s st \<Longrightarrow>
   \<exists>t. fst (update_task_status repo i st u) = Inr (Some t)
     \<and> tk_status t = st \<and> get_task_by_id (snd (update_task_status repo i st u)) i = Some t"
  by (auto simp: update_task_status_eq status_of_alt get_task_by_id_def find_row_map_set split: option.splits)

lemma update_illegal:
  "status_of repo i = Some s \<Longrightarrow> \<not> may_move s st \<Longrightarrow>
   update_task_status repo i st u = (Inl (InvalidStateTransitionError s st), repo)"
  by (auto simp: update_task_status_eq status_of_alt split: option.splits)

lemma update_missing: "status_of repo i = None \<Longrightarrow> update_task_status repo i st u = (Inr None, repo)"
  by (auto simp: update_task_status_eq status_of_alt split: option.splits)

lemma status_of_create:
  "status_of (snd (create_task_from_envelope repo e i now)) =
     (if find_row repo i = None then (status_of repo)(i \<mapsto> ''queued'') else status_of repo)"
  by (auto simp: fun_eq_iff create_task_from_envelope_def status_of_alt find_row_append find_row_single
      split: option.splits)

lemma ids_update [frame_simps]: "map tk_task_id (snd (update_task_status repo i st u)) = map tk_task_id repo"
  by (auto simp: update_task_status_eq split: option.splits)

lemma length_update [frame_simps]: "length (snd (update_task_status repo i st u)) = length repo"
  using ids_update [of repo i st u] by (metis length_map)

lemma status_of_dom: "(status_of repo i = None) = (i \<notin> tk_task_id ` set repo)"
  by (simp add: status_of_alt find_row_None)

lemma may_move_reaches: "may_move s t \<Longrightarrow> task_step\<^sup>*\<^sup>* s t"
  by (auto simp: may_move_def)

lemma repo_step_status:
  "repo_step repo repo' \<Longrightarrow> status_of repo i = Some s \<Longrightarrow> \<exists>s'. status_of repo' i = Some s' \<and> task_step\<^sup>*\<^sup>* s s'"
proof (induction rule: repo_step.induct)
  case (create repo e k now r repo')
  then have "repo' = snd (create_task_from_envelope repo e k now)" by simp
  then have "status_of repo' i = Some s"
    using create.prems by (auto simp: status_of_create status_of_alt)
  then show ?case by auto
next
  case (update repo k st u r repo')
  then have "repo' = snd (update_task_status repo k st u)" by simp
  then show ?case
    using update.prems by (auto simp: status_of_update abs_update_def may_move_reaches split: option.splits)
qed

lemma repo_steps_status:
  "repo_step\<^sup>*\<^sup>* repo repo' \<Longrightarrow> status_of repo i = Some s \<Longrightarrow> \<exists>s'. status_of repo' i = Some s' \<and> task_step\<^sup>*\<^sup>* s s'"
proof (induction rule: rtranclp_induct)
  case (step y z)
  then obtain s1 where "status_of y i = Some s1" "task_step\<^sup>*\<^sup>* s s1" by blast
  with repo_step_status [OF step.hyps(2)] show ?case by (meson rtranclp_trans)
qed auto

lemma repo_wf_Nil [inv_intros]: "repo_wf []"
  by (simp add: repo_wf_def known_statuses_def)

lemma set_status_of: "repo_wf repo \<Longrightarrow> status_of repo i = Some s \<Longrightarrow> s \<in> set task_statuses"
  by (auto simp: repo_wf_def known_statuses_def status_of_alt dest: find_row_id)

lemma repo_wf_create [inv_intros]: "repo_wf repo \<Longrightarrow> repo_wf (snd (create_task_from_envelope repo e i now))"
  by (auto simp: repo_wf_def known_statuses_def create_task_from_envelope_def find_row_None set_task_statuses)

lemma repo_wf_update [inv_intros]: "repo_wf repo \<Longrightarrow> repo_wf (snd (update_task_status repo i st u))"
proof -
  assume wf: "repo_wf repo"
  show ?thesis
  proof (cases "find_row repo i")
    case None
    with wf show ?thesis by (simp add: update_task_status_eq)
  next
    case (Some r)
    with wf have "tk_status r \<in> set task_statuses"
      by (auto simp: repo_wf_def known_statuses_def dest: find_row_id)
    then have "may_move (tk_status r) st \<Longrightarrow> st \<in> set task_statuses"
      by (auto simp: may_move_def dest: task_step_target)
    with wf Some show ?thesis
      by (auto simp: repo_wf_def known_statuses_def update_task_status_eq o_def if_distrib cong: if_cong)
  qed
qed

lemma newest_mem: "newest rs = Some r \<Longrightarrow> r \<in> set rs"
  by (induction rs arbitrary: r) (auto split: option.splits if_splits)

lemma newest_None: "(newest rs = None) = (rs = [])"
  by (cases rs) (auto split: option.splits)

lemma newest_max: "newest rs = Some r \<Longrightarrow> r' \<in> set rs \<Longrightarrow> tk_created_at r' \<le> tk_created_at r"
  by (induction rs arbitrary: r) (fastforce split: option.splits if_splits simp: newest_None)+

lemma check_and_increment_hop_below:
  "ls_hop_count ls < limit \<Longrightarrow>
   check_and_increment_hop limit ls = (Inr (), ls\<lparr>ls_hop_count := ls_hop_count ls + 1\<rparr>)"
  by (simp add: check_and_increment_hop_def Let_def)

lemmas lifecycle_defs = mark_dispatched_def mark_blocked_dispatch_def mark_failed_def

section \<open>Runs of the loop caps\<close>

fun run_pair_checks :: "int \<Rightarrow> (string \<times> string) list \<Rightarrow> loop_state \<Rightarrow> (py_exn, unit, loop_state) run" where
  "run_pair_checks limit [] ls = (Inr (), ls)"
| "run_pair_checks limit (p # ps) ls =
     and_then (check_and_increment_pair limit (fst p) (snd p) ls) (\<lambda>_ ls'. run_pair_checks limit ps ls')"

definition pair_count :: "loop_state \<Rightarrow> string \<times> string \<Rightarrow> int" where
  "pair_count ls p = (case map_of (ls_pair_rounds ls) p of None \<Rightarrow> 0 | Some n \<Rightarrow> n)"

lemma check_pair_eq:
  "check_and_increment_pair limit (fst p) (snd p) ls =
     (let ls' = ls\<lparr>ls_pair_rounds := dict_put (ls_pair_rounds ls) p (pair_count ls p + 1)\<rparr>
      in (if pair_count ls p + 1 > limit
          then Inl (LoopCapBreachError ''pair_rounds'' (pair_count ls p + 1) limit (Some p)) else Inr (), ls'))"
  by (simp add: check_and_increment_pair_def pair_count_def Let_def)

lemma pair_count_put:
  "pair_count (ls\<lparr>ls_pair_rounds := dict_put (ls_pair_rounds ls) p n\<rparr>) q = (if q = p then n else pair_count ls q)"
  by (simp add: pair_count_def map_of_dict_put)

lemma run_pair_checks_ok:
  "(fst (run_pair_checks limit ps ls) = Inr ()) =
   (\<forall>p \<in> set ps. pair_count ls p + int (count_list ps p) \<le> limit)"
proof (induction ps arbitrary: ls)
  case (Cons p ps)
  let ?ls = "ls\<lparr>ls_pair_rounds := dict_put (ls_pair_rounds ls) p (pair_count ls p + 1)\<rparr>"
  show ?case
  proof (cases "pair_count ls p + 1 > limit")
    case True
    then show ?thesis by (auto simp: check_pair_eq Let_def)
  next
    case False
    have "(fst (run_pair_checks limit (p # ps) ls) = Inr ()) =
          (\<forall>q \<in> set ps. pair_count ?ls q + int (count_list ps q) \<le> limit)"
      using False Cons.IH [of ?ls] by (simp add: check_pair_eq Let_def)
    also have "\<dots> = (\<forall>q \<in> set (p # ps). pair_count ls q + int (count_list (p # ps) q) \<le> limit)"
      using False by (cases "p \<in> set ps") (auto simp: pair_count_put count_list_0_iff)
    finally show ?thesis .
  qed
qed simp

section \<open>Properties\<close>

text \<open>
  C1: the task table refines a map from task identifiers to statuses. Whatever the arguments, an
  \<open>update_task_status\<close> changes the status map exactly as the abstract update does (only the given
  task, only along an edge of the transition table or to the same status), and it returns the
  stored task, \<^verbatim>\<open>None\<close> for an unknown task, or the transition error, in which case nothing is
  written.
\<close>

theorem update_task_status_refines:
  "status_of (snd (update_task_status repo i st u)) = abs_update (status_of repo) i st \<and>
   fst (update_task_status repo i st u) =
     (case status_of repo i of
        None \<Rightarrow> Inr None
      | Some s \<Rightarrow>
          if may_move s st then Inr (get_task_by_id (snd (update_task_status repo i st u)) i)
          else Inl (InvalidStateTransitionError s st))"
proof (cases "status_of repo i")
  case None
  then show ?thesis by (simp add: status_of_update) (simp add: update_missing)
next
  case (Some s)
  then show ?thesis
    using update_result [OF Some, of st u] update_illegal [OF Some, of st u]
    by (auto simp: status_of_update)
qed

text \<open>
  C2: a task that is completed, failed or cancelled keeps that status through every later sequence
  of admissions and status updates, whichever task they are for.
\<close>

theorem terminal_task_immutable:
  assumes "repo_step\<^sup>*\<^sup>* repo repo'" and "status_of repo i = Some s" and "terminal_task_status s"
  shows "status_of repo' i = Some s"
proof -
  obtain s' where "status_of repo' i = Some s'" and "task_step\<^sup>*\<^sup>* s s'"
    using repo_steps_status [OF assms(1,2)] by blast
  with assms(3) task_machine.terminal_stays show ?thesis by blast
qed

text \<open>
  In every repository reached from the empty table the task identifiers are pairwise distinct
  and every status is one the transition table knows.
\<close>

theorem reachable_repo_wf: "repo_step\<^sup>*\<^sup>* [] repo \<Longrightarrow> repo_wf repo"
proof (induction rule: rtranclp_induct)
  case base
  show ?case by (rule repo_wf_Nil)
next
  case (step repo repo')
  from step.hyps(2) step.IH show ?case
    by (cases rule: repo_step.cases) (metis repo_wf_create repo_wf_update snd_conv)+
qed

text \<open>
  Dispatching a task that had been blocked leaves the error code of the block in the record: a
  status update with \<^verbatim>\<open>outcome_error_code=None\<close> cannot clear the column, because the
  statement coalesces it with the old value.
\<close>

theorem mark_dispatched_keeps_error_code:
  assumes "get_task_by_id repo i = Some t" and "tk_status t = ''blocked''"
    and "tk_outcome_error_code t = Some code"
  shows "\<exists>t'. fst (mark_dispatched repo i target did msg) = Inr (Some t') \<and>
           get_task_by_id (snd (mark_dispatched repo i target did msg)) i = Some t' \<and>
           tk_status t' = ''dispatched'' \<and> tk_outcome_error_code t' = Some code"
proof -
  obtain r where r: "find_row repo i = Some r" "t = task_from_row r"
    using assms(1) by (auto simp: get_task_by_id_def)
  have move: "may_move (tk_status r) ''dispatched''"
    using assms(2) r(2) by (simp add: may_move_def task_step_def status_simps)
  have code: "nonempty_opt (tk_outcome_error_code r) = Some code"
    using assms(3) r(2) by (simp add: task_from_row_def)
  from r(1) move code show ?thesis
    by (simp add: mark_dispatched_def update_task_status_eq get_task_by_id_def find_row_map_set
        task_from_row_def set_row_def no_update_def)
qed

text \<open>
  From a fresh loop state a sequence of delegations raises no cap error exactly when no ordered
  pair of roles occurs more often than the pair limit; pairs are counted independently.
\<close>

theorem pair_cap_exact:
  "(fst (run_pair_checks pair_limit ps fresh_loop_state) = Inr ()) =
   (\<forall>p. int (count_list ps p) \<le> pair_limit)"
proof -
  have "pair_count fresh_loop_state p = 0" for p
    by (simp add: pair_count_def fresh_loop_state_def)
  moreover have "p \<notin> set ps \<Longrightarrow> int (count_list ps p) \<le> pair_limit" for p
    by (simp add: count_list_0_iff pair_limit_def)
  ultimately show ?thesis
    unfolding run_pair_checks_ok by (metis add_0)
qed

section \<open>Witnesses\<close>

definition demo_envelope :: admission_envelope where
  "demo_envelope = \<lparr>env_request_id = ''req-1'', env_trace_id = ''trace-1'',
     env_principal_id = ''owner-1'', env_principal_role = ''owner'', env_trust_domain = ''discord'',
     env_connector = ''discord'', env_command = ''run_task'', env_target = ''sandbox'',
     env_args = [''a''], env_metadata = [(''message_id'', ''m-1'')], env_project_id = Some ''p-1'',
     env_idempotency_key = ''key-1''\<rparr>"

definition demo_repo :: "string \<Rightarrow> task_repo" where
  "demo_repo status = [(new_task demo_envelope ''t-1'' 0)\<lparr>tk_status := status,
     tk_outcome_error_code := Some ''earlier_error''\<rparr>]"

lemma terminal_task_immutable_witness:
  "status_of (snd (update_task_status (demo_repo ''failed'') ''t-1'' ''queued'' no_update)) ''t-1'' = Some ''failed''"
  by (rule terminal_task_immutable [where repo = "demo_repo ''failed''"])
    (auto intro!: repo_step.update [OF surjective_pairing]
      simp: demo_repo_def status_of_def get_task_by_id_def find_row_def terminal_task_status_def)

lemma reachable_repo_wf_witness:
  "repo_wf (snd (create_task_from_envelope [] demo_envelope ''t-1'' 0))"
  by (rule reachable_repo_wf) (auto intro!: repo_step.create [OF surjective_pairing])

lemma mark_dispatched_keeps_error_code_witness:
  "\<exists>t'. fst (mark_dispatched (demo_repo ''blocked'') ''t-1'' ''sandbox'' ''d-1'' ''ok'') = Inr (Some t') \<and>
      get_task_by_id (snd (mark_dispatched (demo_repo ''blocked'') ''t-1'' ''sandbox'' ''d-1'' ''ok'')) ''t-1'' = Some t' \<and>
      tk_status t' = ''dispatched'' \<and> tk_outcome_error_code t' = Some ''earlier_error''"
  by (rule mark_dispatched_keeps_error_code
      [of _ _ "task_from_row (hd (demo_repo ''blocked''))"])
    (simp_all add: demo_repo_def get_task_by_id_def find_row_def task_from_row_def nonempty_opt_def)

end
