(* ===== verification/Budget.thy ===== *)
theory Budget
  imports Task_State
begin

text \<open>
  Budget reservation.
  \<^item> \<^verbatim>\<open>budget_runtime/cost_evaluator.py\<close>: \<open>estimate\<close>, \<open>settle_cost\<close>;
  \<^item> \<^verbatim>\<open>data_access/repositories/postgres/budget_repository.py\<close>: the three tables and
    their statements;
  \<^item> \<^verbatim>\<open>budget_runtime/client.py\<close>: the PostgreSQL client (\<open>reserve\<close>, \<open>settle\<close>,
    \<open>release\<close>) and the simulation client;
  \<^item> \<^verbatim>\<open>budget_runtime/reservation_service.py\<close>: \<open>reserve_with_fail_closed\<close>.

  A \<^verbatim>\<open>Decimal\<close> is a rational number; a \<^verbatim>\<open>NUMERIC(12, 6)\<close> column keeps six decimal
  places, rounding half away from zero (\<open>numeric6\<close>). One transaction is one step, because the
  allocation row is locked with \<^verbatim>\<open>FOR UPDATE\<close> for its duration. A database error is an optional
  exception given by the caller of the model.
\<close>

section \<open>Cost evaluation\<close>

definition cost_per_1k_tokens :: "(string \<times> rat) list" where
  "cost_per_1k_tokens = [(''gemini_flash_free'', 0), (''gemini_flash'', 35 / 1000000), (''gemini_pro'', 125 / 100000)]"

definition default_rate_per_1k_tokens :: rat where
  "default_rate_per_1k_tokens = 1 / 1000"

definition default_estimated_input_tokens :: int where
  "default_estimated_input_tokens = 500"

definition routing_class_to_cost_tier :: "(string \<times> string) list" where
  "routing_class_to_cost_tier = [(''interactive_fast'', ''gemini_flash''), (''reasoning_general'', ''gemini_pro''),
     (''embedding_text'', ''gemini_flash'')]"

definition rate_of :: "string \<Rightarrow> rat" where
  "rate_of model_class =
     (let tier = (case map_of routing_class_to_cost_tier model_class of None \<Rightarrow> model_class | Some t \<Rightarrow> t)
      in case map_of cost_per_1k_tokens tier of None \<Rightarrow> default_rate_per_1k_tokens | Some r \<Rightarrow> r)"

record cost_estimate =
  ce_usd_estimate :: rat
  ce_quota_tokens_estimate :: int

definition estimate :: "string \<Rightarrow> int \<Rightarrow> cost_estimate" where
  "estimate model_class estimated_input_tokens =
     (let rate = rate_of model_class; tokens = max estimated_input_tokens 1 * 2
      in \<lparr>ce_usd_estimate = (if rate = 0 then 0 else rate * of_int tokens / 1000),
          ce_quota_tokens_estimate = tokens\<rparr>)"

record actual_cost =
  ac_usd_actual :: rat
  ac_quota_tokens_actual :: int

definition settle_cost :: "int \<Rightarrow> rat option \<Rightarrow> string \<Rightarrow> actual_cost" where
  "settle_cost total_tokens actual_cost_usd model_class =
     (let tokens = max total_tokens 0
      in \<lparr>ac_usd_actual = (case actual_cost_usd of Some c \<Rightarrow> c
                            | None \<Rightarrow> rate_of model_class * of_int tokens / 1000),
          ac_quota_tokens_actual = tokens\<rparr>)"

section \<open>The ledger tables\<close>

record allocation =
  al_currency_limit_usd :: rat
  al_quota_limit_tokens :: int

record reservation =
  rv_id :: string
  rv_task_id :: string
  rv_project_id :: string
  rv_reserved_usd :: rat
  rv_reserved_tokens :: int
  rv_status :: string
  rv_created_at :: time
  rv_settled_at :: "time option"

record budget_event =
  be_task_id :: string
  be_project_id :: string
  be_role :: string
  be_model_class :: string
  be_actual_tokens :: int
  be_actual_cost_usd :: rat

record budget_db =
  bd_allocations :: "(string \<times> allocation) list"
  bd_reservations :: "reservation list"
  bd_events :: "budget_event list"

definition default_project_id :: string where
  "default_project_id = ''project-default''"

definition default_allocation :: allocation where
  "default_allocation = \<lparr>al_currency_limit_usd = 10, al_quota_limit_tokens = 500000\<rparr>"

definition numeric6 :: "rat \<Rightarrow> rat" where
  "numeric6 x = of_int (if x < 0 then - \<lfloor>- x * 1000000 + 1 / 2\<rfloor> else \<lfloor>x * 1000000 + 1 / 2\<rfloor>) / 1000000"

definition get_allocation :: "budget_db \<Rightarrow> string \<Rightarrow> allocation option" where
  "get_allocation db project_id = map_of (bd_allocations db) project_id"

definition active_in :: "string \<Rightarrow> reservation \<Rightarrow> bool" where
  "active_in project_id r = (rv_project_id r = project_id \<and> rv_status r = ''reserved'')"

text \<open>\<^verbatim>\<open>get_spent_tokens\<close>, and the same sum for the currency column.\<close>

definition get_spent_tokens :: "budget_db \<Rightarrow> string \<Rightarrow> int" where
  "get_spent_tokens db project_id = sum_list (map rv_reserved_tokens (filter (active_in project_id) (bd_reservations db)))"

definition spent_usd :: "budget_db \<Rightarrow> string \<Rightarrow> rat" where
  "spent_usd db project_id = sum_list (map rv_reserved_usd (filter (active_in project_id) (bd_reservations db)))"

definition find_active_reservation_id :: "budget_db \<Rightarrow> string \<Rightarrow> string option" where
  "find_active_reservation_id db task_id =
     map_option rv_id (find (\<lambda>r. rv_task_id r = task_id \<and> rv_status r = ''reserved'') (bd_reservations db))"

definition insert_reservation ::
  "budget_db \<Rightarrow> string \<Rightarrow> string \<Rightarrow> rat \<Rightarrow> int \<Rightarrow> string \<Rightarrow> time \<Rightarrow> (py_exn, reservation, budget_db) run" where
  "insert_reservation db task_id project_id reserved_usd reserved_tokens rid now =
     (let r = \<lparr>rv_id = rid, rv_task_id = task_id, rv_project_id = project_id,
               rv_reserved_usd = numeric6 reserved_usd, rv_reserved_tokens = reserved_tokens,
               rv_status = ''reserved'', rv_created_at = now, rv_settled_at = None\<rparr>
      in if rid \<in> rv_id ` set (bd_reservations db) then (Inl (IntegrityError rid), db)
         else (Inr r, db\<lparr>bd_reservations := bd_reservations db @ [r]\<rparr>))"

definition close_reservation :: "string \<Rightarrow> budget_db \<Rightarrow> string \<Rightarrow> time \<Rightarrow> budget_db" where
  "close_reservation status db reservation_id now =
     db\<lparr>bd_reservations := map (\<lambda>r. if rv_id r = reservation_id \<and> rv_status r = ''reserved''
          then r\<lparr>rv_status := status, rv_settled_at := Some now\<rparr> else r) (bd_reservations db)\<rparr>"

definition settle_reservation :: "budget_db \<Rightarrow> string \<Rightarrow> time \<Rightarrow> budget_db" where
  "settle_reservation = close_reservation ''settled''"

definition release_reservation :: "budget_db \<Rightarrow> string \<Rightarrow> time \<Rightarrow> budget_db" where
  "release_reservation = close_reservation ''released''"

definition insert_event :: "budget_db \<Rightarrow> budget_event \<Rightarrow> budget_db" where
  "insert_event db e = db\<lparr>bd_events := bd_events db @ [e\<lparr>be_actual_cost_usd := numeric6 (be_actual_cost_usd e)\<rparr>]\<rparr>"

definition seed_default_allocation :: "budget_db \<Rightarrow> budget_db" where
  "seed_default_allocation db =
     (if get_allocation db default_project_id \<noteq> None then db
      else db\<lparr>bd_allocations := bd_allocations db @ [(default_project_id, default_allocation)]\<rparr>)"

section \<open>The PostgreSQL client\<close>

record budget_input =
  bi_task_id :: string
  bi_request_id :: string
  bi_trace_id :: string
  bi_principal_id :: string
  bi_project_id :: string
  bi_command :: string
  bi_args :: "string list"
  bi_estimated_cost_units :: int
  bi_model_class :: string

record budget_result =
  br_decision :: string
  br_reason_code :: string
  br_reason_message :: string
  br_reservation_id :: "string option"
  br_remaining_units :: "int option"
  br_budget_version :: string

definition normalize_project_id :: "string \<Rightarrow> string" where
  "normalize_project_id project_id = (let n = py_strip project_id in if n = [] then default_project_id else n)"

definition budget_version :: string where
  "budget_version = ''m15-budget-postgres-v1''"

definition reserve_for_project ::
  "budget_db \<Rightarrow> budget_input \<Rightarrow> string \<Rightarrow> string \<Rightarrow> time \<Rightarrow> (py_exn, budget_result option, budget_db) run" where
  "reserve_for_project db payload project_id rid now =
     (let c = estimate (bi_model_class payload) (max (bi_estimated_cost_units payload) 0);
          tokens = ce_quota_tokens_estimate c; usd = ce_usd_estimate c
      in case get_allocation db project_id of
           None \<Rightarrow> (Inr None, db)
         | Some al \<Rightarrow>
             (let spent = get_spent_tokens db project_id; limit = al_quota_limit_tokens al
              in if spent + tokens > limit
                 then (Inr (Some \<lparr>br_decision = ''hard_breach'', br_reason_code = ''budget_quota_hard_breach'',
                          br_reason_message = ''budget quota hard breach'', br_reservation_id = None,
                          br_remaining_units = Some (max (limit - spent) 0), br_budget_version = budget_version\<rparr>), db)
                 else if spent_usd db project_id + usd > al_currency_limit_usd al
                 then (Inr (Some \<lparr>br_decision = ''hard_breach'', br_reason_code = ''budget_currency_hard_breach'',
                          br_reason_message = ''budget currency hard breach'', br_reservation_id = None,
                          br_remaining_units = Some (max (limit - spent) 0), br_budget_version = budget_version\<rparr>), db)
                 else and_then (insert_reservation db (bi_task_id payload) project_id usd tokens rid now)
                   (\<lambda>r db'. (Inr (Some \<lparr>br_decision = ''allow'', br_reason_code = ''budget_reserved'',
                          br_reason_message = ''budget reserved'', br_reservation_id = Some (rv_id r),
                          br_remaining_units = Some (max (limit - spent - tokens) 0),
                          br_budget_version = budget_version\<rparr>), db'))))"

text \<open>\<open>fault p\<close> is the exception the transaction for project \<open>p\<close> raises, if any.\<close>

definition uncertain_result :: "string \<Rightarrow> string \<Rightarrow> budget_result" where
  "uncertain_result code message = \<lparr>br_decision = ''uncertain'', br_reason_code = code, br_reason_message = message,
     br_reservation_id = None, br_remaining_units = None, br_budget_version = budget_version\<rparr>"

definition reserve_tx ::
  "(string \<Rightarrow> py_exn option) \<Rightarrow> budget_db \<Rightarrow> budget_input \<Rightarrow> string \<Rightarrow> string \<Rightarrow> time \<Rightarrow>
   (py_exn, budget_result option, budget_db) run" where
  "reserve_tx fault db payload project_id rid now =
     (case fault project_id of Some x \<Rightarrow> (Inl x, db) | None \<Rightarrow> reserve_for_project db payload project_id rid now)"

definition reserve ::
  "(string \<Rightarrow> py_exn option) \<Rightarrow> budget_db \<Rightarrow> budget_input \<Rightarrow> string \<Rightarrow> time \<Rightarrow> budget_result \<times> budget_db" where
  "reserve fault db payload rid now =
     (let scope = normalize_project_id (bi_project_id payload);
          attempt = and_then (reserve_tx fault db payload scope rid now)
            (\<lambda>d db1. case d of
                Some r \<Rightarrow> (Inr r, db1)
              | None \<Rightarrow>
                  and_then (if scope \<noteq> default_project_id then reserve_tx fault db1 payload default_project_id rid now
                            else (Inr None, db1))
                    (\<lambda>d2 db2. (Inr (case d2 of Some r \<Rightarrow> r
                       | None \<Rightarrow> uncertain_result ''budget_allocation_missing''
                           (''missing budget allocation for project_id='' @ py_repr scope)), db2)))
      in case attempt of
           (Inr r, db') \<Rightarrow> (r, db')
         | (Inl x, db') \<Rightarrow> (uncertain_result ''budget_runtime_unavailable''
                              (''budget reservation unavailable: '' @ exn_text x), db'))"

text \<open>
  \<open>settle\<close> makes three transactions, numbered 0 to 2, and swallows the exception of any of them;
  \<open>release\<close> lets it pass.
\<close>

definition settle ::
  "(nat \<Rightarrow> bool) \<Rightarrow> budget_db \<Rightarrow> string \<Rightarrow> int \<Rightarrow> rat \<Rightarrow> string \<Rightarrow> string \<Rightarrow> string \<Rightarrow> time \<Rightarrow> budget_db" where
  "settle fails db task_id actual_tokens actual_cost_usd project_id role model_class now =
     (if fails 0 then db
      else case find_active_reservation_id db task_id of
        None \<Rightarrow> db
      | Some rid \<Rightarrow>
          if fails 1 then db
          else let db1 = settle_reservation db rid now
               in if fails 2 then db1
                  else insert_event db1 \<lparr>be_task_id = task_id,
                         be_project_id = (if project_id = [] then default_project_id else project_id),
                         be_role = role, be_model_class = model_class, be_actual_tokens = max actual_tokens 0,
                         be_actual_cost_usd = actual_cost_usd\<rparr>)"

definition release :: "py_exn option \<Rightarrow> budget_db \<Rightarrow> string \<Rightarrow> time \<Rightarrow> (py_exn, unit, budget_db) run" where
  "release fault db task_id now =
     (case fault of Some x \<Rightarrow> (Inl x, db)
      | None \<Rightarrow> (case find_active_reservation_id db task_id of
           None \<Rightarrow> (Inr (), db)
         | Some rid \<Rightarrow> (Inr (), release_reservation db rid now)))"

section \<open>The simulation client\<close>

definition sim_budget_version :: string where
  "sim_budget_version = ''m1-budget-shell-v1''"

text \<open>The state is \<^verbatim>\<open>_remaining_units\<close>.\<close>

definition sim_reserve :: "int \<Rightarrow> budget_input \<Rightarrow> string \<Rightarrow> (py_exn, budget_result, int) run" where
  "sim_reserve remaining payload rid =
     (if bi_command payload = ''budget_error'' then (Inl (RuntimeErr ''simulated budget runtime failure''), remaining)
      else if bi_command payload = ''budget_uncertain''
      then (Inr \<lparr>br_decision = ''uncertain'', br_reason_code = ''budget_uncertain'',
               br_reason_message = ''budget runtime returned uncertainty'', br_reservation_id = None,
               br_remaining_units = None, br_budget_version = sim_budget_version\<rparr>, remaining)
      else if py_startswith (bi_command payload) ''budget_hard_breach''
      then (Inr \<lparr>br_decision = ''hard_breach'', br_reason_code = ''budget_quota_hard_breach'',
               br_reason_message = ''budget hard breach'', br_reservation_id = None,
               br_remaining_units = Some remaining, br_budget_version = sim_budget_version\<rparr>, remaining)
      else if py_startswith (bi_command payload) ''budget_deny_''
      then (Inr \<lparr>br_decision = ''deny'', br_reason_code = ''budget_denied'',
               br_reason_message = ''budget threshold denied request'', br_reservation_id = None,
               br_remaining_units = Some remaining, br_budget_version = sim_budget_version\<rparr>, remaining)
      else if bi_estimated_cost_units payload > remaining
      then (Inr \<lparr>br_decision = ''deny'', br_reason_code = ''budget_insufficient_capacity'',
               br_reason_message = ''insufficient remaining budget units'', br_reservation_id = None,
               br_remaining_units = Some remaining, br_budget_version = sim_budget_version\<rparr>, remaining)
      else let remaining' = remaining - bi_estimated_cost_units payload
           in (Inr \<lparr>br_decision = ''allow'', br_reason_code = ''budget_reserved'',
               br_reason_message = ''budget reserved'', br_reservation_id = Some rid,
               br_remaining_units = Some remaining', br_budget_version = sim_budget_version\<rparr>, remaining'))"

section \<open>The reservation service\<close>

record budget_outcome =
  bo_allowed :: bool
  bo_error_code :: "string option"
  bo_message :: string
  bo_reservation :: "budget_result option"

record budget_service =
  bs_db :: budget_db
  bs_task_outcomes :: "(string \<times> budget_outcome) list"

definition reservation_input :: "task_record \<Rightarrow> budget_input" where
  "reservation_input t = \<lparr>bi_task_id = tk_task_id t,
     bi_request_id = tk_request_id t,
     bi_trace_id = tk_trace_id t,
     bi_principal_id = tk_principal_id t,
     bi_project_id = or_str (tk_project_id t) default_project_id,
     bi_command = tk_command t,
     bi_args = tk_args t,
     bi_estimated_cost_units = default_estimated_input_tokens,
     bi_model_class = ''interactive_fast''\<rparr>"

definition budget_fail_closed :: "py_exn + budget_result \<Rightarrow> budget_outcome" where
  "budget_fail_closed answer =
     (case answer of
        Inl x \<Rightarrow> \<lparr>bo_allowed = False, bo_error_code = Some ''budget_runtime_error_fail_closed'',
                  bo_message = ''budget reservation failed: '' @ exn_text x, bo_reservation = None\<rparr>
      | Inr r \<Rightarrow>
          if br_decision r = ''allow''
          then \<lparr>bo_allowed = True, bo_error_code = None, bo_message = br_reason_message r, bo_reservation = Some r\<rparr>
          else if br_decision r = ''deny'' \<or> br_decision r = ''hard_breach''
          then \<lparr>bo_allowed = False, bo_error_code = Some (br_reason_code r), bo_message = br_reason_message r,
                bo_reservation = Some r\<rparr>
          else \<lparr>bo_allowed = False, bo_error_code = Some ''budget_uncertain_fail_closed'',
                bo_message = ''budget decision uncertain; fail-closed block applied'', bo_reservation = Some r\<rparr>)"

text \<open>
  One call: the task, the failures of the database during the call and the identifier and instant
  it would draw.
\<close>

record budget_call =
  bc_task :: task_record
  bc_fault :: "string \<Rightarrow> py_exn option"
  bc_rid :: string
  bc_now :: time

definition reserve_with_fail_closed :: "budget_call \<Rightarrow> budget_service \<Rightarrow> budget_outcome \<times> budget_service" where
  "reserve_with_fail_closed c s =
     (case map_of (bs_task_outcomes s) (tk_task_id (bc_task c)) of
        Some existing \<Rightarrow> (existing, s)
      | None \<Rightarrow>
          let (r, db) = reserve (bc_fault c) (bs_db s) (reservation_input (bc_task c)) (bc_rid c) (bc_now c);
              outcome = budget_fail_closed (Inr r)
          in (outcome, \<lparr>bs_db = db, bs_task_outcomes = dict_put (bs_task_outcomes s) (tk_task_id (bc_task c)) outcome\<rparr>))"

section \<open>Histories of the ledger\<close>

inductive budget_step :: "budget_db \<Rightarrow> budget_db \<Rightarrow> bool" where
  seed: "budget_step db (seed_default_allocation db)"
| reserve: "budget_step db (snd (reserve fault db payload rid now))"
| settle: "budget_step db (settle fails db task_id tokens cost project_id role model_class now)"
| release: "budget_step db (snd (release err db task_id now))"

definition on_grid :: "rat \<Rightarrow> bool" where
  "on_grid x = (\<exists>k::int. x = of_int k / 1000000)"

text \<open>Tables without reservations whose currency limits fit their column.\<close>

definition fresh_ledger :: "budget_db \<Rightarrow> bool" where
  "fresh_ledger db = (bd_reservations db = [] \<and>
     (\<forall>(p, al) \<in> set (bd_allocations db). on_grid (al_currency_limit_usd al) \<and> 0 \<le> al_currency_limit_usd al
        \<and> 0 \<le> al_quota_limit_tokens al))"

definition within_limits :: "budget_db \<Rightarrow> string \<Rightarrow> allocation \<Rightarrow> bool" where
  "within_limits db p al = (get_spent_tokens db p \<le> al_quota_limit_tokens al \<and> spent_usd db p \<le> al_currency_limit_usd al)"

definition reservation_ok :: "budget_db \<Rightarrow> reservation \<Rightarrow> bool" where
  "reservation_ok db r = (on_grid (rv_reserved_usd r) \<and> 0 \<le> rv_reserved_usd r \<and> 0 \<le> rv_reserved_tokens r \<and>
     get_allocation db (rv_project_id r) \<noteq> None)"

definition budget_inv :: "budget_db \<Rightarrow> bool" where
  "budget_inv db = ((\<forall>p al. get_allocation db p = Some al \<longrightarrow> on_grid (al_currency_limit_usd al) \<and> within_limits db p al) \<and>
     (\<forall>r \<in> set (bd_reservations db). reservation_ok db r))"

section \<open>Lemmas\<close>

subsection \<open>Amounts\<close>

lemma on_grid_0 [simp]: "on_grid 0" and on_grid_10 [simp]: "on_grid 10"
  unfolding on_grid_def by (rule exI [of _ 0], simp) (rule exI [of _ 10000000], simp)

lemma on_grid_add: "on_grid x \<Longrightarrow> on_grid y \<Longrightarrow> on_grid (x + y)"
  unfolding on_grid_def by (metis add_divide_distrib of_int_add)

lemma on_grid_diff: "on_grid x \<Longrightarrow> on_grid y \<Longrightarrow> on_grid (x - y)"
  unfolding on_grid_def by (metis diff_divide_distrib of_int_diff)

lemma on_grid_numeric6 [simp]: "on_grid (numeric6 x)"
  unfolding on_grid_def numeric6_def by blast

lemma numeric6_nonneg: "0 \<le> x \<Longrightarrow> 0 \<le> numeric6 x"
  by (simp add: numeric6_def)

text \<open>Rounding never crosses a value of the grid.\<close>

lemma numeric6_le:
  assumes "0 \<le> x" "x \<le> y" "on_grid y" shows "numeric6 x \<le> y"
proof -
  obtain k where k: "y = of_int k / 1000000" using assms(3) by (auto simp: on_grid_def)
  then have "x * 1000000 + 1 / 2 < of_int (k + 1)" using assms(2) by simp
  then have "\<lfloor>x * 1000000 + 1 / 2\<rfloor> \<le> k" by (metis floor_less_iff zle_add1_eq_le)
  then have "(of_int \<lfloor>x * 1000000 + 1 / 2\<rfloor> :: rat) \<le> of_int k" by (simp only: of_int_le_iff)
  with assms(1) show ?thesis by (simp add: numeric6_def k)
qed

lemma rate_nonneg: "0 \<le> rate_of m"
  by (auto simp: rate_of_def Let_def cost_per_1k_tokens_def default_rate_per_1k_tokens_def split: option.splits if_splits)

lemma estimate_nonneg: "0 \<le> ce_usd_estimate (estimate m n)" "2 \<le> ce_quota_tokens_estimate (estimate m n)"
  by (simp_all add: estimate_def Let_def rate_nonneg)

subsection \<open>Sums\<close>

lemma spent_append:
  "get_spent_tokens (db\<lparr>bd_reservations := bd_reservations db @ [r]\<rparr>) p =
     get_spent_tokens db p + (if active_in p r then rv_reserved_tokens r else 0)"
  "spent_usd (db\<lparr>bd_reservations := bd_reservations db @ [r]\<rparr>) p =
     spent_usd db p + (if active_in p r then rv_reserved_usd r else 0)"
  by (simp_all add: get_spent_tokens_def spent_usd_def)

lemma sum_filter_map_le:
  fixes v :: "'a \<Rightarrow> 'b::linordered_ab_group_add"
  assumes "\<And>x. x \<in> set xs \<Longrightarrow> 0 \<le> v x" "\<And>x. x \<in> set xs \<Longrightarrow> P (f x) \<Longrightarrow> P x \<and> v (f x) = v x"
  shows "sum_list (map v (filter P (map f xs))) \<le> sum_list (map v (filter P xs))"
  using assms by (induction xs) (auto intro: add_mono add_increasing)

lemma on_grid_sum: "(\<And>x. x \<in> set xs \<Longrightarrow> on_grid (v x)) \<Longrightarrow> on_grid (sum_list (map v xs))"
  by (induction xs) (auto intro: on_grid_add)

lemma close_spent_le:
  assumes "budget_inv db" "status \<noteq> ''reserved''"
  shows "get_spent_tokens (close_reservation status db rid now) p \<le> get_spent_tokens db p"
    and "spent_usd (close_reservation status db rid now) p \<le> spent_usd db p"
  using assms
  by (auto simp: get_spent_tokens_def spent_usd_def close_reservation_def budget_inv_def reservation_ok_def active_in_def
      intro!: sum_filter_map_le split: if_splits)

lemma spent_usd_on_grid: "budget_inv db \<Longrightarrow> on_grid (spent_usd db p)"
  by (auto simp: spent_usd_def budget_inv_def reservation_ok_def intro!: on_grid_sum)

subsection \<open>Preservation of the limits\<close>

lemma budget_inv_fresh [inv_intros]: "fresh_ledger db \<Longrightarrow> budget_inv db"
  by (auto simp: fresh_ledger_def budget_inv_def within_limits_def get_spent_tokens_def spent_usd_def get_allocation_def
      dest!: map_of_SomeD)

lemma budget_inv_seed [inv_intros]:
  assumes inv: "budget_inv db" shows "budget_inv (seed_default_allocation db)"
proof (cases "get_allocation db default_project_id")
  case None
  let ?db = "db\<lparr>bd_allocations := bd_allocations db @ [(default_project_id, default_allocation)]\<rparr>"
  have alloc: "get_allocation ?db p = (if p = default_project_id then Some default_allocation else get_allocation db p)" for p
    using None by (simp add: get_allocation_def map_add_def split: option.splits)
  have "filter (active_in default_project_id) (bd_reservations db) = []"
    using inv None by (auto simp: budget_inv_def reservation_ok_def active_in_def filter_empty_conv)
  then have "within_limits ?db default_project_id default_allocation"
    by (simp add: within_limits_def get_spent_tokens_def spent_usd_def default_allocation_def)
  with inv alloc None show ?thesis
    by (auto simp: seed_default_allocation_def budget_inv_def reservation_ok_def default_allocation_def
        within_limits_def get_spent_tokens_def spent_usd_def)
qed (simp add: seed_default_allocation_def inv)

lemma budget_inv_close:
  assumes inv: "budget_inv db" and "status \<noteq> ''reserved''" shows "budget_inv (close_reservation status db rid now)"
proof -
  let ?db = "close_reservation status db rid now"
  have alloc: "get_allocation ?db = get_allocation db"
    by (simp add: fun_eq_iff close_reservation_def get_allocation_def)
  have "within_limits ?db p al" if "within_limits db p al" for p al
    using that close_spent_le [OF assms, of rid now p] by (auto simp: within_limits_def)
  moreover have "reservation_ok ?db r" if "r \<in> set (bd_reservations ?db)" for r
    using that inv alloc by (auto simp: close_reservation_def budget_inv_def reservation_ok_def split: if_splits)
  ultimately show ?thesis using inv alloc by (simp add: budget_inv_def)
qed

lemma budget_inv_insert:
  assumes inv: "budget_inv db" and al: "get_allocation db p = Some al"
    and tokens: "0 \<le> tokens" "get_spent_tokens db p + tokens \<le> al_quota_limit_tokens al"
    and usd: "0 \<le> usd" "spent_usd db p + usd \<le> al_currency_limit_usd al"
  shows "budget_inv (snd (insert_reservation db t p usd tokens rid now))"
proof -
  have grid: "on_grid (al_currency_limit_usd al - spent_usd db p)"
    using inv al spent_usd_on_grid [OF inv] by (auto simp: budget_inv_def intro: on_grid_diff)
  have "numeric6 usd \<le> al_currency_limit_usd al - spent_usd db p"
    by (rule numeric6_le) (use usd grid in auto)
  then show ?thesis
    using assms numeric6_nonneg [OF usd(1)]
    by (auto simp: insert_reservation_def Let_def budget_inv_def reservation_ok_def within_limits_def spent_append
        active_in_def get_allocation_def)
qed

lemma budget_inv_reserve_for_project [inv_intros]:
  "budget_inv db \<Longrightarrow> budget_inv (snd (reserve_for_project db payload p rid now))"
proof (cases "get_allocation db p")
  case (Some al)
  assume inv: "budget_inv db"
  let ?c = "estimate (bi_model_class payload) (max (bi_estimated_cost_units payload) 0)"
  let ?ins = "insert_reservation db (bi_task_id payload) p (ce_usd_estimate ?c) (ce_quota_tokens_estimate ?c) rid now"
  have "budget_inv (snd ?ins)"
    if "get_spent_tokens db p + ce_quota_tokens_estimate ?c \<le> al_quota_limit_tokens al"
      "spent_usd db p + ce_usd_estimate ?c \<le> al_currency_limit_usd al"
    using estimate_nonneg that by (intro budget_inv_insert [OF inv Some]) (auto intro: order_trans [of 0 2])
  with inv Some show ?thesis
    by (cases ?ins, cases "fst ?ins") (auto simp: reserve_for_project_def Let_def)
qed (simp add: reserve_for_project_def)

lemma budget_inv_reserve_tx: "budget_inv db \<Longrightarrow> budget_inv (snd (reserve_tx fault db payload p rid now))"
  by (auto simp: reserve_tx_def budget_inv_reserve_for_project split: option.splits)

lemma budget_inv_reserve [inv_intros]:
  assumes inv: "budget_inv db" shows "budget_inv (snd (reserve fault db payload rid now))"
proof -
  let ?scope = "normalize_project_id (bi_project_id payload)"
  have state: "snd (case r of (Inr x, s) \<Rightarrow> (x, s) | (Inl x, s) \<Rightarrow> (f x, s)) = snd r"
    for r :: "(py_exn, budget_result, budget_db) run" and f
    by (cases r; cases "fst r") auto
  have step: "budget_inv (snd (case d of Some r \<Rightarrow> (Inr r, db1)
     | None \<Rightarrow> and_then (if ?scope \<noteq> default_project_id then reserve_tx fault db1 payload default_project_id rid now
                          else (Inr None, db1)) (\<lambda>d2 db2. (Inr (g d2), db2))))"
    if "budget_inv db1" for d db1 and g :: "budget_result option \<Rightarrow> budget_result"
    using that by (cases d) (auto intro!: and_then_inv [where P = budget_inv] budget_inv_reserve_tx)
  show ?thesis
    unfolding reserve_def Let_def state
    by (intro and_then_inv [where P = budget_inv] budget_inv_reserve_tx inv step)
qed

lemma budget_inv_settle [inv_intros]:
  "budget_inv db \<Longrightarrow> budget_inv (settle fails db t tokens cost p role m now)"
proof -
  assume inv: "budget_inv db"
  have event: "budget_inv (insert_event db' e)" if "budget_inv db'" for db' e
    using that by (simp add: insert_event_def budget_inv_def reservation_ok_def within_limits_def get_allocation_def
        get_spent_tokens_def spent_usd_def)
  show ?thesis
    using inv event budget_inv_close [OF inv, of "''settled''"]
    by (auto simp: settle_def Let_def settle_reservation_def split: option.splits)
qed

lemma budget_inv_release [inv_intros]: "budget_inv db \<Longrightarrow> budget_inv (snd (release err db t now))"
  by (auto simp: release_def release_reservation_def budget_inv_close split: option.splits)

lemma budget_step_inv: "budget_step db db' \<Longrightarrow> budget_inv db \<Longrightarrow> budget_inv db'"
  by (induction rule: budget_step.induct) (auto intro: inv_intros)

subsection \<open>What a reservation does\<close>

text \<open>The allocation a request is charged to: its own project's, else the default one.\<close>

definition charged_project :: "budget_db \<Rightarrow> budget_input \<Rightarrow> string option" where
  "charged_project db payload =
     (let scope = normalize_project_id (bi_project_id payload)
      in if get_allocation db scope \<noteq> None then Some scope
         else if get_allocation db default_project_id \<noteq> None then Some default_project_id else None)"

definition fits :: "budget_db \<Rightarrow> budget_input \<Rightarrow> string \<Rightarrow> bool" where
  "fits db payload p =
     (let c = estimate (bi_model_class payload) (max (bi_estimated_cost_units payload) 0)
      in case get_allocation db p of None \<Rightarrow> False
         | Some al \<Rightarrow> get_spent_tokens db p + ce_quota_tokens_estimate c \<le> al_quota_limit_tokens al \<and>
                      spent_usd db p + ce_usd_estimate c \<le> al_currency_limit_usd al)"

text \<open>The exception that ends a reservation: of the question for the project, of the one for the default project, or of a repeated row id.\<close>

definition reserve_failure :: "(string \<Rightarrow> py_exn option) \<Rightarrow> budget_db \<Rightarrow> budget_input \<Rightarrow> string \<Rightarrow> py_exn option" where
  "reserve_failure fault db payload rid =
     (let scope = normalize_project_id (bi_project_id payload)
      in case fault scope of Some x \<Rightarrow> Some x
         | None \<Rightarrow> (case (if get_allocation db scope = None \<and> scope \<noteq> default_project_id then fault default_project_id else None) of
               Some x \<Rightarrow> Some x
             | None \<Rightarrow> (case charged_project db payload of
                   None \<Rightarrow> None
                 | Some p \<Rightarrow> if fits db payload p \<and> rid \<in> rv_id ` set (bd_reservations db) then Some (IntegrityError rid) else None)))"

definition reserved_row :: "budget_input \<Rightarrow> string \<Rightarrow> string \<Rightarrow> time \<Rightarrow> reservation" where
  "reserved_row payload p rid now =
     (let c = estimate (bi_model_class payload) (max (bi_estimated_cost_units payload) 0)
      in \<lparr>rv_id = rid, rv_task_id = bi_task_id payload, rv_project_id = p, rv_reserved_usd = numeric6 (ce_usd_estimate c),
          rv_reserved_tokens = ce_quota_tokens_estimate c, rv_status = ''reserved'', rv_created_at = now,
          rv_settled_at = None\<rparr>)"

lemma reserve_for_project_missing: "get_allocation db p = None \<Longrightarrow> reserve_for_project db payload p rid now = (Inr None, db)"
  by (simp add: reserve_for_project_def Let_def)

lemma reserve_for_project_refused:
  "get_allocation db p = Some al \<Longrightarrow> \<not> fits db payload p \<Longrightarrow>
   \<exists>r. reserve_for_project db payload p rid now = (Inr (Some r), db) \<and> br_decision r = ''hard_breach''"
  by (auto simp: reserve_for_project_def fits_def Let_def)

lemma reserve_for_project_allowed:
  "fits db payload p \<Longrightarrow> rid \<notin> rv_id ` set (bd_reservations db) \<Longrightarrow>
   \<exists>r. reserve_for_project db payload p rid now =
         (Inr (Some r), db\<lparr>bd_reservations := bd_reservations db @ [reserved_row payload p rid now]\<rparr>)
       \<and> br_decision r = ''allow'' \<and> br_reservation_id r = Some rid"
  by (auto simp: reserve_for_project_def fits_def Let_def insert_reservation_def reserved_row_def split: option.splits)

lemma reserve_for_project_taken:
  "fits db payload p \<Longrightarrow> rid \<in> rv_id ` set (bd_reservations db) \<Longrightarrow> reserve_for_project db payload p rid now = (Inl (IntegrityError rid), db)"
  by (auto simp: reserve_for_project_def fits_def Let_def insert_reservation_def split: option.splits)

lemma reserve_charged:
  assumes "\<And>p. fault p = None" "charged_project db payload = Some p"
    "reserve_for_project db payload p rid now = (Inr (Some r), db')"
  shows "reserve fault db payload rid now = (r, db')"
  using assms(2,3)
  by (auto simp: reserve_def reserve_tx_def assms(1) charged_project_def Let_def reserve_for_project_missing split: if_splits)

lemma reserve_uncharged:
  assumes "\<And>p. fault p = None" "charged_project db payload = None"
  shows "snd (reserve fault db payload rid now) = db \<and> br_decision (fst (reserve fault db payload rid now)) = ''uncertain''"
  using assms(2)
  by (auto simp: reserve_def reserve_tx_def assms(1) charged_project_def Let_def reserve_for_project_missing
      uncertain_result_def split: if_splits)

text \<open>Without an exception, the database answers every question it is asked.\<close>

lemma reserve_asks:
  "get_allocation db (normalize_project_id (bi_project_id payload)) \<noteq> None \<Longrightarrow> reserve fault db payload rid now =
     (case reserve_tx fault db payload (normalize_project_id (bi_project_id payload)) rid now of
        (Inl x, db') \<Rightarrow> (uncertain_result ''budget_runtime_unavailable'' (''budget reservation unavailable: '' @ exn_text x), db')
      | (Inr d, db') \<Rightarrow> (the d, db'))"
  by (auto simp: reserve_def reserve_tx_def reserve_for_project_def insert_reservation_def Let_def split: option.split)

lemma reserve_fails:
  assumes "reserve_failure fault db payload rid = Some x"
  shows "reserve fault db payload rid now =
    (uncertain_result ''budget_runtime_unavailable'' (''budget reservation unavailable: '' @ exn_text x), db)"
proof (cases "get_allocation db (normalize_project_id (bi_project_id payload))")
  case None
  then show ?thesis using assms reserve_for_project_taken [of db payload default_project_id rid now]
    by (auto simp: reserve_failure_def reserve_def reserve_tx_def charged_project_def Let_def reserve_for_project_missing
        split: option.splits if_splits)
next
  case (Some al)
  then show ?thesis using assms reserve_for_project_taken [of db payload "normalize_project_id (bi_project_id payload)" rid now]
    by (auto simp: reserve_asks reserve_failure_def reserve_tx_def charged_project_def Let_def split: option.splits if_splits)
qed

lemma reserve_answers:
  assumes "reserve_failure fault db payload rid = None"
  shows "reserve fault db payload rid now = reserve (\<lambda>_. None) db payload rid now"
proof (cases "get_allocation db (normalize_project_id (bi_project_id payload))")
  case None
  then show ?thesis using assms
    by (auto simp: reserve_failure_def reserve_def reserve_tx_def Let_def reserve_for_project_missing split: option.splits if_splits)
next
  case (Some al)
  then show ?thesis using assms by (auto simp: reserve_asks reserve_failure_def reserve_tx_def Let_def split: option.splits)
qed

subsection \<open>The service as a replay cache\<close>

abbreviation budget_answer :: "budget_service \<Rightarrow> string \<Rightarrow> budget_outcome option" where
  "budget_answer s \<equiv> map_of (bs_task_outcomes s)"

interpretation budget_memo: replay_cache
  reserve_with_fail_closed "\<lambda>c. tk_task_id (bc_task c)" budget_answer "\<lambda>_. True" "\<lambda>r. r"
  by unfold_locales
    (auto simp: reserve_with_fail_closed_def Let_def map_of_dict_put split: option.splits prod.splits)

lemma reserve_for_project_rows:
  "bd_reservations (snd (reserve_for_project db payload p rid now)) = bd_reservations db \<or>
   bd_reservations (snd (reserve_for_project db payload p rid now)) = bd_reservations db @ [reserved_row payload p rid now]"
  by (auto simp: reserve_for_project_def Let_def insert_reservation_def reserved_row_def split: option.splits)

lemma reserve_rows:
  "\<exists>rs. bd_reservations (snd (reserve fault db payload rid now)) = bd_reservations db @ rs
      \<and> map rv_task_id rs \<in> {[], [bi_task_id payload]}"
proof -
  let ?scope = "normalize_project_id (bi_project_id payload)"
  have task: "rv_task_id (reserved_row payload p rid now) = bi_task_id payload" for p
    by (simp add: reserved_row_def Let_def)
  have none: "snd (reserve_for_project db payload ?scope rid now) = db"
    if "fst (reserve_for_project db payload ?scope rid now) = Inr None"
    using that by (auto simp: reserve_for_project_def Let_def insert_reservation_def split: option.splits if_splits)
  show ?thesis
    using reserve_for_project_rows [of db payload ?scope rid now]
      reserve_for_project_rows [of db payload default_project_id rid now] none
    by (auto simp: reserve_def reserve_tx_def and_then_def Let_def task
        split: option.splits sum.splits prod.splits if_splits)
qed

text \<open>Every reserved task has a remembered outcome, and at most one reservation.\<close>

definition service_inv :: "budget_service \<Rightarrow> bool" where
  "service_inv s = (distinct (map rv_task_id (bd_reservations (bs_db s))) \<and>
     rv_task_id ` set (bd_reservations (bs_db s)) \<subseteq> dom (budget_answer s))"

lemma service_inv_call:
  assumes inv: "service_inv s" shows "service_inv (snd (reserve_with_fail_closed c s))"
proof (cases "budget_answer s (tk_task_id (bc_task c))")
  case None
  obtain rs where rs: "bd_reservations (snd (reserve (bc_fault c) (bs_db s) (reservation_input (bc_task c)) (bc_rid c) (bc_now c)))
      = bd_reservations (bs_db s) @ rs" and task: "map rv_task_id rs \<in> {[], [tk_task_id (bc_task c)]}"
    using reserve_rows [of "bc_fault c" "bs_db s" "reservation_input (bc_task c)" "bc_rid c" "bc_now c"]
    by (auto simp: reservation_input_def)
  from None inv have "tk_task_id (bc_task c) \<notin> rv_task_id ` set (bd_reservations (bs_db s))"
    by (auto simp: service_inv_def)
  with inv task None rs show ?thesis
    by (auto simp: service_inv_def reserve_with_fail_closed_def case_prod_beta Let_def map_of_dict_put)
next
  case (Some x)
  with inv show ?thesis by (simp add: reserve_with_fail_closed_def)
qed

lemma service_inv_run: "service_inv s \<Longrightarrow> service_inv (run_calls reserve_with_fail_closed cs s)"
  by (induction cs arbitrary: s) (auto intro: service_inv_call)

section \<open>Properties\<close>

text \<open>
  C28: no project is ever over-committed. Starting from tables without reservations, after any
  sequence of seedings, reservations (with or without database errors), settlements and releases,
  the active reservations charged to an allocation stay within its token quota and its currency
  limit, although the currency column rounds what it stores.
\<close>

theorem budget_never_overcommitted:
  assumes "fresh_ledger db0" and "budget_step\<^sup>*\<^sup>* db0 db" and "get_allocation db p = Some al"
  shows "get_spent_tokens db p \<le> al_quota_limit_tokens al \<and> spent_usd db p \<le> al_currency_limit_usd al"
proof -
  have "budget_inv db"
    using assms(2) budget_inv_fresh [OF assms(1)] by (induction rule: rtranclp_induct) (auto intro: budget_step_inv)
  with assms(3) show ?thesis by (auto simp: budget_inv_def within_limits_def)
qed

text \<open>
  C29: the decision and the effect of a reservation, on every branch. When the question for the project fails, or the one for the default
  project, which is asked only if the project has no allocation, or the new row repeats an id, the answer is \<^verbatim>\<open>uncertain\<close> with the error as
  its message. Otherwise the charged allocation decides: with none, the answer is \<^verbatim>\<open>uncertain\<close>; when the estimate exceeds what is left of
  either limit, a hard breach; otherwise it is allowed and exactly one row is added. Nothing is written unless it is allowed.
\<close>

theorem reserve_exact:
  "case reserve_failure fault db payload rid of
     Some x \<Rightarrow> reserve fault db payload rid now =
       (uncertain_result ''budget_runtime_unavailable'' (''budget reservation unavailable: '' @ exn_text x), db)
   | None \<Rightarrow> (case charged_project db payload of
       None \<Rightarrow> snd (reserve fault db payload rid now) = db \<and>
               br_decision (fst (reserve fault db payload rid now)) = ''uncertain''
     | Some p \<Rightarrow>
         if fits db payload p
         then br_decision (fst (reserve fault db payload rid now)) = ''allow'' \<and>
              br_reservation_id (fst (reserve fault db payload rid now)) = Some rid \<and>
              snd (reserve fault db payload rid now) =
                db\<lparr>bd_reservations := bd_reservations db @ [reserved_row payload p rid now]\<rparr>
         else br_decision (fst (reserve fault db payload rid now)) = ''hard_breach'' \<and>
              snd (reserve fault db payload rid now) = db)"
proof (cases "reserve_failure fault db payload rid")
  case (Some x)
  then show ?thesis using reserve_fails by simp
next
  case answered: None
  let ?run = "reserve (\<lambda>_. None) db payload rid now"
  show ?thesis
  proof (cases "charged_project db payload")
    case None
    with reserve_uncharged [of "\<lambda>_. None", OF refl None] answered show ?thesis by (simp add: reserve_answers)
  next
    case (Some p)
    then obtain al where al: "get_allocation db p = Some al"
      by (auto simp: charged_project_def Let_def split: if_splits)
    have charged: "?run = (r, db')" if "reserve_for_project db payload p rid now = (Inr (Some r), db')" for r db'
      using reserve_charged [of "\<lambda>_. None", OF refl Some that] .
    show ?thesis
    proof (cases "fits db payload p")
      case True
      then have "rid \<notin> rv_id ` set (bd_reservations db)"
        using answered Some by (auto simp: reserve_failure_def Let_def split: option.splits if_splits)
      from reserve_for_project_allowed [OF True this, of now] obtain r where "br_decision r = ''allow''" "br_reservation_id r = Some rid"
        "?run = (r, db\<lparr>bd_reservations := bd_reservations db @ [reserved_row payload p rid now]\<rparr>)" using charged by blast
      then show ?thesis using answered Some True by (simp add: reserve_answers)
    next
      case False
      from reserve_for_project_refused [OF al False, of rid now] obtain r where "br_decision r = ''hard_breach''" "?run = (r, db)"
        using charged by blast
      then show ?thesis using answered Some False by (simp add: reserve_answers)
    qed
  qed
qed

text \<open>
  The service is replay safe. A call for a task that was already decided returns the first
  outcome and changes nothing, whatever was called in between and whatever the database would do
  now; so over any sequence of calls a task never has more than one reservation.
\<close>

theorem budget_service_replay_safe:
  assumes "tk_task_id (bc_task c') = tk_task_id (bc_task c)"
  shows "(let s1 = run_calls reserve_with_fail_closed between (snd (reserve_with_fail_closed c s))
          in reserve_with_fail_closed c' s1 = (fst (reserve_with_fail_closed c s), s1))
       \<and> distinct (map rv_task_id (bd_reservations (bs_db
            (run_calls reserve_with_fail_closed calls
               \<lparr>bs_db = \<lparr>bd_allocations = als, bd_reservations = [], bd_events = []\<rparr>, bs_task_outcomes = []\<rparr>))))"
proof
  show "let s1 = run_calls reserve_with_fail_closed between (snd (reserve_with_fail_closed c s))
        in reserve_with_fail_closed c' s1 = (fst (reserve_with_fail_closed c s), s1)"
    using budget_memo.replayed_after_run [of c' c between s] assms by (simp add: Let_def)
next
  have "service_inv \<lparr>bs_db = \<lparr>bd_allocations = als, bd_reservations = [], bd_events = []\<rparr>, bs_task_outcomes = []\<rparr>"
    by (simp add: service_inv_def)
  then show "distinct (map rv_task_id (bd_reservations (bs_db (run_calls reserve_with_fail_closed calls
      \<lparr>bs_db = \<lparr>bd_allocations = als, bd_reservations = [], bd_events = []\<rparr>, bs_task_outcomes = []\<rparr>))))"
    using service_inv_run by (auto simp: service_inv_def)
qed

text \<open>
  Settled usage is not charged. When a task is reserved and then settled, with however many
  actual tokens, the recorded event does not count against the project: its committed tokens and
  currency are what they were before, and the same request fits again.
\<close>

theorem settled_usage_not_charged:
  assumes "\<And>q. fault q = None" and "rid \<notin> rv_id ` set (bd_reservations db)"
    and "charged_project db payload = Some p" and "fits db payload p"
    and "find_active_reservation_id db (bi_task_id payload) = None"
    and db': "db' = settle (\<lambda>_. False) (snd (reserve fault db payload rid now)) (bi_task_id payload)
           actual_tokens actual_usd project role model_class later"
  shows "get_spent_tokens db' p = get_spent_tokens db p \<and> spent_usd db' p = spent_usd db p \<and> fits db' payload p \<and>
     be_actual_tokens (last (bd_events db')) = max actual_tokens 0"
proof -
  let ?row = "reserved_row payload p rid now"
  let ?db1 = "db\<lparr>bd_reservations := bd_reservations db @ [?row]\<rparr>"
  have db1: "snd (reserve fault db payload rid now) = ?db1"
    using reserve_for_project_allowed [OF assms(4,2), of now] reserve_charged [of fault, OF assms(1,3)] by fastforce
  have row: "rv_id ?row = rid" "rv_task_id ?row = bi_task_id payload" "rv_status ?row = ''reserved''"
    by (simp_all add: reserved_row_def Let_def)
  have active: "find_active_reservation_id ?db1 (bi_task_id payload) = Some rid"
    using assms(5) row
    by (simp add: find_active_reservation_id_def find_append_eq)
  have rows: "bd_reservations db' = bd_reservations db @ [?row\<lparr>rv_status := ''settled'', rv_settled_at := Some later\<rparr>]"
    using assms(2) row
    by (auto simp: db' db1 settle_def active Let_def settle_reservation_def close_reservation_def insert_event_def
        intro!: map_idI)
  have alloc: "get_allocation db' = get_allocation db" and event: "be_actual_tokens (last (bd_events db')) = max actual_tokens 0"
    by (simp_all add: db' db1 settle_def active Let_def settle_reservation_def close_reservation_def insert_event_def
        fun_eq_iff get_allocation_def)
  have spent: "get_spent_tokens db' p = get_spent_tokens db p" "spent_usd db' p = spent_usd db p"
    by (simp_all add: get_spent_tokens_def spent_usd_def rows active_in_def)
  with assms(4) alloc event show ?thesis by (simp add: fits_def Let_def split: option.splits)
qed

section \<open>Witnesses\<close>

definition demo_ledger :: budget_db where
  "demo_ledger = \<lparr>bd_allocations = [(''p-1'', \<lparr>al_currency_limit_usd = 1, al_quota_limit_tokens = 1500\<rparr>)],
     bd_reservations = [], bd_events = []\<rparr>"

definition demo_request :: "string \<Rightarrow> budget_input" where
  "demo_request task_id = reservation_input ((new_task demo_envelope task_id 0))"

lemma demo_charged: "charged_project demo_ledger (demo_request t) = Some ''p-1''"
  by (simp add: charged_project_def demo_request_def reservation_input_def new_task_def demo_envelope_def
      normalize_project_id_def py_strip_def py_lstrip_def py_isspace_def get_allocation_def demo_ledger_def or_str_def Let_def)

lemma demo_rate: "rate_of ''interactive_fast'' = 35 / 1000000"
  by (simp add: rate_of_def routing_class_to_cost_tier_def cost_per_1k_tokens_def)

lemma demo_fits: "fits demo_ledger (demo_request t) ''p-1''"
  by (simp add: fits_def get_allocation_def demo_ledger_def demo_request_def reservation_input_def estimate_def Let_def
      demo_rate default_estimated_input_tokens_def get_spent_tokens_def spent_usd_def)

lemma budget_never_overcommitted_witness:
  "get_spent_tokens (snd (reserve (\<lambda>_. None) demo_ledger (demo_request ''t-1'') ''r-1'' 0)) ''p-1'' \<le> 1500 \<and>
   spent_usd (snd (reserve (\<lambda>_. None) demo_ledger (demo_request ''t-1'') ''r-1'' 0)) ''p-1'' \<le> 1"
proof -
  let ?db = "snd (reserve (\<lambda>_. None) demo_ledger (demo_request ''t-1'') ''r-1'' 0)"
  have "on_grid 1" unfolding on_grid_def by (rule exI [of _ 1000000]) simp
  then have "fresh_ledger demo_ledger" by (simp add: fresh_ledger_def demo_ledger_def)
  moreover have "budget_step\<^sup>*\<^sup>* demo_ledger ?db" by (rule r_into_rtranclp) (rule budget_step.reserve)
  moreover have "get_allocation ?db ''p-1'' = Some \<lparr>al_currency_limit_usd = 1, al_quota_limit_tokens = 1500\<rparr>"
    using reserve_for_project_allowed [OF demo_fits, of "''r-1''" "''t-1''" 0]
      reserve_charged [of "\<lambda>_. None", OF refl demo_charged, of "''t-1''" "''r-1''" 0]
    by (fastforce simp: demo_ledger_def get_allocation_def)
  ultimately show ?thesis
    using budget_never_overcommitted [of demo_ledger ?db "''p-1''" "\<lparr>al_currency_limit_usd = 1, al_quota_limit_tokens = 1500\<rparr>"]
    by simp
qed

lemma reserve_exact_witness:
  "br_decision (fst (reserve (\<lambda>_. None) demo_ledger (demo_request ''t-1'') ''r-1'' 0)) = ''allow''"
proof -
  have "reserve_failure (\<lambda>_. None) demo_ledger (demo_request ''t-1'') ''r-1'' = None"
    by (simp add: reserve_failure_def Let_def demo_charged) (simp add: demo_ledger_def)
  then show ?thesis using reserve_exact [of "\<lambda>_. None" demo_ledger "demo_request ''t-1''" "''r-1''" 0] by (simp add: demo_charged demo_fits)
qed

definition demo_call :: "string \<Rightarrow> string \<Rightarrow> budget_call" where
  "demo_call task_id rid = \<lparr>bc_task = new_task demo_envelope task_id 0, bc_fault = (\<lambda>_. None), bc_rid = rid, bc_now = 0\<rparr>"

definition demo_service :: budget_service where
  "demo_service = \<lparr>bs_db = demo_ledger, bs_task_outcomes = []\<rparr>"

lemma budget_service_replay_safe_witness:
  "let s1 = snd (reserve_with_fail_closed (demo_call ''t-1'' ''r-1'') demo_service)
   in reserve_with_fail_closed (demo_call ''t-1'' ''r-2'') s1 =
        (fst (reserve_with_fail_closed (demo_call ''t-1'' ''r-1'') demo_service), s1)"
  using budget_service_replay_safe [of "demo_call ''t-1'' ''r-2''" "demo_call ''t-1'' ''r-1''" "[]" demo_service]
  by (simp add: demo_call_def)

lemma settled_usage_not_charged_witness:
  "fits (settle (\<lambda>_. False) (snd (reserve (\<lambda>_. None) demo_ledger (demo_request ''t-1'') ''r-1'' 0)) ''t-1''
           1000000 35 ''p-1'' ''ceo'' ''interactive_fast'' 1) (demo_request ''t-1'') ''p-1''"
proof -
  have "bi_task_id (demo_request ''t-1'') = ''t-1''" by (simp add: demo_request_def reservation_input_def new_task_def)
  moreover have "find_active_reservation_id demo_ledger ''t-1'' = None" "''r-1'' \<notin> rv_id ` set (bd_reservations demo_ledger)"
    by (simp_all add: find_active_reservation_id_def demo_ledger_def)
  ultimately show ?thesis
    using settled_usage_not_charged [of "\<lambda>_. None" "''r-1''" demo_ledger "demo_request ''t-1''" "''p-1''",
        OF refl _ demo_charged demo_fits _ refl]
    by simp
qed

end
