(* ===== verification/Admission.thy ===== *)
theory Admission
  imports Task_State
begin

text \<open>
  Owner-command admission.
  \<^item> \<^verbatim>\<open>control_plane/schemas/owner_commands.py\<close>: the request (\<open>owner_command\<close>);
  \<^item> \<^verbatim>\<open>task_orchestrator/admission/envelope_validator.py\<close>:
    \<open>validate_owner_command_envelope\<close>, \<open>infer_role_from_recipient_id\<close>;
  \<^item> \<^verbatim>\<open>control_plane/idempotency/ingress_dedupe.py\<close>: \<open>dedupe_claim\<close>, \<open>bind_task_id\<close>;
  \<^item> \<^verbatim>\<open>task_orchestrator/admission/idempotency.py\<close> and \<^verbatim>\<open>service.py\<close>: \<open>resolve_admission\<close>,
    \<open>admit_owner_command\<close>;
  \<^item> \<^verbatim>\<open>control_plane/api/startup_recovery.py\<close> and the recovery loop of
    \<^verbatim>\<open>control_plane/api/dependencies.py\<close>: \<open>payload_hash_for_task\<close>, \<open>recover_claims\<close>.

  The digest \<^verbatim>\<open>sha256(json.dumps(...))\<close> is a parameter \<open>H\<close> on the hashed fields; only the
  statement that needs it assumes that \<open>H\<close> has no collision between two given payloads.
\<close>

section \<open>Requests and principals\<close>

record principal =
  pr_principal_id :: string
  pr_connector :: string
  pr_principal_role :: string
  pr_trust_domain :: string

record recipient =
  rc_recipient_id :: string
  rc_recipient_type :: string

record discord_context =
  dc_guild_id :: string
  dc_channel_id :: string
  dc_channel_type :: string
  dc_chat_class :: string

text \<open>
  \<^verbatim>\<open>payload.get("args", [])\<close>: a list, given by the \<^verbatim>\<open>str()\<close> of its elements, or
  something that is not a list.
\<close>

datatype raw_args = ArgsList "string list" | ArgsNotList

record owner_command =
  oc_message_id :: string
  oc_trace_id :: string
  oc_sender_actor_id :: string
  oc_sender_actor_role :: string
  oc_recipients :: "recipient list"
  oc_message_type :: string
  oc_priority :: string
  oc_content :: string
  oc_project_id :: "string option"
  oc_connector_channel :: string
  oc_external_message_id :: string
  oc_actor_external_id :: string
  oc_idempotency_key :: string
  oc_raw_payload_hash :: string
  oc_discord_context :: "discord_context option"
  oc_action :: string
  oc_target :: string
  oc_args :: raw_args

text \<open>The code and the message of \<^verbatim>\<open>EnvelopeValidationError\<close>.\<close>

type_synonym coded_error = "string \<times> string"

section \<open>Envelope validation\<close>

text \<open>\<^verbatim>\<open>sorted(_KNOWN_ROLE_SET, key=len, reverse=True)\<close>.\<close>

definition known_roles :: "string list" where
  "known_roles = [''project_manager'', ''administrator'', ''domain_leader'', ''specialist'', ''secretary'',
     ''auditor'', ''owner'', ''ceo'', ''cwo'', ''cso'']"

definition role_matches :: "string \<Rightarrow> string \<Rightarrow> bool" where
  "role_matches i role = (i = role \<or> py_startswith i (role @ ''_''))"

definition infer_role_from_recipient_id :: "string \<Rightarrow> string option" where
  "infer_role_from_recipient_id recipient_id =
     (let i = py_lower (py_strip recipient_id)
      in if i = [] then None else find (role_matches i) known_roles)"

text \<open>The recipient loop: the first recipient whose identifier contradicts its type.\<close>

fun check_recipients :: "recipient list \<Rightarrow> coded_error option" where
  "check_recipients [] = None"
| "check_recipients (r # rs) =
     (let normalized_type = py_lower (py_strip (rc_recipient_type r));
          normalized_id = py_lower (py_strip (rc_recipient_id r));
          inferred = infer_role_from_recipient_id normalized_id
      in if normalized_type = [] \<or> normalized_id = [] then check_recipients rs
         else if normalized_type \<in> set known_roles \<and> inferred \<noteq> None \<and> inferred \<noteq> Some normalized_type
         then Some (''envelope_recipient_role_mismatch'',
                    ''recipient_id role prefix does not match recipient_type ('' @ normalized_id @
                    '' vs '' @ normalized_type @ '')'')
         else check_recipients rs)"

definition envelope_metadata :: "owner_command \<Rightarrow> kvs" where
  "envelope_metadata p =
     (let rs = oc_recipients p;
          recipient_types = py_sorted_set (filter (\<lambda>t. t \<noteq> []) (map (\<lambda>r. py_lower (py_strip (rc_recipient_type r))) rs));
          recipient_ids = py_sorted_set (filter (\<lambda>t. t \<noteq> []) (map (\<lambda>r. py_strip (rc_recipient_id r)) rs));
          primary_role = (case rs of [] \<Rightarrow> [] | r # _ \<Rightarrow> py_lower (py_strip (rc_recipient_type r)));
          primary_id = (case rs of [] \<Rightarrow> [] | r # _ \<Rightarrow> py_strip (rc_recipient_id r));
          guild = (case oc_discord_context p of None \<Rightarrow> [] | Some c \<Rightarrow> py_strip (dc_guild_id c));
          channel = (case oc_discord_context p of None \<Rightarrow> [] | Some c \<Rightarrow> py_strip (dc_channel_id c));
          thread = (case oc_discord_context p of None \<Rightarrow> []
                    | Some c \<Rightarrow> if dc_channel_type c = ''thread'' then py_strip (dc_channel_id c) else [])
      in sort [(''message_id'', oc_message_id p),
               (''message_type'', oc_message_type p),
               (''priority'', oc_priority p),
               (''sender_role'', oc_sender_actor_role p),
               (''external_message_id'', oc_external_message_id p),
               (''raw_payload_hash'', oc_raw_payload_hash p),
               (''recipient_types'', py_join '','' recipient_types),
               (''recipient_ids'', py_join '','' recipient_ids),
               (''primary_recipient_role'', primary_role),
               (''primary_recipient_id'', primary_id),
               (''discord_guild_id'', guild),
               (''discord_channel_id'', channel),
               (''discord_thread_id'', thread)])"

definition validate_owner_command_envelope ::
  "owner_command \<Rightarrow> principal \<Rightarrow> string option \<Rightarrow> string \<Rightarrow> coded_error + admission_envelope" where
  "validate_owner_command_envelope p pr trace_id_override request_id =
     (let command = py_strip (oc_action p); target = py_strip (oc_target p)
      in if command = [] then Inl (''envelope_invalid_command'', ''command must not be blank'')
         else if target = [] then Inl (''envelope_invalid_target'', ''command target must not be blank'')
         else case oc_args p of
           ArgsNotList \<Rightarrow> Inl (''envelope_invalid_args'', ''command payload args must be a list of strings'')
         | ArgsList raw \<Rightarrow>
             (let args = map py_strip raw; trace = py_strip (or_str trace_id_override (oc_trace_id p))
              in if [] \<in> set args then Inl (''envelope_invalid_args'', ''args must not contain blank values'')
                 else if py_strip (oc_sender_actor_id p) \<noteq> pr_principal_id pr
                 then Inl (''envelope_sender_mismatch'', ''sender actor_id does not match resolved principal'')
                 else if trace = [] then Inl (''envelope_invalid_trace_id'', ''trace identifier must not be blank'')
                 else case check_recipients (oc_recipients p) of
                   Some e \<Rightarrow> Inl e
                 | None \<Rightarrow> Inr \<lparr>env_request_id = request_id,
                     env_trace_id = trace,
                     env_principal_id = pr_principal_id pr,
                     env_principal_role = pr_principal_role pr,
                     env_trust_domain = pr_trust_domain pr,
                     env_connector = pr_connector pr,
                     env_command = command,
                     env_target = target,
                     env_args = args,
                     env_metadata = envelope_metadata p,
                     env_project_id = oc_project_id p,
                     env_idempotency_key = oc_idempotency_key p\<rparr>))"

section \<open>Ingress de-duplication\<close>

record dedupe_record =
  dd_principal_id :: string
  dd_idempotency_key :: string
  dd_payload_hash :: string
  dd_task_id :: "string option"

type_synonym dedupe_store = "((string \<times> string) \<times> dedupe_record) list"

definition dedupe_claim ::
  "string \<Rightarrow> string \<Rightarrow> string \<Rightarrow> dedupe_store \<Rightarrow> (claim_status \<times> dedupe_record) \<times> dedupe_store" where
  "dedupe_claim principal_id idempotency_key payload_hash claims =
     (case map_of claims (principal_id, idempotency_key) of
        None \<Rightarrow>
          let r = \<lparr>dd_principal_id = principal_id, dd_idempotency_key = idempotency_key,
                   dd_payload_hash = payload_hash, dd_task_id = None\<rparr>
          in ((ClaimNew, r), dict_put claims (principal_id, idempotency_key) r)
      | Some r \<Rightarrow>
          if dd_payload_hash r = payload_hash then ((ClaimReplay, r), claims)
          else ((ClaimConflict, r), claims))"

definition bind_task_id :: "string \<Rightarrow> string \<Rightarrow> string \<Rightarrow> dedupe_store \<Rightarrow> dedupe_store" where
  "bind_task_id principal_id idempotency_key task_id claims =
     (case map_of claims (principal_id, idempotency_key) of
        None \<Rightarrow> claims
      | Some r \<Rightarrow> dict_put claims (principal_id, idempotency_key) (r\<lparr>dd_task_id := Some task_id\<rparr>))"

section \<open>Idempotent admission\<close>

text \<open>The fields that \<^verbatim>\<open>_payload_hash\<close> serialises.\<close>

record hashed_payload =
  hp_principal_id :: string
  hp_connector :: string
  hp_command :: string
  hp_args :: "string list"
  hp_metadata :: kvs
  hp_idempotency_key :: string

definition payload_hash :: "(hashed_payload \<Rightarrow> string) \<Rightarrow> admission_envelope \<Rightarrow> string" where
  "payload_hash H e = H \<lparr>hp_principal_id = env_principal_id e, hp_connector = env_connector e,
     hp_command = env_command e, hp_args = env_args e, hp_metadata = env_metadata e,
     hp_idempotency_key = env_idempotency_key e\<rparr>"

definition payload_hash_for_task :: "(hashed_payload \<Rightarrow> string) \<Rightarrow> task_record \<Rightarrow> string" where
  "payload_hash_for_task H t = H \<lparr>hp_principal_id = tk_principal_id t, hp_connector = tk_connector t,
     hp_command = tk_command t, hp_args = tk_args t, hp_metadata = tk_metadata t,
     hp_idempotency_key = tk_idempotency_key t\<rparr>"

datatype admission_error = AdmissionIdempotencyError string string | AdmissionExn py_exn

record admission_state =
  ad_dedupe :: dedupe_store
  ad_repo :: task_repo

text \<open>
  \<open>task_id\<close> and \<open>now\<close> are the values drawn for a new row; \<open>fault\<close> is the exception the
  database session raises on the insertion, if it does.
\<close>

definition resolve_admission ::
  "(hashed_payload \<Rightarrow> string) \<Rightarrow> admission_state \<Rightarrow> admission_envelope \<Rightarrow> string \<Rightarrow> time \<Rightarrow> py_exn option \<Rightarrow>
   (admission_error, task_record \<times> bool, admission_state) run" where
  "resolve_admission H st e task_id now fault =
     (case dedupe_claim (env_principal_id e) (env_idempotency_key e) (payload_hash H e) (ad_dedupe st) of
        ((ClaimConflict, claim), claims) \<Rightarrow>
          (Inl (AdmissionIdempotencyError ''idempotency_key_reused_with_different_payload''
             (''idempotency key cannot be reused with a different payload for principal '' @ env_principal_id e)),
           st\<lparr>ad_dedupe := claims\<rparr>)
      | ((ClaimReplay, claim), claims) \<Rightarrow>
          (let by_key = get_task_by_principal_and_idempotency (ad_repo st) (env_principal_id e) (env_idempotency_key e);
               task = (case by_key of
                         Some t \<Rightarrow> Some t
                       | None \<Rightarrow> (case dd_task_id claim of None \<Rightarrow> None | Some i \<Rightarrow> get_task_by_id (ad_repo st) i))
           in case task of
                None \<Rightarrow> (Inl (AdmissionIdempotencyError ''idempotency_state_missing''
                          ''existing idempotency claim has no recoverable task state''),
                         st\<lparr>ad_dedupe := claims\<rparr>)
              | Some t \<Rightarrow> (Inr (t, True), st\<lparr>ad_dedupe := claims\<rparr>))
      | (_, claims) \<Rightarrow>
          (case (case fault of Some x \<Rightarrow> (Inl x, ad_repo st)
                 | None \<Rightarrow> create_task_from_envelope (ad_repo st) e task_id now) of
             (Inl x, repo) \<Rightarrow> (Inl (AdmissionExn x), \<lparr>ad_dedupe = claims, ad_repo = repo\<rparr>)
           | (Inr t, repo) \<Rightarrow>
               (Inr (t, False),
                \<lparr>ad_dedupe = bind_task_id (env_principal_id e) (env_idempotency_key e) (tk_task_id t) claims,
                 ad_repo = repo\<rparr>)))"

definition admit_owner_command ::
  "(hashed_payload \<Rightarrow> string) \<Rightarrow> admission_state \<Rightarrow> admission_envelope \<Rightarrow> string \<Rightarrow> time \<Rightarrow> py_exn option \<Rightarrow>
   (admission_error, task_record \<times> bool, admission_state) run" where
  "admit_owner_command H st e task_id now fault = resolve_admission H st e task_id now fault"

section \<open>Startup recovery of the claims\<close>

definition active_statuses :: "string list" where
  "active_statuses = [''queued'', ''dispatched'', ''running'', ''blocked'']"

definition recover_claim :: "(hashed_payload \<Rightarrow> string) \<Rightarrow> task_record \<Rightarrow> dedupe_store \<Rightarrow> dedupe_store" where
  "recover_claim H t claims =
     (if tk_status t \<in> set active_statuses
      then bind_task_id (tk_principal_id t) (tk_idempotency_key t) (tk_task_id t)
             (snd (dedupe_claim (tk_principal_id t) (tk_idempotency_key t) (payload_hash_for_task H t) claims))
      else claims)"

definition recover_claims :: "(hashed_payload \<Rightarrow> string) \<Rightarrow> task_repo \<Rightarrow> dedupe_store" where
  "recover_claims H repo = fold (recover_claim H) (list_tasks repo) []"

definition restart :: "(hashed_payload \<Rightarrow> string) \<Rightarrow> admission_state \<Rightarrow> admission_state" where
  "restart H st = st\<lparr>ad_dedupe := recover_claims H (ad_repo st)\<rparr>"

section \<open>Histories of admission\<close>

definition initial_admission :: admission_state where
  "initial_admission = \<lparr>ad_dedupe = [], ad_repo = []\<rparr>"

text \<open>
  One process life time: admissions, whose insertion may fail, interleaved with status updates by
  the rest of the system.
\<close>

inductive admission_step :: "(hashed_payload \<Rightarrow> string) \<Rightarrow> admission_state \<Rightarrow> admission_state \<Rightarrow> bool"
  for H where
  admit: "admit_owner_command H st e task_id now fault = (r, st') \<Longrightarrow> admission_step H st st'"
| update: "update_task_status (ad_repo st) task_id status u = (r, repo') \<Longrightarrow>
     admission_step H st (st\<lparr>ad_repo := repo'\<rparr>)"

definition task_key :: "task_record \<Rightarrow> string \<times> string" where
  "task_key t = (tk_principal_id t, tk_idempotency_key t)"

definition env_key :: "admission_envelope \<Rightarrow> string \<times> string" where
  "env_key e = (env_principal_id e, env_idempotency_key e)"

definition claim_hash :: "dedupe_store \<Rightarrow> string \<times> string \<Rightarrow> string option" where
  "claim_hash claims k = map_option dd_payload_hash (map_of claims k)"

text \<open>The invariant: a key has at most one task, and every task's key is claimed.\<close>

definition admission_inv :: "admission_state \<Rightarrow> bool" where
  "admission_inv st = (distinct (map task_key (ad_repo st)) \<and>
     (\<forall>r \<in> set (ad_repo st). claim_hash (ad_dedupe st) (task_key r) \<noteq> None))"

text \<open>The admitted task \<open>i\<close> of a key, with the hash it was claimed under.\<close>

definition admitted :: "admission_state \<Rightarrow> string \<times> string \<Rightarrow> string \<Rightarrow> string \<Rightarrow> bool" where
  "admitted st k h i = (claim_hash (ad_dedupe st) k = Some h \<and>
     (\<exists>r \<in> set (ad_repo st). task_key r = k \<and> tk_task_id r = i))"

definition recipient_consistent :: "recipient \<Rightarrow> bool" where
  "recipient_consistent r =
     (let t = py_lower (py_strip (rc_recipient_type r)); i = py_lower (py_strip (rc_recipient_id r))
      in t = [] \<or> i = [] \<or> t \<notin> set known_roles \<or>
         infer_role_from_recipient_id i = None \<or> infer_role_from_recipient_id i = Some t)"

section \<open>Lemmas\<close>

subsection \<open>Roles and recipients\<close>

lemma role_matches_prefix: "role_matches i r = prefix (r @ ''_'') (i @ ''_'')"
  (is "_ = ?R")
proof
  assume "role_matches i r"
  then show ?R
    by (auto simp: role_matches_def py_startswith_def intro: prefix_prefix) (metis append_take_drop_id prefixI prefix_prefix)
next
  assume ?R
  then obtain zs where zs: "i @ ''_'' = (r @ ''_'') @ zs" by (auto elim: prefixE)
  show "role_matches i r"
  proof (cases zs rule: rev_cases)
    case Nil
    with zs show ?thesis by (simp add: role_matches_def)
  next
    case (snoc ys y)
    with zs have "i = (r @ ''_'') @ ys" by auto
    then show ?thesis by (simp add: role_matches_def py_startswith_def)
  qed
qed

lemma known_roles_prefix_check:
  "list_all (\<lambda>r. list_all (\<lambda>r'. prefix (r @ ''_'') (r' @ ''_'') \<longrightarrow> r = r') known_roles) known_roles"
  by code_simp

lemma known_roles_prefix_free:
  "r \<in> set known_roles \<Longrightarrow> r' \<in> set known_roles \<Longrightarrow> prefix (r @ ''_'') (r' @ ''_'') \<Longrightarrow> r = r'"
  using known_roles_prefix_check by (auto simp: list_all_iff)

lemma role_matches_unique:
  assumes "role_matches i r" "role_matches i r'" "r \<in> set known_roles" "r' \<in> set known_roles"
  shows "r = r'"
  using assms prefix_same_cases [of "r @ ''_''" "i @ ''_''" "r' @ ''_''"] known_roles_prefix_free
  by (metis role_matches_prefix)

lemma check_recipients_ok: "(check_recipients rs = None) = (\<forall>r \<in> set rs. recipient_consistent r)"
  by (induction rs) (auto simp: recipient_consistent_def Let_def)

subsection \<open>Claims\<close>

interpretation ingress: claim_store
  "\<lambda>k h st. (fst (fst (dedupe_claim (fst k) (snd k) h st)), snd (dedupe_claim (fst k) (snd k) h st))"
  claim_hash
  by unfold_locales
    (auto simp: dedupe_claim_def claim_hash_def map_of_dict_put Let_def fun_eq_iff split: option.splits)

lemma claim_hash_Nil [simp]: "claim_hash [] k = None"
  by (simp add: claim_hash_def)

lemma claim_hash_bind [frame_simps]: "claim_hash (bind_task_id p k i claims) = claim_hash claims"
  by (auto simp: fun_eq_iff claim_hash_def bind_task_id_def map_of_dict_put split: option.splits)

lemma dedupe_claim_status:
  "fst (fst (dedupe_claim p k h claims)) =
     (case claim_hash claims (p, k) of None \<Rightarrow> ClaimNew
      | Some h' \<Rightarrow> if h' = h then ClaimReplay else ClaimConflict)"
  by (auto simp: dedupe_claim_def claim_hash_def Let_def split: option.splits)

lemma dedupe_claim_taken: "claim_hash claims (p, k) \<noteq> None \<Longrightarrow> snd (dedupe_claim p k h claims) = claims"
  by (auto simp: dedupe_claim_def claim_hash_def split: option.splits)

lemma dedupe_claim_fresh:
  "claim_hash claims (p, k) = None \<Longrightarrow>
   claim_hash (snd (dedupe_claim p k h claims)) = (claim_hash claims)((p, k) \<mapsto> h)"
  by (auto simp: dedupe_claim_def claim_hash_def map_of_dict_put fun_eq_iff Let_def split: option.splits)

lemma task_key_new_task [simp]: "task_key (new_task e i now) = env_key e"
  by (simp add: task_key_def env_key_def new_task_def)

lemma task_key_from_row [simp]: "task_key (task_from_row r) = task_key r"
  by (simp add: task_key_def task_from_row_def)

lemma task_key_set_row [simp]: "task_key (set_row r s u) = task_key r"
  by (simp add: task_key_def set_row_def)

lemma task_id_from_row_set_row [simp]:
  "tk_task_id (task_from_row r) = tk_task_id r" "tk_task_id (set_row r s u) = tk_task_id r"
  by (simp_all add: task_from_row_def set_row_def)

subsection \<open>The three outcomes of an admission\<close>

lemma admit_conflict:
  assumes "claim_hash (ad_dedupe st) (env_key e) = Some h" "h \<noteq> payload_hash H e"
  shows "admit_owner_command H st e i now fault =
     (Inl (AdmissionIdempotencyError ''idempotency_key_reused_with_different_payload''
        (''idempotency key cannot be reused with a different payload for principal '' @ env_principal_id e)), st)"
  using assms
  by (auto simp: admit_owner_command_def resolve_admission_def dedupe_claim_def claim_hash_def env_key_def)

lemma key_filter_unique:
  assumes "distinct (map task_key repo)" "r \<in> set repo" "task_key r = (p, k)"
  shows "get_task_by_principal_and_idempotency repo p k = Some (task_from_row r)"
proof -
  have "filter (\<lambda>r. tk_principal_id r = p \<and> tk_idempotency_key r = k) repo = [r]"
    using assms
  proof (induction repo)
    case (Cons x xs)
    have P: "(\<lambda>r. tk_principal_id r = p \<and> tk_idempotency_key r = k) = (\<lambda>r. task_key r = (p, k))"
      by (auto simp: task_key_def)
    show ?case
    proof (cases "r = x")
      case True
      with Cons.prems have "\<forall>y \<in> set xs. task_key y \<noteq> (p, k)" by (metis distinct.simps(2) image_eqI list.set_map list.simps(9))
      with True Cons.prems show ?thesis unfolding P by simp
    next
      case False
      with Cons have "task_key x \<noteq> (p, k)" by (auto simp: image_iff)
      with False Cons show ?thesis unfolding P by auto
    qed
  qed simp
  then show ?thesis by (simp add: get_task_by_principal_and_idempotency_def)
qed

lemma admit_replay:
  assumes "claim_hash (ad_dedupe st) (env_key e) = Some (payload_hash H e)"
    and "distinct (map task_key (ad_repo st))" "r \<in> set (ad_repo st)" "task_key r = env_key e"
  shows "admit_owner_command H st e i now fault = (Inr (task_from_row r, True), st)"
  using assms key_filter_unique [OF assms(2,3)]
  by (auto simp: admit_owner_command_def resolve_admission_def dedupe_claim_def claim_hash_def env_key_def)

lemma admit_fresh:
  assumes "claim_hash (ad_dedupe st) (env_key e) = None"
  obtains claims where
    "claim_hash claims = (claim_hash (ad_dedupe st))(env_key e \<mapsto> payload_hash H e)"
    "snd (admit_owner_command H st e i now fault) =
       \<lparr>ad_dedupe = claims,
        ad_repo = (if fault = None \<and> find_row (ad_repo st) i = None
                   then ad_repo st @ [new_task e i now] else ad_repo st)\<rparr>"
    "fst (admit_owner_command H st e i now fault) =
       (case fault of Some x \<Rightarrow> Inl (AdmissionExn x)
        | None \<Rightarrow> if find_row (ad_repo st) i = None then Inr (new_task e i now, False)
                  else Inl (AdmissionExn (IntegrityError i)))"
proof -
  let ?k = "env_idempotency_key e" and ?p = "env_principal_id e"
  let ?c = "dedupe_claim ?p ?k (payload_hash H e) (ad_dedupe st)"
  have none: "claim_hash (ad_dedupe st) (?p, ?k) = None" using assms by (simp add: env_key_def)
  then obtain r claims where c: "?c = ((ClaimNew, r), claims)"
    by (auto simp: dedupe_claim_def claim_hash_def Let_def)
  have h: "claim_hash claims = (claim_hash (ad_dedupe st))(env_key e \<mapsto> payload_hash H e)"
    using dedupe_claim_fresh [OF none, of "payload_hash H e"] c by (simp add: env_key_def)
  have i: "tk_task_id (new_task e i now) = i" by (simp add: new_task_def)
  let ?claims = "if fault = None \<and> find_row (ad_repo st) i = None then bind_task_id ?p ?k i claims else claims"
  show ?thesis
    by (rule that [of ?claims])
      (auto simp: admit_owner_command_def resolve_admission_def c create_task_from_envelope_def h i
        claim_hash_bind split: option.splits)
qed

subsection \<open>Preservation\<close>

lemma update_rows:
  "\<exists>f. snd (update_task_status repo i s u) = map f repo \<and> (\<forall>r. task_key (f r) = task_key r \<and> tk_task_id (f r) = tk_task_id r)"
proof (cases "snd (update_task_status repo i s u) = repo")
  case True
  then show ?thesis by (intro exI [of _ "\<lambda>r. r"]) simp
next
  case False
  then have "snd (update_task_status repo i s u) = map (\<lambda>r. if tk_task_id r = i then set_row r s u else r) repo"
    by (auto simp: update_task_status_eq split: option.splits if_splits)
  then show ?thesis by (intro exI [of _ "\<lambda>r. if tk_task_id r = i then set_row r s u else r"]) simp
qed

lemma admission_inv_initial [inv_intros]: "admission_inv initial_admission"
  by (simp add: admission_inv_def initial_admission_def)

lemma replay_keeps_state:
  "claim_hash (ad_dedupe st) (env_key e) \<noteq> None \<Longrightarrow> snd (admit_owner_command H st e i now fault) = st"
  by (auto simp: admit_owner_command_def resolve_admission_def dedupe_claim_def claim_hash_def env_key_def
      Let_def split: option.splits)

lemma admission_inv_admit [inv_intros]:
  assumes "admission_inv st" shows "admission_inv (snd (admit_owner_command H st e i now fault))"
proof (cases "claim_hash (ad_dedupe st) (env_key e)")
  case None
  then have "env_key e \<notin> task_key ` set (ad_repo st)"
    using assms by (auto simp: admission_inv_def)
  with assms None show ?thesis
    by (auto simp: admission_inv_def elim!: admit_fresh [of st e H i now fault] split: if_splits)
next
  case (Some h)
  with assms show ?thesis by (simp add: replay_keeps_state)
qed

lemma admission_inv_update [inv_intros]:
  assumes "admission_inv st"
  shows "admission_inv (st\<lparr>ad_repo := snd (update_task_status (ad_repo st) i s u)\<rparr>)"
proof -
  obtain f where "snd (update_task_status (ad_repo st) i s u) = map f (ad_repo st)"
    and "\<forall>r. task_key (f r) = task_key r"
    using update_rows by blast
  with assms show ?thesis by (simp add: admission_inv_def o_def)
qed

lemma admitted_admit:
  assumes "admitted st k h i" shows "admitted (snd (admit_owner_command H st e i' now fault)) k h i"
proof (cases "claim_hash (ad_dedupe st) (env_key e)")
  case None
  with assms have "k \<noteq> env_key e" by (auto simp: admitted_def)
  with assms None show ?thesis
    by (auto simp: admitted_def elim!: admit_fresh [of st e H i' now fault])
next
  case (Some g)
  with assms show ?thesis by (simp add: replay_keeps_state)
qed

lemma admitted_update:
  assumes "admitted st k h i"
  shows "admitted (st\<lparr>ad_repo := snd (update_task_status (ad_repo st) j s u)\<rparr>) k h i"
proof -
  obtain f where "snd (update_task_status (ad_repo st) j s u) = map f (ad_repo st)"
    and "\<forall>r. task_key (f r) = task_key r \<and> tk_task_id (f r) = tk_task_id r"
    using update_rows by blast
  with assms show ?thesis by (auto simp: admitted_def)
qed

lemma admission_step_inv: "admission_step H st st' \<Longrightarrow> admission_inv st \<Longrightarrow> admission_inv st'"
  by (cases rule: admission_step.cases, assumption) (metis admission_inv_admit admission_inv_update snd_conv)+

lemma admission_steps_inv: "(admission_step H)\<^sup>*\<^sup>* st st' \<Longrightarrow> admission_inv st \<Longrightarrow> admission_inv st'"
  by (induction rule: rtranclp_induct) (auto dest: admission_step_inv)

lemma admission_step_admitted: "admission_step H st st' \<Longrightarrow> admitted st k h i \<Longrightarrow> admitted st' k h i"
  by (cases rule: admission_step.cases, assumption) (metis admitted_admit admitted_update snd_conv)+

lemma admission_steps_admitted: "(admission_step H)\<^sup>*\<^sup>* st st' \<Longrightarrow> admitted st k h i \<Longrightarrow> admitted st' k h i"
  by (induction rule: rtranclp_induct) (auto dest: admission_step_admitted)

lemma replay_not_new:
  "claim_hash (ad_dedupe st) (env_key e) \<noteq> None \<Longrightarrow> fst (admit_owner_command H st e i now fault) \<noteq> Inr (t, False)"
  by (auto simp: admit_owner_command_def resolve_admission_def dedupe_claim_def claim_hash_def env_key_def
      Let_def split: option.splits)

text \<open>A successful admission, new or replayed, leaves its task admitted under the envelope's key.\<close>

lemma admit_success_admitted:
  assumes inv: "admission_inv st" and ok: "admit_owner_command H st e i now fault = (Inr (t, False), st')"
  shows "admitted st' (env_key e) (payload_hash H e) (tk_task_id t) \<and> tk_target t = env_target e"
proof (cases "claim_hash (ad_dedupe st) (env_key e)")
  case None
  from ok have "fst (admit_owner_command H st e i now fault) = Inr (t, False)"
    and "st' = snd (admit_owner_command H st e i now fault)" by simp_all
  moreover have "task_key (new_task e i now) = env_key e" "tk_target (new_task e i now) = env_target e"
    by (simp_all add: new_task_def task_key_def env_key_def)
  ultimately show ?thesis
    by - (rule admit_fresh [OF None, of H i now fault], auto simp: admitted_def split: option.splits if_splits)
next
  case (Some h)
  with ok show ?thesis
    by (auto simp: admit_owner_command_def resolve_admission_def dedupe_claim_def claim_hash_def env_key_def
      Let_def split: option.splits if_splits)
qed

subsection \<open>Recovery\<close>

lemma recover_claim_hash:
  "claim_hash (recover_claim H t claims) =
     (if tk_status t \<in> set active_statuses \<and> claim_hash claims (task_key t) = None
      then (claim_hash claims)(task_key t \<mapsto> payload_hash_for_task H t) else claim_hash claims)"
  by (auto simp: recover_claim_def claim_hash_bind task_key_def dedupe_claim_fresh dedupe_claim_taken)

lemma fold_recover_hash:
  "distinct (map task_key ts) \<Longrightarrow>
   claim_hash (fold (recover_claim H) ts claims) k =
     (case claim_hash claims k of Some h \<Rightarrow> Some h
      | None \<Rightarrow> map_option (payload_hash_for_task H)
                  (find (\<lambda>t. task_key t = k \<and> tk_status t \<in> set active_statuses) ts))"
proof (induction ts arbitrary: claims)
  case (Cons t ts)
  have "find (\<lambda>u. task_key u = task_key t \<and> tk_status u \<in> set active_statuses) ts = None"
    using Cons.prems by (auto simp: find_None_iff) (metis image_eqI)
  with Cons show ?case by (auto simp: recover_claim_hash split: option.splits)
qed (auto split: option.splits)

lemma find_unique:
  "distinct (map f xs) \<Longrightarrow> x \<in> set xs \<Longrightarrow> f x = k \<Longrightarrow>
   find (\<lambda>y. f y = k \<and> P y) xs = (if P x then Some x else None)"
proof (induction xs)
  case (Cons y ys)
  then show ?case by (auto simp: find_None_iff image_iff)
qed simp

lemma distinct_list_tasks: "distinct (map task_key repo) \<Longrightarrow> distinct (map task_key (list_tasks repo))"
  by (simp add: list_tasks_def o_def distinct_map inj_on_def)

lemma payload_hash_from_row [simp]: "payload_hash_for_task H (task_from_row r) = payload_hash_for_task H r"
  by (simp add: payload_hash_for_task_def task_from_row_def)

lemma recover_claims_hash:
  assumes "distinct (map task_key repo)" "r \<in> set repo"
  shows "claim_hash (recover_claims H repo) (task_key r) =
     (if tk_status r \<in> set active_statuses then Some (payload_hash_for_task H r) else None)"
proof -
  have "task_from_row r \<in> set (list_tasks repo)" using assms(2) by (simp add: list_tasks_def)
  moreover have "tk_status (task_from_row r) = tk_status r" by (simp add: task_from_row_def)
  ultimately show ?thesis
    unfolding recover_claims_def
    by (simp add: fold_recover_hash [OF distinct_list_tasks [OF assms(1)]] claim_hash_Nil
      find_unique [OF distinct_list_tasks [OF assms(1)], of "task_from_row r"])
qed

section \<open>Properties\<close>

text \<open>
  \<^verbatim>\<open>validate_owner_command_envelope\<close> accepts exactly the requests whose trimmed action,
  target, arguments and trace are not blank, whose arguments are a list, whose sender is the
  resolved principal, and none of whose recipients has an identifier of one known role and the type
  of another; the accepted envelope carries the trimmed values and the principal of the connector,
  never the sender's own claim about its role.
\<close>

theorem validate_envelope_exact:
  "validate_owner_command_envelope p pr override rid = Inr e \<longleftrightarrow>
     (\<exists>raw. oc_args p = ArgsList raw \<and>
        py_strip (oc_action p) \<noteq> [] \<and> py_strip (oc_target p) \<noteq> [] \<and>
        list_all (\<lambda>a. py_strip a \<noteq> []) raw \<and>
        py_strip (oc_sender_actor_id p) = pr_principal_id pr \<and>
        py_strip (or_str override (oc_trace_id p)) \<noteq> [] \<and>
        list_all recipient_consistent (oc_recipients p) \<and>
        e = \<lparr>env_request_id = rid, env_trace_id = py_strip (or_str override (oc_trace_id p)),
             env_principal_id = pr_principal_id pr, env_principal_role = pr_principal_role pr,
             env_trust_domain = pr_trust_domain pr, env_connector = pr_connector pr,
             env_command = py_strip (oc_action p), env_target = py_strip (oc_target p),
             env_args = map py_strip raw, env_metadata = envelope_metadata p,
             env_project_id = oc_project_id p, env_idempotency_key = oc_idempotency_key p\<rparr>)"
  using check_recipients_ok [of "oc_recipients p"]
  by (fastforce simp: validate_owner_command_envelope_def Let_def image_iff list_all_iff
      split: raw_args.splits option.splits if_splits)

text \<open>
  The role inferred from a recipient identifier does not depend on the order in which the known
  roles are tried: it is \<open>r\<close> exactly when \<open>r\<close> is a known role and the trimmed, lower-case identifier
  is \<open>r\<close> or starts with \<open>r\<close> and an underscore.
\<close>

theorem infer_role_unique:
  "infer_role_from_recipient_id i = Some r \<longleftrightarrow>
     r \<in> set known_roles \<and> role_matches (py_lower (py_strip i)) r"
proof -
  let ?i = "py_lower (py_strip i)"
  have nonempty: "\<not> role_matches [] r" if "r \<in> set known_roles"
    using that by (auto simp: role_matches_def known_roles_def py_startswith_def)
  show ?thesis
  proof
    assume "infer_role_from_recipient_id i = Some r"
    then show "r \<in> set known_roles \<and> role_matches ?i r"
      by (auto simp: infer_role_from_recipient_id_def Let_def find_Some_iff split: if_splits)
  next
    assume r: "r \<in> set known_roles \<and> role_matches ?i r"
    then obtain r' where r': "find (role_matches ?i) known_roles = Some r'"
      by (metis find_None_iff option.exhaust)
    then have "r' \<in> set known_roles" "role_matches ?i r'" by (auto simp: find_Some_iff)
    with r have "r' = r" using role_matches_unique by blast
    moreover have "?i \<noteq> []" using r nonempty by metis
    ultimately show "infer_role_from_recipient_id i = Some r"
      using r' by (simp add: infer_role_from_recipient_id_def Let_def)
  qed
qed

text \<open>
  C4: in every state a process reaches by admissions, failed insertions and status updates, two
  tasks never have the same principal and idempotency key, although the table's index on these
  columns is not unique.
\<close>

theorem one_task_per_key:
  assumes "(admission_step H)\<^sup>*\<^sup>* initial_admission st"
  shows "distinct (map task_key (ad_repo st))"
  using admission_steps_inv [OF assms admission_inv_initial] by (simp add: admission_inv_def)

text \<open>
  C3: within one process that started on an empty table, after an envelope was admitted as a new task,
  and whatever admissions and updates follow, an envelope with the same principal and key is answered
  from the stored claim: with the same payload hash it replays that very task, with another hash it is
  refused as a conflict, and in neither case does any state change or a second task appear. The claims
  live in the process: after a restart a resubmission may create a second task (\<open>restart_resubmission\<close>).
\<close>

theorem resubmission_outcome:
  assumes "(admission_step H)\<^sup>*\<^sup>* initial_admission st"
    and "admit_owner_command H st e i now fault = (Inr (t, False), st1)"
    and "(admission_step H)\<^sup>*\<^sup>* st1 st2"
    and "env_key e' = env_key e"
  shows "snd (admit_owner_command H st2 e' j now' fault') = st2 \<and>
     (if payload_hash H e' = payload_hash H e
      then \<exists>t'. fst (admit_owner_command H st2 e' j now' fault') = Inr (t', True) \<and> tk_task_id t' = tk_task_id t
      else \<exists>msg. fst (admit_owner_command H st2 e' j now' fault') =
             Inl (AdmissionIdempotencyError ''idempotency_key_reused_with_different_payload'' msg))"
proof -
  have inv: "admission_inv st" using admission_steps_inv [OF assms(1) admission_inv_initial] .
  have "admission_step H st st1" using assms(2) by (rule admission_step.admit)
  then have "admission_inv st1" using inv by (rule admission_step_inv)
  then have inv2: "admission_inv st2" using admission_steps_inv [OF assms(3)] by simp
  have "admitted st2 (env_key e') (payload_hash H e) (tk_task_id t)"
    using admission_steps_admitted [OF assms(3)] admit_success_admitted [OF inv assms(2)] assms(4) by simp
  then obtain r where h: "claim_hash (ad_dedupe st2) (env_key e') = Some (payload_hash H e)"
    and r: "r \<in> set (ad_repo st2)" "task_key r = env_key e'" "tk_task_id r = tk_task_id t"
    by (auto simp: admitted_def)
  show ?thesis
  proof (cases "payload_hash H e' = payload_hash H e")
    case True
    then show ?thesis
      using admit_replay [of st2 e' H r j now' fault'] h r inv2 by (simp add: admission_inv_def)
  next
    case False
    then show ?thesis using admit_conflict [OF h, of H j now' fault'] by simp
  qed
qed

text \<open>
  The payload hash does not cover the target, the project or the trace: an envelope that
  differs from an admitted one only in these is not a conflict but a replay, and it is answered
  with the first task, whose target is the first envelope's, although the error code promises that
  a key cannot be reused with a different payload.
\<close>

theorem retargeted_envelope_replays:
  assumes "(admission_step H)\<^sup>*\<^sup>* initial_admission st"
    and "admit_owner_command H st e i now fault = (Inr (t, False), st1)"
  shows "\<exists>t'. admit_owner_command H st1 (e\<lparr>env_target := target', env_project_id := project', env_trace_id := trace'\<rparr>) j now' fault' =
           (Inr (t', True), st1) \<and> tk_task_id t' = tk_task_id t \<and> tk_target t' = env_target e"
proof -
  let ?e = "e\<lparr>env_target := target', env_project_id := project', env_trace_id := trace'\<rparr>"
  have inv: "admission_inv st" using admission_steps_inv [OF assms(1) admission_inv_initial] .
  have keys: "env_key ?e = env_key e" "payload_hash H ?e = payload_hash H e"
    by (simp_all add: env_key_def payload_hash_def)
  have none: "claim_hash (ad_dedupe st) (env_key e) = None"
    using assms(2) replay_not_new [of st e H i now fault t] by force
  from assms(2) have "fst (admit_owner_command H st e i now fault) = Inr (t, False)"
    and "st1 = snd (admit_owner_command H st e i now fault)" by simp_all
  then have t: "t = new_task e i now" "new_task e i now \<in> set (ad_repo st1)"
    and h: "claim_hash (ad_dedupe st1) (env_key e) = Some (payload_hash H e)"
    by - (rule admit_fresh [OF none, of H i now fault], auto split: option.splits if_splits)+
  have inv1: "admission_inv st1" using admission_inv_admit [OF inv, of H e i now fault] assms(2) by simp
  have "admit_owner_command H st1 ?e j now' fault' = (Inr (task_from_row (new_task e i now), True), st1)"
    by (rule admit_replay) (use keys h t inv1 in \<open>simp_all add: admission_inv_def\<close>)
  then show ?thesis
    by (simp add: t(1)) (simp add: new_task_def task_from_row_def)
qed

text \<open>
  When the insertion of a new task fails, its claim stays: every later submission of that
  envelope in the same process, even with a working database, is refused with
  \<^verbatim>\<open>idempotency_state_missing\<close> and changes nothing.
\<close>

theorem failed_insert_blocks_key:
  assumes "(admission_step H)\<^sup>*\<^sup>* initial_admission st"
    and "claim_hash (ad_dedupe st) (env_key e) = None"
    and "admit_owner_command H st e i now (Some x) = (r, st1)"
  shows "admit_owner_command H st1 e j now' fault' =
    (Inl (AdmissionIdempotencyError ''idempotency_state_missing''
       ''existing idempotency claim has no recoverable task state''), st1)"
proof -
  have inv: "admission_inv st" using admission_steps_inv [OF assms(1) admission_inv_initial] .
  then have "\<forall>r \<in> set (ad_repo st). task_key r \<noteq> env_key e"
    using assms(2) by (auto simp: admission_inv_def)
  then have "filter (\<lambda>r. tk_principal_id r = env_principal_id e \<and> tk_idempotency_key r = env_idempotency_key e)
      (ad_repo st) = []"
    by (auto simp: filter_empty_conv task_key_def env_key_def)
  then have none: "get_task_by_principal_and_idempotency (ad_repo st) (env_principal_id e) (env_idempotency_key e) = None"
    by (simp add: get_task_by_principal_and_idempotency_def)
  have "map_of (ad_dedupe st) (env_key e) = None" using assms(2) by (simp add: claim_hash_def)
  with assms(3) none show ?thesis
    by (auto simp: admit_owner_command_def resolve_admission_def dedupe_claim_def env_key_def map_of_dict_put Let_def)
qed

text \<open>
  Start-up recovery. After a restart, a stored task that is queued, dispatched, running or
  blocked still answers a resubmission of its envelope with a replay of itself; a task in any other
  status, in particular \<^verbatim>\<open>authorized\<close> (which is not terminal), lost its claim, and the
  resubmission creates a second task for the same key.
\<close>

theorem restart_resubmission:
  assumes "(admission_step H)\<^sup>*\<^sup>* initial_admission st"
    and "r \<in> set (ad_repo st)" and "task_key r = env_key e"
    and "payload_hash H e = payload_hash_for_task H r"
    and "find_row (ad_repo st) j = None"
  shows "if tk_status r \<in> set active_statuses
     then admit_owner_command H (restart H st) e j now None = (Inr (task_from_row r, True), restart H st)
     else fst (admit_owner_command H (restart H st) e j now None) = Inr (new_task e j now, False) \<and>
          ad_repo (snd (admit_owner_command H (restart H st) e j now None)) = ad_repo st @ [new_task e j now]"
proof -
  have inv: "admission_inv st" using admission_steps_inv [OF assms(1) admission_inv_initial] .
  then have dist: "distinct (map task_key (ad_repo st))" by (simp add: admission_inv_def)
  have h: "claim_hash (ad_dedupe (restart H st)) (env_key e) =
     (if tk_status r \<in> set active_statuses then Some (payload_hash H e) else None)"
    using recover_claims_hash [OF dist assms(2), of H] assms(3,4) by (simp add: restart_def)
  have repo: "ad_repo (restart H st) = ad_repo st" by (simp add: restart_def)
  show ?thesis
  proof (cases "tk_status r \<in> set active_statuses")
    case True
    then show ?thesis
      using admit_replay [of "restart H st" e H r j now None] h repo dist assms(2,3) by simp
  next
    case False
    with h have none: "claim_hash (ad_dedupe (restart H st)) (env_key e) = None" by simp
    show ?thesis
      by (rule admit_fresh [OF none, of H j now None]) (use False repo assms(5) in simp)
  qed
qed

section \<open>Witnesses\<close>

text \<open>A digest that keeps all the fields apart, and the process after one admission.\<close>

definition demo_digest :: "hashed_payload \<Rightarrow> string" where
  "demo_digest p = py_join ''|'' (hp_principal_id p # hp_connector p # hp_command p # hp_idempotency_key p # hp_args p)"

definition demo_admitted :: admission_state where
  "demo_admitted = snd (admit_owner_command demo_digest initial_admission demo_envelope ''t-1'' 0 None)"

lemma demo_admission:
  "admit_owner_command demo_digest initial_admission demo_envelope ''t-1'' 0 None =
     (Inr (new_task demo_envelope ''t-1'' 0, False), demo_admitted)"
  by (simp add: demo_admitted_def admit_owner_command_def resolve_admission_def dedupe_claim_def initial_admission_def
      Let_def create_task_from_envelope_def find_row_def)

lemma demo_admitted_reached: "(admission_step demo_digest)\<^sup>*\<^sup>* initial_admission demo_admitted"
  using admission_step.admit [OF demo_admission] by auto

lemma demo_admitted_repo: "ad_repo demo_admitted = [new_task demo_envelope ''t-1'' 0]"
  by (simp add: demo_admitted_def admit_owner_command_def resolve_admission_def dedupe_claim_def initial_admission_def
      Let_def create_task_from_envelope_def find_row_def)

lemma one_task_per_key_witness: "distinct (map task_key (ad_repo demo_admitted))"
  by (rule one_task_per_key [OF demo_admitted_reached])

lemma resubmission_outcome_witness:
  "snd (admit_owner_command demo_digest demo_admitted (demo_envelope\<lparr>env_args := [''b'']\<rparr>) ''t-2'' 1 None) = demo_admitted \<and>
   (\<exists>msg. fst (admit_owner_command demo_digest demo_admitted (demo_envelope\<lparr>env_args := [''b'']\<rparr>) ''t-2'' 1 None) =
      Inl (AdmissionIdempotencyError ''idempotency_key_reused_with_different_payload'' msg))"
  using resubmission_outcome [OF rtranclp.rtrancl_refl demo_admission rtranclp.rtrancl_refl,
      of "demo_envelope\<lparr>env_args := [''b'']\<rparr>" "''t-2''" 1 None]
  by (simp add: env_key_def payload_hash_def demo_digest_def demo_envelope_def)

lemma retargeted_envelope_replays_witness:
  "\<exists>t'. admit_owner_command demo_digest demo_admitted
      (demo_envelope\<lparr>env_target := ''communication'', env_project_id := None, env_trace_id := ''trace-2''\<rparr>) ''t-2'' 1 None =
        (Inr (t', True), demo_admitted) \<and> tk_task_id t' = ''t-1'' \<and> tk_target t' = ''sandbox''"
  using retargeted_envelope_replays [OF rtranclp.rtrancl_refl demo_admission,
      of "''trace-2''" None "''communication''" "''t-2''" 1 None]
  by (simp add: new_task_def demo_envelope_def)

lemma failed_insert_blocks_key_witness:
  "fst (admit_owner_command demo_digest
      (snd (admit_owner_command demo_digest initial_admission demo_envelope ''t-1'' 0 (Some (OtherExn ''db down''))))
      demo_envelope ''t-2'' 1 None) =
   Inl (AdmissionIdempotencyError ''idempotency_state_missing''
       ''existing idempotency claim has no recoverable task state'')"
  by (subst failed_insert_blocks_key [where st = initial_admission and x = "OtherExn ''db down''"
        and H = demo_digest and e = demo_envelope and i = "''t-1''" and now = 0])
    (simp_all add: initial_admission_def prod_eq_iff)

definition demo_authorized :: admission_state where
  "demo_authorized = demo_admitted\<lparr>ad_repo :=
     snd (update_task_status (ad_repo demo_admitted) ''t-1'' ''authorized'' no_update)\<rparr>"

lemma restart_resubmission_witness:
  "fst (admit_owner_command demo_digest (restart demo_digest demo_authorized) demo_envelope ''t-2'' 1 None) =
     Inr (new_task demo_envelope ''t-2'' 1, False)"
proof -
  have reached: "(admission_step demo_digest)\<^sup>*\<^sup>* initial_admission demo_authorized"
    unfolding demo_authorized_def
    using demo_admitted_reached admission_step.update [OF surjective_pairing] by (rule rtranclp.rtrancl_into_rtrancl)
  have repo: "ad_repo demo_authorized = [set_row (new_task demo_envelope ''t-1'' 0) ''authorized'' no_update]"
    by (simp add: demo_authorized_def demo_admitted_repo update_task_status_eq find_row_def may_move_def task_step_def
        new_task_def status_simps)
  show ?thesis
    using restart_resubmission [OF reached, of "hd (ad_repo demo_authorized)" demo_envelope "''t-2''" 1]
    by (simp add: repo payload_hash_def payload_hash_for_task_def set_row_def new_task_def task_key_def env_key_def
        find_row_def active_statuses_def)
qed

end
