(* ===== verification/Policy.thy ===== *)
theory Policy
  imports Admission
begin

text \<open>
  The policy runtime integration (\<^verbatim>\<open>policy_runtime_integration/\<close>): the request and
  result types of \<^verbatim>\<open>models.py\<close>, the OPA client of \<^verbatim>\<open>client.py\<close>, the
  fail-closed guard of \<^verbatim>\<open>fail_closed.py\<close> and the input normaliser.

  The OPA server is outside the program: a parameter gives its answer to the n-th request of a
  run, since two requests with the same input may be answered differently. An answer is what the
  client can observe of it: an exception of the HTTP library, or a status code with a body. The
  text fields of a decision document are strings and its list fields lists of strings, as the
  policy bundle writes them; each may be absent.
\<close>

section \<open>Requests, answers and results\<close>

record policy_input =
  pi_task_id :: string
  pi_request_id :: string
  pi_trace_id :: string
  pi_principal_id :: string
  pi_principal_role :: string
  pi_trust_domain :: string
  pi_connector :: string
  pi_action :: string
  pi_target :: string
  pi_recipient_types :: "string list"
  pi_recipient_ids :: "string list"
  pi_args :: "string list"
  pi_project_id :: "string option"

record policy_result =
  po_decision :: string
  po_reason_code :: string
  po_reason_message :: string
  po_policy_version :: string
  po_policy_hash :: string
  po_rule_ids :: "string list"
  po_obligations :: "string list"

record opa_document =
  od_decision :: "string option"
  od_reason_code :: "string option"
  od_reason_message :: "string option"
  od_policy_version :: "string option"
  od_policy_hash :: "string option"
  od_rule_ids :: "string list option"
  od_obligations :: "string list option"

text \<open>
  The body of an answer: not a JSON object, an object whose \<^verbatim>\<open>result\<close> is missing or null, one
  whose result is not an object, and one whose result is a decision document.
\<close>

datatype opa_body = BodyUnparsable string | BodyEmpty | BodyNoObject | BodyDocument opa_document

datatype opa_answer = OpaTransportError string | OpaCallFailed string | OpaHttp nat opa_body

type_synonym opa = "nat \<Rightarrow> policy_input \<Rightarrow> opa_answer"

section \<open>The client\<close>

definition get_or :: "'a option \<Rightarrow> 'a \<Rightarrow> 'a" where
  "get_or x d = (case x of None \<Rightarrow> d | Some v \<Rightarrow> v)"

definition policy_fail_closed_result :: "string \<Rightarrow> policy_result" where
  "policy_fail_closed_result reason = \<lparr>po_decision = ''deny'',
     po_reason_code = ''POL-003'',
     po_reason_message = ''policy evaluation failed (fail-closed): '' @ reason,
     po_policy_version = ''unknown'',
     po_policy_hash = ''unknown'',
     po_rule_ids = [''POL-003''],
     po_obligations = []\<rparr>"

definition deserialize_result :: "opa_document \<Rightarrow> policy_result" where
  "deserialize_result raw = \<lparr>po_decision = get_or (od_decision raw) ''deny'',
     po_reason_code = get_or (od_reason_code raw) ''opa_result_parse_error'',
     po_reason_message = get_or (od_reason_message raw) ''unexpected OPA response structure'',
     po_policy_version = get_or (od_policy_version raw) ''unknown'',
     po_policy_hash = get_or (od_policy_hash raw) ''unknown'',
     po_rule_ids = get_or (od_rule_ids raw) [],
     po_obligations = get_or (od_obligations raw) []\<rparr>"

text \<open>
  \<^verbatim>\<open>evaluate\<close> is \<^verbatim>\<open>_query_opa\<close>. The document is read outside the
  \<^verbatim>\<open>try\<close>: a result that is not an object has no \<^verbatim>\<open>get\<close>, and the
  \<^verbatim>\<open>AttributeError\<close> leaves the client.
\<close>

definition query_opa :: "opa_answer \<Rightarrow> py_exn + policy_result" where
  "query_opa answer =
     (case answer of
        OpaTransportError x \<Rightarrow> Inr (policy_fail_closed_result (''OPA transport error: '' @ x))
      | OpaCallFailed x \<Rightarrow> Inr (policy_fail_closed_result (''OPA call failed: '' @ x))
      | OpaHttp code body \<Rightarrow>
          if code \<noteq> 200 then Inr (policy_fail_closed_result (''OPA returned HTTP '' @ show_nat code))
          else case body of
            BodyUnparsable x \<Rightarrow> Inr (policy_fail_closed_result (''OPA response parse error: '' @ x))
          | BodyEmpty \<Rightarrow> Inr (policy_fail_closed_result ''OPA returned empty result (no matching rule)'')
          | BodyNoObject \<Rightarrow> Inl (OtherExn ''AttributeError'')
          | BodyDocument raw \<Rightarrow> Inr (deserialize_result raw))"

definition policy_evaluate :: "opa \<Rightarrow> nat \<Rightarrow> policy_input \<Rightarrow> py_exn + policy_result" where
  "policy_evaluate server n payload = query_opa (server n payload)"

section \<open>The fail-closed guard\<close>

record policy_outcome =
  pf_allowed :: bool
  pf_error_code :: "string option"
  pf_message :: string
  pf_policy_result :: "policy_result option"

definition evaluate_with_fail_closed :: "py_exn + policy_result \<Rightarrow> policy_outcome" where
  "evaluate_with_fail_closed answer =
     (case answer of
        Inl x \<Rightarrow> \<lparr>pf_allowed = False, pf_error_code = Some ''policy_runtime_error_fail_closed'',
                  pf_message = ''policy evaluation failed: '' @ exn_text x, pf_policy_result = None\<rparr>
      | Inr result \<Rightarrow>
          if po_decision result \<in> {''allow'', ''allow_with_obligations''}
          then \<lparr>pf_allowed = True, pf_error_code = None, pf_message = ''policy allowed command'',
                pf_policy_result = Some result\<rparr>
          else if po_decision result = ''deny''
          then \<lparr>pf_allowed = False, pf_error_code = Some (po_reason_code result),
                pf_message = po_reason_message result, pf_policy_result = Some result\<rparr>
          else \<lparr>pf_allowed = False, pf_error_code = Some ''policy_uncertain_fail_closed'',
                pf_message = ''policy decision uncertain; fail-closed block applied'',
                pf_policy_result = Some result\<rparr>)"

definition policy_guard :: "opa \<Rightarrow> nat \<Rightarrow> policy_input \<Rightarrow> policy_outcome" where
  "policy_guard server n payload = evaluate_with_fail_closed (policy_evaluate server n payload)"

section \<open>The input normaliser\<close>

definition metadata_tokens :: "string \<Rightarrow> string list" where
  "metadata_tokens raw = filter (\<lambda>t. t \<noteq> []) (map (\<lambda>v. py_lower (py_strip v)) (py_split (CHR '','') raw))"

definition normalize_policy_input :: "task_record \<Rightarrow> policy_input" where
  "normalize_policy_input t =
     (let field = (\<lambda>k. case dict_get (tk_metadata t) k of None \<Rightarrow> [] | Some v \<Rightarrow> v)
      in \<lparr>pi_task_id = tk_task_id t,
          pi_request_id = tk_request_id t,
          pi_trace_id = tk_trace_id t,
          pi_principal_id = tk_principal_id t,
          pi_principal_role = tk_principal_role t,
          pi_trust_domain = tk_trust_domain t,
          pi_connector = tk_connector t,
          pi_action = tk_command t,
          pi_target = tk_target t,
          pi_recipient_types = metadata_tokens (field ''recipient_types''),
          pi_recipient_ids = metadata_tokens (field ''recipient_ids''),
          pi_args = tk_args t,
          pi_project_id = tk_project_id t\<rparr>)"

section \<open>Lemmas\<close>

lemma guard_allowed_iff:
  "pf_allowed (evaluate_with_fail_closed r) =
     (\<exists>result. r = Inr result \<and> po_decision result \<in> {''allow'', ''allow_with_obligations''})"
  by (auto simp: evaluate_with_fail_closed_def split: sum.splits)

lemma guard_error_code: "pf_allowed (evaluate_with_fail_closed r) = (pf_error_code (evaluate_with_fail_closed r) = None)"
  by (auto simp: evaluate_with_fail_closed_def split: sum.splits)

lemma metadata_tokens_join:
  assumes "\<And>t. t \<in> set ts \<Longrightarrow> t \<noteq> [] \<and> CHR '','' \<notin> set t"
  shows "metadata_tokens (py_join '','' ts) = filter (\<lambda>t. t \<noteq> []) (map (\<lambda>v. py_lower (py_strip v)) ts)"
  using assms by (cases "ts = []") (simp_all add: metadata_tokens_def py_split_join)

lemma filter_map_id: "(\<And>t. t \<in> set ts \<Longrightarrow> f t = t \<and> P t) \<Longrightarrow> filter P (map f ts) = ts"
  by (induction ts) auto

text \<open>The recipient types a request names, trimmed and in lower case, without blanks.\<close>

definition request_recipient_types :: "owner_command \<Rightarrow> string list" where
  "request_recipient_types p =
     py_sorted_set (filter (\<lambda>t. t \<noteq> []) (map (\<lambda>r. py_lower (py_strip (rc_recipient_type r))) (oc_recipients p)))"

lemma metadata_recipient_types:
  "dict_get (envelope_metadata p) ''recipient_types'' = Some (py_join '','' (request_recipient_types p))"
  unfolding envelope_metadata_def Let_def request_recipient_types_def
  by (rule dict_get_sort) simp_all

lemma request_type_normal: "t \<in> set (request_recipient_types p) \<Longrightarrow> t \<noteq> [] \<and> py_lower (py_strip t) = t"
  by (auto simp: request_recipient_types_def py_strip_lower)

section \<open>Properties\<close>

text \<open>
  C27: the guard fails closed. It lets a command pass exactly when the policy server answered with
  status 200 and a decision document whose decision is \<^verbatim>\<open>allow\<close> or
  \<^verbatim>\<open>allow_with_obligations\<close>; a transport error, any other status, an unreadable or empty body, a
  missing or unknown decision are all refused, and a refusal always carries an error code.
\<close>

theorem policy_guard_fails_closed:
  "pf_allowed (policy_guard server n p) =
     (\<exists>doc d. server n p = OpaHttp 200 (BodyDocument doc) \<and> od_decision doc = Some d \<and>
        (d = ''allow'' \<or> d = ''allow_with_obligations''))
   \<and> (pf_error_code (policy_guard server n p) = None) = pf_allowed (policy_guard server n p)"
proof -
  have "po_decision (policy_fail_closed_result x) = ''deny''" for x
    by (simp add: policy_fail_closed_result_def)
  then show ?thesis
    unfolding policy_guard_def guard_error_code [symmetric] guard_allowed_iff policy_evaluate_def query_opa_def
    by (auto simp: deserialize_result_def get_or_def split: opa_answer.splits opa_body.splits option.splits)
qed

text \<open>
  The recipient types of a request reach the policy server unchanged through the envelope's
  metadata, the stored task and the normaliser, as the sorted set of the trimmed lower-case types,
  provided no type contains the comma that separates them in the metadata.
\<close>

theorem recipient_types_reach_policy:
  assumes "validate_owner_command_envelope p pr override rid = Inr e"
    and "\<And>r. r \<in> set (oc_recipients p) \<Longrightarrow> CHR '','' \<notin> set (py_lower (py_strip (rc_recipient_type r)))"
  shows "pi_recipient_types (normalize_policy_input (task_from_row (new_task e i now))) =
     py_sorted_set (filter (\<lambda>t. t \<noteq> []) (map (\<lambda>r. py_lower (py_strip (rc_recipient_type r))) (oc_recipients p)))"
proof -
  have meta: "env_metadata e = envelope_metadata p"
    using assms(1) by (auto simp: validate_owner_command_envelope_def Let_def split: raw_args.splits option.splits if_splits)
  have no_comma: "CHR '','' \<notin> set t" if "t \<in> set (request_recipient_types p)" for t
    using that assms(2) by (auto simp: request_recipient_types_def)
  have "metadata_tokens (py_join '','' (request_recipient_types p)) = request_recipient_types p"
    using no_comma request_type_normal
    by (subst metadata_tokens_join, blast) (rule filter_map_id, blast)
  then show ?thesis
    by (simp add: normalize_policy_input_def Let_def task_from_row_def new_task_def meta metadata_recipient_types)
      (simp add: request_recipient_types_def)
qed

section \<open>Witnesses\<close>

definition demo_command :: owner_command where
  "demo_command = \<lparr>oc_message_id = ''m-1'', oc_trace_id = ''trace-1'', oc_sender_actor_id = ''owner-1'',
     oc_sender_actor_role = ''owner'',
     oc_recipients = [\<lparr>rc_recipient_id = ''ceo_1'', rc_recipient_type = '' CEO ''\<rparr>,
                      \<lparr>rc_recipient_id = ''auditor_1'', rc_recipient_type = ''auditor''\<rparr>],
     oc_message_type = ''command'', oc_priority = ''normal'', oc_content = ''run'', oc_project_id = Some ''p-1'', oc_connector_channel = ''discord'',
     oc_external_message_id = ''x-1'', oc_actor_external_id = ''owner-1'', oc_idempotency_key = ''key-1'', oc_raw_payload_hash = ''h'',
     oc_discord_context = None, oc_action = ''run_task'', oc_target = ''sandbox'', oc_args = ArgsList [''a'']\<rparr>"

definition demo_principal :: principal where
  "demo_principal = \<lparr>pr_principal_id = ''owner-1'', pr_connector = ''discord'', pr_principal_role = ''owner'',
     pr_trust_domain = ''discord''\<rparr>"

lemma demo_command_valid: "\<exists>e. validate_owner_command_envelope demo_command demo_principal None ''req-1'' = Inr e"
proof -
  have "case validate_owner_command_envelope demo_command demo_principal None ''req-1'' of Inl _ \<Rightarrow> False | Inr _ \<Rightarrow> True"
    by code_simp
  then show ?thesis by (auto split: sum.splits)
qed

lemma recipient_types_reach_policy_witness:
  "\<exists>e. validate_owner_command_envelope demo_command demo_principal None ''req-1'' = Inr e \<and>
     pi_recipient_types (normalize_policy_input (task_from_row (new_task e ''t-1'' 0))) = [''auditor'', ''ceo'']"
proof -
  obtain e where e: "validate_owner_command_envelope demo_command demo_principal None ''req-1'' = Inr e"
    using demo_command_valid by blast
  have types: "map (\<lambda>r. py_lower (py_strip (rc_recipient_type r))) (oc_recipients demo_command) = [''ceo'', ''auditor'']"
    by code_simp
  then have "CHR '','' \<notin> set (py_lower (py_strip (rc_recipient_type r)))" if "r \<in> set (oc_recipients demo_command)" for r
    using that by (auto simp: demo_command_def)
  from recipient_types_reach_policy [OF e this, of "''t-1''" 0]
  have "pi_recipient_types (normalize_policy_input (task_from_row (new_task e ''t-1'' 0))) =
      py_sorted_set (filter (\<lambda>t. t \<noteq> []) [''ceo'', ''auditor''])"
    unfolding types by simp
  moreover have "py_sorted_set (filter (\<lambda>t. t \<noteq> []) [''ceo'', ''auditor'']) = [''auditor'', ''ceo'']"
    by code_simp
  ultimately show ?thesis using e by metis
qed

end
