(* ===== verification/Audit_Trail.thy ===== *)
theory Audit_Trail
  imports Budget Policy
begin

text \<open>
  The audit trail and the services the workflow works on.
  \<^item> \<^verbatim>\<open>observability/audit/audit_writer.py\<close> and
    \<^verbatim>\<open>data_access/repositories/postgres/audit_event_repository.py\<close>: \<open>write_event\<close> appends one
    row or raises, in which case nothing is appended; the OpenTelemetry record after it cannot
    fail the call. A row has the columns of \<^verbatim>\<open>audit_events\<close> except its identifier and
    instant; rows stay in the order of their insertion.
  \<^item> \<^verbatim>\<open>WorkflowServices\<close> of \<^verbatim>\<open>workflow/state_models.py\<close>: the record \<open>services\<close> holds
    what the services keep between calls, and \<open>environment\<close> what the run brings from outside:
    identifiers, instants, database failures, the policy server, the seccomp profile files.
\<close>

section \<open>Audit rows\<close>

type_synonym payload = "(string \<times> string option) list"

record audit_row =
  au_event_type :: string
  au_trace_id :: string
  au_task_id :: "string option"
  au_principal_id :: "string option"
  au_principal_role :: "string option"
  au_action :: string
  au_decision :: string
  au_rule_ids :: "string list"
  au_payload :: payload

record audit_log =
  lg_rows :: "audit_row list"
  lg_attempts :: nat

text \<open>The arguments of one call; an empty payload is replaced by the default one.\<close>

record audit_call =
  aw_event_type :: string
  aw_outcome :: string
  aw_trace_id :: string
  aw_request_id :: "string option"
  aw_task_id :: "string option"
  aw_principal_id :: "string option"
  aw_principal_role :: "string option"
  aw_source :: string
  aw_reason_code :: "string option"
  aw_message :: string
  aw_rule_ids :: "string list"
  aw_payload :: payload

definition audit_payload :: "audit_call \<Rightarrow> payload" where
  "audit_payload c =
     (if aw_payload c \<noteq> [] then aw_payload c
      else [(''outcome'', Some (aw_outcome c)), (''source'', Some (aw_source c)), (''message'', Some (aw_message c)),
            (''request_id'', nonempty_opt (aw_request_id c)), (''task_id'', nonempty_opt (aw_task_id c)),
            (''reason_code'', nonempty_opt (aw_reason_code c))])"

definition write_event :: "(nat \<Rightarrow> py_exn option) \<Rightarrow> audit_call \<Rightarrow> audit_log \<Rightarrow> (py_exn, unit, audit_log) run" where
  "write_event fault c lg =
     (let lg' = lg\<lparr>lg_attempts := Suc (lg_attempts lg)\<rparr>
      in case fault (lg_attempts lg) of
           Some x \<Rightarrow> (Inl x, lg')
         | None \<Rightarrow> (Inr (), lg'\<lparr>lg_rows := lg_rows lg @
             [\<lparr>au_event_type = aw_event_type c, au_trace_id = aw_trace_id c, au_task_id = aw_task_id c,
               au_principal_id = aw_principal_id c, au_principal_role = aw_principal_role c,
               au_action = aw_source c, au_decision = aw_outcome c, au_rule_ids = sort (aw_rule_ids c),
               au_payload = audit_payload c\<rparr>]\<rparr>))"

section \<open>The environment and the services\<close>

record environment =
  en_uuid :: "nat \<Rightarrow> string"
  en_clock :: "nat \<Rightarrow> time"
  en_audit_fault :: "nat \<Rightarrow> py_exn option"
  en_budget_fault :: "nat \<Rightarrow> string \<Rightarrow> py_exn option"
  en_opa :: opa
  en_profile_exists :: "string \<Rightarrow> bool"

record services =
  sv_repo :: task_repo
  sv_budget :: budget_service
  sv_audit :: audit_log
  sv_policy_calls :: nat
  sv_draws :: nat

text \<open>Drawing an identifier and an instant.\<close>

definition draw :: "environment \<Rightarrow> ('a services_scheme) \<Rightarrow> (string \<times> time) \<times> ('a services_scheme)" where
  "draw env s = ((en_uuid env (sv_draws s), en_clock env (sv_draws s)), s\<lparr>sv_draws := Suc (sv_draws s)\<rparr>)"

text \<open>The operations of the single services, lifted to the record.\<close>

definition audit ::
  "environment \<Rightarrow> audit_call \<Rightarrow> ('a services_scheme) \<Rightarrow> (py_exn, unit, 'a services_scheme) run" where
  "audit env c s =
     (case write_event (en_audit_fault env) c (sv_audit s) of (r, lg) \<Rightarrow> (r, s\<lparr>sv_audit := lg\<rparr>))"

definition set_status ::
  "string \<Rightarrow> string \<Rightarrow> status_update \<Rightarrow> ('a services_scheme) \<Rightarrow> (py_exn, task_record option, 'a services_scheme) run" where
  "set_status task_id status u s =
     (case update_task_status (sv_repo s) task_id status u of (r, repo) \<Rightarrow> (r, s\<lparr>sv_repo := repo\<rparr>))"

definition ask_policy :: "environment \<Rightarrow> policy_input \<Rightarrow> ('a services_scheme) \<Rightarrow> policy_outcome \<times> ('a services_scheme)" where
  "ask_policy env p s = (policy_guard (en_opa env) (sv_policy_calls s) p, s\<lparr>sv_policy_calls := Suc (sv_policy_calls s)\<rparr>)"

definition reserve_budget ::
  "environment \<Rightarrow> task_record \<Rightarrow> ('a services_scheme) \<Rightarrow> budget_outcome \<times> ('a services_scheme)" where
  "reserve_budget env t s =
     (let ((rid, now), s1) = draw env s;
          (outcome, b) = reserve_with_fail_closed
            \<lparr>bc_task = t, bc_fault = en_budget_fault env (sv_draws s), bc_rid = rid, bc_now = now\<rparr> (sv_budget s1)
      in (outcome, s1\<lparr>sv_budget := b\<rparr>))"

section \<open>Lemmas\<close>

lemma audit_frame [frame_simps]:
  "sv_repo (snd (audit env c s)) = sv_repo s" "sv_budget (snd (audit env c s)) = sv_budget s"
  "sv_policy_calls (snd (audit env c s)) = sv_policy_calls s" "sv_draws (snd (audit env c s)) = sv_draws s"
  "services.more (snd (audit env c s)) = services.more s"
  by (simp_all add: audit_def case_prod_beta)

lemma set_status_frame [frame_simps]:
  "sv_budget (snd (set_status i st u s)) = sv_budget s" "sv_audit (snd (set_status i st u s)) = sv_audit s"
  "sv_policy_calls (snd (set_status i st u s)) = sv_policy_calls s" "sv_draws (snd (set_status i st u s)) = sv_draws s"
  "sv_repo (snd (set_status i st u s)) = snd (update_task_status (sv_repo s) i st u)"
  "fst (set_status i st u s) = fst (update_task_status (sv_repo s) i st u)"
  "services.more (snd (set_status i st u s)) = services.more s"
  by (simp_all add: set_status_def case_prod_beta)

lemma reserve_budget_frame [frame_simps]:
  "sv_repo (snd (reserve_budget env t s)) = sv_repo s" "sv_audit (snd (reserve_budget env t s)) = sv_audit s"
  "sv_policy_calls (snd (reserve_budget env t s)) = sv_policy_calls s"
  "services.more (snd (reserve_budget env t s)) = services.more s"
  by (simp_all add: reserve_budget_def draw_def Let_def case_prod_beta)

lemma reserve_budget_remembered:
  "budget_answer (sv_budget (snd (reserve_budget env t s))) (tk_task_id t) = Some (fst (reserve_budget env t s))"
  using budget_memo.answer_stored [of "\<lparr>bc_task = t, bc_fault = en_budget_fault env (sv_draws s),
      bc_rid = en_uuid env (sv_draws s), bc_now = en_clock env (sv_draws s)\<rparr>" "sv_budget s"]
  by (simp add: reserve_budget_def draw_def Let_def case_prod_beta)

lemma reserve_budget_keeps:
  "budget_answer (sv_budget s) i = Some b \<Longrightarrow> budget_answer (sv_budget (snd (reserve_budget env t s))) i = Some b"
  by (simp add: reserve_budget_def draw_def Let_def case_prod_beta budget_memo.answer_stays)

lemma audit_appends: "\<exists>rows. lg_rows (sv_audit (snd (audit env c s))) = lg_rows (sv_audit s) @ rows"
  by (auto simp: audit_def write_event_def Let_def case_prod_beta split: option.splits)

end
