(* ===== verification/Delivery_Store.thy ===== *)
theory Delivery_Store
  imports Audit_Trail
begin

text \<open>
  The state of the communication gateway.
  \<^item> \<^verbatim>\<open>data_access/repositories/communication.py\<close> and
    \<^verbatim>\<open>communication_gateway/storage/message_ledger.py\<close>: the message ledger
    (\<open>begin_dispatch\<close>, \<open>mark_sent\<close>, \<open>mark_acked\<close>, \<open>mark_nacked\<close>);
  \<^item> \<^verbatim>\<open>communication_gateway/storage/idempotency_store.py\<close>: the in-process delivery store
    (\<open>claim_local\<close>, \<open>increment_attempt\<close>, \<open>complete\<close>), and
    \<^verbatim>\<open>data_access/repositories/postgres/idempotency_cache_store.py\<close>: the claim of the Redis
    store (\<open>claim_redis\<close>), on the same records;
  \<^item> \<^verbatim>\<open>communication_gateway/delivery/retry_scheduler.py\<close>: \<open>schedule_next\<close>,
    \<open>backoff_seconds_for_attempt\<close>.

  The ledger dictionary is an association list in insertion order. The per-task index of the
  ledger, which only its listings read, is computed from it.
\<close>

section \<open>The message ledger\<close>

datatype ledger_state = Prepared | Sent | Acked | Nacked

record ledger_transition =
  lt_state :: ledger_state
  lt_changed_at :: time
  lt_reason_code :: string
  lt_message :: string
  lt_retryable :: "bool option"

record message_record =
  mr_ledger_id :: string
  mr_task_id :: string
  mr_trace_id :: string
  mr_message_id :: string
  mr_external_message_id :: string
  mr_connector :: string
  mr_command :: string
  mr_target :: string
  mr_route_key :: string
  mr_endpoint :: string
  mr_attempt :: int
  mr_state :: ledger_state
  mr_dispatch_id :: "string option"
  mr_delivery_id :: "string option"
  mr_retryable :: "bool option"
  mr_error_code :: "string option"
  mr_error_message :: "string option"
  mr_transitions :: "ledger_transition list"
  mr_created_at :: time
  mr_updated_at :: time

type_synonym ledger = "(string \<times> message_record) list"

definition allowed_transitions :: "ledger_state \<Rightarrow> ledger_state list" where
  "allowed_transitions st = (case st of Prepared \<Rightarrow> [Sent, Nacked] | Sent \<Rightarrow> [Acked, Nacked] | Acked \<Rightarrow> [] | Nacked \<Rightarrow> [])"

definition ledger_step :: "ledger_state \<Rightarrow> ledger_state \<Rightarrow> bool" where
  "ledger_step s t = (t \<in> set (allowed_transitions s))"

definition ledger_terminal :: "ledger_state \<Rightarrow> bool" where
  "ledger_terminal s = (s = Acked \<or> s = Nacked)"

text \<open>\<^verbatim>\<open>PublishRequest\<close> of \<^verbatim>\<open>delivery/publisher.py\<close>.\<close>

record publish_request =
  pq_task_id :: string
  pq_trace_id :: string
  pq_principal_id :: string
  pq_idempotency_key :: string
  pq_message_id :: string
  pq_external_message_id :: string
  pq_connector :: string
  pq_command :: string
  pq_target :: string
  pq_args :: "string list"
  pq_project_id :: "string option"
  pq_route_key :: string
  pq_endpoint :: string

definition prepared_record :: "publish_request \<Rightarrow> int \<Rightarrow> string \<Rightarrow> time \<Rightarrow> message_record" where
  "prepared_record p attempt ledger_id now = \<lparr>mr_ledger_id = ledger_id,
     mr_task_id = pq_task_id p,
     mr_trace_id = pq_trace_id p,
     mr_message_id = pq_message_id p,
     mr_external_message_id = pq_external_message_id p,
     mr_connector = pq_connector p,
     mr_command = pq_command p,
     mr_target = pq_target p,
     mr_route_key = pq_route_key p,
     mr_endpoint = pq_endpoint p,
     mr_attempt = attempt,
     mr_state = Prepared,
     mr_dispatch_id = None,
     mr_delivery_id = None,
     mr_retryable = None,
     mr_error_code = None,
     mr_error_message = None,
     mr_transitions = [\<lparr>lt_state = Prepared, lt_changed_at = now, lt_reason_code = ''dispatch_started'',
                        lt_message = ''dispatch pipeline started'', lt_retryable = None\<rparr>],
     mr_created_at = now,
     mr_updated_at = now\<rparr>"

definition begin_dispatch :: "ledger \<Rightarrow> publish_request \<Rightarrow> int \<Rightarrow> string \<Rightarrow> time \<Rightarrow> message_record \<times> ledger" where
  "begin_dispatch l p attempt ledger_id now =
     (let r = prepared_record p attempt ledger_id now in (r, dict_put l ledger_id r))"

fun show_ledger_state :: "ledger_state \<Rightarrow> string" where
  "show_ledger_state Prepared = ''prepared''"
| "show_ledger_state Sent = ''sent''"
| "show_ledger_state Acked = ''acked''"
| "show_ledger_state Nacked = ''nacked''"

text \<open>
  The common part of the three marks: \<^verbatim>\<open>_require_record\<close>, \<^verbatim>\<open>_assert_transition\<close>, then the
  record with its new state, one more transition and the other changed fields.
\<close>

definition mark ::
  "ledger \<Rightarrow> string \<Rightarrow> ledger_transition \<Rightarrow> (message_record \<Rightarrow> message_record) \<Rightarrow> (py_exn, message_record, ledger) run" where
  "mark l ledger_id tr change =
     (case map_of l ledger_id of
        None \<Rightarrow> (Inl (CodedError ''message_ledger_missing_record'' ''message ledger record not found''), l)
      | Some r \<Rightarrow>
          if lt_state tr \<in> set (allowed_transitions (mr_state r))
          then let r' = (change r)\<lparr>mr_state := lt_state tr, mr_transitions := mr_transitions r @ [tr],
                                   mr_updated_at := lt_changed_at tr\<rparr>
               in (Inr r', dict_put l ledger_id r')
          else (Inl (CodedError ''message_ledger_invalid_transition''
                  (''invalid message ledger transition: '' @ show_ledger_state (mr_state r) @ '' -> '' @
                   show_ledger_state (lt_state tr))), l))"

definition mark_sent :: "ledger \<Rightarrow> string \<Rightarrow> string \<Rightarrow> string \<Rightarrow> time \<Rightarrow> (py_exn, message_record, ledger) run" where
  "mark_sent l ledger_id dispatch_id delivery_id now =
     mark l ledger_id \<lparr>lt_state = Sent, lt_changed_at = now, lt_reason_code = ''acp_accepted'',
                       lt_message = ''ACP send accepted'', lt_retryable = None\<rparr>
       (\<lambda>r. r\<lparr>mr_dispatch_id := Some dispatch_id, mr_delivery_id := Some delivery_id\<rparr>)"

definition mark_acked :: "ledger \<Rightarrow> string \<Rightarrow> string \<Rightarrow> string \<Rightarrow> time \<Rightarrow> (py_exn, message_record, ledger) run" where
  "mark_acked l ledger_id reason_code message now =
     mark l ledger_id \<lparr>lt_state = Acked, lt_changed_at = now, lt_reason_code = reason_code,
                       lt_message = message, lt_retryable = Some False\<rparr>
       (\<lambda>r. r\<lparr>mr_retryable := Some False\<rparr>)"

definition mark_nacked ::
  "ledger \<Rightarrow> string \<Rightarrow> string \<Rightarrow> string \<Rightarrow> bool \<Rightarrow> time \<Rightarrow> (py_exn, message_record, ledger) run" where
  "mark_nacked l ledger_id error_code message retryable now =
     mark l ledger_id \<lparr>lt_state = Nacked, lt_changed_at = now, lt_reason_code = error_code,
                       lt_message = message, lt_retryable = Some retryable\<rparr>
       (\<lambda>r. r\<lparr>mr_error_code := Some error_code, mr_error_message := Some message, mr_retryable := Some retryable\<rparr>)"

definition list_records_for_task :: "ledger \<Rightarrow> string \<Rightarrow> message_record list" where
  "list_records_for_task l task_id = filter (\<lambda>r. mr_task_id r = task_id) (map snd l)"

section \<open>Delivery idempotency\<close>

record idempotency_record =
  ir_key :: string
  ir_payload_hash :: string
  ir_status :: string
  ir_attempt_count :: int
  ir_result :: "kvs option"

type_synonym idempotency_store = "(string \<times> idempotency_record) list"

definition build_delivery_key :: "publish_request \<Rightarrow> string" where
  "build_delivery_key p = pq_connector p @ '':'' @ pq_principal_id p @ '':'' @
     or_str (pq_project_id p) ''project-unspecified'' @ '':'' @ pq_idempotency_key p @ '':'' @
     pq_message_id p @ '':'' @ pq_external_message_id p"

definition store_key :: "string \<Rightarrow> string" where
  "store_key key = ''communication_delivery:'' @ key"

definition fresh_claim :: "string \<Rightarrow> string \<Rightarrow> idempotency_record" where
  "fresh_claim key hash_value = \<lparr>ir_key = key, ir_payload_hash = hash_value, ir_status = ''in_progress'',
     ir_attempt_count = 0, ir_result = None\<rparr>"

definition claim_local ::
  "string \<Rightarrow> string \<Rightarrow> idempotency_store \<Rightarrow> (claim_status \<times> idempotency_record) \<times> idempotency_store" where
  "claim_local key hash_value st =
     (case map_of st (store_key key) of
        None \<Rightarrow> ((ClaimNew, fresh_claim key hash_value), dict_put st (store_key key) (fresh_claim key hash_value))
      | Some r \<Rightarrow>
          if ir_status r = ''in_progress'' then ((ClaimInProgress, r), st)
          else if ir_payload_hash r \<noteq> hash_value then ((ClaimConflict, r), st)
          else ((ClaimReplay, r), st))"

text \<open>The Redis store; a key that has not expired between \<^verbatim>\<open>SET NX\<close> and \<^verbatim>\<open>GET\<close>.\<close>

definition claim_redis ::
  "string \<Rightarrow> string \<Rightarrow> idempotency_store \<Rightarrow> (claim_status \<times> idempotency_record) \<times> idempotency_store" where
  "claim_redis key hash_value st =
     (case map_of st (store_key key) of
        None \<Rightarrow> ((ClaimNew, fresh_claim key hash_value), dict_put st (store_key key) (fresh_claim key hash_value))
      | Some r \<Rightarrow>
          if ir_payload_hash r \<noteq> hash_value then ((ClaimConflict, r), st)
          else if ir_status r = ''completed'' then ((ClaimReplay, r), st)
          else ((ClaimInProgress, r), st))"

definition increment_attempt :: "string \<Rightarrow> idempotency_store \<Rightarrow> idempotency_record option \<times> idempotency_store" where
  "increment_attempt key st =
     (case map_of st (store_key key) of
        None \<Rightarrow> (None, st)
      | Some r \<Rightarrow> let r' = r\<lparr>ir_attempt_count := ir_attempt_count r + 1\<rparr>
                  in (Some r', dict_put st (store_key key) r'))"

definition complete :: "string \<Rightarrow> kvs \<Rightarrow> idempotency_store \<Rightarrow> idempotency_record option \<times> idempotency_store" where
  "complete key result st =
     (case map_of st (store_key key) of
        None \<Rightarrow> (None, st)
      | Some r \<Rightarrow> let r' = r\<lparr>ir_status := ''completed'', ir_result := Some result\<rparr>
                  in (Some r', dict_put st (store_key key) r'))"

section \<open>Retry scheduling\<close>

record retry_config =
  rc_max_attempts :: int
  rc_base_backoff_seconds :: int
  rc_max_backoff_seconds :: int

definition default_retry_config :: retry_config where
  "default_retry_config = \<lparr>rc_max_attempts = 3, rc_base_backoff_seconds = 2, rc_max_backoff_seconds = 30\<rparr>"

record retry_decision =
  rd_retry :: bool
  rd_next_attempt :: int
  rd_backoff_seconds :: int
  rd_reason_code :: string
  rd_message :: string

definition backoff_seconds_for_attempt :: "retry_config \<Rightarrow> int \<Rightarrow> int" where
  "backoff_seconds_for_attempt cfg attempt =
     (if attempt \<le> 1 then 0
      else min (rc_base_backoff_seconds cfg * 2 ^ nat (attempt - 2)) (rc_max_backoff_seconds cfg))"

definition schedule_next :: "retry_config \<Rightarrow> int \<Rightarrow> string \<Rightarrow> bool \<Rightarrow> retry_decision" where
  "schedule_next cfg attempt error_code retryable =
     (if \<not> retryable
      then \<lparr>rd_retry = False, rd_next_attempt = attempt, rd_backoff_seconds = 0,
            rd_reason_code = ''communication_retry_not_allowed'',
            rd_message = ''retry disabled for non-retryable error: '' @ error_code\<rparr>
      else if attempt \<ge> rc_max_attempts cfg
      then \<lparr>rd_retry = False, rd_next_attempt = attempt, rd_backoff_seconds = 0,
            rd_reason_code = ''communication_retry_exhausted'',
            rd_message = ''retry exhausted after '' @ show_int attempt @ '' attempts''\<rparr>
      else \<lparr>rd_retry = True, rd_next_attempt = attempt + 1,
            rd_backoff_seconds = backoff_seconds_for_attempt cfg (attempt + 1),
            rd_reason_code = ''communication_retry_scheduled'',
            rd_message = ''retry scheduled for attempt '' @ show_int (attempt + 1)\<rparr>)"

section \<open>Invariants\<close>

text \<open>A record's history starts at prepared, follows the table and ends in the record's state.\<close>

definition history_ok :: "message_record \<Rightarrow> bool" where
  "history_ok r = (\<exists>ts. map lt_state (mr_transitions r) = Prepared # ts \<and> legal_path ledger_step Prepared ts \<and>
     last (Prepared # ts) = mr_state r)"

definition ledger_ok :: "ledger \<Rightarrow> bool" where
  "ledger_ok l = (distinct (map fst l) \<and> (\<forall>(i, r) \<in> set l. mr_ledger_id r = i \<and> history_ok r))"

definition all_terminal :: "ledger \<Rightarrow> bool" where
  "all_terminal l = (\<forall>r \<in> snd ` set l. ledger_terminal (mr_state r))"

section \<open>Lemmas\<close>

interpretation ledger_machine: status_machine ledger_step ledger_terminal
  by unfold_locales (auto simp: ledger_step_def ledger_terminal_def allowed_transitions_def)

definition local_hash :: "idempotency_store \<Rightarrow> string \<Rightarrow> string option" where
  "local_hash st key = map_option ir_payload_hash (map_of st (store_key key))"

lemma store_key_inj [simp]: "(store_key a = store_key b) = (a = b)"
  by (simp add: store_key_def)

interpretation delivery_local: claim_store
  "\<lambda>k h st. (fst (fst (claim_local k h st)), snd (claim_local k h st))" local_hash
  by unfold_locales
    (auto simp: claim_local_def local_hash_def map_of_dict_put fresh_claim_def fun_eq_iff split: option.splits)

interpretation delivery_redis: claim_store
  "\<lambda>k h st. (fst (fst (claim_redis k h st)), snd (claim_redis k h st))" local_hash
  by unfold_locales
    (auto simp: claim_redis_def local_hash_def map_of_dict_put fresh_claim_def fun_eq_iff split: option.splits)

lemma set_dict_put: "x \<in> set (dict_put d k v) \<Longrightarrow> x = (k, v) \<or> (x \<in> set d \<and> fst x \<noteq> k)"
  if "distinct (map fst d)"
  using that by (induction d) (auto split: if_splits simp: image_iff)

lemma map_of_ledger: "ledger_ok l \<Longrightarrow> map_of l i = Some r \<Longrightarrow> mr_ledger_id r = i \<and> history_ok r"
  by (auto simp: ledger_ok_def dest: map_of_SomeD)

lemma ledger_ok_put:
  "ledger_ok l \<Longrightarrow> mr_ledger_id r = i \<Longrightarrow> history_ok r \<Longrightarrow> ledger_ok (dict_put l i r)"
  by (fastforce simp: ledger_ok_def dest: set_dict_put)

lemma all_terminal_put:
  "distinct (map fst l) \<Longrightarrow> all_terminal l \<Longrightarrow> ledger_terminal (mr_state r) \<Longrightarrow> all_terminal (dict_put l i r)"
  by (fastforce simp: all_terminal_def dest: set_dict_put)

lemma prepared_record_simps [simp]:
  "history_ok (prepared_record p n i now)" "mr_ledger_id (prepared_record p n i now) = i"
  "mr_state (prepared_record p n i now) = Prepared" "mr_route_key (prepared_record p n i now) = pq_route_key p"
  by (simp_all add: prepared_record_def history_ok_def)

lemma ledger_ok_begin [inv_intros]: "ledger_ok l \<Longrightarrow> ledger_ok (snd (begin_dispatch l p n i now))"
  by (simp add: begin_dispatch_def Let_def ledger_ok_put)

lemma history_ok_mark:
  assumes "history_ok r" "lt_state tr \<in> set (allowed_transitions (mr_state r))" "mr_transitions r' = mr_transitions r @ [tr]"
    "mr_state r' = lt_state tr"
  shows "history_ok r'"
proof -
  obtain ts where "map lt_state (mr_transitions r) = Prepared # ts" "legal_path ledger_step Prepared ts"
    "last (Prepared # ts) = mr_state r"
    using assms(1) by (auto simp: history_ok_def)
  with assms(2-) show ?thesis
    unfolding history_ok_def
    by (intro exI [of _ "ts @ [lt_state tr]"]) (auto simp: legal_path_append ledger_step_def)
qed

lemma mark_ok:
  assumes "ledger_ok l" "\<And>r. mr_ledger_id (change r) = mr_ledger_id r"
  shows "ledger_ok (snd (mark l i tr change))"
proof (cases "map_of l i")
  case (Some r)
  with assms have r: "mr_ledger_id r = i" "history_ok r" using map_of_ledger by blast+
  let ?r = "(change r)\<lparr>mr_state := lt_state tr, mr_transitions := mr_transitions r @ [tr], mr_updated_at := lt_changed_at tr\<rparr>"
  have "lt_state tr \<in> set (allowed_transitions (mr_state r)) \<Longrightarrow> history_ok ?r"
    by (rule history_ok_mark [OF r(2)]) simp_all
  with Some r assms show ?thesis by (auto simp: mark_def Let_def intro: ledger_ok_put)
qed (simp add: mark_def assms)

lemma ledger_ok_marks [inv_intros]:
  "ledger_ok l \<Longrightarrow> ledger_ok (snd (mark_sent l i d e now))"
  "ledger_ok l \<Longrightarrow> ledger_ok (snd (mark_acked l i c m now))"
  "ledger_ok l \<Longrightarrow> ledger_ok (snd (mark_nacked l i c m rt now))"
  by (simp_all add: mark_sent_def mark_acked_def mark_nacked_def mark_ok)

section \<open>Properties\<close>

text \<open>
  The in-process store and the Redis store leave the same records behind and classify every
  claim alike, with one exception: a claim with a different payload hash while the first delivery
  is still in progress is reported as in progress (to be retried) by the in-process store and as a
  conflict by the Redis store (records in a status that neither store writes aside).
\<close>

theorem local_and_redis_claims_agree:
  "snd (claim_local k h st) = snd (claim_redis k h st) \<and>
   (fst (claim_local k h st) = fst (claim_redis k h st) \<longleftrightarrow>
      (case map_of st (store_key k) of None \<Rightarrow> True
       | Some r \<Rightarrow> if ir_status r = ''in_progress'' then ir_payload_hash r = h
                   else \<not> (ir_status r \<noteq> ''completed'' \<and> ir_payload_hash r = h)))"
  by (auto simp: claim_local_def claim_redis_def split: option.splits)

text \<open>
  The retry policy. A retry is scheduled exactly for a retryable error before the last attempt,
  it is for the next attempt, its delay is between zero and the maximum and no shorter than the
  delay of an earlier attempt, and the two refusals are told apart by their reason code.
\<close>

theorem retry_policy_bounds:
  assumes "0 \<le> rc_base_backoff_seconds cfg" and "0 \<le> rc_max_backoff_seconds cfg" and "m \<le> n"
  shows "(rd_retry (schedule_next cfg n code retryable) \<longleftrightarrow> retryable \<and> n < rc_max_attempts cfg) \<and>
    (rd_retry (schedule_next cfg n code retryable) \<longrightarrow> rd_next_attempt (schedule_next cfg n code retryable) = n + 1) \<and>
    (rd_reason_code (schedule_next cfg n code retryable) = ''communication_retry_exhausted'' \<longleftrightarrow>
       retryable \<and> rc_max_attempts cfg \<le> n) \<and>
    0 \<le> rd_backoff_seconds (schedule_next cfg n code retryable) \<and>
    rd_backoff_seconds (schedule_next cfg n code retryable) \<le> rc_max_backoff_seconds cfg \<and>
    backoff_seconds_for_attempt cfg m \<le> backoff_seconds_for_attempt cfg n"
proof -
  have bounds: "0 \<le> backoff_seconds_for_attempt cfg k \<and> backoff_seconds_for_attempt cfg k \<le> rc_max_backoff_seconds cfg" for k
    using assms(1,2) by (simp add: backoff_seconds_for_attempt_def)
  have "(2::int) ^ nat (m - 2) \<le> 2 ^ nat (n - 2)"
    using assms(3) by (intro power_increasing) auto
  then have "rc_base_backoff_seconds cfg * 2 ^ nat (m - 2) \<le> rc_base_backoff_seconds cfg * 2 ^ nat (n - 2)"
    using assms(1) by (rule mult_left_mono)
  then have "backoff_seconds_for_attempt cfg m \<le> backoff_seconds_for_attempt cfg n"
    using assms bounds [of n] by (auto simp: backoff_seconds_for_attempt_def)
  with bounds assms(2) show ?thesis by (auto simp: schedule_next_def)
qed

section \<open>Witnesses\<close>

lemma retry_policy_bounds_witness:
  "rd_backoff_seconds (schedule_next default_retry_config 2 ''e'' True) = 4 \<and>
   rd_backoff_seconds (schedule_next default_retry_config 2 ''e'' True) \<le> 30 \<and>
   rd_reason_code (schedule_next default_retry_config 3 ''e'' True) = ''communication_retry_exhausted''"
  using retry_policy_bounds [of default_retry_config 2 2 "''e''" True]
    retry_policy_bounds [of default_retry_config 3 3 "''e''" True]
  by (simp add: default_retry_config_def) (simp add: schedule_next_def backoff_seconds_for_attempt_def)

end
