(* ===== verification/Publisher.thy ===== *)
theory Publisher
  imports Delivery_Store
begin

text \<open>
  Delivery of a communication message.
  \<^item> \<^verbatim>\<open>communication_gateway/transport/acp_client.py\<close>: \<open>local_send\<close>, the deterministic client;
    the publisher itself is defined for any client (parameter \<open>send\<close>), as its protocol allows;
  \<^item> \<^verbatim>\<open>communication_gateway/delivery/ack_handler.py\<close>: \<open>ack_handle\<close>;
  \<^item> \<^verbatim>\<open>communication_gateway/delivery/dlq_writer.py\<close>: \<open>write_dead_letter\<close>;
  \<^item> \<^verbatim>\<open>communication_gateway/delivery/publisher.py\<close>: \<open>publish_attempt\<close> is one turn of the
    retry loop, \<open>publish_loop\<close> the loop, whose termination is proved from the retry policy, and
    \<open>publish\<close> the whole operation with its idempotency claim.

  The fingerprint of a request (a SHA-256 of its JSON) is the parameter \<open>F\<close>. Metrics are left out.
\<close>

section \<open>The gateway state\<close>

record acp_receipt =
  ar_dispatch_id :: string
  ar_delivery_id :: string
  ar_ack :: bool
  ar_code :: string
  ar_message :: string
  ar_retryable :: bool

text \<open>A send returns a receipt, raises an \<^verbatim>\<open>AcpClientError\<close>, or raises anything else.\<close>

datatype acp_outcome = AcpReceipt acp_receipt | AcpClientError string string bool | AcpOther py_exn

record dead_letter =
  dl_dead_letter_id :: string
  dl_task_id :: string
  dl_trace_id :: string
  dl_principal_id :: string
  dl_idempotency_key :: string
  dl_message_id :: string
  dl_external_message_id :: string
  dl_connector :: string
  dl_command :: string
  dl_target :: string
  dl_route_key :: string
  dl_endpoint :: string
  dl_error_code :: string
  dl_error_message :: string
  dl_attempts :: int
  dl_ledger_id :: "string option"
  dl_created_at :: time

record 'c gateway = services +
  gw_client :: 'c
  gw_ledger :: ledger
  gw_store :: idempotency_store
  gw_dead_letters :: "dead_letter list"
  gw_latest_seen :: "(string \<times> time) list"
  gw_message_ids :: "(string \<times> string list) list"

text \<open>A client's send: the request, two identifiers it may draw, and its own state.\<close>

type_synonym 'c acp_client = "publish_request \<Rightarrow> string \<Rightarrow> string \<Rightarrow> 'c \<Rightarrow> acp_outcome \<times> 'c"

section \<open>The local ACP client\<close>

type_synonym local_client = "(string \<times> int) list"

definition local_send :: "local_client acp_client" where
  "local_send p u v attempts =
     (let message_key = pq_command p @ '':'' @ pq_message_id p @ '':'' @ pq_external_message_id p;
          attempt = (case map_of attempts message_key of None \<Rightarrow> 0 | Some n \<Rightarrow> n) + 1;
          attempts' = dict_put attempts message_key attempt;
          receipt = (\<lambda>ack code message retryable. AcpReceipt \<lparr>ar_dispatch_id = ''acp-'' @ u, ar_delivery_id = ''delivery-'' @ v,
             ar_ack = ack, ar_code = code, ar_message = message, ar_retryable = retryable\<rparr>)
      in (if pq_command p = ''msg_transport_error''
          then AcpClientError ''acp_transport_unavailable'' ''ACP transport unavailable during send'' True
          else if pq_command p = ''msg_transport_retry_then_ack'' \<and> attempt = 1
          then AcpClientError ''acp_transport_unavailable'' ''ACP transport unavailable during send'' True
          else if pq_command p = ''msg_dispatch_retry_then_ack'' \<and> attempt = 1
          then receipt False ''acp_delivery_nack_retryable'' ''ACP transport returned retryable nack'' True
          else if pq_command p = ''msg_dispatch_reject''
          then receipt False ''acp_contract_rejected'' ''ACP contract rejected communication payload'' False
          else if pq_command p = ''msg_dispatch_retryable_nack''
          then receipt False ''acp_delivery_nack_retryable'' ''ACP transport returned retryable nack'' True
          else if pq_command p = ''msg_dispatch_nack''
          then receipt False ''acp_delivery_nack'' ''ACP transport returned nack'' False
          else receipt True ''acp_delivery_acked'' (''ACP delivery acknowledged via '' @ pq_route_key p) False,
          attempts'))"

section \<open>Acknowledgements and dead letters\<close>

record ack_result =
  ah_accepted :: bool
  ah_dispatch_id :: "string option"
  ah_error_code :: "string option"
  ah_message :: string
  ah_retryable :: bool

definition ack_handle :: "ledger \<Rightarrow> string \<Rightarrow> acp_receipt \<Rightarrow> time \<Rightarrow> (py_exn, ack_result, ledger) run" where
  "ack_handle l ledger_id r now =
     (if ar_ack r
      then and_then (mark_acked l ledger_id (ar_code r) (ar_message r) now)
        (\<lambda>_ l'. (Inr \<lparr>ah_accepted = True, ah_dispatch_id = Some (ar_dispatch_id r), ah_error_code = None,
                     ah_message = ar_message r, ah_retryable = False\<rparr>, l'))
      else and_then (mark_nacked l ledger_id (ar_code r) (ar_message r) (ar_retryable r) now)
        (\<lambda>_ l'. (Inr \<lparr>ah_accepted = False, ah_dispatch_id = None, ah_error_code = Some (ar_code r),
                     ah_message = ar_message r, ah_retryable = ar_retryable r\<rparr>, l')))"

definition write_dead_letter ::
  "environment \<Rightarrow> publish_request \<Rightarrow> string \<Rightarrow> string \<Rightarrow> int \<Rightarrow> string option \<Rightarrow> ('c, 'z) gateway_scheme \<Rightarrow>
   (py_exn, dead_letter, ('c, 'z) gateway_scheme) run" where
  "write_dead_letter env p error_code error_message attempts ledger_id s =
     (let ((i, now), s1) = draw env s;
          d = \<lparr>dl_dead_letter_id = i, dl_task_id = pq_task_id p, dl_trace_id = pq_trace_id p,
               dl_principal_id = pq_principal_id p, dl_idempotency_key = pq_idempotency_key p,
               dl_message_id = pq_message_id p, dl_external_message_id = pq_external_message_id p,
               dl_connector = pq_connector p, dl_command = pq_command p, dl_target = pq_target p,
               dl_route_key = pq_route_key p, dl_endpoint = pq_endpoint p, dl_error_code = error_code,
               dl_error_message = error_message, dl_attempts = attempts, dl_ledger_id = ledger_id, dl_created_at = now\<rparr>;
          s2 = s1\<lparr>gw_dead_letters := gw_dead_letters s1 @ [d]\<rparr>
      in and_then (audit env \<lparr>aw_event_type = ''communication.dead_letter'', aw_outcome = ''dead_lettered'',
             aw_trace_id = pq_trace_id p, aw_request_id = None, aw_task_id = Some (pq_task_id p),
             aw_principal_id = Some (pq_principal_id p), aw_principal_role = Some ''owner'',
             aw_source = ''communication_gateway_dlq'', aw_reason_code = Some error_code, aw_message = error_message,
             aw_rule_ids = [],
             aw_payload = [(''dead_letter_id'', Some i), (''attempts'', Some (show_int attempts)), (''ledger_id'', ledger_id),
               (''connector'', Some (pq_connector p)), (''route_key'', Some (pq_route_key p))]\<rparr> s2)
           (\<lambda>_ s3. (Inr d, s3)))"

section \<open>Receipts and their cached form\<close>

record publish_receipt =
  pb_accepted :: bool
  pb_dispatch_id :: "string option"
  pb_error_code :: "string option"
  pb_message :: string
  pb_retryable :: bool
  pb_route_key :: string
  pb_ledger_id :: "string option"
  pb_dead_letter_id :: "string option"

definition receipt_result_payload :: "publish_receipt \<Rightarrow> int \<Rightarrow> kvs" where
  "receipt_result_payload r attempts =
     [(''accepted'', if pb_accepted r then ''True'' else ''False''),
      (''dispatch_id'', or_str (pb_dispatch_id r) []),
      (''error_code'', or_str (pb_error_code r) []),
      (''message'', pb_message r),
      (''retryable'', if pb_retryable r then ''true'' else ''false''),
      (''route_key'', pb_route_key r),
      (''ledger_id'', or_str (pb_ledger_id r) []),
      (''dead_letter_id'', or_str (pb_dead_letter_id r) []),
      (''attempts'', show_int attempts)]"

definition cached_result_to_receipt :: "kvs option \<Rightarrow> string \<Rightarrow> publish_receipt" where
  "cached_result_to_receipt result fallback_route_key =
     (let mapped = dict_get (case result of None \<Rightarrow> [] | Some kv \<Rightarrow> kv)
      in \<lparr>pb_accepted = (mapped ''accepted'' = Some ''True''),
          pb_dispatch_id = nonempty_opt (mapped ''dispatch_id''),
          pb_error_code = nonempty_opt (mapped ''error_code''),
          pb_message = (case mapped ''message'' of None \<Rightarrow> ''communication delivery replay resolved'' | Some m \<Rightarrow> m),
          pb_retryable = (mapped ''retryable'' = Some ''true''),
          pb_route_key = (case mapped ''route_key'' of None \<Rightarrow> fallback_route_key | Some k \<Rightarrow> k),
          pb_ledger_id = nonempty_opt (mapped ''ledger_id''),
          pb_dead_letter_id = nonempty_opt (mapped ''dead_letter_id'')\<rparr>)"

section \<open>The publisher\<close>

definition set_ledger :: "('e, 'a, ledger) run \<Rightarrow> ('c, 'z) gateway_scheme \<Rightarrow> ('e, 'a, ('c, 'z) gateway_scheme) run" where
  "set_ledger r s = (fst r, s\<lparr>gw_ledger := snd r\<rparr>)"

text \<open>One turn of the loop, up to the terminal receipt of the attempt.\<close>

definition publish_attempt ::
  "environment \<Rightarrow> 'c acp_client \<Rightarrow> publish_request \<Rightarrow> string \<Rightarrow> int \<Rightarrow> ('c, 'z) gateway_scheme \<Rightarrow>
   (py_exn, publish_receipt, ('c, 'z) gateway_scheme) run" where
  "publish_attempt env send p key attempt s =
     (let s1 = s\<lparr>gw_store := snd (increment_attempt key (gw_store s))\<rparr>;
          ((lid, now), s2) = draw env s1;
          s3 = s2\<lparr>gw_ledger := snd (begin_dispatch (gw_ledger s2) p attempt lid now)\<rparr>;
          ((u, t1), s4) = draw env s3;
          ((v, t2), s5) = draw env s4;
          (outcome, client) = send p u v (gw_client s5);
          s6 = s5\<lparr>gw_client := client\<rparr>
      in case outcome of
           AcpOther x \<Rightarrow> (Inl x, s6)
         | AcpClientError code message retryable \<Rightarrow>
             and_then (set_ledger (mark_nacked (gw_ledger s6) lid code message retryable t1) s6)
               (\<lambda>failed s7. (Inr \<lparr>pb_accepted = False, pb_dispatch_id = None, pb_error_code = mr_error_code failed,
                  pb_message = or_str (mr_error_message failed) message,
                  pb_retryable = (mr_retryable failed = Some True), pb_route_key = mr_route_key failed,
                  pb_ledger_id = Some (mr_ledger_id failed), pb_dead_letter_id = None\<rparr>, s7))
         | AcpReceipt r \<Rightarrow>
             and_then (set_ledger (mark_sent (gw_ledger s6) lid (ar_dispatch_id r) (ar_delivery_id r) t1) s6)
               (\<lambda>sent s7. and_then (set_ledger (ack_handle (gw_ledger s7) lid r t2) s7)
                  (\<lambda>handled s8. (Inr \<lparr>pb_accepted = ah_accepted handled, pb_dispatch_id = ah_dispatch_id handled,
                     pb_error_code = ah_error_code handled, pb_message = ah_message handled,
                     pb_retryable = ah_retryable handled, pb_route_key = mr_route_key sent,
                     pb_ledger_id = Some (mr_ledger_id sent), pb_dead_letter_id = None\<rparr>, s8))))"

definition store_result :: "string \<Rightarrow> publish_receipt \<Rightarrow> int \<Rightarrow> ('c, 'z) gateway_scheme \<Rightarrow> ('c, 'z) gateway_scheme" where
  "store_result key r attempt s = s\<lparr>gw_store := snd (complete key (receipt_result_payload r attempt) (gw_store s))\<rparr>"

text \<open>What follows an attempt that failed and is not retried: a dead letter when the retries are used up.\<close>

definition publish_give_up ::
  "environment \<Rightarrow> publish_request \<Rightarrow> string \<Rightarrow> int \<Rightarrow> retry_decision \<Rightarrow> publish_receipt \<Rightarrow> ('c, 'z) gateway_scheme \<Rightarrow>
   (py_exn, publish_receipt, ('c, 'z) gateway_scheme) run" where
  "publish_give_up env p key attempt d r s =
     and_then
       (if rd_reason_code d = ''communication_retry_exhausted''
        then let message = rd_message d @ ''; last_error='' @ or_str (pb_error_code r) ''unknown''
             in and_then (write_dead_letter env p ''communication_retry_exhausted'' message attempt (pb_ledger_id r) s)
                  (\<lambda>dl s'. (Inr (r\<lparr>pb_accepted := False, pb_dispatch_id := None,
                       pb_error_code := Some ''communication_retry_exhausted'',
                       pb_message := message @ ''; dead_letter_id='' @ dl_dead_letter_id dl, pb_retryable := False,
                       pb_dead_letter_id := Some (dl_dead_letter_id dl)\<rparr>), s'))
        else (Inr r, s))
       (\<lambda>r' s'. (Inr r', store_result key r' attempt s'))"

lemma schedule_next_retry:
  "rd_retry (schedule_next cfg n code rt) \<longleftrightarrow> rt \<and> n < rc_max_attempts cfg"
  "rt \<Longrightarrow> n < rc_max_attempts cfg \<Longrightarrow> rd_next_attempt (schedule_next cfg n code rt) = n + 1"
  by (auto simp: schedule_next_def)

function publish_loop ::
  "environment \<Rightarrow> 'c acp_client \<Rightarrow> retry_config \<Rightarrow> publish_request \<Rightarrow> string \<Rightarrow> int \<Rightarrow> ('c, 'z) gateway_scheme \<Rightarrow>
   (py_exn, publish_receipt, ('c, 'z) gateway_scheme) run" where
  "publish_loop env send cfg p key attempt s =
     (case publish_attempt env send p key attempt s of
        (Inl x, s1) \<Rightarrow> (Inl x, s1)
      | (Inr r, s1) \<Rightarrow>
          if pb_accepted r then (Inr r, store_result key r attempt s1)
          else let d = schedule_next cfg attempt (or_str (pb_error_code r) ''communication_delivery_failed'') (pb_retryable r)
               in if rd_retry d then publish_loop env send cfg p key (rd_next_attempt d) s1
                  else publish_give_up env p key attempt d r s1)"
  by pat_completeness auto

termination
  by (relation "measure (\<lambda>(env, send, cfg, p, key, attempt, s). nat (rc_max_attempts cfg - attempt))")
    (auto simp: schedule_next_retry)

declare publish_loop.simps [simp del]

definition publish ::
  "(publish_request \<Rightarrow> string) \<Rightarrow> environment \<Rightarrow> 'c acp_client \<Rightarrow> retry_config \<Rightarrow> publish_request \<Rightarrow> ('c, 'z) gateway_scheme \<Rightarrow>
   (py_exn, publish_receipt, ('c, 'z) gateway_scheme) run" where
  "publish F env send cfg p s =
     (let key = build_delivery_key p;
          refused = (\<lambda>code message retryable. \<lparr>pb_accepted = False, pb_dispatch_id = None, pb_error_code = Some code,
             pb_message = message, pb_retryable = retryable, pb_route_key = pq_route_key p, pb_ledger_id = None,
             pb_dead_letter_id = None\<rparr>)
      in case claim_local key (F p) (gw_store s) of
           ((ClaimConflict, claim), st) \<Rightarrow>
             (Inr (refused ''communication_idempotency_conflict''
                ''communication idempotency key reused with different payload'' False), s\<lparr>gw_store := st\<rparr>)
         | ((ClaimReplay, claim), st) \<Rightarrow> (Inr (cached_result_to_receipt (ir_result claim) (pq_route_key p)), s\<lparr>gw_store := st\<rparr>)
         | ((ClaimInProgress, claim), st) \<Rightarrow>
             (Inr (refused ''communication_idempotency_in_progress''
                ''communication delivery already in progress'' True), s\<lparr>gw_store := st\<rparr>)
         | ((ClaimNew, claim), st) \<Rightarrow> publish_loop env send cfg p key 1 (s\<lparr>gw_store := st\<rparr>))"

section \<open>Lemmas: one attempt\<close>

text \<open>What one attempt asks of the client, and the receipt it makes of the answer.\<close>

definition attempt_outcome :: "environment \<Rightarrow> 'c acp_client \<Rightarrow> publish_request \<Rightarrow> ('c, 'z) gateway_scheme \<Rightarrow> acp_outcome" where
  "attempt_outcome env send p s =
     fst (send p (en_uuid env (Suc (sv_draws s))) (en_uuid env (Suc (Suc (sv_draws s)))) (gw_client s))"

definition attempt_receipt :: "publish_request \<Rightarrow> string \<Rightarrow> acp_outcome \<Rightarrow> py_exn + publish_receipt" where
  "attempt_receipt p lid outcome =
     (case outcome of
        AcpOther x \<Rightarrow> Inl x
      | AcpClientError code message retryable \<Rightarrow>
          Inr \<lparr>pb_accepted = False, pb_dispatch_id = None, pb_error_code = Some code, pb_message = message,
               pb_retryable = retryable, pb_route_key = pq_route_key p, pb_ledger_id = Some lid, pb_dead_letter_id = None\<rparr>
      | AcpReceipt r \<Rightarrow>
          Inr \<lparr>pb_accepted = ar_ack r, pb_dispatch_id = (if ar_ack r then Some (ar_dispatch_id r) else None),
               pb_error_code = (if ar_ack r then None else Some (ar_code r)), pb_message = ar_message r,
               pb_retryable = (\<not> ar_ack r \<and> ar_retryable r), pb_route_key = pq_route_key p, pb_ledger_id = Some lid,
               pb_dead_letter_id = None\<rparr>)"

lemma mark_put:
  "mark (dict_put l i r) i tr change =
     (if lt_state tr \<in> set (allowed_transitions (mr_state r))
      then let r' = (change r)\<lparr>mr_state := lt_state tr, mr_transitions := mr_transitions r @ [tr], mr_updated_at := lt_changed_at tr\<rparr>
           in (Inr r', dict_put (dict_put l i r) i r')
      else (Inl (CodedError ''message_ledger_invalid_transition''
              (''invalid message ledger transition: '' @ show_ledger_state (mr_state r) @ '' -> '' @
               show_ledger_state (lt_state tr))), dict_put l i r))"
  by (simp add: mark_def map_of_dict_put)

lemmas attempt_defs = publish_attempt_def draw_def Let_def begin_dispatch_def set_ledger_def

lemma publish_attempt_result:
  "fst (publish_attempt env send p key n s) =
     attempt_receipt p (en_uuid env (sv_draws s)) (attempt_outcome env send p s)"
  by (auto simp: attempt_defs attempt_receipt_def attempt_outcome_def mark_nacked_def mark_sent_def mark_acked_def
      ack_handle_def mark_put allowed_transitions_def or_str_def case_prod_beta split: acp_outcome.splits)

lemma publish_attempt_frame [frame_simps]:
  "gw_store (snd (publish_attempt env send p key n s)) = snd (increment_attempt key (gw_store s))"
  "gw_dead_letters (snd (publish_attempt env send p key n s)) = gw_dead_letters s"
  "sv_audit (snd (publish_attempt env send p key n s)) = sv_audit s"
  by (auto simp: attempt_defs case_prod_beta and_then_def split: acp_outcome.splits sum.splits prod.splits)

lemma publish_attempt_ledger_ok:
  "ledger_ok (gw_ledger s) \<Longrightarrow> ledger_ok (gw_ledger (snd (publish_attempt env send p key n s)))"
  by (auto simp: attempt_defs case_prod_beta and_then_def ack_handle_def
      intro!: ledger_ok_marks ledger_ok_put split: acp_outcome.splits sum.splits prod.splits)

lemma publish_attempt_terminal:
  assumes "fst (publish_attempt env send p key n s) = Inr r" "ledger_ok (gw_ledger s)" "all_terminal (gw_ledger s)"
  shows "all_terminal (gw_ledger (snd (publish_attempt env send p key n s)))"
proof -
  have dist: "distinct (map fst (gw_ledger s))" using assms(2) by (simp add: ledger_ok_def)
  show ?thesis
    using assms(1) unfolding publish_attempt_result
    by (auto simp: attempt_defs attempt_receipt_def attempt_outcome_def mark_nacked_def mark_sent_def mark_acked_def
        ack_handle_def mark_put allowed_transitions_def ledger_terminal_def case_prod_beta
        intro!: all_terminal_put [OF dist assms(3)] split: acp_outcome.splits)
qed

section \<open>Lemmas: the loop\<close>

definition claimed :: "string \<Rightarrow> string \<Rightarrow> int \<Rightarrow> idempotency_store \<Rightarrow> bool" where
  "claimed key h n st = (\<exists>r. map_of st (store_key key) = Some r \<and> ir_status r = ''in_progress'' \<and>
     ir_payload_hash r = h \<and> ir_attempt_count r = n)"

definition settled :: "string \<Rightarrow> string \<Rightarrow> int \<Rightarrow> kvs \<Rightarrow> idempotency_store \<Rightarrow> bool" where
  "settled key h n res st = (\<exists>r. map_of st (store_key key) = Some r \<and> ir_status r = ''completed'' \<and>
     ir_payload_hash r = h \<and> ir_attempt_count r = n \<and> ir_result r = Some res)"

lemma claimed_increment: "claimed key h n st \<Longrightarrow> claimed key h (n + 1) (snd (increment_attempt key st))"
  by (auto simp: claimed_def increment_attempt_def map_of_dict_put Let_def)

lemma settled_complete: "claimed key h n st \<Longrightarrow> settled key h n res (snd (complete key res st))"
  by (auto simp: claimed_def settled_def complete_def map_of_dict_put Let_def)

lemma write_dead_letter_frame [frame_simps]:
  "gw_store (snd (write_dead_letter env p c m n l s)) = gw_store s"
  "gw_ledger (snd (write_dead_letter env p c m n l s)) = gw_ledger s"
  by (auto simp: write_dead_letter_def draw_def Let_def and_then_def audit_def case_prod_beta split: sum.splits)

lemma write_dead_letter_result:
  "fst (write_dead_letter env p c m n l s) = Inr d \<Longrightarrow>
   gw_dead_letters (snd (write_dead_letter env p c m n l s)) = gw_dead_letters s @ [d] \<and> dl_attempts d = n \<and>
   dl_dead_letter_id d = en_uuid env (sv_draws s)"
  by (auto simp: write_dead_letter_def draw_def Let_def and_then_def audit_def case_prod_beta split: sum.splits)

lemma write_dead_letter_ok:
  "(\<And>k. en_audit_fault env k = None) \<Longrightarrow> \<exists>d s'. write_dead_letter env p c m n l s = (Inr d, s')"
  by (simp add: write_dead_letter_def draw_def Let_def audit_def write_event_def)

lemma give_up_frame [frame_simps]:
  "gw_ledger (snd (publish_give_up env p key n d r s)) = gw_ledger s"
proof -
  have "gw_ledger (snd (and_then x f)) = gw_ledger s"
    if "gw_ledger (snd x) = gw_ledger s" "\<And>y t. gw_ledger (snd (f y t)) = gw_ledger t"
    for x :: "(py_exn, 'e, ('a, 'b) gateway_scheme) run" and f :: "'e \<Rightarrow> _ \<Rightarrow> (py_exn, 'f, ('a, 'b) gateway_scheme) run"
    using that by (cases x; cases "fst x") auto
  note step = this
  show ?thesis
    unfolding publish_give_up_def Let_def
    by (intro step) (simp_all add: store_result_def step write_dead_letter_frame)
qed

lemma give_up_settled:
  assumes "claimed key h n (gw_store s)" "publish_give_up env p key n d r s = (Inr r', s')" "pb_dead_letter_id r = None"
  shows "settled key h n (receipt_result_payload r' n) (gw_store s') \<and>
     (if rd_reason_code d = ''communication_retry_exhausted''
      then \<exists>dl. gw_dead_letters s' = gw_dead_letters s @ [dl] \<and> dl_attempts dl = n \<and>
             pb_dead_letter_id r' = Some (dl_dead_letter_id dl) \<and> \<not> pb_accepted r'
      else gw_dead_letters s' = gw_dead_letters s \<and> r' = r)"
proof (cases "rd_reason_code d = ''communication_retry_exhausted''")
  case True
  then obtain dl s1 where dl: "write_dead_letter env p ''communication_retry_exhausted''
      (rd_message d @ ''; last_error='' @ or_str (pb_error_code r) ''unknown'') n (pb_ledger_id r) s = (Inr dl, s1)"
    and r': "s' = store_result key r' n s1" "pb_dead_letter_id r' = Some (dl_dead_letter_id dl)" "\<not> pb_accepted r'"
    using assms(2) by (auto simp: publish_give_up_def Let_def and_then_Inr)
  have "gw_store s1 = gw_store s" "gw_dead_letters s1 = gw_dead_letters s @ [dl]" "dl_attempts dl = n"
    using write_dead_letter_frame(1) [of env p "''communication_retry_exhausted''"] write_dead_letter_result dl
    by (metis fst_conv snd_conv)+
  with True r' assms(1) show ?thesis by (auto simp: store_result_def settled_complete)
next
  case False
  with assms show ?thesis by (auto simp: publish_give_up_def store_result_def settled_complete)
qed

lemma attempt_receipt_Inr: "attempt_receipt p lid oc = Inr r \<Longrightarrow> pb_dead_letter_id r = None \<and> pb_ledger_id r = Some lid"
  by (auto simp: attempt_receipt_def split: acp_outcome.splits)

text \<open>The four ways one turn of the loop can go on.\<close>

lemma publish_loop_cases:
  fixes s :: "('c, 'z) gateway_scheme"
  obtains (raised) x s1 where "publish_attempt env send p key n s = (Inl x, s1)"
      "publish_loop env send cfg p key n s = (Inl x, s1)"
    | (accepted) r s1 where "publish_attempt env send p key n s = (Inr r, s1)" "pb_accepted r"
      "publish_loop env send cfg p key n s = (Inr r, store_result key r n s1)"
    | (retried) r s1 where "publish_attempt env send p key n s = (Inr r, s1)" "pb_retryable r" "n < rc_max_attempts cfg"
      "publish_loop env send cfg p key n s = publish_loop env send cfg p key (n + 1) s1"
    | (gave_up) r s1 d where "publish_attempt env send p key n s = (Inr r, s1)" "\<not> pb_accepted r"
      "rd_reason_code d = ''communication_retry_exhausted'' \<longleftrightarrow> pb_retryable r"
      "pb_retryable r \<Longrightarrow> rc_max_attempts cfg \<le> n"
      "publish_loop env send cfg p key n s = publish_give_up env p key n d r s1"
proof -
  obtain a s1 where a: "publish_attempt env send p key n s = (a, s1)" by (cases "publish_attempt env send p key n s")
  show ?thesis
  proof (cases a)
    case (Inl x)
    with a show ?thesis by (intro raised [of x s1]) (simp_all add: publish_loop.simps [of _ _ _ _ _ n])
  next
    case (Inr r)
    let ?d = "schedule_next cfg n (or_str (pb_error_code r) ''communication_delivery_failed'') (pb_retryable r)"
    have reason: "\<not> rd_retry ?d \<Longrightarrow> rd_reason_code ?d = ''communication_retry_exhausted'' \<longleftrightarrow> pb_retryable r"
      by (auto simp: schedule_next_def)
    show ?thesis
    proof (cases "pb_accepted r")
      case True
      with a Inr show ?thesis by (intro accepted [of r s1]) (simp_all add: publish_loop.simps [of _ _ _ _ _ n])
    next
      case False
      show ?thesis
      proof (cases "rd_retry ?d")
        case True
        with a Inr False show ?thesis
          by (intro retried [of r s1]) (simp_all add: publish_loop.simps [of _ _ _ _ _ n] schedule_next_retry)
      next
        case stop: False
        with a Inr False reason show ?thesis
          by (intro gave_up [of r s1 ?d]) (auto simp: publish_loop.simps [of _ _ _ _ _ n] schedule_next_retry)
      qed
    qed
  qed
qed

lemma attempts_induct:
  assumes "\<And>n s. (\<And>s1. n < m \<Longrightarrow> P (n + 1) s1) \<Longrightarrow> P n s" shows "P (n :: int) s"
proof (induction "nat (m - n)" arbitrary: n s rule: less_induct)
  case less
  show ?case by (rule assms) (rule less, simp)
qed

lemma publish_loop_ledger_ok:
  "ledger_ok (gw_ledger s) \<Longrightarrow> ledger_ok (gw_ledger (snd (publish_loop env send cfg p key n s)))"
proof (induction n s rule: attempts_induct [of "rc_max_attempts cfg"])
  case (1 n s)
  have ok: "ledger_ok (gw_ledger (snd (publish_attempt env send p key n s)))"
    by (rule publish_attempt_ledger_ok [OF 1(2)])
  show ?case
    by (cases rule: publish_loop_cases [of env send p key n s cfg])
      (use ok 1(1) in \<open>auto simp: store_result_def give_up_frame\<close>)
qed

lemma publish_loop_terminal:
  "fst (publish_loop env send cfg p key n s) = Inr r \<Longrightarrow> ledger_ok (gw_ledger s) \<Longrightarrow> all_terminal (gw_ledger s) \<Longrightarrow>
   all_terminal (gw_ledger (snd (publish_loop env send cfg p key n s)))"
proof (induction n s rule: attempts_induct [of "rc_max_attempts cfg"])
  case (1 n s)
  have ok: "ledger_ok (gw_ledger (snd (publish_attempt env send p key n s)))"
    by (rule publish_attempt_ledger_ok [OF 1(3)])
  have finished: "fst (publish_attempt env send p key n s) = Inr r' \<Longrightarrow>
      all_terminal (gw_ledger (snd (publish_attempt env send p key n s)))" for r'
    using publish_attempt_terminal 1(3,4) by blast
  show ?case
    by (cases rule: publish_loop_cases [of env send p key n s cfg])
      (use ok finished 1(1,2) in \<open>auto simp: store_result_def give_up_frame\<close>)
qed

lemma publish_loop_returns:
  assumes "\<And>q u v c x. fst (send q u v c) \<noteq> AcpOther x" "\<And>k. en_audit_fault env k = None"
  shows "\<exists>r s'. publish_loop env send cfg p key n s = (Inr r, s')"
proof (induction n s rule: attempts_induct [of "rc_max_attempts cfg"])
  case (1 n s)
  have attempt: "fst (publish_attempt env send p key n s) \<noteq> Inl x" for x
    unfolding publish_attempt_result attempt_outcome_def
    using assms(1) by (auto simp: attempt_receipt_def split: acp_outcome.splits)
  show ?case
  proof (cases rule: publish_loop_cases [of env send p key n s cfg])
    case (gave_up r s1 d)
    obtain dl s2 where "write_dead_letter env p ''communication_retry_exhausted''
        (rd_message d @ ''; last_error='' @ or_str (pb_error_code r) ''unknown'') n (pb_ledger_id r) s1 = (Inr dl, s2)"
      using write_dead_letter_ok [OF assms(2)] by metis
    with gave_up(5) show ?thesis by (auto simp: publish_give_up_def Let_def)
  qed (use attempt 1 in \<open>auto simp: prod_eq_iff\<close>)
qed

lemma publish_loop_settled:
  "claimed key h (n - 1) (gw_store s) \<Longrightarrow> publish_loop env send cfg p key n s = (Inr r, s') \<Longrightarrow>
   \<exists>m. n \<le> m \<and> m \<le> max n (rc_max_attempts cfg) \<and> settled key h m (receipt_result_payload r m) (gw_store s') \<and>
     (case pb_dead_letter_id r of
        None \<Rightarrow> gw_dead_letters s' = gw_dead_letters s
      | Some i \<Rightarrow> rc_max_attempts cfg \<le> m \<and> \<not> pb_accepted r \<and>
          (\<exists>dl. gw_dead_letters s' = gw_dead_letters s @ [dl] \<and> dl_dead_letter_id dl = i \<and> dl_attempts dl = m))"
proof (induction n s rule: attempts_induct [of "rc_max_attempts cfg"])
  case (1 n s)
  let ?a = "publish_attempt env send p key n s"
  have claimed: "claimed key h n (gw_store (snd ?a))"
    using claimed_increment [OF 1(2)] by (simp add: publish_attempt_frame)
  have dead: "gw_dead_letters (snd ?a) = gw_dead_letters s" by (simp add: publish_attempt_frame)
  have none: "fst ?a = Inr r' \<Longrightarrow> pb_dead_letter_id r' = None" for r'
    unfolding publish_attempt_result using attempt_receipt_Inr by blast
  show ?case
  proof (cases rule: publish_loop_cases [of env send p key n s cfg])
    case (raised x s1)
    with 1(3) show ?thesis by simp
  next
    case (accepted r1 s1)
    with 1(3) claimed dead none show ?thesis
      by (intro exI [of _ n]) (auto simp: store_result_def settled_complete)
  next
    case (retried r1 s1)
    then have same: "gw_dead_letters s1 = gw_dead_letters s" using dead by simp
    obtain m where "n + 1 \<le> m" "m \<le> max (n + 1) (rc_max_attempts cfg)"
      "settled key h m (receipt_result_payload r m) (gw_store s')"
      "case pb_dead_letter_id r of None \<Rightarrow> gw_dead_letters s' = gw_dead_letters s
       | Some i \<Rightarrow> rc_max_attempts cfg \<le> m \<and> \<not> pb_accepted r \<and>
           (\<exists>dl. gw_dead_letters s' = gw_dead_letters s @ [dl] \<and> dl_dead_letter_id dl = i \<and> dl_attempts dl = m)"
      using 1(1) [of s1] retried 1(3) claimed unfolding same by auto
    with retried(3) show ?thesis by (intro exI [of _ m]) auto
  next
    case (gave_up r1 s1 d)
    with 1(3) claimed have "claimed key h n (gw_store s1)" "publish_give_up env p key n d r1 s1 = (Inr r, s')" by simp_all
    from give_up_settled [OF this] gave_up(1-4) none dead show ?thesis
      by (intro exI [of _ n]) (auto split: if_splits)
  qed
qed

lemma publish_loop_raised:
  "claimed key h (n - 1) (gw_store s) \<Longrightarrow> publish_loop env send cfg p key n s = (Inl x, s') \<Longrightarrow>
   \<exists>m. claimed key h m (gw_store s')"
proof (induction n s rule: attempts_induct [of "rc_max_attempts cfg"])
  case (1 n s)
  let ?a = "publish_attempt env send p key n s"
  have claimed: "claimed key h n (gw_store (snd ?a))"
    using claimed_increment [OF 1(2)] by (simp add: publish_attempt_frame)
  show ?case
  proof (cases rule: publish_loop_cases [of env send p key n s cfg])
    case (retried r1 s1)
    then show ?thesis using 1(1) [of s1] 1(3) claimed by auto
  next
    case (gave_up r1 s1 d)
    with 1(3) have "gw_store s' = gw_store s1"
      by (auto simp: publish_give_up_def Let_def and_then_def split: sum.splits prod.splits if_splits)
        (metis write_dead_letter_frame(1) snd_conv)
    with claimed gave_up(1) show ?thesis by auto
  qed (use 1 claimed in auto)
qed

lemma store_other_key [frame_simps]:
  "k \<noteq> store_key key \<Longrightarrow> map_of (snd (increment_attempt key st)) k = map_of st k"
  "k \<noteq> store_key key \<Longrightarrow> map_of (snd (complete key res st)) k = map_of st k"
  by (auto simp: increment_attempt_def complete_def map_of_dict_put Let_def split: option.splits)

lemma give_up_other_key:
  "k \<noteq> store_key key \<Longrightarrow> map_of (gw_store (snd (publish_give_up env p key n d r s))) k = map_of (gw_store s) k"
  by (auto simp: publish_give_up_def Let_def store_result_def store_other_key write_dead_letter_frame
      intro!: and_then_inv [where P = "\<lambda>t. map_of (gw_store t) k = map_of (gw_store s) k"])

lemma publish_loop_other_key:
  assumes "k \<noteq> store_key key"
  shows "map_of (gw_store (snd (publish_loop env send cfg p key n s))) k = map_of (gw_store s) k"
proof (induction n s rule: attempts_induct [of "rc_max_attempts cfg"])
  case (1 n s)
  have "map_of (gw_store (snd (publish_attempt env send p key n s))) k = map_of (gw_store s) k"
    using assms by (simp add: publish_attempt_frame store_other_key)
  then show ?case
    by (cases rule: publish_loop_cases [of env send p key n s cfg])
      (use 1 assms in \<open>auto simp: store_result_def store_other_key give_up_other_key\<close>)
qed

section \<open>Lemmas: the publisher as a replay cache\<close>

definition receipt_normal :: "publish_receipt \<Rightarrow> bool" where
  "receipt_normal r = (pb_dispatch_id r \<noteq> Some [] \<and> pb_error_code r \<noteq> Some [] \<and> pb_ledger_id r \<noteq> Some [] \<and>
     pb_dead_letter_id r \<noteq> Some [])"

lemma nonempty_or_str: "x \<noteq> Some [] \<Longrightarrow> nonempty_opt (Some (or_str x [])) = x"
  by (auto simp: nonempty_opt_def or_str_def truthy_def split: option.splits)

lemma cached_payload:
  "receipt_normal r \<Longrightarrow> cached_result_to_receipt (Some (receipt_result_payload r n)) route = r"
  by (simp add: cached_result_to_receipt_def receipt_result_payload_def receipt_normal_def dict_get_def nonempty_or_str)

type_synonym delivery_key = "string \<times> string \<times> string"

definition delivery_key :: "(publish_request \<Rightarrow> string) \<Rightarrow> publish_request \<Rightarrow> delivery_key" where
  "delivery_key F p = (build_delivery_key p, F p, pq_route_key p)"

definition delivery_answer :: "('c, 'z) gateway_scheme \<Rightarrow> delivery_key \<Rightarrow> (py_exn + publish_receipt) option" where
  "delivery_answer s k =
     (case map_of (gw_store s) (store_key (fst k)) of None \<Rightarrow> None
      | Some r \<Rightarrow> if ir_status r \<noteq> ''in_progress'' \<and> ir_payload_hash r = fst (snd k)
                  then Some (Inr (cached_result_to_receipt (ir_result r) (snd (snd k)))) else None)"

definition receipt_kept :: "py_exn + publish_receipt \<Rightarrow> bool" where
  "receipt_kept r = (case r of Inl _ \<Rightarrow> False | Inr x \<Rightarrow> pb_ledger_id x \<noteq> None \<and> receipt_normal x)"

lemma store_same: "s\<lparr>gw_store := gw_store s\<rparr> = s"
  by simp

lemma publish_taken:
  assumes "map_of (gw_store s) (store_key (build_delivery_key p)) = Some r"
  shows "snd (publish F env send cfg p s) = s"
  using assms by (auto simp: publish_def claim_local_def Let_def store_same)

lemma publish_fresh:
  assumes "map_of (gw_store s) (store_key (build_delivery_key p)) = None"
  shows "publish F env send cfg p s = publish_loop env send cfg p (build_delivery_key p) 1
       (s\<lparr>gw_store := dict_put (gw_store s) (store_key (build_delivery_key p)) (fresh_claim (build_delivery_key p) (F p))\<rparr>)"
    and "claimed (build_delivery_key p) (F p) (1 - 1)
       (dict_put (gw_store s) (store_key (build_delivery_key p)) (fresh_claim (build_delivery_key p) (F p)))"
  using assms by (simp_all add: publish_def claim_local_def Let_def claimed_def map_of_dict_put fresh_claim_def)

lemma publish_settled:
  assumes "map_of (gw_store s) (store_key (build_delivery_key p)) = None" "publish F env send cfg p s = (Inr r, s')"
  shows "\<exists>m. 1 \<le> m \<and> m \<le> max 1 (rc_max_attempts cfg) \<and>
     settled (build_delivery_key p) (F p) m (receipt_result_payload r m) (gw_store s') \<and>
     (case pb_dead_letter_id r of
        None \<Rightarrow> gw_dead_letters s' = gw_dead_letters s
      | Some i \<Rightarrow> rc_max_attempts cfg \<le> m \<and> \<not> pb_accepted r \<and>
          (\<exists>dl. gw_dead_letters s' = gw_dead_letters s @ [dl] \<and> dl_dead_letter_id dl = i \<and> dl_attempts dl = m))"
proof -
  let ?s = "s\<lparr>gw_store := dict_put (gw_store s) (store_key (build_delivery_key p)) (fresh_claim (build_delivery_key p) (F p))\<rparr>"
  have claim: "claimed (build_delivery_key p) (F p) (1 - 1) (gw_store ?s)"
    using publish_fresh(2) [OF assms(1)] by simp
  have loop: "publish_loop env send cfg p (build_delivery_key p) 1 ?s = (Inr r, s')"
    using assms(2) by (simp only: publish_fresh(1) [OF assms(1)])
  have dead: "gw_dead_letters ?s = gw_dead_letters s" by simp
  from publish_loop_settled [OF claim loop] show ?thesis unfolding dead .
qed

lemma delivery_answer_hit: "delivery_answer s (delivery_key F p) = Some r \<Longrightarrow> publish F env send cfg p s = (r, s)"
  by (auto simp: delivery_answer_def delivery_key_def publish_def claim_local_def Let_def store_same
      split: option.splits if_splits)

lemma delivery_answer_stays:
  assumes "delivery_answer s k = Some r" shows "delivery_answer (snd (publish F env send cfg p s)) k = Some r"
proof (cases "map_of (gw_store s) (store_key (build_delivery_key p))")
  case None
  with assms have "fst k \<noteq> build_delivery_key p" by (auto simp: delivery_answer_def)
  with None assms show ?thesis
    by (simp add: publish_fresh delivery_answer_def publish_loop_other_key map_of_dict_put)
next
  case (Some x)
  with assms show ?thesis by (simp add: publish_taken)
qed

lemma delivery_answer_stored:
  assumes "receipt_kept (fst (publish F env send cfg p s))"
  shows "delivery_answer (snd (publish F env send cfg p s)) (delivery_key F p) = Some (fst (publish F env send cfg p s))"
proof (cases "map_of (gw_store s) (store_key (build_delivery_key p))")
  case None
  from assms obtain r where r: "fst (publish F env send cfg p s) = Inr r" "receipt_normal r"
    by (auto simp: receipt_kept_def split: sum.splits)
  then have "publish F env send cfg p s = (Inr r, snd (publish F env send cfg p s))" by (simp add: prod_eq_iff)
  from publish_settled [OF None this] obtain m where
    "settled (build_delivery_key p) (F p) m (receipt_result_payload r m) (gw_store (snd (publish F env send cfg p s)))"
    by blast
  with r show ?thesis
    by (auto simp: settled_def delivery_answer_def delivery_key_def cached_payload)
next
  case (Some x)
  with assms show ?thesis
    by (auto simp: publish_taken delivery_answer_def delivery_key_def publish_def claim_local_def Let_def receipt_kept_def
        split: if_splits)
qed

interpretation delivery_memo: replay_cache "publish F env send cfg" "delivery_key F" delivery_answer receipt_kept "\<lambda>r. r"
  by unfold_locales (auto intro: delivery_answer_hit delivery_answer_stays delivery_answer_stored)

lemma publish_ledger_ok:
  "ledger_ok (gw_ledger s) \<Longrightarrow> ledger_ok (gw_ledger (snd (publish F env send cfg p s)))"
  by (cases "map_of (gw_store s) (store_key (build_delivery_key p))")
    (simp_all add: publish_taken publish_fresh publish_loop_ledger_ok)

lemma publish_terminal:
  assumes "fst (publish F env send cfg p s) = Inr r" "ledger_ok (gw_ledger s)" "all_terminal (gw_ledger s)"
  shows "all_terminal (gw_ledger (snd (publish F env send cfg p s)))"
proof (cases "map_of (gw_store s) (store_key (build_delivery_key p))")
  case None
  show ?thesis
    unfolding publish_fresh(1) [OF None]
    by (rule publish_loop_terminal [where r = r]) (use assms None in \<open>simp_all add: publish_fresh(1)\<close>)
qed (simp add: publish_taken assms)

lemma publish_returns:
  assumes "\<And>q u v c x. fst (send q u v c) \<noteq> AcpOther x" "\<And>k. en_audit_fault env k = None"
  shows "\<exists>r s'. publish F env send cfg p s = (Inr r, s')"
  using publish_loop_returns [of send env, OF assms]
  by (auto simp: publish_def Let_def split: prod.splits claim_status.splits)

lemma run_publish_ledger_ok:
  "ledger_ok (gw_ledger s) \<Longrightarrow> ledger_ok (gw_ledger (run_calls (publish F env send cfg) ps s))"
  by (induction ps arbitrary: s) (simp_all add: publish_ledger_ok)

lemma run_publish_terminal:
  assumes "\<And>q u v c x. fst (send q u v c) \<noteq> AcpOther x" "\<And>k. en_audit_fault env k = None"
  shows "ledger_ok (gw_ledger s) \<Longrightarrow> all_terminal (gw_ledger s) \<Longrightarrow>
         all_terminal (gw_ledger (run_calls (publish F env send cfg) ps s))"
proof (induction ps arbitrary: s)
  case (Cons p ps)
  obtain r where "fst (publish F env send cfg p s) = Inr r"
    using publish_returns [of send env, OF assms] by (metis fst_conv)
  from publish_terminal [OF this] Cons show ?case by (simp add: publish_ledger_ok)
qed simp

lemma publish_loop_accepts:
  "fst (publish_attempt env send p key n s) = Inr r \<Longrightarrow> pb_accepted r \<Longrightarrow> fst (publish_loop env send cfg p key n s) = Inr r"
  by (subst publish_loop.simps) (auto split: prod.splits)

lemma publish_loop_raises:
  "fst (publish_attempt env send p key n s) = Inl x \<Longrightarrow> fst (publish_loop env send cfg p key n s) = Inl x"
  by (cases rule: publish_loop_cases [of env send p key n s cfg]) auto

section \<open>Properties\<close>

text \<open>
  C34: a delivery ends. For a key that is not yet claimed, with a client that answers with receipts or its own
  errors and raises no other exception (\<open>raised_delivery_blocks_key\<close> shows what one does), and an audit trail that can
  be written, the publisher returns a receipt
  after at least one and at most the maximal number of attempts; the claim is then completed with
  exactly that receipt, and there is one new dead letter, for the last attempt, if the receipt names
  one, and none otherwise.
\<close>

theorem publish_ends:
  assumes "map_of (gw_store s) (store_key (build_delivery_key p)) = None"
    and "\<And>q u v c x. fst (send q u v c) \<noteq> AcpOther x" and "\<And>k. en_audit_fault env k = None"
    and "1 \<le> rc_max_attempts cfg"
  shows "\<exists>r s' m. publish F env send cfg p s = (Inr r, s') \<and> 1 \<le> m \<and> m \<le> rc_max_attempts cfg \<and>
     settled (build_delivery_key p) (F p) m (receipt_result_payload r m) (gw_store s') \<and>
     (case pb_dead_letter_id r of
        None \<Rightarrow> gw_dead_letters s' = gw_dead_letters s
      | Some i \<Rightarrow> m = rc_max_attempts cfg \<and> \<not> pb_accepted r \<and>
          (\<exists>dl. gw_dead_letters s' = gw_dead_letters s @ [dl] \<and> dl_dead_letter_id dl = i \<and> dl_attempts dl = m))"
proof -
  obtain r s' where run: "publish F env send cfg p s = (Inr r, s')"
    using publish_returns [of send env, OF assms(2,3)] by blast
  from publish_settled [OF assms(1) run] assms(4) run show ?thesis
    by (auto split: option.splits)
qed

text \<open>
  The ledger stays sound over any sequence of deliveries: every record is stored under its own
  identifier, its history starts at prepared, follows the transition table and ends in its current
  state; and when neither the client nor the audit trail fails in an unforeseen way, every record
  ends acknowledged or refused, none is left prepared or sent.
\<close>

theorem ledger_sound:
  assumes "gw_ledger s = []" and "s' = run_calls (publish F env send cfg) ps s"
  shows "ledger_ok (gw_ledger s') \<and>
    ((\<forall>q u v c x. fst (send q u v c) \<noteq> AcpOther x) \<and> (\<forall>k. en_audit_fault env k = None) \<longrightarrow> all_terminal (gw_ledger s'))"
proof -
  have ok: "ledger_ok (gw_ledger s)" "all_terminal (gw_ledger s)"
    by (simp_all add: assms(1) ledger_ok_def all_terminal_def)
  show ?thesis
    unfolding assms(2) using run_publish_ledger_ok [OF ok(1)] run_publish_terminal [OF _ _ ok, of send env] by blast
qed

text \<open>
  A finished delivery is replayed. Once a request got a receipt from an actual delivery, the
  same request gets the same receipt again, read back from the cached strings, without sending and
  without any change of state, whatever other requests were published in between.
\<close>

theorem publish_replays_receipt:
  assumes "publish F env send cfg p s = (Inr r, s1)" and "pb_ledger_id r \<noteq> None" and "receipt_normal r"
  shows "publish F env send cfg p (run_calls (publish F env send cfg) ps s1) =
    (Inr r, run_calls (publish F env send cfg) ps s1)"
  using delivery_memo.replayed_after_run [where F = F and env = env and send = send and cfg = cfg and a = p and b = p
      and s = s and as = ps] assms
  by (simp add: receipt_kept_def)

text \<open>
  A delivery that raises is never completed: when the publisher raises (an error of the client
  other than its own class, or a failed audit write for the dead letter), the claim stays in
  progress and every later publication of the request, with a working client and audit trail, is
  refused as already in progress.
\<close>

theorem raised_delivery_blocks_key:
  assumes "map_of (gw_store s) (store_key (build_delivery_key p)) = None"
    and "publish F env send cfg p s = (Inl x, s1)"
  shows "\<exists>r. publish F' env' send' cfg' p s1 = (Inr r, s1) \<and> \<not> pb_accepted r \<and>
     pb_error_code r = Some ''communication_idempotency_in_progress''"
proof -
  let ?s = "s\<lparr>gw_store := dict_put (gw_store s) (store_key (build_delivery_key p)) (fresh_claim (build_delivery_key p) (F p))\<rparr>"
  have claim: "claimed (build_delivery_key p) (F p) (1 - 1) (gw_store ?s)"
    using publish_fresh(2) [OF assms(1)] by simp
  have "publish_loop env send cfg p (build_delivery_key p) 1 ?s = (Inl x, s1)"
    using assms(2) by (simp only: publish_fresh(1) [OF assms(1)])
  from publish_loop_raised [OF claim this] obtain m where "claimed (build_delivery_key p) (F p) m (gw_store s1)" by blast
  then show ?thesis
    by (auto simp: claimed_def publish_def claim_local_def Let_def store_same)
qed

section \<open>Witnesses\<close>

definition demo_publish :: "string \<Rightarrow> publish_request" where
  "demo_publish command = \<lparr>pq_task_id = ''t-1'', pq_trace_id = ''trace-1'', pq_principal_id = ''owner-1'',
     pq_idempotency_key = ''key-1'', pq_message_id = ''m-1'', pq_external_message_id = ''x-1'', pq_connector = ''internal'',
     pq_command = command, pq_target = ''communication'', pq_args = [''ceo''], pq_project_id = None,
     pq_route_key = ''internal_bus_message'', pq_endpoint = ''acp://internal/communication''\<rparr>"

definition demo_gateway :: "local_client gateway" where
  "demo_gateway = \<lparr>sv_repo = [], sv_budget = demo_service, sv_audit = \<lparr>lg_rows = [], lg_attempts = 0\<rparr>,
     sv_policy_calls = 0, sv_draws = 0, gw_client = [], gw_ledger = [], gw_store = [], gw_dead_letters = [],
     gw_latest_seen = [], gw_message_ids = []\<rparr>"

definition demo_gateway_env :: "bool \<Rightarrow> environment" where
  "demo_gateway_env audit_ok = \<lparr>en_uuid = (\<lambda>n. ''id-'' @ show_nat n), en_clock = int,
     en_audit_fault = (\<lambda>_. if audit_ok then None else Some (OtherExn ''audit down'')),
     en_budget_fault = (\<lambda>_ _. None), en_opa = (\<lambda>_ _. OpaCallFailed ''down''), en_profile_exists = (\<lambda>_. True)\<rparr>"

lemma demo_fresh: "map_of (gw_store demo_gateway) k = None"
  by (simp add: demo_gateway_def)

lemma local_send_no_other: "fst (local_send q u v c) \<noteq> AcpOther x"
  by (auto simp: local_send_def Let_def)

lemma publish_ends_witness:
  "\<exists>r s' m. publish pq_command (demo_gateway_env True) local_send default_retry_config (demo_publish ''msg_transport_error'') demo_gateway
       = (Inr r, s') \<and> 1 \<le> m \<and> m \<le> 3 \<and>
     settled (build_delivery_key (demo_publish ''msg_transport_error'')) ''msg_transport_error'' m
       (receipt_result_payload r m) (gw_store s')"
  using publish_ends [of demo_gateway "demo_publish ''msg_transport_error''" local_send "demo_gateway_env True" default_retry_config
      pq_command, OF demo_fresh local_send_no_other]
  by (auto simp: demo_gateway_env_def default_retry_config_def) (auto simp: demo_publish_def)

lemma ledger_sound_witness:
  "all_terminal (gw_ledger (run_calls (publish pq_command (demo_gateway_env True) local_send default_retry_config)
      [demo_publish ''msg_dispatch_nack'', demo_publish ''msg_notify''] demo_gateway))"
proof -
  have "gw_ledger demo_gateway = []" by (simp add: demo_gateway_def)
  moreover have "en_audit_fault (demo_gateway_env True) k = None" for k by (simp add: demo_gateway_env_def)
  ultimately show ?thesis using ledger_sound [OF _ refl] local_send_no_other by blast
qed

lemma demo_attempt:
  "fst (publish_attempt (demo_gateway_env b) local_send (demo_publish ''msg_notify'') key n (demo_gateway\<lparr>gw_store := st\<rparr>)) =
   Inr \<lparr>pb_accepted = True, pb_dispatch_id = Some (''acp-id-'' @ show_nat (Suc 0)), pb_error_code = None,
      pb_message = ''ACP delivery acknowledged via internal_bus_message'', pb_retryable = False,
      pb_route_key = ''internal_bus_message'', pb_ledger_id = Some (''id-'' @ show_nat 0), pb_dead_letter_id = None\<rparr>"
  by (simp add: publish_attempt_result attempt_outcome_def attempt_receipt_def local_send_def Let_def
      demo_publish_def demo_gateway_env_def demo_gateway_def)

lemma publish_replays_receipt_witness:
  "\<exists>r s1. publish pq_command (demo_gateway_env True) local_send default_retry_config (demo_publish ''msg_notify'') demo_gateway = (Inr r, s1) \<and>
     pb_accepted r \<and>
     publish pq_command (demo_gateway_env True) local_send default_retry_config (demo_publish ''msg_notify'')
       (run_calls (publish pq_command (demo_gateway_env True) local_send default_retry_config) [] s1) = (Inr r, s1)"
proof -
  let ?pub = "publish pq_command (demo_gateway_env True) local_send default_retry_config (demo_publish ''msg_notify'')"
  obtain r where r: "fst (?pub demo_gateway) = Inr r" "pb_accepted r" "pb_ledger_id r \<noteq> None" "receipt_normal r"
    unfolding publish_fresh(1) [OF demo_fresh]
    using publish_loop_accepts [OF demo_attempt] by (simp add: receipt_normal_def)
  then have run: "?pub demo_gateway = (Inr r, snd (?pub demo_gateway))" by (simp add: prod_eq_iff)
  have "?pub (run_calls (publish pq_command (demo_gateway_env True) local_send default_retry_config) [] (snd (?pub demo_gateway))) =
      (Inr r, snd (?pub demo_gateway))"
    using publish_replays_receipt [OF run r(3,4), of "[]"] by (simp only: run_calls.simps)
  with run r(2) show ?thesis by blast
qed

lemma raised_delivery_blocks_key_witness:
  "\<exists>x s1 r. publish pq_command (demo_gateway_env True) (\<lambda>p u v c. (AcpOther (OtherExn ''boom''), c)) default_retry_config
       (demo_publish ''msg_notify'') demo_gateway = (Inl x, s1) \<and>
     publish pq_command (demo_gateway_env True) local_send default_retry_config (demo_publish ''msg_notify'') s1 = (Inr r, s1) \<and>
     pb_error_code r = Some ''communication_idempotency_in_progress''"
proof -
  let ?send = "\<lambda>p u v c. (AcpOther (OtherExn ''boom''), c :: local_client)"
  let ?pub = "publish pq_command (demo_gateway_env True) ?send default_retry_config (demo_publish ''msg_notify'')"
  have "fst (publish_attempt (demo_gateway_env True) ?send p k n s) = Inl (OtherExn ''boom'')" for p k n and s :: "local_client gateway"
    by (simp add: publish_attempt_result attempt_outcome_def attempt_receipt_def)
  then have "fst (?pub demo_gateway) = Inl (OtherExn ''boom'')"
    unfolding publish_fresh(1) [OF demo_fresh] by (rule publish_loop_raises)
  then have run: "?pub demo_gateway = (Inl (OtherExn ''boom''), snd (?pub demo_gateway))" by (simp add: prod_eq_iff)
  from raised_delivery_blocks_key [OF demo_fresh run, of pq_command "demo_gateway_env True" local_send default_retry_config] run
  show ?thesis by blast
qed

end
