(* ===== verification/Communication.thy ===== *)
theory Communication
  imports Publisher
begin

text \<open>
  The communication dispatch boundary.
  \<^item> \<^verbatim>\<open>communication_gateway/validators/a2a_validator.py\<close>: \<open>build_a2a_envelope\<close>,
    \<open>validate_a2a_envelope\<close>, \<open>metadata_value\<close>;
  \<^item> \<^verbatim>\<open>communication_gateway/validators/ordering_validator.py\<close>: \<open>ordering_validate\<close>;
  \<^item> \<^verbatim>\<open>communication_gateway/transport/route_resolver.py\<close>: \<open>resolve_acp_route\<close>;
  \<^item> \<^verbatim>\<open>task_orchestrator/dispatch/communication_dispatch.py\<close>: \<open>communication_dispatch\<close>.

  The three validation exceptions carry a code and a message and are caught together; they are the
  left values of type \<open>coded_error\<close>.
\<close>

section \<open>A2A envelopes\<close>

record a2a_envelope =
  a2_schema_version :: string
  a2_message_id :: string
  a2_external_message_id :: string
  a2_trace_id :: string
  a2_principal_id :: string
  a2_connector :: string
  a2_command :: string
  a2_target :: string
  a2_args :: "string list"
  a2_idempotency_key :: string
  a2_project_id :: "string option"
  a2_created_at :: time

definition validate_a2a_envelope :: "a2a_envelope \<Rightarrow> coded_error + unit" where
  "validate_a2a_envelope e =
     (if a2_schema_version e \<noteq> ''a2a.v1'' then Inl (''a2a_schema_unsupported'', ''unsupported A2A schema version'')
      else if a2_message_id e = [] then Inl (''a2a_missing_message_id'', ''missing message_id in A2A envelope'')
      else if a2_external_message_id e = []
      then Inl (''a2a_missing_external_message_id'', ''missing external_message_id in A2A envelope'')
      else if a2_trace_id e = [] then Inl (''a2a_missing_trace_id'', ''missing trace_id in A2A envelope'')
      else if a2_principal_id e = [] then Inl (''a2a_missing_principal'', ''missing principal in A2A envelope'')
      else if a2_connector e \<notin> {''discord'', ''internal''}
      then Inl (''a2a_connector_unsupported'', ''unsupported connector channel'')
      else if \<not> py_startswith (a2_command e) ''msg_''
      then Inl (''a2a_invalid_command_type'', ''communication dispatch requires msg_* command'')
      else if a2_target e = [] then Inl (''a2a_missing_target'', ''missing communication target'')
      else if a2_idempotency_key e = []
      then Inl (''a2a_missing_idempotency_key'', ''missing idempotency_key in A2A envelope'')
      else if a2_args e = []
      then Inl (''a2a_missing_recipient_args'', ''communication command requires at least one recipient argument'')
      else if [] \<in> set (a2_args e)
      then Inl (''a2a_invalid_args'', ''communication command args must not contain blank values'')
      else Inr ())"

text \<open>The dispatch request, from which the envelope is built.\<close>

record communication_request =
  cq_task_id :: string
  cq_trace_id :: string
  cq_principal_id :: string
  cq_connector :: string
  cq_command :: string
  cq_target :: string
  cq_args :: "string list"
  cq_idempotency_key :: string
  cq_project_id :: "string option"
  cq_created_at :: time
  cq_metadata :: kvs

definition metadata_value :: "kvs \<Rightarrow> string \<Rightarrow> coded_error + string" where
  "metadata_value metadata key =
     (let v = py_strip (case dict_get metadata key of None \<Rightarrow> [] | Some x \<Rightarrow> x)
      in if v = [] then Inl (''a2a_missing_'' @ key, ''missing '' @ key @ '' in dispatch metadata'') else Inr v)"

definition build_a2a_envelope :: "communication_request \<Rightarrow> string \<Rightarrow> string \<Rightarrow> coded_error + a2a_envelope" where
  "build_a2a_envelope q message_id external_message_id =
     (let e = \<lparr>a2_schema_version = ''a2a.v1'',
               a2_message_id = py_strip message_id,
               a2_external_message_id = py_strip external_message_id,
               a2_trace_id = py_strip (cq_trace_id q),
               a2_principal_id = py_strip (cq_principal_id q),
               a2_connector = py_strip (cq_connector q),
               a2_command = py_strip (cq_command q),
               a2_target = py_strip (cq_target q),
               a2_args = map py_strip (cq_args q),
               a2_idempotency_key = py_strip (cq_idempotency_key q),
               a2_project_id = cq_project_id q,
               a2_created_at = cq_created_at q\<rparr>
      in case validate_a2a_envelope e of Inl x \<Rightarrow> Inl x | Inr _ \<Rightarrow> Inr e)"

section \<open>Ordering\<close>

definition stream_key :: "a2a_envelope \<Rightarrow> string" where
  "stream_key e = a2_connector e @ '':'' @ a2_principal_id e @ '':'' @
     or_str (a2_project_id e) ''project-unspecified'' @ '':'' @ a2_target e"

definition seen_ids :: "('c, 'z) gateway_scheme \<Rightarrow> string \<Rightarrow> string list" where
  "seen_ids s k = (case map_of (gw_message_ids s) k of None \<Rightarrow> [] | Some xs \<Rightarrow> xs)"

text \<open>The default dictionary creates an empty set for a stream it is asked about.\<close>

definition ordering_validate ::
  "a2a_envelope \<Rightarrow> ('c, 'z) gateway_scheme \<Rightarrow> (coded_error, unit, ('c, 'z) gateway_scheme) run" where
  "ordering_validate e s =
     (let k = stream_key e; s1 = s\<lparr>gw_message_ids := dict_put (gw_message_ids s) k (seen_ids s k)\<rparr>
      in if a2_message_id e \<in> set (seen_ids s k)
         then (Inl (''a2a_duplicate_message_id'', ''duplicate message_id detected in communication stream''), s1)
         else if (case map_of (gw_latest_seen s) k of None \<Rightarrow> False | Some t \<Rightarrow> a2_created_at e < t)
         then (Inl (''a2a_out_of_order_delivery'', ''message timestamp is older than latest stream message''), s1)
         else (Inr (), s1\<lparr>gw_message_ids := dict_put (gw_message_ids s1) k (seen_ids s k @ [a2_message_id e]),
                          gw_latest_seen := dict_put (gw_latest_seen s1) k (a2_created_at e)\<rparr>))"

section \<open>Routes\<close>

record acp_route =
  ro_route_key :: string
  ro_endpoint :: string
  ro_connector :: string

definition resolve_acp_route :: "a2a_envelope \<Rightarrow> coded_error + acp_route" where
  "resolve_acp_route e =
     (if a2_connector e = ''discord''
      then Inr \<lparr>ro_route_key = ''discord_direct_message'', ro_endpoint = ''acp://discord/'' @ a2_target e,
                ro_connector = a2_connector e\<rparr>
      else if a2_connector e = ''internal''
      then Inr \<lparr>ro_route_key = ''internal_bus_message'', ro_endpoint = ''acp://internal/'' @ a2_target e,
                ro_connector = a2_connector e\<rparr>
      else Inl (''acp_route_unmapped_connector'', ''no ACP route mapping for connector''))"

section \<open>Dispatch\<close>

record communication_receipt =
  cr_accepted :: bool
  cr_dispatch_id :: "string option"
  cr_error_code :: "string option"
  cr_message :: string
  cr_route_key :: "string option"
  cr_retryable :: bool
  cr_dead_letter_id :: "string option"

definition lift_sum :: "'e + 'a \<Rightarrow> 's \<Rightarrow> ('e, 'a, 's) run" where
  "lift_sum r s = (r, s)"

text \<open>The body of the \<^verbatim>\<open>try\<close>: the envelope, the ordering check, the route.\<close>

definition prepare_dispatch ::
  "communication_request \<Rightarrow> ('c, 'z) gateway_scheme \<Rightarrow> (coded_error, a2a_envelope \<times> acp_route, ('c, 'z) gateway_scheme) run" where
  "prepare_dispatch q s =
     and_then (lift_sum (metadata_value (cq_metadata q) ''message_id'') s)
       (\<lambda>mid s. and_then (lift_sum (metadata_value (cq_metadata q) ''external_message_id'') s)
         (\<lambda>xid s. and_then (lift_sum (build_a2a_envelope q mid xid) s)
           (\<lambda>e s. and_then (ordering_validate e s)
             (\<lambda>_ s. and_then (lift_sum (resolve_acp_route e) s)
               (\<lambda>route s. (Inr (e, route), s))))))"

definition publish_request_of :: "communication_request \<Rightarrow> a2a_envelope \<Rightarrow> acp_route \<Rightarrow> publish_request" where
  "publish_request_of q e route = \<lparr>pq_task_id = cq_task_id q,
     pq_trace_id = cq_trace_id q,
     pq_principal_id = cq_principal_id q,
     pq_idempotency_key = cq_idempotency_key q,
     pq_message_id = a2_message_id e,
     pq_external_message_id = a2_external_message_id e,
     pq_connector = a2_connector e,
     pq_command = a2_command e,
     pq_target = a2_target e,
     pq_args = a2_args e,
     pq_project_id = a2_project_id e,
     pq_route_key = ro_route_key route,
     pq_endpoint = ro_endpoint route\<rparr>"

definition communication_dispatch ::
  "(publish_request \<Rightarrow> string) \<Rightarrow> environment \<Rightarrow> 'c acp_client \<Rightarrow> retry_config \<Rightarrow> communication_request \<Rightarrow>
   ('c, 'z) gateway_scheme \<Rightarrow> (py_exn, communication_receipt, ('c, 'z) gateway_scheme) run" where
  "communication_dispatch F env send cfg q s =
     (case prepare_dispatch q s of
        (Inl (code, message), s1) \<Rightarrow>
          (Inr \<lparr>cr_accepted = False, cr_dispatch_id = None, cr_error_code = Some code, cr_message = message,
                cr_route_key = None, cr_retryable = False, cr_dead_letter_id = None\<rparr>, s1)
      | (Inr (e, route), s1) \<Rightarrow>
          and_then (publish F env send cfg (publish_request_of q e route) s1)
            (\<lambda>r s2. (Inr (if pb_accepted r
               then \<lparr>cr_accepted = True, cr_dispatch_id = pb_dispatch_id r, cr_error_code = None, cr_message = pb_message r,
                     cr_route_key = Some (pb_route_key r), cr_retryable = False, cr_dead_letter_id = pb_dead_letter_id r\<rparr>
               else \<lparr>cr_accepted = False, cr_dispatch_id = None, cr_error_code = pb_error_code r, cr_message = pb_message r,
                     cr_route_key = Some (pb_route_key r), cr_retryable = pb_retryable r,
                     cr_dead_letter_id = pb_dead_letter_id r\<rparr>), s2)))"

section \<open>Lemmas\<close>

lemma ordering_accepts:
  assumes "ordering_validate e s = (Inr (), s')"
  shows "a2_message_id e \<notin> set (seen_ids s (stream_key e))"
    and "seen_ids s' k = (if k = stream_key e then seen_ids s k @ [a2_message_id e] else seen_ids s k)"
    and "map_of (gw_latest_seen s') k = (if k = stream_key e then Some (a2_created_at e) else map_of (gw_latest_seen s) k)"
    and "map_of (gw_latest_seen s) (stream_key e) = Some t \<Longrightarrow> t \<le> a2_created_at e"
  using assms
  by (auto simp: ordering_validate_def Let_def seen_ids_def map_of_dict_put split: if_splits option.splits)

lemma ordering_refuses:
  assumes "ordering_validate e s = (Inl x, s')"
  shows "seen_ids s' k = seen_ids s k" "gw_latest_seen s' = gw_latest_seen s"
  using assms
  by (auto simp: ordering_validate_def Let_def seen_ids_def map_of_dict_put split: if_splits option.splits)

fun accept_stream ::
  "a2a_envelope list \<Rightarrow> ('c, 'z) gateway_scheme \<Rightarrow> a2a_envelope list \<times> ('c, 'z) gateway_scheme" where
  "accept_stream [] s = ([], s)"
| "accept_stream (e # es) s =
     (case ordering_validate e s of
        (Inl _, s1) \<Rightarrow> accept_stream es s1
      | (Inr _, s1) \<Rightarrow> (let (acc, s2) = accept_stream es s1 in (e # acc, s2)))"

definition stream_of :: "string \<Rightarrow> a2a_envelope list \<Rightarrow> a2a_envelope list" where
  "stream_of k es = filter (\<lambda>e. stream_key e = k) es"

lemma stream_of_Cons: "stream_of k (e # es) = (if stream_key e = k then e # stream_of k es else stream_of k es)"
  by (simp add: stream_of_def)

lemma accept_stream_ids:
  "set (map a2_message_id (stream_of k (fst (accept_stream es s)))) \<inter> set (seen_ids s k) = {} \<and>
   distinct (map a2_message_id (stream_of k (fst (accept_stream es s))))"
proof (induction es arbitrary: s)
  case (Cons e es)
  obtain r s1 where v: "ordering_validate e s = (r, s1)" by (cases "ordering_validate e s")
  show ?case
  proof (cases r)
    case (Inl x)
    with v Cons.IH [of s1] ordering_refuses(1) [of e s x s1 k] show ?thesis by simp
  next
    case (Inr u)
    with v have ok: "ordering_validate e s = (Inr (), s1)" by simp
    have "seen_ids s1 k = (if k = stream_key e then seen_ids s k @ [a2_message_id e] else seen_ids s k)"
      using ordering_accepts(2) [OF ok] .
    moreover have "a2_message_id e \<notin> set (seen_ids s (stream_key e))" using ordering_accepts(1) [OF ok] .
    ultimately show ?thesis using ok Cons.IH [of s1]
      by (auto simp: stream_of_Cons case_prod_beta Let_def split: if_splits)
  qed
qed (simp add: stream_of_def)

lemma accept_stream_times:
  "sorted (map a2_created_at (stream_of k (fst (accept_stream es s)))) \<and>
   (\<forall>t. map_of (gw_latest_seen s) k = Some t \<longrightarrow> (\<forall>e \<in> set (stream_of k (fst (accept_stream es s))). t \<le> a2_created_at e))"
proof (induction es arbitrary: s)
  case (Cons e es)
  obtain r s1 where v: "ordering_validate e s = (r, s1)" by (cases "ordering_validate e s")
  show ?case
  proof (cases r)
    case (Inl x)
    with v Cons.IH [of s1] ordering_refuses(2) [of e s x s1] show ?thesis by simp
  next
    case (Inr u)
    with v have ok: "ordering_validate e s = (Inr (), s1)" by simp
    show ?thesis
      using ok Cons.IH [of s1] ordering_accepts(3) [OF ok, of k] ordering_accepts(4) [OF ok]
      by (auto simp: stream_of_Cons case_prod_beta Let_def intro: order_trans split: if_splits)
  qed
qed (simp add: stream_of_def)

text \<open>Publishing touches neither the ordering state nor the task table nor what extends the gateway.\<close>

definition outside_delivery :: "('c, 'z) gateway_scheme \<Rightarrow> (string \<times> string list) list \<times> task_repo \<times> 'z" where
  "outside_delivery s = (gw_message_ids s, sv_repo s, gateway.more s)"

lemma outside_updates [frame_simps]:
  "outside_delivery (s\<lparr>gw_store := a\<rparr>) = outside_delivery s" "outside_delivery (s\<lparr>gw_ledger := b\<rparr>) = outside_delivery s"
  "outside_delivery (s\<lparr>gw_dead_letters := c\<rparr>) = outside_delivery s" "outside_delivery (s\<lparr>gw_client := d\<rparr>) = outside_delivery s"
  "outside_delivery (s\<lparr>sv_draws := n\<rparr>) = outside_delivery s" "outside_delivery (s\<lparr>sv_audit := l\<rparr>) = outside_delivery s"
  by (simp_all add: outside_delivery_def)

lemma give_up_outside: "outside_delivery (snd (publish_give_up env p key n d r t)) = outside_delivery t"
  by (auto simp: publish_give_up_def write_dead_letter_def audit_def draw_def store_result_def Let_def case_prod_beta
      outside_updates intro!: and_then_inv [where P = "\<lambda>u. outside_delivery u = outside_delivery t"])

lemma publish_outside: "outside_delivery (snd (publish F env send cfg p s)) = outside_delivery s"
proof -
  have loop: "outside_delivery (snd (publish_loop env send cfg p key n s)) = outside_delivery s" for key n s
  proof (induction n s rule: attempts_induct [of "rc_max_attempts cfg"])
    case (1 n s)
    have a: "outside_delivery (snd (publish_attempt env send p key n s)) = outside_delivery s"
      by (auto simp: attempt_defs case_prod_beta and_then_def outside_updates
          split: acp_outcome.splits sum.splits prod.splits)
    show ?case
      by (cases rule: publish_loop_cases [of env send p key n s cfg])
        (use 1 a in \<open>auto simp: give_up_outside store_result_def outside_updates\<close>)
  qed
  show ?thesis
    by (cases "map_of (gw_store s) (store_key (build_delivery_key p))")
      (simp_all add: publish_taken publish_fresh loop outside_updates)
qed

lemma publish_message_ids: "gw_message_ids (snd (publish F env send cfg p s)) = gw_message_ids s"
  using publish_outside [of F env send cfg p s] by (simp add: outside_delivery_def)

lemma communication_frame [frame_simps]:
  "sv_repo (snd (communication_dispatch F env send cfg q s)) = sv_repo s"
  "gateway.more (snd (communication_dispatch F env send cfg q s)) = gateway.more s"
proof -
  have prep: "sv_repo (snd (prepare_dispatch q s)) = sv_repo s \<and> gateway.more (snd (prepare_dispatch q s)) = gateway.more s"
    by (auto simp: prepare_dispatch_def lift_sum_def ordering_validate_def Let_def
        intro!: and_then_inv [where P = "\<lambda>u. sv_repo u = sv_repo s \<and> gateway.more u = gateway.more s"])
  have pub: "sv_repo (snd (publish F env send cfg p t)) = sv_repo t" "gateway.more (snd (publish F env send cfg p t)) = gateway.more t"
    for p t
    using publish_outside [of F env send cfg p t] by (simp_all add: outside_delivery_def)
  obtain r s1 where r: "prepare_dispatch q s = (r, s1)" by (cases "prepare_dispatch q s")
  have "sv_repo (snd (communication_dispatch F env send cfg q s)) = sv_repo s1 \<and>
      gateway.more (snd (communication_dispatch F env send cfg q s)) = gateway.more s1"
  proof (cases r)
    case (Inl x)
    with r show ?thesis by (cases x) (simp add: communication_dispatch_def)
  next
    case (Inr y)
    obtain e route where y: "y = (e, route)" by (cases y)
    obtain r' s2 where p: "publish F env send cfg (publish_request_of q e route) s1 = (r', s2)"
      by (cases "publish F env send cfg (publish_request_of q e route) s1")
    have "sv_repo s2 = sv_repo s1" "gateway.more s2 = gateway.more s1"
      using pub [of "publish_request_of q e route" s1] p by simp_all
    with r Inr y p show ?thesis by (cases r') (simp_all add: communication_dispatch_def)
  qed
  with prep r show "sv_repo (snd (communication_dispatch F env send cfg q s)) = sv_repo s"
    "gateway.more (snd (communication_dispatch F env send cfg q s)) = gateway.more s" by simp_all
qed

lemma prepare_dispatch_passed:
  assumes "prepare_dispatch q s = (Inr (e, route), s1)"
  shows "a2_message_id e \<in> set (seen_ids s1 (stream_key e))"
    and "\<exists>m x. metadata_value (cq_metadata q) ''message_id'' = Inr m \<and>
       metadata_value (cq_metadata q) ''external_message_id'' = Inr x \<and> build_a2a_envelope q m x = Inr e"
proof -
  from assms obtain m x where "metadata_value (cq_metadata q) ''message_id'' = Inr m"
      "metadata_value (cq_metadata q) ''external_message_id'' = Inr x" "build_a2a_envelope q m x = Inr e"
    and ok: "ordering_validate e s = (Inr (), s1)"
    by (auto simp: prepare_dispatch_def lift_sum_def and_then_Inr)
  then show "\<exists>m x. metadata_value (cq_metadata q) ''message_id'' = Inr m \<and>
       metadata_value (cq_metadata q) ''external_message_id'' = Inr x \<and> build_a2a_envelope q m x = Inr e" by blast
  show "a2_message_id e \<in> set (seen_ids s1 (stream_key e))" using ordering_accepts(2) [OF ok] by simp
qed

section \<open>Properties\<close>

text \<open>
  Whatever envelopes arrive, the ones the ordering validator accepts on one stream have pairwise
  different message identifiers and timestamps that never decrease.
\<close>

theorem accepted_streams_ordered:
  "distinct (map a2_message_id (stream_of k (fst (accept_stream es s)))) \<and>
   sorted (map a2_created_at (stream_of k (fst (accept_stream es s))))"
  using accept_stream_ids accept_stream_times by blast

text \<open>
  The delivery replay cannot be reached through the dispatch adapter. A request that passed
  validation once, whatever came of its delivery, is refused as a duplicate message when it is
  dispatched again, because the ordering check precedes the publisher's idempotency claim: neither
  a successful receipt is replayed nor a retryable failure retried.
\<close>

theorem redispatch_is_duplicate:
  assumes "prepare_dispatch q s = (Inr (e, route), s1)"
    and "communication_dispatch F env send cfg q s = (Inr r, s2)"
  shows "\<exists>r' s3. communication_dispatch F' env' send' cfg' q s2 = (Inr r', s3) \<and> \<not> cr_accepted r' \<and>
     cr_error_code r' = Some ''a2a_duplicate_message_id'' \<and> \<not> cr_retryable r'"
proof -
  obtain m x where mx: "metadata_value (cq_metadata q) ''message_id'' = Inr m"
      "metadata_value (cq_metadata q) ''external_message_id'' = Inr x" "build_a2a_envelope q m x = Inr e"
    using prepare_dispatch_passed(2) [OF assms(1)] by blast
  have "gw_message_ids s2 = gw_message_ids s1"
    using assms publish_message_ids [of F env send cfg "publish_request_of q e route" s1]
    by (auto simp: communication_dispatch_def and_then_Inr)
  then have seen: "a2_message_id e \<in> set (seen_ids s2 (stream_key e))"
    using prepare_dispatch_passed(1) [OF assms(1)] by (simp add: seen_ids_def)
  then show ?thesis
    by (simp add: communication_dispatch_def prepare_dispatch_def lift_sum_def mx ordering_validate_def Let_def)
qed

section \<open>Witnesses\<close>

definition demo_communication :: communication_request where
  "demo_communication = \<lparr>cq_task_id = ''t-1'', cq_trace_id = ''trace-1'', cq_principal_id = ''owner-1'',
     cq_connector = ''internal'', cq_command = ''msg_notify'', cq_target = ''communication'', cq_args = [''ceo''],
     cq_idempotency_key = ''key-1'', cq_project_id = None, cq_created_at = 0,
     cq_metadata = [(''message_id'', ''m-1''), (''external_message_id'', ''x-1'')]\<rparr>"

lemma demo_metadata:
  "metadata_value (cq_metadata demo_communication) ''message_id'' = Inr ''m-1''"
  "metadata_value (cq_metadata demo_communication) ''external_message_id'' = Inr ''x-1''"
  by code_simp+

lemma demo_envelope_built:
  "\<exists>e. build_a2a_envelope demo_communication ''m-1'' ''x-1'' = Inr e \<and> a2_connector e = ''internal''"
proof -
  have "case build_a2a_envelope demo_communication ''m-1'' ''x-1'' of Inl _ \<Rightarrow> False | Inr e \<Rightarrow> a2_connector e = ''internal''"
    by code_simp
  then show ?thesis by (auto split: sum.splits)
qed

lemma demo_prepared: "\<exists>e route s1. prepare_dispatch demo_communication demo_gateway = (Inr (e, route), s1)"
proof -
  obtain e where e: "build_a2a_envelope demo_communication ''m-1'' ''x-1'' = Inr e" "a2_connector e = ''internal''"
    using demo_envelope_built by blast
  have "fst (ordering_validate e demo_gateway) = Inr ()"
    by (simp add: ordering_validate_def Let_def seen_ids_def demo_gateway_def)
  then obtain s1 where "ordering_validate e demo_gateway = (Inr (), s1)" by (cases "ordering_validate e demo_gateway") simp
  with e show ?thesis
    by (simp add: prepare_dispatch_def lift_sum_def demo_metadata resolve_acp_route_def)
qed

lemma demo_audit_ok: "en_audit_fault (demo_gateway_env True) k = None"
  by (simp add: demo_gateway_env_def)

lemma redispatch_is_duplicate_witness:
  "\<exists>r s2 r' s3. communication_dispatch pq_command (demo_gateway_env True) local_send default_retry_config demo_communication
       demo_gateway = (Inr r, s2) \<and>
     communication_dispatch pq_command (demo_gateway_env True) local_send default_retry_config demo_communication s2 = (Inr r', s3) \<and>
     cr_error_code r' = Some ''a2a_duplicate_message_id''"
proof -
  obtain e route s1 where prep: "prepare_dispatch demo_communication demo_gateway = (Inr (e, route), s1)"
    using demo_prepared by blast
  obtain pr s2 where "publish pq_command (demo_gateway_env True) local_send default_retry_config
      (publish_request_of demo_communication e route) s1 = (Inr pr, s2)"
    using publish_returns [of local_send "demo_gateway_env True", OF local_send_no_other demo_audit_ok] by blast
  with prep obtain r where run: "communication_dispatch pq_command (demo_gateway_env True) local_send default_retry_config
      demo_communication demo_gateway = (Inr r, s2)"
    by (simp add: communication_dispatch_def)
  from redispatch_is_duplicate [OF prep run] run show ?thesis by blast
qed

end
