(* ===== verification/Dispatch.thy ===== *)
theory Dispatch
  imports Communication
begin

text \<open>
  Dispatch of an authorised task.
  \<^item> \<^verbatim>\<open>task_orchestrator/dispatch/target_selector.py\<close>: \<open>select_dispatch_target\<close>;
  \<^item> \<^verbatim>\<open>task_orchestrator/dispatch/sandbox_dispatch.py\<close>: \<open>local_sandbox\<close>;
  \<^item> \<^verbatim>\<open>agents/specialist/\<close>: \<open>specialist_handle\<close> with its executor and results store;
  \<^item> \<^verbatim>\<open>task_orchestrator/services/task_service.py\<close>: \<open>dispatch_admitted_task\<close>, one definition
    per branch, \<open>create_specialist_task\<close>, \<open>escalate_to_domain_leader\<close>.

  The LLM adapter (gateway, retrieval, tools) and the domain leader are parameters: functions from
  a draw number and a request to an exception or a receipt, and what they do to stores of their own
  is outside this state. The sandbox adapter is a parameter of the service as in the code, with
  \<open>local_sandbox\<close> as the one the program builds. Dollar amounts are rationals.
\<close>

section \<open>Targets\<close>

definition select_dispatch_target :: "task_record \<Rightarrow> string" where
  "select_dispatch_target t =
     (if tk_target t = ''specialist'' then ''specialist''
      else if py_startswith (tk_command t) ''llm_'' then ''llm''
      else if py_startswith (tk_command t) ''tool_'' then ''llm''
      else if py_startswith (tk_command t) ''msg_'' then ''communication''
      else ''sandbox'')"

section \<open>Receipts and outcomes\<close>

record sandbox_request =
  sx_task_id :: string
  sx_trace_id :: string
  sx_command :: string
  sx_args :: "string list"

record sandbox_receipt =
  sr_accepted :: bool
  sr_dispatch_id :: "string option"
  sr_error_code :: "string option"
  sr_message :: string

definition local_sandbox :: "sandbox_request \<Rightarrow> string \<Rightarrow> py_exn + sandbox_receipt" where
  "local_sandbox p uuid =
     (if sx_command p = ''dispatch_timeout''
      then Inr \<lparr>sr_accepted = False, sr_dispatch_id = None, sr_error_code = Some ''execution_dispatch_timeout'',
                sr_message = ''dispatch timed out at sandbox adapter boundary''\<rparr>
      else if sx_command p = ''dispatch_reject''
      then Inr \<lparr>sr_accepted = False, sr_dispatch_id = None, sr_error_code = Some ''execution_dispatch_failed'',
                sr_message = ''sandbox adapter rejected dispatch request''\<rparr>
      else Inr \<lparr>sr_accepted = True, sr_dispatch_id = Some uuid, sr_error_code = None,
                sr_message = ''sandbox adapter accepted dispatch request''\<rparr>)"

record llm_request =
  lq_task_id :: string
  lq_request_id :: string
  lq_trace_id :: string
  lq_principal_id :: string
  lq_principal_role :: string
  lq_project_id :: "string option"
  lq_command :: string
  lq_args :: "string list"
  lq_recipient_role :: "string option"
  lq_recipient_id :: "string option"
  lq_policy_version :: string
  lq_policy_hash :: string
  lq_rule_ids :: "string list"
  lq_conversation_scope :: "string option \<times> string option \<times> string option"

text \<open>The parts of a gateway response that the service reads: usage, cost and budget usage may be missing.\<close>

record llm_response =
  lr_decision :: string
  lr_model_selected :: "string option"
  lr_routing_profile :: "string option"
  lr_quota_limit_source :: string
  lr_usage :: "(int \<times> int \<times> int \<times> int) option"
  lr_cost :: "(rat \<times> rat option \<times> string) option"
  lr_budget_usage :: "(rat \<times> int) option"
  lr_retryable :: bool
  lr_generated_text :: "string option"

record llm_receipt =
  ll_accepted :: bool
  ll_dispatch_id :: "string option"
  ll_error_code :: "string option"
  ll_message :: string
  ll_gateway_response :: "llm_response option"
  ll_recipient_role :: "string option"
  ll_recipient_id :: "string option"
  ll_grounding_source_ids :: "string list"

record llm_metadata =
  lm_decision :: string
  lm_model_selected :: string
  lm_routing_profile :: string
  lm_quota_limit_source :: string
  lm_usage :: "int \<times> int \<times> int \<times> int"
  lm_cost :: "rat \<times> rat option \<times> string"
  lm_budget_usage :: "rat \<times> int"
  lm_generated_text :: "string option"
  lm_recipient_role :: string
  lm_recipient_id :: "string option"
  lm_grounding_source_ids :: "string list"

definition extract_llm_metadata :: "llm_receipt \<Rightarrow> llm_metadata option" where
  "extract_llm_metadata r =
     (case ll_gateway_response r of None \<Rightarrow> None
      | Some p \<Rightarrow>
          (case (lr_usage p, lr_cost p, lr_budget_usage p) of
             (Some usage, Some cost, Some budget) \<Rightarrow>
               Some \<lparr>lm_decision = lr_decision p,
                     lm_model_selected = or_str (lr_model_selected p) ''model-unspecified'',
                     lm_routing_profile = (case lr_routing_profile p of None \<Rightarrow> ''profile-unspecified'' | Some x \<Rightarrow> x),
                     lm_quota_limit_source = lr_quota_limit_source p,
                     lm_usage = usage,
                     lm_cost = cost,
                     lm_budget_usage = budget,
                     lm_generated_text = lr_generated_text p,
                     lm_recipient_role = or_str (Some (py_lower (py_strip (or_str (ll_recipient_role r) [])))) ''runtime_agent'',
                     lm_recipient_id = or_none (py_strip (or_str (ll_recipient_id r) [])),
                     lm_grounding_source_ids = ll_grounding_source_ids r\<rparr>
           | _ \<Rightarrow> None))"

record dispatch_outcome =
  do_accepted :: bool
  do_target :: string
  do_dispatch_id :: "string option"
  do_error_code :: "string option"
  do_message :: string
  do_replayed :: bool
  do_source :: string
  do_retryable :: bool
  do_dead_letter_id :: "string option"
  do_llm_metadata :: "llm_metadata option"

definition outcome_accepted :: "string \<Rightarrow> string \<Rightarrow> string \<Rightarrow> string \<Rightarrow> string option \<Rightarrow> llm_metadata option \<Rightarrow> dispatch_outcome" where
  "outcome_accepted target source dispatch_id message dead_letter meta =
     \<lparr>do_accepted = True, do_target = target, do_dispatch_id = Some dispatch_id, do_error_code = None,
      do_message = message, do_replayed = False, do_source = source, do_retryable = False,
      do_dead_letter_id = dead_letter, do_llm_metadata = meta\<rparr>"

definition outcome_refused ::
  "string \<Rightarrow> string \<Rightarrow> string option \<Rightarrow> string \<Rightarrow> bool \<Rightarrow> string option \<Rightarrow> llm_metadata option \<Rightarrow> dispatch_outcome" where
  "outcome_refused target source error_code message retryable dead_letter meta =
     \<lparr>do_accepted = False, do_target = target, do_dispatch_id = None, do_error_code = error_code,
      do_message = message, do_replayed = False, do_source = source, do_retryable = retryable,
      do_dead_letter_id = dead_letter, do_llm_metadata = meta\<rparr>"

section \<open>State and adapters\<close>

record execution_result =
  er_result_id :: string
  er_task_id :: string
  er_output_text :: string
  er_tools_used :: "string list"
  er_trace_id :: string
  er_created_at :: time

record 'c orchestrator = "'c gateway" +
  ts_task_outcomes :: "(string \<times> dispatch_outcome) list"
  ts_loop :: loop_state
  ts_results :: "execution_result list"

record specialist_request =
  sq_task_id :: string
  sq_project_id :: string
  sq_task_description :: string
  sq_approved_tools :: "string list"
  sq_dispatch_source_role :: string
  sq_trace_id :: string

record specialist_response =
  sp_execution_status :: string
  sp_output_text :: string
  sp_artifact_id :: "string option"
  sp_blocker :: "string option"

record 'c adapters =
  dx_sandbox :: "sandbox_request \<Rightarrow> string \<Rightarrow> py_exn + sandbox_receipt"
  dx_llm :: "nat \<Rightarrow> llm_request \<Rightarrow> py_exn + llm_receipt"
  dx_send :: "'c acp_client"
  dx_retry :: retry_config
  dx_fingerprint :: "publish_request \<Rightarrow> string"
  dx_specialist :: bool
  dx_domain_leader :: "(string \<Rightarrow> string \<Rightarrow> py_exn + string) option"

section \<open>The specialist agent\<close>

text \<open>The text after a marker up to the next closing bracket, or to the end.\<close>

definition bracket_text :: "string \<Rightarrow> string \<Rightarrow> string option" where
  "bracket_text marker d =
     (case py_find d marker of None \<Rightarrow> None
      | Some i \<Rightarrow> Some (py_strip (takeWhile (\<lambda>c. c \<noteq> CHR '']'') (drop (i + length marker) d))))"

definition check_clarification_needed :: "specialist_request \<Rightarrow> string option" where
  "check_clarification_needed q = bracket_text ''[clarification_needed:'' (sq_task_description q)"

definition split_tools :: "string \<Rightarrow> string list" where
  "split_tools raw = filter (\<lambda>t. t \<noteq> []) (map py_strip (py_split (CHR '','') raw))"

definition extract_tools_requested :: "specialist_request \<Rightarrow> string list" where
  "extract_tools_requested q =
     (case bracket_text ''[tools:'' (sq_task_description q) of None \<Rightarrow> [] | Some raw \<Rightarrow> split_tools raw)"

text \<open>\<^verbatim>\<open>SpecialistTaskExecutor.execute\<close>: the first requested tool that is not approved, or the output.\<close>

definition execute_task :: "string \<Rightarrow> string list \<Rightarrow> string list \<Rightarrow> string + string" where
  "execute_task description approved requested =
     (case find (\<lambda>t. t \<notin> set approved) requested of
        Some tool \<Rightarrow> Inl tool
      | None \<Rightarrow> Inr (''Task executed: '' @ take 200 description))"

definition specialist_handle ::
  "environment \<Rightarrow> specialist_request \<Rightarrow> ('c, 'z) orchestrator_scheme \<Rightarrow>
   (py_exn, specialist_response, ('c, 'z) orchestrator_scheme) run" where
  "specialist_handle env q s =
     (if py_lower (py_strip (sq_dispatch_source_role q)) \<noteq> ''project_manager''
      then (Inl (SpecialistDispatchAuthError (''Specialist can only be dispatched by project_manager; received dispatch_source_role=''
              @ py_repr (sq_dispatch_source_role q))), s)
      else if py_strip (sq_task_id q) = []
      then (Inl (SpecialistDispatchAuthError ''Specialist requires a non-empty task_id''), s)
      else case check_clarification_needed q of
        Some question \<Rightarrow> (Inr \<lparr>sp_execution_status = ''clarification_needed'',
            sp_output_text = ''Task paused - clarification required before execution.'', sp_artifact_id = None,
            sp_blocker = Some (''clarification_needed: '' @ question)\<rparr>, s)
      | None \<Rightarrow>
          (case execute_task (sq_task_description q) (sq_approved_tools q) (extract_tools_requested q) of
             Inl tool \<Rightarrow> (Inr \<lparr>sp_execution_status = ''blocked'',
                 sp_output_text = ''Task blocked: tool not authorized: '' @ py_repr tool, sp_artifact_id = None,
                 sp_blocker = Some (''tool_not_authorized: '' @ tool)\<rparr>, s)
           | Inr out \<Rightarrow>
               (let ((rid, now), s1) = draw env s;
                    s2 = s1\<lparr>ts_results := ts_results s1 @ [\<lparr>er_result_id = rid, er_task_id = py_strip (sq_task_id q),
                            er_output_text = out, er_tools_used = extract_tools_requested q, er_trace_id = sq_trace_id q,
                            er_created_at = now\<rparr>]\<rparr>
                in and_then (audit env \<lparr>aw_event_type = ''specialist_task_completed'', aw_outcome = ''completed'',
                       aw_trace_id = sq_trace_id q, aw_request_id = None, aw_task_id = Some (py_strip (sq_task_id q)),
                       aw_principal_id = Some ''specialist'', aw_principal_role = Some ''specialist'', aw_source = ''specialist'',
                       aw_reason_code = Some ''task_executed'',
                       aw_message = ''task execution completed for task_id='' @ py_strip (sq_task_id q),
                       aw_rule_ids = [''AUTH-001'', ''ORCH-006''],
                       aw_payload = [(''task_id'', Some (py_strip (sq_task_id q))), (''project_id'', Some (sq_project_id q))]\<rparr> s2)
                     (\<lambda>_ s3. (Inr \<lparr>sp_execution_status = ''completed'', sp_output_text = out, sp_artifact_id = Some rid,
                                  sp_blocker = None\<rparr>, s3)))))"

section \<open>The dispatch service\<close>

text \<open>The metadata of a task.\<close>

definition meta_get :: "task_record \<Rightarrow> string \<Rightarrow> string option" where
  "meta_get t k = dict_get (tk_metadata t) k"

definition split_csv_values :: "string option \<Rightarrow> string list" where
  "split_csv_values value = (case value of None \<Rightarrow> [] | Some v \<Rightarrow> split_tools v)"

definition extract_primary_recipient :: "task_record \<Rightarrow> string option \<times> string option" where
  "extract_primary_recipient t =
     (let primary_role = or_none (py_lower (py_strip (or_str (meta_get t ''primary_recipient_role'') [])));
          primary_id = or_none (py_strip (or_str (meta_get t ''primary_recipient_id'') []))
      in if primary_role \<noteq> None \<or> primary_id \<noteq> None then (primary_role, primary_id)
         else (let roles = split_csv_values (meta_get t ''recipient_types'');
                   ids = split_csv_values (meta_get t ''recipient_ids'')
               in (case roles of [] \<Rightarrow> None | r # _ \<Rightarrow> Some r, case ids of [] \<Rightarrow> None | i # _ \<Rightarrow> Some i)))"

definition extract_discord_conversation_scope :: "task_record \<Rightarrow> string option \<times> string option \<times> string option" where
  "extract_discord_conversation_scope t =
     (let field = (\<lambda>k. or_none (py_strip (or_str (meta_get t k) [])))
      in (field ''discord_guild_id'', field ''discord_channel_id'', field ''discord_thread_id''))"

text \<open>The life-cycle calls on the service state, and remembering an outcome.\<close>

definition on_repo ::
  "(task_repo \<Rightarrow> (py_exn, task_record option, task_repo) run) \<Rightarrow> ('c, 'z) orchestrator_scheme \<Rightarrow>
   (py_exn, unit, ('c, 'z) orchestrator_scheme) run" where
  "on_repo f s = (case f (sv_repo s) of (Inl x, repo) \<Rightarrow> (Inl x, s\<lparr>sv_repo := repo\<rparr>) | (Inr _, repo) \<Rightarrow> (Inr (), s\<lparr>sv_repo := repo\<rparr>))"

definition remember ::
  "task_record \<Rightarrow> dispatch_outcome \<Rightarrow> ('c, 'z) orchestrator_scheme \<Rightarrow> (py_exn, dispatch_outcome, ('c, 'z) orchestrator_scheme) run" where
  "remember t oc s = (Inr oc, s\<lparr>ts_task_outcomes := dict_put (ts_task_outcomes s) (tk_task_id t) oc\<rparr>)"

definition conclude_accepted ::
  "task_record \<Rightarrow> string \<Rightarrow> string \<Rightarrow> string \<Rightarrow> string \<Rightarrow> string option \<Rightarrow> llm_metadata option \<Rightarrow> ('c, 'z) orchestrator_scheme \<Rightarrow>
   (py_exn, dispatch_outcome, ('c, 'z) orchestrator_scheme) run" where
  "conclude_accepted t target source dispatch_id message dead_letter meta s =
     and_then (on_repo (\<lambda>repo. mark_dispatched repo (tk_task_id t) target dispatch_id message) s)
       (\<lambda>_ s1. remember t (outcome_accepted target source dispatch_id message dead_letter meta) s1)"

definition conclude_blocked ::
  "task_record \<Rightarrow> string \<Rightarrow> string \<Rightarrow> string option \<Rightarrow> string \<Rightarrow> bool \<Rightarrow> string option \<Rightarrow> llm_metadata option \<Rightarrow>
   ('c, 'z) orchestrator_scheme \<Rightarrow> (py_exn, dispatch_outcome, ('c, 'z) orchestrator_scheme) run" where
  "conclude_blocked t target source error_code message retryable dead_letter meta s =
     and_then (on_repo (\<lambda>repo. mark_blocked_dispatch repo (tk_task_id t) error_code message target source) s)
       (\<lambda>_ s1. remember t (outcome_refused target source error_code message retryable dead_letter meta) s1)"

definition dispatch_sandbox ::
  "environment \<Rightarrow> 'c adapters \<Rightarrow> task_record \<Rightarrow> ('c, 'z) orchestrator_scheme \<Rightarrow>
   (py_exn, dispatch_outcome, ('c, 'z) orchestrator_scheme) run" where
  "dispatch_sandbox env ax t s =
     (let ((u, _), s1) = draw env s; ((v, _), s2) = draw env s1; src = ''dispatch_sandbox_adapter''
      in case dx_sandbox ax \<lparr>sx_task_id = tk_task_id t, sx_trace_id = tk_trace_id t, sx_command = tk_command t,
                             sx_args = tk_args t\<rparr> u of
           Inl x \<Rightarrow> conclude_blocked t ''sandbox'' src (Some ''execution_dispatch_adapter_error'')
                     ''sandbox adapter execution failed'' False None None s2
         | Inr r \<Rightarrow>
             if sr_accepted r
             then conclude_accepted t ''sandbox'' src (or_str (sr_dispatch_id r) (''sandbox-'' @ v)) (sr_message r) None None s2
             else conclude_blocked t ''sandbox'' src (sr_error_code r) (sr_message r) False None None s2)"

definition dispatch_llm ::
  "environment \<Rightarrow> 'c adapters \<Rightarrow> string \<Rightarrow> string \<Rightarrow> string list \<Rightarrow> task_record \<Rightarrow> ('c, 'z) orchestrator_scheme \<Rightarrow>
   (py_exn, dispatch_outcome, ('c, 'z) orchestrator_scheme) run" where
  "dispatch_llm env ax policy_version policy_hash rule_ids t s =
     (let ((v, _), s1) = draw env s; (role, rid) = extract_primary_recipient t; src = ''dispatch_llm_gateway''
      in case dx_llm ax (sv_draws s) \<lparr>lq_task_id = tk_task_id t, lq_request_id = tk_request_id t, lq_trace_id = tk_trace_id t,
                lq_principal_id = tk_principal_id t, lq_principal_role = tk_principal_role t, lq_project_id = tk_project_id t,
                lq_command = tk_command t, lq_args = tk_args t, lq_recipient_role = role, lq_recipient_id = rid,
                lq_policy_version = policy_version, lq_policy_hash = policy_hash, lq_rule_ids = rule_ids,
                lq_conversation_scope = extract_discord_conversation_scope t\<rparr> of
           Inl x \<Rightarrow> conclude_blocked t ''llm'' src (Some ''llm_gateway_runtime_error'') ''llm gateway dispatch failed''
                     False None None s1
         | Inr r \<Rightarrow>
             if ll_accepted r
             then conclude_accepted t ''llm'' src (or_str (ll_dispatch_id r) (''llm-'' @ v)) (ll_message r) None
                    (extract_llm_metadata r) s1
             else conclude_blocked t ''llm'' src (ll_error_code r) (ll_message r)
                    (case ll_gateway_response r of None \<Rightarrow> False | Some p \<Rightarrow> lr_retryable p) None (extract_llm_metadata r) s1)"

definition dispatch_communication ::
  "environment \<Rightarrow> 'c adapters \<Rightarrow> task_record \<Rightarrow> ('c, 'z) orchestrator_scheme \<Rightarrow>
   (py_exn, dispatch_outcome, ('c, 'z) orchestrator_scheme) run" where
  "dispatch_communication env ax t s =
     (let q = \<lparr>cq_task_id = tk_task_id t, cq_trace_id = tk_trace_id t, cq_principal_id = tk_principal_id t,
               cq_connector = tk_connector t, cq_command = tk_command t, cq_target = tk_target t, cq_args = tk_args t,
               cq_idempotency_key = tk_idempotency_key t, cq_project_id = tk_project_id t,
               cq_created_at = tk_created_at t, cq_metadata = tk_metadata t\<rparr>;
          src = ''dispatch_communication_gateway''
      in case communication_dispatch (dx_fingerprint ax) env (dx_send ax) (dx_retry ax) q s of
           (Inl x, s1) \<Rightarrow> conclude_blocked t ''communication'' src (Some ''communication_dispatch_adapter_error'')
                            ''communication adapter execution failed'' False None None s1
         | (Inr r, s1) \<Rightarrow>
             if cr_accepted r
             then (let ((v, _), s2) = draw env s1
                   in conclude_accepted t ''communication'' src (or_str (cr_dispatch_id r) (''communication-'' @ v))
                        (cr_message r) (cr_dead_letter_id r) None s2)
             else conclude_blocked t ''communication'' src (Some (or_str (cr_error_code r) ''communication_dispatch_failed''))
                    (cr_message r) (cr_retryable r) (cr_dead_letter_id r) None s1)"

text \<open>\<open>guarded\<close> says whether the caller passed its loop state.\<close>

definition pair_check ::
  "bool \<Rightarrow> string \<Rightarrow> string \<Rightarrow> ('c, 'z) orchestrator_scheme \<Rightarrow> (py_exn, unit, ('c, 'z) orchestrator_scheme) run" where
  "pair_check guarded sender receiver s =
     (if guarded then (case check_and_increment_pair pair_limit sender receiver (ts_loop s) of (r, ls) \<Rightarrow> (r, s\<lparr>ts_loop := ls\<rparr>))
      else (Inr (), s))"

definition specialist_request_of :: "task_record \<Rightarrow> specialist_request" where
  "specialist_request_of t = \<lparr>sq_task_id = tk_task_id t,
     sq_project_id = or_str (tk_project_id t) ''system'',
     sq_task_description = tk_command t,
     sq_approved_tools = (case meta_get t ''approved_tools'' of None \<Rightarrow> [] | Some raw \<Rightarrow> split_tools raw),
     sq_dispatch_source_role = (case meta_get t ''dispatch_source'' of None \<Rightarrow> ''unknown'' | Some r \<Rightarrow> r),
     sq_trace_id = tk_trace_id t\<rparr>"

definition dispatch_specialist ::
  "environment \<Rightarrow> 'c adapters \<Rightarrow> bool \<Rightarrow> task_record \<Rightarrow> ('c, 'z) orchestrator_scheme \<Rightarrow>
   (py_exn, dispatch_outcome, ('c, 'z) orchestrator_scheme) run" where
  "dispatch_specialist env ax guarded t s =
     (if \<not> dx_specialist ax
      then and_then (on_repo (\<lambda>repo. mark_failed repo (tk_task_id t) ''specialist_agent_not_configured''
               ''specialist dispatch requires specialist_agent to be configured'' ''task_dispatch_service'') s)
             (\<lambda>_ s1. (Inl (DispatchTargetError ''specialist dispatch requires specialist_agent to be configured''), s1))
      else let q = specialist_request_of t; src = ''specialist_agent''
           in and_then (pair_check (guarded \<and> sq_dispatch_source_role q = ''project_manager'') ''project_manager'' ''specialist'' s)
             (\<lambda>_ s1.
               (case specialist_handle env q s1 of
                  (Inl (SpecialistDispatchAuthError m), s2) \<Rightarrow>
                    and_then (on_repo (\<lambda>repo. mark_failed repo (tk_task_id t) ''specialist_dispatch_auth_denied'' m
                                ''task_dispatch_service'') s2)
                      (\<lambda>_ s3. remember t (outcome_refused ''specialist'' src (Some ''specialist_dispatch_auth_denied'') m
                                False None None) s3)
                | (Inl x, s2) \<Rightarrow> (Inl x, s2)
                | (Inr r, s2) \<Rightarrow>
                    if sp_execution_status r = ''completed''
                    then (let ((v, _), s3) = draw env s2
                          in conclude_accepted t ''specialist'' src (or_str (sp_artifact_id r) (''specialist-'' @ v))
                               ''specialist task execution completed'' None None s3)
                    else conclude_blocked t ''specialist'' src (Some (or_str (sp_blocker r) ''specialist_task_blocked''))
                           (sp_output_text r) False None None s2)))"

definition dispatch_admitted_task ::
  "environment \<Rightarrow> 'c adapters \<Rightarrow> string \<Rightarrow> string \<Rightarrow> string list \<Rightarrow> bool \<Rightarrow> task_record \<Rightarrow> ('c, 'z) orchestrator_scheme \<Rightarrow>
   (py_exn, dispatch_outcome, ('c, 'z) orchestrator_scheme) run" where
  "dispatch_admitted_task env ax policy_version policy_hash rule_ids guarded t s =
     (case map_of (ts_task_outcomes s) (tk_task_id t) of
        Some existing \<Rightarrow> (Inr (existing\<lparr>do_replayed := True\<rparr>), s)
      | None \<Rightarrow>
          (let target = select_dispatch_target t
           in if target = ''sandbox'' then dispatch_sandbox env ax t s
              else if target = ''llm'' then dispatch_llm env ax policy_version policy_hash rule_ids t s
              else if target = ''communication'' then dispatch_communication env ax t s
              else if target = ''specialist'' then dispatch_specialist env ax guarded t s
              else and_then (on_repo (\<lambda>repo. mark_failed repo (tk_task_id t) ''dispatch_target_unknown''
                       (''unknown dispatch target: '' @ py_repr target) ''task_dispatch_service'') s)
                     (\<lambda>_ s1. (Inl (DispatchTargetError (''unknown dispatch target: '' @ py_repr target)), s1))))"

section \<open>Delegation by the project manager\<close>

definition specialist_envelope :: "string \<Rightarrow> string \<Rightarrow> string \<Rightarrow> string \<Rightarrow> admission_envelope" where
  "specialist_envelope request_id task_id project_id trace_id = \<lparr>env_request_id = request_id,
     env_trace_id = trace_id,
     env_principal_id = ''project_manager'',
     env_principal_role = ''project_manager'',
     env_trust_domain = ''project'',
     env_connector = ''internal'',
     env_command = ''execute_specialist_task'',
     env_target = ''specialist'',
     env_args = [task_id],
     env_metadata = [(''dispatch_source'', ''project_manager''), (''source_task_id'', task_id), (''target_role'', ''specialist'')],
     env_project_id = Some project_id,
     env_idempotency_key = ''pm-specialist-'' @ project_id @ ''-'' @ task_id @ ''-'' @ trace_id\<rparr>"

definition create_specialist_task ::
  "environment \<Rightarrow> 'c adapters \<Rightarrow> string \<Rightarrow> string \<Rightarrow> string \<Rightarrow> ('c, 'z) orchestrator_scheme \<Rightarrow>
   (py_exn, string, ('c, 'z) orchestrator_scheme) run" where
  "create_specialist_task env ax task_id project_id trace_id s =
     (let ((rid, _), s1) = draw env s; ((new_id, now), s2) = draw env s1;
          (r, repo) = create_task_from_envelope (sv_repo s2) (specialist_envelope rid task_id project_id trace_id) new_id now
      in and_then (r, s2\<lparr>sv_repo := repo\<rparr>)
           (\<lambda>created s3. and_then (dispatch_admitted_task env ax ''v2'' ''project-manager-v1''
                 [''AUTH-001'', ''AUTH-002'', ''ORCH-001'', ''ORCH-002''] False created s3)
              (\<lambda>oc s4. (Inr (or_str (do_dispatch_id oc) (tk_task_id created)), s4))))"

definition escalate_to_domain_leader ::
  "'c adapters \<Rightarrow> bool \<Rightarrow> string \<Rightarrow> string \<Rightarrow> ('c, 'z) orchestrator_scheme \<Rightarrow> (py_exn, string, ('c, 'z) orchestrator_scheme) run" where
  "escalate_to_domain_leader ax guarded question project_id s =
     and_then (pair_check guarded ''project_manager'' ''domain_leader'' s)
       (\<lambda>_ s1. case dx_domain_leader ax of
          None \<Rightarrow> (Inl (DispatchTargetError ''domain_leader escalation requires domain_leader_agent to be configured''), s1)
        | Some leader \<Rightarrow>
            (case leader project_id question of
               Inl x \<Rightarrow> (Inl x, s1)
             | Inr outcome \<Rightarrow>
                 (Inr (if outcome = ''domain_risk_escalation''
                       then ''Domain Leader review found unresolved domain risk. Escalate through '' @
                            ''project governance to CWO before further execution.''
                       else if outcome = ''needs_rework''
                       then ''Domain Leader review requires rework before execution continues. '' @
                            ''Update the task output and resubmit within the current project scope.''
                       else ''Domain Leader review completed. The issue is resolved within project scope '' @
                            ''and execution may continue.''), s1)))"

section \<open>Lemmas\<close>

lemma ts_of_more:
  fixes s s' :: "('c, 'z) orchestrator_scheme"
  assumes "gateway.more s' = gateway.more s"
  shows "ts_task_outcomes s' = ts_task_outcomes s" "ts_loop s' = ts_loop s" "ts_results s' = ts_results s"
  using assms by (cases s; cases s'; simp)+

lemma draw_frame [frame_simps]:
  "sv_repo (snd (draw env s)) = sv_repo s" "services.more (snd (draw env s)) = services.more s"
  by (simp_all add: draw_def)

lemma on_repo_frame [frame_simps]:
  "sv_repo (snd (on_repo f s)) = snd (f (sv_repo s))"
  "ts_task_outcomes (snd (on_repo f s)) = ts_task_outcomes s"
  "ts_results (snd (on_repo f s)) = ts_results s"
  by (auto simp: on_repo_def split: prod.splits sum.splits)

lemma on_repo_result: "fst (on_repo f s) = Inr () \<longleftrightarrow> (\<exists>r. fst (f (sv_repo s)) = Inr r)"
  by (auto simp: on_repo_def split: prod.splits sum.splits)

lemma specialist_frame [frame_simps]:
  "sv_repo (snd (specialist_handle env q s)) = sv_repo s"
  "ts_task_outcomes (snd (specialist_handle env q s)) = ts_task_outcomes s"
  by (auto simp: specialist_handle_def draw_def audit_def and_then_def Let_def case_prod_beta split: option.splits sum.splits)

lemma pair_check_frame [frame_simps]:
  "sv_repo (snd (pair_check g a b s)) = sv_repo s"
  "ts_task_outcomes (snd (pair_check g a b s)) = ts_task_outcomes s"
  "ts_results (snd (pair_check g a b s)) = ts_results s"
  by (auto simp: pair_check_def split: prod.splits)

lemma status_of_lifecycle:
  "status_of (snd (mark_dispatched repo i target did m)) = abs_update (status_of repo) i ''dispatched''"
  "status_of (snd (mark_blocked_dispatch repo i c m target src)) = abs_update (status_of repo) i ''blocked''"
  "status_of (snd (mark_failed repo i c' m src)) = abs_update (status_of repo) i ''failed''"
  by (simp_all add: lifecycle_defs status_of_update)

lemma authorized_moves [status_simps]:
  "may_move ''authorized'' ''dispatched''" "may_move ''authorized'' ''blocked''" "may_move ''authorized'' ''failed''"
  by (simp_all add: may_move_def task_step_def status_simps)

text \<open>
  What every ending has in common: the outcome is remembered under the task, only the task's status
  changes, and it is the one that belongs to the outcome.
\<close>

definition ended ::
  "task_record \<Rightarrow> ('c, 'z) orchestrator_scheme \<Rightarrow> (py_exn, dispatch_outcome, ('c, 'z) orchestrator_scheme) run \<Rightarrow> bool" where
  "ended t s r =
     (case r of
        (Inl _, s') \<Rightarrow> ts_task_outcomes s' = ts_task_outcomes s
      | (Inr oc, s') \<Rightarrow> ts_task_outcomes s' = dict_put (ts_task_outcomes s) (tk_task_id t) oc \<and> \<not> do_replayed oc \<and>
          (\<exists>st \<in> {''dispatched'', ''blocked'', ''failed''}.
             status_of (sv_repo s') = abs_update (status_of (sv_repo s)) (tk_task_id t) st \<and>
             (do_accepted oc \<longleftrightarrow> st = ''dispatched'')))"

lemma ended_from:
  "ended t s1 r \<Longrightarrow> ts_task_outcomes s1 = ts_task_outcomes s \<Longrightarrow> sv_repo s1 = sv_repo s \<Longrightarrow> ended t s r"
  by (auto simp: ended_def split: prod.splits sum.splits)

lemma ended_conclude:
  "ended t s (conclude_accepted t target src did m dl meta s)"
  "ended t s (conclude_blocked t target src code m rt dl meta s)"
proof -
  show "ended t s (conclude_accepted t target src did m dl meta s)"
    by (cases "on_repo (\<lambda>repo. mark_dispatched repo (tk_task_id t) target did m) s")
      (use on_repo_frame [of "\<lambda>repo. mark_dispatched repo (tk_task_id t) target did m" s] in
        \<open>auto simp: conclude_accepted_def ended_def remember_def and_then_def outcome_accepted_def status_of_lifecycle
          split: sum.splits\<close>)
  show "ended t s (conclude_blocked t target src code m rt dl meta s)"
    by (cases "on_repo (\<lambda>repo. mark_blocked_dispatch repo (tk_task_id t) code m target src) s")
      (use on_repo_frame [of "\<lambda>repo. mark_blocked_dispatch repo (tk_task_id t) code m target src" s] in
        \<open>auto simp: conclude_blocked_def ended_def remember_def and_then_def outcome_refused_def status_of_lifecycle
          split: sum.splits\<close>)
qed

lemma draw_ts [frame_simps]: "ts_task_outcomes (snd (draw env s)) = ts_task_outcomes s" "ts_results (snd (draw env s)) = ts_results s"
  by (simp_all add: draw_def)

lemma ended_sandbox: "ended t s (dispatch_sandbox env ax t s)"
  by (auto simp: dispatch_sandbox_def Let_def case_prod_beta frame_simps intro!: ended_from [OF ended_conclude(1)]
      ended_from [OF ended_conclude(2)] split: sum.splits)

lemma ended_llm: "ended t s (dispatch_llm env ax pv ph rules t s)"
  by (auto simp: dispatch_llm_def Let_def case_prod_beta frame_simps intro!: ended_from [OF ended_conclude(1)]
      ended_from [OF ended_conclude(2)] split: sum.splits)

lemma ended_communication: "ended t s (dispatch_communication env ax t s)"
proof -
  define q where "q = \<lparr>cq_task_id = tk_task_id t, cq_trace_id = tk_trace_id t, cq_principal_id = tk_principal_id t,
       cq_connector = tk_connector t, cq_command = tk_command t, cq_target = tk_target t, cq_args = tk_args t,
       cq_idempotency_key = tk_idempotency_key t, cq_project_id = tk_project_id t,
       cq_created_at = tk_created_at t, cq_metadata = tk_metadata t\<rparr>"
  obtain r s1 where r: "communication_dispatch (dx_fingerprint ax) env (dx_send ax) (dx_retry ax) q s = (r, s1)"
    by (cases "communication_dispatch (dx_fingerprint ax) env (dx_send ax) (dx_retry ax) q s")
  have "sv_repo s1 = sv_repo s" "gateway.more s1 = gateway.more s"
    using communication_frame [of "dx_fingerprint ax" env "dx_send ax" "dx_retry ax" q s] r by simp_all
  with ts_of_more [of s1 s] have same: "ts_task_outcomes s1 = ts_task_outcomes s" "sv_repo s1 = sv_repo s" by simp_all
  show ?thesis
    unfolding dispatch_communication_def q_def [symmetric] Let_def r
    using same
    by (cases r) (auto simp: case_prod_beta frame_simps intro!: ended_from [OF ended_conclude(1)]
        ended_from [OF ended_conclude(2)])
qed

lemma ended_failed:
  assumes "ts_task_outcomes s1 = ts_task_outcomes s" "sv_repo s1 = sv_repo s" "\<not> do_accepted oc" "\<not> do_replayed oc"
  shows "ended t s (and_then (on_repo (\<lambda>repo. mark_failed repo (tk_task_id t) c m src) s1) (\<lambda>_ s3. remember t oc s3))"
  using on_repo_frame [of "\<lambda>repo. mark_failed repo (tk_task_id t) c m src" s1] assms
  by (cases "on_repo (\<lambda>repo. mark_failed repo (tk_task_id t) c m src) s1")
    (auto simp: ended_def remember_def and_then_def status_of_lifecycle split: sum.splits)

lemma ended_raised:
  "ts_task_outcomes (snd r) = ts_task_outcomes s \<Longrightarrow> ended t s (and_then r (\<lambda>_ s1. (Inl x, s1)))"
  by (cases r; cases "fst r") (auto simp: ended_def)

lemma ended_specialist: "ended t s (dispatch_specialist env ax guarded t s)"
proof (cases "dx_specialist ax")
  case False
  then show ?thesis by (auto simp: dispatch_specialist_def frame_simps intro!: ended_raised)
next
  case True
  let ?q = "specialist_request_of t"
  let ?g = "guarded \<and> sq_dispatch_source_role ?q = ''project_manager''"
  obtain c s1 where c: "pair_check ?g ''project_manager'' ''specialist'' s = (c, s1)"
    by (cases "pair_check ?g ''project_manager'' ''specialist'' s")
  have s1: "ts_task_outcomes s1 = ts_task_outcomes s" "sv_repo s1 = sv_repo s"
    using pair_check_frame [of ?g "''project_manager''" "''specialist''" s] c by simp_all
  obtain h s2 where h: "specialist_handle env ?q s1 = (h, s2)" by (cases "specialist_handle env ?q s1")
  have s2: "ts_task_outcomes s2 = ts_task_outcomes s" "sv_repo s2 = sv_repo s"
    using specialist_frame [of env ?q s1] h s1 by simp_all
  show ?thesis
  proof (cases c)
    case (Inl x)
    with c True s1 show ?thesis by (simp add: dispatch_specialist_def Let_def ended_def)
  next
    case (Inr u)
    show ?thesis
    proof (cases h)
      case h: (Inl x)
      with Inr c \<open>specialist_handle env ?q s1 = (h, s2)\<close> True s2 show ?thesis
        by (cases x) (auto simp: dispatch_specialist_def Let_def ended_def [of t s "(Inl _, _)"] outcome_refused_def
            intro!: ended_failed)
    next
      case h: (Inr r)
      with Inr c \<open>specialist_handle env ?q s1 = (h, s2)\<close> True s2 show ?thesis
        by (auto simp: dispatch_specialist_def Let_def case_prod_beta frame_simps intro!: ended_from [OF ended_conclude(1)]
            ended_from [OF ended_conclude(2)])
    qed
  qed
qed

lemma dispatch_target_cases: "select_dispatch_target t \<in> {''sandbox'', ''llm'', ''communication'', ''specialist''}"
  by (simp add: select_dispatch_target_def)

lemma dispatch_ended:
  assumes "map_of (ts_task_outcomes s) (tk_task_id t) = None"
  shows "ended t s (dispatch_admitted_task env ax pv ph rules guarded t s)"
  using dispatch_target_cases [of t] assms
  by (auto simp: dispatch_admitted_task_def Let_def ended_sandbox ended_llm ended_communication ended_specialist)

abbreviation dispatch_call ::
  "environment \<times> 'c adapters \<times> string \<times> string \<times> string list \<times> bool \<times> task_record \<Rightarrow> ('c, 'z) orchestrator_scheme \<Rightarrow>
   (py_exn, dispatch_outcome, ('c, 'z) orchestrator_scheme) run" where
  "dispatch_call a \<equiv> (case a of (env, ax, pv, ph, rules, guarded, t) \<Rightarrow> dispatch_admitted_task env ax pv ph rules guarded t)"

abbreviation dispatch_key :: "environment \<times> 'c adapters \<times> string \<times> string \<times> string list \<times> bool \<times> task_record \<Rightarrow> string" where
  "dispatch_key a \<equiv> (case a of (env, ax, pv, ph, rules, guarded, t) \<Rightarrow> tk_task_id t)"

definition dispatch_answer :: "('c, 'z) orchestrator_scheme \<Rightarrow> string \<Rightarrow> (py_exn + dispatch_outcome) option" where
  "dispatch_answer s k = map_option (\<lambda>oc. Inr (oc\<lparr>do_replayed := True\<rparr>)) (map_of (ts_task_outcomes s) k)"

lemma dispatch_outcomes:
  "ts_task_outcomes (snd (dispatch_admitted_task env ax pv ph rules guarded t s)) =
     (case map_of (ts_task_outcomes s) (tk_task_id t) of
        Some _ \<Rightarrow> ts_task_outcomes s
      | None \<Rightarrow> (case fst (dispatch_admitted_task env ax pv ph rules guarded t s) of
          Inl _ \<Rightarrow> ts_task_outcomes s | Inr oc \<Rightarrow> dict_put (ts_task_outcomes s) (tk_task_id t) oc))"
proof (cases "map_of (ts_task_outcomes s) (tk_task_id t)")
  case None
  from dispatch_ended [OF None, of env ax pv ph rules guarded] None show ?thesis
    by (auto simp: ended_def split: prod.splits sum.splits)
qed (simp add: dispatch_admitted_task_def)

lemma dispatch_known:
  "map_of (ts_task_outcomes s) (tk_task_id t) = Some oc \<Longrightarrow>
   dispatch_admitted_task env ax pv ph rules guarded t s = (Inr (oc\<lparr>do_replayed := True\<rparr>), s)"
  by (simp add: dispatch_admitted_task_def)

interpretation dispatch_memo: replay_cache dispatch_call dispatch_key dispatch_answer
  "\<lambda>r. \<not> isl r" "map_sum (\<lambda>x. x) (\<lambda>oc. oc\<lparr>do_replayed := True\<rparr>)"
  by unfold_locales
    (auto simp: dispatch_answer_def dispatch_outcomes dispatch_known map_of_dict_put
      split: prod.splits option.splits sum.splits)

lemma specialist_denied:
  assumes "dx_specialist ax" "meta_get t ''dispatch_source'' = None" "status_of (sv_repo s) (tk_task_id t) = Some st" "may_move st ''failed''"
  shows "\<exists>m s'. dispatch_specialist env ax guarded t s =
      (Inr (outcome_refused ''specialist'' ''specialist_agent'' (Some ''specialist_dispatch_auth_denied'') m False None None), s') \<and>
      status_of (sv_repo s') (tk_task_id t) = Some ''failed'' \<and> ts_results s' = ts_results s"
proof -
  let ?q = "specialist_request_of t"
  have src: "sq_dispatch_source_role ?q = ''unknown''" using assms(2) by (simp add: specialist_request_of_def)
  have "py_lower (py_strip ''unknown'') \<noteq> ''project_manager''" by code_simp
  then obtain m where h: "specialist_handle env ?q s = (Inl (SpecialistDispatchAuthError m), s)"
    by (simp add: specialist_handle_def src)
  let ?mark = "on_repo (\<lambda>repo. mark_failed repo (tk_task_id t) ''specialist_dispatch_auth_denied'' m ''task_dispatch_service'') s"
  obtain r where "fst (mark_failed (sv_repo s) (tk_task_id t) ''specialist_dispatch_auth_denied'' m ''task_dispatch_service'') = Inr r"
    using update_result [OF assms(3,4)] by (metis mark_failed_def)
  then have "fst ?mark = Inr ()" using on_repo_result by blast
  then obtain s1 where s1: "?mark = (Inr (), s1)" by (cases ?mark) simp
  have "status_of (sv_repo s1) (tk_task_id t) = Some ''failed''" "ts_results s1 = ts_results s"
    using on_repo_frame [of "\<lambda>repo. mark_failed repo (tk_task_id t) ''specialist_dispatch_auth_denied'' m ''task_dispatch_service''" s]
      s1 assms(3,4) by (simp_all add: status_of_lifecycle abs_update_def)
  then show ?thesis
    using assms(1) h s1 by (auto simp: dispatch_specialist_def Let_def src pair_check_def remember_def)
qed

section \<open>Properties\<close>

text \<open>
  Outcome and task table agree. When an authorised task that was not dispatched before is
  dispatched and the call returns, the task is in status \<^verbatim>\<open>dispatched\<close> exactly when the
  outcome is an acceptance and otherwise blocked or failed, and no other task's status changes, whatever the adapters do.
\<close>

theorem dispatch_status_agrees:
  assumes "map_of (ts_task_outcomes s) (tk_task_id t) = None"
    and "status_of (sv_repo s) (tk_task_id t) = Some ''authorized''"
    and "dispatch_admitted_task env ax pv ph rules guarded t s = (Inr oc, s')"
  shows "\<exists>st. status_of (sv_repo s') = (status_of (sv_repo s))(tk_task_id t \<mapsto> st) \<and>
     st \<in> {''dispatched'', ''blocked'', ''failed''} \<and> (do_accepted oc \<longleftrightarrow> st = ''dispatched'')"
proof -
  from dispatch_ended [OF assms(1), of env ax pv ph rules guarded] assms(3) obtain st where
    st: "st \<in> {''dispatched'', ''blocked'', ''failed''}" "do_accepted oc \<longleftrightarrow> st = ''dispatched''"
      "status_of (sv_repo s') = abs_update (status_of (sv_repo s)) (tk_task_id t) st"
    by (auto simp: ended_def)
  then have "status_of (sv_repo s') = (status_of (sv_repo s))(tk_task_id t \<mapsto> st)"
    using assms(2) by (auto simp: abs_update_def status_simps)
  with st show ?thesis by blast
qed

text \<open>
  Dispatch is replay safe. Once a task got an outcome, every later dispatch of it returns that
  outcome, marked as replayed, and neither calls an adapter nor changes anything, whatever was
  dispatched in between and with whatever adapters.
\<close>

theorem dispatch_replay_safe:
  assumes "dispatch_admitted_task env ax pv ph rules guarded t s = (Inr oc, s1)" and "tk_task_id t' = tk_task_id t"
  shows "dispatch_admitted_task env' ax' pv' ph' rules' guarded' t' (run_calls dispatch_call calls s1) =
     (Inr (oc\<lparr>do_replayed := True\<rparr>), run_calls dispatch_call calls s1)"
  using dispatch_memo.replayed_after_run [of "(env, ax, pv, ph, rules, guarded, t)" s
      "(env', ax', pv', ph', rules', guarded', t')" calls] assms
  by simp

text \<open>
  An owner command cannot reach the specialist. Whatever a request contains, the metadata of its
  validated envelope has no dispatch source, so a task admitted from it with target
  \<^verbatim>\<open>specialist\<close> is refused with \<^verbatim>\<open>specialist_dispatch_auth_denied\<close>, ends in status
  failed, and no specialist work is recorded.
\<close>

theorem owner_command_cannot_reach_specialist:
  assumes "validate_owner_command_envelope p pr override rid = Inr e" and "env_target e = ''specialist''"
    and "t = (new_task e i now)\<lparr>tk_status := ''authorized''\<rparr>"
    and "sv_repo s = repo @ [t]" and "find_row repo i = None"
    and "map_of (ts_task_outcomes s) i = None" and "dx_specialist ax"
  shows "\<exists>oc s'. dispatch_admitted_task env ax pv ph rules guarded t s = (Inr oc, s') \<and> \<not> do_accepted oc \<and>
     do_error_code oc = Some ''specialist_dispatch_auth_denied'' \<and>
     status_of (sv_repo s') i = Some ''failed'' \<and> ts_results s' = ts_results s"
proof -
  have t: "tk_task_id t = i" "tk_target t = ''specialist''" "tk_metadata t = env_metadata e" "tk_status t = ''authorized''"
    using assms(2,3) by (simp_all add: new_task_def)
  have meta: "env_metadata e = envelope_metadata p"
    using assms(1) by (auto simp: validate_owner_command_envelope_def Let_def split: raw_args.splits option.splits if_splits)
  have "''dispatch_source'' \<notin> fst ` set (envelope_metadata p)"
    by (simp add: envelope_metadata_def Let_def)
  then have "dict_get (envelope_metadata p) ''dispatch_source'' = None"
    by (simp add: dict_get_def map_of_eq_None_iff)
  then have none: "meta_get t ''dispatch_source'' = None" by (simp add: meta_get_def t(3) meta)
  have st: "status_of (sv_repo s) (tk_task_id t) = Some ''authorized''"
    using assms(4,5) t by (simp add: status_of_alt find_row_append find_row_single)
  from specialist_denied [OF assms(7) none st authorized_moves(3), of env guarded] obtain m s' where
    "dispatch_specialist env ax guarded t s =
      (Inr (outcome_refused ''specialist'' ''specialist_agent'' (Some ''specialist_dispatch_auth_denied'') m False None None), s')"
    "status_of (sv_repo s') (tk_task_id t) = Some ''failed''" "ts_results s' = ts_results s" by blast
  with assms(6) t show ?thesis
    by (simp add: dispatch_admitted_task_def Let_def select_dispatch_target_def outcome_refused_def)
qed

text \<open>
  Delegation by the project manager always fails after the work was done. The created subtask is
  \<^verbatim>\<open>queued\<close>, a status from which the transition table has no edge to \<^verbatim>\<open>dispatched\<close>, so the
  specialist executes and its result is stored, but marking the subtask raises: the caller gets
  \<^verbatim>\<open>InvalidStateTransitionError\<close>, no outcome is remembered and the subtask stays queued.
\<close>

theorem create_specialist_task_raises:
  assumes "dx_specialist ax" and "\<And>k. en_audit_fault env k = None"
    and "find_row (sv_repo s) (en_uuid env (Suc (sv_draws s))) = None"
    and "py_strip (en_uuid env (Suc (sv_draws s))) \<noteq> []"
    and "map_of (ts_task_outcomes s) (en_uuid env (Suc (sv_draws s))) = None"
  shows "\<exists>s'. create_specialist_task env ax task_id project_id trace_id s =
      (Inl (InvalidStateTransitionError ''queued'' ''dispatched''), s') \<and>
      status_of (sv_repo s') (en_uuid env (Suc (sv_draws s))) = Some ''queued'' \<and>
      length (ts_results s') = Suc (length (ts_results s)) \<and> ts_task_outcomes s' = ts_task_outcomes s"
proof -
  let ?i = "en_uuid env (Suc (sv_draws s))"
  define t where "t = new_task (specialist_envelope (en_uuid env (sv_draws s)) task_id project_id trace_id) ?i
     (en_clock env (Suc (sv_draws s)))"
  define s2 where "s2 = s\<lparr>sv_draws := Suc (Suc (sv_draws s)), sv_repo := sv_repo s @ [t]\<rparr>"
  have t: "tk_task_id t = ?i" "tk_target t = ''specialist''" "tk_status t = ''queued''" "tk_command t = ''execute_specialist_task''"
    "meta_get t ''dispatch_source'' = Some ''project_manager''"
    by (simp_all add: t_def new_task_def specialist_envelope_def meta_get_def dict_get_def)
  have q: "py_lower (py_strip (sq_dispatch_source_role (specialist_request_of t))) = ''project_manager''"
    "sq_task_id (specialist_request_of t) = ?i" "sq_task_description (specialist_request_of t) = ''execute_specialist_task''"
    using t by (simp_all add: specialist_request_of_def) code_simp
  have none: "bracket_text ''[clarification_needed:'' ''execute_specialist_task'' = None"
    "bracket_text ''[tools:'' ''execute_specialist_task'' = None"
    by code_simp+
  obtain r s3 where h: "specialist_handle env (specialist_request_of t) s2 = (Inr r, s3)" "sp_execution_status r = ''completed''"
      "sv_repo s3 = sv_repo s2" "ts_task_outcomes s3 = ts_task_outcomes s2" "length (ts_results s3) = Suc (length (ts_results s2))"
    using q assms(2,4)
    by (simp add: specialist_handle_def check_clarification_needed_def extract_tools_requested_def none execute_task_def
        draw_def audit_def write_event_def Let_def)
  have "status_of (sv_repo s3) ?i = Some ''queued''"
    using assms(3) t h(3) by (simp add: s2_def status_of_alt find_row_append find_row_single)
  moreover have "\<not> may_move ''queued'' ''dispatched''" by (simp add: may_move_def task_step_def status_simps)
  ultimately have "update_task_status (sv_repo s3) ?i ''dispatched'' u =
      (Inl (InvalidStateTransitionError ''queued'' ''dispatched''), sv_repo s3)" for u
    by (rule update_illegal)
  then have "conclude_accepted t ''specialist'' src did m None None (s3\<lparr>sv_draws := n\<rparr>) =
      (Inl (InvalidStateTransitionError ''queued'' ''dispatched''), s3\<lparr>sv_draws := n\<rparr>)" for src did m n
    by (simp add: conclude_accepted_def on_repo_def mark_dispatched_def t(1))
  then have "dispatch_specialist env ax False t s2 =
      (Inl (InvalidStateTransitionError ''queued'' ''dispatched''), s3\<lparr>sv_draws := Suc (sv_draws s3)\<rparr>)"
    using assms(1) h(1,2) by (simp add: dispatch_specialist_def Let_def pair_check_def draw_def)
  moreover have "create_specialist_task env ax task_id project_id trace_id s =
      and_then (dispatch_admitted_task env ax ''v2'' ''project-manager-v1'' [''AUTH-001'', ''AUTH-002'', ''ORCH-001'', ''ORCH-002'']
        False t s2) (\<lambda>oc s4. (Inr (or_str (do_dispatch_id oc) (tk_task_id t)), s4))"
    using assms(3) by (simp add: create_specialist_task_def draw_def Let_def create_task_from_envelope_def t_def s2_def)
  ultimately show ?thesis
    using assms(5) t h \<open>status_of (sv_repo s3) ?i = Some ''queued''\<close>
    by (simp add: dispatch_admitted_task_def Let_def select_dispatch_target_def s2_def)
qed

section \<open>Witnesses\<close>

definition demo_adapters :: "local_client adapters" where
  "demo_adapters = \<lparr>dx_sandbox = local_sandbox, dx_llm = (\<lambda>_ _. Inl (OtherExn ''no gateway'')), dx_send = local_send,
     dx_retry = default_retry_config, dx_fingerprint = pq_command, dx_specialist = True, dx_domain_leader = None\<rparr>"

definition demo_orchestrator :: "task_repo \<Rightarrow> local_client orchestrator" where
  "demo_orchestrator repo = gateway.extend (gateway.truncate (demo_gateway\<lparr>sv_repo := repo\<rparr>))
     (orchestrator.fields [] fresh_loop_state [])"

lemma demo_orchestrator_simps [simp]:
  "sv_repo (demo_orchestrator repo) = repo" "ts_task_outcomes (demo_orchestrator repo) = []"
  "ts_results (demo_orchestrator repo) = []" "sv_draws (demo_orchestrator repo) = 0"
  by (simp_all add: demo_orchestrator_def gateway.defs orchestrator.defs demo_gateway_def)

definition demo_task :: task_record where
  "demo_task = (new_task demo_envelope ''t-1'' 0)\<lparr>tk_status := ''authorized''\<rparr>"

lemma demo_task_simps [simp]:
  "tk_task_id demo_task = ''t-1''" "tk_command demo_task = ''run_task''" "tk_target demo_task = ''sandbox''"
  "tk_status demo_task = ''authorized''"
  by (simp_all add: demo_task_def new_task_def demo_envelope_def)

abbreviation demo_dispatch :: "(py_exn, dispatch_outcome, local_client orchestrator) run" where
  "demo_dispatch \<equiv> dispatch_admitted_task (demo_gateway_env True) demo_adapters ''v'' ''h'' [] True demo_task
     (demo_orchestrator [demo_task])"

lemma demo_task_authorized: "status_of [demo_task] ''t-1'' = Some ''authorized''"
  by (simp add: status_of_alt find_row_def)

lemma demo_dispatch_accepted: "\<exists>oc s'. demo_dispatch = (Inr oc, s') \<and> do_accepted oc"
proof -
  have sel: "select_dispatch_target demo_task = ''sandbox''"
    by (simp add: select_dispatch_target_def py_startswith_def)
  have mark: "\<exists>r s1. on_repo (\<lambda>repo. mark_dispatched repo ''t-1'' ''sandbox'' did m) s = (Inr r, s1)"
    if "sv_repo s = [demo_task]" for did m and s :: "local_client orchestrator"
    using that by (auto simp: on_repo_def mark_dispatched_def update_task_status_eq find_row_def status_simps
        split: prod.splits sum.splits)
  have "\<exists>oc s'. conclude_accepted demo_task ''sandbox'' src did m None None (demo_orchestrator [demo_task]\<lparr>sv_draws := n\<rparr>) =
      (Inr oc, s') \<and> do_accepted oc" for src did m n
    using mark [of "demo_orchestrator [demo_task]\<lparr>sv_draws := n\<rparr>" did m]
    by (auto simp: conclude_accepted_def remember_def outcome_accepted_def)
  then show ?thesis
    by (simp add: dispatch_admitted_task_def Let_def sel dispatch_sandbox_def draw_def demo_adapters_def local_sandbox_def)
qed

lemma dispatch_status_agrees_witness:
  "\<exists>oc s' st. demo_dispatch = (Inr oc, s') \<and> do_accepted oc \<and> status_of (sv_repo s') ''t-1'' = Some ''dispatched''"
proof -
  obtain oc s' where run: "demo_dispatch = (Inr oc, s')" and ok: "do_accepted oc" using demo_dispatch_accepted by blast
  from dispatch_status_agrees [OF _ _ run] ok run show ?thesis by (auto simp: demo_task_authorized)
qed

lemma dispatch_replay_safe_witness:
  "\<exists>oc s1. demo_dispatch = (Inr oc, s1) \<and>
     dispatch_admitted_task (demo_gateway_env False) demo_adapters ''v2'' ''h2'' [] True demo_task (run_calls dispatch_call [] s1) =
       (Inr (oc\<lparr>do_replayed := True\<rparr>), s1)"
proof -
  obtain oc s1 where run: "demo_dispatch = (Inr oc, s1)" using demo_dispatch_accepted by blast
  from dispatch_replay_safe [OF run refl, of "demo_gateway_env False" demo_adapters "''v2''" "''h2''" "[]" True "[]"] run
  show ?thesis by (simp only: run_calls.simps) blast
qed

lemma create_specialist_task_raises_witness:
  "\<exists>s'. create_specialist_task (demo_gateway_env True) demo_adapters ''t-1'' ''p-1'' ''trace-1'' (demo_orchestrator []) =
      (Inl (InvalidStateTransitionError ''queued'' ''dispatched''), s') \<and>
      status_of (sv_repo s') (''id-'' @ show_nat 1) = Some ''queued'' \<and> length (ts_results s') = 1"
proof -
  have "py_strip (''id-'' @ show_nat 1) \<noteq> []" by code_simp
  then show ?thesis
    using create_specialist_task_raises [of demo_adapters "demo_gateway_env True" "demo_orchestrator []" "''t-1''" "''p-1''" "''trace-1''"]
    by (auto simp: demo_adapters_def demo_gateway_env_def find_row_def)
qed

lemma owner_command_cannot_reach_specialist_witness:
  "\<exists>e oc s'. validate_owner_command_envelope (demo_command\<lparr>oc_target := ''specialist''\<rparr>) demo_principal None ''req-1'' = Inr e \<and>
     dispatch_admitted_task (demo_gateway_env True) demo_adapters ''v'' ''h'' [] True ((new_task e ''t-1'' 0)\<lparr>tk_status := ''authorized''\<rparr>)
       (demo_orchestrator [(new_task e ''t-1'' 0)\<lparr>tk_status := ''authorized''\<rparr>]) = (Inr oc, s') \<and>
     do_error_code oc = Some ''specialist_dispatch_auth_denied'' \<and> ts_results s' = []"
proof -
  have "case validate_owner_command_envelope (demo_command\<lparr>oc_target := ''specialist''\<rparr>) demo_principal None ''req-1'' of
      Inl _ \<Rightarrow> False | Inr e \<Rightarrow> env_target e = ''specialist''"
    by code_simp
  then obtain e where e: "validate_owner_command_envelope (demo_command\<lparr>oc_target := ''specialist''\<rparr>) demo_principal None ''req-1'' = Inr e"
      "env_target e = ''specialist''"
    by (auto split: sum.splits)
  let ?t = "(new_task e ''t-1'' 0)\<lparr>tk_status := ''authorized''\<rparr>"
  from owner_command_cannot_reach_specialist [OF e refl, where i = "''t-1''" and s = "demo_orchestrator [?t]" and repo = "[]"
      and ax = demo_adapters and now = 0 and env = "demo_gateway_env True" and guarded = True] e
  show ?thesis by (fastforce simp: find_row_def demo_adapters_def)
qed

end
