(* ===== verification/Obligations.thy ===== *)
theory Obligations
  imports Audit_Trail
begin

text \<open>
  Policy obligations (\<^verbatim>\<open>policy_runtime_integration/obligations.py\<close>): the four handlers, the
  dispatcher that applies them in a fixed order and stops at the first blocking failure, and
  \<^verbatim>\<open>SandboxProfileEnforcer.bind\<close> of \<^verbatim>\<open>execution_sandbox/profiles/enforcement.py\<close>, where
  the existence of a profile file is given by the environment.
\<close>

section \<open>Contexts and outcomes\<close>

record obligation_context =
  cx_trace_id :: string
  cx_task_id :: string
  cx_request_id :: string
  cx_principal_id :: string
  cx_principal_role :: string
  cx_action :: string
  cx_target :: string
  cx_project_id :: "string option"
  cx_policy_version :: string
  cx_policy_hash :: string
  cx_rule_ids :: "string list"
  cx_task_record :: task_record

record obligation_outcome =
  oo_obligation :: string
  oo_satisfied :: bool
  oo_blocking :: bool
  oo_reason :: string

record obligation_result =
  or_all_satisfied :: bool
  or_outcomes :: "obligation_outcome list"
  or_blocking_obligation :: "string option"

definition obligation_order :: "string list" where
  "obligation_order = [''emit_audit_event'', ''require_owner_approval'', ''reserve_budget'', ''enforce_sandbox_profile'']"

section \<open>Handlers\<close>

definition handle_emit_audit_event ::
  "environment \<Rightarrow> obligation_context \<Rightarrow> 'a services_scheme \<Rightarrow> (py_exn, obligation_outcome, 'a services_scheme) run" where
  "handle_emit_audit_event env cx s =
     (case audit env \<lparr>aw_event_type = ''obligation.emit_audit_event'', aw_outcome = ''applied'',
             aw_trace_id = cx_trace_id cx, aw_request_id = Some (cx_request_id cx), aw_task_id = Some (cx_task_id cx),
             aw_principal_id = Some (cx_principal_id cx), aw_principal_role = Some (cx_principal_role cx),
             aw_source = ''obligation_dispatcher'', aw_reason_code = Some ''obligation_applied'',
             aw_message = ''emit_audit_event obligation satisfied: immutable audit record written'',
             aw_rule_ids = cx_rule_ids cx, aw_payload = []\<rparr> s of
        (Inr _, s') \<Rightarrow> (Inr \<lparr>oo_obligation = ''emit_audit_event'', oo_satisfied = True, oo_blocking = False,
                            oo_reason = ''immutable audit record emitted''\<rparr>, s')
      | (Inl x, s') \<Rightarrow> (Inr \<lparr>oo_obligation = ''emit_audit_event'', oo_satisfied = False, oo_blocking = False,
                            oo_reason = ''audit write failed (non-blocking in M12): '' @ exn_text x\<rparr>, s'))"

definition handle_require_owner_approval ::
  "obligation_context \<Rightarrow> 'a services_scheme \<Rightarrow> (py_exn, obligation_outcome, 'a services_scheme) run" where
  "handle_require_owner_approval cx s =
     and_then (set_status (cx_task_id cx) ''blocked''
         (no_update\<lparr>up_outcome_source := Some ''obligation_dispatcher'',
            up_outcome_error_code := Some ''approval_required'',
            up_outcome_message := Some ''require_owner_approval obligation: task blocked pending explicit owner approval'',
            up_outcome_details := Some [(''obligation'', ''require_owner_approval''),
              (''principal_id'', cx_principal_id cx), (''action'', cx_action cx), (''target'', cx_target cx)]\<rparr>) s)
       (\<lambda>_ s'. (Inr \<lparr>oo_obligation = ''require_owner_approval'', oo_satisfied = False, oo_blocking = True,
                     oo_reason = ''task blocked pending owner approval''\<rparr>, s'))"

definition handle_reserve_budget ::
  "environment \<Rightarrow> obligation_context \<Rightarrow> 'a services_scheme \<Rightarrow> (py_exn, obligation_outcome, 'a services_scheme) run" where
  "handle_reserve_budget env cx s =
     (let (outcome, s') = reserve_budget env (cx_task_record cx) s
      in if bo_allowed outcome
         then (Inr \<lparr>oo_obligation = ''reserve_budget'', oo_satisfied = True, oo_blocking = False,
                    oo_reason = ''budget reserved: '' @
                      (case bo_reservation outcome of None \<Rightarrow> ''unknown''
                       | Some r \<Rightarrow> (case br_reservation_id r of None \<Rightarrow> ''None'' | Some i \<Rightarrow> i))\<rparr>, s')
         else (Inr \<lparr>oo_obligation = ''reserve_budget'', oo_satisfied = False, oo_blocking = True,
                    oo_reason = ''budget failed - fail-closed: '' @ bo_message outcome\<rparr>, s'))"

definition bind_profile :: "environment \<Rightarrow> string \<Rightarrow> string \<Rightarrow> py_exn + unit" where
  "bind_profile env dispatch_target profile_name =
     (if en_profile_exists env (profile_name @ ''.json'') then Inr ()
      else Inl (OtherExn (''sandbox profile not found: '' @ profile_name)))"

definition handle_enforce_sandbox_profile ::
  "environment \<Rightarrow> obligation_context \<Rightarrow> 'a services_scheme \<Rightarrow> (py_exn, obligation_outcome, 'a services_scheme) run" where
  "handle_enforce_sandbox_profile env cx s =
     (case bind_profile env (cx_target cx) ''default'' of
        Inl x \<Rightarrow> (Inr \<lparr>oo_obligation = ''enforce_sandbox_profile'', oo_satisfied = False, oo_blocking = False,
                       oo_reason = exn_text x\<rparr>, s)
      | Inr _ \<Rightarrow> (Inr \<lparr>oo_obligation = ''enforce_sandbox_profile'', oo_satisfied = True, oo_blocking = False,
                       oo_reason = ''seccomp profile default bound for target '' @ cx_target cx\<rparr>, s))"

definition dispatch_obligation ::
  "environment \<Rightarrow> string \<Rightarrow> obligation_context \<Rightarrow> 'a services_scheme \<Rightarrow>
   (py_exn, obligation_outcome, 'a services_scheme) run" where
  "dispatch_obligation env obligation cx s =
     (if obligation = ''emit_audit_event'' then handle_emit_audit_event env cx s
      else if obligation = ''require_owner_approval'' then handle_require_owner_approval cx s
      else if obligation = ''reserve_budget'' then handle_reserve_budget env cx s
      else if obligation = ''enforce_sandbox_profile'' then handle_enforce_sandbox_profile env cx s
      else (Inr \<lparr>oo_obligation = obligation, oo_satisfied = False, oo_blocking = True,
                 oo_reason = ''unknown obligation '' @ py_repr obligation @ '' - fail-closed''\<rparr>, s))"

section \<open>The dispatcher\<close>

definition ordered_obligations :: "string list \<Rightarrow> string list" where
  "ordered_obligations obligations =
     filter (\<lambda>o'. o' \<in> set obligations) obligation_order @ filter (\<lambda>o'. o' \<notin> set obligation_order) obligations"

text \<open>The loop: the outcomes so far and the first blocking obligation.\<close>

fun run_obligations ::
  "environment \<Rightarrow> obligation_context \<Rightarrow> string list \<Rightarrow> 'a services_scheme \<Rightarrow>
   (py_exn, obligation_outcome list \<times> string option, 'a services_scheme) run" where
  "run_obligations env cx [] s = (Inr ([], None), s)"
| "run_obligations env cx (obl # obls) s =
     and_then (dispatch_obligation env obl cx s)
       (\<lambda>oc s1. if \<not> oo_satisfied oc \<and> oo_blocking oc then (Inr ([oc], Some obl), s1)
                else and_then (run_obligations env cx obls s1) (\<lambda>(ocs, b) s2. (Inr (oc # ocs, b), s2)))"

definition apply_obligations ::
  "environment \<Rightarrow> string list \<Rightarrow> obligation_context \<Rightarrow> 'a services_scheme \<Rightarrow>
   (py_exn, obligation_result, 'a services_scheme) run" where
  "apply_obligations env obligations cx s =
     and_then (run_obligations env cx (ordered_obligations obligations) s)
       (\<lambda>(ocs, b) s'. (Inr \<lparr>or_all_satisfied = list_all oo_satisfied ocs, or_outcomes = ocs,
                            or_blocking_obligation = b\<rparr>, s'))"

section \<open>Lemmas\<close>

lemma set_ordered_obligations: "set (ordered_obligations os) = set os"
  by (auto simp: ordered_obligations_def)

text \<open>The effect of one handler that does not block, and of one that does.\<close>

lemma emit_audit_passes:
  "\<exists>oc s1. dispatch_obligation env ''emit_audit_event'' cx s = (Inr oc, s1) \<and> \<not> oo_blocking oc \<and>
     sv_repo s1 = sv_repo s \<and> sv_budget s1 = sv_budget s"
  by (auto simp: dispatch_obligation_def handle_emit_audit_event_def audit_def case_prod_beta split: sum.splits prod.splits)

lemma passed_obligation:
  assumes "dispatch_obligation env obl cx s = (Inr oc, s')" and "oo_satisfied oc \<or> \<not> oo_blocking oc"
  shows "obl \<in> {''emit_audit_event'', ''reserve_budget'', ''enforce_sandbox_profile''}"
    and "obl = ''reserve_budget'' \<Longrightarrow>
         \<exists>b. budget_answer (sv_budget s') (tk_task_id (cx_task_record cx)) = Some b \<and> bo_allowed b"
proof -
  show "obl \<in> {''emit_audit_event'', ''reserve_budget'', ''enforce_sandbox_profile''}"
    using assms by (auto simp: dispatch_obligation_def handle_require_owner_approval_def and_then_def
        split: if_splits sum.splits prod.splits)
next
  assume "obl = ''reserve_budget''"
  then show "\<exists>b. budget_answer (sv_budget s') (tk_task_id (cx_task_record cx)) = Some b \<and> bo_allowed b"
    using assms reserve_budget_remembered [of env "cx_task_record cx" s]
    by (auto simp: dispatch_obligation_def handle_reserve_budget_def Let_def case_prod_beta split: if_splits)
qed

lemma handlers_budget [frame_simps]:
  "sv_budget (snd (handle_emit_audit_event env cx s)) = sv_budget s"
  "sv_budget (snd (handle_require_owner_approval cx s)) = sv_budget s"
  "sv_budget (snd (handle_enforce_sandbox_profile env cx s)) = sv_budget s"
  "sv_budget (snd (handle_reserve_budget env cx s)) = sv_budget (snd (reserve_budget env (cx_task_record cx) s))"
  by (auto simp: handle_emit_audit_event_def audit_def case_prod_beta split: sum.splits)
    (auto simp: handle_require_owner_approval_def set_status_def and_then_def case_prod_beta split: sum.splits,
     auto simp: handle_enforce_sandbox_profile_def split: sum.splits,
     auto simp: handle_reserve_budget_def case_prod_beta Let_def)

lemma dispatch_keeps_answers:
  "budget_answer (sv_budget s) t = Some b \<Longrightarrow> budget_answer (sv_budget (snd (dispatch_obligation env obl cx s))) t = Some b"
  by (simp add: dispatch_obligation_def handlers_budget reserve_budget_keeps)

lemma run_keeps_answers:
  "budget_answer (sv_budget s) t = Some b \<Longrightarrow> budget_answer (sv_budget (snd (run_obligations env cx os s))) t = Some b"
proof (induction os arbitrary: s)
  case (Cons obl os)
  show ?case
    using dispatch_keeps_answers [OF Cons.prems] Cons.IH
    by (auto intro!: and_then_inv [where P = "\<lambda>s. budget_answer (sv_budget s) t = Some b"])
qed simp

lemma run_obligations_passed:
  assumes "run_obligations env cx os s = (Inr (ocs, None), s')"
  shows "set os \<subseteq> {''emit_audit_event'', ''reserve_budget'', ''enforce_sandbox_profile''}"
    and "''reserve_budget'' \<in> set os \<Longrightarrow>
         \<exists>b. budget_answer (sv_budget s') (tk_task_id (cx_task_record cx)) = Some b \<and> bo_allowed b"
  using assms
proof (induction os arbitrary: s ocs)
  case (Cons obl os)
  case 1
  then show ?case using Cons.IH(1) passed_obligation(1)
    by (fastforce simp: and_then_def split: sum.splits prod.splits if_splits)
next
  case (Cons obl os)
  case 2
  then obtain oc s1 ocs1 where d: "dispatch_obligation env obl cx s = (Inr oc, s1)"
    and pass: "oo_satisfied oc \<or> \<not> oo_blocking oc" and run: "run_obligations env cx os s1 = (Inr (ocs1, None), s')"
    by (auto simp: and_then_def split: sum.splits prod.splits if_splits)
  show ?case
  proof (cases "obl = ''reserve_budget''")
    case True
    with passed_obligation(2) [OF d pass] obtain b where
      "budget_answer (sv_budget s1) (tk_task_id (cx_task_record cx)) = Some b" "bo_allowed b" by blast
    with run_keeps_answers [of s1 _ b env cx os] run show ?thesis by auto
  next
    case False
    with 2 Cons.IH(2) [OF _ run] show ?thesis by auto
  qed
qed simp_all

lemma approval_first:
  assumes "''require_owner_approval'' \<in> set os"
  shows "\<exists>rest. ordered_obligations os =
     (if ''emit_audit_event'' \<in> set os then [''emit_audit_event''] else []) @ ''require_owner_approval'' # rest"
  using assms by (simp add: ordered_obligations_def obligation_order_def)

lemma approval_blocks:
  assumes "status_of (sv_repo s) (cx_task_id cx) = Some st" "may_move st ''blocked''"
  shows "\<exists>oc s'. dispatch_obligation env ''require_owner_approval'' cx s = (Inr oc, s') \<and>
      \<not> oo_satisfied oc \<and> oo_blocking oc \<and> sv_budget s' = sv_budget s \<and>
      (\<exists>t. get_task_by_id (sv_repo s') (cx_task_id cx) = Some t \<and> tk_status t = ''blocked'' \<and>
           tk_outcome_error_code t = Some ''approval_required'')"
proof -
  obtain r where r: "find_row (sv_repo s) (cx_task_id cx) = Some r" and st: "tk_status r = st"
    using assms(1) by (auto simp: status_of_alt)
  show ?thesis
    using r st assms(2)
    by (auto simp: dispatch_obligation_def handle_require_owner_approval_def and_then_def set_status_def
        update_task_status_eq get_task_by_id_def find_row_map_set task_from_row_def set_row_def nonempty_opt_Some)
qed

section \<open>Properties\<close>

text \<open>
  C31: obligations pass only when all of them are discharged. When the dispatcher returns without a
  blocking obligation, every obligation of the decision is a known one other than owner approval,
  and if a budget reservation was demanded, the budget service has an allowing outcome on record
  for the task.
\<close>

theorem obligations_passed_sound:
  assumes "apply_obligations env obls cx s = (Inr res, s')" and "or_blocking_obligation res = None"
  shows "set obls \<subseteq> {''emit_audit_event'', ''reserve_budget'', ''enforce_sandbox_profile''} \<and>
    (''reserve_budget'' \<in> set obls \<longrightarrow>
       (\<exists>b. budget_answer (sv_budget s') (tk_task_id (cx_task_record cx)) = Some b \<and> bo_allowed b))"
proof -
  obtain ocs where "run_obligations env cx (ordered_obligations obls) s = (Inr (ocs, None), s')"
    using assms by (auto simp: apply_obligations_def and_then_Inr)
  from run_obligations_passed [OF this] show ?thesis by (simp add: set_ordered_obligations)
qed

text \<open>
  An approval obligation always blocks. Whatever else the decision demands, in whatever order,
  and even when the audit write fails, the dispatcher returns owner approval as the blocking
  obligation, leaves the task blocked with code \<^verbatim>\<open>approval_required\<close> and reserves no budget.
\<close>

theorem owner_approval_blocks:
  assumes "''require_owner_approval'' \<in> set obls"
    and "status_of (sv_repo s) (cx_task_id cx) = Some st" and "may_move st ''blocked''"
  shows "\<exists>res s'. apply_obligations env obls cx s = (Inr res, s') \<and>
      or_blocking_obligation res = Some ''require_owner_approval'' \<and> \<not> or_all_satisfied res \<and>
      sv_budget s' = sv_budget s \<and>
      (\<exists>t. get_task_by_id (sv_repo s') (cx_task_id cx) = Some t \<and> tk_status t = ''blocked'' \<and>
           tk_outcome_error_code t = Some ''approval_required'')"
proof -
  obtain rest where rest: "ordered_obligations obls =
     (if ''emit_audit_event'' \<in> set obls then [''emit_audit_event''] else []) @ ''require_owner_approval'' # rest"
    using approval_first [OF assms(1)] by blast
  show ?thesis
  proof (cases "''emit_audit_event'' \<in> set obls")
    case False
    with rest approval_blocks [OF assms(2,3), of env] show ?thesis by (auto simp: apply_obligations_def)
  next
    case True
    obtain oc s1 where oc: "dispatch_obligation env ''emit_audit_event'' cx s = (Inr oc, s1)" "\<not> oo_blocking oc"
      and same: "sv_repo s1 = sv_repo s" "sv_budget s1 = sv_budget s"
      using emit_audit_passes by blast
    have "status_of (sv_repo s1) (cx_task_id cx) = Some st" using same assms(2) by simp
    from approval_blocks [OF this assms(3), of env] True rest oc same show ?thesis
      by (auto simp: apply_obligations_def)
  qed
qed

section \<open>Witnesses\<close>

definition demo_env :: environment where
  "demo_env = \<lparr>en_uuid = (\<lambda>n. ''id-'' @ show_nat n), en_clock = int, en_audit_fault = (\<lambda>_. None),
     en_budget_fault = (\<lambda>_ _. None), en_opa = (\<lambda>_ _. OpaCallFailed ''down''), en_profile_exists = (\<lambda>_. True)\<rparr>"

definition demo_services :: "string \<Rightarrow> services" where
  "demo_services status = \<lparr>sv_repo = demo_repo status, sv_budget = demo_service,
     sv_audit = \<lparr>lg_rows = [], lg_attempts = 0\<rparr>, sv_policy_calls = 0, sv_draws = 0\<rparr>"

definition demo_context :: obligation_context where
  "demo_context = \<lparr>cx_trace_id = ''trace-1'', cx_task_id = ''t-1'', cx_request_id = ''req-1'', cx_principal_id = ''owner-1'',
     cx_principal_role = ''owner'', cx_action = ''run_task'', cx_target = ''sandbox'', cx_project_id = Some ''p-1'',
     cx_policy_version = ''v1'', cx_policy_hash = ''h1'', cx_rule_ids = [''POL-001''],
     cx_task_record = new_task demo_envelope ''t-1'' 0\<rparr>"

lemma obligations_passed_sound_witness:
  "\<exists>res s'. apply_obligations demo_env [''enforce_sandbox_profile'', ''emit_audit_event''] demo_context (demo_services ''authorized'')
       = (Inr res, s') \<and> or_blocking_obligation res = None \<and>
     set [''enforce_sandbox_profile'', ''emit_audit_event''] \<subseteq>
       {''emit_audit_event'', ''reserve_budget'', ''enforce_sandbox_profile''}"
proof -
  obtain res s' where run: "apply_obligations demo_env [''enforce_sandbox_profile'', ''emit_audit_event''] demo_context
      (demo_services ''authorized'') = (Inr res, s')" and none: "or_blocking_obligation res = None"
    by (simp add: apply_obligations_def ordered_obligations_def obligation_order_def dispatch_obligation_def
        handle_emit_audit_event_def handle_enforce_sandbox_profile_def bind_profile_def audit_def write_event_def
        demo_env_def Let_def)
  with obligations_passed_sound [OF run none] show ?thesis by blast
qed

lemma owner_approval_blocks_witness:
  "\<exists>res s'. apply_obligations demo_env [''reserve_budget'', ''require_owner_approval''] demo_context (demo_services ''authorized'')
       = (Inr res, s') \<and> or_blocking_obligation res = Some ''require_owner_approval'' \<and> sv_budget s' = demo_service"
  using owner_approval_blocks [of "[''reserve_budget'', ''require_owner_approval'']" "demo_services ''authorized''" demo_context
      "''authorized''" demo_env]
  by (auto simp: demo_services_def demo_context_def demo_repo_def status_of_alt find_row_def new_task_def may_move_def
      task_step_def status_simps)

end
