(* ===== verification/Workflow.thy ===== *)
theory Workflow
  imports Dispatch Obligations
begin

text \<open>
  The orchestration graph and the worker that runs it.
  \<^item> \<^verbatim>\<open>task_orchestrator/workflow/state_models.py\<close>: \<open>task_state\<close>;
  \<^item> \<^verbatim>\<open>task_orchestrator/workflow/nodes.py\<close>: \<open>policy_evaluation_node\<close>,
    \<open>obligation_check_node\<close>, \<open>dispatch_node\<close> and the two audit helpers;
  \<^item> \<^verbatim>\<open>task_orchestrator/state/state_machine.py\<close>: the two routing functions;
  \<^item> \<^verbatim>\<open>task_orchestrator/workflow/graph.py\<close>: \<open>run_graph\<close>, the compiled graph's execution;
  \<^item> \<^verbatim>\<open>apps/orchestrator_worker.py\<close>: \<open>invoke_task\<close> and \<open>drain_queued_tasks\<close>.

  The loop state of a task is the field \<open>ts_loop\<close> of the orchestrator state. A node's result updates
  the graph state as LangGraph merges the returned dictionary. Spans, metrics and log lines are left
  out.
\<close>

section \<open>Graph state\<close>

record task_state =
  wt_task_id :: string
  wt_project_id :: "string option"
  wt_principal_role :: string
  wt_command :: string
  wt_policy_decision :: "string option"
  wt_policy_version :: string
  wt_policy_hash :: string
  wt_rule_ids :: "string list"
  wt_obligation_satisfied :: bool
  wt_blocking_obligation :: "string option"
  wt_dispatch_accepted :: bool
  wt_dispatch_target :: "string option"
  wt_dispatch_id :: "string option"
  wt_dispatch_error_code :: "string option"
  wt_llm_execution :: "llm_metadata option"
  wt_final_state :: string

definition initial_task_state :: "task_record \<Rightarrow> task_state" where
  "initial_task_state t = \<lparr>wt_task_id = tk_task_id t,
     wt_project_id = tk_project_id t,
     wt_principal_role = tk_principal_role t,
     wt_command = tk_command t,
     wt_policy_decision = None,
     wt_policy_version = [],
     wt_policy_hash = [],
     wt_rule_ids = [],
     wt_obligation_satisfied = False,
     wt_blocking_obligation = None,
     wt_dispatch_accepted = False,
     wt_dispatch_target = None,
     wt_dispatch_id = None,
     wt_dispatch_error_code = None,
     wt_llm_execution = None,
     wt_final_state = ''queued''\<rparr>"

section \<open>Helpers of the nodes\<close>

definition hop :: "('c, 'z) orchestrator_scheme \<Rightarrow> (py_exn, unit, ('c, 'z) orchestrator_scheme) run" where
  "hop s = (case check_and_increment_hop hop_limit (ts_loop s) of (r, ls) \<Rightarrow> (r, s\<lparr>ts_loop := ls\<rparr>))"

definition emit_stage_audit ::
  "environment \<Rightarrow> task_record \<Rightarrow> string \<Rightarrow> string \<Rightarrow> string \<Rightarrow> string option \<Rightarrow> string \<Rightarrow> string list \<Rightarrow> 'a services_scheme \<Rightarrow>
   (py_exn, unit, 'a services_scheme) run" where
  "emit_stage_audit env t stage decision source reason_code message rule_ids =
     audit env \<lparr>aw_event_type = stage @ ''.decision'', aw_outcome = decision, aw_trace_id = tk_trace_id t,
       aw_request_id = Some (tk_request_id t), aw_task_id = Some (tk_task_id t), aw_principal_id = Some (tk_principal_id t),
       aw_principal_role = Some (tk_principal_role t), aw_source = source, aw_reason_code = reason_code, aw_message = message,
       aw_rule_ids = rule_ids,
       aw_payload = [(''stage'', Some stage), (''decision'', Some decision), (''source'', Some source), (''reason_code'', reason_code)]\<rparr>"

definition emit_outcome_audit ::
  "environment \<Rightarrow> task_record \<Rightarrow> string \<Rightarrow> string option \<Rightarrow> string \<Rightarrow> string \<Rightarrow> string list \<Rightarrow> 'a services_scheme \<Rightarrow>
   (py_exn, unit, 'a services_scheme) run" where
  "emit_outcome_audit env t outcome error_code message source rule_ids =
     audit env \<lparr>aw_event_type = ''owner_command.'' @ outcome, aw_outcome = outcome, aw_trace_id = tk_trace_id t,
       aw_request_id = Some (tk_request_id t), aw_task_id = Some (tk_task_id t), aw_principal_id = Some (tk_principal_id t),
       aw_principal_role = Some (tk_principal_role t), aw_source = source, aw_reason_code = error_code, aw_message = message,
       aw_rule_ids = rule_ids,
       aw_payload = [(''outcome'', Some outcome), (''source'', Some source), (''error_code'', error_code),
         (''message'', Some message), (''request_id'', Some (tk_request_id t)), (''task_id'', Some (tk_task_id t))]\<rparr>"

definition decision_details :: "string \<Rightarrow> string \<Rightarrow> string \<Rightarrow> string list \<Rightarrow> kvs" where
  "decision_details decision version hash rule_ids =
     [(''decision'', decision), (''policy_version'', version), (''policy_hash'', hash), (''rule_ids'', py_join '','' rule_ids)]"

section \<open>Nodes\<close>

definition policy_evaluation_node ::
  "environment \<Rightarrow> task_state \<Rightarrow> ('c, 'z) orchestrator_scheme \<Rightarrow> (py_exn, task_state, ('c, 'z) orchestrator_scheme) run" where
  "policy_evaluation_node env st s =
     and_then (hop s) (\<lambda>_ s1.
       case get_task_by_id (sv_repo s1) (wt_task_id st) of
         None \<Rightarrow> (Inr (st\<lparr>wt_policy_decision := Some ''error'', wt_policy_version := ''policy-version-unknown'',
                        wt_policy_hash := ''policy-hash-unknown'', wt_rule_ids := [], wt_final_state := ''failed''\<rparr>), s1)
       | Some t \<Rightarrow>
           (let (po, s2) = ask_policy env (normalize_policy_input t) s1;
                res = pf_policy_result po;
                decision = (case res of Some r \<Rightarrow> po_decision r | None \<Rightarrow> ''error'');
                version = (case res of Some r \<Rightarrow> po_policy_version r | None \<Rightarrow> ''policy-version-unknown'');
                hash = (case res of Some r \<Rightarrow> po_policy_hash r | None \<Rightarrow> ''policy-hash-unknown'');
                rules = (case res of Some r \<Rightarrow> po_rule_ids r | None \<Rightarrow> []);
                reason = (case res of Some r \<Rightarrow> Some (po_reason_code r) | None \<Rightarrow> pf_error_code po);
                st' = st\<lparr>wt_policy_decision := Some decision, wt_policy_version := version, wt_policy_hash := hash,
                         wt_rule_ids := rules\<rparr>
            in and_then (emit_stage_audit env t ''policy'' decision ''policy_runtime'' reason (pf_message po) rules s2) (\<lambda>_ s3.
              if \<not> pf_allowed po
              then and_then (set_status (wt_task_id st) ''blocked''
                     (no_update\<lparr>up_outcome_source := Some ''policy_runtime'',
                        up_outcome_error_code := Some (or_str (pf_error_code po) ''policy_blocked''),
                        up_outcome_message := Some (pf_message po),
                        up_outcome_details := Some (decision_details decision version hash rules @ [(''source'', ''policy_evaluation_node'')])\<rparr>) s3)
                   (\<lambda>_ s4. and_then (emit_outcome_audit env t ''denied'' (Some (or_str (pf_error_code po) ''policy_blocked''))
                              (pf_message po) ''policy_runtime'' rules s4)
                     (\<lambda>_ s5. (Inr (st'\<lparr>wt_final_state := ''blocked''\<rparr>), s5)))
              else and_then (set_status (wt_task_id st) ''authorized''
                     (no_update\<lparr>up_outcome_source := Some ''policy_runtime'',
                        up_outcome_message := Some ''policy authorized command'',
                        up_outcome_details := Some (decision_details decision version hash rules)\<rparr>) s3)
                   (\<lambda>_ s4. (Inr (st'\<lparr>wt_final_state := ''authorized''\<rparr>), s4)))))"

definition obligation_context_of :: "task_state \<Rightarrow> task_record \<Rightarrow> obligation_context" where
  "obligation_context_of st t = \<lparr>cx_trace_id = tk_trace_id t, cx_task_id = wt_task_id st, cx_request_id = tk_request_id t,
     cx_principal_id = tk_principal_id t, cx_principal_role = tk_principal_role t, cx_action = tk_command t,
     cx_target = tk_target t, cx_project_id = tk_project_id t, cx_policy_version = wt_policy_version st,
     cx_policy_hash = wt_policy_hash st, cx_rule_ids = wt_rule_ids st, cx_task_record = t\<rparr>"

text \<open>The node's ending: what it does with the dispatcher's result.\<close>

definition conclude_obligations ::
  "task_state \<Rightarrow> obligation_result \<Rightarrow> ('c, 'z) orchestrator_scheme \<Rightarrow> (py_exn, task_state, ('c, 'z) orchestrator_scheme) run" where
  "conclude_obligations st ores s =
     (if \<not> or_all_satisfied ores \<and> truthy (or_blocking_obligation ores)
      then let b = or_str (or_blocking_obligation ores) []
           in and_then (set_status (wt_task_id st) ''blocked''
                (no_update\<lparr>up_outcome_source := Some ''obligation_dispatcher'',
                   up_outcome_error_code := or_blocking_obligation ores,
                   up_outcome_message := Some (''obligation '' @ py_repr b @ '' blocked task''),
                   up_outcome_details := Some [(''blocking_obligation'', b), (''policy_version'', wt_policy_version st),
                     (''policy_hash'', wt_policy_hash st), (''rule_ids'', py_join '','' (wt_rule_ids st))]\<rparr>) s)
              (\<lambda>_ s1. (Inr (st\<lparr>wt_obligation_satisfied := False,
                   wt_blocking_obligation := or_blocking_obligation ores, wt_final_state := ''blocked''\<rparr>), s1))
      else (Inr (st\<lparr>wt_obligation_satisfied := True, wt_blocking_obligation := None\<rparr>), s))"

definition obligation_check_node ::
  "environment \<Rightarrow> task_state \<Rightarrow> ('c, 'z) orchestrator_scheme \<Rightarrow> (py_exn, task_state, ('c, 'z) orchestrator_scheme) run" where
  "obligation_check_node env st s =
     and_then (hop s) (\<lambda>_ s1.
       case get_task_by_id (sv_repo s1) (wt_task_id st) of
         None \<Rightarrow> (Inr (st\<lparr>wt_obligation_satisfied := False, wt_blocking_obligation := Some ''task_not_found'',
                        wt_final_state := ''failed''\<rparr>), s1)
       | Some t \<Rightarrow>
           if or_str (wt_policy_decision st) ''allow'' \<noteq> ''allow_with_obligations''
           then (Inr (st\<lparr>wt_obligation_satisfied := True, wt_blocking_obligation := None\<rparr>), s1)
           else let (po, s2) = ask_policy env (normalize_policy_input t) s1
                in case pf_policy_result po of
                     None \<Rightarrow> (Inr (st\<lparr>wt_obligation_satisfied := False, wt_blocking_obligation := Some ''policy_result_missing'',
                                    wt_final_state := ''blocked''\<rparr>), s2)
                   | Some res \<Rightarrow>
                       and_then (apply_obligations env (po_obligations res) (obligation_context_of st t) s2)
                         (conclude_obligations st))"

definition dispatch_node ::
  "environment \<Rightarrow> 'c adapters \<Rightarrow> task_state \<Rightarrow> ('c, 'z) orchestrator_scheme \<Rightarrow>
   (py_exn, task_state, ('c, 'z) orchestrator_scheme) run" where
  "dispatch_node env ax st s =
     and_then (hop s) (\<lambda>_ s1.
       case get_task_by_id (sv_repo s1) (wt_task_id st) of
         None \<Rightarrow> (Inr (st\<lparr>wt_dispatch_accepted := False, wt_dispatch_target := None, wt_dispatch_id := None,
                        wt_dispatch_error_code := Some ''task_not_found'', wt_llm_execution := None, wt_final_state := ''failed''\<rparr>), s1)
       | Some t \<Rightarrow>
           and_then (dispatch_admitted_task env ax (wt_policy_version st) (wt_policy_hash st) (wt_rule_ids st) True t s1) (\<lambda>oc s2.
             if \<not> do_accepted oc
             then and_then (emit_outcome_audit env t ''denied'' (Some (or_str (do_error_code oc) ''execution_dispatch_failed''))
                     (do_message oc) (do_source oc) (wt_rule_ids st) s2)
                  (\<lambda>_ s3. (Inr (st\<lparr>wt_dispatch_accepted := False, wt_dispatch_target := Some (do_target oc),
                       wt_dispatch_id := do_dispatch_id oc, wt_dispatch_error_code := do_error_code oc,
                       wt_llm_execution := do_llm_metadata oc, wt_final_state := ''blocked''\<rparr>), s3))
             else and_then (emit_outcome_audit env t ''accepted'' None (do_message oc) (''dispatch_'' @ do_target oc) (wt_rule_ids st) s2)
                  (\<lambda>_ s3. (Inr (st\<lparr>wt_dispatch_accepted := True, wt_dispatch_target := Some (do_target oc),
                       wt_dispatch_id := Some (or_str (do_dispatch_id oc) (''dispatch-'' @ wt_task_id st)),
                       wt_dispatch_error_code := None, wt_llm_execution := do_llm_metadata oc, wt_final_state := ''dispatched''\<rparr>), s3))))"

section \<open>The graph\<close>

definition route_after_policy :: "task_state \<Rightarrow> string" where
  "route_after_policy st =
     (if wt_final_state st \<in> {''blocked'', ''failed''} then ''__end__'' else ''obligation_check_node'')"

definition route_after_obligation :: "task_state \<Rightarrow> string" where
  "route_after_obligation st =
     (if \<not> wt_obligation_satisfied st then ''__end__''
      else if wt_final_state st \<in> {''blocked'', ''failed''} then ''__end__'' else ''dispatch_node'')"

definition run_graph ::
  "environment \<Rightarrow> 'c adapters \<Rightarrow> task_state \<Rightarrow> ('c, 'z) orchestrator_scheme \<Rightarrow>
   (py_exn, task_state, ('c, 'z) orchestrator_scheme) run" where
  "run_graph env ax st s =
     and_then (policy_evaluation_node env st s) (\<lambda>st1 s1.
       if route_after_policy st1 = ''__end__'' then (Inr st1, s1)
       else and_then (obligation_check_node env st1 s1) (\<lambda>st2 s2.
         if route_after_obligation st2 = ''__end__'' then (Inr st2, s2)
         else dispatch_node env ax st2 s2))"

section \<open>The worker\<close>

definition breach_details :: "string \<Rightarrow> int \<Rightarrow> int \<Rightarrow> (string \<times> string) option \<Rightarrow> kvs" where
  "breach_details cap_type n limit pair =
     [(''cap_type'', cap_type), (''count'', show_int n), (''limit'', show_int limit),
      (''pair'', case pair of None \<Rightarrow> ''None'' | Some (a, b) \<Rightarrow> ''['' @ py_repr a @ '', '' @ py_repr b @ '']'')]"

text \<open>
  One turn of the worker's loop over the queued tasks: the graph on a fresh loop state, and the two
  exception handlers, which may themselves raise.
\<close>

definition invoke_task ::
  "environment \<Rightarrow> 'c adapters \<Rightarrow> task_record \<Rightarrow> ('c, 'z) orchestrator_scheme \<Rightarrow>
   (py_exn, unit, ('c, 'z) orchestrator_scheme) run" where
  "invoke_task env ax t s =
     (case run_graph env ax (initial_task_state t) (s\<lparr>ts_loop := fresh_loop_state\<rparr>) of
        (Inr _, s1) \<Rightarrow> (Inr (), s1)
      | (Inl (LoopCapBreachError cap_type n limit pair), s1) \<Rightarrow>
          (let message = exn_text (LoopCapBreachError cap_type n limit pair)
           in and_then (set_status (tk_task_id t) ''blocked''
                (no_update\<lparr>up_outcome_source := Some ''loop_control'', up_outcome_error_code := Some ''loop_cap_breach'',
                   up_outcome_message := Some message, up_outcome_details := Some (breach_details cap_type n limit pair)\<rparr>) s1)
              (\<lambda>_ s2. audit env \<lparr>aw_event_type = ''loop_cap.breach'', aw_outcome = ''blocked'', aw_trace_id = tk_trace_id t,
                 aw_request_id = Some (tk_request_id t), aw_task_id = Some (tk_task_id t),
                 aw_principal_id = Some (tk_principal_id t), aw_principal_role = Some (tk_principal_role t),
                 aw_source = ''loop_control'', aw_reason_code = Some ''loop_cap_breach'', aw_message = message, aw_rule_ids = [],
                 aw_payload = map (\<lambda>(k, v). (k, Some v)) (breach_details cap_type n limit pair)\<rparr> s2))
      | (Inl _, s1) \<Rightarrow>
          and_then (set_status (tk_task_id t) ''failed''
              (no_update\<lparr>up_outcome_source := Some ''orchestrator_worker'',
                 up_outcome_error_code := Some ''worker_unhandled_exception'',
                 up_outcome_message := Some ''unhandled exception during task graph invocation''\<rparr>) s1)
            (\<lambda>_ s2. (Inr (), s2)))"

fun invoke_all ::
  "environment \<Rightarrow> 'c adapters \<Rightarrow> task_record list \<Rightarrow> ('c, 'z) orchestrator_scheme \<Rightarrow>
   (py_exn, unit, ('c, 'z) orchestrator_scheme) run" where
  "invoke_all env ax [] s = (Inr (), s)"
| "invoke_all env ax (t # ts) s = and_then (invoke_task env ax t s) (\<lambda>_ s1. invoke_all env ax ts s1)"

definition queued_tasks :: "task_repo \<Rightarrow> task_record list" where
  "queued_tasks repo = filter (\<lambda>t. tk_status t = ''queued'') (list_tasks repo)"

definition drain_queued_tasks ::
  "environment \<Rightarrow> 'c adapters \<Rightarrow> ('c, 'z) orchestrator_scheme \<Rightarrow> (py_exn, nat, ('c, 'z) orchestrator_scheme) run" where
  "drain_queued_tasks env ax s =
     (let queued = queued_tasks (sv_repo s)
      in and_then (invoke_all env ax queued s) (\<lambda>_ s1. (Inr (length queued), s1)))"

section \<open>Lemmas\<close>

text \<open>
  The task \<open>i\<close> is in one of the statuses \<open>A\<close> and every other task has the status it had in \<open>m\<close>;
  and the exceptions a graph run may end with.
\<close>

definition task_in :: "(string \<rightharpoonup> string) \<Rightarrow> string \<Rightarrow> string set \<Rightarrow> 'a services_scheme \<Rightarrow> bool" where
  "task_in m i A s = (\<exists>st \<in> A. status_of (sv_repo s) = m(i \<mapsto> st))"

fun loop_breach :: "py_exn \<Rightarrow> bool" where
  "loop_breach (LoopCapBreachError k n l p) = True"
| "loop_breach _ = False"

definition raised_in :: "(string \<rightharpoonup> string) \<Rightarrow> string \<Rightarrow> string set \<Rightarrow> py_exn \<Rightarrow> 'a services_scheme \<Rightarrow> bool" where
  "raised_in m i A x s = (task_in m i A s \<and> \<not> loop_breach x)"

definition no_audit_breach :: "environment \<Rightarrow> bool" where
  "no_audit_breach env = (\<forall>n x. en_audit_fault env n = Some x \<longrightarrow> \<not> loop_breach x)"

definition graph_statuses :: "string set" where
  "graph_statuses = {''queued'', ''authorized'', ''blocked'', ''dispatched'', ''failed''}"

lemma task_in_mono: "task_in m i A s \<Longrightarrow> A \<subseteq> B \<Longrightarrow> task_in m i B s"
  by (auto simp: task_in_def)

lemma task_in_repo: "task_in m i A s \<Longrightarrow> sv_repo s' = sv_repo s \<Longrightarrow> task_in m i A s'"
  by (simp add: task_in_def)

lemma abs_update_in:
  "\<exists>st \<in> A. f = m(i \<mapsto> st) \<Longrightarrow> status \<in> A \<Longrightarrow> \<exists>st \<in> A. abs_update f i status = m(i \<mapsto> st)"
  by (auto simp: abs_update_def)

lemma task_in_update:
  "task_in m i A s \<Longrightarrow> status \<in> A \<Longrightarrow> sv_repo s' = snd (update_task_status (sv_repo s) i status u) \<Longrightarrow> task_in m i A s'"
  unfolding task_in_def by (simp only: status_of_update abs_update_in)

lemma update_raises: "fst (update_task_status repo i status u) = Inl x \<Longrightarrow> \<not> loop_breach x"
  by (auto simp: update_task_status_def assert_legal_transition_def Let_def split: option.splits sum.splits if_splits)

lemma audit_raises: "fst (audit env c s) = Inl x \<Longrightarrow> no_audit_breach env \<Longrightarrow> \<not> loop_breach x"
  by (auto simp: audit_def write_event_def no_audit_breach_def Let_def split: option.splits prod.splits)

text \<open>How one stage of a node ends, with the loop state it leaves.\<close>

lemma audit_ok:
  assumes "no_audit_breach env" "task_in m i A s"
  shows "run_ok (\<lambda>_ s'. task_in m i A s' \<and> services.more s' = services.more s) (raised_in m i A) (audit env c s)"
  using audit_frame [of env c s] audit_raises [of env c s] assms
  by (cases "audit env c s"; cases "fst (audit env c s)") (auto simp: raised_in_def intro: task_in_repo)

lemma set_status_ok:
  assumes "task_in m i A s" "status \<in> A"
  shows "run_ok (\<lambda>_ s'. task_in m i A s' \<and> services.more s' = services.more s) (raised_in m i A) (set_status i status u s)"
  using set_status_frame [of i status u s] update_raises [of "sv_repo s" i status u] task_in_update [OF assms]
  by (cases "set_status i status u s"; cases "fst (set_status i status u s)") (auto simp: raised_in_def)

text \<open>A status update from a status that allows it arrives there.\<close>

lemma set_status_moves:
  assumes "task_in m i A s" "\<And>st. st \<in> A \<Longrightarrow> may_move st status"
  shows "run_ok (\<lambda>_ s'. task_in m i {status} s' \<and> services.more s' = services.more s) (\<lambda>_ _. False) (set_status i status u s)"
proof -
  obtain st where st: "st \<in> A" "status_of (sv_repo s) = m(i \<mapsto> st)" using assms(1) by (auto simp: task_in_def)
  then have "status_of (sv_repo s) i = Some st" by simp
  with assms(2) [OF st(1)] obtain r where r: "fst (update_task_status (sv_repo s) i status u) = Inr r"
    using update_result [of "sv_repo s" i st status u] by auto
  have "status_of (snd (update_task_status (sv_repo s) i status u)) = m(i \<mapsto> status)"
    using st assms(2) [OF st(1)] by (simp add: status_of_update abs_update_def)
  with r set_status_frame [of i status u s] show ?thesis
    by (cases "set_status i status u s") (auto simp: task_in_def)
qed

lemma loop_of_more: "services.more s' = services.more s \<Longrightarrow> ts_loop s' = ts_loop s"
  "services.more s' = services.more s \<Longrightarrow> ts_task_outcomes s' = ts_task_outcomes s"
  for s s' :: "('c, 'z) orchestrator_scheme"
  by (cases s; cases s'; simp)+

lemma hop_ok:
  assumes "ls_hop_count (ts_loop s) < hop_limit"
  shows "hop s = (Inr (), s\<lparr>ts_loop := (ts_loop s)\<lparr>ls_hop_count := ls_hop_count (ts_loop s) + 1\<rparr>\<rparr>)"
  using assms by (simp add: hop_def check_and_increment_hop_def)

text \<open>One node more in the loop state, and nothing dispatched.\<close>

definition hopped :: "('c, 'z) orchestrator_scheme \<Rightarrow> ('c, 'z) orchestrator_scheme \<Rightarrow> bool" where
  "hopped s s' = (ls_hop_count (ts_loop s') = ls_hop_count (ts_loop s) + 1 \<and>
     ls_pair_rounds (ts_loop s') = ls_pair_rounds (ts_loop s) \<and> ts_task_outcomes s' = ts_task_outcomes s)"

lemma hopped_after:
  assumes "services.more s' = services.more (s\<lparr>ts_loop := (ts_loop s)\<lparr>ls_hop_count := ls_hop_count (ts_loop s) + 1\<rparr>\<rparr>)"
  shows "hopped s s'"
  using loop_of_more [OF assms] by (simp add: hopped_def)

lemma task_in_status:
  assumes "task_in m i A s"
  shows "\<exists>st \<in> A. status_of (sv_repo s) i = Some st" and "\<forall>j. j \<noteq> i \<longrightarrow> status_of (sv_repo s) j = m j"
  using assms by (auto simp: task_in_def)

lemma task_in_stored:
  assumes "task_in m i A s"
  shows "\<exists>t. get_task_by_id (sv_repo s) i = Some t \<and> tk_task_id t = i \<and> tk_status t \<in> A"
proof -
  obtain st where "st \<in> A" "status_of (sv_repo s) i = Some st" using assms by (auto simp: task_in_def)
  then show ?thesis using get_task_by_id_id [of "sv_repo s" i] by (auto simp: status_of_def)
qed

lemma queued_moves [status_simps]:
  "may_move ''queued'' ''blocked''" "may_move ''queued'' ''authorized''" "may_move ''queued'' ''failed''"
  "may_move ''blocked'' ''blocked''" "may_move ''blocked'' ''failed''" "may_move ''dispatched'' ''failed''"
  "may_move ''failed'' ''failed''"
  by (simp_all add: may_move_def task_step_def status_simps)

subsection \<open>The policy node\<close>

lemma policy_node_ok:
  fixes s :: "('c, 'z) orchestrator_scheme"
  assumes "no_audit_breach env" "task_in m (wt_task_id st) {''queued''} s" "ls_hop_count (ts_loop s) < hop_limit"
  shows "run_ok (\<lambda>st' s'. wt_task_id st' = wt_task_id st \<and> hopped s s' \<and>
       (wt_final_state st' = ''blocked'' \<and> task_in m (wt_task_id st) {''blocked''} s' \<or>
        wt_final_state st' = ''authorized'' \<and> task_in m (wt_task_id st) {''authorized''} s'))
     (raised_in m (wt_task_id st) graph_statuses) (policy_evaluation_node env st s)"
proof -
  let ?i = "wt_task_id st"
  define s1 where "s1 = s\<lparr>ts_loop := (ts_loop s)\<lparr>ls_hop_count := ls_hop_count (ts_loop s) + 1\<rparr>\<rparr>"
  have in1: "task_in m ?i {''queued''} s1" using assms(2) by (simp add: s1_def task_in_def)
  obtain t where t: "get_task_by_id (sv_repo s1) ?i = Some t" using task_in_stored [OF in1] by blast
  obtain po s2 where p: "ask_policy env (normalize_policy_input t) s1 = (po, s2)"
    by (cases "ask_policy env (normalize_policy_input t) s1")
  have in2: "task_in m ?i {''queued''} s2" "services.more s2 = services.more s1"
    using p in1 by (auto simp: ask_policy_def task_in_def)
  have weaken: "raised_in m ?i graph_statuses x s'" if "raised_in m ?i A x s'" "A \<subseteq> graph_statuses" for A x s'
    using that by (auto simp: raised_in_def intro: task_in_mono)
  have aud: "run_ok (\<lambda>_ s'. task_in m ?i A s' \<and> services.more s' = services.more s1)
      (raised_in m ?i graph_statuses) (audit env c s3)"
    if "task_in m ?i A s3" "services.more s3 = services.more s1" "A \<subseteq> graph_statuses" for A c s3
    using audit_ok [OF assms(1) that(1), of c] that weaken by (auto elim!: run_ok_mono)
  have mv: "run_ok (\<lambda>_ s'. task_in m ?i {status} s' \<and> services.more s' = services.more s1)
      (raised_in m ?i graph_statuses) (set_status ?i status u s3)"
    if "task_in m ?i {''queued''} s3" "services.more s3 = services.more s1" "status \<in> {''blocked'', ''authorized''}" for status u s3
    using set_status_moves [OF that(1), of status u] that by (auto simp: status_simps elim!: run_ok_mono)
  have hops: "hopped s s'" if "services.more s' = services.more s1" for s'
    using that hopped_after [of s' s] by (simp add: s1_def)
  show ?thesis
    unfolding policy_evaluation_node_def hop_ok [OF assms(3)] s1_def [symmetric] and_then_simps t option.case p Let_def prod.case
      emit_stage_audit_def emit_outcome_audit_def
  proof (rule run_ok_and_then [OF aud [OF in2]], goal_cases)
    case 1
    then show ?case by (simp add: graph_statuses_def)
  next
    case (2 x s3)
    then have s3: "task_in m ?i {''queued''} s3" "services.more s3 = services.more s1" by auto
    note moved = run_ok_and_then [OF mv [OF s3]] and audited = run_ok_and_then [OF aud]
    show ?case
    proof (cases "pf_allowed po")
      case True
      then show ?thesis by (simp, intro moved) (auto intro: hops)
    next
      case False
      then show ?thesis by (simp, intro moved audited) (auto simp: graph_statuses_def intro: hops)
    qed
  qed
qed

subsection \<open>The obligation node\<close>

text \<open>
  The handlers raise nothing on a task that may be blocked; only the approval handler touches the
  task table.
\<close>

definition obliged ::
  "(string \<rightharpoonup> string) \<Rightarrow> string \<Rightarrow> 'a services_scheme \<Rightarrow> string option \<Rightarrow> 'a services_scheme \<Rightarrow> bool" where
  "obliged m i s b s' = ((if b = Some ''require_owner_approval'' then task_in m i {''blocked''} s' else sv_repo s' = sv_repo s) \<and>
     services.more s' = services.more s)"

lemma dispatch_obligation_ok:
  assumes "task_in m (cx_task_id cx) {''authorized''} s"
  shows "run_ok (\<lambda>oc s'. obliged m (cx_task_id cx) s (if obl = ''require_owner_approval'' then Some obl else None) s' \<and>
      (obl = ''require_owner_approval'' \<longrightarrow> \<not> oo_satisfied oc \<and> oo_blocking oc))
    (\<lambda>_ _. False) (dispatch_obligation env obl cx s)"
proof -
  have "run_ok (\<lambda>oc s'. obliged m (cx_task_id cx) s (Some ''require_owner_approval'') s' \<and> \<not> oo_satisfied oc \<and> oo_blocking oc)
      (\<lambda>_ _. False) (handle_require_owner_approval cx s)"
    unfolding handle_require_owner_approval_def
    by (rule run_ok_and_then [OF set_status_moves [OF assms]]) (auto simp: obliged_def status_simps)
  moreover have "run_ok (\<lambda>oc s'. obliged m (cx_task_id cx) s None s') (\<lambda>_ _. False) (handle_emit_audit_event env cx s)"
    by (auto simp: handle_emit_audit_event_def audit_def obliged_def split: prod.splits sum.splits)
  moreover have "run_ok (\<lambda>oc s'. obliged m (cx_task_id cx) s None s') (\<lambda>_ _. False) (handle_reserve_budget env cx s)"
    using reserve_budget_frame [of env "cx_task_record cx" s]
    by (auto simp: handle_reserve_budget_def obliged_def case_prod_beta Let_def)
  moreover have "run_ok (\<lambda>oc s'. obliged m (cx_task_id cx) s None s') (\<lambda>_ _. False) (handle_enforce_sandbox_profile env cx s)"
    by (auto simp: handle_enforce_sandbox_profile_def obliged_def split: sum.splits)
  ultimately show ?thesis
    by (auto simp: dispatch_obligation_def obliged_def)
qed

lemma run_obligations_ok:
  assumes "task_in m (cx_task_id cx) {''authorized''} s"
  shows "run_ok (\<lambda>(ocs, b) s'. obliged m (cx_task_id cx) s b s' \<and> (b \<noteq> None \<longrightarrow> \<not> list_all oo_satisfied ocs))
    (\<lambda>_ _. False) (run_obligations env cx obls s)"
  using assms
proof (induction obls arbitrary: s)
  case Nil
  then show ?case by (simp add: obliged_def)
next
  case (Cons obl obls)
  show ?case
  proof (simp only: run_obligations.simps, rule run_ok_and_then [OF dispatch_obligation_ok [OF Cons.prems]], goal_cases)
    case (1 oc s1)
    show ?case
    proof (cases "\<not> oo_satisfied oc \<and> oo_blocking oc")
      case True
      with 1 show ?thesis by (auto simp: obliged_def split: if_splits)
    next
      case False
      with 1 have s1: "sv_repo s1 = sv_repo s" "services.more s1 = services.more s"
        by (auto simp: obliged_def split: if_splits)
      with Cons.prems have "task_in m (cx_task_id cx) {''authorized''} s1" by (simp add: task_in_def)
      from run_ok_and_then [OF Cons.IH [OF this]] False s1 show ?thesis
        by (force simp: obliged_def)
    qed
  qed
qed

lemma apply_obligations_ok:
  assumes "task_in m (cx_task_id cx) {''authorized''} s"
  shows "run_ok (\<lambda>r s'. obliged m (cx_task_id cx) s (or_blocking_obligation r) s' \<and>
      (or_blocking_obligation r \<noteq> None \<longrightarrow> \<not> or_all_satisfied r))
    (\<lambda>_ _. False) (apply_obligations env obls cx s)"
  unfolding apply_obligations_def
  by (rule run_ok_and_then [OF run_obligations_ok [OF assms]]) auto

lemma obligation_node_ok:
  fixes s :: "('c, 'z) orchestrator_scheme"
  assumes "task_in m (wt_task_id st) {''authorized''} s" "ls_hop_count (ts_loop s) < hop_limit" "wt_final_state st = ''authorized''"
  shows "run_ok (\<lambda>st' s'. wt_task_id st' = wt_task_id st \<and> hopped s s' \<and>
       (\<not> wt_obligation_satisfied st' \<and> wt_final_state st' = ''blocked'' \<and> task_in m (wt_task_id st) {''authorized'', ''blocked''} s' \<or>
        wt_obligation_satisfied st' \<and> wt_final_state st' = ''authorized'' \<and> task_in m (wt_task_id st) {''authorized''} s'))
     (\<lambda>_ _. False) (obligation_check_node env st s)"
proof -
  let ?i = "wt_task_id st"
  define s1 where "s1 = s\<lparr>ts_loop := (ts_loop s)\<lparr>ls_hop_count := ls_hop_count (ts_loop s) + 1\<rparr>\<rparr>"
  have in1: "task_in m ?i {''authorized''} s1" using assms(1) by (simp add: s1_def task_in_def)
  obtain t where t: "get_task_by_id (sv_repo s1) ?i = Some t" using task_in_stored [OF in1] by blast
  obtain po s2 where p: "ask_policy env (normalize_policy_input t) s1 = (po, s2)"
    by (cases "ask_policy env (normalize_policy_input t) s1")
  have in2: "task_in m ?i {''authorized''} s2" "services.more s2 = services.more s1" "sv_repo s2 = sv_repo s1"
    using p in1 by (auto simp: ask_policy_def task_in_def)
  have hops: "hopped s s'" if "services.more s' = services.more s1" for s'
    using that hopped_after [of s' s] by (simp add: s1_def)
  have i: "cx_task_id (obligation_context_of st t) = ?i" by (simp add: obligation_context_of_def)
  have either: "task_in m ?i {''authorized'', ''blocked''} s3"
    if "obliged m ?i s2 b s3" for b and s3 :: "('c, 'z) orchestrator_scheme"
    using that in2 by (auto simp: obliged_def task_in_def split: if_splits)
  have mv: "run_ok (\<lambda>_ s'. task_in m ?i {''blocked''} s' \<and> services.more s' = services.more s3) (\<lambda>_ _. False)
      (set_status ?i ''blocked'' u s3)" if "obliged m ?i s2 b s3" for b u and s3 :: "('c, 'z) orchestrator_scheme"
    by (rule set_status_moves [OF either [OF that]]) (auto simp: status_simps)
  have same: "task_in m ?i {''authorized''} s3" if "obliged m ?i s2 b s3" "\<not> truthy b"
    for b and s3 :: "('c, 'z) orchestrator_scheme"
    using that in2(1) by (cases "b = Some ''require_owner_approval''") (auto simp: obliged_def task_in_def truthy_def)
  have obliged: "run_ok (\<lambda>r s'. obliged m ?i s2 (or_blocking_obligation r) s' \<and>
      (or_blocking_obligation r \<noteq> None \<longrightarrow> \<not> or_all_satisfied r)) (\<lambda>_ _. False)
      (apply_obligations env obls (obligation_context_of st t) s2)" for obls
    using apply_obligations_ok [of m "obligation_context_of st t" s2 env obls] in2(1) by (simp add: i)
  show ?thesis
  proof (cases "or_str (wt_policy_decision st) ''allow'' = ''allow_with_obligations''")
    case False
    then show ?thesis
      using in1 hops [of s1] assms(3) by (simp add: obligation_check_node_def hop_ok [OF assms(2)] s1_def [symmetric] t)
  next
    case True
    show ?thesis
    proof (cases "pf_policy_result po")
      case None
      with True in2 hops [of s2] show ?thesis
        by (auto simp: obligation_check_node_def hop_ok [OF assms(2)] s1_def [symmetric] t p intro: task_in_mono)
    next
      case (Some res)
      note unfold = obligation_check_node_def hop_ok [OF assms(2)] s1_def [symmetric] and_then_simps t option.case p Let_def prod.case
      show ?thesis
        unfolding unfold Some if_not_P [OF True [THEN not_not [THEN iffD2]]]
      proof (rule run_ok_and_then [OF obliged], goal_cases)
        case (1 r s3)
        then have s3: "obliged m ?i s2 (or_blocking_obligation r) s3" "services.more s3 = services.more s1"
          using in2(2) by (auto simp: obliged_def)
        show ?case
        proof (cases "truthy (or_blocking_obligation r)")
          case True
          with 1 have "\<not> or_all_satisfied r" by (auto simp: truthy_def)
          with True s3 show ?thesis
            by (simp add: conclude_obligations_def Let_def, intro run_ok_and_then [OF mv [OF s3(1)]]) (auto intro: hops task_in_mono)
        next
          case False
          with same [OF s3(1)] hops [OF s3(2)] assms(3) show ?thesis by (simp add: conclude_obligations_def)
        qed
      qed
    qed
  qed
qed

subsection \<open>The dispatch node\<close>

text \<open>The life-cycle marks are legal on an authorised task.\<close>

lemma on_repo_update_ok:
  assumes "task_in m i {''authorized''} s" "status \<in> {''dispatched'', ''blocked'', ''failed''}"
  shows "run_ok (\<lambda>_ s'. task_in m i {status} s') (\<lambda>_ _. False) (on_repo (\<lambda>repo. update_task_status repo i status u) s)"
proof -
  have st: "status_of (sv_repo s) = m(i \<mapsto> ''authorized'')" using assms(1) by (simp add: task_in_def)
  have move: "may_move ''authorized'' status" using assms(2) by (auto simp: status_simps)
  obtain r where r: "fst (update_task_status (sv_repo s) i status u) = Inr r"
    using update_result [of "sv_repo s" i _ status u, OF _ move] st by auto
  have "status_of (snd (update_task_status (sv_repo s) i status u)) = m(i \<mapsto> status)"
    using st move by (simp add: status_of_update abs_update_def)
  with r show ?thesis by (auto simp: on_repo_def task_in_def split: prod.splits)
qed

lemma conclude_ok:
  assumes "task_in m (tk_task_id t) {''authorized''} s"
  shows "run_ok (\<lambda>_ _. True) E (conclude_accepted t target src did msg dl meta s)"
    and "run_ok (\<lambda>_ _. True) E (conclude_blocked t target src code msg rt dl meta s)"
  unfolding conclude_accepted_def conclude_blocked_def mark_dispatched_def mark_blocked_dispatch_def
  by (rule run_ok_and_then, rule run_ok_mono [OF on_repo_update_ok [OF assms]], auto simp: remember_def)+

lemma task_in_draw: "task_in m i A (snd (draw env s)) = task_in m i A s"
  by (simp add: draw_def task_in_def)

lemma specialist_raises:
  assumes "no_audit_breach env" "specialist_handle env q s = (Inl x, s')"
  shows "\<not> loop_breach x"
  using assms audit_raises [OF _ assms(1)]
  by (auto simp: specialist_handle_def and_then_def Let_def case_prod_beta split: if_splits option.splits sum.splits prod.splits)

lemma pair_check_fresh:
  assumes "ls_pair_rounds (ts_loop s) = []"
  shows "\<exists>s'. pair_check g a b s = (Inr (), s') \<and> sv_repo s' = sv_repo s"
  using assms by (auto simp: pair_check_def check_and_increment_pair_def pair_limit_def)

lemma dispatch_specialist_ok:
  assumes "no_audit_breach env" "task_in m (tk_task_id t) {''authorized''} s" "ls_pair_rounds (ts_loop s) = []"
  shows "run_ok (\<lambda>_ _. True) (raised_in m (tk_task_id t) graph_statuses) (dispatch_specialist env ax guarded t s)"
proof (cases "dx_specialist ax")
  case False
  have failed: "run_ok (\<lambda>_ s'. task_in m (tk_task_id t) {''failed''} s') (\<lambda>_ _. False)
     (on_repo (\<lambda>repo. mark_failed repo (tk_task_id t) c msg src) s)" for c msg src
    unfolding mark_failed_def by (rule on_repo_update_ok [OF assms(2)]) simp
  from False show ?thesis
    by (simp add: dispatch_specialist_def)
      (intro run_ok_and_then [OF run_ok_mono [OF failed]], auto simp: raised_in_def graph_statuses_def elim: task_in_mono)
next
  case True
  define q where "q = specialist_request_of t"
  obtain s1 where c: "pair_check (guarded \<and> sq_dispatch_source_role q = ''project_manager'') ''project_manager'' ''specialist'' s = (Inr (), s1)"
    and r1: "sv_repo s1 = sv_repo s"
    using pair_check_fresh [OF assms(3)] by blast
  obtain h s2 where h: "specialist_handle env q s1 = (h, s2)" by (cases "specialist_handle env q s1")
  have in2: "task_in m (tk_task_id t) {''authorized''} s2"
    using specialist_frame(1) [of env q s1] h r1 assms(2) by (simp add: task_in_def)
  have raised: "raised_in m (tk_task_id t) graph_statuses x s2" if "h = Inl x" for x
    using specialist_raises [OF assms(1)] h that in2 by (auto simp: raised_in_def graph_statuses_def elim: task_in_mono)
  have failed: "run_ok (\<lambda>_ s'. True) E (on_repo (\<lambda>repo. mark_failed repo (tk_task_id t) c msg src) s2)" for c msg src E
    unfolding mark_failed_def by (rule run_ok_mono [OF on_repo_update_ok [OF in2]]) simp_all
  show ?thesis
  proof (cases h)
    case (Inl x)
    with raised [OF Inl] True show ?thesis
      by (cases x) (auto simp: dispatch_specialist_def Let_def q_def [symmetric] c h remember_def intro!: run_ok_and_then [OF failed])
  next
    case (Inr r)
    with True in2 show ?thesis
      by (auto simp: dispatch_specialist_def Let_def q_def [symmetric] c h case_prod_beta task_in_draw intro!: conclude_ok)
  qed
qed

lemma dispatch_raised_ok:
  fixes s :: "('c, 'z) orchestrator_scheme"
  assumes "no_audit_breach env" "task_in m (tk_task_id t) {''authorized''} s" "ls_pair_rounds (ts_loop s) = []"
  shows "run_ok (\<lambda>_ _. True) (raised_in m (tk_task_id t) graph_statuses) (dispatch_admitted_task env ax pv ph rules guarded t s)"
proof -
  have "run_ok (\<lambda>_ _. True) E (dispatch_sandbox env ax t s)" "run_ok (\<lambda>_ _. True) E (dispatch_llm env ax pv ph rules t s)" for E
    using assms(2) by (auto simp: dispatch_sandbox_def dispatch_llm_def Let_def case_prod_beta task_in_draw
        intro!: conclude_ok split: sum.splits)
  moreover have "run_ok (\<lambda>_ _. True) E (dispatch_communication env ax t s)" for E
  proof -
    have "task_in m (tk_task_id t) {''authorized''} (snd (communication_dispatch (dx_fingerprint ax) env (dx_send ax) (dx_retry ax) q s))" for q
      using communication_frame [of "dx_fingerprint ax" env "dx_send ax" "dx_retry ax" q s] assms(2) by (simp add: task_in_def)
    then show ?thesis
      by (auto simp: dispatch_communication_def Let_def case_prod_beta task_in_draw intro!: conclude_ok [where m = m] split: sum.splits)
  qed
  ultimately show ?thesis
    using dispatch_specialist_ok [OF assms] dispatch_target_cases [of t]
    by (auto simp: dispatch_admitted_task_def Let_def split: option.splits)
qed

definition settled_statuses :: "string set" where
  "settled_statuses = {''authorized'', ''blocked'', ''dispatched'', ''failed''}"

text \<open>What a dispatch leaves: the status that belongs to the outcome, or a replayed outcome.\<close>

definition dispatched_as :: "(string \<rightharpoonup> string) \<Rightarrow> string \<Rightarrow> bool \<Rightarrow> bool \<Rightarrow> 'a services_scheme \<Rightarrow> bool" where
  "dispatched_as m i known accepted s =
     (if known then task_in m i {''authorized''} s
      else if accepted then task_in m i {''dispatched''} s else task_in m i {''blocked'', ''failed''} s)"

lemma dispatched_as_settled: "dispatched_as m i known accepted s \<Longrightarrow> task_in m i settled_statuses s"
  by (auto simp: dispatched_as_def settled_statuses_def elim!: task_in_mono split: if_splits)

lemma settled_in_graph: "task_in m i settled_statuses s \<Longrightarrow> task_in m i graph_statuses s"
  by (erule task_in_mono) (auto simp: settled_statuses_def graph_statuses_def)

lemma dispatch_task_ok:
  fixes s :: "('c, 'z) orchestrator_scheme"
  assumes "no_audit_breach env" "task_in m (tk_task_id t) {''authorized''} s" "ls_pair_rounds (ts_loop s) = []"
  shows "run_ok (\<lambda>oc s'. dispatched_as m (tk_task_id t) (map_of (ts_task_outcomes s) (tk_task_id t) \<noteq> None) (do_accepted oc) s')
     (raised_in m (tk_task_id t) graph_statuses) (dispatch_admitted_task env ax pv ph rules guarded t s)"
proof (cases "map_of (ts_task_outcomes s) (tk_task_id t)")
  case (Some oc)
  with assms(2) show ?thesis by (simp add: dispatch_admitted_task_def dispatched_as_def)
next
  case None
  have st: "status_of (sv_repo s) = m(tk_task_id t \<mapsto> ''authorized'')" using assms(2) by (simp add: task_in_def)
  obtain r s' where r: "dispatch_admitted_task env ax pv ph rules guarded t s = (r, s')"
    by (cases "dispatch_admitted_task env ax pv ph rules guarded t s")
  show ?thesis
  proof (cases r)
    case (Inl x)
    with dispatch_raised_ok [OF assms, of ax pv ph rules guarded] r show ?thesis by simp
  next
    case (Inr oc)
    with dispatch_ended [OF None, of env ax pv ph rules guarded] r obtain st' where
      st': "st' \<in> {''dispatched'', ''blocked'', ''failed''}" "do_accepted oc \<longleftrightarrow> st' = ''dispatched''"
        "status_of (sv_repo s') = abs_update (status_of (sv_repo s)) (tk_task_id t) st'"
      by (auto simp: ended_def)
    have "may_move ''authorized'' st'" using st'(1) by (auto simp: status_simps)
    then have "status_of (sv_repo s') = m(tk_task_id t \<mapsto> st')" using st st'(3) by (simp add: abs_update_def)
    with r Inr None st'(1,2) show ?thesis by (auto simp: dispatched_as_def task_in_def)
  qed
qed

lemma dispatch_node_ok:
  fixes s :: "('c, 'z) orchestrator_scheme"
  assumes "no_audit_breach env" "task_in m (wt_task_id st) {''authorized''} s" "ls_pair_rounds (ts_loop s) = []"
    "ls_hop_count (ts_loop s) < hop_limit"
  shows "run_ok (\<lambda>st' s'. wt_final_state st' = (if wt_dispatch_accepted st' then ''dispatched'' else ''blocked'') \<and>
       dispatched_as m (wt_task_id st) (map_of (ts_task_outcomes s) (wt_task_id st) \<noteq> None) (wt_dispatch_accepted st') s')
     (raised_in m (wt_task_id st) graph_statuses) (dispatch_node env ax st s)"
proof -
  let ?i = "wt_task_id st"
  define s1 where "s1 = s\<lparr>ts_loop := (ts_loop s)\<lparr>ls_hop_count := ls_hop_count (ts_loop s) + 1\<rparr>\<rparr>"
  have in1: "task_in m ?i {''authorized''} s1" "ls_pair_rounds (ts_loop s1) = []" "ts_task_outcomes s1 = ts_task_outcomes s"
    using assms(2,3) by (simp_all add: s1_def task_in_def)
  obtain t where t: "get_task_by_id (sv_repo s1) ?i = Some t" "tk_task_id t = ?i" using task_in_stored [OF in1(1)] by blast
  let ?known = "map_of (ts_task_outcomes s) ?i \<noteq> None"
  have aud: "run_ok (\<lambda>_ s'. dispatched_as m ?i ?known a s') (raised_in m ?i graph_statuses) (audit env c s2)"
    if "dispatched_as m ?i ?known a s2" for a c s2
    using audit_frame(1) [of env c s2] audit_raises [OF _ assms(1), of c s2] that
      settled_in_graph [OF dispatched_as_settled [OF that]]
    by (cases "audit env c s2"; cases "fst (audit env c s2)")
      (auto simp: raised_in_def dispatched_as_def task_in_def split: if_splits)
  have disp: "run_ok (\<lambda>oc s'. dispatched_as m ?i ?known (do_accepted oc) s') (raised_in m ?i graph_statuses)
      (dispatch_admitted_task env ax (wt_policy_version st) (wt_policy_hash st) (wt_rule_ids st) True t s1)"
    using dispatch_task_ok [OF assms(1), of m t s1] in1 t(2) by simp
  show ?thesis
    unfolding dispatch_node_def hop_ok [OF assms(4)] s1_def [symmetric] and_then_simps t(1) option.case emit_outcome_audit_def
  proof (rule run_ok_and_then [OF disp], goal_cases)
    case (1 oc s2)
    show ?case
    proof (cases "do_accepted oc")
      case True
      with 1 show ?thesis by (simp, intro run_ok_and_then [OF aud]) auto
    next
      case False
      with 1 show ?thesis by (simp, intro run_ok_and_then [OF aud]) auto
    qed
  qed
qed

subsection \<open>The graph and the worker\<close>

text \<open>
  How a graph run on a queued task ends: the final state is \<^verbatim>\<open>dispatched\<close> or
  \<^verbatim>\<open>blocked\<close> and the task left the queue; without a remembered outcome the task is dispatched
  exactly when the final state says so.
\<close>

definition graph_end :: "(string \<rightharpoonup> string) \<Rightarrow> string \<Rightarrow> bool \<Rightarrow> task_state \<Rightarrow> 'a services_scheme \<Rightarrow> bool" where
  "graph_end m i known st s =
     (task_in m i settled_statuses s \<and> wt_final_state st \<in> {''dispatched'', ''blocked''} \<and>
      (\<not> known \<longrightarrow> (if wt_final_state st = ''dispatched'' then task_in m i {''dispatched''} s
                        else task_in m i (settled_statuses - {''dispatched''}) s)))"

lemma graph_end_blocked:
  "wt_final_state st = ''blocked'' \<Longrightarrow> task_in m i {''authorized'', ''blocked''} s \<Longrightarrow> graph_end m i known st s"
  by (auto simp: graph_end_def settled_statuses_def elim: task_in_mono)

lemma graph_end_dispatch:
  "wt_final_state st = (if a then ''dispatched'' else ''blocked'') \<Longrightarrow> dispatched_as m i known a s \<Longrightarrow> graph_end m i known st s"
  using dispatched_as_settled [of m i known a s]
  by (auto simp: graph_end_def dispatched_as_def settled_statuses_def elim: task_in_mono split: if_splits)

lemma dispatch_node_end:
  fixes s :: "('c, 'z) orchestrator_scheme"
  assumes "no_audit_breach env" "task_in m (wt_task_id st) {''authorized''} s" "ls_pair_rounds (ts_loop s) = []"
    "ls_hop_count (ts_loop s) < hop_limit"
  shows "run_ok (\<lambda>st' s'. graph_end m (wt_task_id st) (map_of (ts_task_outcomes s) (wt_task_id st) \<noteq> None) st' s')
     (raised_in m (wt_task_id st) graph_statuses) (dispatch_node env ax st s)"
  by (rule run_ok_mono [OF dispatch_node_ok [OF assms]]) (auto intro: graph_end_dispatch)

lemma run_graph_ok:
  fixes s :: "('c, 'z) orchestrator_scheme"
  assumes "no_audit_breach env" "task_in m (wt_task_id st) {''queued''} s" "ts_loop s = fresh_loop_state"
  shows "run_ok (\<lambda>st' s'. graph_end m (wt_task_id st) (map_of (ts_task_outcomes s) (wt_task_id st) \<noteq> None) st' s')
    (raised_in m (wt_task_id st) graph_statuses) (run_graph env ax st s)"
proof -
  let ?i = "wt_task_id st"
  have loop: "ls_hop_count (ts_loop s) = 0" "ls_pair_rounds (ts_loop s) = []" using assms(3) by (simp_all add: fresh_loop_state_def)
  have lim: "ls_hop_count (ts_loop s) < hop_limit" using loop by (simp add: hop_limit_def)
  show ?thesis
    unfolding run_graph_def
  proof (rule run_ok_and_then [OF policy_node_ok [OF assms(1,2) lim]], goal_cases)
    case (1 st1 s1)
    then have i1: "wt_task_id st1 = ?i" and h1: "hopped s s1" by auto
    show ?case
    proof (cases "wt_final_state st1 = ''blocked''")
      case True
      with 1 show ?thesis by (auto simp: route_after_policy_def intro!: graph_end_blocked elim: task_in_mono)
    next
      case False
      with 1 have a1: "wt_final_state st1 = ''authorized''" "task_in m ?i {''authorized''} s1" by auto
      have lim1: "ls_hop_count (ts_loop s1) < hop_limit" using h1 loop by (simp add: hopped_def hop_limit_def)
      from a1(1) have on: "route_after_policy st1 \<noteq> ''__end__''" by (simp add: route_after_policy_def)
      show ?thesis
        unfolding if_not_P [OF on]
      proof (rule run_ok_and_then [OF run_ok_never_raises [OF obligation_node_ok [OF a1(2) [folded i1] lim1 a1(1)]]], goal_cases)
        case (1 st2 s2)
        then have s2: "wt_task_id st2 = ?i" "hopped s1 s2" unfolding i1 by auto
        show ?case
        proof (cases "wt_obligation_satisfied st2")
          case False
          with 1 i1 show ?thesis by (auto simp: route_after_obligation_def intro!: graph_end_blocked)
        next
          case True
          with 1 i1 have a2: "wt_final_state st2 = ''authorized''" "task_in m (wt_task_id st2) {''authorized''} s2" by auto
          have loop2: "ls_hop_count (ts_loop s2) < hop_limit" "ls_pair_rounds (ts_loop s2) = []"
            "ts_task_outcomes s2 = ts_task_outcomes s"
            using h1 s2(2) loop by (auto simp: hopped_def hop_limit_def)
          from True a2(1) have "route_after_obligation st2 \<noteq> ''__end__''" by (simp add: route_after_obligation_def)
          then show ?thesis
            using dispatch_node_end [OF assms(1) a2(2) loop2(2,1), of ax] s2(1) loop2(3) by simp
        qed
      qed
    qed
  qed
qed

lemma invoke_task_ok:
  fixes s :: "('c, 'z) orchestrator_scheme"
  assumes "no_audit_breach env" "task_in m (tk_task_id t) {''queued''} s"
  shows "\<exists>s'. invoke_task env ax t s = (Inr (), s') \<and> task_in m (tk_task_id t) settled_statuses s'"
proof -
  let ?i = "tk_task_id t"
  let ?s = "s\<lparr>ts_loop := fresh_loop_state\<rparr>"
  have "task_in m (wt_task_id (initial_task_state t)) {''queued''} ?s"
    using assms(2) by (simp add: task_in_def initial_task_state_def)
  note graph = run_graph_ok [OF assms(1) this, of ax]
  obtain r s1 where r: "run_graph env ax (initial_task_state t) ?s = (r, s1)"
    by (cases "run_graph env ax (initial_task_state t) ?s")
  have i: "wt_task_id (initial_task_state t) = ?i" by (simp add: initial_task_state_def)
  show ?thesis
  proof (cases r)
    case (Inr st')
    with graph r i show ?thesis by (auto simp: invoke_task_def graph_end_def)
  next
    case (Inl x)
    with graph r i have x: "task_in m ?i graph_statuses s1" "\<not> loop_breach x" by (auto simp: raised_in_def)
    have "run_ok (\<lambda>_ s'. task_in m ?i {''failed''} s') (\<lambda>_ _. False) (set_status ?i ''failed'' u s1)" for u
      by (rule run_ok_mono [OF set_status_moves [OF x(1)]]) (auto simp: graph_statuses_def status_simps)
    then have "run_ok (\<lambda>_ s'. task_in m ?i {''failed''} s') (\<lambda>_ _. False)
        (and_then (set_status ?i ''failed'' u s1) (\<lambda>_ s2. (Inr (), s2)))" for u
      by (rule run_ok_and_then) simp
    note failed = this [of "no_update\<lparr>up_outcome_source := Some ''orchestrator_worker'',
        up_outcome_error_code := Some ''worker_unhandled_exception'',
        up_outcome_message := Some ''unhandled exception during task graph invocation''\<rparr>"]
    have "invoke_task env ax t s = and_then (set_status ?i ''failed'' (no_update\<lparr>up_outcome_source := Some ''orchestrator_worker'',
        up_outcome_error_code := Some ''worker_unhandled_exception'',
        up_outcome_message := Some ''unhandled exception during task graph invocation''\<rparr>) s1) (\<lambda>_ s2. (Inr (), s2))"
      using x(2) Inl by (cases x) (simp_all add: invoke_task_def r)
    with failed show ?thesis
      by (auto simp: run_ok_def settled_statuses_def elim: task_in_mono split: prod.splits sum.splits)
  qed
qed

lemma invoke_all_ok:
  fixes s :: "('c, 'z) orchestrator_scheme"
  assumes "no_audit_breach env" "distinct (map tk_task_id ts)"
    and "\<And>t. t \<in> set ts \<Longrightarrow> status_of (sv_repo s) (tk_task_id t) = Some ''queued''"
  shows "\<exists>s'. invoke_all env ax ts s = (Inr (), s') \<and>
     (\<forall>j. if j \<in> tk_task_id ` set ts then status_of (sv_repo s') j \<in> Some ` settled_statuses
          else status_of (sv_repo s') j = status_of (sv_repo s) j)"
  using assms(2,3)
proof (induction ts arbitrary: s)
  case (Cons t ts)
  let ?m = "status_of (sv_repo s)"
  have "?m = ?m(tk_task_id t \<mapsto> ''queued'')" using Cons.prems(2) [of t] by (simp add: fun_upd_idem)
  then have "task_in ?m (tk_task_id t) {''queued''} s" by (simp add: task_in_def)
  from invoke_task_ok [OF assms(1) this, of ax] obtain s1 st where
    s1: "invoke_task env ax t s = (Inr (), s1)" "st \<in> settled_statuses" "status_of (sv_repo s1) = ?m(tk_task_id t \<mapsto> st)"
    by (auto simp: task_in_def)
  have "status_of (sv_repo s1) (tk_task_id t') = Some ''queued''" if "t' \<in> set ts" for t'
  proof -
    have "tk_task_id t' \<noteq> tk_task_id t" using Cons.prems(1) that by (auto simp: image_iff)
    then show ?thesis using Cons.prems(2) [of t'] that s1(3) by simp
  qed
  with Cons.IH [of s1] Cons.prems(1) obtain s' where
    rest: "invoke_all env ax ts s1 = (Inr (), s')"
    "\<And>j. if j \<in> tk_task_id ` set ts then status_of (sv_repo s') j \<in> Some ` settled_statuses
          else status_of (sv_repo s') j = status_of (sv_repo s1) j"
    by auto
  have "if j \<in> tk_task_id ` set (t # ts) then status_of (sv_repo s') j \<in> Some ` settled_statuses
      else status_of (sv_repo s') j = ?m j" for j
    using rest(2) [of j] s1(2,3) Cons.prems(1) by (cases "j = tk_task_id t") (auto split: if_splits)
  with s1(1) rest(1) show ?case by simp
qed simp

lemma queued_tasks_ids:
  assumes "repo_wf repo"
  shows "distinct (map tk_task_id (queued_tasks repo))"
    and "j \<in> tk_task_id ` set (queued_tasks repo) \<longleftrightarrow> status_of repo j = Some ''queued''"
proof -
  have d: "distinct (map tk_task_id repo)" using assms by (simp add: repo_wf_def)
  have ids: "map tk_task_id (list_tasks repo) = map tk_task_id (sort_key tk_created_at repo)"
    by (simp add: list_tasks_def)
  have "distinct (map tk_task_id (sort_key tk_created_at repo))"
    using d by (simp add: distinct_map inj_on_def)
  then show "distinct (map tk_task_id (queued_tasks repo))"
    unfolding queued_tasks_def ids [symmetric] by (rule distinct_map_filter)
  have find: "find_row repo (tk_task_id r) = Some r" if "r \<in> set repo" for r
    using that d unfolding find_row_def by (induction repo) auto
  have "set (queued_tasks repo) = task_from_row ` {r \<in> set repo. tk_status r = ''queued''}"
    by (auto simp: queued_tasks_def list_tasks_def)
  then have "j \<in> tk_task_id ` set (queued_tasks repo) \<longleftrightarrow> (\<exists>r \<in> set repo. tk_task_id r = j \<and> tk_status r = ''queued'')"
    by (auto simp: image_iff)
  also have "\<dots> \<longleftrightarrow> status_of repo j = Some ''queued''"
    using find find_row_id [of repo j] by (auto simp: status_of_alt)
  finally show "j \<in> tk_task_id ` set (queued_tasks repo) \<longleftrightarrow> status_of repo j = Some ''queued''" .
qed

end
