(* ===== verification/Orchestration.thy ===== *)
theory Orchestration
  imports Workflow
begin

text \<open>
  The properties of the orchestration graph and of the worker loop modelled in \<^verbatim>\<open>Workflow\<close>: what
  a drain leaves, how the graph's final state relates to the task table, and what the two questions
  to the policy server (one per node) have as consequence.
\<close>

section \<open>The two questions to the policy server\<close>

lemma normalize_set_row: "normalize_policy_input (task_from_row (set_row r status u)) = normalize_policy_input (task_from_row r)"
  by (simp add: normalize_policy_input_def task_from_row_def set_row_def)

lemma audit_faultless:
  assumes "en_audit_fault env = (\<lambda>_. None)"
  shows "run_ok (\<lambda>_ s'. \<exists>lg. s' = s\<lparr>sv_audit := lg\<rparr>) (\<lambda>_ _. False) (audit env c s)"
  using assms by (auto simp: audit_def write_event_def Let_def)

text \<open>The task as a state keeps it: stored with a status and with what the policy server is asked about.\<close>

definition stored_as :: "string \<Rightarrow> string \<Rightarrow> policy_input \<Rightarrow> 'a services_scheme \<Rightarrow> bool" where
  "stored_as i status p s =
     (\<exists>t. get_task_by_id (sv_repo s) i = Some t \<and> tk_status t = status \<and> normalize_policy_input t = p)"

definition same_but_tasks :: "'a services_scheme \<Rightarrow> 'a services_scheme \<Rightarrow> bool" where
  "same_but_tasks s s' = (services.more s' = services.more s \<and> sv_budget s' = sv_budget s \<and> sv_policy_calls s' = sv_policy_calls s)"

lemma set_status_stored:
  assumes "stored_as i status p s" "may_move status status'"
  shows "run_ok (\<lambda>_ s'. stored_as i status' p s' \<and> same_but_tasks s s' \<and>
      (\<forall>code. code \<noteq> [] \<longrightarrow> up_outcome_error_code u = Some code \<longrightarrow>
         (\<exists>t. get_task_by_id (sv_repo s') i = Some t \<and> tk_outcome_error_code t = Some code)))
    (\<lambda>_ _. False) (set_status i status' u s)"
proof -
  obtain r where r: "find_row (sv_repo s) i = Some r" "tk_status r = status" "normalize_policy_input (task_from_row r) = p"
    using assms(1) by (auto simp: stored_as_def get_task_by_id_def)
  have "fst (set_status i status' u s) = Inr (Some (task_from_row (set_row r status' u)))"
    "get_task_by_id (sv_repo (snd (set_status i status' u s))) i = Some (task_from_row (set_row r status' u))"
    using r assms(2) by (simp add: set_status_frame update_task_status_eq, simp add: set_status_frame get_after_update)
  moreover have "tk_outcome_error_code (task_from_row (set_row r status' u)) = Some code"
    if "code \<noteq> []" "up_outcome_error_code u = Some code" for code
    using that by (simp add: task_from_row_def set_row_def coalesce_def nonempty_opt_Some)
  ultimately show ?thesis
    using r(3) set_status_frame(1,3,7) [of i status' u s]
    by (cases "set_status i status' u s") (auto simp: stored_as_def same_but_tasks_def normalize_set_row)
qed

lemma policy_node_allows:
  fixes s :: "('c, 'z) orchestrator_scheme"
  assumes "en_audit_fault env = (\<lambda>_. None)" "stored_as (wt_task_id st) ''queued'' p s" "ls_hop_count (ts_loop s) < hop_limit"
    and "policy_guard (en_opa env) (sv_policy_calls s) p = po" "pf_policy_result po = Some res" "pf_allowed po"
  shows "run_ok (\<lambda>st1 s1. wt_task_id st1 = wt_task_id st \<and> wt_policy_decision st1 = Some (po_decision res) \<and>
       wt_final_state st1 = ''authorized'' \<and> hopped s s1 \<and> sv_budget s1 = sv_budget s \<and>
       sv_policy_calls s1 = Suc (sv_policy_calls s) \<and> stored_as (wt_task_id st) ''authorized'' p s1)
     (\<lambda>_ _. False) (policy_evaluation_node env st s)"
proof -
  let ?i = "wt_task_id st"
  define s1 where "s1 = s\<lparr>ts_loop := (ts_loop s)\<lparr>ls_hop_count := ls_hop_count (ts_loop s) + 1\<rparr>\<rparr>"
  define s2 where "s2 = s1\<lparr>sv_policy_calls := Suc (sv_policy_calls s1)\<rparr>"
  obtain t where t: "get_task_by_id (sv_repo s1) ?i = Some t" "normalize_policy_input t = p" "sv_policy_calls s1 = sv_policy_calls s"
    using assms(2) by (auto simp: s1_def stored_as_def)
  have st: "stored_as ?i ''queued'' p (s2\<lparr>sv_audit := lg\<rparr>)" for lg
    using assms(2) by (simp add: stored_as_def s2_def s1_def)
  have fin: "hopped s s'" "sv_budget s' = sv_budget s" "sv_policy_calls s' = Suc (sv_policy_calls s)"
    if "same_but_tasks (s2\<lparr>sv_audit := lg\<rparr>) s'" for lg s'
    using that hopped_after [of s' s, folded s1_def] by (auto simp: same_but_tasks_def s2_def s1_def)
  show ?thesis
    unfolding policy_evaluation_node_def hop_ok [OF assms(3)] s1_def [symmetric] and_then_simps t option.case ask_policy_def
      s2_def [symmetric] Let_def prod.case emit_stage_audit_def assms(4,5) if_not_P [OF assms(6) [THEN not_not [THEN iffD2]]]
  proof (rule run_ok_and_then [OF audit_faultless [OF assms(1)]], goal_cases)
    case (1 x s3)
    then obtain lg where s3: "s3 = s2\<lparr>sv_audit := lg\<rparr>" by (auto simp: s2_def t(3))
    show ?case
      unfolding s3 by (rule run_ok_and_then [OF set_status_stored [OF st]]) (auto simp: status_simps fin)
  qed
qed

text \<open>A refusing answer: only the task table, the audit trail and the counters change.\<close>

definition only_recorded :: "('c, 'z) orchestrator_scheme \<Rightarrow> ('c, 'z) orchestrator_scheme \<Rightarrow> bool" where
  "only_recorded s s' = (\<exists>repo lg n ls. s' = s\<lparr>sv_repo := repo, sv_audit := lg, sv_policy_calls := n, ts_loop := ls\<rparr>)"

lemma only_recorded_audit: "only_recorded s s1 \<Longrightarrow> only_recorded s (snd (audit env c s1))"
  and only_recorded_set_status: "only_recorded s s1 \<Longrightarrow> only_recorded s (snd (set_status i status u s1))"
proof -
  assume "only_recorded s s1"
  then obtain repo lg n ls where s1: "s1 = s\<lparr>sv_repo := repo, sv_audit := lg, sv_policy_calls := n, ts_loop := ls\<rparr>"
    by (auto simp: only_recorded_def)
  show "only_recorded s (snd (audit env c s1))"
    unfolding only_recorded_def
    by (rule exI [of _ repo], rule exI [of _ "snd (write_event (en_audit_fault env) c lg)"], rule exI [of _ n], rule exI [of _ ls])
      (simp add: s1 audit_def case_prod_beta)
  show "only_recorded s (snd (set_status i status u s1))"
    unfolding only_recorded_def
    by (rule exI [of _ "snd (update_task_status repo i status u)"], rule exI [of _ lg], rule exI [of _ n], rule exI [of _ ls])
      (simp add: s1 set_status_def case_prod_beta)
qed

lemma stored_as_repo: "stored_as i status p s \<Longrightarrow> sv_repo s' = sv_repo s \<Longrightarrow> stored_as i status p s'"
  by (simp add: stored_as_def)

definition refused_as :: "string \<Rightarrow> string \<Rightarrow> 'a services_scheme \<Rightarrow> bool" where
  "refused_as i code s =
     (\<exists>t. get_task_by_id (sv_repo s) i = Some t \<and> tk_status t = ''blocked'' \<and> tk_outcome_error_code t = Some code)"

lemma policy_node_refuses:
  fixes s :: "('c, 'z) orchestrator_scheme"
  assumes "stored_as (wt_task_id st) ''queued'' p s" "ls_hop_count (ts_loop s) < hop_limit"
    and "policy_guard (en_opa env) (sv_policy_calls s) p = po" "\<not> pf_allowed po"
  shows "run_ok (\<lambda>st1 s1. wt_final_state st1 = ''blocked'' \<and> wt_dispatch_accepted st1 = wt_dispatch_accepted st \<and> only_recorded s s1 \<and>
       refused_as (wt_task_id st) (or_str (pf_error_code po) ''policy_blocked'') s1)
     (\<lambda>_ s1. only_recorded s s1) (policy_evaluation_node env st s)"
proof -
  let ?i = "wt_task_id st" and ?code = "or_str (pf_error_code po) ''policy_blocked''"
  define s1 where "s1 = s\<lparr>ts_loop := (ts_loop s)\<lparr>ls_hop_count := ls_hop_count (ts_loop s) + 1\<rparr>\<rparr>"
  define s2 where "s2 = s1\<lparr>sv_policy_calls := Suc (sv_policy_calls s1)\<rparr>"
  obtain t where t: "get_task_by_id (sv_repo s1) ?i = Some t" "normalize_policy_input t = p" "sv_policy_calls s1 = sv_policy_calls s"
    using assms(1) by (auto simp: s1_def stored_as_def)
  have "s2 = s\<lparr>sv_repo := sv_repo s, sv_audit := sv_audit s, sv_policy_calls := Suc (sv_policy_calls s), ts_loop := ts_loop s1\<rparr>"
    by (simp add: s2_def s1_def)
  then have s2: "only_recorded s s2" unfolding only_recorded_def by blast
  have q2: "stored_as ?i ''queued'' p s2" using assms(1) by (simp add: s2_def s1_def stored_as_def)
  have aud: "run_ok (\<lambda>_ s'. only_recorded s s' \<and> sv_repo s' = sv_repo s3) (\<lambda>_ s'. only_recorded s s') (audit env c s3)"
    if "only_recorded s s3" for c s3
    using only_recorded_audit [OF that, of env c] audit_frame(1) [of env c s3]
    by (cases "audit env c s3"; cases "fst (audit env c s3)") auto
  have upd: "run_ok (\<lambda>_ s'. only_recorded s s' \<and> refused_as ?i ?code s') (\<lambda>_ s'. only_recorded s s') (set_status ?i ''blocked'' u s3)"
    if "only_recorded s s3" "stored_as ?i ''queued'' p s3" "up_outcome_error_code u = Some ?code" for u s3
  proof -
    have "?code \<noteq> []" by (simp add: or_str_def split: option.splits)
    with set_status_stored [OF that(2), of "''blocked''" u] that(3) only_recorded_set_status [OF that(1), of ?i "''blocked''" u]
    show ?thesis
      by (cases "set_status ?i ''blocked'' u s3"; cases "fst (set_status ?i ''blocked'' u s3)")
        (auto simp: status_simps stored_as_def refused_as_def)
  qed
  show ?thesis
    unfolding policy_evaluation_node_def hop_ok [OF assms(2)] s1_def [symmetric] and_then_simps t option.case ask_policy_def
      Let_def prod.case emit_stage_audit_def emit_outcome_audit_def assms(3) if_P [OF assms(4)]
    unfolding t(3) [symmetric] s2_def [symmetric]
  proof (rule run_ok_and_then [OF aud [OF s2]], goal_cases)
    case (1 x s3)
    then have s3: "only_recorded s s3" "stored_as ?i ''queued'' p s3" using q2 stored_as_repo by blast+
    show ?case
      by (rule run_ok_and_then [OF upd [OF s3]], simp, rule run_ok_and_then [OF aud]) (auto simp: refused_as_def)
  qed
qed

text \<open>The obligation node on the second answer.\<close>

lemma obligation_node_answer:
  fixes s :: "('c, 'z) orchestrator_scheme"
  assumes "stored_as (wt_task_id st) ''authorized'' p s" "ls_hop_count (ts_loop s) < hop_limit"
    and "wt_policy_decision st = Some ''allow_with_obligations''"
    and "policy_guard (en_opa env) (sv_policy_calls s) p = po"
  shows "\<exists>s2 t. hopped s s2 \<and> sv_repo s2 = sv_repo s \<and> sv_budget s2 = sv_budget s \<and> get_task_by_id (sv_repo s) (wt_task_id st) = Some t \<and>
     obligation_check_node env st s =
       (case pf_policy_result po of
          None \<Rightarrow> (Inr (st\<lparr>wt_obligation_satisfied := False, wt_blocking_obligation := Some ''policy_result_missing'',
                        wt_final_state := ''blocked''\<rparr>), s2)
        | Some res \<Rightarrow>
            and_then (apply_obligations env (po_obligations res) (obligation_context_of st t) s2) (conclude_obligations st))"
proof -
  define s1 where "s1 = s\<lparr>ts_loop := (ts_loop s)\<lparr>ls_hop_count := ls_hop_count (ts_loop s) + 1\<rparr>\<rparr>"
  obtain t where t: "get_task_by_id (sv_repo s1) (wt_task_id st) = Some t" "normalize_policy_input t = p"
      "sv_policy_calls s1 = sv_policy_calls s"
    using assms(1) by (auto simp: s1_def stored_as_def)
  have d: "\<not> or_str (wt_policy_decision st) ''allow'' \<noteq> ''allow_with_obligations''" by (simp add: assms(3) or_str_def)
  show ?thesis
    unfolding obligation_check_node_def hop_ok [OF assms(2)] s1_def [symmetric] and_then_simps t option.case ask_policy_def
      Let_def prod.case if_not_P [OF d] assms(4)
    by (rule exI [of _ "s1\<lparr>sv_policy_calls := Suc (sv_policy_calls s)\<rparr>"], rule exI [of _ t])
      (use t in \<open>simp add: s1_def hopped_def\<close>)
qed

text \<open>A first answer that allows with obligations.\<close>

lemma first_answer:
  fixes s :: "('c, 'z) orchestrator_scheme"
  assumes "en_audit_fault env = (\<lambda>_. None)"
    and "get_task_by_id (sv_repo s) (wt_task_id st) = Some t" and "tk_status t = ''queued''"
    and "ts_loop s = fresh_loop_state"
    and "en_opa env (sv_policy_calls s) (normalize_policy_input t) = OpaHttp 200 (BodyDocument doc)"
    and "od_decision doc = Some ''allow_with_obligations''"
  shows "\<exists>st1 s1. policy_evaluation_node env st s = (Inr st1, s1) \<and> wt_task_id st1 = wt_task_id st \<and>
      wt_policy_decision st1 = Some ''allow_with_obligations'' \<and> wt_final_state st1 = ''authorized'' \<and> hopped s s1 \<and>
      sv_budget s1 = sv_budget s \<and> sv_policy_calls s1 = Suc (sv_policy_calls s) \<and>
      stored_as (wt_task_id st) ''authorized'' (normalize_policy_input t) s1 \<and> ls_hop_count (ts_loop s1) < hop_limit"
proof -
  have st: "stored_as (wt_task_id st) ''queued'' (normalize_policy_input t) s" using assms(2,3) by (auto simp: stored_as_def)
  have loop: "ls_hop_count (ts_loop s) = 0" using assms(4) by (simp add: fresh_loop_state_def)
  have po: "policy_guard (en_opa env) (sv_policy_calls s) (normalize_policy_input t) =
      \<lparr>pf_allowed = True, pf_error_code = None, pf_message = ''policy allowed command'', pf_policy_result = Some (deserialize_result doc)\<rparr>"
    using assms(5,6) by (simp add: policy_guard_def policy_evaluate_def query_opa_def evaluate_with_fail_closed_def
        deserialize_result_def get_or_def)
  from policy_node_allows [OF assms(1) st _ po] loop assms(6) show ?thesis
    by (fastforce simp: hop_limit_def hopped_def run_ok_def deserialize_result_def get_or_def split: prod.splits sum.splits)
qed

lemma conclude_obligations_blocked:
  fixes s :: "('c, 'z) orchestrator_scheme"
  assumes "\<exists>t. get_task_by_id (sv_repo s) (wt_task_id st) = Some t \<and> tk_status t = ''blocked''"
    and "or_blocking_obligation ores = Some b" "b \<noteq> []" "\<not> or_all_satisfied ores"
  shows "\<exists>st' s'. conclude_obligations st ores s = (Inr st', s') \<and> wt_final_state st' = ''blocked'' \<and>
     \<not> wt_obligation_satisfied st' \<and> wt_blocking_obligation st' = Some b \<and> same_but_tasks s s' \<and> refused_as (wt_task_id st) b s'"
proof -
  obtain p where st: "stored_as (wt_task_id st) ''blocked'' p s" using assms(1) by (auto simp: stored_as_def)
  have "run_ok (\<lambda>st' s'. wt_final_state st' = ''blocked'' \<and> \<not> wt_obligation_satisfied st' \<and> wt_blocking_obligation st' = Some b \<and>
      same_but_tasks s s' \<and> refused_as (wt_task_id st) b s') (\<lambda>_ _. False) (conclude_obligations st ores s)"
    unfolding conclude_obligations_def Let_def using assms(2-4)
    by (simp add: truthy_def, intro run_ok_and_then [OF set_status_stored [OF st]])
      (auto simp: status_simps stored_as_def refused_as_def)
  then show ?thesis by (auto simp: run_ok_def split: prod.splits sum.splits)
qed

lemma second_answer_missing:
  fixes s :: "('c, 'z) orchestrator_scheme"
  assumes "en_audit_fault env = (\<lambda>_. None)"
    and "get_task_by_id (sv_repo s) (wt_task_id st) = Some t" and "tk_status t = ''queued''"
    and "ts_loop s = fresh_loop_state"
    and "en_opa env (sv_policy_calls s) (normalize_policy_input t) = OpaHttp 200 (BodyDocument doc)"
    and "od_decision doc = Some ''allow_with_obligations''"
    and "en_opa env (Suc (sv_policy_calls s)) (normalize_policy_input t) = OpaHttp 200 BodyNoObject"
  shows "\<exists>st' s'. run_graph env ax st s = (Inr st', s') \<and> wt_final_state st' = ''blocked'' \<and>
     wt_blocking_obligation st' = Some ''policy_result_missing'' \<and>
     status_of (sv_repo s') (wt_task_id st) = Some ''authorized'' \<and> ts_task_outcomes s' = ts_task_outcomes s"
proof -
  obtain st1 s1 where n1: "policy_evaluation_node env st s = (Inr st1, s1)" "wt_task_id st1 = wt_task_id st"
      "wt_policy_decision st1 = Some ''allow_with_obligations''" "wt_final_state st1 = ''authorized''" "hopped s s1"
      "sv_budget s1 = sv_budget s" "sv_policy_calls s1 = Suc (sv_policy_calls s)"
      "stored_as (wt_task_id st) ''authorized'' (normalize_policy_input t) s1" "ls_hop_count (ts_loop s1) < hop_limit"
    using first_answer [OF assms(1-6)] by blast
  have po: "pf_policy_result (policy_guard (en_opa env) (sv_policy_calls s1) (normalize_policy_input t)) = None"
    using assms(7) n1(7) by (simp add: policy_guard_def policy_evaluate_def query_opa_def evaluate_with_fail_closed_def)
  from obligation_node_answer [where env = env, OF n1(8) [folded n1(2)] n1(9,3) refl, unfolded po] obtain s2 where
    s2: "hopped s1 s2" "sv_repo s2 = sv_repo s1" "sv_budget s2 = sv_budget s1" and
    n2: "obligation_check_node env st1 s1 = (Inr (st1\<lparr>wt_obligation_satisfied := False,
        wt_blocking_obligation := Some ''policy_result_missing'', wt_final_state := ''blocked''\<rparr>), s2)"
    by auto
  then have "run_graph env ax st s = (Inr (st1\<lparr>wt_obligation_satisfied := False,
      wt_blocking_obligation := Some ''policy_result_missing'', wt_final_state := ''blocked''\<rparr>), s2)"
    using n1(1,4) by (simp add: run_graph_def route_after_policy_def route_after_obligation_def)
  moreover have "status_of (sv_repo s2) (wt_task_id st) = Some ''authorized''"
    using n1(8) s2(2) by (auto simp: stored_as_def status_of_def)
  ultimately show ?thesis using n1(5) s2(1) by (auto simp: hopped_def)
qed

section \<open>Properties\<close>

text \<open>
  C32: the worker empties the queue. Provided the statements on the task table are answered (a failure of
  \<^verbatim>\<open>list_tasks\<close> or \<^verbatim>\<open>update_task_status\<close> would leave the drain and is not modelled) and the audit store does
  not itself raise a loop-cap breach, a drain over a well-formed task table returns, with the number of
  queued tasks, whatever the policy server, the budget store, the audit store and the adapters do: no
  other exception leaves the loop.
  Afterwards no task that was queued is queued: each is authorised, blocked, dispatched or failed,
  and every other task keeps its status.
\<close>

theorem drain_empties_queue:
  assumes "repo_wf (sv_repo s)" and "no_audit_breach env"
  shows "\<exists>s'. drain_queued_tasks env ax s = (Inr (length (queued_tasks (sv_repo s))), s') \<and>
     (\<forall>j. if status_of (sv_repo s) j = Some ''queued''
          then status_of (sv_repo s') j \<in> Some ` {''authorized'', ''blocked'', ''dispatched'', ''failed''}
          else status_of (sv_repo s') j = status_of (sv_repo s) j)"
proof -
  have "status_of (sv_repo s) (tk_task_id t) = Some ''queued''" if "t \<in> set (queued_tasks (sv_repo s))" for t
    using that queued_tasks_ids(2) [OF assms(1), of "tk_task_id t"] by auto
  from invoke_all_ok [OF assms(2) queued_tasks_ids(1) [OF assms(1)] this, of ax] show ?thesis
    unfolding queued_tasks_ids(2) [OF assms(1)] settled_statuses_def by (auto simp: drain_queued_tasks_def simp del: image_insert)
qed

text \<open>
  The graph's final state agrees with the task table. A graph run on a queued task without a
  remembered outcome that returns ends in \<^verbatim>\<open>dispatched\<close> or \<^verbatim>\<open>blocked\<close>, and the task has
  status \<^verbatim>\<open>dispatched\<close> exactly in the first case; no other task's status changes.
\<close>

theorem graph_final_state_agrees:
  assumes "no_audit_breach env" and "status_of (sv_repo s) (wt_task_id st) = Some ''queued''"
    and "ts_loop s = fresh_loop_state" and "map_of (ts_task_outcomes s) (wt_task_id st) = None"
    and "run_graph env ax st s = (Inr st', s')"
  shows "wt_final_state st' \<in> {''dispatched'', ''blocked''} \<and>
     (wt_final_state st' = ''dispatched'' \<longleftrightarrow> status_of (sv_repo s') (wt_task_id st) = Some ''dispatched'') \<and>
     (\<forall>j. j \<noteq> wt_task_id st \<longrightarrow> status_of (sv_repo s') j = status_of (sv_repo s) j)"
proof -
  let ?m = "status_of (sv_repo s)"
  have "?m = ?m(wt_task_id st \<mapsto> ''queued'')" using assms(2) by (simp add: fun_upd_idem)
  then have "task_in ?m (wt_task_id st) {''queued''} s" by (simp add: task_in_def)
  from run_graph_ok [OF assms(1) this assms(3), of ax] assms(4,5)
  have fin: "graph_end ?m (wt_task_id st) False st' s'" by simp
  show ?thesis
  proof (cases "wt_final_state st' = ''dispatched''")
    case True
    with fin have "task_in ?m (wt_task_id st) {''dispatched''} s'" by (simp add: graph_end_def)
    from task_in_status [OF this] True show ?thesis by simp
  next
    case False
    with fin have e: "task_in ?m (wt_task_id st) (settled_statuses - {''dispatched''}) s'" "wt_final_state st' = ''blocked''"
      by (simp_all add: graph_end_def)
    from task_in_status [OF e(1)] e(2) show ?thesis by auto
  qed
qed

text \<open>
  C33: a command refused at the first question is not dispatched. When the guard does not let the queued
  task pass in the policy node, for whatever reason, then however the run ends, only the task table, the
  audit trail and the counters changed: no adapter was called, no budget reserved, no message sent. If
  the run returns, the task is blocked under the refusal's error code and the final state is
  \<^verbatim>\<open>blocked\<close>; if the audit write raises, the run raises too and the worker marks the task failed. A refusal
  at the second question is another matter (\<open>outage_drops_obligations\<close>).
\<close>

theorem refused_task_not_dispatched:
  assumes "get_task_by_id (sv_repo s) (wt_task_id st) = Some t" and "tk_status t = ''queued''"
    and "ts_loop s = fresh_loop_state"
    and "\<not> pf_allowed (policy_guard (en_opa env) (sv_policy_calls s) (normalize_policy_input t))"
    and "run_graph env ax st s = (r, s')"
  shows "(\<exists>repo lg n ls. s' = s\<lparr>sv_repo := repo, sv_audit := lg, sv_policy_calls := n, ts_loop := ls\<rparr>) \<and>
     (\<forall>st'. r = Inr st' \<longrightarrow> wt_final_state st' = ''blocked'' \<and> wt_dispatch_accepted st' = wt_dispatch_accepted st \<and>
        (\<exists>t'. get_task_by_id (sv_repo s') (wt_task_id st) = Some t' \<and> tk_status t' = ''blocked'' \<and>
           tk_outcome_error_code t' = Some (or_str
             (pf_error_code (policy_guard (en_opa env) (sv_policy_calls s) (normalize_policy_input t))) ''policy_blocked'')))"
proof -
  have st: "stored_as (wt_task_id st) ''queued'' (normalize_policy_input t) s" using assms(1,2) by (auto simp: stored_as_def)
  have lim: "ls_hop_count (ts_loop s) < hop_limit" using assms(3) by (simp add: fresh_loop_state_def hop_limit_def)
  obtain r1 s1 where r1: "policy_evaluation_node env st s = (r1, s1)" by (cases "policy_evaluation_node env st s")
  have "run_graph env ax st s = (r1, s1)"
    using policy_node_refuses [OF st lim refl assms(4)] r1
    by (cases r1) (auto simp: run_graph_def route_after_policy_def)
  then show ?thesis
    using policy_node_refuses [OF st lim refl assms(4)] r1 assms(5)
    by (cases r1) (auto simp: only_recorded_def refused_as_def)
qed

text \<open>
  A demanded approval keeps the task from being dispatched. When the policy server answers both
  questions with \<^verbatim>\<open>allow_with_obligations\<close> and demands owner approval, among whatever other
  obligations, the run returns with final state \<^verbatim>\<open>blocked\<close>, the task is blocked, nothing is
  dispatched and no budget is reserved. The stored error code is the name of the obligation: the
  node's update overwrites the handler's \<^verbatim>\<open>approval_required\<close>.
\<close>

theorem approval_keeps_from_dispatch:
  assumes "en_audit_fault env = (\<lambda>_. None)"
    and "get_task_by_id (sv_repo s) (wt_task_id st) = Some t" and "tk_status t = ''queued''"
    and "ts_loop s = fresh_loop_state"
    and "\<And>n. en_opa env n (normalize_policy_input t) = OpaHttp 200 (BodyDocument doc)"
    and "od_decision doc = Some ''allow_with_obligations''" and "od_obligations doc = Some obls"
    and "''require_owner_approval'' \<in> set obls"
  shows "\<exists>st' s'. run_graph env ax st s = (Inr st', s') \<and> wt_final_state st' = ''blocked'' \<and>
     wt_blocking_obligation st' = Some ''require_owner_approval'' \<and>
     (\<exists>t'. get_task_by_id (sv_repo s') (wt_task_id st) = Some t' \<and> tk_status t' = ''blocked'' \<and>
        tk_outcome_error_code t' = Some ''require_owner_approval'') \<and>
     ts_task_outcomes s' = ts_task_outcomes s \<and> sv_budget s' = sv_budget s"
proof -
  let ?i = "wt_task_id st" and ?p = "normalize_policy_input t"
  have po: "pf_policy_result (policy_guard (en_opa env) n ?p) = Some (deserialize_result doc)" for n
    using assms(5,6) by (simp add: policy_guard_def policy_evaluate_def query_opa_def evaluate_with_fail_closed_def
        deserialize_result_def get_or_def)
  obtain st1 s1 where n1: "policy_evaluation_node env st s = (Inr st1, s1)" "wt_task_id st1 = ?i"
      "wt_policy_decision st1 = Some ''allow_with_obligations''" "wt_final_state st1 = ''authorized''" "hopped s s1"
      "sv_budget s1 = sv_budget s" "stored_as ?i ''authorized'' ?p s1" "ls_hop_count (ts_loop s1) < hop_limit"
    using first_answer [OF assms(1-6)] by blast
  from obligation_node_answer [where env = env, OF n1(7) [folded n1(2)] n1(8,3) refl, unfolded po] obtain s2 t2 where
    s2: "hopped s1 s2" "sv_repo s2 = sv_repo s1" "sv_budget s2 = sv_budget s1" and
    t2: "get_task_by_id (sv_repo s1) ?i = Some t2" and
    n2: "obligation_check_node env st1 s1 = and_then (apply_obligations env obls (obligation_context_of st1 t2) s2) (conclude_obligations st1)"
    using assms(7) n1(2) by (auto simp: deserialize_result_def get_or_def)
  let ?cx = "obligation_context_of st1 t2"
  have in2: "status_of (sv_repo s2) (cx_task_id ?cx) = Some ''authorized''"
    using n1(2,7) s2(2) by (auto simp: obligation_context_of_def stored_as_def status_of_def)
  from owner_approval_blocks [OF assms(8) in2 authorized_moves(2), of env] obtain ores s3 where
    ores: "apply_obligations env obls ?cx s2 = (Inr ores, s3)" "or_blocking_obligation ores = Some ''require_owner_approval''"
      "\<not> or_all_satisfied ores" "sv_budget s3 = sv_budget s2" and
    b3: "\<exists>t. get_task_by_id (sv_repo s3) ?i = Some t \<and> tk_status t = ''blocked''"
    using n1(2) by (auto simp: obligation_context_of_def)
  have "task_in (status_of (sv_repo s2)) (cx_task_id ?cx) {''authorized''} s2" using in2 by (simp add: task_in_def fun_upd_idem)
  from apply_obligations_ok [OF this, of env obls] ores(1) have m3: "services.more s3 = services.more s2" by (simp add: obliged_def)
  obtain st' s' where n3: "conclude_obligations st1 ores s3 = (Inr st', s')" "wt_final_state st' = ''blocked''"
      "\<not> wt_obligation_satisfied st'" "wt_blocking_obligation st' = Some ''require_owner_approval''"
      "same_but_tasks s3 s'" "refused_as ?i ''require_owner_approval'' s'"
    using conclude_obligations_blocked [where st = st1 and ores = ores and s = s3] b3 ores(2,3) n1(2) by auto
  have "run_graph env ax st s = (Inr st', s')"
    using n1(1,4) n2 ores(1) n3(1,3) by (simp add: run_graph_def route_after_policy_def route_after_obligation_def)
  moreover have "ts_task_outcomes s' = ts_task_outcomes s" "sv_budget s' = sv_budget s"
    using n3(5) m3 s2 n1(5,6) ores(4) loop_of_more(2) [of s' s2] by (auto simp: same_but_tasks_def hopped_def)
  ultimately show ?thesis using n3(2,4,6) by (auto simp: refused_as_def)
qed

text \<open>
  An outage at the second question drops the obligations. The obligation node asks the policy
  server again and looks only at the obligations of the new answer, not at its decision. When the first
  answer was \<^verbatim>\<open>allow_with_obligations\<close> with any obligations, owner approval included, and the server
  is unreachable for the second question, the fail-closed denial has no obligations, and the run goes on
  to dispatch the authorised task with no obligation applied.
\<close>

theorem outage_drops_obligations:
  assumes "en_audit_fault env = (\<lambda>_. None)"
    and "get_task_by_id (sv_repo s) (wt_task_id st) = Some t" and "tk_status t = ''queued''"
    and "ts_loop s = fresh_loop_state"
    and "en_opa env (sv_policy_calls s) (normalize_policy_input t) = OpaHttp 200 (BodyDocument doc)"
    and "od_decision doc = Some ''allow_with_obligations''"
    and "en_opa env (Suc (sv_policy_calls s)) (normalize_policy_input t) = OpaTransportError x"
  shows "\<exists>st' s'. run_graph env ax st s = dispatch_node env ax st' s' \<and> wt_obligation_satisfied st' \<and>
     wt_task_id st' = wt_task_id st \<and> status_of (sv_repo s') (wt_task_id st) = Some ''authorized'' \<and>
     sv_budget s' = sv_budget s \<and> ts_task_outcomes s' = ts_task_outcomes s"
proof -
  obtain st1 s1 where n1: "policy_evaluation_node env st s = (Inr st1, s1)" "wt_task_id st1 = wt_task_id st"
      "wt_policy_decision st1 = Some ''allow_with_obligations''" "wt_final_state st1 = ''authorized''" "hopped s s1"
      "sv_budget s1 = sv_budget s" "sv_policy_calls s1 = Suc (sv_policy_calls s)"
      "stored_as (wt_task_id st) ''authorized'' (normalize_policy_input t) s1" "ls_hop_count (ts_loop s1) < hop_limit"
    using first_answer [OF assms(1-6)] by blast
  let ?denied = "policy_fail_closed_result (''OPA transport error: '' @ x)"
  have po: "pf_policy_result (policy_guard (en_opa env) (sv_policy_calls s1) (normalize_policy_input t)) = Some ?denied"
    using assms(7) n1(7) by (simp add: policy_guard_def policy_evaluate_def query_opa_def evaluate_with_fail_closed_def)
  have none: "po_obligations (policy_fail_closed_result m) = []" for m by (simp add: policy_fail_closed_result_def)
  from obligation_node_answer [where env = env, OF n1(8) [folded n1(2)] n1(9,3) refl, unfolded po] obtain s2 t2 where
    s2: "hopped s1 s2" "sv_repo s2 = sv_repo s1" "sv_budget s2 = sv_budget s1" and
    n2: "obligation_check_node env st1 s1 = and_then (apply_obligations env [] (obligation_context_of st1 t2) s2) (conclude_obligations st1)"
    by (auto simp: none)
  have "obligation_check_node env st1 s1 = (Inr (st1\<lparr>wt_obligation_satisfied := True, wt_blocking_obligation := None\<rparr>), s2)"
    by (simp add: n2 apply_obligations_def ordered_obligations_def conclude_obligations_def)
  then have "run_graph env ax st s = dispatch_node env ax (st1\<lparr>wt_obligation_satisfied := True, wt_blocking_obligation := None\<rparr>) s2"
    using n1(1,4) by (simp add: run_graph_def route_after_policy_def route_after_obligation_def)
  moreover have "status_of (sv_repo s2) (wt_task_id st) = Some ''authorized''"
    using n1(8) s2(2) by (auto simp: stored_as_def status_of_def)
  ultimately show ?thesis
    using n1(2,5,6) s2
    by (intro exI [of _ "st1\<lparr>wt_obligation_satisfied := True, wt_blocking_obligation := None\<rparr>"] exI [of _ s2]) (simp add: hopped_def)
qed

text \<open>
  An unreadable second answer strands the task. When the second answer is not an object, the guard
  has no policy result; the node ends the run with final state \<^verbatim>\<open>blocked\<close> but does not write that
  status: the task stays \<^verbatim>\<open>authorized\<close>, is not dispatched, and no later drain picks it up.
\<close>

theorem missing_result_strands_task:
  assumes "en_audit_fault env = (\<lambda>_. None)"
    and "get_task_by_id (sv_repo s) (wt_task_id st) = Some t" and "tk_status t = ''queued''"
    and "ts_loop s = fresh_loop_state"
    and "en_opa env (sv_policy_calls s) (normalize_policy_input t) = OpaHttp 200 (BodyDocument doc)"
    and "od_decision doc = Some ''allow_with_obligations''"
    and "en_opa env (Suc (sv_policy_calls s)) (normalize_policy_input t) = OpaHttp 200 BodyNoObject"
  shows "\<exists>st' s'. run_graph env ax st s = (Inr st', s') \<and> wt_final_state st' = ''blocked'' \<and>
     wt_blocking_obligation st' = Some ''policy_result_missing'' \<and>
     status_of (sv_repo s') (wt_task_id st) = Some ''authorized'' \<and> ts_task_outcomes s' = ts_task_outcomes s"
  using assms by (rule second_answer_missing)

section \<open>Witnesses\<close>

text \<open>A policy server with a given list of answers; after them it is down.\<close>

definition demo_policy_env :: "opa_answer list \<Rightarrow> environment" where
  "demo_policy_env answers = (demo_gateway_env True)\<lparr>en_opa := (\<lambda>n _. if n < length answers then answers ! n else OpaTransportError ''down'')\<rparr>"

definition demo_document :: "string \<Rightarrow> string list \<Rightarrow> opa_document" where
  "demo_document decision obls = \<lparr>od_decision = Some decision, od_reason_code = None, od_reason_message = None,
     od_policy_version = Some ''v1'', od_policy_hash = Some ''h1'', od_rule_ids = Some [], od_obligations = Some obls\<rparr>"

definition demo_queued :: task_record where
  "demo_queued = new_task demo_envelope ''t-1'' 0"

abbreviation demo_start :: task_state where
  "demo_start \<equiv> initial_task_state demo_queued"

abbreviation demo_state :: "local_client orchestrator" where
  "demo_state \<equiv> demo_orchestrator [demo_queued]"

lemma demo_queued_simps [simp]: "tk_task_id demo_queued = ''t-1''" "tk_status demo_queued = ''queued''" "task_from_row demo_queued = demo_queued"
  by (simp_all add: demo_queued_def new_task_def task_from_row_def demo_envelope_def nonempty_opt_def truthy_def)

lemma demo_state_simps [simp]:
  "ts_loop demo_state = fresh_loop_state" "sv_policy_calls demo_state = 0"
  "get_task_by_id (sv_repo demo_state) ''t-1'' = Some demo_queued" "wt_task_id demo_start = ''t-1''"
  "status_of [demo_queued] ''t-1'' = Some ''queued''" "get_task_by_id [demo_queued] ''t-1'' = Some demo_queued"
  by (simp_all add: demo_orchestrator_def gateway.defs orchestrator.defs demo_gateway_def get_task_by_id_def find_row_def
      initial_task_state_def status_of_def)

lemma demo_policy_env_simps [simp]:
  "en_audit_fault (demo_policy_env answers) = (\<lambda>_. None)" "no_audit_breach (demo_policy_env answers)"
  "en_opa (demo_policy_env answers) n p = (if n < length answers then answers ! n else OpaTransportError ''down'')"
  by (simp_all add: demo_policy_env_def demo_gateway_env_def no_audit_breach_def)

lemma drain_empties_queue_witness:
  "\<exists>s'. drain_queued_tasks (demo_policy_env []) demo_adapters demo_state = (Inr 1, s') \<and>
     status_of (sv_repo s') ''t-1'' \<in> Some ` {''authorized'', ''blocked'', ''dispatched'', ''failed''}"
proof -
  have "repo_wf (sv_repo demo_state)" by (simp add: repo_wf_def known_statuses_def set_task_statuses)
  moreover have "length (queued_tasks (sv_repo demo_state)) = 1" by (simp add: queued_tasks_def list_tasks_def)
  ultimately show ?thesis
    using drain_empties_queue [of demo_state "demo_policy_env []" demo_adapters] by (metis demo_orchestrator_simps(1) demo_state_simps(5) demo_policy_env_simps(2))
qed

lemma refused_task_not_dispatched_witness:
  "\<exists>r s'. run_graph (demo_policy_env [OpaHttp 503 BodyEmpty]) demo_adapters demo_start demo_state = (r, s') \<and>
     (\<exists>repo lg n ls. s' = demo_state\<lparr>sv_repo := repo, sv_audit := lg, sv_policy_calls := n, ts_loop := ls\<rparr>)"
proof -
  let ?run = "run_graph (demo_policy_env [OpaHttp 503 BodyEmpty]) demo_adapters demo_start demo_state"
  have "\<not> pf_allowed (policy_guard (en_opa (demo_policy_env [OpaHttp 503 BodyEmpty])) 0 (normalize_policy_input demo_queued))"
    by (simp add: policy_guard_def policy_evaluate_def query_opa_def evaluate_with_fail_closed_def policy_fail_closed_result_def)
  then show ?thesis
    using refused_task_not_dispatched [of demo_state demo_start demo_queued "demo_policy_env [OpaHttp 503 BodyEmpty]" demo_adapters
        "fst ?run" "snd ?run"]
    by (cases ?run) simp
qed

lemma approval_keeps_from_dispatch_witness:
  "\<exists>st' s'. run_graph ((demo_policy_env [])\<lparr>en_opa := (\<lambda>_ _. OpaHttp 200 (BodyDocument
        (demo_document ''allow_with_obligations'' [''reserve_budget'', ''require_owner_approval''])))\<rparr>) demo_adapters demo_start demo_state =
      (Inr st', s') \<and> wt_final_state st' = ''blocked''"
  using approval_keeps_from_dispatch [of "(demo_policy_env [])\<lparr>en_opa := (\<lambda>_ _. OpaHttp 200 (BodyDocument
        (demo_document ''allow_with_obligations'' [''reserve_budget'', ''require_owner_approval''])))\<rparr>" demo_state demo_start demo_queued
      "demo_document ''allow_with_obligations'' [''reserve_budget'', ''require_owner_approval'']"
      "[''reserve_budget'', ''require_owner_approval'']" demo_adapters]
  by (auto simp: demo_document_def demo_policy_env_def demo_gateway_env_def)

abbreviation demo_approval :: opa_answer where
  "demo_approval \<equiv> OpaHttp 200 (BodyDocument (demo_document ''allow_with_obligations'' [''require_owner_approval'']))"

lemma demo_document_decision [simp]: "od_decision (demo_document d obls) = Some d"
  by (simp add: demo_document_def)

lemma outage_drops_obligations_witness:
  "\<exists>st' s'. run_graph (demo_policy_env [demo_approval]) demo_adapters demo_start demo_state =
       dispatch_node (demo_policy_env [demo_approval]) demo_adapters st' s' \<and> wt_obligation_satisfied st' \<and>
     status_of (sv_repo s') ''t-1'' = Some ''authorized''"
  using outage_drops_obligations [of "demo_policy_env [demo_approval]" demo_state demo_start demo_queued
      "demo_document ''allow_with_obligations'' [''require_owner_approval'']" "''down''" demo_adapters]
  by auto

lemma missing_result_strands_task_witness:
  "\<exists>st' s'. run_graph (demo_policy_env [demo_approval, OpaHttp 200 BodyNoObject]) demo_adapters demo_start demo_state = (Inr st', s') \<and>
     wt_final_state st' = ''blocked'' \<and> status_of (sv_repo s') ''t-1'' = Some ''authorized''"
  using missing_result_strands_task [of "demo_policy_env [demo_approval, OpaHttp 200 BodyNoObject]" demo_state demo_start demo_queued
      "demo_document ''allow_with_obligations'' [''require_owner_approval'']" demo_adapters]
  by auto

lemma graph_final_state_agrees_witness:
  "\<exists>st' s'. run_graph (demo_policy_env [demo_approval, OpaHttp 200 BodyNoObject]) demo_adapters demo_start demo_state = (Inr st', s') \<and>
     wt_final_state st' \<in> {''dispatched'', ''blocked''} \<and>
     (wt_final_state st' = ''dispatched'' \<longleftrightarrow> status_of (sv_repo s') ''t-1'' = Some ''dispatched'')"
proof -
  let ?env = "demo_policy_env [demo_approval, OpaHttp 200 BodyNoObject]"
  have "\<exists>st' s'. run_graph ?env demo_adapters demo_start demo_state = (Inr st', s')"
    using second_answer_missing [of ?env demo_state demo_start demo_queued
        "demo_document ''allow_with_obligations'' [''require_owner_approval'']" demo_adapters] by auto
  then obtain st' s' where run: "run_graph ?env demo_adapters demo_start demo_state = (Inr st', s')" by blast
  from graph_final_state_agrees [OF _ _ _ _ run] run show ?thesis by auto
qed

end
