(* ===== verification/Project_Documents.thy ===== *)
theory Project_Documents
  imports Task_State
begin

text \<open>
  Projects as the governance repository stores them.
  \<^item> \<^verbatim>\<open>data_access/repositories/governance.py\<close>: the records of a project;
  \<^item> \<^verbatim>\<open>data_access/repositories/postgres/project_repository.py\<close>: the writers and readers of the JSONB
    columns (\<^verbatim>\<open>_..._to_dict\<close>, \<^verbatim>\<open>_..._from_dict\<close>, \<^verbatim>\<open>_project_to_row\<close>, \<^verbatim>\<open>_project_from_row\<close>);
  \<^item> \<^verbatim>\<open>control_plane/governance/project_lifecycle.py\<close>: \<open>parse_project_status\<close>, which the reader calls.

  A JSON text is the value it denotes, and the ISO 8601 text of an instant is the constructor \<open>JIso\<close>
  with that instant. A field that has another type than the writers give it is outside the model: the
  readers return \<open>malformed\<close> for it, or skip it in a list of pairs or of texts, where the code would
  apply \<^verbatim>\<open>str\<close>. The two classes of approvals have the same fields and share one
  record.
\<close>

section \<open>JSON values\<close>

datatype json = JNull | JBool bool | JNum rat | JStr string | JIso time | JList "json list" | JObj "(string \<times> json) list"

type_synonym json_object = "(string \<times> json) list"

abbreviation malformed :: py_exn where
  "malformed \<equiv> OtherExn ''malformed document''"

abbreviation key_error :: py_exn where
  "key_error \<equiv> OtherExn ''KeyError''"

definition sum_bind :: "'e + 'a \<Rightarrow> ('a \<Rightarrow> 'e + 'b) \<Rightarrow> 'e + 'b" where
  "sum_bind r f = (case r of Inl e \<Rightarrow> Inl e | Inr x \<Rightarrow> f x)"

fun sum_list_map :: "('a \<Rightarrow> 'e + 'b) \<Rightarrow> 'a list \<Rightarrow> 'e + 'b list" where
  "sum_list_map f [] = Inr []"
| "sum_list_map f (x # xs) = sum_bind (f x) (\<lambda>y. sum_bind (sum_list_map f xs) (\<lambda>ys. Inr (y # ys)))"

text \<open>\<^verbatim>\<open>str(d[k])\<close>; \<^verbatim>\<open>str(d[k]) if d.get(k) else None\<close>; \<^verbatim>\<open>_dt_from_iso(d.get(k))\<close>; \<^verbatim>\<open>float(d.get(k, 0.0))\<close>.\<close>

definition fld_str :: "json_object \<Rightarrow> string \<Rightarrow> py_exn + string" where
  "fld_str d k = (case dict_get d k of None \<Rightarrow> Inl key_error | Some (JStr s) \<Rightarrow> Inr s | Some _ \<Rightarrow> Inl malformed)"

definition fld_opt_str :: "json_object \<Rightarrow> string \<Rightarrow> py_exn + string option" where
  "fld_opt_str d k =
     (case dict_get d k of None \<Rightarrow> Inr None | Some JNull \<Rightarrow> Inr None
      | Some (JStr s) \<Rightarrow> Inr (if s = [] then None else Some s) | Some _ \<Rightarrow> Inl malformed)"

definition fld_time :: "json_object \<Rightarrow> string \<Rightarrow> py_exn + time" where
  "fld_time d k = (case dict_get d k of Some (JIso t) \<Rightarrow> Inr t | _ \<Rightarrow> Inl malformed)"

definition fld_num :: "json_object \<Rightarrow> string \<Rightarrow> py_exn + rat" where
  "fld_num d k = (case dict_get d k of None \<Rightarrow> Inr 0 | Some (JNum x) \<Rightarrow> Inr x | Some _ \<Rightarrow> Inl malformed)"

text \<open>The pairs of a list: items that are not lists of length two are skipped; no list is the empty list.\<close>

fun pair_item :: "json \<Rightarrow> (string \<times> string) option" where
  "pair_item (JList [JStr a, JStr b]) = Some (a, b)"
| "pair_item _ = None"

fun pair_list :: "json \<Rightarrow> kvs" where
  "pair_list (JList xs) = List.map_filter pair_item xs"
| "pair_list _ = []"

definition fld_pairs :: "json_object \<Rightarrow> string \<Rightarrow> kvs" where
  "fld_pairs d k = (case dict_get d k of None \<Rightarrow> [] | Some v \<Rightarrow> pair_list v)"

definition json_pairs :: "kvs \<Rightarrow> json" where
  "json_pairs kv = JList (map (\<lambda>(a, b). JList [JStr a, JStr b]) kv)"

definition json_opt :: "string option \<Rightarrow> json" where
  "json_opt x = (case x of None \<Rightarrow> JNull | Some s \<Rightarrow> JStr s)"

fun str_items :: "json \<Rightarrow> string list" where
  "str_items (JList xs) = List.map_filter (\<lambda>x. case x of JStr s \<Rightarrow> Some s | _ \<Rightarrow> None) xs"
| "str_items _ = []"

section \<open>Project records\<close>

record transition_record =
  tr_project_id :: string
  tr_from_status :: string
  tr_to_status :: string
  tr_reason_code :: string
  tr_actor_role :: string
  tr_trace_id :: string
  tr_timestamp :: time
  tr_metadata :: kvs

record proposal_message =
  pm_message_id :: string
  pm_project_id :: string
  pm_actor_id :: string
  pm_actor_role :: string
  pm_content :: string
  pm_trace_id :: string
  pm_timestamp :: time

record approval_record =
  ap_approval_id :: string
  ap_project_id :: string
  ap_actor_id :: string
  ap_actor_role :: string
  ap_trace_id :: string
  ap_timestamp :: time

record completion_report =
  cp_report_id :: string
  cp_project_id :: string
  cp_actor_id :: string
  cp_actor_role :: string
  cp_summary :: string
  cp_metric_results :: kvs
  cp_trace_id :: string
  cp_storage_uri :: "string option"
  cp_content_hash :: "string option"
  cp_timestamp :: time

text \<open>The optional documents of an initialisation: charter, scope statement, budget plan, metric plan, workforce plan and execution plan; where each is stored, and its hash.\<close>

record initialization =
  in_objective :: string
  in_budget_currency_total :: rat
  in_budget_quota_total :: rat
  in_metric_plan :: kvs
  in_workforce_plan :: kvs
  in_actor_id :: string
  in_actor_role :: string
  in_trace_id :: string
  in_charter_uri :: "string option"
  in_charter_hash :: "string option"
  in_scope_uri :: "string option"
  in_scope_hash :: "string option"
  in_budget_plan_uri :: "string option"
  in_budget_plan_hash :: "string option"
  in_metric_plan_uri :: "string option"
  in_metric_plan_hash :: "string option"
  in_workforce_plan_uri :: "string option"
  in_workforce_plan_hash :: "string option"
  in_execution_plan_uri :: "string option"
  in_execution_plan_hash :: "string option"
  in_initialized_at :: time

record workforce_binding =
  wb_binding_id :: string
  wb_project_id :: string
  wb_role :: string
  wb_template_id :: string
  wb_llm_routing_profile :: string
  wb_system_prompt_hash :: string
  wb_mandatory_operations :: "string list"
  wb_binding_status :: string
  wb_actor_id :: string
  wb_actor_role :: string
  wb_trace_id :: string
  wb_created_at :: time

record project_record =
  pj_project_id :: string
  pj_name :: string
  pj_objective :: string
  pj_status :: string
  pj_created_at :: time
  pj_updated_at :: time
  pj_metadata :: kvs
  pj_transitions :: "transition_record list"
  pj_proposal_messages :: "proposal_message list"
  pj_proposal_approvals :: "approval_record list"
  pj_completion_report :: "completion_report option"
  pj_completion_approvals :: "approval_record list"
  pj_owner_notified_at :: "time option"
  pj_owner_notification_trace_id :: "string option"
  pj_initialization :: "initialization option"
  pj_workforce_bindings :: "workforce_binding list"

section \<open>Writers and readers of the JSON columns\<close>

definition transition_to_dict :: "transition_record \<Rightarrow> json_object" where
  "transition_to_dict t = [(''project_id'', JStr (tr_project_id t)), (''from_status'', JStr (tr_from_status t)),
     (''to_status'', JStr (tr_to_status t)), (''reason_code'', JStr (tr_reason_code t)), (''actor_role'', JStr (tr_actor_role t)),
     (''trace_id'', JStr (tr_trace_id t)), (''timestamp'', JIso (tr_timestamp t)), (''metadata'', json_pairs (tr_metadata t))]"

definition transition_from_dict :: "json_object \<Rightarrow> py_exn + transition_record" where
  "transition_from_dict d =
     sum_bind (fld_str d ''project_id'') (\<lambda>pid. sum_bind (fld_str d ''from_status'') (\<lambda>src.
     sum_bind (fld_str d ''to_status'') (\<lambda>dst. sum_bind (fld_str d ''reason_code'') (\<lambda>reason.
     sum_bind (fld_str d ''actor_role'') (\<lambda>role. sum_bind (fld_str d ''trace_id'') (\<lambda>trace.
     sum_bind (fld_time d ''timestamp'') (\<lambda>ts.
       Inr \<lparr>tr_project_id = pid, tr_from_status = src, tr_to_status = dst, tr_reason_code = reason, tr_actor_role = role,
            tr_trace_id = trace, tr_timestamp = ts, tr_metadata = fld_pairs d ''metadata''\<rparr>)))))))"

definition proposal_message_to_dict :: "proposal_message \<Rightarrow> json_object" where
  "proposal_message_to_dict m = [(''message_id'', JStr (pm_message_id m)), (''project_id'', JStr (pm_project_id m)),
     (''actor_id'', JStr (pm_actor_id m)), (''actor_role'', JStr (pm_actor_role m)), (''content'', JStr (pm_content m)),
     (''trace_id'', JStr (pm_trace_id m)), (''timestamp'', JIso (pm_timestamp m))]"

definition proposal_message_from_dict :: "json_object \<Rightarrow> py_exn + proposal_message" where
  "proposal_message_from_dict d =
     sum_bind (fld_str d ''message_id'') (\<lambda>mid. sum_bind (fld_str d ''project_id'') (\<lambda>pid.
     sum_bind (fld_str d ''actor_id'') (\<lambda>actor. sum_bind (fld_str d ''actor_role'') (\<lambda>role.
     sum_bind (fld_str d ''content'') (\<lambda>text. sum_bind (fld_str d ''trace_id'') (\<lambda>trace.
     sum_bind (fld_time d ''timestamp'') (\<lambda>ts.
       Inr \<lparr>pm_message_id = mid, pm_project_id = pid, pm_actor_id = actor, pm_actor_role = role, pm_content = text,
            pm_trace_id = trace, pm_timestamp = ts\<rparr>)))))))"

definition approval_to_dict :: "approval_record \<Rightarrow> json_object" where
  "approval_to_dict a = [(''approval_id'', JStr (ap_approval_id a)), (''project_id'', JStr (ap_project_id a)),
     (''actor_id'', JStr (ap_actor_id a)), (''actor_role'', JStr (ap_actor_role a)), (''trace_id'', JStr (ap_trace_id a)),
     (''timestamp'', JIso (ap_timestamp a))]"

definition approval_from_dict :: "json_object \<Rightarrow> py_exn + approval_record" where
  "approval_from_dict d =
     sum_bind (fld_str d ''approval_id'') (\<lambda>aid. sum_bind (fld_str d ''project_id'') (\<lambda>pid.
     sum_bind (fld_str d ''actor_id'') (\<lambda>actor. sum_bind (fld_str d ''actor_role'') (\<lambda>role.
     sum_bind (fld_str d ''trace_id'') (\<lambda>trace. sum_bind (fld_time d ''timestamp'') (\<lambda>ts.
       Inr \<lparr>ap_approval_id = aid, ap_project_id = pid, ap_actor_id = actor, ap_actor_role = role, ap_trace_id = trace,
            ap_timestamp = ts\<rparr>))))))"

definition completion_report_to_dict :: "completion_report \<Rightarrow> json_object" where
  "completion_report_to_dict r = [(''report_id'', JStr (cp_report_id r)), (''project_id'', JStr (cp_project_id r)),
     (''actor_id'', JStr (cp_actor_id r)), (''actor_role'', JStr (cp_actor_role r)), (''summary'', JStr (cp_summary r)),
     (''metric_results'', json_pairs (cp_metric_results r)), (''trace_id'', JStr (cp_trace_id r)),
     (''completion_report_storage_uri'', json_opt (cp_storage_uri r)),
     (''completion_report_content_hash'', json_opt (cp_content_hash r)), (''timestamp'', JIso (cp_timestamp r))]"

definition completion_report_from_dict :: "json_object \<Rightarrow> py_exn + completion_report" where
  "completion_report_from_dict d =
     sum_bind (fld_str d ''report_id'') (\<lambda>rid. sum_bind (fld_str d ''project_id'') (\<lambda>pid.
     sum_bind (fld_str d ''actor_id'') (\<lambda>actor. sum_bind (fld_str d ''actor_role'') (\<lambda>role.
     sum_bind (fld_str d ''summary'') (\<lambda>text. sum_bind (fld_str d ''trace_id'') (\<lambda>trace.
     sum_bind (fld_opt_str d ''completion_report_storage_uri'') (\<lambda>uri.
     sum_bind (fld_opt_str d ''completion_report_content_hash'') (\<lambda>hash.
     sum_bind (fld_time d ''timestamp'') (\<lambda>ts.
       Inr \<lparr>cp_report_id = rid, cp_project_id = pid, cp_actor_id = actor, cp_actor_role = role, cp_summary = text,
            cp_metric_results = fld_pairs d ''metric_results'', cp_trace_id = trace, cp_storage_uri = uri,
            cp_content_hash = hash, cp_timestamp = ts\<rparr>)))))))))"

definition initialization_to_dict :: "initialization \<Rightarrow> json_object" where
  "initialization_to_dict s = [(''objective'', JStr (in_objective s)),
     (''budget_currency_total'', JNum (in_budget_currency_total s)), (''budget_quota_total'', JNum (in_budget_quota_total s)),
     (''metric_plan'', json_pairs (in_metric_plan s)), (''workforce_plan'', json_pairs (in_workforce_plan s)),
     (''actor_id'', JStr (in_actor_id s)), (''actor_role'', JStr (in_actor_role s)), (''trace_id'', JStr (in_trace_id s)),
     (''charter_storage_uri'', json_opt (in_charter_uri s)), (''charter_content_hash'', json_opt (in_charter_hash s)),
     (''scope_statement_storage_uri'', json_opt (in_scope_uri s)), (''scope_statement_content_hash'', json_opt (in_scope_hash s)),
     (''budget_plan_storage_uri'', json_opt (in_budget_plan_uri s)), (''budget_plan_content_hash'', json_opt (in_budget_plan_hash s)),
     (''metric_plan_storage_uri'', json_opt (in_metric_plan_uri s)), (''metric_plan_content_hash'', json_opt (in_metric_plan_hash s)),
     (''workforce_plan_storage_uri'', json_opt (in_workforce_plan_uri s)),
     (''workforce_plan_content_hash'', json_opt (in_workforce_plan_hash s)),
     (''execution_plan_storage_uri'', json_opt (in_execution_plan_uri s)),
     (''execution_plan_content_hash'', json_opt (in_execution_plan_hash s)),
     (''initialized_at'', JIso (in_initialized_at s))]"

definition initialization_from_dict :: "json_object \<Rightarrow> py_exn + initialization" where
  "initialization_from_dict d =
     sum_bind (fld_str d ''objective'') (\<lambda>objective. sum_bind (fld_num d ''budget_currency_total'') (\<lambda>currency.
     sum_bind (fld_num d ''budget_quota_total'') (\<lambda>quota. sum_bind (fld_str d ''actor_id'') (\<lambda>actor.
     sum_bind (fld_str d ''actor_role'') (\<lambda>role. sum_bind (fld_str d ''trace_id'') (\<lambda>trace.
     sum_bind (fld_opt_str d ''charter_storage_uri'') (\<lambda>u1. sum_bind (fld_opt_str d ''charter_content_hash'') (\<lambda>h1.
     sum_bind (fld_opt_str d ''scope_statement_storage_uri'') (\<lambda>u2. sum_bind (fld_opt_str d ''scope_statement_content_hash'') (\<lambda>h2.
     sum_bind (fld_opt_str d ''budget_plan_storage_uri'') (\<lambda>u3. sum_bind (fld_opt_str d ''budget_plan_content_hash'') (\<lambda>h3.
     sum_bind (fld_opt_str d ''metric_plan_storage_uri'') (\<lambda>u4. sum_bind (fld_opt_str d ''metric_plan_content_hash'') (\<lambda>h4.
     sum_bind (fld_opt_str d ''workforce_plan_storage_uri'') (\<lambda>u5. sum_bind (fld_opt_str d ''workforce_plan_content_hash'') (\<lambda>h5.
     sum_bind (fld_opt_str d ''execution_plan_storage_uri'') (\<lambda>u6. sum_bind (fld_opt_str d ''execution_plan_content_hash'') (\<lambda>h6.
     sum_bind (fld_time d ''initialized_at'') (\<lambda>ts.
       Inr \<lparr>in_objective = objective, in_budget_currency_total = currency, in_budget_quota_total = quota,
            in_metric_plan = fld_pairs d ''metric_plan'', in_workforce_plan = fld_pairs d ''workforce_plan'',
            in_actor_id = actor, in_actor_role = role, in_trace_id = trace,
            in_charter_uri = u1, in_charter_hash = h1, in_scope_uri = u2, in_scope_hash = h2,
            in_budget_plan_uri = u3, in_budget_plan_hash = h3, in_metric_plan_uri = u4, in_metric_plan_hash = h4,
            in_workforce_plan_uri = u5, in_workforce_plan_hash = h5, in_execution_plan_uri = u6, in_execution_plan_hash = h6,
            in_initialized_at = ts\<rparr>)))))))))))))))))))"

definition workforce_binding_to_dict :: "workforce_binding \<Rightarrow> json_object" where
  "workforce_binding_to_dict b = [(''binding_id'', JStr (wb_binding_id b)), (''project_id'', JStr (wb_project_id b)),
     (''role'', JStr (wb_role b)), (''template_id'', JStr (wb_template_id b)),
     (''llm_routing_profile'', JStr (wb_llm_routing_profile b)), (''system_prompt_hash'', JStr (wb_system_prompt_hash b)),
     (''mandatory_operations'', JList (map JStr (wb_mandatory_operations b))), (''binding_status'', JStr (wb_binding_status b)),
     (''actor_id'', JStr (wb_actor_id b)), (''actor_role'', JStr (wb_actor_role b)), (''trace_id'', JStr (wb_trace_id b)),
     (''created_at'', JIso (wb_created_at b))]"

definition workforce_binding_from_dict :: "json_object \<Rightarrow> py_exn + workforce_binding" where
  "workforce_binding_from_dict d =
     sum_bind (fld_str d ''binding_id'') (\<lambda>bid. sum_bind (fld_str d ''project_id'') (\<lambda>pid.
     sum_bind (fld_str d ''role'') (\<lambda>role. sum_bind (fld_str d ''template_id'') (\<lambda>template.
     sum_bind (fld_str d ''llm_routing_profile'') (\<lambda>profile. sum_bind (fld_str d ''system_prompt_hash'') (\<lambda>hash.
     sum_bind (fld_str d ''binding_status'') (\<lambda>status. sum_bind (fld_str d ''actor_id'') (\<lambda>actor.
     sum_bind (fld_str d ''actor_role'') (\<lambda>arole. sum_bind (fld_str d ''trace_id'') (\<lambda>trace.
     sum_bind (fld_time d ''created_at'') (\<lambda>ts.
       Inr \<lparr>wb_binding_id = bid, wb_project_id = pid, wb_role = role, wb_template_id = template,
            wb_llm_routing_profile = profile, wb_system_prompt_hash = hash,
            wb_mandatory_operations = (case dict_get d ''mandatory_operations'' of None \<Rightarrow> [] | Some v \<Rightarrow> str_items v),
            wb_binding_status = status, wb_actor_id = actor, wb_actor_role = arole, wb_trace_id = trace,
            wb_created_at = ts\<rparr>)))))))))))"

section \<open>Rows\<close>

record project_row =
  rw_project_id :: string
  rw_name :: string
  rw_objective :: string
  rw_status :: string
  rw_metadata :: json
  rw_transitions :: json
  rw_proposal_messages :: json
  rw_proposal_approvals :: json
  rw_completion_report :: "json option"
  rw_completion_approvals :: json
  rw_owner_notified_at :: "time option"
  rw_owner_notification_trace_id :: "string option"
  rw_initialization :: "json option"
  rw_workforce_bindings :: json
  rw_created_at :: time
  rw_updated_at :: time

definition project_to_row :: "project_record \<Rightarrow> project_row" where
  "project_to_row p = \<lparr>rw_project_id = pj_project_id p, rw_name = pj_name p, rw_objective = pj_objective p,
     rw_status = pj_status p, rw_metadata = json_pairs (pj_metadata p),
     rw_transitions = JList (map (JObj \<circ> transition_to_dict) (pj_transitions p)),
     rw_proposal_messages = JList (map (JObj \<circ> proposal_message_to_dict) (pj_proposal_messages p)),
     rw_proposal_approvals = JList (map (JObj \<circ> approval_to_dict) (pj_proposal_approvals p)),
     rw_completion_report = map_option (JObj \<circ> completion_report_to_dict) (pj_completion_report p),
     rw_completion_approvals = JList (map (JObj \<circ> approval_to_dict) (pj_completion_approvals p)),
     rw_owner_notified_at = pj_owner_notified_at p,
     rw_owner_notification_trace_id = pj_owner_notification_trace_id p,
     rw_initialization = map_option (JObj \<circ> initialization_to_dict) (pj_initialization p),
     rw_workforce_bindings = JList (map (JObj \<circ> workforce_binding_to_dict) (pj_workforce_bindings p)),
     rw_created_at = pj_created_at p, rw_updated_at = pj_updated_at p\<rparr>"

definition project_status_values :: "string list" where
  "project_status_values = [''proposed'', ''approved'', ''active'', ''paused'', ''completed'', ''terminated'', ''archived'']"

definition parse_project_status :: "string \<Rightarrow> py_exn + string" where
  "parse_project_status value =
     (let normalized = py_lower (py_strip value)
      in if normalized \<notin> set project_status_values
         then Inl (CodedError ''project_invalid_status'' (''invalid project status: '' @ value))
         else Inr normalized)"

fun read_object :: "(json_object \<Rightarrow> py_exn + 'a) \<Rightarrow> json \<Rightarrow> py_exn + 'a" where
  "read_object f (JObj d) = f d"
| "read_object f _ = Inl malformed"

fun read_list :: "(json_object \<Rightarrow> py_exn + 'a) \<Rightarrow> json \<Rightarrow> py_exn + 'a list" where
  "read_list f (JList xs) = sum_list_map (read_object f) xs"
| "read_list f _ = Inr []"

text \<open>\<^verbatim>\<open>f(raw) if isinstance(raw, dict) else None\<close>.\<close>

fun read_option :: "(json_object \<Rightarrow> py_exn + 'a) \<Rightarrow> json option \<Rightarrow> py_exn + 'a option" where
  "read_option f (Some (JObj d)) = sum_bind (f d) (\<lambda>x. Inr (Some x))"
| "read_option f _ = Inr None"

definition project_from_row :: "project_row \<Rightarrow> py_exn + project_record" where
  "project_from_row row =
     sum_bind (parse_project_status (rw_status row)) (\<lambda>status.
     sum_bind (read_list transition_from_dict (rw_transitions row)) (\<lambda>transitions.
     sum_bind (read_list proposal_message_from_dict (rw_proposal_messages row)) (\<lambda>messages.
     sum_bind (read_list approval_from_dict (rw_proposal_approvals row)) (\<lambda>approvals.
     sum_bind (read_option completion_report_from_dict (rw_completion_report row)) (\<lambda>report.
     sum_bind (read_list approval_from_dict (rw_completion_approvals row)) (\<lambda>capprovals.
     sum_bind (read_option initialization_from_dict (rw_initialization row)) (\<lambda>init.
     sum_bind (read_list workforce_binding_from_dict (rw_workforce_bindings row)) (\<lambda>bindings.
       Inr \<lparr>pj_project_id = rw_project_id row, pj_name = rw_name row, pj_objective = rw_objective row, pj_status = status,
            pj_created_at = rw_created_at row, pj_updated_at = rw_updated_at row, pj_metadata = pair_list (rw_metadata row),
            pj_transitions = transitions, pj_proposal_messages = messages, pj_proposal_approvals = approvals,
            pj_completion_report = report, pj_completion_approvals = capprovals,
            pj_owner_notified_at = rw_owner_notified_at row,
            pj_owner_notification_trace_id = nonempty_opt (rw_owner_notification_trace_id row),
            pj_initialization = init, pj_workforce_bindings = bindings\<rparr>))))))))"

section \<open>Lemmas\<close>

lemma sum_bind_simps [simp]: "sum_bind (Inl e) f = Inl e" "sum_bind (Inr x) f = f x"
  by (simp_all add: sum_bind_def)

lemma sum_bind_Inr: "sum_bind r f = Inr y \<longleftrightarrow> (\<exists>x. r = Inr x \<and> f x = Inr y)"
  by (cases r) auto

lemma sum_list_map_all: "(\<And>x. x \<in> set xs \<Longrightarrow> f (g x) = Inr (h x)) \<Longrightarrow> sum_list_map f (map g xs) = Inr (map h xs)"
  by (induction xs) auto

lemma pair_list_json_pairs [simp]: "pair_list (json_pairs kv) = kv"
proof -
  have "List.map_filter pair_item (map (\<lambda>(a, b). JList [JStr a, JStr b]) kv) = kv"
    by (induction kv) (auto simp: List.map_filter_simps)
  then show ?thesis by (simp add: json_pairs_def)
qed

lemma str_items_map [simp]: "str_items (JList (map JStr xs)) = xs"
proof -
  have "List.map_filter (\<lambda>x. case x of JStr s \<Rightarrow> Some s | _ \<Rightarrow> None) (map JStr xs) = xs"
    by (induction xs) (auto simp: List.map_filter_simps)
  then show ?thesis by (simp add: str_items.simps(1))
qed

lemma opt_str_read: "(case json_opt x of JNull \<Rightarrow> Inr None | JStr s \<Rightarrow> Inr (if s = [] then None else Some s) | _ \<Rightarrow> Inl malformed) =
   Inr (nonempty_opt x)"
  by (auto simp: json_opt_def nonempty_opt_def truthy_def split: option.splits)

declare str_items.simps(1) [simp del] read_list.simps(1) [simp del]

lemmas field_defs = fld_str_def fld_opt_str_def fld_time_def fld_num_def fld_pairs_def dict_get_def

text \<open>Every writer is undone by its reader, up to optional texts that are empty.\<close>

definition canon_report :: "completion_report \<Rightarrow> completion_report" where
  "canon_report r = r\<lparr>cp_storage_uri := nonempty_opt (cp_storage_uri r), cp_content_hash := nonempty_opt (cp_content_hash r)\<rparr>"

definition init_texts :: "initialization \<Rightarrow> string option list" where
  "init_texts s = [in_charter_uri s, in_charter_hash s, in_scope_uri s, in_scope_hash s, in_budget_plan_uri s, in_budget_plan_hash s,
     in_metric_plan_uri s, in_metric_plan_hash s, in_workforce_plan_uri s, in_workforce_plan_hash s, in_execution_plan_uri s,
     in_execution_plan_hash s]"

definition canon_init :: "initialization \<Rightarrow> initialization" where
  "canon_init s = s\<lparr>in_charter_uri := nonempty_opt (in_charter_uri s), in_charter_hash := nonempty_opt (in_charter_hash s),
     in_scope_uri := nonempty_opt (in_scope_uri s), in_scope_hash := nonempty_opt (in_scope_hash s),
     in_budget_plan_uri := nonempty_opt (in_budget_plan_uri s), in_budget_plan_hash := nonempty_opt (in_budget_plan_hash s),
     in_metric_plan_uri := nonempty_opt (in_metric_plan_uri s), in_metric_plan_hash := nonempty_opt (in_metric_plan_hash s),
     in_workforce_plan_uri := nonempty_opt (in_workforce_plan_uri s), in_workforce_plan_hash := nonempty_opt (in_workforce_plan_hash s),
     in_execution_plan_uri := nonempty_opt (in_execution_plan_uri s), in_execution_plan_hash := nonempty_opt (in_execution_plan_hash s)\<rparr>"

lemma transition_roundtrip: "transition_from_dict (transition_to_dict t) = Inr t"
  by (simp add: transition_from_dict_def transition_to_dict_def field_defs)

lemma proposal_message_roundtrip: "proposal_message_from_dict (proposal_message_to_dict m) = Inr m"
  by (simp add: proposal_message_from_dict_def proposal_message_to_dict_def field_defs)

lemma approval_roundtrip: "approval_from_dict (approval_to_dict a) = Inr a"
  by (simp add: approval_from_dict_def approval_to_dict_def field_defs)

lemma completion_report_roundtrip: "completion_report_from_dict (completion_report_to_dict r) = Inr (canon_report r)"
  by (simp add: completion_report_from_dict_def completion_report_to_dict_def field_defs opt_str_read canon_report_def)

lemma initialization_roundtrip: "initialization_from_dict (initialization_to_dict s) = Inr (canon_init s)"
  by (simp add: initialization_from_dict_def initialization_to_dict_def field_defs opt_str_read canon_init_def)

lemma workforce_binding_roundtrip: "workforce_binding_from_dict (workforce_binding_to_dict b) = Inr b"
  by (simp add: workforce_binding_from_dict_def workforce_binding_to_dict_def field_defs)

lemma read_list_map:
  "(\<And>x. f (g x) = Inr x) \<Longrightarrow> read_list f (JList (map (JObj \<circ> g) xs)) = Inr xs"
  using sum_list_map_all [of xs "read_object f" "JObj \<circ> g" "\<lambda>x. x"] by (simp add: read_list.simps(1))

lemma read_option_map:
  "(\<And>x. f (g x) = Inr (h x)) \<Longrightarrow> read_option f (map_option (JObj \<circ> g) x) = Inr (map_option h x)"
  by (cases x) auto

definition canon_project :: "project_record \<Rightarrow> project_record" where
  "canon_project p = p\<lparr>pj_completion_report := map_option canon_report (pj_completion_report p),
     pj_owner_notification_trace_id := nonempty_opt (pj_owner_notification_trace_id p),
     pj_initialization := map_option canon_init (pj_initialization p)\<rparr>"

lemma project_read_back:
  "project_from_row (project_to_row p) =
     sum_bind (parse_project_status (pj_status p)) (\<lambda>st. Inr ((canon_project p)\<lparr>pj_status := st\<rparr>))"
  by (cases p) (simp add: project_from_row_def project_to_row_def read_list_map transition_roundtrip proposal_message_roundtrip
      approval_roundtrip workforce_binding_roundtrip read_option_map [where h = canon_report, OF completion_report_roundtrip]
      read_option_map [where h = canon_init, OF initialization_roundtrip] canon_project_def)

lemma project_from_row_id: "project_from_row r = Inr p \<Longrightarrow> pj_project_id p = rw_project_id r"
  unfolding project_from_row_def sum_bind_Inr by auto

lemma parse_project_status_id: "s \<in> set project_status_values \<Longrightarrow> parse_project_status s = Inr s"
  by (simp add: project_status_values_def parse_project_status_def, elim disjE)
    (simp_all add: Let_def, code_simp+)

lemma parse_project_status_Inr: "parse_project_status s = Inr t \<Longrightarrow> t \<in> set project_status_values"
  by (auto simp: parse_project_status_def Let_def split: if_splits)

lemma nonempty_opt_id: "(nonempty_opt x = x) = (x \<noteq> Some [])"
  by (auto simp: nonempty_opt_def truthy_def split: option.splits)

lemma canon_report_id: "(canon_report r = r) = (cp_storage_uri r \<noteq> Some [] \<and> cp_content_hash r \<noteq> Some [])"
  by (cases r) (simp add: canon_report_def nonempty_opt_id)

lemma canon_init_id: "(canon_init s = s) = list_all (\<lambda>x. x \<noteq> Some []) (init_texts s)"
  by (cases s) (simp add: canon_init_def init_texts_def nonempty_opt_id)

lemma canon_project_id:
  "(canon_project p = p) =
     (pred_option (\<lambda>r. canon_report r = r) (pj_completion_report p) \<and>
      pj_owner_notification_trace_id p \<noteq> Some [] \<and> pred_option (\<lambda>i. canon_init i = i) (pj_initialization p))"
  by (cases p; cases "pj_completion_report p"; cases "pj_initialization p") (auto simp: canon_project_def nonempty_opt_id)

section \<open>Properties\<close>

text \<open>
  C30: a stored project is read back as it was written. Writing a project into the columns of a row and
  reading the row returns the same project, with all its messages, approvals, transitions and bindings
  in order, exactly when its status is one of the seven of the life cycle and no optional text is the
  empty string (an empty one is read as absent).
\<close>

theorem project_row_roundtrip:
  "project_from_row (project_to_row p) = Inr p \<longleftrightarrow>
     pj_status p \<in> set project_status_values \<and> pj_owner_notification_trace_id p \<noteq> Some [] \<and>
     pred_option (\<lambda>r. cp_storage_uri r \<noteq> Some [] \<and> cp_content_hash r \<noteq> Some []) (pj_completion_report p) \<and>
     pred_option (\<lambda>i. list_all (\<lambda>x. x \<noteq> Some []) (init_texts i)) (pj_initialization p)"
proof -
  have "project_from_row (project_to_row p) = Inr p \<longleftrightarrow> pj_status p \<in> set project_status_values \<and> canon_project p = p"
  proof
    assume read: "project_from_row (project_to_row p) = Inr p"
    then obtain st where st: "parse_project_status (pj_status p) = Inr st" "(canon_project p)\<lparr>pj_status := st\<rparr> = p"
      by (auto simp: project_read_back sum_bind_def split: sum.splits)
    moreover have "pj_status ((canon_project p)\<lparr>pj_status := st\<rparr>) = st" "pj_status (canon_project p) = pj_status p"
      by (simp_all add: canon_project_def)
    ultimately have same: "pj_status p = st" by simp
    have "(canon_project p)\<lparr>pj_status := pj_status (canon_project p)\<rparr> = canon_project p" by simp
    with st(2) same have "canon_project p = p" by (simp add: canon_project_def)
    with parse_project_status_Inr [OF st(1)] same show "pj_status p \<in> set project_status_values \<and> canon_project p = p" by simp
  next
    assume "pj_status p \<in> set project_status_values \<and> canon_project p = p"
    then show "project_from_row (project_to_row p) = Inr p" by (simp add: project_read_back parse_project_status_id)
  qed
  then show ?thesis by (auto simp: canon_project_id canon_report_id canon_init_id)
qed

end
