(* ===== verification/Project_Governance.thy ===== *)
theory Project_Governance
  imports Project_Documents
begin

text \<open>
  Project governance.
  \<^item> \<^verbatim>\<open>control_plane/governance/project_lifecycle.py\<close>: \<open>project_transitions\<close>, \<open>assert_project_transition\<close>;
  \<^item> \<^verbatim>\<open>data_access/repositories/postgres/project_repository.py\<close>: the table of projects and every
    operation of \<^verbatim>\<open>PostgresProjectRepository\<close>;
  \<^item> \<^verbatim>\<open>control_plane/governance/project_manager_template.py\<close>: \<open>validate_project_manager_template\<close>;
  \<^item> \<^verbatim>\<open>control_plane/handlers/governance_handler.py\<close>: every handler.

  The repository's and the handlers' exception classes carry a code and a message and are both
  \<open>CodedError\<close>; a handler re-raises a repository error with the same code and message. The state holds
  the rows of \<^verbatim>\<open>projects\<close>, the charter files and the supply of identifiers and instants. SHA-256 is a
  parameter; mappings of objects are pairs of texts, as \<^verbatim>\<open>str\<close> makes them.
\<close>

section \<open>Life cycle\<close>

definition project_transitions :: "(string \<times> string list) list" where
  "project_transitions = [
     (''proposed'', [''proposed'', ''approved'']),
     (''approved'', [''active'']),
     (''active'', [''paused'', ''completed'', ''terminated'']),
     (''paused'', [''active'', ''terminated'']),
     (''completed'', [''archived'']),
     (''terminated'', [''archived'']),
     (''archived'', [])]"

definition project_step :: "string \<Rightarrow> string \<Rightarrow> bool" where
  "project_step s t = (t \<in> set (case map_of project_transitions s of None \<Rightarrow> [] | Some ts \<Rightarrow> ts))"

definition allowed_project_status_transitions :: "string \<Rightarrow> py_exn + string list" where
  "allowed_project_status_transitions current =
     sum_bind (parse_project_status current) (\<lambda>c. Inr (sort (case map_of project_transitions c of None \<Rightarrow> [] | Some ts \<Rightarrow> ts)))"

definition assert_project_transition :: "string \<Rightarrow> string \<Rightarrow> py_exn + string" where
  "assert_project_transition current_status next_status =
     sum_bind (parse_project_status current_status) (\<lambda>current.
     sum_bind (parse_project_status next_status) (\<lambda>next_value.
       if project_step current next_value then Inr next_value
       else Inl (CodedError ''project_invalid_transition''
              (''invalid project transition: '' @ current @ '' -> '' @ next_value))))"

definition is_terminal_project_status :: "string \<Rightarrow> py_exn + bool" where
  "is_terminal_project_status status = sum_bind (parse_project_status status) (\<lambda>s. Inr (s = ''archived''))"

section \<open>The repository\<close>

record governance =
  gv_projects :: "project_row list"
  gv_charters :: "(string \<times> json_object) list"
  gv_runtime :: py_runtime

definition gov_now :: "governance \<Rightarrow> time \<times> governance" where
  "gov_now s = (case now_utc (gv_runtime s) of (t, rt) \<Rightarrow> (t, s\<lparr>gv_runtime := rt\<rparr>))"

definition gov_uuid :: "governance \<Rightarrow> string \<times> governance" where
  "gov_uuid s = (case uuid4 (gv_runtime s) of (u, rt) \<Rightarrow> (u, s\<lparr>gv_runtime := rt\<rparr>))"

definition find_project :: "governance \<Rightarrow> string \<Rightarrow> project_row option" where
  "find_project s project_id = find (\<lambda>r. rw_project_id r = project_id) (gv_projects s)"

definition get_project :: "governance \<Rightarrow> string \<Rightarrow> py_exn + project_record option" where
  "get_project s project_id =
     (case find_project s project_id of None \<Rightarrow> Inr None
      | Some row \<Rightarrow> sum_bind (project_from_row row) (\<lambda>p. Inr (Some p)))"

text \<open>\<^verbatim>\<open>ORDER BY created_at ASC, project_id ASC\<close>.\<close>

definition list_projects :: "governance \<Rightarrow> py_exn + project_record list" where
  "list_projects s = sum_list_map project_from_row (sort_key (\<lambda>r. (rw_created_at r, rw_project_id r)) (gv_projects s))"

text \<open>\<^verbatim>\<open>INSERT ... ON CONFLICT (project_id) DO UPDATE\<close>: every column but \<^verbatim>\<open>created_at\<close> is replaced.\<close>

definition upsert_project :: "project_record \<Rightarrow> governance \<Rightarrow> governance" where
  "upsert_project p s =
     (let row = project_to_row p
      in s\<lparr>gv_projects :=
           (if find_project s (pj_project_id p) = None then gv_projects s @ [row]
            else map (\<lambda>r. if rw_project_id r = pj_project_id p then row\<lparr>rw_created_at := rw_created_at r\<rparr> else r) (gv_projects s))\<rparr>)"

definition require_project :: "string \<Rightarrow> governance \<Rightarrow> (py_exn, project_record, governance) run" where
  "require_project project_id s =
     (case get_project s project_id of
        Inl e \<Rightarrow> (Inl e, s)
      | Inr None \<Rightarrow> (Inl (CodedError ''governance_project_missing'' (''project not found: '' @ project_id)), s)
      | Inr (Some p) \<Rightarrow> (Inr p, s))"

definition sorted_pairs :: "kvs option \<Rightarrow> kvs" where
  "sorted_pairs metadata = (case metadata of None \<Rightarrow> [] | Some kv \<Rightarrow> sort kv)"

definition create_project ::
  "string \<Rightarrow> string \<Rightarrow> string option \<Rightarrow> string \<Rightarrow> kvs option \<Rightarrow> governance \<Rightarrow> (py_exn, project_record, governance) run" where
  "create_project name objective project_id status metadata s =
     (case parse_project_status status of
        Inl e \<Rightarrow> (Inl e, s)
      | Inr normalized \<Rightarrow>
          if normalized \<noteq> ''proposed''
          then (Inl (CodedError ''governance_project_invalid_create_state'' ''project creation state must be proposed''), s)
          else let (candidate, s1) = (if truthy project_id then (or_str project_id [], s) else gov_uuid s)
               in case get_project s1 candidate of
                    Inl e \<Rightarrow> (Inl e, s1)
                  | Inr (Some _) \<Rightarrow> (Inl (CodedError ''governance_project_exists'' (''project already exists: '' @ candidate)), s1)
                  | Inr None \<Rightarrow>
                      (let (now, s2) = gov_now s1;
                           p = \<lparr>pj_project_id = candidate, pj_name = py_strip name, pj_objective = py_strip objective,
                                pj_status = normalized, pj_created_at = now, pj_updated_at = now,
                                pj_metadata = sorted_pairs metadata, pj_transitions = [], pj_proposal_messages = [],
                                pj_proposal_approvals = [], pj_completion_report = None, pj_completion_approvals = [],
                                pj_owner_notified_at = None, pj_owner_notification_trace_id = None,
                                pj_initialization = None, pj_workforce_bindings = []\<rparr>
                       in (Inr p, upsert_project p s2)))"

definition approval_roles :: "approval_record list \<Rightarrow> string list" where
  "approval_roles as = py_sorted_set (map ap_actor_role as)"

definition assert_completion_transition_allowed :: "project_record \<Rightarrow> string \<Rightarrow> py_exn + unit" where
  "assert_completion_transition_allowed p actor_role =
     (let missing = filter (\<lambda>r. r \<notin> ap_actor_role ` set (pj_completion_approvals p)) [''ceo'', ''cwo'']
      in if py_lower (py_strip actor_role) \<notin> {''ceo'', ''cwo''}
         then Inl (CodedError ''governance_project_completion_role_forbidden'' ''completion finalization is limited to ceo or cwo'')
         else if pj_completion_report p = None
         then Inl (CodedError ''governance_project_completion_report_missing''
                ''project completion report is required before completion transition'')
         else if missing \<noteq> []
         then Inl (CodedError ''governance_project_completion_approval_missing''
                (''project completion approvals are missing for roles: '' @ py_join '','' missing))
         else if pj_owner_notified_at p = None
         then Inl (CodedError ''governance_project_completion_owner_notification_missing''
                ''owner notification must be recorded before completion transition'')
         else Inr ())"

definition with_transition :: "project_record \<Rightarrow> transition_record \<Rightarrow> project_record" where
  "with_transition p t = p\<lparr>pj_status := tr_to_status t, pj_updated_at := tr_timestamp t, pj_transitions := pj_transitions p @ [t]\<rparr>"

definition transition_project_status ::
  "string \<Rightarrow> string \<Rightarrow> string \<Rightarrow> string \<Rightarrow> string \<Rightarrow> kvs option \<Rightarrow> governance \<Rightarrow> (py_exn, project_record, governance) run" where
  "transition_project_status project_id next_status reason_code actor_role trace_id metadata s =
     and_then (require_project project_id s) (\<lambda>p s1.
       case assert_project_transition (pj_status p) next_status of
         Inl e \<Rightarrow> (Inl e, s1)
       | Inr next_value \<Rightarrow>
           (case (if next_value = ''completed'' then assert_completion_transition_allowed p actor_role else Inr ()) of
              Inl e \<Rightarrow> (Inl e, s1)
            | Inr _ \<Rightarrow>
                (let (now, s2) = gov_now s1;
                     p' = with_transition p \<lparr>tr_project_id = pj_project_id p, tr_from_status = pj_status p, tr_to_status = next_value,
                            tr_reason_code = py_strip reason_code, tr_actor_role = py_strip actor_role,
                            tr_trace_id = py_strip trace_id, tr_timestamp = now, tr_metadata = sorted_pairs metadata\<rparr>
                 in (Inr p', upsert_project p' s2))))"

definition add_proposal_message ::
  "string \<Rightarrow> string \<Rightarrow> string \<Rightarrow> string \<Rightarrow> string \<Rightarrow> governance \<Rightarrow> (py_exn, proposal_message, governance) run" where
  "add_proposal_message project_id actor_id actor_role content trace_id s =
     and_then (require_project project_id s) (\<lambda>p s1.
       if pj_status p \<noteq> ''proposed''
       then (Inl (CodedError ''governance_project_not_proposed''
               ''proposal discussions are only allowed while project status is proposed''), s1)
       else (let (mid, s2) = gov_uuid s1; (now, s3) = gov_now s2;
                 m = \<lparr>pm_message_id = mid, pm_project_id = project_id, pm_actor_id = py_strip actor_id,
                      pm_actor_role = py_strip actor_role, pm_content = py_strip content, pm_trace_id = py_strip trace_id,
                      pm_timestamp = now\<rparr>
             in (Inr m, upsert_project (p\<lparr>pj_updated_at := now, pj_proposal_messages := pj_proposal_messages p @ [m]\<rparr>) s3)))"

definition has_roles :: "string list \<Rightarrow> approval_record list \<Rightarrow> bool" where
  "has_roles roles as = (set roles \<subseteq> ap_actor_role ` set as)"

abbreviation triad :: "string list" where
  "triad \<equiv> [''owner'', ''ceo'', ''cwo'']"

abbreviation c_suite :: "string list" where
  "c_suite \<equiv> [''ceo'', ''cwo'']"

definition new_approval :: "string \<Rightarrow> string \<Rightarrow> string \<Rightarrow> string \<Rightarrow> governance \<Rightarrow> approval_record \<times> governance" where
  "new_approval project_id actor_id role trace_id s =
     (let (aid, s1) = gov_uuid s; (now, s2) = gov_now s1
      in (\<lparr>ap_approval_id = aid, ap_project_id = project_id, ap_actor_id = py_strip actor_id, ap_actor_role = role,
           ap_trace_id = py_strip trace_id, ap_timestamp = now\<rparr>, s2))"

definition record_proposal_approval ::
  "string \<Rightarrow> string \<Rightarrow> string \<Rightarrow> string \<Rightarrow> governance \<Rightarrow> (py_exn, project_record \<times> bool, governance) run" where
  "record_proposal_approval project_id actor_id actor_role trace_id s =
     (let role = py_strip actor_role
      in and_then (require_project project_id s) (\<lambda>p s1.
        if pj_status p \<noteq> ''proposed''
        then (Inl (CodedError ''governance_project_not_proposed''
                ''proposal approvals are only allowed while project status is proposed''), s1)
        else case find (\<lambda>a. ap_actor_role a = role) (pj_proposal_approvals p) of
          Some existing \<Rightarrow>
            if ap_actor_id existing = py_strip actor_id then (Inr (p, False), s1)
            else (Inl (CodedError ''governance_approval_role_conflict''
                    (''proposal role already approved by another actor: '' @ role)), s1)
        | None \<Rightarrow>
            (let (a, s2) = new_approval project_id actor_id role trace_id s1;
                 p' = p\<lparr>pj_updated_at := ap_timestamp a, pj_proposal_approvals := pj_proposal_approvals p @ [a]\<rparr>;
                 s3 = upsert_project p' s2
             in if has_roles triad (pj_proposal_approvals p')
                then and_then (transition_project_status project_id ''approved'' ''proposal_triad_approved'' role trace_id None s3)
                       (\<lambda>promoted s4. (Inr (promoted, True), s4))
                else (Inr (p', True), s3))))"

definition submit_completion_report ::
  "string \<Rightarrow> string \<Rightarrow> string \<Rightarrow> string \<Rightarrow> kvs option \<Rightarrow> string \<Rightarrow> governance \<Rightarrow> (py_exn, completion_report, governance) run" where
  "submit_completion_report project_id actor_id actor_role summary metric_results trace_id s =
     and_then (require_project project_id s) (\<lambda>p s1.
       if pj_status p \<noteq> ''active''
       then (Inl (CodedError ''governance_project_not_active'' ''completion report requires active project status''), s1)
       else if py_lower (py_strip actor_role) \<noteq> ''project_manager''
       then (Inl (CodedError ''governance_project_completion_report_role_forbidden''
               ''completion report submission is limited to project_manager''), s1)
       else if pj_completion_report p \<noteq> None
       then (Inl (CodedError ''governance_project_completion_report_exists'' ''completion report already exists for project''), s1)
       else (let (rid, s2) = gov_uuid s1; (now, s3) = gov_now s2;
                 r = \<lparr>cp_report_id = rid, cp_project_id = project_id, cp_actor_id = py_strip actor_id,
                      cp_actor_role = py_lower (py_strip actor_role), cp_summary = py_strip summary,
                      cp_metric_results = sorted_pairs metric_results, cp_trace_id = py_strip trace_id,
                      cp_storage_uri = None, cp_content_hash = None, cp_timestamp = now\<rparr>
             in (Inr r, upsert_project (p\<lparr>pj_updated_at := now, pj_completion_report := Some r\<rparr>) s3)))"

definition record_completion_approval ::
  "string \<Rightarrow> string \<Rightarrow> string \<Rightarrow> string \<Rightarrow> governance \<Rightarrow> (py_exn, project_record \<times> bool, governance) run" where
  "record_completion_approval project_id actor_id actor_role trace_id s =
     (let role = py_lower (py_strip actor_role)
      in and_then (require_project project_id s) (\<lambda>p s1.
        if pj_status p \<noteq> ''active''
        then (Inl (CodedError ''governance_project_not_active'' ''completion approvals require active project status''), s1)
        else if pj_completion_report p = None
        then (Inl (CodedError ''governance_project_completion_report_missing''
                ''completion report must be submitted before approval''), s1)
        else case find (\<lambda>a. ap_actor_role a = role) (pj_completion_approvals p) of
          Some existing \<Rightarrow>
            if ap_actor_id existing = py_strip actor_id then (Inr (p, False), s1)
            else (Inl (CodedError ''governance_approval_role_conflict''
                    (''completion role already approved by another actor: '' @ role)), s1)
        | None \<Rightarrow>
            (let (a, s2) = new_approval project_id actor_id role trace_id s1;
                 p' = p\<lparr>pj_updated_at := ap_timestamp a, pj_completion_approvals := pj_completion_approvals p @ [a]\<rparr>
             in (Inr (p', True), upsert_project p' s2))))"

definition record_completion_owner_notified :: "string \<Rightarrow> string \<Rightarrow> governance \<Rightarrow> (py_exn, project_record, governance) run" where
  "record_completion_owner_notified project_id trace_id s =
     and_then (require_project project_id s) (\<lambda>p s1.
       let (now, s2) = gov_now s1;
           p' = p\<lparr>pj_updated_at := now, pj_owner_notified_at := Some now,
                  pj_owner_notification_trace_id := Some (py_strip trace_id)\<rparr>
       in (Inr p', upsert_project p' s2))"

definition record_initialization :: "string \<Rightarrow> initialization \<Rightarrow> governance \<Rightarrow> (py_exn, project_record, governance) run" where
  "record_initialization project_id snapshot s =
     and_then (require_project project_id s) (\<lambda>p s1.
       case assert_project_transition (pj_status p) ''active'' of
         Inl e \<Rightarrow> (Inl e, s1)
       | Inr next_value \<Rightarrow>
           (let (now, s2) = gov_now s1;
                p' = (with_transition p \<lparr>tr_project_id = pj_project_id p, tr_from_status = pj_status p, tr_to_status = next_value,
                        tr_reason_code = ''cwo_initialization'', tr_actor_role = in_actor_role snapshot,
                        tr_trace_id = in_trace_id snapshot, tr_timestamp = now, tr_metadata = []\<rparr>)
                     \<lparr>pj_initialization := Some snapshot\<rparr>
            in (Inr p', upsert_project p' s2)))"

definition bind_workforce :: "string \<Rightarrow> workforce_binding \<Rightarrow> governance \<Rightarrow> (py_exn, project_record, governance) run" where
  "bind_workforce project_id binding s =
     and_then (require_project project_id s) (\<lambda>p s1.
       let (now, s2) = gov_now s1;
           p' = p\<lparr>pj_updated_at := now, pj_workforce_bindings := pj_workforce_bindings p @ [binding]\<rparr>
       in (Inr p', upsert_project p' s2))"

section \<open>The project-manager template\<close>

definition mandatory_operations :: "string list" where
  "mandatory_operations = [''milestone_planning'', ''task_decomposition'', ''task_assignment'', ''progress_reporting'']"

definition operation_token_rules :: "(string \<times> string list) list" where
  "operation_token_rules = [
     (''milestone_planning'', [''milestone'', ''plan'']),
     (''task_decomposition'', [''decompos'', ''task'']),
     (''task_assignment'', [''assign'', ''task'']),
     (''progress_reporting'', [''progress'', ''report''])]"

definition validate_project_manager_template :: "string \<Rightarrow> py_exn + string list" where
  "validate_project_manager_template system_prompt =
     (let prompt = py_lower (py_strip system_prompt);
          missing = map fst (filter (\<lambda>(op, tokens). \<not> list_all (\<lambda>t. py_contains prompt t) tokens) operation_token_rules)
      in if prompt = []
         then Inl (CodedError ''project_manager_template_invalid'' ''project manager template prompt must not be blank'')
         else if missing \<noteq> []
         then Inl (CodedError ''project_manager_template_missing_operations''
                (''project manager template missing mandatory operations: '' @ py_join '', '' missing))
         else Inr mandatory_operations)"

section \<open>Handlers\<close>

definition norm_role :: "string \<Rightarrow> string" where
  "norm_role role = py_lower (py_strip role)"

definition refuse :: "string \<Rightarrow> string \<Rightarrow> governance \<Rightarrow> (py_exn, 'a, governance) run" where
  "refuse code message s = (Inl (CodedError code message), s)"

definition submit_proposal_message ::
  "string \<Rightarrow> string \<Rightarrow> string \<Rightarrow> string \<Rightarrow> string \<Rightarrow> governance \<Rightarrow> (py_exn, proposal_message, governance) run" where
  "submit_proposal_message project_id actor_id actor_role content trace_id s =
     (if norm_role actor_role \<notin> set triad
      then refuse ''governance_role_forbidden'' ''proposal discussions are limited to owner, ceo, and cwo'' s
      else add_proposal_message project_id actor_id (norm_role actor_role) content trace_id s)"

text \<open>\<^verbatim>\<open>dict.setdefault\<close>.\<close>

definition set_default :: "kvs \<Rightarrow> string \<Rightarrow> string \<Rightarrow> kvs" where
  "set_default d k v = (if map_of d k = None then d @ [(k, v)] else d)"

definition create_project_proposal ::
  "string \<Rightarrow> string \<Rightarrow> string \<Rightarrow> string \<Rightarrow> string \<Rightarrow> string option \<Rightarrow> kvs option \<Rightarrow> governance \<Rightarrow>
   (py_exn, project_record, governance) run" where
  "create_project_proposal actor_id actor_role trace_id name objective project_id metadata s =
     (if norm_role actor_role \<notin> set triad
      then refuse ''governance_project_create_role_forbidden'' ''project creation is limited to owner, ceo, and cwo'' s
      else let m0 = (case metadata of None \<Rightarrow> [] | Some m \<Rightarrow> m);
               m1 = set_default m0 ''created_by_actor_id'' (py_strip actor_id);
               m2 = set_default m1 ''created_by_actor_role'' (norm_role actor_role);
               m3 = set_default m2 ''created_trace_id'' (py_strip trace_id)
           in create_project name objective project_id ''proposed'' (Some m3) s)"

definition approve_project_proposal ::
  "string \<Rightarrow> string \<Rightarrow> string \<Rightarrow> string \<Rightarrow> governance \<Rightarrow> (py_exn, project_record \<times> bool \<times> string list, governance) run" where
  "approve_project_proposal project_id actor_id actor_role trace_id s =
     (if norm_role actor_role \<notin> set triad
      then refuse ''governance_approval_role_forbidden'' ''proposal approval is limited to owner, ceo, and cwo'' s
      else and_then (record_proposal_approval project_id actor_id (norm_role actor_role) trace_id s)
             (\<lambda>(p, recorded) s1. (Inr (p, recorded, approval_roles (pj_proposal_approvals p)), s1)))"

definition latest_approval_for_role :: "project_record \<Rightarrow> string \<Rightarrow> approval_record option" where
  "latest_approval_for_role p role = find (\<lambda>a. ap_actor_role a = role) (rev (pj_proposal_approvals p))"

definition charter_path :: "string \<Rightarrow> string \<Rightarrow> string" where
  "charter_path sysroot project_id = sysroot @ ''/governance/projects/'' @ project_id @ ''/charter.json''"

definition charter_data ::
  "string \<Rightarrow> string \<Rightarrow> string \<Rightarrow> rat \<Rightarrow> rat \<Rightarrow> kvs \<Rightarrow> kvs \<Rightarrow> string \<Rightarrow> time \<Rightarrow> json_object" where
  "charter_data project_id actor_id objective currency quota metric_plan workforce_plan trace_id now =
     [(''project_id'', JStr project_id), (''objective'', JStr objective), (''budget_currency_total'', JNum currency),
      (''budget_quota_total'', JNum quota), (''metric_plan'', JObj (map (\<lambda>(k, v). (k, JStr v)) metric_plan)),
      (''workforce_plan'', JObj (map (\<lambda>(k, v). (k, JStr v)) workforce_plan)), (''actor_id'', JStr actor_id),
      (''actor_role'', JStr ''cwo''), (''trace_id'', JStr trace_id), (''initialized_at'', JIso now)]"

definition initialize_project_by_cwo ::
  "(json_object \<Rightarrow> string) \<Rightarrow> string \<Rightarrow> string \<Rightarrow> string \<Rightarrow> string \<Rightarrow> string \<Rightarrow> string \<Rightarrow> rat \<Rightarrow> rat \<Rightarrow> kvs option \<Rightarrow> kvs option \<Rightarrow>
   governance \<Rightarrow> (py_exn, project_record, governance) run" where
  "initialize_project_by_cwo sha sysroot project_id actor_id actor_role trace_id objective currency quota metric_plan workforce_plan s =
     (if norm_role actor_role \<noteq> ''cwo''
      then refuse ''governance_role_forbidden'' ''project initialization is limited to cwo'' s
      else let (now, s1) = gov_now s;
               mp = (case metric_plan of None \<Rightarrow> [] | Some m \<Rightarrow> m);
               wp = (case workforce_plan of None \<Rightarrow> [] | Some m \<Rightarrow> m);
               data = charter_data project_id actor_id objective currency quota mp wp trace_id now;
               s2 = s1\<lparr>gv_charters := dict_put (gv_charters s1) (charter_path sysroot project_id) data\<rparr>
           in record_initialization project_id
                \<lparr>in_objective = objective, in_budget_currency_total = currency, in_budget_quota_total = quota,
                 in_metric_plan = mp, in_workforce_plan = wp, in_actor_id = actor_id, in_actor_role = ''cwo'',
                 in_trace_id = trace_id, in_charter_uri = Some (charter_path sysroot project_id), in_charter_hash = Some (sha data),
                 in_scope_uri = None, in_scope_hash = None, in_budget_plan_uri = None, in_budget_plan_hash = None,
                 in_metric_plan_uri = None, in_metric_plan_hash = None, in_workforce_plan_uri = None,
                 in_workforce_plan_hash = None, in_execution_plan_uri = None, in_execution_plan_hash = None,
                 in_initialized_at = now\<rparr> s2)"

definition submit_completion_report_by_project_manager ::
  "string \<Rightarrow> string \<Rightarrow> string \<Rightarrow> string \<Rightarrow> string \<Rightarrow> kvs option \<Rightarrow> governance \<Rightarrow>
   (py_exn, project_record \<times> completion_report, governance) run" where
  "submit_completion_report_by_project_manager project_id actor_id actor_role trace_id summary metric_results s =
     (if norm_role actor_role \<noteq> ''project_manager''
      then refuse ''governance_project_completion_report_role_forbidden''
             ''completion report submission is limited to project_manager'' s
      else and_then (submit_completion_report project_id actor_id (norm_role actor_role) summary metric_results trace_id s)
             (\<lambda>r s1. and_then (require_project project_id s1) (\<lambda>p s2. (Inr (p, r), s2))))"

definition record_completion_approval_by_c_suite ::
  "string \<Rightarrow> string \<Rightarrow> string \<Rightarrow> string \<Rightarrow> governance \<Rightarrow> (py_exn, project_record \<times> bool \<times> string list \<times> bool, governance) run" where
  "record_completion_approval_by_c_suite project_id actor_id actor_role trace_id s =
     (if norm_role actor_role \<notin> set c_suite
      then refuse ''governance_project_completion_approval_role_forbidden'' ''completion approval is limited to ceo or cwo'' s
      else and_then (record_completion_approval project_id actor_id (norm_role actor_role) trace_id s)
             (\<lambda>(p, recorded) s1. (Inr (p, recorded, approval_roles (pj_completion_approvals p), pj_owner_notified_at p \<noteq> None), s1)))"

definition finalize_project_completion_by_c_suite ::
  "string \<Rightarrow> string \<Rightarrow> string \<Rightarrow> string \<Rightarrow> governance \<Rightarrow> (py_exn, project_record, governance) run" where
  "finalize_project_completion_by_c_suite project_id actor_role trace_id reason_code s =
     (if norm_role actor_role \<notin> set c_suite
      then refuse ''governance_project_completion_finalize_role_forbidden'' ''completion finalization is limited to ceo or cwo'' s
      else and_then (require_project project_id s) (\<lambda>existing s1.
        and_then (if pj_owner_notified_at existing = None
                  then and_then (record_completion_owner_notified project_id trace_id s1) (\<lambda>_ s2. (Inr (), s2))
                  else (Inr (), s1))
          (\<lambda>_ s2. transition_project_status project_id ''completed'' reason_code (norm_role actor_role) trace_id None s2)))"

definition transition_project_lifecycle ::
  "string \<Rightarrow> string list \<Rightarrow> string \<Rightarrow> string \<Rightarrow> string \<Rightarrow> string \<Rightarrow> string \<Rightarrow> governance \<Rightarrow>
   (py_exn, project_record \<times> string \<times> string, governance) run" where
  "transition_project_lifecycle next_status allowed_actor_roles action_name project_id actor_role trace_id reason_code s =
     (if norm_role actor_role \<notin> set allowed_actor_roles
      then refuse ''governance_project_lifecycle_role_forbidden''
             (action_name @ '' is limited to roles: '' @ py_join '','' (sort allowed_actor_roles)) s
      else and_then (require_project project_id s) (\<lambda>p s1.
        and_then (transition_project_status project_id next_status reason_code (norm_role actor_role) trace_id None s1)
          (\<lambda>updated s2. (Inr (updated, pj_status p, reason_code), s2))))"

definition pause_project_by_governance where
  "pause_project_by_governance = transition_project_lifecycle ''paused'' [''project_manager'', ''cwo'', ''ceo''] ''project pause''"

definition resume_project_by_governance where
  "resume_project_by_governance = transition_project_lifecycle ''active'' [''project_manager'', ''cwo'', ''ceo''] ''project resume''"

definition terminate_project_by_governance where
  "terminate_project_by_governance = transition_project_lifecycle ''terminated'' [''cwo'', ''ceo''] ''project termination''"

definition archive_project_by_governance where
  "archive_project_by_governance = transition_project_lifecycle ''archived'' [''cwo'', ''ceo''] ''project archive''"

definition bind_workforce_template_by_cwo ::
  "(string \<Rightarrow> string) \<Rightarrow> string \<Rightarrow> string \<Rightarrow> string \<Rightarrow> string \<Rightarrow> string \<Rightarrow> string \<Rightarrow> string \<Rightarrow> string \<Rightarrow> governance \<Rightarrow>
   (py_exn, project_record \<times> workforce_binding, governance) run" where
  "bind_workforce_template_by_cwo sha project_id actor_id actor_role trace_id role template_id llm_routing_profile system_prompt s =
     (if norm_role actor_role \<noteq> ''cwo''
      then refuse ''governance_role_forbidden'' ''workforce template binding is limited to cwo'' s
      else case (if norm_role role = ''project_manager''
                 then map_sum (\<lambda>e. case e of CodedError code m \<Rightarrow> CodedError (''governance_'' @ code) m | _ \<Rightarrow> e) sort
                        (validate_project_manager_template system_prompt)
                 else Inr []) of
             Inl e \<Rightarrow> (Inl e, s)
           | Inr operations \<Rightarrow>
               (let (bid, s1) = gov_uuid s; (now, s2) = gov_now s1;
                    b = \<lparr>wb_binding_id = bid, wb_project_id = project_id, wb_role = norm_role role, wb_template_id = template_id,
                         wb_llm_routing_profile = llm_routing_profile, wb_system_prompt_hash = sha system_prompt,
                         wb_mandatory_operations = operations,
                         wb_binding_status = (if norm_role role = ''domain_leader'' then ''declared_disabled'' else ''active''),
                         wb_actor_id = actor_id, wb_actor_role = ''cwo'', wb_trace_id = trace_id, wb_created_at = now\<rparr>
                in and_then (bind_workforce project_id b s2) (\<lambda>p s3. (Inr (p, b), s3))))"

section \<open>Histories\<close>

text \<open>Every way the governance state changes: one handler call, successful or not.\<close>

inductive gov_step :: "governance \<Rightarrow> governance \<Rightarrow> bool" where
  message: "submit_proposal_message pid aid role body trace s = (r, s') \<Longrightarrow> gov_step s s'"
| create: "create_project_proposal aid role trace name objective pid_opt meta s = (r, s') \<Longrightarrow> gov_step s s'"
| approve: "approve_project_proposal pid aid role trace s = (r, s') \<Longrightarrow> gov_step s s'"
| initialize: "initialize_project_by_cwo sha sysroot pid aid role trace objective cur quota mp wp s = (r, s') \<Longrightarrow> gov_step s s'"
| report: "submit_completion_report_by_project_manager pid aid role trace summary mr s = (r, s') \<Longrightarrow> gov_step s s'"
| approve_completion: "record_completion_approval_by_c_suite pid aid role trace s = (r, s') \<Longrightarrow> gov_step s s'"
| finalize: "finalize_project_completion_by_c_suite pid role trace reason s = (r, s') \<Longrightarrow> gov_step s s'"
| pause: "pause_project_by_governance pid role trace reason s = (r, s') \<Longrightarrow> gov_step s s'"
| resume: "resume_project_by_governance pid role trace reason s = (r, s') \<Longrightarrow> gov_step s s'"
| terminate: "terminate_project_by_governance pid role trace reason s = (r, s') \<Longrightarrow> gov_step s s'"
| archive: "archive_project_by_governance pid role trace reason s = (r, s') \<Longrightarrow> gov_step s s'"
| bind: "bind_workforce_template_by_cwo sha' pid aid role trace wrole template profile prompt s = (r, s') \<Longrightarrow> gov_step s s'"

section \<open>The invariant\<close>

definition history_legal :: "project_record \<Rightarrow> bool" where
  "history_legal p =
     (let tos = map tr_to_status (pj_transitions p)
      in legal_path project_step ''proposed'' tos \<and> pj_status p = last (''proposed'' # tos) \<and>
         map tr_from_status (pj_transitions p) = butlast (''proposed'' # tos))"

definition approvals_ok :: "string list \<Rightarrow> approval_record list \<Rightarrow> bool" where
  "approvals_ok roles as = (distinct (map ap_actor_role as) \<and> ap_actor_role ` set as \<subseteq> set roles)"

definition project_ok :: "project_record \<Rightarrow> bool" where
  "project_ok p =
     (history_legal p \<and> approvals_ok triad (pj_proposal_approvals p) \<and> approvals_ok c_suite (pj_completion_approvals p) \<and>
      (pj_status p \<noteq> ''proposed'' \<longrightarrow> has_roles triad (pj_proposal_approvals p)) \<and>
      (pj_completion_approvals p \<noteq> [] \<longrightarrow> pj_completion_report p \<noteq> None) \<and>
      (''completed'' \<in> tr_to_status ` set (pj_transitions p) \<longrightarrow>
         pj_completion_report p \<noteq> None \<and> has_roles c_suite (pj_completion_approvals p) \<and> pj_owner_notified_at p \<noteq> None))"

definition gov_ok :: "governance \<Rightarrow> bool" where
  "gov_ok s = (distinct (map rw_project_id (gv_projects s)) \<and>
     (\<forall>r \<in> set (gv_projects s). \<exists>p. project_from_row r = Inr p \<and> project_ok p))"

section \<open>Lemmas\<close>

lemma project_step_simps [status_simps]:
  "project_step ''proposed'' t = (t \<in> {''proposed'', ''approved''})" "project_step ''approved'' t = (t = ''active'')"
  "project_step ''active'' t = (t \<in> {''paused'', ''completed'', ''terminated''})"
  "project_step ''paused'' t = (t \<in> {''active'', ''terminated''})" "project_step ''completed'' t = (t = ''archived'')"
  "project_step ''terminated'' t = (t = ''archived'')" "project_step ''archived'' t = False"
  by (auto simp: project_step_def project_transitions_def)

lemma project_step_known: "project_step s t \<Longrightarrow> s \<in> set project_status_values \<and> t \<in> set project_status_values"
  unfolding project_step_def project_transitions_def project_status_values_def by (auto split: if_splits)

interpretation project_machine: status_machine project_step "\<lambda>s. s = ''archived''"
  by unfold_locales (simp add: status_simps)

lemma legal_path_known: "legal_path project_step s ts \<Longrightarrow> s \<in> set project_status_values \<Longrightarrow> last (s # ts) \<in> set project_status_values"
proof (induction ts arbitrary: s)
  case (Cons t ts)
  then have "t \<in> set project_status_values" using project_step_known [of s t] by simp
  with Cons show ?case by simp
qed simp

lemma project_ok_status: "project_ok p \<Longrightarrow> pj_status p \<in> set project_status_values"
  using legal_path_known [of "''proposed''" "map tr_to_status (pj_transitions p)"]
  unfolding project_ok_def history_legal_def Let_def by (simp add: project_status_values_def)

lemma canon_project_fields [simp]:
  "pj_project_id (canon_project p) = pj_project_id p" "pj_status (canon_project p) = pj_status p"
  "pj_transitions (canon_project p) = pj_transitions p" "pj_proposal_approvals (canon_project p) = pj_proposal_approvals p"
  "pj_completion_approvals (canon_project p) = pj_completion_approvals p" "pj_owner_notified_at (canon_project p) = pj_owner_notified_at p"
  "(pj_completion_report (canon_project p) = None) = (pj_completion_report p = None)"
  "(pj_initialization (canon_project p) = None) = (pj_initialization p = None)"
  by (simp_all add: canon_project_def)

text \<open>The invariant reads only these parts of a project.\<close>

lemma project_ok_cong:
  assumes "pj_status q = pj_status p" "pj_transitions q = pj_transitions p" "pj_proposal_approvals q = pj_proposal_approvals p"
    "pj_completion_approvals q = pj_completion_approvals p" "pj_owner_notified_at q = pj_owner_notified_at p"
    "(pj_completion_report q = None) = (pj_completion_report p = None)"
  shows "project_ok q = project_ok p"
  using assms by (simp add: project_ok_def history_legal_def)

lemma project_ok_updates [simp]:
  "project_ok (p\<lparr>pj_updated_at := t\<rparr>) = project_ok p" "project_ok (p\<lparr>pj_created_at := t\<rparr>) = project_ok p"
  "project_ok (p\<lparr>pj_proposal_messages := ms\<rparr>) = project_ok p" "project_ok (p\<lparr>pj_workforce_bindings := bs\<rparr>) = project_ok p"
  "project_ok (p\<lparr>pj_initialization := i\<rparr>) = project_ok p" "project_ok (p\<lparr>pj_owner_notification_trace_id := x\<rparr>) = project_ok p"
  "project_ok (canon_project p) = project_ok p"
  by (rule project_ok_cong; simp)+

lemma row_read_back:
  assumes "project_ok p"
  shows "project_from_row ((project_to_row p)\<lparr>rw_created_at := t\<rparr>) = Inr (canon_project (p\<lparr>pj_created_at := t\<rparr>))"
proof -
  have "(project_to_row p)\<lparr>rw_created_at := t\<rparr> = project_to_row (p\<lparr>pj_created_at := t\<rparr>)" by (simp add: project_to_row_def)
  then show ?thesis
    using parse_project_status_id [OF project_ok_status [OF assms]] by (simp add: project_read_back canon_project_def)
qed

lemma project_to_row_id [simp]: "rw_project_id (project_to_row p) = pj_project_id p"
  by (simp add: project_to_row_def)

lemma find_project_None: "(find_project s i = None) = (i \<notin> rw_project_id ` set (gv_projects s))"
  by (auto simp: find_project_def find_None_iff)

lemma find_project_id: "find_project s i = Some r \<Longrightarrow> r \<in> set (gv_projects s) \<and> rw_project_id r = i"
  by (auto simp: find_project_def find_Some_iff)

lemma find_project_upsert:
  "find_project (upsert_project p s) i =
     (if i = pj_project_id p
      then Some (case find_project s i of None \<Rightarrow> project_to_row p | Some r \<Rightarrow> (project_to_row p)\<lparr>rw_created_at := rw_created_at r\<rparr>)
      else find_project s i)"
proof -
  let ?f = "\<lambda>r. if rw_project_id r = pj_project_id p then (project_to_row p)\<lparr>rw_created_at := rw_created_at r\<rparr> else r"
  have "find (\<lambda>r. rw_project_id r = i) (map ?f rs) = map_option ?f (find (\<lambda>r. rw_project_id r = i) rs)" for rs
    by (induction rs) auto
  then have rows: "find_project (s\<lparr>gv_projects := map ?f (gv_projects s)\<rparr>) i = map_option ?f (find_project s i)"
    by (simp add: find_project_def)
  have new: "find_project (s\<lparr>gv_projects := gv_projects s @ [r]\<rparr>) i =
      (case find_project s i of None \<Rightarrow> if rw_project_id r = i then Some r else None | Some r' \<Rightarrow> Some r')" for r
    by (simp add: find_project_def find_append_eq split: option.split)
  show ?thesis
    using rows new [of "project_to_row p"] find_project_id [of s i]
    by (cases "find_project s i"; cases "find_project s (pj_project_id p)") (auto simp: upsert_project_def Let_def)
qed

lemma gov_ok_upsert [inv_intros]: "gov_ok s \<Longrightarrow> project_ok p \<Longrightarrow> gov_ok (upsert_project p s)"
proof -
  assume s: "gov_ok s" and p: "project_ok p"
  let ?f = "\<lambda>r. if rw_project_id r = pj_project_id p then (project_to_row p)\<lparr>rw_created_at := rw_created_at r\<rparr> else r"
  have ok: "\<exists>q. project_from_row ((project_to_row p)\<lparr>rw_created_at := t\<rparr>) = Inr q \<and> project_ok q" for t
    using row_read_back [OF p, of t] p by simp
  have ids: "map rw_project_id (map ?f rs) = map rw_project_id rs" for rs by (induction rs) auto
  have same: "(project_to_row p)\<lparr>rw_created_at := rw_created_at (project_to_row p)\<rparr> = project_to_row p" by simp
  show ?thesis
  proof (cases "find_project s (pj_project_id p)")
    case None
    then show ?thesis
      using s ok [of "rw_created_at (project_to_row p)"] unfolding same
      by (auto simp: gov_ok_def upsert_project_def Let_def find_project_None)
  next
    case (Some r)
    have "distinct (map rw_project_id (gv_projects s))" "\<And>r. r \<in> set (gv_projects s) \<Longrightarrow> \<exists>q. project_from_row r = Inr q \<and> project_ok q"
      using s by (auto simp: gov_ok_def)
    then have "\<forall>r \<in> set (map ?f (gv_projects s)). \<exists>q. project_from_row r = Inr q \<and> project_ok q" using ok by auto
    moreover have "distinct (map rw_project_id (map ?f (gv_projects s)))" unfolding ids using s by (simp add: gov_ok_def)
    ultimately show ?thesis using Some by (simp add: gov_ok_def upsert_project_def Let_def)
  qed
qed

lemma gov_draw_frame [frame_simps, simp]:
  "gv_projects (snd (gov_now s)) = gv_projects s" "gv_projects (snd (gov_uuid s)) = gv_projects s"
  "gv_charters (snd (gov_now s)) = gv_charters s" "gv_charters (snd (gov_uuid s)) = gv_charters s"
  "gv_projects (snd (new_approval i a r t s)) = gv_projects s"
  by (simp_all add: gov_now_def gov_uuid_def new_approval_def Let_def case_prod_beta)

lemma gov_ok_projects [inv_intros]: "gov_ok s \<Longrightarrow> gv_projects s' = gv_projects s \<Longrightarrow> gov_ok s'"
  by (simp add: gov_ok_def)

lemma get_project_frame: "gv_projects s' = gv_projects s \<Longrightarrow> get_project s' i = get_project s i"
  by (simp add: get_project_def find_project_def)

lemma get_project_ok:
  assumes "gov_ok s"
  shows "(get_project s i = Inr None \<and> find_project s i = None) \<or>
    (\<exists>p. get_project s i = Inr (Some p) \<and> project_ok p \<and> pj_project_id p = i)"
proof (cases "find_project s i")
  case (Some r)
  then have r: "r \<in> set (gv_projects s)" "rw_project_id r = i" using find_project_id by blast+
  with assms obtain p where p: "project_from_row r = Inr p" "project_ok p" by (auto simp: gov_ok_def)
  then have "pj_project_id p = i" using r project_from_row_id by simp
  with Some p show ?thesis by (simp add: get_project_def)
qed (simp add: get_project_def)

lemma require_project_ok:
  assumes "gov_ok s"
  shows "run_ok (\<lambda>p s'. s' = s \<and> project_ok p \<and> pj_project_id p = i \<and> get_project s i = Inr (Some p)) (\<lambda>_ s'. gov_ok s') (require_project i s)"
  using get_project_ok [OF assms, of i] assms by (auto simp: require_project_def)

text \<open>The operations keep the invariant; most of them change a part the invariant does not read.\<close>

abbreviation keeps_ok :: "(py_exn, 'a, governance) run \<Rightarrow> bool" where
  "keeps_ok r \<equiv> run_ok (\<lambda>_ s. gov_ok s) (\<lambda>_ s. gov_ok s) r"

lemma keeps_ok_snd: "keeps_ok r \<longleftrightarrow> gov_ok (snd r)"
  by (cases r; cases "fst r") auto

lemma keeps_ok_require:
  assumes "gov_ok s" "\<And>p. project_ok p \<Longrightarrow> pj_project_id p = i \<Longrightarrow> get_project s i = Inr (Some p) \<Longrightarrow> keeps_ok (f p s)"
  shows "keeps_ok (and_then (require_project i s) f)"
  by (rule run_ok_and_then [OF require_project_ok [OF assms(1)]]) (use assms(2) in auto)

lemma history_legal_transition:
  assumes "history_legal p" "tr_from_status t = pj_status p" "project_step (pj_status p) (tr_to_status t)"
  shows "history_legal (with_transition p t)"
  using assms by (simp add: history_legal_def Let_def with_transition_def legal_path_append butlast_append)

lemma project_ok_transition:
  assumes "project_ok p" "tr_from_status t = pj_status p" "project_step (pj_status p) (tr_to_status t)"
    and "pj_status p = ''proposed'' \<Longrightarrow> tr_to_status t = ''approved'' \<Longrightarrow> has_roles triad (pj_proposal_approvals p)"
    and "tr_to_status t = ''completed'' \<Longrightarrow> pj_completion_report p \<noteq> None \<and> has_roles c_suite (pj_completion_approvals p) \<and>
           pj_owner_notified_at p \<noteq> None"
  shows "project_ok (with_transition p t)"
proof -
  have "history_legal (with_transition p t)" using assms(1-3) history_legal_transition by (simp add: project_ok_def)
  moreover have "has_roles triad (pj_proposal_approvals p)" if "tr_to_status t \<noteq> ''proposed''"
    using assms(1,3,4) that by (cases "pj_status p = ''proposed''") (auto simp: status_simps project_ok_def)
  ultimately show ?thesis
    using assms(1,5) by (auto simp: project_ok_def with_transition_def)
qed

lemma assert_project_transition_Inr:
  assumes "assert_project_transition cur nxt = Inr v" "cur \<in> set project_status_values" "nxt \<in> set project_status_values"
  shows "v = nxt" and "project_step cur nxt"
  using assms by (auto simp: assert_project_transition_def parse_project_status_id split: if_splits)

lemma completion_allowed:
  "assert_completion_transition_allowed p role = Inr u \<Longrightarrow>
     pj_completion_report p \<noteq> None \<and> has_roles c_suite (pj_completion_approvals p) \<and> pj_owner_notified_at p \<noteq> None"
  by (auto simp: assert_completion_transition_allowed_def has_roles_def Let_def split: if_splits)

lemma transition_keeps_ok:
  assumes "gov_ok s" "nxt \<in> set project_status_values"
    and "\<And>p. get_project s i = Inr (Some p) \<Longrightarrow> nxt = ''approved'' \<Longrightarrow> has_roles triad (pj_proposal_approvals p)"
  shows "keeps_ok (transition_project_status i nxt reason role trace meta s)"
  unfolding transition_project_status_def
proof (rule keeps_ok_require [OF assms(1)])
  fix p
  assume p: "project_ok p" "pj_project_id p = i" and got: "get_project s i = Inr (Some p)"
  let ?allowed = "\<lambda>v. if v = ''completed'' then assert_completion_transition_allowed p role else Inr ()"
  show "keeps_ok (case assert_project_transition (pj_status p) nxt of Inl e \<Rightarrow> (Inl e, s) | Inr v \<Rightarrow>
     (case ?allowed v of Inl e \<Rightarrow> (Inl e, s) | Inr _ \<Rightarrow>
       (let (now, s2) = gov_now s;
            p' = with_transition p \<lparr>tr_project_id = pj_project_id p, tr_from_status = pj_status p, tr_to_status = v,
              tr_reason_code = py_strip reason, tr_actor_role = py_strip role, tr_trace_id = py_strip trace, tr_timestamp = now,
              tr_metadata = sorted_pairs meta\<rparr>
        in (Inr p', upsert_project p' s2))))"
  proof (cases "assert_project_transition (pj_status p) nxt")
    case (Inr v)
    have v: "v = nxt" "project_step (pj_status p) nxt"
      using assert_project_transition_Inr [OF Inr project_ok_status [OF p(1)] assms(2)] .
    show ?thesis
    proof (cases "?allowed v")
      case allowed: (Inr u)
      have "project_ok (with_transition p \<lparr>tr_project_id = pj_project_id p, tr_from_status = pj_status p, tr_to_status = v,
          tr_reason_code = py_strip reason, tr_actor_role = py_strip role, tr_trace_id = py_strip trace, tr_timestamp = now,
          tr_metadata = sorted_pairs meta\<rparr>)" for now
        by (rule project_ok_transition [OF p(1)])
          (use v assms(3) [OF got] completion_allowed [of p role] allowed in \<open>auto split: if_splits\<close>)
      with Inr allowed assms(1) show ?thesis
        by (auto simp: Let_def case_prod_beta intro!: gov_ok_upsert intro: gov_ok_projects)
    qed (use Inr assms(1) in simp)
  qed (use assms(1) in simp)
qed

lemma upsert_draw_ok: "gov_ok s \<Longrightarrow> gv_projects s' = gv_projects s \<Longrightarrow> project_ok p \<Longrightarrow> gov_ok (upsert_project p s')"
  by (rule gov_ok_upsert) (auto intro: gov_ok_projects)

lemma add_proposal_message_ok: "gov_ok s \<Longrightarrow> keeps_ok (add_proposal_message i a role content trace s)"
  unfolding add_proposal_message_def
  by (rule keeps_ok_require)
    (auto simp: Let_def case_prod_beta intro!: upsert_draw_ok)

lemma approvals_ok_append:
  "approvals_ok roles as \<Longrightarrow> ap_actor_role a \<in> set roles \<Longrightarrow> find (\<lambda>b. ap_actor_role b = ap_actor_role a) as = None \<Longrightarrow>
   approvals_ok roles (as @ [a])"
  by (auto simp: approvals_ok_def find_None_iff)

lemma new_approval_role [simp]: "ap_actor_role (fst (new_approval i a role trace s)) = role"
  by (simp add: new_approval_def Let_def case_prod_beta)

lemma get_after_upsert:
  assumes "gov_ok s" "project_ok p"
  shows "\<exists>t. get_project (upsert_project p s) (pj_project_id p) = Inr (Some (canon_project (p\<lparr>pj_created_at := t\<rparr>)))"
proof -
  have "\<exists>t. find_project (upsert_project p s) (pj_project_id p) = Some ((project_to_row p)\<lparr>rw_created_at := t\<rparr>)"
    by (auto simp: find_project_upsert split: option.split) (metis project_row.surjective project_row.update_convs(15))
  then show ?thesis using row_read_back [OF assms(2)] by (auto simp: get_project_def)
qed

lemma record_proposal_approval_ok:
  assumes "gov_ok s" "py_strip role \<in> set triad"
  shows "keeps_ok (record_proposal_approval i a role trace s)"
  unfolding record_proposal_approval_def Let_def
proof (rule keeps_ok_require [OF assms(1)], goal_cases)
  case (1 p)
  obtain ap s2 where ap: "new_approval i a (py_strip role) trace s = (ap, s2)" by (cases "new_approval i a (py_strip role) trace s")
  define q where "q = p\<lparr>pj_updated_at := ap_timestamp ap, pj_proposal_approvals := pj_proposal_approvals p @ [ap]\<rparr>"
  have ap_role: "ap_actor_role ap = py_strip role" and rows: "gv_projects s2 = gv_projects s"
    using new_approval_role [of i a "py_strip role" trace s] gov_draw_frame(5) [of i a "py_strip role" trace s] ap by simp_all
  have q: "project_ok q" "pj_project_id q = i" if "find (\<lambda>b. ap_actor_role b = py_strip role) (pj_proposal_approvals p) = None"
    using 1(1,2) approvals_ok_append [of triad "pj_proposal_approvals p" ap] that assms(2) ap_role
    by (auto simp: q_def project_ok_def history_legal_def has_roles_def)
  have promote: "keeps_ok (transition_project_status i ''approved'' ''proposal_triad_approved'' (py_strip role) trace None (upsert_project q s2))"
    if "project_ok q" "pj_project_id q = i" "has_roles triad (pj_proposal_approvals q)"
  proof (rule transition_keeps_ok)
    show "gov_ok (upsert_project q s2)" using upsert_draw_ok [OF assms(1) rows that(1)] .
    fix p' assume "get_project (upsert_project q s2) i = Inr (Some p')"
    with get_after_upsert [OF gov_ok_projects [OF assms(1) rows] that(1)] that(2,3)
    show "has_roles triad (pj_proposal_approvals p')" by auto
  qed (simp add: project_status_values_def)
  have "pj_proposal_approvals q = pj_proposal_approvals p @ [ap]" by (simp add: q_def)
  then show ?case
    using assms(1) q promote upsert_draw_ok [OF assms(1) rows, of q]
    by (auto simp: ap q_def [symmetric] case_prod_beta intro!: run_ok_and_then [where Q = "\<lambda>_ s. gov_ok s"] split: option.splits)
qed

lemma submit_completion_report_ok: "gov_ok s \<Longrightarrow> keeps_ok (submit_completion_report i a role summary mr trace s)"
  unfolding submit_completion_report_def
  by (rule keeps_ok_require)
    (auto simp: Let_def case_prod_beta project_ok_def history_legal_def intro!: upsert_draw_ok)

lemma record_completion_approval_ok:
  assumes "gov_ok s" "py_lower (py_strip role) \<in> set c_suite"
  shows "keeps_ok (record_completion_approval i a role trace s)"
  unfolding record_completion_approval_def Let_def
proof (rule keeps_ok_require [OF assms(1)], goal_cases)
  case (1 p)
  let ?role = "py_lower (py_strip role)"
  obtain ap s2 where ap: "new_approval i a ?role trace s = (ap, s2)" by (cases "new_approval i a ?role trace s")
  define q where "q = p\<lparr>pj_updated_at := ap_timestamp ap, pj_completion_approvals := pj_completion_approvals p @ [ap]\<rparr>"
  have ap_role: "ap_actor_role ap = ?role" and rows: "gv_projects s2 = gv_projects s"
    using new_approval_role [of i a ?role trace s] gov_draw_frame(5) [of i a ?role trace s] ap by simp_all
  have q: "project_ok q"
    if "find (\<lambda>b. ap_actor_role b = ?role) (pj_completion_approvals p) = None" "pj_completion_report p \<noteq> None"
    using 1(1,2) approvals_ok_append [of c_suite "pj_completion_approvals p" ap] that assms(2) ap_role
    by (auto simp: q_def project_ok_def history_legal_def has_roles_def)
  show ?case
    using assms(1) q upsert_draw_ok [OF assms(1) rows, of q]
    by (auto simp: ap q_def [symmetric] case_prod_beta split: option.splits)
qed

lemma record_completion_owner_notified_ok: "gov_ok s \<Longrightarrow> keeps_ok (record_completion_owner_notified i trace s)"
  unfolding record_completion_owner_notified_def
  by (rule keeps_ok_require)
    (auto simp: Let_def case_prod_beta project_ok_def history_legal_def intro!: upsert_draw_ok)

lemma bind_workforce_ok: "gov_ok s \<Longrightarrow> keeps_ok (bind_workforce i b s)"
  unfolding bind_workforce_def
  by (rule keeps_ok_require) (auto simp: Let_def case_prod_beta intro!: upsert_draw_ok)

lemma record_initialization_ok:
  assumes "gov_ok s"
  shows "keeps_ok (record_initialization i snapshot s)"
  unfolding record_initialization_def
proof (rule keeps_ok_require [OF assms], goal_cases)
  case (1 p)
  show ?case
  proof (cases "assert_project_transition (pj_status p) ''active''")
    case (Inr v)
    have v: "v = ''active''" "project_step (pj_status p) ''active''"
      using assert_project_transition_Inr [OF Inr project_ok_status [OF 1(1)]] by (simp_all add: project_status_values_def)
    have "project_ok (with_transition p \<lparr>tr_project_id = pj_project_id p, tr_from_status = pj_status p, tr_to_status = v,
        tr_reason_code = ''cwo_initialization'', tr_actor_role = r, tr_trace_id = t, tr_timestamp = now, tr_metadata = []\<rparr>)" for r t now
      by (rule project_ok_transition [OF 1(1)]) (use v in auto)
    with Inr assms show ?thesis by (auto simp: Let_def case_prod_beta intro!: upsert_draw_ok)
  qed (use assms in simp)
qed

lemma create_project_ok:
  assumes "gov_ok s"
  shows "keeps_ok (create_project name objective i status meta s)"
proof -
  have fresh: "project_ok \<lparr>pj_project_id = c, pj_name = n, pj_objective = ob, pj_status = ''proposed'', pj_created_at = t, pj_updated_at = t,
      pj_metadata = m, pj_transitions = [], pj_proposal_messages = [], pj_proposal_approvals = [], pj_completion_report = None,
      pj_completion_approvals = [], pj_owner_notified_at = None, pj_owner_notification_trace_id = None, pj_initialization = None,
      pj_workforce_bindings = []\<rparr>" for c n ob t m
    by (simp add: project_ok_def history_legal_def approvals_ok_def)
  show ?thesis
    using assms gov_ok_projects [OF assms, of "snd (gov_uuid s)"]
    by (auto simp: create_project_def Let_def case_prod_beta intro!: upsert_draw_ok [OF assms] fresh split: sum.splits option.splits)
qed

subsection \<open>Handlers\<close>

lemma keeps_ok_then: "keeps_ok r \<Longrightarrow> (\<And>x s. gov_ok s \<Longrightarrow> keeps_ok (f x s)) \<Longrightarrow> keeps_ok (and_then r f)"
  by (rule run_ok_and_then)

lemma norm_role_idem [simp]: "norm_role (norm_role r) = norm_role r" "py_lower (py_strip (norm_role r)) = norm_role r"
  "py_strip (norm_role r) = norm_role r" "py_lower (norm_role r) = norm_role r"
  by (simp_all add: norm_role_def py_strip_lower)

lemma require_keeps_ok: "gov_ok s \<Longrightarrow> keeps_ok (require_project i s)"
  using require_project_ok [of s i] by (auto elim: run_ok_mono)

lemma lifecycle_keeps_ok:
  assumes "gov_ok s" "next_status \<in> set project_status_values" "next_status \<noteq> ''approved''"
  shows "keeps_ok (transition_project_lifecycle next_status roles action i role trace reason s)"
  using assms by (auto simp: transition_project_lifecycle_def refuse_def
      intro!: keeps_ok_then require_keeps_ok transition_keeps_ok)

lemma handlers_keep_ok:
  assumes "gov_ok s"
  shows "keeps_ok (submit_proposal_message pid aid role body trace s)"
    and "keeps_ok (create_project_proposal aid role trace name objective pid_opt meta s)"
    and "keeps_ok (approve_project_proposal pid aid role trace s)"
    and "keeps_ok (submit_completion_report_by_project_manager pid aid role trace summary mr s)"
    and "keeps_ok (record_completion_approval_by_c_suite pid aid role trace s)"
    and "keeps_ok (finalize_project_completion_by_c_suite pid role trace reason s)"
proof -
  show "keeps_ok (submit_proposal_message pid aid role body trace s)"
    using assms by (simp add: submit_proposal_message_def refuse_def add_proposal_message_ok)
  show "keeps_ok (create_project_proposal aid role trace name objective pid_opt meta s)"
    using assms by (simp add: create_project_proposal_def refuse_def create_project_ok Let_def)
  have "norm_role role \<in> set triad \<Longrightarrow> keeps_ok (record_proposal_approval pid aid (norm_role role) trace s)"
    by (rule record_proposal_approval_ok [OF assms]) (simp only: norm_role_idem)
  then show "keeps_ok (approve_project_proposal pid aid role trace s)"
    using assms unfolding approve_project_proposal_def refuse_def by (auto intro!: keeps_ok_then)
  show "keeps_ok (submit_completion_report_by_project_manager pid aid role trace summary mr s)"
    using assms by (auto simp: submit_completion_report_by_project_manager_def refuse_def
        intro!: keeps_ok_then submit_completion_report_ok require_keeps_ok)
  have "norm_role role \<in> set c_suite \<Longrightarrow> keeps_ok (record_completion_approval pid aid (norm_role role) trace s)"
    by (rule record_completion_approval_ok [OF assms]) (simp only: norm_role_idem)
  then show "keeps_ok (record_completion_approval_by_c_suite pid aid role trace s)"
    using assms unfolding record_completion_approval_by_c_suite_def refuse_def by (auto intro!: keeps_ok_then)
  show "keeps_ok (finalize_project_completion_by_c_suite pid role trace reason s)"
    using assms by (auto simp: finalize_project_completion_by_c_suite_def refuse_def project_status_values_def
        intro!: keeps_ok_then require_keeps_ok record_completion_owner_notified_ok transition_keeps_ok)
qed

lemma lifecycle_handlers_keep_ok:
  assumes "gov_ok s"
  shows "keeps_ok (pause_project_by_governance pid role trace reason s)"
    and "keeps_ok (resume_project_by_governance pid role trace reason s)"
    and "keeps_ok (terminate_project_by_governance pid role trace reason s)"
    and "keeps_ok (archive_project_by_governance pid role trace reason s)"
  using assms
  by (simp_all add: pause_project_by_governance_def resume_project_by_governance_def terminate_project_by_governance_def
      archive_project_by_governance_def lifecycle_keeps_ok project_status_values_def)

lemma cwo_handlers_keep_ok:
  assumes "gov_ok s"
  shows "keeps_ok (initialize_project_by_cwo sha sysroot pid aid role trace objective cur quota mp wp s)"
    and "keeps_ok (bind_workforce_template_by_cwo sha' pid aid role trace wrole template profile prompt s)"
proof -
  have "gov_ok (snd (gov_now s)\<lparr>gv_charters := c\<rparr>)" for c using assms by (rule gov_ok_projects) simp
  then show "keeps_ok (initialize_project_by_cwo sha sysroot pid aid role trace objective cur quota mp wp s)"
    using assms by (simp add: initialize_project_by_cwo_def refuse_def Let_def case_prod_beta record_initialization_ok)
  have "gov_ok (snd (gov_now (snd (gov_uuid s))))" using assms by (rule gov_ok_projects) simp
  then show "keeps_ok (bind_workforce_template_by_cwo sha' pid aid role trace wrole template profile prompt s)"
    using assms by (auto simp: bind_workforce_template_by_cwo_def refuse_def Let_def case_prod_beta
        intro!: keeps_ok_then bind_workforce_ok split: sum.splits)
qed

lemma gov_step_ok: "gov_step s s' \<Longrightarrow> gov_ok s \<Longrightarrow> gov_ok s'"
  by (erule gov_step.cases; metis handlers_keep_ok lifecycle_handlers_keep_ok cwo_handlers_keep_ok keeps_ok_snd snd_conv)

lemma gov_steps_ok: "gov_step\<^sup>*\<^sup>* s s' \<Longrightarrow> gov_ok s \<Longrightarrow> gov_ok s'"
  by (induction rule: rtranclp_induct) (auto intro: gov_step_ok)

definition no_projects :: "py_runtime \<Rightarrow> governance" where
  "no_projects rt = \<lparr>gv_projects = [], gv_charters = [], gv_runtime = rt\<rparr>"

lemma gov_ok_no_projects [inv_intros]: "gov_ok (no_projects rt)"
  by (simp add: gov_ok_def no_projects_def)

subsection \<open>One transition on a stored project\<close>

lemma require_stored: "get_project s i = Inr (Some p) \<Longrightarrow> require_project i s = (Inr p, s)"
  by (simp add: require_project_def)

lemma transition_stored:
  assumes "gov_ok s" "get_project s i = Inr (Some p)" "project_step (pj_status p) nxt" "nxt \<noteq> ''completed''"
    and "pj_status p = ''proposed'' \<Longrightarrow> has_roles triad (pj_proposal_approvals p)"
  shows "\<exists>p' q s'. transition_project_status i nxt reason role trace meta s = (Inr p', s') \<and> pj_status p' = nxt \<and>
     pj_proposal_approvals p' = pj_proposal_approvals p \<and> get_project s' i = Inr (Some q) \<and> pj_status q = nxt \<and>
     pj_proposal_approvals q = pj_proposal_approvals p \<and> (pj_initialization q = None) = (pj_initialization p = None)"
proof -
  have p: "project_ok p" "pj_project_id p = i" using get_project_ok [OF assms(1), of i] assms(2) by auto
  have known: "pj_status p \<in> set project_status_values" "nxt \<in> set project_status_values"
    using project_step_known [OF assms(3)] by auto
  define t where "t = \<lparr>tr_project_id = pj_project_id p, tr_from_status = pj_status p, tr_to_status = nxt,
     tr_reason_code = py_strip reason, tr_actor_role = py_strip role, tr_trace_id = py_strip trace,
     tr_timestamp = fst (gov_now s), tr_metadata = sorted_pairs meta\<rparr>"
  have run: "transition_project_status i nxt reason role trace meta s =
      (Inr (with_transition p t), upsert_project (with_transition p t) (snd (gov_now s)))"
    using assms(3,4) known
    by (simp add: transition_project_status_def require_stored [OF assms(2)] assert_project_transition_def parse_project_status_id
        t_def Let_def case_prod_beta)
  have "project_ok (with_transition p t)"
    by (rule project_ok_transition [OF p(1)]) (use assms(3-5) in \<open>auto simp: t_def\<close>)
  from get_after_upsert [OF gov_ok_projects [OF assms(1), of "snd (gov_now s)"] this] p(2) run show ?thesis
    by (auto simp: with_transition_def t_def)
qed

section \<open>Properties\<close>

text \<open>
  C6: the governance rules hold of every stored project. Over any history of handler calls from the
  empty table, with any actors and arguments, every stored project can be read; its transitions follow the life
  cycle from \<^verbatim>\<open>proposed\<close> to its status, each from where the last one ended, and nothing follows an
  archiving; each role approved at most once; a project beyond \<^verbatim>\<open>proposed\<close> has the approvals of
  owner, CEO and CWO; and a project that was ever completed has a completion report, the completion
  approvals of CEO and CWO, and a recorded owner notification.
\<close>

theorem governed_projects_sound:
  assumes "gov_step\<^sup>*\<^sup>* (no_projects rt) s" and "find_project s i = Some row"
  shows "\<exists>p. get_project s i = Inr (Some p) \<and>
     legal_path project_step ''proposed'' (map tr_to_status (pj_transitions p)) \<and>
     pj_status p = last (''proposed'' # map tr_to_status (pj_transitions p)) \<and>
     map tr_from_status (pj_transitions p) = butlast (''proposed'' # map tr_to_status (pj_transitions p)) \<and>
     (\<forall>us t ts. map tr_to_status (pj_transitions p) = us @ t # ts \<longrightarrow> t = ''archived'' \<longrightarrow> ts = []) \<and>
     distinct (map ap_actor_role (pj_proposal_approvals p)) \<and> distinct (map ap_actor_role (pj_completion_approvals p)) \<and>
     (pj_status p \<noteq> ''proposed'' \<longrightarrow> {''owner'', ''ceo'', ''cwo''} \<subseteq> ap_actor_role ` set (pj_proposal_approvals p)) \<and>
     (''completed'' \<in> tr_to_status ` set (pj_transitions p) \<longrightarrow> pj_completion_report p \<noteq> None \<and>
        {''ceo'', ''cwo''} \<subseteq> ap_actor_role ` set (pj_completion_approvals p) \<and> pj_owner_notified_at p \<noteq> None)"
proof -
  have "gov_ok s" using assms(1) gov_ok_no_projects by (rule gov_steps_ok)
  with get_project_ok [OF this, of i] assms(2) obtain p where p: "get_project s i = Inr (Some p)" "project_ok p" by auto
  then have "legal_path project_step ''proposed'' (map tr_to_status (pj_transitions p))"
    by (simp add: project_ok_def history_legal_def Let_def)
  then have "ts = []" if "map tr_to_status (pj_transitions p) = us @ t # ts" "t = ''archived''" for us t ts
    using that project_machine.terminal_only_last [of "''proposed''" us t ts] by simp
  with p show ?thesis
    by (auto simp: project_ok_def history_legal_def approvals_ok_def has_roles_def Let_def)
qed

text \<open>
  What an approval does. In every reached state, when an owner, CEO or CWO approves a stored project that is
  \<^verbatim>\<open>proposed\<close> and has no approval of that role, the call returns, the stored project has that
  approval appended, by that actor, and its status is \<^verbatim>\<open>approved\<close> exactly if now all three roles
  have approved, otherwise still \<^verbatim>\<open>proposed\<close>.
\<close>

theorem proposal_approval_outcome:
  assumes "gov_step\<^sup>*\<^sup>* (no_projects rt) s" and "get_project s i = Inr (Some p)" and "pj_status p = ''proposed''"
    and "norm_role role = r" and "r \<in> {''owner'', ''ceo'', ''cwo''}" and "r \<notin> ap_actor_role ` set (pj_proposal_approvals p)"
  shows "\<exists>p' roles s' q a. approve_project_proposal i actor role trace s = (Inr (p', True, roles), s') \<and>
     get_project s' i = Inr (Some q) \<and> pj_proposal_approvals q = pj_proposal_approvals p @ [a] \<and>
     ap_actor_role a = r \<and> ap_actor_id a = py_strip actor \<and> pj_status p' = pj_status q \<and>
     pj_status q = (if {''owner'', ''ceo'', ''cwo''} \<subseteq> insert r (ap_actor_role ` set (pj_proposal_approvals p))
                    then ''approved'' else ''proposed'')"
proof -
  have ok: "gov_ok s" using assms(1) gov_ok_no_projects by (rule gov_steps_ok)
  have p: "project_ok p" "pj_project_id p = i" using get_project_ok [OF ok, of i] assms(2) by auto
  obtain a s2 where a: "new_approval i actor r trace s = (a, s2)" by (cases "new_approval i actor r trace s")
  have a_fields: "ap_actor_role a = r" "ap_actor_id a = py_strip actor"
    using a by (auto simp: new_approval_def Let_def split: prod.splits)
  define q where "q = p\<lparr>pj_updated_at := ap_timestamp a, pj_proposal_approvals := pj_proposal_approvals p @ [a]\<rparr>"
  have none: "find (\<lambda>b. ap_actor_role b = r) (pj_proposal_approvals p) = None" using assms(6) by (auto simp: find_None_iff)
  have rows: "gv_projects s2 = gv_projects s" using gov_draw_frame(5) [of i actor r trace s] a by simp
  have q: "project_ok q" "pj_project_id q = i" "pj_status q = ''proposed''" "pj_proposal_approvals q = pj_proposal_approvals p @ [a]"
    using p assms(3,5) approvals_ok_append [of triad "pj_proposal_approvals p" a] a_fields none
    by (auto simp: q_def project_ok_def history_legal_def has_roles_def)
  have role: "r \<in> set triad" "py_strip r = r"
    using assms(4,5) norm_role_idem(3) [of role] by (simp_all only: set_simps)
  let ?s3 = "upsert_project q s2"
  have ok3: "gov_ok ?s3" using upsert_draw_ok [OF ok rows q(1)] .
  obtain q3 where got: "get_project ?s3 i = Inr (Some q3)" "pj_status q3 = ''proposed''" "pj_proposal_approvals q3 = pj_proposal_approvals q"
    using get_after_upsert [OF gov_ok_projects [OF ok rows] q(1)] q(2,3) by auto
  have run: "record_proposal_approval i actor r trace s =
      (if has_roles triad (pj_proposal_approvals q)
       then and_then (transition_project_status i ''approved'' ''proposal_triad_approved'' r trace None ?s3)
              (\<lambda>promoted s4. (Inr (promoted, True), s4))
       else (Inr (q, True), ?s3))"
    using assms(3) none a q(4)
    by (simp add: record_proposal_approval_def Let_def require_stored [OF assms(2)] role(2) q_def [symmetric])
  have complete: "has_roles triad (pj_proposal_approvals q) \<longleftrightarrow>
      {''owner'', ''ceo'', ''cwo''} \<subseteq> insert r (ap_actor_role ` set (pj_proposal_approvals p))"
    using a_fields by (simp add: has_roles_def q(4))
  show ?thesis
  proof (cases "has_roles triad (pj_proposal_approvals q)")
    case True
    from transition_stored [OF ok3 got(1), of "''approved''" "''proposal_triad_approved''" r trace None] got True obtain p' q' s' where
      "transition_project_status i ''approved'' ''proposal_triad_approved'' r trace None ?s3 = (Inr p', s')" "pj_status p' = ''approved''"
      "get_project s' i = Inr (Some q')" "pj_status q' = ''approved''" "pj_proposal_approvals q' = pj_proposal_approvals q"
      by (auto simp: status_simps)
    with True complete run role(1) q(4) a_fields show ?thesis by (simp add: approve_project_proposal_def assms(4))
  next
    case False
    have partial: "\<not> {''owner'', ''ceo'', ''cwo''} \<subseteq> insert r (ap_actor_role ` set (pj_proposal_approvals p))"
      using False complete by blast
    have "record_proposal_approval i actor r trace s = (Inr (q, True), ?s3)" using run False by simp
    then have "approve_project_proposal i actor role trace s = (Inr (q, True, approval_roles (pj_proposal_approvals q)), ?s3)"
      unfolding approve_project_proposal_def assms(4) using role(1) by simp
    then show ?thesis unfolding if_not_P [OF partial] using q got a_fields by auto
  qed
qed

text \<open>
  Resuming starts a project that was never initialized. In every reached state, a project manager,
  CWO or CEO who resumes a stored project that is \<^verbatim>\<open>approved\<close> (it was never paused) and has no initialization
  snapshot is not refused: the stored project becomes \<^verbatim>\<open>active\<close>, still without objective, budget, or charter.
\<close>

theorem resume_activates_uninitialized:
  assumes "gov_step\<^sup>*\<^sup>* (no_projects rt) s" and "get_project s i = Inr (Some p)" and "pj_status p = ''approved''"
    and "pj_initialization p = None" and "norm_role role \<in> {''project_manager'', ''cwo'', ''ceo''}"
  shows "\<exists>p' q s'. resume_project_by_governance i role trace reason s = (Inr (p', ''approved'', reason), s') \<and>
     get_project s' i = Inr (Some q) \<and> pj_status q = ''active'' \<and> pj_initialization q = None"
proof -
  have ok: "gov_ok s" using assms(1) gov_ok_no_projects by (rule gov_steps_ok)
  from transition_stored [OF ok assms(2), of "''active''" reason "norm_role role" trace None] assms(3,4) obtain p' q s' where
    "transition_project_status i ''active'' reason (norm_role role) trace None s = (Inr p', s')"
    "get_project s' i = Inr (Some q)" "pj_status q = ''active''" "pj_initialization q = None"
    by (auto simp: status_simps)
  with assms(3,5) show ?thesis
    by (simp add: resume_project_by_governance_def transition_project_lifecycle_def require_stored [OF assms(2)])
qed

text \<open>
  A refused finalization leaves its mark. In every reached state, when a CEO or CWO finalizes a stored project
  that has no completion report and no recorded owner notification, whatever its status, the call fails, and the
  stored project has the owner notification recorded, its status unchanged.
\<close>

theorem refused_finalize_notifies:
  assumes "gov_step\<^sup>*\<^sup>* (no_projects rt) s" and "get_project s i = Inr (Some p)" and "pj_completion_report p = None"
    and "pj_owner_notified_at p = None" and "norm_role role \<in> {''ceo'', ''cwo''}"
  shows "\<exists>code m q s'. finalize_project_completion_by_c_suite i role trace reason s = (Inl (CodedError code m), s') \<and>
     get_project s' i = Inr (Some q) \<and> pj_owner_notified_at q \<noteq> None \<and> pj_status q = pj_status p"
proof -
  have ok: "gov_ok s" using assms(1) gov_ok_no_projects by (rule gov_steps_ok)
  have p: "project_ok p" "pj_project_id p = i" using get_project_ok [OF ok, of i] assms(2) by auto
  obtain now s2 where now: "gov_now s = (now, s2)" by (cases "gov_now s")
  define q where "q = p\<lparr>pj_updated_at := now, pj_owner_notified_at := Some now, pj_owner_notification_trace_id := Some (py_strip trace)\<rparr>"
  have q: "project_ok q" "pj_project_id q = i" "pj_status q = pj_status p" "pj_completion_report q = None" "pj_owner_notified_at q \<noteq> None"
    using p assms(3) by (auto simp: q_def project_ok_def history_legal_def)
  let ?s3 = "upsert_project q s2"
  have notified: "record_completion_owner_notified i trace s = (Inr q, ?s3)"
    by (simp add: record_completion_owner_notified_def require_stored [OF assms(2)] now q_def Let_def)
  have s2: "gov_ok s2" using gov_ok_projects [OF ok] gov_draw_frame(1) [of s] now by simp
  obtain q3 where got: "get_project ?s3 i = Inr (Some q3)" "pj_status q3 = pj_status p" "pj_completion_report q3 = None"
      "pj_owner_notified_at q3 \<noteq> None"
    using get_after_upsert [OF s2 q(1)] q by auto
  have "\<exists>code m. transition_project_status i ''completed'' reason (norm_role role) trace None ?s3 = (Inl (CodedError code m), ?s3)"
    using got(2,3) project_ok_status [OF p(1)] assms(5)
    by (simp add: transition_project_status_def require_stored [OF got(1)] assert_project_transition_def parse_project_status_id
        parse_project_status_id [of "''completed''"] project_status_values_def assert_completion_transition_allowed_def)
  then obtain code m where
    "transition_project_status i ''completed'' reason (norm_role role) trace None ?s3 = (Inl (CodedError code m), ?s3)" by blast
  then have "finalize_project_completion_by_c_suite i role trace reason s = (Inl (CodedError code m), ?s3)"
    using assms(4,5) by (simp add: finalize_project_completion_by_c_suite_def require_stored [OF assms(2)] notified)
  with got show ?thesis by blast
qed

section \<open>Witnesses\<close>

definition demo_rt :: py_runtime where
  "demo_rt = \<lparr>rt_uuid_seq = (\<lambda>n. replicate n CHR ''u''), rt_uuid_pos = 0, rt_clock_seq = int, rt_clock_pos = 0\<rparr>"

definition demo_created :: governance where
  "demo_created = snd (create_project_proposal ''o-1'' ''owner'' ''tr'' ''Site'' ''Launch'' (Some ''p-1'') None (no_projects demo_rt))"

definition demo_approve :: "string \<Rightarrow> governance \<Rightarrow> governance" where
  "demo_approve role s = snd (approve_project_proposal ''p-1'' role role ''tr'' s)"

definition demo_approved :: governance where
  "demo_approved = demo_approve ''cwo'' (demo_approve ''ceo'' (demo_approve '' Owner '' demo_created))"

lemma demo_reached:
  "gov_step\<^sup>*\<^sup>* (no_projects demo_rt) demo_created" "gov_step\<^sup>*\<^sup>* (no_projects demo_rt) demo_approved"
proof -
  have "gov_step (no_projects demo_rt) demo_created"
    unfolding demo_created_def by (rule gov_step.create) (rule prod.collapse [symmetric])
  then show created: "gov_step\<^sup>*\<^sup>* (no_projects demo_rt) demo_created" ..
  have "gov_step s (demo_approve role s)" for role s
    unfolding demo_approve_def by (rule gov_step.approve) (rule prod.collapse [symmetric])
  with created show "gov_step\<^sup>*\<^sup>* (no_projects demo_rt) demo_approved"
    unfolding demo_approved_def by (meson rtranclp.rtrancl_into_rtrancl)
qed

lemma demo_created_project:
  "\<exists>p. get_project demo_created ''p-1'' = Inr (Some p) \<and> pj_status p = ''proposed'' \<and> pj_proposal_approvals p = [] \<and>
     pj_completion_report p = None \<and> pj_owner_notified_at p = None"
proof -
  have "(case get_project demo_created ''p-1'' of Inr (Some p) \<Rightarrow> pj_status p = ''proposed'' \<and> pj_proposal_approvals p = [] \<and>
     pj_completion_report p = None \<and> pj_owner_notified_at p = None | _ \<Rightarrow> False)" by code_simp
  then show ?thesis by (auto split: sum.splits option.splits)
qed

lemma demo_approved_project:
  "\<exists>p. get_project demo_approved ''p-1'' = Inr (Some p) \<and> pj_status p = ''approved'' \<and> pj_initialization p = None"
proof -
  have "(case get_project demo_approved ''p-1'' of Inr (Some p) \<Rightarrow> pj_status p = ''approved'' \<and> pj_initialization p = None | _ \<Rightarrow> False)"
    by code_simp
  then show ?thesis by (auto split: sum.splits option.splits)
qed

lemma governed_projects_sound_witness:
  "\<exists>p. get_project demo_approved ''p-1'' = Inr (Some p) \<and>
     pj_status p = last (''proposed'' # map tr_to_status (pj_transitions p)) \<and> pj_status p = ''approved'' \<and>
     {''owner'', ''ceo'', ''cwo''} \<subseteq> ap_actor_role ` set (pj_proposal_approvals p)"
proof -
  obtain p where p: "get_project demo_approved ''p-1'' = Inr (Some p)" "pj_status p = ''approved''"
    using demo_approved_project by blast
  then obtain row where "find_project demo_approved ''p-1'' = Some row"
    by (auto simp: get_project_def split: option.splits)
  from governed_projects_sound [OF demo_reached(2) this] p show ?thesis by auto
qed

lemma proposal_approval_outcome_witness:
  "\<exists>p' roles s' q a. approve_project_proposal ''p-1'' ''ceo'' '' CEO '' ''tr'' demo_created = (Inr (p', True, roles), s') \<and>
     get_project s' ''p-1'' = Inr (Some q) \<and> pj_proposal_approvals q = [a] \<and> ap_actor_role a = ''ceo'' \<and> pj_status q = ''proposed''"
proof -
  obtain p where p: "get_project demo_created ''p-1'' = Inr (Some p)" "pj_status p = ''proposed''" "pj_proposal_approvals p = []"
    using demo_created_project by blast
  have "norm_role '' CEO '' = ''ceo''" by code_simp
  from proposal_approval_outcome [OF demo_reached(1) p(1,2) this, of "''ceo''" "''tr''"] p(3) show ?thesis by force
qed

lemma resume_activates_uninitialized_witness:
  "\<exists>p' q s'. resume_project_by_governance ''p-1'' ''project_manager'' ''tr'' ''go'' demo_approved = (Inr (p', ''approved'', ''go''), s') \<and>
     get_project s' ''p-1'' = Inr (Some q) \<and> pj_status q = ''active'' \<and> pj_initialization q = None"
proof -
  obtain p where p: "get_project demo_approved ''p-1'' = Inr (Some p)" "pj_status p = ''approved''" "pj_initialization p = None"
    using demo_approved_project by blast
  have "norm_role ''project_manager'' \<in> {''project_manager'', ''cwo'', ''ceo''}" by code_simp
  from resume_activates_uninitialized [OF demo_reached(2) p this] show ?thesis .
qed

lemma refused_finalize_notifies_witness:
  "\<exists>code m q s'. finalize_project_completion_by_c_suite ''p-1'' ''ceo'' ''tr'' ''done'' demo_created = (Inl (CodedError code m), s') \<and>
     get_project s' ''p-1'' = Inr (Some q) \<and> pj_owner_notified_at q \<noteq> None \<and> pj_status q = ''proposed''"
proof -
  obtain p where p: "get_project demo_created ''p-1'' = Inr (Some p)" "pj_completion_report p = None" "pj_owner_notified_at p = None"
      "pj_status p = ''proposed''"
    using demo_created_project by blast
  have "norm_role ''ceo'' \<in> {''ceo'', ''cwo''}" by code_simp
  from refused_finalize_notifies [OF demo_reached(1) p(1-3) this, of "''tr''" "''done''"] p(4) show ?thesis by simp
qed

end
