(* ===== verification/Artifacts.thy ===== *)
theory Artifacts
  imports Audit_Trail
begin

text \<open>
  Project artifacts.
  \<^item> \<^verbatim>\<open>data_access/repositories/artifacts.py\<close>: the document policy (\<open>mvp_artifact_type_caps\<close>,
    \<open>cap_for_type\<close>), pointers and write contexts;
  \<^item> \<^verbatim>\<open>data_access/artifact_file_store.py\<close>: \<open>store_write\<close>, \<open>store_read\<close>;
  \<^item> \<^verbatim>\<open>data_access/repositories/postgres/governance_artifact_repository.py\<close>: every operation of
    \<^verbatim>\<open>PostgresGovernanceArtifactRepository\<close>;
  \<^item> \<^verbatim>\<open>agents/administrator/document_policy.py\<close>: the checks of \<^verbatim>\<open>DocumentPolicyEnforcer\<close>.

  A path is the list of its components; \<open>resolve\<close> is \<^verbatim>\<open>Path.resolve\<close> in a tree without symbolic
  links. Reading a text file translates line ends as Python's text mode does. Refusals of the operating
  system are a parameter: the text of the error it raises for a path, if any. SHA-256 is a parameter.
  The instant and the identifier of a write are arguments.
\<close>

section \<open>The document policy\<close>

definition mvp_artifact_type_caps :: "(string \<times> nat) list" where
  "mvp_artifact_type_caps =
     [(''project_charter'', 1), (''scope_statement'', 1), (''budget_plan'', 1), (''success_metrics'', 1),
      (''workforce_plan'', 1), (''execution_plan'', 1), (''decision_log'', 4), (''risk_register'', 3),
      (''progress_report'', 6), (''completion_report'', 1), (''cso_review'', 12), (''ceo_proposal_decision'', 12),
      (''ceo_coapproval'', 8), (''cwo_coapproval'', 8), (''auditor_finding'', 32), (''auditor_enforcement'', 32),
      (''auditor_owner_escalation'', 32), (''auditor_ceo_notification'', 32), (''auditor_owner_alert'', 32),
      (''administrator_retention'', 32), (''administrator_containment'', 32), (''administrator_owner_notification'', 32),
      (''administrator_ceo_notification'', 32), (''administrator_owner_alert'', 32)]"

definition governance_event_artifact_types :: "string list" where
  "governance_event_artifact_types =
     [''cso_review'', ''ceo_proposal_decision'', ''ceo_coapproval'', ''cwo_coapproval'', ''auditor_finding'',
      ''auditor_enforcement'', ''auditor_owner_escalation'', ''auditor_ceo_notification'', ''auditor_owner_alert'',
      ''administrator_retention'', ''administrator_containment'', ''administrator_owner_notification'',
      ''administrator_ceo_notification'', ''administrator_owner_alert'']"

text \<open>The set the policy module declares, and the one the repository uses.\<close>

definition policy_append_only_types :: "string list" where
  "policy_append_only_types = [''decision_log'', ''progress_report'', ''completion_report''] @ governance_event_artifact_types"

definition append_only_artifact_types :: "string list" where
  "append_only_artifact_types = [''decision_log'', ''progress_report'', ''completion_report'']"

definition project_writable_states :: "string list" where
  "project_writable_states = [''proposed'', ''approved'', ''active'', ''paused'']"

definition project_manager_forbidden_write_types :: "string list" where
  "project_manager_forbidden_write_types = [''project_charter'', ''workforce_plan'']"

datatype artifact_error =
    ProjectArtifactRepositoryError string string
  | ArtifactFileStoreError string string

record artifact_pointer =
  pt_project_id :: string
  pt_artifact_type :: string
  pt_revision_no :: nat
  pt_storage_uri :: string
  pt_content_hash :: string
  pt_created_at :: time
  pt_byte_size :: nat

record write_context =
  wc_actor_role :: string
  wc_project_status :: string
  wc_approval_roles :: "string list"

type_synonym path = "string list"

record file_store =
  fs_root :: path
  fs_cwd :: path

record artifact_config =
  ac_type_caps :: "(string \<times> nat) list"
  ac_total_cap :: nat
  ac_store :: "file_store option"

definition mvp_defaults :: "file_store option \<Rightarrow> artifact_config" where
  "mvp_defaults store = \<lparr>ac_type_caps = mvp_artifact_type_caps, ac_total_cap = 20, ac_store = store\<rparr>"

definition cap_for_type :: "artifact_config \<Rightarrow> string \<Rightarrow> artifact_error + nat" where
  "cap_for_type cfg artifact_type =
     (case map_of (ac_type_caps cfg) artifact_type of
        None \<Rightarrow> Inl (ProjectArtifactRepositoryError ''artifact_type_not_allowed''
               (''artifact_type is not allowed by policy: '' @ artifact_type))
      | Some cap \<Rightarrow> Inr cap)"

section \<open>The file store\<close>

definition path_parts :: "string \<Rightarrow> path" where
  "path_parts s = filter (\<lambda>w. w \<noteq> [] \<and> w \<noteq> ''.'') (py_split CHR ''/'' s)"

text \<open>\<^verbatim>\<open>base / s\<close>: an absolute right operand replaces the base.\<close>

definition join_path :: "path \<Rightarrow> string \<Rightarrow> path" where
  "join_path base s = (if py_startswith s ''/'' then path_parts s else base @ path_parts s)"

definition resolve_step :: "path \<Rightarrow> string \<Rightarrow> path" where
  "resolve_step acc w = (if w = ''..'' then butlast acc else acc @ [w])"

definition resolve :: "path \<Rightarrow> path" where
  "resolve p = foldl resolve_step [] p"

definition show_path :: "path \<Rightarrow> string" where
  "show_path p = (if p = [] then ''/'' else concat (map (\<lambda>w. CHR ''/'' # w) p))"

text \<open>\<^verbatim>\<open>str(Path(s))\<close>.\<close>

definition path_text :: "string \<Rightarrow> string" where
  "path_text s = (if py_startswith s ''/'' then show_path (path_parts s)
     else if path_parts s = [] then ''.'' else py_join ''/'' (path_parts s))"

definition pad3 :: "nat \<Rightarrow> string" where
  "pad3 n = replicate (3 - length (show_nat n)) CHR ''0'' @ show_nat n"

definition projects_root :: "file_store \<Rightarrow> path" where
  "projects_root st = fs_root st @ [''projects'']"

definition canonical_path :: "file_store \<Rightarrow> string \<Rightarrow> string \<Rightarrow> nat \<Rightarrow> path" where
  "canonical_path st project_id artifact_type version_no =
     join_path (join_path (projects_root st) project_id) (artifact_type @ ''-v'' @ pad3 version_no @ ''.md'')"

definition assert_within_projects_root :: "file_store \<Rightarrow> path \<Rightarrow> artifact_error + unit" where
  "assert_within_projects_root st p =
     (let resolved = resolve p; rt = resolve (projects_root st)
      in if take (length rt) resolved = rt then Inr ()
         else Inl (ArtifactFileStoreError ''artifact_file_store_path_traversal''
                (''path escapes projects root: '' @ show_path resolved)))"

text \<open>
  A tree of files: what is at each absolute path without dots, directories included. The root is always there.
  The operating system follows a path as it is written: every component before the last has to be a directory.
\<close>

datatype file_entry = Regular string | Directory

type_synonym files = "(path \<times> file_entry) list"

datatype os_failure = NoEntry | NotADirectory | FileExists | IsADirectory | Refused string

definition os_failure_text :: "os_failure \<Rightarrow> string \<Rightarrow> string" where
  "os_failure_text e p = (case e of
       NoEntry \<Rightarrow> ''[Errno 2] No such file or directory: '' @ py_repr p
     | NotADirectory \<Rightarrow> ''[Errno 20] Not a directory: '' @ py_repr p
     | FileExists \<Rightarrow> ''[Errno 17] File exists: '' @ py_repr p
     | IsADirectory \<Rightarrow> ''[Errno 21] Is a directory: '' @ py_repr p
     | Refused m \<Rightarrow> m)"

fun walk :: "files \<Rightarrow> path \<Rightarrow> path \<Rightarrow> os_failure + path" where
  "walk fs d [] = Inr d"
| "walk fs d (w # p) =
     (if w = ''..'' then walk fs (butlast d) p
      else case map_of fs (d @ [w]) of
             None \<Rightarrow> Inl NoEntry
           | Some (Regular _) \<Rightarrow> Inl NotADirectory
           | Some Directory \<Rightarrow> walk fs (d @ [w]) p)"

text \<open>What \<^verbatim>\<open>os.stat\<close> finds from a directory.\<close>

definition entry_at :: "files \<Rightarrow> path \<Rightarrow> path \<Rightarrow> file_entry option" where
  "entry_at fs d p =
     (if p = [] then Some Directory
      else case walk fs d (butlast p) of
             Inl _ \<Rightarrow> None
           | Inr d' \<Rightarrow> (if last p = ''..'' then Some Directory else map_of fs (d' @ [last p])))"

definition os_mkdir :: "(path \<Rightarrow> string option) \<Rightarrow> path \<Rightarrow> files \<Rightarrow> os_failure + files" where
  "os_mkdir os_error p fs =
     (if p = [] then Inl FileExists
      else case walk fs [] (butlast p) of
             Inl e \<Rightarrow> Inl e
           | Inr d \<Rightarrow>
               (if last p = ''..'' \<or> map_of fs (d @ [last p]) \<noteq> None then Inl FileExists
                else case os_error (d @ [last p]) of
                       Some m \<Rightarrow> Inl (Refused m)
                     | None \<Rightarrow> Inr (dict_put fs (d @ [last p]) Directory)))"

text \<open>
  \<^verbatim>\<open>Path.mkdir(parents=True, exist_ok=True)\<close>: the directory is tried, then its parents, then the directory again; a failure other than a
  missing entry counts only if no directory is there. The failure names the directory it is about.
\<close>

fun make_directories :: "(path \<Rightarrow> string option) \<Rightarrow> path \<Rightarrow> files \<Rightarrow> (os_failure \<times> path, unit, files) run" where
  "make_directories os_error p fs =
     (case os_mkdir os_error p fs of
        Inr fs' \<Rightarrow> (Inr (), fs')
      | Inl e \<Rightarrow>
          (if p \<noteq> [] \<and> e = NoEntry
           then (case make_directories os_error (butlast p) fs of
                   (Inl failure, fs1) \<Rightarrow> (Inl failure, fs1)
                 | (Inr _, fs1) \<Rightarrow>
                     (case os_mkdir os_error p fs1 of
                        Inr fs2 \<Rightarrow> (Inr (), fs2)
                      | Inl e1 \<Rightarrow> if e1 \<noteq> NoEntry \<and> entry_at fs1 [] p = Some Directory then (Inr (), fs1) else (Inl (e1, p), fs1)))
           else if entry_at fs [] p = Some Directory then (Inr (), fs) else (Inl (e, p), fs)))"

declare make_directories.simps [simp del]

definition write_text :: "(path \<Rightarrow> string option) \<Rightarrow> path \<Rightarrow> string \<Rightarrow> files \<Rightarrow> os_failure + files" where
  "write_text os_error p content fs =
     (if entry_at fs [] p = Some Directory then Inl IsADirectory
      else case walk fs [] (butlast p) of
             Inl e \<Rightarrow> Inl e
           | Inr d \<Rightarrow> (case os_error (d @ [last p]) of
                 Some m \<Rightarrow> Inl (Refused m)
               | None \<Rightarrow> Inr (dict_put fs (d @ [last p]) (Regular content))))"

text \<open>The check is on the resolved path, the system calls are on the path as it is.\<close>

definition store_write ::
  "(string \<Rightarrow> string) \<Rightarrow> (path \<Rightarrow> string option) \<Rightarrow> file_store \<Rightarrow> string \<Rightarrow> string \<Rightarrow> nat \<Rightarrow> string \<Rightarrow> files \<Rightarrow>
   (artifact_error, string \<times> string, files) run" where
  "store_write sha os_error st project_id artifact_type version_no content_md fs =
     (let p = canonical_path st project_id artifact_type version_no
      in case assert_within_projects_root st p of
           Inl e \<Rightarrow> (Inl e, fs)
         | Inr _ \<Rightarrow>
             (case make_directories os_error (butlast p) fs of
                (Inl (e, q), fs1) \<Rightarrow> (Inl (ArtifactFileStoreError ''artifact_file_store_write_error'' (os_failure_text e (show_path q))), fs1)
              | (Inr _, fs1) \<Rightarrow>
                  (case write_text os_error p content_md fs1 of
                     Inl e \<Rightarrow> (Inl (ArtifactFileStoreError ''artifact_file_store_write_error'' (os_failure_text e (show_path p))), fs1)
                   | Inr fs2 \<Rightarrow> (Inr (''file://'' @ show_path (resolve p), sha content_md), fs2))))"

text \<open>Python's text mode reads \<^verbatim>\<open>\r\n\<close> and \<^verbatim>\<open>\r\<close> as \<^verbatim>\<open>\n\<close>.\<close>

fun universal_newlines :: "string \<Rightarrow> string" where
  "universal_newlines [] = []"
| "universal_newlines (c # s) =
     (if c = CHR 0x0D then CHR 0x0A # universal_newlines (if s \<noteq> [] \<and> hd s = CHR 0x0A then tl s else s)
      else c # universal_newlines s)"

definition store_read :: "(path \<Rightarrow> string option) \<Rightarrow> file_store \<Rightarrow> files \<Rightarrow> string \<Rightarrow> artifact_error + string" where
  "store_read os_error st fs storage_uri =
     (if \<not> py_startswith storage_uri ''file://''
      then Inl (ArtifactFileStoreError ''artifact_file_store_scheme_invalid''
             (''storage_uri must start with file://, got: '' @ py_repr storage_uri))
      else let target = drop 7 storage_uri;
               p = join_path (fs_cwd st) target;
               start = (if py_startswith target ''/'' then [] else resolve (fs_cwd st))
           in case assert_within_projects_root st p of
                Inl e \<Rightarrow> Inl e
              | Inr _ \<Rightarrow>
                  (case entry_at fs start (path_parts target) of
                     None \<Rightarrow> Inl (ArtifactFileStoreError ''artifact_file_store_not_found'' (''artifact file not found: '' @ path_text target))
                   | Some entry \<Rightarrow>
                       (case os_error (resolve p) of
                          Some m \<Rightarrow> Inl (ArtifactFileStoreError ''artifact_file_store_read_error'' m)
                        | None \<Rightarrow> (case entry of
                              Regular c \<Rightarrow> Inr (universal_newlines c)
                            | Directory \<Rightarrow> Inl (ArtifactFileStoreError ''artifact_file_store_read_error''
                                (os_failure_text IsADirectory (path_text target)))))))"

section \<open>The repository\<close>

record artifact_row =
  ar_artifact_id :: string
  ar_project_id :: string
  ar_artifact_type :: string
  ar_revision_no :: nat
  ar_storage_uri :: string
  ar_content_hash :: string
  ar_content :: string
  ar_byte_size :: nat
  ar_created_at :: time

record artifact_db =
  ab_rows :: "artifact_row list"
  ab_files :: files

definition is_digit :: "char \<Rightarrow> bool" where
  "is_digit c = (CHR ''0'' \<le> c \<and> c \<le> CHR ''9'')"

definition is_lower_letter :: "char \<Rightarrow> bool" where
  "is_lower_letter c = (CHR ''a'' \<le> c \<and> c \<le> CHR ''z'')"

definition is_letter :: "char \<Rightarrow> bool" where
  "is_letter c = (is_lower_letter c \<or> (CHR ''A'' \<le> c \<and> c \<le> CHR ''Z''))"

text \<open>
  \<^verbatim>\<open>^[A-Za-z0-9][A-Za-z0-9_.-]{0,127}$\<close> and \<^verbatim>\<open>^[a-z][a-z0-9_]{0,63}$\<close>, on texts without
  surrounding white space.
\<close>

fun project_id_pattern :: "string \<Rightarrow> bool" where
  "project_id_pattern [] = False"
| "project_id_pattern (c # s) =
     ((is_letter c \<or> is_digit c) \<and> length s \<le> 127 \<and> list_all (\<lambda>d. is_letter d \<or> is_digit d \<or> d \<in> set ''_.-'') s)"

fun artifact_type_pattern :: "string \<Rightarrow> bool" where
  "artifact_type_pattern [] = False"
| "artifact_type_pattern (c # s) =
     (is_lower_letter c \<and> length s \<le> 63 \<and> list_all (\<lambda>d. is_lower_letter d \<or> is_digit d \<or> d = CHR ''_'') s)"

definition validate_project_id :: "string \<Rightarrow> artifact_error + string" where
  "validate_project_id project_id =
     (let normalized = py_strip project_id
      in if \<not> project_id_pattern normalized
         then Inl (ProjectArtifactRepositoryError ''artifact_project_id_invalid'' (''project_id format invalid: '' @ py_repr project_id))
         else Inr normalized)"

definition validate_artifact_type :: "string \<Rightarrow> artifact_error + string" where
  "validate_artifact_type artifact_type =
     (let normalized = py_lower (py_strip artifact_type)
      in if \<not> artifact_type_pattern normalized
         then Inl (ProjectArtifactRepositoryError ''artifact_type_invalid'' (''artifact_type format invalid: '' @ py_repr artifact_type))
         else Inr normalized)"

definition assert_write_authorization :: "string \<Rightarrow> write_context \<Rightarrow> artifact_error + unit" where
  "assert_write_authorization artifact_type ctx =
     (let actor_role = py_lower (py_strip (wc_actor_role ctx)); project_status = py_lower (py_strip (wc_project_status ctx))
      in if project_status \<notin> set project_writable_states
         then Inl (ProjectArtifactRepositoryError ''artifact_project_not_writable''
                (''project status does not allow artifact writes: '' @ project_status))
         else if actor_role = ''project_manager''
         then (if artifact_type \<in> set project_manager_forbidden_write_types
               then Inl (ProjectArtifactRepositoryError ''artifact_write_forbidden''
                      (''project_manager cannot write artifact type: '' @ artifact_type))
               else Inr ())
         else if actor_role \<in> {''owner'', ''ceo'', ''cwo'', ''auditor'', ''administrator''} then Inr ()
         else Inl (ProjectArtifactRepositoryError ''artifact_write_role_forbidden''
                (''actor role cannot write artifacts: '' @ actor_role)))"

definition assert_total_cap :: "nat \<Rightarrow> nat \<Rightarrow> artifact_error + unit" where
  "assert_total_cap total_count cap =
     (if total_count \<ge> cap
      then Inl (ProjectArtifactRepositoryError ''artifact_project_document_cap_exceeded''
             (''project total active-document cap exceeded: ('' @ show_nat total_count @ ''/'' @ show_nat cap @ '')''))
      else Inr ())"

definition rows_of :: "artifact_db \<Rightarrow> string \<Rightarrow> string \<Rightarrow> artifact_row list" where
  "rows_of db project_id artifact_type =
     filter (\<lambda>r. ar_project_id r = project_id \<and> ar_artifact_type r = artifact_type) (ab_rows db)"

definition total_count :: "artifact_db \<Rightarrow> string \<Rightarrow> nat" where
  "total_count db project_id = length (filter (\<lambda>r. ar_project_id r = project_id) (ab_rows db))"

text \<open>\<^verbatim>\<open>len(s.encode("utf-8"))\<close>: characters above 127 take two bytes.\<close>

definition utf8_length :: "string \<Rightarrow> nat" where
  "utf8_length s = length s + length (filter (\<lambda>c. (of_char c :: nat) \<ge> 128) s)"

definition same_revision :: "artifact_row \<Rightarrow> artifact_row \<Rightarrow> bool" where
  "same_revision r row = (ar_project_id r = ar_project_id row \<and> ar_artifact_type r = ar_artifact_type row \<and>
     ar_revision_no r = ar_revision_no row)"

text \<open>\<^verbatim>\<open>INSERT ... ON CONFLICT (project_id, artifact_type, revision_no) DO UPDATE\<close>.\<close>

definition insert_artifact :: "artifact_row \<Rightarrow> artifact_row list \<Rightarrow> artifact_row list" where
  "insert_artifact row rows =
     (if list_ex (\<lambda>r. same_revision r row) rows
      then map (\<lambda>r. if same_revision r row
                    then r\<lparr>ar_content_hash := ar_content_hash row, ar_content := ar_content row, ar_byte_size := ar_byte_size row\<rparr>
                    else r) rows
      else rows @ [row])"

definition pointer_from_row :: "artifact_row \<Rightarrow> artifact_pointer" where
  "pointer_from_row r = \<lparr>pt_project_id = ar_project_id r, pt_artifact_type = ar_artifact_type r, pt_revision_no = ar_revision_no r,
     pt_storage_uri = ar_storage_uri r, pt_content_hash = ar_content_hash r, pt_created_at = ar_created_at r,
     pt_byte_size = ar_byte_size r\<rparr>"

text \<open>The revision number, or the refusal by a cap.\<close>

definition next_revision :: "artifact_config \<Rightarrow> artifact_db \<Rightarrow> string \<Rightarrow> string \<Rightarrow> nat \<Rightarrow> artifact_error + nat" where
  "next_revision cfg db pid ty per_type_cap =
     (let current = length (rows_of db pid ty);
          total = (if current = 0 \<and> ty \<notin> set governance_event_artifact_types
                   then assert_total_cap (total_count db pid) (ac_total_cap cfg) else Inr ())
      in if ty \<in> set append_only_artifact_types \<and> current \<ge> per_type_cap
         then Inl (ProjectArtifactRepositoryError ''artifact_type_cap_exceeded''
                (''artifact_type active-document cap exceeded: '' @ ty @ '' ('' @ show_nat current @ ''/'' @ show_nat per_type_cap @ '')''))
         else case total of Inl e \<Rightarrow> Inl e | Inr _ \<Rightarrow> Inr (current + 1))"

definition store_artifact ::
  "(string \<Rightarrow> string) \<Rightarrow> (path \<Rightarrow> string option) \<Rightarrow> artifact_config \<Rightarrow> artifact_db \<Rightarrow> string \<Rightarrow> string \<Rightarrow> nat \<Rightarrow> string \<Rightarrow>
   (artifact_error, string \<times> string, files) run" where
  "store_artifact sha os_error cfg db pid ty revision content =
     (case ac_store cfg of
        Some st \<Rightarrow> store_write sha os_error st pid ty revision content (ab_files db)
      | None \<Rightarrow> (Inr (''db://artifacts/'' @ pid @ ''/'' @ ty @ ''/v'' @ pad3 revision, sha content), ab_files db))"

definition new_artifact_row :: "string \<Rightarrow> string \<Rightarrow> string \<Rightarrow> nat \<Rightarrow> string \<Rightarrow> string \<Rightarrow> string \<Rightarrow> time \<Rightarrow> artifact_row" where
  "new_artifact_row artifact_id pid ty revision uri hash content now =
     \<lparr>ar_artifact_id = artifact_id, ar_project_id = pid, ar_artifact_type = ty, ar_revision_no = revision,
      ar_storage_uri = uri, ar_content_hash = hash, ar_content = content, ar_byte_size = utf8_length content, ar_created_at = now\<rparr>"

definition write_project_artifact ::
  "(string \<Rightarrow> string) \<Rightarrow> (path \<Rightarrow> string option) \<Rightarrow> artifact_config \<Rightarrow> string \<Rightarrow> string \<Rightarrow> string \<Rightarrow> write_context option \<Rightarrow>
   string \<Rightarrow> time \<Rightarrow> artifact_db \<Rightarrow> (artifact_error, artifact_pointer, artifact_db) run" where
  "write_project_artifact sha os_error cfg project_id artifact_type content ctx artifact_id now db =
     (case ctx of
        None \<Rightarrow> (Inl (ProjectArtifactRepositoryError ''artifact_write_context_missing''
                  ''artifact write context is required for governed writes''), db)
      | Some c \<Rightarrow> (case validate_project_id project_id of Inl e \<Rightarrow> (Inl e, db) | Inr pid \<Rightarrow>
          (case validate_artifact_type artifact_type of Inl e \<Rightarrow> (Inl e, db) | Inr ty \<Rightarrow>
          (case assert_write_authorization ty c of Inl e \<Rightarrow> (Inl e, db) | Inr _ \<Rightarrow>
          (case cap_for_type cfg ty of Inl e \<Rightarrow> (Inl e, db) | Inr cap \<Rightarrow>
          (case next_revision cfg db pid ty cap of Inl e \<Rightarrow> (Inl e, db) | Inr revision \<Rightarrow>
          (case store_artifact sha os_error cfg db pid ty revision content of
             (Inl e, fs) \<Rightarrow> (Inl e, db\<lparr>ab_files := fs\<rparr>)
           | (Inr (uri, hash), fs) \<Rightarrow>
               (let row = new_artifact_row artifact_id pid ty revision uri hash content now
                in (Inr (pointer_from_row row), \<lparr>ab_rows = insert_artifact row (ab_rows db), ab_files = fs\<rparr>)))))))))"

text \<open>The reading operations: the key is validated, then the rows are read in order.\<close>

definition with_key ::
  "string \<Rightarrow> string \<Rightarrow> (string \<Rightarrow> string \<Rightarrow> 'a) \<Rightarrow> artifact_error + 'a" where
  "with_key project_id artifact_type f =
     (case validate_project_id project_id of Inl e \<Rightarrow> Inl e | Inr pid \<Rightarrow>
       (case validate_artifact_type artifact_type of Inl e \<Rightarrow> Inl e | Inr ty \<Rightarrow> Inr (f pid ty)))"

definition latest_row :: "artifact_db \<Rightarrow> string \<Rightarrow> string \<Rightarrow> artifact_row option" where
  "latest_row db pid ty = (case rev (sort_key ar_revision_no (rows_of db pid ty)) of [] \<Rightarrow> None | r # _ \<Rightarrow> Some r)"

definition get_latest_pointer :: "artifact_db \<Rightarrow> string \<Rightarrow> string \<Rightarrow> artifact_error + artifact_pointer option" where
  "get_latest_pointer db project_id artifact_type =
     with_key project_id artifact_type (\<lambda>pid ty. map_option pointer_from_row (latest_row db pid ty))"

definition document_of :: "artifact_row \<Rightarrow> artifact_pointer \<times> string" where
  "document_of r = (pointer_from_row r, ar_content r)"

definition read_latest_artifact :: "artifact_db \<Rightarrow> string \<Rightarrow> string \<Rightarrow> artifact_error + (artifact_pointer \<times> string) option" where
  "read_latest_artifact db project_id artifact_type =
     with_key project_id artifact_type (\<lambda>pid ty. map_option document_of (latest_row db pid ty))"

definition list_pointers :: "artifact_db \<Rightarrow> string \<Rightarrow> string \<Rightarrow> artifact_error + artifact_pointer list" where
  "list_pointers db project_id artifact_type =
     with_key project_id artifact_type (\<lambda>pid ty. map pointer_from_row (sort_key ar_revision_no (rows_of db pid ty)))"

definition list_artifact_documents :: "artifact_db \<Rightarrow> string \<Rightarrow> string \<Rightarrow> artifact_error + (artifact_pointer \<times> string) list" where
  "list_artifact_documents db project_id artifact_type =
     with_key project_id artifact_type (\<lambda>pid ty. map document_of (sort_key ar_revision_no (rows_of db pid ty)))"

definition list_artifact_documents_by_type :: "artifact_db \<Rightarrow> string \<Rightarrow> artifact_error + (artifact_pointer \<times> string) list" where
  "list_artifact_documents_by_type db artifact_type =
     (case validate_artifact_type artifact_type of Inl e \<Rightarrow> Inl e | Inr ty \<Rightarrow>
        Inr (map document_of (sort_key (\<lambda>r. (ar_created_at r, ar_project_id r, ar_revision_no r))
               (filter (\<lambda>r. ar_artifact_type r = ty) (ab_rows db)))))"

section \<open>The document-policy enforcer\<close>

record cap_check =
  cc_allowed :: bool
  cc_denial_code :: "string option"
  cc_denial_reason :: "string option"

definition artifact_error_text :: "artifact_error \<Rightarrow> string" where
  "artifact_error_text e = (case e of ProjectArtifactRepositoryError _ m \<Rightarrow> m | ArtifactFileStoreError _ m \<Rightarrow> m)"

definition cap_denied :: "string \<Rightarrow> string \<Rightarrow> cap_check" where
  "cap_denied code reason = \<lparr>cc_allowed = False, cc_denial_code = Some code, cc_denial_reason = Some reason\<rparr>"

definition denied_by :: "artifact_error \<Rightarrow> cap_check" where
  "denied_by e = (case e of ProjectArtifactRepositoryError code m \<Rightarrow> cap_denied code m
     | ArtifactFileStoreError _ m \<Rightarrow> cap_denied ''artifact_cap_check_failed'' m)"

definition check_artifact_cap :: "artifact_config \<Rightarrow> artifact_db \<Rightarrow> string \<Rightarrow> string \<Rightarrow> cap_check" where
  "check_artifact_cap cfg db project_id artifact_type =
     (let pid = py_strip project_id; ty = py_lower (py_strip artifact_type)
      in case cap_for_type cfg ty of Inl e \<Rightarrow> denied_by e | Inr cap \<Rightarrow>
        (case list_pointers db pid ty of Inl e \<Rightarrow> denied_by e | Inr ptrs \<Rightarrow>
          if length ptrs \<ge> cap
          then cap_denied ''artifact_type_cap_exceeded''
                 (''artifact_type active-document cap exceeded: '' @ ty @ '' ('' @ show_nat (length ptrs) @ ''/'' @ show_nat cap @ '')'')
          else if ty \<notin> set governance_event_artifact_types \<and> total_count db pid \<ge> ac_total_cap cfg
          then cap_denied ''artifact_project_document_cap_exceeded''
                 (''project total active-document cap exceeded: ('' @ show_nat (total_count db pid) @ ''/'' @ show_nat (ac_total_cap cfg) @ '')'')
          else \<lparr>cc_allowed = True, cc_denial_code = None, cc_denial_reason = None\<rparr>))"

definition check_role_permission :: "string \<Rightarrow> string \<Rightarrow> string \<Rightarrow> bool" where
  "check_role_permission actor_role artifact_type project_status =
     (let role = py_lower (py_strip actor_role); ty = py_lower (py_strip artifact_type); status = py_lower (py_strip project_status)
      in if status \<notin> {''proposed'', ''approved'', ''active'', ''paused''} then False
         else if role = ''project_manager'' \<and> ty \<in> {''project_charter'', ''workforce_plan''} then False
         else if role \<in> {''owner'', ''ceo'', ''cwo'', ''auditor'', ''administrator''} then True
         else if role = ''project_manager'' then True
         else False)"

record integrity =
  ig_ok :: bool
  ig_denial_reason :: "string option"

definition integrity_ok :: integrity where
  "integrity_ok = \<lparr>ig_ok = True, ig_denial_reason = None\<rparr>"

definition integrity_event :: "string \<Rightarrow> string \<Rightarrow> string \<Rightarrow> payload \<Rightarrow> audit_call" where
  "integrity_event trace_id reason message pl =
     \<lparr>aw_event_type = ''hash_integrity_failure'', aw_outcome = ''denied'', aw_trace_id = trace_id, aw_request_id = None,
      aw_task_id = None, aw_principal_id = Some ''administrator'', aw_principal_role = Some ''administrator'',
      aw_source = ''administrator'', aw_reason_code = Some reason, aw_message = message,
      aw_rule_ids = [''STR-007'', ''STR-010''], aw_payload = pl\<rparr>"

definition integrity_refused ::
  "(nat \<Rightarrow> py_exn option) \<Rightarrow> audit_call \<Rightarrow> string \<Rightarrow> audit_log \<Rightarrow> (py_exn, integrity, audit_log) run" where
  "integrity_refused fault event reason lg =
     and_then (write_event fault event lg) (\<lambda>_ lg'. (Inr \<lparr>ig_ok = False, ig_denial_reason = Some reason\<rparr>, lg'))"

definition check_hash_integrity ::
  "(nat \<Rightarrow> py_exn option) \<Rightarrow> string option \<Rightarrow> string option \<Rightarrow> string \<Rightarrow> string \<Rightarrow> audit_log \<Rightarrow> (py_exn, integrity, audit_log) run" where
  "check_hash_integrity fault stored_hash provided_hash trace_id fresh_trace lg =
     (case (provided_hash, stored_hash) of
        (Some provided, Some stored) \<Rightarrow>
          if provided \<noteq> stored
          then integrity_refused fault
                 (integrity_event (or_str (Some trace_id) fresh_trace) ''hash_integrity_failure'' ''content_hash mismatch''
                    [(''stored_hash'', Some stored), (''provided_hash'', Some provided)])
                 (''content_hash mismatch: stored='' @ py_repr stored @ '', provided='' @ py_repr provided) lg
          else (Inr integrity_ok, lg)
      | _ \<Rightarrow> (Inr integrity_ok, lg))"

definition verify_storage_uri_hash ::
  "(string \<Rightarrow> string) \<Rightarrow> (path \<Rightarrow> string option) \<Rightarrow> (nat \<Rightarrow> py_exn option) \<Rightarrow> file_store option \<Rightarrow> files \<Rightarrow> string \<Rightarrow> string \<Rightarrow>
   string \<Rightarrow> string \<Rightarrow> audit_log \<Rightarrow> (py_exn, integrity, audit_log) run" where
  "verify_storage_uri_hash sha os_error fault store fs storage_uri db_content_hash trace_id fresh_trace lg =
     (case store of
        None \<Rightarrow> (Inr integrity_ok, lg)
      | Some st \<Rightarrow>
          (case store_read os_error st fs storage_uri of
             Inl e \<Rightarrow>
               integrity_refused fault
                 (integrity_event (or_str (Some trace_id) fresh_trace) ''artifact_file_store_read_error'' (artifact_error_text e)
                    [(''storage_uri'', Some storage_uri), (''db_content_hash'', Some db_content_hash),
                     (''error'', Some (case e of ProjectArtifactRepositoryError code _ \<Rightarrow> code | ArtifactFileStoreError code _ \<Rightarrow> code))])
                 (''file read error: '' @ artifact_error_text e) lg
           | Inr content \<Rightarrow>
               if sha content \<noteq> db_content_hash
               then integrity_refused fault
                      (integrity_event (or_str (Some trace_id) fresh_trace) ''hash_integrity_failure'' ''content_hash mismatch''
                         [(''storage_uri'', Some storage_uri), (''db_content_hash'', Some db_content_hash), (''file_hash'', Some (sha content))])
                      (''content_hash mismatch: db='' @ py_repr db_content_hash @ '', file='' @ py_repr (sha content)) lg
               else (Inr integrity_ok, lg)))"

section \<open>Histories\<close>

text \<open>
  Every way the artifacts of a repository with one configuration change: a write, successful or not,
  under any condition of the operating system, and any change of the files from outside.
\<close>

inductive artifact_step :: "(string \<Rightarrow> string) \<Rightarrow> artifact_config \<Rightarrow> artifact_db \<Rightarrow> artifact_db \<Rightarrow> bool" for sha cfg where
  put: "write_project_artifact sha os_error cfg pid ty content ctx aid now db = (r, db') \<Longrightarrow> artifact_step sha cfg db db'"
| tamper: "artifact_step sha cfg db (db\<lparr>ab_files := fs\<rparr>)"

definition no_artifacts :: artifact_db where
  "no_artifacts = \<lparr>ab_rows = [], ab_files = []\<rparr>"

text \<open>The abstraction: the texts of every project and type, oldest first.\<close>

definition artifact_log :: "artifact_db \<Rightarrow> string \<times> string \<Rightarrow> string list" where
  "artifact_log db = (\<lambda>(pid, ty). map ar_content (rows_of db pid ty))"

definition artifacts_ok :: "artifact_db \<Rightarrow> bool" where
  "artifacts_ok db = (\<forall>pid ty. map ar_revision_no (rows_of db pid ty) = [1..<Suc (length (rows_of db pid ty))])"

section \<open>Lemmas\<close>

subsection \<open>Rows\<close>

lemma artifacts_okD: "artifacts_ok db \<Longrightarrow> map ar_revision_no (rows_of db pid ty) = [1..<Suc (length (rows_of db pid ty))]"
  by (simp add: artifacts_ok_def)

lemma sorted_rows: "artifacts_ok db \<Longrightarrow> sort_key ar_revision_no (rows_of db pid ty) = rows_of db pid ty"
  by (rule sort_key_id_if_sorted) (simp add: artifacts_okD del: upt_Suc)

lemma insert_artifact_new:
  assumes "artifacts_ok db" "ar_revision_no row = Suc (length (rows_of db (ar_project_id row) (ar_artifact_type row)))"
  shows "insert_artifact row (ab_rows db) = ab_rows db @ [row]"
proof -
  have "\<not> same_revision r row" if "r \<in> set (ab_rows db)" for r
  proof
    assume same: "same_revision r row"
    let ?rows = "rows_of db (ar_project_id row) (ar_artifact_type row)"
    have "r \<in> set ?rows" using that same by (simp add: rows_of_def same_revision_def)
    then have "ar_revision_no r \<in> set (map ar_revision_no ?rows)" by simp
    then have "ar_revision_no r \<le> length ?rows" unfolding artifacts_okD [OF assms(1)] by (simp del: upt_Suc)
    with same assms(2) show False by (simp add: same_revision_def)
  qed
  then show ?thesis by (auto simp: insert_artifact_def list_ex_iff)
qed

lemma rows_of_append:
  "rows_of \<lparr>ab_rows = ab_rows db @ [row], ab_files = fs\<rparr> pid ty =
     rows_of db pid ty @ (if ar_project_id row = pid \<and> ar_artifact_type row = ty then [row] else [])"
  by (simp add: rows_of_def)

lemma rows_of_files [simp]: "rows_of (db\<lparr>ab_files := fs\<rparr>) pid ty = rows_of db pid ty"
  by (simp add: rows_of_def)

lemma artifacts_ok_append:
  assumes "artifacts_ok db" "ar_revision_no row = Suc (length (rows_of db (ar_project_id row) (ar_artifact_type row)))"
  shows "artifacts_ok \<lparr>ab_rows = ab_rows db @ [row], ab_files = fs\<rparr>"
  using assms by (auto simp: artifacts_ok_def rows_of_append)

lemma next_revision_Inr:
  "next_revision cfg db pid ty cap = Inr n \<Longrightarrow>
     n = Suc (length (rows_of db pid ty)) \<and> (ty \<in> set append_only_artifact_types \<longrightarrow> length (rows_of db pid ty) < cap)"
  by (auto simp: next_revision_def Let_def split: if_splits sum.splits)

text \<open>A write either leaves the rows as they are or appends one row.\<close>

lemma write_project_artifact_cases:
  assumes "write_project_artifact sha os_error cfg project_id artifact_type content ctx aid now db = (r, db')"
  shows "(\<exists>e. r = Inl e \<and> ab_rows db' = ab_rows db) \<or>
    (\<exists>c pid ty cap n uri hash fs. ctx = Some c \<and> validate_project_id project_id = Inr pid \<and> validate_artifact_type artifact_type = Inr ty \<and>
       assert_write_authorization ty c = Inr () \<and> cap_for_type cfg ty = Inr cap \<and> next_revision cfg db pid ty cap = Inr n \<and>
       store_artifact sha os_error cfg db pid ty n content = (Inr (uri, hash), fs) \<and>
       r = Inr (pointer_from_row (new_artifact_row aid pid ty n uri hash content now)) \<and>
       db' = \<lparr>ab_rows = insert_artifact (new_artifact_row aid pid ty n uri hash content now) (ab_rows db), ab_files = fs\<rparr>)"
  using assms unfolding write_project_artifact_def Let_def
  by (auto split: option.splits sum.splits prod.splits)

lemma new_artifact_row_simps [simp]:
  "ar_project_id (new_artifact_row aid pid ty n uri hash content now) = pid"
  "ar_artifact_type (new_artifact_row aid pid ty n uri hash content now) = ty"
  "ar_revision_no (new_artifact_row aid pid ty n uri hash content now) = n"
  "ar_content (new_artifact_row aid pid ty n uri hash content now) = content"
  "ar_storage_uri (new_artifact_row aid pid ty n uri hash content now) = uri"
  "ar_content_hash (new_artifact_row aid pid ty n uri hash content now) = hash"
  by (simp_all add: new_artifact_row_def)

lemma pointer_from_row_simps [simp]:
  "pt_project_id (pointer_from_row r) = ar_project_id r" "pt_artifact_type (pointer_from_row r) = ar_artifact_type r"
  "pt_revision_no (pointer_from_row r) = ar_revision_no r" "pt_storage_uri (pointer_from_row r) = ar_storage_uri r"
  "pt_content_hash (pointer_from_row r) = ar_content_hash r"
  by (simp_all add: pointer_from_row_def)

lemma write_project_artifact_rows:
  assumes "artifacts_ok db" "write_project_artifact sha os_error cfg project_id artifact_type content ctx aid now db = (r, db')"
  shows "(\<exists>e. r = Inl e \<and> ab_rows db' = ab_rows db) \<or>
    (\<exists>row cap fs. r = Inr (pointer_from_row row) \<and> validate_project_id project_id = Inr (ar_project_id row) \<and>
       validate_artifact_type artifact_type = Inr (ar_artifact_type row) \<and> ar_content row = content \<and>
       ar_revision_no row = Suc (length (rows_of db (ar_project_id row) (ar_artifact_type row))) \<and>
       cap_for_type cfg (ar_artifact_type row) = Inr cap \<and>
       (ar_artifact_type row \<in> set append_only_artifact_types \<longrightarrow> length (rows_of db (ar_project_id row) (ar_artifact_type row)) < cap) \<and>
       db' = \<lparr>ab_rows = ab_rows db @ [row], ab_files = fs\<rparr>)"
  using write_project_artifact_cases [OF assms(2)]
proof (elim disjE exE conjE)
  fix c pid ty cap n uri hash fs
  let ?row = "new_artifact_row aid pid ty n uri hash content now"
  assume n: "next_revision cfg db pid ty cap = Inr n" and r: "r = Inr (pointer_from_row ?row)"
    and db': "db' = \<lparr>ab_rows = insert_artifact ?row (ab_rows db), ab_files = fs\<rparr>"
    and keys: "validate_project_id project_id = Inr pid" "validate_artifact_type artifact_type = Inr ty" "cap_for_type cfg ty = Inr cap"
  note next_revision_Inr [OF n]
  with insert_artifact_new [OF assms(1), of ?row] r db' keys show ?thesis
    by (intro disjI2 exI [of _ ?row] exI [of _ cap] exI [of _ fs]) simp
qed simp

lemma artifacts_ok_rows [inv_intros]: "artifacts_ok db \<Longrightarrow> ab_rows db' = ab_rows db \<Longrightarrow> artifacts_ok db'"
  by (simp add: artifacts_ok_def rows_of_def)

lemma artifact_step_ok: "artifact_step sha cfg db db' \<Longrightarrow> artifacts_ok db \<Longrightarrow> artifacts_ok db'"
proof (induction rule: artifact_step.induct)
  case (put os_error pid ty content ctx aid now db r db')
  from write_project_artifact_rows [OF put(2,1)] put(2) show ?case
    by (elim disjE exE conjE) (auto intro: artifacts_ok_rows artifacts_ok_append)
qed (simp add: artifacts_ok_def)

lemma artifacts_ok_empty [inv_intros]: "artifacts_ok no_artifacts"
  by (simp add: artifacts_ok_def rows_of_def no_artifacts_def)

lemma artifact_steps_ok: "(artifact_step sha cfg)\<^sup>*\<^sup>* no_artifacts db \<Longrightarrow> artifacts_ok db"
  by (induction rule: rtranclp_induct) (auto intro: artifact_step_ok artifacts_ok_empty)

subsection \<open>Paths\<close>

definition clean_path :: "path \<Rightarrow> bool" where
  "clean_path p = list_all (\<lambda>w. w \<noteq> [] \<and> w \<noteq> ''.'' \<and> w \<noteq> ''..'' \<and> CHR ''/'' \<notin> set w) p"

lemma resolve_clean: "clean_path p \<Longrightarrow> resolve p = p"
proof -
  have "foldl resolve_step acc p = acc @ p" if "clean_path p" for acc p
    using that by (induction p arbitrary: acc) (simp_all add: clean_path_def resolve_step_def)
  then show "clean_path p \<Longrightarrow> resolve p = p" by (simp add: resolve_def)
qed

lemma path_parts_word: "CHR ''/'' \<notin> set w \<Longrightarrow> w \<noteq> [] \<Longrightarrow> w \<noteq> ''.'' \<Longrightarrow> path_parts w = [w]"
  by (simp add: path_parts_def py_split_no_occ)

lemma path_parts_show: "clean_path p \<Longrightarrow> path_parts (show_path p) = p"
proof -
  have split: "py_split CHR ''/'' (concat (map (\<lambda>w. CHR ''/'' # w) p)) = [] # p" if "clean_path p" "p \<noteq> []" for p
    using that
  proof (induction p)
    case (Cons w p)
    have w: "CHR ''/'' \<notin> set w" using Cons(2) by (simp add: clean_path_def)
    show ?case
    proof (cases p)
      case p: (Cons v q)
      have "py_split CHR ''/'' (w @ CHR ''/'' # (v @ concat (map (\<lambda>w. CHR ''/'' # w) q))) =
          w # py_split CHR ''/'' (v @ concat (map (\<lambda>w. CHR ''/'' # w) q))"
        by (rule py_split_append [OF w])
      moreover have "py_split CHR ''/'' (concat (map (\<lambda>w. CHR ''/'' # w) p)) = [] # p"
        using Cons.IH Cons.prems p by (simp add: clean_path_def)
      ultimately show ?thesis using p by simp
    qed (simp add: py_split_no_occ [OF w])
  qed simp
  assume clean: "clean_path p"
  have "filter (\<lambda>w. w \<noteq> [] \<and> w \<noteq> ''.'') p = p" using clean by (simp add: clean_path_def filter_id_conv list_all_iff)
  then show ?thesis using split [OF clean] by (auto simp: path_parts_def show_path_def)
qed

lemma join_show_path: "clean_path p \<Longrightarrow> join_path base (show_path p) = p"
  using path_parts_show [of p] by (cases p) (auto simp: join_path_def show_path_def py_startswith_def)

lemma slash_dot_class [simp]:
  "\<not> is_letter CHR ''/''" "\<not> is_digit CHR ''/''" "\<not> is_lower_letter CHR ''/''"
  "\<not> is_letter CHR ''.''" "\<not> is_digit CHR ''.''" "\<not> is_lower_letter CHR ''.''"
  by code_simp+

lemma show_nat_acc_chars: "c \<in> set (show_nat_acc n acc) \<Longrightarrow> c \<in> set acc \<or> (\<exists>k::nat. k < 10 \<and> c = char_of (48 + k))"
proof (induction n acc rule: show_nat_acc.induct)
  case (1 n acc)
  let ?acc = "char_of (48 + n mod 10) # acc"
  have unfold: "show_nat_acc n acc = (if n < 10 then ?acc else show_nat_acc (n div 10) ?acc)"
    by (subst show_nat_acc.simps) (simp add: Let_def)
  have digit: "\<exists>k::nat. k < 10 \<and> char_of (48 + n mod 10) = (char_of (48 + k) :: char)" by (rule exI [of _ "n mod 10"]) simp
  show ?case
  proof (cases "n < 10")
    case True
    with 1(2) digit show ?thesis unfolding unfold by auto
  next
    case False
    with 1 have "c \<in> set ?acc \<or> (\<exists>k::nat. k < 10 \<and> c = char_of (48 + k))" unfolding unfold by auto
    with digit show ?thesis by auto
  qed
qed

lemma pad3_no_slash: "CHR ''/'' \<notin> set (pad3 n)"
proof
  assume "CHR ''/'' \<in> set (pad3 n)"
  then have "CHR ''/'' \<in> set (show_nat_acc n [])" by (auto simp: pad3_def show_nat_def)
  then obtain k :: nat where k: "k < 10" "CHR ''/'' = char_of (48 + k)" using show_nat_acc_chars [of "CHR ''/''" n "[]"] by auto
  have "(of_char CHR ''/'' :: nat) = of_char (char_of (48 + k) :: char)" using k(2) by simp
  also have "\<dots> = 48 + k" using k(1) by (simp only: of_char_of) simp
  finally show False by simp
qed

lemma pattern_words:
  assumes "project_id_pattern pid" "artifact_type_pattern ty"
  shows "clean_path [pid, ty @ ''-v'' @ pad3 n @ ''.md'']"
proof -
  have "CHR ''/'' \<notin> set pid \<and> pid \<noteq> [] \<and> pid \<noteq> ''.'' \<and> pid \<noteq> ''..''"
    using assms(1) by (cases pid) (auto simp: list_all_iff)
  moreover have "CHR ''/'' \<notin> set ty" "ty \<noteq> []" "hd ty \<noteq> CHR ''.''"
    using assms(2) by (cases ty; auto simp: list_all_iff)+
  then have "CHR ''/'' \<notin> set (ty @ ''-v'' @ pad3 n @ ''.md'')" "ty @ ''-v'' @ pad3 n @ ''.md'' \<noteq> ''..''" "ty @ ''-v'' @ pad3 n @ ''.md'' \<noteq> ''.''"
    using pad3_no_slash [of n] by (auto simp: Cons_eq_append_conv append_eq_Cons_conv)
  ultimately show ?thesis using \<open>ty \<noteq> []\<close> by (simp add: clean_path_def)
qed

lemma join_clean_word: "clean_path [w] \<Longrightarrow> join_path base w = base @ [w]"
  by (cases w) (auto simp: join_path_def clean_path_def path_parts_word py_startswith_def)

lemma canonical_path_clean:
  assumes "project_id_pattern pid" "artifact_type_pattern ty" "clean_path (fs_root st)"
  shows "canonical_path st pid ty n = projects_root st @ [pid, ty @ ''-v'' @ pad3 n @ ''.md'']"
    and "clean_path (canonical_path st pid ty n)" and "clean_path (projects_root st)"
proof -
  have words: "clean_path [pid]" "clean_path [ty @ ''-v'' @ pad3 n @ ''.md'']"
    using pattern_words [OF assms(1,2), of n] by (simp_all add: clean_path_def)
  show eq: "canonical_path st pid ty n = projects_root st @ [pid, ty @ ''-v'' @ pad3 n @ ''.md'']"
    unfolding canonical_path_def join_clean_word [OF words(1)] join_clean_word [OF words(2)] by simp
  show root: "clean_path (projects_root st)" using assms(3) by (simp add: clean_path_def projects_root_def)
  show "clean_path (canonical_path st pid ty n)" unfolding eq using root words by (simp add: clean_path_def)
qed

lemma validated:
  "validate_project_id i = Inr pid \<Longrightarrow> project_id_pattern pid \<and> pid = py_strip i"
  "validate_artifact_type t = Inr ty \<Longrightarrow> artifact_type_pattern ty \<and> ty = py_lower (py_strip t)"
  by (auto simp: validate_project_id_def validate_artifact_type_def Let_def split: if_splits)

definition artifact_file :: "file_store \<Rightarrow> string \<Rightarrow> string \<Rightarrow> nat \<Rightarrow> path" where
  "artifact_file st pid ty n = projects_root st @ [pid, ty @ ''-v'' @ pad3 n @ ''.md'']"

text \<open>Where a walk arrives, and what the system calls change.\<close>

lemma walk_resolve: "walk fs d p = Inr d' \<Longrightarrow> d' = foldl resolve_step d p"
  by (induction fs d p rule: walk.induct) (auto simp: resolve_step_def split: if_splits option.splits file_entry.splits)

lemma resolve_last: "p \<noteq> [] \<Longrightarrow> foldl resolve_step d p = resolve_step (foldl resolve_step d (butlast p)) (last p)"
  by (induction p rule: rev_induct) simp_all

lemma walked_to:
  assumes "walk fs [] (butlast p) = Inr d" "p \<noteq> []" "last p \<noteq> ''..''" shows "d @ [last p] = resolve p"
  using walk_resolve [OF assms(1)] resolve_last [OF assms(2), of "[]"] assms(3) by (simp add: resolve_def resolve_step_def)

lemma os_mkdir_made: "os_mkdir os_error p fs = Inr fs' \<Longrightarrow> fs' = dict_put fs (resolve p) Directory \<and> map_of fs (resolve p) = None"
  by (auto simp: os_mkdir_def walked_to split: if_splits sum.splits option.splits)

definition directories_added :: "path \<Rightarrow> files \<Rightarrow> files \<Rightarrow> bool" where
  "directories_added p fs fs' = (\<forall>q. map_of fs' q \<noteq> map_of fs q \<longrightarrow>
     map_of fs q = None \<and> map_of fs' q = Some Directory \<and> (\<exists>n. q = resolve (take n p)))"

lemma directories_added_refl [simp]: "directories_added p fs fs"
  by (simp add: directories_added_def)

lemma directories_added_trans: "directories_added p fs fs1 \<Longrightarrow> directories_added p fs1 fs2 \<Longrightarrow> directories_added p fs fs2"
  unfolding directories_added_def by metis

lemma os_mkdir_added: "os_mkdir os_error p fs = Inr fs' \<Longrightarrow> directories_added p fs fs'"
  using os_mkdir_made [of os_error p fs fs'] by (auto simp: directories_added_def map_of_dict_put intro: exI [of _ "length p"])

lemma directories_added_parent: "directories_added (butlast p) fs fs' \<Longrightarrow> directories_added p fs fs'"
  unfolding directories_added_def by (metis butlast_conv_take take_take)

lemma make_directories_added: "directories_added p fs (snd (make_directories os_error p fs))"
proof (induction os_error p fs rule: make_directories.induct)
  case (1 os_error p fs)
  show ?case
  proof (cases "os_mkdir os_error p fs")
    case (Inr fs')
    then show ?thesis using os_mkdir_added by (simp add: make_directories.simps)
  next
    case (Inl e)
    obtain r fs1 where r: "make_directories os_error (butlast p) fs = (r, fs1)" by fastforce
    have "directories_added p fs fs1" if "p \<noteq> []" "e = NoEntry" using 1 [OF Inl] that r directories_added_parent by simp
    then show ?thesis using Inl r
      by (subst make_directories.simps) (auto split: sum.split intro: directories_added_trans os_mkdir_added)
  qed
qed

lemma write_text_made:
  "write_text os_error p content fs = Inr fs' \<Longrightarrow> fs' = dict_put fs (resolve p) (Regular content) \<and> (\<exists>d. walk fs [] (butlast p) = Inr d)"
  by (auto simp: write_text_def entry_at_def walked_to split: if_splits sum.splits option.splits)

lemma store_write_cases:
  assumes "store_write sha os_error st project_id artifact_type n content fs = (r, fs')"
  obtains (refused) e where "r = Inl e" "directories_added (butlast (canonical_path st project_id artifact_type n)) fs fs'"
  | (written) fs1 d where "r = Inr (''file://'' @ show_path (resolve (canonical_path st project_id artifact_type n)), sha content)"
      "assert_within_projects_root st (canonical_path st project_id artifact_type n) = Inr ()"
      "directories_added (butlast (canonical_path st project_id artifact_type n)) fs fs1"
      "walk fs1 [] (butlast (canonical_path st project_id artifact_type n)) = Inr d"
      "fs' = dict_put fs1 (resolve (canonical_path st project_id artifact_type n)) (Regular content)"
proof (cases "assert_within_projects_root st (canonical_path st project_id artifact_type n)")
  case (Inl e)
  then show ?thesis using assms refused by (auto simp: store_write_def Let_def)
next
  case (Inr u)
  let ?p = "canonical_path st project_id artifact_type n"
  obtain q fs1 where q: "make_directories os_error (butlast ?p) fs = (q, fs1)" by fastforce
  have added: "directories_added (butlast ?p) fs fs1" using make_directories_added [of "butlast ?p" fs os_error] q by simp
  show ?thesis
  proof (cases q)
    case (Inl e)
    then show ?thesis using assms Inr q added refused by (cases e) (auto simp: store_write_def Let_def)
  next
    case made: (Inr v)
    show ?thesis
    proof (cases "write_text os_error ?p content fs1")
      case (Inl e)
      then show ?thesis using assms Inr q made added refused by (auto simp: store_write_def Let_def)
    next
      case (Inr fs2)
      then show ?thesis using assms \<open>assert_within_projects_root st ?p = Inr u\<close> q made added written write_text_made [OF Inr]
        by (auto simp: store_write_def Let_def)
    qed
  qed
qed

lemma clean_path_parent: "clean_path p \<Longrightarrow> clean_path (butlast p)"
  by (auto simp: clean_path_def list_all_iff dest: in_set_butlastD)

text \<open>An entry that a walk does not meet does not change it.\<close>

lemma walk_dict_put:
  assumes "list_all (\<lambda>w. w \<noteq> ''..'') p" "\<And>k. k \<le> length p \<Longrightarrow> d @ take k p \<noteq> q"
  shows "walk (dict_put fs q e) d p = walk fs d p"
  using assms
proof (induction p arbitrary: d)
  case (Cons w p)
  have "d @ [w] \<noteq> q" using Cons.prems(2) [of 1] by simp
  moreover have "walk (dict_put fs q e) (d @ [w]) p = walk fs (d @ [w]) p"
  proof (rule Cons.IH)
    show "(d @ [w]) @ take k p \<noteq> q" if "k \<le> length p" for k using Cons.prems(2) [of "Suc k"] that by simp
  qed (use Cons.prems(1) in simp)
  ultimately show ?case using Cons.prems(1) by (simp add: map_of_dict_put split: option.split file_entry.split)
qed simp

lemma store_artifact_file:
  assumes "validate_project_id i = Inr pid" "validate_artifact_type t = Inr ty" "ac_store cfg = Some st" "clean_path (fs_root st)"
    "store_artifact sha os_error cfg db pid ty n content = (Inr (uri, hash), fs)"
  shows "uri = ''file://'' @ show_path (artifact_file st pid ty n)" "hash = sha content"
    "entry_at fs [] (artifact_file st pid ty n) = Some (Regular content)"
    "clean_path (artifact_file st pid ty n)" "assert_within_projects_root st (artifact_file st pid ty n) = Inr ()"
proof -
  let ?p = "artifact_file st pid ty n"
  have patterns: "project_id_pattern pid" "artifact_type_pattern ty" using assms(1,2) validated by auto
  note canon = canonical_path_clean [OF patterns assms(4), folded artifact_file_def]
  show clean: "clean_path ?p" using canon(1,2) by simp
  have p: "?p \<noteq> []" by (simp add: artifact_file_def)
  have w: "store_write sha os_error st pid ty n content (ab_files db) = (Inr (uri, hash), fs)"
    using assms(5) by (simp add: store_artifact_def assms(3))
  show "uri = ''file://'' @ show_path ?p" "hash = sha content" "assert_within_projects_root st ?p = Inr ()"
    by (use w in \<open>elim store_write_cases; simp add: canon(1) resolve_clean [OF clean]\<close>)+
  from w show "entry_at fs [] ?p = Some (Regular content)"
  proof (cases rule: store_write_cases)
    case (written fs1 d)
    have "length (take k (butlast ?p)) < length ?p" for k using p by (simp add: min_less_iff_disj)
    then have "take k (butlast ?p) \<noteq> ?p" for k by (metis nat_neq_iff)
    then have "walk fs [] (butlast ?p) = walk fs1 [] (butlast ?p)"
      unfolding written(5) canon(1) resolve_clean [OF clean]
      using clean_path_parent [OF clean] by (intro walk_dict_put) (simp_all add: clean_path_def list_all_iff)
    then have d: "walk fs [] (butlast ?p) = Inr d" using written(4) canon(1) by simp
    have last: "last ?p \<noteq> ''..''" using clean p by (simp add: clean_path_def list_all_iff)
    have "d @ [last ?p] = ?p" using walked_to [OF d p last] resolve_clean [OF clean] by simp
    then show ?thesis using p d last unfolding written(5) canon(1) resolve_clean [OF clean] by (simp add: entry_at_def map_of_dict_put)
  qed simp
qed

lemma store_read_file:
  assumes "clean_path p" "assert_within_projects_root st p = Inr ()" "entry_at fs [] p = Some (Regular c)" "os_error p = None"
  shows "store_read os_error st fs (''file://'' @ show_path p) = Inr (universal_newlines c)"
proof -
  have "path_parts (show_path p) = p" "py_startswith (show_path p) ''/''"
    using path_parts_show [OF assms(1)] by (auto simp: show_path_def py_startswith_def neq_Nil_conv)
  then show ?thesis using assms by (simp add: store_read_def py_startswith_def join_show_path resolve_clean Let_def)
qed

text \<open>A text that is read is in a file whose resolved path was checked.\<close>

lemma store_read_entry:
  assumes "store_read os_error st fs uri = Inr text"
  obtains c where "map_of fs (resolve (join_path (fs_cwd st) (drop 7 uri))) = Some (Regular c)" "text = universal_newlines c"
    "assert_within_projects_root st (join_path (fs_cwd st) (drop 7 uri)) = Inr ()"
proof -
  let ?t = "drop 7 uri"
  let ?start = "if py_startswith ?t ''/'' then [] else resolve (fs_cwd st)"
  obtain c where c: "entry_at fs ?start (path_parts ?t) = Some (Regular c)" "text = universal_newlines c"
    "assert_within_projects_root st (join_path (fs_cwd st) ?t) = Inr ()"
    using assms by (auto simp: store_read_def Let_def split: if_splits sum.splits option.splits file_entry.splits)
  then obtain d where d: "path_parts ?t \<noteq> []" "walk fs ?start (butlast (path_parts ?t)) = Inr d" "last (path_parts ?t) \<noteq> ''..''"
    "map_of fs (d @ [last (path_parts ?t)]) = Some (Regular c)"
    by (auto simp: entry_at_def split: if_splits sum.splits)
  have "d @ [last (path_parts ?t)] = foldl resolve_step ?start (path_parts ?t)"
    using walk_resolve [OF d(2)] resolve_last [OF d(1), of ?start] d(3) by (simp only: resolve_step_def if_False)
  also have "\<dots> = resolve (join_path (fs_cwd st) ?t)" by (simp add: resolve_def join_path_def)
  finally show ?thesis using that c d(4) by simp
qed

lemma universal_newlines_eq: "universal_newlines s = s \<longleftrightarrow> CHR 0x0D \<notin> set s"
proof
  have "CHR 0x0D \<notin> set (universal_newlines s)" by (induction s rule: universal_newlines.induct) simp_all
  then show "universal_newlines s = s \<Longrightarrow> CHR 0x0D \<notin> set s" by metis
  show "CHR 0x0D \<notin> set s \<Longrightarrow> universal_newlines s = s" by (induction s rule: universal_newlines.induct) auto
qed

lemma append_only_bounded:
  assumes "(artifact_step sha cfg)\<^sup>*\<^sup>* no_artifacts db" "ty \<in> set append_only_artifact_types" "cap_for_type cfg ty = Inr cap"
  shows "length (rows_of db pid ty) \<le> cap"
  using assms(1)
proof (induction rule: rtranclp_induct)
  case base
  show ?case by (simp add: rows_of_def no_artifacts_def)
next
  case (step db db')
  from step(2) show ?case
  proof cases
    case (put os_error i t content ctx aid now r)
    from write_project_artifact_rows [OF artifact_steps_ok [OF step(1)] put] assms(2,3) step(3) show ?thesis
      by (elim disjE exE conjE) (auto simp: rows_of_append rows_of_def)
  next
    case (tamper fs)
    with step(3) show ?thesis by simp
  qed
qed

section \<open>Properties\<close>

text \<open>
  C25: the repository is an append-only log. After every history of writes, failed writes and changes of the
  files, a write that fails leaves the stored texts of every project and type as they were; a write that
  succeeds appends its text to one of them, the returned revision number is the new length, the latest document
  read back is the one written, and the documents listed are all that were ever written, numbered from one.
\<close>

theorem artifact_log_refines:
  assumes "(artifact_step sha cfg)\<^sup>*\<^sup>* no_artifacts db"
    and "write_project_artifact sha os_error cfg project_id artifact_type content ctx aid now db = (r, db')"
  shows "case r of
       Inl e \<Rightarrow> artifact_log db' = artifact_log db
     | Inr p \<Rightarrow>
         artifact_log db' = (artifact_log db)((pt_project_id p, pt_artifact_type p) :=
            artifact_log db (pt_project_id p, pt_artifact_type p) @ [content]) \<and>
         pt_revision_no p = length (artifact_log db' (pt_project_id p, pt_artifact_type p)) \<and>
         read_latest_artifact db' project_id artifact_type = Inr (Some (p, content)) \<and>
         (\<exists>docs. list_artifact_documents db' project_id artifact_type = Inr docs \<and>
            map snd docs = artifact_log db' (pt_project_id p, pt_artifact_type p) \<and>
            map (pt_revision_no \<circ> fst) docs = [1..<Suc (length docs)])"
  using write_project_artifact_rows [OF artifact_steps_ok [OF assms(1)] assms(2)]
proof (elim disjE exE conjE)
  fix row :: artifact_row and cap fs
  let ?pid = "ar_project_id row" and ?ty = "ar_artifact_type row"
  assume r: "r = Inr (pointer_from_row row)" and keys: "validate_project_id project_id = Inr ?pid" "validate_artifact_type artifact_type = Inr ?ty"
    and row: "ar_content row = content" "ar_revision_no row = Suc (length (rows_of db ?pid ?ty))"
    and db': "db' = \<lparr>ab_rows = ab_rows db @ [row], ab_files = fs\<rparr>"
  have ok: "artifacts_ok db'"
    unfolding db' using artifacts_ok_append [OF artifact_steps_ok [OF assms(1)] row(2)] .
  have rows: "rows_of db' pid ty = rows_of db pid ty @ (if ?pid = pid \<and> ?ty = ty then [row] else [])" for pid ty
    unfolding db' by (rule rows_of_append)
  have sorted: "sort_key ar_revision_no (rows_of db ?pid ?ty @ [row]) = rows_of db ?pid ?ty @ [row]"
    using sorted_rows [OF ok, of ?pid ?ty] by (simp add: rows)
  have "artifact_log db' = (artifact_log db)((?pid, ?ty) := artifact_log db (?pid, ?ty) @ [content])"
    by (auto simp: artifact_log_def fun_eq_iff rows row(1))
  moreover have "read_latest_artifact db' project_id artifact_type = Inr (Some (pointer_from_row row, content))"
    by (simp add: read_latest_artifact_def with_key_def keys latest_row_def rows sorted document_of_def row(1))
  moreover have "map (pt_revision_no \<circ> fst) (map document_of (rows_of db' ?pid ?ty)) = [1..<Suc (length (rows_of db' ?pid ?ty))]"
    using artifacts_okD [OF ok, of ?pid ?ty] by (simp add: document_of_def comp_def del: upt_Suc)
  ultimately show ?thesis
    unfolding r using row(2)
    by (simp add: row(1) list_artifact_documents_def with_key_def keys sorted artifact_log_def rows document_of_def comp_def del: upt_Suc)
qed (auto simp: artifact_log_def rows_of_def)

text \<open>
  The caps of append-only documents hold. After every history with the default policy, no project has more
  than four decision logs, six progress reports and one completion report.
\<close>

theorem append_only_caps_hold:
  assumes "(artifact_step sha (mvp_defaults store))\<^sup>*\<^sup>* no_artifacts db"
  shows "length (artifact_log db (pid, ''decision_log'')) \<le> 4 \<and> length (artifact_log db (pid, ''progress_report'')) \<le> 6 \<and>
     length (artifact_log db (pid, ''completion_report'')) \<le> 1"
  using append_only_bounded [OF assms, of "''decision_log''" 4 pid] append_only_bounded [OF assms, of "''progress_report''" 6 pid]
    append_only_bounded [OF assms, of "''completion_report''" 1 pid]
  by (simp add: artifact_log_def append_only_artifact_types_def cap_for_type_def mvp_defaults_def mvp_artifact_type_caps_def)

text \<open>
  The other caps are not enforced. For a type that the repository does not treat as append-only, which
  includes all governance-event types the policy module declares append-only, a project that already has as many
  documents of the type as the cap allows can be given one more by any authorized writer, while the
  document-policy check for the same project and type denies it.
\<close>

theorem cap_denied_write_succeeds:
  assumes "validate_project_id project_id = Inr pid" and "validate_artifact_type artifact_type = Inr ty"
    and "assert_write_authorization ty c = Inr ()" and "ac_store cfg = None" and "cap_for_type cfg ty = Inr cap"
    and "ty \<notin> set append_only_artifact_types" and "0 < length (rows_of db pid ty)" and "cap \<le> length (rows_of db pid ty)"
  shows "\<not> cc_allowed (check_artifact_cap cfg db project_id artifact_type) \<and>
     (\<exists>p db'. write_project_artifact sha os_error cfg project_id artifact_type content (Some c) aid now db = (Inr p, db') \<and>
        pt_revision_no p = Suc (length (rows_of db pid ty)))"
proof
  have keys: "py_strip project_id = pid" "py_lower (py_strip artifact_type) = ty" using validated(1) [OF assms(1)] validated(2) [OF assms(2)] by auto
  have pid: "validate_project_id pid = Inr pid" "validate_artifact_type ty = Inr ty"
    using assms(1,2) keys py_strip_lower [of "py_strip artifact_type"] by (auto simp: validate_project_id_def validate_artifact_type_def Let_def split: if_splits)
  show "\<not> cc_allowed (check_artifact_cap cfg db project_id artifact_type)"
    using assms(8) by (simp add: check_artifact_cap_def Let_def keys assms(5) list_pointers_def with_key_def pid cap_denied_def)
  show "\<exists>p db'. write_project_artifact sha os_error cfg project_id artifact_type content (Some c) aid now db = (Inr p, db') \<and>
        pt_revision_no p = Suc (length (rows_of db pid ty))"
    using assms(7) by (simp add: write_project_artifact_def assms(1-6) next_revision_def Let_def store_artifact_def)
qed

text \<open>
  C35: the contents of the file store stay inside its root, its directories need not. Whatever the project identifier, type and version, a
  write changes the contents of one file at most, the one it names, which is below the projects root and then holds the text; everything
  else it changes is a directory added where a prefix of the unresolved path of its parent leads (such a prefix can leave the root, see
  \<open>directory_outside_root\<close>). A text that a read returns is the content of a file below the root, whatever the address.
\<close>

theorem artifact_files_confined:
  assumes "store_write sha os_error st project_id artifact_type version_no content fs = (r, fs')"
    and "map_of fs' q \<noteq> map_of fs q" and "store_read os_error' st gs uri = Inr text"
  shows "(q = resolve (canonical_path st project_id artifact_type version_no) \<and> map_of fs' q = Some (Regular content) \<and>
       take (length (resolve (projects_root st))) q = resolve (projects_root st) \<or>
     map_of fs q = None \<and> map_of fs' q = Some Directory \<and>
       (\<exists>n. q = resolve (take n (butlast (canonical_path st project_id artifact_type version_no))))) \<and>
     (\<exists>t c. take (length (resolve (projects_root st))) t = resolve (projects_root st) \<and> map_of gs t = Some (Regular c) \<and>
       text = universal_newlines c)"
proof
  let ?p = "canonical_path st project_id artifact_type version_no"
  from assms(1) show "q = resolve ?p \<and> map_of fs' q = Some (Regular content) \<and>
       take (length (resolve (projects_root st))) q = resolve (projects_root st) \<or>
     map_of fs q = None \<and> map_of fs' q = Some Directory \<and> (\<exists>n. q = resolve (take n (butlast ?p)))"
  proof (cases rule: store_write_cases)
    case (refused e)
    then show ?thesis using assms(2) unfolding directories_added_def by metis
  next
    case (written fs1 d)
    show ?thesis
    proof (cases "q = resolve ?p")
      case True
      then show ?thesis using written(2,5) by (simp add: map_of_dict_put assert_within_projects_root_def Let_def split: if_splits)
    next
      case False
      then have "map_of fs' q = map_of fs1 q" using written(5) by (simp add: map_of_dict_put)
      then show ?thesis using written(3) assms(2) unfolding directories_added_def by metis
    qed
  qed
  obtain c where "map_of gs (resolve (join_path (fs_cwd st) (drop 7 uri))) = Some (Regular c)" "text = universal_newlines c"
    "assert_within_projects_root st (join_path (fs_cwd st) (drop 7 uri)) = Inr ()" by (rule store_read_entry [OF assms(3)])
  then show "\<exists>t c. take (length (resolve (projects_root st))) t = resolve (projects_root st) \<and>
    map_of gs t = Some (Regular c) \<and> text = universal_newlines c"
    by (auto simp: assert_within_projects_root_def Let_def split: if_splits)
qed

text \<open>
  The check does not keep the directories inside. A project identifier with a detour that leads back below the root passes it, and the write
  leaves a directory outside. The repository never passes such an identifier, since its pattern admits no slash.
\<close>

theorem directory_outside_root:
  "case store_write (\<lambda>s. s) (\<lambda>_. None) \<lparr>fs_root = [''srv''], fs_cwd = [''app'']\<rparr> ''../../evil/../srv/projects/p'' ''decision_log'' 1 ''x'' [] of
     (r, fs) \<Rightarrow> r = Inr (''file:///srv/projects/p/decision_log-v001.md'', ''x'') \<and> map_of fs [''evil''] = Some Directory"
  by code_simp

text \<open>
  A written artifact passes the integrity check exactly if it has no carriage return. When the repository has
  written a text to its file store, the file is unchanged and readable, and the audit write does not fail, the
  check of the returned address and hash is passed exactly if the text contains no carriage return, provided
  the hash tells the text from the same text with line ends translated: reading translates line ends, so other texts are reported as tampered with.
\<close>

theorem written_artifact_verifies:
  assumes "write_project_artifact sha os_error cfg project_id artifact_type content ctx aid now db = (Inr p, db')"
    and "ac_store cfg = Some st" and "clean_path (fs_root st)"
    and "sha (universal_newlines content) = sha content \<Longrightarrow> universal_newlines content = content" and "os_error = (\<lambda>_. None)" and "fault = (\<lambda>_. None)"
  shows "\<exists>v lg'. verify_storage_uri_hash sha os_error fault (Some st) (ab_files db') (pt_storage_uri p) (pt_content_hash p)
       trace fresh lg = (Inr v, lg') \<and> (ig_ok v \<longleftrightarrow> CHR 0x0D \<notin> set content)"
proof -
  from write_project_artifact_cases [OF assms(1)] obtain pid ty n uri hash fs where
    keys: "validate_project_id project_id = Inr pid" "validate_artifact_type artifact_type = Inr ty"
    and stored: "store_artifact sha os_error cfg db pid ty n content = (Inr (uri, hash), fs)"
    and p: "pt_storage_uri p = uri" "pt_content_hash p = hash" "ab_files db' = fs"
    by auto
  note at = store_artifact_file [OF keys assms(2,3) stored]
  have "store_read os_error st fs uri = Inr (universal_newlines content)" "hash = sha content"
    unfolding at(1) using store_read_file [OF at(4,5,3)] at(2) assms(5) by simp_all
  moreover have "sha (universal_newlines content) = sha content \<longleftrightarrow> CHR 0x0D \<notin> set content"
    using assms(4) universal_newlines_eq by metis
  ultimately show ?thesis
    using assms(6) by (simp add: verify_storage_uri_hash_def p integrity_ok_def integrity_refused_def write_event_def Let_def)
qed

section \<open>Witnesses\<close>

definition demo_store :: file_store where
  "demo_store = \<lparr>fs_root = [''srv''], fs_cwd = [''app'']\<rparr>"

definition demo_config :: artifact_config where
  "demo_config = mvp_defaults (Some demo_store)"

definition demo_writer :: write_context where
  "demo_writer = \<lparr>wc_actor_role = '' CEO '', wc_project_status = ''active'', wc_approval_roles = []\<rparr>"

abbreviation demo_write :: "string \<Rightarrow> (artifact_error, artifact_pointer, artifact_db) run" where
  "demo_write content \<equiv>
     write_project_artifact (\<lambda>s. s) (\<lambda>_. None) demo_config ''p-1'' ''Decision_Log '' content (Some demo_writer) ''a-1'' 0 no_artifacts"

lemma artifact_log_refines_witness:
  "case fst (demo_write ''yes'') of Inl _ \<Rightarrow> False
     | Inr p \<Rightarrow> artifact_log (snd (demo_write ''yes'')) (''p-1'', ''decision_log'') = [''yes''] \<and> pt_revision_no p = 1"
proof -
  have "(case fst (demo_write ''yes'') of Inl _ \<Rightarrow> False | Inr p \<Rightarrow> pt_project_id p = ''p-1'' \<and> pt_artifact_type p = ''decision_log'')"
    by code_simp
  then obtain p where p: "fst (demo_write ''yes'') = Inr p" "pt_project_id p = ''p-1''" "pt_artifact_type p = ''decision_log''"
    by (auto split: sum.splits)
  have "artifact_log no_artifacts k = []" for k by (cases k) (simp add: artifact_log_def rows_of_def no_artifacts_def)
  then show ?thesis
    using artifact_log_refines [OF rtranclp.rtrancl_refl surjective_pairing, of "\<lambda>s. s" "\<lambda>_. None" demo_config "''p-1''" "''Decision_Log ''"
        "''yes''" "Some demo_writer" "''a-1''" 0] p
    by simp
qed

lemma append_only_caps_hold_witness:
  "length (artifact_log (snd (write_project_artifact (\<lambda>s. s) (\<lambda>_. None) (mvp_defaults None) ''p-1'' ''decision_log'' ''yes''
     (Some demo_writer) ''a-1'' 0 no_artifacts)) (''p-1'', ''decision_log'')) \<le> 4"
  using append_only_caps_hold [of "\<lambda>s. s" None _ "''p-1''", OF r_into_rtranclp, OF artifact_step.put [OF surjective_pairing]] by blast

definition demo_reviews :: artifact_db where
  "demo_reviews = \<lparr>ab_rows = map (\<lambda>n. new_artifact_row ''a'' ''p-1'' ''cwo_coapproval'' n ''db://'' ''h'' ''ok'' 0) [1..<9], ab_files = []\<rparr>"

lemma demo_reviews_count: "length (rows_of demo_reviews ''p-1'' ''cwo_coapproval'') = 8"
  by code_simp

lemma demo_keys:
  "validate_project_id ''p-1'' = Inr ''p-1''" "validate_artifact_type ''cwo_coapproval'' = Inr ''cwo_coapproval''"
  "assert_write_authorization ''cwo_coapproval'' demo_writer = Inr ()" "cap_for_type (mvp_defaults None) ''cwo_coapproval'' = Inr 8"
  by code_simp+

lemma cap_denied_write_succeeds_witness:
  "\<not> cc_allowed (check_artifact_cap (mvp_defaults None) demo_reviews ''p-1'' ''cwo_coapproval'') \<and>
     (\<exists>p db'. write_project_artifact (\<lambda>s. s) (\<lambda>_. None) (mvp_defaults None) ''p-1'' ''cwo_coapproval'' ''ok'' (Some demo_writer) ''a'' 0
        demo_reviews = (Inr p, db') \<and> pt_revision_no p = 9)"
  using cap_denied_write_succeeds [OF demo_keys(1,2,3) _ demo_keys(4), of demo_reviews "\<lambda>s. s" "\<lambda>_. None" "''ok''" "''a''" 0] demo_reviews_count
  by (simp add: mvp_defaults_def append_only_artifact_types_def)

lemma artifact_files_confined_witness:
  "map_of (snd (store_write (\<lambda>s. s) (\<lambda>_. None) demo_store ''p-1'' ''decision_log'' 1 ''yes'' [])) [''srv'', ''projects''] = Some Directory"
proof -
  let ?run = "store_write (\<lambda>s. s) (\<lambda>_. None) demo_store ''p-1'' ''decision_log'' 1 ''yes'' []"
  let ?q = "[''srv'', ''projects'']"
  have "map_of (snd ?run) ?q \<noteq> map_of [] ?q" "?q \<noteq> resolve (canonical_path demo_store ''p-1'' ''decision_log'' 1)"
    "store_read (\<lambda>_. None) demo_store (snd ?run) ''file:///srv/projects/p-1/decision_log-v001.md'' = Inr ''yes''" by code_simp+
  then show ?thesis using artifact_files_confined [OF surjective_pairing, of "\<lambda>s. s" "\<lambda>_. None" demo_store "''p-1''" "''decision_log''" 1 "''yes''" "[]" ?q]
    by blast
qed

lemma written_artifact_verifies_witness:
  "\<exists>p v lg'. fst (demo_write [CHR 0x0D]) = Inr p \<and>
     verify_storage_uri_hash (\<lambda>s. s) (\<lambda>_. None) (\<lambda>_. None) (Some demo_store) (ab_files (snd (demo_write [CHR 0x0D]))) (pt_storage_uri p)
       (pt_content_hash p) ''tr'' ''tr'' \<lparr>lg_rows = [], lg_attempts = 0\<rparr> = (Inr v, lg') \<and> \<not> ig_ok v"
proof -
  have "(case fst (demo_write [CHR 0x0D]) of Inl _ \<Rightarrow> False | Inr p \<Rightarrow> True)" by code_simp
  then obtain p where p: "demo_write [CHR 0x0D] = (Inr p, snd (demo_write [CHR 0x0D]))"
    by (cases "demo_write [CHR 0x0D]") (auto split: sum.splits)
  have "ac_store demo_config = Some demo_store" "clean_path (fs_root demo_store)"
    by (simp_all add: demo_config_def mvp_defaults_def demo_store_def clean_path_def)
  from written_artifact_verifies [OF p this _ refl refl, of "''tr''" "''tr''" "\<lparr>lg_rows = [], lg_attempts = 0\<rparr>"] p show ?thesis
    by (metis (no_types, lifting) fst_conv list.set_intros(1))
qed

end
