(* ===== verification/Write_Tools.thy ===== *)
theory Write_Tools
  imports Project_Governance Artifacts
begin

text \<open>
  Governed write tools.
  \<^item> \<^verbatim>\<open>execution_sandbox/tools/access_policy.py\<close>: \<open>is_read_tool_allowed\<close>, \<open>is_write_tool_allowed\<close>;
  \<^item> \<^verbatim>\<open>execution_sandbox/tools/contracts.py\<close>: \<open>tool_context\<close>, \<open>tool_source\<close>, \<open>tool_result\<close>;
  \<^item> \<^verbatim>\<open>execution_sandbox/tools/write_tools.py\<close>: \<open>call_write_tool\<close> and the four tools.

  The service works on the projects (\<open>Project_Governance\<close>), the artifacts (\<open>Artifacts\<close>), the budget
  ledger (\<open>Budget\<close>) and the audit trail (\<open>Audit_Trail\<close>), and keeps the results of earlier calls. Arguments
  are JSON objects. Parameters of a call are the hash, the printing of JSON (\<^verbatim>\<open>json.dumps\<close>), the text of a
  value that is not a string (\<^verbatim>\<open>str\<close>), refusals of the operating system and failures of the databases.
  A \<open>CodedError\<close> that reaches a lifecycle tool after its project was read is the handlers' error class.
\<close>

section \<open>Access policy\<close>

definition read_allowlist_by_role :: "(string \<times> string list) list" where
  "read_allowlist_by_role = [
     (''owner'', [''get_project_lifecycle_state'', ''get_project_budget_snapshot'', ''get_project_milestone_status'',
        ''get_project_task_board'', ''search_project_docs'', ''get_project_doc_latest'', ''get_completion_gate_status'',
        ''get_project_workforce_snapshot'', ''get_audit_event_stream'', ''get_dispatch_denial_evidence'', ''get_conversation_window'']),
     (''ceo'', [''get_project_lifecycle_state'', ''get_project_budget_snapshot'', ''get_project_milestone_status'',
        ''get_project_task_board'', ''search_project_docs'', ''get_project_doc_latest'', ''get_completion_gate_status'',
        ''get_project_workforce_snapshot'', ''get_dispatch_denial_evidence'', ''get_conversation_window'']),
     (''cwo'', [''get_project_lifecycle_state'', ''get_project_budget_snapshot'', ''get_project_milestone_status'',
        ''get_project_task_board'', ''search_project_docs'', ''get_project_doc_latest'', ''get_completion_gate_status'',
        ''get_project_workforce_snapshot'', ''get_dispatch_denial_evidence'', ''get_conversation_window'']),
     (''auditor'', [''get_project_lifecycle_state'', ''get_project_budget_snapshot'', ''get_project_milestone_status'',
        ''get_project_task_board'', ''search_project_docs'', ''get_project_doc_latest'', ''get_completion_gate_status'',
        ''get_project_workforce_snapshot'', ''get_audit_event_stream'', ''get_dispatch_denial_evidence'', ''get_conversation_window'']),
     (''administrator'', [''get_project_lifecycle_state'', ''get_project_milestone_status'', ''get_project_task_board'',
        ''search_project_docs'', ''get_project_doc_latest'', ''get_audit_event_stream'', ''get_dispatch_denial_evidence'',
        ''get_conversation_window'']),
     (''project_manager'', [''get_project_lifecycle_state'', ''get_project_milestone_status'', ''get_project_task_board'',
        ''search_project_docs'', ''get_project_doc_latest'', ''get_completion_gate_status'', ''get_project_workforce_snapshot'',
        ''get_conversation_window'']),
     (''runtime_agent'', [])]"

definition write_tool_names :: "string list" where
  "write_tool_names = [''transition_project_lifecycle'', ''append_decision_log'', ''append_progress_report'', ''upsert_project_artifact'']"

definition write_allowlist_by_role :: "(string \<times> string list) list" where
  "write_allowlist_by_role = [(''ceo'', write_tool_names), (''cwo'', write_tool_names), (''project_manager'', write_tool_names),
     (''owner'', []), (''auditor'', []), (''administrator'', []), (''runtime_agent'', [])]"

definition allowlisted :: "(string \<times> string list) list \<Rightarrow> string \<Rightarrow> string \<Rightarrow> bool" where
  "allowlisted table role tool_name =
     (py_lower (py_strip tool_name) \<in> set (case map_of table (py_lower (py_strip role)) of None \<Rightarrow> [] | Some ts \<Rightarrow> ts))"

definition is_read_tool_allowed :: "string \<Rightarrow> string \<Rightarrow> bool" where
  "is_read_tool_allowed = allowlisted read_allowlist_by_role"

definition is_write_tool_allowed :: "string \<Rightarrow> string \<Rightarrow> bool" where
  "is_write_tool_allowed = allowlisted write_allowlist_by_role"

section \<open>Contracts\<close>

record tool_context =
  cx_task_id :: string
  cx_request_id :: string
  cx_trace_id :: string
  cx_principal_id :: string
  cx_principal_role :: string
  cx_recipient_role :: string
  cx_recipient_id :: "string option"
  cx_project_id :: "string option"

record tool_source =
  sd_source_id :: string
  sd_source_kind :: string
  sd_version :: "string option"
  sd_updated_at :: "time option"

record tool_result =
  tx_decision :: string
  tx_tool_name :: string
  tx_tool_call_id :: string
  tx_trace_id :: string
  tx_request_id :: string
  tx_data :: "json_object option"
  tx_sources :: "tool_source list"
  tx_error_code :: "string option"
  tx_message :: string

record tool_env =
  te_sha :: "string \<Rightarrow> string"
  te_dumps :: "json_object \<Rightarrow> string"
  te_show :: "json \<Rightarrow> string"
  te_os_error :: "path \<Rightarrow> string option"
  te_config :: artifact_config
  te_audit_fault :: "nat \<Rightarrow> py_exn option"
  te_budget_fault :: "string \<Rightarrow> py_exn option"
  te_budget_client :: bool

record tool_state =
  tl_gov :: governance
  tl_artifacts :: artifact_db
  tl_budget :: budget_db
  tl_audit :: audit_log
  tl_results :: "(string \<times> tool_result) list"

type_synonym 'a tool_run = "(py_exn, 'a, tool_state) run"

section \<open>Results and arguments\<close>

definition tool_answer ::
  "string \<Rightarrow> string \<Rightarrow> tool_context \<Rightarrow> json_object option \<Rightarrow> tool_source list \<Rightarrow> string option \<Rightarrow> string \<Rightarrow> tool_state \<Rightarrow> tool_result tool_run" where
  "tool_answer decision tool_name ctx data sources error_code message s =
     (let (u, g) = gov_uuid (tl_gov s)
      in (Inr \<lparr>tx_decision = decision, tx_tool_name = tool_name, tx_tool_call_id = ''tool-'' @ u, tx_trace_id = cx_trace_id ctx,
               tx_request_id = cx_request_id ctx, tx_data = data, tx_sources = sources, tx_error_code = error_code,
               tx_message = message\<rparr>, s\<lparr>tl_gov := g\<rparr>))"

definition tool_ok :: "string \<Rightarrow> tool_context \<Rightarrow> json_object \<Rightarrow> tool_source list \<Rightarrow> tool_state \<Rightarrow> tool_result tool_run" where
  "tool_ok tool_name ctx data sources = tool_answer ''ok'' tool_name ctx (Some data) sources None ''ok''"

definition tool_deny :: "string \<Rightarrow> tool_context \<Rightarrow> string \<Rightarrow> string \<Rightarrow> tool_state \<Rightarrow> tool_result tool_run" where
  "tool_deny tool_name ctx code message = tool_answer ''denied'' tool_name ctx None [] (Some code) message"

text \<open>\<^verbatim>\<open>str(arguments.get(k) or d)\<close>.\<close>

fun json_truthy :: "json \<Rightarrow> bool" where
  "json_truthy JNull = False"
| "json_truthy (JBool b) = b"
| "json_truthy (JNum x) = (x \<noteq> 0)"
| "json_truthy (JStr s) = (s \<noteq> [])"
| "json_truthy (JIso t) = True"
| "json_truthy (JList xs) = (xs \<noteq> [])"
| "json_truthy (JObj d) = (d \<noteq> [])"

fun json_text :: "(json \<Rightarrow> string) \<Rightarrow> json \<Rightarrow> string" where
  "json_text show_value (JStr s) = s"
| "json_text show_value v = show_value v"

definition arg_or :: "tool_env \<Rightarrow> json_object \<Rightarrow> string \<Rightarrow> string \<Rightarrow> string" where
  "arg_or env args k d =
     (case dict_get args k of None \<Rightarrow> d | Some v \<Rightarrow> if json_truthy v then json_text (te_show env) v else d)"

definition arg_text :: "tool_env \<Rightarrow> json_object \<Rightarrow> string \<Rightarrow> string" where
  "arg_text env args k = py_strip (arg_or env args k [])"

fun normalize_roles :: "tool_env \<Rightarrow> json option \<Rightarrow> string list" where
  "normalize_roles env (Some (JStr s)) = map (py_lower \<circ> py_strip) (filter (\<lambda>w. py_strip w \<noteq> []) (py_split CHR '','' s))"
| "normalize_roles env (Some (JList xs)) =
     map (py_lower \<circ> py_strip) (filter (\<lambda>w. py_strip w \<noteq> []) (map (json_text (te_show env)) xs))"
| "normalize_roles env _ = []"

section \<open>The tools\<close>

definition resolve_project ::
  "tool_env \<Rightarrow> json_object \<Rightarrow> tool_context \<Rightarrow> tool_state \<Rightarrow> (tool_result + (string \<times> project_record)) tool_run" where
  "resolve_project env args ctx s =
     (let requested = (if arg_text env args ''project_id'' \<noteq> [] then arg_text env args ''project_id'' else or_str (cx_project_id ctx) []);
          name = arg_or env args ''tool_name'' ''tool'';
          refused = (\<lambda>code m. and_then (tool_deny name ctx code m s) (\<lambda>r s1. (Inr (Inl r), s1)))
      in if requested = [] then refused ''tool_project_scope_required'' ''project_id is required''
         else if cx_project_id ctx \<noteq> None \<and> Some requested \<noteq> cx_project_id ctx
         then refused ''tool_project_scope_mismatch'' ''requested project_id differs from command scope''
         else case get_project (tl_gov s) requested of
                Inl e \<Rightarrow> (Inl e, s)
              | Inr None \<Rightarrow> refused ''tool_project_missing'' (''project not found: '' @ requested)
              | Inr (Some p) \<Rightarrow> (Inr (Inr (requested, p)), s))"

definition project_source :: "project_record \<Rightarrow> tool_source" where
  "project_source p = \<lparr>sd_source_id = ''project:'' @ pj_project_id p, sd_source_kind = ''project_record'',
     sd_version = Some (''status:'' @ pj_status p), sd_updated_at = Some (pj_updated_at p)\<rparr>"

text \<open>The handler a target status stands for.\<close>

definition project_of :: "(py_exn, project_record \<times> string \<times> string, governance) run \<Rightarrow> (py_exn, project_record, governance) run" where
  "project_of r = and_then r (\<lambda>(p, _, _) g. (Inr p, g))"

definition lifecycle_handler ::
  "string \<Rightarrow> (string \<Rightarrow> string \<Rightarrow> string \<Rightarrow> string \<Rightarrow> governance \<Rightarrow> (py_exn, project_record, governance) run) option" where
  "lifecycle_handler next_status =
     (if next_status = ''paused'' then Some (\<lambda>i role trace reason g. project_of (pause_project_by_governance i role trace reason g))
      else if next_status = ''active'' then Some (\<lambda>i role trace reason g. project_of (resume_project_by_governance i role trace reason g))
      else if next_status = ''terminated'' then Some (\<lambda>i role trace reason g. project_of (terminate_project_by_governance i role trace reason g))
      else if next_status = ''archived'' then Some (\<lambda>i role trace reason g. project_of (archive_project_by_governance i role trace reason g))
      else if next_status = ''completed'' then Some finalize_project_completion_by_c_suite
      else None)"

definition tool_transition_project_lifecycle :: "tool_env \<Rightarrow> json_object \<Rightarrow> tool_context \<Rightarrow> tool_state \<Rightarrow> tool_result tool_run" where
  "tool_transition_project_lifecycle env args ctx s =
     and_then (resolve_project env args ctx s) (\<lambda>r s1. case r of
       Inl denied \<Rightarrow> (Inr denied, s1)
     | Inr (project_id, project) \<Rightarrow>
         (let next_status = py_lower (arg_text env args ''next_status'');
              given = py_strip (arg_or env args ''reason_code'' ''tool_mutation'');
              reason_code = (if given = [] then ''tool_mutation'' else given);
              name = ''transition_project_lifecycle''
          in if next_status = [] then tool_deny name ctx ''tool_next_status_missing'' ''next_status is required'' s1
             else case lifecycle_handler next_status of
               None \<Rightarrow> tool_deny name ctx ''tool_next_status_invalid'' (''unsupported next_status: '' @ next_status) s1
             | Some handler \<Rightarrow>
                 (case handler project_id (cx_recipient_role ctx) (cx_trace_id ctx) reason_code (tl_gov s1) of
                    (Inl (CodedError code m), g) \<Rightarrow> tool_deny name ctx code m (s1\<lparr>tl_gov := g\<rparr>)
                  | (Inl e, g) \<Rightarrow> (Inl e, s1\<lparr>tl_gov := g\<rparr>)
                  | (Inr p, g) \<Rightarrow>
                      tool_ok name ctx
                        [(''project_id'', JStr (pj_project_id p)), (''previous_status'', JStr (pj_status project)),
                         (''current_status'', JStr (pj_status p)), (''reason_code'', JStr reason_code)]
                        [project_source p] (s1\<lparr>tl_gov := g\<rparr>))))"

definition put_artifact ::
  "tool_env \<Rightarrow> string \<Rightarrow> string \<Rightarrow> string \<Rightarrow> write_context \<Rightarrow> tool_state \<Rightarrow> (artifact_error + artifact_pointer) \<times> tool_state" where
  "put_artifact env project_id artifact_type content wctx s =
     (let (now, g1) = gov_now (tl_gov s); (aid, g2) = gov_uuid g1
      in case write_project_artifact (te_sha env) (te_os_error env) (te_config env) project_id artifact_type content (Some wctx) aid now
                (tl_artifacts s) of
           (Inl e, db) \<Rightarrow> (Inl e, s\<lparr>tl_artifacts := db\<rparr>)
         | (Inr p, db) \<Rightarrow> (Inr p, s\<lparr>tl_gov := g2, tl_artifacts := db\<rparr>))"

definition write_artifact_tool ::
  "tool_env \<Rightarrow> string \<Rightarrow> string \<Rightarrow> json_object \<Rightarrow> tool_context \<Rightarrow> tool_state \<Rightarrow> tool_result tool_run" where
  "write_artifact_tool env tool_name artifact_type args ctx s =
     and_then (resolve_project env args ctx s) (\<lambda>r s1. case r of
       Inl denied \<Rightarrow> (Inr denied, s1)
     | Inr (project_id, project) \<Rightarrow>
         (let content = arg_text env args ''content''
          in if content = [] then tool_deny tool_name ctx ''tool_content_missing'' ''content is required'' s1
             else case put_artifact env project_id artifact_type content
                    \<lparr>wc_actor_role = cx_recipient_role ctx, wc_project_status = pj_status project,
                     wc_approval_roles = normalize_roles env (dict_get args ''approval_roles'')\<rparr> s1 of
               (Inl (ProjectArtifactRepositoryError code m), s2) \<Rightarrow> tool_deny tool_name ctx code m s2
             | (Inl (ArtifactFileStoreError code m), s2) \<Rightarrow> (Inl (OtherExn m), s2)
             | (Inr p, s2) \<Rightarrow>
                 tool_ok tool_name ctx
                   [(''project_id'', JStr (pt_project_id p)), (''artifact_type'', JStr (pt_artifact_type p)),
                    (''revision_no'', JNum (of_nat (pt_revision_no p))), (''storage_uri'', JStr (pt_storage_uri p)),
                    (''content_hash'', JStr (pt_content_hash p)), (''byte_size'', JNum (of_nat (pt_byte_size p)))]
                   [\<lparr>sd_source_id = ''artifact:'' @ pt_artifact_type p, sd_source_kind = ''artifact'',
                     sd_version = Some (CHR ''v'' # show_nat (pt_revision_no p)), sd_updated_at = Some (pt_created_at p)\<rparr>] s2))"

definition tool_append_decision_log :: "tool_env \<Rightarrow> json_object \<Rightarrow> tool_context \<Rightarrow> tool_state \<Rightarrow> tool_result tool_run" where
  "tool_append_decision_log env = write_artifact_tool env ''append_decision_log'' ''decision_log''"

definition tool_append_progress_report :: "tool_env \<Rightarrow> json_object \<Rightarrow> tool_context \<Rightarrow> tool_state \<Rightarrow> tool_result tool_run" where
  "tool_append_progress_report env = write_artifact_tool env ''append_progress_report'' ''progress_report''"

definition tool_upsert_project_artifact :: "tool_env \<Rightarrow> json_object \<Rightarrow> tool_context \<Rightarrow> tool_state \<Rightarrow> tool_result tool_run" where
  "tool_upsert_project_artifact env args ctx s =
     (let artifact_type = py_lower (arg_text env args ''artifact_type'')
      in if artifact_type = []
         then tool_deny ''upsert_project_artifact'' ctx ''tool_artifact_type_missing'' ''artifact_type is required'' s
         else write_artifact_tool env ''upsert_project_artifact'' artifact_type args ctx s)"

definition write_handlers :: "(string \<times> (tool_env \<Rightarrow> json_object \<Rightarrow> tool_context \<Rightarrow> tool_state \<Rightarrow> tool_result tool_run)) list" where
  "write_handlers = [(''transition_project_lifecycle'', tool_transition_project_lifecycle),
     (''append_decision_log'', tool_append_decision_log), (''append_progress_report'', tool_append_progress_report),
     (''upsert_project_artifact'', tool_upsert_project_artifact)]"

section \<open>The service\<close>

definition write_tool_cost_units :: "(string \<times> int) list" where
  "write_tool_cost_units = [(''transition_project_lifecycle'', 40), (''append_decision_log'', 15), (''append_progress_report'', 20),
     (''upsert_project_artifact'', 25)]"

definition tool_reservation :: "tool_env \<Rightarrow> string \<Rightarrow> json_object \<Rightarrow> tool_context \<Rightarrow> budget_input" where
  "tool_reservation env tool_name args ctx =
     \<lparr>bi_task_id = cx_task_id ctx, bi_request_id = cx_request_id ctx, bi_trace_id = cx_trace_id ctx,
      bi_principal_id = cx_principal_id ctx,
      bi_project_id = or_str (cx_project_id ctx)
        (if arg_text env args ''project_id'' \<noteq> [] then arg_text env args ''project_id'' else default_project_id),
      bi_command = ''tool_write:'' @ tool_name, bi_args = [te_dumps env args],
      bi_estimated_cost_units = (case map_of write_tool_cost_units tool_name of None \<Rightarrow> 25 | Some c \<Rightarrow> c),
      bi_model_class = ''interactive_fast''\<rparr>"

definition reserve_for_tool :: "tool_env \<Rightarrow> string \<Rightarrow> json_object \<Rightarrow> tool_context \<Rightarrow> tool_state \<Rightarrow> tool_result option tool_run" where
  "reserve_for_tool env tool_name args ctx s =
     (if \<not> te_budget_client env
      then (Inl (OtherExn ''budget_runtime_client is required for governed write tools''), s)
      else let (rid, g1) = gov_uuid (tl_gov s); (now, g2) = gov_now g1;
               (r, b) = reserve (te_budget_fault env) (tl_budget s) (tool_reservation env tool_name args ctx) rid now;
               s1 = s\<lparr>tl_gov := g2, tl_budget := b\<rparr>;
               denied = (\<lambda>code m. and_then (tool_deny tool_name ctx code m s1) (\<lambda>x s2. (Inr (Some x), s2)))
           in if br_decision r = ''allow'' then (Inr None, s1)
              else if br_decision r \<in> {''deny'', ''hard_breach''} then denied (br_reason_code r) (br_reason_message r)
              else denied ''budget_uncertain_fail_closed'' ''budget decision uncertain; write tool denied fail-closed'')"

definition audit_write_attempt :: "tool_env \<Rightarrow> tool_context \<Rightarrow> tool_result \<Rightarrow> tool_state \<Rightarrow> unit tool_run" where
  "audit_write_attempt env ctx r s =
     (case write_event (te_audit_fault env)
         \<lparr>aw_event_type = ''tool.write.'' @ tx_tool_name r, aw_outcome = tx_decision r, aw_trace_id = cx_trace_id ctx,
          aw_request_id = Some (cx_request_id ctx), aw_task_id = Some (cx_task_id ctx), aw_principal_id = Some (cx_principal_id ctx),
          aw_principal_role = Some (cx_principal_role ctx), aw_source = ''tool_orchestration'', aw_reason_code = tx_error_code r,
          aw_message = tx_message r, aw_rule_ids = [],
          aw_payload = [(''tool_name'', Some (tx_tool_name r)), (''decision'', Some (tx_decision r)),
            (''data'', Some (take 4000 (te_dumps env (case tx_data r of None \<Rightarrow> [] | Some d \<Rightarrow> d)))),
            (''source_count'', Some (show_nat (length (tx_sources r))))]\<rparr> (tl_audit s)
      of (x, lg) \<Rightarrow> (x, s\<lparr>tl_audit := lg\<rparr>))"

definition idempotency_key :: "tool_env \<Rightarrow> string \<Rightarrow> string \<Rightarrow> json_object \<Rightarrow> string" where
  "idempotency_key env request_id tool_name args = request_id @ ''::'' @ tool_name @ ''::'' @ te_sha env (te_dumps env args)"

text \<open>The audited result is returned; with a key it is also kept.\<close>

definition audited :: "tool_env \<Rightarrow> tool_context \<Rightarrow> string option \<Rightarrow> tool_result tool_run \<Rightarrow> tool_result tool_run" where
  "audited env ctx key r =
     and_then r (\<lambda>x s. and_then (audit_write_attempt env ctx x s) (\<lambda>_ s1.
       (Inr x, case key of None \<Rightarrow> s1 | Some k \<Rightarrow> s1\<lparr>tl_results := dict_put (tl_results s1) k x\<rparr>)))"

definition run_handler ::
  "(tool_env \<Rightarrow> json_object \<Rightarrow> tool_context \<Rightarrow> tool_state \<Rightarrow> tool_result tool_run) option \<Rightarrow>
   tool_env \<Rightarrow> string \<Rightarrow> json_object \<Rightarrow> tool_context \<Rightarrow> tool_state \<Rightarrow> tool_result tool_run" where
  "run_handler h env tool args ctx s =
     (case h of
        None \<Rightarrow> tool_deny tool ctx ''tool_unknown'' ''unknown write tool'' s
      | Some handler \<Rightarrow>
          (case handler env args ctx s of
             (Inl e, s1) \<Rightarrow> tool_deny tool ctx ''tool_runtime_error'' (''tool execution failed: '' @ exn_text e) s1
           | r \<Rightarrow> r))"

definition raw_markers :: "string list" where
  "raw_markers = [''raw'', ''sql'', ''db_'']"

definition call_write_tool :: "tool_env \<Rightarrow> string \<Rightarrow> json_object \<Rightarrow> tool_context \<Rightarrow> tool_state \<Rightarrow> tool_result tool_run" where
  "call_write_tool env tool_name args ctx s =
     (let tool = py_lower (py_strip tool_name)
      in if tool = [] then audited env ctx None (tool_deny tool_name ctx ''tool_name_missing'' ''tool_name is required'' s)
         else if list_ex (\<lambda>m. py_contains tool m) raw_markers
         then audited env ctx None (tool_deny tool ctx ''tool_raw_db_mutation_denied''
                ''raw or direct DB mutation tools are forbidden; use intent-level tools'' s)
         else if \<not> is_write_tool_allowed (cx_principal_role ctx) tool
         then audited env ctx None (tool_deny tool ctx ''tool_access_denied'' ''write tool is not allowed for recipient role'' s)
         else let key = idempotency_key env (cx_request_id ctx) tool args
              in case map_of (tl_results s) key of
                   Some r \<Rightarrow>
                     audited env ctx None
                       (Inr (r\<lparr>tx_data := Some (dict_put (case tx_data r of None \<Rightarrow> [] | Some d \<Rightarrow> d) ''replayed'' (JBool True))\<rparr>), s)
                 | None \<Rightarrow>
                     and_then (reserve_for_tool env tool args ctx s) (\<lambda>denied s1.
                       audited env ctx (Some key)
                         (case denied of Some r \<Rightarrow> (Inr r, s1) | None \<Rightarrow> run_handler (map_of write_handlers tool) env tool args ctx s1)))"

section \<open>Histories\<close>

inductive write_tool_step :: "tool_state \<Rightarrow> tool_state \<Rightarrow> bool" where
  call: "call_write_tool env tool_name args ctx s = (r, s') \<Longrightarrow> write_tool_step s s'"

definition tool_inv :: "tool_state \<Rightarrow> bool" where
  "tool_inv s = (gov_ok (tl_gov s) \<and> artifacts_ok (tl_artifacts s) \<and> budget_inv (tl_budget s))"

text \<open>Only the supply of identifiers and the audit trail differ.\<close>

definition only_audited :: "tool_state \<Rightarrow> tool_state \<Rightarrow> bool" where
  "only_audited s s' = (gv_projects (tl_gov s') = gv_projects (tl_gov s) \<and> gv_charters (tl_gov s') = gv_charters (tl_gov s) \<and>
     tl_artifacts s' = tl_artifacts s \<and> tl_budget s' = tl_budget s \<and> tl_results s' = tl_results s)"

definition mark_replayed :: "tool_result \<Rightarrow> tool_result" where
  "mark_replayed r = r\<lparr>tx_data := Some (dict_put (case tx_data r of None \<Rightarrow> [] | Some d \<Rightarrow> d) ''replayed'' (JBool True))\<rparr>"

section \<open>Lemmas\<close>

lemma tool_deny_eq: "\<exists>r. tool_deny name ctx code m s = (Inr r, s\<lparr>tl_gov := snd (gov_uuid (tl_gov s))\<rparr>) \<and> tx_decision r = ''denied'' \<and>
    tx_error_code r = Some code"
  and tool_ok_eq: "\<exists>r. tool_ok name ctx d src s = (Inr r, s\<lparr>tl_gov := snd (gov_uuid (tl_gov s))\<rparr>) \<and> tx_decision r = ''ok''"
  by (simp_all add: tool_deny_def tool_ok_def tool_answer_def case_prod_beta)

lemma only_audited_refl [simp]: "only_audited s s"
  by (simp add: only_audited_def)

lemma only_audited_trans: "only_audited s s1 \<Longrightarrow> only_audited s1 s2 \<Longrightarrow> only_audited s s2"
  by (simp add: only_audited_def)

lemma only_audited_draw: "only_audited s (s\<lparr>tl_gov := snd (gov_uuid (tl_gov s))\<rparr>)"
  by (simp add: only_audited_def)

lemma audit_write_attempt_eq: "\<exists>x lg. audit_write_attempt env ctx r s = (x, s\<lparr>tl_audit := lg\<rparr>)"
  unfolding audit_write_attempt_def case_prod_beta by blast

lemma audited_unkept:
  assumes "only_audited s0 s"
  shows "run_ok (\<lambda>x s'. x = r \<and> only_audited s0 s') (\<lambda>_ s'. only_audited s0 s') (audited env ctx None (Inr r, s))"
proof -
  obtain x lg where "audit_write_attempt env ctx r s = (x, s\<lparr>tl_audit := lg\<rparr>)" using audit_write_attempt_eq by blast
  then show ?thesis using assms by (cases x) (simp_all add: audited_def only_audited_def)
qed

lemma audited_deny:
  "run_ok (\<lambda>x s'. tx_decision x = ''denied'' \<and> only_audited s s') (\<lambda>_ s'. only_audited s s')
     (audited env ctx None (tool_deny name ctx code m s))"
proof -
  obtain r where r: "tool_deny name ctx code m s = (Inr r, s\<lparr>tl_gov := snd (gov_uuid (tl_gov s))\<rparr>)" "tx_decision r = ''denied''"
    using tool_deny_eq by blast
  then show ?thesis using run_ok_mono [OF audited_unkept [OF only_audited_draw, of r s env ctx]] by auto
qed

lemma audited_kept:
  "run_ok (\<lambda>x s'. x = r \<and> tl_results s' = dict_put (tl_results s) k r \<and> tl_gov s' = tl_gov s \<and> tl_artifacts s' = tl_artifacts s \<and>
     tl_budget s' = tl_budget s)
   (\<lambda>_ s'. tl_results s' = tl_results s \<and> tl_gov s' = tl_gov s \<and> tl_artifacts s' = tl_artifacts s \<and> tl_budget s' = tl_budget s)
   (audited env ctx (Some k) (Inr r, s))"
proof -
  obtain x lg where "audit_write_attempt env ctx r s = (x, s\<lparr>tl_audit := lg\<rparr>)" using audit_write_attempt_eq by blast
  then show ?thesis by (cases x) (simp_all add: audited_def)
qed

lemma audited_raised [simp]: "audited env ctx key (Inl e, s) = (Inl e, s)"
  by (simp add: audited_def)

text \<open>Who may call which tool.\<close>

lemma write_allowed_iff:
  "is_write_tool_allowed role tool \<longleftrightarrow>
     py_lower (py_strip role) \<in> {''ceo'', ''cwo'', ''project_manager''} \<and> py_lower (py_strip tool) \<in> set write_tool_names"
  by (simp add: is_write_tool_allowed_def allowlisted_def write_allowlist_by_role_def)

lemma write_tool_names_plain:
  "tool \<in> set write_tool_names \<Longrightarrow> tool \<noteq> [] \<and> \<not> list_ex (\<lambda>m. py_contains tool m) raw_markers \<and> map_of write_handlers tool \<noteq> None"
proof -
  have "list_all (\<lambda>tool. tool \<noteq> [] \<and> \<not> list_ex (\<lambda>m. py_contains tool m) raw_markers \<and> tool \<in> set (map fst write_handlers)) write_tool_names"
    by (simp add: write_handlers_def) code_simp
  then show "tool \<in> set write_tool_names \<Longrightarrow> ?thesis"
    by (auto simp: list_all_iff map_of_eq_None_iff)
qed

lemma call_refused:
  assumes "\<not> is_write_tool_allowed (cx_principal_role ctx) tool_name"
  shows "run_ok (\<lambda>x s'. tx_decision x = ''denied'' \<and> only_audited s s') (\<lambda>_ s'. only_audited s s') (call_write_tool env tool_name args ctx s)"
proof -
  have "\<not> is_write_tool_allowed (cx_principal_role ctx) (py_lower (py_strip tool_name))"
    using assms by (simp add: write_allowed_iff py_strip_lower)
  then show ?thesis by (simp add: call_write_tool_def Let_def audited_deny)
qed

text \<open>An admitted call: answered from the store, or reserved and run.\<close>

lemma call_admitted:
  assumes "is_write_tool_allowed (cx_principal_role ctx) tool_name"
  defines "tool \<equiv> py_lower (py_strip tool_name)"
  shows "call_write_tool env tool_name args ctx s =
    (case map_of (tl_results s) (idempotency_key env (cx_request_id ctx) tool args) of
       Some r \<Rightarrow> audited env ctx None (Inr (mark_replayed r), s)
     | None \<Rightarrow> and_then (reserve_for_tool env tool args ctx s) (\<lambda>denied s1.
         audited env ctx (Some (idempotency_key env (cx_request_id ctx) tool args))
           (case denied of Some r \<Rightarrow> (Inr r, s1) | None \<Rightarrow> run_handler (map_of write_handlers tool) env tool args ctx s1)))"
proof -
  have "tool \<in> set write_tool_names" "py_lower (py_strip tool) = tool"
    using assms by (simp_all add: write_allowed_iff py_strip_lower)
  then have "is_write_tool_allowed (cx_principal_role ctx) tool" using assms(1) by (simp add: write_allowed_iff)
  then show ?thesis
    using write_tool_names_plain [OF \<open>tool \<in> set write_tool_names\<close>]
    by (simp add: call_write_tool_def tool_def [symmetric] Let_def mark_replayed_def split: option.split)
qed

subsection \<open>The invariant of the services\<close>

abbreviation keeps_inv :: "'a tool_run \<Rightarrow> bool" where
  "keeps_inv r \<equiv> tool_inv (snd r)"

lemma tool_inv_cong [inv_intros]:
  assumes "tool_inv s" "gv_projects (tl_gov s') = gv_projects (tl_gov s)" "tl_artifacts s' = tl_artifacts s" "tl_budget s' = tl_budget s"
  shows "tool_inv s'"
  using assms gov_ok_projects [of "tl_gov s" "tl_gov s'"] by (simp add: tool_inv_def)

lemma only_audited_inv: "only_audited s s' \<Longrightarrow> tool_inv s \<Longrightarrow> tool_inv s'"
  by (rule tool_inv_cong [of s]) (simp_all add: only_audited_def)

lemma tool_deny_inv [inv_intros]: "tool_inv s \<Longrightarrow> keeps_inv (tool_deny name ctx code m s)"
  using tool_deny_eq [of name ctx code m s] only_audited_inv [OF only_audited_draw, of s] by auto

lemma tool_ok_inv [inv_intros]: "tool_inv s \<Longrightarrow> keeps_inv (tool_ok name ctx d src s)"
  using tool_ok_eq [of name ctx d src s] only_audited_inv [OF only_audited_draw, of s] by auto

lemma resolve_project_inv: "tool_inv s \<Longrightarrow> keeps_inv (resolve_project env args ctx s)"
  by (auto simp: resolve_project_def Let_def intro!: and_then_inv [where P = tool_inv] tool_deny_inv split: sum.splits option.splits)

lemma project_of_snd [simp]: "snd (project_of r) = snd r"
  by (cases r; cases "fst r") (auto simp: project_of_def)

lemma lifecycle_handler_ok:
  assumes "lifecycle_handler nxt = Some h" "gov_ok g"
  shows "gov_ok (snd (h i role trace reason g))"
  using lifecycle_handlers_keep_ok [OF assms(2)] handlers_keep_ok(6) [OF assms(2)] assms(1)
  by (auto simp: lifecycle_handler_def keeps_ok_snd split: if_splits)

lemma tool_inv_gov: "tool_inv s \<Longrightarrow> gov_ok g \<Longrightarrow> tool_inv (s\<lparr>tl_gov := g\<rparr>)"
  by (simp add: tool_inv_def)

lemma transition_tool_inv:
  assumes "tool_inv s"
  shows "keeps_inv (tool_transition_project_lifecycle env args ctx s)"
  unfolding tool_transition_project_lifecycle_def
proof (rule and_then_inv [where P = tool_inv, OF resolve_project_inv [OF assms]], goal_cases)
  case (1 r s1)
  have "tool_inv (s1\<lparr>tl_gov := g\<rparr>)"
    if "lifecycle_handler nxt = Some h" "h i role trace reason (tl_gov s1) = (x, g)" for nxt h i role trace reason x g
    using tool_inv_gov [OF 1, of g] lifecycle_handler_ok [OF that(1), of "tl_gov s1" i role trace reason] 1 that(2)
    by (simp add: tool_inv_def)
  then show ?case
    using 1 unfolding Let_def
    by (auto split: sum.split prod.split option.split py_exn.split intro!: tool_deny_inv tool_ok_inv simp del: append.simps)
qed

lemma put_artifact_inv:
  assumes "tool_inv s"
  shows "tool_inv (snd (put_artifact env i t content c s))"
proof -
  obtain now g1 where now: "gov_now (tl_gov s) = (now, g1)" by (cases "gov_now (tl_gov s)")
  obtain aid g2 where aid: "gov_uuid g1 = (aid, g2)" by (cases "gov_uuid g1")
  obtain r db where w: "write_project_artifact (te_sha env) (te_os_error env) (te_config env) i t content (Some c) aid now (tl_artifacts s) = (r, db)"
    by (cases "write_project_artifact (te_sha env) (te_os_error env) (te_config env) i t content (Some c) aid now (tl_artifacts s)")
  have "artifacts_ok db" using artifact_step_ok [OF artifact_step.put [OF w]] assms by (simp add: tool_inv_def)
  moreover have "gv_projects g2 = gv_projects (tl_gov s)" using gov_draw_frame(1) [of "tl_gov s"] gov_draw_frame(2) [of g1] now aid by simp
  then have "gov_ok g2" using assms gov_ok_projects by (auto simp: tool_inv_def)
  ultimately show ?thesis using assms now aid w by (cases r) (simp_all add: put_artifact_def tool_inv_def)
qed

lemma write_artifact_tool_inv:
  assumes "tool_inv s"
  shows "keeps_inv (write_artifact_tool env name t args ctx s)"
  unfolding write_artifact_tool_def
proof (rule and_then_inv [where P = tool_inv, OF resolve_project_inv [OF assms]], goal_cases)
  case (1 r s1)
  have "tool_inv s2" if "put_artifact env i t content c s1 = (x, s2)" for i t content c x s2
    using put_artifact_inv [OF 1, of env i t content c] that by simp
  with 1 show ?case
    unfolding Let_def
    by (auto split: sum.split prod.split artifact_error.split intro!: tool_deny_inv tool_ok_inv simp del: append.simps)
qed

lemma write_handlers_inv:
  assumes "tool_inv s" "map_of write_handlers tool = Some h"
  shows "keeps_inv (h env args ctx s)"
proof -
  have "keeps_inv (tool_upsert_project_artifact env args ctx s)"
    using assms(1) by (simp add: tool_upsert_project_artifact_def Let_def write_artifact_tool_inv tool_deny_inv)
  moreover have "keeps_inv (tool_append_decision_log env args ctx s)" "keeps_inv (tool_append_progress_report env args ctx s)"
    using assms(1) by (simp_all add: tool_append_decision_log_def tool_append_progress_report_def write_artifact_tool_inv)
  ultimately show ?thesis
    using assms transition_tool_inv [OF assms(1)] by (auto simp: write_handlers_def split: if_splits)
qed

lemma run_handler_inv:
  assumes "tool_inv s"
  shows "keeps_inv (run_handler (map_of write_handlers tool) env tool args ctx s)"
  unfolding run_handler_def
proof (cases "map_of write_handlers tool", goal_cases)
  case (2 h)
  with write_handlers_inv [OF assms 2, of env args ctx] show ?case
    by (auto split: prod.split sum.split intro!: tool_deny_inv)
qed (simp add: tool_deny_inv assms)

lemma reserve_for_tool_inv:
  assumes "tool_inv s"
  shows "keeps_inv (reserve_for_tool env tool args ctx s)"
proof -
  have "tool_inv (s\<lparr>tl_gov := snd (gov_now (snd (gov_uuid (tl_gov s)))), tl_budget := snd (reserve fault (tl_budget s) q rid now)\<rparr>)" for fault q rid now
    using assms gov_ok_projects [of "tl_gov s"] budget_step_inv [OF budget_step.reserve] by (simp add: tool_inv_def)
  then show ?thesis
    using assms by (auto simp: reserve_for_tool_def Let_def case_prod_beta intro!: and_then_inv [where P = tool_inv] tool_deny_inv)
qed

lemma audited_inv: "keeps_inv r \<Longrightarrow> keeps_inv (audited env ctx key r)"
  unfolding audited_def
proof (rule and_then_inv [where P = tool_inv], assumption, goal_cases)
  case (1 x s)
  obtain y lg where "audit_write_attempt env ctx x s = (y, s\<lparr>tl_audit := lg\<rparr>)" using audit_write_attempt_eq by blast
  with 1 show ?case by (cases y) (auto simp: tool_inv_def split: option.split)
qed

lemma call_write_tool_inv:
  assumes "tool_inv s"
  shows "keeps_inv (call_write_tool env tool args ctx s)"
  unfolding call_write_tool_def Let_def
  using assms tool_deny_inv [OF assms]
  by (auto intro!: audited_inv and_then_inv [where P = tool_inv] reserve_for_tool_inv run_handler_inv split: option.split)

subsection \<open>The stored results and the budget\<close>

text \<open>The tools themselves neither store results nor touch the budget.\<close>

abbreviation books :: "tool_state \<Rightarrow> (string \<times> tool_result) list \<times> budget_db" where
  "books s \<equiv> (tl_results s, tl_budget s)"

lemma tool_answer_books [frame_simps]:
  "books (snd (tool_deny name ctx code m s)) = books s" "books (snd (tool_ok name ctx d src s)) = books s"
  "books (snd (put_artifact env i t content c s)) = books s"
  using tool_deny_eq [of name ctx code m s] tool_ok_eq [of name ctx d src s]
  by (auto simp: put_artifact_def Let_def case_prod_beta split: prod.split sum.split)

lemma resolve_project_books: "books (snd (resolve_project env args ctx s)) = books s"
proof -
  have "books (snd (and_then (tool_deny name ctx code m s) (\<lambda>r s1. (Inr (Inl r), s1)))) = books s" for name code m
    using tool_deny_eq [of name ctx code m s] by auto
  then show ?thesis by (auto simp: resolve_project_def Let_def split: sum.splits option.splits)
qed

lemma write_artifact_tool_books: "books (snd (write_artifact_tool env name t args ctx s)) = books s"
  unfolding write_artifact_tool_def
proof (rule and_then_inv [where P = "\<lambda>s'. books s' = books s", OF resolve_project_books], goal_cases)
  case (1 r s1)
  have "books s2 = books s1" if "put_artifact env i t content c s1 = (x, s2)" for i t content c x s2
    using tool_answer_books(3) [of env i t content c s1] that by simp
  with 1 show ?case
    using tool_answer_books(1,2)
    unfolding Let_def by (auto split: sum.split prod.split artifact_error.split simp del: append.simps)
qed

lemma transition_tool_books: "books (snd (tool_transition_project_lifecycle env args ctx s)) = books s"
  unfolding tool_transition_project_lifecycle_def
  by (rule and_then_inv [where P = "\<lambda>s'. books s' = books s", OF resolve_project_books])
    (use tool_answer_books(1,2) in \<open>auto simp: Let_def split: sum.split prod.split option.split py_exn.split simp del: append.simps\<close>)

lemma run_handler_books: "books (snd (run_handler (map_of write_handlers tool) env tool args ctx s)) = books s"
proof (cases "map_of write_handlers tool")
  case (Some h)
  then have "books (snd (h env args ctx s)) = books s"
    using write_artifact_tool_books [of env _ _ args ctx s] transition_tool_books [of env args ctx s] tool_answer_books(1) [of _ ctx _ _ s]
    by (auto simp: write_handlers_def tool_append_decision_log_def tool_append_progress_report_def tool_upsert_project_artifact_def Let_def
        split: if_splits)
  with Some tool_answer_books(1) show ?thesis by (auto simp: run_handler_def split: prod.split sum.split)
qed (use tool_answer_books(1) in \<open>simp add: run_handler_def\<close>)

lemma reserve_for_tool_results: "tl_results (snd (reserve_for_tool env tool args ctx s)) = tl_results s"
  using tool_answer_books(1)
  by (auto simp: reserve_for_tool_def Let_def case_prod_beta intro!: and_then_inv [where P = "\<lambda>s'. tl_results s' = tl_results s"])

lemma run_handler_returns: "\<exists>r s'. run_handler h env tool args ctx s = (Inr r, s')"
  using tool_deny_eq by (fastforce simp: run_handler_def split: option.split prod.split sum.split)

text \<open>A call never changes or drops a stored result; an admitted call that returns stores its result.\<close>

lemma call_results:
  "(\<exists>r. is_write_tool_allowed (cx_principal_role ctx) tool_name \<and>
       map_of (tl_results s) (idempotency_key env (cx_request_id ctx) (py_lower (py_strip tool_name)) args) = None \<and>
       fst (call_write_tool env tool_name args ctx s) = Inr r \<and>
       tl_results (snd (call_write_tool env tool_name args ctx s)) =
         dict_put (tl_results s) (idempotency_key env (cx_request_id ctx) (py_lower (py_strip tool_name)) args) r) \<or>
   tl_results (snd (call_write_tool env tool_name args ctx s)) = tl_results s \<and>
     (is_write_tool_allowed (cx_principal_role ctx) tool_name \<and> \<not> isl (fst (call_write_tool env tool_name args ctx s)) \<longrightarrow>
      map_of (tl_results s) (idempotency_key env (cx_request_id ctx) (py_lower (py_strip tool_name)) args) \<noteq> None)"
proof (cases "is_write_tool_allowed (cx_principal_role ctx) tool_name")
  case False
  have "run_ok (\<lambda>_ s'. tl_results s' = tl_results s) (\<lambda>_ s'. tl_results s' = tl_results s) (call_write_tool env tool_name args ctx s)"
    by (rule run_ok_mono [OF call_refused [OF False]]) (simp_all add: only_audited_def)
  with False show ?thesis by (auto simp: run_ok_def split: prod.splits sum.splits)
next
  case True
  let ?tool = "py_lower (py_strip tool_name)"
  let ?k = "idempotency_key env (cx_request_id ctx) ?tool args"
  show ?thesis
  proof (cases "map_of (tl_results s) ?k")
    case (Some r)
    with True audited_unkept [OF only_audited_refl, of "mark_replayed r" s env ctx] show ?thesis
      by (auto simp: call_admitted only_audited_def run_ok_def split: prod.splits sum.splits)
  next
    case None
    obtain d s1 where d: "reserve_for_tool env ?tool args ctx s = (d, s1)" by (cases "reserve_for_tool env ?tool args ctx s")
    have s1: "tl_results s1 = tl_results s" using reserve_for_tool_results [of env ?tool args ctx s] d by simp
    show ?thesis
    proof (cases d)
      case (Inl e)
      with True None d s1 show ?thesis by (simp add: call_admitted)
    next
      case (Inr denied)
      obtain x s2 where x: "(case denied of Some r \<Rightarrow> (Inr r, s1) | None \<Rightarrow> run_handler (map_of write_handlers ?tool) env ?tool args ctx s1) =
          (Inr x, s2)" "tl_results s2 = tl_results s"
        using run_handler_returns [of "map_of write_handlers ?tool" env ?tool args ctx s1] run_handler_books [of ?tool env args ctx s1] s1
        by (cases denied) auto
      from audited_kept [of x s2 ?k env ctx] True None d Inr x show ?thesis
        by (cases "audited env ctx (Some ?k) (Inr x, s2)"; cases "fst (audited env ctx (Some ?k) (Inr x, s2))")
          (simp_all add: call_admitted)
    qed
  qed
qed

lemma mark_replayed_idem [simp]: "mark_replayed (mark_replayed r) = mark_replayed r"
  by (simp add: mark_replayed_def)

lemma result_stays: "write_tool_step\<^sup>*\<^sup>* s s' \<Longrightarrow> map_of (tl_results s) k = Some r \<Longrightarrow> map_of (tl_results s') k = Some r"
proof (induction rule: rtranclp_induct)
  case (step s1 s2)
  from step(2) obtain env tool args ctx x where "call_write_tool env tool args ctx s1 = (x, s2)" by cases
  with call_results [of ctx tool s1 env args] step(3,4) show ?case by (auto simp: map_of_dict_put)
qed

lemma admitted_result:
  assumes "is_write_tool_allowed (cx_principal_role ctx) tool_name" "call_write_tool env tool_name args ctx s = (Inr r, s')"
  shows "\<exists>r0. map_of (tl_results s') (idempotency_key env (cx_request_id ctx) (py_lower (py_strip tool_name)) args) = Some r0 \<and>
    mark_replayed r0 = mark_replayed r"
proof (cases "map_of (tl_results s) (idempotency_key env (cx_request_id ctx) (py_lower (py_strip tool_name)) args)")
  case None
  with call_results [of ctx tool_name s env args] assms show ?thesis by (auto simp: map_of_dict_put)
next
  case (Some r0)
  have "run_ok (\<lambda>x s'. x = mark_replayed r0 \<and> only_audited s s') (\<lambda>_ s'. only_audited s s') (call_write_tool env tool_name args ctx s)"
    using audited_unkept [OF only_audited_refl, of "mark_replayed r0" s env ctx] by (simp add: call_admitted [OF assms(1)] Some)
  with assms(2) Some show ?thesis by (simp add: only_audited_def)
qed

lemma reserve_allow_row:
  assumes "br_decision (fst (reserve fault db q rid now)) = ''allow''"
  shows "\<exists>p. bd_reservations (snd (reserve fault db q rid now)) = bd_reservations db @ [reserved_row q p rid now]"
  using assms
  by (auto simp: reserve_def reserve_tx_def reserve_for_project_def insert_reservation_def and_then_def reserved_row_def uncertain_result_def Let_def
      split: option.splits if_splits)

lemma reserve_for_tool_allowed:
  assumes "te_budget_client env"
    and "\<And>rid now. br_decision (fst (reserve (te_budget_fault env) (tl_budget s) (tool_reservation env tool args ctx) rid now)) = ''allow''"
  obtains rid now g where
    "reserve_for_tool env tool args ctx s =
       (Inr None, s\<lparr>tl_gov := g, tl_budget := snd (reserve (te_budget_fault env) (tl_budget s) (tool_reservation env tool args ctx) rid now)\<rparr>)"
    "gv_projects g = gv_projects (tl_gov s)"
  using assms by (simp add: reserve_for_tool_def Let_def case_prod_beta)

lemma call_reserved:
  assumes "is_write_tool_allowed (cx_principal_role ctx) tool_name" and "te_budget_client env"
    and "\<And>rid now. br_decision (fst (reserve (te_budget_fault env) (tl_budget s)
        (tool_reservation env (py_lower (py_strip tool_name)) args ctx) rid now)) = ''allow''"
    and "map_of (tl_results s) (idempotency_key env (cx_request_id ctx) (py_lower (py_strip tool_name)) args) = None"
  obtains s1 row where
    "call_write_tool env tool_name args ctx s =
       audited env ctx (Some (idempotency_key env (cx_request_id ctx) (py_lower (py_strip tool_name)) args))
         (run_handler (map_of write_handlers (py_lower (py_strip tool_name))) env (py_lower (py_strip tool_name)) args ctx s1)"
    "gv_projects (tl_gov s1) = gv_projects (tl_gov s)" "bd_reservations (tl_budget s1) = bd_reservations (tl_budget s) @ [row]"
    "rv_status row = ''reserved''" "rv_task_id row = cx_task_id ctx"
proof -
  let ?tool = "py_lower (py_strip tool_name)"
  obtain rid now g where res: "reserve_for_tool env ?tool args ctx s =
      (Inr None, s\<lparr>tl_gov := g, tl_budget := snd (reserve (te_budget_fault env) (tl_budget s) (tool_reservation env ?tool args ctx) rid now)\<rparr>)"
    "gv_projects g = gv_projects (tl_gov s)"
    using reserve_for_tool_allowed [OF assms(2,3)] by blast
  obtain p where "bd_reservations (snd (reserve (te_budget_fault env) (tl_budget s) (tool_reservation env ?tool args ctx) rid now)) =
      bd_reservations (tl_budget s) @ [reserved_row (tool_reservation env ?tool args ctx) p rid now]"
    using reserve_allow_row [OF assms(3)] by blast
  with res that show thesis
    by (simp add: call_admitted [OF assms(1)] assms(4) reserved_row_def tool_reservation_def Let_def)
qed

lemma write_event_no_fault: "write_event (\<lambda>_. None) c lg = (Inr (), snd (write_event (\<lambda>_. None) c lg))"
  by (simp add: write_event_def Let_def)

lemma audited_no_fault:
  assumes "te_audit_fault env = (\<lambda>_. None)"
  shows "\<exists>s'. audited env ctx (Some k) (Inr r, s) = (Inr r, s') \<and> tl_gov s' = tl_gov s \<and> tl_budget s' = tl_budget s"
  unfolding audited_def audit_write_attempt_def assms by (subst write_event_no_fault) simp

section \<open>Properties\<close>

text \<open>
  C26: only CEO, CWO and project manager write. A call of the write tools by a principal of any other role, or of a
  tool that is not one of the four, leaves every project, charter, artifact, reservation and stored result as it
  was; if it returns, the answer is a denial.
\<close>

theorem unauthorized_write_has_no_effect:
  assumes "norm_role (cx_principal_role ctx) \<notin> {''ceo'', ''cwo'', ''project_manager''} \<or>
      norm_role tool_name \<notin> {''transition_project_lifecycle'', ''append_decision_log'', ''append_progress_report'', ''upsert_project_artifact''}"
    and "call_write_tool env tool_name args ctx s = (x, s')"
  shows "only_audited s s' \<and> (\<forall>r. x = Inr r \<longrightarrow> tx_decision r = ''denied'')"
proof -
  have "\<not> is_write_tool_allowed (cx_principal_role ctx) tool_name"
    using assms(1) by (auto simp: write_allowed_iff norm_role_def write_tool_names_def)
  from call_refused [OF this, of s env args] assms(2) show ?thesis by (cases x) auto
qed

text \<open>
  The tools keep the books of every component. After any sequence of write-tool calls, by any principals and
  with any arguments and failures, on sound projects, artifacts and a fresh budget ledger, every stored project is
  still sound, the artifacts of every project and type are numbered from one without gaps, and the active
  reservations of no project exceed its limits.
\<close>

theorem write_tools_keep_books:
  assumes "gov_step\<^sup>*\<^sup>* (no_projects rt) (tl_gov s0)" and "(artifact_step sha cfg)\<^sup>*\<^sup>* no_artifacts (tl_artifacts s0)"
    and "fresh_ledger (tl_budget s0)" and "write_tool_step\<^sup>*\<^sup>* s0 s"
  shows "gov_ok (tl_gov s) \<and> artifacts_ok (tl_artifacts s) \<and>
     (\<forall>p al. get_allocation (tl_budget s) p = Some al \<longrightarrow>
        get_spent_tokens (tl_budget s) p \<le> al_quota_limit_tokens al \<and> spent_usd (tl_budget s) p \<le> al_currency_limit_usd al)"
proof -
  have "tool_inv s0"
    using gov_steps_ok [OF assms(1) gov_ok_no_projects] artifact_steps_ok [OF assms(2)] budget_inv_fresh [OF assms(3)] by (simp add: tool_inv_def)
  with assms(4) have "tool_inv s"
  proof (induction rule: rtranclp_induct)
    case (step s1 s2)
    from step(2) show ?case using call_write_tool_inv step(3,4) by (cases) (metis snd_conv)
  qed simp
  then show ?thesis by (auto simp: tool_inv_def budget_inv_def within_limits_def)
qed

text \<open>
  C40: a repeated write is answered from the store. When an admitted call has returned, and after any further calls,
  an admitted call with the same request, tool and arguments changes no project, artifact, reservation or stored
  result, and returns, unless the audit write fails, the first answer marked as replayed.
\<close>

theorem repeated_write_replays:
  assumes "is_write_tool_allowed (cx_principal_role ctx) tool_name" and "call_write_tool env tool_name args ctx s = (Inr r, s1)"
    and "write_tool_step\<^sup>*\<^sup>* s1 s2"
    and "te_sha env' = te_sha env" and "te_dumps env' = te_dumps env" and "cx_request_id ctx' = cx_request_id ctx"
    and "is_write_tool_allowed (cx_principal_role ctx') tool_name" and "call_write_tool env' tool_name args ctx' s2 = (x, s3)"
  shows "only_audited s2 s3 \<and> (\<forall>r'. x = Inr r' \<longrightarrow> r' = mark_replayed r)"
proof -
  let ?tool = "py_lower (py_strip tool_name)"
  obtain r0 where "map_of (tl_results s1) (idempotency_key env (cx_request_id ctx) ?tool args) = Some r0" "mark_replayed r0 = mark_replayed r"
    using admitted_result [OF assms(1,2)] by blast
  moreover have "idempotency_key env' (cx_request_id ctx') ?tool args = idempotency_key env (cx_request_id ctx) ?tool args"
    using assms(4-6) by (simp add: idempotency_key_def)
  ultimately have "call_write_tool env' tool_name args ctx' s2 = audited env' ctx' None (Inr (mark_replayed r), s2)"
    using result_stays [OF assms(3)] by (simp add: call_admitted [OF assms(7)])
  with audited_unkept [OF only_audited_refl, of "mark_replayed r" s2 env' ctx'] assms(8) show ?thesis by (cases x) auto
qed

text \<open>
  A denied write keeps its reservation. When an admitted call that is not a replay has its budget reserved and the
  tool then denies the request for whatever reason, the ledger still has the new active reservation of the task.
\<close>

theorem denied_write_keeps_reservation:
  assumes "is_write_tool_allowed (cx_principal_role ctx) tool_name" and "te_budget_client env"
    and "\<And>rid now. br_decision (fst (reserve (te_budget_fault env) (tl_budget s)
        (tool_reservation env (norm_role tool_name) args ctx) rid now)) = ''allow''"
    and "map_of (tl_results s) (idempotency_key env (cx_request_id ctx) (norm_role tool_name) args) = None"
    and "call_write_tool env tool_name args ctx s = (Inr r, s')" and "tx_decision r = ''denied''"
  shows "\<exists>row. bd_reservations (tl_budget s') = bd_reservations (tl_budget s) @ [row] \<and> rv_status row = ''reserved'' \<and>
     rv_task_id row = cx_task_id ctx"
proof -
  let ?tool = "py_lower (py_strip tool_name)" and ?k = "idempotency_key env (cx_request_id ctx) (py_lower (py_strip tool_name)) args"
  obtain s1 row where run: "call_write_tool env tool_name args ctx s =
      audited env ctx (Some ?k) (run_handler (map_of write_handlers ?tool) env ?tool args ctx s1)"
    "bd_reservations (tl_budget s1) = bd_reservations (tl_budget s) @ [row]" "rv_status row = ''reserved''" "rv_task_id row = cx_task_id ctx"
    using call_reserved [OF assms(1-4) [unfolded norm_role_def]] by blast
  obtain x s2 where x: "run_handler (map_of write_handlers ?tool) env ?tool args ctx s1 = (Inr x, s2)" "tl_budget s2 = tl_budget s1"
    using run_handler_returns [of "map_of write_handlers ?tool" env ?tool args ctx s1] run_handler_books [of ?tool env args ctx s1] by auto
  then have "audited env ctx (Some ?k) (Inr x, s2) = (Inr r, s')" using run(1) assms(5) by simp
  with audited_kept [of x s2 ?k env ctx] run(2-4) x(2) show ?thesis by simp
qed

text \<open>
  A project manager terminates a project through the recipient's role. The access check reads the role of the
  principal, the life-cycle handler the role of the recipient: a project manager, whom the handler refuses, gets
  any active project terminated by addressing the command to the CEO or the CWO.
\<close>

theorem recipient_role_terminates:
  assumes "gov_step\<^sup>*\<^sup>* (no_projects rt) (tl_gov s)" and "get_project (tl_gov s) i = Inr (Some p)" and "pj_status p = ''active''"
    and "py_strip i = i" and "i \<noteq> []" and "cx_project_id ctx = Some i"
    and "norm_role (cx_principal_role ctx) = ''project_manager''" and "norm_role (cx_recipient_role ctx) \<in> {''ceo'', ''cwo''}"
    and "te_budget_client env" and "te_audit_fault env = (\<lambda>_. None)"
    and "args = [(''next_status'', JStr ''terminated'')]"
    and "\<And>rid now. br_decision (fst (reserve (te_budget_fault env) (tl_budget s)
        (tool_reservation env ''transition_project_lifecycle'' args ctx) rid now)) = ''allow''"
    and "map_of (tl_results s) (idempotency_key env (cx_request_id ctx) ''transition_project_lifecycle'' args) = None"
  shows "(\<exists>code m. terminate_project_by_governance i (cx_principal_role ctx) trace reason (tl_gov s) = (Inl (CodedError code m), tl_gov s)) \<and>
     (\<exists>r s' q. call_write_tool env ''transition_project_lifecycle'' args ctx s = (Inr r, s') \<and> tx_decision r = ''ok'' \<and>
        get_project (tl_gov s') i = Inr (Some q) \<and> pj_status q = ''terminated'')"
proof
  show "\<exists>code m. terminate_project_by_governance i (cx_principal_role ctx) trace reason (tl_gov s) = (Inl (CodedError code m), tl_gov s)"
    using assms(7) by (simp add: terminate_project_by_governance_def transition_project_lifecycle_def refuse_def)
  let ?t = "''transition_project_lifecycle''"
  have t: "py_lower (py_strip ?t) = ?t" by code_simp
  have allowed: "is_write_tool_allowed (cx_principal_role ctx) ?t"
    using assms(7) t by (simp add: write_allowed_iff norm_role_def write_tool_names_def)
  obtain s1 where run: "call_write_tool env ?t args ctx s =
      audited env ctx (Some (idempotency_key env (cx_request_id ctx) ?t args)) (run_handler (map_of write_handlers ?t) env ?t args ctx s1)"
    and s1: "gv_projects (tl_gov s1) = gv_projects (tl_gov s)"
    using call_reserved [OF allowed assms(9), of s args, unfolded t, OF assms(12,13)] by blast
  have ok: "gov_ok (tl_gov s1)" using gov_ok_projects [OF gov_steps_ok [OF assms(1) gov_ok_no_projects] s1] .
  have got: "get_project (tl_gov s1) i = Inr (Some p)" using get_project_frame [OF s1] assms(2) by simp
  have "py_lower (py_strip ''terminated'') = ''terminated''" "py_strip ''terminated'' \<noteq> []" "py_strip ''tool_mutation'' = ''tool_mutation''" by code_simp+
  then have args: "py_lower (arg_text env args ''next_status'') = ''terminated''" "arg_text env args ''project_id'' = []"
    "py_strip (arg_or env args ''reason_code'' ''tool_mutation'') = ''tool_mutation''"
    by (simp_all add: assms(11) arg_text_def arg_or_def dict_get_def)
  from transition_stored [OF ok got, of "''terminated''" "''tool_mutation''" "norm_role (cx_recipient_role ctx)" "cx_trace_id ctx" None] assms(3)
  obtain p' q g where moved: "transition_project_status i ''terminated'' ''tool_mutation'' (norm_role (cx_recipient_role ctx)) (cx_trace_id ctx) None
      (tl_gov s1) = (Inr p', g)" "get_project g i = Inr (Some q)" "pj_status q = ''terminated''"
    by (auto simp: status_simps)
  have "terminate_project_by_governance i (cx_recipient_role ctx) (cx_trace_id ctx) ''tool_mutation'' (tl_gov s1) =
      (Inr (p', pj_status p, ''tool_mutation''), g)"
    using assms(8) moved(1) by (auto simp: terminate_project_by_governance_def transition_project_lifecycle_def require_stored [OF got])
  moreover have "resolve_project env args ctx s1 = (Inr (Inr (i, p)), s1)"
    using assms(5,6) got args(2) by (simp add: resolve_project_def Let_def or_str_def)
  ultimately have "\<exists>d src. tool_transition_project_lifecycle env args ctx s1 = tool_ok ?t ctx d src (s1\<lparr>tl_gov := g\<rparr>)"
    by (simp add: tool_transition_project_lifecycle_def Let_def args lifecycle_handler_def project_of_def) blast
  then obtain d src where "tool_transition_project_lifecycle env args ctx s1 = tool_ok ?t ctx d src (s1\<lparr>tl_gov := g\<rparr>)" by blast
  then obtain r where "tool_transition_project_lifecycle env args ctx s1 = (Inr r, s1\<lparr>tl_gov := snd (gov_uuid g)\<rparr>)" "tx_decision r = ''ok''"
    using tool_ok_eq [of ?t ctx d src "s1\<lparr>tl_gov := g\<rparr>"] by auto
  then have "run_handler (map_of write_handlers ?t) env ?t args ctx s1 = (Inr r, s1\<lparr>tl_gov := snd (gov_uuid g)\<rparr>)" "tx_decision r = ''ok''"
    by (simp_all add: run_handler_def write_handlers_def)
  with run audited_no_fault [OF assms(10)] moved get_project_frame [OF gov_draw_frame(2) [of g]]
  show "\<exists>r s' q. call_write_tool env ?t args ctx s = (Inr r, s') \<and> tx_decision r = ''ok'' \<and>
        get_project (tl_gov s') i = Inr (Some q) \<and> pj_status q = ''terminated''"
    by (metis (no_types, lifting) tool_state.select_convs(1) tool_state.surjective tool_state.update_convs(1))
qed

section \<open>Witnesses\<close>

definition demo_running :: governance where
  "demo_running = snd (resume_project_by_governance ''p-1'' ''cwo'' ''tr'' ''go'' demo_approved)"

definition demo_tools :: tool_state where
  "demo_tools = \<lparr>tl_gov = demo_running, tl_artifacts = no_artifacts, tl_budget = demo_ledger,
     tl_audit = \<lparr>lg_rows = [], lg_attempts = 0\<rparr>, tl_results = []\<rparr>"

definition demo_tool_env :: tool_env where
  "demo_tool_env = \<lparr>te_sha = (\<lambda>s. s), te_dumps = (\<lambda>_. ''{}''), te_show = (\<lambda>_. ''v''), te_os_error = (\<lambda>_. None), te_config = mvp_defaults None,
     te_audit_fault = (\<lambda>_. None), te_budget_fault = (\<lambda>_. None), te_budget_client = True\<rparr>"

definition demo_tool_context :: "string \<Rightarrow> tool_context" where
  "demo_tool_context role = \<lparr>cx_task_id = ''t-1'', cx_request_id = ''rq-1'', cx_trace_id = ''tr'', cx_principal_id = ''m-1'',
     cx_principal_role = role, cx_recipient_role = ''ceo'', cx_recipient_id = None, cx_project_id = Some ''p-1''\<rparr>"

lemma demo_running_reached: "gov_step\<^sup>*\<^sup>* (no_projects demo_rt) (tl_gov demo_tools)"
proof -
  have "gov_step demo_approved demo_running"
    unfolding demo_running_def by (rule gov_step.resume) (rule prod.collapse [symmetric])
  with demo_reached(2) show ?thesis by (simp add: demo_tools_def)
qed

lemma demo_running_project: "\<exists>p. get_project (tl_gov demo_tools) ''p-1'' = Inr (Some p) \<and> pj_status p = ''active''"
proof -
  have "(case get_project demo_running ''p-1'' of Inr (Some p) \<Rightarrow> pj_status p = ''active'' | _ \<Rightarrow> False)" by code_simp
  then show ?thesis by (auto simp: demo_tools_def split: sum.splits option.splits)
qed

lemma demo_tool_allow:
  "br_decision (fst (reserve (te_budget_fault demo_tool_env) (tl_budget demo_tools)
     (tool_reservation demo_tool_env tool args (demo_tool_context role)) rid now)) = ''allow''"
proof -
  let ?q = "tool_reservation demo_tool_env tool args (demo_tool_context role)"
  have "fits demo_ledger ?q ''p-1''"
    by (simp add: fits_def get_allocation_def demo_ledger_def tool_reservation_def estimate_def Let_def write_tool_cost_units_def
      demo_rate default_estimated_input_tokens_def get_spent_tokens_def spent_usd_def split: option.split)
  moreover have "py_strip ''p-1'' = ''p-1''" by code_simp
  then have "charged_project demo_ledger ?q = Some ''p-1''"
    by (simp add: charged_project_def tool_reservation_def demo_tool_context_def normalize_project_id_def or_str_def Let_def get_allocation_def demo_ledger_def)
  ultimately show ?thesis
    using reserve_for_project_allowed [of demo_ledger ?q "''p-1''" rid now] reserve_charged [of "\<lambda>_. None" demo_ledger ?q "''p-1''" rid now]
    by (auto simp: demo_tool_env_def demo_tools_def demo_ledger_def)
qed

lemma unauthorized_write_has_no_effect_witness:
  "only_audited demo_tools (snd (call_write_tool demo_tool_env ''append_decision_log'' [] (demo_tool_context ''owner'') demo_tools))"
proof -
  have "norm_role ''owner'' \<notin> {''ceo'', ''cwo'', ''project_manager''}" by code_simp
  then show ?thesis
    using unauthorized_write_has_no_effect [OF _ surjective_pairing, of "demo_tool_context ''owner''" "''append_decision_log''" demo_tools demo_tool_env "[]"]
    by (simp add: demo_tool_context_def)
qed

lemma write_tools_keep_books_witness:
  "gov_ok (tl_gov (snd (call_write_tool demo_tool_env ''append_decision_log'' [(''content'', JStr ''x'')] (demo_tool_context ''ceo'') demo_tools)))"
proof -
  have "on_grid 1" unfolding on_grid_def by (rule exI [of _ 1000000]) simp
  then have "fresh_ledger (tl_budget demo_tools)" by (simp add: fresh_ledger_def demo_ledger_def demo_tools_def)
  moreover have "write_tool_step\<^sup>*\<^sup>* demo_tools (snd (call_write_tool demo_tool_env ''append_decision_log'' [(''content'', JStr ''x'')]
      (demo_tool_context ''ceo'') demo_tools))"
    using write_tool_step.call [OF surjective_pairing] by (rule r_into_rtranclp)
  moreover have "(artifact_step (\<lambda>s. s) (mvp_defaults None))\<^sup>*\<^sup>* no_artifacts (tl_artifacts demo_tools)" by (simp add: demo_tools_def)
  ultimately show ?thesis using write_tools_keep_books [OF demo_running_reached] by blast
qed

lemma repeated_write_replays_witness:
  "let s1 = snd (call_write_tool demo_tool_env ''append_decision_log'' [] (demo_tool_context ''ceo'') demo_tools)
   in only_audited s1 (snd (call_write_tool demo_tool_env ''append_decision_log'' [] (demo_tool_context ''ceo'') s1))"
proof -
  let ?call = "call_write_tool demo_tool_env ''append_decision_log'' [] (demo_tool_context ''ceo'')"
  have ok: "is_write_tool_allowed (cx_principal_role (demo_tool_context ''ceo'')) ''append_decision_log''" by code_simp
  have "\<not> isl (fst (?call demo_tools))" by code_simp
  then obtain r where "?call demo_tools = (Inr r, snd (?call demo_tools))" by (cases "?call demo_tools"; cases "fst (?call demo_tools)") auto
  from repeated_write_replays [OF ok this rtranclp.rtrancl_refl refl refl refl ok surjective_pairing] show ?thesis by (simp add: Let_def)
qed

lemma denied_write_keeps_reservation_witness:
  "\<exists>row. bd_reservations (tl_budget (snd (call_write_tool demo_tool_env ''append_decision_log'' [] (demo_tool_context ''ceo'') demo_tools))) = [row] \<and>
     rv_status row = ''reserved'' \<and> rv_task_id row = ''t-1''"
proof -
  let ?call = "call_write_tool demo_tool_env ''append_decision_log'' [] (demo_tool_context ''ceo'') demo_tools"
  have ok: "is_write_tool_allowed (cx_principal_role (demo_tool_context ''ceo'')) ''append_decision_log''" by code_simp
  have "(case fst ?call of Inl _ \<Rightarrow> False | Inr r \<Rightarrow> tx_decision r = ''denied'')" by code_simp
  then obtain r where r: "?call = (Inr r, snd ?call)" "tx_decision r = ''denied''" by (cases ?call; cases "fst ?call") auto
  from denied_write_keeps_reservation [OF ok _ demo_tool_allow _ r] show ?thesis
    by (simp add: demo_tool_env_def demo_tools_def demo_ledger_def demo_tool_context_def)
qed

lemma recipient_role_terminates_witness:
  "\<exists>r s' q. call_write_tool demo_tool_env ''transition_project_lifecycle'' [(''next_status'', JStr ''terminated'')]
      (demo_tool_context ''project_manager'') demo_tools = (Inr r, s') \<and> get_project (tl_gov s') ''p-1'' = Inr (Some q) \<and> pj_status q = ''terminated''"
proof -
  obtain p where p: "get_project (tl_gov demo_tools) ''p-1'' = Inr (Some p)" "pj_status p = ''active''" using demo_running_project by blast
  have roles: "py_strip ''p-1'' = ''p-1''" "norm_role (cx_principal_role (demo_tool_context ''project_manager'')) = ''project_manager''"
    "norm_role (cx_recipient_role (demo_tool_context ''project_manager'')) \<in> {''ceo'', ''cwo''}" by code_simp+
  from recipient_role_terminates [OF demo_running_reached p roles(1) _ _ roles(2,3) _ _ refl demo_tool_allow] show ?thesis
    by (fastforce simp: demo_tool_context_def demo_tool_env_def demo_tools_def)
qed

end
