(* ===== verification/Conversation.thy ===== *)
theory Conversation
  imports Prelude
begin

text \<open>
  Conversation stores.
  \<^item> \<^verbatim>\<open>data_access/repositories/postgres/conversation_store.py\<close>: the operations of
    \<^verbatim>\<open>PostgresConversationStore\<close> but the two on embeddings;
  \<^item> \<^verbatim>\<open>task_orchestrator/dispatch/llm_dispatch.py\<close>: \<^verbatim>\<open>LocalConversationStore\<close>.

  Rows are ordered by their instant; SQL leaves the order of rows with the same instant open, so it is a
  parameter, a rank of the rows' identifiers. The writer of summaries is a parameter, which may raise
  (\<^term>\<open>None\<close>). The interface \<open>turn_store\<close> says what both stores promise about their recent turns.
\<close>

type_synonym turn = "string \<times> string"

definition norm_scope :: "string \<Rightarrow> string" where
  "norm_scope scope = (if py_strip scope = [] then ''default-scope'' else py_strip scope)"

definition last_n :: "nat \<Rightarrow> 'a list \<Rightarrow> 'a list" where
  "last_n n xs = drop (length xs - n) xs"

section \<open>The PostgreSQL store\<close>

record message_row =
  cm_id :: string
  cm_conversation_id :: string
  cm_role :: string
  cm_content :: string
  cm_agent_id :: "string option"
  cm_window_index :: "nat option"
  cm_created_at :: time

record window_row =
  cw_scope :: string
  cw_window_index :: nat
  cw_summary_text :: string
  cw_turn_start :: nat
  cw_turn_end :: nat
  cw_created_at :: time

record conversation_db =
  cv_messages :: "message_row list"
  cv_windows :: "window_row list"
  cv_runtime :: py_runtime

record conversation_store =
  cf_max_turns :: nat
  cf_window_size :: nat
  cf_summarize :: "(string \<Rightarrow> nat \<Rightarrow> turn list \<Rightarrow> string option) option"
  cf_rank :: "string \<Rightarrow> nat"

definition new_conversation_store ::
  "nat \<Rightarrow> nat \<Rightarrow> (string \<Rightarrow> nat \<Rightarrow> turn list \<Rightarrow> string option) option \<Rightarrow> (string \<Rightarrow> nat) \<Rightarrow> conversation_store" where
  "new_conversation_store max_turns window_size summarize_fn rank =
     \<lparr>cf_max_turns = max 2 max_turns, cf_window_size = max 4 window_size, cf_summarize = summarize_fn, cf_rank = rank\<rparr>"

definition turn_of :: "message_row \<Rightarrow> turn" where
  "turn_of r = (cm_role r, cm_content r)"

definition in_order :: "conversation_store \<Rightarrow> message_row list \<Rightarrow> message_row list" where
  "in_order st rows = sort_key (\<lambda>r. (cm_created_at r, cf_rank st (cm_id r))) rows"

definition scope_rows :: "conversation_db \<Rightarrow> string \<Rightarrow> message_row list" where
  "scope_rows db scope = filter (\<lambda>r. cm_conversation_id r = scope) (cv_messages db)"

definition pg_list_turns :: "conversation_store \<Rightarrow> conversation_db \<Rightarrow> string \<Rightarrow> turn list" where
  "pg_list_turns st db scope = map turn_of (last_n (cf_max_turns st) (in_order st (scope_rows db (norm_scope scope))))"

definition pg_fetch_window :: "conversation_store \<Rightarrow> conversation_db \<Rightarrow> string \<Rightarrow> nat \<Rightarrow> turn list" where
  "pg_fetch_window st db scope window_index =
     map turn_of (in_order st (filter (\<lambda>r. cm_window_index r = Some window_index) (scope_rows db (norm_scope scope))))"

definition pg_list_windows :: "conversation_db \<Rightarrow> string \<Rightarrow> (nat \<times> string) list" where
  "pg_list_windows db scope =
     map (\<lambda>w. (cw_window_index w, cw_summary_text w))
       (take 10 (sort_key cw_window_index (filter (\<lambda>w. cw_scope w = norm_scope scope) (cv_windows db))))"

definition pg_fetch_channel_summary :: "conversation_db \<Rightarrow> string \<Rightarrow> (nat \<times> string \<times> string) option" where
  "pg_fetch_channel_summary db scope =
     (case rev (sort_key cw_window_index (filter (\<lambda>w. cw_scope w = norm_scope scope) (cv_windows db))) of
        [] \<Rightarrow> None | w # _ \<Rightarrow> Some (cw_window_index w, cw_summary_text w, norm_scope scope))"

definition pg_clear :: "string \<Rightarrow> conversation_db \<Rightarrow> conversation_db" where
  "pg_clear scope db =
     db\<lparr>cv_windows := filter (\<lambda>w. cw_scope w \<noteq> norm_scope scope) (cv_windows db),
        cv_messages := filter (\<lambda>r. cm_conversation_id r \<noteq> norm_scope scope) (cv_messages db)\<rparr>"

text \<open>The oldest untagged rows of the scope, as many as a window has, get the index.\<close>

definition tag_window :: "conversation_store \<Rightarrow> string \<Rightarrow> nat \<Rightarrow> conversation_db \<Rightarrow> conversation_db" where
  "tag_window st scope window_index db =
     (let picked = cm_id ` set (take (cf_window_size st) (in_order st (filter (\<lambda>r. cm_window_index r = None) (scope_rows db scope))))
      in db\<lparr>cv_messages := map (\<lambda>r. if cm_conversation_id r = scope \<and> cm_window_index r = None \<and> cm_id r \<in> picked
             then r\<lparr>cm_window_index := Some window_index\<rparr> else r) (cv_messages db)\<rparr>)"

definition insert_window :: "window_row \<Rightarrow> window_row list \<Rightarrow> window_row list" where
  "insert_window w ws = (if list_ex (\<lambda>v. cw_scope v = cw_scope w \<and> cw_window_index v = cw_window_index w) ws then ws else ws @ [w])"

definition summarize_window :: "conversation_store \<Rightarrow> string \<Rightarrow> nat \<Rightarrow> conversation_db \<Rightarrow> conversation_db" where
  "summarize_window st scope window_index db =
     (case cf_summarize st of
        None \<Rightarrow> db
      | Some summarize \<Rightarrow>
          (let turns = pg_fetch_window st db scope window_index
           in if turns = [] then db
              else case summarize scope window_index turns of
                     None \<Rightarrow> db
                   | Some t \<Rightarrow>
                       if py_strip t = [] then db
                       else let (now, rt) = now_utc (cv_runtime db)
                            in db\<lparr>cv_runtime := rt, cv_windows := insert_window
                                 \<lparr>cw_scope = scope, cw_window_index = window_index, cw_summary_text = py_strip t,
                                  cw_turn_start = window_index * cf_window_size st,
                                  cw_turn_end = window_index * cf_window_size st + cf_window_size st - 1, cw_created_at = now\<rparr>
                                 (cv_windows db)\<rparr>))"

definition close_window :: "conversation_store \<Rightarrow> bool \<Rightarrow> string \<Rightarrow> nat \<Rightarrow> conversation_db \<Rightarrow> conversation_db" where
  "close_window st fails scope window_index db =
     (if fails then db else summarize_window st scope window_index (tag_window st scope window_index db))"

definition insert_exchange ::
  "string \<Rightarrow> string \<Rightarrow> string \<Rightarrow> string option \<Rightarrow> conversation_db \<Rightarrow> conversation_db" where
  "insert_exchange k user_prompt assistant_reply agent_id db =
     (let (now, rt1) = now_utc (cv_runtime db); (id1, rt2) = uuid4 rt1; (id2, rt3) = uuid4 rt2;
          row = (\<lambda>i role content. \<lparr>cm_id = i, cm_conversation_id = k, cm_role = role, cm_content = content, cm_agent_id = agent_id,
                   cm_window_index = None, cm_created_at = now\<rparr>)
      in db\<lparr>cv_runtime := rt3, cv_messages := cv_messages db @
            [row id1 ''user'' (py_strip user_prompt), row id2 ''assistant'' (py_strip assistant_reply)]\<rparr>)"

definition pg_append_turns ::
  "conversation_store \<Rightarrow> bool \<Rightarrow> string \<Rightarrow> string \<Rightarrow> string \<Rightarrow> string option \<Rightarrow> conversation_db \<Rightarrow> conversation_db" where
  "pg_append_turns st fails scope user_prompt assistant_reply agent_id db =
     (let k = norm_scope scope;
          db1 = insert_exchange k user_prompt assistant_reply agent_id db;
          total = length (scope_rows db1 k)
      in if 0 < total \<and> total mod cf_window_size st = 0
         then close_window st fails k (total div cf_window_size st - 1) db1 else db1)"

section \<open>The local store\<close>

type_synonym local_conversations = "(string \<times> turn list) list"

definition local_list_turns :: "local_conversations \<Rightarrow> string \<Rightarrow> turn list" where
  "local_list_turns ls scope = (case map_of ls scope of None \<Rightarrow> [] | Some ts \<Rightarrow> ts)"

definition local_append_turns :: "nat \<Rightarrow> string \<Rightarrow> string \<Rightarrow> string \<Rightarrow> local_conversations \<Rightarrow> local_conversations" where
  "local_append_turns max_turns scope user_prompt assistant_reply ls =
     (let k = norm_scope scope;
          turns = local_list_turns ls k @ [(''user'', py_strip user_prompt), (''assistant'', py_strip assistant_reply)]
      in dict_put ls k (if length turns > max_turns then last_n max_turns turns else turns))"

section \<open>The interface\<close>

text \<open>
  A store of the most recent turns of every scope: appending an exchange adds its two turns to one scope and
  forgets the oldest turns beyond the limit.
\<close>

abbreviation exchange :: "string \<Rightarrow> string \<Rightarrow> turn list" where
  "exchange user_prompt assistant_reply \<equiv> [(''user'', py_strip user_prompt), (''assistant'', py_strip assistant_reply)]"

fun run_exchanges :: "(string \<Rightarrow> string \<Rightarrow> string \<Rightarrow> 's \<Rightarrow> 's) \<Rightarrow> (string \<times> string \<times> string) list \<Rightarrow> 's \<Rightarrow> 's" where
  "run_exchanges put [] s = s"
| "run_exchanges put ((k, u, a) # xs) s = run_exchanges put xs (put k u a s)"

definition history_of :: "string \<Rightarrow> (string \<times> string \<times> string) list \<Rightarrow> turn list" where
  "history_of scope xs = concat (map (\<lambda>(k, u, a). if norm_scope k = scope then exchange u a else []) xs)"

lemma length_last_n [simp]: "length (last_n n xs) = min n (length xs)"
  by (simp add: last_n_def)

lemma last_n_last_n_append: "last_n n (last_n n xs @ ys) = last_n n (xs @ ys)"
  by (cases "length xs \<le> n") (simp_all add: last_n_def add.commute)

lemma last_n_all: "length xs \<le> n \<Longrightarrow> last_n n xs = xs"
  by (simp add: last_n_def)

lemma norm_scope_idem [simp]: "norm_scope (norm_scope k) = norm_scope k"
proof -
  have "py_strip ''default-scope'' = ''default-scope''" by code_simp
  then show ?thesis by (simp add: norm_scope_def)
qed

locale turn_store =
  fixes put :: "string \<Rightarrow> string \<Rightarrow> string \<Rightarrow> 's \<Rightarrow> 's"
    and turns :: "'s \<Rightarrow> string \<Rightarrow> turn list"
    and good :: "'s \<Rightarrow> bool"
    and limit :: nat
  assumes good_put: "good s \<Longrightarrow> good (put k u a s)"
    and turns_put: "good s \<Longrightarrow> turns (put k u a s) j =
      (if norm_scope k = j then last_n limit (turns s j @ exchange u a) else turns s j)"
begin

lemma good_run: "good s \<Longrightarrow> good (run_exchanges put xs s)"
  by (induction xs arbitrary: s) (auto simp: good_put)

lemma turns_run:
  assumes "good s" "length (turns s j) \<le> limit"
  shows "turns (run_exchanges put xs s) j = last_n limit (turns s j @ history_of j xs)"
  using assms
proof (induction xs arbitrary: s)
  case Nil
  then show ?case by (simp add: history_of_def last_n_all)
next
  case (Cons x xs)
  obtain k u a where x: "x = (k, u, a)" by (cases x)
  have len: "length (turns (put k u a s) j) \<le> limit" using turns_put [OF Cons.prems(1)] Cons.prems(2) by simp
  from Cons.IH [OF good_put [OF Cons.prems(1)] len] show ?case
    by (simp add: x turns_put [OF Cons.prems(1)] history_of_def last_n_last_n_append flip: append_assoc)
qed

end

section \<open>Both stores meet the interface\<close>

interpretation local_turns: turn_store "local_append_turns n" local_list_turns "\<lambda>_. True" n
  by unfold_locales (auto simp: local_append_turns_def local_list_turns_def Let_def map_of_dict_put last_n_def)

text \<open>
  For the PostgreSQL store: the clock moves forward between two appends, and rows with the same instant come in the
  order of their insertion.
\<close>

definition rows_in_order :: "conversation_store \<Rightarrow> conversation_db \<Rightarrow> bool" where
  "rows_in_order st db =
     (sorted_wrt (\<lambda>r q. (cm_created_at r, cf_rank st (cm_id r)) \<le> (cm_created_at q, cf_rank st (cm_id q))) (cv_messages db) \<and>
      strict_mono (rt_clock_seq (cv_runtime db)) \<and> (\<forall>m n. m < n \<longrightarrow> cf_rank st (rt_uuid_seq (cv_runtime db) m) < cf_rank st (rt_uuid_seq (cv_runtime db) n)) \<and>
      (\<forall>r \<in> set (cv_messages db). \<exists>n < rt_clock_pos (cv_runtime db). cm_created_at r = rt_clock_seq (cv_runtime db) n))"

definition pg_turns :: "conversation_store \<Rightarrow> conversation_db \<Rightarrow> string \<Rightarrow> turn list" where
  "pg_turns st db scope = map turn_of (last_n (cf_max_turns st) (in_order st (scope_rows db scope)))"

lemma pg_list_turns_norm: "pg_list_turns st db scope = pg_turns st db (norm_scope scope)"
  by (simp add: pg_list_turns_def pg_turns_def)

lemma in_order_rows: "rows_in_order st db \<Longrightarrow> in_order st (scope_rows db j) = scope_rows db j"
  unfolding in_order_def scope_rows_def rows_in_order_def
  by (rule sort_key_id_if_sorted) (auto simp: sorted_map intro: sorted_wrt_filter)

text \<open>Closing a window changes only tags, summaries and the clock.\<close>

definition untagged :: "message_row \<Rightarrow> message_row" where
  "untagged r = r\<lparr>cm_window_index := None\<rparr>"

lemma untagged_fields [simp]:
  "cm_id (untagged r) = cm_id r" "cm_conversation_id (untagged r) = cm_conversation_id r" "cm_role (untagged r) = cm_role r"
  "cm_content (untagged r) = cm_content r" "cm_created_at (untagged r) = cm_created_at r" "turn_of (untagged r) = turn_of r"
  by (simp_all add: untagged_def turn_of_def)

lemma close_window_untagged:
  "map untagged (cv_messages (close_window st fails k i db)) = map untagged (cv_messages db)"
  "rt_clock_seq (cv_runtime (close_window st fails k i db)) = rt_clock_seq (cv_runtime db)"
  "rt_uuid_seq (cv_runtime (close_window st fails k i db)) = rt_uuid_seq (cv_runtime db)"
  "rt_uuid_pos (cv_runtime (close_window st fails k i db)) = rt_uuid_pos (cv_runtime db)"
  "rt_clock_pos (cv_runtime db) \<le> rt_clock_pos (cv_runtime (close_window st fails k i db))"
proof -
  have tag: "map untagged (cv_messages (tag_window st k i db)) = map untagged (cv_messages db)" "cv_runtime (tag_window st k i db) = cv_runtime db"
    by (simp_all add: tag_window_def Let_def untagged_def)
  have sum: "cv_messages (summarize_window st k i d) = cv_messages d"
    "rt_clock_seq (cv_runtime (summarize_window st k i d)) = rt_clock_seq (cv_runtime d)"
    "rt_uuid_seq (cv_runtime (summarize_window st k i d)) = rt_uuid_seq (cv_runtime d)"
    "rt_uuid_pos (cv_runtime (summarize_window st k i d)) = rt_uuid_pos (cv_runtime d)"
    "rt_clock_pos (cv_runtime d) \<le> rt_clock_pos (cv_runtime (summarize_window st k i d))" for d
    by (auto simp: summarize_window_def Let_def now_utc_def split: option.split)
  show "map untagged (cv_messages (close_window st fails k i db)) = map untagged (cv_messages db)"
    "rt_clock_seq (cv_runtime (close_window st fails k i db)) = rt_clock_seq (cv_runtime db)"
    "rt_uuid_seq (cv_runtime (close_window st fails k i db)) = rt_uuid_seq (cv_runtime db)"
    "rt_uuid_pos (cv_runtime (close_window st fails k i db)) = rt_uuid_pos (cv_runtime db)"
    "rt_clock_pos (cv_runtime db) \<le> rt_clock_pos (cv_runtime (close_window st fails k i db))"
    using tag sum [of "tag_window st k i db"] by (simp_all add: close_window_def)
qed

lemma rows_in_order_untagged:
  assumes "map untagged (cv_messages db') = map untagged (cv_messages db)" "rt_clock_seq (cv_runtime db') = rt_clock_seq (cv_runtime db)"
    "rt_uuid_seq (cv_runtime db') = rt_uuid_seq (cv_runtime db)" "rt_clock_pos (cv_runtime db) \<le> rt_clock_pos (cv_runtime db')"
    and "rows_in_order st db"
  shows "rows_in_order st db'" and "map turn_of (scope_rows db' j) = map turn_of (scope_rows db j)"
proof -
  let ?le = "\<lambda>r q. (cm_created_at r, cf_rank st (cm_id r)) \<le> (cm_created_at q, cf_rank st (cm_id q))"
  have sorted: "sorted_wrt ?le rows = sorted_wrt ?le (map untagged rows)" for rows by (simp add: sorted_wrt_map)
  have clock: "(\<forall>r \<in> set rows. \<exists>n < m. cm_created_at r = f n) = (\<forall>r \<in> set (map untagged rows). \<exists>n < m. cm_created_at r = f n)"
    for rows :: "message_row list" and m and f :: "nat \<Rightarrow> time" by simp
  have "\<forall>r \<in> set (cv_messages db). \<exists>n < rt_clock_pos (cv_runtime db'). cm_created_at r = rt_clock_seq (cv_runtime db) n"
    using assms(4,5) unfolding rows_in_order_def by (meson order_less_le_trans)
  then show "rows_in_order st db'"
    using assms(5) unfolding rows_in_order_def sorted [of "cv_messages db'"] clock [of "cv_messages db'"] assms(1-3)
    using sorted [of "cv_messages db"] by simp
  have scope: "map turn_of (filter (\<lambda>r. cm_conversation_id r = j) rows) = map turn_of (filter (\<lambda>r. cm_conversation_id r = j) (map untagged rows))" for rows
    by (simp add: filter_map comp_def)
  show "map turn_of (scope_rows db' j) = map turn_of (scope_rows db j)"
    unfolding scope_rows_def scope [of "cv_messages db'"] assms(1) scope [of "cv_messages db", symmetric] ..
qed

lemma rows_in_order_exchange:
  assumes ok: "rows_in_order st db"
  shows "rows_in_order st (insert_exchange k u a ag db)"
proof -
  let ?rt = "cv_runtime db"
  have fresh: "cm_created_at r < rt_clock_seq ?rt (rt_clock_pos ?rt)" if "r \<in> set (cv_messages db)" for r
  proof -
    from ok that obtain n where "n < rt_clock_pos ?rt" "cm_created_at r = rt_clock_seq ?rt n" "strict_mono (rt_clock_seq ?rt)"
      unfolding rows_in_order_def by blast
    then show ?thesis by (simp add: strict_mono_less)
  qed
  have ranked: "cf_rank st (rt_uuid_seq ?rt (rt_uuid_pos ?rt)) \<le> cf_rank st (rt_uuid_seq ?rt (Suc (rt_uuid_pos ?rt)))"
    using ok unfolding rows_in_order_def by (blast intro: less_imp_le)
  let ?db = "insert_exchange k u a ag db"
  have rt: "rt_clock_seq (cv_runtime ?db) = rt_clock_seq ?rt" "rt_uuid_seq (cv_runtime ?db) = rt_uuid_seq ?rt"
    "rt_clock_pos (cv_runtime ?db) = Suc (rt_clock_pos ?rt)"
    by (simp_all add: insert_exchange_def Let_def now_utc_def uuid4_def)
  obtain r1 r2 where rows: "cv_messages ?db = cv_messages db @ [r1, r2]"
    "cm_created_at r1 = rt_clock_seq ?rt (rt_clock_pos ?rt)" "cm_created_at r2 = rt_clock_seq ?rt (rt_clock_pos ?rt)"
    "cf_rank st (cm_id r1) \<le> cf_rank st (cm_id r2)"
    using ranked by (simp add: insert_exchange_def Let_def now_utc_def uuid4_def)
  show ?thesis
    unfolding rows_in_order_def rt
  proof (intro conjI ballI)
    show "sorted_wrt (\<lambda>r q. (cm_created_at r, cf_rank st (cm_id r)) \<le> (cm_created_at q, cf_rank st (cm_id q))) (cv_messages ?db)"
      using ok fresh by (auto simp: rows_in_order_def sorted_wrt_append rows)
    show "\<exists>n < Suc (rt_clock_pos ?rt). cm_created_at r = rt_clock_seq ?rt n" if "r \<in> set (cv_messages ?db)" for r
      using ok that unfolding rows_in_order_def rows by (fastforce simp: rows(2,3) less_Suc_eq)
  qed (use ok in \<open>simp_all add: rows_in_order_def\<close>)
qed

lemma scope_rows_exchange:
  "map turn_of (scope_rows (insert_exchange k u a ag db) j) = map turn_of (scope_rows db j) @ (if k = j then exchange u a else [])"
  by (simp add: insert_exchange_def scope_rows_def Let_def now_utc_def uuid4_def turn_of_def)

lemma pg_append_view:
  assumes "rows_in_order st db"
  shows "rows_in_order st (pg_append_turns st fails scope u a ag db)"
    and "map turn_of (scope_rows (pg_append_turns st fails scope u a ag db) j) =
      map turn_of (scope_rows db j) @ (if norm_scope scope = j then exchange u a else [])"
  using rows_in_order_exchange [OF assms]
    rows_in_order_untagged [OF close_window_untagged(1,2,3,5) rows_in_order_exchange [OF assms]]
  by (simp_all add: pg_append_turns_def Let_def scope_rows_exchange del: One_nat_def)

lemma last_n_map: "last_n n (map f xs) = map f (last_n n xs)"
  by (simp add: last_n_def drop_map)

lemma pg_turns_rows: "rows_in_order st db \<Longrightarrow> pg_turns st db j = last_n (cf_max_turns st) (map turn_of (scope_rows db j))"
  by (simp add: pg_turns_def in_order_rows last_n_map)

interpretation pg_turns: turn_store "\<lambda>k u a. pg_append_turns st fails k u a ag" "pg_turns st" "rows_in_order st" "cf_max_turns st"
proof unfold_locales
  fix db k u a j
  assume "rows_in_order st db"
  then show "rows_in_order st (pg_append_turns st fails k u a ag db)"
    and "pg_turns st (pg_append_turns st fails k u a ag db) j =
      (if norm_scope k = j then last_n (cf_max_turns st) (pg_turns st db j @ exchange u a) else pg_turns st db j)"
    by (simp_all add: pg_append_view pg_turns_rows last_n_last_n_append)
qed

section \<open>Whatever the order within one instant\<close>

text \<open>The two turns of each exchange, in either order.\<close>

fun up_to_order :: "turn list \<Rightarrow> turn list \<Rightarrow> bool" where
  "up_to_order [] [] = True"
| "up_to_order (a # b # xs) (c # d # ys) = ((c = a \<and> d = b \<or> c = b \<and> d = a) \<and> up_to_order xs ys)"
| "up_to_order _ _ = False"

lemma up_to_order_append: "up_to_order xs xs' \<Longrightarrow> up_to_order ys ys' \<Longrightarrow> up_to_order (xs @ ys) (xs' @ ys')"
  by (induction xs xs' rule: up_to_order.induct) auto

lemma up_to_order_refl: "even (length xs) \<Longrightarrow> up_to_order xs xs"
  by (induction xs rule: induct_list012) auto

text \<open>Only the clock: it moves forward between two appends.\<close>

definition clocked :: "conversation_db \<Rightarrow> bool" where
  "clocked db = (strict_mono (rt_clock_seq (cv_runtime db)) \<and>
     (\<forall>r \<in> set (cv_messages db). \<exists>n < rt_clock_pos (cv_runtime db). cm_created_at r = rt_clock_seq (cv_runtime db) n))"

definition pg_order :: "conversation_store \<Rightarrow> conversation_db \<Rightarrow> string \<Rightarrow> turn list" where
  "pg_order st db j = map turn_of (in_order st (scope_rows db j))"

lemma insort_key_append: "\<forall>y \<in> set ys. f x \<le> f y \<Longrightarrow> insort_key f x (xs @ ys) = insort_key f x xs @ ys"
  by (induction xs) (cases ys; auto)+

lemma sort_key_append: "\<forall>x \<in> set xs. \<forall>y \<in> set ys. f x \<le> f y \<Longrightarrow> sort_key f (xs @ ys) = sort_key f xs @ sort_key f ys"
  by (induction xs) (simp_all add: insort_key_append)

lemma insort_key_map: "insort_key f (g x) (map g xs) = map g (insort_key (\<lambda>x. f (g x)) x xs)"
  by (induction xs) simp_all

lemma sort_key_map: "sort_key f (map g xs) = map g (sort_key (\<lambda>x. f (g x)) xs)"
  by (induction xs) (simp_all add: insort_key_map)

lemma in_order_untagged: "map turn_of (in_order st (map untagged rows)) = map turn_of (in_order st rows)"
  by (simp add: in_order_def sort_key_map comp_def)

lemma pg_order_close: "pg_order st (close_window st fails k i db) j = pg_order st db j"
proof -
  have "map untagged (scope_rows d j) = filter (\<lambda>r. cm_conversation_id r = j) (map untagged (cv_messages d))" for d
    by (simp add: scope_rows_def filter_map comp_def)
  then have "map untagged (scope_rows (close_window st fails k i db) j) = map untagged (scope_rows db j)"
    by (simp only: close_window_untagged(1))
  then show ?thesis unfolding pg_order_def by (metis in_order_untagged)
qed

lemma clocked_close: "clocked db \<Longrightarrow> clocked (close_window st fails k i db)"
proof -
  assume ok: "clocked db"
  have clock: "(\<forall>r \<in> set rows. P (cm_created_at r)) = (\<forall>r \<in> set (map untagged rows). P (cm_created_at r))"
    for rows :: "message_row list" and P by simp
  have "\<forall>r \<in> set (cv_messages db). \<exists>n < rt_clock_pos (cv_runtime (close_window st fails k i db)). cm_created_at r = rt_clock_seq (cv_runtime db) n"
    using ok close_window_untagged(5) [of db st fails k i] unfolding clocked_def by (meson order_less_le_trans)
  then show ?thesis
    using ok unfolding clocked_def close_window_untagged(2)
      clock [of "cv_messages (close_window st fails k i db)" "\<lambda>c. \<exists>n < rt_clock_pos (cv_runtime (close_window st fails k i db)). c = rt_clock_seq (cv_runtime db) n"]
      close_window_untagged(1)
    by simp
qed

lemma pg_order_exchange:
  assumes "clocked db"
  shows "clocked (insert_exchange k u a ag db)"
    and "\<exists>p \<in> {exchange u a, rev (exchange u a)}.
      pg_order st (insert_exchange k u a ag db) j = pg_order st db j @ (if k = j then p else [])"
proof -
  let ?rt = "cv_runtime db" and ?db = "insert_exchange k u a ag db"
  have fresh: "cm_created_at r < rt_clock_seq ?rt (rt_clock_pos ?rt)" if "r \<in> set (cv_messages db)" for r
  proof -
    from assms that obtain n where "n < rt_clock_pos ?rt" "cm_created_at r = rt_clock_seq ?rt n" "strict_mono (rt_clock_seq ?rt)"
      unfolding clocked_def by blast
    then show ?thesis by (simp add: strict_mono_less)
  qed
  obtain r1 r2 where rows: "cv_messages ?db = cv_messages db @ [r1, r2]" "cm_conversation_id r1 = k" "cm_conversation_id r2 = k"
    "cm_created_at r1 = rt_clock_seq ?rt (rt_clock_pos ?rt)" "cm_created_at r2 = rt_clock_seq ?rt (rt_clock_pos ?rt)"
    "map turn_of [r1, r2] = exchange u a"
    by (simp add: insert_exchange_def Let_def now_utc_def uuid4_def turn_of_def)
  have "rt_clock_seq (cv_runtime ?db) = rt_clock_seq ?rt" "rt_clock_pos (cv_runtime ?db) = Suc (rt_clock_pos ?rt)"
    by (simp_all add: insert_exchange_def Let_def now_utc_def uuid4_def)
  then show "clocked ?db" using assms unfolding clocked_def rows by (fastforce simp: rows less_Suc_eq)
  show "\<exists>p \<in> {exchange u a, rev (exchange u a)}. pg_order st ?db j = pg_order st db j @ (if k = j then p else [])"
  proof (cases "k = j")
    case True
    have "scope_rows ?db j = scope_rows db j @ [r1, r2]" using rows(1-3) True by (simp add: scope_rows_def)
    moreover have "\<forall>x \<in> set (scope_rows db j). \<forall>y \<in> set [r1, r2]. (cm_created_at x, cf_rank st (cm_id x)) \<le> (cm_created_at y, cf_rank st (cm_id y))"
      using fresh rows(4,5) by (auto simp: scope_rows_def)
    ultimately have "in_order st (scope_rows ?db j) = in_order st (scope_rows db j) @ in_order st [r1, r2]"
      unfolding in_order_def by (simp add: sort_key_append)
    moreover have "map turn_of (in_order st [r1, r2]) \<in> {exchange u a, rev (exchange u a)}" using rows(6) by (auto simp: in_order_def)
    ultimately show ?thesis using True by (auto simp: pg_order_def)
  next
    case False
    then show ?thesis using rows(1-3) by (intro bexI [of _ "exchange u a"]) (simp_all add: pg_order_def scope_rows_def)
  qed
qed

lemma pg_order_append:
  assumes "clocked db"
  shows "clocked (pg_append_turns st fails scope u a ag db)"
    and "\<exists>p \<in> {exchange u a, rev (exchange u a)}.
      pg_order st (pg_append_turns st fails scope u a ag db) j = pg_order st db j @ (if norm_scope scope = j then p else [])"
proof -
  show "clocked (pg_append_turns st fails scope u a ag db)"
    using pg_order_exchange(1) [OF assms] by (simp add: pg_append_turns_def Let_def clocked_close)
  have "pg_order st (pg_append_turns st fails scope u a ag db) j = pg_order st (insert_exchange (norm_scope scope) u a ag db) j"
    by (simp add: pg_append_turns_def Let_def pg_order_close)
  then show "\<exists>p \<in> {exchange u a, rev (exchange u a)}.
      pg_order st (pg_append_turns st fails scope u a ag db) j = pg_order st db j @ (if norm_scope scope = j then p else [])"
    using pg_order_exchange(2) [OF assms] by (simp only:)
qed

lemma pg_order_run:
  assumes "clocked db"
  shows "\<exists>h. up_to_order (history_of j xs) h \<and>
    pg_order st (run_exchanges (\<lambda>k u a. pg_append_turns st fails k u a ag) xs db) j = pg_order st db j @ h"
  using assms
proof (induction xs arbitrary: db)
  case (Cons x xs)
  obtain k u a where x: "x = (k, u, a)" by (cases x)
  let ?db = "pg_append_turns st fails k u a ag db"
  obtain h where h: "up_to_order (history_of j xs) h"
    "pg_order st (run_exchanges (\<lambda>k u a. pg_append_turns st fails k u a ag) xs ?db) j = pg_order st ?db j @ h"
    using Cons.IH [OF pg_order_append(1) [OF Cons.prems]] by blast
  obtain p where p: "p \<in> {exchange u a, rev (exchange u a)}" "pg_order st ?db j = pg_order st db j @ (if norm_scope k = j then p else [])"
    by (rule bexE [OF pg_order_append(2) [OF Cons.prems]])
  define new where "new = (if norm_scope k = j then exchange u a else [])"
  define stored where "stored = (if norm_scope k = j then p else [])"
  have "up_to_order new stored" using p(1) by (auto simp: new_def stored_def)
  from up_to_order_append [OF this h(1)] have "up_to_order (new @ history_of j xs) (stored @ h)" .
  moreover have "history_of j (x # xs) = new @ history_of j xs" by (simp add: x history_of_def new_def)
  moreover have "pg_order st (run_exchanges (\<lambda>k u a. pg_append_turns st fails k u a ag) (x # xs) db) j = pg_order st db j @ (stored @ h)"
    using h(2) p(2) by (simp only: x run_exchanges.simps stored_def append_assoc)
  ultimately show ?case by metis
qed (simp add: history_of_def)

section \<open>Windows cut the history into equal parts\<close>

text \<open>
  With an even window size and no fault while tagging, the rows of a scope carry the index of their position: the
  complete windows are tagged, the rows after them are not.
\<close>

definition window_tag :: "nat \<Rightarrow> nat \<Rightarrow> nat \<Rightarrow> nat option" where
  "window_tag w n i = (if i < n div w * w then Some (i div w) else None)"

definition tagged_rows :: "nat \<Rightarrow> message_row list \<Rightarrow> bool" where
  "tagged_rows w rs = (even (length rs) \<and> (\<forall>i < length rs. cm_window_index (rs ! i) = window_tag w (length rs) i))"

definition windows_tagged :: "conversation_store \<Rightarrow> conversation_db \<Rightarrow> bool" where
  "windows_tagged st db = (\<forall>k. tagged_rows (cf_window_size st) (scope_rows db k))"

lemma scope_rows_exchange_rows:
  obtains r1 r2 where "scope_rows (insert_exchange k u a ag db) k = scope_rows db k @ [r1, r2]"
    "cm_window_index r1 = None" "cm_window_index r2 = None"
  by (simp add: insert_exchange_def scope_rows_def Let_def now_utc_def uuid4_def)

lemma scope_rows_exchange_other: "j \<noteq> k \<Longrightarrow> scope_rows (insert_exchange k u a ag db) j = scope_rows db j"
  by (simp add: insert_exchange_def scope_rows_def Let_def now_utc_def uuid4_def)

lemma scope_rows_close:
  "scope_rows (close_window st fails k i db) j = scope_rows (if fails then db else tag_window st k i db) j"
proof -
  have "cv_messages (summarize_window st k i d) = cv_messages d" for d
    by (simp add: summarize_window_def Let_def split: option.split prod.split)
  then show ?thesis by (simp add: close_window_def scope_rows_def)
qed

lemma filter_scope_map:
  "(\<And>r. cm_conversation_id (f r) = cm_conversation_id r) \<Longrightarrow>
   filter (\<lambda>r. cm_conversation_id r = j) (map f rows) = map f (filter (\<lambda>r. cm_conversation_id r = j) rows)"
  by (simp add: filter_map comp_def)

definition tag_row :: "string \<Rightarrow> string set \<Rightarrow> nat \<Rightarrow> message_row \<Rightarrow> message_row" where
  "tag_row k picked i r = (if cm_conversation_id r = k \<and> cm_window_index r = None \<and> cm_id r \<in> picked
     then r\<lparr>cm_window_index := Some i\<rparr> else r)"

lemma scope_rows_tag:
  "scope_rows (tag_window st k i db) j = map (tag_row k (cm_id ` set (take (cf_window_size st)
     (in_order st (filter (\<lambda>r. cm_window_index r = None) (scope_rows db k))))) i) (scope_rows db j)"
  unfolding tag_window_def Let_def scope_rows_def tag_row_def
  by (subst filter_scope_map [symmetric]) auto

lemma scope_rows_tag_other: "j \<noteq> k \<Longrightarrow> scope_rows (tag_window st k i db) j = scope_rows db j"
  unfolding scope_rows_tag by (rule map_idI) (auto simp: tag_row_def scope_rows_def)

text \<open>When the untagged rows of the scope fill exactly one window, all of them are tagged.\<close>

lemma scope_rows_tag_all:
  assumes "length (filter (\<lambda>r. cm_window_index r = None) (scope_rows db k)) \<le> cf_window_size st"
  shows "scope_rows (tag_window st k i db) k =
    map (\<lambda>r. if cm_window_index r = None then r\<lparr>cm_window_index := Some i\<rparr> else r) (scope_rows db k)"
proof -
  let ?free = "filter (\<lambda>r. cm_window_index r = None) (scope_rows db k)"
  have "set (take (cf_window_size st) (in_order st ?free)) = set ?free" using assms by (simp add: in_order_def)
  then show ?thesis
    unfolding scope_rows_tag by (intro map_cong) (auto simp: tag_row_def scope_rows_def)
qed

lemma window_step_arith:
  fixes w n :: nat
  assumes "even w" "even n" "0 < w"
  shows "(n + 2) mod w \<noteq> 0 \<Longrightarrow> (n + 2) div w = n div w" and "(n + 2) mod w = 0 \<Longrightarrow> (n + 2) div w = Suc (n div w)"
proof -
  have "even (n mod w)" using assms by (simp add: dvd_mod)
  moreover have "n mod w < w" using assms by simp
  ultimately have le: "n mod w + 2 \<le> w" using \<open>even w\<close> by (metis even_Suc le_neq_implies_less Suc_leI add_2_eq_Suc')
  have n: "n + 2 = n div w * w + (n mod w + 2)" by (simp add: div_mult_mod_eq)
  show "(n + 2) div w = n div w" if "(n + 2) mod w \<noteq> 0"
  proof -
    from that le n have "n mod w + 2 < w" by (metis le_neq_implies_less mod_mult_self2_is_0 add.commute mod_mult_self3 mod_self)
    then show ?thesis using n assms(3) by (metis div_less div_mult_self3 add.right_neutral less_numeral_extra(3))
  qed
  show "(n + 2) div w = Suc (n div w)" if "(n + 2) mod w = 0"
  proof -
    from that le n have "n mod w + 2 = w"
      by (metis add_gr_0 le_neq_implies_less mod_less mod_mult_self3 zero_less_numeral less_numeral_extra(3))
    then show ?thesis using n assms(3) by (metis div_mult_self3 div_self less_numeral_extra(3) Suc_eq_plus1)
  qed
qed

lemma tagged_rows_grow:
  assumes "tagged_rows w rs" "even w" "0 < w" "cm_window_index r1 = None" "cm_window_index r2 = None"
    and "i < length (rs @ [r1, r2])"
  shows "cm_window_index ((rs @ [r1, r2]) ! i) = window_tag w (length rs) i"
  using assms by (auto simp: tagged_rows_def nth_append window_tag_def less_Suc_eq nth_Cons' dest: less_le_trans [OF _ div_times_less_eq_dividend])

lemma tagged_rows_open:
  assumes "tagged_rows w rs" "even w" "0 < w" "cm_window_index r1 = None" "cm_window_index r2 = None" "(length rs + 2) mod w \<noteq> 0"
  shows "tagged_rows w (rs @ [r1, r2])"
  using tagged_rows_grow [OF assms(1-5)] assms(1) window_step_arith(1) [OF assms(2) _ assms(3,6)]
  by (simp add: tagged_rows_def window_tag_def)

lemma tagged_rows_fill:
  assumes "length qs = q * w + w" "even (length qs)" "length qs div w = Suc q" "n div w = q"
    and "\<And>i. \<not> i < q * w \<Longrightarrow> i < length qs \<Longrightarrow> i div w = q"
    and "\<And>i. i < length qs \<Longrightarrow> cm_window_index (qs ! i) = window_tag w n i"
  shows "tagged_rows w (map (\<lambda>r. if cm_window_index r = None then r\<lparr>cm_window_index := Some q\<rparr> else r) qs)"
  using assms by (simp add: tagged_rows_def window_tag_def)

lemma tagged_rows_close:
  assumes "tagged_rows w rs" "even w" "0 < w" "cm_window_index r1 = None" "cm_window_index r2 = None" "(length rs + 2) mod w = 0"
  shows "length (filter (\<lambda>r. cm_window_index r = None) (rs @ [r1, r2])) = w"
    and "tagged_rows w (map (\<lambda>r. if cm_window_index r = None then r\<lparr>cm_window_index := Some (length rs div w)\<rparr> else r) (rs @ [r1, r2]))"
proof -
  let ?n = "length rs" and ?q = "length rs div w"
  have q: "(?n + 2) div w = Suc ?q" using window_step_arith(2) [OF assms(2) _ assms(3,6)] assms(1) by (simp add: tagged_rows_def)
  then have n: "?n + 2 = ?q * w + w" using div_mult_mod_eq [of "?n + 2" w] assms(6) by simp
  have "{i. i < length (rs @ [r1, r2]) \<and> cm_window_index ((rs @ [r1, r2]) ! i) = None} = {?q * w..<?n + 2}"
    using tagged_rows_grow [OF assms(1-5)] by (auto simp: window_tag_def split: if_splits)
  then show "length (filter (\<lambda>r. cm_window_index r = None) (rs @ [r1, r2])) = w"
    unfolding length_filter_conv_card using n by (simp del: length_append)
  have "i div w = ?q" if "\<not> i < ?q * w" "i < ?n + 2" for i
    by (rule div_nat_eqI) (use that n in \<open>simp_all add: mult.commute\<close>)
  then show "tagged_rows w (map (\<lambda>r. if cm_window_index r = None then r\<lparr>cm_window_index := Some ?q\<rparr> else r) (rs @ [r1, r2]))"
    using tagged_rows_grow [OF assms(1-5)] assms(1,2) n q by (intro tagged_rows_fill) (simp_all add: tagged_rows_def)
qed

lemma windows_tagged_append:
  assumes ok: "windows_tagged st db" and w: "even (cf_window_size st)" "0 < cf_window_size st"
  shows "windows_tagged st (pg_append_turns st False scope u a ag db)"
  unfolding windows_tagged_def
proof
  fix j
  let ?k = "norm_scope scope" and ?w = "cf_window_size st"
  let ?db = "insert_exchange ?k u a ag db"
  obtain r1 r2 where rows: "scope_rows ?db ?k = scope_rows db ?k @ [r1, r2]" and new: "cm_window_index r1 = None" "cm_window_index r2 = None"
    by (rule scope_rows_exchange_rows)
  note step = w new
  have old: "tagged_rows ?w (scope_rows db i)" for i using ok by (simp add: windows_tagged_def)
  have q: "(length (scope_rows db ?k) + 2) div ?w - 1 = length (scope_rows db ?k) div ?w" if "(length (scope_rows db ?k) + 2) mod ?w = 0"
    using window_step_arith(2) [OF w(1) _ w(2) that] old by (simp add: tagged_rows_def)
  show "tagged_rows ?w (scope_rows (pg_append_turns st False scope u a ag db) j)"
  proof (cases "j = ?k")
    case False
    then show ?thesis using old
      by (simp add: pg_append_turns_def Let_def scope_rows_close scope_rows_tag_other scope_rows_exchange_other)
  next
    case True
    show ?thesis
    proof (cases "(length (scope_rows db ?k) + 2) mod ?w = 0")
      case closed: True
      have "scope_rows (pg_append_turns st False scope u a ag db) j =
          map (\<lambda>r. if cm_window_index r = None then r\<lparr>cm_window_index := Some (length (scope_rows db ?k) div ?w)\<rparr> else r) (scope_rows ?db ?k)"
        using closed q [OF closed] tagged_rows_close(1) [OF old step closed]
        by (simp add: True pg_append_turns_def Let_def rows scope_rows_close scope_rows_tag_all)
      then show ?thesis using tagged_rows_close(2) [OF old step closed] by (simp add: rows)
    next
      case False
      then show ?thesis using tagged_rows_open [OF old step False]
        by (simp add: True pg_append_turns_def Let_def rows)
    qed
  qed
qed

lemma tagged_window_slice:
  assumes "tagged_rows w rs" "0 < w"
  shows "filter (\<lambda>r. cm_window_index r = Some i) rs = (if Suc i * w \<le> length rs then take w (drop (i * w) rs) else [])"
proof -
  have tag: "cm_window_index (rs ! p) = Some i \<longleftrightarrow> Suc i * w \<le> length rs \<and> i * w \<le> p \<and> p < Suc i * w" if "p < length rs" for p
  proof -
    have "p < length rs div w * w \<longleftrightarrow> p div w < length rs div w" using assms(2) by (simp add: div_less_iff_less_mult)
    moreover have "p div w = i \<longleftrightarrow> i * w \<le> p \<and> p < Suc i * w"
      using assms(2) by (metis div_nat_eqI dividend_less_times_div div_times_less_eq_dividend mult.commute mult_Suc_right)
    moreover have "i < length rs div w \<longleftrightarrow> Suc i * w \<le> length rs"
      using assms(2) by (metis Suc_le_eq less_eq_div_iff_mult_less_eq)
    ultimately show ?thesis using assms(1) that by (auto simp: tagged_rows_def window_tag_def)
  qed
  show ?thesis
  proof (cases "Suc i * w \<le> length rs")
    case False
    then show ?thesis using tag by (auto simp: filter_empty_conv in_set_conv_nth)
  next
    case True
    have split: "rs = take (i * w) rs @ take w (drop (i * w) rs) @ drop (Suc i * w) rs"
      by (metis append_take_drop_id add.commute drop_drop mult_Suc)
    have "filter (\<lambda>r. cm_window_index r = Some i) (take (i * w) rs) = []"
      using tag True by (auto simp: filter_empty_conv in_set_conv_nth)
    moreover have "filter (\<lambda>r. cm_window_index r = Some i) (drop (Suc i * w) rs) = []"
      using tag True by (auto simp: filter_empty_conv in_set_conv_nth simp del: mult_Suc)
    moreover have "filter (\<lambda>r. cm_window_index r = Some i) (take w (drop (i * w) rs)) = take w (drop (i * w) rs)"
      using tag True by (auto simp: filter_id_conv in_set_conv_nth)
    ultimately have "filter (\<lambda>r. cm_window_index r = Some i) rs = take w (drop (i * w) rs)"
      by (subst split) simp
    then show ?thesis using True by simp
  qed
qed

lemma pg_fetch_window_slice:
  assumes "rows_in_order st db" "windows_tagged st db" "0 < cf_window_size st"
  shows "pg_fetch_window st db scope i =
    (let w = cf_window_size st; turns = map turn_of (scope_rows db (norm_scope scope))
     in if Suc i * w \<le> length turns then take w (drop (i * w) turns) else [])"
proof -
  let ?rs = "scope_rows db (norm_scope scope)" and ?p = "\<lambda>r. cm_window_index r = Some i"
  have "in_order st (filter ?p ?rs) = filter ?p (in_order st ?rs)" by (simp add: in_order_def filter_sort)
  also have "\<dots> = filter ?p ?rs" using assms(1) by (simp add: in_order_rows)
  finally have "pg_fetch_window st db scope i = map turn_of (filter ?p ?rs)" by (simp add: pg_fetch_window_def)
  then show ?thesis
    using tagged_window_slice [of "cf_window_size st" ?rs i] assms(2,3) by (simp add: windows_tagged_def Let_def take_map drop_map)
qed

lemma run_exchanges_rows:
  assumes "rows_in_order st db" "windows_tagged st db" "even (cf_window_size st)" "0 < cf_window_size st"
  shows "windows_tagged st (run_exchanges (\<lambda>k u a. pg_append_turns st False k u a ag) xs db)"
    and "map turn_of (scope_rows (run_exchanges (\<lambda>k u a. pg_append_turns st False k u a ag) xs db) j) = map turn_of (scope_rows db j) @ history_of j xs"
  using assms(1,2)
proof (induction xs arbitrary: db)
  case Nil
  { case 1 then show ?case by simp next case 2 then show ?case by (simp add: history_of_def) }
next
  case (Cons x xs)
  obtain k u a where x: "x = (k, u, a)" by (cases x)
  { case 1
    then show ?case using Cons.IH(1) [OF pg_append_view(1) windows_tagged_append] assms(3,4) by (simp add: x)
  next
    case 2
    then show ?case
      using Cons.IH(2) [OF pg_append_view(1) windows_tagged_append] assms(3,4) by (simp add: x pg_append_view(2) history_of_def)
  }
qed

section \<open>Properties\<close>

definition example_conversation_store :: "(string \<Rightarrow> nat) \<Rightarrow> nat \<Rightarrow> conversation_store" where
  "example_conversation_store rank w = new_conversation_store 3 w None rank"

definition example_conversation_db :: conversation_db where
  "example_conversation_db = \<lparr>cv_messages = [], cv_windows = [],
     cv_runtime = \<lparr>rt_uuid_seq = (\<lambda>n. replicate n CHR ''u''), rt_uuid_pos = 0, rt_clock_seq = int, rt_clock_pos = 0\<rparr>\<rparr>"

definition example_exchanges :: "(string \<times> string \<times> string) list" where
  "example_exchanges = [(''c'', ''a'', ''b''), ('' c '', ''d'', ''e''), (''d'', ''x'', ''y'')]"

lemma example_rows_in_order: "rows_in_order (example_conversation_store length w) example_conversation_db"
  by (simp add: rows_in_order_def example_conversation_db_def example_conversation_store_def new_conversation_store_def strict_mono_def)

text \<open>
  C36: the two conversation stores agree up to the order within one exchange. With a clock that moves forward between appends, after any
  sequence of exchanges from empty stores the local store returns the last turns of the history of every normalised scope, and the
  PostgreSQL store returns the last turns, as many, of that history with the two turns of each exchange in one order or the other: they carry
  the same instant, and \<^verbatim>\<open>ORDER BY created_at\<close> leaves their order open. If rows of one instant come in the order of their insertion, the two
  stores return the same.
\<close>

theorem conversation_stores_agree:
  assumes "strict_mono (rt_clock_seq (cv_runtime db))" "cv_messages db = []"
  shows "(\<exists>h. up_to_order (history_of (norm_scope scope) xs) h \<and>
      pg_list_turns st (run_exchanges (\<lambda>k u a. pg_append_turns st fails k u a ag) xs db) scope = last_n (cf_max_turns st) h) \<and>
    local_list_turns (run_exchanges (local_append_turns (cf_max_turns st)) xs []) (norm_scope scope) =
      last_n (cf_max_turns st) (history_of (norm_scope scope) xs) \<and>
    (rows_in_order st db \<longrightarrow>
      pg_list_turns st (run_exchanges (\<lambda>k u a. pg_append_turns st fails k u a ag) xs db) scope =
      local_list_turns (run_exchanges (local_append_turns (cf_max_turns st)) xs []) (norm_scope scope))"
proof -
  have empty: "pg_turns st db j = []" "pg_order st db j = []" for j
    using assms(2) by (simp_all add: pg_turns_def pg_order_def in_order_def scope_rows_def last_n_def)
  have "clocked db" using assms by (simp add: clocked_def)
  from pg_order_run [OF this, of "norm_scope scope" xs st fails ag] obtain h where h: "up_to_order (history_of (norm_scope scope) xs) h"
    "pg_order st (run_exchanges (\<lambda>k u a. pg_append_turns st fails k u a ag) xs db) (norm_scope scope) = h" unfolding empty by auto
  have "pg_list_turns st (run_exchanges (\<lambda>k u a. pg_append_turns st fails k u a ag) xs db) scope = last_n (cf_max_turns st) h"
    using h(2) by (simp only: pg_list_turns_def pg_order_def last_n_map [symmetric])
  then have "\<exists>h. up_to_order (history_of (norm_scope scope) xs) h \<and>
      pg_list_turns st (run_exchanges (\<lambda>k u a. pg_append_turns st fails k u a ag) xs db) scope = last_n (cf_max_turns st) h" using h(1) by blast
  moreover have l: "local_list_turns (run_exchanges (local_append_turns (cf_max_turns st)) xs []) (norm_scope scope) =
      last_n (cf_max_turns st) (history_of (norm_scope scope) xs)"
    using local_turns.turns_run [of "[]" "norm_scope scope" "cf_max_turns st" xs] by (simp add: local_list_turns_def)
  moreover have "pg_list_turns st (run_exchanges (\<lambda>k u a. pg_append_turns st fails k u a ag) xs db) scope =
      last_n (cf_max_turns st) (history_of (norm_scope scope) xs)" if "rows_in_order st db"
    using pg_turns.turns_run [OF that, of "norm_scope scope" fails ag xs] by (simp add: pg_list_turns_norm empty)
  ultimately show ?thesis by simp
qed

theorem conversation_stores_agree_witness:
  "pg_list_turns (example_conversation_store length 4) (run_exchanges
     (\<lambda>k u a. pg_append_turns (example_conversation_store length 4) False k u a None) example_exchanges example_conversation_db) ''c'' =
   [(''assistant'', ''b''), (''user'', ''d''), (''assistant'', ''e'')]"
proof -
  have "cv_messages example_conversation_db = []" by (simp add: example_conversation_db_def)
  moreover have "last_n 3 (history_of (norm_scope ''c'') example_exchanges) = [(''assistant'', ''b''), (''user'', ''d''), (''assistant'', ''e'')]"
    by code_simp
  moreover have "cf_max_turns (example_conversation_store length 4) = 3"
    by (simp add: example_conversation_store_def new_conversation_store_def)
  moreover have "strict_mono (rt_clock_seq (cv_runtime example_conversation_db))" using example_rows_in_order by (simp add: rows_in_order_def)
  ultimately show ?thesis
    using conversation_stores_agree [of example_conversation_db "''c''" example_exchanges "example_conversation_store length 4" False None]
      example_rows_in_order [of 4] by simp
qed

text \<open>
  The closed windows of a scope cut its history into parts of the window size. With an even window size and no fault
  while tagging, window \<open>i\<close> of a scope holds exactly the turns from \<open>i\<close> times the size on, and no window is returned
  before it is complete.
\<close>

theorem windows_partition_history:
  assumes "rows_in_order st db" "cv_messages db = []" "even (cf_window_size st)" "0 < cf_window_size st"
  shows "pg_fetch_window st (run_exchanges (\<lambda>k u a. pg_append_turns st False k u a ag) xs db) scope i =
    (let w = cf_window_size st; h = history_of (norm_scope scope) xs
     in if Suc i * w \<le> length h then take w (drop (i * w) h) else [])"
proof -
  have start: "windows_tagged st db" using assms(2) by (simp add: windows_tagged_def tagged_rows_def scope_rows_def)
  have "rows_in_order st (run_exchanges (\<lambda>k u a. pg_append_turns st False k u a ag) xs db)"
    by (rule pg_turns.good_run [OF assms(1)])
  from pg_fetch_window_slice [OF this run_exchanges_rows(1) [OF assms(1) start assms(3,4)] assms(4)] show ?thesis
    unfolding run_exchanges_rows(2) [OF assms(1) start assms(3,4)] using assms(2) by (simp add: scope_rows_def [of db])
qed

theorem windows_partition_history_witness:
  "pg_fetch_window (example_conversation_store length 4) (run_exchanges
     (\<lambda>k u a. pg_append_turns (example_conversation_store length 4) False k u a None) example_exchanges example_conversation_db) ''c'' 0 =
   [(''user'', ''a''), (''assistant'', ''b''), (''user'', ''d''), (''assistant'', ''e'')]"
proof -
  have "cv_messages example_conversation_db = []" by (simp add: example_conversation_db_def)
  moreover have "history_of (norm_scope ''c'') example_exchanges = [(''user'', ''a''), (''assistant'', ''b''), (''user'', ''d''), (''assistant'', ''e'')]"
    by code_simp
  moreover have "cf_window_size (example_conversation_store length 4) = 4"
    by (simp add: example_conversation_store_def new_conversation_store_def)
  ultimately show ?thesis
    using windows_partition_history [OF example_rows_in_order, of 4 None example_exchanges "''c''" 0] by simp
qed

text \<open>
  The two rows of an exchange carry the same instant, so the reply may be listed before the prompt; an odd window size
  skips the even windows; the local store does not normalise the scope it lists.
\<close>

lemma exchange_order_is_open:
  "pg_list_turns (example_conversation_store (\<lambda>i. 1 - length i) 4)
     (pg_append_turns (example_conversation_store (\<lambda>i. 1 - length i) 4) False ''c'' ''a'' ''b'' None example_conversation_db) ''c'' =
   [(''assistant'', ''b''), (''user'', ''a'')]"
  by code_simp

lemma odd_window_size_skips:
  defines "db \<equiv> run_exchanges (\<lambda>k u a. pg_append_turns (example_conversation_store length 5) False k u a None)
    (replicate 5 (''c'', ''a'', ''b'')) example_conversation_db"
  shows "pg_fetch_window (example_conversation_store length 5) db ''c'' 0 = []"
    and "length (pg_fetch_window (example_conversation_store length 5) db ''c'' 1) = 5"
  unfolding db_def by code_simp+

lemma local_scope_not_normalised:
  "local_list_turns (local_append_turns 4 ''  '' ''a'' ''b'' []) ''  '' = []"
  "local_list_turns (local_append_turns 4 ''  '' ''a'' ''b'' []) ''default-scope'' = [(''user'', ''a''), (''assistant'', ''b'')]"
  by code_simp+

end
