(* ===== verification/Read_Tools.thy ===== *)
theory Read_Tools
  imports Write_Tools Conversation Publisher
begin

text \<open>
  Governed read tools.
  \<^item> \<^verbatim>\<open>execution_sandbox/tools/read_tools.py\<close>: \<open>call_read_tool\<close> and the eleven tools;
  \<^item> \<^verbatim>\<open>execution_sandbox/tools/invocation_adapter.py\<close>: \<open>parse_tool_command_args\<close>, \<open>invoke_tool_command\<close>;
  \<^item> \<^verbatim>\<open>retrieval_runtime/service.py\<close>, \<^verbatim>\<open>data_access/read_models/artifact_search.py\<close>: \<open>search_project_artifacts\<close>, \<open>local_search\<close>.

  A tool is a function of the state of the write tools (projects and artifacts) and of the other sources it reads. It
  gives an answer or raises; \<open>call_read_tool\<close> turns both into a result with a fresh call identifier.
  \<^verbatim>\<open>json.loads\<close> is a parameter of the adapter, \<open>None\<close> for a \<^verbatim>\<open>JSONDecodeError\<close>.
\<close>

section \<open>Python's text and number functions\<close>

text \<open>\<^verbatim>\<open>int(s)\<close>: blanks around, a sign, digits with single underscores between them.\<close>

fun py_digits :: "int \<Rightarrow> string \<Rightarrow> int option" where
  "py_digits acc [] = Some acc"
| "py_digits acc (c # s) =
     (if is_digit c then py_digits (10 * acc + int (of_char c - 48)) s
      else if c = CHR ''_'' then (case s of d # s' \<Rightarrow> if is_digit d then py_digits (10 * acc + int (of_char d - 48)) s' else None | [] \<Rightarrow> None)
      else None)"

definition py_int :: "string \<Rightarrow> int option" where
  "py_int s =
     (let t = py_strip s;
          (sign, u) = (case t of c # r \<Rightarrow> if c = CHR ''-'' then (- 1, r) else if c = CHR ''+'' then (1, r) else (1, t) | [] \<Rightarrow> (1, []))
      in case u of [] \<Rightarrow> None | d # r \<Rightarrow> if is_digit d then map_option (\<lambda>n. sign * n) (py_digits 0 u) else None)"

text \<open>\<^verbatim>\<open>str.splitlines\<close>: a line feed after a carriage return belongs to the same line end.\<close>

definition line_end :: "char \<Rightarrow> bool" where
  "line_end c = ((of_char c :: nat) \<in> {10, 11, 12, 13, 28, 29, 30, 133})"

fun splitlines_from :: "bool \<Rightarrow> string \<Rightarrow> string \<Rightarrow> string list" where
  "splitlines_from cr acc [] = (if acc = [] then [] else [rev acc])"
| "splitlines_from cr acc (c # s) =
     (if cr \<and> (of_char c :: nat) = 10 then splitlines_from False acc s
      else if line_end c then rev acc # splitlines_from ((of_char c :: nat) = 13) [] s
      else splitlines_from False (c # acc) s)"

text \<open>\<^verbatim>\<open>sorted(..., reverse=True)\<close> keeps the order of equal elements.\<close>

definition sort_desc :: "('a \<Rightarrow> 'k::linorder) \<Rightarrow> 'a list \<Rightarrow> 'a list" where
  "sort_desc key xs = rev (sort_key key (rev xs))"

section \<open>Retrieval\<close>

record retrieval_request =
  rq_project_id :: string
  rq_query :: string
  rq_limit :: int
  rq_artifact_type :: "string option"

record retrieval_hit =
  ht_project_id :: string
  ht_artifact_id :: string
  ht_artifact_type :: string
  ht_title :: string
  ht_snippet :: string
  ht_source_ref :: string
  ht_score :: rat

record retrieval_result =
  rl_decision :: string
  rl_hits :: "retrieval_hit list"
  rl_error_code :: "string option"
  rl_message :: string
  rl_retryable :: bool

definition local_search :: "retrieval_request \<Rightarrow> py_exn + retrieval_hit list" where
  "local_search r =
     (if rq_query r = ''retrieval_error'' then Inl (CodedError ''retrieval_runtime_error_fail_closed'' ''simulated retrieval backend error'')
      else Inr [])"

definition search_project_artifacts :: "(retrieval_request \<Rightarrow> py_exn + retrieval_hit list) \<Rightarrow> retrieval_request \<Rightarrow> retrieval_result" where
  "search_project_artifacts search r =
     (if rq_project_id r = []
      then \<lparr>rl_decision = ''denied'', rl_hits = [], rl_error_code = Some ''retrieval_scope_invalid'',
            rl_message = ''project scope is required for retrieval query'', rl_retryable = False\<rparr>
      else case search r of
             Inl (CodedError _ _) \<Rightarrow> \<lparr>rl_decision = ''denied'', rl_hits = [], rl_error_code = Some ''retrieval_runtime_error_fail_closed'',
               rl_message = ''retrieval runtime unavailable; query denied fail-closed'', rl_retryable = True\<rparr>
           | Inl _ \<Rightarrow> \<lparr>rl_decision = ''denied'', rl_hits = [], rl_error_code = Some ''retrieval_runtime_unexpected_fail_closed'',
               rl_message = ''unexpected retrieval runtime failure; query denied fail-closed'', rl_retryable = False\<rparr>
           | Inr hits \<Rightarrow> \<lparr>rl_decision = ''ok'', rl_hits = hits, rl_error_code = None, rl_message = ''retrieval query completed'',
               rl_retryable = False\<rparr>)"

section \<open>Sources and answers\<close>

text \<open>
  The events of the in-memory audit writer (the durable one offers none to read, \<open>None\<close>), and the other repositories.
\<close>

record audit_event =
  ev_event_id :: string
  ev_event_type :: string
  ev_outcome :: string
  ev_task_id :: "string option"
  ev_trace_id :: string
  ev_actor_role :: string
  ev_source :: string
  ev_reason_code :: "string option"
  ev_message :: string
  ev_timestamp :: time

record read_sources =
  rs_tasks :: task_repo
  rs_events :: "audit_event list option"
  rs_dead_letters :: "dead_letter list option"
  rs_conversation :: "(conversation_store \<times> conversation_db) option"
  rs_search :: "retrieval_request \<Rightarrow> py_exn + retrieval_hit list"

datatype read_answer =
  ReadOk string json_object "tool_source list"
| ReadDenied string string string

abbreviation num :: "nat \<Rightarrow> json" where
  "num n \<equiv> JNum (of_nat n)"

abbreviation cited :: "string \<Rightarrow> string \<Rightarrow> string \<Rightarrow> time option \<Rightarrow> tool_source" where
  "cited i kind version updated \<equiv> \<lparr>sd_source_id = i, sd_source_kind = kind, sd_version = Some version, sd_updated_at = updated\<rparr>"

definition project_record_source :: "project_record \<Rightarrow> tool_source" where
  "project_record_source p = cited (''project:'' @ pj_project_id p) ''project_record'' (''status:'' @ pj_status p) (Some (pj_updated_at p))"

definition normalize_int :: "tool_env \<Rightarrow> json_object \<Rightarrow> string \<Rightarrow> int \<Rightarrow> int \<Rightarrow> int \<Rightarrow> nat" where
  "normalize_int env args k fallback minimum maximum =
     (let parsed = (case py_int (json_text (te_show env) (case dict_get args k of None \<Rightarrow> JNull | Some v \<Rightarrow> v)) of None \<Rightarrow> fallback | Some n \<Rightarrow> n)
      in nat (if parsed < minimum then minimum else if maximum < parsed then maximum else parsed))"

definition csv_filter :: "tool_env \<Rightarrow> json_object \<Rightarrow> string \<Rightarrow> string list" where
  "csv_filter env args k = filter (\<lambda>v. v \<noteq> []) (map py_strip (py_split CHR '','' (py_lower (arg_text env args k))))"

section \<open>The project of a call\<close>

definition resolve_project_scope :: "tool_env \<Rightarrow> json_object \<Rightarrow> tool_context \<Rightarrow> read_answer + string" where
  "resolve_project_scope env args ctx =
     (let requested = (if arg_text env args ''project_id'' \<noteq> [] then arg_text env args ''project_id'' else or_str (cx_project_id ctx) []);
          name = arg_or env args ''tool_name'' ''tool''
      in if requested = [] then Inl (ReadDenied name ''tool_project_scope_required'' ''project_id is required'')
         else if cx_project_id ctx \<noteq> None \<and> cx_project_id ctx \<noteq> Some requested
         then Inl (ReadDenied name ''tool_project_scope_mismatch'' ''requested project_id differs from command scope'')
         else Inr requested)"

definition with_scope :: "tool_env \<Rightarrow> json_object \<Rightarrow> tool_context \<Rightarrow> (string \<Rightarrow> py_exn + read_answer) \<Rightarrow> py_exn + read_answer" where
  "with_scope env args ctx f = (case resolve_project_scope env args ctx of Inl a \<Rightarrow> Inr a | Inr p \<Rightarrow> f p)"

definition with_project ::
  "tool_env \<Rightarrow> json_object \<Rightarrow> tool_context \<Rightarrow> tool_state \<Rightarrow> (project_record \<Rightarrow> py_exn + read_answer) \<Rightarrow> py_exn + read_answer" where
  "with_project env args ctx s f =
     with_scope env args ctx (\<lambda>i.
       case get_project (tl_gov s) i of
         Inl e \<Rightarrow> Inl e
       | Inr None \<Rightarrow> Inr (ReadDenied (arg_or env args ''tool_name'' ''tool'') ''tool_project_missing'' (''project not found: '' @ i))
       | Inr (Some p) \<Rightarrow> f p)"

text \<open>An artifact error that a tool does not catch.\<close>

definition artifact_raise :: "artifact_error + 'a \<Rightarrow> py_exn + 'a" where
  "artifact_raise r = (case r of Inl (ProjectArtifactRepositoryError c m) \<Rightarrow> Inl (CodedError c m)
     | Inl e \<Rightarrow> Inl (OtherExn (artifact_error_text e)) | Inr x \<Rightarrow> Inr x)"

section \<open>The tools\<close>

definition lifecycle_state :: "project_record \<Rightarrow> string list \<Rightarrow> json_object" where
  "lifecycle_state p next_states =
     [(''project_id'', JStr (pj_project_id p)), (''status'', JStr (pj_status p)), (''next_transitions'', JList (map JStr next_states)),
      (''updated_at'', JIso (pj_updated_at p))]"

definition tool_get_project_lifecycle_state :: "tool_env \<Rightarrow> read_sources \<Rightarrow> json_object \<Rightarrow> tool_context \<Rightarrow> tool_state \<Rightarrow> py_exn + read_answer" where
  "tool_get_project_lifecycle_state env src args ctx s = with_project env args ctx s (\<lambda>p.
     sum_bind (allowed_project_status_transitions (pj_status p)) (\<lambda>next_states.
       Inr (ReadOk ''get_project_lifecycle_state'' (lifecycle_state p next_states) [project_record_source p])))"

definition tool_get_project_budget_snapshot :: "tool_env \<Rightarrow> read_sources \<Rightarrow> json_object \<Rightarrow> tool_context \<Rightarrow> tool_state \<Rightarrow> py_exn + read_answer" where
  "tool_get_project_budget_snapshot env src args ctx s = with_project env args ctx s (\<lambda>p.
     let currency = (case pj_initialization p of None \<Rightarrow> 0 | Some i \<Rightarrow> in_budget_currency_total i);
         quota = (case pj_initialization p of None \<Rightarrow> 0 | Some i \<Rightarrow> in_budget_quota_total i)
     in Inr (ReadOk ''get_project_budget_snapshot''
          [(''project_id'', JStr (pj_project_id p)), (''currency_total'', JNum (round6 currency)), (''currency_used'', JNum 0),
           (''currency_remaining'', JNum (round6 (max 0 (currency - 0)))), (''quota_total'', JNum (round6 quota)), (''quota_used'', JNum 0),
           (''quota_remaining'', JNum (round6 (max 0 (quota - 0)))), (''usage_source'', JStr ''runtime_budget_usage_not_persisted''),
           (''baseline_initialized'', JBool (pj_initialization p \<noteq> None))]
          [cited (''project:'' @ pj_project_id p) ''budget'' ''initialization_snapshot'' (Some (pj_updated_at p))]))"

definition milestone_line :: "string \<Rightarrow> bool" where
  "milestone_line l = list_ex (py_startswith (py_strip l)) [''-'', ''*'', ''1.'', ''2.'', ''3.'', ''4.'', ''5.'']"

definition milestone_lines :: "string \<Rightarrow> string list" where
  "milestone_lines content = take 12 (map py_strip (filter milestone_line (splitlines_from False [] content)))"

definition artifact_source :: "artifact_pointer \<times> string \<Rightarrow> tool_source" where
  "artifact_source d = cited (''artifact:'' @ pt_artifact_type (fst d)) ''artifact'' (''v'' @ show_nat (pt_revision_no (fst d)))
     (Some (pt_created_at (fst d)))"

definition tool_get_project_milestone_status :: "tool_env \<Rightarrow> read_sources \<Rightarrow> json_object \<Rightarrow> tool_context \<Rightarrow> tool_state \<Rightarrow> py_exn + read_answer" where
  "tool_get_project_milestone_status env src args ctx s = with_project env args ctx s (\<lambda>p.
     sum_bind (artifact_raise (read_latest_artifact (tl_artifacts s) (pj_project_id p) ''execution_plan'')) (\<lambda>plan.
     sum_bind (artifact_raise (read_latest_artifact (tl_artifacts s) (pj_project_id p) ''progress_report'')) (\<lambda>report.
       let milestones = (case plan of None \<Rightarrow> [] | Some d \<Rightarrow> milestone_lines (snd d));
           revision = (\<lambda>d. case d of None \<Rightarrow> JNull | Some x \<Rightarrow> num (pt_revision_no (fst x)))
       in Inr (ReadOk ''get_project_milestone_status''
            [(''project_id'', JStr (pj_project_id p)), (''milestones_total'', num (length milestones)),
             (''completion_percent'', num (if length milestones = 0 then 0 else 20)), (''blocked_milestones'', JList []),
             (''due_date_risk_flags'', JList []), (''latest_execution_plan_revision'', revision plan),
             (''latest_progress_report_revision'', revision report)]
            (project_record_source p # map artifact_source (case plan of None \<Rightarrow> [] | Some d \<Rightarrow> [d]) @
             map artifact_source (case report of None \<Rightarrow> [] | Some d \<Rightarrow> [d]))))))"

definition project_tasks :: "read_sources \<Rightarrow> string \<Rightarrow> task_record list" where
  "project_tasks src i = filter (\<lambda>t. tk_project_id t = Some i) (list_tasks (rs_tasks src))"

definition task_entry :: "task_record \<Rightarrow> json" where
  "task_entry t = JObj [(''task_id'', JStr (tk_task_id t)), (''status'', JStr (tk_status t)), (''command'', JStr (tk_command t)),
     (''target'', JStr (tk_target t)), (''dispatch_target'', json_opt (tk_dispatch_target t)),
     (''outcome_error_code'', json_opt (tk_outcome_error_code t)), (''created_at'', JIso (tk_created_at t))]"

definition tool_get_project_task_board :: "tool_env \<Rightarrow> read_sources \<Rightarrow> json_object \<Rightarrow> tool_context \<Rightarrow> tool_state \<Rightarrow> py_exn + read_answer" where
  "tool_get_project_task_board env src args ctx s = with_scope env args ctx (\<lambda>i.
     let wanted = csv_filter env args ''status_filter'';
         tasks = filter (\<lambda>t. wanted = [] \<or> tk_status t \<in> set wanted) (project_tasks src i);
         top = take (normalize_int env args ''limit'' 20 1 100) (sort_desc (\<lambda>t. (tk_created_at t, tk_task_id t)) tasks)
     in Inr (ReadOk ''get_project_task_board''
          [(''project_id'', JStr i), (''result_count'', num (length top)), (''tasks'', JList (map task_entry top))]
          [cited (''runtime:tasks:'' @ i) ''task'' (''count:'' @ show_nat (length tasks))
             (case top of [] \<Rightarrow> None | t # _ \<Rightarrow> Some (tk_created_at t))]))"

definition hit_entry :: "retrieval_hit \<Rightarrow> json" where
  "hit_entry h = JObj [(''artifact_id'', JStr (ht_artifact_id h)), (''artifact_type'', JStr (ht_artifact_type h)), (''title'', JStr (ht_title h)),
     (''snippet'', JStr (ht_snippet h)), (''source_ref'', JStr (ht_source_ref h)), (''score'', JNum (ht_score h))]"

definition tool_search_project_docs :: "tool_env \<Rightarrow> read_sources \<Rightarrow> json_object \<Rightarrow> tool_context \<Rightarrow> tool_state \<Rightarrow> py_exn + read_answer" where
  "tool_search_project_docs env src args ctx s = with_scope env args ctx (\<lambda>i.
     let query = arg_text env args ''query''; result = search_project_artifacts (rs_search src)
           \<lparr>rq_project_id = i, rq_query = query, rq_limit = int (normalize_int env args ''limit'' 5 1 20),
            rq_artifact_type = or_none (py_lower (arg_text env args ''artifact_type''))\<rparr>
     in if query = [] then Inr (ReadDenied ''search_project_docs'' ''tool_query_missing'' ''query is required'')
        else if rl_decision result \<noteq> ''ok''
        then Inr (ReadDenied ''search_project_docs'' (or_str (rl_error_code result) ''retrieval_query_denied'') (rl_message result))
        else Inr (ReadOk ''search_project_docs''
               [(''project_id'', JStr i), (''query'', JStr query), (''result_count'', num (length (rl_hits result))),
                (''hits'', JList (map hit_entry (rl_hits result)))]
               (map (\<lambda>h. cited (''artifact:'' @ ht_artifact_id h) ''artifact'' (''score:'' @ te_show env (JNum (ht_score h))) None)
                  (rl_hits result))))"

definition tool_get_project_doc_latest :: "tool_env \<Rightarrow> read_sources \<Rightarrow> json_object \<Rightarrow> tool_context \<Rightarrow> tool_state \<Rightarrow> py_exn + read_answer" where
  "tool_get_project_doc_latest env src args ctx s = with_scope env args ctx (\<lambda>i.
     let artifact_type = py_lower (arg_text env args ''artifact_type''); denied = (\<lambda>code m. Inr (ReadDenied ''get_project_doc_latest'' code m))
     in if artifact_type = [] then denied ''tool_artifact_type_missing'' ''artifact_type is required''
        else case read_latest_artifact (tl_artifacts s) i artifact_type of
               Inl (ProjectArtifactRepositoryError code m) \<Rightarrow> denied code m
             | Inl e \<Rightarrow> Inl (OtherExn (artifact_error_text e))
             | Inr None \<Rightarrow> denied ''tool_artifact_missing'' ''artifact not found''
             | Inr (Some (pointer, content)) \<Rightarrow>
                 Inr (ReadOk ''get_project_doc_latest''
                   [(''project_id'', JStr i), (''artifact_type'', JStr artifact_type), (''revision_no'', num (pt_revision_no pointer)),
                    (''storage_uri'', JStr (pt_storage_uri pointer)), (''content_hash'', JStr (pt_content_hash pointer)),
                    (''excerpt'', JStr (take 500 (map (\<lambda>c. if c = CHR 0x0A then CHR '' '' else c) (py_strip content))))]
                   [cited (''artifact:'' @ artifact_type) ''artifact'' (''v'' @ show_nat (pt_revision_no pointer)) (Some (pt_created_at pointer))]))"

definition approved_roles :: "project_record \<Rightarrow> string list" where
  "approved_roles p = py_sorted_set (map ap_actor_role (pj_completion_approvals p))"

definition missing_roles :: "project_record \<Rightarrow> string list" where
  "missing_roles p = filter (\<lambda>r. r \<notin> set (approved_roles p)) [''ceo'', ''cwo'']"

definition completion_ready :: "project_record \<Rightarrow> bool" where
  "completion_ready p = (pj_completion_report p \<noteq> None \<and> missing_roles p = [] \<and> pj_owner_notified_at p \<noteq> None)"

definition gate_status :: "project_record \<Rightarrow> json_object" where
  "gate_status p =
     [(''project_id'', JStr (pj_project_id p)), (''report_present'', JBool (pj_completion_report p \<noteq> None)),
      (''approval_roles'', JList (map JStr (approved_roles p))), (''missing_approval_roles'', JList (map JStr (missing_roles p))),
      (''owner_notified'', JBool (pj_owner_notified_at p \<noteq> None)), (''ready_for_completion_transition'', JBool (completion_ready p))]"

definition tool_get_completion_gate_status :: "tool_env \<Rightarrow> read_sources \<Rightarrow> json_object \<Rightarrow> tool_context \<Rightarrow> tool_state \<Rightarrow> py_exn + read_answer" where
  "tool_get_completion_gate_status env src args ctx s = with_project env args ctx s (\<lambda>p.
     Inr (ReadOk ''get_completion_gate_status'' (gate_status p) [project_record_source p]))"

definition binding_entry :: "workforce_binding \<Rightarrow> json" where
  "binding_entry b = JObj [(''role'', JStr (wb_role b)), (''template_id'', JStr (wb_template_id b)), (''binding_status'', JStr (wb_binding_status b)),
     (''llm_routing_profile'', JStr (wb_llm_routing_profile b)), (''mandatory_operations'', JList (map JStr (wb_mandatory_operations b))),
     (''created_at'', JIso (wb_created_at b))]"

definition tool_get_project_workforce_snapshot :: "tool_env \<Rightarrow> read_sources \<Rightarrow> json_object \<Rightarrow> tool_context \<Rightarrow> tool_state \<Rightarrow> py_exn + read_answer" where
  "tool_get_project_workforce_snapshot env src args ctx s = with_project env args ctx s (\<lambda>p.
     Inr (ReadOk ''get_project_workforce_snapshot''
       [(''project_id'', JStr (pj_project_id p)), (''binding_count'', num (length (pj_workforce_bindings p))),
        (''bindings'', JList (map binding_entry (pj_workforce_bindings p)))]
       [cited (''project:'' @ pj_project_id p) ''project_record'' (''workforce_bindings:'' @ show_nat (length (pj_workforce_bindings p)))
          (Some (pj_updated_at p))]))"

definition event_entry :: "audit_event \<Rightarrow> json" where
  "event_entry e = JObj [(''event_id'', JStr (ev_event_id e)), (''event_type'', JStr (ev_event_type e)), (''outcome'', JStr (ev_outcome e)),
     (''task_id'', json_opt (ev_task_id e)), (''trace_id'', JStr (ev_trace_id e)), (''actor_role'', JStr (ev_actor_role e)),
     (''source'', JStr (ev_source e)), (''reason_code'', json_opt (ev_reason_code e)), (''message'', JStr (ev_message e)),
     (''timestamp'', JIso (ev_timestamp e))]"

definition project_events :: "read_sources \<Rightarrow> string \<Rightarrow> audit_event list" where
  "project_events src i = filter (\<lambda>e. ev_task_id e \<in> Some ` tk_task_id ` set (project_tasks src i)) (case rs_events src of None \<Rightarrow> [] | Some es \<Rightarrow> es)"

definition tool_get_audit_event_stream :: "tool_env \<Rightarrow> read_sources \<Rightarrow> json_object \<Rightarrow> tool_context \<Rightarrow> tool_state \<Rightarrow> py_exn + read_answer" where
  "tool_get_audit_event_stream env src args ctx s = with_scope env args ctx (\<lambda>i.
     let wanted = csv_filter env args ''event_types'';
         matched = filter (\<lambda>e. wanted = [] \<or> ev_event_type e \<in> set wanted) (project_events src i);
         top = take (normalize_int env args ''limit'' 20 1 100) (sort_desc ev_timestamp matched)
     in Inr (ReadOk ''get_audit_event_stream''
          [(''project_id'', JStr i), (''result_count'', num (length top)), (''events'', JList (map event_entry top))]
          [cited (''audit:project:'' @ i) ''audit'' (''count:'' @ show_nat (length matched)) (case top of [] \<Rightarrow> None | e # _ \<Rightarrow> Some (ev_timestamp e))]))"

definition task_dead_letters :: "read_sources \<Rightarrow> string \<Rightarrow> dead_letter list" where
  "task_dead_letters src i = filter (\<lambda>d. dl_task_id d = i) (case rs_dead_letters src of None \<Rightarrow> [] | Some ds \<Rightarrow> ds)"

definition dead_letter_entry :: "dead_letter \<Rightarrow> json" where
  "dead_letter_entry d = JObj [(''dead_letter_id'', JStr (dl_dead_letter_id d)), (''error_code'', JStr (dl_error_code d)),
     (''error_message'', JStr (dl_error_message d)), (''attempts'', JNum (of_int (dl_attempts d))), (''created_at'', JIso (dl_created_at d))]"

definition denial_evidence :: "task_record \<Rightarrow> dead_letter list \<Rightarrow> read_answer" where
  "denial_evidence t letters = ReadOk ''get_dispatch_denial_evidence''
     [(''task_id'', JStr (tk_task_id t)), (''status'', JStr (tk_status t)), (''project_id'', json_opt (tk_project_id t)),
      (''dispatch_target'', json_opt (tk_dispatch_target t)), (''outcome_source'', json_opt (tk_outcome_source t)),
      (''error_code'', json_opt (tk_outcome_error_code t)), (''message'', json_opt (tk_outcome_message t)),
      (''dead_letters'', JList (map dead_letter_entry letters))]
     (cited (''task:'' @ tk_task_id t) ''task'' (''status:'' @ tk_status t) (Some (tk_created_at t)) #
      map (\<lambda>d. cited (''dead_letter:'' @ dl_dead_letter_id d) ''runtime'' (''attempts:'' @ show_int (dl_attempts d)) (Some (dl_created_at d))) letters)"

definition tool_get_dispatch_denial_evidence :: "tool_env \<Rightarrow> read_sources \<Rightarrow> json_object \<Rightarrow> tool_context \<Rightarrow> tool_state \<Rightarrow> py_exn + read_answer" where
  "tool_get_dispatch_denial_evidence env src args ctx s =
     (let i = arg_text env args ''task_id''; denied = (\<lambda>code m. Inr (ReadDenied ''get_dispatch_denial_evidence'' code m))
      in if i = [] then denied ''tool_task_id_missing'' ''task_id is required''
         else case get_task_by_id (rs_tasks src) i of
                None \<Rightarrow> denied ''tool_task_missing'' ''task not found''
              | Some t \<Rightarrow>
                  if cx_project_id ctx \<noteq> None \<and> tk_project_id t \<noteq> cx_project_id ctx
                  then denied ''tool_project_scope_mismatch'' ''task is outside project scope''
                  else if tk_status t \<noteq> ''blocked'' then denied ''tool_task_not_denied'' ''task is not a denied/blocked dispatch''
                  else Inr (denial_evidence t (task_dead_letters src (tk_task_id t))))"

definition turn_entry :: "turn \<Rightarrow> json" where
  "turn_entry t = JObj [(''role'', JStr (fst t)), (''content'', JStr (snd t))]"

definition tool_get_conversation_window :: "tool_env \<Rightarrow> read_sources \<Rightarrow> json_object \<Rightarrow> tool_context \<Rightarrow> tool_state \<Rightarrow> py_exn + read_answer" where
  "tool_get_conversation_window env src args ctx s =
     (let denied = (\<lambda>code m. Inr (ReadDenied ''get_conversation_window'' code m)); scope = arg_text env args ''scope''
      in case rs_conversation src of
           None \<Rightarrow> denied ''tool_conversation_store_missing'' ''conversation store is not available''
         | Some (store, db) \<Rightarrow>
             (case py_int (json_text (te_show env) (case dict_get args ''window_index'' of None \<Rightarrow> JNull | Some v \<Rightarrow> v)) of
                None \<Rightarrow> denied ''tool_window_index_invalid'' ''window_index must be an integer''
              | Some n \<Rightarrow>
                  if n < 0 then denied ''tool_window_index_invalid'' ''window_index must be >= 0''
                  else if scope = [] then denied ''tool_scope_missing'' (''scope is required (e.g. '' @ py_repr ''guild::G::channel::C'' @ '')'')
                  else let turns = pg_fetch_window store db scope (nat n)
                       in if turns = []
                          then denied ''tool_window_not_found'' (''no turns found for window_index='' @ show_int n @ '' in scope'')
                          else Inr (ReadOk ''get_conversation_window''
                                 [(''scope'', JStr scope), (''window_index'', JNum (of_int n)), (''turn_count'', num (length turns)),
                                  (''turns'', JList (map turn_entry turns))]
                                 [cited (''conversation:'' @ scope @ '':window:'' @ show_int n) ''conversation_window'' (''window:'' @ show_int n) None])))"

definition read_handlers :: "(string \<times> (tool_env \<Rightarrow> read_sources \<Rightarrow> json_object \<Rightarrow> tool_context \<Rightarrow> tool_state \<Rightarrow> py_exn + read_answer)) list" where
  "read_handlers =
     [(''get_project_lifecycle_state'', tool_get_project_lifecycle_state), (''get_project_budget_snapshot'', tool_get_project_budget_snapshot),
      (''get_project_milestone_status'', tool_get_project_milestone_status), (''get_project_task_board'', tool_get_project_task_board),
      (''search_project_docs'', tool_search_project_docs), (''get_project_doc_latest'', tool_get_project_doc_latest),
      (''get_completion_gate_status'', tool_get_completion_gate_status),
      (''get_project_workforce_snapshot'', tool_get_project_workforce_snapshot), (''get_audit_event_stream'', tool_get_audit_event_stream),
      (''get_dispatch_denial_evidence'', tool_get_dispatch_denial_evidence), (''get_conversation_window'', tool_get_conversation_window)]"

section \<open>The service and the adapter\<close>

definition read_reply :: "tool_env \<Rightarrow> read_sources \<Rightarrow> string \<Rightarrow> json_object \<Rightarrow> tool_context \<Rightarrow> tool_state \<Rightarrow> read_answer" where
  "read_reply env src tool_name args ctx s =
     (let tool = py_lower (py_strip tool_name)
      in if tool = [] then ReadDenied tool_name ''tool_name_missing'' ''tool_name is required''
         else if \<not> is_read_tool_allowed (cx_recipient_role ctx) tool
         then ReadDenied tool ''tool_access_denied'' ''read tool is not allowed for recipient role''
         else case map_of read_handlers tool of
                None \<Rightarrow> ReadDenied tool ''tool_unknown'' ''unknown read tool''
              | Some handler \<Rightarrow>
                  (case handler env src args ctx s of
                     Inl e \<Rightarrow> ReadDenied tool ''tool_runtime_error'' (''tool execution failed: '' @ exn_text e)
                   | Inr a \<Rightarrow> a))"

definition call_read_tool :: "tool_env \<Rightarrow> read_sources \<Rightarrow> string \<Rightarrow> json_object \<Rightarrow> tool_context \<Rightarrow> tool_state \<Rightarrow> tool_result tool_run" where
  "call_read_tool env src tool_name args ctx s =
     (case read_reply env src tool_name args ctx s of
        ReadOk name data sources \<Rightarrow> tool_ok name ctx data sources s
      | ReadDenied name code m \<Rightarrow> tool_deny name ctx code m s)"

definition parse_tool_command_args :: "(string \<Rightarrow> json option) \<Rightarrow> tool_env \<Rightarrow> string list \<Rightarrow> (string \<times> json_object) option" where
  "parse_tool_command_args loads env args =
     (case args of
        [] \<Rightarrow> None
      | first # rest \<Rightarrow>
          (let raw = py_strip first
           in if py_startswith raw ''{''
              then (case loads raw of
                      Some (JObj payload) \<Rightarrow>
                        (let tool = py_lower (arg_text env payload ''tool'')
                         in if tool = [] then None
                            else case dict_get payload ''arguments'' of
                                   None \<Rightarrow> Some (tool, [])
                                 | Some v \<Rightarrow> if \<not> json_truthy v then Some (tool, [])
                                             else (case v of JObj d \<Rightarrow> Some (tool, d) | _ \<Rightarrow> None))
                    | _ \<Rightarrow> None)
              else let tool = py_lower raw
                   in case rest of
                        [] \<Rightarrow> Some (tool, [])
                      | second # _ \<Rightarrow>
                          (let raw2 = py_strip second
                           in if raw2 = [] then Some (tool, [])
                              else if py_startswith raw2 ''{''
                              then (case loads raw2 of None \<Rightarrow> None | Some (JObj d) \<Rightarrow> Some (tool, d) | Some _ \<Rightarrow> Some (tool, [(''value'', JStr raw2)]))
                              else Some (tool, [(''value'', JStr raw2)]))))"

text \<open>The registry holds each of the two services or none.\<close>

definition invoke_tool_command ::
  "(string \<Rightarrow> json option) \<Rightarrow> tool_env \<Rightarrow> read_sources option \<Rightarrow> bool \<Rightarrow> string \<Rightarrow> string list \<Rightarrow> tool_context \<Rightarrow> tool_state \<Rightarrow>
   tool_result option tool_run" where
  "invoke_tool_command loads env read_tools write_tools command args ctx s =
     (case parse_tool_command_args loads env args of
        None \<Rightarrow> (Inr None, s)
      | Some (tool, arguments) \<Rightarrow>
          if command = ''tool_read''
          then (case read_tools of None \<Rightarrow> (Inr None, s)
                | Some src \<Rightarrow> and_then (call_read_tool env src tool arguments ctx s) (\<lambda>r s1. (Inr (Some r), s1)))
          else if command = ''tool_write''
          then (if write_tools then and_then (call_write_tool env tool arguments ctx s) (\<lambda>r s1. (Inr (Some r), s1)) else (Inr None, s))
          else (Inr None, s))"

section \<open>What a scoped call can see\<close>

text \<open>Two states that agree on everything that belongs to project \<open>p\<close>.\<close>

definition same_project :: "string \<Rightarrow> read_sources \<Rightarrow> tool_state \<Rightarrow> read_sources \<Rightarrow> tool_state \<Rightarrow> bool" where
  "same_project p src s src' s' =
     (find_project (tl_gov s) p = find_project (tl_gov s') p \<and>
      (\<forall>ty. rows_of (tl_artifacts s) (py_strip p) ty = rows_of (tl_artifacts s') (py_strip p) ty) \<and>
      project_tasks src p = project_tasks src' p \<and> project_events src p = project_events src' p \<and>
      (\<forall>t \<in> set (project_tasks src p). task_dead_letters src (tk_task_id t) = task_dead_letters src' (tk_task_id t)) \<and>
      (\<forall>r. rq_project_id r = p \<longrightarrow> rs_search src r = rs_search src' r))"

lemma resolve_project_scope_own:
  "cx_project_id ctx = Some p \<Longrightarrow> resolve_project_scope env args ctx = Inr q \<Longrightarrow> q = p"
  by (auto simp: resolve_project_scope_def Let_def split: if_splits)

lemma with_scope_cong:
  "cx_project_id ctx = Some p \<Longrightarrow> f p = g p \<Longrightarrow> with_scope env args ctx f = with_scope env args ctx g"
  using resolve_project_scope_own [of ctx p env args] by (auto simp: with_scope_def split: sum.split)

lemma read_latest_same:
  "same_project p src s src' s' \<Longrightarrow> read_latest_artifact (tl_artifacts s) p ty = read_latest_artifact (tl_artifacts s') p ty"
  by (auto simp: read_latest_artifact_def with_key_def validate_project_id_def latest_row_def same_project_def Let_def split: sum.split)

lemma get_project_id: "get_project g i = Inr (Some p) \<Longrightarrow> pj_project_id p = i"
  by (auto simp: get_project_def find_project_def sum_bind_Inr find_Some_iff dest!: project_from_row_id split: option.splits)

lemma with_project_cong:
  assumes "cx_project_id ctx = Some p" "same_project p src s src' s'" "\<And>q. pj_project_id q = p \<Longrightarrow> f q = g q"
  shows "with_project env args ctx s f = with_project env args ctx s' g"
proof -
  have "get_project (tl_gov s) p = get_project (tl_gov s') p" using assms(2) by (simp add: get_project_def same_project_def)
  then show ?thesis unfolding with_project_def
    using assms(3) get_project_id by (intro with_scope_cong [OF assms(1)]) (auto split: sum.split option.split)
qed

lemma search_same: "same_project p src s src' s' \<Longrightarrow> rq_project_id r = p \<Longrightarrow>
    search_project_artifacts (rs_search src) r = search_project_artifacts (rs_search src') r"
  by (simp add: search_project_artifacts_def same_project_def)

text \<open>Nine tools answer alike in both states.\<close>

lemma scoped_tools_same:
  assumes "cx_project_id ctx = Some p" "same_project p src s src' s'"
  shows "tool_get_project_lifecycle_state env src args ctx s = tool_get_project_lifecycle_state env src' args ctx s'"
    "tool_get_project_budget_snapshot env src args ctx s = tool_get_project_budget_snapshot env src' args ctx s'"
    "tool_get_project_milestone_status env src args ctx s = tool_get_project_milestone_status env src' args ctx s'"
    "tool_get_project_task_board env src args ctx s = tool_get_project_task_board env src' args ctx s'"
    "tool_search_project_docs env src args ctx s = tool_search_project_docs env src' args ctx s'"
    "tool_get_project_doc_latest env src args ctx s = tool_get_project_doc_latest env src' args ctx s'"
    "tool_get_completion_gate_status env src args ctx s = tool_get_completion_gate_status env src' args ctx s'"
    "tool_get_project_workforce_snapshot env src args ctx s = tool_get_project_workforce_snapshot env src' args ctx s'"
    "tool_get_audit_event_stream env src args ctx s = tool_get_audit_event_stream env src' args ctx s'"
proof -
  note defs = tool_get_project_lifecycle_state_def tool_get_project_budget_snapshot_def tool_get_completion_gate_status_def
    tool_get_project_workforce_snapshot_def tool_get_project_milestone_status_def
  note proj = with_project_cong [OF assms]
  show "tool_get_project_lifecycle_state env src args ctx s = tool_get_project_lifecycle_state env src' args ctx s'"
    "tool_get_project_budget_snapshot env src args ctx s = tool_get_project_budget_snapshot env src' args ctx s'"
    "tool_get_completion_gate_status env src args ctx s = tool_get_completion_gate_status env src' args ctx s'"
    "tool_get_project_workforce_snapshot env src args ctx s = tool_get_project_workforce_snapshot env src' args ctx s'"
    unfolding defs by (rule proj, rule refl)+
  show "tool_get_project_milestone_status env src args ctx s = tool_get_project_milestone_status env src' args ctx s'"
    unfolding defs by (rule proj) (simp only: read_latest_same [OF assms(2)])
  have tasks: "project_tasks src p = project_tasks src' p" "project_events src p = project_events src' p"
    using assms(2) by (simp_all add: same_project_def)
  show "tool_get_project_task_board env src args ctx s = tool_get_project_task_board env src' args ctx s'"
    unfolding tool_get_project_task_board_def by (rule with_scope_cong [OF assms(1)]) (simp only: tasks)
  show "tool_get_audit_event_stream env src args ctx s = tool_get_audit_event_stream env src' args ctx s'"
    unfolding tool_get_audit_event_stream_def by (rule with_scope_cong [OF assms(1)]) (simp only: tasks)
  show "tool_get_project_doc_latest env src args ctx s = tool_get_project_doc_latest env src' args ctx s'"
    unfolding tool_get_project_doc_latest_def by (rule with_scope_cong [OF assms(1)]) (simp only: read_latest_same [OF assms(2)])
  show "tool_search_project_docs env src args ctx s = tool_search_project_docs env src' args ctx s'"
    unfolding tool_search_project_docs_def Let_def
    by (rule with_scope_cong [OF assms(1)]) (simp add: search_same [OF assms(2)])
qed

lemma find_row_member: "distinct (map tk_task_id repo) \<Longrightarrow> r \<in> set repo \<Longrightarrow> find_row repo (tk_task_id r) = Some r"
  by (induction repo) (auto simp: find_row_def image_iff)

lemma get_task_same:
  assumes "same_project p src s src' s'" "distinct (map tk_task_id (rs_tasks src'))"
    and "get_task_by_id (rs_tasks src) i = Some t" "tk_project_id t = Some p"
  shows "get_task_by_id (rs_tasks src') i = Some t"
proof -
  obtain r where r: "find_row (rs_tasks src) i = Some r" "t = task_from_row r" using assms(3) by (auto simp: get_task_by_id_def)
  then have "t \<in> set (project_tasks src p)" using assms(4) find_row_id [OF r(1)] by (auto simp: project_tasks_def list_tasks_def)
  then have "t \<in> set (project_tasks src' p)" using assms(1) by (simp add: same_project_def)
  then obtain r' where r': "r' \<in> set (rs_tasks src')" "t = task_from_row r'" by (auto simp: project_tasks_def list_tasks_def)
  have "tk_task_id r' = i" using get_task_by_id_id [OF assms(3)] r'(2) by simp
  with find_row_member [OF assms(2) r'(1)] have "find_row (rs_tasks src') i = Some r'" by simp
  then show ?thesis using r'(2) by (simp add: get_task_by_id_def)
qed

lemma evidence_same:
  assumes "cx_project_id ctx = Some p" "same_project p src s src' s'" "distinct (map tk_task_id (rs_tasks src'))"
    and "tool_get_dispatch_denial_evidence env src args ctx s = Inr (ReadOk name data sources)"
  shows "tool_get_dispatch_denial_evidence env src' args ctx s' = Inr (ReadOk name data sources)"
proof -
  let ?i = "arg_text env args ''task_id''"
  from assms(1,4) obtain t where t: "get_task_by_id (rs_tasks src) ?i = Some t" "tk_project_id t = Some p"
    unfolding tool_get_dispatch_denial_evidence_def Let_def by (auto split: if_splits option.splits)
  have "t \<in> set (project_tasks src p)"
    using t find_row_id by (auto simp: get_task_by_id_def project_tasks_def list_tasks_def)
  then have "task_dead_letters src (tk_task_id t) = task_dead_letters src' (tk_task_id t)"
    using assms(2) by (simp add: same_project_def)
  with get_task_same [OF assms(2,3) t] t assms(4) show ?thesis
    unfolding tool_get_dispatch_denial_evidence_def Let_def by (simp split: if_splits)
qed

lemma reply_same:
  assumes "cx_project_id ctx = Some p" "same_project p src s src' s'" "distinct (map tk_task_id (rs_tasks src'))"
    and "py_lower (py_strip tool) \<noteq> ''get_conversation_window''"
    and "read_reply env src tool args ctx s = ReadOk name data sources"
  shows "read_reply env src' tool args ctx s' = ReadOk name data sources"
proof -
  let ?t = "py_lower (py_strip tool)"
  from assms(5) obtain h where h: "map_of read_handlers ?t = Some h" "h env src args ctx s = Inr (ReadOk name data sources)"
    and ok: "?t \<noteq> []" "is_read_tool_allowed (cx_recipient_role ctx) ?t"
    unfolding read_reply_def Let_def by (auto split: if_splits option.splits sum.splits)
  have "h env src' args ctx s' = Inr (ReadOk name data sources)"
    using map_of_SomeD [OF h(1)] assms(4) h(2) scoped_tools_same [OF assms(1,2), of env args]
      evidence_same [OF assms(1-3), of env args name data sources]
    unfolding read_handlers_def by (simp only: set_simps insert_iff empty_iff prod.inject) (elim disjE conjE; simp)
  then show ?thesis using h(1) ok by (simp add: read_reply_def)
qed

lemma answered_project:
  assumes "with_project env args ctx s f = Inr (ReadOk name data sources)"
  obtains i p where "resolve_project_scope env args ctx = Inr i" "get_project (tl_gov s) i = Inr (Some p)" "f p = Inr (ReadOk name data sources)"
proof -
  have scope: "resolve_project_scope env args ctx \<noteq> Inl (ReadOk name data sources)"
    by (simp add: resolve_project_scope_def Let_def)
  with assms that show thesis by (auto simp: with_project_def with_scope_def split: sum.splits option.splits)
qed

lemma reported_data:
  "dict_get (gate_status p) ''ready_for_completion_transition'' = Some (JBool (completion_ready p))"
  "dict_get (lifecycle_state p ts) ''next_transitions'' = Some (JList (map JStr ts))"
  by (simp_all add: gate_status_def lifecycle_state_def dict_get_def)

lemma completion_ready_guard:
  assumes "role \<in> {''ceo'', ''cwo''}"
  shows "completion_ready p = (assert_completion_transition_allowed p role = Inr ())"
proof -
  have "py_lower (py_strip role) \<in> {''ceo'', ''cwo''}" using assms by (elim insertE emptyE; hypsubst; code_simp)
  then show ?thesis
    by (simp add: completion_ready_def missing_roles_def approved_roles_def assert_completion_transition_allowed_def Let_def)
qed

lemma allowed_transitions_guard:
  assumes "allowed_project_status_transitions c = Inr ts"
  shows "t \<in> set ts \<longleftrightarrow> t \<in> set project_status_values \<and> (\<exists>v. assert_project_transition c t = Inr v)"
proof -
  from assms obtain d where d: "parse_project_status c = Inr d" "set ts = {u. project_step d u}"
    by (auto simp: allowed_project_status_transitions_def sum_bind_Inr project_step_def)
  have "project_step d t \<Longrightarrow> t \<in> set project_status_values" using project_step_known by blast
  then show ?thesis using d parse_project_status_id by (auto simp: assert_project_transition_def sum_bind_Inr)
qed

section \<open>Properties\<close>

text \<open>
  C15: what a call in the scope of a project is told is of that project only. An answer with decision \<^verbatim>\<open>ok\<close> of a read tool in a state is
  given, with the same data and sources, in every other state that agrees on the project's record, artifacts, tasks, their audit events
  and dead letters, and search results; other projects have no influence on it. The one tool excepted reads conversation windows. Denials
  are not covered: their codes can depend on other projects' tasks (\<open>denial_reveals_task\<close>).
\<close>

theorem scoped_read_confined:
  assumes "cx_project_id ctx = Some p" "same_project p src s src' s'" "distinct (map tk_task_id (rs_tasks src'))"
    and "py_lower (py_strip tool) \<noteq> ''get_conversation_window''"
    and "fst (call_read_tool env src tool args ctx s) = Inr r" "tx_decision r = ''ok''"
  shows "\<exists>r'. fst (call_read_tool env src' tool args ctx s') = Inr r' \<and> tx_decision r' = ''ok'' \<and> tx_tool_name r' = tx_tool_name r \<and>
    tx_data r' = tx_data r \<and> tx_sources r' = tx_sources r"
proof (cases "read_reply env src tool args ctx s")
  case (ReadOk name data sources)
  from reply_same [OF assms(1-4) this] ReadOk assms(5)
  show ?thesis by (auto simp: call_read_tool_def tool_ok_def tool_answer_def Let_def split: prod.splits)
next
  case (ReadDenied name code m)
  then show ?thesis using assms(5,6) by (auto simp: call_read_tool_def tool_deny_def tool_answer_def Let_def split: prod.splits)
qed

text \<open>
  C37: what the read tools report about a project is what the governance layer enforces. The reported readiness for completion is
  exactly that the guard of the completion transition passes for a CEO or CWO, and the reported next states are exactly the
  states the life-cycle guard lets the project move to.
\<close>

theorem reported_gates_are_enforced:
  assumes "role \<in> {''ceo'', ''cwo''}"
  shows "(tool_get_completion_gate_status env src args ctx s = Inr (ReadOk name data sources) \<longrightarrow>
      (\<exists>i p. resolve_project_scope env args ctx = Inr i \<and> get_project (tl_gov s) i = Inr (Some p) \<and>
         dict_get data ''ready_for_completion_transition'' = Some (JBool (assert_completion_transition_allowed p role = Inr ())))) \<and>
    (tool_get_project_lifecycle_state env src args ctx s = Inr (ReadOk name data sources) \<longrightarrow>
      (\<exists>i p ts. resolve_project_scope env args ctx = Inr i \<and> get_project (tl_gov s) i = Inr (Some p) \<and>
         dict_get data ''next_transitions'' = Some (JList (map JStr ts)) \<and>
         (\<forall>t. t \<in> set ts \<longleftrightarrow> t \<in> set project_status_values \<and> (\<exists>v. assert_project_transition (pj_status p) t = Inr v))))"
proof (intro conjI impI)
  assume "tool_get_completion_gate_status env src args ctx s = Inr (ReadOk name data sources)"
  then have "with_project env args ctx s (\<lambda>p. Inr (ReadOk ''get_completion_gate_status'' (gate_status p) [project_record_source p])) =
      Inr (ReadOk name data sources)" by (simp only: tool_get_completion_gate_status_def)
  then obtain i p where p: "resolve_project_scope env args ctx = Inr i" "get_project (tl_gov s) i = Inr (Some p)" "gate_status p = data"
    by (rule answered_project) blast
  have "dict_get data ''ready_for_completion_transition'' = Some (JBool (assert_completion_transition_allowed p role = Inr ()))"
    unfolding p(3) [symmetric] reported_data completion_ready_guard [OF assms] by (rule refl)
  with p show "\<exists>i p. resolve_project_scope env args ctx = Inr i \<and> get_project (tl_gov s) i = Inr (Some p) \<and>
      dict_get data ''ready_for_completion_transition'' = Some (JBool (assert_completion_transition_allowed p role = Inr ()))" by blast
next
  assume "tool_get_project_lifecycle_state env src args ctx s = Inr (ReadOk name data sources)"
  then have "with_project env args ctx s (\<lambda>p. sum_bind (allowed_project_status_transitions (pj_status p)) (\<lambda>next_states.
      Inr (ReadOk ''get_project_lifecycle_state'' (lifecycle_state p next_states) [project_record_source p]))) = Inr (ReadOk name data sources)"
    by (simp only: tool_get_project_lifecycle_state_def)
  then obtain i p where p: "resolve_project_scope env args ctx = Inr i" "get_project (tl_gov s) i = Inr (Some p)"
    and f: "sum_bind (allowed_project_status_transitions (pj_status p)) (\<lambda>next_states.
      Inr (ReadOk ''get_project_lifecycle_state'' (lifecycle_state p next_states) [project_record_source p])) = Inr (ReadOk name data sources)"
    by (rule answered_project)
  from f obtain ts where ts: "allowed_project_status_transitions (pj_status p) = Inr ts" "lifecycle_state p ts = data"
    unfolding sum_bind_Inr by blast
  from p have "\<forall>t. t \<in> set ts \<longleftrightarrow> t \<in> set project_status_values \<and> (\<exists>v. assert_project_transition (pj_status p) t = Inr v)"
    using allowed_transitions_guard [OF ts(1)] by blast
  moreover have "dict_get data ''next_transitions'' = Some (JList (map JStr ts))" unfolding ts(2) [symmetric] by (rule reported_data)
  ultimately show "\<exists>i p ts. resolve_project_scope env args ctx = Inr i \<and> get_project (tl_gov s) i = Inr (Some p) \<and>
      dict_get data ''next_transitions'' = Some (JList (map JStr ts)) \<and>
      (\<forall>t. t \<in> set ts \<longleftrightarrow> t \<in> set project_status_values \<and> (\<exists>v. assert_project_transition (pj_status p) t = Inr v))"
    using p by blast
qed

text \<open>The exception: the tool for conversation windows consults neither the project of the command nor the projects.\<close>

lemma conversation_window_unscoped:
  "tool_get_conversation_window env src args ctx s = tool_get_conversation_window env src args ctx' s'"
  by (simp add: tool_get_conversation_window_def)

text \<open>A denial tells whether a task of another project exists.\<close>

lemma denial_reveals_task:
  assumes "arg_text env args ''task_id'' = i" "i \<noteq> []" "cx_project_id ctx = Some p"
  shows "tool_get_dispatch_denial_evidence env src args ctx s =
      Inr (ReadDenied ''get_dispatch_denial_evidence'' ''tool_project_scope_mismatch'' ''task is outside project scope'') \<longleftrightarrow>
    (\<exists>t. get_task_by_id (rs_tasks src) i = Some t \<and> tk_project_id t \<noteq> Some p)"
  using assms unfolding tool_get_dispatch_denial_evidence_def Let_def by (auto simp: denial_evidence_def split: option.split)

section \<open>Witnesses\<close>

definition demo_read_task :: "string \<Rightarrow> string \<Rightarrow> task_record" where
  "demo_read_task i p = (new_task demo_envelope i 0)\<lparr>tk_project_id := Some p\<rparr>"

definition demo_sources :: "task_repo \<Rightarrow> read_sources" where
  "demo_sources tasks = \<lparr>rs_tasks = tasks, rs_events = None, rs_dead_letters = None, rs_conversation = None, rs_search = local_search\<rparr>"

abbreviation both_projects :: read_sources where
  "both_projects \<equiv> demo_sources [demo_read_task ''t-1'' ''p-1'', demo_read_task ''t-2'' ''p-2'']"

abbreviation one_project :: read_sources where
  "one_project \<equiv> demo_sources [demo_read_task ''t-1'' ''p-1'']"

theorem scoped_read_confined_witness:
  "\<exists>r r'. fst (call_read_tool demo_tool_env both_projects ''get_project_task_board'' [] (demo_tool_context ''ceo'') demo_tools) = Inr r \<and>
     fst (call_read_tool demo_tool_env one_project ''get_project_task_board'' [] (demo_tool_context ''ceo'') demo_tools) = Inr r' \<and>
     tx_decision r = ''ok'' \<and> tx_data r' = tx_data r \<and> tx_sources r' = tx_sources r"
proof -
  have "(case fst (call_read_tool demo_tool_env both_projects ''get_project_task_board'' [] (demo_tool_context ''ceo'') demo_tools) of
      Inl _ \<Rightarrow> False | Inr r \<Rightarrow> tx_decision r = ''ok'')" by code_simp
  then obtain r where r: "fst (call_read_tool demo_tool_env both_projects ''get_project_task_board'' [] (demo_tool_context ''ceo'') demo_tools) = Inr r"
    "tx_decision r = ''ok''" by (auto split: sum.splits)
  have same: "same_project ''p-1'' both_projects demo_tools one_project demo_tools"
    by (simp add: same_project_def demo_sources_def project_tasks_def project_events_def task_dead_letters_def list_tasks_def task_from_row_def
        demo_read_task_def new_task_def nonempty_opt_def)
  have tool: "py_lower (py_strip ''get_project_task_board'') \<noteq> ''get_conversation_window''" by code_simp
  have ctx: "cx_project_id (demo_tool_context ''ceo'') = Some ''p-1''" by (simp add: demo_tool_context_def)
  have "distinct (map tk_task_id (rs_tasks one_project))" by (simp add: demo_sources_def)
  from scoped_read_confined [OF ctx same this tool r] r show ?thesis by blast
qed

theorem reported_gates_are_enforced_witness:
  "\<exists>name data sources p. tool_get_completion_gate_status demo_tool_env one_project [] (demo_tool_context ''ceo'') demo_tools =
       Inr (ReadOk name data sources) \<and>
     dict_get data ''ready_for_completion_transition'' = Some (JBool (assert_completion_transition_allowed p ''ceo'' = Inr ()))"
proof -
  have "(case tool_get_completion_gate_status demo_tool_env one_project [] (demo_tool_context ''ceo'') demo_tools of
      Inr (ReadOk _ _ _) \<Rightarrow> True | _ \<Rightarrow> False)" by code_simp
  then obtain name data sources where ok: "tool_get_completion_gate_status demo_tool_env one_project [] (demo_tool_context ''ceo'') demo_tools =
      Inr (ReadOk name data sources)" by (auto split: sum.splits read_answer.splits)
  have "''ceo'' \<in> {''ceo'', ''cwo''}" by simp
  from reported_gates_are_enforced [OF this, of demo_tool_env one_project "[]" "demo_tool_context ''ceo''" demo_tools name data sources] ok
  show ?thesis by blast
qed

end
