(* ===== verification/Callbacks.thy ===== *)
theory Callbacks
  imports Task_State Audit_Trail
begin

text \<open>
  Delivery callbacks: what the orchestrator does with delivery events that arrive after a dispatch, at least once each.
  \<^item> \<^verbatim>\<open>task_orchestrator/callbacks/delivery_events.py\<close>: \<open>process_callback\<close>;
  \<^item> \<^verbatim>\<open>communication_gateway/callbacks/outcome_notifier.py\<close>: \<open>notify_delivery_outcome\<close>, which names each event.

  The state is the task repository, the audit trail and the set of processed callback identifiers, which lives in the
  process. Metrics are left out.
\<close>

section \<open>Events and results\<close>

datatype delivery_outcome = Delivered | Nacked | DeadLettered

fun outcome_value :: "delivery_outcome \<Rightarrow> string" where
  "outcome_value Delivered = ''delivered''"
| "outcome_value Nacked = ''nacked''"
| "outcome_value DeadLettered = ''dead_lettered''"

record callback_event =
  dv_callback_id :: string
  dv_task_id :: string
  dv_trace_id :: string
  dv_dispatch_target :: string
  dv_delivery_outcome :: delivery_outcome
  dv_message :: string
  dv_reason_code :: "string option"
  dv_dispatch_id :: "string option"
  dv_dead_letter_id :: "string option"

record callback_result =
  cb_applied :: bool
  cb_replayed :: bool
  cb_task_status :: string
  cb_message :: string
  cb_reason_code :: "string option"

record callback_state =
  cs_tasks :: task_repo
  cs_audit :: audit_log
  cs_processed :: "string set"

definition immutable_task_statuses :: "string list" where
  "immutable_task_statuses = [''completed'', ''failed'', ''cancelled'']"

section \<open>Processing\<close>

fun target_status :: "delivery_outcome \<Rightarrow> string" where
  "target_status Delivered = ''dispatched''"
| "target_status Nacked = ''blocked''"
| "target_status DeadLettered = ''blocked''"

definition callback_update :: "task_record \<Rightarrow> callback_event \<Rightarrow> kvs \<Rightarrow> status_update" where
  "callback_update t e details =
     (let u = no_update\<lparr>up_outcome_message := Some (dv_message e), up_outcome_details := Some details,
                up_dispatch_target := Some (dv_dispatch_target e)\<rparr>
      in case dv_delivery_outcome e of
           Delivered \<Rightarrow> u\<lparr>up_outcome_source := Some ''callback_communication_delivery'',
             up_dispatch_id := (if truthy (dv_dispatch_id e) then dv_dispatch_id e else tk_dispatch_id t)\<rparr>
         | DeadLettered \<Rightarrow> u\<lparr>up_outcome_source := Some ''callback_communication_dead_letter'',
             up_outcome_error_code := Some (or_str (dv_reason_code e) ''communication_dead_lettered'')\<rparr>
         | Nacked \<Rightarrow> u\<lparr>up_outcome_source := Some ''callback_communication_nack'',
             up_outcome_error_code := Some (or_str (dv_reason_code e) ''communication_callback_nack'')\<rparr>)"

definition apply_task_update :: "task_record \<Rightarrow> callback_event \<Rightarrow> kvs \<Rightarrow> task_repo \<Rightarrow> (py_exn, task_record, task_repo) run" where
  "apply_task_update t e details repo =
     and_then (update_task_status repo (tk_task_id t) (target_status (dv_delivery_outcome e)) (callback_update t e details)) (\<lambda>updated repo1.
       case updated of None \<Rightarrow> (Inl (RuntimeErr (''callback update failed for task '' @ tk_task_id t)), repo1) | Some u \<Rightarrow> (Inr u, repo1))"

definition outcome_details :: "task_record \<Rightarrow> callback_event \<Rightarrow> kvs" where
  "outcome_details t e =
     [(''callback_id'', dv_callback_id e), (''delivery_outcome'', outcome_value (dv_delivery_outcome e)),
      (''dispatch_target'', dv_dispatch_target e), (''dispatch_id'', or_str (dv_dispatch_id e) (or_str (tk_dispatch_id t) [])),
      (''dead_letter_id'', or_str (dv_dead_letter_id e) []), (''reason_code'', or_str (dv_reason_code e) []), (''replayed'', ''false'')]"

text \<open>The audit event of a processed callback, then its result.\<close>

definition audit_callback ::
  "(nat \<Rightarrow> py_exn option) \<Rightarrow> callback_event \<Rightarrow> task_record \<Rightarrow> string \<Rightarrow> string \<Rightarrow> string option \<Rightarrow> string \<Rightarrow> payload \<Rightarrow> callback_result \<Rightarrow>
   callback_state \<Rightarrow> (py_exn, callback_result, callback_state) run" where
  "audit_callback fault e t event_type outcome reason_code message payload result st =
     (case write_event fault
             \<lparr>aw_event_type = event_type, aw_outcome = outcome, aw_trace_id = dv_trace_id e, aw_request_id = Some (tk_request_id t),
              aw_task_id = Some (tk_task_id t), aw_principal_id = Some (tk_principal_id t), aw_principal_role = Some (tk_principal_role t),
              aw_source = ''communication_callback'', aw_reason_code = reason_code, aw_message = message, aw_rule_ids = [],
              aw_payload = payload\<rparr> (cs_audit st) of
        (Inl x, lg) \<Rightarrow> (Inl x, st\<lparr>cs_audit := lg\<rparr>)
      | (Inr _, lg) \<Rightarrow> (Inr result, st\<lparr>cs_audit := lg\<rparr>))"

definition process_callback ::
  "(nat \<Rightarrow> py_exn option) \<Rightarrow> callback_event \<Rightarrow> callback_state \<Rightarrow> (py_exn, callback_result, callback_state) run" where
  "process_callback fault e st =
     (if dv_callback_id e \<in> cs_processed st
      then (Inr \<lparr>cb_applied = False, cb_replayed = True, cb_task_status = ''unchanged'', cb_message = ''callback event already processed'',
                 cb_reason_code = dv_reason_code e\<rparr>, st)
      else case get_task_by_id (cs_tasks st) (dv_task_id e) of
        None \<Rightarrow> (Inr \<lparr>cb_applied = False, cb_replayed = False, cb_task_status = ''missing'', cb_message = ''callback task not found'',
                      cb_reason_code = Some ''callback_task_not_found''\<rparr>, st)
      | Some t \<Rightarrow>
          if tk_status t \<in> set immutable_task_statuses
          then audit_callback fault e t ''communication.callback.ignored_terminal'' ''ignored_terminal'' (Some ''callback_task_terminal_immutable'')
                 ''callback ignored because task is already terminal''
                 [(''callback_id'', Some (dv_callback_id e)), (''delivery_outcome'', Some (outcome_value (dv_delivery_outcome e))),
                  (''current_status'', Some (tk_status t))]
                 \<lparr>cb_applied = False, cb_replayed = False, cb_task_status = tk_status t, cb_message = ''callback ignored for terminal task state'',
                  cb_reason_code = Some ''callback_task_terminal_immutable''\<rparr>
                 (st\<lparr>cs_processed := insert (dv_callback_id e) (cs_processed st)\<rparr>)
          else case apply_task_update t e (outcome_details t e) (cs_tasks st) of
            (Inl x, repo) \<Rightarrow> (Inl x, st\<lparr>cs_tasks := repo\<rparr>)
          | (Inr u, repo) \<Rightarrow>
              audit_callback fault e u (''communication.callback.'' @ outcome_value (dv_delivery_outcome e)) (outcome_value (dv_delivery_outcome e))
                (dv_reason_code e) (dv_message e) (map (\<lambda>(k, v). (k, Some v)) (outcome_details t e))
                \<lparr>cb_applied = True, cb_replayed = False, cb_task_status = tk_status u, cb_message = dv_message e, cb_reason_code = dv_reason_code e\<rparr>
                (st\<lparr>cs_tasks := repo, cs_processed := insert (dv_callback_id e) (cs_processed st)\<rparr>))"

section \<open>The notifier\<close>

record outcome_notification =
  nf_task_id :: string
  nf_trace_id :: string
  nf_dispatch_target :: string
  nf_delivery_outcome :: delivery_outcome
  nf_message :: string
  nf_callback_id :: "string option"
  nf_reason_code :: "string option"
  nf_dispatch_id :: "string option"
  nf_dead_letter_id :: "string option"

text \<open>The argument \<open>u\<close> is the identifier that \<^verbatim>\<open>uuid4\<close> gives where the notification has no suffix of its own.\<close>

definition deterministic_callback_id :: "string \<Rightarrow> outcome_notification \<Rightarrow> string" where
  "deterministic_callback_id u n =
     (let suffix = or_str (nf_dead_letter_id n) (or_str (nf_dispatch_id n) (or_str (nf_reason_code n) []))
      in ''cb:'' @ nf_task_id n @ '':'' @ outcome_value (nf_delivery_outcome n) @ '':'' @ (if suffix \<noteq> [] then suffix else u))"

definition event_of :: "string \<Rightarrow> outcome_notification \<Rightarrow> callback_event" where
  "event_of u n = \<lparr>dv_callback_id = or_str (nf_callback_id n) (deterministic_callback_id u n), dv_task_id = nf_task_id n,
     dv_trace_id = nf_trace_id n, dv_dispatch_target = nf_dispatch_target n, dv_delivery_outcome = nf_delivery_outcome n,
     dv_message = nf_message n, dv_reason_code = nf_reason_code n, dv_dispatch_id = nf_dispatch_id n, dv_dead_letter_id = nf_dead_letter_id n\<rparr>"

definition notify_delivery_outcome ::
  "(nat \<Rightarrow> py_exn option) \<Rightarrow> string \<Rightarrow> outcome_notification \<Rightarrow> callback_state \<Rightarrow> (py_exn, callback_result, callback_state) run" where
  "notify_delivery_outcome fault u n = process_callback fault (event_of u n)"

section \<open>Histories\<close>

fun process_all :: "(nat \<Rightarrow> py_exn option) \<Rightarrow> callback_event list \<Rightarrow> callback_state \<Rightarrow> callback_state" where
  "process_all fault [] st = st"
| "process_all fault (e # es) st = process_all fault es (snd (process_callback fault e st))"

text \<open>The callbacks of a history that changed the tasks, in order.\<close>

fun changing_callbacks :: "(nat \<Rightarrow> py_exn option) \<Rightarrow> callback_event list \<Rightarrow> callback_state \<Rightarrow> string list" where
  "changing_callbacks fault [] st = []"
| "changing_callbacks fault (e # es) st =
     (let st' = snd (process_callback fault e st)
      in (if cs_tasks st' = cs_tasks st then [] else [dv_callback_id e]) @ changing_callbacks fault es st')"

lemma audit_callback_frame [simp]:
  "cs_tasks (snd (audit_callback fault e t ev o' r m p res st)) = cs_tasks st"
  "cs_processed (snd (audit_callback fault e t ev o' r m p res st)) = cs_processed st"
  by (simp_all add: audit_callback_def split: prod.split sum.split)

lemma apply_update_raised: "apply_task_update t e d repo = (Inl x, repo') \<Longrightarrow> repo' = repo"
  by (auto simp: apply_task_update_def update_task_status_eq split: option.splits if_splits)

text \<open>A call keeps the processed identifiers; when it changes the tasks its identifier is new and processed afterwards.\<close>

lemma process_step:
  "cs_processed st \<subseteq> cs_processed (snd (process_callback fault e st))"
  "cs_tasks (snd (process_callback fault e st)) \<noteq> cs_tasks st \<Longrightarrow>
     dv_callback_id e \<notin> cs_processed st \<and> dv_callback_id e \<in> cs_processed (snd (process_callback fault e st))"
  by (auto simp: process_callback_def dest: apply_update_raised split: option.splits prod.splits sum.splits if_splits)

lemma changing_unprocessed: "c \<in> set (changing_callbacks fault es st) \<Longrightarrow> c \<notin> cs_processed st"
proof (induction fault es st rule: changing_callbacks.induct)
  case (2 fault e es st)
  then show ?case using process_step [where fault = fault and e = e and st = st] by (auto simp: Let_def split: if_splits)
qed simp

lemma process_repo_step: "repo_step\<^sup>=\<^sup>= (cs_tasks st) (cs_tasks (snd (process_callback fault e st)))"
proof -
  have "repo_step\<^sup>=\<^sup>= repo repo'" if "apply_task_update t e d repo = (r, repo')" for t d r repo repo'
  proof -
    obtain q repo1 where "update_task_status repo (tk_task_id t) (target_status (dv_delivery_outcome e)) (callback_update t e d) = (q, repo1)"
      by fastforce
    then show ?thesis using that repo_step.update by (auto simp: apply_task_update_def and_then_def split: sum.splits option.splits)
  qed
  then show ?thesis by (auto simp: process_callback_def split: option.split prod.split sum.split)
qed

lemma process_all_repo: "repo_step\<^sup>*\<^sup>* (cs_tasks st) (cs_tasks (process_all fault es st))"
proof (induction fault es st rule: process_all.induct)
  case (2 fault e es st)
  then show ?case using process_repo_step [of st fault e] by (auto intro: converse_rtranclp_into_rtranclp)
qed simp

section \<open>Properties\<close>

text \<open>
  C18: callbacks arrive at least once and act at most once. In any history of delivery events, with any failures of the audit trail,
  no callback identifier changes the tasks twice.
\<close>

theorem callback_acts_once: "distinct (changing_callbacks fault es st)"
proof (induction fault es st rule: changing_callbacks.induct)
  case (2 fault e es st)
  then show ?case
    using process_step(2) [of fault e st] changing_unprocessed [of "dv_callback_id e" fault es "snd (process_callback fault e st)"]
    by (auto simp: Let_def)
qed simp

text \<open>
  What a new callback does. For a stored task that is not terminal, the task takes the status of the delivery outcome
  (dispatched or blocked) if the life cycle allows it, nothing else changes its status, the callback counts as processed and one
  audit row names the task; otherwise the call raises and changes nothing, so the callback stays unprocessed.
\<close>

theorem callback_outcome:
  assumes "dv_callback_id e \<notin> cs_processed st" "status_of (cs_tasks st) (dv_task_id e) = Some s" "\<not> terminal_task_status s"
    and "fault (lg_attempts (cs_audit st)) = None"
  shows "let target = target_status (dv_delivery_outcome e) in
    if s = target \<or> task_step s target
    then \<exists>r st' row. process_callback fault e st = (Inr r, st') \<and> cb_applied r \<and> cb_task_status r = target \<and>
      status_of (cs_tasks st') = (status_of (cs_tasks st))(dv_task_id e \<mapsto> target) \<and>
      cs_processed st' = insert (dv_callback_id e) (cs_processed st) \<and>
      lg_rows (cs_audit st') = lg_rows (cs_audit st) @ [row] \<and> au_task_id row = Some (dv_task_id e)
    else process_callback fault e st = (Inl (InvalidStateTransitionError s target), st)"
proof -
  let ?target = "target_status (dv_delivery_outcome e)"
  obtain t where t: "get_task_by_id (cs_tasks st) (dv_task_id e) = Some t" "tk_status t = s" "tk_task_id t = dv_task_id e"
    using assms(2) get_task_by_id_id by (fastforce simp: status_of_def)
  have live: "tk_status t \<notin> set immutable_task_statuses" using assms(3) t(2) by (simp add: terminal_task_status_def immutable_task_statuses_def)
  define u where "u = callback_update t e (outcome_details t e)"
  show ?thesis
  proof (cases "may_move s ?target")
    case True
    define repo where "repo = snd (update_task_status (cs_tasks st) (dv_task_id e) ?target u)"
    from update_result [OF assms(2) True, of u] obtain v where v: "update_task_status (cs_tasks st) (dv_task_id e) ?target u = (Inr (Some v), repo)"
      "tk_status v = ?target" "get_task_by_id repo (dv_task_id e) = Some v" unfolding repo_def by (metis prod.collapse)
    have statuses: "status_of repo = (status_of (cs_tasks st))(dv_task_id e \<mapsto> ?target)"
      using status_of_update [of "cs_tasks st" "dv_task_id e" ?target u] True assms(2) unfolding repo_def [symmetric] by (simp add: abs_update_def)
    have "apply_task_update t e (outcome_details t e) (cs_tasks st) = (Inr v, repo)"
      using v(1) by (simp add: apply_task_update_def t(3) u_def)
    moreover have "tk_task_id v = dv_task_id e" using get_task_by_id_id [OF v(3)] .
    ultimately show ?thesis
      using assms(1,4) t live v(2) statuses True by (auto simp: process_callback_def audit_callback_def write_event_def may_move_def Let_def)
  next
    case False
    from update_illegal [OF assms(2) this, of u]
    have "apply_task_update t e (outcome_details t e) (cs_tasks st) = (Inl (InvalidStateTransitionError s ?target), cs_tasks st)"
      by (simp add: apply_task_update_def t(3) u_def)
    then show ?thesis using assms(1) t live False by (simp add: process_callback_def may_move_def Let_def)
  qed
qed

text \<open>A delivery reported after the task has started to run raises, at every attempt.\<close>

lemma late_delivery_raises:
  assumes "dv_callback_id e \<notin> cs_processed st" "status_of (cs_tasks st) (dv_task_id e) = Some ''running''" "dv_delivery_outcome e = Delivered"
  shows "process_callback fault e st = (Inl (InvalidStateTransitionError ''running'' ''dispatched''), st)"
proof -
  obtain t where t: "get_task_by_id (cs_tasks st) (dv_task_id e) = Some t" "tk_status t = ''running''" "tk_task_id t = dv_task_id e"
    using assms(2) get_task_by_id_id by (fastforce simp: status_of_def)
  have "\<not> may_move ''running'' ''dispatched''" by code_simp
  from update_illegal [OF assms(2) this] t assms show ?thesis
    by (simp add: process_callback_def immutable_task_statuses_def apply_task_update_def)
qed

text \<open>
  Without a dead letter and a dispatch identifier the reason code names the callback: a second refusal of the same task for the
  same reason, after a delivery in between, is taken for a repetition.
\<close>

lemma second_nack_dropped:
  assumes "nf_callback_id n = None" "nf_callback_id n' = None" "nf_dead_letter_id n = None" "nf_dead_letter_id n' = None"
    "nf_dispatch_id n = None" "nf_dispatch_id n' = None" "nf_reason_code n = Some reason" "nf_reason_code n' = Some reason" "reason \<noteq> []"
    "nf_task_id n' = nf_task_id n" "nf_delivery_outcome n' = nf_delivery_outcome n"
    and "notify_delivery_outcome fault u n st = (Inr r, st1)" "cb_task_status r \<noteq> ''missing''" "cs_processed st1 \<subseteq> cs_processed st2"
  shows "snd (notify_delivery_outcome fault u' n' st2) = st2"
proof -
  have same: "dv_callback_id (event_of u' n') = dv_callback_id (event_of u n)"
    using assms(1-11) by (simp add: event_of_def deterministic_callback_id_def truthy_def)
  have "dv_callback_id (event_of u n) \<in> cs_processed st1"
    using assms(12,13) unfolding notify_delivery_outcome_def
    by (auto simp: process_callback_def audit_callback_def split: if_splits option.splits prod.splits sum.splits)
  then show ?thesis using same assms(14) by (auto simp: notify_delivery_outcome_def process_callback_def)
qed

section \<open>Witnesses\<close>

definition demo_callback :: "string \<Rightarrow> delivery_outcome \<Rightarrow> callback_event" where
  "demo_callback i out = \<lparr>dv_callback_id = i, dv_task_id = ''t-1'', dv_trace_id = ''tr'', dv_dispatch_target = ''communication'',
     dv_delivery_outcome = out, dv_message = ''m'', dv_reason_code = None, dv_dispatch_id = Some ''d-1'', dv_dead_letter_id = None\<rparr>"

definition demo_callback_state :: callback_state where
  "demo_callback_state = \<lparr>cs_tasks = demo_repo ''blocked'', cs_audit = \<lparr>lg_rows = [], lg_attempts = 0\<rparr>, cs_processed = {}\<rparr>"

theorem callback_outcome_witness:
  "\<exists>r st'. process_callback (\<lambda>_. None) (demo_callback ''cb-1'' Delivered) demo_callback_state = (Inr r, st') \<and> cb_applied r \<and>
     status_of (cs_tasks st') ''t-1'' = Some ''dispatched''"
proof -
  have s: "status_of (cs_tasks demo_callback_state) (dv_task_id (demo_callback ''cb-1'' Delivered)) = Some ''blocked''" by code_simp
  have "\<not> terminal_task_status ''blocked''" "task_step ''blocked'' ''dispatched''" by code_simp+
  with callback_outcome [of "demo_callback ''cb-1'' Delivered" demo_callback_state "''blocked''" "\<lambda>_. None", OF _ s] show ?thesis
    by (auto simp: demo_callback_state_def demo_callback_def Let_def)
qed

end
