(* ===== verification/Identity.thy ===== *)
theory Identity
  imports Admission Project_Governance
begin

text \<open>
  Who may speak to the control plane.
  \<^item> \<^verbatim>\<open>data_access/repositories/identity_channels.py\<close>, \<^verbatim>\<open>postgres/identity_repository.py\<close>: the directory of identities;
  \<^item> \<^verbatim>\<open>control_plane/identity/principal_resolver.py\<close>: from headers to a principal;
  \<^item> \<^verbatim>\<open>control_plane/identity/connector_security.py\<close>: the connector's signature;
  \<^item> \<^verbatim>\<open>control_plane/identity/discord_governance.py\<close>: membership of chat classes and the state of project channels.

  HMAC-SHA-256 is a parameter. A query that takes the newest of several rows takes the first inserted of equally new ones.
\<close>

section \<open>The directory of identities\<close>

record identity_mapping =
  im_mapping_id :: string
  im_connector :: string
  im_actor_external_id :: string
  im_guild_id :: string
  im_channel_id :: string
  im_channel_type :: string
  im_status :: string
  im_created_at :: time
  im_updated_at :: time
  im_principal_role :: string

record directory =
  dr_mappings :: "identity_mapping list"
  dr_runtime :: py_runtime

type_synonym mapping_key = "string \<times> string \<times> string \<times> string \<times> string"

definition normalize_key :: "mapping_key \<Rightarrow> py_exn + mapping_key" where
  "normalize_key k = (case k of (connector, actor, guild, channel, channel_type) \<Rightarrow>
     let c = py_lower (py_strip connector); a = py_strip actor; g = py_strip guild; h = py_strip channel; t = py_lower (py_strip channel_type)
     in if [] \<in> {c, a, g, h, t}
        then Inl (CodedError ''identity_channel_mapping_invalid'' ''connector identity/channel mapping key fields must be non-empty'')
        else Inr (c, a, g, h, t))"

definition row_key :: "identity_mapping \<Rightarrow> mapping_key" where
  "row_key r = (im_connector r, im_actor_external_id r, im_guild_id r, im_channel_id r, im_channel_type r)"

definition mapping_from_row :: "identity_mapping \<Rightarrow> identity_mapping" where
  "mapping_from_row r = r\<lparr>im_status := py_lower (py_strip (im_status r))\<rparr>"

definition find_mapping :: "identity_mapping list \<Rightarrow> mapping_key \<Rightarrow> identity_mapping option" where
  "find_mapping rows k = map_option mapping_from_row (find (\<lambda>r. row_key r = k) rows)"

definition get_mapping :: "directory \<Rightarrow> mapping_key \<Rightarrow> py_exn + identity_mapping option" where
  "get_mapping d k = sum_bind (normalize_key k) (\<lambda>k'. Inr (find_mapping (dr_mappings d) k'))"

text \<open>\<^verbatim>\<open>INSERT ... ON CONFLICT (the five columns) DO NOTHING\<close>.\<close>

definition insert_mapping :: "identity_mapping \<Rightarrow> identity_mapping list \<Rightarrow> identity_mapping list" where
  "insert_mapping r rows = (if list_ex (\<lambda>q. row_key q = row_key r) rows then rows else rows @ [r])"

definition new_mapping :: "mapping_key \<Rightarrow> string \<Rightarrow> time \<Rightarrow> string \<Rightarrow> identity_mapping" where
  "new_mapping k mapping_id now principal_role = (case k of (c, a, g, h, t) \<Rightarrow>
     \<lparr>im_mapping_id = mapping_id, im_connector = c, im_actor_external_id = a, im_guild_id = g, im_channel_id = h,
      im_channel_type = t, im_status = ''pending'', im_created_at = now, im_updated_at = now, im_principal_role = principal_role\<rparr>)"

definition claim_mapping :: "mapping_key \<Rightarrow> string \<Rightarrow> directory \<Rightarrow> (py_exn, identity_mapping, directory) run" where
  "claim_mapping k principal_role d =
     (case normalize_key k of
        Inl e \<Rightarrow> (Inl e, d)
      | Inr k' \<Rightarrow>
          (case get_mapping d k' of
             Inl e \<Rightarrow> (Inl e, d)
           | Inr (Some m) \<Rightarrow> (Inr m, d)
           | Inr None \<Rightarrow>
               (let (now, rt1) = now_utc (dr_runtime d); (i, rt2) = uuid4 rt1;
                    record = new_mapping k' i now principal_role;
                    d' = d\<lparr>dr_mappings := insert_mapping record (dr_mappings d), dr_runtime := rt2\<rparr>
                in case get_mapping d' k' of
                     Inl e \<Rightarrow> (Inl e, d')
                   | Inr m \<Rightarrow> (Inr (case m of Some q \<Rightarrow> q | None \<Rightarrow> record), d'))))"

definition set_mapping_status :: "mapping_key \<Rightarrow> string \<Rightarrow> directory \<Rightarrow> (py_exn, identity_mapping, directory) run" where
  "set_mapping_status k status d =
     (case normalize_key k of
        Inl e \<Rightarrow> (Inl e, d)
      | Inr k' \<Rightarrow>
          (case get_mapping d k' of
             Inl e \<Rightarrow> (Inl e, d)
           | Inr None \<Rightarrow> (Inl (CodedError ''identity_channel_mapping_missing'' ''identity channel mapping not found for status update''), d)
           | Inr (Some _) \<Rightarrow>
               (let (now, rt) = now_utc (dr_runtime d);
                    d' = d\<lparr>dr_runtime := rt, dr_mappings :=
                      map (\<lambda>r. if row_key r = k' then r\<lparr>im_status := status, im_updated_at := now\<rparr> else r) (dr_mappings d)\<rparr>
                in case get_mapping d' k' of
                     Inl e \<Rightarrow> (Inl e, d')
                   | Inr None \<Rightarrow> (Inl (CodedError ''identity_channel_mapping_missing'' ''identity channel mapping record not found after update''), d')
                   | Inr (Some m) \<Rightarrow> (Inr m, d'))))"

definition list_mappings :: "directory \<Rightarrow> identity_mapping list" where
  "list_mappings d = map mapping_from_row (sort_key im_created_at (dr_mappings d))"

definition get_by_connector_actor :: "identity_mapping list \<Rightarrow> string \<Rightarrow> string \<Rightarrow> identity_mapping option" where
  "get_by_connector_actor rows connector actor =
     (case sort_key (\<lambda>r. - im_updated_at r) (filter (\<lambda>r. im_connector r = py_lower (py_strip connector) \<and>
             im_actor_external_id r = py_strip actor \<and> im_status r = ''verified'') rows) of
        [] \<Rightarrow> None | r # _ \<Rightarrow> Some (mapping_from_row r))"

section \<open>Principals\<close>

definition optional_header :: "kvs \<Rightarrow> string \<Rightarrow> string option" where
  "optional_header headers name = (case dict_get headers name of None \<Rightarrow> None | Some v \<Rightarrow> or_none (py_strip v))"

text \<open>
  The repository argument of \<^verbatim>\<open>resolve_principal\<close>: none, one without a database session (its lookup), or the
  PostgreSQL directory.
\<close>

datatype identity_source =
  NoDirectory
| InMemoryDirectory "string \<Rightarrow> string \<Rightarrow> identity_mapping option"
| PersistentDirectory "identity_mapping list"

definition header_role :: "kvs \<Rightarrow> string" where
  "header_role headers = or_str (optional_header headers ''x-openqilin-actor-role'') ''owner''"

definition resolve_role :: "kvs \<Rightarrow> identity_source \<Rightarrow> string \<Rightarrow> string \<Rightarrow> coded_error + string" where
  "resolve_role headers source connector actor =
     (if connector = ''internal'' then Inr (header_role headers)
      else case source of
        NoDirectory \<Rightarrow> Inr (header_role headers)
      | InMemoryDirectory look \<Rightarrow>
          Inr (case look connector actor of None \<Rightarrow> header_role headers | Some m \<Rightarrow> or_str (Some (im_principal_role m)) ''owner'')
      | PersistentDirectory rows \<Rightarrow>
          (case get_by_connector_actor rows connector actor of
             None \<Rightarrow> Inl (''principal_identity_unverified'', ''actor identity is not verified; access denied'')
           | Some m \<Rightarrow>
               if im_status m \<noteq> ''verified'' then Inl (''principal_identity_unverified'', ''actor identity is not verified; access denied'')
               else Inr (or_str (Some (im_principal_role m)) ''owner'')))"

definition resolve_principal :: "kvs \<Rightarrow> identity_source \<Rightarrow> coded_error + principal" where
  "resolve_principal headers source =
     (case or_opt (optional_header headers ''x-external-channel'') (optional_header headers ''x-openqilin-connector'') of
        None \<Rightarrow> Inl (''principal_missing_header'', ''missing required header: x-external-channel'')
      | Some connector \<Rightarrow>
          if connector \<notin> {''discord'', ''internal''} then Inl (''principal_invalid_connector'', ''unsupported connector: '' @ connector)
          else case or_opt (optional_header headers ''x-openqilin-actor-external-id'')
                 (or_opt (optional_header headers ''x-external-actor-id'') (optional_header headers ''x-openqilin-user-id'')) of
            None \<Rightarrow> Inl (''principal_missing_header'',
                       ''missing required header: x-openqilin-actor-external-id (or x-external-actor-id)'')
          | Some actor \<Rightarrow>
              sum_bind (resolve_role headers source connector actor) (\<lambda>role.
                Inr \<lparr>pr_principal_id = actor, pr_connector = connector, pr_principal_role = role,
                     pr_trust_domain = (if connector = ''internal'' then ''internal'' else ''external_verified'')\<rparr>))"

section \<open>The connector's signature\<close>

record connector_auth =
  ca_channel :: string
  ca_actor_external_id :: string
  ca_idempotency_key :: string
  ca_raw_payload_hash :: string

definition normalize_signature :: "string \<Rightarrow> string" where
  "normalize_signature signature =
     (let s = py_strip signature in if py_startswith s ''sha256='' then py_strip (drop 7 s) else s)"

text \<open>\<^verbatim>\<open>hmac.compare_digest\<close> raises \<^verbatim>\<open>TypeError\<close> on a string that is not ASCII; the digest is hexadecimal.\<close>

definition is_ascii :: "string \<Rightarrow> bool" where
  "is_ascii s = list_all (\<lambda>c. (of_char c :: nat) < 128) s"

definition compare_digest :: "string \<Rightarrow> string \<Rightarrow> py_exn + bool" where
  "compare_digest a b =
     (if is_ascii a \<and> is_ascii b then Inr (a = b) else Inl (OtherExn ''comparing strings with non-ASCII characters is not supported''))"

definition header_differs :: "string option \<Rightarrow> string \<Rightarrow> bool" where
  "header_differs header value = (case header of None \<Rightarrow> False | Some h \<Rightarrow> py_strip h \<noteq> value)"

definition validate_connector_auth ::
  "(string \<Rightarrow> string \<Rightarrow> string) \<Rightarrow> string \<Rightarrow> string option \<Rightarrow> string option \<Rightarrow> string option \<Rightarrow> string option \<Rightarrow>
   string \<Rightarrow> string \<Rightarrow> string \<Rightarrow> string \<Rightarrow> py_exn + connector_auth" where
  "validate_connector_auth hmac secret header_channel header_actor header_key header_signature channel actor key raw_hash =
     (case header_signature of
        None \<Rightarrow> Inl (CodedError ''connector_signature_missing'' ''missing required header: x-openqilin-signature'')
      | Some signature \<Rightarrow>
          if py_strip signature = [] then Inl (CodedError ''connector_signature_missing'' ''missing required header: x-openqilin-signature'')
          else if header_differs header_channel channel
          then Inl (CodedError ''connector_channel_mismatch'' ''connector channel header does not match payload connector channel'')
          else if header_differs header_actor actor
          then Inl (CodedError ''connector_actor_mismatch'' ''connector actor header does not match payload actor_external_id'')
          else if header_differs header_key key
          then Inl (CodedError ''idempotency_key_mismatch'' ''idempotency key header does not match payload connector metadata'')
          else sum_bind (compare_digest (normalize_signature signature) (hmac secret raw_hash)) (\<lambda>same.
            if same then Inr \<lparr>ca_channel = channel, ca_actor_external_id = actor, ca_idempotency_key = key, ca_raw_payload_hash = raw_hash\<rparr>
            else Inl (CodedError ''connector_signature_invalid'' ''connector signature validation failed'')))"

section \<open>Chat governance\<close>

definition pending_role_flags :: "string list" where
  "pending_role_flags = [''cso'', ''domain_leader'']"

definition membership_by_chat_class :: "(string \<times> string list) list" where
  "membership_by_chat_class =
     [(''direct'', [''owner'', ''administrator'', ''auditor'', ''ceo'', ''cwo'', ''cso'', ''secretary'', ''project_manager'']),
      (''leadership_council'', [''owner'', ''administrator'', ''auditor'', ''ceo'', ''cwo'', ''secretary'']),
      (''governance'', [''owner'', ''administrator'', ''auditor'', ''secretary'']),
      (''executive'', [''owner'', ''ceo'', ''cwo'', ''secretary'']),
      (''project'', [''owner'', ''ceo'', ''cwo'', ''project_manager''])]"

definition chat_known_roles :: "string list" where
  "chat_known_roles = [''owner'', ''administrator'', ''auditor'', ''ceo'', ''cwo'', ''project_manager'', ''domain_leader'',
     ''specialist'', ''secretary'', ''cso'']"

record discord_decision =
  dg_mapping :: identity_mapping
  dg_chat_class :: string
  dg_project_status :: "string option"

text \<open>\<^verbatim>\<open>DiscordGovernanceError\<close> with code, message and details, or the exception of a repository.\<close>

datatype chat_error = DiscordGovernanceError string string kvs | RepositoryExn py_exn

fun check_chat_recipients :: "string \<Rightarrow> string list \<Rightarrow> string list \<Rightarrow> chat_error option" where
  "check_chat_recipients chat_class members [] = None"
| "check_chat_recipients chat_class members (role # roles) =
     (if role = ''specialist'' then check_chat_recipients chat_class members roles
      else if role \<in> set pending_role_flags
      then Some (DiscordGovernanceError ''governance_chat_role_pending_activation''
                  (''recipient role is pending activation in MVP: '' @ role) [(''chat_class'', chat_class), (''recipient_role'', role)])
      else if role \<in> set chat_known_roles \<and> role \<notin> set members
      then Some (DiscordGovernanceError ''governance_chat_recipient_forbidden''
                  (''recipient role is not allowed for chat_class '' @ chat_class) [(''chat_class'', chat_class), (''recipient_role'', role)])
      else check_chat_recipients chat_class members roles)"

definition check_project_channel :: "owner_command \<Rightarrow> string \<Rightarrow> string \<Rightarrow> string \<Rightarrow> chat_error option" where
  "check_project_channel p role project_id project_status =
     (if project_status = ''archived''
      then Some (DiscordGovernanceError ''governance_project_channel_archived'' ''project channel is archived and locked''
                  [(''project_id'', project_id), (''project_status'', project_status)])
      else if project_status \<in> {''completed'', ''terminated''} \<and> \<not> py_startswith (oc_action p) ''query_''
      then Some (DiscordGovernanceError ''governance_project_channel_read_only'' ''project channel is read-only in completed/terminated state''
                  [(''project_id'', project_id), (''project_status'', project_status)])
      else if role \<notin> set (if project_status = ''proposed'' then [''owner'', ''ceo'', ''cwo''] else [''owner'', ''ceo'', ''cwo'', ''project_manager''])
      then Some (DiscordGovernanceError ''governance_project_channel_sender_forbidden'' ''sender role is not allowed for project status''
                  [(''project_id'', project_id), (''project_status'', project_status), (''sender_role'', role)])
      else None)"

definition check_project_chat :: "owner_command \<Rightarrow> string \<Rightarrow> identity_mapping \<Rightarrow> governance \<Rightarrow> chat_error + discord_decision" where
  "check_project_chat p role mapping gov =
     (case oc_project_id p of
        None \<Rightarrow> Inl (DiscordGovernanceError ''governance_project_channel_missing_project_id'' ''project chat class requires project_id''
                  [(''chat_class'', ''project'')])
      | Some project_id \<Rightarrow>
          (case get_project gov project_id of
             Inl e \<Rightarrow> Inl (RepositoryExn e)
           | Inr None \<Rightarrow> Inr \<lparr>dg_mapping = mapping, dg_chat_class = ''project'', dg_project_status = None\<rparr>
           | Inr (Some project) \<Rightarrow>
               (case check_project_channel p role project_id (pj_status project) of
                  Some e \<Rightarrow> Inl e
                | None \<Rightarrow> Inr \<lparr>dg_mapping = mapping, dg_chat_class = ''project'', dg_project_status = Some (pj_status project)\<rparr>)))"

definition check_chat ::
  "owner_command \<Rightarrow> discord_context \<Rightarrow> string \<Rightarrow> identity_mapping \<Rightarrow> governance \<Rightarrow> chat_error + discord_decision" where
  "check_chat p context principal_role mapping gov =
     (let chat_class = dc_chat_class context; role = py_lower (py_strip principal_role)
      in if im_status mapping = ''revoked''
         then Inl (DiscordGovernanceError ''connector_identity_channel_revoked'' ''connector actor/channel mapping is revoked''
                [(''guild_id'', dc_guild_id context), (''channel_id'', dc_channel_id context), (''channel_type'', dc_channel_type context)])
         else case dict_get membership_by_chat_class chat_class of
           None \<Rightarrow> Inl (DiscordGovernanceError ''governance_chat_class_unknown'' (''unknown chat_class: '' @ py_repr chat_class)
                     [(''chat_class'', chat_class)])
         | Some members \<Rightarrow>
             if role \<notin> set members
             then Inl (DiscordGovernanceError ''governance_chat_sender_forbidden'' (''sender role is not allowed for chat_class '' @ chat_class)
                    [(''chat_class'', chat_class), (''sender_role'', role)])
             else case check_chat_recipients chat_class members (map (\<lambda>r. py_lower (py_strip (rc_recipient_type r))) (oc_recipients p)) of
               Some e \<Rightarrow> Inl e
             | None \<Rightarrow> if chat_class \<noteq> ''project'' then Inr \<lparr>dg_mapping = mapping, dg_chat_class = chat_class, dg_project_status = None\<rparr>
                       else check_project_chat p role mapping gov)"

definition context_key :: "owner_command \<Rightarrow> discord_context \<Rightarrow> mapping_key" where
  "context_key p context =
     (oc_connector_channel p, oc_actor_external_id p, dc_guild_id context, dc_channel_id context, dc_channel_type context)"

definition validate_discord_governance ::
  "owner_command \<Rightarrow> string \<Rightarrow> governance \<Rightarrow> directory \<Rightarrow> (chat_error, discord_decision option, directory) run" where
  "validate_discord_governance p principal_role gov d =
     (if oc_connector_channel p \<noteq> ''discord'' then (Inr None, d)
      else case oc_discord_context p of
        None \<Rightarrow> (Inl (DiscordGovernanceError ''connector_discord_context_missing'' ''discord connector requires context metadata'' []), d)
      | Some context \<Rightarrow>
          (case claim_mapping (context_key p context) ''owner'' d of
             (Inl e, d') \<Rightarrow> (Inl (RepositoryExn e), d')
           | (Inr mapping, d') \<Rightarrow>
               (case check_chat p context principal_role mapping gov of Inl e \<Rightarrow> (Inl e, d') | Inr x \<Rightarrow> (Inr (Some x), d'))))"

section \<open>The directory refines a map from keys to statuses\<close>

definition dir_statuses :: "directory \<Rightarrow> mapping_key \<rightharpoonup> string" where
  "dir_statuses d k = map_option im_status (find_mapping (dr_mappings d) k)"

lemma normalize_key_idem: "normalize_key k = Inr k' \<Longrightarrow> normalize_key k' = Inr k'"
  using norm_role_idem by (auto simp: normalize_key_def Let_def norm_role_def split: prod.splits if_splits)

lemma get_mapping_normal: "normalize_key k = Inr k' \<Longrightarrow> get_mapping d k' = Inr (find_mapping (dr_mappings d) k')"
  by (simp add: get_mapping_def normalize_key_idem)

lemma row_key_simps [simp]:
  "row_key (mapping_from_row r) = row_key r" "row_key (new_mapping k i now role) = k"
  "row_key (r\<lparr>im_status := s, im_updated_at := t\<rparr>) = row_key r"
  by (simp_all add: row_key_def mapping_from_row_def new_mapping_def split: prod.split)

lemma find_mapping_key: "find_mapping rows k = Some m \<Longrightarrow> row_key m = k"
  by (auto simp: find_mapping_def find_Some_iff)

lemma find_mapping_None: "find_mapping rows k = None \<longleftrightarrow> (\<forall>r \<in> set rows. row_key r \<noteq> k)"
  by (auto simp: find_mapping_def find_None_iff)

lemma find_mapping_insert:
  "find_mapping (insert_mapping r rows) k =
     (if find_mapping rows k = None \<and> row_key r = k then Some (mapping_from_row r) else find_mapping rows k)"
proof -
  have "find_mapping (rows @ [r]) k = (if find_mapping rows k = None \<and> row_key r = k then Some (mapping_from_row r) else find_mapping rows k)"
    by (induction rows) (auto simp: find_mapping_def)
  then show ?thesis by (auto simp: insert_mapping_def list_ex_iff find_mapping_None)
qed

lemma find_mapping_update:
  "find_mapping (map (\<lambda>r. if row_key r = k' then r\<lparr>im_status := st, im_updated_at := t\<rparr> else r) rows) k =
     map_option (\<lambda>m. if k = k' then m\<lparr>im_status := py_lower (py_strip st), im_updated_at := t\<rparr> else m) (find_mapping rows k)"
  by (induction rows) (auto simp: find_mapping_def mapping_from_row_def)

lemma pending_normal: "py_lower (py_strip ''pending'') = ''pending''"
  by code_simp

lemma claim_mapping_cases:
  assumes "normalize_key k = Inr k'"
  shows "find_mapping (dr_mappings d) k' = Some m \<Longrightarrow> claim_mapping k role d = (Inr m, d)"
    and "find_mapping (dr_mappings d) k' = None \<Longrightarrow> \<exists>i now rt. claim_mapping k role d =
      (Inr (new_mapping k' i now role), d\<lparr>dr_mappings := insert_mapping (new_mapping k' i now role) (dr_mappings d), dr_runtime := rt\<rparr>)"
proof -
  show "find_mapping (dr_mappings d) k' = Some m \<Longrightarrow> claim_mapping k role d = (Inr m, d)"
    using assms by (simp add: claim_mapping_def get_mapping_normal)
  assume none: "find_mapping (dr_mappings d) k' = None"
  have "mapping_from_row (new_mapping k' i now role) = new_mapping k' i now role" for i now
    by (simp add: mapping_from_row_def new_mapping_def pending_normal split: prod.split)
  then show "\<exists>i now rt. claim_mapping k role d =
      (Inr (new_mapping k' i now role), d\<lparr>dr_mappings := insert_mapping (new_mapping k' i now role) (dr_mappings d), dr_runtime := rt\<rparr>)"
    using assms none by (simp add: claim_mapping_def get_mapping_normal Let_def find_mapping_insert split: prod.split) blast
qed

lemma set_mapping_status_cases:
  assumes "normalize_key k = Inr k'"
  shows "find_mapping (dr_mappings d) k' = None \<Longrightarrow> \<exists>e. set_mapping_status k st d = (Inl e, d)"
    and "find_mapping (dr_mappings d) k' = Some m \<Longrightarrow> \<exists>t rt. set_mapping_status k st d =
      (Inr (m\<lparr>im_status := py_lower (py_strip st), im_updated_at := t\<rparr>), d\<lparr>dr_runtime := rt, dr_mappings :=
        map (\<lambda>r. if row_key r = k' then r\<lparr>im_status := st, im_updated_at := t\<rparr> else r) (dr_mappings d)\<rparr>)"
  using assms by (auto simp: set_mapping_status_def get_mapping_normal Let_def find_mapping_update split: prod.split)

fun abs_claim :: "mapping_key \<Rightarrow> (mapping_key \<rightharpoonup> string) \<Rightarrow> (mapping_key \<rightharpoonup> string)" where
  "abs_claim k m = (case normalize_key k of Inl _ \<Rightarrow> m | Inr k' \<Rightarrow> (if m k' = None then m(k' \<mapsto> ''pending'') else m))"

fun abs_set_status :: "mapping_key \<Rightarrow> string \<Rightarrow> (mapping_key \<rightharpoonup> string) \<Rightarrow> (mapping_key \<rightharpoonup> string)" where
  "abs_set_status k st m =
     (case normalize_key k of Inl _ \<Rightarrow> m | Inr k' \<Rightarrow> (if m k' = None then m else m(k' \<mapsto> py_lower (py_strip st))))"

definition answers_mapping :: "(mapping_key \<rightharpoonup> string) \<Rightarrow> mapping_key \<Rightarrow> py_exn + identity_mapping \<Rightarrow> bool" where
  "answers_mapping m k r =
     (case normalize_key k of Inl e \<Rightarrow> r = Inl e
      | Inr k' \<Rightarrow> (case r of Inl _ \<Rightarrow> m k' = None | Inr q \<Rightarrow> row_key q = k' \<and> m k' = Some (im_status q)))"

lemma claim_refines:
  "dir_statuses (snd (claim_mapping k role d)) = abs_claim k (dir_statuses d) \<and>
   answers_mapping (dir_statuses (snd (claim_mapping k role d))) k (fst (claim_mapping k role d))"
proof (cases "normalize_key k")
  case (Inl e)
  then show ?thesis by (simp add: claim_mapping_def answers_mapping_def)
next
  case (Inr k')
  show ?thesis
  proof (cases "find_mapping (dr_mappings d) k'")
    case None
    from claim_mapping_cases(2) [OF Inr None] obtain i now rt where claim: "claim_mapping k role d =
      (Inr (new_mapping k' i now role), d\<lparr>dr_mappings := insert_mapping (new_mapping k' i now role) (dr_mappings d), dr_runtime := rt\<rparr>)" by blast
    have "im_status (mapping_from_row (new_mapping k' i now role)) = ''pending''" "im_status (new_mapping k' i now role) = ''pending''"
      by (simp_all add: mapping_from_row_def new_mapping_def pending_normal split: prod.split)
    then show ?thesis by (auto simp: claim answers_mapping_def Inr None dir_statuses_def fun_eq_iff find_mapping_insert)
  next
    case (Some m)
    then show ?thesis
      by (simp add: claim_mapping_cases(1) [OF Inr Some] answers_mapping_def Inr dir_statuses_def find_mapping_key [OF Some])
  qed
qed

lemma set_status_refines:
  "dir_statuses (snd (set_mapping_status k st d)) = abs_set_status k st (dir_statuses d) \<and>
   answers_mapping (dir_statuses (snd (set_mapping_status k st d))) k (fst (set_mapping_status k st d))"
proof (cases "normalize_key k")
  case (Inl e)
  then show ?thesis by (simp add: set_mapping_status_def answers_mapping_def)
next
  case (Inr k')
  show ?thesis
  proof (cases "find_mapping (dr_mappings d) k'")
    case None
    from set_mapping_status_cases(1) [OF Inr None] obtain e where "set_mapping_status k st d = (Inl e, d)" by blast
    then show ?thesis by (simp add: answers_mapping_def Inr dir_statuses_def None)
  next
    case (Some m)
    from set_mapping_status_cases(2) [OF Inr Some] obtain t rt where upd: "set_mapping_status k st d =
      (Inr (m\<lparr>im_status := py_lower (py_strip st), im_updated_at := t\<rparr>), d\<lparr>dr_runtime := rt, dr_mappings :=
        map (\<lambda>r. if row_key r = k' then r\<lparr>im_status := st, im_updated_at := t\<rparr> else r) (dr_mappings d)\<rparr>)" by blast
    show ?thesis
      using find_mapping_key [OF Some] by (auto simp: upd answers_mapping_def Inr dir_statuses_def Some fun_eq_iff find_mapping_update option.map_comp comp_def)
  qed
qed

section \<open>Histories of the directory\<close>

datatype directory_op = Claim mapping_key string | SetStatus mapping_key string

fun apply_op :: "directory_op \<Rightarrow> directory \<Rightarrow> directory" where
  "apply_op (Claim k role) d = snd (claim_mapping k role d)"
| "apply_op (SetStatus k st) d = snd (set_mapping_status k st d)"

fun abs_op :: "directory_op \<Rightarrow> (mapping_key \<rightharpoonup> string) \<Rightarrow> (mapping_key \<rightharpoonup> string)" where
  "abs_op (Claim k role) = abs_claim k"
| "abs_op (SetStatus k st) = abs_set_status k st"

definition directory_ok :: "directory_op list \<Rightarrow> directory \<Rightarrow> bool" where
  "directory_ok ops d = (distinct (map row_key (dr_mappings d)) \<and> (\<forall>r \<in> set (dr_mappings d).
     \<exists>k. Claim k (im_principal_role r) \<in> set ops \<and> normalize_key k = Inr (row_key r)))"

lemma dir_statuses_fold: "dir_statuses (fold apply_op ops d) = fold abs_op ops (dir_statuses d)"
proof (induction ops arbitrary: d)
  case (Cons op ops)
  have "dir_statuses (apply_op op d) = abs_op op (dir_statuses d)"
    using claim_refines set_status_refines by (cases op) simp_all
  then show ?case by (simp add: Cons.IH)
qed simp

lemma directory_ok_mono: "directory_ok ops d \<Longrightarrow> set ops \<subseteq> set ops' \<Longrightarrow> directory_ok ops' d"
  by (fastforce simp: directory_ok_def)

lemma directory_ok_map:
  assumes "directory_ok ops d" "\<And>r. row_key (f r) = row_key r" "\<And>r. im_principal_role (f r) = im_principal_role r"
  shows "directory_ok ops (d\<lparr>dr_runtime := rt, dr_mappings := map f (dr_mappings d)\<rparr>)"
  using assms by (simp add: directory_ok_def comp_def)

lemma directory_ok_op:
  assumes ok: "directory_ok ops d" and mem: "op \<in> set ops"
  shows "directory_ok ops (apply_op op d)"
proof (cases op)
  case (Claim k role)
  show ?thesis
  proof (cases "normalize_key k")
    case (Inl e)
    then show ?thesis using ok by (simp add: Claim claim_mapping_def)
  next
    case (Inr k')
    show ?thesis
    proof (cases "find_mapping (dr_mappings d) k'")
      case None
      from claim_mapping_cases(2) [OF Inr None] obtain i now rt where claim: "claim_mapping k role d =
        (Inr (new_mapping k' i now role), d\<lparr>dr_mappings := insert_mapping (new_mapping k' i now role) (dr_mappings d), dr_runtime := rt\<rparr>)" by blast
      have "im_principal_role (new_mapping k' i now role) = role" by (simp add: new_mapping_def split: prod.split)
      then show ?thesis using ok mem None Inr
        by (auto simp: Claim claim directory_ok_def insert_mapping_def list_ex_iff find_mapping_None simp del: split_paired_Ex)
    qed (use ok in \<open>simp add: Claim claim_mapping_cases(1) [OF Inr]\<close>)
  qed
next
  case (SetStatus k st)
  show ?thesis
  proof (cases "normalize_key k")
    case (Inl e)
    then show ?thesis using ok by (simp add: SetStatus set_mapping_status_def)
  next
    case (Inr k')
    show ?thesis
    proof (cases "find_mapping (dr_mappings d) k'")
      case None
      then show ?thesis using ok set_mapping_status_cases(1) [OF Inr None, of st] by (auto simp: SetStatus)
    next
      case (Some m)
      from set_mapping_status_cases(2) [OF Inr Some] obtain r t rt where "set_mapping_status k st d = (r, d\<lparr>dr_runtime := rt, dr_mappings :=
        map (\<lambda>r. if row_key r = k' then r\<lparr>im_status := st, im_updated_at := t\<rparr> else r) (dr_mappings d)\<rparr>)" by blast
      then show ?thesis by (simp add: SetStatus directory_ok_map [OF ok])
    qed
  qed
qed

lemma directory_ok_fold: "directory_ok all d \<Longrightarrow> set ops \<subseteq> set all \<Longrightarrow> directory_ok all (fold apply_op ops d)"
  by (induction ops arbitrary: d) (auto intro: directory_ok_op)

lemma find_mapping_member:
  "distinct (map row_key rows) \<Longrightarrow> r \<in> set rows \<Longrightarrow> find_mapping rows (row_key r) = Some (mapping_from_row r)"
  by (induction rows) (auto simp: find_mapping_def rev_image_eqI)

lemma get_by_connector_actor_Some:
  assumes "get_by_connector_actor rows connector actor = Some m"
  obtains r where "r \<in> set rows" "m = mapping_from_row r" "im_status r = ''verified''" "im_connector r = py_lower (py_strip connector)"
    "im_actor_external_id r = py_strip actor"
proof -
  let ?p = "\<lambda>r. im_connector r = py_lower (py_strip connector) \<and> im_actor_external_id r = py_strip actor \<and> im_status r = ''verified''"
  from assms obtain r rs where "sort_key (\<lambda>r. - im_updated_at r) (filter ?p rows) = r # rs" and m: "m = mapping_from_row r"
    by (auto simp: get_by_connector_actor_def split: list.splits)
  then have "r \<in> set (sort_key (\<lambda>r. - im_updated_at r) (filter ?p rows))" by simp
  then show thesis using m by (auto intro: that)
qed

lemma optional_header_stripped: "optional_header hs n = Some v \<Longrightarrow> py_strip v = v"
  by (auto simp: optional_header_def or_none_def split: option.splits if_splits)

lemma or_opt_Some: "or_opt a b = Some v \<Longrightarrow> a = Some v \<or> b = Some v"
  by (auto simp: or_opt_def split: if_splits)

lemma resolve_principal_parts:
  assumes "resolve_principal hs source = Inr p"
  shows "pr_connector p \<in> {''discord'', ''internal''}" and "py_strip (pr_principal_id p) = pr_principal_id p"
    and "resolve_role hs source (pr_connector p) (pr_principal_id p) = Inr (pr_principal_role p)"
    and "pr_trust_domain p = (if pr_connector p = ''internal'' then ''internal'' else ''external_verified'')"
proof -
  from assms obtain connector actor where c: "connector \<in> {''discord'', ''internal''}"
    and a: "or_opt (optional_header hs ''x-openqilin-actor-external-id'')
      (or_opt (optional_header hs ''x-external-actor-id'') (optional_header hs ''x-openqilin-user-id'')) = Some actor"
    and r: "resolve_role hs source connector actor = Inr (pr_principal_role p)"
    and p: "pr_principal_id p = actor" "pr_connector p = connector"
      "pr_trust_domain p = (if connector = ''internal'' then ''internal'' else ''external_verified'')"
    by (auto simp: resolve_principal_def sum_bind_Inr split: option.splits if_splits)
  have "py_strip actor = actor" using or_opt_Some [OF a] or_opt_Some optional_header_stripped by blast
  then show "py_strip (pr_principal_id p) = pr_principal_id p" by (simp add: p)
qed (use assms in \<open>auto simp: resolve_principal_def sum_bind_Inr split: option.splits if_splits\<close>)

section \<open>What the checks of a message establish\<close>

lemma validate_connector_auth_Inr:
  "validate_connector_auth hmac secret hc ha hk hs channel actor key raw_hash = Inr x \<longleftrightarrow>
     (\<exists>signature. hs = Some signature \<and> py_strip signature \<noteq> [] \<and> \<not> header_differs hc channel \<and> \<not> header_differs ha actor \<and>
        \<not> header_differs hk key \<and> is_ascii (hmac secret raw_hash) \<and> normalize_signature signature = hmac secret raw_hash \<and>
        x = \<lparr>ca_channel = channel, ca_actor_external_id = actor, ca_idempotency_key = key, ca_raw_payload_hash = raw_hash\<rparr>)"
  by (auto simp: validate_connector_auth_def compare_digest_def split: option.split)

definition recipient_allowed :: "string list \<Rightarrow> string \<Rightarrow> bool" where
  "recipient_allowed members role =
     (role = ''specialist'' \<or> role \<notin> set pending_role_flags \<and> (role \<in> set chat_known_roles \<longrightarrow> role \<in> set members))"

lemma check_chat_recipients_None: "check_chat_recipients c members roles = None \<longleftrightarrow> (\<forall>role \<in> set roles. recipient_allowed members role)"
  by (induction roles) (auto simp: recipient_allowed_def)

definition project_channel_open :: "owner_command \<Rightarrow> string \<Rightarrow> string \<Rightarrow> bool" where
  "project_channel_open p role project_status =
     (project_status \<noteq> ''archived'' \<and> (project_status \<in> {''completed'', ''terminated''} \<longrightarrow> py_startswith (oc_action p) ''query_'') \<and>
      (role \<in> {''owner'', ''ceo'', ''cwo''} \<or> role = ''project_manager'' \<and> project_status \<noteq> ''proposed''))"

lemma check_project_channel_None: "check_project_channel p role i s = None \<longleftrightarrow> project_channel_open p role s"
  by (auto simp: check_project_channel_def project_channel_open_def)

definition chat_allows :: "owner_command \<Rightarrow> discord_context \<Rightarrow> string \<Rightarrow> string \<Rightarrow> governance \<Rightarrow> bool" where
  "chat_allows p context role mapping_status gov =
     (mapping_status \<noteq> ''revoked'' \<and>
      (case dict_get membership_by_chat_class (dc_chat_class context) of None \<Rightarrow> False
       | Some members \<Rightarrow> py_lower (py_strip role) \<in> set members \<and>
           list_all (\<lambda>r. recipient_allowed members (py_lower (py_strip (rc_recipient_type r)))) (oc_recipients p)) \<and>
      (dc_chat_class context = ''project'' \<longrightarrow>
         (case oc_project_id p of None \<Rightarrow> False
          | Some i \<Rightarrow> (case get_project gov i of Inl _ \<Rightarrow> False | Inr None \<Rightarrow> True
                      | Inr (Some project) \<Rightarrow> project_channel_open p (py_lower (py_strip role)) (pj_status project)))))"

lemma check_project_chat_Inr: "(\<exists>x. check_project_chat p role mapping gov = Inr x) \<longleftrightarrow>
   (case oc_project_id p of None \<Rightarrow> False
    | Some i \<Rightarrow> (case get_project gov i of Inl _ \<Rightarrow> False | Inr None \<Rightarrow> True | Inr (Some project) \<Rightarrow> project_channel_open p role (pj_status project)))"
  by (auto simp: check_project_chat_def split: option.split sum.split) (metis check_project_channel_None option.distinct(1))+

lemma check_chat_Inr: "(\<exists>x. check_chat p context role mapping gov = Inr x) \<longleftrightarrow> chat_allows p context role (im_status mapping) gov"
proof (cases "dict_get membership_by_chat_class (dc_chat_class context)")
  case (Some members)
  let ?roles = "map (\<lambda>r. py_lower (py_strip (rc_recipient_type r))) (oc_recipients p)"
  have "list_all (\<lambda>r. recipient_allowed members (py_lower (py_strip (rc_recipient_type r)))) (oc_recipients p) \<longleftrightarrow>
      check_chat_recipients (dc_chat_class context) members ?roles = None"
    by (simp add: check_chat_recipients_None list_all_iff)
  then show ?thesis
    unfolding chat_allows_def check_project_chat_Inr [symmetric, where mapping = mapping]
    by (cases "check_chat_recipients (dc_chat_class context) members ?roles") (simp_all add: check_chat_def Let_def Some)
qed (simp add: check_chat_def Let_def chat_allows_def)

section \<open>Properties\<close>

text \<open>
  The directory of identities refines a map from normalised keys to statuses. A claim adds a pending entry only where
  there is none and answers with the stored entry; a decision replaces the status of an existing entry and of nothing
  else; a key with an empty part is refused without effect.
\<close>

theorem identity_directory_refines:
  "dir_statuses (snd (claim_mapping k role d)) = abs_claim k (dir_statuses d) \<and>
   answers_mapping (abs_claim k (dir_statuses d)) k (fst (claim_mapping k role d)) \<and>
   dir_statuses (snd (set_mapping_status k st d)) = abs_set_status k st (dir_statuses d) \<and>
   answers_mapping (abs_set_status k st (dir_statuses d)) k (fst (set_mapping_status k st d))"
  using claim_refines [of k role d] set_status_refines [of k st d] by metis

text \<open>
  C24: where principals are resolved with the PostgreSQL directory, as the owner-command and chat endpoints do, an external principal was
  verified. After any history of claims and decisions on it, headers resolve to a principal of an external connector only if the last decision on one of that actor's channels is
  \<^verbatim>\<open>verified\<close>, and its role is the one that was recorded when that channel was claimed, not one of the headers. The governance,
  query and discussion endpoints resolve without a directory and take the role from the headers (\<open>approval_role_self_asserted\<close>).
\<close>

theorem external_principal_was_verified:
  assumes "resolve_principal headers (PersistentDirectory (dr_mappings (fold apply_op ops d))) = Inr p"
    and "dr_mappings d = []" "pr_connector p \<noteq> ''internal''"
  shows "\<exists>guild channel channel_type k role.
    (let key = (''discord'', pr_principal_id p, guild, channel, channel_type)
     in fold abs_op ops Map.empty key = Some ''verified'' \<and> Claim k role \<in> set ops \<and> normalize_key k = Inr key \<and>
        pr_principal_role p = or_str (Some role) ''owner'' \<and> pr_trust_domain p = ''external_verified'')"
proof -
  let ?d = "fold apply_op ops d"
  note parts = resolve_principal_parts [OF assms(1)]
  have discord: "pr_connector p = ''discord''" using parts(1) assms(3) by auto
  have "py_lower (py_strip ''discord'') = ''discord''" by code_simp
  with parts(2,3) discord obtain m where m: "get_by_connector_actor (dr_mappings ?d) ''discord'' (pr_principal_id p) = Some m"
    and role: "pr_principal_role p = or_str (Some (im_principal_role m)) ''owner''"
    by (auto simp: resolve_role_def split: option.splits if_splits)
  from m \<open>py_lower (py_strip ''discord'') = ''discord''\<close> parts(2) obtain r where r: "r \<in> set (dr_mappings ?d)" "m = mapping_from_row r" "im_status r = ''verified''"
    "im_connector r = ''discord''" "im_actor_external_id r = pr_principal_id p"
    by (elim get_by_connector_actor_Some) simp
  have ok: "directory_ok ops ?d" by (rule directory_ok_fold) (simp_all add: directory_ok_def assms(2))
  have key: "row_key r = (''discord'', pr_principal_id p, im_guild_id r, im_channel_id r, im_channel_type r)" using r by (simp add: row_key_def)
  have "py_lower (py_strip ''verified'') = ''verified''" by code_simp
  then have "dir_statuses ?d (row_key r) = Some ''verified''"
    using ok r find_mapping_member by (simp add: dir_statuses_def directory_ok_def mapping_from_row_def)
  moreover have "dir_statuses d = Map.empty" by (simp add: dir_statuses_def fun_eq_iff find_mapping_def assms(2))
  ultimately have "fold abs_op ops Map.empty (row_key r) = Some ''verified''" by (simp add: dir_statuses_fold)
  moreover from ok r(1) obtain k where "Claim k (im_principal_role r) \<in> set ops" "normalize_key k = Inr (row_key r)"
    unfolding directory_ok_def by blast
  moreover have "im_principal_role m = im_principal_role r" by (simp add: r(2) mapping_from_row_def)
  ultimately show ?thesis
    unfolding Let_def using key role parts(4) discord by (intro exI conjI) simp_all
qed

section \<open>Witnesses\<close>

definition demo_key :: mapping_key where
  "demo_key = (''Discord'', '' u-1 '', ''g-1'', ''c-1'', ''text'')"

definition demo_directory :: directory where
  "demo_directory = \<lparr>dr_mappings = [], dr_runtime =
     \<lparr>rt_uuid_seq = (\<lambda>n. replicate n CHR ''i''), rt_uuid_pos = 0, rt_clock_seq = int, rt_clock_pos = 0\<rparr>\<rparr>"

definition demo_directory_ops :: "directory_op list" where
  "demo_directory_ops = [Claim demo_key ''ceo'', SetStatus demo_key ''verified'']"

definition demo_headers :: kvs where
  "demo_headers = [(''x-external-channel'', ''discord''), (''x-openqilin-actor-external-id'', '' u-1 ''), (''x-openqilin-actor-role'', ''owner'')]"

definition demo_external :: principal where
  "demo_external = \<lparr>pr_principal_id = ''u-1'', pr_connector = ''discord'', pr_principal_role = ''ceo'', pr_trust_domain = ''external_verified''\<rparr>"

lemma demo_external_resolved:
  "resolve_principal demo_headers (PersistentDirectory (dr_mappings (fold apply_op demo_directory_ops demo_directory))) = Inr demo_external"
  by code_simp

theorem external_principal_was_verified_witness:
  "\<exists>guild channel channel_type k role.
    (let key = (''discord'', pr_principal_id demo_external, guild, channel, channel_type)
     in fold abs_op demo_directory_ops Map.empty key = Some ''verified'' \<and> Claim k role \<in> set demo_directory_ops \<and>
        normalize_key k = Inr key \<and> pr_principal_role demo_external = or_str (Some role) ''owner'' \<and>
        pr_trust_domain demo_external = ''external_verified'')"
  by (rule external_principal_was_verified [OF demo_external_resolved]) (simp_all add: demo_directory_def demo_external_def)

end
