(* ===== verification/Ingress.thy ===== *)
theory Ingress
  imports Identity Dispatch
begin

text \<open>
  The owner-command endpoint, \<^verbatim>\<open>control_plane/routers/owner_commands.py\<close> with the request schema of
  \<^verbatim>\<open>control_plane/schemas/owner_commands.py\<close>: signature, principal, envelope, chat governance and admission in the order of
  \<^verbatim>\<open>submit_owner_command\<close>, the audit events and the response on every branch.

  A request that the schema refuses never reaches the handler: \<open>post_owner_command\<close> answers 422. Spans and metrics are
  left out. An identifier that is drawn before it is known whether it is needed is not used again.
\<close>

section \<open>The request schema\<close>

definition text_len :: "nat \<Rightarrow> nat \<Rightarrow> string \<Rightarrow> bool" where
  "text_len lo hi s = (lo \<le> length s \<and> length s \<le> hi)"

definition discord_context_valid :: "discord_context \<Rightarrow> bool" where
  "discord_context_valid c =
     (text_len 1 128 (dc_guild_id c) \<and> text_len 1 128 (dc_channel_id c) \<and>
      dc_channel_type c \<in> {''dm'', ''group'', ''text'', ''thread''} \<and>
      dc_chat_class c \<in> {''direct'', ''leadership_council'', ''governance'', ''executive'', ''project''})"

definition owner_command_valid :: "owner_command \<Rightarrow> bool" where
  "owner_command_valid p =
     (text_len 1 256 (oc_message_id p) \<and> text_len 1 128 (oc_trace_id p) \<and>
      text_len 1 128 (oc_sender_actor_id p) \<and> text_len 1 64 (oc_sender_actor_role p) \<and>
      1 \<le> length (oc_recipients p) \<and> length (oc_recipients p) \<le> 32 \<and>
      list_all (\<lambda>r. text_len 1 128 (rc_recipient_id r) \<and> text_len 1 64 (rc_recipient_type r)) (oc_recipients p) \<and>
      oc_message_type p = ''command'' \<and> oc_priority p \<in> {''low'', ''normal'', ''high'', ''critical''} \<and>
      text_len 1 4000 (oc_content p) \<and> (case oc_project_id p of None \<Rightarrow> True | Some i \<Rightarrow> text_len 1 128 i) \<and>
      oc_connector_channel p \<in> {''discord'', ''internal''} \<and> text_len 1 256 (oc_external_message_id p) \<and>
      text_len 1 256 (oc_actor_external_id p) \<and> text_len 8 128 (oc_idempotency_key p) \<and> text_len 64 128 (oc_raw_payload_hash p) \<and>
      (case oc_discord_context p of None \<Rightarrow> oc_connector_channel p \<noteq> ''discord''
       | Some c \<Rightarrow> oc_connector_channel p = ''discord'' \<and> discord_context_valid c) \<and>
      text_len 1 128 (oc_action p) \<and> text_len 1 128 (oc_target p))"

section \<open>Responses\<close>

record accepted_data =
  ac_task_id :: string
  ac_admission_state :: string
  ac_replayed :: bool
  ac_request_id :: string
  ac_principal_id :: string
  ac_connector :: string
  ac_command :: string
  ac_accepted_args :: "string list"
  ac_dispatch_target :: "string option"
  ac_dispatch_id :: "string option"

record command_error =
  ce_code :: string
  ce_class :: string
  ce_message :: string
  ce_retryable :: bool
  ce_source_component :: string
  ce_trace_id :: string
  ce_policy_version :: "string option"
  ce_policy_hash :: "string option"
  ce_rule_ids :: "string list"
  ce_details :: kvs

record command_response =
  rs_http_status :: nat
  rs_status :: string
  rs_trace_id :: string
  rs_policy_version :: "string option"
  rs_policy_hash :: "string option"
  rs_rule_ids :: "string list"
  rs_data :: "accepted_data option"
  rs_error :: "command_error option"

definition build_error ::
  "string \<Rightarrow> string \<Rightarrow> string \<Rightarrow> bool \<Rightarrow> string \<Rightarrow> string \<Rightarrow> kvs \<Rightarrow> string option \<Rightarrow> string option \<Rightarrow> string list \<Rightarrow> command_error" where
  "build_error code error_class message retryable source_component trace_id details policy_version policy_hash rule_ids =
     \<lparr>ce_code = code, ce_class = error_class, ce_message = message, ce_retryable = retryable,
      ce_source_component = source_component, ce_trace_id = trace_id, ce_policy_version = policy_version, ce_policy_hash = policy_hash,
      ce_rule_ids = rule_ids, ce_details = details\<rparr>"

definition error_response ::
  "nat \<Rightarrow> string \<Rightarrow> string \<Rightarrow> string \<Rightarrow> string \<Rightarrow> string \<Rightarrow> kvs \<Rightarrow> command_response" where
  "error_response http trace_id code error_class message source_component details =
     \<lparr>rs_http_status = http, rs_status = ''error'', rs_trace_id = trace_id, rs_policy_version = None, rs_policy_hash = None,
      rs_rule_ids = [], rs_data = None,
      rs_error = Some (build_error code error_class message False source_component trace_id details None None [])\<rparr>"

definition denied_response ::
  "string \<Rightarrow> string \<Rightarrow> string \<Rightarrow> string \<Rightarrow> kvs \<Rightarrow> string option \<Rightarrow> string option \<Rightarrow> string list \<Rightarrow> command_response" where
  "denied_response trace_id code message source_component details policy_version policy_hash rule_ids =
     \<lparr>rs_http_status = 403, rs_status = ''denied'', rs_trace_id = trace_id, rs_policy_version = policy_version,
      rs_policy_hash = policy_hash, rs_rule_ids = rule_ids, rs_data = None,
      rs_error = Some (build_error code ''authorization_error'' message False source_component trace_id details policy_version policy_hash rule_ids)\<rparr>"

definition parse_rule_ids :: "string option \<Rightarrow> string list" where
  "parse_rule_ids raw = (case raw of None \<Rightarrow> [] | Some r \<Rightarrow> filter (\<lambda>v. v \<noteq> []) (map py_strip (py_split CHR '','' r)))"

definition dict_of :: "kvs \<Rightarrow> kvs" where
  "dict_of ps = fold (\<lambda>(k, v) d. dict_put d k v) ps []"

definition outcome_dict :: "task_record \<Rightarrow> kvs" where
  "outcome_dict t = dict_of (case tk_outcome_details t of None \<Rightarrow> [] | Some ps \<Rightarrow> ps)"

definition accepted_response ::
  "task_record \<Rightarrow> string \<Rightarrow> bool \<Rightarrow> string option \<Rightarrow> string option \<Rightarrow> string option \<Rightarrow> string option \<Rightarrow> string list \<Rightarrow> command_response" where
  "accepted_response t state replayed target dispatch_id policy_version policy_hash rule_ids =
     \<lparr>rs_http_status = 202, rs_status = ''accepted'', rs_trace_id = tk_trace_id t, rs_policy_version = policy_version,
      rs_policy_hash = policy_hash, rs_rule_ids = rule_ids,
      rs_data = Some \<lparr>ac_task_id = tk_task_id t, ac_admission_state = state, ac_replayed = replayed, ac_request_id = tk_request_id t,
        ac_principal_id = tk_principal_id t, ac_connector = tk_connector t, ac_command = tk_command t,
        ac_accepted_args = tk_args t, ac_dispatch_target = target, ac_dispatch_id = dispatch_id\<rparr>,
      rs_error = None\<rparr>"

definition replay_details :: "task_record \<Rightarrow> kvs" where
  "replay_details t =
     (let d1 = set_default (outcome_dict t) ''source'' (or_str (tk_outcome_source t) ''governance'');
          d2 = set_default d1 ''task_id'' (tk_task_id t);
          d3 = dict_put d2 ''replayed'' ''true'';
          d4 = (case tk_dispatch_target t of None \<Rightarrow> d3 | Some x \<Rightarrow> set_default d3 ''dispatch_target'' x)
      in case tk_outcome_error_code t of None \<Rightarrow> d4 | Some c \<Rightarrow> set_default d4 ''reason_code'' c)"

definition replayed_response :: "task_record \<Rightarrow> command_response" where
  "replayed_response t =
     (let details = outcome_dict t; version = map_of details ''policy_version''; hash = map_of details ''policy_hash'';
          rule_ids = parse_rule_ids (map_of details ''rule_ids'')
      in if tk_status t = ''dispatched''
         then accepted_response t ''dispatched'' True (Some (or_str (tk_dispatch_target t) (select_dispatch_target t)))
                (Some (or_str (tk_dispatch_id t) ''dispatch-id-missing'')) version hash rule_ids
         else denied_response (tk_trace_id t) (or_str (tk_outcome_error_code t) ''governance_blocked'')
                (or_str (tk_outcome_message t) ''task replay resolved to prior denied outcome'')
                (or_str (tk_outcome_source t) ''governance'') (replay_details t) version hash rule_ids)"

section \<open>The handler\<close>

record ingress_headers =
  hd_trace_id :: "string option"
  hd_external_channel :: "string option"
  hd_external_actor_id :: "string option"
  hd_actor_role :: "string option"
  hd_idempotency_key :: "string option"
  hd_signature :: "string option"

text \<open>
  The environment of one request: HMAC and the shared secret, the payload digest of admission, faults of the audit
  writer and of the insertion of a task.
\<close>

record ingress_env =
  ie_hmac :: "string \<Rightarrow> string \<Rightarrow> string"
  ie_secret :: string
  ie_digest :: "hashed_payload \<Rightarrow> string"
  ie_audit_fault :: "nat \<Rightarrow> py_exn option"
  ie_insert_fault :: "py_exn option"

record ingress_state =
  ig_directory :: directory
  ig_governance :: governance
  ig_admission :: admission_state
  ig_audit :: audit_log

definition ingress_uuid :: "ingress_state \<Rightarrow> string \<times> ingress_state" where
  "ingress_uuid st = (case uuid4 (dr_runtime (ig_directory st)) of (i, rt) \<Rightarrow> (i, st\<lparr>ig_directory := (ig_directory st)\<lparr>dr_runtime := rt\<rparr>\<rparr>))"

definition ingress_now :: "ingress_state \<Rightarrow> time \<times> ingress_state" where
  "ingress_now st = (case now_utc (dr_runtime (ig_directory st)) of (t, rt) \<Rightarrow> (t, st\<lparr>ig_directory := (ig_directory st)\<lparr>dr_runtime := rt\<rparr>\<rparr>))"

definition ingress_audit :: "ingress_env \<Rightarrow> audit_call \<Rightarrow> ingress_state \<Rightarrow> (py_exn, unit, ingress_state) run" where
  "ingress_audit env c st = (case write_event (ie_audit_fault env) c (ig_audit st) of (r, lg) \<Rightarrow> (r, st\<lparr>ig_audit := lg\<rparr>))"

definition emit_outcome ::
  "ingress_env \<Rightarrow> string \<Rightarrow> string option \<Rightarrow> string option \<Rightarrow> string \<Rightarrow> string \<Rightarrow> string \<Rightarrow> string \<Rightarrow> ingress_state \<Rightarrow>
   (py_exn, unit, ingress_state) run" where
  "emit_outcome env trace_id request_id principal_id principal_role source code message =
     ingress_audit env \<lparr>aw_event_type = ''owner_command.denied'', aw_outcome = ''denied'',
       aw_trace_id = or_str (Some trace_id) ''missing-trace-id'', aw_request_id = request_id, aw_task_id = None,
       aw_principal_id = principal_id, aw_principal_role = Some principal_role, aw_source = source, aw_reason_code = Some code,
       aw_message = message, aw_rule_ids = [],
       aw_payload = [(''outcome'', Some ''denied''), (''source'', Some source), (''error_code'', Some code),
         (''message'', Some message), (''request_id'', request_id), (''task_id'', None)]\<rparr>"

definition emit_replay :: "ingress_env \<Rightarrow> task_record \<Rightarrow> string \<Rightarrow> string \<Rightarrow> string \<Rightarrow> ingress_state \<Rightarrow> (py_exn, unit, ingress_state) run" where
  "emit_replay env t outcome source message =
     ingress_audit env \<lparr>aw_event_type = ''owner_command.replayed'', aw_outcome = outcome, aw_trace_id = tk_trace_id t,
       aw_request_id = Some (tk_request_id t), aw_task_id = Some (tk_task_id t), aw_principal_id = Some (tk_principal_id t),
       aw_principal_role = Some (tk_principal_role t), aw_source = source, aw_reason_code = tk_outcome_error_code t,
       aw_message = message, aw_rule_ids = parse_rule_ids (map_of (outcome_dict t) ''rule_ids''),
       aw_payload = [(''replayed'', Some ''true''), (''status'', Some (tk_status t)),
         (''dispatch_target'', Some (or_str (tk_dispatch_target t) ''unknown''))]\<rparr>"

definition ingress_trace :: "ingress_headers \<Rightarrow> owner_command \<Rightarrow> ingress_state \<Rightarrow> string \<times> ingress_state" where
  "ingress_trace h p st =
     (if py_strip (oc_trace_id p) \<noteq> [] then (py_strip (oc_trace_id p), st)
      else if truthy (hd_trace_id h) then (py_strip (the (hd_trace_id h)), st) else ingress_uuid st)"

definition blank_header :: "string option \<Rightarrow> bool" where
  "blank_header h = (case h of None \<Rightarrow> True | Some v \<Rightarrow> py_strip v = [])"

definition missing_header :: "ingress_headers \<Rightarrow> (string \<times> string) option" where
  "missing_header h =
     (if blank_header (hd_external_channel h) then Some (''connector_missing_header'', ''X-External-Channel'')
      else if blank_header (hd_external_actor_id h) then Some (''connector_missing_header'', ''X-External-Actor-Id'')
      else if blank_header (hd_idempotency_key h) then Some (''idempotency_missing_header'', ''X-Idempotency-Key'')
      else None)"

definition check_signature :: "ingress_env \<Rightarrow> ingress_headers \<Rightarrow> owner_command \<Rightarrow> py_exn + connector_auth" where
  "check_signature env h p =
     validate_connector_auth (ie_hmac env) (ie_secret env) (hd_external_channel h) (hd_external_actor_id h) (hd_idempotency_key h)
       (hd_signature h) (oc_connector_channel p) (oc_actor_external_id p) (oc_idempotency_key p) (oc_raw_payload_hash p)"

definition principal_headers :: "ingress_headers \<Rightarrow> kvs" where
  "principal_headers h =
     [(''x-external-channel'', the (hd_external_channel h)), (''x-openqilin-actor-external-id'', the (hd_external_actor_id h))] @
     (if truthy (hd_actor_role h) then [(''x-openqilin-actor-role'', the (hd_actor_role h))] else [])"

text \<open>A refusal: the audit event, then the response.\<close>

definition refuse_with ::
  "ingress_env \<Rightarrow> string \<Rightarrow> string option \<Rightarrow> string option \<Rightarrow> string \<Rightarrow> string \<Rightarrow> string \<Rightarrow> string \<Rightarrow> command_response \<Rightarrow> ingress_state \<Rightarrow>
   (py_exn, command_response, ingress_state) run" where
  "refuse_with env trace_id request_id principal_id role source code message response st =
     and_then (emit_outcome env trace_id request_id principal_id role source code message st) (\<lambda>_ st'. (Inr response, st'))"

definition answer_admission ::
  "ingress_env \<Rightarrow> task_record \<Rightarrow> bool \<Rightarrow> ingress_state \<Rightarrow> (py_exn, command_response, ingress_state) run" where
  "answer_admission env t replayed st =
     (if replayed \<and> tk_status t \<notin> {''queued'', ''authorized''}
      then and_then (emit_replay env t (if tk_status t = ''dispatched'' then ''accepted'' else ''denied'')
             (or_str (tk_outcome_source t) ''governance'')
             (or_str (tk_outcome_message t) ''replayed owner command resolved from prior task outcome'') st)
           (\<lambda>_ st'. (Inr (replayed_response t), st'))
      else (Inr (accepted_response t ''queued'' replayed None None None None []), st))"

definition admit_envelope ::
  "ingress_env \<Rightarrow> string \<Rightarrow> principal \<Rightarrow> admission_envelope \<Rightarrow> ingress_state \<Rightarrow> (py_exn, command_response, ingress_state) run" where
  "admit_envelope env trace_id pr e st =
     (let (now, st1) = ingress_now st; (i, st2) = ingress_uuid st1;
          (r, ad) = admit_owner_command (ie_digest env) (ig_admission st2) e i now (ie_insert_fault env);
          st3 = st2\<lparr>ig_admission := ad\<rparr>
      in case r of
           Inl (AdmissionExn x) \<Rightarrow> (Inl x, st3)
         | Inl (AdmissionIdempotencyError code message) \<Rightarrow>
             refuse_with env trace_id (Some (env_request_id e)) (Some (pr_principal_id pr)) (pr_principal_role pr) ''idempotency'' code message
               (error_response 409 trace_id code ''validation_error'' message ''task_orchestrator'' [(''source'', ''idempotency'')]) st3
         | Inr (t, replayed) \<Rightarrow> answer_admission env t replayed st3)"

definition govern_envelope ::
  "ingress_env \<Rightarrow> string \<Rightarrow> owner_command \<Rightarrow> principal \<Rightarrow> admission_envelope \<Rightarrow> ingress_state \<Rightarrow> (py_exn, command_response, ingress_state) run" where
  "govern_envelope env trace_id p pr e st =
     (let (r, d) = validate_discord_governance p (pr_principal_role pr) (ig_governance st) (ig_directory st);
          st' = st\<lparr>ig_directory := d\<rparr>
      in case r of
           Inl (RepositoryExn x) \<Rightarrow> (Inl x, st')
         | Inl (DiscordGovernanceError code message details) \<Rightarrow>
             refuse_with env trace_id None (Some (pr_principal_id pr)) (pr_principal_role pr) ''discord_governance'' code message
               (denied_response trace_id code message
                  (if code = ''governance_specialist_direct_command_denied'' then ''policy_engine'' else ''governance'')
                  (set_default details ''source'' ''discord_governance'') None None []) st'
         | Inr _ \<Rightarrow> admit_envelope env trace_id pr e st')"

definition submit_owner_command ::
  "ingress_env \<Rightarrow> ingress_headers \<Rightarrow> owner_command \<Rightarrow> ingress_state \<Rightarrow> (py_exn, command_response, ingress_state) run" where
  "submit_owner_command env h p st0 =
     (let (trace_id, st) = ingress_trace h p st0
      in case missing_header h of
           Some (code, name) \<Rightarrow>
             (Inr (error_response 400 trace_id code ''validation_error'' (''missing required header: '' @ name) ''api''
                [(''source'', ''headers''), (''required_header'', name)]), st)
         | None \<Rightarrow>
             (case check_signature env h p of
                Inl (CodedError code message) \<Rightarrow>
                  refuse_with env trace_id None None (oc_sender_actor_role p) ''connector_security'' code message
                    (error_response 400 trace_id code ''authorization_error'' message ''api'' [(''source'', ''connector_security'')]) st
              | Inl x \<Rightarrow> (Inl x, st)
              | Inr _ \<Rightarrow>
                  (case resolve_principal (principal_headers h) (PersistentDirectory (dr_mappings (ig_directory st))) of
                     Inl (code, message) \<Rightarrow>
                       refuse_with env trace_id None None (oc_sender_actor_role p) ''identity'' code message
                         (error_response 400 trace_id code ''authorization_error'' message ''api'' [(''source'', ''identity'')]) st
                   | Inr pr \<Rightarrow>
                       (let (rid, st1) = ingress_uuid st
                        in case validate_owner_command_envelope p pr (Some trace_id) rid of
                             Inl (code, message) \<Rightarrow>
                               refuse_with env trace_id None (Some (pr_principal_id pr)) (pr_principal_role pr) ''payload'' code message
                                 (error_response 400 trace_id code ''validation_error'' message ''api'' [(''source'', ''payload'')]) st1
                           | Inr e \<Rightarrow> govern_envelope env trace_id p pr e st1))))"

definition post_owner_command ::
  "ingress_env \<Rightarrow> ingress_headers \<Rightarrow> owner_command \<Rightarrow> ingress_state \<Rightarrow> (py_exn, command_response option, ingress_state) run" where
  "post_owner_command env h p st =
     (if owner_command_valid p then and_then (submit_owner_command env h p st) (\<lambda>r st'. (Inr (Some r), st')) else (Inr None, st))"

section \<open>What a request leaves untouched\<close>

definition same_books :: "ingress_state \<Rightarrow> ingress_state \<Rightarrow> bool" where
  "same_books st st' = (ig_admission st' = ig_admission st \<and> ig_governance st' = ig_governance st \<and>
     dr_mappings (ig_directory st') = dr_mappings (ig_directory st))"

lemma same_books_refl [simp]: "same_books st st"
  by (simp add: same_books_def)

lemma same_books_trans: "same_books a b \<Longrightarrow> same_books b c \<Longrightarrow> same_books a c"
  by (simp add: same_books_def)

lemma draws_same_books:
  "same_books st (snd (ingress_uuid st))" "same_books st (snd (ingress_now st))" "same_books st (snd (ingress_trace h p st))"
  by (simp_all add: same_books_def ingress_uuid_def ingress_now_def ingress_trace_def split: prod.split)

lemma audit_same_books: "same_books st (snd (ingress_audit env c st))"
  by (simp add: same_books_def ingress_audit_def split: prod.split)

lemma refuse_same_books: "same_books st (snd (refuse_with env tr rid pid role src code m response st))"
proof -
  have "same_books st (snd (emit_outcome env tr rid pid role src code m st))" by (simp add: emit_outcome_def audit_same_books)
  then show ?thesis unfolding refuse_with_def by (rule and_then_inv) simp
qed

lemma answer_same_books: "same_books st (snd (answer_admission env t replayed st))"
proof -
  have emit: "same_books st (snd (emit_replay env t o1 src m st))" for o1 src m by (simp add: emit_replay_def audit_same_books)
  have "same_books st (snd (and_then (emit_replay env t o1 src m st) (\<lambda>_ st'. (Inr x, st'))))" for o1 src m and x :: command_response
    by (rule and_then_inv [where P = "same_books st", OF emit]) simp
  then show ?thesis by (simp add: answer_admission_def)
qed

lemma admit_envelope_admission:
  "\<exists>i now. ig_admission (snd (admit_envelope env tr pr e st)) = snd (admit_owner_command (ie_digest env) (ig_admission st) e i now (ie_insert_fault env)) \<and>
     (\<forall>t. fst (admit_owner_command (ie_digest env) (ig_admission st) e i now (ie_insert_fault env)) = Inr (t, False) \<longrightarrow>
        fst (admit_envelope env tr pr e st) = Inr (accepted_response t ''queued'' False None None None None []))"
proof -
  obtain now st1 where n: "ingress_now st = (now, st1)" by (cases "ingress_now st")
  obtain i st2 where i: "ingress_uuid st1 = (i, st2)" by (cases "ingress_uuid st1")
  have ad: "ig_admission st2 = ig_admission st"
    using draws_same_books(2) [of st] draws_same_books(1) [of st1] by (simp add: n i same_books_def)
  obtain r a where r: "admit_owner_command (ie_digest env) (ig_admission st) e i now (ie_insert_fault env) = (r, a)"
    by (cases "admit_owner_command (ie_digest env) (ig_admission st) e i now (ie_insert_fault env)")
  have "ig_admission (snd (admit_envelope env tr pr e st)) = a"
    using refuse_same_books answer_same_books
    by (auto simp: admit_envelope_def n i ad r Let_def same_books_def split: sum.split admission_error.split)
  moreover have "fst (admit_envelope env tr pr e st) = Inr (accepted_response t ''queued'' False None None None None [])" if "r = Inr (t, False)" for t
    by (simp add: admit_envelope_def n i ad r Let_def that answer_admission_def)
  ultimately show ?thesis using r by (intro exI [of _ i] exI [of _ now]) simp
qed

section \<open>What an admitted command went through\<close>

text \<open>The status a chat's mapping has when the message arrives; a new one is pending.\<close>

definition channel_status :: "directory \<Rightarrow> mapping_key \<Rightarrow> string" where
  "channel_status d k = (case dir_statuses d k of None \<Rightarrow> ''pending'' | Some s \<Rightarrow> s)"

lemma claim_status: "claim_mapping k role d = (Inr m, d') \<Longrightarrow> \<exists>k'. normalize_key k = Inr k' \<and> im_status m = channel_status d k'"
  using claim_refines [of k role d]
  by (cases "normalize_key k") (auto simp: answers_mapping_def channel_status_def split: option.splits if_splits)

lemma governance_passes:
  assumes "validate_discord_governance p role gov d = (Inr x, d')" "oc_connector_channel p = ''discord''"
  obtains c k where "oc_discord_context p = Some c" "normalize_key (context_key p c) = Inr k" "chat_allows p c role (channel_status d k) gov"
proof -
  from assms obtain c m y where c: "oc_discord_context p = Some c" and m: "claim_mapping (context_key p c) ''owner'' d = (Inr m, d')"
    and y: "check_chat p c role m gov = Inr y"
    by (auto simp: validate_discord_governance_def split: option.splits prod.splits sum.splits)
  from claim_status [OF m] obtain k where "normalize_key (context_key p c) = Inr k" "im_status m = channel_status d k" by blast
  then show thesis using that c check_chat_Inr [of p c role m gov] y by auto
qed

lemma govern_envelope_admits:
  assumes "ig_admission (snd (govern_envelope env tr p pr e st)) \<noteq> ig_admission st"
  obtains x d where "validate_discord_governance p (pr_principal_role pr) (ig_governance st) (ig_directory st) = (Inr x, d)"
    "govern_envelope env tr p pr e st = admit_envelope env tr pr e (st\<lparr>ig_directory := d\<rparr>)"
proof -
  obtain r d where v: "validate_discord_governance p (pr_principal_role pr) (ig_governance st) (ig_directory st) = (r, d)"
    by (cases "validate_discord_governance p (pr_principal_role pr) (ig_governance st) (ig_directory st)")
  show thesis
  proof (cases r)
    case (Inl f)
    then show ?thesis using assms refuse_same_books [of "st\<lparr>ig_directory := d\<rparr>"]
      by (cases f) (simp_all add: govern_envelope_def v Let_def same_books_def)
  next
    case (Inr x)
    then show ?thesis by (intro that [of x d]) (simp_all add: govern_envelope_def v Let_def)
  qed
qed

lemma submit_admits:
  assumes "ig_admission (snd (submit_owner_command env h p st)) \<noteq> ig_admission st"
  obtains tr st1 a pr rid e where
    "missing_header h = None" "check_signature env h p = Inr a"
    "resolve_principal (principal_headers h) (PersistentDirectory (dr_mappings (ig_directory st))) = Inr pr"
    "validate_owner_command_envelope p pr (Some tr) rid = Inr e"
    "submit_owner_command env h p st = govern_envelope env tr p pr e st1" "same_books st st1"
proof -
  obtain tr st1 where t: "ingress_trace h p st = (tr, st1)" by (cases "ingress_trace h p st")
  have b1: "same_books st st1" using draws_same_books(3) [of st h p] by (simp add: t)
  obtain rid st2 where u: "ingress_uuid st1 = (rid, st2)" by (cases "ingress_uuid st1")
  have b2: "same_books st st2" using draws_same_books(1) [of st1] same_books_trans [OF b1] by (simp add: u)
  have ref: "ig_admission (snd (refuse_with env tr i j role src code m response s)) = ig_admission st" if "same_books st s" for i j role src code m response s
    using same_books_trans [OF that refuse_same_books] by (simp add: same_books_def)
  note sub = submit_owner_command_def t Let_def
  have keep: "ig_admission st1 = ig_admission st" using b1 by (simp add: same_books_def)
  from assms keep have mh: "missing_header h = None" by (auto simp: sub split: option.splits)
  obtain a where a: "check_signature env h p = Inr a"
  proof (cases "check_signature env h p")
    case (Inl x)
    then show thesis using assms keep ref [OF b1] by (cases x) (simp_all add: sub mh)
  qed
  have rows: "dr_mappings (ig_directory st1) = dr_mappings (ig_directory st)" using b1 by (simp add: same_books_def)
  obtain pr where pr: "resolve_principal (principal_headers h) (PersistentDirectory (dr_mappings (ig_directory st))) = Inr pr"
  proof (cases "resolve_principal (principal_headers h) (PersistentDirectory (dr_mappings (ig_directory st)))")
    case (Inl x)
    then show thesis using assms ref [OF b1] by (cases x) (simp add: sub mh a rows)
  qed
  obtain e where e: "validate_owner_command_envelope p pr (Some tr) rid = Inr e"
  proof (cases "validate_owner_command_envelope p pr (Some tr) rid")
    case (Inl x)
    then show thesis using assms ref [OF b2] by (cases x) (simp add: sub mh a rows pr u)
  qed
  show thesis by (rule that [OF mh a pr e _ b2]) (simp add: sub mh a rows pr u e)
qed

lemma admit_changes_repo:
  assumes "ad_repo (snd (admit_owner_command H st e i now fault)) \<noteq> ad_repo st"
  shows "ad_repo (snd (admit_owner_command H st e i now fault)) = ad_repo st @ [new_task e i now]"
    and "fst (admit_owner_command H st e i now fault) = Inr (new_task e i now, False)"
proof -
  have none: "claim_hash (ad_dedupe st) (env_key e) = None" using assms replay_keeps_state by metis
  obtain claims where snd: "snd (admit_owner_command H st e i now fault) = \<lparr>ad_dedupe = claims,
      ad_repo = (if fault = None \<and> find_row (ad_repo st) i = None then ad_repo st @ [new_task e i now] else ad_repo st)\<rparr>"
    and fst: "fst (admit_owner_command H st e i now fault) = (case fault of Some x \<Rightarrow> Inl (AdmissionExn x)
        | None \<Rightarrow> if find_row (ad_repo st) i = None then Inr (new_task e i now, False) else Inl (AdmissionExn (IntegrityError i)))"
    by (rule admit_fresh [OF none, of H i now fault])
  have new: "fault = None" "find_row (ad_repo st) i = None" using assms by (auto simp: snd split: if_splits)
  show "ad_repo (snd (admit_owner_command H st e i now fault)) = ad_repo st @ [new_task e i now]"
    and "fst (admit_owner_command H st e i now fault) = Inr (new_task e i now, False)"
    unfolding snd fst by (simp_all add: new)
qed

lemma signed_principal:
  assumes "missing_header h = None" "check_signature env h p = Inr a" "resolve_principal (principal_headers h) source = Inr pr"
  shows "pr_connector pr = oc_connector_channel p" "pr_principal_id pr = oc_actor_external_id p"
proof -
  from assms(1) obtain c i where h: "hd_external_channel h = Some c" "hd_external_actor_id h = Some i" "py_strip c \<noteq> []" "py_strip i \<noteq> []"
    by (auto simp: missing_header_def blank_header_def split: if_splits option.splits)
  have eq: "py_strip c = oc_connector_channel p" "py_strip i = oc_actor_external_id p"
    using assms(2) by (auto simp: check_signature_def validate_connector_auth_Inr header_differs_def h)
  have "optional_header (principal_headers h) ''x-external-channel'' = Some (py_strip c)"
    "optional_header (principal_headers h) ''x-openqilin-actor-external-id'' = Some (py_strip i)"
    by (simp_all add: optional_header_def principal_headers_def h or_none_def dict_get_def)
  then show "pr_connector pr = oc_connector_channel p" "pr_principal_id pr = oc_actor_external_id p"
    using assms(3) h(3,4) by (auto simp: resolve_principal_def or_opt_def truthy_def sum_bind_Inr eq split: if_splits)
qed

lemma envelope_fields:
  assumes "validate_owner_command_envelope p pr tr rid = Inr e"
  shows "env_principal_id e = pr_principal_id pr" "env_principal_role e = pr_principal_role pr" "env_connector e = pr_connector pr"
    "env_command e = py_strip (oc_action p)" "env_idempotency_key e = oc_idempotency_key p" "py_strip (oc_sender_actor_id p) = pr_principal_id pr"
  using assms by (auto simp: validate_owner_command_envelope_def Let_def split: if_splits raw_args.splits option.splits)

section \<open>Properties\<close>

definition verified_member :: "ingress_state \<Rightarrow> string \<Rightarrow> string \<Rightarrow> bool" where
  "verified_member st actor role = list_ex (\<lambda>r. im_status r = ''verified'' \<and> im_connector r = ''discord'' \<and>
     im_actor_external_id r = actor \<and> role = or_str (Some (im_principal_role r)) ''owner'') (dr_mappings (ig_directory st))"

definition authorized_task :: "ingress_env \<Rightarrow> ingress_headers \<Rightarrow> owner_command \<Rightarrow> ingress_state \<Rightarrow> task_record \<Rightarrow> bool" where
  "authorized_task env h p st t =
     ((case hd_signature h of None \<Rightarrow> False | Some s \<Rightarrow> normalize_signature s = ie_hmac env (ie_secret env) (oc_raw_payload_hash p)) \<and>
      tk_principal_id t = oc_actor_external_id p \<and> tk_principal_id t = py_strip (oc_sender_actor_id p) \<and>
      tk_connector t = oc_connector_channel p \<and> tk_idempotency_key t = oc_idempotency_key p \<and>
      tk_command t = py_strip (oc_action p) \<and> tk_status t = ''queued'' \<and>
      (if oc_connector_channel p = ''internal'' then tk_principal_role t = header_role (principal_headers h)
       else verified_member st (tk_principal_id t) (tk_principal_role t) \<and>
         (case oc_discord_context p of None \<Rightarrow> False
          | Some c \<Rightarrow> (case normalize_key (context_key p c) of Inl _ \<Rightarrow> False
              | Inr k \<Rightarrow> chat_allows p c (tk_principal_role t) (channel_status (ig_directory st) k) (ig_governance st)))))"

lemma verified_member_resolved:
  assumes "resolve_principal hs (PersistentDirectory (dr_mappings (ig_directory st))) = Inr pr" "pr_connector pr \<noteq> ''internal''"
  shows "verified_member st (pr_principal_id pr) (pr_principal_role pr)"
proof -
  note parts = resolve_principal_parts [OF assms(1)]
  have d: "pr_connector pr = ''discord''" "py_lower (py_strip ''discord'') = ''discord''" using parts(1) assms(2) by (auto, code_simp)
  with parts(3) obtain m where m: "get_by_connector_actor (dr_mappings (ig_directory st)) ''discord'' (pr_principal_id pr) = Some m"
    and "pr_principal_role pr = or_str (Some (im_principal_role m)) ''owner''"
    by (auto simp: resolve_role_def split: option.splits if_splits)
  moreover from m obtain r where "r \<in> set (dr_mappings (ig_directory st))" "m = mapping_from_row r" "im_status r = ''verified''"
    "im_connector r = ''discord''" "im_actor_external_id r = pr_principal_id pr"
    using d parts(2) by (elim get_by_connector_actor_Some) simp
  ultimately show ?thesis by (auto simp: verified_member_def list_ex_iff mapping_from_row_def)
qed

text \<open>
  C5: what a request that stores a task has passed. If a request changes the stored tasks at all, it appends one queued task and
  is answered as accepted; its hash field is signed, the task belongs to the actor named by headers, connector metadata and sender
  alike. For Discord that actor has a verified identity mapping, which gives the task's role, the mapping of the channel is not
  revoked (a pending one passes, see \<open>pending_channel_as_verified\<close>), the role is a member of the chat class, every known recipient
  role is an active member of it, and a project channel is open for the sender and the command. For the internal connector nothing is
  verified: the task's role is the one the caller's own header names (\<open>internal_role_self_asserted\<close>).
\<close>

theorem task_stored_only_if_authorized:
  assumes "ad_repo (ig_admission (snd (submit_owner_command env h p st))) \<noteq> ad_repo (ig_admission st)"
  shows "\<exists>t. ad_repo (ig_admission (snd (submit_owner_command env h p st))) = ad_repo (ig_admission st) @ [t] \<and>
    authorized_task env h p st t \<and>
    fst (submit_owner_command env h p st) = Inr (accepted_response t ''queued'' False None None None None [])"
proof -
  from assms have "ig_admission (snd (submit_owner_command env h p st)) \<noteq> ig_admission st" by auto
  then obtain tr st1 a pr rid e where mh: "missing_header h = None" and a: "check_signature env h p = Inr a"
    and pr: "resolve_principal (principal_headers h) (PersistentDirectory (dr_mappings (ig_directory st))) = Inr pr"
    and e: "validate_owner_command_envelope p pr (Some tr) rid = Inr e"
    and sub: "submit_owner_command env h p st = govern_envelope env tr p pr e st1" and b: "same_books st st1"
    by (rule submit_admits)
  have "ig_admission (snd (govern_envelope env tr p pr e st1)) \<noteq> ig_admission st1" using assms b by (auto simp: sub same_books_def)
  then obtain x d where v: "validate_discord_governance p (pr_principal_role pr) (ig_governance st1) (ig_directory st1) = (Inr x, d)"
    and gov: "govern_envelope env tr p pr e st1 = admit_envelope env tr pr e (st1\<lparr>ig_directory := d\<rparr>)"
    by (rule govern_envelope_admits)
  let ?admit = "\<lambda>i now. admit_owner_command (ie_digest env) (ig_admission st) e i now (ie_insert_fault env)"
  have same: "ig_admission st1 = ig_admission st" "ig_governance st1 = ig_governance st"
    "channel_status (ig_directory st1) = channel_status (ig_directory st)"
    using b by (simp_all add: same_books_def channel_status_def dir_statuses_def fun_eq_iff)
  from admit_envelope_admission [of env tr pr e "st1\<lparr>ig_directory := d\<rparr>"] same(1) obtain i now where
    ad: "ig_admission (snd (submit_owner_command env h p st)) = snd (?admit i now)"
    and ans: "\<And>t. fst (?admit i now) = Inr (t, False) \<Longrightarrow>
      fst (submit_owner_command env h p st) = Inr (accepted_response t ''queued'' False None None None None [])"
    by (auto simp: sub gov)
  let ?t = "new_task e i now"
  note stored = admit_changes_repo [of "ie_digest env" "ig_admission st" e i now "ie_insert_fault env"]
  note who = signed_principal [OF mh a pr]
  have conn: "pr_connector pr \<in> {''discord'', ''internal''}" using resolve_principal_parts(1) [OF pr] .
  have "authorized_task env h p st ?t"
  proof (cases "oc_connector_channel p = ''internal''")
    case True
    then have "pr_principal_role pr = header_role (principal_headers h)"
      using resolve_principal_parts(3) [OF pr] who by (simp add: resolve_role_def)
    then show ?thesis using a True who envelope_fields [OF e]
      by (auto simp: authorized_task_def new_task_def check_signature_def validate_connector_auth_Inr)
  next
    case False
    then have "oc_connector_channel p = ''discord''" using conn who by auto
    from governance_passes [OF v this] obtain c k where "oc_discord_context p = Some c" "normalize_key (context_key p c) = Inr k"
      "chat_allows p c (pr_principal_role pr) (channel_status (ig_directory st) k) (ig_governance st)"
      unfolding same by blast
    then show ?thesis using a False who envelope_fields [OF e] verified_member_resolved [OF pr]
      by (auto simp: authorized_task_def new_task_def check_signature_def validate_connector_auth_Inr)
  qed
  then show ?thesis using stored ans assms ad by (intro exI [of _ ?t]) simp
qed

text \<open>
  The signature covers nothing but the hash that the caller sends along. Once one request with a signature has passed
  the check, every request with the same hash field passes it with that signature, whatever its command, target,
  recipients, project, actor and idempotency key are, as long as its own headers repeat its own metadata.
\<close>

theorem signature_covers_only_hash_field:
  assumes "check_signature env h p = Inr a" "hd_signature h' = hd_signature h" "oc_raw_payload_hash q = oc_raw_payload_hash p"
    and "\<not> header_differs (hd_external_channel h') (oc_connector_channel q)" "\<not> header_differs (hd_external_actor_id h') (oc_actor_external_id q)"
    and "\<not> header_differs (hd_idempotency_key h') (oc_idempotency_key q)"
  shows "\<exists>b. check_signature env h' q = Inr b"
  using assms unfolding check_signature_def validate_connector_auth_Inr by auto

text \<open>A caller of the internal connector has the role it names; no directory entry is needed.\<close>

lemma internal_role_self_asserted:
  assumes "hd_external_channel h = Some ''internal''" "hd_external_actor_id h = Some actor" "py_strip actor \<noteq> []"
    and "hd_actor_role h = Some role" "py_strip role \<noteq> []"
  shows "resolve_principal (principal_headers h) source =
    Inr \<lparr>pr_principal_id = py_strip actor, pr_connector = ''internal'', pr_principal_role = py_strip role, pr_trust_domain = ''internal''\<rparr>"
proof -
  have "py_strip ''internal'' = ''internal''" by code_simp
  moreover have "role \<noteq> []" using assms(5) by (auto simp: py_strip_def py_lstrip_def)
  ultimately show ?thesis
    using assms by (simp add: resolve_principal_def resolve_role_def header_role_def optional_header_def principal_headers_def dict_get_def
        or_opt_def or_none_def or_str_def truthy_def)
qed

text \<open>A channel whose mapping is pending is as good as a verified one.\<close>

lemma pending_channel_as_verified: "chat_allows p c role ''pending'' gov = chat_allows p c role ''verified'' gov"
  by (simp add: chat_allows_def)

text \<open>Repeating a command whose task has been completed is answered as denied.\<close>

lemma completed_replay_denied:
  assumes "tk_status t = ''completed''" "ie_audit_fault env (lg_attempts (ig_audit st)) = None"
  shows "\<exists>r st'. answer_admission env t True st = (Inr r, st') \<and> rs_status r = ''denied'' \<and> rs_http_status r = 403"
  using assms by (simp add: answer_admission_def emit_replay_def ingress_audit_def write_event_def Let_def replayed_response_def denied_response_def)

section \<open>Witnesses\<close>

definition demo_ingress_env :: ingress_env where
  "demo_ingress_env = \<lparr>ie_hmac = (\<lambda>secret m. secret @ m), ie_secret = ''s'', ie_digest = demo_digest, ie_audit_fault = (\<lambda>_. None),
     ie_insert_fault = None\<rparr>"

definition demo_ingress_headers :: ingress_headers where
  "demo_ingress_headers = \<lparr>hd_trace_id = None, hd_external_channel = Some ''discord'', hd_external_actor_id = Some ''u-1'',
     hd_actor_role = Some ''owner'', hd_idempotency_key = Some ''key-0001'', hd_signature = Some ''sha256=sh-1''\<rparr>"

definition demo_post :: owner_command where
  "demo_post = demo_command\<lparr>oc_sender_actor_id := ''u-1'', oc_actor_external_id := ''u-1'', oc_idempotency_key := ''key-0001'',
     oc_raw_payload_hash := ''h-1'', oc_discord_context := Some \<lparr>dc_guild_id = ''g-1'', dc_channel_id = ''c-2'', dc_channel_type = ''text'',
       dc_chat_class = ''direct''\<rparr>\<rparr>"

definition demo_ingress_state :: ingress_state where
  "demo_ingress_state = \<lparr>ig_directory = fold apply_op demo_directory_ops demo_directory, ig_governance = no_projects demo_rt,
     ig_admission = initial_admission, ig_audit = \<lparr>lg_rows = [], lg_attempts = 0\<rparr>\<rparr>"

lemma demo_post_stores:
  "ad_repo (ig_admission (snd (submit_owner_command demo_ingress_env demo_ingress_headers demo_post demo_ingress_state))) \<noteq>
   ad_repo (ig_admission demo_ingress_state)"
  by code_simp

theorem task_stored_only_if_authorized_witness:
  "\<exists>t. ad_repo (ig_admission (snd (submit_owner_command demo_ingress_env demo_ingress_headers demo_post demo_ingress_state))) = [t] \<and>
     authorized_task demo_ingress_env demo_ingress_headers demo_post demo_ingress_state t"
  using task_stored_only_if_authorized [OF demo_post_stores] by (auto simp: demo_ingress_state_def initial_admission_def)

lemma demo_signature:
  "check_signature demo_ingress_env demo_ingress_headers demo_post =
     Inr \<lparr>ca_channel = ''discord'', ca_actor_external_id = ''u-1'', ca_idempotency_key = ''key-0001'', ca_raw_payload_hash = ''h-1''\<rparr>"
  by code_simp

theorem signature_covers_only_hash_field_witness:
  "\<exists>b. check_signature demo_ingress_env
     (demo_ingress_headers\<lparr>hd_external_channel := Some ''internal'', hd_external_actor_id := Some ''root'', hd_actor_role := Some ''ceo'',
        hd_idempotency_key := Some ''key-0002''\<rparr>)
     (demo_post\<lparr>oc_connector_channel := ''internal'', oc_actor_external_id := ''root'', oc_idempotency_key := ''key-0002'', oc_action := ''delete_all''\<rparr>) = Inr b"
proof -
  have strip: "py_strip ''internal'' = ''internal''" "py_strip ''root'' = ''root''" "py_strip ''key-0002'' = ''key-0002''" by code_simp+
  show ?thesis by (rule signature_covers_only_hash_field [OF demo_signature]) (simp_all add: header_differs_def strip)
qed

end
