(* ===== verification/Grammar.thy ===== *)
theory Grammar
  imports Prelude
begin

text \<open>
  From a chat message to a command, an intent and a role.
  \<^item> \<^verbatim>\<open>control_plane/grammar/models.py\<close>, \<^verbatim>\<open>command_parser.py\<close>: compact commands, with \<^verbatim>\<open>shlex.split\<close> of Python's library;
  \<^item> \<^verbatim>\<open>intent_classifier.py\<close>: the intent of a command by its verb, of free text by a language model, with a cache;
  \<^item> \<^verbatim>\<open>free_text_router.py\<close>, \<^verbatim>\<open>control_plane/advisory/topic_router.py\<close>: the role that answers.

  The language model is a parameter: the decision and the text it answers to a prompt. Python leaves the order of the
  keywords in a \<^verbatim>\<open>frozenset\<close> open; here it is the order of the table.
\<close>

section \<open>Splitting a command line\<close>

abbreviation single_quote :: char where "single_quote \<equiv> CHR 0x27"
abbreviation double_quote :: char where "double_quote \<equiv> CHR 0x22"
abbreviation backslash :: char where "backslash \<equiv> CHR 0x5C"

text \<open>
  \<^verbatim>\<open>shlex.split(s)\<close>: POSIX rules, words end at blanks only, no comments. \<open>Quoted q\<close> is the state inside quotes \<open>q\<close>;
  \<open>Escaped q\<close> follows a backslash, inside double quotes or in a word.
\<close>

datatype lex_state = Word | Quoted char | Escaped "char option"

definition lex_blank :: "char \<Rightarrow> bool" where
  "lex_blank c = (c \<in> {CHR '' '', CHR 0x09, CHR 0x0D, CHR 0x0A})"

fun lex_between :: "string \<Rightarrow> py_exn + string list"
  and lex_token :: "lex_state \<Rightarrow> string \<Rightarrow> string \<Rightarrow> py_exn + string list" where
  "lex_between [] = Inr []"
| "lex_between (c # s) =
     (if lex_blank c then lex_between s
      else if c = backslash then lex_token (Escaped None) [] s
      else if c \<in> {single_quote, double_quote} then lex_token (Quoted c) [] s
      else lex_token Word [c] s)"
| "lex_token Word tok [] = Inr [tok]"
| "lex_token (Quoted q) tok [] = Inl (OtherExn ''No closing quotation'')"
| "lex_token (Escaped q) tok [] = Inl (OtherExn ''No escaped character'')"
| "lex_token Word tok (c # s) =
     (if lex_blank c then map_sum id (\<lambda>ts. tok # ts) (lex_between s)
      else if c \<in> {single_quote, double_quote} then lex_token (Quoted c) tok s
      else if c = backslash then lex_token (Escaped None) tok s
      else lex_token Word (tok @ [c]) s)"
| "lex_token (Quoted q) tok (c # s) =
     (if c = q then lex_token Word tok s
      else if c = backslash \<and> q = double_quote then lex_token (Escaped (Some q)) tok s
      else lex_token (Quoted q) (tok @ [c]) s)"
| "lex_token (Escaped q) tok (c # s) =
     (case q of None \<Rightarrow> lex_token Word (tok @ [c]) s
      | Some d \<Rightarrow> lex_token (Quoted d) (tok @ (if c \<noteq> backslash \<and> c \<noteq> d then [backslash, c] else [c])) s)"

definition shlex_split :: "string \<Rightarrow> py_exn + string list" where
  "shlex_split s = lex_between s"

section \<open>Compact commands\<close>

record command_envelope =
  cm_verb :: string
  cm_target :: "string option"
  cm_args :: "string list"
  cm_raw_input :: string

datatype grammar_error = GrammarParseError string string "(string \<times> string) list"

definition known_verbs :: "string list" where
  "known_verbs = [''project'', ''ask'', ''status'', ''escalate'', ''approve'', ''deny'', ''doctor'', ''discord'', ''governance'']"

definition parse_command :: "string \<Rightarrow> grammar_error + command_envelope" where
  "parse_command raw_input =
     (let stripped = py_strip raw_input; raw = (''raw_input'', take 256 raw_input)
      in if \<not> py_startswith stripped ''/oq''
         then Inl (GrammarParseError ''GRAM-005'' (''input is not a compact command (must start with '' @ py_repr ''/oq'' @ '')'') [raw])
         else case shlex_split stripped of
           Inl e \<Rightarrow> Inl (GrammarParseError ''GRAM-005'' (''malformed command syntax: '' @ exn_text e) [raw])
         | Inr tokens \<Rightarrow>
             if length tokens < 2
             then Inl (GrammarParseError ''GRAM-005'' ''compact command requires a verb: /oq <verb> [target] [args]'' [raw])
             else let verb = py_lower (tokens ! 1)
                  in if verb \<notin> set known_verbs
                     then Inl (GrammarParseError ''GRAM-005'' (''unrecognized verb '' @ py_repr verb @ ''; supported: ['' @
                            py_join '', '' (map py_repr (sort known_verbs)) @ '']'') [(''verb'', verb), raw])
                     else Inr (let remainder = drop 2 tokens
                               in \<lparr>cm_verb = verb, cm_target = (case remainder of [] \<Rightarrow> None | t # _ \<Rightarrow> Some t),
                                   cm_args = drop 1 remainder, cm_raw_input = raw_input\<rparr>))"

section \<open>Intents\<close>

datatype intent_class = Discussion | Query | Mutation | Admin

record chat_context =
  cx_chat_class :: string
  cx_channel_id :: string
  cx_project_id :: "string option"

definition mutation_verbs :: "string list" where
  "mutation_verbs = [''project'', ''escalate'', ''approve'', ''deny'']"

definition query_verbs :: "string list" where
  "query_verbs = [''ask'', ''status'']"

definition admin_verbs :: "string list" where
  "admin_verbs = [''doctor'', ''discord'', ''governance'']"

definition verb_intent :: "string \<Rightarrow> intent_class" where
  "verb_intent verb =
     (if verb \<in> set mutation_verbs then Mutation
      else if verb \<in> set query_verbs then Query
      else if verb \<in> set admin_verbs then Admin
      else Mutation)"

definition classify_command_intent :: "string \<Rightarrow> intent_class" where
  "classify_command_intent message =
     (let tokens = py_split_ws message in if length tokens < 2 then Admin else verb_intent (py_lower (tokens ! 1)))"

definition parse_intent_token :: "string \<Rightarrow> intent_class" where
  "parse_intent_token raw =
     (if py_contains raw ''discussion'' then Discussion
      else if py_contains raw ''query'' then Query
      else if py_contains raw ''mutation'' then Mutation
      else if py_contains raw ''admin'' then Admin
      else Discussion)"

definition classification_prompt :: "string \<Rightarrow> string" where
  "classification_prompt message =
     ''Classify the following owner message into exactly one intent class:'' @ [CHR 0x0A] @
     ''- discussion: open-ended conversation, planning, reasoning, exploration'' @ [CHR 0x0A] @
     ''- query: read-only information or status request'' @ [CHR 0x0A] @
     ''- mutation: explicit governed state change'' @ [CHR 0x0A] @
     ''- admin: operator-level system action'' @ [CHR 0x0A, CHR 0x0A] @
     ''Respond with only one word (discussion, query, mutation, or admin). No punctuation.'' @ [CHR 0x0A, CHR 0x0A] @
     ''Message:'' @ [CHR 0x0A] @ message @ [CHR 0x0A]"

text \<open>
  The classifier's state: its cache, from the message's first thousand characters and the channel to an intent and its
  instant, and the number of calls of the model made so far. \<open>now\<close> is \<^verbatim>\<open>time.monotonic()\<close> in milliseconds.
\<close>

record classifier =
  cl_cache :: "((string \<times> string) \<times> intent_class \<times> int) list"
  cl_calls :: nat

type_synonym intent_model = "nat \<Rightarrow> string \<Rightarrow> string \<times> string option"

definition cache_ttl :: int where
  "cache_ttl = 60000"

definition ask_model :: "intent_model \<Rightarrow> string \<Rightarrow> chat_context \<Rightarrow> int \<Rightarrow> classifier \<Rightarrow> (grammar_error, intent_class, classifier) run" where
  "ask_model model message ctx now c =
     (let (decision, generated) = model (cl_calls c) (classification_prompt (take 1000 message));
          c' = c\<lparr>cl_calls := Suc (cl_calls c)\<rparr>
      in if decision \<notin> {''served'', ''fallback_served''} then (Inr Discussion, c')
         else let intent = parse_intent_token (py_lower (py_strip (or_str generated [])))
              in if intent = Mutation
                 then (Inl (GrammarParseError ''GRAM-004'' (''free-text input cannot be dispatched as a governed mutation. '' @
                         ''Use explicit command syntax: /oq <verb> [target] [args]'')
                         [(''detected_intent'', ''mutation''), (''input_preview'', take 256 message)]), c')
                 else (Inr intent, c'\<lparr>cl_cache := dict_put (cl_cache c') (take 1000 message, cx_channel_id ctx) (intent, now)\<rparr>))"

definition classify_free_text ::
  "intent_model \<Rightarrow> string \<Rightarrow> chat_context \<Rightarrow> int \<Rightarrow> classifier \<Rightarrow> (grammar_error, intent_class, classifier) run" where
  "classify_free_text model message ctx now c =
     (case map_of (cl_cache c) (take 1000 message, cx_channel_id ctx) of
        Some (result, ts) \<Rightarrow> if now - ts < cache_ttl then (Inr result, c) else ask_model model message ctx now c
      | None \<Rightarrow> ask_model model message ctx now c)"

definition classify :: "intent_model \<Rightarrow> string \<Rightarrow> chat_context \<Rightarrow> int \<Rightarrow> classifier \<Rightarrow> (grammar_error, intent_class, classifier) run" where
  "classify model message ctx now c =
     (if py_startswith (py_strip message) ''/oq'' then (Inr (classify_command_intent (py_strip message)), c)
      else classify_free_text model (py_strip message) ctx now c)"

section \<open>Routing\<close>

record routing_hint =
  rh_target_role :: string
  rh_project_id :: "string option"
  rh_confidence :: rat

definition route_free_text :: "intent_class \<Rightarrow> chat_context \<Rightarrow> routing_hint" where
  "route_free_text intent ctx =
     (let hint = (\<lambda>role confidence. \<lparr>rh_target_role = role, rh_project_id = cx_project_id ctx, rh_confidence = confidence\<rparr>)
      in if cx_chat_class ctx = ''project'' then hint ''project_manager'' (9 / 10)
         else if cx_chat_class ctx \<in> {''leadership_council'', ''executive''} \<and> intent \<in> {Mutation, Admin} then hint ''cso'' (9 / 10)
         else if cx_chat_class ctx \<in> {''leadership_council'', ''governance'', ''executive''} \<and> intent \<in> {Discussion, Query}
         then hint ''secretary'' (9 / 10)
         else hint ''secretary'' (7 / 10))"

definition topic_routing_table :: "(string \<times> string list) list" where
  "topic_routing_table =
     [(''auditor'', [''budget'', ''spend'', ''spending'', ''compliance'', ''violation'', ''audit'', ''trail'', ''financial'', ''expenditure'',
        ''cost'', ''overrun'', ''breach'', ''governance breach'', ''expense'', ''invoice'', ''payment'', ''transaction'', ''penalty'']),
      (''cso'', [''strategic'', ''strategy'', ''portfolio'', ''alignment'', ''cross-project'', ''opportunity'', ''conflict'', ''risk'',
        ''roadmap'', ''review'', ''evaluate'', ''priority'', ''prioritize'', ''strategic review'', ''cross-project risk'']),
      (''project_manager'', [''task'', ''assignment'', ''blocked'', ''milestone'', ''progress'', ''execution plan'', ''sprint'', ''backlog'',
        ''status'', ''deadline'', ''schedule'', ''report'', ''timeline'', ''deliverable'', ''velocity'', ''issue'']),
      (''cwo'', [''charter'', ''workforce'', ''initialization'', ''specialist'', ''workforce plan'', ''role binding'', ''agent activation'',
        ''activate'', ''deactivate'', ''onboard'', ''onboarding'', ''team'', ''headcount'']),
      (''ceo'', [''approve'', ''directive'', ''executive'', ''authorize'', ''escalation'', ''final decision'', ''approval'', ''decision'',
        ''decide'', ''veto'', ''agreement'', ''endorse'']),
      (''administrator'', [''infrastructure'', ''infra'', ''document policy'', ''retention'', ''quarantine'', ''integrity'', ''hash'',
        ''system health'', ''health check'', ''policy enforcement'', ''agent health''])]"

record routing_decision =
  rd_agent_role :: string
  rd_confidence :: string
  rd_matched_keywords :: "string list"

definition topic_matches :: "(string \<times> string list) list \<Rightarrow> string \<Rightarrow> (string \<times> string list) list" where
  "topic_matches table text =
     filter (\<lambda>(role, matched). matched \<noteq> []) (map (\<lambda>(role, keywords). (role, filter (py_contains (py_lower text)) keywords)) table)"

definition decision_for :: "string \<times> string list \<Rightarrow> routing_decision" where
  "decision_for m = \<lparr>rd_agent_role = fst m, rd_confidence = ''high'', rd_matched_keywords = snd m\<rparr>"

definition classify_topic :: "(string \<times> string list) list \<Rightarrow> string \<Rightarrow> routing_decision option" where
  "classify_topic table text =
     (case topic_matches table text of
        [] \<Rightarrow> None
      | [m] \<Rightarrow> Some (decision_for m)
      | ms \<Rightarrow> (let max_count = Max (set (map (length \<circ> snd) ms))
               in case filter (\<lambda>m. length (snd m) = max_count) ms of [m] \<Rightarrow> Some (decision_for m) | _ \<Rightarrow> None))"

section \<open>Printing and parsing\<close>

text \<open>A token in single quotes; a single quote inside it is written in double quotes.\<close>

definition quote_char :: "char \<Rightarrow> string" where
  "quote_char c = (if c = single_quote then [single_quote, double_quote, single_quote, double_quote, single_quote] else [c])"

definition quote_token :: "string \<Rightarrow> string" where
  "quote_token t = single_quote # concat (map quote_char t) @ [single_quote]"

definition print_command :: "string \<Rightarrow> string list \<Rightarrow> string" where
  "print_command verb ts = ''/oq '' @ verb @ concat (map (\<lambda>t. CHR '' '' # quote_token t) ts)"

lemma lex_quoted:
  "lex_token (Quoted single_quote) tok (concat (map quote_char t) @ single_quote # s) = lex_token Word (tok @ t) s"
  by (induction t arbitrary: tok) (simp_all add: quote_char_def lex_blank_def)

lemma lex_word:
  "list_all (\<lambda>c. \<not> lex_blank c \<and> c \<notin> {single_quote, double_quote, backslash}) w \<Longrightarrow> lex_token Word tok (w @ s) = lex_token Word (tok @ w) s"
  by (induction w arbitrary: tok) simp_all

lemma lex_tokens: "lex_token Word tok (concat (map (\<lambda>t. CHR '' '' # quote_token t) ts)) = Inr (tok # ts)"
proof (induction ts arbitrary: tok)
  case (Cons t ts)
  have "lex_between (quote_token t @ s) = lex_token Word t s" for s
    using lex_quoted [of "[]" t s] by (simp add: quote_token_def lex_blank_def)
  then show ?case by (simp add: lex_blank_def Cons.IH)
qed simp

lemma py_strip_inner:
  assumes "s \<noteq> []" "\<not> py_isspace (hd s)" "\<not> py_isspace (last s)"
  shows "py_strip s = s"
  using assms dropWhile_suffix_hd [of s py_isspace] dropWhile_suffix_hd [of "rev s" py_isspace]
  by (simp add: py_strip_def py_lstrip_def hd_rev)

lemma known_verbs_plain:
  assumes "verb \<in> set known_verbs"
  shows "list_all (\<lambda>c. \<not> lex_blank c \<and> c \<notin> {single_quote, double_quote, backslash}) verb" "py_lower verb = verb" "\<not> py_isspace (last verb)" "verb \<noteq> []"
proof -
  let ?p = "\<lambda>v. list_all (\<lambda>c. \<not> lex_blank c \<and> c \<notin> {single_quote, double_quote, backslash}) v \<and> py_lower v = v \<and> \<not> py_isspace (last v) \<and> v \<noteq> []"
  have "list_all ?p known_verbs" by code_simp
  then have "?p verb" using assms by (simp only: list_all_iff) blast
  then show "list_all (\<lambda>c. \<not> lex_blank c \<and> c \<notin> {single_quote, double_quote, backslash}) verb" "py_lower verb = verb" "\<not> py_isspace (last verb)" "verb \<noteq> []"
    by auto
qed

lemma print_command_strip:
  assumes "verb \<in> set known_verbs"
  shows "py_strip (print_command verb ts) = print_command verb ts"
proof (rule py_strip_inner)
  have "last (concat (map (\<lambda>t. CHR '' '' # quote_token t) (ts @ [t]))) = single_quote" for ts t by (simp add: quote_token_def)
  then have "ts \<noteq> [] \<Longrightarrow> last (concat (map (\<lambda>t. CHR '' '' # quote_token t) ts)) = single_quote" by (metis rev_exhaust)
  then show "\<not> py_isspace (last (print_command verb ts))"
    using known_verbs_plain [OF assms] by (cases "ts = []") (auto simp: print_command_def last_append py_isspace_def Let_def)
  show "\<not> py_isspace (hd (print_command verb ts))" by (simp add: print_command_def py_isspace_def)
qed (simp add: print_command_def)

lemma shlex_print_command:
  assumes "verb \<in> set known_verbs"
  shows "shlex_split (print_command verb ts) = Inr (''/oq'' # verb # ts)"
proof -
  note v = known_verbs_plain [OF assms]
  obtain c w where verb: "verb = c # w" using v(4) by (cases verb) auto
  have w: "lex_between (verb @ s) = lex_token Word verb s" for s
    using v(1) lex_word [of w "[c]" s] by (simp add: verb)
  show ?thesis by (simp add: shlex_split_def print_command_def w lex_tokens lex_blank_def)
qed

text \<open>
  C38: every command can be written and is read back. For every known verb and every list of target and arguments,
  whatever characters they contain, the command printed with quoted tokens parses to exactly that verb, target and
  arguments.
\<close>

theorem command_print_parse:
  assumes "verb \<in> set known_verbs"
  shows "parse_command (print_command verb ts) =
    Inr \<lparr>cm_verb = verb, cm_target = (case ts of [] \<Rightarrow> None | t # _ \<Rightarrow> Some t), cm_args = drop 1 ts, cm_raw_input = print_command verb ts\<rparr>"
proof -
  have "py_startswith (print_command verb ts) ''/oq''" by (simp add: py_startswith_def print_command_def)
  then show ?thesis
    using known_verbs_plain(2) [OF assms] assms
    by (simp add: parse_command_def print_command_strip [OF assms] shlex_print_command [OF assms])
qed

theorem command_print_parse_witness:
  "parse_command (print_command ''approve'' [''p 1'', ''it's fine'']) =
    Inr \<lparr>cm_verb = ''approve'', cm_target = Some ''p 1'', cm_args = [''it's fine''], cm_raw_input = print_command ''approve'' [''p 1'', ''it's fine'']\<rparr>"
  using command_print_parse [of "''approve''" "[''p 1'', ''it's fine'']"] by (simp add: known_verbs_def)

section \<open>Parser and classifier\<close>

definition plain_char :: "char \<Rightarrow> bool" where
  "plain_char c = (c \<notin> {single_quote, double_quote, backslash} \<and> (py_isspace c \<longrightarrow> lex_blank c))"

lemma lex_blank_space: "lex_blank c \<Longrightarrow> py_isspace c"
  by (auto simp: lex_blank_def py_isspace_def Let_def)

lemma lex_plain_steps:
  "list_all plain_char s \<Longrightarrow> lex_between s = Inr (py_split_ws_acc [] s) \<and>
     (\<forall>tok. tok \<noteq> [] \<longrightarrow> lex_token Word tok s = Inr (py_split_ws_acc (rev tok) s))"
proof (induction s)
  case (Cons c s)
  have "py_isspace c = lex_blank c" using Cons.prems lex_blank_space by (auto simp: plain_char_def)
  then show ?case using Cons by (simp add: plain_char_def)
qed simp

lemmas lex_plain = lex_plain_steps [THEN conjunct1]

lemma parse_command_verb:
  assumes "parse_command raw = Inr e"
  obtains ts where "shlex_split (py_strip raw) = Inr ts" "2 \<le> length ts" "cm_verb e = py_lower (ts ! 1)" "py_startswith (py_strip raw) ''/oq''"
  using assms by (auto simp: parse_command_def Let_def not_less split: if_splits sum.splits)

text \<open>
  Parser and classifier agree on plain commands. A message without quotes, backslashes and exotic blanks that parses
  as a command is classified by the verb the parser found, without asking the language model and without touching the
  cache.
\<close>

theorem plain_command_intent:
  assumes "parse_command raw = Inr e" "list_all plain_char (py_strip raw)"
  shows "classify model raw ctx now c = (Inr (verb_intent (cm_verb e)), c)"
proof -
  obtain ts where ts: "shlex_split (py_strip raw) = Inr ts" "2 \<le> length ts" "cm_verb e = py_lower (ts ! 1)" "py_startswith (py_strip raw) ''/oq''"
    by (rule parse_command_verb [OF assms(1)])
  have "ts = py_split_ws (py_strip raw)" using ts(1) lex_plain [OF assms(2)] by (simp add: shlex_split_def py_split_ws_def)
  then show ?thesis using ts by (simp add: classify_def classify_command_intent_def Let_def)
qed

text \<open>With quotes they differ: an approval that is classified as a query. Any word with the prefix is read as the prefix.\<close>

definition hidden_approval :: string where
  "hidden_approval = ''/oq'' @ [double_quote] @ '' ask '' @ [double_quote] @ '' approve p1''"

lemma quotes_hide_mutation:
  "classify_command_intent hidden_approval = Query"
  "parse_command hidden_approval = Inr \<lparr>cm_verb = ''approve'', cm_target = Some ''p1'', cm_args = [], cm_raw_input = hidden_approval\<rparr>"
  by code_simp+

lemma prefix_not_a_word:
  "parse_command ''/oqxyz approve p1'' = Inr \<lparr>cm_verb = ''approve'', cm_target = Some ''p1'', cm_args = [], cm_raw_input = ''/oqxyz approve p1''\<rparr>"
  by code_simp

section \<open>Free text\<close>

definition cache_ok :: "classifier \<Rightarrow> bool" where
  "cache_ok c = (\<forall>k r. map_of (cl_cache c) k = Some r \<longrightarrow> fst r \<noteq> Mutation)"

definition refused_free_text :: "grammar_error \<Rightarrow> classifier \<Rightarrow> bool" where
  "refused_free_text e c = (cache_ok c \<and> (\<exists>m d. e = GrammarParseError ''GRAM-004'' m d))"

lemma ask_model_ok:
  "cache_ok c \<Longrightarrow> run_ok (\<lambda>intent c'. intent \<noteq> Mutation \<and> cache_ok c') refused_free_text (ask_model model message ctx now c)"
  by (auto simp: ask_model_def Let_def refused_free_text_def cache_ok_def map_of_dict_put split: prod.split)

lemma classify_free_text_ok:
  "cache_ok c \<Longrightarrow> run_ok (\<lambda>intent c'. intent \<noteq> Mutation \<and> cache_ok c') refused_free_text (classify_free_text model message ctx now c)"
  using ask_model_ok unfolding classify_free_text_def by (auto split: option.split) (auto simp: cache_ok_def)

fun run_classify :: "intent_model \<Rightarrow> (string \<times> chat_context \<times> int) list \<Rightarrow> classifier \<Rightarrow> classifier" where
  "run_classify model [] c = c"
| "run_classify model ((message, ctx, now) # xs) c = run_classify model xs (snd (classify model message ctx now c))"

lemma cache_ok_run: "cache_ok c \<Longrightarrow> cache_ok (run_classify model xs c)"
proof (induction xs arbitrary: c)
  case (Cons x xs)
  obtain message ctx now where x: "x = (message, ctx, now)" by (cases x)
  have "cache_ok (snd (classify model message ctx now c))"
    using classify_free_text_ok [OF Cons.prems, of model "py_strip message" ctx now] Cons.prems
    by (auto simp: classify_def run_ok_def refused_free_text_def split: prod.splits sum.splits)
  then show ?case by (simp add: x Cons.IH)
qed simp

text \<open>
  Free text never becomes a mutation. Whatever the language model answers and whatever was classified before, a message
  that is not a compact command is classified as discussion, query or administration, or is refused with GRAM-004; a
  mutation needs an explicit command.
\<close>

theorem free_text_never_mutation:
  assumes "\<not> py_startswith (py_strip message) ''/oq''"
    and "fst (classify model message ctx now (run_classify model xs \<lparr>cl_cache = [], cl_calls = 0\<rparr>)) = r"
  shows "r \<in> {Inr Discussion, Inr Query, Inr Admin} \<or> (\<exists>m d. r = Inl (GrammarParseError ''GRAM-004'' m d))"
proof -
  let ?c = "run_classify model xs \<lparr>cl_cache = [], cl_calls = 0\<rparr>"
  have ok: "cache_ok ?c" by (rule cache_ok_run) (simp add: cache_ok_def)
  have "run_ok (\<lambda>intent c'. intent \<noteq> Mutation \<and> cache_ok c') refused_free_text (classify model message ctx now ?c)"
    using classify_free_text_ok [OF ok, of model "py_strip message" ctx now] assms(1) by (simp add: classify_def)
  then show ?thesis
    using assms(2) intent_class.exhaust by (auto simp: run_ok_def refused_free_text_def split: prod.splits sum.splits)
qed

definition example_ctx :: chat_context where
  "example_ctx = \<lparr>cx_chat_class = ''direct'', cx_channel_id = ''c'', cx_project_id = None\<rparr>"

definition example_model :: intent_model where
  "example_model n prompt = (''served'', Some '' Mutation'')"

theorem plain_command_intent_witness:
  "classify example_model ''/oq approve p1'' example_ctx 0 \<lparr>cl_cache = [], cl_calls = 0\<rparr> = (Inr Mutation, \<lparr>cl_cache = [], cl_calls = 0\<rparr>)"
proof -
  have "parse_command ''/oq approve p1'' = Inr \<lparr>cm_verb = ''approve'', cm_target = Some ''p1'', cm_args = [], cm_raw_input = ''/oq approve p1''\<rparr>"
    "list_all plain_char (py_strip ''/oq approve p1'')" by code_simp+
  from plain_command_intent [OF this] show ?thesis by (simp add: verb_intent_def mutation_verbs_def)
qed

theorem free_text_never_mutation_witness:
  "\<exists>r. fst (classify example_model ''please approve'' example_ctx 0 (run_classify example_model [] \<lparr>cl_cache = [], cl_calls = 0\<rparr>)) = r \<and>
     (r \<in> {Inr Discussion, Inr Query, Inr Admin} \<or> (\<exists>m d. r = Inl (GrammarParseError ''GRAM-004'' m d)))"
proof -
  have "\<not> py_startswith (py_strip ''please approve'') ''/oq''" by code_simp
  from free_text_never_mutation [OF this refl, of example_model example_ctx 0 "[]"] show ?thesis by blast
qed

section \<open>Topics\<close>

lemma filter_singleton: "distinct xs \<Longrightarrow> filter P xs = [x] \<longleftrightarrow> x \<in> set xs \<and> P x \<and> (\<forall>y \<in> set xs. P y \<longrightarrow> y = x)"
  by (induction xs) (auto simp: filter_empty_conv)

definition strict_winner :: "(string \<times> string list) list \<Rightarrow> string \<times> string list \<Rightarrow> bool" where
  "strict_winner ms m = (m \<in> set ms \<and> (\<forall>m' \<in> set ms. m' \<noteq> m \<longrightarrow> length (snd m') < length (snd m)))"

lemma classify_topic_winner:
  assumes "distinct (topic_matches table text)"
  shows "classify_topic table text = Some d \<longleftrightarrow> (\<exists>m. strict_winner (topic_matches table text) m \<and> d = decision_for m)"
proof -
  let ?ms = "topic_matches table text"
  let ?top = "Max (set (map (length \<circ> snd) ?ms))"
  let ?won = "filter (\<lambda>m. length (snd m) = ?top) ?ms"
  have uniform: "classify_topic table text = (case ?won of [m] \<Rightarrow> Some (decision_for m) | _ \<Rightarrow> None)"
    by (auto simp: classify_topic_def Let_def split: list.split)
  have le: "length (snd m) \<le> ?top" if "m \<in> set ?ms" for m using that by (simp add: Max_ge)
  have top: "\<exists>m \<in> set ?ms. length (snd m) = ?top" if "m \<in> set ?ms" for m
  proof -
    have "?top \<in> set (map (length \<circ> snd) ?ms)" using that by (intro Max_in) auto
    then show ?thesis by (simp only: set_map image_iff comp_apply) metis
  qed
  have "?won = [m] \<longleftrightarrow> strict_winner ?ms m" for m
  proof
    assume "?won = [m]"
    then have "m \<in> set ?ms" "length (snd m) = ?top" "\<forall>y \<in> set ?ms. length (snd y) = ?top \<longrightarrow> y = m"
      unfolding filter_singleton [OF assms] by blast+
    then show "strict_winner ?ms m" unfolding strict_winner_def using le by (metis le_neq_implies_less)
  next
    assume w: "strict_winner ?ms m"
    then obtain y where "y \<in> set ?ms" "length (snd y) = ?top" using top unfolding strict_winner_def by blast
    with w le [of m] have "length (snd m) = ?top" unfolding strict_winner_def by (metis less_le_not_le)
    with w show "?won = [m]" unfolding filter_singleton [OF assms] strict_winner_def by (metis less_irrefl)
  qed
  then have won: "?won = [m] \<longleftrightarrow> strict_winner ?ms m" for m .
  show ?thesis
  proof
    assume "classify_topic table text = Some d"
    then show "\<exists>m. strict_winner ?ms m \<and> d = decision_for m"
      unfolding uniform using won by (cases ?won) (auto split: list.splits)
  next
    assume "\<exists>m. strict_winner ?ms m \<and> d = decision_for m"
    then obtain m where "?won = [m]" "d = decision_for m" using won by blast
    then show "classify_topic table text = Some d" unfolding uniform by (simp del: filter.simps)
  qed
qed

definition keyword_hits :: "string \<Rightarrow> string \<Rightarrow> string list" where
  "keyword_hits text role = (case map_of topic_routing_table role of None \<Rightarrow> [] | Some keywords \<Rightarrow> filter (py_contains (py_lower text)) keywords)"

lemma topic_matches_member:
  "(role, hits) \<in> set (topic_matches table text) \<longleftrightarrow>
     (\<exists>keywords. (role, keywords) \<in> set table \<and> hits = filter (py_contains (py_lower text)) keywords \<and> hits \<noteq> [])"
  by (induction table) (auto simp: topic_matches_def)

lemma topic_roles_distinct: "distinct (map fst topic_routing_table)"
  by code_simp

lemma topic_matches_hits:
  "(role, hits) \<in> set (topic_matches topic_routing_table text) \<longleftrightarrow>
     role \<in> set (map fst topic_routing_table) \<and> hits = keyword_hits text role \<and> hits \<noteq> []"
proof (cases "map_of topic_routing_table role")
  case None
  then have "role \<notin> set (map fst topic_routing_table)" by (simp add: map_of_eq_None_iff)
  then show ?thesis by (auto simp: topic_matches_member rev_image_eqI)
next
  case (Some kws)
  then have mem: "(role, ks) \<in> set topic_routing_table \<longleftrightarrow> ks = kws" for ks
    using map_of_eq_Some_iff [OF topic_roles_distinct] by (metis option.inject)
  then have "role \<in> set (map fst topic_routing_table)" by (metis (no_types, lifting) fst_conv image_eqI list.set_map)
  then show ?thesis by (auto simp: topic_matches_member keyword_hits_def Some mem)
qed

lemma topic_matches_distinct: "distinct (topic_matches topic_routing_table text)"
proof -
  have "distinct (map fst (topic_matches table text))" if "distinct (map fst table)" for table
    using that by (induction table) (auto simp: topic_matches_def image_iff)
  then show ?thesis using topic_roles_distinct distinct_map by blast
qed

text \<open>
  The advisory router picks the role with the most keyword hits. It answers with a role exactly if that role has a
  keyword in the text and strictly more of its keywords occur there than of any other role's; on a tie or without any
  hit it answers nothing.
\<close>

theorem topic_router_exact:
  "classify_topic topic_routing_table text = Some d \<longleftrightarrow>
     rd_agent_role d \<in> set (map fst topic_routing_table) \<and> rd_confidence d = ''high'' \<and>
     rd_matched_keywords d = keyword_hits text (rd_agent_role d) \<and> rd_matched_keywords d \<noteq> [] \<and>
     list_all (\<lambda>role. role = rd_agent_role d \<or> length (keyword_hits text role) < length (rd_matched_keywords d)) (map fst topic_routing_table)"
proof -
  let ?ms = "topic_matches topic_routing_table text"
  have winner: "strict_winner ?ms (role, hits) \<longleftrightarrow> role \<in> set (map fst topic_routing_table) \<and> hits = keyword_hits text role \<and> hits \<noteq> [] \<and>
     list_all (\<lambda>other. other = role \<or> length (keyword_hits text other) < length hits) (map fst topic_routing_table)"
    (is "_ \<longleftrightarrow> ?in \<and> ?hits \<and> ?some \<and> ?all") for role hits
  proof
    assume w: "strict_winner ?ms (role, hits)"
    then have r: "?in" "?hits" "?some" unfolding strict_winner_def topic_matches_hits by blast+
    have "length (keyword_hits text other) < length hits" if "other \<in> set (map fst topic_routing_table)" "other \<noteq> role" for other
    proof (cases "keyword_hits text other = []")
      case False
      then have "(other, keyword_hits text other) \<in> set ?ms" using that(1) topic_matches_hits by blast
      then show ?thesis using w that(2) unfolding strict_winner_def by fastforce
    qed (use r(3) in simp)
    then have "?all" unfolding list_all_iff by blast
    with r show "?in \<and> ?hits \<and> ?some \<and> ?all" by blast
  next
    assume w: "?in \<and> ?hits \<and> ?some \<and> ?all"
    have "length h < length hits" if m: "(other, h) \<in> set ?ms" "(other, h) \<noteq> (role, hits)" for other h
    proof -
      from m(1) have o: "other \<in> set (map fst topic_routing_table)" "h = keyword_hits text other" unfolding topic_matches_hits by blast+
      with m(2) w have "other \<noteq> role" by blast
      with o w show ?thesis unfolding list_all_iff by blast
    qed
    moreover have "(role, hits) \<in> set ?ms" using w unfolding topic_matches_hits by blast
    ultimately show "strict_winner ?ms (role, hits)" unfolding strict_winner_def by (metis snd_conv surj_pair)
  qed
  show ?thesis
    unfolding classify_topic_winner [OF topic_matches_distinct] split_paired_Ex winner
    by (cases d) (auto simp: decision_for_def)
qed

end
