(* ===== verification/Project_Spaces.thy ===== *)
theory Project_Spaces
  imports Project_Governance
begin

text \<open>
  Chat channels of projects.
  \<^item> \<^verbatim>\<open>project_spaces/models.py\<close>, \<^verbatim>\<open>binding_repository.py\<close>: the bindings of channels to projects;
  \<^item> \<^verbatim>\<open>discord_automator.py\<close>: creation, renaming and locking of channels through the REST interface of Discord;
  \<^item> \<^verbatim>\<open>binding_service.py\<close>, \<^verbatim>\<open>routing_resolver.py\<close>: the life cycle of a binding and the routing of a message.

  Discord is a parameter: what it answers to the n-th request, or the exception of the HTTP client. Rows that a query
  leaves in any order are taken in the order of insertion.
\<close>

section \<open>Channel names\<close>

definition slug_char :: "char \<Rightarrow> bool" where
  "slug_char c = (let n = (of_char c :: nat) in (97 \<le> n \<and> n \<le> 122) \<or> (48 \<le> n \<and> n \<le> 57))"

text \<open>\<^verbatim>\<open>re.sub(r"[^a-z0-9]+", "-", s)\<close>; the flag says whether the previous character was replaced.\<close>

fun slug_runs :: "bool \<Rightarrow> string \<Rightarrow> string" where
  "slug_runs b [] = []"
| "slug_runs b (c # s) = (if slug_char c then c # slug_runs False s else (if b then [] else ''-'') @ slug_runs True s)"

definition strip_dashes :: "string \<Rightarrow> string" where
  "strip_dashes s = rev (dropWhile (\<lambda>c. c = CHR ''-'') (rev (dropWhile (\<lambda>c. c = CHR ''-'') s)))"

definition slugify :: "string \<Rightarrow> string" where
  "slugify name = take 90 (strip_dashes (slug_runs False (py_lower name)))"

definition slugify_channel_name :: "string \<Rightarrow> string" where
  "slugify_channel_name name = take 100 (''project-'' @ strip_dashes (slug_runs False (py_lower name)))"

text \<open>
  \<^verbatim>\<open>while "--" in slug: slug = slug.replace("--", "-")\<close> has nothing to do after the substitution, which leaves no two
  dashes in a row (\<open>slug_runs_no_dashes\<close>).
\<close>

definition inferred_channel_name :: "string \<Rightarrow> string" where
  "inferred_channel_name project_name = take 100 (''project-'' @ strip_dashes (slug_runs False (py_lower (py_strip project_name))))"

section \<open>Bindings\<close>

datatype binding_state = Proposed | PendingApproval | Active | Archived | Locked

record space_binding =
  sb_id :: string
  sb_project_id :: string
  sb_guild_id :: string
  sb_channel_id :: string
  sb_state :: binding_state
  sb_default_recipient :: string
  sb_created_at :: time
  sb_updated_at :: time

datatype discord_request =
  CreateChannel string string
| RenameChannel string string
| DenySending string string

type_synonym discord_api = "nat \<Rightarrow> discord_request \<Rightarrow> py_exn + (nat \<times> string option)"

record spaces =
  sp_bindings :: "space_binding list"
  sp_requests :: "discord_request list"
  sp_runtime :: py_runtime

text \<open>The table has a primary key and a unique index on guild and channel.\<close>

definition insert_binding :: "space_binding \<Rightarrow> spaces \<Rightarrow> (py_exn, space_binding, spaces) run" where
  "insert_binding b s =
     (if list_ex (\<lambda>r. sb_id r = sb_id b \<or> sb_guild_id r = sb_guild_id b \<and> sb_channel_id r = sb_channel_id b) (sp_bindings s)
      then (Inl (IntegrityError (sb_id b)), s)
      else (Inr b, s\<lparr>sp_bindings := sp_bindings s @ [b]\<rparr>))"

definition find_by_channel :: "spaces \<Rightarrow> string \<Rightarrow> string \<Rightarrow> space_binding option" where
  "find_by_channel s guild_id channel_id = find (\<lambda>r. sb_guild_id r = guild_id \<and> sb_channel_id r = channel_id) (sp_bindings s)"

definition find_by_project_id :: "spaces \<Rightarrow> string \<Rightarrow> space_binding option" where
  "find_by_project_id s project_id = find (\<lambda>r. sb_project_id r = project_id) (sp_bindings s)"

definition project_name_of :: "governance \<Rightarrow> string \<Rightarrow> string option" where
  "project_name_of gov project_id = map_option rw_name (find_project gov project_id)"

definition find_by_channel_name :: "governance \<Rightarrow> spaces \<Rightarrow> string \<Rightarrow> string \<Rightarrow> space_binding option" where
  "find_by_channel_name gov s guild_id channel_name =
     (let wanted = py_lower (py_strip channel_name)
      in if wanted = [] then None
         else find (\<lambda>r. map_option inferred_channel_name (project_name_of gov (sb_project_id r)) = Some wanted)
                (filter (\<lambda>r. project_name_of gov (sb_project_id r) \<noteq> None)
                   (sort_key (\<lambda>r. - sb_updated_at r) (filter (\<lambda>r. sb_guild_id r = guild_id) (sp_bindings s)))))"

definition update_binding_state :: "string \<Rightarrow> binding_state \<Rightarrow> spaces \<Rightarrow> (py_exn, space_binding, spaces) run" where
  "update_binding_state binding_id state s =
     (let (now, rt) = now_utc (sp_runtime s);
          s' = s\<lparr>sp_runtime := rt, sp_bindings :=
            map (\<lambda>r. if sb_id r = binding_id then r\<lparr>sb_state := state, sb_updated_at := now\<rparr> else r) (sp_bindings s)\<rparr>
      in case find (\<lambda>r. sb_id r = binding_id) (sp_bindings s') of
           None \<Rightarrow> (Inl (OtherExn (''Binding not found after update: '' @ binding_id)), s')
         | Some r \<Rightarrow> (Inr r, s'))"

definition build_binding :: "string \<Rightarrow> string \<Rightarrow> string \<Rightarrow> string \<Rightarrow> binding_state \<Rightarrow> spaces \<Rightarrow> space_binding \<times> spaces" where
  "build_binding project_id guild_id channel_id default_recipient state s =
     (let (now, rt1) = now_utc (sp_runtime s); (i, rt2) = uuid4 rt1
      in (\<lparr>sb_id = i, sb_project_id = project_id, sb_guild_id = guild_id, sb_channel_id = channel_id, sb_state = state,
           sb_default_recipient = default_recipient, sb_created_at = now, sb_updated_at = now\<rparr>, s\<lparr>sp_runtime := rt2\<rparr>))"

section \<open>Channels of the chat service\<close>

definition send :: "discord_api \<Rightarrow> discord_request \<Rightarrow> spaces \<Rightarrow> (py_exn, nat \<times> string option, spaces) run" where
  "send api r s = (api (length (sp_requests s)) r, s\<lparr>sp_requests := sp_requests s @ [r]\<rparr>)"

definition api_error :: "nat \<Rightarrow> string \<Rightarrow> py_exn" where
  "api_error code what = OtherExn (''Discord API returned '' @ show_nat code @ what)"

definition create_channel :: "discord_api \<Rightarrow> string \<Rightarrow> string \<Rightarrow> spaces \<Rightarrow> (py_exn, string, spaces) run" where
  "create_channel api guild_id channel_name s =
     and_then (send api (CreateChannel guild_id channel_name) s) (\<lambda>(code, channel) s'.
       if code \<notin> {200, 201}
       then (Inl (api_error code ('' creating channel '' @ py_repr channel_name @ '' in guild '' @ guild_id)), s')
       else case channel of None \<Rightarrow> (Inl (OtherExn ''KeyError''), s') | Some i \<Rightarrow> (Inr i, s'))"

definition rename_channel :: "discord_api \<Rightarrow> string \<Rightarrow> string \<Rightarrow> spaces \<Rightarrow> (py_exn, unit, spaces) run" where
  "rename_channel api channel_id new_name s =
     and_then (send api (RenameChannel channel_id new_name) s) (\<lambda>(code, _) s'.
       if code \<notin> {200, 201} then (Inl (api_error code ('' renaming channel '' @ channel_id)), s') else (Inr (), s'))"

definition archive_channel :: "discord_api \<Rightarrow> string \<Rightarrow> string \<Rightarrow> spaces \<Rightarrow> (py_exn, unit, spaces) run" where
  "archive_channel api channel_id project_name = rename_channel api channel_id (''done-'' @ slugify project_name)"

definition lock_channel :: "discord_api \<Rightarrow> string \<Rightarrow> string \<Rightarrow> string \<Rightarrow> spaces \<Rightarrow> (py_exn, unit, spaces) run" where
  "lock_channel api channel_id project_name guild_id s =
     and_then (rename_channel api channel_id (''closed-'' @ slugify project_name) s) (\<lambda>_ s1.
       and_then (send api (DenySending channel_id guild_id) s1) (\<lambda>(code, _) s2.
         if code \<notin> {200, 201, 204} then (Inl (api_error code ('' setting permissions on channel '' @ channel_id)), s2) else (Inr (), s2)))"

section \<open>The binding service and the resolver\<close>

definition binding_transitions :: "(string \<times> (binding_state \<times> binding_state) list) list" where
  "binding_transitions =
     [(''approve'', [(Proposed, PendingApproval)]),
      (''activate'', [(PendingApproval, Active), (Proposed, Active)]),
      (''archive'', [(Active, Archived)]),
      (''lock'', [(Active, Locked), (Archived, Locked)])]"

definition target_state :: "string \<Rightarrow> binding_state \<Rightarrow> binding_state option" where
  "target_state event_type state = (case map_of binding_transitions event_type of None \<Rightarrow> None | Some allowed \<Rightarrow> map_of allowed state)"

fun state_value :: "binding_state \<Rightarrow> string" where
  "state_value Proposed = ''proposed''"
| "state_value PendingApproval = ''pending_approval''"
| "state_value Active = ''active''"
| "state_value Archived = ''archived''"
| "state_value Locked = ''locked''"

definition create_and_bind :: "discord_api \<Rightarrow> string \<Rightarrow> string \<Rightarrow> string \<Rightarrow> string \<Rightarrow> spaces \<Rightarrow> (py_exn, space_binding, spaces) run" where
  "create_and_bind api project_id guild_id project_name default_recipient s =
     and_then (create_channel api guild_id (slugify_channel_name project_name) s) (\<lambda>channel_id s1.
       (let (b, s2) = build_binding project_id guild_id channel_id default_recipient Active s1 in insert_binding b s2))"

definition transition_binding :: "discord_api \<Rightarrow> string \<Rightarrow> string \<Rightarrow> string \<Rightarrow> spaces \<Rightarrow> (py_exn, space_binding, spaces) run" where
  "transition_binding api project_id event_type project_name s =
     (case find_by_project_id s project_id of
        None \<Rightarrow> (Inl (OtherExn (''No binding found for project_id='' @ py_repr project_id)), s)
      | Some b \<Rightarrow>
          (case target_state event_type (sb_state b) of
             None \<Rightarrow> (Inl (OtherExn (''Illegal transition for project_id='' @ py_repr project_id @ '': '' @
                      py_repr (state_value (sb_state b)) @ '' --['' @ event_type @ '']--> (no target)'')), s)
           | Some target \<Rightarrow>
               and_then (update_binding_state (sb_id b) target s) (\<lambda>updated s1.
                 and_then (case target of
                     Archived \<Rightarrow> archive_channel api (sb_channel_id b) project_name s1
                   | Locked \<Rightarrow> lock_channel api (sb_channel_id b) project_name (sb_guild_id b) s1
                   | _ \<Rightarrow> (Inr (), s1))
                   (\<lambda>_ s2. (Inr updated, s2)))))"

definition get_binding_by_name :: "governance \<Rightarrow> spaces \<Rightarrow> string \<Rightarrow> string \<Rightarrow> space_binding option" where
  "get_binding_by_name gov s channel_name guild_id =
     (case find_by_channel_name gov s guild_id channel_name of
        None \<Rightarrow> None | Some b \<Rightarrow> if sb_state b \<noteq> Active then None else Some b)"

record routing_context =
  rx_project_id :: string
  rx_default_recipient :: string
  rx_binding_state :: binding_state

definition resolve_route :: "spaces \<Rightarrow> string \<Rightarrow> string \<Rightarrow> routing_context option" where
  "resolve_route s guild_id channel_id =
     (case find_by_channel s guild_id channel_id of
        None \<Rightarrow> None
      | Some b \<Rightarrow> if sb_state b \<noteq> Active then None
                  else Some \<lparr>rx_project_id = sb_project_id b, rx_default_recipient = sb_default_recipient b, rx_binding_state = sb_state b\<rparr>)"

section \<open>Names agree\<close>

abbreviation dash :: char where "dash \<equiv> CHR ''-''"

lemma slug_char_not_dash: "slug_char c \<Longrightarrow> c \<noteq> dash"
  by (auto simp: slug_char_def)

lemma slug_runs_no_dashes: "\<not> py_contains (slug_runs b s) ''--''"
proof (induction s arbitrary: b)
  case (Cons c s)
  have "slug_char c \<Longrightarrow> \<not> py_startswith (c # slug_runs False s) ''--''" using slug_char_not_dash by (auto simp: py_startswith_def)
  moreover have "\<not> py_startswith (dash # slug_runs True s) ''--''"
  proof (induction s)
    case (Cons d s)
    then show ?case using slug_char_not_dash by (auto simp: py_startswith_def)
  qed (simp add: py_startswith_def)
  ultimately show ?case using Cons.IH by auto
qed simp

lemma lstrip_slug_runs: "dropWhile (\<lambda>c. c = dash) (slug_runs b s) = slug_runs False (dropWhile (\<lambda>c. \<not> slug_char c) s)"
  by (induction s arbitrary: b) (auto dest: slug_char_not_dash)

lemma slug_runs_suffix:
  assumes "list_all (\<lambda>c. \<not> slug_char c) post"
  shows "slug_runs b (s @ post) \<in> {slug_runs b s, slug_runs b s @ [dash]}"
proof (induction s arbitrary: b)
  case Nil
  have "slug_runs True post = []" using assms by (induction post) auto
  moreover from this have "slug_runs False post \<in> {[], [dash]}" using assms by (cases post) auto
  ultimately show ?case by (cases b) auto
next
  case (Cons c s)
  then show ?case by (auto split: if_splits)
qed

lemma rstrip_dash: "t \<in> {u, u @ [dash]} \<Longrightarrow> dropWhile (\<lambda>c. c = dash) (rev t) = dropWhile (\<lambda>c. c = dash) (rev u)"
  by auto

lemma strip_dashes_runs:
  assumes "list_all (\<lambda>c. \<not> slug_char c) pre" "list_all (\<lambda>c. \<not> slug_char c) post"
  shows "strip_dashes (slug_runs False (pre @ s @ post)) = strip_dashes (slug_runs False s)"
proof -
  let ?n = "\<lambda>c. \<not> slug_char c"
  have pre: "dropWhile ?n (pre @ s @ post) = dropWhile ?n (s @ post)" using assms(1) by (simp add: dropWhile_append list_all_iff)
  show ?thesis
  proof (cases "list_all ?n s")
    case True
    then have "dropWhile ?n (s @ post) = []" "dropWhile ?n s = []" using assms(2) by (auto simp: list_all_iff)
    then show ?thesis unfolding strip_dashes_def lstrip_slug_runs pre by metis
  next
    case False
    then have "dropWhile ?n (s @ post) = dropWhile ?n s @ post" by (auto simp: dropWhile_append list_all_iff)
    then show ?thesis
      using rstrip_dash [OF slug_runs_suffix [OF assms(2), of False "dropWhile ?n s"]]
      by (simp add: strip_dashes_def lstrip_slug_runs pre del: append_assoc)
  qed
qed

lemma space_no_slug: "py_isspace c \<Longrightarrow> \<not> slug_char c"
  by (auto simp: py_isspace_def slug_char_def Let_def)

lemma py_strip_split: "\<exists>pre post. s = pre @ py_strip s @ post \<and> list_all py_isspace pre \<and> list_all py_isspace post"
proof -
  let ?l = "dropWhile py_isspace s"
  have "s = takeWhile py_isspace s @ ?l" by simp
  moreover have "?l = rev (dropWhile py_isspace (rev ?l)) @ rev (takeWhile py_isspace (rev ?l))"
    by (metis rev_append rev_rev_ident takeWhile_dropWhile_id)
  ultimately show ?thesis
    unfolding py_strip_def py_lstrip_def
    by (intro exI [of _ "takeWhile py_isspace s"] exI [of _ "rev (takeWhile py_isspace (rev ?l))"]) (auto simp: list_all_iff dest: set_takeWhileD)
qed

lemma channel_names_agree: "inferred_channel_name name = slugify_channel_name name"
proof -
  obtain pre post where name: "name = pre @ py_strip name @ post" and sp: "list_all py_isspace pre" "list_all py_isspace post"
    using py_strip_split by blast
  have "list_all (\<lambda>c. \<not> slug_char c) (py_lower pre)" "list_all (\<lambda>c. \<not> slug_char c) (py_lower post)"
    using sp space_no_slug by (auto simp: list_all_iff py_lower_def)
  then have "strip_dashes (slug_runs False (py_lower pre @ py_lower (py_strip name) @ py_lower post)) = strip_dashes (slug_runs False (py_lower (py_strip name)))"
    by (rule strip_dashes_runs)
  moreover have "py_lower name = py_lower pre @ py_lower (py_strip name) @ py_lower post" by (subst name) (simp add: py_lower_def)
  ultimately show ?thesis by (simp add: inferred_channel_name_def slugify_channel_name_def)
qed

lemma channel_name_chars: "c \<in> set (slugify_channel_name name) \<Longrightarrow> slug_char c \<or> c = dash"
proof -
  have runs: "c \<in> set (slug_runs b s) \<Longrightarrow> slug_char c \<or> c = dash" for b s c by (induction s arbitrary: b) (auto split: if_splits)
  have "list_all slug_char ''project''" by code_simp
  then show "c \<in> set (slugify_channel_name name) \<Longrightarrow> slug_char c \<or> c = dash"
    using runs by (fastforce simp: slugify_channel_name_def strip_dashes_def list_all_iff dest: in_set_takeD set_dropWhileD)
qed

lemma channel_name_normal: "py_lower (py_strip (slugify_channel_name name)) = slugify_channel_name name"
proof -
  have plain: "py_lower_char c = c \<and> \<not> py_isspace c" if "slug_char c \<or> c = dash" for c
    using that by (auto simp: slug_char_def py_lower_char_def py_isspace_def Let_def)
  have chars: "py_lower_char c = c" "\<not> py_isspace c" if "c \<in> set (slugify_channel_name name)" for c
    using plain channel_name_chars [OF that] by blast+
  have "py_lower (slugify_channel_name name) = slugify_channel_name name"
    unfolding py_lower_def by (rule map_idI) (rule chars)
  moreover have "dropWhile py_isspace t = t" if "set t \<subseteq> set (slugify_channel_name name)" for t
    by (cases t) (use that chars in auto)
  then have "py_strip (slugify_channel_name name) = slugify_channel_name name" by (simp add: py_strip_def py_lstrip_def)
  ultimately show ?thesis by simp
qed

section \<open>The life cycle of a binding\<close>

definition binding_step :: "binding_state \<Rightarrow> binding_state \<Rightarrow> bool" where
  "binding_step s t = (\<exists>event. target_state event s = Some t)"

lemma binding_step_simps:
  "binding_step s t \<longleftrightarrow> (s, t) \<in> {(Proposed, PendingApproval), (PendingApproval, Active), (Proposed, Active), (Active, Archived), (Active, Locked), (Archived, Locked)}"
proof
  assume "binding_step s t"
  then show "(s, t) \<in> {(Proposed, PendingApproval), (PendingApproval, Active), (Proposed, Active), (Active, Archived), (Active, Locked), (Archived, Locked)}"
    by (auto simp: binding_step_def target_state_def binding_transitions_def split: if_splits option.splits)
next
  have ev: "target_state ''approve'' Proposed = Some PendingApproval" "target_state ''activate'' PendingApproval = Some Active"
    "target_state ''activate'' Proposed = Some Active" "target_state ''archive'' Active = Some Archived"
    "target_state ''lock'' Active = Some Locked" "target_state ''lock'' Archived = Some Locked"
    by (simp_all add: target_state_def binding_transitions_def)
  assume "(s, t) \<in> {(Proposed, PendingApproval), (PendingApproval, Active), (Proposed, Active), (Active, Archived), (Active, Locked), (Archived, Locked)}"
  then show "binding_step s t" unfolding binding_step_def using ev by auto
qed

interpretation binding_machine: status_machine binding_step "\<lambda>s. s = Locked"
  by unfold_locales (simp add: binding_step_simps)

definition closed :: "binding_state \<Rightarrow> bool" where
  "closed s = (s \<in> {Archived, Locked})"

lemma closed_stays: "binding_step\<^sup>*\<^sup>* s t \<Longrightarrow> closed s \<Longrightarrow> closed t"
  by (induction rule: rtranclp_induct) (auto simp: closed_def binding_step_simps)

definition spaces_ok :: "spaces \<Rightarrow> bool" where
  "spaces_ok s = (distinct (map sb_id (sp_bindings s)) \<and> distinct (map (\<lambda>b. (sb_guild_id b, sb_channel_id b)) (sp_bindings s)))"

text \<open>What an operation may do to the bindings: keep those it finds, each in its state or a later one, and add new ones.\<close>

definition grows :: "spaces \<Rightarrow> spaces \<Rightarrow> bool" where
  "grows s s' = (spaces_ok s \<longrightarrow> spaces_ok s' \<and> (\<forall>g c b. find_by_channel s g c = Some b \<longrightarrow>
     (\<exists>b'. find_by_channel s' g c = Some b' \<and> binding_step\<^sup>*\<^sup>* (sb_state b) (sb_state b'))))"

lemma grows_refl [simp]: "grows s s"
  by (simp add: grows_def)

lemma grows_trans: "grows a b \<Longrightarrow> grows b c \<Longrightarrow> grows a c"
  unfolding grows_def by (meson rtranclp_trans)

lemma grows_bindings: "sp_bindings s' = sp_bindings s \<Longrightarrow> grows s s'"
  by (simp add: grows_def spaces_ok_def find_by_channel_def)

lemma send_bindings: "sp_bindings (snd (send api r s)) = sp_bindings s"
  by (simp add: send_def)

lemma rename_bindings: "sp_bindings (snd (rename_channel api c n s)) = sp_bindings s"
  unfolding rename_channel_def by (rule and_then_inv) (auto simp: send_bindings)

lemma lock_bindings: "sp_bindings (snd (lock_channel api c n g s)) = sp_bindings s"
  unfolding lock_channel_def
  by (rule and_then_inv [where P = "\<lambda>t. sp_bindings t = sp_bindings s"], simp add: rename_bindings)
    (rule and_then_inv [where P = "\<lambda>t. sp_bindings t = sp_bindings s"], auto simp: send_bindings)

lemma create_channel_bindings: "sp_bindings (snd (create_channel api g n s)) = sp_bindings s"
  unfolding create_channel_def by (rule and_then_inv) (auto simp: send_bindings split: option.split)

lemma insert_grows: "grows s (snd (insert_binding b s))"
  by (auto simp: grows_def insert_binding_def spaces_ok_def find_by_channel_def list_ex_iff find_append_eq image_iff split: option.split)

lemma create_and_bind_grows: "grows s (snd (create_and_bind api p g n d s))"
proof -
  have "grows s (snd (create_channel api g (slugify_channel_name n) s))" by (rule grows_bindings [OF create_channel_bindings])
  moreover have "grows s (snd (let (b, s2) = build_binding p g i d Active s1 in insert_binding b s2))" if "grows s s1" for i s1
  proof -
    obtain b s2 where b: "build_binding p g i d Active s1 = (b, s2)" by (cases "build_binding p g i d Active s1")
    then have "sp_bindings s2 = sp_bindings s1" by (auto simp: build_binding_def Let_def split: prod.splits)
    then show ?thesis using grows_trans [OF that grows_trans [OF grows_bindings insert_grows]] by (simp add: b)
  qed
  ultimately show ?thesis unfolding create_and_bind_def by (rule and_then_inv [where P = "grows s"])
qed

lemma find_map_key:
  assumes "\<And>r. P (f r) = P r"
  shows "find P (map f rs) = map_option f (find P rs)"
  using assms by (induction rs) auto

lemma update_binding_rows:
  "sp_bindings (snd (update_binding_state i st s)) =
     map (\<lambda>r. if sb_id r = i then r\<lparr>sb_state := st, sb_updated_at := fst (now_utc (sp_runtime s))\<rparr> else r) (sp_bindings s)"
  by (simp add: update_binding_state_def Let_def now_utc_def split: option.split)

lemma update_grows:
  assumes b: "b \<in> set (sp_bindings s)" and step: "binding_step (sb_state b) st"
  shows "grows s (snd (update_binding_state (sb_id b) st s))"
  unfolding grows_def
proof (intro impI conjI allI)
  let ?f = "\<lambda>r. if sb_id r = sb_id b then r\<lparr>sb_state := st, sb_updated_at := fst (now_utc (sp_runtime s))\<rparr> else r"
  let ?s = "snd (update_binding_state (sb_id b) st s)"
  assume ok: "spaces_ok s"
  have keys: "sb_id (?f r) = sb_id r" "sb_guild_id (?f r) = sb_guild_id r" "sb_channel_id (?f r) = sb_channel_id r" for r by auto
  then have "map sb_id (map ?f rs) = map sb_id rs" "map (\<lambda>b. (sb_guild_id b, sb_channel_id b)) (map ?f rs) = map (\<lambda>b. (sb_guild_id b, sb_channel_id b)) rs" for rs
    by (simp_all add: comp_def)
  then show "spaces_ok ?s" using ok unfolding spaces_ok_def update_binding_rows by metis
  fix g c r
  assume r: "find_by_channel s g c = Some r"
  then have "find_by_channel ?s g c = Some (?f r)"
    unfolding find_by_channel_def update_binding_rows by (subst find_map_key) (auto simp: keys)
  moreover have "r \<in> set (sp_bindings s)" using r by (auto simp: find_by_channel_def find_Some_iff)
  then have "sb_id r = sb_id b \<Longrightarrow> r = b" using ok b unfolding spaces_ok_def by (meson distinct_map inj_onD)
  then have "binding_step\<^sup>*\<^sup>* (sb_state r) (sb_state (?f r))" using step by auto
  ultimately show "\<exists>b'. find_by_channel ?s g c = Some b' \<and> binding_step\<^sup>*\<^sup>* (sb_state r) (sb_state b')" by blast
qed

lemma transition_grows: "grows s (snd (transition_binding api p ev n s))"
proof (cases "find_by_project_id s p")
  case (Some b)
  then have b: "b \<in> set (sp_bindings s)" by (auto simp: find_by_project_id_def find_Some_iff)
  show ?thesis
  proof (cases "target_state ev (sb_state b)")
    case target: (Some t)
    have step: "binding_step (sb_state b) t" using target by (auto simp: binding_step_def)
    have "grows s (snd (case t of Archived \<Rightarrow> archive_channel api (sb_channel_id b) n s1
        | Locked \<Rightarrow> lock_channel api (sb_channel_id b) n (sb_guild_id b) s1 | _ \<Rightarrow> (Inr (), s1)))" if "grows s s1" for s1
      using grows_trans [OF that grows_bindings] by (auto simp: archive_channel_def rename_bindings lock_bindings split: binding_state.split)
    then show ?thesis
      unfolding transition_binding_def Some option.case target
      by (intro and_then_inv [where P = "grows s"] update_grows [OF b step]) auto
  qed (simp add: transition_binding_def Some)
qed (simp add: transition_binding_def)

inductive space_step :: "spaces \<Rightarrow> spaces \<Rightarrow> bool" where
  create: "create_and_bind api p g n d s = (r, s') \<Longrightarrow> space_step s s'"
| transition: "transition_binding api p ev n s = (r, s') \<Longrightarrow> space_step s s'"

lemma space_steps_grow: "space_step\<^sup>*\<^sup>* s s' \<Longrightarrow> grows s s'"
proof (induction rule: rtranclp_induct)
  case (step t u)
  have "grows t u" using step.hyps(2) create_and_bind_grows transition_grows by (cases rule: space_step.cases) (metis snd_conv)+
  with step.IH show ?case by (rule grows_trans)
qed simp

text \<open>A closing event closes the project's active channel, whatever the chat service answers.\<close>

lemma closing_event_closes:
  assumes "spaces_ok s" "find_by_project_id s p = Some b" "ev \<in> {''archive'', ''lock''}" "sb_state b = Active"
  shows "\<exists>b'. find_by_channel (snd (transition_binding api p ev n s)) (sb_guild_id b) (sb_channel_id b) = Some b' \<and> closed (sb_state b')"
proof -
  have b: "b \<in> set (sp_bindings s)" using assms(2) by (auto simp: find_by_project_id_def find_Some_iff)
  have chan: "find_by_channel s (sb_guild_id b) (sb_channel_id b) = Some b"
  proof -
    have "find (\<lambda>r. sb_guild_id r = sb_guild_id b \<and> sb_channel_id r = sb_channel_id b) rs = Some b"
      if "distinct (map (\<lambda>b. (sb_guild_id b, sb_channel_id b)) rs)" "b \<in> set rs" for rs
      using that by (induction rs) (auto simp: image_iff)
    then show ?thesis using assms(1) b by (simp add: spaces_ok_def find_by_channel_def)
  qed
  let ?s' = "snd (transition_binding api p ev n s)"
  obtain t where t: "target_state ev (sb_state b) = Some t" "closed t"
    using assms(3,4) by (auto simp: target_state_def binding_transitions_def closed_def)
  have "sp_bindings ?s' = sp_bindings (snd (update_binding_state (sb_id b) t s))"
    unfolding transition_binding_def assms(2) option.case t(1)
    by (rule and_then_inv [where P = "\<lambda>u. sp_bindings u = sp_bindings (snd (update_binding_state (sb_id b) t s))"], simp,
        rule and_then_inv [where P = "\<lambda>u. sp_bindings u = sp_bindings (snd (update_binding_state (sb_id b) t s))"])
      (auto simp: archive_channel_def rename_bindings lock_bindings split: binding_state.split)
  note rows = this [unfolded update_binding_rows]
  have "find_by_channel ?s' (sb_guild_id b) (sb_channel_id b) =
      Some (b\<lparr>sb_state := t, sb_updated_at := fst (now_utc (sp_runtime s))\<rparr>)"
    unfolding find_by_channel_def rows by (subst find_map_key) (use chan in \<open>auto simp: find_by_channel_def\<close>)
  with t(2) show ?thesis by auto
qed

lemma closed_never_routes:
  assumes "grows s s'" "spaces_ok s" "find_by_channel s guild channel = Some b" "closed (sb_state b)"
  shows "resolve_route s' guild channel = None"
proof -
  from assms(1-3) obtain b' where "find_by_channel s' guild channel = Some b'" "binding_step\<^sup>*\<^sup>* (sb_state b) (sb_state b')"
    unfolding grows_def by blast
  moreover from this have "closed (sb_state b')" using closed_stays assms(4) by (simp add: closed_def)
  ultimately show ?thesis by (auto simp: resolve_route_def closed_def)
qed

lemma find_only_one: "x \<in> set xs \<Longrightarrow> P x \<Longrightarrow> \<forall>y \<in> set xs. P y \<longrightarrow> y = x \<Longrightarrow> find P xs = Some x"
  by (metis find_None_iff find_Some_iff nth_mem option.exhaust)

section \<open>Properties\<close>

text \<open>
  A closed channel never routes again. Once the binding of a channel is archived or locked, no later history of channel
  creations and life-cycle events, whatever the chat service answers, gives messages in that channel a route to a project.
\<close>

theorem closed_channel_never_routes:
  assumes "space_step\<^sup>*\<^sup>* s s'" "spaces_ok s" "find_by_channel s guild channel = Some b" "sb_state b \<in> {Archived, Locked}"
  shows "resolve_route s' guild channel = None"
  using closed_never_routes [OF space_steps_grow [OF assms(1)] assms(2,3)] assms(4) by (simp add: closed_def)

text \<open>
  A channel is found under the name it was created with. After a channel was created and bound for a project, the
  lookup that infers channel names from project names returns that binding for the name given to the chat service,
  unless another binding of the guild infers the same name.
\<close>

theorem created_channel_is_found:
  assumes "create_and_bind api p guild name recipient s = (Inr b, s')" "project_name_of gov p = Some name"
    and "list_all (\<lambda>r. sb_guild_id r = guild \<longrightarrow>
      map_option inferred_channel_name (project_name_of gov (sb_project_id r)) \<noteq> Some (slugify_channel_name name)) (sp_bindings s)"
  shows "get_binding_by_name gov s' (slugify_channel_name name) guild = Some b"
proof -
  let ?n = "slugify_channel_name name"
  from assms(1) obtain c s1 where c: "create_channel api guild ?n s = (Inr c, s1)"
    and rest: "(let (b, s2) = build_binding p guild c recipient Active s1 in insert_binding b s2) = (Inr b, s')"
    unfolding create_and_bind_def and_then_Inr by blast
  obtain b0 s2 where b0: "build_binding p guild c recipient Active s1 = (b0, s2)" by (cases "build_binding p guild c recipient Active s1")
  with rest have i: "insert_binding b s2 = (Inr b, s')" and b: "build_binding p guild c recipient Active s1 = (b, s2)"
    by (auto simp: insert_binding_def split: if_splits)
  have "sp_bindings s1 = sp_bindings s" using create_channel_bindings [of api guild ?n s] by (simp add: c)
  moreover have f: "sb_project_id b = p" "sb_guild_id b = guild" "sb_state b = Active" "sp_bindings s2 = sp_bindings s1"
    using b by (auto simp: build_binding_def Let_def split: prod.splits)
  ultimately have rows: "sp_bindings s' = sp_bindings s @ [b]" using i by (auto simp: insert_binding_def split: if_splits)
  let ?P = "\<lambda>r. map_option inferred_channel_name (project_name_of gov (sb_project_id r)) = Some ?n"
  let ?rs = "filter (\<lambda>r. project_name_of gov (sb_project_id r) \<noteq> None) (sort_key (\<lambda>r. - sb_updated_at r) (filter (\<lambda>r. sb_guild_id r = guild) (sp_bindings s')))"
  have "find ?P ?rs = Some b"
  proof -
    have members: "r \<in> set ?rs \<longleftrightarrow> (r \<in> set (sp_bindings s) \<or> r = b) \<and> sb_guild_id r = guild \<and> project_name_of gov (sb_project_id r) \<noteq> None" for r
      by (auto simp: rows)
    show ?thesis
    proof (rule find_only_one)
      show "b \<in> set ?rs" unfolding members using assms(2) f by simp
      show "?P b" using assms(2) f channel_names_agree by simp
      show "\<forall>r \<in> set ?rs. ?P r \<longrightarrow> r = b" using assms(3) members unfolding list_all_iff by blast
    qed
  qed
  moreover have "?n \<noteq> []" by (simp add: slugify_channel_name_def)
  ultimately show ?thesis
    by (simp add: get_binding_by_name_def find_by_channel_name_def channel_name_normal Let_def f)
qed

section \<open>Witnesses\<close>

definition demo_spaces :: spaces where
  "demo_spaces = \<lparr>sp_bindings = [], sp_requests = [], sp_runtime = demo_rt\<rparr>"

definition demo_api :: discord_api where
  "demo_api n r = (case r of CreateChannel g c \<Rightarrow> Inr (201, Some ''c-9'') | _ \<Rightarrow> Inr (500, None))"

definition demo_locked :: spaces where
  "demo_locked = demo_spaces\<lparr>sp_bindings := [\<lparr>sb_id = ''b-1'', sb_project_id = ''p-1'', sb_guild_id = ''g-1'', sb_channel_id = ''c-1'',
     sb_state = Locked, sb_default_recipient = ''project_manager'', sb_created_at = 0, sb_updated_at = 0\<rparr>]\<rparr>"

theorem closed_channel_never_routes_witness:
  "resolve_route (snd (transition_binding demo_api ''p-1'' ''activate'' ''Site'' (snd (create_and_bind demo_api ''p-2'' ''g-1'' ''Demo'' ''project_manager'' demo_locked))))
     ''g-1'' ''c-1'' = None"
proof (rule closed_channel_never_routes)
  let ?s = "snd (create_and_bind demo_api ''p-2'' ''g-1'' ''Demo'' ''project_manager'' demo_locked)"
  have "space_step demo_locked ?s" by (rule space_step.create) (rule prod.collapse [symmetric])
  moreover have "space_step ?s (snd (transition_binding demo_api ''p-1'' ''activate'' ''Site'' ?s))"
    by (rule space_step.transition) (rule prod.collapse [symmetric])
  ultimately show "space_step\<^sup>*\<^sup>* demo_locked (snd (transition_binding demo_api ''p-1'' ''activate'' ''Site'' ?s))"
    by (rule converse_rtranclp_into_rtranclp [OF _ r_into_rtranclp])
  show "spaces_ok demo_locked" by (simp add: spaces_ok_def demo_locked_def)
  show "find_by_channel demo_locked ''g-1'' ''c-1'' = Some (hd (sp_bindings demo_locked))" by (simp add: find_by_channel_def demo_locked_def)
  show "sb_state (hd (sp_bindings demo_locked)) \<in> {Archived, Locked}" by (simp add: demo_locked_def)
qed

theorem created_channel_is_found_witness:
  "\<exists>b s'. create_and_bind demo_api ''p-1'' ''g-1'' ''Site'' ''project_manager'' demo_spaces = (Inr b, s') \<and>
     get_binding_by_name demo_created s' ''project-site'' ''g-1'' = Some b"
proof -
  have "case fst (create_and_bind demo_api ''p-1'' ''g-1'' ''Site'' ''project_manager'' demo_spaces) of Inl _ \<Rightarrow> False | Inr _ \<Rightarrow> True" by code_simp
  then obtain b s' where b: "create_and_bind demo_api ''p-1'' ''g-1'' ''Site'' ''project_manager'' demo_spaces = (Inr b, s')"
    by (cases "create_and_bind demo_api ''p-1'' ''g-1'' ''Site'' ''project_manager'' demo_spaces") (auto split: sum.splits)
  moreover have "project_name_of demo_created ''p-1'' = Some ''Site''" "slugify_channel_name ''Site'' = ''project-site''" by code_simp+
  ultimately show ?thesis using created_channel_is_found [OF b, of demo_created] by (simp add: demo_spaces_def)
qed

end
