(* ===== verification/Chat_Ingress.thy ===== *)
theory Chat_Ingress
  imports Ingress Grammar Project_Spaces
begin

text \<open>
  The chat endpoint, \<^verbatim>\<open>control_plane/routers/discord_ingress.py\<close> with \<^verbatim>\<open>schemas/discord_ingress.py\<close> and
  \<^verbatim>\<open>advisory/channel_availability.py\<close>: a message is a compact command or free text; commands and part of the free text
  become owner commands (\<open>Ingress\<close>), the rest is answered by an agent without a task.

  The agents are parameters: functions of a request and of a state of their own, which answer with a text or raise.
  A \<open>CodedError\<close> of the secretary is its policy error. Parameters are also the language model and the monotonic clock
  of the classifier and the registry of bots. The bot's own identifiers and the timestamp, which nothing here reads, are left out.
\<close>

section \<open>Messages, requests and responses\<close>

record discord_message =
  dm_trace_id :: string
  dm_external_message_id :: string
  dm_actor_external_id :: string
  dm_actor_role :: string
  dm_idempotency_key :: string
  dm_raw_payload_hash :: string
  dm_content :: string
  dm_action :: string
  dm_target :: "string option"
  dm_args :: "string list"
  dm_recipients :: "recipient list"
  dm_project_id :: "string option"
  dm_priority :: string
  dm_guild_id :: string
  dm_channel_id :: string
  dm_channel_type :: string
  dm_chat_class :: string
  dm_bot_role :: "string option"
  dm_is_everyone_mention :: bool

definition discord_message_valid :: "discord_message \<Rightarrow> bool" where
  "discord_message_valid m =
     (text_len 1 128 (dm_trace_id m) \<and> text_len 1 256 (dm_external_message_id m) \<and> text_len 1 256 (dm_actor_external_id m) \<and>
      text_len 1 64 (dm_actor_role m) \<and> text_len 8 128 (dm_idempotency_key m) \<and> text_len 64 128 (dm_raw_payload_hash m) \<and>
      text_len 1 4000 (dm_content m) \<and> text_len 1 128 (dm_action m) \<and> (case dm_target m of None \<Rightarrow> True | Some t \<Rightarrow> text_len 1 128 t) \<and>
      length (dm_args m) \<le> 32 \<and> 1 \<le> length (dm_recipients m) \<and> length (dm_recipients m) \<le> 32 \<and>
      list_all (\<lambda>r. text_len 1 128 (rc_recipient_id r) \<and> text_len 1 64 (rc_recipient_type r)) (dm_recipients m) \<and>
      (case dm_project_id m of None \<Rightarrow> True | Some i \<Rightarrow> text_len 1 128 i) \<and> dm_priority m \<in> {''low'', ''normal'', ''high'', ''critical''} \<and>
      text_len 1 128 (dm_guild_id m) \<and> text_len 1 128 (dm_channel_id m) \<and> dm_channel_type m \<in> {''dm'', ''group'', ''text'', ''thread''} \<and>
      dm_chat_class m \<in> {''direct'', ''leadership_council'', ''governance'', ''executive'', ''project''} \<and>
      (case dm_bot_role m of None \<Rightarrow> True | Some r \<Rightarrow> text_len 1 64 r))"

record advisory_request =
  fa_text :: string
  fa_scope :: string
  fa_guild_id :: string
  fa_channel_id :: string
  fa_addressed_agent :: string

record secretary_request =
  sq_message :: string
  sq_intent :: intent_class
  sq_context :: chat_context
  sq_trace_id :: string
  sq_channel_id :: string
  sq_guild_id :: string
  sq_actor_id :: string
  sq_addressed_agent :: string

record advisory_data =
  av_task_id :: string
  av_request_id :: string
  av_principal_id :: string
  av_command :: string
  av_dispatch_target :: string
  av_llm_execution :: "(string \<times> string option) list"

text \<open>The answer of the owner-command endpoint, an advisory answer (accepted, 202), or a refusal: HTTP status, status, code,
  class, message, component and details.\<close>

datatype chat_response =
  Submitted command_response
| Advised string advisory_data
| Refused nat string string string string string kvs

record 'w chat_env =
  xe_ingress :: ingress_env
  xe_model :: intent_model
  xe_clock :: "nat \<Rightarrow> int"
  xe_agent :: "string \<Rightarrow> advisory_request \<Rightarrow> 'w \<Rightarrow> (py_exn, string, 'w) run"
  xe_secretary :: "secretary_request \<Rightarrow> 'w \<Rightarrow> (py_exn, string \<times> string option, 'w) run"
  xe_mention :: "string \<Rightarrow> string option"

record 'w chat_state =
  ch_ingress :: ingress_state
  ch_spaces :: spaces
  ch_classifier :: classifier
  ch_ticks :: nat
  ch_agents :: 'w

type_synonym 'w chat_run = "(py_exn, chat_response, 'w chat_state) run"

section \<open>Texts\<close>

definition advisory_agent_roles :: "string list" where
  "advisory_agent_roles = [''ceo'', ''cwo'', ''auditor'', ''administrator'', ''cso'', ''project_manager'']"

definition advisory_bot :: "discord_message \<Rightarrow> bool" where
  "advisory_bot m = (case dm_bot_role m of None \<Rightarrow> False | Some r \<Rightarrow> r \<in> set advisory_agent_roles)"

text \<open>\<^verbatim>\<open>role.replace("_", " ").title()\<close>, for the letters that occur in roles.\<close>

fun title_from :: "bool \<Rightarrow> string \<Rightarrow> string" where
  "title_from start [] = []"
| "title_from start (c # s) =
     (let n = (of_char c :: nat)
      in if 97 \<le> n \<and> n \<le> 122 then (if start then char_of (n - 32) else c) # title_from False s
         else (if c = CHR ''_'' then CHR '' '' else c) # title_from True s)"

definition role_label :: "string \<Rightarrow> string" where
  "role_label role = title_from True role"

definition unavailable :: "string \<Rightarrow> string" where
  "unavailable role = ''I'' @ [CHR 0x27] @ ''m the '' @ role_label role @ '' agent. I'' @ [CHR 0x27] @ ''m unable to respond right now - please try again.''"

text \<open>The pattern \<^verbatim>\<open>^/oq\s+context\s+from:#([a-z0-9_-]+)\s*$\<close>, ignoring case: the channel it names, in lower case.\<close>

definition after_word :: "string \<Rightarrow> string \<Rightarrow> string option" where
  "after_word w s = (if py_startswith s w then Some (drop (length w) s) else None)"

definition after_blanks :: "string \<Rightarrow> string option" where
  "after_blanks s = (if takeWhile py_isspace s = [] then None else Some (dropWhile py_isspace s))"

definition channel_char :: "char \<Rightarrow> bool" where
  "channel_char c = (c \<in> set ''abcdefghijklmnopqrstuvwxyz0123456789_-'')"

definition context_channel :: "string \<Rightarrow> string option" where
  "context_channel content =
     Option.bind (after_word ''/oq'' (py_lower content)) (\<lambda>s1. Option.bind (after_blanks s1) (\<lambda>s2.
     Option.bind (after_word ''context'' s2) (\<lambda>s3. Option.bind (after_blanks s3) (\<lambda>s4.
     Option.bind (after_word ''from:#'' s4) (\<lambda>s5.
       if takeWhile channel_char s5 \<noteq> [] \<and> list_all py_isspace (dropWhile channel_char s5) then Some (takeWhile channel_char s5) else None)))))"

definition resolve_target :: "string \<Rightarrow> string option \<Rightarrow> string" where
  "resolve_target action explicit =
     (if truthy (map_option py_strip explicit) then py_strip (the explicit)
      else let a = py_lower (py_strip action)
           in if py_startswith a ''llm_'' then ''llm'' else if py_startswith a ''msg_'' then ''communication'' else ''sandbox'')"

definition is_role_available_in_channel :: "string \<Rightarrow> bool \<Rightarrow> bool" where
  "is_role_available_in_channel role is_project_channel = (\<not> (is_project_channel \<and> role \<in> {''auditor'', ''administrator''}))"

fun intent_value :: "intent_class \<Rightarrow> string" where
  "intent_value Discussion = ''discussion''"
| "intent_value Query = ''query''"
| "intent_value Mutation = ''mutation''"
| "intent_value Admin = ''admin''"

section \<open>Steps of the handler\<close>

definition chat_uuid :: "'w chat_state \<Rightarrow> string \<times> 'w chat_state" where
  "chat_uuid st = (case ingress_uuid (ch_ingress st) of (i, ig) \<Rightarrow> (i, st\<lparr>ch_ingress := ig\<rparr>))"

definition advisory_answer ::
  "discord_message \<Rightarrow> string \<Rightarrow> string \<Rightarrow> string \<Rightarrow> (string \<times> string option) list \<Rightarrow> 'w chat_state \<Rightarrow> 'w chat_run" where
  "advisory_answer m kind command target llm st =
     (let (i, st1) = chat_uuid st
      in (Inr (Advised (dm_trace_id m)
            \<lparr>av_task_id = kind @ dm_external_message_id m, av_request_id = i, av_principal_id = dm_actor_external_id m,
             av_command = command, av_dispatch_target = target, av_llm_execution = llm\<rparr>), st1))"

definition discord_advisory_response :: "discord_message \<Rightarrow> string \<Rightarrow> string \<Rightarrow> 'w chat_state \<Rightarrow> 'w chat_run" where
  "discord_advisory_response m command message =
     advisory_answer m ''discord-context-'' command ''context_injection'' [(''advisory_response'', Some message)]"

definition grammar_error_response :: "grammar_error \<Rightarrow> chat_response" where
  "grammar_error_response e = (case e of GrammarParseError code message details \<Rightarrow>
     Refused 400 ''denied'' code ''validation_error'' message ''grammar_layer'' details)"

definition chat_signature :: "'w chat_env \<Rightarrow> string option \<Rightarrow> discord_message \<Rightarrow> py_exn + connector_auth" where
  "chat_signature env signature m =
     validate_connector_auth (ie_hmac (xe_ingress env)) (ie_secret (xe_ingress env)) (Some ''discord'') (Some (dm_actor_external_id m))
       (Some (dm_idempotency_key m)) signature ''discord'' (dm_actor_external_id m) (dm_idempotency_key m) (dm_raw_payload_hash m)"

definition with_signature ::
  "'w chat_env \<Rightarrow> string option \<Rightarrow> discord_message \<Rightarrow> ('w chat_state \<Rightarrow> 'w chat_run) \<Rightarrow> 'w chat_state \<Rightarrow> 'w chat_run" where
  "with_signature env signature m f st =
     (case chat_signature env signature m of
        Inl (CodedError code message) \<Rightarrow> (Inr (Refused 400 ''error'' code ''authorization_error'' message ''connector_security'' []), st)
      | Inl x \<Rightarrow> (Inl x, st)
      | Inr _ \<Rightarrow> f st)"

definition chat_classify ::
  "'w chat_env \<Rightarrow> string \<Rightarrow> chat_context \<Rightarrow> 'w chat_state \<Rightarrow> (grammar_error, intent_class, 'w chat_state) run" where
  "chat_classify env text ctx st =
     (case classify (xe_model env) text ctx (xe_clock env (ch_ticks st)) (ch_classifier st) of
        (r, c) \<Rightarrow> (r, st\<lparr>ch_classifier := c, ch_ticks := Suc (ch_ticks st)\<rparr>))"

definition free_text_request :: "discord_message \<Rightarrow> string \<Rightarrow> string \<Rightarrow> advisory_request" where
  "free_text_request m role text = \<lparr>fa_text = text, fa_scope = ''guild::'' @ dm_guild_id m @ ''::channel::'' @ dm_channel_id m,
     fa_guild_id = dm_guild_id m, fa_channel_id = dm_channel_id m, fa_addressed_agent = role\<rparr>"

definition call_agent :: "'w chat_env \<Rightarrow> discord_message \<Rightarrow> string \<Rightarrow> string \<Rightarrow> 'w chat_state \<Rightarrow> (py_exn, string, 'w chat_state) run" where
  "call_agent env m role text st =
     (case xe_agent env role (free_text_request m role text) (ch_agents st) of (r, w) \<Rightarrow> (r, st\<lparr>ch_agents := w\<rparr>))"

text \<open>An agent's exception is logged and answered with a fixed text.\<close>

definition agent_text :: "'w chat_env \<Rightarrow> discord_message \<Rightarrow> string \<Rightarrow> string \<Rightarrow> 'w chat_state \<Rightarrow> string \<times> 'w chat_state" where
  "agent_text env m role text st = (case call_agent env m role text st of (Inr t, st1) \<Rightarrow> (t, st1) | (Inl _, st1) \<Rightarrow> (unavailable role, st1))"

definition call_secretary ::
  "'w chat_env \<Rightarrow> discord_message \<Rightarrow> string \<Rightarrow> intent_class \<Rightarrow> chat_context \<Rightarrow> string \<Rightarrow> 'w chat_state \<Rightarrow>
   (py_exn, string \<times> string option, 'w chat_state) run" where
  "call_secretary env m text intent ctx addressed st =
     (case xe_secretary env \<lparr>sq_message = text, sq_intent = intent, sq_context = ctx, sq_trace_id = dm_trace_id m, sq_channel_id = dm_channel_id m,
             sq_guild_id = dm_guild_id m, sq_actor_id = dm_actor_external_id m, sq_addressed_agent = addressed\<rparr> (ch_agents st) of
        (r, w) \<Rightarrow> (r, st\<lparr>ch_agents := w\<rparr>))"

definition secretary_denied :: "string \<Rightarrow> string \<Rightarrow> chat_response" where
  "secretary_denied code message = Refused 403 ''denied'' code ''authorization_error'' message ''secretary_agent'' []"

text \<open>The owner command of a message; the model raises where building it violates its schema.\<close>

definition owner_command_of :: "discord_message \<Rightarrow> string option \<Rightarrow> string \<Rightarrow> string \<Rightarrow> string list \<Rightarrow> owner_command" where
  "owner_command_of m project_id action target args =
     \<lparr>oc_message_id = dm_external_message_id m, oc_trace_id = dm_trace_id m, oc_sender_actor_id = dm_actor_external_id m,
      oc_sender_actor_role = dm_actor_role m, oc_recipients = dm_recipients m, oc_message_type = ''command'', oc_priority = dm_priority m,
      oc_content = dm_content m, oc_project_id = project_id, oc_connector_channel = ''discord'',
      oc_external_message_id = dm_external_message_id m, oc_actor_external_id = dm_actor_external_id m,
      oc_idempotency_key = dm_idempotency_key m, oc_raw_payload_hash = dm_raw_payload_hash m,
      oc_discord_context = Some \<lparr>dc_guild_id = dm_guild_id m, dc_channel_id = dm_channel_id m, dc_channel_type = dm_channel_type m,
        dc_chat_class = dm_chat_class m\<rparr>,
      oc_action = action, oc_target = target, oc_args = ArgsList args\<rparr>"

definition chat_headers :: "string option \<Rightarrow> discord_message \<Rightarrow> ingress_headers" where
  "chat_headers signature m = \<lparr>hd_trace_id = Some (dm_trace_id m), hd_external_channel = Some ''discord'',
     hd_external_actor_id = Some (dm_actor_external_id m), hd_actor_role = None, hd_idempotency_key = Some (dm_idempotency_key m),
     hd_signature = signature\<rparr>"

definition submit_message ::
  "'w chat_env \<Rightarrow> string option \<Rightarrow> discord_message \<Rightarrow> string option \<Rightarrow> string \<Rightarrow> string \<Rightarrow> string list \<Rightarrow> 'w chat_state \<Rightarrow> 'w chat_run" where
  "submit_message env signature m project_id action target args st =
     (let p = owner_command_of m project_id action target args
      in if \<not> owner_command_valid p then (Inl (OtherExn ''ValidationError''), st)
         else case submit_owner_command (xe_ingress env) (chat_headers signature m) p (ch_ingress st) of
                (r, ig) \<Rightarrow> (map_sum id Submitted r, st\<lparr>ch_ingress := ig\<rparr>))"

section \<open>Commands\<close>

definition context_command :: "discord_message \<Rightarrow> string \<Rightarrow> 'w chat_state \<Rightarrow> 'w chat_run" where
  "context_command m channel st =
     discord_advisory_response m ''context''
       (case get_binding_by_name (ig_governance (ch_ingress st)) (ch_spaces st) channel (dm_guild_id m) of
          None \<Rightarrow> ''No project channel named #'' @ channel @ '' found.''
        | Some _ \<Rightarrow> ''Context from #'' @ channel @ '' noted. It will be included in your next message.'') st"

text \<open>\<^verbatim>\<open>/oq ask secretary\<close>: a text that the classifier refuses is replaced by a fixed question; a second refusal escapes.\<close>

definition ask_secretary :: "'w chat_env \<Rightarrow> discord_message \<Rightarrow> chat_context \<Rightarrow> string \<Rightarrow> 'w chat_state \<Rightarrow> 'w chat_run" where
  "ask_secretary env m ctx text st =
     (let (r, st1) = (case chat_classify env text ctx st of (Inl _, st') \<Rightarrow> chat_classify env ''tell me about your role'' ctx st' | ok \<Rightarrow> ok)
      in case r of
           Inl (GrammarParseError _ message _) \<Rightarrow> (Inl (OtherExn message), st1)
         | Inr intent \<Rightarrow>
             (case call_secretary env m text intent ctx [] st1 of
                (Inl (CodedError code message), st2) \<Rightarrow> (Inr (secretary_denied code message), st2)
              | (Inl _, st2) \<Rightarrow> discord_advisory_response m ''ask'' (unavailable ''secretary'') st2
              | (Inr (advisory, _), st2) \<Rightarrow> discord_advisory_response m ''ask'' advisory st2))"

definition ask_agent :: "'w chat_env \<Rightarrow> discord_message \<Rightarrow> string \<Rightarrow> string \<Rightarrow> 'w chat_state \<Rightarrow> 'w chat_run" where
  "ask_agent env m role text st = (case agent_text env m role text st of (t, st1) \<Rightarrow> discord_advisory_response m ''ask'' t st1)"

definition command_message ::
  "'w chat_env \<Rightarrow> string option \<Rightarrow> discord_message \<Rightarrow> chat_context \<Rightarrow> string \<Rightarrow> 'w chat_state \<Rightarrow> 'w chat_run" where
  "command_message env signature m ctx content st =
     (case context_channel content of
        Some channel \<Rightarrow> with_signature env signature m (context_command m channel) st
      | None \<Rightarrow>
          (case parse_command content of
             Inl e \<Rightarrow> (Inr (grammar_error_response e), st)
           | Inr c \<Rightarrow>
               (let target = or_str (cm_target c) (resolve_target (dm_action m) (dm_target m));
                    args = (if cm_args c \<noteq> [] then cm_args c else dm_args m);
                    role = py_lower target;
                    joined = py_strip (py_join '' '' args); text = (if args \<noteq> [] \<and> joined \<noteq> [] then joined else content)
                in if cm_verb c = ''ask'' \<and> role \<in> set (advisory_agent_roles @ [''secretary''])
                   then with_signature env signature m
                          (if role = ''secretary'' then ask_secretary env m ctx text else ask_agent env m role text) st
                   else submit_message env signature m (cx_project_id ctx) (cm_verb c) target args st)))"

section \<open>Free text\<close>

definition everyone_broadcast :: "'w chat_env \<Rightarrow> discord_message \<Rightarrow> string \<Rightarrow> 'w chat_state \<Rightarrow> 'w chat_run" where
  "everyone_broadcast env m content st =
     (case agent_text env m (the (dm_bot_role m)) content st of (t, st1) \<Rightarrow> discord_advisory_response m ''everyone_broadcast'' t st1)"

text \<open>A message forwarded by the bot of an agent: the agent's answer, or \<open>None\<close> where it has none or raises.\<close>

definition forwarded :: "'w chat_env \<Rightarrow> discord_message \<Rightarrow> string \<Rightarrow> string \<Rightarrow> 'w chat_state \<Rightarrow> string option \<times> 'w chat_state" where
  "forwarded env m role content st =
     (if role \<notin> {''ceo'', ''cwo'', ''auditor'', ''cso'', ''project_manager''} then (None, st)
      else case call_agent env m role content st of (Inr t, st1) \<Rightarrow> (Some t, st1) | (Inl _, st1) \<Rightarrow> (None, st1))"

definition addressed_agent :: "discord_message \<Rightarrow> string" where
  "addressed_agent m = (case find (\<lambda>t. t \<notin> {[], ''runtime'', ''secretary''}) (map (\<lambda>r. py_lower (py_strip (rc_recipient_type r))) (dm_recipients m)) of
     None \<Rightarrow> [] | Some t \<Rightarrow> t)"

definition secretary_tier2 ::
  "'w chat_env \<Rightarrow> discord_message \<Rightarrow> chat_context \<Rightarrow> intent_class \<Rightarrow> string \<Rightarrow> 'w chat_state \<Rightarrow> 'w chat_run" where
  "secretary_tier2 env m ctx intent content st =
     (case call_secretary env m content intent ctx (addressed_agent m) st of
        (Inl (CodedError code message), st1) \<Rightarrow> (Inr (secretary_denied code message), st1)
      | (Inl x, st1) \<Rightarrow> (Inl x, st1)
      | (Inr (advisory, suggestion), st1) \<Rightarrow>
          advisory_answer m ''secretary-'' (intent_value intent) ''secretary'' [(''advisory_response'', Some advisory), (''routing_suggestion'', suggestion)] st1)"

definition referral :: "'w chat_env \<Rightarrow> string \<Rightarrow> string" where
  "referral env role = ''The '' @ role_label role @ '' agent'' @ (if truthy (xe_mention env role) then '' '' @ the (xe_mention env role) else []) @
     '' is not available in project channels. Use `/oq ask '' @ role @ '' <your question>` in a general channel.''"

definition secretary_message ::
  "'w chat_env \<Rightarrow> discord_message \<Rightarrow> chat_context \<Rightarrow> intent_class \<Rightarrow> bool \<Rightarrow> string \<Rightarrow> 'w chat_state \<Rightarrow> 'w chat_run" where
  "secretary_message env m ctx intent is_project_channel content st =
     (case classify_topic topic_routing_table content of
        None \<Rightarrow> secretary_tier2 env m ctx intent content st
      | Some d \<Rightarrow>
          if is_role_available_in_channel (rd_agent_role d) is_project_channel
          then (case forwarded env m (rd_agent_role d) content st of
                  (Some t, st1) \<Rightarrow> discord_advisory_response m ''ask'' t st1
                | (None, st1) \<Rightarrow> secretary_tier2 env m ctx intent content st1)
          else discord_advisory_response m ''ask'' (referral env (rd_agent_role d)) st)"

definition bot_message :: "'w chat_env \<Rightarrow> discord_message \<Rightarrow> intent_class \<Rightarrow> string \<Rightarrow> 'w chat_state \<Rightarrow> 'w chat_run" where
  "bot_message env m intent content st =
     (let role = the (dm_bot_role m); (t, st1) = agent_text env m role content st
      in advisory_answer m (role @ ''-'') (intent_value intent) role [(''advisory_response'', Some t), (''routing_suggestion'', None)] st1)"

definition route_message ::
  "'w chat_env \<Rightarrow> string option \<Rightarrow> discord_message \<Rightarrow> chat_context \<Rightarrow> bool \<Rightarrow> string \<Rightarrow> intent_class \<Rightarrow> 'w chat_state \<Rightarrow> 'w chat_run" where
  "route_message env signature m ctx is_project_channel content intent st =
     (let target = rh_target_role (route_free_text intent ctx)
      in if target = ''secretary'' \<and> \<not> advisory_bot m
         then with_signature env signature m (secretary_message env m ctx intent is_project_channel content) st
         else if advisory_bot m then with_signature env signature m (bot_message env m intent content) st
         else submit_message env signature m (cx_project_id ctx) (intent_value intent) target (dm_args m) st)"

definition free_text_message ::
  "'w chat_env \<Rightarrow> string option \<Rightarrow> discord_message \<Rightarrow> chat_context \<Rightarrow> bool \<Rightarrow> string \<Rightarrow> 'w chat_state \<Rightarrow> 'w chat_run" where
  "free_text_message env signature m ctx is_project_channel content st =
     (case chat_classify env content ctx st of
        (Inl e, st1) \<Rightarrow> (Inr (grammar_error_response e), st1)
      | (Inr intent, st1) \<Rightarrow>
          (let rest = route_message env signature m ctx is_project_channel content intent
           in if dm_is_everyone_mention m
              then with_signature env signature m (if advisory_bot m then everyone_broadcast env m content else rest) st1
              else if advisory_bot m \<and> rh_target_role (route_free_text intent ctx) = ''secretary''
              then with_signature env signature m (\<lambda>st2.
                     case forwarded env m (the (dm_bot_role m)) content st2 of
                       (Some t, st3) \<Rightarrow> discord_advisory_response m ''ask'' t st3
                     | (None, st3) \<Rightarrow> rest st3) st1
              else rest st1))"

section \<open>The endpoint\<close>

definition resolved_project :: "discord_message \<Rightarrow> spaces \<Rightarrow> string option" where
  "resolved_project m s = (case resolve_route s (dm_guild_id m) (dm_channel_id m) of None \<Rightarrow> dm_project_id m | Some rx \<Rightarrow> Some (rx_project_id rx))"

definition submit_discord_message :: "'w chat_env \<Rightarrow> string option \<Rightarrow> discord_message \<Rightarrow> 'w chat_state \<Rightarrow> 'w chat_run" where
  "submit_discord_message env signature m st =
     (let ctx = \<lparr>cx_chat_class = dm_chat_class m, cx_channel_id = dm_channel_id m, cx_project_id = resolved_project m (ch_spaces st)\<rparr>;
          content = py_strip (dm_content m)
      in if py_startswith content ''/oq'' then command_message env signature m ctx content st
         else free_text_message env signature m ctx (resolve_route (ch_spaces st) (dm_guild_id m) (dm_channel_id m) \<noteq> None) content st)"

section \<open>What answering an agent's text leaves untouched\<close>

text \<open>
  \<open>keeps st st'\<close>: tasks, claims, projects and identities are as before, and the classifier's cache still holds no mutation;
  \<open>frame\<close>: the whole ingress state is as before.
\<close>

definition keeps :: "'w chat_state \<Rightarrow> 'w chat_state \<Rightarrow> bool" where
  "keeps st st' = (same_books (ch_ingress st) (ch_ingress st') \<and> (cache_ok (ch_classifier st) \<longrightarrow> cache_ok (ch_classifier st')))"

definition frame :: "'w chat_state \<Rightarrow> 'w chat_state \<Rightarrow> bool" where
  "frame st st' = (ch_ingress st' = ch_ingress st \<and> (cache_ok (ch_classifier st) \<longrightarrow> cache_ok (ch_classifier st')))"

lemma keeps_refl [simp]: "keeps st st" "frame st st"
  by (simp_all add: keeps_def frame_def)

lemma frame_trans: "frame a b \<Longrightarrow> frame b c \<Longrightarrow> frame a c"
  by (simp add: frame_def)

lemma keeps_step: "keeps st0 st \<Longrightarrow> frame st st' \<Longrightarrow> keeps st0 st'"
  by (simp add: keeps_def frame_def)

lemma frame_keeps: "frame st st' \<Longrightarrow> keeps st' st'' \<Longrightarrow> keeps st st''"
  by (auto simp: keeps_def frame_def)

lemma keeps_answer: "keeps st0 st \<Longrightarrow> keeps st0 (snd (advisory_answer m k c t l st))"
  using draws_same_books(1) [of "ch_ingress st"] same_books_trans
  by (auto simp: advisory_answer_def chat_uuid_def keeps_def Let_def split: prod.splits)

lemma keeps_response: "keeps st0 st \<Longrightarrow> keeps st0 (snd (discord_advisory_response m c t st))"
  by (simp add: discord_advisory_response_def keeps_answer)

lemma classify_cache: "cache_ok c \<Longrightarrow> cache_ok (snd (classify model message ctx now c))"
  using classify_free_text_ok [of c model "py_strip message" ctx now]
  by (auto simp: classify_def run_ok_def refused_free_text_def split: prod.splits sum.splits)

lemma chat_classify_rest: "chat_classify env words ctx st = (r, st') \<Longrightarrow> ch_agents st' = ch_agents st \<and> ch_spaces st' = ch_spaces st"
  by (auto simp: chat_classify_def split: prod.splits)

lemma keeps_frames:
  "chat_classify env words ctx st = (r, st') \<Longrightarrow> frame st st'"
  "call_agent env m role words st = (q, st') \<Longrightarrow> frame st st'"
  "agent_text env m role words st = (t, st') \<Longrightarrow> frame st st'"
  "call_secretary env m words intent ctx a st = (z, st') \<Longrightarrow> frame st st'"
  "forwarded env m role words st = (u, st') \<Longrightarrow> frame st st'"
  using classify_cache [of "ch_classifier st" "xe_model env" words ctx "xe_clock env (ch_ticks st)"]
  by (auto simp: frame_def chat_classify_def call_agent_def agent_text_def call_secretary_def forwarded_def split: prod.splits sum.splits if_splits)

lemma keeps_context: "keeps st0 st \<Longrightarrow> keeps st0 (snd (context_command m c st))"
  by (simp add: context_command_def keeps_response)

lemma keeps_answers:
  assumes "keeps st0 st"
  shows "keeps st0 (snd (ask_agent env m role text st))"
    and "keeps st0 (snd (everyone_broadcast env m text st))"
    and "keeps st0 (snd (bot_message env m intent text st))"
proof -
  have agent: "keeps st0 u" if "agent_text env m r text st = (t, u)" for r t u using keeps_step [OF assms keeps_frames(3) [OF that]] .
  obtain t u where "agent_text env m role text st = (t, u)" by fastforce
  with agent show "keeps st0 (snd (ask_agent env m role text st))" by (simp add: ask_agent_def keeps_response)
  obtain t u where "agent_text env m (the (dm_bot_role m)) text st = (t, u)" by fastforce
  with agent show "keeps st0 (snd (everyone_broadcast env m text st))" "keeps st0 (snd (bot_message env m intent text st))"
    by (simp_all add: everyone_broadcast_def bot_message_def keeps_response keeps_answer Let_def)
qed

lemma keeps_tier2: "keeps st0 (snd (secretary_tier2 env m ctx intent text st))" if "keeps st0 st"
proof -
  obtain z u where z: "call_secretary env m text intent ctx (addressed_agent m) st = (z, u)" by fastforce
  note u = keeps_step [OF that keeps_frames(4) [OF z]]
  show ?thesis
  proof (cases z)
    case (Inl x)
    then show ?thesis using u by (cases x) (simp_all add: secretary_tier2_def z)
  next
    case (Inr y)
    then show ?thesis using u by (simp add: secretary_tier2_def z keeps_answer split: prod.split)
  qed
qed

lemma keeps_secretary: "keeps st0 (snd (secretary_message env m ctx intent pc text st))" if "keeps st0 st"
proof -
  have f: "keeps st0 u" if "forwarded env m r text st = (t, u)" for r t u using keeps_step [OF \<open>keeps st0 st\<close> keeps_frames(5) [OF that]] .
  show ?thesis using f that unfolding secretary_message_def
    by (auto intro: keeps_response keeps_tier2 split: option.split prod.split)
qed

lemma keeps_ask_secretary: "keeps st0 (snd (ask_secretary env m ctx text st))" if "keeps st0 st"
proof -
  define c where "c = (case chat_classify env text ctx st of (Inl _, st') \<Rightarrow> chat_classify env ''tell me about your role'' ctx st' | ok \<Rightarrow> ok)"
  obtain r st1 where r: "c = (r, st1)" by fastforce
  obtain q u where q: "chat_classify env text ctx st = (q, u)" by fastforce
  have "frame st st1"
    using keeps_frames(1) [OF q] keeps_frames(1) [of env "''tell me about your role''" ctx u r st1] frame_trans r unfolding c_def q by (cases q) auto
  note k = keeps_step [OF that this]
  show ?thesis
  proof (cases r)
    case (Inl e)
    then show ?thesis using k by (cases e) (simp add: ask_secretary_def c_def [symmetric] r)
  next
    case (Inr intent)
    obtain z v where z: "call_secretary env m text intent ctx [] st1 = (z, v)" by fastforce
    note v = keeps_step [OF k keeps_frames(4) [OF z]]
    have "snd (ask_secretary env m ctx text st) = snd (case (z, v) of
                (Inl (CodedError code message), st2) \<Rightarrow> (Inr (secretary_denied code message), st2)
              | (Inl _, st2) \<Rightarrow> discord_advisory_response m ''ask'' (unavailable ''secretary'') st2
              | (Inr (advisory, _), st2) \<Rightarrow> discord_advisory_response m ''ask'' advisory st2)"
      by (simp only: ask_secretary_def c_def [symmetric] r Let_def prod.case Inr sum.case z)
    then show ?thesis using v by (auto intro: keeps_response split: sum.split py_exn.split prod.split)
  qed
qed

lemma keeps_signed: "(\<And>u. keeps st0 u \<Longrightarrow> keeps st0 (snd (f u))) \<Longrightarrow> keeps st0 st \<Longrightarrow> keeps st0 (snd (with_signature env sig m f st))"
  by (auto simp: with_signature_def split: sum.split py_exn.split)

section \<open>Where a message goes\<close>

lemma command_message_cases:
  "keeps st (snd (command_message env sig m ctx content st)) \<or>
   (\<exists>c target args. parse_command content = Inr c \<and>
      command_message env sig m ctx content st = submit_message env sig m (cx_project_id ctx) (cm_verb c) target args st)"
proof (cases "context_channel content")
  case (Some channel)
  then show ?thesis by (auto simp: command_message_def intro: keeps_signed keeps_context)
next
  case None
  show ?thesis
  proof (cases "parse_command content")
    case (Inl e)
    then show ?thesis by (simp add: command_message_def None)
  next
    case (Inr c)
    have ask: "keeps st (snd (with_signature env sig m (if b then ask_secretary env m ctx words else ask_agent env m role words) st))" for b role words
      by (rule keeps_signed) (auto intro: keeps_ask_secretary keeps_answers(1))
    show ?thesis unfolding command_message_def None option.case Inr sum.case Let_def using ask by (auto simp: Inr)
  qed
qed

lemma route_message_cases:
  "keeps st (snd (route_message env sig m ctx pc content intent st)) \<or>
   (\<exists>target args. route_message env sig m ctx pc content intent st =
      submit_message env sig m (cx_project_id ctx) (intent_value intent) target args st)"
proof -
  have "keeps st (snd (with_signature env sig m (secretary_message env m ctx intent pc content) st))"
    "keeps st (snd (with_signature env sig m (bot_message env m intent content) st))"
    by (rule keeps_signed; auto intro: keeps_secretary keeps_answers(3))+
  then show ?thesis by (auto simp: route_message_def Let_def)
qed

lemma classify_text:
  assumes "chat_classify env content ctx st = (Inr intent, st1)" "cache_ok (ch_classifier st)" "\<not> py_startswith (py_strip content) ''/oq''"
  shows "intent \<noteq> Mutation"
proof -
  obtain r c where r: "classify_free_text (xe_model env) (py_strip content) ctx (xe_clock env (ch_ticks st)) (ch_classifier st) = (r, c)" by fastforce
  with assms(1,3) have "r = Inr intent" by (auto simp: chat_classify_def classify_def)
  with classify_free_text_ok [OF assms(2), of "xe_model env" "py_strip content" ctx "xe_clock env (ch_ticks st)"] r show ?thesis by simp
qed

lemma free_text_message_cases:
  assumes "cache_ok (ch_classifier st)" "\<not> py_startswith (py_strip content) ''/oq''"
  shows "keeps st (snd (free_text_message env sig m ctx pc content st)) \<or>
    (\<exists>intent target args st1. free_text_message env sig m ctx pc content st =
       submit_message env sig m (cx_project_id ctx) (intent_value intent) target args st1 \<and> intent \<noteq> Mutation \<and> frame st st1)"
proof -
  obtain r st1 where r: "chat_classify env content ctx st = (r, st1)" by fastforce
  note same = keeps_frames(1) [OF r]
  show ?thesis
  proof (cases r)
    case (Inl e)
    then show ?thesis using keeps_step [OF keeps_refl(1) same] by (simp add: free_text_message_def r)
  next
    case (Inr intent)
    have i: "intent \<noteq> Mutation" using classify_text r Inr assms by blast
    let ?rest = "route_message env sig m ctx pc content intent"
    define goal where "goal run = (keeps st (snd run) \<or> (\<exists>target args u. run = submit_message env sig m (cx_project_id ctx) (intent_value intent) target args u \<and>
      frame st u))" for run
    have rest: "goal (?rest u)" if "frame st u" for u
      using route_message_cases [of u env sig m ctx pc content intent] that frame_keeps unfolding goal_def by blast
    have signed: "goal (with_signature env sig m f st1)" if "goal (f st1)" for f
      using that keeps_step [OF keeps_refl(1) same] by (auto simp: goal_def with_signature_def split: sum.split py_exn.split)
    have fwd: "goal (case forwarded env m role content st1 of (Some t, st3) \<Rightarrow> discord_advisory_response m ''ask'' t st3 | (None, st3) \<Rightarrow> ?rest st3)" for role
    proof (cases "forwarded env m role content st1")
      case (Pair t st3)
      then have f: "frame st st3" using frame_trans [OF same keeps_frames(5)] by blast
      have "goal (discord_advisory_response m ''ask'' w st3)" for w
        unfolding goal_def using keeps_response [OF keeps_step [OF keeps_refl(1) f]] by blast
      with rest [OF f] Pair show ?thesis by (auto split: option.split)
    qed
    have bcast: "goal (everyone_broadcast env m content st1)" unfolding goal_def using keeps_answers(2) [OF keeps_step [OF keeps_refl(1) same]] by blast
    have "goal (with_signature env sig m (everyone_broadcast env m content) st1)" by (rule signed) (rule bcast)
    moreover have "goal (with_signature env sig m ?rest st1)" by (rule signed, rule rest) (use same in simp)
    moreover have "goal (with_signature env sig m (\<lambda>st2. case forwarded env m role content st2 of
        (Some t, st3) \<Rightarrow> discord_advisory_response m ''ask'' t st3 | (None, st3) \<Rightarrow> ?rest st3) st1)" for role by (rule signed) (rule fwd)
    moreover have "goal (?rest st1)" by (rule rest) (use same in simp)
    ultimately have "goal (free_text_message env sig m ctx pc content st)"
      unfolding free_text_message_def r Inr Let_def prod.case sum.case by auto
    then show ?thesis using i unfolding goal_def by blast
  qed
qed

section \<open>What a stored task went through\<close>

lemma stored_envelope:
  assumes "ad_repo (ig_admission (snd (submit_owner_command env h p st))) \<noteq> ad_repo (ig_admission st)"
  obtains a pr tr rid e i now where "missing_header h = None" "check_signature env h p = Inr a"
    "resolve_principal (principal_headers h) (PersistentDirectory (dr_mappings (ig_directory st))) = Inr pr"
    "validate_owner_command_envelope p pr (Some tr) rid = Inr e"
    "ad_repo (ig_admission (snd (submit_owner_command env h p st))) = ad_repo (ig_admission st) @ [new_task e i now]"
proof -
  from assms have "ig_admission (snd (submit_owner_command env h p st)) \<noteq> ig_admission st" by auto
  then obtain tr st1 a pr rid e where p: "missing_header h = None" "check_signature env h p = Inr a"
    "resolve_principal (principal_headers h) (PersistentDirectory (dr_mappings (ig_directory st))) = Inr pr"
    "validate_owner_command_envelope p pr (Some tr) rid = Inr e"
    and sub: "submit_owner_command env h p st = govern_envelope env tr p pr e st1" and b: "same_books st st1"
    by (rule submit_admits)
  then have "ig_admission (snd (govern_envelope env tr p pr e st1)) \<noteq> ig_admission st1" using assms by (auto simp: same_books_def)
  then obtain d where gov: "govern_envelope env tr p pr e st1 = admit_envelope env tr pr e (st1\<lparr>ig_directory := d\<rparr>)"
    by (rule govern_envelope_admits)
  from admit_envelope_admission [of env tr pr e "st1\<lparr>ig_directory := d\<rparr>"] b obtain i now where
    ad: "ig_admission (snd (submit_owner_command env h p st)) = snd (admit_owner_command (ie_digest env) (ig_admission st) e i now (ie_insert_fault env))"
    by (auto simp: sub gov same_books_def)
  from admit_changes_repo(1) [of "ie_digest env" "ig_admission st" e i now "ie_insert_fault env"] assms
  show thesis by (intro that [OF p]) (simp add: ad)
qed

lemma chat_signature_checked:
  "check_signature (xe_ingress env) (chat_headers sig m) (owner_command_of m project action target args) = chat_signature env sig m"
  by (simp add: check_signature_def chat_headers_def owner_command_of_def chat_signature_def)

lemma submit_message_stores:
  assumes "ad_repo (ig_admission (ch_ingress (snd (submit_message env sig m project action target args st)))) \<noteq> ad_repo (ig_admission (ch_ingress st))"
  shows "\<exists>t. ad_repo (ig_admission (ch_ingress (snd (submit_message env sig m project action target args st)))) =
      ad_repo (ig_admission (ch_ingress st)) @ [t] \<and>
    (\<exists>a. chat_signature env sig m = Inr a) \<and> tk_project_id t = project \<and> tk_command t = py_strip action \<and>
    tk_principal_id t = dm_actor_external_id m \<and> verified_member (ch_ingress st) (dm_actor_external_id m) (tk_principal_role t)"
proof -
  let ?p = "owner_command_of m project action target args" and ?h = "chat_headers sig m"
  have sub: "ch_ingress (snd (submit_message env sig m project action target args st)) = snd (submit_owner_command (xe_ingress env) ?h ?p (ch_ingress st))"
    using assms by (auto simp: submit_message_def Let_def split: prod.splits)
  from assms obtain a pr tr rid e i now where h: "missing_header ?h = None" and a: "check_signature (xe_ingress env) ?h ?p = Inr a"
    and pr: "resolve_principal (principal_headers ?h) (PersistentDirectory (dr_mappings (ig_directory (ch_ingress st)))) = Inr pr"
    and e: "validate_owner_command_envelope ?p pr (Some tr) rid = Inr e"
    and t: "ad_repo (ig_admission (snd (submit_owner_command (xe_ingress env) ?h ?p (ch_ingress st)))) = ad_repo (ig_admission (ch_ingress st)) @ [new_task e i now]"
    unfolding sub by (rule stored_envelope)
  note who = signed_principal [OF h a pr]
  have chan: "oc_connector_channel ?p = ''discord''" "oc_actor_external_id ?p = dm_actor_external_id m" by (simp_all add: owner_command_of_def)
  have "pr_connector pr \<noteq> ''internal''" using who(1) chan by simp
  from verified_member_resolved [OF pr this] who chan have "verified_member (ch_ingress st) (dm_actor_external_id m) (pr_principal_role pr)" by simp
  moreover have "env_project_id e = project"
    using e by (auto simp: validate_owner_command_envelope_def owner_command_of_def Let_def split: if_splits option.splits)
  moreover have "chat_signature env sig m = Inr a" using a by (simp only: chat_signature_checked)
  moreover have "oc_action ?p = action" by (simp add: owner_command_of_def)
  moreover have "tk_project_id (new_task e i now) = env_project_id e" "tk_command (new_task e i now) = env_command e"
    "tk_principal_id (new_task e i now) = env_principal_id e" "tk_principal_role (new_task e i now) = env_principal_role e"
    by (simp_all add: new_task_def)
  ultimately show ?thesis
    using t envelope_fields(1,2,4) [OF e] who(2) chan(2) unfolding sub by (intro exI [of _ "new_task e i now"]) simp
qed

lemma unsigned_submit:
  assumes "chat_signature env sig m = Inl x"
  shows "keeps st (snd (submit_message env sig m project action target args st)) \<and>
    ch_agents (snd (submit_message env sig m project action target args st)) = ch_agents st"
proof -
  let ?p = "owner_command_of m project action target args" and ?h = "chat_headers sig m"
  obtain tr st1 where t: "ingress_trace ?h ?p (ch_ingress st) = (tr, st1)" by fastforce
  have b: "same_books (ch_ingress st) st1" using draws_same_books(3) [of "ch_ingress st" ?h ?p] by (simp add: t)
  have "same_books (ch_ingress st) (snd (submit_owner_command (xe_ingress env) ?h ?p (ch_ingress st)))"
    using b same_books_trans [OF b refuse_same_books]
    by (auto simp: submit_owner_command_def t Let_def chat_signature_checked assms split: option.split py_exn.split)
  then show ?thesis by (auto simp: submit_message_def Let_def keeps_def split: prod.split)
qed

section \<open>Messages without a valid signature\<close>

definition untouched :: "'w chat_state \<Rightarrow> 'w chat_state \<Rightarrow> bool" where
  "untouched st st' = (same_books (ch_ingress st) (ch_ingress st') \<and> ch_agents st' = ch_agents st \<and> ch_spaces st' = ch_spaces st)"

lemma untouched_refl [simp]: "untouched st st"
  by (simp add: untouched_def)

lemma unsigned_stops: "chat_signature env sig m = Inl x \<Longrightarrow> snd (with_signature env sig m f st) = st"
  by (auto simp: with_signature_def split: py_exn.split)

lemma unsigned_submit_untouched:
  assumes "chat_signature env sig m = Inl x"
  shows "untouched st (snd (submit_message env sig m project action target args st))"
proof -
  have "ch_spaces (snd (submit_message env sig m project action target args st)) = ch_spaces st"
    by (simp add: submit_message_def Let_def split: prod.split)
  with unsigned_submit [OF assms] show ?thesis by (simp add: untouched_def keeps_def)
qed

lemma unsigned_command:
  assumes "chat_signature env sig m = Inl x"
  shows "untouched st (snd (command_message env sig m ctx content st))"
  using unsigned_submit_untouched [OF assms] unsigned_stops [OF assms]
  by (auto simp: command_message_def Let_def split: option.split sum.split)

lemma unsigned_route:
  assumes "chat_signature env sig m = Inl x"
  shows "untouched st (snd (route_message env sig m ctx pc content intent st))"
  using unsigned_submit_untouched [OF assms] unsigned_stops [OF assms] by (auto simp: route_message_def Let_def)

lemma unsigned_free_text:
  assumes "chat_signature env sig m = Inl x"
  shows "untouched st (snd (free_text_message env sig m ctx pc content st))"
proof -
  obtain r st1 where r: "chat_classify env content ctx st = (r, st1)" by fastforce
  have "untouched st st1" using keeps_frames(1) [OF r] chat_classify_rest [OF r] by (simp add: untouched_def frame_def)
  moreover have "untouched st1 (snd (route_message env sig m ctx pc content intent st1))" for intent by (rule unsigned_route [OF assms])
  ultimately have "untouched st (snd (route_message env sig m ctx pc content intent st1))" for intent
    unfolding untouched_def using same_books_trans by metis
  with \<open>untouched st st1\<close> show ?thesis
    by (auto simp: free_text_message_def r Let_def unsigned_stops [OF assms] split: sum.split)
qed

section \<open>Properties\<close>

text \<open>
  C7: what a task that came in through a chat channel can be. If a message changes the stored tasks, it adds one task; the message
  was signed, its author has a verified identity, which gives the task its role, the task belongs to the project of the channel's
  active binding or, in a channel without an active binding, archived and locked ones included, to the one the message itself names
  (\<open>closed_channel_falls_back\<close>), and its command is the verb that the parser read
  or, for free text, one of discussion, query and administration. The cache of the classifier stays free of mutations.
\<close>

theorem chat_task_matches_channel:
  assumes "cache_ok (ch_classifier st)"
  shows "cache_ok (ch_classifier (snd (submit_discord_message env sig m st))) \<and>
    (ad_repo (ig_admission (ch_ingress (snd (submit_discord_message env sig m st)))) \<noteq> ad_repo (ig_admission (ch_ingress st)) \<longrightarrow>
      (\<exists>t. ad_repo (ig_admission (ch_ingress (snd (submit_discord_message env sig m st)))) = ad_repo (ig_admission (ch_ingress st)) @ [t] \<and>
         (\<exists>a. chat_signature env sig m = Inr a) \<and> tk_principal_id t = dm_actor_external_id m \<and>
         verified_member (ch_ingress st) (dm_actor_external_id m) (tk_principal_role t) \<and>
         tk_project_id t = resolved_project m (ch_spaces st) \<and>
         (if py_startswith (py_strip (dm_content m)) ''/oq''
          then \<exists>c. parse_command (py_strip (dm_content m)) = Inr c \<and> tk_command t = py_strip (cm_verb c)
          else tk_command t \<in> {''discussion'', ''query'', ''admin''})))"
proof -
  let ?content = "py_strip (dm_content m)" and ?proj = "resolved_project m (ch_spaces st)"
  let ?ctx = "\<lparr>cx_chat_class = dm_chat_class m, cx_channel_id = dm_channel_id m, cx_project_id = ?proj\<rparr>"
  let ?run = "submit_discord_message env sig m st"
  have cases: "keeps st (snd ?run) \<or> (\<exists>action target args u. ?run = submit_message env sig m ?proj action target args u \<and> frame st u \<and>
      (if py_startswith ?content ''/oq'' then \<exists>c. parse_command ?content = Inr c \<and> action = cm_verb c
       else action \<in> {''discussion'', ''query'', ''admin''}))"
  proof (cases "py_startswith ?content ''/oq''")
    case True
    then have run: "?run = command_message env sig m ?ctx ?content st" by (simp add: submit_discord_message_def Let_def)
    from command_message_cases [of st env sig m ?ctx ?content]
    have "keeps st (snd ?run) \<or> (\<exists>c target args. parse_command ?content = Inr c \<and> ?run = submit_message env sig m ?proj (cm_verb c) target args st)"
      unfolding run by simp
    then show ?thesis unfolding if_P [OF True] using keeps_refl(2) [of st] by blast
  next
    case False
    have names: "intent_value intent \<in> {''discussion'', ''query'', ''admin''}" if "intent \<noteq> Mutation" for intent using that by (cases intent) auto
    have run: "?run = free_text_message env sig m ?ctx (resolve_route (ch_spaces st) (dm_guild_id m) (dm_channel_id m) \<noteq> None) ?content st"
      using False by (simp add: submit_discord_message_def Let_def)
    from free_text_message_cases [OF assms, of ?content env sig m ?ctx] False
    have "keeps st (snd ?run) \<or> (\<exists>intent target args u. ?run = submit_message env sig m ?proj (intent_value intent) target args u \<and>
        intent \<noteq> Mutation \<and> frame st u)" unfolding run by simp
    then show ?thesis unfolding if_not_P [OF False] using names by blast
  qed
  then show ?thesis
  proof
    assume "keeps st (snd ?run)"
    then show ?thesis using assms by (simp add: keeps_def same_books_def)
  next
    assume "\<exists>action target args u. ?run = submit_message env sig m ?proj action target args u \<and> frame st u \<and>
      (if py_startswith ?content ''/oq'' then \<exists>c. parse_command ?content = Inr c \<and> action = cm_verb c
       else action \<in> {''discussion'', ''query'', ''admin''})"
    then obtain action target args u where run: "?run = submit_message env sig m ?proj action target args u" and u: "frame st u"
      and act: "if py_startswith ?content ''/oq'' then \<exists>c. parse_command ?content = Inr c \<and> action = cm_verb c
        else action \<in> {''discussion'', ''query'', ''admin''}" by blast
    have "py_strip ''discussion'' = ''discussion''" "py_strip ''query'' = ''query''" "py_strip ''admin'' = ''admin''" by code_simp+
    note act = act this
    have "ch_classifier (snd ?run) = ch_classifier u" unfolding run by (simp add: submit_message_def Let_def split: prod.split)
    then have "cache_ok (ch_classifier (snd ?run))" using u assms by (simp add: frame_def)
    moreover note submit_message_stores [of env sig m ?proj action target args u]
    ultimately show ?thesis using act u unfolding run frame_def by (auto split: if_splits)
  qed
qed

text \<open>
  C14: a message without a valid signature does nothing. No agent is called, no task, claim, identity or channel changes, on
  every path through the endpoint; what it does reach is the classifier.
\<close>

theorem unsigned_message_has_no_effect:
  assumes "chat_signature env sig m = Inl x"
  shows "ch_agents (snd (submit_discord_message env sig m st)) = ch_agents st \<and>
    ig_admission (ch_ingress (snd (submit_discord_message env sig m st))) = ig_admission (ch_ingress st) \<and>
    dr_mappings (ig_directory (ch_ingress (snd (submit_discord_message env sig m st)))) = dr_mappings (ig_directory (ch_ingress st)) \<and>
    ig_governance (ch_ingress (snd (submit_discord_message env sig m st))) = ig_governance (ch_ingress st) \<and>
    ch_spaces (snd (submit_discord_message env sig m st)) = ch_spaces st"
proof -
  have "untouched st (snd (submit_discord_message env sig m st))"
    using unsigned_command [OF assms] unsigned_free_text [OF assms] by (simp add: submit_discord_message_def Let_def)
  then show ?thesis by (auto simp: untouched_def same_books_def)
qed

text \<open>The language model is asked about free text before the signature is checked.\<close>

lemma unsigned_text_reaches_model:
  assumes "chat_signature env sig m = Inl x" "\<not> py_startswith (py_strip (dm_content m)) ''/oq''"
    and "map_of (cl_cache (ch_classifier st)) (take 1000 (py_strip (dm_content m)), dm_channel_id m) = None"
  shows "cl_calls (ch_classifier (snd (submit_discord_message env sig m st))) = Suc (cl_calls (ch_classifier st))"
proof -
  let ?ctx = "\<lparr>cx_chat_class = dm_chat_class m, cx_channel_id = dm_channel_id m, cx_project_id = resolved_project m (ch_spaces st)\<rparr>"
  obtain r st1 where r: "chat_classify env (py_strip (dm_content m)) ?ctx st = (r, st1)" by fastforce
  have "cl_calls (ch_classifier st1) = Suc (cl_calls (ch_classifier st))"
    using r assms(2,3) by (auto simp: chat_classify_def classify_def classify_free_text_def ask_model_def Let_def split: prod.splits if_splits)
  moreover have "ch_classifier (snd (submit_message env sig m project action target args u)) = ch_classifier u" for project action target args u
    by (simp add: submit_message_def Let_def split: prod.split)
  then have "ch_classifier (snd (route_message env sig m ctx pc content intent u)) = ch_classifier u" for ctx pc content intent u
    using unsigned_stops [OF assms(1)] by (auto simp: route_message_def Let_def)
  ultimately show ?thesis using assms(2)
    by (auto simp: submit_discord_message_def free_text_message_def r Let_def unsigned_stops [OF assms(1)] split: sum.split)
qed

text \<open>In a channel whose binding is closed, a message still reaches the project that it names itself.\<close>

lemma closed_channel_falls_back:
  "resolve_route (ch_spaces st) (dm_guild_id m) (dm_channel_id m) = None \<Longrightarrow> resolved_project m (ch_spaces st) = dm_project_id m"
  by (simp add: resolved_project_def)

text \<open>An actor identifier that the chat schema accepts can be too long for the owner command's.\<close>

lemma long_actor_raises: "128 < length (dm_actor_external_id m) \<Longrightarrow>
    submit_message env sig m project action target args st = (Inl (OtherExn ''ValidationError''), st)"
  by (simp add: submit_message_def owner_command_valid_def owner_command_of_def text_len_def Let_def)

section \<open>Witnesses\<close>

definition demo_chat_env :: "nat chat_env" where
  "demo_chat_env = \<lparr>xe_ingress = demo_ingress_env, xe_model = example_model, xe_clock = int, xe_agent = (\<lambda>role r w. (Inr role, Suc w)),
     xe_secretary = (\<lambda>r w. (Inr (''hello'', None), Suc w)), xe_mention = (\<lambda>_. None)\<rparr>"

definition demo_message :: discord_message where
  "demo_message = \<lparr>dm_trace_id = ''tr'', dm_external_message_id = ''m-1'', dm_actor_external_id = ''u-1'', dm_actor_role = ''owner'',
     dm_idempotency_key = ''key-0001'', dm_raw_payload_hash = replicate 64 CHR ''a'', dm_content = ''/oq status p-1'', dm_action = ''run'',
     dm_target = None, dm_args = [], dm_recipients = [\<lparr>rc_recipient_id = ''ceo_core'', rc_recipient_type = ''ceo''\<rparr>], dm_project_id = None,
     dm_priority = ''normal'', dm_guild_id = ''g-1'', dm_channel_id = ''c-2'', dm_channel_type = ''text'', dm_chat_class = ''direct'',
     dm_bot_role = None, dm_is_everyone_mention = False\<rparr>"

definition demo_chat_state :: "nat chat_state" where
  "demo_chat_state = \<lparr>ch_ingress = demo_ingress_state, ch_spaces = demo_spaces, ch_classifier = \<lparr>cl_cache = [], cl_calls = 0\<rparr>, ch_ticks = 0, ch_agents = 0\<rparr>"

abbreviation demo_chat_signature :: "string option" where
  "demo_chat_signature \<equiv> Some (''sha256=s'' @ replicate 64 CHR ''a'')"

lemma demo_message_stores:
  "length (ad_repo (ig_admission (ch_ingress (snd (submit_discord_message demo_chat_env demo_chat_signature demo_message demo_chat_state))))) = 1"
  by code_simp

theorem chat_task_matches_channel_witness:
  "\<exists>t. ad_repo (ig_admission (ch_ingress (snd (submit_discord_message demo_chat_env demo_chat_signature demo_message demo_chat_state)))) = [t] \<and>
     tk_principal_id t = ''u-1'' \<and> tk_project_id t = None"
proof -
  have e: "ad_repo (ig_admission (ch_ingress demo_chat_state)) = []"
    by (simp add: demo_chat_state_def demo_ingress_state_def initial_admission_def)
  have "cache_ok (ch_classifier demo_chat_state)" by (simp add: demo_chat_state_def cache_ok_def)
  from conjunct2 [OF chat_task_matches_channel [OF this, of demo_chat_env demo_chat_signature demo_message]] demo_message_stores
  obtain t where "ad_repo (ig_admission (ch_ingress (snd (submit_discord_message demo_chat_env demo_chat_signature demo_message demo_chat_state)))) = [t]"
    "tk_principal_id t = dm_actor_external_id demo_message" "tk_project_id t = resolved_project demo_message (ch_spaces demo_chat_state)"
    unfolding e by force
  then show ?thesis
    by (simp add: demo_message_def demo_chat_state_def resolved_project_def demo_spaces_def resolve_route_def find_by_channel_def)
qed

theorem unsigned_message_has_no_effect_witness:
  "ch_agents (snd (submit_discord_message demo_chat_env None (demo_message\<lparr>dm_content := ''hello''\<rparr>) demo_chat_state)) = 0"
proof -
  have "chat_signature demo_chat_env None (demo_message\<lparr>dm_content := ''hello''\<rparr>) =
      Inl (CodedError ''connector_signature_missing'' ''missing required header: x-openqilin-signature'')"
    by (simp add: chat_signature_def validate_connector_auth_def)
  from unsigned_message_has_no_effect [OF this, of demo_chat_state] show ?thesis by (simp add: demo_chat_state_def)
qed

end
