(* ===== verification/Governance_API.thy ===== *)
theory Governance_API
  imports Identity Project_Spaces Audit_Trail
begin

text \<open>
  The governance endpoints, \<^verbatim>\<open>control_plane/routers/governance.py\<close>: each checks the connector headers, resolves the
  principal, calls its handler of \<open>Project_Governance\<close>, updates the project's chat channel where it has to, writes an audit
  event and answers. What the endpoints share is \<open>governed\<close> and \<open>with_handler\<close>.

  A database row of the governance tables that cannot be read raises; such exceptions leave the endpoint. The text of a
  number in an audit event is a parameter. Pydantic has checked the lengths of the request's fields before.
\<close>

section \<open>Responses\<close>

record api_error_body =
  ge_code :: string
  ge_message :: string
  ge_source_component :: string
  ge_details :: kvs

record api_response =
  gr_http_status :: nat
  gr_trace_id :: string
  gr_status :: string
  gr_data :: "json_object option"
  gr_error :: "api_error_body option"

definition ok_response :: "nat \<Rightarrow> string \<Rightarrow> json_object \<Rightarrow> api_response" where
  "ok_response http trace_id data = \<lparr>gr_http_status = http, gr_trace_id = trace_id, gr_status = ''ok'', gr_data = Some data, gr_error = None\<rparr>"

definition failed_response :: "nat \<Rightarrow> string \<Rightarrow> string \<Rightarrow> api_error_body \<Rightarrow> api_response" where
  "failed_response http status trace_id e = \<lparr>gr_http_status = http, gr_trace_id = trace_id, gr_status = status, gr_data = None, gr_error = Some e\<rparr>"

section \<open>Headers\<close>

record api_headers =
  gh_channel :: "string option"
  gh_actor_id :: "string option"
  gh_actor_external_id :: "string option"
  gh_role :: "string option"
  gh_idempotency_key :: "string option"
  gh_signature :: "string option"
  gh_payload_hash :: "string option"

record api_env =
  gx_hmac :: "string \<Rightarrow> string \<Rightarrow> string"
  gx_secret :: string
  gx_audit_fault :: "nat \<Rightarrow> py_exn option"
  gx_discord :: discord_api
  gx_document_sha :: "json_object \<Rightarrow> string"
  gx_text_sha :: "string \<Rightarrow> string"
  gx_system_root :: string
  gx_show_number :: "rat \<Rightarrow> string"

definition blank :: "string option \<Rightarrow> bool" where
  "blank h = (case h of None \<Rightarrow> True | Some v \<Rightarrow> py_strip v = [])"

definition connector_error :: "string \<Rightarrow> string \<Rightarrow> kvs \<Rightarrow> api_error_body" where
  "connector_error code message details =
     \<lparr>ge_code = code, ge_message = message, ge_source_component = ''connector_security'', ge_details = details\<rparr>"

definition missing :: "string \<Rightarrow> string \<Rightarrow> api_error_body" where
  "missing code name = connector_error code (''missing required header: '' @ name) [(''required_header'', name)]"

definition is_hex_digit :: "char \<Rightarrow> bool" where
  "is_hex_digit c = (c \<in> set ''0123456789abcdefABCDEF'')"

definition validate_connector_headers :: "api_env \<Rightarrow> api_headers \<Rightarrow> py_exn + api_error_body option" where
  "validate_connector_headers env h =
     (if blank (gh_channel h) then Inr (Some (missing ''connector_missing_header'' ''X-External-Channel''))
      else if blank (gh_actor_id h) then Inr (Some (missing ''connector_missing_header'' ''X-External-Actor-Id''))
      else if blank (gh_idempotency_key h) then Inr (Some (missing ''idempotency_missing_header'' ''X-Idempotency-Key''))
      else if blank (gh_payload_hash h) then Inr (Some (missing ''connector_missing_header'' ''X-OpenQilin-Raw-Payload-Hash''))
      else let normalized_hash = py_lower (py_strip (the (gh_payload_hash h)))
           in if length normalized_hash < 64 \<or> 128 < length normalized_hash \<or> \<not> list_all is_hex_digit normalized_hash
              then Inr (Some (connector_error ''connector_payload_hash_invalid'' ''invalid raw payload hash header format''
                     [(''required_header'', ''X-OpenQilin-Raw-Payload-Hash'')]))
              else if blank (gh_signature h) then Inr (Some (missing ''connector_signature_missing'' ''X-OpenQilin-Signature''))
              else let actor = (if blank (gh_actor_external_id h) then py_strip (the (gh_actor_id h)) else py_strip (the (gh_actor_external_id h)))
                   in case validate_connector_auth (gx_hmac env) (gx_secret env) (gh_channel h) (gh_actor_id h) (gh_idempotency_key h)
                             (gh_signature h) (py_strip (the (gh_channel h))) actor (py_strip (the (gh_idempotency_key h))) normalized_hash of
                        Inl (CodedError code message) \<Rightarrow> Inr (Some (connector_error code message []))
                      | Inl x \<Rightarrow> Inl x
                      | Inr _ \<Rightarrow> Inr None)"

definition api_principal_headers :: "api_headers \<Rightarrow> kvs" where
  "api_principal_headers h =
     [(''x-external-channel'', or_str (gh_channel h) []), (''x-external-actor-id'', or_str (gh_actor_id h) []),
      (''x-openqilin-actor-external-id'', or_str (gh_actor_external_id h) [])] @
     (case gh_role h of None \<Rightarrow> [] | Some r \<Rightarrow> [(''x-openqilin-actor-role'', r)])"

definition resolve_api_principal :: "api_headers \<Rightarrow> api_error_body + (string \<times> string)" where
  "resolve_api_principal h =
     (case resolve_principal (api_principal_headers h) NoDirectory of
        Inl (code, message) \<Rightarrow> Inl \<lparr>ge_code = code, ge_message = message, ge_source_component = ''identity'', ge_details = []\<rparr>
      | Inr p \<Rightarrow> Inr (pr_principal_id p, pr_principal_role p))"

section \<open>Errors of the handlers\<close>

definition conflict_codes :: "string list" where
  "conflict_codes =
     [''governance_project_not_proposed'', ''governance_project_not_approved'', ''governance_project_not_active'',
      ''governance_project_already_initialized'', ''governance_approval_role_conflict'', ''governance_project_manager_binding_exists'',
      ''governance_workforce_role_invalid'', ''governance_project_invalid_budget'', ''governance_project_artifact_persistence_failed'',
      ''governance_project_artifact_integrity_failed'', ''governance_project_artifact_policy_denied'',
      ''governance_project_manager_template_invalid'', ''governance_project_manager_template_missing_operations'',
      ''governance_project_exists'', ''governance_project_invalid_create_state'', ''governance_project_completion_report_exists'',
      ''governance_completion_approval_role_conflict'', ''governance_project_completion_report_missing'',
      ''governance_project_completion_approval_missing'', ''governance_project_completion_owner_notification_missing'',
      ''project_invalid_transition'', ''project_invalid_status'']"

definition py_endswith :: "string \<Rightarrow> string \<Rightarrow> bool" where
  "py_endswith s p = (length p \<le> length s \<and> drop (length s - length p) s = p)"

definition map_handler_error :: "string \<Rightarrow> string \<Rightarrow> string \<Rightarrow> api_response" where
  "map_handler_error trace_id code message =
     (let body = (\<lambda>source. \<lparr>ge_code = code, ge_message = message, ge_source_component = source, ge_details = []\<rparr>)
      in if code \<in> {''governance_approval_role_forbidden'', ''governance_role_forbidden''} \<or> py_endswith code ''_role_forbidden''
         then failed_response 403 ''denied'' trace_id (body ''governance'')
         else if code = ''governance_project_missing'' then failed_response 404 ''denied'' trace_id (body ''governance_repository'')
         else if code \<in> set conflict_codes then failed_response 409 ''denied'' trace_id (body ''governance_repository'')
         else failed_response 400 ''error'' trace_id (body ''governance''))"

section \<open>What the endpoints share\<close>

record api_state =
  ga_governance :: governance
  ga_spaces :: spaces
  ga_audit :: audit_log

definition governed ::
  "api_env \<Rightarrow> api_headers \<Rightarrow> string \<Rightarrow> (string \<Rightarrow> string \<Rightarrow> api_state \<Rightarrow> (py_exn, api_response, api_state) run) \<Rightarrow> api_state \<Rightarrow>
   (py_exn, api_response, api_state) run" where
  "governed env h trace_id body st =
     (case validate_connector_headers env h of
        Inl x \<Rightarrow> (Inl x, st)
      | Inr (Some e) \<Rightarrow> (Inr (failed_response 400 ''error'' trace_id e), st)
      | Inr None \<Rightarrow>
          (case resolve_api_principal h of
             Inl e \<Rightarrow> (Inr (failed_response 400 ''error'' trace_id e), st)
           | Inr (principal_id, principal_role) \<Rightarrow> body principal_id principal_role st))"

definition with_handler ::
  "string \<Rightarrow> (governance \<Rightarrow> (py_exn, 'a, governance) run) \<Rightarrow> ('a \<Rightarrow> api_state \<Rightarrow> (py_exn, api_response, api_state) run) \<Rightarrow> api_state \<Rightarrow>
   (py_exn, api_response, api_state) run" where
  "with_handler trace_id handler continue st =
     (case handler (ga_governance st) of
        (Inl (CodedError code message), g) \<Rightarrow> (Inr (map_handler_error trace_id code message), st\<lparr>ga_governance := g\<rparr>)
      | (Inl x, g) \<Rightarrow> (Inl x, st\<lparr>ga_governance := g\<rparr>)
      | (Inr outcome, g) \<Rightarrow> continue outcome (st\<lparr>ga_governance := g\<rparr>))"

definition audited_ok ::
  "api_env \<Rightarrow> string \<Rightarrow> string \<Rightarrow> string \<Rightarrow> string \<Rightarrow> string option \<Rightarrow> string \<Rightarrow> payload \<Rightarrow> api_response \<Rightarrow> api_state \<Rightarrow>
   (py_exn, api_response, api_state) run" where
  "audited_ok env event_type trace_id principal_id principal_role reason_code message payload response st =
     (case write_event (gx_audit_fault env)
             \<lparr>aw_event_type = event_type, aw_outcome = ''ok'', aw_trace_id = trace_id, aw_request_id = None, aw_task_id = None,
              aw_principal_id = Some principal_id, aw_principal_role = Some principal_role, aw_source = ''governance'',
              aw_reason_code = reason_code, aw_message = message, aw_rule_ids = [], aw_payload = payload\<rparr> (ga_audit st) of
        (Inl x, lg) \<Rightarrow> (Inl x, st\<lparr>ga_audit := lg\<rparr>)
      | (Inr _, lg) \<Rightarrow> (Inr response, st\<lparr>ga_audit := lg\<rparr>))"

definition show_bool :: "bool \<Rightarrow> string" where
  "show_bool b = (if b then ''true'' else ''false'')"

text \<open>A change of the chat channel is not fatal: its exceptions are logged.\<close>

definition on_spaces :: "(spaces \<Rightarrow> (py_exn, space_binding, spaces) run) \<Rightarrow> api_state \<Rightarrow> api_state" where
  "on_spaces f st = st\<lparr>ga_spaces := snd (f (ga_spaces st))\<rparr>"

section \<open>The endpoints\<close>

definition api_create_project ::
  "api_env \<Rightarrow> api_headers \<Rightarrow> string \<Rightarrow> string \<Rightarrow> string \<Rightarrow> string option \<Rightarrow> kvs \<Rightarrow> api_state \<Rightarrow> (py_exn, api_response, api_state) run" where
  "api_create_project env h trace_id name objective project_id metadata =
     governed env h trace_id (\<lambda>aid role. with_handler trace_id
       (create_project_proposal aid role trace_id name objective project_id (Some metadata))
       (\<lambda>p. audited_ok env ''project.created'' trace_id aid role None ''proposal-stage project created''
          [(''project_id'', Some (pj_project_id p)), (''status'', Some (pj_status p)), (''creator_role'', Some role)]
          (ok_response 201 trace_id [(''project_id'', JStr (pj_project_id p)), (''name'', JStr (pj_name p)),
             (''objective'', JStr (pj_objective p)), (''status'', JStr (pj_status p)),
             (''metadata'', JObj (map (\<lambda>(k, v). (k, JStr v)) (pj_metadata p)))])))"

definition api_approve_proposal ::
  "api_env \<Rightarrow> api_headers \<Rightarrow> string \<Rightarrow> string \<Rightarrow> api_state \<Rightarrow> (py_exn, api_response, api_state) run" where
  "api_approve_proposal env h project_id trace_id =
     governed env h trace_id (\<lambda>aid role. with_handler trace_id (approve_project_proposal project_id aid role trace_id)
       (\<lambda>(p, recorded, roles). audited_ok env ''proposal.approval'' trace_id aid role None ''proposal approval recorded''
          [(''project_id'', Some project_id), (''approval_recorded'', Some (show_bool recorded)),
           (''approval_roles'', Some (py_join '','' roles)), (''status'', Some (pj_status p))]
          (ok_response 200 trace_id [(''project_id'', JStr project_id), (''status'', JStr (pj_status p)),
             (''approval_recorded'', JBool recorded), (''approval_roles'', JList (map JStr roles))])))"

definition initialization_data :: "project_record \<Rightarrow> json_object" where
  "initialization_data p =
     (let get = (\<lambda>f. case pj_initialization p of None \<Rightarrow> JNull | Some i \<Rightarrow> f i);
          plan = (\<lambda>f. case pj_initialization p of None \<Rightarrow> JObj [] | Some i \<Rightarrow> JObj (map (\<lambda>(k, v). (k, JStr v)) (f i)))
      in [(''budget_currency_total'', get (JNum \<circ> in_budget_currency_total)), (''budget_quota_total'', get (JNum \<circ> in_budget_quota_total)),
          (''metric_plan'', plan in_metric_plan), (''workforce_plan'', plan in_workforce_plan),
          (''charter_storage_uri'', get (json_opt \<circ> in_charter_uri)), (''charter_content_hash'', get (json_opt \<circ> in_charter_hash)),
          (''scope_statement_storage_uri'', get (json_opt \<circ> in_scope_uri)), (''scope_statement_content_hash'', get (json_opt \<circ> in_scope_hash)),
          (''budget_plan_storage_uri'', get (json_opt \<circ> in_budget_plan_uri)), (''budget_plan_content_hash'', get (json_opt \<circ> in_budget_plan_hash)),
          (''metric_plan_storage_uri'', get (json_opt \<circ> in_metric_plan_uri)), (''metric_plan_content_hash'', get (json_opt \<circ> in_metric_plan_hash)),
          (''workforce_plan_storage_uri'', get (json_opt \<circ> in_workforce_plan_uri)),
          (''workforce_plan_content_hash'', get (json_opt \<circ> in_workforce_plan_hash)),
          (''execution_plan_storage_uri'', get (json_opt \<circ> in_execution_plan_uri)),
          (''execution_plan_content_hash'', get (json_opt \<circ> in_execution_plan_hash))])"

definition api_initialize_project ::
  "api_env \<Rightarrow> api_headers \<Rightarrow> string \<Rightarrow> string \<Rightarrow> string \<Rightarrow> rat \<Rightarrow> rat \<Rightarrow> kvs \<Rightarrow> kvs \<Rightarrow> string option \<Rightarrow> api_state \<Rightarrow>
   (py_exn, api_response, api_state) run" where
  "api_initialize_project env h project_id trace_id objective currency quota metric_plan workforce_plan guild_id =
     governed env h trace_id (\<lambda>aid role. with_handler trace_id
       (initialize_project_by_cwo (gx_document_sha env) (gx_system_root env) project_id aid role trace_id objective currency quota
          (Some metric_plan) (Some workforce_plan))
       (\<lambda>p st. let st1 = (if truthy guild_id
                          then on_spaces (create_and_bind (gx_discord env) project_id (the guild_id) (pj_name p) ''project_manager'') st
                          else st)
               in audited_ok env ''project.initialized'' trace_id aid role None ''cwo project initialization completed''
                    [(''project_id'', Some project_id), (''status'', Some (pj_status p)),
                     (''budget_currency_total'', Some (gx_show_number env currency)), (''budget_quota_total'', Some (gx_show_number env quota))]
                    (ok_response 200 trace_id ([(''project_id'', JStr project_id), (''status'', JStr (pj_status p)),
                       (''objective'', JStr (pj_objective p))] @ initialization_data p)) st1))"

definition api_bind_workforce_template ::
  "api_env \<Rightarrow> api_headers \<Rightarrow> string \<Rightarrow> string \<Rightarrow> string \<Rightarrow> string \<Rightarrow> string \<Rightarrow> string \<Rightarrow> api_state \<Rightarrow> (py_exn, api_response, api_state) run" where
  "api_bind_workforce_template env h project_id trace_id workforce_role template_id llm_routing_profile system_prompt =
     governed env h trace_id (\<lambda>aid role. with_handler trace_id
       (bind_workforce_template_by_cwo (gx_text_sha env) project_id aid role trace_id workforce_role template_id llm_routing_profile system_prompt)
       (\<lambda>(p, b). audited_ok env ''workforce.binding'' trace_id aid role None ''workforce template binding recorded''
          [(''project_id'', Some project_id), (''role'', Some (wb_role b)), (''binding_status'', Some (wb_binding_status b)),
           (''template_id'', Some (wb_template_id b)), (''llm_routing_profile'', Some (wb_llm_routing_profile b)),
           (''mandatory_operations'', Some (py_join '','' (wb_mandatory_operations b)))]
          (ok_response 200 trace_id [(''project_id'', JStr project_id), (''status'', JStr (pj_status p)), (''role'', JStr (wb_role b)),
             (''binding_status'', JStr (wb_binding_status b)), (''template_id'', JStr (wb_template_id b)),
             (''llm_routing_profile'', JStr (wb_llm_routing_profile b)), (''system_prompt_hash'', JStr (wb_system_prompt_hash b)),
             (''mandatory_operations'', JList (map JStr (wb_mandatory_operations b)))])))"

definition api_submit_completion_report ::
  "api_env \<Rightarrow> api_headers \<Rightarrow> string \<Rightarrow> string \<Rightarrow> string \<Rightarrow> kvs \<Rightarrow> api_state \<Rightarrow> (py_exn, api_response, api_state) run" where
  "api_submit_completion_report env h project_id trace_id summary metric_results =
     governed env h trace_id (\<lambda>aid role. with_handler trace_id
       (submit_completion_report_by_project_manager project_id aid role trace_id summary (Some metric_results))
       (\<lambda>(p, r). audited_ok env ''project.completion_report'' trace_id aid role None ''project completion report submitted''
          [(''project_id'', Some project_id), (''report_id'', Some (cp_report_id r)), (''status'', Some (pj_status p))]
          (ok_response 201 trace_id [(''project_id'', JStr project_id), (''status'', JStr (pj_status p)),
             (''report_id'', JStr (cp_report_id r)), (''summary'', JStr (cp_summary r)),
             (''completion_report_storage_uri'', json_opt (cp_storage_uri r)), (''completion_report_content_hash'', json_opt (cp_content_hash r))])))"

definition api_approve_completion ::
  "api_env \<Rightarrow> api_headers \<Rightarrow> string \<Rightarrow> string \<Rightarrow> api_state \<Rightarrow> (py_exn, api_response, api_state) run" where
  "api_approve_completion env h project_id trace_id =
     governed env h trace_id (\<lambda>aid role. with_handler trace_id (record_completion_approval_by_c_suite project_id aid role trace_id)
       (\<lambda>(p, recorded, roles, notified). audited_ok env ''project.completion_approval'' trace_id aid role None ''project completion approval recorded''
          [(''project_id'', Some project_id), (''approval_recorded'', Some (show_bool recorded)),
           (''approval_roles'', Some (py_join '','' roles)), (''owner_notified'', Some (show_bool notified))]
          (ok_response 200 trace_id [(''project_id'', JStr project_id), (''status'', JStr (pj_status p)),
             (''approval_recorded'', JBool recorded), (''approval_roles'', JList (map JStr roles)), (''owner_notified'', JBool notified)])))"

definition api_finalize_completion ::
  "api_env \<Rightarrow> api_headers \<Rightarrow> string \<Rightarrow> string \<Rightarrow> string \<Rightarrow> api_state \<Rightarrow> (py_exn, api_response, api_state) run" where
  "api_finalize_completion env h project_id trace_id reason_code =
     governed env h trace_id (\<lambda>aid role. with_handler trace_id (finalize_project_completion_by_c_suite project_id role trace_id reason_code)
       (\<lambda>p st. audited_ok env ''project.completed'' trace_id aid role (Some reason_code) ''project completion finalized''
          [(''project_id'', Some project_id), (''status'', Some (pj_status p))]
          (ok_response 200 trace_id [(''project_id'', JStr project_id), (''status'', JStr (pj_status p))])
          (on_spaces (transition_binding (gx_discord env) project_id ''archive'' (pj_name p)) st)))"

definition lifecycle_answer ::
  "api_env \<Rightarrow> string \<Rightarrow> string \<Rightarrow> string \<Rightarrow> string \<Rightarrow> string \<Rightarrow> string \<Rightarrow> string \<Rightarrow> string \<Rightarrow> project_record \<Rightarrow> api_state \<Rightarrow>
   (py_exn, api_response, api_state) run" where
  "lifecycle_answer env event_type verb project_id trace_id aid role reason_code previous p =
     audited_ok env event_type trace_id aid role (Some reason_code) (''project '' @ verb @ '' through governed lifecycle API'')
       [(''project_id'', Some project_id), (''previous_status'', Some previous), (''status'', Some (pj_status p))]
       (ok_response 200 trace_id [(''project_id'', JStr project_id), (''previous_status'', JStr previous), (''status'', JStr (pj_status p)),
          (''reason_code'', JStr reason_code)])"

definition api_pause_project ::
  "api_env \<Rightarrow> api_headers \<Rightarrow> string \<Rightarrow> string \<Rightarrow> string \<Rightarrow> api_state \<Rightarrow> (py_exn, api_response, api_state) run" where
  "api_pause_project env h project_id trace_id reason_code =
     governed env h trace_id (\<lambda>aid role. with_handler trace_id (pause_project_by_governance project_id role trace_id reason_code)
       (\<lambda>(p, previous, _). lifecycle_answer env ''project.paused'' ''paused'' project_id trace_id aid role reason_code previous p))"

definition api_resume_project ::
  "api_env \<Rightarrow> api_headers \<Rightarrow> string \<Rightarrow> string \<Rightarrow> string \<Rightarrow> api_state \<Rightarrow> (py_exn, api_response, api_state) run" where
  "api_resume_project env h project_id trace_id reason_code =
     governed env h trace_id (\<lambda>aid role. with_handler trace_id (resume_project_by_governance project_id role trace_id reason_code)
       (\<lambda>(p, previous, _). lifecycle_answer env ''project.resumed'' ''resumed'' project_id trace_id aid role reason_code previous p))"

definition api_terminate_project ::
  "api_env \<Rightarrow> api_headers \<Rightarrow> string \<Rightarrow> string \<Rightarrow> string \<Rightarrow> api_state \<Rightarrow> (py_exn, api_response, api_state) run" where
  "api_terminate_project env h project_id trace_id reason_code =
     governed env h trace_id (\<lambda>aid role. with_handler trace_id (terminate_project_by_governance project_id role trace_id reason_code)
       (\<lambda>(p, previous, _) st. lifecycle_answer env ''project.terminated'' ''terminated'' project_id trace_id aid role reason_code previous p
          (on_spaces (transition_binding (gx_discord env) project_id ''lock'' (pj_name p)) st)))"

definition api_archive_project ::
  "api_env \<Rightarrow> api_headers \<Rightarrow> string \<Rightarrow> string \<Rightarrow> string \<Rightarrow> api_state \<Rightarrow> (py_exn, api_response, api_state) run" where
  "api_archive_project env h project_id trace_id reason_code =
     governed env h trace_id (\<lambda>aid role. with_handler trace_id (archive_project_by_governance project_id role trace_id reason_code)
       (\<lambda>(p, previous, _). lifecycle_answer env ''project.archived'' ''archived'' project_id trace_id aid role reason_code previous p))"

section \<open>Histories of requests\<close>

datatype api_request =
  CreateProject string string "string option" kvs
| ApproveProposal string
| InitializeProject string string rat rat kvs kvs "string option"
| BindWorkforce string string string string string
| SubmitCompletionReport string string kvs
| ApproveCompletion string
| FinalizeCompletion string string
| PauseProject string string
| ResumeProject string string
| TerminateProject string string
| ArchiveProject string string

fun serve :: "api_env \<Rightarrow> api_headers \<Rightarrow> string \<Rightarrow> api_request \<Rightarrow> api_state \<Rightarrow> (py_exn, api_response, api_state) run" where
  "serve env h t (CreateProject name objective i metadata) = api_create_project env h t name objective i metadata"
| "serve env h t (ApproveProposal i) = api_approve_proposal env h i t"
| "serve env h t (InitializeProject i objective currency quota metrics workforce guild) =
     api_initialize_project env h i t objective currency quota metrics workforce guild"
| "serve env h t (BindWorkforce i role template profile prompt) = api_bind_workforce_template env h i t role template profile prompt"
| "serve env h t (SubmitCompletionReport i summary metrics) = api_submit_completion_report env h i t summary metrics"
| "serve env h t (ApproveCompletion i) = api_approve_completion env h i t"
| "serve env h t (FinalizeCompletion i reason) = api_finalize_completion env h i t reason"
| "serve env h t (PauseProject i reason) = api_pause_project env h i t reason"
| "serve env h t (ResumeProject i reason) = api_resume_project env h i t reason"
| "serve env h t (TerminateProject i reason) = api_terminate_project env h i t reason"
| "serve env h t (ArchiveProject i reason) = api_archive_project env h i t reason"

fun serve_all :: "api_env \<Rightarrow> (api_headers \<times> string \<times> api_request) list \<Rightarrow> api_state \<Rightarrow> api_state" where
  "serve_all env [] st = st"
| "serve_all env ((h, t, r) # ms) st = serve_all env ms (snd (serve env h t r st))"

lemmas endpoint_defs =
  api_create_project_def api_approve_proposal_def api_initialize_project_def api_bind_workforce_template_def api_submit_completion_report_def
  api_approve_completion_def api_finalize_completion_def api_pause_project_def api_resume_project_def api_terminate_project_def
  api_archive_project_def

section \<open>What a request can do\<close>

text \<open>\<open>moves st st'\<close>: at most one handler ran, at most one change of a channel was made, and the audit log has only grown.\<close>

definition moves :: "api_state \<Rightarrow> api_state \<Rightarrow> bool" where
  "moves st st' = (gov_step\<^sup>=\<^sup>= (ga_governance st) (ga_governance st') \<and> space_step\<^sup>=\<^sup>= (ga_spaces st) (ga_spaces st') \<and>
     prefix (lg_rows (ga_audit st)) (lg_rows (ga_audit st')))"

text \<open>\<open>settles st st'\<close>: the same for what an endpoint does after its handler.\<close>

definition settles :: "api_state \<Rightarrow> api_state \<Rightarrow> bool" where
  "settles st st' = (ga_governance st' = ga_governance st \<and> space_step\<^sup>=\<^sup>= (ga_spaces st) (ga_spaces st') \<and>
     prefix (lg_rows (ga_audit st)) (lg_rows (ga_audit st')))"

lemma audited_settles [inv_intros]:
  "settles st0 st \<Longrightarrow> settles st0 (snd (audited_ok env ev t aid role reason message payload response st))"
  by (auto simp: settles_def audited_ok_def write_event_def Let_def prefix_def split: option.split)

lemma settles_refl [simp]: "settles st st"
  by (simp add: settles_def)

lemma channel_settles [inv_intros]:
  "settles st (on_spaces (create_and_bind api p g n d) st)" "settles st (on_spaces (transition_binding api p ev n) st)"
  by (auto simp: settles_def on_spaces_def intro: space_step.create [OF prod.collapse [symmetric]] space_step.transition [OF prod.collapse [symmetric]])

lemma endpoint_moves:
  assumes "\<And>aid role g. gov_step g (snd (handler aid role g))" "\<And>aid role x st. settles st (snd (continue aid role x st))"
  shows "moves st (snd (governed env h t (\<lambda>aid role. with_handler t (handler aid role) (continue aid role)) st))"
proof -
  have "moves st (snd (with_handler t (handler aid role) (continue aid role) st))" for aid role
  proof (cases "handler aid role (ga_governance st)")
    case (Pair r g)
    with assms(1) [of "ga_governance st" aid role] have g: "gov_step (ga_governance st) g" by simp
    show ?thesis
    proof (cases r)
      case (Inl x)
      then show ?thesis using Pair g by (cases x) (auto simp: with_handler_def moves_def)
    next
      case (Inr x)
      then show ?thesis using Pair g assms(2) [of "st\<lparr>ga_governance := g\<rparr>" aid role x] by (simp add: with_handler_def moves_def settles_def)
    qed
  qed
  then show ?thesis by (auto simp: governed_def moves_def split: sum.split option.split)
qed

lemmas handler_steps = gov_step.intros [OF prod.collapse [symmetric]]

lemma serve_moves: "moves st (snd (serve env h t r st))"
  by (cases r; simp only: serve.simps endpoint_defs lifecycle_answer_def Let_def; rule endpoint_moves;
      auto intro!: inv_intros intro: handler_steps split: prod.split)

lemma serve_all_moves: "gov_step\<^sup>*\<^sup>* (ga_governance st) (ga_governance (serve_all env ms st)) \<and>
  space_step\<^sup>*\<^sup>* (ga_spaces st) (ga_spaces (serve_all env ms st)) \<and> prefix (lg_rows (ga_audit st)) (lg_rows (ga_audit (serve_all env ms st)))"
proof (induction env ms st rule: serve_all.induct)
  case (2 env h t r ms st)
  then show ?case using serve_moves [of st env h t r]
    by (auto simp: moves_def intro: converse_rtranclp_into_rtranclp prefix_order.trans)
qed simp

text \<open>An endpoint answers \<open>ok\<close> only through its audit event.\<close>

lemma audited_ok_row:
  assumes "audited_ok env ev t aid role reason message payload response st = (Inr r, st')"
  shows "r = response \<and> ga_governance st' = ga_governance st \<and> ga_spaces st' = ga_spaces st \<and> (\<exists>row. lg_rows (ga_audit st') = lg_rows (ga_audit st) @ [row] \<and>
    au_event_type row = ev \<and> au_trace_id row = t \<and> au_principal_id row = Some aid \<and> au_principal_role row = Some role)"
  using assms by (auto simp: audited_ok_def write_event_def Let_def split: option.splits)

lemma failed_not_ok: "gr_status (map_handler_error t code message) \<noteq> ''ok''"
  by (simp add: map_handler_error_def failed_response_def Let_def)

lemma endpoint_ok:
  assumes "governed env h t (\<lambda>aid role. with_handler t (handler aid role) (continue aid role)) st = (Inr r, st')" "gr_status r = ''ok''"
  obtains aid role x g where "validate_connector_headers env h = Inr None" "resolve_api_principal h = Inr (aid, role)"
    "handler aid role (ga_governance st) = (Inr x, g)" "continue aid role x (st\<lparr>ga_governance := g\<rparr>) = (Inr r, st')"
proof -
  from assms obtain aid role where ok: "validate_connector_headers env h = Inr None" "resolve_api_principal h = Inr (aid, role)"
    and run: "with_handler t (handler aid role) (continue aid role) st = (Inr r, st')"
    by (auto simp: governed_def failed_response_def split: sum.splits option.splits)
  obtain y g where y: "handler aid role (ga_governance st) = (y, g)" by fastforce
  show thesis
  proof (cases y)
    case (Inl e)
    then show thesis using run y assms(2) failed_not_ok [of t] by (cases e) (auto simp: with_handler_def)
  next
    case (Inr x)
    then show thesis using that [OF ok, of x g] run y by (simp add: with_handler_def)
  qed
qed

text \<open>A request that is not signed, or whose headers name no principal, is refused with a status and changes nothing.\<close>

lemma serve_changes_only_signed:
  assumes "snd (serve env h t r st) \<noteq> st"
  shows "validate_connector_headers env h = Inr None \<and> (\<exists>aid role. resolve_api_principal h = Inr (aid, role))"
proof -
  have "snd (governed env h t body st) \<noteq> st \<Longrightarrow> ?thesis" for body
    by (auto simp: governed_def split: sum.splits option.splits)
  then show ?thesis using assms by (cases r; simp only: serve.simps endpoint_defs)
qed

lemma validate_connector_headers_None:
  assumes "validate_connector_headers env h = Inr None"
  shows "\<exists>signature hash. gh_signature h = Some signature \<and> gh_payload_hash h = Some hash \<and>
    normalize_signature signature = gx_hmac env (gx_secret env) (py_lower (py_strip hash))"
proof -
  from assms obtain channel actor key a where hash: "\<not> blank (gh_payload_hash h)"
    and ok: "validate_connector_auth (gx_hmac env) (gx_secret env) (gh_channel h) (gh_actor_id h) (gh_idempotency_key h) (gh_signature h)
      channel actor key (py_lower (py_strip (the (gh_payload_hash h)))) = Inr a"
    by (auto simp: validate_connector_headers_def Let_def split: if_splits sum.splits py_exn.splits)
  from ok obtain signature where "gh_signature h = Some signature"
    "normalize_signature signature = gx_hmac env (gx_secret env) (py_lower (py_strip (the (gh_payload_hash h))))"
    unfolding validate_connector_auth_Inr by blast
  moreover obtain v where "gh_payload_hash h = Some v" using hash by (auto simp: blank_def split: option.splits)
  ultimately show ?thesis by auto
qed

text \<open>The audit event of an endpoint, by its request.\<close>

fun audit_type :: "api_request \<Rightarrow> string" where
  "audit_type (CreateProject _ _ _ _) = ''project.created''"
| "audit_type (ApproveProposal _) = ''proposal.approval''"
| "audit_type (InitializeProject _ _ _ _ _ _ _) = ''project.initialized''"
| "audit_type (BindWorkforce _ _ _ _ _) = ''workforce.binding''"
| "audit_type (SubmitCompletionReport _ _ _) = ''project.completion_report''"
| "audit_type (ApproveCompletion _) = ''project.completion_approval''"
| "audit_type (FinalizeCompletion _ _) = ''project.completed''"
| "audit_type (PauseProject _ _) = ''project.paused''"
| "audit_type (ResumeProject _ _) = ''project.resumed''"
| "audit_type (TerminateProject _ _) = ''project.terminated''"
| "audit_type (ArchiveProject _ _) = ''project.archived''"

definition logs :: "api_state \<Rightarrow> string \<Rightarrow> string \<Rightarrow> string \<times> string \<Rightarrow> api_state \<Rightarrow> bool" where
  "logs st ev t who st' = (\<exists>row. lg_rows (ga_audit st') = lg_rows (ga_audit st) @ [row] \<and> au_event_type row = ev \<and> au_trace_id row = t \<and>
     au_principal_id row = Some (fst who) \<and> au_principal_role row = Some (snd who))"

lemma on_spaces_other [simp]: "ga_audit (on_spaces f st) = ga_audit st" "ga_governance (on_spaces f st) = ga_governance st"
  by (simp_all add: on_spaces_def)

lemma logs_audit: "ga_audit st0 = ga_audit st \<Longrightarrow> logs st0 ev t who st' = logs st ev t who st'"
  by (simp add: logs_def)

lemma endpoint_logs:
  assumes "governed env h t (\<lambda>aid role. with_handler t (handler aid role) (continue aid role)) st = (Inr r, st')" "gr_status r = ''ok''"
    and "\<And>aid role x u. continue aid role x u = (Inr r, st') \<Longrightarrow> logs u ev t (aid, role) st'"
  shows "\<exists>who. resolve_api_principal h = Inr who \<and> logs st ev t who st'"
proof -
  from endpoint_ok [OF assms(1,2)] obtain aid role x g where "resolve_api_principal h = Inr (aid, role)"
    "continue aid role x (st\<lparr>ga_governance := g\<rparr>) = (Inr r, st')" .
  with assms(3) [of aid role x "st\<lparr>ga_governance := g\<rparr>"] show ?thesis by (auto simp: logs_def)
qed

lemma audited_logs: "audited_ok env ev t aid role reason message payload response st = (Inr r, st') \<Longrightarrow> ga_audit st = ga_audit st0 \<Longrightarrow>
    logs st0 ev t (aid, role) st'"
  using audited_ok_row [of env ev t aid role reason message payload response st r st'] by (auto simp: logs_def)

text \<open>The role header is covered by no check, and it alone decides the role.\<close>

lemma role_unchecked: "validate_connector_headers env (h\<lparr>gh_role := role\<rparr>) = validate_connector_headers env h"
  unfolding validate_connector_headers_def Let_def by simp

lemma role_decides:
  assumes "resolve_api_principal h = Inr (aid, role0)" "py_strip role \<noteq> []"
  shows "resolve_api_principal (h\<lparr>gh_role := Some role\<rparr>) = Inr (aid, py_strip role)"
proof -
  have same: "optional_header (api_principal_headers (h\<lparr>gh_role := r\<rparr>)) k = optional_header (api_principal_headers h) k"
    if "k \<noteq> ''x-openqilin-actor-role''" for r k
    using that by (auto simp: optional_header_def api_principal_headers_def dict_get_def split: option.split)
  have role: "optional_header (api_principal_headers (h\<lparr>gh_role := Some role\<rparr>)) ''x-openqilin-actor-role'' = Some (py_strip role)"
    using assms(2) by (simp add: optional_header_def api_principal_headers_def dict_get_def or_none_def)
  show ?thesis using assms
    by (auto simp: resolve_api_principal_def resolve_principal_def resolve_role_def header_role_def same role or_str_def truthy_def
        split: option.splits sum.splits if_splits)
qed

section \<open>Properties\<close>

text \<open>
  C19: a change through the governance API is signed and attributed. A request that changes any state carried the HMAC of its
  payload hash header under the connector secret, and its headers named a principal. When the endpoint answers \<open>ok\<close>, exactly one
  audit row was written, with the endpoint's event type, the request's trace, and that principal and role.
\<close>

theorem api_change_signed_and_audited:
  "(snd (serve env h t r st) \<noteq> st \<longrightarrow>
      (\<exists>signature hash who. gh_signature h = Some signature \<and> gh_payload_hash h = Some hash \<and>
         normalize_signature signature = gx_hmac env (gx_secret env) (py_lower (py_strip hash)) \<and> resolve_api_principal h = Inr who)) \<and>
   (\<forall>response. fst (serve env h t r st) = Inr response \<and> gr_status response = ''ok'' \<longrightarrow>
      (\<exists>who row. resolve_api_principal h = Inr who \<and> lg_rows (ga_audit (snd (serve env h t r st))) = lg_rows (ga_audit st) @ [row] \<and>
         au_event_type row = audit_type r \<and> au_trace_id row = t \<and> au_principal_id row = Some (fst who) \<and> au_principal_role row = Some (snd who)))"
proof (intro conjI impI allI)
  show "\<exists>signature hash who. gh_signature h = Some signature \<and> gh_payload_hash h = Some hash \<and>
      normalize_signature signature = gx_hmac env (gx_secret env) (py_lower (py_strip hash)) \<and> resolve_api_principal h = Inr who"
    if "snd (serve env h t r st) \<noteq> st"
    using serve_changes_only_signed [OF that] validate_connector_headers_None [of env h] by blast
  fix response
  assume ok: "fst (serve env h t r st) = Inr response \<and> gr_status response = ''ok''"
  then have run: "serve env h t r st = (Inr response, snd (serve env h t r st))" by (metis prod.collapse)
  define st' where "st' = snd (serve env h t r st)"
  have "\<exists>who. resolve_api_principal h = Inr who \<and> logs st (audit_type r) t who st'"
    using run [folded st'_def] conjunct2 [OF ok]
    by (cases r; simp only: serve.simps endpoint_defs audit_type.simps lifecycle_answer_def Let_def;
        elim endpoint_logs; auto split: prod.splits intro: audited_logs)
  then show "\<exists>who row. resolve_api_principal h = Inr who \<and> lg_rows (ga_audit (snd (serve env h t r st))) = lg_rows (ga_audit st) @ [row] \<and>
      au_event_type row = audit_type r \<and> au_trace_id row = t \<and> au_principal_id row = Some (fst who) \<and> au_principal_role row = Some (snd who)"
    unfolding logs_def st'_def by blast
qed

text \<open>
  C20: a finished project's channel is closed for good. When the API has terminated a project or finalized its completion, messages in
  the channel that was active for the project have no route any more, whatever the chat service answered to the renaming and locking
  and whatever requests follow.
\<close>

theorem finished_project_channel_stays_closed:
  assumes "serve env h t r st = (Inr response, st')" "gr_status response = ''ok''"
    and "r = TerminateProject p reason \<or> r = FinalizeCompletion p reason"
    and "spaces_ok (ga_spaces st)" "find_by_project_id (ga_spaces st) p = Some b" "sb_state b = Active"
  shows "resolve_route (ga_spaces (serve_all env later st')) (sb_guild_id b) (sb_channel_id b) = None"
proof -
  have closes: "ga_spaces st' = snd (transition_binding (gx_discord env) p ev n (ga_spaces st))"
    if "audited_ok env e t aid role reason m payload resp (on_spaces (transition_binding (gx_discord env) p ev n) (st\<lparr>ga_governance := g\<rparr>)) = (Inr response, st')"
    for e aid role reason m payload resp ev n g
    using audited_ok_row [OF that] by (auto simp: on_spaces_def)
  obtain ev n where ev: "ev \<in> {''archive'', ''lock''}" "ga_spaces st' = snd (transition_binding (gx_discord env) p ev n (ga_spaces st))"
    using assms(3)
  proof
    assume "r = TerminateProject p reason"
    with assms(1) show thesis
      by (auto simp: api_terminate_project_def lifecycle_answer_def elim!: endpoint_ok [OF _ assms(2)] dest!: closes split: prod.splits intro: that)
  next
    assume "r = FinalizeCompletion p reason"
    with assms(1) show thesis
      by (auto simp: api_finalize_completion_def elim!: endpoint_ok [OF _ assms(2)] dest!: closes intro: that)
  qed
  obtain b' where b': "find_by_channel (ga_spaces st') (sb_guild_id b) (sb_channel_id b) = Some b'" "closed (sb_state b')"
    unfolding ev(2) using closing_event_closes [OF assms(4,5) ev(1) assms(6)] by blast
  have "spaces_ok (ga_spaces st')" unfolding ev(2) using transition_grows assms(4) by (simp add: grows_def)
  with b' serve_all_moves [of st' env later] show ?thesis by (meson closed_never_routes space_steps_grow)
qed

text \<open>
  On this API the role is the caller's word. Headers that pass the checks pass them with any other role, with the same signature
  and without a look at the directory of verified identities, and the approval is then recorded for the role that was named.
\<close>

theorem approval_role_self_asserted:
  assumes "validate_connector_headers env h = Inr None" "resolve_api_principal h = Inr (aid, role0)" "py_strip role \<noteq> []"
  shows "ga_governance (snd (serve env (h\<lparr>gh_role := Some role\<rparr>) t (ApproveProposal p) st)) =
    snd (approve_project_proposal p aid (py_strip role) t (ga_governance st))"
proof -
  have "validate_connector_headers env (h\<lparr>gh_role := Some role\<rparr>) = Inr None" using assms(1) by (simp add: role_unchecked)
  moreover have "resolve_api_principal (h\<lparr>gh_role := Some role\<rparr>) = Inr (aid, py_strip role)" using assms(2,3) by (rule role_decides)
  ultimately have "serve env (h\<lparr>gh_role := Some role\<rparr>) t (ApproveProposal p) st =
      with_handler t (approve_project_proposal p aid (py_strip role) t) (\<lambda>(q, recorded, roles).
        audited_ok env ''proposal.approval'' t aid (py_strip role) None ''proposal approval recorded''
          [(''project_id'', Some p), (''approval_recorded'', Some (show_bool recorded)),
           (''approval_roles'', Some (py_join '','' roles)), (''status'', Some (pj_status q))]
          (ok_response 200 t [(''project_id'', JStr p), (''status'', JStr (pj_status q)),
             (''approval_recorded'', JBool recorded), (''approval_roles'', JList (map JStr roles))])) st"
    by (simp add: api_approve_proposal_def governed_def)
  then show ?thesis
    by (auto simp: with_handler_def audited_ok_def write_event_def Let_def split: prod.splits sum.splits py_exn.splits option.splits)
qed

section \<open>Witnesses\<close>

definition demo_api_env :: api_env where
  "demo_api_env = \<lparr>gx_hmac = (\<lambda>secret m. secret @ m), gx_secret = ''s'', gx_audit_fault = (\<lambda>_. None), gx_discord = demo_api,
     gx_document_sha = (\<lambda>_. ''d''), gx_text_sha = id, gx_system_root = ''/sys'', gx_show_number = (\<lambda>_. ''n'')\<rparr>"

definition demo_hash :: string where
  "demo_hash = replicate 64 CHR ''a''"

definition demo_api_headers :: api_headers where
  "demo_api_headers = \<lparr>gh_channel = Some ''discord'', gh_actor_id = Some ''u-1'', gh_actor_external_id = None, gh_role = None,
     gh_idempotency_key = Some ''key-0001'', gh_signature = Some (''sha256=s'' @ demo_hash), gh_payload_hash = Some demo_hash\<rparr>"

definition as :: "string \<Rightarrow> api_headers" where
  "as role = demo_api_headers\<lparr>gh_role := Some role\<rparr>"

definition demo_api_state :: api_state where
  "demo_api_state = \<lparr>ga_governance = no_projects demo_rt, ga_spaces = demo_spaces, ga_audit = \<lparr>lg_rows = [], lg_attempts = 0\<rparr>\<rparr>"

definition demo_life :: "(api_headers \<times> string \<times> api_request) list" where
  "demo_life = [(as ''owner'', ''t'', CreateProject ''Site'' ''Launch'' (Some ''p-1'') []), (as ''owner'', ''t'', ApproveProposal ''p-1''),
     (as ''ceo'', ''t'', ApproveProposal ''p-1''), (as ''cwo'', ''t'', ApproveProposal ''p-1''),
     (as ''cwo'', ''t'', InitializeProject ''p-1'' ''Launch'' 10 5 [(''m'', ''1'')] [(''w'', ''1'')] (Some ''g-1''))]"

definition stored_status :: "api_state \<Rightarrow> string \<Rightarrow> string" where
  "stored_status st i = (case get_project (ga_governance st) i of Inr (Some p) \<Rightarrow> pj_status p | _ \<Rightarrow> [])"

lemma demo_checks: "validate_connector_headers demo_api_env demo_api_headers = Inr None" "resolve_api_principal demo_api_headers = Inr (''u-1'', ''owner'')"
  by code_simp+

definition demo_outcome :: "api_state \<Rightarrow> bool" where
  "demo_outcome st = (stored_status st ''p-1'' = ''active'' \<and>
     (case find_by_project_id (ga_spaces st) ''p-1'' of None \<Rightarrow> False
      | Some b \<Rightarrow> sb_guild_id b = ''g-1'' \<and> sb_channel_id b = ''c-9'' \<and> sb_state b = Active) \<and>
     (case fst (serve demo_api_env (as ''ceo'') ''t'' (TerminateProject ''p-1'' ''stop'') st) of Inl _ \<Rightarrow> False | Inr r \<Rightarrow> gr_status r = ''ok''))"

text \<open>One caller, with one signature, takes a project from its creation through all three approvals to its initialization, and ends it.\<close>

lemma lone_caller_runs_project: "demo_outcome (serve_all demo_api_env demo_life demo_api_state)"
  by code_simp

theorem api_change_signed_and_audited_witness:
  "\<exists>who row. resolve_api_principal (as ''ceo'') = Inr who \<and>
     lg_rows (ga_audit (snd (serve demo_api_env (as ''ceo'') ''t'' (CreateProject ''Site'' ''Launch'' None []) demo_api_state))) = [row] \<and>
     au_event_type row = ''project.created'' \<and> au_principal_id row = Some (fst who) \<and> au_principal_role row = Some (snd who)"
proof -
  let ?r = "serve demo_api_env (as ''ceo'') ''t'' (CreateProject ''Site'' ''Launch'' None []) demo_api_state"
  have "case fst ?r of Inl _ \<Rightarrow> False | Inr r \<Rightarrow> gr_status r = ''ok''" by code_simp
  then obtain response where "fst ?r = Inr response" "gr_status response = ''ok''" by (auto split: sum.splits)
  with conjunct2 [OF api_change_signed_and_audited [of demo_api_env "as ''ceo''" "''t''" "CreateProject ''Site'' ''Launch'' None []" demo_api_state]]
  show ?thesis by (force simp: demo_api_state_def)
qed

theorem finished_project_channel_stays_closed_witness:
  "resolve_route (ga_spaces (serve_all demo_api_env demo_life
     (snd (serve demo_api_env (as ''ceo'') ''t'' (TerminateProject ''p-1'' ''stop'') (serve_all demo_api_env demo_life demo_api_state))))) ''g-1'' ''c-9'' = None"
proof -
  let ?st = "serve_all demo_api_env demo_life demo_api_state"
  let ?run = "serve demo_api_env (as ''ceo'') ''t'' (TerminateProject ''p-1'' ''stop'') ?st"
  obtain b r where b: "find_by_project_id (ga_spaces ?st) ''p-1'' = Some b" "sb_guild_id b = ''g-1''" "sb_channel_id b = ''c-9''" "sb_state b = Active"
    and r: "fst ?run = Inr r" "gr_status r = ''ok''"
    using lone_caller_runs_project unfolding demo_outcome_def by (force split: option.splits sum.splits)
  from r(1) have run: "?run = (Inr r, snd ?run)" by (metis prod.collapse)
  have "spaces_ok (ga_spaces demo_api_state)" by (simp add: demo_api_state_def demo_spaces_def spaces_ok_def)
  with serve_all_moves [of demo_api_state demo_api_env demo_life] have ok: "spaces_ok (ga_spaces ?st)"
    using space_steps_grow by (auto simp: grows_def)
  show ?thesis
    using finished_project_channel_stays_closed [OF run r(2), of "''p-1''" "''stop''" b demo_life] ok b by (simp del: serve.simps)
qed

theorem approval_role_self_asserted_witness:
  "list_all (\<lambda>role. ga_governance (snd (serve demo_api_env (demo_api_headers\<lparr>gh_role := Some role\<rparr>) ''t'' (ApproveProposal ''p-1'') demo_api_state)) =
     snd (approve_project_proposal ''p-1'' ''u-1'' (py_strip role) ''t'' (ga_governance demo_api_state))) [''owner'', ''ceo'', ''cwo'']"
proof -
  have "py_strip ''owner'' \<noteq> []" "py_strip ''ceo'' \<noteq> []" "py_strip ''cwo'' \<noteq> []" by code_simp+
  then show ?thesis
    using approval_role_self_asserted [OF demo_checks, of _ "''t''" "''p-1''" demo_api_state] by (simp del: serve.simps)
qed

end
