(* ===== verification/Oversight.thy ===== *)
theory Oversight
  imports Task_State Artifacts Project_Documents
begin

text \<open>
  The oversight agents and the registry they act on.
  \<^item> \<^verbatim>\<open>data_access/repositories/postgres/agent_registry_repository.py\<close>: the table of agents with a
    primary key (\<^verbatim>\<open>agent_id\<close>) and a unique index (\<^verbatim>\<open>role\<close>), and the operations on it;
  \<^item> \<^verbatim>\<open>agents/administrator/retention.py\<close>: \<open>enforce_completed_project\<close>, \<open>enforce_terminated_project\<close>;
  \<^item> \<^verbatim>\<open>agents/administrator/agent.py\<close>: \<open>administrator_handle\<close> and its three actions;
  \<^item> \<^verbatim>\<open>agents/auditor/enforcement.py\<close>: \<open>pause_task\<close>, \<open>escalate_to_owner\<close>, \<open>record_finding\<close>;
  \<^item> \<^verbatim>\<open>agents/auditor/agent.py\<close>: \<open>auditor_handle\<close> and its five event types.

  Both agents work on the tasks (\<open>Task_State\<close>), the artifacts (\<open>Artifacts\<close>) and the audit trail
  (\<open>Audit_Trail\<close>). SHA-256, the printing and the parsing of JSON, refusals of the operating system and
  failures of the audit table are parameters. Objects are printed with sorted keys, so the order of the
  keys below carries no meaning. The free-text answers of the two agents are in \<open>Advisory\<close>.
\<close>

section \<open>The agent registry\<close>

record agent_record =
  ag_agent_id :: string
  ag_role :: string
  ag_agent_type :: string
  ag_status :: string
  ag_created_at :: time
  ag_updated_at :: time

type_synonym agent_table = "agent_record list"

datatype oversight_error =
    AgentRegistryRepositoryError string string
  | AdministratorError string
  | AuditorFindingError string
  | ScopeValueError string
  | ArtifactFailure artifact_error
  | OtherFailure py_exn

definition institutional_roles :: "string list" where
  "institutional_roles = [''administrator'', ''auditor'', ''ceo'', ''cwo'', ''cso'', ''secretary'']"

definition advisory_only_roles :: "string list" where
  "advisory_only_roles = [''secretary'']"

definition get_agent_by_role :: "agent_table \<Rightarrow> string \<Rightarrow> agent_record option" where
  "get_agent_by_role t role = find (\<lambda>a. ag_role a = py_lower (py_strip role)) t"

definition list_agents :: "agent_table \<Rightarrow> string option \<Rightarrow> agent_record list" where
  "list_agents t agent_type =
     sort_key ag_role (case agent_type of None \<Rightarrow> t | Some ty \<Rightarrow> filter (\<lambda>a. ag_agent_type a = py_lower (py_strip ty)) t)"

text \<open>A row whose identifier another row already has violates the primary key.\<close>

definition insert_agent :: "agent_record \<Rightarrow> agent_table \<Rightarrow> (oversight_error, unit, agent_table) run" where
  "insert_agent a t =
     (if list_ex (\<lambda>b. ag_agent_id b = ag_agent_id a) t
      then (Inl (OtherFailure (IntegrityError ''duplicate key value violates unique constraint agents_pkey'')), t)
      else (Inr (), t @ [a]))"

definition advisory_violation :: "string \<Rightarrow> string \<Rightarrow> oversight_error" where
  "advisory_violation role agent_type =
     AgentRegistryRepositoryError ''agent_registry_advisory_only_violation''
       (''Role '' @ py_repr role @ '' must be registered with advisory-only capability (agent_type='' @ py_repr ''institutional'' @
        ''). Found agent_type='' @ py_repr agent_type @ ''. Secretary cannot be granted command or mutation capabilities.'')"

definition bootstrap_role :: "time \<Rightarrow> string \<Rightarrow> agent_table \<Rightarrow> (oversight_error, unit, agent_table) run" where
  "bootstrap_role now role t =
     (case get_agent_by_role t role of
        Some existing \<Rightarrow>
          if role \<in> set advisory_only_roles \<and> ag_agent_type existing \<noteq> ''institutional''
          then (Inl (advisory_violation role (ag_agent_type existing)), t)
          else (Inr (), t)
      | None \<Rightarrow>
          insert_agent \<lparr>ag_agent_id = role @ ''_core'', ag_role = role, ag_agent_type = ''institutional'', ag_status = ''active'',
            ag_created_at = now, ag_updated_at = now\<rparr> t)"

fun bootstrap_roles :: "time \<Rightarrow> string list \<Rightarrow> agent_table \<Rightarrow> (oversight_error, unit, agent_table) run" where
  "bootstrap_roles now [] t = (Inr (), t)"
| "bootstrap_roles now (r # rs) t = and_then (bootstrap_role now r t) (\<lambda>_ t1. bootstrap_roles now rs t1)"

definition bootstrap_institutional_agents :: "time \<Rightarrow> agent_table \<Rightarrow> (oversight_error, agent_record list, agent_table) run" where
  "bootstrap_institutional_agents now t =
     and_then (bootstrap_roles now institutional_roles t) (\<lambda>_ t1. (Inr (sort_key ag_role (list_agents t1 (Some ''institutional''))), t1))"

definition workforce_record :: "(string \<Rightarrow> string) \<Rightarrow> string \<Rightarrow> string \<Rightarrow> string \<Rightarrow> string \<Rightarrow> time \<Rightarrow> agent_record" where
  "workforce_record sha project_id template llm_profile system_prompt_package now =
     (let pid = py_lower (py_strip project_id);
          binding_hash = sha (template @ [CHR 0x00] @ llm_profile @ [CHR 0x00] @ system_prompt_package)
      in \<lparr>ag_agent_id = ''cwo_workforce_'' @ pid @ ''_'' @ take 12 binding_hash, ag_role = ''cwo:'' @ pid,
          ag_agent_type = ''project_workforce'', ag_status = ''active'', ag_created_at = now, ag_updated_at = now\<rparr>)"

text \<open>\<^verbatim>\<open>INSERT ... ON CONFLICT (role) DO UPDATE\<close>.\<close>

definition bind_project_workforce ::
  "(string \<Rightarrow> string) \<Rightarrow> string \<Rightarrow> string \<Rightarrow> string \<Rightarrow> string \<Rightarrow> time \<Rightarrow> agent_table \<Rightarrow> (oversight_error, agent_record, agent_table) run" where
  "bind_project_workforce sha project_id template llm_profile system_prompt_package now t =
     (let a = workforce_record sha project_id template llm_profile system_prompt_package now
      in if list_ex (\<lambda>b. ag_agent_id b = ag_agent_id a \<and> ag_role b \<noteq> ag_role a) t
         then (Inl (OtherFailure (IntegrityError ''duplicate key value violates unique constraint agents_pkey'')), t)
         else (Inr a, if list_ex (\<lambda>b. ag_role b = ag_role a) t
                      then map (\<lambda>b. if ag_role b = ag_role a then a\<lparr>ag_created_at := ag_created_at b\<rparr> else b) t
                      else t @ [a]))"

definition quarantine_agent :: "string \<Rightarrow> time \<Rightarrow> agent_table \<Rightarrow> (oversight_error, agent_record, agent_table) run" where
  "quarantine_agent agent_id now t =
     (let i = py_strip agent_id
      in if i = [] then (Inl (AgentRegistryRepositoryError ''agent_registry_quarantine_invalid_id'' ''agent_id must not be blank for quarantine''), t)
         else case find (\<lambda>a. ag_agent_id a = i) t of
                None \<Rightarrow> (Inl (AgentRegistryRepositoryError ''agent_registry_not_found'' (''agent not found for quarantine: '' @ i)), t)
              | Some a \<Rightarrow> (Inr (a\<lparr>ag_status := ''inactive'', ag_updated_at := now\<rparr>),
                  map (\<lambda>b. if ag_agent_id b = i then b\<lparr>ag_status := ''inactive'', ag_updated_at := now\<rparr> else b) t))"

section \<open>State shared by the two agents\<close>

record oversight_env =
  ox_sha :: "string \<Rightarrow> string"
  ox_dumps :: "json_object \<Rightarrow> string"
  ox_loads :: "string \<Rightarrow> json option"
  ox_os_error :: "path \<Rightarrow> string option"
  ox_config :: artifact_config
  ox_audit_fault :: "nat \<Rightarrow> py_exn option"

record oversight_state =
  os_runtime :: py_runtime
  os_tasks :: task_repo
  os_agents :: agent_table
  os_artifacts :: artifact_db
  os_audit :: audit_log

type_synonym 'a oversight_run = "(oversight_error, 'a, oversight_state) run"

definition oversight_uuid :: "oversight_state \<Rightarrow> string \<times> oversight_state" where
  "oversight_uuid s = (case uuid4 (os_runtime s) of (u, rt) \<Rightarrow> (u, s\<lparr>os_runtime := rt\<rparr>))"

definition oversight_now :: "oversight_state \<Rightarrow> time \<times> oversight_state" where
  "oversight_now s = (case now_utc (os_runtime s) of (t, rt) \<Rightarrow> (t, s\<lparr>os_runtime := rt\<rparr>))"

text \<open>\<^verbatim>\<open>trace_id or self._trace_id_factory()\<close>.\<close>

definition effective_trace :: "string \<Rightarrow> oversight_state \<Rightarrow> string \<times> oversight_state" where
  "effective_trace trace_id s = (if trace_id \<noteq> [] then (trace_id, s) else oversight_uuid s)"

text \<open>The write contexts of both agents name an active project, whatever the status of the project is.\<close>

definition oversight_context :: "string \<Rightarrow> write_context" where
  "oversight_context role = \<lparr>wc_actor_role = role, wc_project_status = ''active'', wc_approval_roles = []\<rparr>"

definition put_document ::
  "oversight_env \<Rightarrow> write_context \<Rightarrow> string \<Rightarrow> string \<Rightarrow> string \<Rightarrow> oversight_state \<Rightarrow> artifact_pointer oversight_run" where
  "put_document env ctx project_id artifact_type content s =
     (let (now, s1) = oversight_now s; (aid, s2) = oversight_uuid s1
      in case write_project_artifact (ox_sha env) (ox_os_error env) (ox_config env) project_id artifact_type content
                (Some ctx) aid now (os_artifacts s) of
           (Inl e, db) \<Rightarrow> (Inl (ArtifactFailure e), s\<lparr>os_artifacts := db\<rparr>)
         | (Inr p, db) \<Rightarrow> (Inr p, s2\<lparr>os_artifacts := db\<rparr>))"

definition put_evidence :: "oversight_env \<Rightarrow> string \<Rightarrow> string \<Rightarrow> string \<Rightarrow> json_object \<Rightarrow> oversight_state \<Rightarrow> artifact_pointer oversight_run" where
  "put_evidence env role project_id artifact_type payload =
     put_document env (oversight_context role) project_id artifact_type (ox_dumps env payload)"

text \<open>The same with the entry \<^verbatim>\<open>created_at\<close>.\<close>

definition put_stamped :: "oversight_env \<Rightarrow> string \<Rightarrow> string \<Rightarrow> string \<Rightarrow> json_object \<Rightarrow> oversight_state \<Rightarrow> artifact_pointer oversight_run" where
  "put_stamped env role project_id artifact_type payload s =
     (case oversight_now s of (now, s1) \<Rightarrow> put_evidence env role project_id artifact_type (payload @ [(''created_at'', JIso now)]) s1)"

definition oversight_audit :: "oversight_env \<Rightarrow> audit_call \<Rightarrow> oversight_state \<Rightarrow> unit oversight_run" where
  "oversight_audit env event s =
     (case write_event (ox_audit_fault env) event (os_audit s) of
        (Inl x, lg) \<Rightarrow> (Inl (OtherFailure x), s\<lparr>os_audit := lg\<rparr>)
      | (Inr _, lg) \<Rightarrow> (Inr (), s\<lparr>os_audit := lg\<rparr>))"

definition oversight_event ::
  "string \<Rightarrow> string \<Rightarrow> string \<Rightarrow> string \<Rightarrow> string option \<Rightarrow> string \<Rightarrow> string \<Rightarrow> string list \<Rightarrow> payload \<Rightarrow> audit_call" where
  "oversight_event agent event_type outcome trace_id task_id reason_code message rule_ids payload =
     \<lparr>aw_event_type = event_type, aw_outcome = outcome, aw_trace_id = trace_id, aw_request_id = None, aw_task_id = task_id,
      aw_principal_id = Some agent, aw_principal_role = Some agent, aw_source = agent, aw_reason_code = Some reason_code,
      aw_message = message, aw_rule_ids = rule_ids, aw_payload = payload\<rparr>"

definition normalize_optional_text :: "string option \<Rightarrow> string option" where
  "normalize_optional_text v = (case v of None \<Rightarrow> None | Some x \<Rightarrow> or_none (py_strip x))"

definition allowed_severities :: "string list" where
  "allowed_severities = [''low'', ''medium'', ''high'', ''critical'']"

definition normalize_severity :: "string \<Rightarrow> string" where
  "normalize_severity v = (let n = py_lower (py_strip v) in if n \<in> set allowed_severities then n else ''high'')"

definition json_strings :: "string list \<Rightarrow> json" where
  "json_strings xs = JList (map JStr xs)"

definition json_opt :: "string option \<Rightarrow> json" where
  "json_opt v = (case v of None \<Rightarrow> JNull | Some x \<Rightarrow> JStr x)"

section \<open>Retention\<close>

definition require_project_id :: "string \<Rightarrow> string \<Rightarrow> oversight_error + string" where
  "require_project_id project_id operation =
     (let n = py_strip project_id in if n = [] then Inl (AdministratorError (operation @ '' requires project_id'')) else Inr n)"

definition retain :: "oversight_env \<Rightarrow> string \<Rightarrow> string \<Rightarrow> string \<Rightarrow> string \<Rightarrow> string \<Rightarrow> string list \<Rightarrow> oversight_state \<Rightarrow> string oversight_run" where
  "retain env pid trace_id action reason_code message rule_ids s =
     and_then (put_stamped env ''administrator'' pid ''administrator_retention''
         [(''event_type'', JStr ''administrator_retention''), (''action'', JStr action), (''project_id'', JStr pid),
          (''rule_ids'', json_strings rule_ids), (''trace_id'', JStr trace_id)] s) (\<lambda>p s1.
     and_then (oversight_audit env
         (oversight_event ''administrator'' ''administrator_retention'' ''archived'' trace_id None reason_code message rule_ids
            [(''project_id'', Some pid), (''action'', Some action)]) s1) (\<lambda>_ s2.
       (Inr (pt_storage_uri p), s2)))"

definition enforce_completed_project :: "oversight_env \<Rightarrow> string \<Rightarrow> string \<Rightarrow> oversight_state \<Rightarrow> string oversight_run" where
  "enforce_completed_project env project_id trace_id s =
     (case require_project_id project_id ''enforce_completed_project'' of
        Inl e \<Rightarrow> (Inl e, s)
      | Inr pid \<Rightarrow>
          (case effective_trace trace_id s of (trace, s1) \<Rightarrow>
             retain env pid trace ''completed_project_archived'' ''retention_completed'' ''completed project archived'' [''STR-001''] s1))"

definition enforce_terminated_project :: "oversight_env \<Rightarrow> string \<Rightarrow> string \<Rightarrow> oversight_state \<Rightarrow> string oversight_run" where
  "enforce_terminated_project env project_id trace_id s =
     (case require_project_id project_id ''enforce_terminated_project'' of
        Inl e \<Rightarrow> (Inl e, s)
      | Inr pid \<Rightarrow>
          (case effective_trace trace_id s of (trace, s1) \<Rightarrow>
             and_then (enforce_completed_project env pid trace s1) (\<lambda>_ s2.
               retain env pid trace ''terminated_project_archived'' ''retention_terminated'' ''terminated project archived''
                 [''STR-001'', ''STR-002''] s2)))"

section \<open>The administrator\<close>

record administrator_request =
  ad_action :: string
  ad_project_id :: "string option"
  ad_agent_id :: "string option"
  ad_artifact_type :: "string option"
  ad_reason :: string
  ad_severity :: string
  ad_rule_ids :: "string list"
  ad_trace_id :: string

record oversight_response =
  or_action_taken :: string
  or_record_id :: "string option"
  or_text :: string
  or_trace_id :: string

definition respond :: "string \<Rightarrow> string option \<Rightarrow> string \<Rightarrow> string \<Rightarrow> oversight_response" where
  "respond action record_id answer trace_id =
     \<lparr>or_action_taken = action, or_record_id = record_id, or_text = answer, or_trace_id = trace_id\<rparr>"

definition normalize_administrator_request :: "administrator_request \<Rightarrow> oversight_state \<Rightarrow> administrator_request \<times> oversight_state" where
  "normalize_administrator_request r s =
     (case effective_trace (py_strip (ad_trace_id r)) s of (trace, s1) \<Rightarrow>
        (r\<lparr>ad_action := py_lower (py_strip (ad_action r)), ad_project_id := normalize_optional_text (ad_project_id r),
           ad_agent_id := normalize_optional_text (ad_agent_id r),
           ad_artifact_type := map_option py_lower (normalize_optional_text (ad_artifact_type r)),
           ad_reason := py_strip (ad_reason r), ad_severity := normalize_severity (ad_severity r), ad_trace_id := trace\<rparr>, s1))"

definition require_text :: "string option \<Rightarrow> string \<Rightarrow> oversight_error + string" where
  "require_text v message = (case normalize_optional_text v of None \<Rightarrow> Inl (AdministratorError message) | Some x \<Rightarrow> Inr x)"

definition handle_check_artifact_cap :: "oversight_env \<Rightarrow> administrator_request \<Rightarrow> oversight_state \<Rightarrow> oversight_response oversight_run" where
  "handle_check_artifact_cap env r s =
     (case require_text (ad_project_id r) ''check_artifact_cap requires project_id'' of Inl e \<Rightarrow> (Inl e, s) | Inr pid \<Rightarrow>
     (case require_text (ad_artifact_type r) ''check_artifact_cap requires artifact_type'' of Inl e \<Rightarrow> (Inl e, s) | Inr ty \<Rightarrow>
       (let c = check_artifact_cap (ox_config env) (os_artifacts s) pid ty
        in (Inr (if cc_allowed c then respond ''cap_allowed'' None ''Artifact cap check passed.'' (ad_trace_id r)
                 else respond ''cap_denied'' None (or_str (cc_denial_reason c) ''Cap denied.'') (ad_trace_id r)), s))))"

definition handle_enforce_retention :: "oversight_env \<Rightarrow> administrator_request \<Rightarrow> oversight_state \<Rightarrow> oversight_response oversight_run" where
  "handle_enforce_retention env r s =
     (case require_text (ad_project_id r) ''enforce_retention requires project_id'' of Inl e \<Rightarrow> (Inl e, s) | Inr pid \<Rightarrow>
       and_then (if py_contains (py_lower (ad_reason r)) ''terminat''
                 then enforce_terminated_project env pid (ad_trace_id r) s
                 else enforce_completed_project env pid (ad_trace_id r) s) (\<lambda>uri s1.
         (Inr (respond ''retention_enforced'' (Some uri) ''Retention enforced.'' (ad_trace_id r)), s1)))"

definition system_project_id :: string where
  "system_project_id = ''system''"

definition quarantine_payload :: "string \<Rightarrow> administrator_request \<Rightarrow> string \<Rightarrow> json_object \<Rightarrow> json_object" where
  "quarantine_payload event_type r agent_id extra =
     [(''event_type'', JStr event_type), (''action'', JStr ''agent_quarantined''), (''agent_id'', JStr agent_id), (''reason'', JStr (ad_reason r)),
      (''severity'', JStr (ad_severity r)), (''trace_id'', JStr (ad_trace_id r))] @ extra"

definition handle_quarantine_agent :: "oversight_env \<Rightarrow> administrator_request \<Rightarrow> oversight_state \<Rightarrow> oversight_response oversight_run" where
  "handle_quarantine_agent env r s =
     (case require_text (ad_agent_id r) ''quarantine_agent requires agent_id'' of Inl e \<Rightarrow> (Inl e, s) | Inr agent_id \<Rightarrow>
       (let pid = or_str (ad_project_id r) system_project_id;
            evidence = (\<lambda>ty extra. put_stamped env ''administrator'' pid ty (quarantine_payload ty r agent_id extra));
            (now, s0) = oversight_now s
        in case quarantine_agent agent_id now (os_agents s) of
             (Inl (AgentRegistryRepositoryError code m), _) \<Rightarrow> (Inl (AdministratorError m), s)
           | (Inl e, _) \<Rightarrow> (Inl e, s)
           | (Inr _, agents) \<Rightarrow>
               and_then (evidence ''administrator_containment'' [(''rule_ids'', json_strings [''AUTH-001'', ''GOV-001''])] (s0\<lparr>os_agents := agents\<rparr>)) (\<lambda>p s1.
               and_then (evidence ''administrator_owner_notification'' [(''next_owner_role'', JStr ''owner'')] s1) (\<lambda>_ s2.
               and_then (evidence ''administrator_ceo_notification'' [(''next_owner_role'', JStr ''ceo'')] s2) (\<lambda>_ s3.
               and_then (if ad_severity r = ''critical''
                         then and_then (evidence ''administrator_owner_alert'' [(''next_owner_role'', JStr ''owner'')] s3) (\<lambda>_ s4. (Inr (), s4))
                         else (Inr (), s3)) (\<lambda>_ s5.
               and_then (oversight_audit env
                   (oversight_event ''administrator'' ''administrator_containment'' ''quarantined'' (ad_trace_id r) None ''administrator_quarantine''
                      ''agent quarantined'' [''AUTH-001'', ''GOV-001'']
                      [(''project_id'', Some pid), (''agent_id'', Some agent_id), (''severity'', Some (ad_severity r)), (''reason'', Some (ad_reason r))]) s5)
                 (\<lambda>_ s6. (Inr (respond ''agent_quarantined'' (Some (pt_storage_uri p)) ''Agent quarantined. Owner and CEO notified.'' (ad_trace_id r)), s6))))))))"

definition administrator_handle :: "oversight_env \<Rightarrow> administrator_request \<Rightarrow> oversight_state \<Rightarrow> oversight_response oversight_run" where
  "administrator_handle env request s =
     (case normalize_administrator_request request s of (r, s1) \<Rightarrow>
        if ad_action r = ''check_artifact_cap'' then handle_check_artifact_cap env r s1
        else if ad_action r = ''enforce_retention'' then handle_enforce_retention env r s1
        else if ad_action r = ''quarantine_agent'' then handle_quarantine_agent env r s1
        else if ad_action r = ''query''
        then (Inr (respond ''no_action'' None ''Oversight query acknowledged. No enforcement action taken.'' (ad_trace_id r)), s1)
        else (Inr (respond ''no_action'' None (''Unsupported administrator action: '' @ py_repr (ad_action r) @ ''.'') (ad_trace_id r)), s1))"

section \<open>The auditor's enforcement service\<close>

definition require_project_scope :: "string option \<Rightarrow> string \<Rightarrow> string \<Rightarrow> oversight_error + string" where
  "require_project_scope project_id trace_id operation =
     (case normalize_optional_text project_id of
        None \<Rightarrow> Inl (AuditorFindingError (operation @ '' requires project_id for durable auditor evidence (trace_id='' @ trace_id @ '')''))
      | Some pid \<Rightarrow> Inr pid)"

definition incident_payload ::
  "string \<Rightarrow> string \<Rightarrow> string \<Rightarrow> string list \<Rightarrow> string \<Rightarrow> string \<Rightarrow> string \<Rightarrow> string \<Rightarrow> json_object \<Rightarrow> json_object" where
  "incident_payload event_type pid severity rule_ids rationale trace_id incident_type next_role extra =
     [(''event_type'', JStr event_type), (''author_role'', JStr ''auditor''), (''project_id'', JStr pid), (''severity'', JStr severity),
      (''rule_ids'', json_strings rule_ids), (''rationale'', JStr rationale), (''trace_id'', JStr trace_id),
      (''incident_type'', JStr incident_type), (''current_owner_role'', JStr ''auditor''), (''next_owner_role'', JStr next_role),
      (''path_reference'', JStr (''auditor->'' @ next_role))] @ extra"

definition block_task :: "string \<Rightarrow> string \<Rightarrow> oversight_state \<Rightarrow> unit oversight_run" where
  "block_task task_id reason s =
     (case mark_blocked_dispatch (os_tasks s) task_id (Some ''auditor_enforcement'') reason ''auditor'' ''auditor_enforcement'' of
        (Inl x, repo) \<Rightarrow> (Inl (OtherFailure x), s\<lparr>os_tasks := repo\<rparr>)
      | (Inr None, repo) \<Rightarrow> (Inl (AuditorFindingError (''auditor pause failed: task not found: '' @ task_id)), s\<lparr>os_tasks := repo\<rparr>)
      | (Inr (Some _), repo) \<Rightarrow> (Inr (), s\<lparr>os_tasks := repo\<rparr>))"

definition pause_evidence ::
  "oversight_env \<Rightarrow> string \<Rightarrow> string \<Rightarrow> string \<Rightarrow> string \<Rightarrow> string list \<Rightarrow> string \<Rightarrow> oversight_state \<Rightarrow> string oversight_run" where
  "pause_evidence env task_id pid reason severity rule_ids trace_id s =
     (let sev = normalize_severity severity;
          evidence = (\<lambda>ty next_role. put_stamped env ''auditor'' pid ty
            (incident_payload ty pid sev rule_ids reason trace_id ''task_pause'' next_role [(''task_id'', JStr task_id)]))
      in and_then (evidence ''auditor_enforcement'' ''owner'' s) (\<lambda>p s1.
         and_then (oversight_audit env
             (oversight_event ''auditor'' ''auditor_enforcement'' ''blocked'' trace_id (Some task_id) ''auditor_pause'' reason rule_ids
                [(''project_id'', Some pid), (''severity'', Some sev), (''incident_type'', Some ''task_pause''),
                 (''current_owner_role'', Some ''auditor''), (''next_owner_role'', Some ''owner''), (''path_reference'', Some ''auditor->owner'')]) s1) (\<lambda>_ s2.
         and_then (evidence ''auditor_ceo_notification'' ''ceo'' s2) (\<lambda>_ s3.
         and_then (if sev = ''critical'' then and_then (evidence ''auditor_owner_alert'' ''owner'' s3) (\<lambda>_ s4. (Inr (), s4)) else (Inr (), s3)) (\<lambda>_ s5.
           (Inr (pt_storage_uri p), s5))))))"

definition pause_task ::
  "oversight_env \<Rightarrow> string \<Rightarrow> string option \<Rightarrow> string \<Rightarrow> string \<Rightarrow> string list \<Rightarrow> string \<Rightarrow> oversight_state \<Rightarrow> string oversight_run" where
  "pause_task env task_id project_id reason severity rule_ids trace_id s =
     and_then (block_task task_id reason s) (\<lambda>_ s1.
       case require_project_scope project_id trace_id ''pause_task'' of
         Inl e \<Rightarrow> (Inl e, s1)
       | Inr pid \<Rightarrow> pause_evidence env task_id pid reason severity rule_ids trace_id s1)"

definition escalate_to_owner ::
  "oversight_env \<Rightarrow> string option \<Rightarrow> string list \<Rightarrow> string \<Rightarrow> string \<Rightarrow> string \<Rightarrow> oversight_state \<Rightarrow> string oversight_run" where
  "escalate_to_owner env project_id rule_ids rationale severity trace_id s =
     (case require_project_scope project_id trace_id ''escalate_to_owner'' of
        Inl e \<Rightarrow> (Inl e, s)
      | Inr pid \<Rightarrow>
          and_then (put_stamped env ''auditor'' pid ''auditor_owner_escalation''
              (incident_payload ''auditor_owner_escalation'' pid (normalize_severity severity) rule_ids rationale trace_id
                 ''governance_escalation'' ''owner'' []) s) (\<lambda>p s1. (Inr (pt_storage_uri p), s1)))"

definition finding_payload ::
  "string \<Rightarrow> string \<Rightarrow> string list \<Rightarrow> string \<Rightarrow> string \<Rightarrow> string option \<Rightarrow> string option \<Rightarrow> string option \<Rightarrow> json_object" where
  "finding_payload pid finding_type rule_ids rationale trace_id task_id source_agent_role severity =
     [(''event_type'', JStr ''auditor_finding''), (''author_role'', JStr ''auditor''), (''project_id'', JStr pid), (''finding_type'', JStr finding_type),
      (''severity'', JStr (normalize_severity (or_str severity ''medium''))), (''task_id'', json_opt task_id),
      (''source_agent_role'', json_opt (normalize_optional_text source_agent_role)), (''rule_ids'', json_strings rule_ids),
      (''rationale'', JStr rationale), (''trace_id'', JStr trace_id)]"

definition record_finding ::
  "oversight_env \<Rightarrow> string option \<Rightarrow> string \<Rightarrow> string list \<Rightarrow> string \<Rightarrow> string \<Rightarrow> string option \<Rightarrow> string option \<Rightarrow> string option \<Rightarrow>
   oversight_state \<Rightarrow> string oversight_run" where
  "record_finding env project_id finding_type rule_ids rationale trace_id task_id source_agent_role severity s =
     (case require_project_scope project_id trace_id ''record_finding'' of
        Inl e \<Rightarrow> (Inl e, s)
      | Inr pid \<Rightarrow>
          and_then (put_stamped env ''auditor'' pid ''auditor_finding''
              (finding_payload pid finding_type rule_ids rationale trace_id task_id source_agent_role severity) s) (\<lambda>p s1.
            (Inr (pt_storage_uri p), s1)))"

section \<open>The auditor\<close>

record auditor_request =
  dr_event_type :: string
  dr_task_id :: "string option"
  dr_project_id :: "string option"
  dr_severity :: string
  dr_rule_ids :: "string list"
  dr_rationale :: string
  dr_source_agent_role :: "string option"
  dr_trace_id :: string

definition normalize_auditor_request :: "auditor_request \<Rightarrow> oversight_state \<Rightarrow> auditor_request \<times> oversight_state" where
  "normalize_auditor_request r s =
     (case effective_trace (py_strip (dr_trace_id r)) s of (trace, s1) \<Rightarrow>
        (\<lparr>dr_event_type = py_lower (py_strip (dr_event_type r)), dr_task_id = normalize_optional_text (dr_task_id r),
          dr_project_id = normalize_optional_text (dr_project_id r), dr_severity = normalize_severity (dr_severity r),
          dr_rule_ids = py_sorted_set (map py_strip (filter (\<lambda>i. i \<noteq> []) (dr_rule_ids r))),
          dr_rationale = or_str (Some (py_strip (dr_rationale r))) ''No rationale provided.'',
          dr_source_agent_role = normalize_optional_text (dr_source_agent_role r), dr_trace_id = trace\<rparr>, s1))"

text \<open>The finding, the escalation and the notification of one request.\<close>

definition find_for :: "oversight_env \<Rightarrow> auditor_request \<Rightarrow> string \<Rightarrow> oversight_state \<Rightarrow> string oversight_run" where
  "find_for env r finding_type =
     record_finding env (dr_project_id r) finding_type (dr_rule_ids r) (dr_rationale r) (dr_trace_id r) (dr_task_id r)
       (dr_source_agent_role r) (Some (dr_severity r))"

definition escalate_for :: "oversight_env \<Rightarrow> auditor_request \<Rightarrow> oversight_state \<Rightarrow> string oversight_run" where
  "escalate_for env r = escalate_to_owner env (dr_project_id r) (dr_rule_ids r) (dr_rationale r) (dr_severity r) (dr_trace_id r)"

definition notify_ceo :: "oversight_env \<Rightarrow> auditor_request \<Rightarrow> string \<Rightarrow> json_object \<Rightarrow> oversight_state \<Rightarrow> string oversight_run" where
  "notify_ceo env r incident_type extra s =
     (case normalize_optional_text (dr_project_id r) of
        None \<Rightarrow> (Inl (ScopeValueError (''auditor notification requires project_id for durable scope (trace_id='' @ dr_trace_id r @ '')'')), s)
      | Some pid \<Rightarrow>
          and_then (put_evidence env ''auditor'' pid ''auditor_ceo_notification''
              (incident_payload ''auditor_ceo_notification'' pid (dr_severity r) (dr_rule_ids r) (dr_rationale r) (dr_trace_id r) incident_type ''ceo''
                 ((''task_id'', json_opt (dr_task_id r)) # extra)) s) (\<lambda>p s1. (Inr (pt_storage_uri p), s1)))"

definition handle_budget_breach :: "oversight_env \<Rightarrow> auditor_request \<Rightarrow> oversight_state \<Rightarrow> oversight_response oversight_run" where
  "handle_budget_breach env r s =
     (case nonempty_opt (dr_task_id r) of
        Some task_id \<Rightarrow>
          and_then (pause_task env task_id (dr_project_id r) (dr_rationale r) (dr_severity r) (dr_rule_ids r) (dr_trace_id r) s) (\<lambda>finding_id s1.
          and_then (escalate_for env r s1) (\<lambda>_ s2.
            (Inr (respond ''task_paused'' (Some finding_id)
               ''Oversight summary: hard budget breach recorded, task paused, and owner escalation issued.'' (dr_trace_id r)), s2)))
      | None \<Rightarrow>
          and_then (escalate_for env r s) (\<lambda>_ s1.
          and_then (find_for env r ''budget_breach'' s1) (\<lambda>finding_id s2.
            (Inr (respond ''owner_escalated'' (Some finding_id)
               ''Oversight summary: hard budget breach recorded and owner escalation issued.'' (dr_trace_id r)), s2))))"

definition handle_governance_violation :: "oversight_env \<Rightarrow> auditor_request \<Rightarrow> oversight_state \<Rightarrow> oversight_response oversight_run" where
  "handle_governance_violation env r s =
     and_then (find_for env r ''governance_violation'' s) (\<lambda>finding_id s1.
     and_then (escalate_for env r s1) (\<lambda>_ s2.
     and_then (if dr_severity r \<in> {''high'', ''critical''} then and_then (notify_ceo env r ''governance_violation'' [] s2) (\<lambda>_ s3. (Inr (), s3))
               else (Inr (), s2)) (\<lambda>_ s4.
       (Inr (respond ''owner_escalated'' (Some finding_id)
          ''Oversight summary: governance violation recorded and owner escalation issued.'' (dr_trace_id r)), s4))))"

definition load_payload :: "oversight_env \<Rightarrow> string \<Rightarrow> json_object" where
  "load_payload env content = (case ox_loads env content of Some (JObj d) \<Rightarrow> d | _ \<Rightarrow> [])"

definition is_finding_of :: "oversight_env \<Rightarrow> string option \<Rightarrow> string \<Rightarrow> string \<Rightarrow> artifact_pointer \<times> string \<Rightarrow> bool" where
  "is_finding_of env project_id task_id source_agent_role doc =
     ((project_id \<noteq> None \<longrightarrow> project_id = Some (pt_project_id (fst doc))) \<and>
      dict_get (load_payload env (snd doc)) ''task_id'' = Some (JStr task_id) \<and>
      dict_get (load_payload env (snd doc)) ''source_agent_role'' = Some (JStr source_agent_role) \<and>
      dict_get (load_payload env (snd doc)) ''finding_type'' = Some (JStr ''behavioral_violation''))"

definition finding_already_exists ::
  "oversight_env \<Rightarrow> artifact_db \<Rightarrow> string option \<Rightarrow> string option \<Rightarrow> string option \<Rightarrow> artifact_error + bool" where
  "finding_already_exists env db project_id task_id source_agent_role =
     (case (task_id, source_agent_role) of
        (Some t, Some role) \<Rightarrow>
          (case list_artifact_documents_by_type db ''auditor_finding'' of
             Inl e \<Rightarrow> Inl e
           | Inr docs \<Rightarrow> Inr (list_ex (is_finding_of env project_id t role) docs))
      | _ \<Rightarrow> Inr False)"

definition handle_behavioral_violation :: "oversight_env \<Rightarrow> auditor_request \<Rightarrow> oversight_state \<Rightarrow> oversight_response oversight_run" where
  "handle_behavioral_violation env r s =
     (case finding_already_exists env (os_artifacts s) (dr_project_id r) (dr_task_id r) (dr_source_agent_role r) of
        Inl e \<Rightarrow> (Inl (ArtifactFailure e), s)
      | Inr True \<Rightarrow>
          (Inr (respond ''no_action'' None
             ''Oversight summary: matching behavioral finding already exists without new evidence; duplicate escalation suppressed.'' (dr_trace_id r)), s)
      | Inr False \<Rightarrow>
          and_then (find_for env r ''behavioral_violation'' s) (\<lambda>finding_id s1.
          and_then (escalate_for env r s1) (\<lambda>_ s2.
          and_then (notify_ceo env r ''behavioral_violation'' [(''source_agent_role'', json_opt (dr_source_agent_role r))] s2) (\<lambda>_ s3.
            (Inr (respond ''owner_escalated'' (Some finding_id)
               ''Oversight summary: behavioral violation recorded, bypass routing applied, and owner escalation issued.'' (dr_trace_id r)), s3)))))"

definition handle_document_violation :: "oversight_env \<Rightarrow> auditor_request \<Rightarrow> oversight_state \<Rightarrow> oversight_response oversight_run" where
  "handle_document_violation env r s =
     and_then (find_for env r ''document_violation'' s) (\<lambda>finding_id s1.
     and_then (escalate_for env r s1) (\<lambda>_ s2.
       (Inr (respond ''owner_escalated'' (Some finding_id)
          ''Oversight summary: document-policy violation recorded and owner escalation issued.'' (dr_trace_id r)), s2)))"

definition query_summary :: "auditor_request \<Rightarrow> string" where
  "query_summary r =
     ''Oversight summary: compliance query reviewed without new writes. Severity='' @ dr_severity r @ ''; rules='' @
     or_str (Some (py_join '', '' (dr_rule_ids r))) ''none'' @ ''.''"

definition handle_unknown_event :: "oversight_env \<Rightarrow> auditor_request \<Rightarrow> oversight_state \<Rightarrow> oversight_response oversight_run" where
  "handle_unknown_event env r s =
     (let observed = or_str (Some (dr_event_type r)) ''unspecified''
      in and_then (record_finding env (dr_project_id r) (''unknown_event_type:'' @ observed) (dr_rule_ids r)
             (py_strip (''Unsupported auditor event type received: '' @ observed @ ''. '' @ dr_rationale r)) (dr_trace_id r) (dr_task_id r)
             (dr_source_agent_role r) (Some (dr_severity r)) s) (\<lambda>finding_id s1.
           (Inr (respond ''finding_recorded'' (Some finding_id)
              (''Oversight finding recorded for an unsupported event type. Observed event_type='' @ observed @ ''.'') (dr_trace_id r)), s1)))"

definition auditor_handle :: "oversight_env \<Rightarrow> auditor_request \<Rightarrow> oversight_state \<Rightarrow> oversight_response oversight_run" where
  "auditor_handle env request s =
     (case normalize_auditor_request request s of (r, s1) \<Rightarrow>
        if dr_event_type r = ''budget_breach'' then handle_budget_breach env r s1
        else if dr_event_type r = ''governance_violation'' then handle_governance_violation env r s1
        else if dr_event_type r = ''behavioral_violation'' then handle_behavioral_violation env r s1
        else if dr_event_type r = ''document_violation'' then handle_document_violation env r s1
        else if dr_event_type r = ''query'' then (Inr (respond ''no_action'' None (query_summary r) (dr_trace_id r)), s1)
        else handle_unknown_event env r s1)"

section \<open>Histories\<close>

datatype oversight_call = Administrate administrator_request | Audit auditor_request

fun oversee :: "oversight_env \<Rightarrow> oversight_call \<Rightarrow> oversight_state \<Rightarrow> oversight_response oversight_run" where
  "oversee env (Administrate r) s = administrator_handle env r s"
| "oversee env (Audit r) s = auditor_handle env r s"

text \<open>What was written between two states, and the projects and types of evidence.\<close>

definition evidence_since :: "oversight_state \<Rightarrow> oversight_state \<Rightarrow> artifact_row list" where
  "evidence_since s s' = drop (length (ab_rows (os_artifacts s))) (ab_rows (os_artifacts s'))"

definition evidence_keys :: "artifact_row list \<Rightarrow> (string \<times> string) list" where
  "evidence_keys rows = map (\<lambda>r. (ar_project_id r, ar_artifact_type r)) rows"

definition audit_keys :: "audit_row list \<Rightarrow> (string \<times> string option) list" where
  "audit_keys rows = map (\<lambda>r. (au_event_type r, au_task_id r)) rows"

definition audited_since :: "oversight_state \<Rightarrow> oversight_state \<Rightarrow> audit_row list" where
  "audited_since s s' = drop (length (lg_rows (os_audit s))) (lg_rows (os_audit s'))"

text \<open>Agents keep who they are; a status changes only to \<^verbatim>\<open>inactive\<close>.\<close>

definition agent_contained :: "agent_record \<Rightarrow> agent_record \<Rightarrow> bool" where
  "agent_contained a b = (ag_agent_id b = ag_agent_id a \<and> ag_role b = ag_role a \<and> ag_agent_type b = ag_agent_type a \<and>
     ag_created_at b = ag_created_at a \<and> (ag_status b = ag_status a \<or> ag_status b = ''inactive''))"

definition later :: "oversight_state \<Rightarrow> oversight_state \<Rightarrow> bool" where
  "later s s' = (artifacts_ok (os_artifacts s') \<and> prefix (ab_rows (os_artifacts s)) (ab_rows (os_artifacts s')) \<and>
     prefix (lg_rows (os_audit s)) (lg_rows (os_audit s')) \<and> repo_step\<^sup>*\<^sup>* (os_tasks s) (os_tasks s') \<and>
     list_all2 agent_contained (os_agents s) (os_agents s'))"

text \<open>A log that its service only extends.\<close>

locale growing_log =
  fixes call :: "'a \<Rightarrow> 's \<Rightarrow> 'r \<times> 's" and extends :: "'s \<Rightarrow> 's \<Rightarrow> bool"
  assumes extends_trans: "extends s s1 \<Longrightarrow> extends s1 s2 \<Longrightarrow> extends s s2"
    and call_extends: "extends s s1 \<Longrightarrow> extends s (snd (call a s1))"
begin

lemma run_extends: "extends s s1 \<Longrightarrow> extends s (run_calls call as s1)"
  by (induction as arbitrary: s1) (auto intro: call_extends)

lemma run_after: "extends s s1 \<Longrightarrow> extends s1 s1 \<Longrightarrow> extends s1 (run_calls call as s1) \<and> extends s (run_calls call as s1)"
  by (simp add: run_extends)

end

section \<open>Lemmas\<close>

subsection \<open>Draws and writes\<close>

lemma draws_frame [simp]:
  "os_tasks (snd (oversight_uuid s)) = os_tasks s" "os_agents (snd (oversight_uuid s)) = os_agents s"
  "os_artifacts (snd (oversight_uuid s)) = os_artifacts s" "os_audit (snd (oversight_uuid s)) = os_audit s"
  "os_tasks (snd (oversight_now s)) = os_tasks s" "os_agents (snd (oversight_now s)) = os_agents s"
  "os_artifacts (snd (oversight_now s)) = os_artifacts s" "os_audit (snd (oversight_now s)) = os_audit s"
  "os_tasks (snd (effective_trace t s)) = os_tasks s" "os_agents (snd (effective_trace t s)) = os_agents s"
  "os_artifacts (snd (effective_trace t s)) = os_artifacts s" "os_audit (snd (effective_trace t s)) = os_audit s"
  by (simp_all add: oversight_uuid_def oversight_now_def effective_trace_def case_prod_beta)

text \<open>One artifact is appended, or the rows stay; nothing but the draws and the artifacts changes.\<close>

lemma put_document_step:
  assumes "artifacts_ok (os_artifacts s)"
  shows "run_ok
    (\<lambda>p s'. \<exists>row fs. p = pointer_from_row row \<and> validate_project_id pid = Inr (ar_project_id row) \<and>
       validate_artifact_type ty = Inr (ar_artifact_type row) \<and> ar_content row = content \<and>
       os_artifacts s' = \<lparr>ab_rows = ab_rows (os_artifacts s) @ [row], ab_files = fs\<rparr> \<and> artifacts_ok (os_artifacts s') \<and>
       os_tasks s' = os_tasks s \<and> os_agents s' = os_agents s \<and> os_audit s' = os_audit s)
    (\<lambda>e s'. (\<exists>x. e = ArtifactFailure x) \<and> ab_rows (os_artifacts s') = ab_rows (os_artifacts s) \<and> artifacts_ok (os_artifacts s') \<and>
       os_tasks s' = os_tasks s \<and> os_agents s' = os_agents s \<and> os_audit s' = os_audit s)
    (put_document env ctx pid ty content s)"
proof -
  obtain now s1 aid s2 where draws: "oversight_now s = (now, s1)" "oversight_uuid s1 = (aid, s2)" by (meson surj_pair)
  then have frame: "os_tasks s2 = os_tasks s" "os_agents s2 = os_agents s" "os_audit s2 = os_audit s"
    using draws_frame(1,2,4) [where s = s1] draws_frame(5,6,8) [where s = s] by simp_all
  obtain q db where w: "write_project_artifact (ox_sha env) (ox_os_error env) (ox_config env) pid ty content
      (Some ctx) aid now (os_artifacts s) = (q, db)" by fastforce
  from write_project_artifact_rows [OF assms w] show ?thesis
  proof (elim disjE exE conjE)
    fix e assume "q = Inl e" "ab_rows db = ab_rows (os_artifacts s)"
    then show ?thesis using draws w artifacts_ok_rows [OF assms] by (simp add: put_document_def)
  next
    fix row cap fs
    assume q: "q = Inr (pointer_from_row row)" and db: "db = \<lparr>ab_rows = ab_rows (os_artifacts s) @ [row], ab_files = fs\<rparr>"
      and rest: "validate_project_id pid = Inr (ar_project_id row)" "validate_artifact_type ty = Inr (ar_artifact_type row)"
        "ar_content row = content"
        "ar_revision_no row = Suc (length (rows_of (os_artifacts s) (ar_project_id row) (ar_artifact_type row)))"
    have "put_document env ctx pid ty content s = (Inr (pointer_from_row row), s2\<lparr>os_artifacts := db\<rparr>)"
      using draws w q by (simp add: put_document_def)
    then show ?thesis using rest frame artifacts_ok_append [OF assms rest(4)] db by auto
  qed
qed

lemma put_evidence_ok:
  assumes "put_evidence env role pid ty pl s = (Inr p, s')" "artifacts_ok (os_artifacts s)"
  obtains row fs where "p = pointer_from_row row" "validate_project_id pid = Inr (ar_project_id row)"
    "validate_artifact_type ty = Inr (ar_artifact_type row)" "ar_content row = ox_dumps env pl"
    "os_artifacts s' = \<lparr>ab_rows = ab_rows (os_artifacts s) @ [row], ab_files = fs\<rparr>" "artifacts_ok (os_artifacts s')"
    "os_tasks s' = os_tasks s" "os_agents s' = os_agents s" "os_audit s' = os_audit s"
  using put_document_step [OF assms(2), of pid ty "ox_dumps env pl" env "oversight_context role"] assms(1) by (auto simp: put_evidence_def)

subsection \<open>What every call keeps\<close>

lemma agent_contained_refl [simp]: "agent_contained a a"
  by (simp add: agent_contained_def)

lemma agent_contained_trans: "agent_contained a b \<Longrightarrow> agent_contained b c \<Longrightarrow> agent_contained a c"
  by (auto simp: agent_contained_def)

lemma later_refl: "artifacts_ok (os_artifacts s) \<Longrightarrow> later s s"
  by (simp add: later_def list_all2_refl)

lemma later_self: "later s s' \<Longrightarrow> later s' s'"
  by (rule later_refl) (simp add: later_def)

lemma later_trans: "later s s1 \<Longrightarrow> later s1 s2 \<Longrightarrow> later s s2"
  unfolding later_def by (auto elim: list_all2_trans [rotated] intro: agent_contained_trans prefix_order.trans rtranclp_trans)

lemma later_draws:
  "later s0 s \<Longrightarrow> later s0 (snd (oversight_uuid s))" "later s0 s \<Longrightarrow> later s0 (snd (oversight_now s))"
  "later s0 s \<Longrightarrow> later s0 (snd (effective_trace t s))"
  by (simp_all add: later_def)

lemma later_document: "later s0 s \<Longrightarrow> later s0 (snd (put_document env ctx pid ty content s))"
proof -
  assume l: "later s0 s"
  then have "artifacts_ok (os_artifacts s)" by (simp add: later_def)
  from put_document_step [OF this, of pid ty content env ctx] l show ?thesis
    by (cases "put_document env ctx pid ty content s"; cases "fst (put_document env ctx pid ty content s)")
       (auto simp: later_def intro: prefix_order.trans)
qed

lemma later_put: "later s0 s \<Longrightarrow> later s0 (snd (put_evidence env role pid ty pl s))"
  unfolding put_evidence_def by (rule later_document)

lemma later_put_stamped: "later s0 s \<Longrightarrow> later s0 (snd (put_stamped env role pid ty pl s))"
  unfolding put_stamped_def case_prod_beta by (intro later_put later_draws)

lemma later_audit: "later s0 s \<Longrightarrow> later s0 (snd (oversight_audit env ev s))"
  by (auto simp: oversight_audit_def write_event_def Let_def later_def prefix_def split: option.splits)

lemma later_block: "later s0 s \<Longrightarrow> later s0 (snd (block_task i reason s))"
proof -
  obtain q repo where u: "mark_blocked_dispatch (os_tasks s) i (Some ''auditor_enforcement'') reason ''auditor'' ''auditor_enforcement'' = (q, repo)"
    by fastforce
  then have "repo_step (os_tasks s) repo" unfolding mark_blocked_dispatch_def by (rule repo_step.update)
  then show "later s0 s \<Longrightarrow> ?thesis"
    using u by (auto simp: block_task_def later_def split: sum.splits option.splits intro: rtranclp.rtrancl_into_rtrancl)
qed

lemma quarantine_contained:
  "quarantine_agent i now t = (q, t') \<Longrightarrow> list_all2 agent_contained t t'"
  by (auto simp: quarantine_agent_def Let_def agent_contained_def list_all2_map2 intro!: list_all2_refl split: if_splits option.splits)

lemma later_quarantine:
  "later s0 s \<Longrightarrow> quarantine_agent i now (os_agents s) = (q, t') \<Longrightarrow> later s0 (s1\<lparr>os_agents := t'\<rparr>)"
  if "os_tasks s1 = os_tasks s" "os_artifacts s1 = os_artifacts s" "os_audit s1 = os_audit s"
  using that quarantine_contained [of i now "os_agents s" q t']
  by (auto simp: later_def intro: agent_contained_trans elim: list_all2_trans [rotated])

lemmas later_intros = later_put later_put_stamped later_audit later_block later_draws and_then_inv [where P = "later s0" for s0]

lemma later_services:
  assumes "later s0 s"
  shows "later s0 (snd (retain env pid tr act rc m rules s))" "later s0 (snd (pause_evidence env i pid rs sev rules tr s))"
    "later s0 (snd (escalate_to_owner env p rules rat sev tr s))" "later s0 (snd (record_finding env p ft rules rat tr ti sr so s))"
    "later s0 (snd (notify_ceo env r inc extra s))"
  using assms unfolding retain_def pause_evidence_def escalate_to_owner_def record_finding_def notify_ceo_def Let_def
  by (auto intro!: later_intros split: sum.split option.split)

lemma later_enforcement:
  assumes "later s0 s"
  shows "later s0 (snd (enforce_completed_project env p tr s))" "later s0 (snd (enforce_terminated_project env p tr s))"
    "later s0 (snd (pause_task env i po rs sev rules tr s))"
  using assms unfolding enforce_completed_project_def enforce_terminated_project_def pause_task_def case_prod_beta
  by (auto intro!: later_intros later_services split: sum.split)

lemma later_quarantine_handler: "later s0 s \<Longrightarrow> later s0 (snd (handle_quarantine_agent env r s))"
proof -
  assume l: "later s0 s"
  show ?thesis
  proof (cases "require_text (ad_agent_id r) ''quarantine_agent requires agent_id''")
    case (Inr i)
    obtain q t' where q: "quarantine_agent i (fst (oversight_now s)) (os_agents s) = (q, t')" by fastforce
    show ?thesis
    proof (cases q)
      case (Inl e)
      then show ?thesis using l q Inr by (auto simp: handle_quarantine_agent_def Let_def case_prod_beta split: oversight_error.split)
    next
      case (Inr a)
      have "later s0 (snd (oversight_now s)\<lparr>os_agents := t'\<rparr>)" by (rule later_quarantine [OF _ _ _ l q]) simp_all
      then show ?thesis using q Inr \<open>require_text _ _ = Inr i\<close>
        by (auto simp: handle_quarantine_agent_def Let_def case_prod_beta intro!: later_intros)
    qed
  qed (simp add: l handle_quarantine_agent_def)
qed

lemma later_administrator: "later s0 s \<Longrightarrow> later s0 (snd (administrator_handle env r s))"
  unfolding administrator_handle_def normalize_administrator_request_def case_prod_beta
  by (auto simp: handle_check_artifact_cap_def handle_enforce_retention_def Let_def
      intro!: later_intros later_enforcement later_quarantine_handler split: sum.split)

lemma later_handlers:
  assumes "later s0 s"
  shows "later s0 (snd (handle_budget_breach env r s))" "later s0 (snd (handle_governance_violation env r s))"
    "later s0 (snd (handle_document_violation env r s))" "later s0 (snd (handle_unknown_event env r s))"
  using assms unfolding handle_budget_breach_def handle_governance_violation_def handle_document_violation_def handle_unknown_event_def
    find_for_def escalate_for_def Let_def
  by (auto intro!: later_intros later_services later_enforcement split: option.split)

lemma later_behavioral: "later s0 s \<Longrightarrow> later s0 (snd (handle_behavioral_violation env r s))"
  unfolding handle_behavioral_violation_def find_for_def escalate_for_def
  by (auto intro!: later_intros later_services split: sum.split bool.split)

lemma later_auditor: "later s0 s \<Longrightarrow> later s0 (snd (auditor_handle env r s))"
  unfolding auditor_handle_def normalize_auditor_request_def case_prod_beta
  by (simp add: later_handlers later_behavioral later_draws)

lemma later_oversee: "later s0 s \<Longrightarrow> later s0 (snd (oversee env c s))"
  by (cases c) (simp_all add: later_administrator later_auditor)

interpretation evidence: growing_log "oversee env" later for env
  by unfold_locales (fact later_trans, fact later_oversee)

subsection \<open>The evidence of one call\<close>

text \<open>The rows and the audit events between two states, with everything else as it was.\<close>

definition grown :: "string \<Rightarrow> string list \<Rightarrow> (string \<times> string option) list \<Rightarrow> oversight_state \<Rightarrow> oversight_state \<Rightarrow> bool" where
  "grown pid tys evs s s' = (\<exists>rows aus. ab_rows (os_artifacts s') = ab_rows (os_artifacts s) @ rows \<and> evidence_keys rows = map (Pair pid) tys \<and>
     lg_rows (os_audit s') = lg_rows (os_audit s) @ aus \<and> audit_keys aus = evs \<and> artifacts_ok (os_artifacts s') \<and>
     os_tasks s' = os_tasks s \<and> os_agents s' = os_agents s)"

lemma grown_trans:
  assumes "grown pid tys evs s s1" "grown pid tys' evs' s1 s2"
  shows "grown pid (tys @ tys') (evs @ evs') s s2"
proof -
  from assms obtain r1 a1 r2 a2 where
    "ab_rows (os_artifacts s1) = ab_rows (os_artifacts s) @ r1" "ab_rows (os_artifacts s2) = ab_rows (os_artifacts s1) @ r2"
    "evidence_keys r1 = map (Pair pid) tys" "evidence_keys r2 = map (Pair pid) tys'"
    "lg_rows (os_audit s1) = lg_rows (os_audit s) @ a1" "lg_rows (os_audit s2) = lg_rows (os_audit s1) @ a2"
    "audit_keys a1 = evs" "audit_keys a2 = evs'"
    unfolding grown_def by blast
  with assms show ?thesis unfolding grown_def
    by (intro exI [of _ "r1 @ r2"] exI [of _ "a1 @ a2"]) (auto simp: evidence_keys_def audit_keys_def grown_def)
qed

lemma grown_zero: "artifacts_ok (os_artifacts s) \<Longrightarrow> ab_rows (os_artifacts s') = ab_rows (os_artifacts s) \<Longrightarrow>
    lg_rows (os_audit s') = lg_rows (os_audit s) \<Longrightarrow> os_tasks s' = os_tasks s \<Longrightarrow> os_agents s' = os_agents s \<Longrightarrow> grown pid [] [] s s'"
  unfolding grown_def using artifacts_ok_rows [of "os_artifacts s" "os_artifacts s'"] by (auto simp: evidence_keys_def audit_keys_def)

lemma grown_ok: "grown pid tys evs s s' \<Longrightarrow> artifacts_ok (os_artifacts s')"
  by (auto simp: grown_def)

lemma grown_since:
  assumes "grown pid tys evs s s'"
  shows "evidence_keys (evidence_since s s') = map (Pair pid) tys" "audit_keys (audited_since s s') = evs" "os_tasks s' = os_tasks s"
    "os_agents s' = os_agents s"
  using assms by (auto simp: grown_def evidence_since_def audited_since_def)

lemma evidence_types_valid:
  "validate_artifact_type ''administrator_retention'' = Inr ''administrator_retention''"
  "validate_artifact_type ''administrator_containment'' = Inr ''administrator_containment''"
  "validate_artifact_type ''administrator_owner_notification'' = Inr ''administrator_owner_notification''"
  "validate_artifact_type ''administrator_ceo_notification'' = Inr ''administrator_ceo_notification''"
  "validate_artifact_type ''administrator_owner_alert'' = Inr ''administrator_owner_alert''"
  "validate_artifact_type ''auditor_enforcement'' = Inr ''auditor_enforcement''"
  "validate_artifact_type ''auditor_ceo_notification'' = Inr ''auditor_ceo_notification''"
  "validate_artifact_type ''auditor_owner_alert'' = Inr ''auditor_owner_alert''"
  "validate_artifact_type ''auditor_owner_escalation'' = Inr ''auditor_owner_escalation''"
  "validate_artifact_type ''auditor_finding'' = Inr ''auditor_finding''"
  by code_simp+

lemma put_grown:
  assumes "put_evidence env role pid ty pl s = (Inr p, s')" "artifacts_ok (os_artifacts s)" "validate_artifact_type ty = Inr ty"
    "validate_project_id pid = Inr q"
  shows "grown q [ty] [] s s'"
proof (rule put_evidence_ok [OF assms(1,2)])
  fix row fs
  assume "validate_project_id pid = Inr (ar_project_id row)" "validate_artifact_type ty = Inr (ar_artifact_type row)"
    "os_artifacts s' = \<lparr>ab_rows = ab_rows (os_artifacts s) @ [row], ab_files = fs\<rparr>" "artifacts_ok (os_artifacts s')"
    "os_tasks s' = os_tasks s" "os_agents s' = os_agents s" "os_audit s' = os_audit s"
  then show ?thesis using assms(3,4) by (simp add: grown_def evidence_keys_def audit_keys_def)
qed

lemma stamped_grown:
  assumes "put_stamped env role pid ty pl s = (Inr p, s')" "artifacts_ok (os_artifacts s)" "validate_artifact_type ty = Inr ty"
    "validate_project_id pid = Inr q"
  shows "grown q [ty] [] s s'"
proof -
  obtain now s1 where now: "oversight_now s = (now, s1)" by fastforce
  then have frame: "os_artifacts s1 = os_artifacts s" "os_tasks s1 = os_tasks s" "os_agents s1 = os_agents s" "os_audit s1 = os_audit s"
    using draws_frame(5-8) [where s = s] by simp_all
  then have "grown q [] [] s s1" using assms(2) by (intro grown_zero) simp_all
  moreover have "grown q [ty] [] s1 s'" using assms(1) now frame(1) assms(2-4) by (intro put_grown) (simp_all add: put_stamped_def)
  ultimately show ?thesis using grown_trans by fastforce
qed

lemma audit_grown:
  assumes "oversight_audit env ev s = (Inr u, s')" "artifacts_ok (os_artifacts s)"
  shows "grown q [] [(aw_event_type ev, aw_task_id ev)] s s'"
  using assms by (auto simp: oversight_audit_def write_event_def Let_def grown_def evidence_keys_def audit_keys_def split: option.splits)

lemma put_valid:
  "put_evidence env role pid ty pl s = (Inr p, s') \<Longrightarrow> artifacts_ok (os_artifacts s) \<Longrightarrow> \<exists>q. validate_project_id pid = Inr q"
  by (erule put_evidence_ok) auto

lemma stamped_valid:
  assumes "put_stamped env role pid ty pl s = (Inr p, s')" "artifacts_ok (os_artifacts s)"
  shows "\<exists>q. validate_project_id pid = Inr q"
  using assms put_valid [of env role pid ty _ "snd (oversight_now s)"] by (auto simp: put_stamped_def case_prod_beta)

lemma normalize_optional_text_idem [simp]: "normalize_optional_text (normalize_optional_text v) = normalize_optional_text v"
  by (auto simp: normalize_optional_text_def or_none_def split: option.split)

lemma normalize_optional_text_None [simp]: "normalize_optional_text None = None"
  by (simp add: normalize_optional_text_def)

lemma normalize_optional_text_Some: "normalize_optional_text v = Some x \<Longrightarrow> py_strip x = x \<and> x \<noteq> []"
  by (auto simp: normalize_optional_text_def or_none_def split: option.splits if_splits)

lemma normalize_severity_idem [simp]: "normalize_severity (normalize_severity v) = normalize_severity v"
  by (simp add: normalize_severity_def Let_def py_strip_lower) (auto simp: normalize_severity_def allowed_severities_def py_lower_def py_strip_def py_lstrip_def)

lemma pause_evidence_grown:
  assumes "pause_evidence env i pid reason severity rules tr s = (Inr uri, s')" "artifacts_ok (os_artifacts s)"
  shows "\<exists>q. validate_project_id pid = Inr q \<and>
    grown q ([''auditor_enforcement'', ''auditor_ceo_notification''] @ (if normalize_severity severity = ''critical'' then [''auditor_owner_alert''] else []))
      [(''auditor_enforcement'', Some i)] s s'"
proof -
  define ev where "ev = (\<lambda>ty next_role. put_stamped env ''auditor'' pid ty
     (incident_payload ty pid (normalize_severity severity) rules reason tr ''task_pause'' next_role [(''task_id'', JStr i)]))"
  obtain p s1 s2 p3 s3 where steps: "ev ''auditor_enforcement'' ''owner'' s = (Inr p, s1)"
    "oversight_audit env (oversight_event ''auditor'' ''auditor_enforcement'' ''blocked'' tr (Some i) ''auditor_pause'' reason rules
       [(''project_id'', Some pid), (''severity'', Some (normalize_severity severity)), (''incident_type'', Some ''task_pause''),
        (''current_owner_role'', Some ''auditor''), (''next_owner_role'', Some ''owner''), (''path_reference'', Some ''auditor->owner'')]) s1 = (Inr (), s2)"
    "ev ''auditor_ceo_notification'' ''ceo'' s2 = (Inr p3, s3)"
    and last: "(if normalize_severity severity = ''critical'' then and_then (ev ''auditor_owner_alert'' ''owner'' s3) (\<lambda>_ s4. (Inr (), s4)) else (Inr (), s3))
       = (Inr (), s')"
    using assms(1) unfolding pause_evidence_def Let_def ev_def and_then_Inr by auto
  obtain q where q: "validate_project_id pid = Inr q" using stamped_valid [OF steps(1) [unfolded ev_def] assms(2)] by blast
  note put = stamped_grown [OF _ _ _ q, where env = env and role = "''auditor''"]
  have g1: "grown q [''auditor_enforcement''] [] s s1" using steps(1) assms(2) unfolding ev_def by (rule put) (rule evidence_types_valid)
  have g2: "grown q [] [(''auditor_enforcement'', Some i)] s1 s2"
    using audit_grown [OF steps(2) grown_ok [OF g1], of q] by (simp add: oversight_event_def)
  have g3: "grown q [''auditor_ceo_notification''] [] s2 s3"
    using steps(3) grown_ok [OF g2] unfolding ev_def by (rule put) (rule evidence_types_valid)
  note g = grown_trans [OF grown_trans [OF g1 g2] g3]
  have "grown q (if normalize_severity severity = ''critical'' then [''auditor_owner_alert''] else []) [] s3 s'"
  proof (cases "normalize_severity severity = ''critical''")
    case True
    then obtain p4 where "ev ''auditor_owner_alert'' ''owner'' s3 = (Inr p4, s')" using last by (auto simp: and_then_Inr)
    then have "grown q [''auditor_owner_alert''] [] s3 s'" using grown_ok [OF g3] unfolding ev_def by (rule put) (rule evidence_types_valid)
    then show ?thesis using True by simp
  next
    case False
    then show ?thesis using last grown_ok [OF g3] by (auto intro: grown_zero)
  qed
  with g q show ?thesis using grown_trans [OF g] by force
qed

lemma block_task_ok:
  assumes "block_task i reason s = (Inr (), s')"
  shows "status_of (os_tasks s') i = Some ''blocked''" "os_artifacts s' = os_artifacts s" "os_audit s' = os_audit s" "os_agents s' = os_agents s"
proof -
  let ?u = "no_update\<lparr>up_outcome_source := Some ''auditor_enforcement'', up_outcome_error_code := Some ''auditor_enforcement'',
      up_outcome_message := Some reason, up_dispatch_target := Some ''auditor''\<rparr>"
  obtain q repo where u: "update_task_status (os_tasks s) i ''blocked'' ?u = (q, repo)" by fastforce
  then obtain t where q: "q = Inr (Some t)" and s': "s' = s\<lparr>os_tasks := repo\<rparr>"
    using assms by (auto simp: block_task_def mark_blocked_dispatch_def split: sum.splits option.splits)
  have "repo = snd (update_task_status (os_tasks s) i ''blocked'' ?u)" using u by simp
  moreover have "status_of (os_tasks s) i \<noteq> None" using u q update_missing [of "os_tasks s" i "''blocked''" ?u] by auto
  moreover have "may_move st ''blocked''" if "status_of (os_tasks s) i = Some st" for st
    using u q update_illegal [OF that, of "''blocked''" ?u] by auto
  ultimately show "status_of (os_tasks s') i = Some ''blocked''" using s' by (auto simp: status_of_update abs_update_def)
qed (use assms in \<open>auto simp: block_task_def split: prod.splits sum.splits option.splits\<close>)

lemma block_task_allowed:
  assumes "status_of (os_tasks s) i = Some st" "may_move st ''blocked''"
  shows "\<exists>s'. block_task i reason s = (Inr (), s')"
proof -
  let ?r = "mark_blocked_dispatch (os_tasks s) i (Some ''auditor_enforcement'') reason ''auditor'' ''auditor_enforcement''"
  obtain t where "fst ?r = Inr (Some t)" unfolding mark_blocked_dispatch_def using update_result [OF assms] by blast
  then show ?thesis by (cases ?r) (simp add: block_task_def)
qed

lemma escalate_grown:
  assumes "escalate_to_owner env p rules rat sev tr s = (Inr uri, s')" "artifacts_ok (os_artifacts s)"
    "normalize_optional_text p = Some pid" "validate_project_id pid = Inr q"
  shows "grown q [''auditor_owner_escalation''] [] s s'"
  using assms(1,3) stamped_grown [OF _ assms(2) _ assms(4), of env "''auditor''" "''auditor_owner_escalation''"] evidence_types_valid(9)
  by (auto simp: escalate_to_owner_def require_project_scope_def and_then_Inr)

text \<open>The normalized requests.\<close>

lemma normalize_auditor_fields:
  "dr_event_type (fst (normalize_auditor_request r s)) = py_lower (py_strip (dr_event_type r))"
  "dr_task_id (fst (normalize_auditor_request r s)) = normalize_optional_text (dr_task_id r)"
  "dr_project_id (fst (normalize_auditor_request r s)) = normalize_optional_text (dr_project_id r)"
  "dr_severity (fst (normalize_auditor_request r s)) = normalize_severity (dr_severity r)"
  "dr_source_agent_role (fst (normalize_auditor_request r s)) = normalize_optional_text (dr_source_agent_role r)"
  "os_tasks (snd (normalize_auditor_request r s)) = os_tasks s"
  "os_agents (snd (normalize_auditor_request r s)) = os_agents s"
  "os_artifacts (snd (normalize_auditor_request r s)) = os_artifacts s"
  "os_audit (snd (normalize_auditor_request r s)) = os_audit s"
  unfolding normalize_auditor_request_def case_prod_beta fst_conv snd_conv by simp_all

lemma normalized_auditor:
  obtains r' s1 where "normalize_auditor_request r s = (r', s1)" "dr_event_type r' = py_lower (py_strip (dr_event_type r))"
    "dr_task_id r' = normalize_optional_text (dr_task_id r)" "dr_project_id r' = normalize_optional_text (dr_project_id r)"
    "dr_severity r' = normalize_severity (dr_severity r)" "dr_source_agent_role r' = normalize_optional_text (dr_source_agent_role r)"
    "os_tasks s1 = os_tasks s" "os_agents s1 = os_agents s" "os_artifacts s1 = os_artifacts s" "os_audit s1 = os_audit s"
  by (rule that [OF surjective_pairing normalize_auditor_fields])

lemma normalize_administrator_fields:
  "ad_action (fst (normalize_administrator_request r s)) = py_lower (py_strip (ad_action r))"
  "ad_agent_id (fst (normalize_administrator_request r s)) = normalize_optional_text (ad_agent_id r)"
  "ad_project_id (fst (normalize_administrator_request r s)) = normalize_optional_text (ad_project_id r)"
  "ad_severity (fst (normalize_administrator_request r s)) = normalize_severity (ad_severity r)"
  "os_tasks (snd (normalize_administrator_request r s)) = os_tasks s"
  "os_agents (snd (normalize_administrator_request r s)) = os_agents s"
  "os_artifacts (snd (normalize_administrator_request r s)) = os_artifacts s"
  "os_audit (snd (normalize_administrator_request r s)) = os_audit s"
  unfolding normalize_administrator_request_def case_prod_beta fst_conv snd_conv by simp_all

lemma normalized_administrator:
  obtains r' s1 where "normalize_administrator_request r s = (r', s1)" "ad_action r' = py_lower (py_strip (ad_action r))"
    "ad_agent_id r' = normalize_optional_text (ad_agent_id r)" "ad_project_id r' = normalize_optional_text (ad_project_id r)"
    "ad_severity r' = normalize_severity (ad_severity r)"
    "os_tasks s1 = os_tasks s" "os_agents s1 = os_agents s" "os_artifacts s1 = os_artifacts s" "os_audit s1 = os_audit s"
  by (rule that [OF surjective_pairing normalize_administrator_fields])

lemma quarantine_agent_ok:
  assumes "quarantine_agent i now t = (Inr a, t')" "py_strip i = i"
  shows "i \<in> ag_agent_id ` set t" "\<forall>b\<in>set t'. ag_agent_id b = i \<longrightarrow> ag_status b = ''inactive''"
    "filter (\<lambda>b. ag_agent_id b \<noteq> i) t' = filter (\<lambda>b. ag_agent_id b \<noteq> i) t"
proof -
  have t': "t' = map (\<lambda>b. if ag_agent_id b = i then b\<lparr>ag_status := ''inactive'', ag_updated_at := now\<rparr> else b) t"
    and f: "find (\<lambda>a. ag_agent_id a = i) t \<noteq> None"
    using assms(1) unfolding quarantine_agent_def assms(2) Let_def by (auto split: if_splits option.splits)
  from f show "i \<in> ag_agent_id ` set t" by (auto simp: find_None_iff)
  have "ag_agent_id b = i \<longrightarrow> ag_status b = ''inactive''" if "b \<in> set t'" for b
  proof -
    from that obtain c where "b = (if ag_agent_id c = i then c\<lparr>ag_status := ''inactive'', ag_updated_at := now\<rparr> else c)" unfolding t' set_map by blast
    then show ?thesis by (cases "ag_agent_id c = i") simp_all
  qed
  then show "\<forall>b\<in>set t'. ag_agent_id b = i \<longrightarrow> ag_status b = ''inactive''" by blast
  show "filter (\<lambda>b. ag_agent_id b \<noteq> i) t' = filter (\<lambda>b. ag_agent_id b \<noteq> i) t" unfolding t' by (induction t) simp_all
qed

text \<open>The evidence of a quarantine, once the registry has accepted it.\<close>

definition quarantine_types :: "string \<Rightarrow> string list" where
  "quarantine_types severity =
     [''administrator_containment'', ''administrator_owner_notification'', ''administrator_ceo_notification''] @
     (if severity = ''critical'' then [''administrator_owner_alert''] else [])"

lemma quarantine_grown:
  assumes "handle_quarantine_agent env r s = (Inr resp, s')" "artifacts_ok (os_artifacts s)"
  obtains i a t' q where "normalize_optional_text (ad_agent_id r) = Some i"
    "quarantine_agent i (fst (oversight_now s)) (os_agents s) = (Inr a, t')"
    "validate_project_id (or_str (ad_project_id r) system_project_id) = Inr q"
    "grown q (quarantine_types (ad_severity r)) [(''administrator_containment'', None)] (snd (oversight_now s)\<lparr>os_agents := t'\<rparr>) s'"
proof -
  obtain i where i: "normalize_optional_text (ad_agent_id r) = Some i" 
    using assms(1) by (auto simp: handle_quarantine_agent_def require_text_def split: option.splits)
  obtain b t' where qa: "quarantine_agent i (fst (oversight_now s)) (os_agents s) = (b, t')" by fastforce
  then obtain a where b: "b = Inr a"
    using assms(1) i by (cases b) (auto simp: handle_quarantine_agent_def require_text_def Let_def case_prod_beta split: oversight_error.splits)
  define pid where "pid = or_str (ad_project_id r) system_project_id"
  define ev where "ev = (\<lambda>ty extra. put_stamped env ''administrator'' pid ty (quarantine_payload ty r i extra))"
  let ?s0 = "snd (oversight_now s)\<lparr>os_agents := t'\<rparr>"
  have ok0: "artifacts_ok (os_artifacts ?s0)" using assms(2) by simp
  obtain p s1 p2 s2 p3 s3 s5 call where steps:
    "ev ''administrator_containment'' [(''rule_ids'', json_strings [''AUTH-001'', ''GOV-001''])] ?s0 = (Inr p, s1)"
    "ev ''administrator_owner_notification'' [(''next_owner_role'', JStr ''owner'')] s1 = (Inr p2, s2)"
    "ev ''administrator_ceo_notification'' [(''next_owner_role'', JStr ''ceo'')] s2 = (Inr p3, s3)"
    and alert: "(if ad_severity r = ''critical''
       then and_then (ev ''administrator_owner_alert'' [(''next_owner_role'', JStr ''owner'')] s3) (\<lambda>_ s4. (Inr (), s4)) else (Inr (), s3)) = (Inr (), s5)"
    and au: "oversight_audit env call s5 = (Inr (), s')" "aw_event_type call = ''administrator_containment''" "aw_task_id call = None"
    using assms(1) i qa b unfolding handle_quarantine_agent_def require_text_def Let_def case_prod_beta ev_def pid_def
    by (auto simp: and_then_Inr oversight_event_def)
  obtain q where q: "validate_project_id pid = Inr q" using stamped_valid [OF steps(1) [unfolded ev_def] ok0] by blast
  note put = stamped_grown [OF _ _ _ q, where env = env and role = "''administrator''"]
  have g1: "grown q [''administrator_containment''] [] ?s0 s1" using steps(1) ok0 unfolding ev_def by (rule put) (rule evidence_types_valid)
  have g2: "grown q [''administrator_owner_notification''] [] s1 s2"
    using steps(2) grown_ok [OF g1] unfolding ev_def by (rule put) (rule evidence_types_valid)
  have g3: "grown q [''administrator_ceo_notification''] [] s2 s3"
    using steps(3) grown_ok [OF g2] unfolding ev_def by (rule put) (rule evidence_types_valid)
  have g4: "grown q (if ad_severity r = ''critical'' then [''administrator_owner_alert''] else []) [] s3 s5"
  proof (cases "ad_severity r = ''critical''")
    case True
    then obtain p4 where "ev ''administrator_owner_alert'' [(''next_owner_role'', JStr ''owner'')] s3 = (Inr p4, s5)" using alert by (auto simp: and_then_Inr)
    then have "grown q [''administrator_owner_alert''] [] s3 s5" using grown_ok [OF g3] unfolding ev_def by (rule put) (rule evidence_types_valid)
    then show ?thesis using True by simp
  next
    case False
    then show ?thesis using alert grown_ok [OF g3] by (auto intro: grown_zero)
  qed
  have g5: "grown q [] [(''administrator_containment'', None)] s5 s'" using audit_grown [OF au(1) grown_ok [OF g4], of q] au(2,3) by simp
  have "grown q (quarantine_types (ad_severity r)) [(''administrator_containment'', None)] ?s0 s'"
    using grown_trans [OF grown_trans [OF grown_trans [OF grown_trans [OF g1 g2] g3] g4] g5] by (simp add: quarantine_types_def)
  then show ?thesis using that i qa b q pid_def by blast
qed

section \<open>Properties\<close>

text \<open>
  C21: oversight only adds. Over any sequence of administrator and auditor requests, whatever fails on the way, every artifact row and every
  audit row written before keeps its place and content, task statuses move only along legal transitions, no agent changes its identity, and
  an agent's status changes only to inactive.
\<close>

theorem oversight_only_adds:
  assumes "artifacts_ok (os_artifacts s)"
  shows "prefix (ab_rows (os_artifacts s)) (ab_rows (os_artifacts (run_calls (oversee env) cs s))) \<and>
    prefix (lg_rows (os_audit s)) (lg_rows (os_audit (run_calls (oversee env) cs s))) \<and>
    (\<forall>i st. status_of (os_tasks s) i = Some st \<longrightarrow> (\<exists>st'. status_of (os_tasks (run_calls (oversee env) cs s)) i = Some st' \<and> task_step\<^sup>*\<^sup>* st st')) \<and>
    list_all2 agent_contained (os_agents s) (os_agents (run_calls (oversee env) cs s))"
proof -
  have "later s (run_calls (oversee env) cs s)" using assms by (intro evidence.run_extends later_refl)
  then show ?thesis unfolding later_def by (auto dest: repo_steps_status)
qed

text \<open>
  A quarantine that the administrator reports is complete. The agent was registered and is inactive, every other agent is as it was, and
  exactly the containment record, the notifications of the owner and the chief executive and, for a critical severity, the owner alert were
  appended, all under the request's project or the system project, with one audit event.
\<close>

theorem quarantine_outcome:
  assumes "artifacts_ok (os_artifacts s)" "py_lower (py_strip (ad_action r)) = ''quarantine_agent''" "administrator_handle env r s = (Inr resp, s')"
  shows "\<exists>i q. normalize_optional_text (ad_agent_id r) = Some i \<and> i \<in> ag_agent_id ` set (os_agents s) \<and>
    validate_project_id (or_str (normalize_optional_text (ad_project_id r)) system_project_id) = Inr q \<and>
    (\<forall>a\<in>set (os_agents s'). ag_agent_id a = i \<longrightarrow> ag_status a = ''inactive'') \<and>
    filter (\<lambda>a. ag_agent_id a \<noteq> i) (os_agents s') = filter (\<lambda>a. ag_agent_id a \<noteq> i) (os_agents s) \<and>
    evidence_keys (evidence_since s s') = map (Pair q) (quarantine_types (normalize_severity (ad_severity r))) \<and>
    audit_keys (audited_since s s') = [(''administrator_containment'', None)] \<and> os_tasks s' = os_tasks s"
proof (rule normalized_administrator [of r s])
  fix r' s1
  assume n: "normalize_administrator_request r s = (r', s1)" "ad_action r' = py_lower (py_strip (ad_action r))"
    "ad_agent_id r' = normalize_optional_text (ad_agent_id r)" "ad_project_id r' = normalize_optional_text (ad_project_id r)"
    "ad_severity r' = normalize_severity (ad_severity r)"
    and frame: "os_tasks s1 = os_tasks s" "os_agents s1 = os_agents s" "os_artifacts s1 = os_artifacts s" "os_audit s1 = os_audit s"
  have h: "handle_quarantine_agent env r' s1 = (Inr resp, s')" using assms(2,3) n by (simp add: administrator_handle_def)
  have ok: "artifacts_ok (os_artifacts s1)" using assms(1) frame by simp
  show ?thesis
  proof (rule quarantine_grown [OF h ok])
    fix i a t' q
    assume i: "normalize_optional_text (ad_agent_id r') = Some i" and qa: "quarantine_agent i (fst (oversight_now s1)) (os_agents s1) = (Inr a, t')"
      and q: "validate_project_id (or_str (ad_project_id r') system_project_id) = Inr q"
      and g: "grown q (quarantine_types (ad_severity r')) [(''administrator_containment'', None)] (snd (oversight_now s1)\<lparr>os_agents := t'\<rparr>) s'"
    have "py_strip i = i" using normalize_optional_text_Some [OF i] by simp
    note facts = quarantine_agent_ok [OF qa this]
    have "os_agents s' = t'" "os_tasks s' = os_tasks s" using grown_since(3,4) [OF g] frame by simp_all
    moreover have "evidence_since (snd (oversight_now s1)\<lparr>os_agents := t'\<rparr>) s' = evidence_since s s'"
      "audited_since (snd (oversight_now s1)\<lparr>os_agents := t'\<rparr>) s' = audited_since s s'"
      using frame by (simp_all add: evidence_since_def audited_since_def)
    ultimately show ?thesis using facts grown_since(1,2) [OF g] i q n frame
      by (intro exI [of _ i] exI [of _ q]) simp
  qed
qed

text \<open>
  A pause that the auditor reports is complete. The task of the breach is blocked, and exactly the enforcement record, the notification
  of the chief executive, for a critical severity the owner alert, and the owner escalation were appended under the request's project, in this
  order, with one audit event that names the task.
\<close>

theorem paused_task_has_evidence:
  assumes "artifacts_ok (os_artifacts s)" "py_lower (py_strip (dr_event_type r)) = ''budget_breach''"
    "normalize_optional_text (dr_task_id r) = Some i" "auditor_handle env r s = (Inr resp, s')"
  shows "\<exists>pid q. normalize_optional_text (dr_project_id r) = Some pid \<and> validate_project_id pid = Inr q \<and>
    status_of (os_tasks s') i = Some ''blocked'' \<and>
    evidence_keys (evidence_since s s') = map (Pair q)
      ([''auditor_enforcement'', ''auditor_ceo_notification''] @
       (if normalize_severity (dr_severity r) = ''critical'' then [''auditor_owner_alert''] else []) @ [''auditor_owner_escalation'']) \<and>
    audit_keys (audited_since s s') = [(''auditor_enforcement'', Some i)] \<and> os_agents s' = os_agents s"
proof (rule normalized_auditor [of r s])
  fix r' s1
  assume n: "normalize_auditor_request r s = (r', s1)" "dr_event_type r' = py_lower (py_strip (dr_event_type r))"
    "dr_task_id r' = normalize_optional_text (dr_task_id r)" "dr_project_id r' = normalize_optional_text (dr_project_id r)"
    "dr_severity r' = normalize_severity (dr_severity r)"
    and frame: "os_tasks s1 = os_tasks s" "os_agents s1 = os_agents s" "os_artifacts s1 = os_artifacts s" "os_audit s1 = os_audit s"
  have task: "nonempty_opt (dr_task_id r') = Some i"
    using n(3) assms(3) normalize_optional_text_Some [OF assms(3)] by (simp add: nonempty_opt_Some)
  have "handle_budget_breach env r' s1 = (Inr resp, s')" using assms(2,4) n by (simp add: auditor_handle_def)
  then obtain f s3 e where pause: "pause_task env i (dr_project_id r') (dr_rationale r') (dr_severity r') (dr_rule_ids r') (dr_trace_id r') s1 = (Inr f, s3)"
    and esc: "escalate_to_owner env (dr_project_id r') (dr_rule_ids r') (dr_rationale r') (dr_severity r') (dr_trace_id r') s3 = (Inr e, s')"
    using task by (auto simp: handle_budget_breach_def and_then_Inr escalate_for_def)
  then obtain s2 pid where block: "block_task i (dr_rationale r') s1 = (Inr (), s2)" and pid: "normalize_optional_text (dr_project_id r') = Some pid"
    and ev: "pause_evidence env i pid (dr_rationale r') (dr_severity r') (dr_rule_ids r') (dr_trace_id r') s2 = (Inr f, s3)"
    by (auto simp: pause_task_def and_then_Inr require_project_scope_def split: sum.splits option.splits)
  note b = block_task_ok [OF block]
  have "artifacts_ok (os_artifacts s2)" using assms(1) b frame by simp
  from pause_evidence_grown [OF ev this] obtain q where q: "validate_project_id pid = Inr q" and
    g1: "grown q ([''auditor_enforcement'', ''auditor_ceo_notification''] @
      (if normalize_severity (dr_severity r') = ''critical'' then [''auditor_owner_alert''] else [])) [(''auditor_enforcement'', Some i)] s2 s3" by blast
  note g = grown_since [OF grown_trans [OF g1 escalate_grown [OF esc grown_ok [OF g1] pid q]]]
  have "evidence_since s2 s' = evidence_since s s'" "audited_since s2 s' = audited_since s s'"
    using b frame by (simp_all add: evidence_since_def audited_since_def)
  then show ?thesis using g b pid q n(4,5) frame by (intro exI [of _ pid] exI [of _ q]) simp
qed

text \<open>
  The auditor blocks a task before it checks that its evidence can be written. A budget breach for a task that may be blocked, reported
  without a project, raises; the task is blocked all the same, with no artifact and no audit event.
\<close>

theorem pause_without_project:
  assumes "py_lower (py_strip (dr_event_type r)) = ''budget_breach''" "normalize_optional_text (dr_task_id r) = Some i"
    "normalize_optional_text (dr_project_id r) = None" "status_of (os_tasks s) i = Some st" "may_move st ''blocked''"
  shows "\<exists>m s'. auditor_handle env r s = (Inl (AuditorFindingError m), s') \<and> status_of (os_tasks s') i = Some ''blocked'' \<and>
    os_artifacts s' = os_artifacts s \<and> os_audit s' = os_audit s"
proof (rule normalized_auditor [of r s])
  fix r' s1
  assume n: "normalize_auditor_request r s = (r', s1)" "dr_event_type r' = py_lower (py_strip (dr_event_type r))"
    "dr_task_id r' = normalize_optional_text (dr_task_id r)" "dr_project_id r' = normalize_optional_text (dr_project_id r)"
    and frame: "os_tasks s1 = os_tasks s" "os_agents s1 = os_agents s" "os_artifacts s1 = os_artifacts s" "os_audit s1 = os_audit s"
  have task: "nonempty_opt (dr_task_id r') = Some i"
    using n(3) assms(2) normalize_optional_text_Some [OF assms(2)] by (simp add: nonempty_opt_Some)
  obtain s2 where block: "block_task i (dr_rationale r') s1 = (Inr (), s2)" using block_task_allowed assms(4,5) frame by metis
  have "\<exists>m. auditor_handle env r s = (Inl (AuditorFindingError m), s2)"
    using n assms(1,3) task block by (simp add: auditor_handle_def handle_budget_breach_def pause_task_def require_project_scope_def)
  then show ?thesis using block_task_ok [OF block] frame by auto
qed

subsection \<open>Repeated findings\<close>

text \<open>The documented behaviour of the JSON functions that the check relies on: parsing a printed finding gives back its entries.\<close>

definition finding_read_back :: "oversight_env \<Rightarrow> json_object \<Rightarrow> bool" where
  "finding_read_back env d = (let d' = load_payload env (ox_dumps env d)
     in list_all (\<lambda>k. dict_get d' k = dict_get d k) [''task_id'', ''source_agent_role'', ''finding_type''])"

definition behavioral_finding :: "oversight_env \<Rightarrow> string option \<Rightarrow> string \<Rightarrow> string \<Rightarrow> artifact_row \<Rightarrow> bool" where
  "behavioral_finding env p i role row =
     (ar_artifact_type row = ''auditor_finding'' \<and> is_finding_of env p i role (pointer_from_row row, ar_content row))"

lemma finding_already_exists_eq:
  "finding_already_exists env db p (Some i) (Some role) = Inr (list_ex (behavioral_finding env p i role) (ab_rows db))"
  by (auto simp: finding_already_exists_def list_artifact_documents_by_type_def evidence_types_valid list_ex_iff document_of_def behavioral_finding_def)

lemma finding_stays:
  "prefix rows rows' \<Longrightarrow> list_ex P rows \<Longrightarrow> list_ex P rows'"
  by (auto simp: prefix_def)

lemma stamped_row:
  assumes "put_stamped env role pid ty pl s = (Inr p, s')" "artifacts_ok (os_artifacts s)"
  obtains row now where "ar_project_id row = py_strip pid" "validate_artifact_type ty = Inr (ar_artifact_type row)"
    "ar_content row = ox_dumps env (pl @ [(''created_at'', JIso now)])" "ab_rows (os_artifacts s') = ab_rows (os_artifacts s) @ [row]"
proof -
  obtain now s1 where now: "oversight_now s = (now, s1)" by fastforce
  then have s1: "os_artifacts s1 = os_artifacts s" using draws_frame(7) [where s = s] by simp
  have "put_evidence env role pid ty (pl @ [(''created_at'', JIso now)]) s1 = (Inr p, s')" using assms(1) now by (simp add: put_stamped_def)
  then show ?thesis
    by (rule put_evidence_ok) (use assms(2) s1 that in \<open>auto simp: validate_project_id_def Let_def split: if_splits\<close>)
qed

lemma recorded_finding:
  assumes "record_finding env (Some pid) ''behavioral_violation'' rules rat tr (Some i) (Some role) sev s = (Inr uri, s')"
    "artifacts_ok (os_artifacts s)" "py_strip pid = pid" "pid \<noteq> []" "py_strip role = role" "role \<noteq> []"
    "\<And>now. finding_read_back env (finding_payload pid ''behavioral_violation'' rules rat tr (Some i) (Some role) sev @ [(''created_at'', JIso now)])"
  shows "list_ex (behavioral_finding env (Some pid) i role) (ab_rows (os_artifacts s'))"
proof -
  have n: "normalize_optional_text (Some pid) = Some pid" "normalize_optional_text (Some role) = Some role"
    using assms(3-6) by (simp_all add: normalize_optional_text_def or_none_def)
  obtain p where "put_stamped env ''auditor'' pid ''auditor_finding''
      (finding_payload pid ''behavioral_violation'' rules rat tr (Some i) (Some role) sev) s = (Inr p, s')"
    using assms(1) n by (auto simp: record_finding_def require_project_scope_def and_then_Inr)
  then obtain row now where row: "ar_project_id row = py_strip pid" "validate_artifact_type ''auditor_finding'' = Inr (ar_artifact_type row)"
    "ar_content row = ox_dumps env (finding_payload pid ''behavioral_violation'' rules rat tr (Some i) (Some role) sev @ [(''created_at'', JIso now)])"
    "ab_rows (os_artifacts s') = ab_rows (os_artifacts s) @ [row]"
    using assms(2) by (rule stamped_row)
  have "behavioral_finding env (Some pid) i role row"
    using row(1-3) assms(3) assms(7) [of now] n(2)
    by (simp add: behavioral_finding_def is_finding_of_def evidence_types_valid finding_read_back_def Let_def)
       (simp add: finding_payload_def dict_get_def json_opt_def)
  then show ?thesis using row(4) by simp
qed

lemma behavioral_finding_recorded:
  assumes "artifacts_ok (os_artifacts s)" "py_lower (py_strip (dr_event_type r)) = ''behavioral_violation''"
    "normalize_optional_text (dr_task_id r) = Some i" "normalize_optional_text (dr_source_agent_role r) = Some role"
    "\<And>pid rules rat tr sev now.
       finding_read_back env (finding_payload pid ''behavioral_violation'' rules rat tr (Some i) (Some role) sev @ [(''created_at'', JIso now)])"
    "auditor_handle env r s = (Inr resp, s1)"
  shows "list_ex (behavioral_finding env (normalize_optional_text (dr_project_id r)) i role) (ab_rows (os_artifacts s1))"
proof (rule normalized_auditor [of r s])
  fix r' t
  assume n: "normalize_auditor_request r s = (r', t)" "dr_event_type r' = py_lower (py_strip (dr_event_type r))"
    "dr_task_id r' = normalize_optional_text (dr_task_id r)" "dr_project_id r' = normalize_optional_text (dr_project_id r)"
    "dr_source_agent_role r' = normalize_optional_text (dr_source_agent_role r)" and t: "os_artifacts t = os_artifacts s"
  have h: "handle_behavioral_violation env r' t = (Inr resp, s1)" using assms(2,6) n by (simp add: auditor_handle_def)
  show ?thesis
  proof (cases "list_ex (behavioral_finding env (normalize_optional_text (dr_project_id r)) i role) (ab_rows (os_artifacts t))")
    case True
    then have "s1 = t" using h n assms(3,4) by (simp add: handle_behavioral_violation_def finding_already_exists_eq)
    then show ?thesis using True by simp
  next
    case False
    then obtain f t1 e t2 c where steps: "find_for env r' ''behavioral_violation'' t = (Inr f, t1)" "escalate_for env r' t1 = (Inr e, t2)"
      "notify_ceo env r' ''behavioral_violation'' [(''source_agent_role'', json_opt (dr_source_agent_role r'))] t2 = (Inr c, s1)"
      using h n assms(3,4) by (auto simp: handle_behavioral_violation_def finding_already_exists_eq and_then_Inr)
    obtain pid where pid: "normalize_optional_text (dr_project_id r) = Some pid"
      using steps(1) n(4) by (auto simp: find_for_def record_finding_def require_project_scope_def split: option.splits)
    have f: "list_ex (behavioral_finding env (normalize_optional_text (dr_project_id r)) i role) (ab_rows (os_artifacts t1))"
      using steps(1) n(3-5) assms(1,3-5) t pid normalize_optional_text_Some [OF pid] normalize_optional_text_Some [OF assms(4)]
      by (auto simp: find_for_def intro: recorded_finding)
    have "later t t" using assms(1) t by (simp add: later_refl)
    then have "later t t1" using later_services(4) [of t t] steps(1) by (simp add: find_for_def) (metis snd_conv)
    then have "later t1 t1" by (rule later_self)
    then have "later t1 s1" using steps(2,3) later_services(3,5) [of t1] by (metis escalate_for_def snd_conv)
    then show ?thesis using f by (auto simp: later_def intro: finding_stays)
  qed
qed

text \<open>
  A behavioral violation is escalated once. After the auditor has handled one for a task and an agent role, with findings that parse back
  to what was printed, any later report for the same task, role and project, after any other oversight requests, is answered without action
  and writes nothing.
\<close>

theorem behavioral_finding_not_repeated:
  assumes "artifacts_ok (os_artifacts s)" "py_lower (py_strip (dr_event_type r)) = ''behavioral_violation''"
    "normalize_optional_text (dr_task_id r) = Some i" "normalize_optional_text (dr_source_agent_role r) = Some role"
    "\<And>pid rules rat tr sev now.
       finding_read_back env (finding_payload pid ''behavioral_violation'' rules rat tr (Some i) (Some role) sev @ [(''created_at'', JIso now)])"
    "auditor_handle env r s = (Inr resp, s1)"
    "py_lower (py_strip (dr_event_type r2)) = ''behavioral_violation''" "normalize_optional_text (dr_task_id r2) = Some i"
    "normalize_optional_text (dr_source_agent_role r2) = Some role"
    "normalize_optional_text (dr_project_id r2) = normalize_optional_text (dr_project_id r)"
  shows "\<exists>resp2 s3. auditor_handle env r2 (run_calls (oversee env) cs s1) = (Inr resp2, s3) \<and> or_action_taken resp2 = ''no_action'' \<and>
    os_artifacts s3 = os_artifacts (run_calls (oversee env) cs s1) \<and> os_audit s3 = os_audit (run_calls (oversee env) cs s1)"
proof -
  let ?P = "behavioral_finding env (normalize_optional_text (dr_project_id r)) i role"
  have first: "list_ex ?P (ab_rows (os_artifacts s1))" by (rule behavioral_finding_recorded [OF assms(1-6)])
  have "later s s1" using later_auditor [OF later_refl [OF assms(1)], of env r] assms(6) by simp
  then have "later s1 (run_calls (oversee env) cs s1)" by (intro evidence.run_extends later_self)
  then have again: "list_ex ?P (ab_rows (os_artifacts (run_calls (oversee env) cs s1)))" using first by (auto simp: later_def intro: finding_stays)
  show ?thesis
  proof (rule normalized_auditor [of r2 "run_calls (oversee env) cs s1"])
    fix r' t
    assume n: "normalize_auditor_request r2 (run_calls (oversee env) cs s1) = (r', t)" "dr_event_type r' = py_lower (py_strip (dr_event_type r2))"
      "dr_task_id r' = normalize_optional_text (dr_task_id r2)" "dr_project_id r' = normalize_optional_text (dr_project_id r2)"
      "dr_source_agent_role r' = normalize_optional_text (dr_source_agent_role r2)"
      and t: "os_artifacts t = os_artifacts (run_calls (oversee env) cs s1)" "os_audit t = os_audit (run_calls (oversee env) cs s1)"
    have "handle_behavioral_violation env r' t = (Inr (respond ''no_action'' None
        ''Oversight summary: matching behavioral finding already exists without new evidence; duplicate escalation suppressed.'' (dr_trace_id r')), t)"
      using again n t assms(8-10) by (simp add: handle_behavioral_violation_def finding_already_exists_eq)
    then show ?thesis using n t assms(7) by (simp add: auditor_handle_def respond_def)
  qed
qed

subsection \<open>The registry\<close>

inductive registry_step :: "agent_table \<Rightarrow> agent_table \<Rightarrow> bool" where
  bootstrap: "bootstrap_institutional_agents now t = (r, t') \<Longrightarrow> registry_step t t'"
| bind: "bind_project_workforce sha project_id template llm_profile system_prompt_package now t = (r, t') \<Longrightarrow> registry_step t t'"
| quarantine: "quarantine_agent agent_id now t = (r, t') \<Longrightarrow> registry_step t t'"

text \<open>The shapes a row can have.\<close>

definition agent_row_ok :: "agent_record \<Rightarrow> bool" where
  "agent_row_ok a = (ag_status a \<in> {''active'', ''inactive''} \<and>
     (if ag_agent_type a = ''institutional'' then ag_role a \<in> set institutional_roles
      else ag_agent_type a = ''project_workforce'' \<and> py_startswith (ag_role a) ''cwo:''))"

definition registry_ok :: "agent_table \<Rightarrow> bool" where
  "registry_ok t = (distinct (map ag_agent_id t) \<and> distinct (map ag_role t) \<and> list_all agent_row_ok t)"

lemma registry_ok_append:
  assumes "registry_ok t" "agent_row_ok a" "ag_agent_id a \<notin> ag_agent_id ` set t" "ag_role a \<notin> ag_role ` set t"
  shows "registry_ok (t @ [a])"
  using assms by (auto simp: registry_ok_def)

lemma institutional_role_normal: "role \<in> set institutional_roles \<Longrightarrow> py_lower (py_strip role) = role"
proof -
  have "list_all (\<lambda>r. py_lower (py_strip r) = r) institutional_roles" by code_simp
  then show "role \<in> set institutional_roles \<Longrightarrow> ?thesis" by (simp add: list_all_iff)
qed

lemma bootstrap_role_ok:
  assumes "registry_ok t" "role \<in> set institutional_roles"
  shows "registry_ok (snd (bootstrap_role now role t)) \<and> prefix t (snd (bootstrap_role now role t))"
proof (cases "get_agent_by_role t role")
  case None
  let ?a = "\<lparr>ag_agent_id = role @ ''_core'', ag_role = role, ag_agent_type = ''institutional'', ag_status = ''active'',
            ag_created_at = now, ag_updated_at = now\<rparr>"
  from None have "role \<notin> ag_role ` set t" using institutional_role_normal [OF assms(2)] by (auto simp: get_agent_by_role_def find_None_iff)
  moreover have "agent_row_ok ?a" using assms(2) by (simp add: agent_row_ok_def)
  ultimately have "registry_ok (t @ [?a])" if "\<not> list_ex (\<lambda>b. ag_agent_id b = role @ ''_core'') t"
    using that assms(1) by (intro registry_ok_append) (auto simp: list_ex_iff)
  then show ?thesis using None assms(1) by (auto simp: bootstrap_role_def insert_agent_def)
next
  case (Some a)
  then show ?thesis using assms(1) by (simp add: bootstrap_role_def)
qed

lemma bootstrap_roles_ok:
  "registry_ok t \<Longrightarrow> set roles \<subseteq> set institutional_roles \<Longrightarrow>
     registry_ok (snd (bootstrap_roles now roles t)) \<and> prefix t (snd (bootstrap_roles now roles t))"
proof (induction roles arbitrary: t)
  case (Cons r rs)
  note step = bootstrap_role_ok [OF Cons.prems(1), of r now]
  obtain q t1 where q: "bootstrap_role now r t = (q, t1)" by fastforce
  show ?case using Cons.IH [of t1] step Cons.prems(2) q by (cases q) (auto intro: prefix_order.trans)
qed simp

lemma bootstrap_ok:
  assumes "registry_ok t"
  shows "registry_ok (snd (bootstrap_institutional_agents now t)) \<and> prefix t (snd (bootstrap_institutional_agents now t))"
proof -
  obtain q t1 where "bootstrap_roles now institutional_roles t = (q, t1)" by fastforce
  then show ?thesis using bootstrap_roles_ok [OF assms subset_refl, of now] by (cases q) (simp_all add: bootstrap_institutional_agents_def)
qed

text \<open>Updating the row of one role.\<close>

lemma registry_ok_replace:
  assumes "registry_ok t" "agent_row_ok a" "\<And>b. b \<in> set t \<Longrightarrow> ag_agent_id b = ag_agent_id a \<Longrightarrow> ag_role b = ag_role a"
    "\<And>b. b \<in> set t \<Longrightarrow> ag_role (f b) = ag_role b" "\<And>b. b \<in> set t \<Longrightarrow> agent_row_ok (f b)"
    "\<And>b. b \<in> set t \<Longrightarrow> ag_agent_id (f b) = (if ag_role b = ag_role a then ag_agent_id a else ag_agent_id b)"
  shows "registry_ok (map f t)"
proof -
  have "inj_on ag_role (set t)" "inj_on ag_agent_id (set t)" "distinct t" using assms(1) by (auto simp: registry_ok_def distinct_map)
  moreover have "inj_on (\<lambda>b. ag_agent_id (f b)) (set t)"
    using calculation(1,2) assms(3,6) by (fastforce simp: inj_on_def split: if_splits)
  moreover have "inj_on (\<lambda>b. ag_role (f b)) (set t)" using calculation(1) assms(4) by (auto simp: inj_on_def)
  ultimately show ?thesis using assms(5) by (auto simp: registry_ok_def distinct_map comp_def list_all_iff map_map)
qed

lemma bind_ok:
  assumes "registry_ok t"
  shows "registry_ok (snd (bind_project_workforce sha p te lp sp now t))"
proof -
  define a where "a = workforce_record sha p te lp sp now"
  have row: "agent_row_ok (a\<lparr>ag_created_at := c\<rparr>)" for c
    by (simp add: a_def workforce_record_def Let_def agent_row_ok_def py_startswith_def)
  then have "agent_row_ok a" by (metis agent_record.surjective agent_record.update_convs(5) agent_record.select_convs(5))
  show ?thesis
  proof (cases "list_ex (\<lambda>b. ag_agent_id b = ag_agent_id a \<and> ag_role b \<noteq> ag_role a) t")
    case False
    then have key: "ag_role b = ag_role a" if "b \<in> set t" "ag_agent_id b = ag_agent_id a" for b using that by (auto simp: list_ex_iff)
    have "registry_ok (map (\<lambda>b. if ag_role b = ag_role a then a\<lparr>ag_created_at := ag_created_at b\<rparr> else b) t)"
      by (rule registry_ok_replace [OF assms \<open>agent_row_ok a\<close> key]) (use assms row in \<open>auto simp: registry_ok_def list_all_iff\<close>)
    moreover have "registry_ok (t @ [a])" if "\<not> list_ex (\<lambda>b. ag_role b = ag_role a) t"
    proof (rule registry_ok_append [OF assms \<open>agent_row_ok a\<close>])
      show "ag_agent_id a \<notin> ag_agent_id ` set t"
      proof
        assume "ag_agent_id a \<in> ag_agent_id ` set t"
        then obtain b where b: "b \<in> set t" "ag_agent_id b = ag_agent_id a" by force
        from key [OF b] that b(1) show False by (auto simp: list_ex_iff)
      qed
      show "ag_role a \<notin> ag_role ` set t" using that by (auto simp: list_ex_iff)
    qed
    ultimately show ?thesis using False by (simp add: bind_project_workforce_def Let_def a_def [symmetric])
  qed (simp add: bind_project_workforce_def Let_def a_def [symmetric] assms)
qed

lemma contained_registry_ok: "list_all2 agent_contained t t' \<Longrightarrow> registry_ok t \<Longrightarrow> registry_ok t'"
proof -
  assume c: "list_all2 agent_contained t t'" and ok: "registry_ok t"
  have "map ag_agent_id t' = map ag_agent_id t" "map ag_role t' = map ag_role t" "list_all agent_row_ok t \<Longrightarrow> list_all agent_row_ok t'"
    using c by (induction rule: list_all2_induct) (auto simp: agent_contained_def agent_row_ok_def)
  with ok show ?thesis by (simp add: registry_ok_def)
qed

lemma registry_step_ok: "registry_step t t' \<Longrightarrow> registry_ok t \<Longrightarrow> registry_ok t'"
proof (induction rule: registry_step.induct)
  case (bootstrap now t r t')
  then show ?case using bootstrap_ok [of t now] by simp
next
  case (bind sha p te lp sp now t r t')
  then show ?case using bind_ok [of t sha p te lp sp now] by simp
next
  case (quarantine i now t r t')
  then show ?case using quarantine_contained contained_registry_ok by blast
qed

lemma registry_ok_Nil: "registry_ok []"
  by (simp add: registry_ok_def)

lemma bootstrap_roles_advisory:
  "registry_ok u \<Longrightarrow> set roles \<subseteq> set institutional_roles \<Longrightarrow> bootstrap_roles now roles u \<noteq> (Inl (AgentRegistryRepositoryError c m), t')"
proof (induction roles arbitrary: u)
  case (Cons r rs)
  have "fst (bootstrap_role now r u) \<noteq> Inl (AgentRegistryRepositoryError c m)"
  proof (cases "get_agent_by_role u r")
    case (Some a)
    have "a \<in> set u" "ag_role a = r" using Some institutional_role_normal [of r] Cons.prems(2) unfolding get_agent_by_role_def
      by (auto simp: find_Some_iff)
    then have "agent_row_ok a" using Cons.prems(1) by (auto simp: registry_ok_def list_all_iff)
    then have "ag_agent_type a = ''institutional''" if "r \<in> set advisory_only_roles"
      using that \<open>ag_role a = r\<close> by (auto simp: agent_row_ok_def advisory_only_roles_def py_startswith_def split: if_splits)
    then show ?thesis using Some by (auto simp: bootstrap_role_def)
  qed (simp add: bootstrap_role_def insert_agent_def)
  moreover have "registry_ok (snd (bootstrap_role now r u))" using bootstrap_role_ok Cons.prems by auto
  ultimately show ?case using Cons.IH [of "snd (bootstrap_role now r u)"] Cons.prems(2)
    by (cases "bootstrap_role now r u"; cases "fst (bootstrap_role now r u)") auto
qed simp

text \<open>
  C22: the registry is well formed after every history of its operations on a new table. Identifiers and roles are unique, statuses are
  active or inactive, the institutional rows are those of the six roles and every other row is a project workforce; so the secretary is only
  ever registered as institutional and the guard that the bootstrap has against it does not fire.
\<close>

theorem registry_well_formed:
  assumes "registry_step\<^sup>*\<^sup>* [] t"
  shows "distinct (map ag_agent_id t) \<and> distinct (map ag_role t) \<and> list_all agent_row_ok t \<and>
    (\<forall>role m t'. bootstrap_institutional_agents now t \<noteq> (Inl (AgentRegistryRepositoryError role m), t'))"
proof -
  have ok: "registry_ok t" using assms by (induction rule: rtranclp_induct) (auto intro: registry_step_ok registry_ok_Nil)
  from bootstrap_roles_advisory [OF ok subset_refl] have "bootstrap_institutional_agents now t \<noteq> (Inl (AgentRegistryRepositoryError c m), t')" for c m t'
    by (cases "bootstrap_roles now institutional_roles t"; cases "fst (bootstrap_roles now institutional_roles t)")
       (auto simp: bootstrap_institutional_agents_def)
  with ok show ?thesis by (simp add: registry_ok_def)
qed

text \<open>A quarantined agent stays inactive through a restart, but binding a project's workforce again makes the quarantined row active.\<close>

lemma quarantine_survives_bootstrap:
  "registry_ok t \<Longrightarrow> a \<in> set t \<Longrightarrow> a \<in> set (snd (bootstrap_institutional_agents now t))"
  using bootstrap_ok [of t now] set_mono_prefix by fastforce

lemma binding_reactivates:
  assumes "a \<in> set t" "ag_role a = ''cwo:'' @ py_lower (py_strip p)" "bind_project_workforce sha p te lp sp now t = (Inr w, t')"
  shows "\<exists>b\<in>set t'. ag_role b = ag_role a \<and> ag_status b = ''active''"
proof -
  have w: "w = workforce_record sha p te lp sp now" "ag_role w = ag_role a" "ag_status w = ''active''"
    using assms(2,3) by (auto simp: bind_project_workforce_def Let_def workforce_record_def split: if_splits)
  then have "t' = map (\<lambda>b. if ag_role b = ag_role w then w\<lparr>ag_created_at := ag_created_at b\<rparr> else b) t"
    using assms(1,3) by (auto simp: bind_project_workforce_def Let_def list_ex_iff split: if_splits)
  then have "w\<lparr>ag_created_at := ag_created_at a\<rparr> \<in> set t'" using assms(1) w(2) by (auto intro: rev_image_eqI)
  then show ?thesis using w by (intro bexI) auto
qed

section \<open>Witnesses\<close>

definition demo_finding :: json_object where
  "demo_finding = [(''task_id'', JStr ''t-1''), (''source_agent_role'', JStr ''ceo''), (''finding_type'', JStr ''behavioral_violation'')]"

definition demo_oversight_env :: oversight_env where
  "demo_oversight_env = \<lparr>ox_sha = (\<lambda>s. s), ox_dumps = (\<lambda>_. ''{}''), ox_loads = (\<lambda>_. Some (JObj demo_finding)), ox_os_error = (\<lambda>_. None),
     ox_config = mvp_defaults None, ox_audit_fault = (\<lambda>_. None)\<rparr>"

definition demo_oversight :: oversight_state where
  "demo_oversight = \<lparr>os_runtime = \<lparr>rt_uuid_seq = (\<lambda>_. ''u''), rt_uuid_pos = 0, rt_clock_seq = (\<lambda>_. 0), rt_clock_pos = 0\<rparr>,
     os_tasks = demo_repo ''dispatched'', os_agents = [], os_artifacts = no_artifacts, os_audit = \<lparr>lg_rows = [], lg_attempts = 0\<rparr>\<rparr>"

definition demo_auditor_request :: "string \<Rightarrow> string option \<Rightarrow> auditor_request" where
  "demo_auditor_request event project = \<lparr>dr_event_type = event, dr_task_id = Some ''t-1'', dr_project_id = project, dr_severity = ''Critical'',
     dr_rule_ids = [''BUD-001''], dr_rationale = ''r'', dr_source_agent_role = Some ''ceo'', dr_trace_id = ''tr''\<rparr>"

abbreviation demo_audit :: "string \<Rightarrow> string option \<Rightarrow> oversight_response oversight_run" where
  "demo_audit event project \<equiv> auditor_handle demo_oversight_env (demo_auditor_request event project) demo_oversight"

lemma demo_oversight_ok: "artifacts_ok (os_artifacts demo_oversight)"
  by (simp add: demo_oversight_def artifacts_ok_empty)

lemma demo_texts:
  "normalize_optional_text (dr_task_id (demo_auditor_request event project)) = Some ''t-1''"
  "normalize_optional_text (dr_source_agent_role (demo_auditor_request event project)) = Some ''ceo''"
  "dr_event_type (demo_auditor_request event project) = event" "dr_project_id (demo_auditor_request event project) = project"
proof -
  have "normalize_optional_text (Some ''t-1'') = Some ''t-1''" "normalize_optional_text (Some ''ceo'') = Some ''ceo''" by code_simp+
  then show "normalize_optional_text (dr_task_id (demo_auditor_request event project)) = Some ''t-1''"
    "normalize_optional_text (dr_source_agent_role (demo_auditor_request event project)) = Some ''ceo''"
    "dr_event_type (demo_auditor_request event project) = event" "dr_project_id (demo_auditor_request event project) = project"
    by (simp_all add: demo_auditor_request_def)
qed

theorem oversight_only_adds_witness:
  "prefix (lg_rows (os_audit demo_oversight))
     (lg_rows (os_audit (run_calls (oversee demo_oversight_env) [Audit (demo_auditor_request ''budget_breach'' (Some ''p-1''))] demo_oversight)))"
  using oversight_only_adds [OF demo_oversight_ok, of demo_oversight_env "[Audit (demo_auditor_request ''budget_breach'' (Some ''p-1''))]"] by simp

theorem paused_task_has_evidence_witness:
  "case demo_audit ''budget_breach'' (Some ''p-1'') of (Inl _, _) \<Rightarrow> False | (Inr _, s') \<Rightarrow>
     status_of (os_tasks s') ''t-1'' = Some ''blocked'' \<and> audit_keys (audited_since demo_oversight s') = [(''auditor_enforcement'', Some ''t-1'')] \<and>
     map snd (evidence_keys (evidence_since demo_oversight s')) =
       [''auditor_enforcement'', ''auditor_ceo_notification'', ''auditor_owner_alert'', ''auditor_owner_escalation'']"
proof -
  have "case fst (demo_audit ''budget_breach'' (Some ''p-1'')) of Inl _ \<Rightarrow> False | Inr _ \<Rightarrow> True" by code_simp
  then obtain resp s' where h: "demo_audit ''budget_breach'' (Some ''p-1'') = (Inr resp, s')"
    by (cases "demo_audit ''budget_breach'' (Some ''p-1'')"; cases "fst (demo_audit ''budget_breach'' (Some ''p-1''))") auto
  have "py_lower (py_strip ''budget_breach'') = ''budget_breach''" "normalize_severity ''Critical'' = ''critical''" by code_simp+
  with paused_task_has_evidence [OF demo_oversight_ok _ demo_texts(1) h] show ?thesis
    using h by (auto simp: demo_texts demo_auditor_request_def)
qed

theorem pause_without_project_witness:
  "\<exists>m s'. demo_audit ''budget_breach'' None = (Inl (AuditorFindingError m), s') \<and> status_of (os_tasks s') ''t-1'' = Some ''blocked''"
proof -
  have "py_lower (py_strip ''budget_breach'') = ''budget_breach''" "status_of (os_tasks demo_oversight) ''t-1'' = Some ''dispatched''"
    "may_move ''dispatched'' ''blocked''" by code_simp+
  with pause_without_project [of "demo_auditor_request ''budget_breach'' None" "''t-1''" demo_oversight "''dispatched''" demo_oversight_env]
  show ?thesis by (auto simp: demo_texts)
qed

theorem behavioral_finding_not_repeated_witness:
  "\<exists>resp2 s3. auditor_handle demo_oversight_env (demo_auditor_request ''behavioral_violation'' (Some ''p-1''))
     (snd (demo_audit ''behavioral_violation'' (Some ''p-1''))) = (Inr resp2, s3) \<and> or_action_taken resp2 = ''no_action''"
proof -
  have "case fst (demo_audit ''behavioral_violation'' (Some ''p-1'')) of Inl _ \<Rightarrow> False | Inr _ \<Rightarrow> True" by code_simp
  then obtain resp s1 where h: "demo_audit ''behavioral_violation'' (Some ''p-1'') = (Inr resp, s1)"
    by (cases "demo_audit ''behavioral_violation'' (Some ''p-1'')"; cases "fst (demo_audit ''behavioral_violation'' (Some ''p-1''))") auto
  have ev: "py_lower (py_strip (dr_event_type (demo_auditor_request ''behavioral_violation'' (Some ''p-1'')))) = ''behavioral_violation''" by code_simp
  have role: "normalize_optional_text (Some ''ceo'') = Some ''ceo''" by code_simp
  have rb: "finding_read_back demo_oversight_env (finding_payload pid ''behavioral_violation'' rules rat tr (Some ''t-1'') (Some ''ceo'') sev @
      [(''created_at'', JIso now)])" for pid rules rat tr sev now
    by (simp add: finding_read_back_def load_payload_def demo_oversight_env_def demo_finding_def finding_payload_def dict_get_def json_opt_def role)
  show ?thesis
    using behavioral_finding_not_repeated [OF demo_oversight_ok ev demo_texts(1,2) rb h ev demo_texts(1,2) refl, of "[]"] h by auto
qed

theorem registry_well_formed_witness:
  "distinct (map ag_role (snd (bootstrap_institutional_agents 0 [])))"
  using registry_well_formed [of "snd (bootstrap_institutional_agents 0 [])", OF r_into_rtranclp, OF registry_step.bootstrap [OF surjective_pairing]]
  by simp

end
