(* ===== verification/Agent_Language.thy ===== *)
theory Agent_Language
  imports Oversight
begin

text \<open>
  The text functions the deciding agents share: \<^verbatim>\<open>agents/ceo/agent.py\<close>, \<^verbatim>\<open>agents/cwo/agent.py\<close>,
  \<^verbatim>\<open>agents/cso/agent.py\<close>, \<^verbatim>\<open>agents/project_manager/agent.py\<close> and \<^verbatim>\<open>agents/domain_leader/agent.py\<close> read a
  decision off a model's answer by words that occur in it, and rewrite the answer before they return it.

  A context is a dictionary of JSON values. \<^verbatim>\<open>str()\<close> of a string, of \<^verbatim>\<open>None\<close> and of a boolean is written out; of a number, a
  list or a dictionary it is a parameter. \<^verbatim>\<open>str.upper\<close> is used only to look for ASCII capitals; the two characters whose capital
  has no place in the type of characters stay. Patterns are regular expressions of fixed words between word boundaries.
\<close>

section \<open>Python strings\<close>

definition py_upper_char :: "char \<Rightarrow> string" where
  "py_upper_char c = (let n = (of_char c :: nat) in
     if (97 \<le> n \<and> n \<le> 122) \<or> (224 \<le> n \<and> n \<le> 254 \<and> n \<noteq> 247) then [char_of (n - 32)] else if n = 223 then ''SS'' else [c])"

definition py_upper :: "string \<Rightarrow> string" where
  "py_upper s = concat (map py_upper_char s)"

text \<open>\<^verbatim>\<open>s.replace(old, new)\<close> for a text \<open>old\<close> that is not empty; the number counts the characters of a match still to be skipped.\<close>

fun replace_from :: "string \<Rightarrow> string \<Rightarrow> nat \<Rightarrow> string \<Rightarrow> string" where
  "replace_from old new k [] = []"
| "replace_from old new (Suc k) (c # s) = replace_from old new k s"
| "replace_from old new 0 (c # s) =
     (if py_startswith (c # s) old then new @ replace_from old new (length old - 1) s else c # replace_from old new 0 s)"

definition py_replace :: "string \<Rightarrow> string \<Rightarrow> string \<Rightarrow> string" where
  "py_replace old new s = replace_from old new 0 s"

text \<open>\<^verbatim>\<open>\w\<close>, and \<^verbatim>\<open>re.search\<close> of some word between two \<^verbatim>\<open>\b\<close>: the flag says whether the character before is one of a word.\<close>

definition is_word_char :: "char \<Rightarrow> bool" where
  "is_word_char c = (let n = (of_char c :: nat) in
     (48 \<le> n \<and> n \<le> 57) \<or> (65 \<le> n \<and> n \<le> 90) \<or> n = 95 \<or> (97 \<le> n \<and> n \<le> 122) \<or>
     n \<in> {170, 178, 179, 181, 185, 186, 188, 189, 190} \<or> (192 \<le> n \<and> n \<noteq> 215 \<and> n \<noteq> 247))"

definition ends_word :: "string \<Rightarrow> bool" where
  "ends_word s = (case s of [] \<Rightarrow> True | c # _ \<Rightarrow> \<not> is_word_char c)"

fun word_search :: "string list \<Rightarrow> bool \<Rightarrow> string \<Rightarrow> bool" where
  "word_search ws inside [] = False"
| "word_search ws inside (c # s) =
     ((\<not> inside \<and> list_ex (\<lambda>w. py_startswith (c # s) w \<and> ends_word (drop (length w) (c # s))) ws) \<or> word_search ws (is_word_char c) s)"

definition has_word :: "string list \<Rightarrow> string \<Rightarrow> bool" where
  "has_word ws s = word_search ws False s"

text \<open>\<^verbatim>\<open>re.sub(r"\bword\b", new, s, flags=re.IGNORECASE)\<close>.\<close>

fun sub_word_from :: "string \<Rightarrow> string \<Rightarrow> bool \<Rightarrow> nat \<Rightarrow> string \<Rightarrow> string" where
  "sub_word_from w new inside k [] = []"
| "sub_word_from w new inside (Suc k) (c # s) = sub_word_from w new (is_word_char c) k s"
| "sub_word_from w new inside 0 (c # s) =
     (if \<not> inside \<and> py_startswith (py_lower (c # s)) w \<and> ends_word (drop (length w) (c # s))
      then new @ sub_word_from w new (is_word_char c) (length w - 1) s
      else c # sub_word_from w new (is_word_char c) 0 s)"

definition sub_word :: "string \<Rightarrow> string \<Rightarrow> string \<Rightarrow> string" where
  "sub_word w new s = sub_word_from w new False 0 s"

text \<open>\<^verbatim>\<open>s.splitlines()\<close>.\<close>

definition is_line_break :: "char \<Rightarrow> bool" where
  "is_line_break c = ((of_char c :: nat) \<in> {10, 11, 12, 13, 28, 29, 30, 133})"

fun splitlines_acc :: "string \<Rightarrow> string \<Rightarrow> string list" where
  "splitlines_acc acc [] = (if acc = [] then [] else [rev acc])"
| "splitlines_acc acc (c # s) =
     (if is_line_break c
      then rev acc # splitlines_acc [] (if c = CHR 0x0D \<and> s \<noteq> [] \<and> hd s = CHR 0x0A then tl s else s)
      else splitlines_acc (c # acc) s)"

definition py_splitlines :: "string \<Rightarrow> string list" where
  "py_splitlines s = splitlines_acc [] s"

definition first_line :: "string \<Rightarrow> string" where
  "first_line content = (case filter (\<lambda>l. l \<noteq> []) (map py_strip (py_splitlines content)) of [] \<Rightarrow> ''empty'' | l # _ \<Rightarrow> l)"

section \<open>Contexts\<close>

definition py_str :: "(json \<Rightarrow> string) \<Rightarrow> json \<Rightarrow> string" where
  "py_str other v = (case v of JNull \<Rightarrow> ''None'' | JBool b \<Rightarrow> (if b then ''True'' else ''False'') | JStr s \<Rightarrow> s | _ \<Rightarrow> other v)"

text \<open>\<^verbatim>\<open>_optional_str(d.get(k))\<close>.\<close>

definition optional_str :: "(json \<Rightarrow> string) \<Rightarrow> json option \<Rightarrow> string option" where
  "optional_str other v = (case v of None \<Rightarrow> None | Some JNull \<Rightarrow> None | Some x \<Rightarrow> or_none (py_strip (py_str other x)))"

definition context_text :: "(json \<Rightarrow> string) \<Rightarrow> json_object \<Rightarrow> string \<Rightarrow> string option" where
  "context_text other d k = optional_str other (dict_get d k)"

definition coerce_bool :: "(json \<Rightarrow> string) \<Rightarrow> json option \<Rightarrow> bool" where
  "coerce_bool other v = (case v of None \<Rightarrow> False | Some JNull \<Rightarrow> False | Some (JBool b) \<Rightarrow> b
     | Some x \<Rightarrow> py_lower (py_strip (py_str other x)) \<in> {''1'', ''true'', ''yes'', ''y'', ''on''})"

definition context_summary :: "(json \<Rightarrow> string) \<Rightarrow> json_object \<Rightarrow> string" where
  "context_summary other d =
     (if d = [] then ''none'' else py_join '', '' (map (\<lambda>(k, v). k @ ''='' @ py_str other v) (sort_key fst d)))"

text \<open>The text in which the CEO and the CWO look for the words that route a request.\<close>

definition routing_text :: "(json \<Rightarrow> string) \<Rightarrow> string \<Rightarrow> json_object \<Rightarrow> string" where
  "routing_text other message d = py_lower (py_join '' '' [message, context_summary other d, or_str (context_text other d ''topic'') []])"

definition mentions :: "string list \<Rightarrow> string \<Rightarrow> bool" where
  "mentions ks s = list_ex (py_contains s) ks"

section \<open>Decisions read off an answer\<close>

definition parse_proposal_decision :: "string \<Rightarrow> string" where
  "parse_proposal_decision answer =
     (let lowered = py_lower (py_strip answer)
      in if has_word [''needsrevision'', ''needs_revision'', ''needs revision'', ''needs-revision''] lowered then ''needs_revision''
         else if has_word [''deny'', ''denied''] lowered then ''denied''
         else if has_word [''approve'', ''approved''] lowered then ''approved''
         else ''needs_revision'')"

record conflict_flag =
  cf_flag_type :: string
  cf_reason :: string
  cf_escalate_to :: "string option"

definition strategic_conflict_keywords :: "string list" where
  "strategic_conflict_keywords = [''strategic conflict'', ''escalation to ceo'', ''conflicts with'']"

definition needs_revision_keywords :: "string list" where
  "needs_revision_keywords = [''needs revision'', ''addressable'', ''recommend revising'']"

definition parse_conflict_flag :: "string \<Rightarrow> conflict_flag option" where
  "parse_conflict_flag advisory =
     (let lower = py_lower advisory
      in if mentions strategic_conflict_keywords lower
         then Some \<lparr>cf_flag_type = ''strategic_conflict'', cf_reason = take 200 advisory, cf_escalate_to = Some ''ceo''\<rparr>
         else if mentions needs_revision_keywords lower
         then Some \<lparr>cf_flag_type = ''needs_revision'', cf_reason = take 200 advisory, cf_escalate_to = None\<rparr>
         else None)"

definition classify_outcome :: "conflict_flag option \<Rightarrow> string" where
  "classify_outcome flag =
     (case flag of None \<Rightarrow> ''Aligned''
      | Some f \<Rightarrow> if cf_flag_type f = ''strategic_conflict'' then ''Strategic Conflict'' else ''Needs Revision'')"

text \<open>The domain leader's verdicts: the outcome, whom to escalate to, and the recommendations.\<close>

definition parse_domain_outcome :: "string \<Rightarrow> string \<times> string option \<times> string option" where
  "parse_domain_outcome answer =
     (let upper = py_upper answer
      in if mentions [''ESCALATE_TO_PM'', ''ESCALATE TO PM''] upper then (''domain_risk_escalation'', Some ''project_manager'', None)
         else if mentions [''NEEDS_REWORK'', ''NEEDS REWORK''] upper then (''needs_rework'', None, Some answer)
         else (''resolved'', None, None))"

definition parse_review_outcome :: "string \<Rightarrow> string \<times> string option" where
  "parse_review_outcome answer =
     (if mentions [''NEEDS_REWORK'', ''NEEDS REWORK''] (py_upper answer) then (''needs_rework'', Some answer) else (''allow'', None))"

section \<open>The language of the answers\<close>

definition advisory_markers :: "string list" where
  "advisory_markers = [''i suggest'', ''you might consider'', ''consider '', ''i recommend'', ''recommend '', ''you may want to'']"

definition replace_all :: "(string \<times> string) list \<Rightarrow> string \<Rightarrow> string" where
  "replace_all rs s = fold (\<lambda>(old, new). py_replace old new) rs s"

definition starts_with_any :: "string \<Rightarrow> string list \<Rightarrow> bool" where
  "starts_with_any s ps = list_ex (py_startswith s) ps"

definition ceo_prefixes :: "string list" where
  "ceo_prefixes = [''decision:'', ''directive:'', ''route:'', ''approval:'']"

definition ensure_executive_language :: "string \<Rightarrow> string \<Rightarrow> string" where
  "ensure_executive_language answer label =
     (let stripped = py_strip answer;
          lowered = replace_all (map (\<lambda>m. (m, [])) advisory_markers) (py_lower stripped);
          normalized = replace_all [(''I suggest'', ''Proceed''), (''I recommend'', ''Proceed''), (''You might consider'', ''Proceed''),
            (''Consider '', ''Execute ''), (''consider '', ''execute '')] stripped
      in if mentions advisory_markers (py_lower stripped) then label @ '': '' @ normalized
         else if starts_with_any lowered ceo_prefixes then stripped
         else label @ '': '' @ normalized)"

definition cwo_prefixes :: "string list" where
  "cwo_prefixes = [''status:'', ''command:'', ''route:'', ''directive:'']"

definition ensure_command_language :: "string \<Rightarrow> string \<Rightarrow> string" where
  "ensure_command_language answer label =
     (let stripped = py_strip answer; lowered = py_lower stripped;
          normalized = sub_word ''i approve'' ''CEO approval is recorded''
            (replace_all [(''I suggest'', ''Execute''), (''I recommend'', ''Execute''), (''You might consider'', ''Execute''),
               (''Consider '', ''Execute ''), (''consider '', ''execute '')] stripped)
      in if mentions advisory_markers lowered then label @ '': '' @ normalized
         else if starts_with_any lowered cwo_prefixes then normalized
         else label @ '': '' @ normalized)"

definition pm_prefixes :: "string list" where
  "pm_prefixes = [''status:'', ''decision:'', ''assignment:'', ''blocked:'', ''escalate:'']"

definition ensure_directive_language :: "string \<Rightarrow> string \<Rightarrow> string" where
  "ensure_directive_language answer label =
     (let stripped = py_strip answer; lowered = py_lower stripped
      in if mentions [''i suggest'', ''you might consider'', ''consider '', ''recommend '', ''i recommend''] lowered
         then label @ '': '' @ replace_all [(''I suggest'', ''Proceed with''), (''I recommend'', ''Proceed with'')] stripped
         else if starts_with_any lowered pm_prefixes then stripped
         else label @ '': '' @ stripped)"

section \<open>Lemmas\<close>

lemma py_startswith_iff: "py_startswith s p \<longleftrightarrow> (\<exists>t. s = p @ t)"
  unfolding py_startswith_def by (metis append_eq_conv_conj append_take_drop_id)

lemma py_contains_iff: "py_contains s p \<longleftrightarrow> (\<exists>u v. s = u @ p @ v)"
proof (induction s)
  case (Cons c s)
  have "(\<exists>u v. c # s = u @ p @ v) \<longleftrightarrow> (\<exists>t. c # s = p @ t) \<or> (\<exists>u v. s = u @ p @ v)"
  proof
    assume "\<exists>u v. c # s = u @ p @ v"
    then obtain u v where "c # s = u @ p @ v" by blast
    then show "(\<exists>t. c # s = p @ t) \<or> (\<exists>u v. s = u @ p @ v)" by (cases u) auto
  next
    assume "(\<exists>t. c # s = p @ t) \<or> (\<exists>u v. s = u @ p @ v)"
    then show "\<exists>u v. c # s = u @ p @ v" by (metis append_Cons append_Nil)
  qed
  then show ?case using Cons.IH by (simp add: py_startswith_iff)
qed simp

lemma py_replace_absent:
  assumes "\<not> py_contains s old" shows "py_replace old new s = s"
proof -
  have "\<not> py_contains s old \<Longrightarrow> replace_from old new 0 s = s" by (induction s) auto
  then show ?thesis using assms by (simp add: py_replace_def)
qed

lemma replace_all_absent: "(\<And>old new. (old, new) \<in> set rs \<Longrightarrow> \<not> py_contains s old) \<Longrightarrow> replace_all rs s = s"
proof (induction rs)
  case (Cons r rs)
  obtain old new where r: "r = (old, new)" by (cases r)
  then have "py_replace old new s = s" using Cons.prems by (intro py_replace_absent) auto
  moreover have "replace_all rs s = s" using Cons.prems by (intro Cons.IH) auto
  ultimately show ?case using r by (simp add: replace_all_def)
qed (simp add: replace_all_def)

lemma replace_markers_absent: "\<not> mentions ms s \<Longrightarrow> replace_all (map (\<lambda>m. (m, [])) ms) s = s"
  by (rule replace_all_absent) (auto simp: mentions_def list_ex_iff)

lemma ex_list: "(\<exists>u. P u) \<longleftrightarrow> P [] \<or> (\<exists>d u. P (d # u))"
  by (metis neq_Nil_conv)

text \<open>What \<open>has_word\<close> finds: an occurrence with no word character on either side.\<close>

lemma word_search_iff:
  assumes "\<And>w. w \<in> set ws \<Longrightarrow> w \<noteq> []"
  shows "word_search ws inside s \<longleftrightarrow>
    (\<exists>u w v. s = u @ w @ v \<and> w \<in> set ws \<and> ends_word v \<and> (if u = [] then \<not> inside else \<not> is_word_char (last u)))"
proof (induction s arbitrary: inside)
  case Nil
  then show ?case using assms by auto
next
  case (Cons c s)
  let ?P = "\<lambda>inside s u w v. s = u @ w @ v \<and> w \<in> set ws \<and> ends_word v \<and> (if u = [] then \<not> inside else \<not> is_word_char (last u))"
  have here: "(\<exists>w v. ?P inside (c # s) [] w v) \<longleftrightarrow>
      \<not> inside \<and> list_ex (\<lambda>w. py_startswith (c # s) w \<and> ends_word (drop (length w) (c # s))) ws"
    unfolding list_ex_iff py_startswith_iff by (auto, blast)
  have there: "(\<exists>d u w v. ?P inside (c # s) (d # u) w v) \<longleftrightarrow> (\<exists>u w v. ?P (is_word_char c) s u w v)"
    by auto
  show ?case unfolding word_search.simps Cons.IH ex_list [of "\<lambda>u. \<exists>w v. ?P inside (c # s) u w v"] here there ..
qed

lemma has_word_iff:
  assumes "\<And>w. w \<in> set ws \<Longrightarrow> w \<noteq> []"
  shows "has_word ws s \<longleftrightarrow> (\<exists>u w v. s = u @ w @ v \<and> w \<in> set ws \<and> ends_word v \<and> (u = [] \<or> \<not> is_word_char (last u)))"
proof -
  have "(if u = [] then \<not> False else \<not> is_word_char (last u)) = (u = [] \<or> \<not> is_word_char (last u))" for u by simp
  then show ?thesis unfolding has_word_def using word_search_iff [of ws False s] assms by presburger
qed

text \<open>An answer approves only if it has the word and none of the words that refuse; there is no answer without a decision.\<close>

lemma parse_proposal_decision_cases: "parse_proposal_decision a \<in> {''needs_revision'', ''denied'', ''approved''}"
  by (simp add: parse_proposal_decision_def Let_def)

lemma approved_by_word:
  "parse_proposal_decision a = ''approved'' \<longleftrightarrow>
     has_word [''approve'', ''approved''] (py_lower (py_strip a)) \<and> \<not> has_word [''deny'', ''denied''] (py_lower (py_strip a)) \<and>
     \<not> has_word [''needsrevision'', ''needs_revision'', ''needs revision'', ''needs-revision''] (py_lower (py_strip a))"
  by (simp add: parse_proposal_decision_def Let_def)

text \<open>A negated approval is read as one.\<close>

lemma not_approved_is_approved: "parse_proposal_decision ''Decision: not approved.'' = ''approved''"
  by code_simp

text \<open>Every answer of the CEO and of the project manager opens with a label, its own or one of the model's.\<close>

lemma label_opens: "py_startswith (py_lower (label @ '': '' @ t)) (py_lower label @ '':'')"
  by (simp add: py_startswith_def py_lower_def py_lower_char_def)

lemma starts_with_any_iff: "starts_with_any s ps \<longleftrightarrow> (\<exists>p \<in> set ps. py_startswith s p)"
  by (simp add: starts_with_any_def list_ex_iff)

lemma executive_opening: "starts_with_any (py_lower (ensure_executive_language a label)) ((py_lower label @ '':'') # ceo_prefixes)"
proof (cases "mentions advisory_markers (py_lower (py_strip a))")
  case True
  then show ?thesis unfolding ensure_executive_language_def Let_def starts_with_any_iff using label_opens by auto
next
  case False
  then have "replace_all (map (\<lambda>m. (m, [])) advisory_markers) (py_lower (py_strip a)) = py_lower (py_strip a)"
    by (rule replace_markers_absent)
  with False show ?thesis unfolding ensure_executive_language_def Let_def starts_with_any_iff using label_opens by auto
qed

lemma directive_opening: "starts_with_any (py_lower (ensure_directive_language a label)) ((py_lower label @ '':'') # pm_prefixes)"
  unfolding ensure_directive_language_def Let_def starts_with_any_iff using label_opens by auto

text \<open>A text without a context entry is none.\<close>

lemma context_text_stripped: "context_text other d k = Some x \<Longrightarrow> py_strip x = x \<and> x \<noteq> []"
  by (auto simp: context_text_def optional_str_def or_none_def split: option.splits json.splits if_splits)

end
