(* ===== verification/LLM_Gateway.thy ===== *)
theory LLM_Gateway
  imports Prelude
begin

text \<open>
  The LLM gateway.
  \<^item> \<^verbatim>\<open>llm_gateway/schemas\<close>, \<^verbatim>\<open>providers/base.py\<close>: requests, responses, provider calls;
  \<^item> \<^verbatim>\<open>policy/request_guard.py\<close>, \<^verbatim>\<open>routing/profile_resolver.py\<close>, \<^verbatim>\<open>routing/model_selector.py\<close>:
    \<open>validate_llm_request\<close>, \<open>resolve_routing_profile\<close>, \<open>select_model_aliases\<close>;
  \<^item> \<^verbatim>\<open>accounting\<close>: \<open>normalize_usage\<close>, \<open>derive_budget_usage\<close>, \<open>estimate_cost\<close>;
  \<^item> \<^verbatim>\<open>providers/litellm_adapter.py\<close>, \<^verbatim>\<open>gemini_flash_adapter.py\<close>, \<^verbatim>\<open>deepseek_adapter.py\<close>:
    \<open>local_complete\<close>, \<open>gemini_complete\<close>, \<open>deepseek_complete\<close>, instances of the interface \<open>llm_provider\<close>;
  \<^item> \<^verbatim>\<open>service.py\<close>: \<open>llm_complete\<close>.

  The HTTP services are a parameter: the answer to each request as a function of the requests sent before. The
  state records the requests sent and the delays slept. A response carries its JSON body, or the text of
  the error its parser raises. Python's \<^verbatim>\<open>float\<close> on a header, \<^verbatim>\<open>str\<close> of a value that is not a string
  and the elapsed time are parameters too.
\<close>

section \<open>Schemas\<close>

record llm_budget_context =
  bx_currency_cap_usd :: "rat option"
  bx_quota_request_cap :: "int option"
  bx_quota_token_cap :: "int option"
  bx_allocation_mode :: string
  bx_project_share_ratio :: "rat option"
  bx_effective_budget_window :: "string option"

record llm_policy_context =
  px_policy_version :: string
  px_policy_hash :: string
  px_rule_ids :: "string list"

record llm_gateway_request =
  lr_request_id :: string
  lr_trace_id :: string
  lr_project_id :: string
  lr_agent_id :: string
  lr_task_id :: "string option"
  lr_skill_id :: "string option"
  lr_model_class :: string
  lr_routing_profile :: string
  lr_prompt :: string
  lr_max_tokens :: int
  lr_temperature :: rat
  lr_budget_context :: llm_budget_context
  lr_policy_context :: llm_policy_context

record llm_usage =
  lu_input_tokens :: int
  lu_output_tokens :: int
  lu_total_tokens :: int
  lu_request_units :: int

record llm_cost =
  lc_estimated_cost_usd :: rat
  lc_actual_cost_usd :: "rat option"
  lc_cost_source :: string

record llm_budget_usage =
  lb_currency_delta_usd :: rat
  lb_request_units :: int
  lb_token_units :: int

record llm_budget_effective =
  le_allocation_mode :: string
  le_project_share_ratio :: "rat option"
  le_effective_budget :: string

record llm_gateway_response =
  lp_request_id :: string
  lp_trace_id :: string
  lp_decision :: string
  lp_model_selected :: "string option"
  lp_usage :: "llm_usage option"
  lp_cost :: "llm_cost option"
  lp_budget_usage :: "llm_budget_usage option"
  lp_budget_effective :: llm_budget_effective
  lp_quota_limit_source :: string
  lp_latency_ms :: int
  lp_policy_context :: llm_policy_context
  lp_route_metadata :: kvs
  lp_error_code :: "string option"
  lp_error_message :: "string option"
  lp_retryable :: bool
  lp_generated_text :: "string option"

record provider_request =
  pq_request_id :: string
  pq_trace_id :: string
  pq_model_alias :: string
  pq_prompt :: string
  pq_max_tokens :: int
  pq_temperature :: rat

record provider_result =
  pr_model_identifier :: string
  pr_content :: string
  pr_input_tokens :: int
  pr_output_tokens :: int
  pr_provider_cost_usd :: "rat option"
  pr_quota_limit_source :: string

text \<open>What a provider raises: its own error, or any other exception.\<close>

datatype provider_failure = LiteLLMProviderError string string bool | ProviderRaised py_exn

section \<open>Guard and routing\<close>

definition validate_llm_request :: "llm_gateway_request \<Rightarrow> (string \<times> string) option" where
  "validate_llm_request r =
     (if py_strip (lr_request_id r) = [] then Some (''llm_missing_request_id'', ''request_id is required'')
      else if py_strip (lr_trace_id r) = [] then Some (''llm_missing_trace_id'', ''trace_id is required'')
      else if py_strip (lr_project_id r) = [] then Some (''llm_missing_project_id'', ''project_id is required'')
      else if lr_max_tokens r \<le> 0 then Some (''llm_invalid_max_tokens'', ''max_tokens must be positive'')
      else if \<not> (0 \<le> lr_temperature r \<and> lr_temperature r \<le> 2) then Some (''llm_invalid_temperature'', ''temperature must be within [0, 2]'')
      else if py_strip (lr_prompt r) = [] then Some (''llm_missing_prompt'', ''messages_or_prompt is required'')
      else if py_strip (px_policy_version (lr_policy_context r)) = [] then Some (''llm_missing_policy_version'', ''policy version is required'')
      else if py_strip (px_policy_hash (lr_policy_context r)) = [] then Some (''llm_missing_policy_hash'', ''policy hash is required'')
      else None)"

record routing_profile =
  rp_profile_id :: string
  rp_status :: string
  rp_model_class_map :: "(string \<times> string list) list"
  rp_max_fallback_hops :: int

definition routing_profiles :: "(string \<times> routing_profile) list" where
  "routing_profiles =
     [(''dev_gemini_free'', \<lparr>rp_profile_id = ''dev_gemini_free'', rp_status = ''active'', rp_model_class_map =
         [(''interactive_fast'', [''google_gemini_free_primary'', ''google_gemini_free_fallback'']),
          (''reasoning_general'', [''google_gemini_free_primary'', ''google_gemini_free_fallback'']),
          (''embedding_text'', [''google_gemini_free_primary''])], rp_max_fallback_hops = 1\<rparr>),
      (''dev_deepseek'', \<lparr>rp_profile_id = ''dev_deepseek'', rp_status = ''active'', rp_model_class_map =
         [(''interactive_fast'', [''deepseek_chat_primary'', ''deepseek_chat_fallback'']),
          (''reasoning_general'', [''deepseek_chat_primary'', ''deepseek_chat_fallback'']),
          (''embedding_text'', [''deepseek_chat_primary''])], rp_max_fallback_hops = 1\<rparr>),
      (''prod_controlled'', \<lparr>rp_profile_id = ''prod_controlled'', rp_status = ''active'', rp_model_class_map =
         [(''interactive_fast'', [''google_gemini_controlled_primary'']),
          (''reasoning_general'', [''google_gemini_controlled_primary'']),
          (''embedding_text'', [''google_gemini_controlled_primary''])], rp_max_fallback_hops = 1\<rparr>)]"

definition resolve_routing_profile :: "string \<Rightarrow> (string \<times> string) + routing_profile" where
  "resolve_routing_profile profile_id =
     (case map_of routing_profiles profile_id of
        None \<Rightarrow> Inl (''llm_unknown_routing_profile'', ''unknown routing profile: '' @ profile_id)
      | Some p \<Rightarrow> if rp_status p \<noteq> ''active'' then Inl (''llm_inactive_routing_profile'', ''inactive routing profile: '' @ profile_id) else Inr p)"

definition select_model_aliases :: "routing_profile \<Rightarrow> string \<Rightarrow> (string \<times> string) + string list" where
  "select_model_aliases p model_class =
     (case map_of (rp_model_class_map p) model_class of
        None \<Rightarrow> Inl (''llm_model_class_unmapped'', ''model class not mapped in profile: '' @ model_class)
      | Some as \<Rightarrow> if as = [] then Inl (''llm_model_class_unmapped'', ''model class not mapped in profile: '' @ model_class) else Inr as)"

section \<open>Accounting\<close>

definition normalize_usage :: "provider_result \<Rightarrow> llm_usage" where
  "normalize_usage p =
     (let i = max 0 (pr_input_tokens p); out = max 0 (pr_output_tokens p)
      in \<lparr>lu_input_tokens = i, lu_output_tokens = out, lu_total_tokens = i + out, lu_request_units = 1\<rparr>)"

definition derive_budget_usage :: "llm_usage \<Rightarrow> rat \<Rightarrow> llm_budget_usage" where
  "derive_budget_usage u delta =
     \<lparr>lb_currency_delta_usd = max 0 (round6 delta), lb_request_units = lu_request_units u, lb_token_units = lu_total_tokens u\<rparr>"

definition estimate_cost :: "string \<Rightarrow> int \<Rightarrow> rat option \<Rightarrow> llm_cost" where
  "estimate_cost model_alias total_tokens provider_cost =
     (case provider_cost of
        Some c \<Rightarrow> \<lparr>lc_estimated_cost_usd = round6 (max 0 c), lc_actual_cost_usd = Some (round6 (max 0 c)), lc_cost_source = ''provider_reported''\<rparr>
      | None \<Rightarrow>
          if py_startswith model_alias ''google_gemini_free_''
          then \<lparr>lc_estimated_cost_usd = 0, lc_actual_cost_usd = Some 0, lc_cost_source = ''none''\<rparr>
          else \<lparr>lc_estimated_cost_usd = round6 (of_int (max 0 total_tokens) * (2 / 1000000)), lc_actual_cost_usd = None,
                lc_cost_source = ''catalog_estimated''\<rparr>)"

section \<open>Providers\<close>

datatype body_json = BNull | BBool bool | BInt int | BFloat rat | BStr string | BList "body_json list" | BObj "(string \<times> body_json) list"

record http_post =
  hp_endpoint :: string
  hp_api_key :: string
  hp_payload :: body_json

datatype http_answer = RequestError string | HttpResponse int "string option" "string + body_json"

record llm_net =
  ln_posts :: "http_post list"
  ln_sleeps :: "rat list"

record llm_env =
  lv_answer :: "http_post list \<Rightarrow> http_post \<Rightarrow> http_answer"
  lv_float :: "string \<Rightarrow> rat option"
  lv_str :: "body_json \<Rightarrow> string"
  lv_elapsed :: rat

type_synonym 'a provider_run = "(provider_failure, 'a, llm_net) run"

definition http_send :: "llm_env \<Rightarrow> http_post \<Rightarrow> llm_net \<Rightarrow> http_answer \<times> llm_net" where
  "http_send env p net = (lv_answer env (ln_posts net) p, net\<lparr>ln_posts := ln_posts net @ [p]\<rparr>)"

definition net_sleep :: "rat \<Rightarrow> llm_net \<Rightarrow> llm_net" where
  "net_sleep d net = net\<lparr>ln_sleeps := ln_sleeps net @ [d]\<rparr>"

text \<open>
  The loop of both HTTP adapters: the body of the first response that is not transient. The first number is the
  number of passes left, the second the attempt.
\<close>

fun post_loop :: "llm_env \<Rightarrow> string \<Rightarrow> (http_answer \<Rightarrow> nat \<Rightarrow> rat) \<Rightarrow> int \<Rightarrow> http_post \<Rightarrow> nat \<Rightarrow> nat \<Rightarrow> llm_net \<Rightarrow> (string + body_json) option provider_run" where
  "post_loop env name delay max_retries p 0 attempt net = (Inr None, net)"
| "post_loop env name delay max_retries p (Suc n) attempt net =
     (case http_send env p net of (a, net1) \<Rightarrow>
        (case a of
           RequestError m \<Rightarrow>
             if int attempt < max_retries then post_loop env name delay max_retries p n (Suc attempt) (net_sleep (delay a attempt) net1)
             else (Inl (LiteLLMProviderError ''llm_provider_unavailable'' (name @ '' request failed: '' @ m) True), net1)
         | HttpResponse status _ body \<Rightarrow>
             if status = 429 \<or> status \<ge> 500
             then (if int attempt < max_retries then post_loop env name delay max_retries p n (Suc attempt) (net_sleep (delay a attempt) net1)
                   else (Inl (LiteLLMProviderError ''llm_provider_unavailable'' (name @ '' transient failure: http '' @ show_int status) True), net1))
             else if status \<ge> 400
             then (Inl (LiteLLMProviderError ''llm_provider_rejected'' (name @ '' rejected request: http '' @ show_int status) False), net1)
             else (Inr (Some body), net1)))"

definition post_with_retries :: "llm_env \<Rightarrow> string \<Rightarrow> (http_answer \<Rightarrow> nat \<Rightarrow> rat) \<Rightarrow> int \<Rightarrow> http_post \<Rightarrow> llm_net \<Rightarrow> body_json provider_run" where
  "post_with_retries env name delay max_retries p net =
     and_then (post_loop env name delay max_retries p (nat (max_retries + 1)) 0 net) (\<lambda>r net1.
       case r of
         None \<Rightarrow> (Inl (LiteLLMProviderError ''llm_provider_unavailable'' (name @ '' request failed without response'') True), net1)
       | Some (Inl m) \<Rightarrow> (Inl (LiteLLMProviderError ''llm_provider_invalid_response'' (name @ '' response is not valid json: '' @ m) False), net1)
       | Some (Inr body) \<Rightarrow> (Inr body, net1))"

definition exponential_delay :: "rat \<Rightarrow> rat \<Rightarrow> nat \<Rightarrow> rat" where
  "exponential_delay base max_delay attempt = min (max 0 (base * 2 ^ attempt)) max_delay"

text \<open>\<^verbatim>\<open>body.get(k)\<close> on a value that need not be an object; \<^verbatim>\<open>isinstance(v, Mapping)\<close>.\<close>

fun body_get :: "body_json \<Rightarrow> string \<Rightarrow> provider_failure + body_json" where
  "body_get (BObj d) k = Inr (case dict_get d k of None \<Rightarrow> BNull | Some v \<Rightarrow> v)"
| "body_get _ k = Inl (ProviderRaised (OtherExn ''AttributeError''))"

definition entry :: "(string \<times> body_json) list \<Rightarrow> string \<Rightarrow> body_json" where
  "entry d k = (case dict_get d k of None \<Rightarrow> BNull | Some v \<Rightarrow> v)"

fun as_nonnegative_int :: "body_json \<Rightarrow> int option" where
  "as_nonnegative_int (BInt i) = (if i < 0 then None else Some i)"
| "as_nonnegative_int (BBool b) = Some (if b then 1 else 0)"
| "as_nonnegative_int _ = None"

fun body_truthy :: "body_json \<Rightarrow> bool" where
  "body_truthy BNull = False"
| "body_truthy (BBool b) = b"
| "body_truthy (BInt i) = (i \<noteq> 0)"
| "body_truthy (BFloat x) = (x \<noteq> 0)"
| "body_truthy (BStr s) = (s \<noteq> [])"
| "body_truthy (BList xs) = (xs \<noteq> [])"
| "body_truthy (BObj d) = (d \<noteq> [])"

fun body_str :: "llm_env \<Rightarrow> body_json \<Rightarrow> string" where
  "body_str env (BStr s) = s"
| "body_str env v = lv_str env v"

definition invalid_response :: "string \<Rightarrow> provider_failure" where
  "invalid_response m = LiteLLMProviderError ''llm_provider_invalid_response'' m False"

definition usage_unavailable :: "string \<Rightarrow> provider_failure" where
  "usage_unavailable m = LiteLLMProviderError ''llm_provider_usage_unavailable'' m False"

definition usage_counts :: "(string \<times> body_json) list \<Rightarrow> string \<Rightarrow> string \<Rightarrow> provider_failure \<Rightarrow> provider_failure + (int \<times> int)" where
  "usage_counts d k1 k2 e =
     (case (as_nonnegative_int (entry d k1), as_nonnegative_int (entry d k2)) of (Some i, Some out) \<Rightarrow> Inr (i, out) | _ \<Rightarrow> Inl e)"

subsection \<open>The local adapter\<close>

definition local_complete :: "provider_request \<Rightarrow> llm_net \<Rightarrow> provider_result provider_run" where
  "local_complete q net =
     (if py_contains (pq_prompt q) ''llm_hard_fail''
      then (Inl (LiteLLMProviderError ''llm_provider_rejected'' ''provider rejected llm request'' False), net)
      else if py_contains (pq_prompt q) ''llm_runtime_error''
      then (Inl (LiteLLMProviderError ''llm_provider_unavailable'' ''provider unavailable'' True), net)
      else if py_contains (pq_prompt q) ''llm_fallback_once'' \<and> py_startswith (rev (pq_model_alias q)) (rev ''_primary'')
      then (Inl (LiteLLMProviderError ''llm_provider_primary_failed'' ''primary route failed; fallback required'' True), net)
      else (Inr \<lparr>pr_model_identifier = ''gemini/'' @ pq_model_alias q, pr_content = ''simulated completion for '' @ pq_model_alias q,
                 pr_input_tokens = max 1 (int (length (py_split_ws (pq_prompt q))) * 4), pr_output_tokens = max 1 (min (pq_max_tokens q) 48),
                 pr_provider_cost_usd = None, pr_quota_limit_source = ''policy_guardrail''\<rparr>, net))"

subsection \<open>The Gemini adapter\<close>

record gemini_config =
  gm_api_key :: "string option"
  gm_base_url :: string
  gm_model_alias_map :: kvs
  gm_max_retries :: int
  gm_retry_base_delay :: rat
  gm_retry_max_delay :: rat

record gemini_settings =
  gs_api_key :: "string option"
  gs_base_url :: string
  gs_primary_model :: string
  gs_fallback_model :: string
  gs_max_retries :: int
  gs_retry_base_delay :: rat
  gs_retry_max_delay :: rat

definition rstrip_slash :: "string \<Rightarrow> string" where
  "rstrip_slash s = rev (dropWhile (\<lambda>c. c = CHR ''/'') (rev s))"

definition gemini_from_settings :: "gemini_settings \<Rightarrow> gemini_config" where
  "gemini_from_settings s = \<lparr>gm_api_key = gs_api_key s, gm_base_url = rstrip_slash (gs_base_url s),
     gm_model_alias_map = [(''google_gemini_free_primary'', gs_primary_model s), (''google_gemini_free_fallback'', gs_fallback_model s)],
     gm_max_retries = max 0 (gs_max_retries s), gm_retry_base_delay = max 0 (gs_retry_base_delay s),
     gm_retry_max_delay = max 0 (gs_retry_max_delay s)\<rparr>"

definition parse_retry_after :: "llm_env \<Rightarrow> http_answer \<Rightarrow> rat option" where
  "parse_retry_after env a =
     (case a of
        RequestError _ \<Rightarrow> None
      | HttpResponse _ header _ \<Rightarrow>
          (case header of None \<Rightarrow> None | Some v \<Rightarrow>
             (case lv_float env (py_strip v) of None \<Rightarrow> None | Some x \<Rightarrow> if x < 0 then None else Some x)))"

definition gemini_delay :: "llm_env \<Rightarrow> gemini_config \<Rightarrow> http_answer \<Rightarrow> nat \<Rightarrow> rat" where
  "gemini_delay env cfg a attempt =
     (case parse_retry_after env a of
        Some d \<Rightarrow> min (max 0 d) (gm_retry_max_delay cfg)
      | None \<Rightarrow> exponential_delay (gm_retry_base_delay cfg) (gm_retry_max_delay cfg) attempt)"

definition gemini_text :: "body_json \<Rightarrow> provider_failure + string" where
  "gemini_text body =
     (case body_get body ''candidates'' of Inl e \<Rightarrow> Inl e | Inr candidates \<Rightarrow>
     (case candidates of
        BList (first # _) \<Rightarrow>
          (case first of
             BObj c \<Rightarrow>
               (case entry c ''content'' of
                  BObj content \<Rightarrow>
                    (case entry content ''parts'' of
                       BList (part # _) \<Rightarrow>
                         (case part of
                            BObj pt \<Rightarrow>
                              (case entry pt ''text'' of
                                 BStr t \<Rightarrow> if py_strip t = [] then Inl (invalid_response ''gemini response text is missing'') else Inr (py_strip t)
                               | _ \<Rightarrow> Inl (invalid_response ''gemini response text is missing''))
                          | _ \<Rightarrow> Inl (invalid_response ''gemini first part payload is invalid''))
                     | _ \<Rightarrow> Inl (invalid_response ''gemini candidate parts are missing''))
                | _ \<Rightarrow> Inl (invalid_response ''gemini candidate content payload is invalid''))
           | _ \<Rightarrow> Inl (invalid_response ''gemini candidate payload is invalid''))
      | _ \<Rightarrow> Inl (invalid_response ''gemini response missing candidates'')))"

definition gemini_usage :: "body_json \<Rightarrow> provider_failure + (int \<times> int)" where
  "gemini_usage body =
     (case body_get body ''usageMetadata'' of
        Inl e \<Rightarrow> Inl e
      | Inr (BObj d) \<Rightarrow> usage_counts d ''promptTokenCount'' ''candidatesTokenCount'' (usage_unavailable ''gemini usage metadata incomplete'')
      | Inr _ \<Rightarrow> Inl (usage_unavailable ''gemini usage metadata missing''))"

definition gemini_payload :: "provider_request \<Rightarrow> body_json" where
  "gemini_payload q = BObj [(''contents'', BList [BObj [(''parts'', BList [BObj [(''text'', BStr (pq_prompt q))]])]]),
     (''generationConfig'', BObj [(''temperature'', BFloat (pq_temperature q)), (''maxOutputTokens'', BInt (pq_max_tokens q))])]"

definition gemini_read :: "llm_env \<Rightarrow> string \<Rightarrow> body_json \<Rightarrow> provider_failure + provider_result" where
  "gemini_read env model_id body =
     (case gemini_text body of Inl e \<Rightarrow> Inl e | Inr content \<Rightarrow>
     (case gemini_usage body of Inl e \<Rightarrow> Inl e | Inr (i, out) \<Rightarrow>
     (case body_get body ''modelVersion'' of Inl e \<Rightarrow> Inl e | Inr v \<Rightarrow>
        Inr \<lparr>pr_model_identifier = ''gemini/'' @ (if body_truthy v then body_str env v else model_id), pr_content = content,
             pr_input_tokens = i, pr_output_tokens = out, pr_provider_cost_usd = None, pr_quota_limit_source = ''provider_config''\<rparr>)))"

definition gemini_complete :: "llm_env \<Rightarrow> gemini_config \<Rightarrow> provider_request \<Rightarrow> llm_net \<Rightarrow> provider_result provider_run" where
  "gemini_complete env cfg q net =
     (case map_of (gm_model_alias_map cfg) (pq_model_alias q) of
        None \<Rightarrow> (Inl (LiteLLMProviderError ''llm_model_alias_unmapped'' (''unmapped gemini alias: '' @ pq_model_alias q) False), net)
      | Some model_id \<Rightarrow>
          (let api_key = py_strip (or_str (gm_api_key cfg) [])
           in if api_key = [] then (Inl (LiteLLMProviderError ''llm_provider_misconfigured'' ''gemini api key is missing'' False), net)
              else and_then (post_with_retries env ''gemini'' (gemini_delay env cfg) (gm_max_retries cfg)
                     \<lparr>hp_endpoint = gm_base_url cfg @ ''/models/'' @ model_id @ '':generateContent'', hp_api_key = api_key, hp_payload = gemini_payload q\<rparr> net)
                (\<lambda>body net1. (gemini_read env model_id body, net1))))"

subsection \<open>The DeepSeek adapter\<close>

record deepseek_config =
  ds_api_key :: "string option"
  ds_base_url :: string
  ds_model :: string
  ds_max_retries :: int
  ds_retry_base_delay :: rat
  ds_retry_max_delay :: rat

definition deepseek_from_settings :: "deepseek_config \<Rightarrow> deepseek_config" where
  "deepseek_from_settings s = s\<lparr>ds_base_url := rstrip_slash (ds_base_url s), ds_max_retries := max 0 (ds_max_retries s),
     ds_retry_base_delay := max 0 (ds_retry_base_delay s), ds_retry_max_delay := max 0 (ds_retry_max_delay s)\<rparr>"

definition deepseek_text :: "body_json \<Rightarrow> provider_failure + string" where
  "deepseek_text body =
     (case body_get body ''choices'' of Inl e \<Rightarrow> Inl e | Inr choices \<Rightarrow>
     (case choices of
        BList (first # _) \<Rightarrow>
          (case first of
             BObj c \<Rightarrow>
               (case entry c ''message'' of
                  BObj m \<Rightarrow>
                    (case entry m ''content'' of
                       BStr t \<Rightarrow> if py_strip t = [] then Inl (invalid_response ''deepseek response text is missing'') else Inr (py_strip t)
                     | _ \<Rightarrow> Inl (invalid_response ''deepseek response text is missing''))
                | _ \<Rightarrow> Inl (invalid_response ''deepseek message payload is invalid''))
           | _ \<Rightarrow> Inl (invalid_response ''deepseek choice payload is invalid''))
      | _ \<Rightarrow> Inl (invalid_response ''deepseek response missing choices'')))"

definition deepseek_usage :: "body_json \<Rightarrow> provider_failure + (int \<times> int)" where
  "deepseek_usage body =
     (case body_get body ''usage'' of
        Inl e \<Rightarrow> Inl e
      | Inr (BObj d) \<Rightarrow> usage_counts d ''prompt_tokens'' ''completion_tokens'' (invalid_response ''deepseek usage payload is incomplete'')
      | Inr _ \<Rightarrow> Inl (invalid_response ''deepseek usage payload is missing''))"

definition deepseek_payload :: "deepseek_config \<Rightarrow> provider_request \<Rightarrow> body_json" where
  "deepseek_payload cfg q = BObj [(''model'', BStr (ds_model cfg)),
     (''messages'', BList [BObj [(''role'', BStr ''user''), (''content'', BStr (pq_prompt q))]]),
     (''max_tokens'', BInt (pq_max_tokens q)), (''temperature'', BFloat (pq_temperature q))]"

definition deepseek_delay :: "deepseek_config \<Rightarrow> http_answer \<Rightarrow> nat \<Rightarrow> rat" where
  "deepseek_delay cfg a attempt = exponential_delay (ds_retry_base_delay cfg) (ds_retry_max_delay cfg) attempt"

definition deepseek_read :: "deepseek_config \<Rightarrow> body_json \<Rightarrow> provider_failure + provider_result" where
  "deepseek_read cfg body =
     (case deepseek_text body of Inl e \<Rightarrow> Inl e | Inr content \<Rightarrow>
     (case deepseek_usage body of Inl e \<Rightarrow> Inl e | Inr (i, out) \<Rightarrow>
        Inr \<lparr>pr_model_identifier = ''deepseek/'' @ ds_model cfg, pr_content = content, pr_input_tokens = i, pr_output_tokens = out,
             pr_provider_cost_usd = None, pr_quota_limit_source = ''provider_config''\<rparr>))"

definition deepseek_complete :: "llm_env \<Rightarrow> deepseek_config \<Rightarrow> provider_request \<Rightarrow> llm_net \<Rightarrow> provider_result provider_run" where
  "deepseek_complete env cfg q net =
     (let api_key = py_strip (or_str (ds_api_key cfg) [])
      in if api_key = [] then (Inl (LiteLLMProviderError ''llm_provider_misconfigured'' ''deepseek api key is missing'' False), net)
         else and_then (post_with_retries env ''deepseek'' (deepseek_delay cfg) (ds_max_retries cfg)
                \<lparr>hp_endpoint = ds_base_url cfg @ ''/chat/completions'', hp_api_key = api_key, hp_payload = deepseek_payload cfg q\<rparr> net)
           (\<lambda>body net1. (deepseek_read cfg body, net1)))"

section \<open>The service\<close>

definition budget_effective :: "llm_gateway_request \<Rightarrow> llm_budget_effective" where
  "budget_effective r = \<lparr>le_allocation_mode = bx_allocation_mode (lr_budget_context r),
     le_project_share_ratio = bx_project_share_ratio (lr_budget_context r),
     le_effective_budget = or_str (bx_effective_budget_window (lr_budget_context r)) ''window-unspecified''\<rparr>"

definition elapsed_ms :: "llm_env \<Rightarrow> int" where
  "elapsed_ms env = max 0 (if lv_elapsed env < 0 then - \<lfloor>- (lv_elapsed env * 1000)\<rfloor> else \<lfloor>lv_elapsed env * 1000\<rfloor>)"

definition llm_denied ::
  "llm_env \<Rightarrow> llm_gateway_request \<Rightarrow> string option \<Rightarrow> string \<Rightarrow> kvs \<Rightarrow> string \<Rightarrow> string \<Rightarrow> bool \<Rightarrow> llm_gateway_response" where
  "llm_denied env r model quota_source metadata code message retryable =
     \<lparr>lp_request_id = lr_request_id r, lp_trace_id = lr_trace_id r, lp_decision = ''denied'', lp_model_selected = model, lp_usage = None,
      lp_cost = None, lp_budget_usage = None, lp_budget_effective = budget_effective r, lp_quota_limit_source = quota_source,
      lp_latency_ms = elapsed_ms env, lp_policy_context = lr_policy_context r, lp_route_metadata = metadata, lp_error_code = Some code,
      lp_error_message = Some message, lp_retryable = retryable, lp_generated_text = None\<rparr>"

definition normalize_quota_limit_source :: "string \<Rightarrow> string" where
  "normalize_quota_limit_source v = (if v \<in> {''policy_guardrail'', ''provider_config'', ''provider_signal''} then v else ''policy_guardrail'')"

definition llm_served :: "llm_env \<Rightarrow> llm_gateway_request \<Rightarrow> nat \<Rightarrow> string \<Rightarrow> provider_result \<Rightarrow> llm_gateway_response" where
  "llm_served env r index model_alias p =
     (let usage = normalize_usage p; cost = estimate_cost model_alias (lu_total_tokens usage) (pr_provider_cost_usd p);
          delta = (case lc_actual_cost_usd cost of Some c \<Rightarrow> c | None \<Rightarrow> lc_estimated_cost_usd cost)
      in \<lparr>lp_request_id = lr_request_id r, lp_trace_id = lr_trace_id r, lp_decision = (if index = 0 then ''served'' else ''fallback_served''),
          lp_model_selected = Some (pr_model_identifier p), lp_usage = Some usage, lp_cost = Some cost,
          lp_budget_usage = Some (derive_budget_usage usage delta), lp_budget_effective = budget_effective r,
          lp_quota_limit_source = normalize_quota_limit_source (pr_quota_limit_source p), lp_latency_ms = elapsed_ms env,
          lp_policy_context = lr_policy_context r,
          lp_route_metadata = [(''routing_profile'', lr_routing_profile r), (''fallback_hops'', show_nat index),
            (''route_reason'', if index = 0 then ''primary'' else ''fallback'')],
          lp_error_code = None, lp_error_message = None, lp_retryable = False, lp_generated_text = Some (pr_content p)\<rparr>)"

definition provider_call :: "llm_gateway_request \<Rightarrow> string \<Rightarrow> provider_request" where
  "provider_call r model_alias = \<lparr>pq_request_id = lr_request_id r, pq_trace_id = lr_trace_id r, pq_model_alias = model_alias, pq_prompt = lr_prompt r,
     pq_max_tokens = lr_max_tokens r, pq_temperature = lr_temperature r\<rparr>"

fun try_aliases ::
  "llm_env \<Rightarrow> (provider_request \<Rightarrow> llm_net \<Rightarrow> provider_result provider_run) \<Rightarrow> llm_gateway_request \<Rightarrow> int \<Rightarrow> nat \<Rightarrow> string list \<Rightarrow> llm_net \<Rightarrow>
   (py_exn, llm_gateway_response, llm_net) run" where
  "try_aliases env provider r limit index [] net =
     (Inr (llm_denied env r None ''provider_signal'' [(''routing_profile'', lr_routing_profile r)] ''llm_route_exhausted''
        ''all configured llm routes exhausted'' False), net)"
| "try_aliases env provider r limit index (model_alias # as) net =
     (if int index > limit
      then (Inr (llm_denied env r None ''provider_signal'' [(''routing_profile'', lr_routing_profile r)] ''llm_route_exhausted''
              ''all configured llm routes exhausted'' False), net)
      else case provider (provider_call r model_alias) net of
             (Inr p, net1) \<Rightarrow> (Inr (llm_served env r index model_alias p), net1)
           | (Inl (ProviderRaised x), net1) \<Rightarrow> (Inl x, net1)
           | (Inl (LiteLLMProviderError code m retryable), net1) \<Rightarrow>
               if int index < limit \<and> retryable then try_aliases env provider r limit (Suc index) as net1
               else (Inr (llm_denied env r (Some model_alias) ''provider_signal''
                       [(''routing_profile'', lr_routing_profile r), (''fallback_hops'', show_nat index), (''route_reason'', ''provider_failure_terminal'')]
                       code m retryable), net1))"

text \<open>The guard, the profile and its aliases, or the first error.\<close>

definition llm_route :: "llm_gateway_request \<Rightarrow> (string \<times> string) + (routing_profile \<times> string list)" where
  "llm_route r =
     (case validate_llm_request r of Some e \<Rightarrow> Inl e | None \<Rightarrow>
     (case resolve_routing_profile (lr_routing_profile r) of Inl e \<Rightarrow> Inl e | Inr p \<Rightarrow>
     (case select_model_aliases p (lr_model_class r) of Inl e \<Rightarrow> Inl e | Inr as \<Rightarrow> Inr (p, as))))"

definition llm_complete ::
  "llm_env \<Rightarrow> (provider_request \<Rightarrow> llm_net \<Rightarrow> provider_result provider_run) \<Rightarrow> llm_gateway_request \<Rightarrow> llm_net \<Rightarrow> (py_exn, llm_gateway_response, llm_net) run" where
  "llm_complete env provider r net =
     (case llm_route r of
        Inl (code, m) \<Rightarrow> (Inr (llm_denied env r None ''policy_guardrail'' [(''routing_profile'', lr_routing_profile r)] code m False), net)
      | Inr (p, as) \<Rightarrow> try_aliases env provider r (min (int (length as) - 1) (rp_max_fallback_hops p)) 0 as net)"

section \<open>The interface of a provider\<close>

text \<open>
  A provider sends at most \<open>posts\<close> requests for a call, sleeps between zero and \<open>cap\<close> seconds at a time, and what it returns has
  a text and counts that are not negative.
\<close>

definition net_within :: "nat \<Rightarrow> rat \<Rightarrow> llm_net \<Rightarrow> llm_net \<Rightarrow> bool" where
  "net_within posts cap net net' = (\<exists>ps ds. ln_posts net' = ln_posts net @ ps \<and> length ps \<le> posts \<and>
     ln_sleeps net' = ln_sleeps net @ ds \<and> list_all (\<lambda>d. 0 \<le> d \<and> d \<le> cap) ds)"

lemma net_within_refl [simp]: "net_within n cap net net"
  by (simp add: net_within_def)

lemma net_within_trans:
  assumes "net_within m cap net net1" "net_within n cap net1 net2"
  shows "net_within (m + n) cap net net2"
proof -
  from assms obtain p1 d1 p2 d2 where
    "ln_posts net1 = ln_posts net @ p1" "length p1 \<le> m" "ln_sleeps net1 = ln_sleeps net @ d1" "list_all (\<lambda>d. 0 \<le> d \<and> d \<le> cap) d1"
    "ln_posts net2 = ln_posts net1 @ p2" "length p2 \<le> n" "ln_sleeps net2 = ln_sleeps net1 @ d2" "list_all (\<lambda>d. 0 \<le> d \<and> d \<le> cap) d2"
    unfolding net_within_def by blast
  then show ?thesis unfolding net_within_def by (intro exI [of _ "p1 @ p2"] exI [of _ "d1 @ d2"]) simp
qed

lemma net_within_mono: "net_within m cap net net' \<Longrightarrow> m \<le> n \<Longrightarrow> net_within n cap net net'"
  unfolding net_within_def by fastforce

definition result_sound :: "provider_result \<Rightarrow> bool" where
  "result_sound p = (0 \<le> pr_input_tokens p \<and> 0 \<le> pr_output_tokens p \<and> pr_content p \<noteq> [] \<and> pr_provider_cost_usd p = None)"

locale llm_provider =
  fixes complete :: "provider_request \<Rightarrow> llm_net \<Rightarrow> provider_result provider_run" and posts :: nat and cap :: rat
  assumes result_ok: "complete q net = (Inr p, net') \<Longrightarrow> result_sound p"
    and net_bound: "net_within posts cap net (snd (complete q net))"
begin

lemma try_within: "net_within (length as * posts) cap net (snd (try_aliases env complete r limit index as net))"
proof (induction as arbitrary: index net)
  case (Cons a as)
  obtain q net1 where c: "complete (provider_call r a) net = (q, net1)" by fastforce
  then have w: "net_within posts cap net net1" using net_bound [of net "provider_call r a"] by simp
  have fin: "net_within (length (a # as) * posts) cap net net1" by (rule net_within_mono [OF w]) simp
  have more: "net_within (length (a # as) * posts) cap net (snd (try_aliases env complete r limit (Suc index) as net1))"
    using net_within_trans [OF w Cons.IH [of net1 "Suc index"]] by simp
  show ?case using c fin more by (cases q) (auto split: provider_failure.split)
qed simp

text \<open>What is answered as served comes from the provider, with its counts.\<close>

lemma try_served:
  assumes "try_aliases env complete r limit index as net = (Inr resp, net')" "lp_decision resp \<noteq> ''denied''"
  shows "\<exists>a\<in>set as. \<exists>k net0 p. complete (provider_call r a) net0 = (Inr p, net') \<and> resp = llm_served env r k a p \<and> result_sound p"
  using assms
proof (induction as arbitrary: index net)
  case Nil
  then show ?case by (auto simp: llm_denied_def)
next
  case (Cons a as)
  obtain q net1 where c: "complete (provider_call r a) net = (q, net1)" by fastforce
  show ?case
  proof (cases q)
    case (Inl f)
    then have "try_aliases env complete r limit (Suc index) as net1 = (Inr resp, net')"
      using Cons.prems c by (auto simp: llm_denied_def split: provider_failure.splits if_splits)
    from Cons.IH [OF this Cons.prems(2)] show ?thesis unfolding list.set(2) by blast
  next
    case (Inr p)
    then have r: "resp = llm_served env r index a p" "net' = net1" using Cons.prems c by (auto simp: llm_denied_def split: if_splits)
    have "result_sound p" using result_ok [of "provider_call r a" net p net1] c Inr by simp
    then show ?thesis using r c Inr by auto
  qed
qed

end

section \<open>Lemmas\<close>

lemma local_result:
  "local_complete q net = (Inr p, net') \<Longrightarrow> result_sound p"
  by (auto simp: local_complete_def result_sound_def split: if_splits)

lemma local_net: "snd (local_complete q net) = net"
  by (simp add: local_complete_def)

interpretation local_provider: llm_provider local_complete 0 0
  by unfold_locales (rule local_result, assumption, simp add: local_net)

lemma post_loop_within:
  assumes "\<And>a k. 0 \<le> delay a k \<and> delay a k \<le> cap"
  shows "net_within n cap net (snd (post_loop env name delay m p n k net))"
proof (induction n arbitrary: k net)
  case (Suc n)
  obtain a net1 where a: "http_send env p net = (a, net1)" by fastforce
  then have net1: "net1 = net\<lparr>ln_posts := ln_posts net @ [p]\<rparr>" by (simp add: http_send_def)
  have one: "net_within 1 cap net net1" "net_within 1 cap net (net_sleep (delay a k) net1)"
    using assms by (simp_all add: net1 net_within_def net_sleep_def)
  have "net_within (Suc n) cap net (snd (post_loop env name delay m p n (Suc k) (net_sleep (delay a k) net1)))"
    using net_within_trans [OF one(2) Suc.IH [of "net_sleep (delay a k) net1" "Suc k"]] by simp
  moreover have "net_within (Suc n) cap net net1" by (rule net_within_mono [OF one(1)]) simp
  ultimately show ?case using a by (cases a) auto
qed simp

lemma post_with_retries_within:
  assumes "\<And>a k. 0 \<le> delay a k \<and> delay a k \<le> cap"
  shows "net_within (nat (m + 1)) cap net (snd (post_with_retries env name delay m p net))"
proof -
  let ?r = "post_loop env name delay m p (nat (m + 1)) 0 net"
  have "snd (post_with_retries env name delay m p net) = snd ?r"
    by (cases ?r; cases "fst ?r") (auto simp: post_with_retries_def split: option.split sum.split)
  then show ?thesis using post_loop_within [OF assms] by simp
qed

lemma exponential_delay_bounds: "0 \<le> cap \<Longrightarrow> 0 \<le> exponential_delay base cap k \<and> exponential_delay base cap k \<le> cap"
  by (simp add: exponential_delay_def)

lemma gemini_delay_bounds: "0 \<le> gm_retry_max_delay cfg \<Longrightarrow> 0 \<le> gemini_delay env cfg a k \<and> gemini_delay env cfg a k \<le> gm_retry_max_delay cfg"
  by (auto simp: gemini_delay_def exponential_delay_bounds split: option.split)

lemma usage_counts_nonneg: "usage_counts d k1 k2 e = Inr (i, out) \<Longrightarrow> 0 \<le> i \<and> 0 \<le> out"
proof -
  have "as_nonnegative_int v = Some j \<Longrightarrow> 0 \<le> j" for v j by (cases v) (auto split: if_splits)
  then show "usage_counts d k1 k2 e = Inr (i, out) \<Longrightarrow> ?thesis" by (auto simp: usage_counts_def split: option.splits)
qed

lemma gemini_usage_nonneg: "gemini_usage body = Inr (i, out) \<Longrightarrow> 0 \<le> i \<and> 0 \<le> out"
  by (auto simp: gemini_usage_def dest: usage_counts_nonneg split: sum.splits body_json.splits)

lemma deepseek_usage_nonneg: "deepseek_usage body = Inr (i, out) \<Longrightarrow> 0 \<le> i \<and> 0 \<le> out"
  by (auto simp: deepseek_usage_def dest: usage_counts_nonneg split: sum.splits body_json.splits)

lemma gemini_text_nonempty: "gemini_text body = Inr t \<Longrightarrow> t \<noteq> []"
  by (auto simp: gemini_text_def split: sum.splits body_json.splits list.splits if_splits)

lemma deepseek_text_nonempty: "deepseek_text body = Inr t \<Longrightarrow> t \<noteq> []"
  by (auto simp: deepseek_text_def split: sum.splits body_json.splits list.splits if_splits)

lemma gemini_read_sound: "gemini_read env m body = Inr p \<Longrightarrow> result_sound p"
  unfolding gemini_read_def result_sound_def
  by (auto dest: gemini_usage_nonneg gemini_text_nonempty split: sum.splits prod.splits)

lemma deepseek_read_sound: "deepseek_read cfg body = Inr p \<Longrightarrow> result_sound p"
  unfolding deepseek_read_def result_sound_def
  by (auto dest: deepseek_usage_nonneg deepseek_text_nonempty split: sum.splits prod.splits)

lemma gemini_result: "gemini_complete env cfg q net = (Inr p, net') \<Longrightarrow> result_sound p"
  by (auto simp: gemini_complete_def Let_def and_then_Inr dest: gemini_read_sound split: option.splits if_splits)

lemma deepseek_result: "deepseek_complete env cfg q net = (Inr p, net') \<Longrightarrow> result_sound p"
  by (auto simp: deepseek_complete_def Let_def and_then_Inr dest: deepseek_read_sound split: if_splits)

text \<open>A continuation that only reads the state.\<close>

lemma and_then_reads: "(\<And>x s. snd (f x s) = s) \<Longrightarrow> snd (and_then r f) = snd r"
  by (cases r; cases "fst r") auto

lemma gemini_within:
  assumes "0 \<le> gm_retry_max_delay cfg"
  shows "net_within (nat (gm_max_retries cfg + 1)) (gm_retry_max_delay cfg) net (snd (gemini_complete env cfg q net))"
  using post_with_retries_within [OF gemini_delay_bounds [OF assms]]
  by (auto simp: gemini_complete_def Let_def and_then_reads split: option.split sum.split prod.split)

lemma deepseek_within:
  assumes "0 \<le> ds_retry_max_delay cfg"
  shows "net_within (nat (ds_max_retries cfg + 1)) (ds_retry_max_delay cfg) net (snd (deepseek_complete env cfg q net))"
  using post_with_retries_within [where delay = "deepseek_delay cfg" and cap = "ds_retry_max_delay cfg"] exponential_delay_bounds [OF assms]
  by (auto simp: deepseek_complete_def deepseek_delay_def Let_def and_then_reads split: sum.split prod.split)

interpretation gemini: llm_provider "gemini_complete env (gemini_from_settings s)" "nat (max 0 (gs_max_retries s) + 1)" "max 0 (gs_retry_max_delay s)" for env s
  using gemini_within [of "gemini_from_settings s" _ env]
  by unfold_locales (rule gemini_result, assumption, simp add: gemini_from_settings_def)

interpretation deepseek: llm_provider "deepseek_complete env (deepseek_from_settings s)" "nat (max 0 (ds_max_retries s) + 1)" "max 0 (ds_retry_max_delay s)" for env s
  using deepseek_within [of "deepseek_from_settings s" _ env]
  by unfold_locales (rule deepseek_result, assumption, simp add: deepseek_from_settings_def)

lemma llm_route_aliases:
  assumes "llm_route r = Inr (p, as)"
  shows "length as \<le> 2" "as \<noteq> []" "validate_llm_request r = None"
proof -
  have table: "list_all (\<lambda>(_, p). list_all (\<lambda>(_, as). length as \<le> 2) (rp_model_class_map p)) routing_profiles" by code_simp
  have "map_of routing_profiles (lr_routing_profile r) = Some p" and m: "map_of (rp_model_class_map p) (lr_model_class r) = Some as"
    and "as \<noteq> []" "validate_llm_request r = None"
    using assms by (auto simp: llm_route_def resolve_routing_profile_def select_model_aliases_def split: option.splits sum.splits if_splits)
  then have "(lr_routing_profile r, p) \<in> set routing_profiles" "(lr_model_class r, as) \<in> set (rp_model_class_map p)" by (auto dest: map_of_SomeD)
  then show "length as \<le> 2" using table by (fastforce simp: list_all_iff)
  show "as \<noteq> []" "validate_llm_request r = None" by fact+
qed

lemma llm_complete_within:
  assumes "llm_provider provider posts cap"
  shows "net_within (2 * posts) cap net (snd (llm_complete env provider r net))"
proof (cases "llm_route r")
  case (Inr x)
  obtain p as where x: "x = (p, as)" by fastforce
  have "length as * posts \<le> 2 * posts" using llm_route_aliases(1) [of r p as] Inr x by simp
  then show ?thesis using net_within_mono [OF llm_provider.try_within [OF assms]] Inr x by (simp add: llm_complete_def)
qed (simp add: llm_complete_def split: prod.split)

section \<open>Properties\<close>

text \<open>
  One completion over the Gemini service sends at most twice the number of attempts that the settings allow, whatever the service
  answers, and every delay between attempts lies between zero and the configured maximum, whatever \<^verbatim>\<open>Retry-After\<close> asks for.
\<close>

theorem gemini_completion_bounded:
  "\<exists>ps ds. ln_posts (snd (llm_complete env (gemini_complete env (gemini_from_settings s)) r net)) = ln_posts net @ ps \<and>
     length ps \<le> 2 * nat (max 0 (gs_max_retries s) + 1) \<and>
     ln_sleeps (snd (llm_complete env (gemini_complete env (gemini_from_settings s)) r net)) = ln_sleeps net @ ds \<and>
     list_all (\<lambda>d. 0 \<le> d \<and> d \<le> max 0 (gs_retry_max_delay s)) ds"
  using llm_complete_within [OF gemini.llm_provider_axioms] unfolding net_within_def .

text \<open>
  C23: an answer of the gateway is one the provider gave to a governed request. If a completion is not denied, the request passed the guard,
  its profile and model class are in the routing table, and text and token counts are those that the provider returned for one of the
  aliases of the class; the total is their sum, and the budget is charged exactly these tokens for one request.
\<close>

theorem served_answer_from_provider:
  assumes "llm_complete env (gemini_complete env (gemini_from_settings s)) r net = (Inr resp, net')" "lp_decision resp \<noteq> ''denied''"
  shows "validate_llm_request r = None \<and>
    (\<exists>p as a net0 res. llm_route r = Inr (p, as) \<and> a \<in> set as \<and>
       gemini_complete env (gemini_from_settings s) (provider_call r a) net0 = (Inr res, net') \<and>
       lp_generated_text resp = Some (pr_content res) \<and> pr_content res \<noteq> [] \<and>
       lp_usage resp = Some \<lparr>lu_input_tokens = pr_input_tokens res, lu_output_tokens = pr_output_tokens res,
         lu_total_tokens = pr_input_tokens res + pr_output_tokens res, lu_request_units = 1\<rparr> \<and>
       map_option lb_token_units (lp_budget_usage resp) = Some (pr_input_tokens res + pr_output_tokens res))"
proof -
  obtain p as where route: "llm_route r = Inr (p, as)"
    and tried: "try_aliases env (gemini_complete env (gemini_from_settings s)) r (min (int (length as) - 1) (rp_max_fallback_hops p)) 0 as net = (Inr resp, net')"
    using assms by (auto simp: llm_complete_def llm_denied_def split: sum.splits prod.splits)
  from gemini.try_served [OF tried assms(2)] obtain a k net0 res where "a \<in> set as"
    "gemini_complete env (gemini_from_settings s) (provider_call r a) net0 = (Inr res, net')" "resp = llm_served env r k a res" "result_sound res" by blast
  then show ?thesis using route llm_route_aliases(3) [OF route]
    by (intro conjI exI [of _ p] exI [of _ as] exI [of _ a] exI [of _ net0] exI [of _ res])
       (simp_all add: llm_served_def normalize_usage_def derive_budget_usage_def result_sound_def Let_def)
qed

text \<open>
  The production profile cannot be served by the Gemini adapter. Its only alias is not in the map that the adapter builds from the settings,
  so every request with the profile \<^verbatim>\<open>prod_controlled\<close> that passes the guard is denied, without any request to the service.
\<close>

theorem prod_profile_never_served:
  assumes "validate_llm_request r = None" "lr_routing_profile r = ''prod_controlled''"
    "lr_model_class r \<in> {''interactive_fast'', ''reasoning_general'', ''embedding_text''}"
  shows "\<exists>resp. llm_complete env (gemini_complete env (gemini_from_settings s)) r net = (Inr resp, net) \<and> lp_decision resp = ''denied'' \<and>
    lp_error_code resp = Some ''llm_model_alias_unmapped''"
proof -
  define p where "p = \<lparr>rp_profile_id = ''prod_controlled'', rp_status = ''active'', rp_model_class_map =
      [(''interactive_fast'', [''google_gemini_controlled_primary'']), (''reasoning_general'', [''google_gemini_controlled_primary'']),
       (''embedding_text'', [''google_gemini_controlled_primary''])], rp_max_fallback_hops = 1\<rparr>"
  have "resolve_routing_profile ''prod_controlled'' = Inr p" by (simp add: resolve_routing_profile_def routing_profiles_def p_def)
  moreover have "select_model_aliases p (lr_model_class r) = Inr [''google_gemini_controlled_primary'']"
    using assms(3) by (auto simp: select_model_aliases_def p_def)
  ultimately have "llm_route r = Inr (p, [''google_gemini_controlled_primary''])" using assms(1,2) by (simp add: llm_route_def)
  then show ?thesis
    by (simp add: llm_complete_def gemini_complete_def gemini_from_settings_def provider_call_def p_def llm_denied_def)
qed

text \<open>
  The gateway does not enforce the caps it is given. The answer and the requests sent are the same whatever currency, request and token caps
  the budget context carries.
\<close>

theorem gateway_ignores_caps:
  "llm_complete env provider (r\<lparr>lr_budget_context := (lr_budget_context r)\<lparr>bx_currency_cap_usd := c, bx_quota_request_cap := n, bx_quota_token_cap := t\<rparr>\<rparr>) net =
   llm_complete env provider r net"
proof -
  let ?r = "r\<lparr>lr_budget_context := (lr_budget_context r)\<lparr>bx_currency_cap_usd := c, bx_quota_request_cap := n, bx_quota_token_cap := t\<rparr>\<rparr>"
  have same: "llm_denied env ?r = llm_denied env r" "llm_served env ?r = llm_served env r" "provider_call ?r = provider_call r"
    by (simp_all add: fun_eq_iff llm_denied_def llm_served_def budget_effective_def provider_call_def Let_def)
  have route: "llm_route ?r = llm_route r" unfolding llm_route_def validate_llm_request_def by (simp cong: sum.case_cong)
  have "try_aliases env provider ?r limit k as net = try_aliases env provider r limit k as net" for limit k as net
    by (induction as arbitrary: k net) (simp_all add: same split: prod.split sum.split provider_failure.split)
  then show ?thesis by (simp add: llm_complete_def same route split: prod.split sum.split)
qed

text \<open>A body that is valid JSON but no object is not reported as an invalid response: the exception leaves the gateway.\<close>

lemma list_body_raises:
  assumes "llm_route r = Inr (p, a # as)" "rp_max_fallback_hops p = 1"
    "post_with_retries env ''deepseek'' (deepseek_delay cfg) (ds_max_retries cfg)
       \<lparr>hp_endpoint = ds_base_url cfg @ ''/chat/completions'', hp_api_key = py_strip (or_str (ds_api_key cfg) []),
        hp_payload = deepseek_payload cfg (provider_call r a)\<rparr> net = (Inr (BList xs), net1)"
    "py_strip (or_str (ds_api_key cfg) []) \<noteq> []"
  shows "llm_complete env (deepseek_complete env cfg) r net = (Inl (OtherExn ''AttributeError''), net1)"
  using assms by (simp add: llm_complete_def deepseek_complete_def deepseek_read_def deepseek_text_def Let_def)

section \<open>Witnesses\<close>

definition demo_llm_env :: llm_env where
  "demo_llm_env = \<lparr>lv_answer = (\<lambda>ps p. if ps = [] then HttpResponse 503 (Some ''9'') (Inl ''busy'') else HttpResponse 200 None
       (Inr (BObj [(''candidates'', BList [BObj [(''content'', BObj [(''parts'', BList [BObj [(''text'', BStr ''hello'')]])])]]),
         (''usageMetadata'', BObj [(''promptTokenCount'', BInt 3), (''candidatesTokenCount'', BInt 4)])]))),
     lv_float = (\<lambda>_. Some 9), lv_str = (\<lambda>_. ''?''), lv_elapsed = 1\<rparr>"

definition demo_gemini :: gemini_settings where
  "demo_gemini = \<lparr>gs_api_key = Some ''k'', gs_base_url = ''https://g/'', gs_primary_model = ''m1'', gs_fallback_model = ''m2'', gs_max_retries = 2,
     gs_retry_base_delay = 1, gs_retry_max_delay = 8\<rparr>"

definition demo_llm_request :: "string \<Rightarrow> llm_gateway_request" where
  "demo_llm_request profile = \<lparr>lr_request_id = ''r'', lr_trace_id = ''t'', lr_project_id = ''p'', lr_agent_id = ''a'', lr_task_id = None,
     lr_skill_id = None, lr_model_class = ''interactive_fast'', lr_routing_profile = profile, lr_prompt = ''hi'', lr_max_tokens = 64, lr_temperature = 0,
     lr_budget_context = \<lparr>bx_currency_cap_usd = None, bx_quota_request_cap = None, bx_quota_token_cap = None, bx_allocation_mode = ''absolute'',
       bx_project_share_ratio = None, bx_effective_budget_window = None\<rparr>,
     lr_policy_context = \<lparr>px_policy_version = ''v2'', px_policy_hash = ''h'', px_rule_ids = []\<rparr>\<rparr>"

abbreviation demo_llm :: "string \<Rightarrow> (py_exn, llm_gateway_response, llm_net) run" where
  "demo_llm profile \<equiv> llm_complete demo_llm_env (gemini_complete demo_llm_env (gemini_from_settings demo_gemini)) (demo_llm_request profile)
     \<lparr>ln_posts = [], ln_sleeps = []\<rparr>"

theorem served_answer_from_provider_witness:
  "case fst (demo_llm ''dev_gemini_free'') of Inl _ \<Rightarrow> False | Inr resp \<Rightarrow>
     lp_decision resp = ''served'' \<and> (\<exists>t u. lp_generated_text resp = Some t \<and> t \<noteq> [] \<and> lp_usage resp = Some u \<and>
       lu_total_tokens u = lu_input_tokens u + lu_output_tokens u)"
proof -
  have "case fst (demo_llm ''dev_gemini_free'') of Inl _ \<Rightarrow> False | Inr resp \<Rightarrow> lp_decision resp = ''served''" by code_simp
  then obtain resp net' where h: "demo_llm ''dev_gemini_free'' = (Inr resp, net')" "lp_decision resp = ''served''"
    by (cases "demo_llm ''dev_gemini_free''"; cases "fst (demo_llm ''dev_gemini_free'')") auto
  have "lp_decision resp \<noteq> ''denied''" using h(2) by simp
  from served_answer_from_provider [OF h(1) this] h show ?thesis by auto
qed

theorem prod_profile_never_served_witness:
  "\<exists>resp. demo_llm ''prod_controlled'' = (Inr resp, \<lparr>ln_posts = [], ln_sleeps = []\<rparr>) \<and> lp_decision resp = ''denied''"
proof -
  have "validate_llm_request (demo_llm_request ''prod_controlled'') = None" by code_simp
  from prod_profile_never_served [OF this, of demo_llm_env demo_gemini "\<lparr>ln_posts = [], ln_sleeps = []\<rparr>"] show ?thesis
    by (auto simp: demo_llm_request_def)
qed

end
