(* ===== verification/Advisory.thy ===== *)
theory Advisory
  imports Chat_Ingress LLM_Gateway Conversation
begin

text \<open>
  Advisory answers of the agents, the functions that the chat endpoint calls as parameters (\<open>Chat_Ingress\<close>).
  \<^item> \<^verbatim>\<open>handle_free_text\<close> of the administrator, auditor, CEO, CWO, CSO and project manager
    (\<^verbatim>\<open>agents/*/agent.py\<close>): one function, \<open>free_text_advisory\<close>, at six profiles;
  \<^item> \<^verbatim>\<open>agents/secretary/agent.py\<close> and \<^verbatim>\<open>agents/secretary/data_access.py\<close>: \<open>secretary_handle\<close> and the
    read-only snapshots of projects and tasks.

  The agents share the LLM gateway (\<open>LLM_Gateway\<close>) and the PostgreSQL conversation store (\<open>Conversation\<close>); the databases of projects
  and tasks are arguments, read as they are at the call. The wording of the system prompts is a parameter. Whether a call of the
  conversation store raises is a parameter too; a call that raises stores nothing.
\<close>

section \<open>State\<close>

record advisory_env =
  ae_llm :: llm_env
  ae_gateway :: "(provider_request \<Rightarrow> llm_net \<Rightarrow> provider_result provider_run) option"
  ae_store :: "conversation_store option"
  ae_read_fails :: "py_exn option"
  ae_write_fails :: "py_exn option"
  ae_tagging_fails :: bool
  ae_default_routing_profile :: string
  ae_system_prompt :: "string \<Rightarrow> string"

record advisory_state =
  ay_conversation :: conversation_db
  ay_net :: llm_net
  ay_runtime :: py_runtime

definition newline :: string where
  "newline = [CHR 0x0A]"

definition advisory_uuid :: "advisory_state \<Rightarrow> string \<times> advisory_state" where
  "advisory_uuid s = (case uuid4 (ay_runtime s) of (u, rt) \<Rightarrow> (u, s\<lparr>ay_runtime := rt\<rparr>))"

definition token_budget :: "int \<Rightarrow> llm_budget_context" where
  "token_budget n = \<lparr>bx_currency_cap_usd = None, bx_quota_request_cap = None, bx_quota_token_cap = Some n, bx_allocation_mode = ''absolute'',
     bx_project_share_ratio = None, bx_effective_budget_window = None\<rparr>"

definition v2_policy :: "string \<Rightarrow> string list \<Rightarrow> llm_policy_context" where
  "v2_policy hash rules = \<lparr>px_policy_version = ''v2'', px_policy_hash = hash, px_rule_ids = rules\<rparr>"

text \<open>The text of a served response, or the fallback.\<close>

definition served_text :: "string \<Rightarrow> llm_gateway_response \<Rightarrow> string" where
  "served_text fallback resp =
     (if lp_decision resp \<in> {''served'', ''fallback_served''} \<and> truthy (lp_generated_text resp)
      then py_strip (or_str (lp_generated_text resp) []) else fallback)"

section \<open>Free text\<close>

record advisory_profile =
  af_agent_id :: string
  af_fallback :: string
  af_policy :: llm_policy_context
  af_budget :: llm_budget_context

definition auditor_profile :: advisory_profile where
  "auditor_profile = \<lparr>af_agent_id = ''auditor'', af_fallback =
     ''I'm the Auditor agent. I handle governance oversight, compliance monitoring, and escalation records. Use `/oq ask auditor <topic>` to direct a query to me.'',
     af_policy = v2_policy ''auditor-advisory-v1'' [''GOV-001'', ''AUD-001''], af_budget = token_budget 256\<rparr>"

definition administrator_profile :: advisory_profile where
  "administrator_profile = \<lparr>af_agent_id = ''administrator'', af_fallback =
     ''I'm the Administrator agent. I handle infrastructure policy enforcement, containment actions, and registry controls. Use `/oq ask administrator <topic>` to direct a query to me.'',
     af_policy = v2_policy ''administrator-advisory-v1'' [''AUTH-001'', ''GOV-001''], af_budget = token_budget 256\<rparr>"

definition ceo_profile :: advisory_profile where
  "ceo_profile = \<lparr>af_agent_id = ''ceo'', af_fallback =
     ''I'm the CEO agent. I handle strategic directives, executive approvals, and co-approval of projects with the CWO. Use `/oq ask ceo <topic>` to direct a query to me.'',
     af_policy = v2_policy ''ceo-v1'' [''AUTH-001'', ''AUTH-002'', ''GOV-001'', ''ORCH-001'', ''ORCH-005''], af_budget = token_budget 512\<rparr>"

definition cwo_profile :: advisory_profile where
  "cwo_profile = \<lparr>af_agent_id = ''cwo'', af_fallback =
     ''I'm the CWO agent. I handle project charter drafting, workforce initialization, and governed role activation. Use `/oq ask cwo <topic>` to direct a query to me.'',
     af_policy = v2_policy ''cwo-v1'' [''AUTH-001'', ''AUTH-002'', ''AUTH-003'', ''ORCH-001'', ''ORCH-002''], af_budget = token_budget 512\<rparr>"

definition cso_profile :: advisory_profile where
  "cso_profile = \<lparr>af_agent_id = ''cso'', af_fallback =
     ''I'm the CSO agent. I handle strategic review, portfolio alignment, and cross-project risk analysis. Use `/oq ask cso <topic>` to direct a query to me.'',
     af_policy = v2_policy ''cso-strategic-advisory-v1'' [''GATE-006'', ''STR-001''], af_budget = token_budget 512\<rparr>"

definition project_manager_profile :: advisory_profile where
  "project_manager_profile = \<lparr>af_agent_id = ''project_manager'', af_fallback =
     ''I'm the Project Manager agent. I handle active-project execution, status reporting, and specialist dispatch. Use `/oq ask project_manager <project> <question>` to direct a query to me.'',
     af_policy = v2_policy ''project-manager-v1'' [''AUTH-001'', ''AUTH-002'', ''ORCH-001'', ''ORCH-002''], af_budget = token_budget 512\<rparr>"

definition recent_turns :: "advisory_env \<Rightarrow> string \<Rightarrow> advisory_state \<Rightarrow> turn list" where
  "recent_turns env scope s =
     (case ae_store env of None \<Rightarrow> [] | Some st \<Rightarrow> if ae_read_fails env \<noteq> None then [] else pg_list_turns st (ay_conversation s) scope)"

definition free_text_prompt :: "string \<Rightarrow> turn list \<Rightarrow> string \<Rightarrow> string" where
  "free_text_prompt system_prompt turns owner_text =
     system_prompt @ newline @ newline @
     (if turns = [] then [] else ''Conversation so far:'' @ newline @ py_join newline (map (\<lambda>(role, content). role @ '': '' @ content) turns) @ newline @ newline) @
     ''Owner message:'' @ newline @ owner_text"

definition advisory_call :: "advisory_env \<Rightarrow> advisory_profile \<Rightarrow> string \<Rightarrow> string \<Rightarrow> string \<Rightarrow> llm_gateway_request" where
  "advisory_call env prof request_id trace_id prompt =
     \<lparr>lr_request_id = request_id, lr_trace_id = trace_id, lr_project_id = ''system'', lr_agent_id = af_agent_id prof, lr_task_id = None,
      lr_skill_id = Some ''free_text_advisory'', lr_model_class = ''interactive_fast'', lr_routing_profile = ae_default_routing_profile env,
      lr_prompt = prompt, lr_max_tokens = 256, lr_temperature = 3 / 10, lr_budget_context = af_budget prof, lr_policy_context = af_policy prof\<rparr>"

text \<open>Any exception of the gateway is logged and answered with the fallback.\<close>

definition ask_gateway :: "advisory_env \<Rightarrow> advisory_profile \<Rightarrow> string \<Rightarrow> advisory_state \<Rightarrow> string \<times> advisory_state" where
  "ask_gateway env prof prompt s =
     (case ae_gateway env of
        None \<Rightarrow> (af_fallback prof, s)
      | Some provider \<Rightarrow>
          (let (rid, s1) = advisory_uuid s; (tid, s2) = advisory_uuid s1
           in case llm_complete (ae_llm env) provider (advisory_call env prof rid tid prompt) (ay_net s2) of
                (Inl _, net) \<Rightarrow> (af_fallback prof, s2\<lparr>ay_net := net\<rparr>)
              | (Inr resp, net) \<Rightarrow> (served_text (af_fallback prof) resp, s2\<lparr>ay_net := net\<rparr>)))"

definition remember_exchange :: "advisory_env \<Rightarrow> string \<Rightarrow> string \<Rightarrow> string \<Rightarrow> string option \<Rightarrow> advisory_state \<Rightarrow> advisory_state" where
  "remember_exchange env scope user_prompt reply agent_id s =
     (case ae_store env of
        None \<Rightarrow> s
      | Some st \<Rightarrow> if ae_write_fails env \<noteq> None then s
          else s\<lparr>ay_conversation := pg_append_turns st (ae_tagging_fails env) scope user_prompt reply agent_id (ay_conversation s)\<rparr>)"

definition free_text_advisory :: "advisory_env \<Rightarrow> advisory_profile \<Rightarrow> advisory_request \<Rightarrow> advisory_state \<Rightarrow> string \<times> advisory_state" where
  "free_text_advisory env prof r s =
     (let prompt = free_text_prompt (ae_system_prompt env (af_agent_id prof)) (recent_turns env (fa_scope r) s) (fa_text r);
          (advisory, s1) = ask_gateway env prof prompt s
      in (advisory, remember_exchange env (fa_scope r) (fa_text r) advisory (Some (af_agent_id prof)) s1))"

definition auditor_free_text :: "advisory_env \<Rightarrow> advisory_request \<Rightarrow> advisory_state \<Rightarrow> string \<times> advisory_state" where
  "auditor_free_text env = free_text_advisory env auditor_profile"

definition administrator_free_text :: "advisory_env \<Rightarrow> advisory_request \<Rightarrow> advisory_state \<Rightarrow> string \<times> advisory_state" where
  "administrator_free_text env = free_text_advisory env administrator_profile"

definition ceo_free_text :: "advisory_env \<Rightarrow> advisory_request \<Rightarrow> advisory_state \<Rightarrow> string \<times> advisory_state" where
  "ceo_free_text env = free_text_advisory env ceo_profile"

definition cwo_free_text :: "advisory_env \<Rightarrow> advisory_request \<Rightarrow> advisory_state \<Rightarrow> string \<times> advisory_state" where
  "cwo_free_text env = free_text_advisory env cwo_profile"

definition cso_free_text :: "advisory_env \<Rightarrow> advisory_request \<Rightarrow> advisory_state \<Rightarrow> string \<times> advisory_state" where
  "cso_free_text env = free_text_advisory env cso_profile"

definition project_manager_free_text :: "advisory_env \<Rightarrow> advisory_request \<Rightarrow> advisory_state \<Rightarrow> string \<times> advisory_state" where
  "project_manager_free_text env = free_text_advisory env project_manager_profile"

text \<open>The desk of advisory agents that the chat endpoint calls.\<close>

definition advisory_desk ::
  "advisory_env \<Rightarrow> string \<Rightarrow> (advisory_request \<Rightarrow> advisory_state \<Rightarrow> string \<times> advisory_state) option" where
  "advisory_desk env role = map_of
     [(''auditor'', auditor_free_text env), (''administrator'', administrator_free_text env), (''ceo'', ceo_free_text env),
      (''cwo'', cwo_free_text env), (''cso'', cso_free_text env), (''project_manager'', project_manager_free_text env)] role"

section \<open>The secretary's reads\<close>

record project_snapshot =
  sn_project_id :: string
  sn_status :: string
  sn_title :: "string option"
  sn_active_task_count :: nat
  sn_blocked_task_count :: nat

record task_runtime_context =
  rx_task_id :: string
  rx_status :: string
  rx_principal_id :: string
  rx_trace_id :: string
  rx_error_code :: "string option"

record dashboard_summary =
  db_total_project_count :: nat
  db_active_task_count :: nat
  db_blocked_task_count :: nat
  db_failed_task_count :: nat

definition is_active_task :: "task_record \<Rightarrow> bool" where
  "is_active_task t = (tk_status t \<in> {''queued'', ''running'', ''dispatched''})"

definition count_tasks :: "(task_record \<Rightarrow> bool) \<Rightarrow> task_record list \<Rightarrow> nat" where
  "count_tasks P ts = length (filter P ts)"

definition get_project_snapshot :: "governance \<Rightarrow> task_repo \<Rightarrow> string \<Rightarrow> project_snapshot option" where
  "get_project_snapshot g repo project_id =
     (case get_project g project_id of
        Inl _ \<Rightarrow> None
      | Inr None \<Rightarrow> None
      | Inr (Some p) \<Rightarrow>
          (let tasks = filter (\<lambda>t. tk_project_id t = Some project_id) (list_tasks repo)
           in Some \<lparr>sn_project_id = project_id, sn_status = pj_status p, sn_title = None,
                    sn_active_task_count = count_tasks is_active_task tasks,
                    sn_blocked_task_count = count_tasks (\<lambda>t. tk_status t = ''blocked'') tasks\<rparr>))"

definition get_task_runtime_context :: "task_repo \<Rightarrow> string \<Rightarrow> task_runtime_context option" where
  "get_task_runtime_context repo task_id =
     map_option (\<lambda>t. \<lparr>rx_task_id = tk_task_id t, rx_status = tk_status t, rx_principal_id = tk_principal_id t, rx_trace_id = tk_trace_id t,
       rx_error_code = tk_outcome_error_code t\<rparr>) (get_task_by_id repo task_id)"

fun dashboard_loop :: "task_record list \<Rightarrow> string set \<Rightarrow> nat \<Rightarrow> nat \<Rightarrow> nat \<Rightarrow> dashboard_summary" where
  "dashboard_loop [] projects active blocked failed =
     \<lparr>db_total_project_count = card projects, db_active_task_count = active, db_blocked_task_count = blocked, db_failed_task_count = failed\<rparr>"
| "dashboard_loop (t # ts) projects active blocked failed =
     (let projects' = (case nonempty_opt (tk_project_id t) of None \<Rightarrow> projects | Some p \<Rightarrow> insert p projects)
      in if is_active_task t then dashboard_loop ts projects' (Suc active) blocked failed
         else if tk_status t = ''blocked'' then dashboard_loop ts projects' active (Suc blocked) failed
         else if tk_status t = ''failed'' then dashboard_loop ts projects' active blocked (Suc failed)
         else dashboard_loop ts projects' active blocked failed)"

definition get_dashboard_summary :: "task_repo \<Rightarrow> dashboard_summary" where
  "get_dashboard_summary repo = dashboard_loop (list_tasks repo) {} 0 0 0"

section \<open>The secretary\<close>

record secretary_response =
  sp_advisory_text :: string
  sp_intent_confirmed :: intent_class
  sp_routing_suggestion :: "string option"
  sp_trace_id :: string

definition denied_intents :: "intent_class list" where
  "denied_intents = [Mutation, Admin]"

definition secretary_fallback :: string where
  "secretary_fallback = ''I received your message. For specific actions, use `/oq <verb> [target] [args]`. For project questions, try `/oq ask project_manager <project> <question>`.''"

definition build_routing_suggestion :: "secretary_request \<Rightarrow> string option" where
  "build_routing_suggestion r =
     (if sq_intent r = Query
      then if cx_chat_class (sq_context r) = ''governance'' then Some ''Try: /oq ask auditor <topic>''
           else if cx_chat_class (sq_context r) = ''executive'' then Some ''Try: /oq ask ceo <topic> or /oq ask cwo <topic>''
           else Some ''Try: /oq status <project> or /oq ask <agent> <question>''
      else None)"

definition query_advisory_template :: "string \<Rightarrow> string \<Rightarrow> string" where
  "query_advisory_template chat_class message =
     ''The owner is asking a question in a '' @ chat_class @ '' channel:'' @ newline @ newline @ [CHR 0x22] @ message @ [CHR 0x22] @ newline @ newline @
     ''Provide a brief advisory response: acknowledge their query and suggest who to ask or'' @ newline @ ''what command to use to get the answer.'' @ newline"

definition intent_disambiguation_template :: "string \<Rightarrow> string \<Rightarrow> string" where
  "intent_disambiguation_template chat_class message =
     ''The owner sent the following message in a '' @ chat_class @ '' channel:'' @ newline @ newline @ [CHR 0x22] @ message @ [CHR 0x22] @ newline @ newline @
     ''Provide a brief advisory response: acknowledge what they are asking, clarify their intent'' @ newline @
     ''if needed, and suggest the appropriate routing or next step.'' @ newline"

definition agent_preface :: "string \<Rightarrow> string" where
  "agent_preface agent =
     ''The user's message was directed at the '' @ agent @ '' agent, but you are Secretary - do NOT roleplay as or speak as the '' @ agent @
     ''. As Secretary, briefly explain what the '' @ agent @ '' handles and how the user can reach them (e.g. `/oq ask '' @ agent @ '' <topic>`).''"

definition project_line :: "project_snapshot \<Rightarrow> string" where
  "project_line sn = newline @ ''Project context: '' @ sn_project_id sn @ '' status='' @ sn_status sn @ '' active_tasks='' @ show_nat (sn_active_task_count sn) @
     '' blocked_tasks='' @ show_nat (sn_blocked_task_count sn)"

definition secretary_prompt :: "(string \<Rightarrow> project_snapshot option) option \<Rightarrow> secretary_request \<Rightarrow> string" where
  "secretary_prompt data_access r =
     (let template = (if sq_intent r = Query then query_advisory_template else intent_disambiguation_template);
          body = template (cx_chat_class (sq_context r)) (take 500 (sq_message r));
          addressed = (if sq_addressed_agent r = [] then body else agent_preface (sq_addressed_agent r) @ newline @ newline @ body);
          project_text = (case (data_access, nonempty_opt (cx_project_id (sq_context r))) of
             (Some snapshot, Some pid) \<Rightarrow> (case snapshot pid of None \<Rightarrow> [] | Some sn \<Rightarrow> project_line sn)
           | _ \<Rightarrow> [])
      in addressed @ project_text)"

definition secretary_scope :: "secretary_request \<Rightarrow> string" where
  "secretary_scope r = ''guild::'' @ or_str (Some (py_strip (sq_guild_id r))) ''guild-unspecified'' @ ''::channel::'' @
     or_str (Some (py_strip (sq_channel_id r))) ''channel-unspecified''"

text \<open>The store is used only for a message with a channel; here its exceptions are not caught.\<close>

definition secretary_store :: "advisory_env \<Rightarrow> secretary_request \<Rightarrow> conversation_store option" where
  "secretary_store env r = (if sq_channel_id r = [] then None else ae_store env)"

definition secretary_full_prompt :: "advisory_env \<Rightarrow> secretary_request \<Rightarrow> string \<Rightarrow> advisory_state \<Rightarrow> py_exn + string" where
  "secretary_full_prompt env r prompt s =
     (let plain = ae_system_prompt env ''secretary'' @ newline @ newline @ prompt
      in case secretary_store env r of
           None \<Rightarrow> Inr plain
         | Some st \<Rightarrow>
             (case ae_read_fails env of
                Some x \<Rightarrow> Inl x
              | None \<Rightarrow>
                  (let history = pg_list_turns st (ay_conversation s) (secretary_scope r)
                   in Inr (if history = [] then plain
                           else ae_system_prompt env ''secretary'' @ newline @ newline @ ''Conversation so far:'' @ newline @
                             py_join newline (map (\<lambda>(role, content). (if role = ''user'' then ''User'' else ''Secretary'') @ '': '' @ content) history) @
                             newline @ newline @ prompt))))"

definition secretary_call :: "secretary_request \<Rightarrow> string \<Rightarrow> string \<Rightarrow> llm_gateway_request" where
  "secretary_call r request_id prompt =
     \<lparr>lr_request_id = request_id, lr_trace_id = sq_trace_id r, lr_project_id = or_str (cx_project_id (sq_context r)) ''system'', lr_agent_id = ''secretary'',
      lr_task_id = None, lr_skill_id = Some ''advisory_response'', lr_model_class = ''interactive_fast'', lr_routing_profile = ''dev_gemini_free'',
      lr_prompt = prompt, lr_max_tokens = 256, lr_temperature = 3 / 10, lr_budget_context = token_budget 256,
      lr_policy_context = v2_policy ''secretary-advisory-v1'' [''advisory_only'']\<rparr>"

definition secretary_remember :: "advisory_env \<Rightarrow> secretary_request \<Rightarrow> string \<Rightarrow> advisory_state \<Rightarrow> (py_exn, string, advisory_state) run" where
  "secretary_remember env r result s =
     (case secretary_store env r of
        None \<Rightarrow> (Inr result, s)
      | Some st \<Rightarrow>
          (case ae_write_fails env of
             Some x \<Rightarrow> (Inl x, s)
           | None \<Rightarrow> (Inr result, s\<lparr>ay_conversation := pg_append_turns st (ae_tagging_fails env) (secretary_scope r) (sq_message r) result None
                       (ay_conversation s)\<rparr>)))"

definition generate_advisory ::
  "advisory_env \<Rightarrow> (provider_request \<Rightarrow> llm_net \<Rightarrow> provider_result provider_run) \<Rightarrow> (string \<Rightarrow> project_snapshot option) option \<Rightarrow> secretary_request \<Rightarrow>
   advisory_state \<Rightarrow> (py_exn, string, advisory_state) run" where
  "generate_advisory env provider data_access r s =
     (case secretary_full_prompt env r (secretary_prompt data_access r) s of
        Inl x \<Rightarrow> (Inl x, s)
      | Inr prompt \<Rightarrow>
          (case advisory_uuid s of (rid, s1) \<Rightarrow>
             (case llm_complete (ae_llm env) provider (secretary_call r rid prompt) (ay_net s1) of
                (Inl x, net) \<Rightarrow> (Inl x, s1\<lparr>ay_net := net\<rparr>)
              | (Inr resp, net) \<Rightarrow> secretary_remember env r (served_text secretary_fallback resp) (s1\<lparr>ay_net := net\<rparr>))))"

definition secretary_handle ::
  "advisory_env \<Rightarrow> (provider_request \<Rightarrow> llm_net \<Rightarrow> provider_result provider_run) \<Rightarrow> (string \<Rightarrow> project_snapshot option) option \<Rightarrow> secretary_request \<Rightarrow>
   advisory_state \<Rightarrow> (py_exn, secretary_response, advisory_state) run" where
  "secretary_handle env provider data_access r s =
     (if sq_intent r \<in> set denied_intents
      then (Inl (CodedError ''secretary_advisory_policy_denied''
              (''Secretary advisory policy denies '' @ intent_value (sq_intent r) @ '' intent. Use explicit command syntax for governed actions.'')), s)
      else and_then (generate_advisory env provider data_access r s) (\<lambda>advisory s1.
             (Inr \<lparr>sp_advisory_text = advisory, sp_intent_confirmed = sq_intent r, sp_routing_suggestion = build_routing_suggestion r,
                   sp_trace_id = sq_trace_id r\<rparr>, s1)))"

text \<open>The secretary as the chat endpoint calls it.\<close>

definition secretary_desk ::
  "advisory_env \<Rightarrow> (provider_request \<Rightarrow> llm_net \<Rightarrow> provider_result provider_run) \<Rightarrow> (string \<Rightarrow> project_snapshot option) option \<Rightarrow> secretary_request \<Rightarrow>
   advisory_state \<Rightarrow> (py_exn, string \<times> string option, advisory_state) run" where
  "secretary_desk env provider data_access r s =
     and_then (secretary_handle env provider data_access r s) (\<lambda>resp s1. (Inr (sp_advisory_text resp, sp_routing_suggestion resp), s1))"

section \<open>Lemmas\<close>

lemma advisory_uuid_frame [simp]:
  "ay_conversation (snd (advisory_uuid s)) = ay_conversation s" "ay_net (snd (advisory_uuid s)) = ay_net s"
  by (simp_all add: advisory_uuid_def case_prod_beta)

lemma ask_gateway_conversation [simp]: "ay_conversation (snd (ask_gateway env prof prompt s)) = ay_conversation s"
  by (auto simp: ask_gateway_def Let_def case_prod_beta split: option.split sum.split)

text \<open>The answer is the fallback or what the gateway served.\<close>

lemma ask_gateway_answer:
  assumes "ask_gateway env prof prompt s = (answer, s')"
  shows "answer = af_fallback prof \<or> (\<exists>provider r net resp net'. ae_gateway env = Some provider \<and> lr_prompt r = prompt \<and>
     llm_complete (ae_llm env) provider r net = (Inr resp, net') \<and> lp_decision resp \<in> {''served'', ''fallback_served''} \<and>
     (\<exists>t. lp_generated_text resp = Some t \<and> answer = py_strip t))"
proof (cases "ae_gateway env")
  case (Some provider)
  let ?r = "advisory_call env prof (fst (advisory_uuid s)) (fst (advisory_uuid (snd (advisory_uuid s)))) prompt"
  obtain q net' where q: "llm_complete (ae_llm env) provider ?r (ay_net s) = (q, net')" by fastforce
  have prompt: "lr_prompt ?r = prompt" by (simp add: advisory_call_def)
  show ?thesis
  proof (cases q)
    case (Inr resp)
    then have "answer = served_text (af_fallback prof) resp" using assms Some q by (simp add: ask_gateway_def Let_def case_prod_beta)
    then show ?thesis using Some q Inr prompt by (auto simp: served_text_def or_str_def split: if_splits option.splits)
  qed (use assms Some q in \<open>simp add: ask_gateway_def Let_def case_prod_beta\<close>)
qed (use assms in \<open>simp add: ask_gateway_def\<close>)

lemma advisory_desk_profile:
  "advisory_desk env role = Some handle \<Longrightarrow> \<exists>prof. handle = free_text_advisory env prof \<and> af_agent_id prof = role"
  by (auto simp: advisory_desk_def auditor_free_text_def administrator_free_text_def ceo_free_text_def cwo_free_text_def cso_free_text_def
      project_manager_free_text_def auditor_profile_def administrator_profile_def ceo_profile_def cwo_profile_def cso_profile_def
      project_manager_profile_def split: if_splits)

text \<open>Every agent of the desk is there for the roles that the endpoint asks.\<close>

lemma desk_complete: "role \<in> set advisory_agent_roles \<Longrightarrow> advisory_desk env role \<noteq> None"
  by (auto simp: advisory_agent_roles_def advisory_desk_def)

text \<open>
  One exchange per question, in its own scope. An agent asked over the chat never raises; where its answer can be stored, the recent turns of
  the scope are extended by the question and the answer it gave, and the turns of every other scope are as they were.
\<close>

theorem advisory_exchange_stored:
  assumes "advisory_desk env role = Some handle" "ae_store env = Some st" "ae_write_fails env = None" "rows_in_order st (ay_conversation s)"
    "handle r s = (answer, s')"
  shows "pg_list_turns st (ay_conversation s') k =
    (if norm_scope k = norm_scope (fa_scope r)
     then last_n (cf_max_turns st) (pg_list_turns st (ay_conversation s) k @ exchange (fa_text r) answer)
     else pg_list_turns st (ay_conversation s) k)"
proof -
  obtain prof where h: "handle = free_text_advisory env prof" using advisory_desk_profile [OF assms(1)] by blast
  let ?p = "free_text_prompt (ae_system_prompt env (af_agent_id prof)) (recent_turns env (fa_scope r) s) (fa_text r)"
  have a: "answer = fst (ask_gateway env prof ?p s)"
    "ay_conversation s' = pg_append_turns st (ae_tagging_fails env) (fa_scope r) (fa_text r) answer (Some (af_agent_id prof)) (ay_conversation s)"
    using assms(2,3,5) unfolding h by (auto simp: free_text_advisory_def remember_exchange_def Let_def case_prod_beta)
  show ?thesis unfolding a(2) pg_list_turns_norm pg_turns.turns_put [OF assms(4)] by auto
qed

text \<open>A store that fails keeps the agent from remembering, not from answering.\<close>

lemma advisory_store_down:
  assumes "advisory_desk env role = Some handle" "ae_write_fails env \<noteq> None"
  shows "ay_conversation (snd (handle r s)) = ay_conversation s"
proof -
  obtain prof where "handle = free_text_advisory env prof" using advisory_desk_profile [OF assms(1)] by blast
  then show ?thesis using assms(2) by (simp add: free_text_advisory_def remember_exchange_def Let_def case_prod_beta split: option.split)
qed

text \<open>
  The secretary answers no mutation and no administration: in the chat endpoint such a message is refused with its policy error, the state
  of the agents is as it was, and no model is called.
\<close>

theorem secretary_refuses_actions:
  assumes "xe_secretary env = secretary_desk aenv provider data_access" "chat_classify env txt ctx st = (Inr intent, st1)"
    "intent \<in> {Mutation, Admin}"
  shows "\<exists>message. ask_secretary env m ctx txt st = (Inr (secretary_denied ''secretary_advisory_policy_denied'' message), st1)"
  using assms by (auto simp: ask_secretary_def call_secretary_def secretary_desk_def secretary_handle_def denied_intents_def)

text \<open>The dashboard is what its counts say.\<close>

lemma dashboard_loop_counts:
  "dashboard_loop ts ps a b f = \<lparr>db_total_project_count = card (ps \<union> {p. p \<noteq> [] \<and> (\<exists>t\<in>set ts. tk_project_id t = Some p)}),
     db_active_task_count = a + count_tasks is_active_task ts, db_blocked_task_count = b + count_tasks (\<lambda>t. tk_status t = ''blocked'') ts,
     db_failed_task_count = f + count_tasks (\<lambda>t. tk_status t = ''failed'') ts\<rparr>"
proof (induction ts arbitrary: ps a b f)
  case (Cons t ts)
  have p: "(case nonempty_opt (tk_project_id t) of None \<Rightarrow> ps | Some p \<Rightarrow> insert p ps) \<union> {p. p \<noteq> [] \<and> (\<exists>t\<in>set ts. tk_project_id t = Some p)} =
    ps \<union> {p. p \<noteq> [] \<and> (\<exists>t\<in>set (t # ts). tk_project_id t = Some p)}"
    by (cases "tk_project_id t") (auto simp: nonempty_opt_def truthy_def split: if_splits)
  show ?case by (simp only: dashboard_loop.simps Let_def Cons.IH p) (simp add: count_tasks_def is_active_task_def [of t])
qed (simp add: count_tasks_def)

text \<open>A message in a channel reaches the secretary and the other agents in one conversation.\<close>

lemma shared_scope:
  assumes "py_strip (dm_guild_id m) = dm_guild_id m" "dm_guild_id m \<noteq> []" "py_strip (dm_channel_id m) = dm_channel_id m" "dm_channel_id m \<noteq> []"
    "sq_guild_id r = dm_guild_id m" "sq_channel_id r = dm_channel_id m"
  shows "secretary_scope r = fa_scope (free_text_request m role txt)"
  using assms by (simp add: secretary_scope_def free_text_request_def or_str_def truthy_def)

end
