(* ===== verification/Executives.thy ===== *)
theory Executives
  imports Agent_Language Advisory
begin

text \<open>
  The executive agents and the records by which they gate one another.
  \<^item> \<^verbatim>\<open>agents/cso/agent.py\<close>: \<open>cso_handle\<close>, the strategic review of a proposal and its record (GATE-006);
  \<^item> \<^verbatim>\<open>agents/ceo/agent.py\<close>, \<^verbatim>\<open>agents/ceo/decision_writer.py\<close>: \<open>ceo_handle\<close>, directives, the decision on a proposal
    (GATE-003, GATE-005) and the co-approval of a change (ORCH-005);
  \<^item> \<^verbatim>\<open>agents/cwo/agent.py\<close>, \<^verbatim>\<open>agents/cwo/workforce_initializer.py\<close>: \<open>cwo_handle\<close>, the proposal flow over both, the
    initialization of a project's workforce and the CWO's co-approval.

  The agents share the artifacts and the registry of \<open>Oversight\<close>, the gateway of \<open>LLM_Gateway\<close> and the projects. The wording of
  the prompts is a parameter of the template's name and its fields; printing a dictionary as JSON is a parameter for each agent (they pass
  different options), and so is printing a context value. Log lines and metrics are left out.
\<close>

section \<open>State\<close>

datatype executive_error =
    CeoProposalGateError string
  | CeoCoApprovalError string
  | CwoCommandError string
  | CwoApprovalChainError string
  | ExecutiveValueError string
  | OfficeFailure oversight_error
  | GatewayFailure py_exn

record executive_env =
  ev_office :: oversight_env
  ev_llm :: llm_env
  ev_provider :: "provider_request \<Rightarrow> llm_net \<Rightarrow> provider_result provider_run"
  ev_system_prompt :: "string \<Rightarrow> string"
  ev_template :: "string \<Rightarrow> kvs \<Rightarrow> string"
  ev_dumps :: "string \<Rightarrow> json_object \<Rightarrow> string"
  ev_str :: "json \<Rightarrow> string"
  ev_render :: "json \<Rightarrow> string"

record executive_state =
  xs_office :: oversight_state
  xs_net :: llm_net
  xs_governance :: governance

type_synonym 'a executive_run = "(executive_error, 'a, executive_state) run"

definition in_office :: "(oversight_state \<Rightarrow> 'a oversight_run) \<Rightarrow> executive_state \<Rightarrow> 'a executive_run" where
  "in_office f s =
     (case f (xs_office s) of
        (Inl e, off) \<Rightarrow> (Inl (OfficeFailure e), s\<lparr>xs_office := off\<rparr>)
      | (Inr x, off) \<Rightarrow> (Inr x, s\<lparr>xs_office := off\<rparr>))"

text \<open>A read of the artifacts that may refuse its key.\<close>

definition reading :: "(artifact_db \<Rightarrow> artifact_error + 'a) \<Rightarrow> executive_state \<Rightarrow> 'a executive_run" where
  "reading f s = (case f (os_artifacts (xs_office s)) of Inl e \<Rightarrow> (Inl (OfficeFailure (ArtifactFailure e)), s) | Inr x \<Rightarrow> (Inr x, s))"

definition guard :: "bool \<Rightarrow> executive_error \<Rightarrow> executive_state \<Rightarrow> unit executive_run" where
  "guard ok e s = (if ok then (Inr (), s) else (Inl e, s))"

record executive_profile =
  ep_agent_id :: string
  ep_skill_id :: string
  ep_temperature :: rat
  ep_policy :: llm_policy_context
  ep_budget :: llm_budget_context

definition executive_call :: "executive_profile \<Rightarrow> string option \<Rightarrow> string \<Rightarrow> string \<Rightarrow> string \<Rightarrow> llm_gateway_request" where
  "executive_call prof project_id trace_id request_id prompt =
     \<lparr>lr_request_id = request_id, lr_trace_id = trace_id, lr_project_id = or_str project_id ''system'', lr_agent_id = ep_agent_id prof,
      lr_task_id = None, lr_skill_id = Some (ep_skill_id prof), lr_model_class = ''interactive_fast'', lr_routing_profile = ''dev_gemini_free'',
      lr_prompt = prompt, lr_max_tokens = 512, lr_temperature = ep_temperature prof, lr_budget_context = ep_budget prof,
      lr_policy_context = ep_policy prof\<rparr>"

definition complete_llm :: "executive_env \<Rightarrow> executive_profile \<Rightarrow> string option \<Rightarrow> string \<Rightarrow> string \<Rightarrow> string \<Rightarrow> executive_state \<Rightarrow> string executive_run" where
  "complete_llm env prof project_id trace_id prompt fallback s =
     (let (rid, off) = oversight_uuid (xs_office s); s1 = s\<lparr>xs_office := off\<rparr>;
          full_prompt = ev_system_prompt env (ep_agent_id prof) @ newline @ newline @ prompt
      in case llm_complete (ev_llm env) (ev_provider env) (executive_call prof project_id trace_id rid full_prompt) (xs_net s1) of
           (Inl x, net) \<Rightarrow> (Inl (GatewayFailure x), s1\<lparr>xs_net := net\<rparr>)
         | (Inr resp, net) \<Rightarrow> (Inr (served_text fallback resp), s1\<lparr>xs_net := net\<rparr>))"

text \<open>A governance record with the entry \<^verbatim>\<open>created_at\<close>, printed as the agent prints it.\<close>

definition put_record :: "executive_env \<Rightarrow> string \<Rightarrow> write_context \<Rightarrow> string \<Rightarrow> string \<Rightarrow> json_object \<Rightarrow> oversight_state \<Rightarrow> artifact_pointer oversight_run" where
  "put_record env agent ctx project_id artifact_type payload s =
     (case oversight_now s of (now, s1) \<Rightarrow>
        put_document (ev_office env) ctx project_id artifact_type (ev_dumps env agent (payload @ [(''created_at'', JIso now)])) s1)"

definition writes_as :: "string \<Rightarrow> string \<Rightarrow> write_context" where
  "writes_as role status = \<lparr>wc_actor_role = role, wc_project_status = status, wc_approval_roles = []\<rparr>"

definition payload_of :: "executive_env \<Rightarrow> artifact_pointer \<times> string \<Rightarrow> json_object" where
  "payload_of env doc = load_payload (ev_office env) (snd doc)"

text \<open>\<^verbatim>\<open>_optional_str(payload.get("event_type")) in {None, "cso_review_outcome"}\<close>.\<close>

definition is_review_event :: "executive_env \<Rightarrow> json_object \<Rightarrow> bool" where
  "is_review_event env d = (context_text (ev_str env) d ''event_type'' \<in> {None, Some ''cso_review_outcome''})"

section \<open>The CSO\<close>

record cso_request =
  so_message :: string
  so_intent :: intent_class
  so_context :: chat_context
  so_trace_id :: string
  so_proposal_id :: "string option"
  so_portfolio_context :: "string option"

record cso_response =
  sr_advisory_text :: string
  sr_intent_confirmed :: intent_class
  sr_trace_id :: string
  sr_strategic_note :: "string option"
  sr_conflict_flag :: "conflict_flag option"

definition cso_executive :: executive_profile where
  "cso_executive = \<lparr>ep_agent_id = ''cso'', ep_skill_id = ''strategic_advisory'', ep_temperature = 2 / 10,
     ep_policy = v2_policy ''cso-strategic-advisory-v1'' [''GATE-006'', ''STR-001''], ep_budget = token_budget 512\<rparr>"

definition cso_fallback :: string where
  "cso_fallback = ''Strategic review unavailable. For portfolio or proposal questions, provide proposal context or use `/oq ask cso <topic>`.''"

text \<open>Exceptions of the project store are logged; a project record has no title.\<close>

definition read_portfolio_context :: "governance \<Rightarrow> string option \<Rightarrow> string" where
  "read_portfolio_context g project_id =
     (case nonempty_opt project_id of
        None \<Rightarrow> ''No portfolio context available.''
      | Some pid \<Rightarrow>
          (case get_project g pid of
             Inr (Some p) \<Rightarrow> ''Project '' @ pid @ '': status='' @ pj_status p @ '', title=unknown''
           | _ \<Rightarrow> ''No portfolio context available.''))"

definition cso_prompt :: "executive_env \<Rightarrow> cso_request \<Rightarrow> string \<Rightarrow> string" where
  "cso_prompt env r portfolio_context =
     (case nonempty_opt (so_proposal_id r) of
        Some pid \<Rightarrow> ev_template env ''cso.proposal_review''
          [(''proposal_id'', pid), (''message'', take 500 (so_message r)), (''portfolio_context'', portfolio_context)]
      | None \<Rightarrow> ev_template env ''cso.cross_project_advisory''
          [(''chat_class'', cx_chat_class (so_context r)), (''message'', take 500 (so_message r))])"

definition build_strategic_note :: "cso_request \<Rightarrow> conflict_flag option \<Rightarrow> string option" where
  "build_strategic_note r flag =
     (case flag of
        Some f \<Rightarrow>
          if cf_flag_type f = ''strategic_conflict'' then Some ''Strategic conflict detected. Escalation to CEO required before proposal advances.''
          else if cf_flag_type f = ''needs_revision'' then Some ''Proposal needs revision. Address CSO recommendations before advancing.''
          else if so_intent r \<in> {Mutation, Admin} then Some ''Governed actions require explicit command syntax: /oq <verb> [target] [args]''
          else None
      | None \<Rightarrow>
          if so_intent r \<in> {Mutation, Admin} then Some ''Governed actions require explicit command syntax: /oq <verb> [target] [args]'' else None)"

definition review_payload :: "string \<Rightarrow> string \<Rightarrow> string \<Rightarrow> string \<Rightarrow> json_object" where
  "review_payload proposal_id review_outcome advisory trace_id =
     [(''event_type'', JStr ''cso_review_outcome''), (''proposal_id'', JStr proposal_id), (''review_outcome'', JStr review_outcome),
      (''cso_advisory_text'', JStr advisory), (''trace_id'', JStr trace_id)]"

text \<open>A failed write is logged and does not reach the caller.\<close>

definition write_governance_record :: "executive_env \<Rightarrow> string \<Rightarrow> string \<Rightarrow> string \<Rightarrow> string \<Rightarrow> string \<Rightarrow> executive_state \<Rightarrow> executive_state" where
  "write_governance_record env proposal_id project_id review_outcome advisory trace_id s =
     snd (in_office (put_record env ''cso'' (writes_as ''ceo'' ''active'') project_id ''cso_review''
       (review_payload proposal_id review_outcome advisory trace_id)) s)"

definition gate_006_note :: string where
  "gate_006_note = ''GATE-006 error: CSO review record could not be persisted - proposal_id is present but project_id is absent. This proposal MUST NOT advance to CEO+CWO review until project context is provided and a GATE-006 record is on file.''"

definition cso_handle :: "executive_env \<Rightarrow> cso_request \<Rightarrow> executive_state \<Rightarrow> cso_response executive_run" where
  "cso_handle env r s =
     (let portfolio_context = or_str (so_portfolio_context r) (read_portfolio_context (xs_governance s) (cx_project_id (so_context r)))
      in and_then (complete_llm env cso_executive (cx_project_id (so_context r)) (so_trace_id r) (cso_prompt env r portfolio_context) cso_fallback s)
           (\<lambda>advisory s1.
              let flag = parse_conflict_flag advisory;
                  answer = (\<lambda>note. \<lparr>sr_advisory_text = advisory, sr_intent_confirmed = so_intent r, sr_trace_id = so_trace_id r,
                    sr_strategic_note = note, sr_conflict_flag = flag\<rparr>)
              in case (nonempty_opt (so_proposal_id r), nonempty_opt (cx_project_id (so_context r))) of
                   (None, _) \<Rightarrow> (Inr (answer (build_strategic_note r flag)), s1)
                 | (Some proposal_id, None) \<Rightarrow> (Inr (answer (Some gate_006_note)), s1)
                 | (Some proposal_id, Some pid) \<Rightarrow>
                     (Inr (answer (build_strategic_note r flag)),
                      write_governance_record env proposal_id pid (classify_outcome flag) advisory (so_trace_id r) s1)))"

section \<open>The CEO\<close>

record ceo_request =
  eq_message :: string
  eq_intent :: string
  eq_context :: json_object
  eq_proposal_id :: "string option"
  eq_cso_review_outcome :: "string option"
  eq_trace_id :: string

record ceo_response =
  er_decision :: "string option"
  er_advisory_text :: string
  er_routing_hint :: "string option"
  er_trace_id :: string

definition ceo_executive :: executive_profile where
  "ceo_executive = \<lparr>ep_agent_id = ''ceo'', ep_skill_id = ''executive_decision'', ep_temperature = 2 / 10,
     ep_policy = v2_policy ''ceo-v1'' [''AUTH-001'', ''AUTH-002'', ''GOV-001'', ''ORCH-001'', ''ORCH-005''], ep_budget = token_budget 512\<rparr>"

definition fallback_directive :: string where
  "fallback_directive = ''Decision: hold execution at the current governance boundary until the required context and executive owner are confirmed.''"

definition fallback_proposal_review :: string where
  "fallback_proposal_review = ''Decision: needs_revision. Resolve the strategic and governance defects before resubmission.''"

definition fallback_coapproval :: string where
  "fallback_coapproval = ''Decision: CEO co-approval recorded. Proceed only within governed change-control boundaries.''"

definition owner_exception_keywords :: "string list" where
  "owner_exception_keywords = [''structural exception'', ''constitutional exception'', ''constitution'', ''structural'', ''owner decision'', ''owner override'']"

definition workforce_keywords :: "string list" where
  "workforce_keywords = [''workforce'', ''hiring'', ''hire'', ''staff'', ''staffing'', ''headcount'', ''recruit'', ''specialist assignment'']"

definition strategy_keywords :: "string list" where
  "strategy_keywords = [''strategy'', ''strategic'', ''portfolio'', ''roadmap'', ''prioritization'', ''priority'', ''cross-project'']"

definition project_execution_keywords :: "string list" where
  "project_execution_keywords = [''project execution'', ''milestone'', ''deliverable'', ''task execution'', ''execution blocker'']"

definition classify_routing_hint :: "executive_env \<Rightarrow> ceo_request \<Rightarrow> string option" where
  "classify_routing_hint env r =
     (let message = routing_text (ev_str env) (eq_message r) (eq_context r)
      in if mentions owner_exception_keywords message then Some ''owner''
         else if mentions workforce_keywords message then Some ''cwo''
         else if mentions strategy_keywords message then Some ''cso''
         else if mentions project_execution_keywords message then Some ''project_manager''
         else None)"

definition directive_text :: "string \<Rightarrow> string" where
  "directive_text route =
     (if route = ''owner'' then ''Directive: structural or constitutional exception detected. Escalate to owner for decision authority.''
      else if route = ''cwo'' then ''Directive: workforce lifecycle matter detected. Route to CWO for execution authority and governed handling.''
      else if route = ''cso'' then ''Directive: strategy question detected. Route to CSO for strategic review and portfolio analysis.''
      else ''Directive: project execution concern detected. Route to Project Manager for operational handling.'')"

definition ceo_answer :: "ceo_request \<Rightarrow> string option \<Rightarrow> string \<Rightarrow> string option \<Rightarrow> ceo_response" where
  "ceo_answer r decision advisory route = \<lparr>er_decision = decision, er_advisory_text = advisory, er_routing_hint = route, er_trace_id = eq_trace_id r\<rparr>"

text \<open>The directive by the model, with the label that its caller passes.\<close>

definition strategic_directive :: "executive_env \<Rightarrow> ceo_request \<Rightarrow> string \<Rightarrow> executive_state \<Rightarrow> ceo_response executive_run" where
  "strategic_directive env r label s =
     and_then (complete_llm env ceo_executive (context_text (ev_str env) (eq_context r) ''project_id'') (eq_trace_id r)
         (ev_template env ''ceo.strategic_directive''
            [(''intent'', eq_intent r), (''message'', take 1000 (eq_message r)), (''context_summary'', context_summary (ev_str env) (eq_context r))])
         fallback_directive s) (\<lambda>directive s1.
       (Inr (ceo_answer r None (ensure_executive_language directive label) None), s1))"

definition handle_directive :: "executive_env \<Rightarrow> ceo_request \<Rightarrow> executive_state \<Rightarrow> ceo_response executive_run" where
  "handle_directive env r s =
     (case classify_routing_hint env r of
        Some route \<Rightarrow> (Inr (ceo_answer r None (directive_text route) (Some route)), s)
      | None \<Rightarrow> strategic_directive env r ''Decision'' s)"

definition handle_executive_mutation :: "executive_env \<Rightarrow> ceo_request \<Rightarrow> executive_state \<Rightarrow> ceo_response executive_run" where
  "handle_executive_mutation env r s =
     (if classify_routing_hint env r \<noteq> None then handle_directive env r s else strategic_directive env r ''Directive'' s)"

definition has_proposal :: "executive_env \<Rightarrow> string \<Rightarrow> artifact_pointer \<times> string \<Rightarrow> bool" where
  "has_proposal env proposal_id doc = (dict_get (payload_of env doc) ''proposal_id'' = Some (JStr proposal_id))"

definition verify_cso_review_record :: "executive_env \<Rightarrow> string \<Rightarrow> artifact_db \<Rightarrow> artifact_error + json_object option" where
  "verify_cso_review_record env proposal_id db =
     (case list_artifact_documents_by_type db ''cso_review'' of
        Inl e \<Rightarrow> Inl e
      | Inr docs \<Rightarrow> Inr (map_option (payload_of env) (find (\<lambda>d. has_proposal env proposal_id d \<and> is_review_event env (payload_of env d)) (rev docs))))"

definition read_revision_cycle_count :: "executive_env \<Rightarrow> string \<Rightarrow> artifact_db \<Rightarrow> artifact_error + nat" where
  "read_revision_cycle_count env proposal_id db =
     (case list_artifact_documents_by_type db ''cso_review'' of Inl e \<Rightarrow> Inl e | Inr reviews \<Rightarrow>
     (case list_artifact_documents_by_type db ''ceo_proposal_decision'' of Inl e \<Rightarrow> Inl e | Inr decisions \<Rightarrow>
        Inr (length (filter (\<lambda>d. has_proposal env proposal_id d \<and>
                 dict_get (payload_of env d) ''review_outcome'' = Some (JStr ''Strategic Conflict'')) reviews) +
             length (filter (\<lambda>d. has_proposal env proposal_id d \<and>
                 dict_get (payload_of env d) ''decision'' = Some (JStr ''needs_revision'')) decisions))))"

definition decision_payload :: "string \<Rightarrow> string \<Rightarrow> string \<Rightarrow> string option \<Rightarrow> nat \<Rightarrow> bool \<Rightarrow> string \<Rightarrow> json_object" where
  "decision_payload proposal_id decision rationale cso_review_outcome revision_cycle_count override_flag trace_id =
     [(''event_type'', JStr ''ceo_proposal_decision''), (''proposal_id'', JStr proposal_id), (''decision'', JStr decision),
      (''rationale'', JStr rationale), (''cso_review_outcome'', json_opt cso_review_outcome),
      (''revision_cycle_count'', JNum (of_nat revision_cycle_count)), (''override_flag'', JBool override_flag), (''trace_id'', JStr trace_id)]"

definition write_proposal_decision ::
  "executive_env \<Rightarrow> string \<Rightarrow> string option \<Rightarrow> string \<Rightarrow> string \<Rightarrow> string option \<Rightarrow> nat \<Rightarrow> bool \<Rightarrow> string \<Rightarrow> executive_state \<Rightarrow> unit executive_run" where
  "write_proposal_decision env proposal_id project_id decision rationale cso_review_outcome revision_cycle_count override_flag trace_id s =
     (case normalize_optional_text project_id of
        None \<Rightarrow> (Inl (ExecutiveValueError (''CEO decision record requires project_id for proposal '' @ proposal_id)), s)
      | Some pid \<Rightarrow>
          and_then (in_office (put_record env ''ceo'' (writes_as ''ceo'' ''proposed'') pid ''ceo_proposal_decision''
              (decision_payload proposal_id decision rationale cso_review_outcome revision_cycle_count override_flag trace_id)) s) (\<lambda>_ s1.
            (Inr (), s1)))"

text \<open>The outcome that gate 3 looks at: what the caller passed, or what the record says.\<close>

definition reviewed_outcome :: "executive_env \<Rightarrow> ceo_request \<Rightarrow> json_object \<Rightarrow> string option" where
  "reviewed_outcome env r cso_record = or_opt (eq_cso_review_outcome r) (context_text (ev_str env) cso_record ''review_outcome'')"

definition proposal_prompt :: "executive_env \<Rightarrow> ceo_request \<Rightarrow> string \<Rightarrow> json_object \<Rightarrow> nat \<Rightarrow> string" where
  "proposal_prompt env r proposal_id cso_record revision_cycle_count =
     ev_template env ''ceo.proposal_review''
       [(''proposal_id'', proposal_id), (''proposal_summary'', take 1500 (eq_message r)),
        (''cso_review_outcome'', or_str (reviewed_outcome env r cso_record) ''unknown''),
        (''cso_advisory_text'', or_str (context_text (ev_str env) cso_record ''cso_advisory_text'') ''No CSO advisory text recorded.''),
        (''revision_cycle_count'', show_nat revision_cycle_count),
        (''project_scope'', or_str (context_text (ev_str env) (eq_context r) ''project_scope'')
           (or_str (context_text (ev_str env) (eq_context r) ''scope'') ''unspecified''))]"

definition decide_proposal :: "executive_env \<Rightarrow> ceo_request \<Rightarrow> string \<Rightarrow> json_object \<Rightarrow> nat \<Rightarrow> bool \<Rightarrow> executive_state \<Rightarrow> ceo_response executive_run" where
  "decide_proposal env r proposal_id cso_record revision_cycle_count override_flag s =
     (let project_id = context_text (ev_str env) (eq_context r) ''project_id''
      in and_then (complete_llm env ceo_executive project_id (eq_trace_id r) (proposal_prompt env r proposal_id cso_record revision_cycle_count)
             fallback_proposal_review s) (\<lambda>answer s1.
         let decision = parse_proposal_decision answer; rationale = py_strip answer
         in and_then (write_proposal_decision env proposal_id project_id decision rationale (reviewed_outcome env r cso_record)
                revision_cycle_count override_flag (eq_trace_id r) s1) (\<lambda>_ s2.
              (Inr (ceo_answer r (Some decision) (ensure_executive_language rationale ''Decision'') None), s2))))"

definition handle_proposal_review :: "executive_env \<Rightarrow> ceo_request \<Rightarrow> executive_state \<Rightarrow> ceo_response executive_run" where
  "handle_proposal_review env r s =
     (case eq_proposal_id r of
        None \<Rightarrow> (Inl (CeoProposalGateError ''GATE-005 denied: proposal_id is required for CEO review''), s)
      | Some proposal_id \<Rightarrow>
          if py_strip proposal_id = [] then (Inl (CeoProposalGateError ''GATE-005 denied: proposal_id is required for CEO review''), s)
          else and_then (reading (verify_cso_review_record env (py_strip proposal_id)) s) (\<lambda>found s1.
            case found of
              None \<Rightarrow> (Inl (CeoProposalGateError ''GATE-005 denied: no CSO review record''), s1)
            | Some cso_record \<Rightarrow>
                and_then (reading (read_revision_cycle_count env (py_strip proposal_id)) s1) (\<lambda>cycles s2.
                  let override_flag = coerce_bool (ev_str env) (dict_get (eq_context r) ''override_flag'')
                  in and_then (guard (\<not> (reviewed_outcome env r cso_record = Some ''Strategic Conflict'' \<and> cycles \<ge> 3 \<and> \<not> override_flag))
                         (CeoProposalGateError ''GATE-003 denied: Strategic Conflict exceeded three unresolved revision cycles'') s2)
                       (\<lambda>_ s3. decide_proposal env r proposal_id cso_record cycles override_flag s3))))"

definition has_coapproval :: "executive_env \<Rightarrow> string \<Rightarrow> string \<Rightarrow> string \<Rightarrow> artifact_db \<Rightarrow> artifact_error + bool" where
  "has_coapproval env artifact_type project_id approval_type db =
     (case list_artifact_documents db project_id artifact_type of
        Inl e \<Rightarrow> Inl e
      | Inr docs \<Rightarrow> Inr (list_ex (\<lambda>d. dict_get (payload_of env d) ''approval_type'' = Some (JStr approval_type)) (rev docs)))"

definition verify_cwo_coapproval :: "executive_env \<Rightarrow> string \<Rightarrow> string \<Rightarrow> artifact_db \<Rightarrow> artifact_error + bool" where
  "verify_cwo_coapproval env = has_coapproval env ''cwo_coapproval''"

definition coapproval_payload :: "string \<Rightarrow> string \<Rightarrow> string option \<Rightarrow> string \<Rightarrow> json_object" where
  "coapproval_payload event_type approval_type artifact_type trace_id =
     [(''event_type'', JStr event_type), (''approval_type'', JStr approval_type), (''artifact_type'', json_opt artifact_type),
      (''trace_id'', JStr trace_id)]"

definition write_coapproval_record :: "executive_env \<Rightarrow> string \<Rightarrow> string \<Rightarrow> string option \<Rightarrow> string \<Rightarrow> executive_state \<Rightarrow> artifact_pointer executive_run" where
  "write_coapproval_record env project_id approval_type artifact_type trace_id =
     in_office (put_record env ''ceo'' (writes_as ''ceo'' ''active'') project_id ''ceo_coapproval''
       (coapproval_payload ''ceo_coapproval'' approval_type artifact_type trace_id))"

definition ceo_handle_coapproval :: "executive_env \<Rightarrow> ceo_request \<Rightarrow> executive_state \<Rightarrow> ceo_response executive_run" where
  "ceo_handle_coapproval env r s =
     (case context_text (ev_str env) (eq_context r) ''project_id'' of
        None \<Rightarrow> (Inl (CeoCoApprovalError ''ORCH-005 denied: project_id is required for CEO co-approval''), s)
      | Some project_id \<Rightarrow>
          (let approval_type = or_str (context_text (ev_str env) (eq_context r) ''approval_type'') ''controlled_doc_edit'';
               artifact_type = context_text (ev_str env) (eq_context r) ''artifact_type''
           in and_then (reading (verify_cwo_coapproval env project_id approval_type) s) (\<lambda>found s1.
              and_then (guard found (CeoCoApprovalError ''ORCH-005 denied: missing CWO co-approval evidence for the requested action'') s1) (\<lambda>_ s2.
              and_then (complete_llm env ceo_executive (Some project_id) (eq_trace_id r)
                  (ev_template env ''ceo.controlled_doc''
                     [(''project_id'', project_id), (''approval_type'', approval_type), (''artifact_type'', or_str artifact_type ''none'')])
                  fallback_coapproval s2) (\<lambda>narrative s3.
              and_then (write_coapproval_record env project_id approval_type artifact_type (eq_trace_id r) s3) (\<lambda>_ s4.
                (Inr (ceo_answer r (Some ''approved'') (ensure_executive_language narrative ''Decision'') None), s4)))))))"

definition ceo_handle :: "executive_env \<Rightarrow> ceo_request \<Rightarrow> executive_state \<Rightarrow> ceo_response executive_run" where
  "ceo_handle env r s =
     (let intent = py_upper (py_strip (eq_intent r))
      in if intent \<in> {''DISCUSSION'', ''QUERY''} then handle_directive env r s
         else if intent = ''MUTATION'' \<and> truthy (eq_proposal_id r) then handle_proposal_review env r s
         else if intent = ''MUTATION'' then handle_executive_mutation env r s
         else if intent = ''ADMIN'' then ceo_handle_coapproval env r s
         else (Inl (ExecutiveValueError (''Unsupported CEO intent: '' @ py_repr (eq_intent r))), s))"

section \<open>The workforce initializer\<close>

definition list_has :: "executive_env \<Rightarrow> string \<Rightarrow> (json_object \<Rightarrow> bool) \<Rightarrow> string \<Rightarrow> artifact_db \<Rightarrow> artifact_error + bool" where
  "list_has env artifact_type P project_id db =
     (case list_artifact_documents db project_id artifact_type of Inl e \<Rightarrow> Inl e | Inr docs \<Rightarrow> Inr (list_ex (\<lambda>d. P (payload_of env d)) docs))"

definition has_cso_review :: "executive_env \<Rightarrow> string \<Rightarrow> artifact_db \<Rightarrow> artifact_error + bool" where
  "has_cso_review env = list_has env ''cso_review'' (is_review_event env)"

definition has_ceo_approval :: "executive_env \<Rightarrow> string \<Rightarrow> artifact_db \<Rightarrow> artifact_error + bool" where
  "has_ceo_approval env = list_has env ''ceo_proposal_decision'' (\<lambda>d. dict_get d ''decision'' = Some (JStr ''approved''))"

definition has_owner_coapproval :: "executive_env \<Rightarrow> string \<Rightarrow> artifact_db \<Rightarrow> artifact_error + bool" where
  "has_owner_coapproval env = list_has env ''decision_log'' (\<lambda>d. context_text (ev_str env) d ''event_type'' = Some ''owner_coapproval'')"

text \<open>A missing owner co-approval is only logged, but its read may still raise.\<close>

definition verify_approval_chain :: "executive_env \<Rightarrow> string \<Rightarrow> executive_state \<Rightarrow> unit executive_run" where
  "verify_approval_chain env project_id s =
     and_then (reading (has_cso_review env project_id) s) (\<lambda>reviewed s1.
     and_then (reading (has_ceo_approval env project_id) s1) (\<lambda>approved s2.
       let missing = (if reviewed then [] else [''cso_review_outcome'']) @ (if approved then [] else [''ceo_proposal_decision=approved''])
       in and_then (guard (missing = []) (CwoApprovalChainError
              (''Workforce initialization denied: missing approval evidence: '' @ py_join '', '' missing)) s2) (\<lambda>_ s3.
          and_then (reading (has_owner_coapproval env project_id) s3) (\<lambda>_ s4. (Inr (), s4)))))"

definition package_payload :: "string \<Rightarrow> string \<Rightarrow> string \<Rightarrow> string \<Rightarrow> string \<Rightarrow> string \<Rightarrow> json_object" where
  "package_payload artifact_type project_id template llm_profile system_prompt_package trace_id =
     [(''artifact_type'', JStr artifact_type), (''author_role'', JStr ''cwo''), (''project_id'', JStr project_id), (''template'', JStr template),
      (''llm_profile'', JStr llm_profile), (''system_prompt_package'', JStr system_prompt_package), (''trace_id'', JStr trace_id)]"

definition put_package :: "executive_env \<Rightarrow> string \<Rightarrow> string \<Rightarrow> string \<Rightarrow> string \<Rightarrow> string \<Rightarrow> string \<Rightarrow> executive_state \<Rightarrow> artifact_pointer executive_run" where
  "put_package env artifact_type project_id template llm_profile system_prompt_package trace_id =
     in_office (put_record env ''cwo'' (writes_as ''cwo'' ''approved'') project_id artifact_type
       (package_payload artifact_type project_id template llm_profile system_prompt_package trace_id))"

definition bind_template :: "executive_env \<Rightarrow> string \<Rightarrow> string \<Rightarrow> string \<Rightarrow> string \<Rightarrow> oversight_state \<Rightarrow> agent_record oversight_run" where
  "bind_template env project_id template llm_profile system_prompt_package s =
     (case oversight_now s of (now, s1) \<Rightarrow>
        (case bind_project_workforce (ox_sha (ev_office env)) project_id template llm_profile system_prompt_package now (os_agents s1) of
           (q, agents) \<Rightarrow> (q, s1\<lparr>os_agents := agents\<rparr>)))"

definition project_charter_absent :: "string \<Rightarrow> artifact_db \<Rightarrow> artifact_error + bool" where
  "project_charter_absent project_id db =
     (case read_latest_artifact db project_id ''project_charter'' of
        Inl e \<Rightarrow> Inl e
      | Inr (Some _) \<Rightarrow> Inr False
      | Inr None \<Rightarrow> (case get_latest_pointer db project_id ''project_charter'' of Inl e \<Rightarrow> Inl e | Inr p \<Rightarrow> Inr (p = None)))"

definition initialize :: "executive_env \<Rightarrow> string \<Rightarrow> string \<Rightarrow> string \<Rightarrow> string \<Rightarrow> string \<Rightarrow> executive_state \<Rightarrow> unit executive_run" where
  "initialize env project_id template llm_profile system_prompt_package trace_id s =
     and_then (verify_approval_chain env project_id s) (\<lambda>_ s1.
     and_then (put_package env ''workforce_plan'' project_id template llm_profile system_prompt_package trace_id s1) (\<lambda>_ s2.
     and_then (in_office (bind_template env project_id template llm_profile system_prompt_package) s2) (\<lambda>_ s3.
     and_then (reading (project_charter_absent project_id) s3) (\<lambda>absent s4.
       if absent
       then and_then (put_package env ''project_charter'' project_id template llm_profile system_prompt_package trace_id s4) (\<lambda>_ s5. (Inr (), s5))
       else (Inr (), s4)))))"

section \<open>The CWO\<close>

record cwo_request =
  wq_message :: string
  wq_intent :: string
  wq_project_id :: "string option"
  wq_context :: json_object
  wq_trace_id :: string

record cwo_response =
  wr_action_taken :: "string option"
  wr_advisory_text :: string
  wr_workforce_status :: "string option"
  wr_trace_id :: string

definition cwo_executive :: executive_profile where
  "cwo_executive = \<lparr>ep_agent_id = ''cwo'', ep_skill_id = ''workforce_command'', ep_temperature = 2 / 10,
     ep_policy = v2_policy ''cwo-v1'' [''AUTH-001'', ''AUTH-002'', ''AUTH-003'', ''ORCH-001'', ''ORCH-002''], ep_budget = token_budget 512\<rparr>"

definition fallback_status :: string where
  "fallback_status = ''Status: workforce posture is not ready for mutation. Refresh governed records and route unresolved blockers to the correct executive owner.''"

definition fallback_proposal :: string where
  "fallback_proposal = ''Command: draft the workforce package, submit it for CSO review, and hold activation until CEO and owner approvals are recorded.''"

definition fallback_initialization :: string where
  "fallback_initialization = ''Command: workforce initialization recorded. Bind the approved template package and hold execution to the governed project scope.''"

definition cwo_strategy_keywords :: "string list" where
  "cwo_strategy_keywords = [''strategy'', ''strategic'', ''domain dispute'', ''portfolio conflict'', ''cross-project'']"

definition cwo_execution_keywords :: "string list" where
  "cwo_execution_keywords = [''execution risk'', ''delivery blocker'', ''milestone blocker'', ''project execution'', ''implementation risk'']"

definition cwo_budget_keywords :: "string list" where
  "cwo_budget_keywords = [''budget blocker'', ''budget risk'', ''budget overrun'', ''policy blocker'', ''funding blocker'']"

definition classify_routing_target :: "executive_env \<Rightarrow> cwo_request \<Rightarrow> string option" where
  "classify_routing_target env r =
     (let message = routing_text (ev_str env) (wq_message r) (wq_context r)
      in if mentions cwo_strategy_keywords message then Some ''cso''
         else if mentions cwo_execution_keywords message then Some ''project_manager''
         else if mentions cwo_budget_keywords message then Some ''ceo''
         else None)"

definition route_text :: "string \<Rightarrow> string" where
  "route_text route =
     (if route = ''cso'' then ''Command: route the domain strategy dispute to CSO for strategic review.''
      else if route = ''project_manager'' then ''Command: route the project execution risk to Project Manager for operational handling.''
      else ''Command: route the budget or policy blocker to CEO for executive action.'')"

definition infer_workforce_status :: "project_snapshot option \<Rightarrow> string \<Rightarrow> string option" where
  "infer_workforce_status snapshot workforce_plan =
     (if workforce_plan \<noteq> ''none'' then Some ''initialized''
      else case normalize_optional_text (map_option sn_status snapshot) of
             None \<Rightarrow> None
           | Some status \<Rightarrow>
               if status \<in> {''proposed'', ''approved''} then Some ''pending_approval''
               else if status \<in> {''blocked'', ''paused''} then Some ''blocked'' else None)"

definition cwo_artifact_summary :: "string option \<Rightarrow> string \<Rightarrow> artifact_db \<Rightarrow> artifact_error + string" where
  "cwo_artifact_summary project_id artifact_type db =
     (case project_id of
        None \<Rightarrow> Inr ''none''
      | Some pid \<Rightarrow>
          (case read_latest_artifact db pid artifact_type of
             Inl e \<Rightarrow> Inl e
           | Inr None \<Rightarrow> Inr ''none''
           | Inr (Some doc) \<Rightarrow> Inr (take 160 (first_line (snd doc)))))"

definition render_context_value :: "executive_env \<Rightarrow> json option \<Rightarrow> string" where
  "render_context_value env v = (case v of None \<Rightarrow> [] | Some JNull \<Rightarrow> [] | Some (JObj d) \<Rightarrow> ev_render env (JObj d)
     | Some (JList xs) \<Rightarrow> ev_render env (JList xs) | Some x \<Rightarrow> py_str (ev_str env) x)"

definition cwo_answer :: "cwo_request \<Rightarrow> string option \<Rightarrow> string \<Rightarrow> string option \<Rightarrow> cwo_response" where
  "cwo_answer r action advisory status =
     \<lparr>wr_action_taken = action, wr_advisory_text = advisory, wr_workforce_status = status, wr_trace_id = wq_trace_id r\<rparr>"

definition cwo_require_project_id :: "string option \<Rightarrow> string \<Rightarrow> executive_error + string" where
  "cwo_require_project_id project_id action =
     (case normalize_optional_text project_id of
        None \<Rightarrow> Inl (CwoCommandError (''CWO '' @ action @ '' requires a non-empty project_id''))
      | Some pid \<Rightarrow> Inr pid)"

definition required_context :: "executive_env \<Rightarrow> json_object \<Rightarrow> string \<Rightarrow> executive_error + string" where
  "required_context env d key =
     (case context_text (ev_str env) d key of
        None \<Rightarrow> Inl (CwoCommandError (''CWO command requires context['' @ py_repr key @ '']''))
      | Some v \<Rightarrow> Inr v)"

text \<open>A value or the exception instead of it.\<close>

definition given :: "executive_error + 'a \<Rightarrow> executive_state \<Rightarrow> 'a executive_run" where
  "given q s = (q, s)"

definition handle_status :: "executive_env \<Rightarrow> cwo_request \<Rightarrow> executive_state \<Rightarrow> cwo_response executive_run" where
  "handle_status env r s =
     (case classify_routing_target env r of
        Some route \<Rightarrow> (Inr (cwo_answer r (Some ''routed'') (route_text route) (Some ''blocked'')), s)
      | None \<Rightarrow>
          (let snapshot = (case nonempty_opt (wq_project_id r) of None \<Rightarrow> None
                 | Some pid \<Rightarrow> get_project_snapshot (xs_governance s) (os_tasks (xs_office s)) pid)
           in and_then (reading (cwo_artifact_summary (wq_project_id r) ''workforce_plan'') s) (\<lambda>workforce_plan s1.
              and_then (reading (cwo_artifact_summary (wq_project_id r) ''project_charter'') s1) (\<lambda>project_charter s2.
              and_then (complete_llm env cwo_executive (wq_project_id r) (wq_trace_id r)
                  (ev_template env ''cwo.workforce_status''
                     [(''project_id'', or_str (wq_project_id r) ''system''),
                      (''project_title'', or_str (case snapshot of None \<Rightarrow> None | Some sn \<Rightarrow> sn_title sn) ''unknown''),
                      (''project_state'', case snapshot of None \<Rightarrow> ''unknown'' | Some sn \<Rightarrow> sn_status sn),
                      (''active_tasks'', show_nat (case snapshot of None \<Rightarrow> 0 | Some sn \<Rightarrow> sn_active_task_count sn)),
                      (''blocked_tasks'', show_nat (case snapshot of None \<Rightarrow> 0 | Some sn \<Rightarrow> sn_blocked_task_count sn)),
                      (''workforce_plan'', workforce_plan), (''project_charter'', project_charter), (''message'', take 1000 (wq_message r))])
                  fallback_status s2) (\<lambda>status_text s3.
                (Inr (cwo_answer r None (ensure_command_language status_text ''Status'') (infer_workforce_status snapshot workforce_plan)), s3))))))"

definition read_cso_review_outcome :: "executive_env \<Rightarrow> string \<Rightarrow> string \<Rightarrow> artifact_db \<Rightarrow> artifact_error + string option" where
  "read_cso_review_outcome env project_id proposal_id db =
     (case list_artifact_documents db project_id ''cso_review'' of
        Inl e \<Rightarrow> Inl e
      | Inr docs \<Rightarrow>
          Inr (case find (\<lambda>d. has_proposal env proposal_id d \<and> is_review_event env (payload_of env d)) (rev docs) of
                 None \<Rightarrow> None
               | Some d \<Rightarrow> context_text (ev_str env) (payload_of env d) ''review_outcome''))"

definition flow_proposal_id :: "executive_env \<Rightarrow> cwo_request \<Rightarrow> string \<Rightarrow> string" where
  "flow_proposal_id env r project_id = or_str (context_text (ev_str env) (wq_context r) ''proposal_id'') (project_id @ ''-'' @ wq_trace_id r)"

definition flow_scope :: "executive_env \<Rightarrow> cwo_request \<Rightarrow> string" where
  "flow_scope env r = or_str (context_text (ev_str env) (wq_context r) ''project_scope'') (wq_message r)"

definition flow_cso_request :: "executive_env \<Rightarrow> cwo_request \<Rightarrow> string \<Rightarrow> string \<Rightarrow> cso_request" where
  "flow_cso_request env r project_id draft =
     \<lparr>so_message = draft, so_intent = Mutation,
      so_context = \<lparr>cx_chat_class = ''institutional'', cx_channel_id = ''cwo'', cx_project_id = Some project_id\<rparr>,
      so_trace_id = wq_trace_id r, so_proposal_id = Some (flow_proposal_id env r project_id),
      so_portfolio_context = context_text (ev_str env) (wq_context r) ''portfolio_context''\<rparr>"

definition flow_ceo_request :: "executive_env \<Rightarrow> cwo_request \<Rightarrow> string \<Rightarrow> string \<Rightarrow> string \<Rightarrow> string \<Rightarrow> ceo_request" where
  "flow_ceo_request env r project_id draft cso_advisory cso_review_outcome =
     \<lparr>eq_message = draft, eq_intent = ''MUTATION'',
      eq_context = dict_put (dict_put (dict_put (wq_context r) ''project_id'' (JStr project_id)) ''project_scope'' (JStr (flow_scope env r)))
        ''cso_advisory_text'' (JStr cso_advisory),
      eq_proposal_id = Some (flow_proposal_id env r project_id), eq_cso_review_outcome = Some cso_review_outcome, eq_trace_id = wq_trace_id r\<rparr>"

definition submitted_text :: "string \<Rightarrow> string" where
  "submitted_text advisory =
     ''Workforce proposal submitted. CEO approved the package. Await owner co-approval before initialization. '' @ advisory"

definition blocked_text :: "string \<Rightarrow> string" where
  "blocked_text advisory = ''Workforce proposal blocked. Hold initialization until the CEO decision path is resolved. '' @ advisory"

definition handle_proposal_flow :: "executive_env \<Rightarrow> cwo_request \<Rightarrow> executive_state \<Rightarrow> cwo_response executive_run" where
  "handle_proposal_flow env r s =
     and_then (given (cwo_require_project_id (wq_project_id r) ''proposal submission'') s) (\<lambda>project_id s0.
     and_then (complete_llm env cwo_executive (Some project_id) (wq_trace_id r)
         (ev_template env ''cwo.proposal_draft''
            [(''project_id'', project_id), (''project_scope'', take 1500 (flow_scope env r)),
             (''budget_context'', take 1000 (or_str (Some (render_context_value env (dict_get (wq_context r) ''budget_context''))) ''unknown''))])
         fallback_proposal s0) (\<lambda>draft s1.
     and_then (cso_handle env (flow_cso_request env r project_id draft) s1) (\<lambda>cso s2.
     and_then (reading (read_cso_review_outcome env project_id (flow_proposal_id env r project_id)) s2) (\<lambda>outcome s3.
       case outcome of
         None \<Rightarrow> (Inl (CwoCommandError ''GATE-006 denied: CSO review outcome record must exist before CEO review''), s3)
       | Some o' \<Rightarrow>
           and_then (ceo_handle env (flow_ceo_request env r project_id draft (sr_advisory_text cso) o') s3) (\<lambda>ceo s4.
             (Inr (if er_decision ceo = Some ''approved''
                   then cwo_answer r (Some ''proposal_submitted'') (ensure_command_language (submitted_text (er_advisory_text ceo)) ''Status'')
                          (Some ''pending_owner_approval'')
                   else cwo_answer r None (ensure_command_language (blocked_text (er_advisory_text ceo)) ''Status'') (Some ''blocked'')), s4))))))"

definition write_cwo_coapproval :: "executive_env \<Rightarrow> string \<Rightarrow> string \<Rightarrow> string option \<Rightarrow> string \<Rightarrow> string \<Rightarrow> executive_state \<Rightarrow> artifact_pointer executive_run" where
  "write_cwo_coapproval env project_id approval_type artifact_type trace_id project_state =
     in_office (put_record env ''cwo'' (writes_as ''cwo'' project_state) project_id ''cwo_coapproval''
       (coapproval_payload ''cwo_coapproval'' approval_type artifact_type trace_id @ [(''author_role'', JStr ''cwo'')]))"

definition read_completion_report :: "string \<Rightarrow> artifact_db \<Rightarrow> artifact_error + bool" where
  "read_completion_report project_id db =
     (case read_latest_artifact db project_id ''completion_report'' of Inl e \<Rightarrow> Inl e | Inr d \<Rightarrow> Inr (d \<noteq> None))"

definition handle_initialization :: "executive_env \<Rightarrow> cwo_request \<Rightarrow> executive_state \<Rightarrow> cwo_response executive_run" where
  "handle_initialization env r s =
     and_then (given (cwo_require_project_id (wq_project_id r) ''workforce initialization'') s) (\<lambda>project_id s0.
     and_then (reading (read_completion_report project_id) s0) (\<lambda>reported s1.
     and_then (guard reported (CwoCommandError
         ''Workforce initialization denied: PM completion_report is required before CWO workforce-readiness authorization'') s1) (\<lambda>_ s2.
     and_then (given (required_context env (wq_context r) ''template'') s2) (\<lambda>template s3.
     and_then (given (required_context env (wq_context r) ''llm_profile'') s3) (\<lambda>llm_profile s4.
     and_then (given (required_context env (wq_context r) ''system_prompt_package'') s4) (\<lambda>package s5.
     and_then (initialize env project_id template llm_profile package (wq_trace_id r) s5) (\<lambda>_ s6.
     and_then (write_cwo_coapproval env project_id
         (or_str (context_text (ev_str env) (wq_context r) ''approval_type'') ''project_completion'')
         (context_text (ev_str env) (wq_context r) ''artifact_type'') (wq_trace_id r)
         (or_str (context_text (ev_str env) (wq_context r) ''project_state'') ''active'') s6) (\<lambda>_ s7.
     and_then (complete_llm env cwo_executive (Some project_id) (wq_trace_id r)
         (ev_template env ''cwo.initialization_complete''
            [(''project_id'', project_id), (''bound_template'', template), (''bound_llm_profile'', llm_profile)])
         fallback_initialization s7) (\<lambda>completion_text s8.
       (Inr (cwo_answer r (Some ''workforce_initialized'') (ensure_command_language completion_text ''Command'') (Some ''initialized'')), s8))))))))))"

definition has_ceo_coapproval :: "executive_env \<Rightarrow> string \<Rightarrow> string \<Rightarrow> artifact_db \<Rightarrow> artifact_error + bool" where
  "has_ceo_coapproval env = has_coapproval env ''ceo_coapproval''"

definition cwo_handle_coapproval :: "executive_env \<Rightarrow> cwo_request \<Rightarrow> executive_state \<Rightarrow> cwo_response executive_run" where
  "cwo_handle_coapproval env r s =
     and_then (given (cwo_require_project_id (wq_project_id r) ''coapproval'') s) (\<lambda>project_id s0.
       let approval_type = or_str (context_text (ev_str env) (wq_context r) ''approval_type'') ''controlled_doc_edit''
       in and_then (reading (has_ceo_coapproval env project_id approval_type) s0) (\<lambda>found s1.
          and_then (guard found (CwoCommandError ''ORCH-005 denied: CEO co-approval evidence is required before CWO co-approval'') s1) (\<lambda>_ s2.
          and_then (write_cwo_coapproval env project_id approval_type (context_text (ev_str env) (wq_context r) ''artifact_type'') (wq_trace_id r)
              (or_str (context_text (ev_str env) (wq_context r) ''project_state'') ''active'') s2) (\<lambda>_ s3.
            (Inr (cwo_answer r (Some ''coapproval_recorded'') ''Command: workforce readiness authorized within the controlled change scope.'' None), s3)))))"

definition show_action :: "string option \<Rightarrow> string" where
  "show_action a = (case a of None \<Rightarrow> ''None'' | Some x \<Rightarrow> py_repr x)"

definition cwo_handle :: "executive_env \<Rightarrow> cwo_request \<Rightarrow> executive_state \<Rightarrow> cwo_response executive_run" where
  "cwo_handle env r s =
     (let intent = py_upper (py_strip (wq_intent r)); action = context_text (ev_str env) (wq_context r) ''action''
      in if intent \<in> {''DISCUSSION'', ''QUERY''} then handle_status env r s
         else if intent = ''MUTATION'' \<and> action = Some ''submit_proposal'' then handle_proposal_flow env r s
         else if intent = ''MUTATION'' \<and> action = Some ''initialize_workforce'' then handle_initialization env r s
         else if intent = ''ADMIN'' then cwo_handle_coapproval env r s
         else (Inl (CwoCommandError (''Unsupported CWO command action: '' @ py_repr (wq_intent r) @ '' / '' @ show_action action)), s))"

section \<open>Histories\<close>

datatype executive_request = ToCso cso_request | ToCeo ceo_request | ToCwo cwo_request

fun execute :: "executive_env \<Rightarrow> executive_request \<Rightarrow> executive_state \<Rightarrow> executive_state" where
  "execute env (ToCso r) s = snd (cso_handle env r s)"
| "execute env (ToCeo r) s = snd (ceo_handle env r s)"
| "execute env (ToCwo r) s = snd (cwo_handle env r s)"

text \<open>The executives beside the administrator and the auditor of \<open>Oversight\<close>.\<close>

datatype office_call = Executive executive_request | Overseer oversight_call

fun office_step :: "executive_env \<Rightarrow> office_call \<Rightarrow> executive_state \<Rightarrow> executive_state" where
  "office_step env (Executive c) s = execute env c s"
| "office_step env (Overseer c) s = s\<lparr>xs_office := snd (oversee (ev_office env) c (xs_office s))\<rparr>"

abbreviation records :: "executive_state \<Rightarrow> artifact_db" where
  "records s \<equiv> os_artifacts (xs_office s)"

abbreviation workforce :: "executive_state \<Rightarrow> agent_table" where
  "workforce s \<equiv> os_agents (xs_office s)"

text \<open>The evidence that the initialization of a project's workforce asks for.\<close>

definition cleared :: "executive_env \<Rightarrow> string \<Rightarrow> artifact_db \<Rightarrow> bool" where
  "cleared env project_id db = (has_cso_review env project_id db = Inr True \<and> has_ceo_approval env project_id db = Inr True \<and>
     read_completion_report project_id db = Inr True)"

definition asks_initialization :: "executive_env \<Rightarrow> executive_request \<Rightarrow> bool" where
  "asks_initialization env c = (case c of ToCwo r \<Rightarrow> py_upper (py_strip (wq_intent r)) = ''MUTATION'' \<and>
     context_text (ev_str env) (wq_context r) ''action'' = Some ''initialize_workforce'' | _ \<Rightarrow> False)"

section \<open>Lemmas\<close>

subsection \<open>What the steps keep\<close>

text \<open>Records are appended and the registry stays.\<close>

definition records_grow :: "executive_state \<Rightarrow> executive_state \<Rightarrow> bool" where
  "records_grow s s' = (artifacts_ok (records s') \<and> prefix (ab_rows (records s)) (ab_rows (records s')) \<and> workforce s' = workforce s)"

lemma records_grow_refl: "artifacts_ok (records s) \<Longrightarrow> records_grow s s"
  by (simp add: records_grow_def)

lemma records_grow_trans: "records_grow s s1 \<Longrightarrow> records_grow s1 s2 \<Longrightarrow> records_grow s s2"
  by (auto simp: records_grow_def)

lemma complete_llm_frame [simp]:
  "records (snd (complete_llm env prof pid tr p fb s)) = records s" "workforce (snd (complete_llm env prof pid tr p fb s)) = workforce s"
  by (simp_all add: complete_llm_def Let_def case_prod_beta split: prod.split sum.split)

lemma reading_state [simp]: "snd (reading f s) = s"
  by (simp add: reading_def split: sum.split)

lemma guard_state [simp]: "snd (guard b e s) = s"
  by (simp add: guard_def)

lemma given_state [simp]: "snd (given q s) = s"
  by (simp add: given_def)

lemma records_grow_put: "records_grow s0 s \<Longrightarrow> records_grow s0 (snd (in_office (put_record env agent ctx pid ty pl) s))"
proof -
  assume g: "records_grow s0 s"
  obtain now off where now: "oversight_now (xs_office s) = (now, off)" by fastforce
  then have off: "os_artifacts off = records s" "os_agents off = workforce s"
    using draws_frame(6,7) [where s = "xs_office s"] by simp_all
  have "artifacts_ok (os_artifacts off)" using g off by (simp add: records_grow_def)
  from put_document_step [OF this, of pid ty "ev_dumps env agent (pl @ [(''created_at'', JIso now)])" "ev_office env" ctx]
  show ?thesis using g off now
    by (cases "put_document (ev_office env) ctx pid ty (ev_dumps env agent (pl @ [(''created_at'', JIso now)])) off";
        cases "fst (put_document (ev_office env) ctx pid ty (ev_dumps env agent (pl @ [(''created_at'', JIso now)])) off)")
       (auto simp: in_office_def put_record_def records_grow_def intro: prefix_order.trans)
qed

lemma records_grow_simple:
  "records_grow s0 s \<Longrightarrow> records_grow s0 (snd (complete_llm env prof pid tr p fb s))"
  "records_grow s0 s \<Longrightarrow> records_grow s0 (snd (reading f s))" "records_grow s0 s \<Longrightarrow> records_grow s0 (snd (guard b e s))"
  "records_grow s0 s \<Longrightarrow> records_grow s0 (snd (given q s))" "records_grow s0 s \<Longrightarrow> records_grow s0 (snd (z, s))"
  by (simp_all add: records_grow_def)

lemma records_grow_let: "records_grow s0 (snd (f x)) \<Longrightarrow> records_grow s0 (snd (let y = x in f y))"
  by simp

lemma records_grow_if: "(b \<Longrightarrow> records_grow s0 (snd p)) \<Longrightarrow> (\<not> b \<Longrightarrow> records_grow s0 (snd q)) \<Longrightarrow> records_grow s0 (snd (if b then p else q))"
  by simp

lemmas records_grow_seq = and_then_inv [where P = "records_grow s0" for s0]

lemmas records_grow_intros = records_grow_seq records_grow_simple records_grow_put records_grow_let records_grow_if

lemma records_grow_writers:
  "records_grow s0 s \<Longrightarrow> records_grow s0 (write_governance_record env a b c d e s)"
  "records_grow s0 s \<Longrightarrow> records_grow s0 (snd (write_proposal_decision env a b' c d b'' n f e s))"
  "records_grow s0 s \<Longrightarrow> records_grow s0 (snd (write_coapproval_record env a b b' d s))"
  "records_grow s0 s \<Longrightarrow> records_grow s0 (snd (write_cwo_coapproval env a b b' d e s))"
  "records_grow s0 s \<Longrightarrow> records_grow s0 (snd (put_package env a b c d e f' s))"
  unfolding write_governance_record_def write_coapproval_record_def write_cwo_coapproval_def put_package_def write_proposal_decision_def
  by (auto intro!: records_grow_intros split: option.split)

lemma records_grow_cso: "records_grow s0 s \<Longrightarrow> records_grow s0 (snd (cso_handle env r s))"
  unfolding cso_handle_def Let_def by (intro records_grow_seq records_grow_simple(1)) (auto intro: records_grow_writers split: option.split)

lemma records_grow_directive: "records_grow s0 s \<Longrightarrow> records_grow s0 (snd (strategic_directive env r l s))"
  unfolding strategic_directive_def by (intro records_grow_intros)

lemma records_grow_decide: "records_grow s0 s \<Longrightarrow> records_grow s0 (snd (decide_proposal env r i d n f s))"
  unfolding decide_proposal_def Let_def by (intro records_grow_intros records_grow_writers)

lemma records_grow_review: "records_grow s0 s \<Longrightarrow> records_grow s0 (snd (handle_proposal_review env r s))"
  unfolding handle_proposal_review_def Let_def
  by (auto intro!: records_grow_seq records_grow_simple(2,3) records_grow_decide split: option.split)

lemma records_grow_ceo_coapproval: "records_grow s0 s \<Longrightarrow> records_grow s0 (snd (ceo_handle_coapproval env r s))"
  unfolding ceo_handle_coapproval_def Let_def
  by (auto intro!: records_grow_seq records_grow_simple(1-3) records_grow_writers split: option.split)

lemma records_grow_ceo: "records_grow s0 s \<Longrightarrow> records_grow s0 (snd (ceo_handle env r s))"
  by (simp add: ceo_handle_def Let_def records_grow_review records_grow_ceo_coapproval records_grow_directive handle_executive_mutation_def handle_directive_def
      split: option.split)

lemma records_grow_status: "records_grow s0 s \<Longrightarrow> records_grow s0 (snd (handle_status env r s))"
  unfolding handle_status_def Let_def by (simp add: records_grow_seq records_grow_simple split: option.split)

lemma records_grow_flow: "records_grow s0 s \<Longrightarrow> records_grow s0 (snd (handle_proposal_flow env r s))"
  unfolding handle_proposal_flow_def by (intro records_grow_seq records_grow_simple(1,2,4) records_grow_cso; auto intro!: records_grow_seq records_grow_ceo split: option.split)

lemma records_grow_cwo_coapproval: "records_grow s0 s \<Longrightarrow> records_grow s0 (snd (cwo_handle_coapproval env r s))"
  unfolding cwo_handle_coapproval_def Let_def by (intro records_grow_intros records_grow_writers)

subsection \<open>Evidence\<close>

text \<open>A type as the code writes it is its own normal form.\<close>

lemma record_types_valid [simp]:
  "validate_artifact_type ''cso_review'' = Inr ''cso_review''"
  "validate_artifact_type ''ceo_proposal_decision'' = Inr ''ceo_proposal_decision''"
  "validate_artifact_type ''ceo_coapproval'' = Inr ''ceo_coapproval''"
  "validate_artifact_type ''cwo_coapproval'' = Inr ''cwo_coapproval''"
  "validate_artifact_type ''completion_report'' = Inr ''completion_report''"
  "validate_artifact_type ''decision_log'' = Inr ''decision_log''"
  "validate_artifact_type ''workforce_plan'' = Inr ''workforce_plan''"
  "validate_artifact_type ''project_charter'' = Inr ''project_charter''"
  by code_simp+

definition has_row :: "artifact_db \<Rightarrow> string \<Rightarrow> string \<Rightarrow> (string \<Rightarrow> bool) \<Rightarrow> bool" where
  "has_row db pid ty P = list_ex (\<lambda>r. ar_project_id r = pid \<and> ar_artifact_type r = ty \<and> P (ar_content r)) (ab_rows db)"

lemma has_row_mono: "has_row db pid ty P \<Longrightarrow> prefix (ab_rows db) (ab_rows db') \<Longrightarrow> has_row db' pid ty P"
  by (auto simp: has_row_def prefix_def)

lemma listed_documents:
  assumes "validate_artifact_type ty = Inr ty" "list_artifact_documents db project_id ty = Inr docs"
  obtains pid where "validate_project_id project_id = Inr pid" "snd ` set docs = ar_content ` set (rows_of db pid ty)"
  using assms by (auto simp: list_artifact_documents_def with_key_def document_of_def image_image split: sum.splits)

lemma list_has_True:
  assumes "validate_artifact_type ty = Inr ty"
  shows "list_has env ty P project_id db = Inr True \<longleftrightarrow>
    (\<exists>pid. validate_project_id project_id = Inr pid \<and> has_row db pid ty (\<lambda>c. P (load_payload (ev_office env) c)))"
  using assms
  by (auto simp: list_has_def list_artifact_documents_def with_key_def document_of_def payload_of_def has_row_def rows_of_def list_ex_iff
      split: sum.splits)

lemma latest_row_None: "latest_row db pid ty = None \<longleftrightarrow> rows_of db pid ty = []"
  by (auto simp: latest_row_def split: list.split) (metis list.distinct(1) set_empty set_rev set_sort)

lemma completion_True:
  "read_completion_report project_id db = Inr True \<longleftrightarrow>
    (\<exists>pid. validate_project_id project_id = Inr pid \<and> has_row db pid ''completion_report'' (\<lambda>_. True))"
proof -
  have "latest_row db pid ''completion_report'' \<noteq> None \<longleftrightarrow> has_row db pid ''completion_report'' (\<lambda>_. True)" for pid
    by (auto simp: latest_row_None rows_of_def has_row_def list_ex_iff filter_empty_conv)
  then show ?thesis
    by (cases "validate_project_id project_id")
       (simp_all add: read_completion_report_def read_latest_artifact_def with_key_def del: not_None_eq)
qed

lemma cleared_mono: "cleared env pid db \<Longrightarrow> prefix (ab_rows db) (ab_rows db') \<Longrightarrow> cleared env pid db'"
  unfolding cleared_def has_cso_review_def has_ceo_approval_def
  by (auto simp: list_has_True completion_True intro: has_row_mono)

subsection \<open>Initialization\<close>

lemma reading_run: "f (records s) = Inr x \<Longrightarrow> reading f s = (Inr x, s)" "f (records s) = Inl e \<Longrightarrow> reading f s = (Inl (OfficeFailure (ArtifactFailure e)), s)"
  by (simp_all add: reading_def)

lemma chain_state [simp]: "snd (verify_approval_chain env pid s) = s"
proof -
  have "snd (and_then r f) = s" if "snd r = s" "\<And>x. snd (f x s) = s" for r :: "('e, 'a, executive_state) run" and f :: "'a \<Rightarrow> executive_state \<Rightarrow> ('e, 'b, executive_state) run"
    using that by (cases r; cases "fst r") auto
  note this [intro!]
  show ?thesis unfolding verify_approval_chain_def Let_def by (auto)
qed

lemma chain_verified:
  assumes "verify_approval_chain env pid s = (Inr u, s')"
  shows "has_cso_review env pid (records s) = Inr True \<and> has_ceo_approval env pid (records s) = Inr True"
  using assms
  by (auto simp: verify_approval_chain_def Let_def and_then_Inr reading_def [of "has_cso_review env pid"] reading_def [of "has_ceo_approval env pid"]
      guard_def split: sum.splits if_splits)

lemma bind_workforce_agents:
  assumes "in_office (bind_template env pid t l p) s = (q, s')"
  shows "records s' = records s" "a \<in> set (workforce s') \<Longrightarrow> a \<in> set (workforce s) \<or> ag_role a = ''cwo:'' @ py_lower (py_strip pid)"
proof -
  show "records s' = records s"
    using assms by (auto simp: in_office_def bind_template_def case_prod_beta split: prod.splits sum.splits)
  show "a \<in> set (workforce s') \<Longrightarrow> a \<in> set (workforce s) \<or> ag_role a = ''cwo:'' @ py_lower (py_strip pid)"
    using assms
    by (auto simp: in_office_def bind_template_def bind_project_workforce_def workforce_record_def Let_def case_prod_beta split: prod.splits sum.splits if_splits)
qed

text \<open>From \<open>s0\<close> on, records were only appended, and rows of the registry that are new belong to the workforce of the project \<open>q\<close>.\<close>

definition bound_after :: "string option \<Rightarrow> executive_state \<Rightarrow> executive_state \<Rightarrow> bool" where
  "bound_after q s0 s = (artifacts_ok (records s) \<and> prefix (ab_rows (records s0)) (ab_rows (records s)) \<and>
     (\<forall>a \<in> set (workforce s). a \<in> set (workforce s0) \<or> (\<exists>pid. q = Some pid \<and> ag_role a = ''cwo:'' @ py_lower (py_strip pid))))"

lemma bound_after_refl: "artifacts_ok (records s) \<Longrightarrow> bound_after q s s"
  by (simp add: bound_after_def)

lemma bound_after_grows:
  assumes "bound_after q s0 s" "records_grow s s \<Longrightarrow> records_grow s s'" shows "bound_after q s0 s'"
proof -
  have "records_grow s s'" using assms by (simp add: bound_after_def records_grow_refl)
  then show ?thesis using assms(1) unfolding bound_after_def records_grow_def by (auto intro: prefix_order.trans)
qed

lemma bound_after_steps:
  "bound_after q s0 s \<Longrightarrow> bound_after q s0 (snd (complete_llm env prof p tr pr fb s))"
  "bound_after q s0 s \<Longrightarrow> bound_after q s0 (snd (write_cwo_coapproval env a b b' d e s))"
  "bound_after q s0 s \<Longrightarrow> bound_after q s0 (snd (put_package env a b c d e f s))"
  by (erule bound_after_grows, erule records_grow_simple records_grow_writers)+

lemma bound_after_bind:
  assumes "bound_after (Some pid) s0 s" shows "bound_after (Some pid) s0 (snd (in_office (bind_template env pid t l p) s))"
proof -
  obtain r s' where b: "in_office (bind_template env pid t l p) s = (r, s')" by fastforce
  show ?thesis using assms bind_workforce_agents(1) [OF b] bind_workforce_agents(2) [OF b] unfolding bound_after_def b snd_conv by metis
qed

lemma bound_after_initialize:
  assumes "artifacts_ok (records s)" "read_completion_report pid (records s) = Inr True"
  shows "bound_after (if cleared env pid (records s) then Some pid else None) s (snd (initialize env pid t l p tr s))"
proof (cases "fst (verify_approval_chain env pid s)")
  case (Inl e)
  then have "verify_approval_chain env pid s = (Inl e, s)" using chain_state [of env pid s] by (metis prod.collapse)
  then show ?thesis using assms(1) by (simp add: initialize_def bound_after_refl)
next
  case (Inr u)
  then have v: "verify_approval_chain env pid s = (Inr u, s)" using chain_state [of env pid s] by (metis prod.collapse)
  then have c: "cleared env pid (records s)" using chain_verified assms(2) by (simp add: cleared_def)
  have "bound_after (Some pid) s (snd (initialize env pid t l p tr s))"
    unfolding initialize_def v and_then_simps
    by (auto intro!: and_then_inv [where P = "bound_after (Some pid) s"] bound_after_steps bound_after_bind bound_after_refl assms(1))
  then show ?thesis using c by simp
qed

lemma bound_after_initialization:
  assumes "artifacts_ok (records s)"
  shows "\<exists>q. bound_after q s (snd (handle_initialization env r s)) \<and>
    (\<forall>pid. q = Some pid \<longrightarrow> normalize_optional_text (wq_project_id r) = Some pid \<and> cleared env pid (records s))"
proof (cases "cwo_require_project_id (wq_project_id r) ''workforce initialization''")
  case (Inl e)
  then show ?thesis using bound_after_refl [OF assms, of None] by (intro exI [of _ None]) (simp add: handle_initialization_def given_def)
next
  case (Inr pid)
  then have pid: "normalize_optional_text (wq_project_id r) = Some pid" by (simp add: cwo_require_project_id_def split: option.splits)
  define q where "q = (if cleared env pid (records s) then Some pid else None)"
  have init: "bound_after q s (snd (initialize env pid t l p tr s))" if "read_completion_report pid (records s) = Inr True" for t l p tr
    unfolding q_def by (rule bound_after_initialize [OF assms that])
  have tail: "bound_after q s (snd (and_then (initialize env pid t l p tr s) (\<lambda>_ s6. and_then (write_cwo_coapproval env pid a b tr st s6) (\<lambda>_ s7.
     and_then (complete_llm env prof pid' tr pr fb s7) (\<lambda>ct s8. (Inr (f ct), s8))))))"
    if "read_completion_report pid (records s) = Inr True" for t l p tr a b st prof pid' pr fb and f :: "string \<Rightarrow> cwo_response"
    by (intro and_then_inv [where P = "bound_after q s"] init [OF that] bound_after_steps) (unfold snd_conv)
  have "bound_after q s (snd (handle_initialization env r s))"
  proof (cases "read_completion_report pid (records s)")
    case (Inr b)
    then show ?thesis using tail bound_after_refl [OF assms] \<open>cwo_require_project_id _ _ = Inr pid\<close>
      by (cases b) (simp_all add: handle_initialization_def given_def reading_run guard_def required_context_def split: option.split)
  qed (use bound_after_refl [OF assms] Inr in \<open>simp add: handle_initialization_def given_def reading_run\<close>)
  moreover have "p = pid \<and> cleared env pid (records s)" if "q = Some p" for p using that by (simp add: q_def split: if_splits)
  ultimately show ?thesis using pid by blast
qed

text \<open>
  A step of the office only appends records, and a workforce row it adds was asked for by a request to the CWO, which came when the evidence
  of the project was on file.
\<close>

definition binding_request :: "executive_env \<Rightarrow> office_call \<Rightarrow> string \<Rightarrow> bool" where
  "binding_request env c pid = (\<exists>r. c = Executive (ToCwo r) \<and> asks_initialization env (ToCwo r) \<and>
     normalize_optional_text (wq_project_id r) = Some pid)"

definition has_role :: "executive_state \<Rightarrow> string \<Rightarrow> bool" where
  "has_role s role = (\<exists>a \<in> set (workforce s). ag_agent_type a = ''project_workforce'' \<and> ag_role a = role)"

definition office_grows :: "executive_env \<Rightarrow> office_call \<Rightarrow> executive_state \<Rightarrow> executive_state \<Rightarrow> bool" where
  "office_grows env c s s' = (artifacts_ok (records s') \<and> prefix (ab_rows (records s)) (ab_rows (records s')) \<and>
     (\<forall>role. has_role s' role \<longrightarrow> has_role s role \<or>
       (\<exists>pid. binding_request env c pid \<and> role = ''cwo:'' @ py_lower (py_strip pid) \<and> cleared env pid (records s))))"

lemma execute_grows: "artifacts_ok (records s) \<Longrightarrow> office_grows env (Executive c) s (execute env c s)"
proof -
  assume ok: "artifacts_ok (records s)"
  note g = records_grow_refl [OF ok]
  have grown: "office_grows env (Executive c) s s'" if "records_grow s s'" for s'
    using that by (auto simp: office_grows_def records_grow_def has_role_def)
  show ?thesis
  proof (cases c)
    case (ToCwo r)
    have "office_grows env (Executive c) s (snd (handle_initialization env r s))" if "asks_initialization env (ToCwo r)"
      using bound_after_initialization [OF ok, of env r] that ToCwo
      unfolding bound_after_def office_grows_def has_role_def binding_request_def by metis
    then show ?thesis using ToCwo grown [OF records_grow_status [OF g]] grown [OF records_grow_flow [OF g]] grown [OF g]
        grown [OF records_grow_cwo_coapproval [OF g]]
      by (simp add: cwo_handle_def Let_def asks_initialization_def)
  qed (use grown [OF records_grow_cso [OF g]] grown [OF records_grow_ceo [OF g]] in simp_all)
qed

lemma overseer_grows:
  assumes "artifacts_ok (records s)" shows "office_grows env (Overseer c) s (office_step env (Overseer c) s)"
proof -
  have l: "later (xs_office s) (snd (oversee (ev_office env) c (xs_office s)))" using assms later_oversee [OF later_refl] by blast
  have "has_role s role" if "has_role (office_step env (Overseer c) s) role" for role
  proof -
    from that obtain b where b: "b \<in> set (os_agents (snd (oversee (ev_office env) c (xs_office s))))" "ag_agent_type b = ''project_workforce''"
      "ag_role b = role" by (auto simp: has_role_def)
    from b(1) l obtain a where "a \<in> set (workforce s)" "agent_contained a b" by (force simp: later_def in_set_conv_nth list_all2_conv_all_nth)
    then show ?thesis using b(2,3) unfolding has_role_def agent_contained_def by metis
  qed
  then show ?thesis using l by (simp add: office_grows_def later_def)
qed

lemma office_step_grows: "artifacts_ok (records s) \<Longrightarrow> office_grows env c s (office_step env c s)"
  by (cases c) (use execute_grows overseer_grows in simp_all)

lemma office_prefix:
  assumes "artifacts_ok (records s)"
  shows "artifacts_ok (records (fold (office_step env) cs s)) \<and> prefix (ab_rows (records s)) (ab_rows (records (fold (office_step env) cs s)))"
  using assms
proof (induction cs arbitrary: s)
  case (Cons c cs)
  then show ?case using office_step_grows [OF Cons.prems, of env c] unfolding office_grows_def by (auto intro: prefix_order.trans)
qed simp

lemma bound_by_request:
  assumes "artifacts_ok (records s)" "\<not> has_role s role" "has_role (fold (office_step env) cs s) role"
  shows "\<exists>pid before c after. cs = before @ c # after \<and> binding_request env c pid \<and> role = ''cwo:'' @ py_lower (py_strip pid) \<and>
    cleared env pid (records (fold (office_step env) before s)) \<and> \<not> has_role (fold (office_step env) before s) role"
  using assms(3)
proof (induction cs rule: rev_induct)
  case Nil
  then show ?case using assms(2) by simp
next
  case (snoc c cs)
  let ?s = "fold (office_step env) cs s"
  show ?case
  proof (cases "has_role ?s role")
    case True
    then obtain pid before d after where "cs = before @ d # after" "binding_request env d pid" "role = ''cwo:'' @ py_lower (py_strip pid)"
      "cleared env pid (records (fold (office_step env) before s))" "\<not> has_role (fold (office_step env) before s) role" using snoc.IH by blast
    then show ?thesis by (intro exI [of _ pid] exI [of _ before] exI [of _ d] exI [of _ "after @ [c]"]) simp
  next
    case False
    have "artifacts_ok (records ?s)" using office_prefix [OF assms(1)] by blast
    from office_step_grows [OF this, of env c] snoc.prems False obtain pid where
      "binding_request env c pid" "role = ''cwo:'' @ py_lower (py_strip pid)" "cleared env pid (records ?s)"
      unfolding office_grows_def by auto
    then show ?thesis using False by (intro exI [of _ pid] exI [of _ cs] exI [of _ c] exI [of _ "[]"]) simp
  qed
qed

subsection \<open>Co-approvals\<close>

text \<open>Neither executive has co-approved anything in a project.\<close>

definition uncoapproved :: "string \<Rightarrow> executive_state \<Rightarrow> bool" where
  "uncoapproved pid s = (artifacts_ok (records s) \<and> rows_of (records s) pid ''ceo_coapproval'' = [] \<and> rows_of (records s) pid ''cwo_coapproval'' = [])"

lemma has_coapproval_empty:
  assumes "has_coapproval env ty project_id t db = Inr True" "validate_artifact_type ty = Inr ty"
  shows "\<exists>pid. validate_project_id project_id = Inr pid \<and> rows_of db pid ty \<noteq> []"
  using assms by (auto simp: has_coapproval_def list_artifact_documents_def with_key_def split: sum.splits)

lemma put_record_row:
  assumes "artifacts_ok (records s)"
  shows "run_ok (\<lambda>p s'. \<exists>row now fs. p = pointer_from_row row \<and> validate_project_id pid = Inr (ar_project_id row) \<and>
       validate_artifact_type ty = Inr (ar_artifact_type row) \<and> ar_content row = ev_dumps env agent (pl @ [(''created_at'', JIso now)]) \<and>
       records s' = \<lparr>ab_rows = ab_rows (records s) @ [row], ab_files = fs\<rparr> \<and> artifacts_ok (records s'))
     (\<lambda>e s'. ab_rows (records s') = ab_rows (records s) \<and> artifacts_ok (records s'))
     (in_office (put_record env agent ctx pid ty pl) s)"
proof -
  obtain now off where now: "oversight_now (xs_office s) = (now, off)" by fastforce
  then have off: "os_artifacts off = records s" using draws_frame(7) [where s = "xs_office s"] by simp
  let ?c = "ev_dumps env agent (pl @ [(''created_at'', JIso now)])"
  have "artifacts_ok (os_artifacts off)" using assms off by simp
  from put_document_step [OF this, of pid ty ?c "ev_office env" ctx] show ?thesis using off now
    by (cases "put_document (ev_office env) ctx pid ty ?c off"; cases "fst (put_document (ev_office env) ctx pid ty ?c off)")
       (auto simp: in_office_def put_record_def)
qed

lemma put_record_ok:
  assumes "in_office (put_record env agent ctx pid ty pl) s = (Inr p, s')" "artifacts_ok (records s)"
  obtains row now where "ab_rows (records s') = ab_rows (records s) @ [row]" "validate_project_id pid = Inr (ar_project_id row)"
    "validate_artifact_type ty = Inr (ar_artifact_type row)" "ar_content row = ev_dumps env agent (pl @ [(''created_at'', JIso now)])"
  using put_record_row [OF assms(2), of pid ty env agent pl ctx] unfolding assms(1) by auto

lemma uncoapproved_put:
  assumes "uncoapproved pid s" "validate_artifact_type ty = Inr ty"
    "ty \<notin> {''ceo_coapproval'', ''cwo_coapproval''} \<or> validate_project_id q \<noteq> Inr pid"
  shows "uncoapproved pid (snd (in_office (put_record env agent ctx q ty pl) s))"
proof -
  have "artifacts_ok (records s)" using assms(1) by (simp add: uncoapproved_def)
  from put_record_row [OF this, of q ty env agent pl ctx] show ?thesis using assms
    by (cases "in_office (put_record env agent ctx q ty pl) s"; cases "fst (in_office (put_record env agent ctx q ty pl) s)")
       (auto simp: uncoapproved_def rows_of_def)
qed

lemma uncoapproved_simple:
  "uncoapproved pid s \<Longrightarrow> uncoapproved pid (snd (complete_llm env prof p tr pr fb s))"
  "uncoapproved pid s \<Longrightarrow> uncoapproved pid (snd (reading f s))" "uncoapproved pid s \<Longrightarrow> uncoapproved pid (snd (guard b e s))"
  "uncoapproved pid s \<Longrightarrow> uncoapproved pid (snd (given q s))" "uncoapproved pid s \<Longrightarrow> uncoapproved pid (snd (z, s))"
  by (simp_all add: uncoapproved_def)

lemmas uncoapproved_seq = and_then_inv [where P = "uncoapproved pid" for pid]

lemma uncoapproved_cso: "uncoapproved pid s \<Longrightarrow> uncoapproved pid (snd (cso_handle env r s))"
  unfolding cso_handle_def Let_def write_governance_record_def
  by (intro uncoapproved_seq uncoapproved_simple(1)) (auto intro!: uncoapproved_put split: option.split)

lemma uncoapproved_decide: "uncoapproved pid s \<Longrightarrow> uncoapproved pid (snd (decide_proposal env r i d n f s))"
  unfolding decide_proposal_def Let_def write_proposal_decision_def
  by (intro uncoapproved_seq uncoapproved_simple(1)) (auto intro!: uncoapproved_seq uncoapproved_put split: option.split)

lemma uncoapproved_review: "uncoapproved pid s \<Longrightarrow> uncoapproved pid (snd (handle_proposal_review env r s))"
  unfolding handle_proposal_review_def Let_def
  by (auto intro!: uncoapproved_seq uncoapproved_simple(2,3) uncoapproved_decide split: option.split)

text \<open>The gate of a co-approval: the state is as it was unless the other executive's co-approval was found.\<close>

lemma coapproval_gate:
  assumes "uncoapproved pid s" "ty \<in> {''ceo_coapproval'', ''cwo_coapproval''}"
    "\<And>s. uncoapproved pid s \<Longrightarrow> validate_project_id q \<noteq> Inr pid \<Longrightarrow> uncoapproved pid (snd (f s))"
  shows "uncoapproved pid (snd (and_then (reading (has_coapproval env ty q t) s) (\<lambda>found s1. and_then (guard found e s1) (\<lambda>_ s2. f s2))))"
proof (cases "has_coapproval env ty q t (records s)")
  case (Inr found)
  then have "found \<Longrightarrow> validate_project_id q \<noteq> Inr pid"
    using assms(1,2) has_coapproval_empty [of env ty q t "records s"] by (auto simp: uncoapproved_def)
  then show ?thesis using Inr assms(1,3) by (cases found) (simp_all add: reading_run guard_def)
qed (use assms(1) in \<open>simp add: reading_run\<close>)

lemma uncoapproved_ceo: "uncoapproved pid s \<Longrightarrow> uncoapproved pid (snd (ceo_handle env r s))"
proof -
  assume u: "uncoapproved pid s"
  have dir: "uncoapproved pid (snd (strategic_directive env r l s))" for l
    unfolding strategic_directive_def by (intro uncoapproved_seq uncoapproved_simple u)
  have co: "uncoapproved pid (snd (ceo_handle_coapproval env r s))"
  proof (cases "context_text (ev_str env) (eq_context r) ''project_id''")
    case (Some q)
    show ?thesis
      unfolding ceo_handle_coapproval_def Some option.case Let_def verify_cwo_coapproval_def write_coapproval_record_def
      by (rule coapproval_gate [OF u]) (auto intro!: uncoapproved_seq uncoapproved_simple(1) uncoapproved_put)
  qed (use u in \<open>simp add: ceo_handle_coapproval_def\<close>)
  show ?thesis
    using u dir co uncoapproved_review [OF u]
    by (simp add: ceo_handle_def Let_def handle_executive_mutation_def handle_directive_def split: option.split)
qed

lemma uncoapproved_cwo:
  assumes "uncoapproved pid s" "\<not> asks_initialization env (ToCwo r)" shows "uncoapproved pid (snd (cwo_handle env r s))"
proof -
  note u = assms(1)
  have "uncoapproved pid (snd (handle_status env r s))"
    unfolding handle_status_def Let_def using u by (simp add: uncoapproved_seq uncoapproved_simple split: option.split)
  moreover have "uncoapproved pid (snd (handle_proposal_flow env r s))"
    unfolding handle_proposal_flow_def
    by (intro uncoapproved_seq uncoapproved_simple(1,2,4) uncoapproved_cso u; auto intro!: uncoapproved_seq uncoapproved_ceo split: option.split)
  moreover have "uncoapproved pid (snd (cwo_handle_coapproval env r s))"
    unfolding cwo_handle_coapproval_def Let_def has_ceo_coapproval_def write_cwo_coapproval_def
    by (rule uncoapproved_seq [OF uncoapproved_simple(4) [OF u]], rule coapproval_gate) (auto intro!: uncoapproved_seq uncoapproved_put)
  ultimately show ?thesis using u assms(2) by (auto simp: cwo_handle_def Let_def asks_initialization_def)
qed

subsection \<open>Proposals\<close>

lemma py_upper_mutation [simp]: "py_upper (py_strip ''MUTATION'') = ''MUTATION''"
  by code_simp

lemma dict_get_distinct: "distinct (map fst d) \<Longrightarrow> dict_get d = map_of d"
proof (induction d)
  case (Cons x d)
  then have "map_of (rev d) = map_of d" "map_of d (fst x) = None" by (simp_all add: dict_get_def map_of_eq_None_iff)
  then show ?case by (cases x) (auto simp: dict_get_def fun_eq_iff map_add_def split: option.split)
qed (simp add: dict_get_def fun_eq_iff)

text \<open>What a decision of the CEO on a proposal took and what it left.\<close>

lemma proposal_decided:
  assumes "handle_proposal_review env r s = (Inr resp, s')" "artifacts_ok (records s)"
  obtains proposal rec n pid d rationale row now where
    "eq_proposal_id r = Some proposal" "verify_cso_review_record env (py_strip proposal) (records s) = Inr (Some rec)"
    "read_revision_cycle_count env (py_strip proposal) (records s) = Inr n"
    "\<not> (reviewed_outcome env r rec = Some ''Strategic Conflict'' \<and> n \<ge> 3 \<and> \<not> coerce_bool (ev_str env) (dict_get (eq_context r) ''override_flag''))"
    "context_text (ev_str env) (eq_context r) ''project_id'' = Some pid" "er_decision resp = Some d"
    "ab_rows (records s') = ab_rows (records s) @ [row]" "ar_artifact_type row = ''ceo_proposal_decision''" "ar_project_id row = pid"
    "ar_content row = ev_dumps env ''ceo'' (decision_payload proposal d rationale (reviewed_outcome env r rec) n
       (coerce_bool (ev_str env) (dict_get (eq_context r) ''override_flag'')) (eq_trace_id r) @ [(''created_at'', JIso now)])"
proof -
  obtain proposal where p: "eq_proposal_id r = Some proposal" using assms(1) by (auto simp: handle_proposal_review_def split: option.splits)
  let ?f = "coerce_bool (ev_str env) (dict_get (eq_context r) ''override_flag'')"
  let ?pid = "context_text (ev_str env) (eq_context r) ''project_id''"
  obtain rec n where rec: "verify_cso_review_record env (py_strip proposal) (records s) = Inr (Some rec)"
    and n: "read_revision_cycle_count env (py_strip proposal) (records s) = Inr n"
    and g: "\<not> (reviewed_outcome env r rec = Some ''Strategic Conflict'' \<and> n \<ge> 3 \<and> \<not> ?f)"
    and d: "decide_proposal env r proposal rec n ?f s = (Inr resp, s')"
    using assms(1) p
    by (auto simp: handle_proposal_review_def and_then_Inr reading_def guard_def Let_def split: if_splits option.splits sum.splits)
  obtain answer s1 s2 where a: "complete_llm env ceo_executive ?pid (eq_trace_id r) (proposal_prompt env r proposal rec n) fallback_proposal_review s = (Inr answer, s1)"
    and w: "write_proposal_decision env proposal ?pid (parse_proposal_decision answer) (py_strip answer) (reviewed_outcome env r rec) n ?f (eq_trace_id r) s1 = (Inr (), s2)"
    and resp: "er_decision resp = Some (parse_proposal_decision answer)" "s' = s2"
    using d by (auto simp: decide_proposal_def Let_def and_then_Inr ceo_answer_def)
  have s1: "records s1 = records s" using a complete_llm_frame(1) [where s = s] by (metis snd_conv)
  obtain q ptr where q: "normalize_optional_text ?pid = Some q"
    and put: "in_office (put_record env ''ceo'' (writes_as ''ceo'' ''proposed'') q ''ceo_proposal_decision''
      (decision_payload proposal (parse_proposal_decision answer) (py_strip answer) (reviewed_outcome env r rec) n ?f (eq_trace_id r))) s1 = (Inr ptr, s2)"
    using w by (auto simp: write_proposal_decision_def and_then_Inr split: option.splits)
  have pid: "?pid = Some q" "py_strip q = q"
    using q context_text_stripped [of "ev_str env" "eq_context r" "''project_id''"]
    by (auto simp: normalize_optional_text_def or_none_def split: option.splits if_splits)
  have ok: "artifacts_ok (records s1)" using s1 assms(2) by simp
  obtain row now where row: "ab_rows (records s2) = ab_rows (records s1) @ [row]" "validate_project_id q = Inr (ar_project_id row)"
    "ar_artifact_type row = ''ceo_proposal_decision''"
    "ar_content row = ev_dumps env ''ceo'' (decision_payload proposal (parse_proposal_decision answer) (py_strip answer) (reviewed_outcome env r rec) n ?f
      (eq_trace_id r) @ [(''created_at'', JIso now)])"
    by (rule put_record_ok [OF put ok]) auto
  have "ar_project_id row = q" using row(2) pid(2) by (auto simp: validate_project_id_def Let_def split: if_splits)
  then show ?thesis using that [OF p rec n g pid(1) resp(1)] row s1 resp(2) by simp
qed

text \<open>A decision added to the records does not change what the reviews say.\<close>

lemma review_outcome_stable:
  assumes "ab_rows db' = ab_rows db @ [row]" "ar_artifact_type row \<noteq> ''cso_review''"
  shows "read_cso_review_outcome env pid i db' = read_cso_review_outcome env pid i db"
  using assms by (cases "validate_project_id pid") (simp_all add: read_cso_review_outcome_def list_artifact_documents_def with_key_def rows_of_def)

lemma flow_context:
  assumes "distinct (map fst (wq_context r))" "py_strip pid = pid" "pid \<noteq> []"
  shows "context_text (ev_str env) (eq_context (flow_ceo_request env r pid draft adv o')) ''project_id'' = Some pid"
proof -
  have "dict_get (eq_context (flow_ceo_request env r pid draft adv o')) = map_of (eq_context (flow_ceo_request env r pid draft adv o'))"
    using assms(1) by (intro dict_get_distinct) (simp add: flow_ceo_request_def distinct_dict_put)
  then show ?thesis using assms(2,3)
    by (simp add: context_text_def flow_ceo_request_def map_of_dict_put optional_str_def py_str_def or_none_def)
qed

lemma and_then_result: "and_then r f = (Inr y, s') \<Longrightarrow> (\<And>x s. r = (Inr x, s) \<Longrightarrow> f x s = (Inr y, s') \<Longrightarrow> P) \<Longrightarrow> P"
  by (auto simp: and_then_Inr)

lemma cwo_answer_simps [simp]:
  "wr_workforce_status (cwo_answer r a t st) = st" "wr_action_taken (cwo_answer r a t st) = a" "wr_advisory_text (cwo_answer r a t st) = t"
  by (simp_all add: cwo_answer_def)

lemma inferred_status: "infer_workforce_status sn wp \<noteq> Some ''pending_owner_approval''"
  by (simp add: infer_workforce_status_def split: option.split)

lemma submitted_only_by_flow:
  assumes "cwo_handle env r s = (Inr resp, s')" "wr_workforce_status resp = Some ''pending_owner_approval''"
  shows "handle_proposal_flow env r s = (Inr resp, s')"
proof -
  have "\<not> handle_status env r s = (Inr resp, s')"
  proof
    assume h: "handle_status env r s = (Inr resp, s')"
    show False
    proof (cases "classify_routing_target env r")
      case None
      from h [unfolded handle_status_def None option.case Let_def] show False
        by (elim and_then_result) (use assms(2) inferred_status in auto)
    qed (use h assms(2) in \<open>auto simp: handle_status_def\<close>)
  qed
  moreover have "\<not> handle_initialization env r s = (Inr resp, s')"
  proof
    assume "handle_initialization env r s = (Inr resp, s')"
    then show False unfolding handle_initialization_def by (elim and_then_result) (use assms(2) in auto)
  qed
  moreover have "\<not> cwo_handle_coapproval env r s = (Inr resp, s')"
  proof
    assume "cwo_handle_coapproval env r s = (Inr resp, s')"
    then show False unfolding cwo_handle_coapproval_def Let_def by (elim and_then_result) (use assms(2) in auto)
  qed
  ultimately show ?thesis using assms(1) by (simp add: cwo_handle_def Let_def split: if_splits)
qed

lemma flow_submitted:
  assumes "handle_proposal_flow env r s = (Inr resp, s')" "wr_workforce_status resp = Some ''pending_owner_approval''"
  obtains pid s1 draft s2 cso outcome ceo where "normalize_optional_text (wq_project_id r) = Some pid"
    "records s1 = records s" "cso_handle env (flow_cso_request env r pid draft) s1 = (Inr cso, s2)"
    "read_cso_review_outcome env pid (flow_proposal_id env r pid) (records s2) = Inr (Some outcome)"
    "ceo_handle env (flow_ceo_request env r pid draft (sr_advisory_text cso) outcome) s2 = (Inr ceo, s')"
    "er_decision ceo = Some ''approved''"
  using assms(1) unfolding handle_proposal_flow_def
proof (elim and_then_result, goal_cases)
  case (1 pid s0 draft s1 cso s2 outcome s3)
  have "normalize_optional_text (wq_project_id r) = Some pid" "s0 = s"
    using 1(2) by (auto simp: given_def cwo_require_project_id_def split: option.splits)
  moreover have "records s1 = records s0" using 1(3) complete_llm_frame(1) [where s = s0] by (metis snd_conv)
  moreover have "s3 = s2" "read_cso_review_outcome env pid (flow_proposal_id env r pid) (records s2) = Inr outcome"
    using 1(5) by (auto simp: reading_def split: sum.splits)
  moreover obtain o' where o': "outcome = Some o'" using 1(6) by (cases outcome) auto
  moreover obtain ceo s4 where "ceo_handle env (flow_ceo_request env r pid draft (sr_advisory_text cso) o') s3 = (Inr ceo, s4)" "s4 = s'"
    "er_decision ceo = Some ''approved''"
    using 1(6) assms(2) unfolding o' option.case by (elim and_then_result) (auto split: if_splits)
  ultimately show ?case using 1(1) [of pid s1 draft cso s2 o' ceo] 1(4) by simp
qed

subsection \<open>A provider that fails\<close>

lemma complete_llm_unavailable:
  assumes "ev_provider env = (\<lambda>q net. (Inl (LiteLLMProviderError code m False), net))"
  shows "\<exists>s1. complete_llm env prof p tr pr fb s = (Inr fb, s1) \<and> records s1 = records s"
proof -
  have denied: "lp_decision resp = ''denied''" if "llm_complete (ev_llm env) (ev_provider env) q net = (Inr resp, net')" for q net resp net'
  proof -
    have "lp_decision resp = ''denied''"
      if "try_aliases (ev_llm env) (ev_provider env) q limit k as net = (Inr resp, net')" for limit k as
      using that unfolding assms by (cases as) (auto simp: llm_denied_def split: if_splits)
    then show ?thesis using that by (auto simp: llm_complete_def llm_denied_def split: sum.splits prod.splits)
  qed
  have total: "\<exists>resp. llm_complete (ev_llm env) (ev_provider env) q net = (Inr resp, net)" for q net
  proof -
    have "\<exists>resp. try_aliases (ev_llm env) (ev_provider env) q limit k as net = (Inr resp, net)" for limit k as
      unfolding assms by (cases as) simp_all
    then show ?thesis by (auto simp: llm_complete_def split: sum.splits prod.splits)
  qed
  let ?q = "executive_call prof p tr (fst (oversight_uuid (xs_office s))) (ev_system_prompt env (ep_agent_id prof) @ newline @ newline @ pr)"
  obtain resp where "llm_complete (ev_llm env) (ev_provider env) ?q (xs_net s) = (Inr resp, xs_net s)" using total by blast
  then show ?thesis using denied by (simp add: complete_llm_def Let_def case_prod_beta served_text_def)
qed

section \<open>Properties\<close>

text \<open>
  C8: a workforce is bound only after the approvals. Take any sequence of requests to the three executives, the administrator and the
  auditor from an office without a workforce. If a workforce row is in the registry at the end, one of the requests is the CWO's
  \<^verbatim>\<open>initialize_workforce\<close> for the project the row is named after, there was no such row before it, and a CSO review, a CEO decision that
  approves and a completion report were already on file in that project when it came. All of them are still on file at the end, because the
  artifact rows are only appended, whatever the model answers and wherever a request fails.
\<close>

theorem workforce_only_after_approvals:
  assumes "artifacts_ok (os_artifacts (xs_office s))"
    "\<forall>a \<in> set (os_agents (xs_office s)). ag_agent_type a \<noteq> ''project_workforce''"
    "a \<in> set (os_agents (xs_office (fold (office_step env) cs s)))" "ag_agent_type a = ''project_workforce''"
  shows "\<exists>pid r before after. cs = before @ Executive (ToCwo r) # after \<and> asks_initialization env (ToCwo r) \<and>
    normalize_optional_text (wq_project_id r) = Some pid \<and> ag_role a = ''cwo:'' @ py_lower (py_strip pid) \<and>
    (\<forall>b \<in> set (os_agents (xs_office (fold (office_step env) before s))).
       ag_agent_type b = ''project_workforce'' \<longrightarrow> ag_role b \<noteq> ag_role a) \<and>
    (\<forall>later \<in> {before, cs}.
       has_cso_review env pid (os_artifacts (xs_office (fold (office_step env) later s))) = Inr True \<and>
       has_ceo_approval env pid (os_artifacts (xs_office (fold (office_step env) later s))) = Inr True \<and>
       read_completion_report pid (os_artifacts (xs_office (fold (office_step env) later s))) = Inr True) \<and>
    prefix (ab_rows (os_artifacts (xs_office (fold (office_step env) before s))))
      (ab_rows (os_artifacts (xs_office (fold (office_step env) cs s))))"
proof -
  have "\<not> has_role s (ag_role a)" "has_role (fold (office_step env) cs s) (ag_role a)" using assms(2-4) by (auto simp: has_role_def)
  from bound_by_request [OF assms(1) this] obtain pid before c after where c: "cs = before @ c # after" "binding_request env c pid"
    "ag_role a = ''cwo:'' @ py_lower (py_strip pid)" "cleared env pid (records (fold (office_step env) before s))"
    "\<not> has_role (fold (office_step env) before s) (ag_role a)" by blast
  have "artifacts_ok (records (fold (office_step env) before s))" using office_prefix [OF assms(1)] by blast
  from office_prefix [OF this, of env "c # after"] have p: "prefix (ab_rows (records (fold (office_step env) before s))) (ab_rows (records (fold (office_step env) cs s)))"
    unfolding c(1) by simp
  from c(2) obtain r where r: "c = Executive (ToCwo r)" "asks_initialization env (ToCwo r)" "normalize_optional_text (wq_project_id r) = Some pid"
    by (auto simp: binding_request_def)
  have "cleared env pid (records (fold (office_step env) x s))" if "x \<in> {before, cs}" for x using that c(4) cleared_mono [OF c(4) p] by auto
  then show ?thesis using c(1,3,5) r p
    by (intro exI [of _ pid] exI [of _ r] exI [of _ before] exI [of _ after]) (auto simp: cleared_def has_role_def)
qed


text \<open>
  As long as no workforce is initialized, no change is ever co-approved. The CEO asks for the CWO's co-approval first and the CWO for the
  CEO's, so from a project without either, no sequence of requests to the executives writes one, whatever they are asked and whatever the
  model answers.
\<close>

theorem coapprovals_wait_for_each_other:
  assumes "artifacts_ok (os_artifacts (xs_office s))" "rows_of (os_artifacts (xs_office s)) pid ''ceo_coapproval'' = []"
    "rows_of (os_artifacts (xs_office s)) pid ''cwo_coapproval'' = []" "\<not> list_ex (asks_initialization env) cs"
  shows "rows_of (os_artifacts (xs_office (fold (execute env) cs s))) pid ''ceo_coapproval'' = [] \<and>
    rows_of (os_artifacts (xs_office (fold (execute env) cs s))) pid ''cwo_coapproval'' = []"
proof -
  have step: "uncoapproved pid (execute env c s)" if "uncoapproved pid s" "\<not> asks_initialization env c" for c s
    using that by (cases c) (simp_all add: uncoapproved_cso uncoapproved_ceo uncoapproved_cwo)
  have "uncoapproved pid s \<Longrightarrow> \<not> list_ex (asks_initialization env) cs \<Longrightarrow> uncoapproved pid (fold (execute env) cs s)"
    by (induction cs arbitrary: s) (simp_all add: step)
  then show ?thesis using assms by (simp add: uncoapproved_def)
qed

text \<open>
  A review that did not happen is recorded as a favourable one. When the provider fails, the CSO answers with its fallback, raises no
  conflict, and writes the record that gate 6 asks for with the outcome \<^verbatim>\<open>Aligned\<close>.
\<close>

theorem unavailable_review_aligned:
  assumes "ev_provider env = (\<lambda>q net. (Inl (LiteLLMProviderError code m False), net))" "nonempty_opt (so_proposal_id r) = Some proposal"
    "nonempty_opt (cx_project_id (so_context r)) = Some pid"
  shows "\<exists>resp s1. cso_handle env r s = (Inr resp, write_governance_record env proposal pid ''Aligned'' cso_fallback (so_trace_id r) s1) \<and>
    sr_conflict_flag resp = None \<and> os_artifacts (xs_office s1) = os_artifacts (xs_office s)"
proof -
  have "\<And>p tr pr. \<exists>s1. complete_llm env cso_executive p tr pr cso_fallback s = (Inr cso_fallback, s1) \<and> records s1 = records s"
    using complete_llm_unavailable [OF assms(1)] by blast
  moreover have "parse_conflict_flag cso_fallback = None" by code_simp
  moreover obtain s1 where "complete_llm env cso_executive (cx_project_id (so_context r)) (so_trace_id r)
      (cso_prompt env r (or_str (so_portfolio_context r) (read_portfolio_context (xs_governance s) (cx_project_id (so_context r))))) cso_fallback s =
      (Inr cso_fallback, s1)" "records s1 = records s" using calculation(1) by blast
  ultimately show ?thesis using assms(2,3) by (simp add: cso_handle_def classify_outcome_def) blast
qed

section \<open>Witnesses\<close>

definition demo_llm_ledger :: json_object where
  "demo_llm_ledger = [(''event_type'', JStr ''cso_review_outcome''), (''proposal_id'', JStr ''x''), (''review_outcome'', JStr ''Aligned''),
     (''decision'', JStr ''approved''), (''approval_type'', JStr ''a'')]"

definition demo_executive_env :: executive_env where
  "demo_executive_env = \<lparr>ev_office = demo_oversight_env\<lparr>ox_loads := (\<lambda>_. Some (JObj demo_llm_ledger))\<rparr>, ev_llm = demo_llm_env,
     ev_provider = (\<lambda>q net. (Inr \<lparr>pr_model_identifier = ''m'', pr_content = ''Approved.'', pr_input_tokens = 1, pr_output_tokens = 1,
       pr_provider_cost_usd = None, pr_quota_limit_source = ''provider_config''\<rparr>, net)),
     ev_system_prompt = (\<lambda>_. ''S''), ev_template = (\<lambda>_ _. ''T''), ev_dumps = (\<lambda>_ _. ''{}''), ev_str = (\<lambda>_. ''?''), ev_render = (\<lambda>_. ''?'')\<rparr>"

definition demo_executives :: executive_state where
  "demo_executives = \<lparr>xs_office = snd (put_document demo_oversight_env (writes_as ''project_manager'' ''active'') ''p-1'' ''completion_report'' ''c'' demo_oversight),
     xs_net = \<lparr>ln_posts = [], ln_sleeps = []\<rparr>, xs_governance = no_projects demo_rt\<rparr>"

definition demo_cwo :: "string \<Rightarrow> cwo_request" where
  "demo_cwo action = \<lparr>wq_message = ''hello'', wq_intent = ''mutation'', wq_project_id = Some ''p-1'',
     wq_context = [(''action'', JStr action), (''proposal_id'', JStr ''x''), (''template'', JStr ''t''), (''llm_profile'', JStr ''l''),
       (''system_prompt_package'', JStr ''s'')], wq_trace_id = ''tr''\<rparr>"

lemma demo_executives_ok: "artifacts_ok (records demo_executives)"
proof -
  have "later demo_oversight demo_oversight" by (rule later_refl [OF demo_oversight_ok])
  then show ?thesis using later_document unfolding later_def demo_executives_def by fastforce
qed

text \<open>The wording of an answer plays no part in what follows and is not evaluated.\<close>

declare ensure_command_language_def [code del] ensure_executive_language_def [code del]

theorem workforce_only_after_approvals_witness:
  "\<exists>a pid. workforce (fold (office_step demo_executive_env)
       [Executive (ToCwo (demo_cwo ''submit_proposal'')), Executive (ToCwo (demo_cwo ''initialize_workforce''))] demo_executives) = [a] \<and>
     ag_role a = ''cwo:'' @ py_lower (py_strip pid) \<and>
     has_ceo_approval demo_executive_env pid (records (fold (office_step demo_executive_env)
       [Executive (ToCwo (demo_cwo ''submit_proposal'')), Executive (ToCwo (demo_cwo ''initialize_workforce''))] demo_executives)) = Inr True"
proof -
  let ?cs = "[Executive (ToCwo (demo_cwo ''submit_proposal'')), Executive (ToCwo (demo_cwo ''initialize_workforce''))]"
  let ?s = "fold (office_step demo_executive_env) ?cs demo_executives"
  have start: "workforce demo_executives = []" by code_simp
  have "map ag_agent_type (workforce ?s) = [''project_workforce'']" by code_simp
  then obtain a where a: "workforce ?s = [a]" "ag_agent_type a = ''project_workforce''" by auto
  have "a \<in> set (workforce ?s)" "\<forall>a \<in> set (workforce demo_executives). ag_agent_type a \<noteq> ''project_workforce''" unfolding a(1) start by simp_all
  from workforce_only_after_approvals [OF demo_executives_ok this(2,1) a(2)] a(1) show ?thesis by blast
qed


definition demo_ceo :: ceo_request where
  "demo_ceo = \<lparr>eq_message = ''m'', eq_intent = ''admin'', eq_context = [(''project_id'', JStr ''p-1'')], eq_proposal_id = None,
     eq_cso_review_outcome = None, eq_trace_id = ''tr''\<rparr>"

theorem coapprovals_wait_for_each_other_witness:
  "rows_of (records (fold (execute demo_executive_env)
     [ToCeo demo_ceo, ToCwo ((demo_cwo ''a'')\<lparr>wq_intent := ''admin''\<rparr>), ToCeo demo_ceo] demo_executives)) ''p-1'' ''ceo_coapproval'' = []"
proof -
  let ?cs = "[ToCeo demo_ceo, ToCwo ((demo_cwo ''a'')\<lparr>wq_intent := ''admin''\<rparr>), ToCeo demo_ceo]"
  have "rows_of (records demo_executives) ''p-1'' ''ceo_coapproval'' = []" "rows_of (records demo_executives) ''p-1'' ''cwo_coapproval'' = []"
    "\<not> list_ex (asks_initialization demo_executive_env) ?cs" by code_simp+
  from coapprovals_wait_for_each_other [OF demo_executives_ok this] show ?thesis by simp
qed

theorem unavailable_review_aligned_witness:
  "\<exists>resp s1. cso_handle (demo_executive_env\<lparr>ev_provider := (\<lambda>q net. (Inl (LiteLLMProviderError ''c'' ''m'' False), net))\<rparr>)
      \<lparr>so_message = ''m'', so_intent = Mutation, so_context = \<lparr>cx_chat_class = ''c'', cx_channel_id = ''c'', cx_project_id = Some ''p-1''\<rparr>,
       so_trace_id = ''tr'', so_proposal_id = Some ''x'', so_portfolio_context = None\<rparr> demo_executives =
      (Inr resp, write_governance_record (demo_executive_env\<lparr>ev_provider := (\<lambda>q net. (Inl (LiteLLMProviderError ''c'' ''m'' False), net))\<rparr>)
         ''x'' ''p-1'' ''Aligned'' cso_fallback ''tr'' s1) \<and> sr_conflict_flag resp = None"
proof -
  let ?env = "demo_executive_env\<lparr>ev_provider := (\<lambda>q net. (Inl (LiteLLMProviderError ''c'' ''m'' False), net))\<rparr>"
  let ?r = "\<lparr>so_message = ''m'', so_intent = Mutation, so_context = \<lparr>cx_chat_class = ''c'', cx_channel_id = ''c'', cx_project_id = Some ''p-1''\<rparr>,
       so_trace_id = ''tr'', so_proposal_id = Some ''x'', so_portfolio_context = None\<rparr>"
  have "ev_provider ?env = (\<lambda>q net. (Inl (LiteLLMProviderError ''c'' ''m'' False), net))" by simp
  from unavailable_review_aligned [OF this, of ?r "''x''" "''p-1''" demo_executives] show ?thesis
    by (auto simp: nonempty_opt_Some)
qed

end
