(* ===== verification/Project_Agents.thy ===== *)
theory Project_Agents
  imports Executives Dispatch
begin

text \<open>
  The agents of a project.
  \<^item> \<^verbatim>\<open>agents/project_manager/artifact_writer.py\<close>: \<open>pm_write\<close>, \<open>write_completion_report\<close>;
  \<^item> \<^verbatim>\<open>agents/domain_leader/agent.py\<close>, \<^verbatim>\<open>escalation_handler.py\<close>: \<open>handle_escalation\<close>, \<open>review_specialist_output\<close>,
    \<open>handle_clarification_request\<close>, \<open>dispatch_command\<close>;
  \<^item> \<^verbatim>\<open>agents/project_manager/agent.py\<close>: \<open>pm_handle\<close> and its three intents, delegation to the specialist and escalation;
  \<^item> \<^verbatim>\<open>agents/specialist/agent.py\<close>: \<open>report_behavioral_violation\<close> (its execution of tasks is in \<open>Dispatch\<close>).

  The state joins that of the executives (artifacts, gateway, projects) and that of the dispatch service, whose tasks the project manager
  reads. With the repositories of the system the optional methods that the code looks for are as follows: the dispatch service has
  \<^verbatim>\<open>create_specialist_task\<close>, the artifact repository has \<^verbatim>\<open>read_latest_artifact\<close> but neither \<^verbatim>\<open>write_escalation_event\<close> nor
  \<^verbatim>\<open>get_controlled_edit_approval_evidence\<close>; a task context has no project, so the stored task is read.
\<close>

section \<open>State\<close>

datatype pm_error =
    PMProjectContextError string
  | PMWriteNotAllowedError string
  | DomainLeaderProjectContextError string
  | DomainLeaderCommandDeniedError string
  | PmOfficeFailure executive_error
  | PmDispatchFailure py_exn

record 'c pm_state =
  pm_exec :: executive_state
  pm_orch :: "'c orchestrator"

type_synonym ('a, 'c) pm_run = "(pm_error, 'a, 'c pm_state) run"

record 'c pm_env =
  pe_exec :: executive_env
  pe_environment :: environment
  pe_adapters :: "'c adapters"

definition with_exec :: "(executive_state \<Rightarrow> 'a executive_run) \<Rightarrow> 'c pm_state \<Rightarrow> ('a, 'c) pm_run" where
  "with_exec f s =
     (case f (pm_exec s) of
        (Inl e, x) \<Rightarrow> (Inl (PmOfficeFailure e), s\<lparr>pm_exec := x\<rparr>)
      | (Inr y, x) \<Rightarrow> (Inr y, s\<lparr>pm_exec := x\<rparr>))"

definition pm_guard :: "bool \<Rightarrow> pm_error \<Rightarrow> 'c pm_state \<Rightarrow> (unit, 'c) pm_run" where
  "pm_guard ok e s = (if ok then (Inr (), s) else (Inl e, s))"

section \<open>The artifact writer\<close>

definition direct_write_types :: "string list" where
  "direct_write_types = [''execution_plan'', ''risk_register'', ''decision_log'', ''progress_report'']"

definition conditional_write_types :: "string list" where
  "conditional_write_types = [''scope_statement'', ''budget_plan'', ''success_metrics'']"

definition prohibited_types :: "string list" where
  "prohibited_types = [''project_charter'', ''workforce_plan'']"

text \<open>\<^verbatim>\<open>bool(v)\<close> of a JSON value.\<close>

definition evidence_flag :: "json option \<Rightarrow> bool" where
  "evidence_flag v = (case v of None \<Rightarrow> False | Some JNull \<Rightarrow> False | Some (JBool b) \<Rightarrow> b | Some (JNum n) \<Rightarrow> n \<noteq> 0 | Some (JStr x) \<Rightarrow> x \<noteq> []
     | Some (JIso t) \<Rightarrow> True | Some (JList xs) \<Rightarrow> xs \<noteq> [] | Some (JObj d) \<Rightarrow> d \<noteq> [])"

definition has_non_empty_approval_evidence :: "json option \<Rightarrow> bool" where
  "has_non_empty_approval_evidence v = (case v of None \<Rightarrow> False | Some JNull \<Rightarrow> False | Some (JBool b) \<Rightarrow> b | Some (JStr x) \<Rightarrow> py_strip x \<noteq> []
     | Some (JObj d) \<Rightarrow> d \<noteq> [] | Some (JList xs) \<Rightarrow> xs \<noteq> [] | Some _ \<Rightarrow> True)"

definition named_roles :: "(json \<Rightarrow> string) \<Rightarrow> json list \<Rightarrow> string list" where
  "named_roles other xs = sort (map (\<lambda>x. py_lower (py_strip (py_str other x))) (filter (\<lambda>x. py_strip (py_str other x) \<noteq> []) xs))"

definition flagged_roles :: "json_object \<Rightarrow> string list" where
  "flagged_roles d = sort (filter (\<lambda>role. evidence_flag (dict_get d role) \<or> evidence_flag (dict_get d (role @ ''_approval''))) [''ceo'', ''cwo''])"

definition approval_roles_from_evidence :: "(json \<Rightarrow> string) \<Rightarrow> json option \<Rightarrow> string list" where
  "approval_roles_from_evidence other v =
     (case v of
        Some (JObj d) \<Rightarrow> (case dict_get d ''approval_roles'' of Some (JList xs) \<Rightarrow> named_roles other xs | _ \<Rightarrow> flagged_roles d)
      | _ \<Rightarrow> [])"

text \<open>A refusal of the repository becomes the writer's own error; a failure of the file store does not.\<close>

definition pm_put :: "executive_env \<Rightarrow> write_context \<Rightarrow> string \<Rightarrow> string \<Rightarrow> string \<Rightarrow> 'c pm_state \<Rightarrow> (artifact_pointer, 'c) pm_run" where
  "pm_put env ctx project_id artifact_type content s =
     (case with_exec (in_office (put_document (ev_office env) ctx project_id artifact_type content)) s of
        (Inl (PmOfficeFailure (OfficeFailure (ArtifactFailure (ProjectArtifactRepositoryError code m)))), s1) \<Rightarrow> (Inl (PMWriteNotAllowedError m), s1)
      | r \<Rightarrow> r)"

definition pm_write ::
  "executive_env \<Rightarrow> string \<Rightarrow> string \<Rightarrow> string \<Rightarrow> string \<Rightarrow> json option \<Rightarrow> 'c pm_state \<Rightarrow> (artifact_pointer, 'c) pm_run" where
  "pm_write env project_id artifact_type content_md project_state approval_evidence s =
     (let ty = py_lower (py_strip artifact_type); state = py_lower (py_strip project_state)
      in and_then (pm_guard (ty \<notin> set prohibited_types) (PMWriteNotAllowedError (''Project Manager cannot write prohibited artifact type: '' @ ty)) s) (\<lambda>_ s1.
         and_then (pm_guard (state = ''active'')
             (PMWriteNotAllowedError (''Project Manager artifact writes require active project state, got: '' @ state)) s1) (\<lambda>_ s2.
         and_then (pm_guard (\<not> (ty \<in> set conditional_write_types \<and> \<not> has_non_empty_approval_evidence approval_evidence))
             (PMWriteNotAllowedError (''Controlled artifact writes require approval evidence: '' @ ty)) s2) (\<lambda>_ s3.
           pm_put env \<lparr>wc_actor_role = ''project_manager'', wc_project_status = state,
               wc_approval_roles = approval_roles_from_evidence (ev_str env) approval_evidence\<rparr> project_id ty content_md s3))))"

definition write_completion_report :: "executive_env \<Rightarrow> string \<Rightarrow> string \<Rightarrow> string \<Rightarrow> 'c pm_state \<Rightarrow> (artifact_pointer, 'c) pm_run" where
  "write_completion_report env project_id content_md project_state s =
     (let state = py_lower (py_strip project_state)
      in and_then (pm_guard (state \<in> {''active'', ''paused''}) (PMWriteNotAllowedError ''Completion report requires project state active or paused'') s) (\<lambda>_ s1.
           pm_put env (writes_as ''project_manager'' state) project_id ''completion_report'' content_md s1))"

section \<open>The domain leader\<close>

record domain_leader_request =
  dl_project_id :: string
  dl_message :: string
  dl_requesting_agent :: string
  dl_trace_id :: string
  dl_task_id :: "string option"

record domain_leader_response =
  dp_advisory_text :: string
  dp_domain_outcome :: string
  dp_trace_id :: string
  dp_escalate_to :: "string option"
  dp_rework_recommendations :: "string option"

record specialist_review_request =
  rq_task_id :: string
  rq_project_id :: string
  rq_specialist_output :: string
  rq_trace_id :: string

record specialist_review_outcome =
  ro_outcome :: string
  ro_trace_id :: string
  ro_rework_recommendations :: "string option"

definition domain_leader_executive :: "string \<Rightarrow> executive_profile" where
  "domain_leader_executive skill_id = \<lparr>ep_agent_id = ''domain_leader'', ep_skill_id = skill_id, ep_temperature = 3 / 10,
     ep_policy = v2_policy ''domain-leader-v1'' [''DL-001'', ''DL-002'', ''DL-003''], ep_budget = token_budget 512\<rparr>"

definition fallback_domain_advisory :: string where
  "fallback_domain_advisory = ''Domain assessment pending. Please resubmit with additional context or escalate to Project Manager for CWO review.''"

definition require_project_context :: "string \<Rightarrow> 'c pm_state \<Rightarrow> (unit, 'c) pm_run" where
  "require_project_context project_id =
     pm_guard (project_id \<noteq> []) (DomainLeaderProjectContextError ''DomainLeader requires project_id - rejected without project context'')"

definition dl_call_llm :: "executive_env \<Rightarrow> string \<Rightarrow> string \<Rightarrow> string \<Rightarrow> string \<Rightarrow> 'c pm_state \<Rightarrow> (string, 'c) pm_run" where
  "dl_call_llm env project_id trace_id skill_id prompt =
     with_exec (complete_llm env (domain_leader_executive skill_id) (Some project_id) trace_id prompt fallback_domain_advisory)"

definition handle_escalation :: "executive_env \<Rightarrow> domain_leader_request \<Rightarrow> 'c pm_state \<Rightarrow> (domain_leader_response, 'c) pm_run" where
  "handle_escalation env r s =
     and_then (require_project_context (dl_project_id r) s) (\<lambda>_ s1.
     and_then (dl_call_llm env (dl_project_id r) (dl_trace_id r) ''escalation_advisory''
         (ev_template env ''dl.escalation_advisory''
            [(''project_id'', dl_project_id r), (''requesting_agent'', dl_requesting_agent r), (''task_id'', or_str (dl_task_id r) ''N/A''),
             (''message'', take 1000 (dl_message r))]) s1) (\<lambda>answer s2.
       case parse_domain_outcome answer of (outcome, escalate_to, rework) \<Rightarrow>
         (Inr \<lparr>dp_advisory_text = answer, dp_domain_outcome = outcome, dp_trace_id = dl_trace_id r, dp_escalate_to = escalate_to,
               dp_rework_recommendations = rework\<rparr>, s2)))"

definition escalate :: "executive_env \<Rightarrow> string \<Rightarrow> string \<Rightarrow> string \<Rightarrow> string option \<Rightarrow> string \<Rightarrow> 'c pm_state \<Rightarrow> (domain_leader_response, 'c) pm_run" where
  "escalate env project_id message trace_id task_id requesting_agent =
     handle_escalation env \<lparr>dl_project_id = project_id, dl_message = message, dl_requesting_agent = requesting_agent, dl_trace_id = trace_id,
       dl_task_id = task_id\<rparr>"

definition review_specialist_output ::
  "executive_env \<Rightarrow> specialist_review_request \<Rightarrow> 'c pm_state \<Rightarrow> (specialist_review_outcome, 'c) pm_run" where
  "review_specialist_output env r s =
     and_then (require_project_context (rq_project_id r) s) (\<lambda>_ s1.
     and_then (dl_call_llm env (rq_project_id r) (rq_trace_id r) ''specialist_review''
         (ev_template env ''dl.specialist_review''
            [(''project_id'', rq_project_id r), (''task_id'', rq_task_id r), (''specialist_output'', take 2000 (rq_specialist_output r))]) s1) (\<lambda>answer s2.
       case parse_review_outcome answer of (outcome, rework) \<Rightarrow>
         (Inr \<lparr>ro_outcome = outcome, ro_trace_id = rq_trace_id r, ro_rework_recommendations = rework\<rparr>, s2)))"

definition handle_clarification_request ::
  "executive_env \<Rightarrow> string \<Rightarrow> string \<Rightarrow> string \<Rightarrow> string \<Rightarrow> string \<Rightarrow> 'c pm_state \<Rightarrow> (domain_leader_response, 'c) pm_run" where
  "handle_clarification_request env specialist_id question task_id project_id trace_id s =
     and_then (require_project_context project_id s) (\<lambda>_ s1.
     and_then (dl_call_llm env project_id trace_id ''specialist_clarification''
         (ev_template env ''dl.clarification''
            [(''project_id'', project_id), (''specialist_id'', specialist_id), (''task_id'', task_id), (''question'', take 1000 question)]) s1) (\<lambda>answer s2.
       (Inr \<lparr>dp_advisory_text = answer, dp_domain_outcome = ''resolved'', dp_trace_id = trace_id, dp_escalate_to = None,
             dp_rework_recommendations = None\<rparr>, s2)))"

definition dispatch_command :: "string \<Rightarrow> 'c pm_state \<Rightarrow> (unit, 'c) pm_run" where
  "dispatch_command specialist_id s =
     (Inl (DomainLeaderCommandDeniedError (''DomainLeader cannot issue commands directly to specialist '' @ py_repr specialist_id @
        ''. All specialist interactions must route through ProjectManager.'')), s)"

section \<open>The project manager\<close>

record pm_request =
  mq_message :: string
  mq_intent :: string
  mq_project_id :: string
  mq_context :: json_object
  mq_trace_id :: string

record pm_response =
  mr_advisory_text :: string
  mr_action_taken :: "string option"
  mr_routing_hint :: "string option"
  mr_artifact_updated :: bool
  mr_trace_id :: string

definition pm_executive :: "string \<Rightarrow> executive_profile" where
  "pm_executive skill_id = \<lparr>ep_agent_id = ''project_manager'', ep_skill_id = skill_id, ep_temperature = 2 / 10,
     ep_policy = v2_policy ''project-manager-v1'' [''AUTH-001'', ''AUTH-002'', ''ORCH-001'', ''ORCH-002''], ep_budget = token_budget 512\<rparr>"

definition fallback_status_text :: string where
  "fallback_status_text = ''Status: project context is incomplete. Halt further mutation, refresh governed artifacts, and resolve blockers before proceeding.''"

definition fallback_mutation_text :: string where
  "fallback_mutation_text = ''Decision: execution stays project-bound. Dispatch the required specialist and record governed changes before continuing.''"

definition fallback_admin_text :: string where
  "fallback_admin_text = ''Decision: controlled document update denied until both CEO and CWO approval evidence are present.''"

definition pm_complete_prompt :: "executive_env \<Rightarrow> pm_request \<Rightarrow> string \<Rightarrow> string \<Rightarrow> string \<Rightarrow> 'c pm_state \<Rightarrow> (string, 'c) pm_run" where
  "pm_complete_prompt env r skill_id prompt fallback =
     with_exec (complete_llm env (pm_executive skill_id) (Some (mq_project_id r)) (mq_trace_id r) prompt fallback)"

definition pm_snapshot :: "'c pm_state \<Rightarrow> string \<Rightarrow> project_snapshot option" where
  "pm_snapshot s project_id = get_project_snapshot (xs_governance (pm_exec s)) (sv_repo (pm_orch s)) project_id"

definition project_state_of :: "executive_env \<Rightarrow> project_snapshot option \<Rightarrow> json_object \<Rightarrow> string" where
  "project_state_of env snapshot d =
     (case context_text (ev_str env) d ''project_state'' of
        Some x \<Rightarrow> x
      | None \<Rightarrow> (case snapshot of None \<Rightarrow> ''unknown'' | Some sn \<Rightarrow> sn_status sn))"

definition resolve_project_state :: "executive_env \<Rightarrow> pm_request \<Rightarrow> 'c pm_state \<Rightarrow> string" where
  "resolve_project_state env r s = project_state_of env (pm_snapshot s (mq_project_id r)) (mq_context r)"

definition pm_artifact_summary :: "(artifact_pointer \<times> string) option \<Rightarrow> string" where
  "pm_artifact_summary doc =
     (case doc of None \<Rightarrow> ''none'' | Some d \<Rightarrow> ''v'' @ show_nat (pt_revision_no (fst d)) @ '': '' @ take 160 (first_line (snd d)))"

definition milestone_posture :: "project_snapshot option \<Rightarrow> (artifact_pointer \<times> string) option \<Rightarrow> (artifact_pointer \<times> string) option \<Rightarrow> string" where
  "milestone_posture snapshot execution_plan progress_report =
     (let blocked = (case snapshot of None \<Rightarrow> 0 | Some sn \<Rightarrow> sn_blocked_task_count sn)
      in if blocked > 0 then ''blocked:'' @ show_nat blocked
         else case progress_report of
                Some d \<Rightarrow> ''tracked_by_progress_report_v'' @ show_nat (pt_revision_no (fst d))
              | None \<Rightarrow> (case execution_plan of
                    Some d \<Rightarrow> ''tracked_by_execution_plan_v'' @ show_nat (pt_revision_no (fst d))
                  | None \<Rightarrow> ''not_reported''))"

definition pm_read :: "string \<Rightarrow> string \<Rightarrow> 'c pm_state \<Rightarrow> ((artifact_pointer \<times> string) option, 'c) pm_run" where
  "pm_read project_id artifact_type = with_exec (reading (\<lambda>db. read_latest_artifact db project_id artifact_type))"

definition context_str :: "executive_env \<Rightarrow> json_object \<Rightarrow> string \<Rightarrow> string \<Rightarrow> string" where
  "context_str env d k fallback = (case dict_get d k of None \<Rightarrow> fallback | Some v \<Rightarrow> py_str (ev_str env) v)"

definition handle_status_or_decision :: "executive_env \<Rightarrow> pm_request \<Rightarrow> 'c pm_state \<Rightarrow> (pm_response, 'c) pm_run" where
  "handle_status_or_decision env r s =
     (let snapshot = pm_snapshot s (mq_project_id r)
      in and_then (pm_read (mq_project_id r) ''execution_plan'' s) (\<lambda>execution_plan s1.
         and_then (pm_read (mq_project_id r) ''progress_report'' s1) (\<lambda>progress_report s2.
         and_then (pm_complete_prompt env r ''status_or_decision''
             (ev_template env ''pm.discussion_query''
                [(''project_id'', mq_project_id r), (''project_state'', project_state_of env snapshot (mq_context r)),
                 (''active_tasks'', show_nat (case snapshot of None \<Rightarrow> 0 | Some sn \<Rightarrow> sn_active_task_count sn)),
                 (''blocked_tasks'', show_nat (case snapshot of None \<Rightarrow> 0 | Some sn \<Rightarrow> sn_blocked_task_count sn)),
                 (''milestone_posture'', milestone_posture snapshot execution_plan progress_report),
                 (''budget_state'', context_str env (mq_context r) ''budget_state'' ''unknown''),
                 (''latest_execution_plan'', pm_artifact_summary execution_plan), (''latest_progress_report'', pm_artifact_summary progress_report),
                 (''message'', take 1000 (mq_message r))]) fallback_status_text s2) (\<lambda>advisory s3.
           (Inr \<lparr>mr_advisory_text = ensure_directive_language advisory ''Status'',
                 mr_action_taken = Some (if py_upper (py_strip (mq_intent r)) = ''QUERY'' then ''project_decision_issued'' else ''status_reported''),
                 mr_routing_hint = None, mr_artifact_updated = False, mr_trace_id = mq_trace_id r\<rparr>, s3)))))"

definition risk_payload :: "string \<Rightarrow> string \<Rightarrow> json_object" where
  "risk_payload reason trace_id =
     [(''trace_id'', JStr trace_id), (''incident_type'', JStr ''budget_risk''), (''severity'', JStr ''warning''),
      (''current_owner_role'', JStr ''project_manager''), (''next_owner_role'', JStr ''cwo''), (''path_reference'', JStr ''project_manager -> cwo''),
      (''rule_ids'', json_strings [''ESC-004'', ''AUTH-002'']), (''message'', JStr reason), (''escalation_type'', JStr ''budget_risk''),
      (''source'', JStr ''project_manager''), (''target'', JStr ''cwo'')]"

definition emit_budget_risk_escalation :: "executive_env \<Rightarrow> string \<Rightarrow> string \<Rightarrow> string \<Rightarrow> 'c pm_state \<Rightarrow> (unit, 'c) pm_run" where
  "emit_budget_risk_escalation env project_id reason trace_id s =
     (let project_state = (case pm_snapshot s project_id of None \<Rightarrow> ''unknown'' | Some sn \<Rightarrow> sn_status sn)
      in if project_state \<noteq> ''active'' then (Inr (), s)
         else and_then (with_exec (in_office (put_document (ev_office env) (writes_as ''project_manager'' project_state) project_id ''decision_log''
                (ev_dumps env ''project_manager'' (risk_payload reason trace_id)))) s) (\<lambda>_ s1. (Inr (), s1)))"

definition dispatch_to_specialist :: "'c pm_env \<Rightarrow> string \<Rightarrow> string \<Rightarrow> string \<Rightarrow> 'c pm_state \<Rightarrow> (string, 'c) pm_run" where
  "dispatch_to_specialist env task_id project_id trace_id s =
     (case get_task_by_id (sv_repo (pm_orch s)) task_id of
        None \<Rightarrow> (Inl (PMProjectContextError ''AUTH-001 violated: Project Manager specialist dispatch must stay within project scope''), s)
      | Some t \<Rightarrow>
          if normalize_optional_text (tk_project_id t) \<noteq> Some project_id
          then (Inl (PMProjectContextError ''AUTH-001 violated: Project Manager specialist dispatch must stay within project scope''), s)
          else case create_specialist_task (pe_environment env) (pe_adapters env) task_id project_id trace_id (pm_orch s) of
                 (Inl x, orch) \<Rightarrow> (Inl (PmDispatchFailure x), s\<lparr>pm_orch := orch\<rparr>)
               | (Inr i, orch) \<Rightarrow> (Inr i, s\<lparr>pm_orch := orch\<rparr>))"

definition is_budget_risk :: "executive_env \<Rightarrow> pm_request \<Rightarrow> bool" where
  "is_budget_risk env r = (py_lower (py_strip (context_str env (mq_context r) ''budget_state'' ''unknown'')) \<in> {''risk'', ''at_risk'', ''warning''})"

text \<open>The artifact that the context carries, and the task to delegate.\<close>

definition mutation_write :: "executive_env \<Rightarrow> pm_request \<Rightarrow> string \<Rightarrow> 'c pm_state \<Rightarrow> (bool, 'c) pm_run" where
  "mutation_write env r project_state s =
     (case (context_text (ev_str env) (mq_context r) ''artifact_type'', context_text (ev_str env) (mq_context r) ''content_md'') of
        (Some ty, Some content) \<Rightarrow>
          and_then (pm_write env (mq_project_id r) ty content project_state (dict_get (mq_context r) ''approval_evidence'') s) (\<lambda>_ s1. (Inr True, s1))
      | _ \<Rightarrow> (Inr False, s))"

definition handle_task_mutation :: "'c pm_env \<Rightarrow> pm_request \<Rightarrow> 'c pm_state \<Rightarrow> (pm_response, 'c) pm_run" where
  "handle_task_mutation penv r s =
     (let env = pe_exec penv; project_state = resolve_project_state env r s;
          budget_state = py_lower (py_strip (context_str env (mq_context r) ''budget_state'' ''unknown''));
          task_id = context_text (ev_str env) (mq_context r) ''task_id''
      in and_then (if is_budget_risk env r
                   then emit_budget_risk_escalation env (mq_project_id r) (context_str env (mq_context r) ''budget_reason'' (mq_message r)) (mq_trace_id r) s
                   else (Inr (), s)) (\<lambda>_ s1.
         and_then (mutation_write env r project_state s1) (\<lambda>written s2.
         and_then (case task_id of
                     None \<Rightarrow> (Inr False, s2)
                   | Some i \<Rightarrow> and_then (dispatch_to_specialist penv i (mq_project_id r) (mq_trace_id r) s2) (\<lambda>_ s3. (Inr True, s3))) (\<lambda>dispatched s4.
         and_then (pm_complete_prompt env r ''task_mutation''
             (ev_template env ''pm.mutation_dispatch''
                [(''project_id'', mq_project_id r), (''project_state'', project_state),
                 (''artifact_type'', or_str (context_text (ev_str env) (mq_context r) ''artifact_type'') ''none''),
                 (''task_id'', or_str task_id ''none''), (''budget_state'', or_str (Some budget_state) ''unknown''),
                 (''message'', take 1000 (mq_message r))]) fallback_mutation_text s4) (\<lambda>advisory s5.
           (Inr \<lparr>mr_advisory_text = ensure_directive_language advisory ''Decision'',
                 mr_action_taken = (if dispatched then Some ''specialist_dispatched'' else if written then Some ''artifact_written'' else None),
                 mr_routing_hint = (if dispatched then Some ''specialist'' else None), mr_artifact_updated = written,
                 mr_trace_id = mq_trace_id r\<rparr>, s5))))))"

definition resolve_approval_evidence :: "pm_request \<Rightarrow> json option" where
  "resolve_approval_evidence r = (case dict_get (mq_context r) ''approval_evidence'' of Some v \<Rightarrow> Some v | None \<Rightarrow> Some (JObj []))"

definition normalize_approval_roles :: "(json \<Rightarrow> string) \<Rightarrow> json option \<Rightarrow> string list" where
  "normalize_approval_roles other v =
     (case v of
        Some (JBool b) \<Rightarrow> (if b then [''ceo'', ''cwo''] else [])
      | Some (JObj d) \<Rightarrow> (case dict_get d ''approval_roles'' of Some (JList xs) \<Rightarrow> named_roles other xs | _ \<Rightarrow> flagged_roles d)
      | Some (JList xs) \<Rightarrow> named_roles other xs
      | _ \<Rightarrow> [])"

definition handle_document_admin :: "executive_env \<Rightarrow> pm_request \<Rightarrow> 'c pm_state \<Rightarrow> (pm_response, 'c) pm_run" where
  "handle_document_admin env r s =
     (let evidence = resolve_approval_evidence r; roles = normalize_approval_roles (ev_str env) evidence;
          missing = filter (\<lambda>role. role \<notin> set roles) [''ceo'', ''cwo'']
      in and_then (pm_guard (missing = []) (PMWriteNotAllowedError
             (''Controlled document update denied without CEO+CWO approval evidence: '' @ py_join '', '' missing)) s) (\<lambda>_ s1.
           case (context_text (ev_str env) (mq_context r) ''artifact_type'', context_text (ev_str env) (mq_context r) ''content_md'') of
             (Some ty, Some content) \<Rightarrow>
               and_then (pm_guard (ty \<in> set conditional_write_types) (PMWriteNotAllowedError
                   (''ADMIN path only permits controlled artifact types, got: '' @ ty)) s1) (\<lambda>_ s2.
               and_then (pm_write env (mq_project_id r) ty content (resolve_project_state env r s2) evidence s2) (\<lambda>_ s3.
               and_then (pm_complete_prompt env r ''document_admin''
                   (ev_template env ''pm.admin_document''
                      [(''project_id'', mq_project_id r), (''project_state'', resolve_project_state env r s3), (''artifact_type'', ty),
                       (''ceo_approval'', if ''ceo'' \<in> set roles then ''true'' else ''false''),
                       (''cwo_approval'', if ''cwo'' \<in> set roles then ''true'' else ''false''), (''message'', take 1000 (mq_message r))])
                   fallback_admin_text s3) (\<lambda>advisory s4.
                 (Inr \<lparr>mr_advisory_text = ensure_directive_language advisory ''Decision'', mr_action_taken = Some ''artifact_written'',
                       mr_routing_hint = None, mr_artifact_updated = True, mr_trace_id = mq_trace_id r\<rparr>, s4))))
           | _ \<Rightarrow> (Inl (PMWriteNotAllowedError ''Controlled document update requires artifact_type and content_md''), s1)))"

definition pm_handle :: "'c pm_env \<Rightarrow> pm_request \<Rightarrow> 'c pm_state \<Rightarrow> (pm_response, 'c) pm_run" where
  "pm_handle penv r s =
     and_then (pm_guard (py_strip (mq_project_id r) \<noteq> []) (PMProjectContextError ''Project Manager requires a non-empty project_id'') s) (\<lambda>_ s1.
       let intent = py_upper (py_strip (mq_intent r))
       in if intent \<in> {''DISCUSSION'', ''QUERY''} then handle_status_or_decision (pe_exec penv) r s1
          else if intent = ''MUTATION'' then handle_task_mutation penv r s1
          else if intent = ''ADMIN'' then handle_document_admin (pe_exec penv) r s1
          else (Inl (PMProjectContextError (''Unsupported Project Manager intent: '' @ py_repr (mq_intent r))), s1))"

definition escalation_reply :: "string \<Rightarrow> string" where
  "escalation_reply outcome =
     (if outcome = ''domain_risk_escalation''
      then ''Domain Leader review found unresolved domain risk. Escalate through project governance to CWO before further execution.''
      else if outcome = ''needs_rework''
      then ''Domain Leader review requires rework before execution continues. Update the task output and resubmit within the current project scope.''
      else ''Domain Leader review completed. The issue is resolved within project scope and execution may continue.'')"

definition pm_escalate_to_domain_leader :: "executive_env \<Rightarrow> string \<Rightarrow> string \<Rightarrow> string \<Rightarrow> 'c pm_state \<Rightarrow> (string, 'c) pm_run" where
  "pm_escalate_to_domain_leader env question project_id trace_id s =
     and_then (handle_escalation env \<lparr>dl_project_id = project_id, dl_message = question, dl_requesting_agent = ''project_manager'',
         dl_trace_id = trace_id, dl_task_id = None\<rparr> s) (\<lambda>resp s1. (Inr (escalation_reply (dp_domain_outcome resp)), s1))"

section \<open>The specialist's report\<close>

definition violation_route :: string where
  "violation_route = ''specialist -> project_manager -> auditor -> owner''"

definition report_behavioral_violation :: "oversight_env \<Rightarrow> string \<Rightarrow> string \<Rightarrow> string \<Rightarrow> string \<Rightarrow> oversight_state \<Rightarrow> string oversight_run" where
  "report_behavioral_violation env task_id project_id description trace_id s =
     (case effective_trace trace_id s of (trace, s1) \<Rightarrow>
        and_then (oversight_audit env
            (oversight_event ''specialist'' ''behavioral_violation'' ''escalated'' trace (Some task_id) ''behavioral_violation'' description
               [''AUTH-001'', ''ORCH-006'']
               [(''incident_type'', Some ''behavioral_violation''), (''current_owner_role'', Some ''specialist''),
                (''next_owner_role'', Some ''project_manager''), (''path_reference'', Some violation_route), (''task_id'', Some task_id),
                (''project_id'', Some project_id)]) s1) (\<lambda>_ s2.
        and_then (put_evidence env ''auditor'' system_project_id ''auditor_finding''
            [(''event_type'', JStr ''behavioral_violation''), (''incident_type'', JStr ''behavioral_violation''), (''severity'', JStr ''high''),
             (''current_owner_role'', JStr ''specialist''), (''next_owner_role'', JStr ''project_manager''), (''path_reference'', JStr violation_route),
             (''rule_ids'', json_strings [''AUTH-001'', ''ORCH-006'']), (''task_id'', JStr task_id), (''project_id'', JStr project_id),
             (''description'', JStr description), (''trace_id'', JStr trace)] s2) (\<lambda>p s3.
          (Inr (pt_storage_uri p), s3))))"

section \<open>Lemmas\<close>

abbreviation pm_records :: "'c pm_state \<Rightarrow> artifact_db" where
  "pm_records s \<equiv> records (pm_exec s)"

text \<open>
  What a run leaves in the artifacts of one project: rows are only appended, and each new one belongs to the project and has a type
  that satisfies \<open>P\<close>.
\<close>

definition adds_only :: "string \<Rightarrow> (string \<Rightarrow> bool) \<Rightarrow> 'c pm_state \<Rightarrow> 'c pm_state \<Rightarrow> bool" where
  "adds_only pid P s s' = (artifacts_ok (pm_records s') \<and>
     (\<exists>rows. ab_rows (pm_records s') = ab_rows (pm_records s) @ rows \<and> list_all (\<lambda>r. ar_project_id r = pid \<and> P (ar_artifact_type r)) rows))"

lemma adds_refl: "artifacts_ok (pm_records s) \<Longrightarrow> adds_only pid P s s"
  by (simp add: adds_only_def)

lemma adds_trans: "adds_only pid P s s1 \<Longrightarrow> adds_only pid P s1 s2 \<Longrightarrow> adds_only pid P s s2"
  unfolding adds_only_def by (metis (no_types, lifting) append.assoc list_all_append)

lemma adds_same: "adds_only pid P s0 s \<Longrightarrow> pm_records s' = pm_records s \<Longrightarrow> adds_only pid P s0 s'"
  by (simp add: adds_only_def)

lemma with_exec_records [simp]:
  "pm_records (snd (with_exec f s)) = records (snd (f (pm_exec s)))" "pm_orch (snd (with_exec f s)) = pm_orch s"
  by (simp_all add: with_exec_def split: prod.split sum.split)

lemma pm_guard_state [simp]: "snd (pm_guard b e s) = s"
  by (simp add: pm_guard_def)

lemma in_office_put:
  assumes "artifacts_ok (records x)"
  shows "run_ok (\<lambda>p x'. \<exists>row fs. validate_project_id pid = Inr (ar_project_id row) \<and> validate_artifact_type ty = Inr (ar_artifact_type row) \<and>
       ar_content row = content \<and> records x' = \<lparr>ab_rows = ab_rows (records x) @ [row], ab_files = fs\<rparr> \<and> artifacts_ok (records x'))
     (\<lambda>e x'. ab_rows (records x') = ab_rows (records x) \<and> artifacts_ok (records x'))
     (in_office (put_document env ctx pid ty content) x)"
  using put_document_step [OF assms, of pid ty content env ctx]
  by (cases "put_document env ctx pid ty content (xs_office x)"; cases "fst (put_document env ctx pid ty content (xs_office x))")
     (auto simp: in_office_def)

lemma validated_project: "validate_project_id p = Inr q \<Longrightarrow> q = py_strip p"
  by (auto simp: validate_project_id_def Let_def split: if_splits)

lemma validated_type: "validate_artifact_type t = Inr u \<Longrightarrow> u = py_lower (py_strip t)"
  by (auto simp: validate_artifact_type_def Let_def split: if_splits)

lemma adds_put:
  assumes "adds_only (py_strip pid) P s0 s" "P (py_lower (py_strip ty))"
  shows "adds_only (py_strip pid) P s0 (snd (with_exec (in_office (put_document env ctx pid ty content)) s))"
proof -
  have "artifacts_ok (pm_records s)" using assms(1) by (simp add: adds_only_def)
  from in_office_put [OF this, of pid ty content env ctx]
  have "adds_only (py_strip pid) P s (snd (with_exec (in_office (put_document env ctx pid ty content)) s))" using assms(2)
    by (cases "in_office (put_document env ctx pid ty content) (pm_exec s)"; cases "fst (in_office (put_document env ctx pid ty content) (pm_exec s))")
       (auto simp: adds_only_def dest!: validated_project validated_type)
  then show ?thesis by (rule adds_trans [OF assms(1)])
qed

lemma pm_put_snd: "snd (pm_put env ctx pid ty content s) = snd (with_exec (in_office (put_document (ev_office env) ctx pid ty content)) s)"
  by (auto simp: pm_put_def split: prod.split sum.split pm_error.split executive_error.split oversight_error.split artifact_error.split)

lemmas adds_seq = and_then_inv [where P = "adds_only pid P s0" for pid P s0]

lemma adds_simple:
  "adds_only pid P s0 s \<Longrightarrow> adds_only pid P s0 (snd (pm_guard b e s))" "adds_only pid P s0 s \<Longrightarrow> adds_only pid P s0 (snd (z, s))"
  "adds_only pid P s0 s \<Longrightarrow> adds_only pid P s0 (snd (pm_complete_prompt env r k p fb s))"
  "adds_only pid P s0 s \<Longrightarrow> adds_only pid P s0 (snd (pm_read i ty s))"
  by (simp_all add: adds_only_def pm_complete_prompt_def pm_read_def)

lemma adds_dispatch: "adds_only pid P s0 s \<Longrightarrow> adds_only pid P s0 (snd (dispatch_to_specialist penv i p tr s))"
  by (auto simp: dispatch_to_specialist_def adds_only_def split: option.split prod.split sum.split)

text \<open>A guard of the writer that fails writes nothing; what passes the guards may be written.\<close>

lemma pm_guard_then:
  "and_then (pm_guard b e s) f = (if b then f () s else (Inl e, s))"
  by (simp add: pm_guard_def)

lemma adds_write:
  assumes "adds_only (py_strip pid) P s0 s" "py_lower (py_strip state) = ''active'' \<Longrightarrow> py_lower (py_strip ty) \<notin> set prohibited_types \<Longrightarrow>
      (py_lower (py_strip ty) \<in> set conditional_write_types \<Longrightarrow> has_non_empty_approval_evidence ev) \<Longrightarrow> P (py_lower (py_strip ty))"
  shows "adds_only (py_strip pid) P s0 (snd (pm_write env pid ty content state ev s))"
proof (cases "py_lower (py_strip state) = ''active'' \<and> py_lower (py_strip ty) \<notin> set prohibited_types \<and>
      (py_lower (py_strip ty) \<in> set conditional_write_types \<longrightarrow> has_non_empty_approval_evidence ev)")
  case True
  then have "P (py_lower (py_strip (py_lower (py_strip ty))))" using assms(2) by (simp add: py_strip_lower)
  from adds_put [OF assms(1) this] True show ?thesis by (auto simp: pm_write_def Let_def pm_guard_then pm_put_snd)
next
  case False
  then show ?thesis using assms(1) by (auto simp: pm_write_def Let_def pm_guard_then)
qed

text \<open>The types of what one request may write.\<close>

definition writable_by :: "executive_env \<Rightarrow> pm_request \<Rightarrow> string \<Rightarrow> bool" where
  "writable_by env r ty = (ty \<notin> set prohibited_types \<and>
     (ty \<in> set conditional_write_types \<longrightarrow> has_non_empty_approval_evidence (resolve_approval_evidence r)) \<and>
     (ty = ''decision_log'' \<or> (\<exists>t. context_text (ev_str env) (mq_context r) ''artifact_type'' = Some t \<and> ty = py_lower (py_strip t))))"

lemma resolved_evidence: "has_non_empty_approval_evidence (dict_get (mq_context r) ''approval_evidence'') \<Longrightarrow>
  has_non_empty_approval_evidence (resolve_approval_evidence r)"
  by (cases "dict_get (mq_context r) ''approval_evidence''") (simp_all add: resolve_approval_evidence_def has_non_empty_approval_evidence_def)

lemma adds_risk:
  assumes "adds_only (py_strip pid) P s0 s" "P ''decision_log''"
  shows "adds_only (py_strip pid) P s0 (snd (emit_budget_risk_escalation env pid reason tr s))"
proof -
  have "py_lower (py_strip ''decision_log'') = ''decision_log''" by code_simp
  then show ?thesis unfolding emit_budget_risk_escalation_def Let_def
    using assms(1) adds_put [OF assms(1), of "''decision_log''"] assms(2) by (auto intro!: adds_seq)
qed

lemma adds_mutation:
  assumes "adds_only (py_strip (mq_project_id r)) (writable_by (pe_exec penv) r) s0 s"
  shows "adds_only (py_strip (mq_project_id r)) (writable_by (pe_exec penv) r) s0 (snd (handle_task_mutation penv r s))"
proof -
  let ?A = "adds_only (py_strip (mq_project_id r)) (writable_by (pe_exec penv) r) s0"
  have log: "writable_by (pe_exec penv) r ''decision_log''"
    by (simp add: writable_by_def prohibited_types_def conditional_write_types_def)
  have wr: "?A (snd (mutation_write (pe_exec penv) r st s'))" if "?A s'" for st s'
    unfolding mutation_write_def using that
    by (auto intro!: adds_seq adds_write split: option.split) (auto simp: writable_by_def intro: resolved_evidence)
  show ?thesis unfolding handle_task_mutation_def Let_def
    by (intro adds_seq adds_simple(3)) (use assms log in \<open>auto intro!: wr adds_risk adds_seq adds_dispatch split: option.split\<close>)
qed

lemma adds_admin:
  assumes "adds_only (py_strip (mq_project_id r)) (writable_by env r) s0 s"
  shows "adds_only (py_strip (mq_project_id r)) (writable_by env r) s0 (snd (handle_document_admin env r s))"
  unfolding handle_document_admin_def Let_def
  by (auto intro!: adds_seq adds_simple(1,3) adds_write assms split: option.split) (auto simp: writable_by_def)

lemma adds_status: "adds_only pid P s0 s \<Longrightarrow> adds_only pid P s0 (snd (handle_status_or_decision env r s))"
  unfolding handle_status_or_decision_def Let_def by (intro adds_seq adds_simple)

lemma mutation_write_orch: "pm_orch (snd (mutation_write env r st s)) = pm_orch s"
proof -
  have w: "pm_orch (snd (pm_write env p ty c st' ev s)) = pm_orch s" for p ty c st' ev
    by (simp add: pm_write_def Let_def pm_guard_then pm_put_snd)
  show ?thesis unfolding mutation_write_def
    by (auto split: option.split intro!: and_then_inv [where P = "\<lambda>x. pm_orch x = pm_orch s"] w)
qed

subsection \<open>Evidence\<close>

lemma put_ignores_roles:
  assumes "wc_actor_role ctx = wc_actor_role ctx'" "wc_project_status ctx = wc_project_status ctx'"
  shows "put_document env ctx pid ty content = put_document env ctx' pid ty content"
proof -
  have same: "assert_write_authorization ty ctx = assert_write_authorization ty ctx'" for ty
    using assms by (simp add: assert_write_authorization_def)
  have "write_project_artifact sha os cfg pid ty content (Some ctx) = write_project_artifact sha os cfg pid ty content (Some ctx')" for sha os cfg
    unfolding fun_eq_iff write_project_artifact_def option.case same by simp
  then show ?thesis by (simp add: fun_eq_iff put_document_def)
qed

section \<open>Properties\<close>

text \<open>
  C10: what the project manager writes stays in its project and within its contract. Whatever the request and the model's answer, and
  whether it succeeds or raises, artifacts are only appended; every new one belongs to the requested project, is neither a charter nor a
  workforce plan, is a decision log entry or of the type the request names, and of a controlled type only if some approval evidence came
  with the request.
\<close>

theorem pm_writes_confined:
  assumes "artifacts_ok (os_artifacts (xs_office (pm_exec s)))"
  shows "\<exists>rows. ab_rows (os_artifacts (xs_office (pm_exec (snd (pm_handle penv r s))))) = ab_rows (os_artifacts (xs_office (pm_exec s))) @ rows \<and>
    list_all (\<lambda>row. ar_project_id row = py_strip (mq_project_id r) \<and> ar_artifact_type row \<notin> {''project_charter'', ''workforce_plan''} \<and>
      (ar_artifact_type row = ''decision_log'' \<or>
       (\<exists>t. context_text (ev_str (pe_exec penv)) (mq_context r) ''artifact_type'' = Some t \<and> ar_artifact_type row = py_lower (py_strip t))) \<and>
      (ar_artifact_type row \<in> set conditional_write_types \<longrightarrow> has_non_empty_approval_evidence (resolve_approval_evidence r))) rows"
proof -
  have a: "adds_only (py_strip (mq_project_id r)) (writable_by (pe_exec penv) r) s s" using assms by (rule adds_refl)
  have "adds_only (py_strip (mq_project_id r)) (writable_by (pe_exec penv) r) s (snd (pm_handle penv r s))"
    unfolding pm_handle_def Let_def
    by (rule adds_seq) (use a in \<open>auto intro: adds_mutation adds_admin adds_status\<close>)
  then show ?thesis unfolding adds_only_def writable_by_def prohibited_types_def by (auto simp: list_all_iff)
qed

text \<open>
  What the approval evidence says plays no part in a write. Two pieces of evidence that are both not empty, a text or the approval of one
  role beside that of both executives, give the same result and the same state.
\<close>

theorem evidence_content_irrelevant:
  assumes "has_non_empty_approval_evidence ev" "has_non_empty_approval_evidence ev'"
  shows "pm_write env project_id artifact_type content_md project_state ev s = pm_write env project_id artifact_type content_md project_state ev' s"
proof -
  let ?ctx = "\<lambda>st e. \<lparr>wc_actor_role = ''project_manager'', wc_project_status = st, wc_approval_roles = approval_roles_from_evidence (ev_str env) e\<rparr>"
  have "pm_put env (?ctx st ev) project_id ty content_md s = pm_put env (?ctx st ev') project_id ty content_md s" for st ty
    unfolding pm_put_def using put_ignores_roles [of "?ctx st ev" "?ctx st ev'"] by simp
  then show ?thesis using assms by (simp add: pm_write_def Let_def pm_guard_then)
qed

text \<open>
  Without a model every review passes. When the provider fails, the domain leader allows the specialist's output, an escalation counts
  as resolved, and the project manager answers that execution may continue.
\<close>

theorem unavailable_leader_allows:
  assumes "ev_provider env = (\<lambda>q net. (Inl (LiteLLMProviderError code m False), net))" "project_id \<noteq> []" "rq_project_id q \<noteq> []"
  shows "(\<exists>s1. pm_escalate_to_domain_leader env question project_id trace_id s = (Inr (escalation_reply ''resolved''), s1)) \<and>
    (\<exists>resp s1. review_specialist_output env q s = (Inr resp, s1) \<and> ro_outcome resp = ''allow'')"
proof -
  have parse: "parse_domain_outcome fallback_domain_advisory = (''resolved'', None, None)" "parse_review_outcome fallback_domain_advisory = (''allow'', None)"
    by code_simp+
  have call: "\<exists>s1. dl_call_llm env pid tr k p s = (Inr fallback_domain_advisory, s1)" for pid tr k p
  proof -
    obtain x where "complete_llm env (domain_leader_executive k) (Some pid) tr p fallback_domain_advisory (pm_exec s) = (Inr fallback_domain_advisory, x)"
      using complete_llm_unavailable [OF assms(1)] by blast
    then show ?thesis by (simp add: dl_call_llm_def with_exec_def)
  qed
  obtain s1 where s1: "dl_call_llm env project_id trace_id ''escalation_advisory''
      (ev_template env ''dl.escalation_advisory''
         [(''project_id'', project_id), (''requesting_agent'', ''project_manager''), (''task_id'', ''N/A''), (''message'', take 1000 question)]) s =
      (Inr fallback_domain_advisory, s1)" using call by blast
  obtain s2 where s2: "dl_call_llm env (rq_project_id q) (rq_trace_id q) ''specialist_review''
      (ev_template env ''dl.specialist_review''
         [(''project_id'', rq_project_id q), (''task_id'', rq_task_id q), (''specialist_output'', take 2000 (rq_specialist_output q))]) s =
      (Inr fallback_domain_advisory, s2)" using call by blast
  show ?thesis using assms(2,3) s1 s2 parse
    by (simp add: pm_escalate_to_domain_leader_def handle_escalation_def review_specialist_output_def require_project_context_def pm_guard_def)
qed

text \<open>
  Delegating a task always fails, after everything else was done. A mutation that names a task of the project writes its artifact, has the
  specialist execute the subtask and stores the result, and then raises: the created subtask is queued and cannot be marked dispatched.
\<close>

theorem delegation_fails_after_write:
  assumes "py_upper (py_strip (mq_intent r)) = ''MUTATION''" "py_strip (mq_project_id r) \<noteq> []" "\<not> is_budget_risk (pe_exec penv) r"
    "mutation_write (pe_exec penv) r (resolve_project_state (pe_exec penv) r s) s = (Inr written, s1)"
    "context_text (ev_str (pe_exec penv)) (mq_context r) ''task_id'' = Some i" "get_task_by_id (sv_repo (pm_orch s)) i = Some t"
    "normalize_optional_text (tk_project_id t) = Some (mq_project_id r)" "dx_specialist (pe_adapters penv)"
    "\<And>k. en_audit_fault (pe_environment penv) k = None"
    "find_row (sv_repo (pm_orch s)) (en_uuid (pe_environment penv) (Suc (sv_draws (pm_orch s)))) = None"
    "py_strip (en_uuid (pe_environment penv) (Suc (sv_draws (pm_orch s)))) \<noteq> []"
    "map_of (ts_task_outcomes (pm_orch s)) (en_uuid (pe_environment penv) (Suc (sv_draws (pm_orch s)))) = None"
  shows "\<exists>s'. pm_handle penv r s = (Inl (PmDispatchFailure (InvalidStateTransitionError ''queued'' ''dispatched'')), s') \<and>
    pm_exec s' = pm_exec s1 \<and> length (ts_results (pm_orch s')) = Suc (length (ts_results (pm_orch s)))"
proof -
  have orch: "pm_orch s1 = pm_orch s" using mutation_write_orch [of "pe_exec penv" r _ s] assms(4) by (metis snd_conv)
  obtain orch' where o: "create_specialist_task (pe_environment penv) (pe_adapters penv) i (mq_project_id r) (mq_trace_id r) (pm_orch s1) =
      (Inl (InvalidStateTransitionError ''queued'' ''dispatched''), orch')" "length (ts_results orch') = Suc (length (ts_results (pm_orch s1)))"
    using create_specialist_task_raises [OF assms(8,9), of "pm_orch s1" i "mq_project_id r" "mq_trace_id r"] assms(10-12) unfolding orch by blast
  then have "dispatch_to_specialist penv i (mq_project_id r) (mq_trace_id r) s1 =
      (Inl (PmDispatchFailure (InvalidStateTransitionError ''queued'' ''dispatched'')), s1\<lparr>pm_orch := orch'\<rparr>)"
    using assms(6,7) orch by (simp add: dispatch_to_specialist_def)
  then show ?thesis using assms(1-5) o(2) orch by (simp add: pm_handle_def pm_guard_def handle_task_mutation_def Let_def)
qed

section \<open>Witnesses\<close>

definition demo_pm_env :: "local_client pm_env" where
  "demo_pm_env = \<lparr>pe_exec = demo_executive_env, pe_environment = demo_gateway_env True, pe_adapters = demo_adapters\<rparr>"

definition demo_pm_state :: "local_client pm_state" where
  "demo_pm_state = \<lparr>pm_exec = demo_executives, pm_orch = demo_orchestrator [demo_task\<lparr>tk_project_id := Some ''p-1''\<rparr>]\<rparr>"

definition demo_pm_request :: "json_object \<Rightarrow> pm_request" where
  "demo_pm_request extra = \<lparr>mq_message = ''m'', mq_intent = ''mutation'', mq_project_id = ''p-1'',
     mq_context = [(''project_state'', JStr ''active''), (''artifact_type'', JStr ''progress_report''), (''content_md'', JStr ''c'')] @ extra,
     mq_trace_id = ''tr''\<rparr>"

lemma demo_pm_ok: "artifacts_ok (os_artifacts (xs_office (pm_exec demo_pm_state)))"
  using demo_executives_ok by (simp add: demo_pm_state_def)

theorem pm_writes_confined_witness:
  "\<exists>rows. ab_rows (pm_records (snd (pm_handle demo_pm_env (demo_pm_request []) demo_pm_state))) = ab_rows (pm_records demo_pm_state) @ rows"
  using pm_writes_confined [OF demo_pm_ok, of demo_pm_env "demo_pm_request []"] by blast

theorem evidence_content_irrelevant_witness:
  "pm_write demo_executive_env ''p-1'' ''scope_statement'' ''c'' ''active'' (Some (JStr ''x'')) demo_pm_state =
   pm_write demo_executive_env ''p-1'' ''scope_statement'' ''c'' ''active'' (Some (JBool True)) demo_pm_state"
proof -
  have "has_non_empty_approval_evidence (Some (JStr ''x''))" "has_non_empty_approval_evidence (Some (JBool True))" by code_simp+
  then show ?thesis by (rule evidence_content_irrelevant)
qed

theorem unavailable_leader_allows_witness:
  "\<exists>s1. pm_escalate_to_domain_leader (demo_executive_env\<lparr>ev_provider := (\<lambda>q net. (Inl (LiteLLMProviderError ''c'' ''m'' False), net))\<rparr>) ''q'' ''p-1'' ''tr''
     demo_pm_state = (Inr (escalation_reply ''resolved''), s1)"
proof -
  let ?env = "demo_executive_env\<lparr>ev_provider := (\<lambda>q net. (Inl (LiteLLMProviderError ''c'' ''m'' False), net))\<rparr>"
  have "ev_provider ?env = (\<lambda>q net. (Inl (LiteLLMProviderError ''c'' ''m'' False), net))" by simp
  from unavailable_leader_allows [OF this, of "''p-1''" "\<lparr>rq_task_id = ''t'', rq_project_id = ''p-1'', rq_specialist_output = ''o'', rq_trace_id = ''tr''\<rparr>"
      "''q''" "''tr''" demo_pm_state] show ?thesis by simp
qed

theorem delegation_fails_after_write_witness:
  "\<exists>s'. pm_handle demo_pm_env (demo_pm_request [(''task_id'', JStr ''t-1'')]) demo_pm_state =
     (Inl (PmDispatchFailure (InvalidStateTransitionError ''queued'' ''dispatched'')), s')"
proof -
  let ?r = "demo_pm_request [(''task_id'', JStr ''t-1'')]"
  let ?w = "mutation_write (pe_exec demo_pm_env) ?r (resolve_project_state (pe_exec demo_pm_env) ?r demo_pm_state) demo_pm_state"
  have h: "py_upper (py_strip (mq_intent ?r)) = ''MUTATION''" "py_strip (mq_project_id ?r) \<noteq> []" "\<not> is_budget_risk (pe_exec demo_pm_env) ?r"
    "context_text (ev_str (pe_exec demo_pm_env)) (mq_context ?r) ''task_id'' = Some ''t-1''" "py_strip (''id-'' @ show_nat 1) \<noteq> []"
    "normalize_optional_text (Some ''p-1'') = Some ''p-1''"
    by code_simp+
  have "case fst ?w of Inr _ \<Rightarrow> True | Inl _ \<Rightarrow> False" by code_simp
  then obtain b s1 where w: "?w = (Inr b, s1)" by (cases ?w; cases "fst ?w") auto
  have t: "get_task_by_id (sv_repo (pm_orch demo_pm_state)) ''t-1'' = Some (task_from_row (demo_task\<lparr>tk_project_id := Some ''p-1''\<rparr>))"
    by (simp add: demo_pm_state_def get_task_by_id_def find_row_def)
  have rest: "normalize_optional_text (tk_project_id (task_from_row (demo_task\<lparr>tk_project_id := Some ''p-1''\<rparr>))) = Some (mq_project_id ?r)"
    "dx_specialist (pe_adapters demo_pm_env)" "en_audit_fault (pe_environment demo_pm_env) k = None"
    "find_row (sv_repo (pm_orch demo_pm_state)) (en_uuid (pe_environment demo_pm_env) (Suc (sv_draws (pm_orch demo_pm_state)))) = None"
    "py_strip (en_uuid (pe_environment demo_pm_env) (Suc (sv_draws (pm_orch demo_pm_state)))) \<noteq> []"
    "map_of (ts_task_outcomes (pm_orch demo_pm_state)) (en_uuid (pe_environment demo_pm_env) (Suc (sv_draws (pm_orch demo_pm_state)))) = None" for k
    using h(5,6) by (simp_all add: demo_pm_state_def demo_pm_env_def demo_adapters_def demo_gateway_env_def find_row_def demo_pm_request_def task_from_row_def nonempty_opt_Some)
  from delegation_fails_after_write [OF h(1-3) w h(4) t rest] show ?thesis by blast
qed

end
