(* ===== verification/Message_Store.thy ===== *)
theory Message_Store
  imports Publisher Project_Documents
begin

text \<open>
  The durable stores of the communication gateway.
  \<^item> \<^verbatim>\<open>data_access/repositories/postgres/communication_repository.py\<close>: the tables of messages and dead letters, with the JSON column
    of transitions (\<open>create_record\<close>, \<open>append_transition\<close>, \<open>create_dead_letter_record\<close> and the readers);
  \<^item> \<^verbatim>\<open>data_access/repositories/postgres/idempotency_cache_store.py\<close>: the Redis store of claims (\<open>redis_claim\<close>,
    \<open>redis_increment_attempt\<close>, \<open>redis_complete\<close> and the readers), with expiry.

  A JSON text is the value it denotes, as in \<open>Project_Documents\<close>; a Redis value that is no JSON text is \<open>None\<close>. A Redis entry has the
  instant at which it expires, or none. Commands of one operation run one after the other, at the instants \<open>now\<close> and \<open>later\<close>. Rows with
  one instant are listed in the order of insertion, which the database leaves open. A state that is not one of the four, which no writer
  stores, is outside the model, and so is a transition without an instant, which would read the clock once more. The order in which Redis
  scans its keys is that of the entries.
\<close>

section \<open>The message table\<close>

record message_columns =
  sm_ledger_id :: string
  sm_task_id :: string
  sm_trace_id :: string
  sm_message_id :: string
  sm_external_message_id :: string
  sm_connector :: string
  sm_command :: string
  sm_target :: string
  sm_route_key :: string
  sm_endpoint :: string
  sm_attempt :: int
  sm_state :: ledger_state
  sm_dispatch_id :: "string option"
  sm_delivery_id :: "string option"
  sm_retryable :: "bool option"
  sm_error_code :: "string option"
  sm_error_message :: "string option"
  sm_transitions :: json
  sm_created_at :: time
  sm_updated_at :: time

record message_db =
  mb_messages :: "message_columns list"
  mb_dead_letters :: "dead_letter list"
  mb_runtime :: py_runtime

definition ledger_transition_to_dict :: "ledger_transition \<Rightarrow> json_object" where
  "ledger_transition_to_dict t = [(''state'', JStr (show_ledger_state (lt_state t))), (''changed_at'', JIso (lt_changed_at t)),
     (''reason_code'', JStr (lt_reason_code t)), (''message'', JStr (lt_message t)),
     (''retryable'', case lt_retryable t of None \<Rightarrow> JNull | Some b \<Rightarrow> JBool b)]"

definition read_ledger_state :: "string \<Rightarrow> py_exn + ledger_state" where
  "read_ledger_state s = (if s = ''prepared'' then Inr Prepared else if s = ''sent'' then Inr Sent else if s = ''acked'' then Inr Acked
     else if s = ''nacked'' then Inr Nacked else Inl malformed)"

text \<open>A transition without an instant gets the one at which it is read.\<close>

definition ledger_transition_from_dict :: "time \<Rightarrow> json \<Rightarrow> py_exn + ledger_transition" where
  "ledger_transition_from_dict now v =
     (case v of
        JObj d \<Rightarrow>
          sum_bind (case dict_get d ''changed_at'' of Some (JIso t) \<Rightarrow> Inr t | Some (JStr _) \<Rightarrow> Inl malformed | _ \<Rightarrow> Inr now) (\<lambda>changed_at.
          sum_bind (fld_str d ''state'') (\<lambda>s. sum_bind (read_ledger_state s) (\<lambda>state.
          sum_bind (fld_str d ''reason_code'') (\<lambda>reason. sum_bind (fld_str d ''message'') (\<lambda>m.
          sum_bind (case dict_get d ''retryable'' of None \<Rightarrow> Inr None | Some JNull \<Rightarrow> Inr None | Some (JBool b) \<Rightarrow> Inr (Some b) | Some _ \<Rightarrow> Inl malformed) (\<lambda>retryable.
            Inr \<lparr>lt_state = state, lt_changed_at = changed_at, lt_reason_code = reason, lt_message = m, lt_retryable = retryable\<rparr>))))))
      | _ \<Rightarrow> Inl malformed)"

definition record_to_params :: "message_record \<Rightarrow> message_columns" where
  "record_to_params r = \<lparr>sm_ledger_id = mr_ledger_id r, sm_task_id = mr_task_id r, sm_trace_id = mr_trace_id r, sm_message_id = mr_message_id r,
     sm_external_message_id = mr_external_message_id r, sm_connector = mr_connector r, sm_command = mr_command r, sm_target = mr_target r,
     sm_route_key = mr_route_key r, sm_endpoint = mr_endpoint r, sm_attempt = mr_attempt r, sm_state = mr_state r, sm_dispatch_id = mr_dispatch_id r,
     sm_delivery_id = mr_delivery_id r, sm_retryable = mr_retryable r, sm_error_code = mr_error_code r, sm_error_message = mr_error_message r,
     sm_transitions = JList (map (JObj \<circ> ledger_transition_to_dict) (mr_transitions r)), sm_created_at = mr_created_at r, sm_updated_at = mr_updated_at r\<rparr>"

definition record_from_row :: "time \<Rightarrow> message_columns \<Rightarrow> py_exn + message_record" where
  "record_from_row now row =
     sum_bind (case sm_transitions row of JList ts \<Rightarrow> sum_list_map (ledger_transition_from_dict now) ts | _ \<Rightarrow> Inr []) (\<lambda>ts.
       Inr \<lparr>mr_ledger_id = sm_ledger_id row, mr_task_id = sm_task_id row, mr_trace_id = sm_trace_id row, mr_message_id = sm_message_id row,
            mr_external_message_id = sm_external_message_id row, mr_connector = sm_connector row, mr_command = sm_command row, mr_target = sm_target row,
            mr_route_key = sm_route_key row, mr_endpoint = sm_endpoint row, mr_attempt = sm_attempt row, mr_state = sm_state row,
            mr_dispatch_id = nonempty_opt (sm_dispatch_id row), mr_delivery_id = nonempty_opt (sm_delivery_id row), mr_retryable = sm_retryable row,
            mr_error_code = nonempty_opt (sm_error_code row), mr_error_message = nonempty_opt (sm_error_message row), mr_transitions = ts,
            mr_created_at = sm_created_at row, mr_updated_at = sm_updated_at row\<rparr>)"

definition create_record :: "publish_request \<Rightarrow> int \<Rightarrow> message_db \<Rightarrow> message_record \<times> message_db" where
  "create_record p attempt db =
     (let (now, rt1) = now_utc (mb_runtime db); (i, rt2) = uuid4 rt1;
          r = (prepared_record p attempt i now)\<lparr>mr_transitions := [\<lparr>lt_state = Prepared, lt_changed_at = now, lt_reason_code = ''dispatch_prepared'',
                 lt_message = ''communication dispatch prepared'', lt_retryable = None\<rparr>]\<rparr>
      in (r, db\<lparr>mb_messages := mb_messages db @ [record_to_params r], mb_runtime := rt2\<rparr>))"

definition get_record :: "time \<Rightarrow> message_db \<Rightarrow> string \<Rightarrow> py_exn + message_record option" where
  "get_record now db ledger_id =
     (case find (\<lambda>row. sm_ledger_id row = ledger_id) (mb_messages db) of
        None \<Rightarrow> Inr None
      | Some row \<Rightarrow> sum_bind (record_from_row now row) (\<lambda>r. Inr (Some r)))"

definition set_columns :: "ledger_transition \<Rightarrow> string option \<Rightarrow> string option \<Rightarrow> string option \<Rightarrow> string option \<Rightarrow> message_record \<Rightarrow> message_columns \<Rightarrow> message_columns" where
  "set_columns tr dispatch_id delivery_id error_code error_message updated row =
     row\<lparr>sm_state := lt_state tr, sm_dispatch_id := (if dispatch_id = None then sm_dispatch_id row else dispatch_id),
         sm_delivery_id := (if delivery_id = None then sm_delivery_id row else delivery_id), sm_retryable := lt_retryable tr,
         sm_error_code := error_code, sm_error_message := error_message,
         sm_transitions := JList (map (JObj \<circ> ledger_transition_to_dict) (mr_transitions updated)), sm_updated_at := lt_changed_at tr\<rparr>"

definition append_transition ::
  "string \<Rightarrow> ledger_state \<Rightarrow> string \<Rightarrow> string \<Rightarrow> bool option \<Rightarrow> string option \<Rightarrow> string option \<Rightarrow> string option \<Rightarrow> string option \<Rightarrow> message_db \<Rightarrow>
   (py_exn, message_record option, message_db) run" where
  "append_transition ledger_id state reason_code message retryable dispatch_id delivery_id error_code error_message db =
     (let (now, rt) = now_utc (mb_runtime db)
      in case get_record now db ledger_id of
           Inl e \<Rightarrow> (Inl e, db)
         | Inr None \<Rightarrow> (Inr None, db)
         | Inr (Some current) \<Rightarrow>
             (let tr = \<lparr>lt_state = state, lt_changed_at = now, lt_reason_code = reason_code, lt_message = message, lt_retryable = retryable\<rparr>;
                  updated = current\<lparr>mr_state := state, mr_dispatch_id := (if dispatch_id = None then mr_dispatch_id current else dispatch_id),
                    mr_delivery_id := (if delivery_id = None then mr_delivery_id current else delivery_id), mr_retryable := retryable,
                    mr_error_code := error_code, mr_error_message := error_message, mr_transitions := mr_transitions current @ [tr], mr_updated_at := now\<rparr>
              in (Inr (Some updated), db\<lparr>mb_runtime := rt, mb_messages := map (\<lambda>row. if sm_ledger_id row = ledger_id
                    then set_columns tr dispatch_id delivery_id error_code error_message updated row else row) (mb_messages db)\<rparr>)))"

definition pg_list_records :: "time \<Rightarrow> message_db \<Rightarrow> py_exn + message_record list" where
  "pg_list_records now db = sum_list_map (record_from_row now) (sort_key sm_created_at (mb_messages db))"

definition pg_list_records_for_task :: "time \<Rightarrow> message_db \<Rightarrow> string \<Rightarrow> py_exn + message_record list" where
  "pg_list_records_for_task now db task_id =
     sum_list_map (record_from_row now) (sort_key sm_created_at (filter (\<lambda>row. sm_task_id row = task_id) (mb_messages db)))"

section \<open>Dead letters\<close>

definition create_dead_letter_record :: "publish_request \<Rightarrow> string \<Rightarrow> string \<Rightarrow> int \<Rightarrow> string option \<Rightarrow> message_db \<Rightarrow> dead_letter \<times> message_db" where
  "create_dead_letter_record p error_code error_message attempts ledger_id db =
     (let (i, rt1) = uuid4 (mb_runtime db); (now, rt2) = now_utc rt1;
          d = \<lparr>dl_dead_letter_id = i, dl_task_id = pq_task_id p, dl_trace_id = pq_trace_id p, dl_principal_id = pq_principal_id p,
               dl_idempotency_key = pq_idempotency_key p, dl_message_id = pq_message_id p, dl_external_message_id = pq_external_message_id p,
               dl_connector = pq_connector p, dl_command = pq_command p, dl_target = pq_target p, dl_route_key = pq_route_key p,
               dl_endpoint = pq_endpoint p, dl_error_code = error_code, dl_error_message = error_message, dl_attempts = attempts,
               dl_ledger_id = ledger_id, dl_created_at = now\<rparr>
      in (d, db\<lparr>mb_dead_letters := mb_dead_letters db @ [d], mb_runtime := rt2\<rparr>))"

definition dead_letter_from_row :: "dead_letter \<Rightarrow> dead_letter" where
  "dead_letter_from_row d = d\<lparr>dl_ledger_id := nonempty_opt (dl_ledger_id d)\<rparr>"

definition get_dead_letter_record :: "message_db \<Rightarrow> string \<Rightarrow> dead_letter option" where
  "get_dead_letter_record db i = map_option dead_letter_from_row (find (\<lambda>d. dl_dead_letter_id d = i) (mb_dead_letters db))"

definition list_dead_letter_records :: "message_db \<Rightarrow> dead_letter list" where
  "list_dead_letter_records db = map dead_letter_from_row (sort_key dl_created_at (mb_dead_letters db))"

section \<open>The Redis store of claims\<close>

record cache_record =
  ca_namespace :: string
  ca_key :: string
  ca_payload_hash :: string
  ca_status :: string
  ca_attempt_count :: int
  ca_result :: "kvs option"
  ca_created_at :: time
  ca_updated_at :: time

type_synonym redis = "(string \<times> json option \<times> time option) list"

definition redis_key :: "string \<Rightarrow> string \<Rightarrow> string" where
  "redis_key ns key = ''idempotency:'' @ ns @ '':'' @ key"

definition redis_get :: "time \<Rightarrow> string \<Rightarrow> redis \<Rightarrow> json option option" where
  "redis_get now k st =
     (case map_of st k of
        None \<Rightarrow> None
      | Some (v, expiry) \<Rightarrow> (case expiry of None \<Rightarrow> Some v | Some t \<Rightarrow> if t \<le> now then None else Some v))"

text \<open>\<^verbatim>\<open>SET k v EX ttl\<close> and \<^verbatim>\<open>SET k v KEEPTTL\<close>; the second gives an entry that is gone no expiry.\<close>

definition redis_set :: "time \<Rightarrow> int \<Rightarrow> string \<Rightarrow> json option \<Rightarrow> redis \<Rightarrow> redis" where
  "redis_set now ttl k v st = dict_put st k (v, Some (now + ttl))"

definition redis_keepttl :: "time \<Rightarrow> string \<Rightarrow> json option \<Rightarrow> redis \<Rightarrow> redis" where
  "redis_keepttl now k v st = dict_put st k (v, if redis_get now k st = None then None else snd (the (map_of st k)))"

definition cache_record_to_json :: "cache_record \<Rightarrow> json" where
  "cache_record_to_json r = JObj [(''namespace'', JStr (ca_namespace r)), (''key'', JStr (ca_key r)), (''payload_hash'', JStr (ca_payload_hash r)),
     (''status'', JStr (ca_status r)), (''attempt_count'', JNum (of_int (ca_attempt_count r))),
     (''result'', JList (map (\<lambda>(a, b). JList [JStr a, JStr b]) (case ca_result r of None \<Rightarrow> [] | Some xs \<Rightarrow> xs))),
     (''created_at'', JIso (ca_created_at r)), (''updated_at'', JIso (ca_updated_at r))]"

definition cache_status :: "json option \<Rightarrow> string" where
  "cache_status v = (case v of Some (JStr s) \<Rightarrow> (let t = py_lower (py_strip s) in if t \<in> {''in_progress'', ''completed''} then t else ''in_progress'')
     | _ \<Rightarrow> ''in_progress'')"

definition cache_record_from_json :: "json option \<Rightarrow> py_exn + cache_record option" where
  "cache_record_from_json raw =
     (case raw of
        None \<Rightarrow> Inr None
      | Some (JObj d) \<Rightarrow>
          sum_bind (fld_str d ''namespace'') (\<lambda>ns. sum_bind (fld_str d ''key'') (\<lambda>key. sum_bind (fld_str d ''payload_hash'') (\<lambda>h.
          sum_bind (fld_num d ''attempt_count'') (\<lambda>n. sum_bind (fld_time d ''created_at'') (\<lambda>created. sum_bind (fld_time d ''updated_at'') (\<lambda>updated.
            Inr (Some \<lparr>ca_namespace = ns, ca_key = key, ca_payload_hash = h, ca_status = cache_status (dict_get d ''status''),
              ca_attempt_count = \<lfloor>n\<rfloor>, ca_result = (let xs = fld_pairs d ''result'' in if xs = [] then None else Some xs),
              ca_created_at = created, ca_updated_at = updated\<rparr>)))))))
      | Some _ \<Rightarrow> Inl (OtherExn ''AttributeError''))"

definition redis_record :: "time \<Rightarrow> string \<Rightarrow> redis \<Rightarrow> py_exn + cache_record option" where
  "redis_record now k st = (case redis_get now k st of None \<Rightarrow> Inr None | Some raw \<Rightarrow> cache_record_from_json raw)"

definition redis_claim ::
  "string \<Rightarrow> int \<Rightarrow> string \<Rightarrow> string \<Rightarrow> time \<Rightarrow> time \<Rightarrow> redis \<Rightarrow> (py_exn, claim_status \<times> cache_record, redis) run" where
  "redis_claim ns ttl key fingerprint now later st =
     (let k = redis_key ns key;
          r = \<lparr>ca_namespace = ns, ca_key = key, ca_payload_hash = fingerprint, ca_status = ''in_progress'', ca_attempt_count = 0, ca_result = None,
               ca_created_at = now, ca_updated_at = now\<rparr>
      in if redis_get now k st = None then (Inr (ClaimNew, r), redis_set now ttl k (Some (cache_record_to_json r)) st)
         else case redis_record later k st of
                Inl e \<Rightarrow> (Inl e, st)
              | Inr None \<Rightarrow> (Inr (ClaimNew, r), redis_set later ttl k (Some (cache_record_to_json r)) st)
              | Inr (Some existing) \<Rightarrow>
                  if ca_payload_hash existing \<noteq> fingerprint then (Inr (ClaimConflict, existing), st)
                  else if ca_status existing = ''completed'' then (Inr (ClaimReplay, existing), st)
                  else (Inr (ClaimInProgress, existing), st))"

text \<open>The common part of both updates: read, change, write without touching the expiry.\<close>

definition redis_update ::
  "string \<Rightarrow> (cache_record \<Rightarrow> cache_record) \<Rightarrow> string \<Rightarrow> time \<Rightarrow> time \<Rightarrow> redis \<Rightarrow> (py_exn, cache_record option, redis) run" where
  "redis_update ns change key now later st =
     (let k = redis_key ns key
      in case redis_record now k st of
           Inl e \<Rightarrow> (Inl e, st)
         | Inr None \<Rightarrow> (Inr None, st)
         | Inr (Some r) \<Rightarrow>
             (let r' = (change r)\<lparr>ca_updated_at := later\<rparr> in (Inr (Some r'), redis_keepttl later k (Some (cache_record_to_json r')) st)))"

definition redis_increment_attempt :: "string \<Rightarrow> string \<Rightarrow> time \<Rightarrow> time \<Rightarrow> redis \<Rightarrow> (py_exn, cache_record option, redis) run" where
  "redis_increment_attempt ns = redis_update ns (\<lambda>r. r\<lparr>ca_attempt_count := ca_attempt_count r + 1\<rparr>)"

definition redis_complete :: "string \<Rightarrow> kvs \<Rightarrow> string \<Rightarrow> time \<Rightarrow> time \<Rightarrow> redis \<Rightarrow> (py_exn, cache_record option, redis) run" where
  "redis_complete ns result = redis_update ns (\<lambda>r. r\<lparr>ca_status := ''completed'', ca_result := Some (sort result)\<rparr>)"

definition redis_lookup :: "string \<Rightarrow> string \<Rightarrow> time \<Rightarrow> redis \<Rightarrow> py_exn + cache_record option" where
  "redis_lookup ns key now st = redis_record now (redis_key ns key) st"

text \<open>The entries of a namespace that are not expired, those that are no records left out.\<close>

definition list_namespace :: "string \<Rightarrow> time \<Rightarrow> redis \<Rightarrow> py_exn + cache_record list" where
  "list_namespace ns now st =
     sum_bind (sum_list_map (\<lambda>k. redis_record now k st) (filter (\<lambda>k. py_startswith k (redis_key ns [])) (map fst st)))
       (\<lambda>rs. Inr (List.map_filter id rs))"

section \<open>What is written is read back\<close>

lemma read_show_ledger_state [simp]: "read_ledger_state (show_ledger_state s) = Inr s"
  by (cases s) (simp_all add: read_ledger_state_def)

lemma ledger_transition_roundtrip [simp]: "ledger_transition_from_dict now (JObj (ledger_transition_to_dict t)) = Inr t"
  by (cases t; cases "lt_retryable t")
     (simp_all add: ledger_transition_from_dict_def ledger_transition_to_dict_def fld_str_def dict_get_def sum_bind_def)

lemma ledger_transitions_roundtrip [simp]:
  "sum_list_map (ledger_transition_from_dict now) (map (JObj \<circ> ledger_transition_to_dict) ts) = Inr ts"
  by (induction ts) (simp_all add: sum_bind_def)

text \<open>Empty texts in the four optional columns are read as missing.\<close>

definition clean_message :: "message_record \<Rightarrow> bool" where
  "clean_message r = (mr_dispatch_id r \<noteq> Some [] \<and> mr_delivery_id r \<noteq> Some [] \<and> mr_error_code r \<noteq> Some [] \<and> mr_error_message r \<noteq> Some [])"

lemma message_roundtrip: "clean_message r \<Longrightarrow> record_from_row now (record_to_params r) = Inr r"
  by (simp add: record_from_row_def record_to_params_def clean_message_def nonempty_opt_id sum_bind_def)

text \<open>The table holds the messages of a ledger, in the order of their insertion.\<close>

definition represents :: "message_db \<Rightarrow> ledger \<Rightarrow> bool" where
  "represents db l = (mb_messages db = map (record_to_params \<circ> snd) l \<and> distinct (map fst l) \<and>
     list_all (\<lambda>(i, r). mr_ledger_id r = i \<and> clean_message r) l)"

lemma find_represented:
  assumes "list_all (\<lambda>(i, r). mr_ledger_id r = i) l"
  shows "find (\<lambda>row. sm_ledger_id row = i) (map (record_to_params \<circ> snd) l) = map_option record_to_params (map_of l i)"
  using assms by (induction l) (auto simp: record_to_params_def)

lemma get_record_represented:
  assumes "represents db l"
  shows "get_record now db i = Inr (map_of l i)"
proof -
  have "list_all (\<lambda>(i, r). mr_ledger_id r = i) l" using assms by (auto simp: represents_def list_all_iff)
  from find_represented [OF this, of i] assms have "find (\<lambda>row. sm_ledger_id row = i) (mb_messages db) = map_option record_to_params (map_of l i)"
    by (simp add: represents_def)
  moreover have "clean_message r" if "map_of l i = Some r" for r
    using assms map_of_SomeD [OF that] by (auto simp: represents_def list_all_iff)
  ultimately show ?thesis by (cases "map_of l i") (simp_all add: get_record_def message_roundtrip sum_bind_def)
qed

lemma create_record_represented:
  assumes "represents db l" "create_record p attempt db = (r, db')" "mr_ledger_id r \<notin> fst ` set l"
  shows "represents db' (dict_put l (mr_ledger_id r) r) \<and> mr_state r = Prepared"
proof -
  have put: "dict_put l i v = l @ [(i, v)]" if "i \<notin> fst ` set l" for i v using that by (induction l) auto
  from assms(2) have r: "clean_message r" "mr_state r = Prepared" "mb_messages db' = mb_messages db @ [record_to_params r]"
    by (auto simp: create_record_def Let_def case_prod_beta prepared_record_def clean_message_def)
  then show ?thesis using assms(1,3) by (auto simp: represents_def put)
qed

lemma params_ledger_id [simp]: "sm_ledger_id (record_to_params r) = mr_ledger_id r"
  by (simp add: record_to_params_def)

lemma map_dict_put:
  assumes "distinct (map fst l)" "map_of l i = Some r" "list_all (\<lambda>(i, r). mr_ledger_id r = i) l" "record_to_params r' = f (record_to_params r)"
  shows "map (record_to_params \<circ> snd) (dict_put l i r') =
    map (\<lambda>row. if sm_ledger_id row = i then f row else row) (map (record_to_params \<circ> snd) l)"
  using assms
proof (induction l)
  case (Cons a l)
  obtain k v where a: "a = (k, v)" by (cases a)
  have rest: "map (\<lambda>row. if sm_ledger_id row = i then f row else row) (map (record_to_params \<circ> snd) l) = map (record_to_params \<circ> snd) l" if "i \<notin> fst ` set l"
    using Cons.prems(3) that by (fastforce simp: list_all_iff image_iff)
  show ?case
  proof (cases "k = i")
    case True
    with Cons.prems(1) have "i \<notin> fst ` set l" by (auto simp: a)
    from rest [OF this] show ?thesis using True Cons.prems(2-4) by (auto simp: a split: if_splits)
  next
    case False
    then show ?thesis using Cons.IH Cons.prems by (simp add: a)
  qed
qed simp

section \<open>Claims until they expire\<close>

lemma pairs_read_back: "List.map_filter pair_item (map (\<lambda>(a, b). JList [JStr a, JStr b]) xs) = xs"
  by (induction xs) (auto simp: List.map_filter_def)

lemma cache_record_roundtrip:
  assumes "ca_status r \<in> {''in_progress'', ''completed''}"
  shows "cache_record_from_json (Some (cache_record_to_json r)) = Inr (Some (r\<lparr>ca_result := (case ca_result r of Some [] \<Rightarrow> None | x \<Rightarrow> x)\<rparr>))"
proof -
  have "cache_status (Some (JStr (ca_status r))) = ca_status r"
    using assms by (elim insertE emptyE; simp only:; code_simp)
  then show ?thesis
    by (cases r; cases "ca_result r")
       (auto simp: cache_record_from_json_def cache_record_to_json_def fld_str_def fld_num_def fld_time_def fld_pairs_def dict_get_def sum_bind_def
          pairs_read_back split: list.split)
qed

text \<open>An entry that holds the claim of one payload and does not expire before the instant \<open>until\<close>.\<close>

definition holds_claim :: "time \<Rightarrow> string \<Rightarrow> string \<Rightarrow> redis \<Rightarrow> bool" where
  "holds_claim until k h st = (\<exists>v expiry r. map_of st k = Some (v, expiry) \<and> (\<forall>t. expiry = Some t \<longrightarrow> until \<le> t) \<and>
     cache_record_from_json v = Inr (Some r) \<and> ca_payload_hash r = h \<and> ca_status r \<in> {''in_progress'', ''completed''})"

lemma holds_claim_read:
  assumes "holds_claim until k h st" "now < until"
  shows "redis_get now k st \<noteq> None"
    "\<exists>r. redis_record now k st = Inr (Some r) \<and> ca_payload_hash r = h \<and> ca_status r \<in> {''in_progress'', ''completed''}"
proof -
  from assms obtain v expiry r where v: "map_of st k = Some (v, expiry)" "\<And>t. expiry = Some t \<Longrightarrow> until \<le> t"
    "cache_record_from_json v = Inr (Some r)" "ca_payload_hash r = h" "ca_status r \<in> {''in_progress'', ''completed''}"
    unfolding holds_claim_def by blast
  then have "redis_get now k st = Some v" using assms(2) by (cases expiry) (force simp: redis_get_def)+
  then show "redis_get now k st \<noteq> None"
    "\<exists>r. redis_record now k st = Inr (Some r) \<and> ca_payload_hash r = h \<and> ca_status r \<in> {''in_progress'', ''completed''}"
    using v by (auto simp: redis_record_def)
qed

lemma written_holds_claim:
  assumes "ca_status r \<in> {''in_progress'', ''completed''}" "ca_payload_hash r = h" "\<And>t. expiry = Some t \<Longrightarrow> until \<le> t"
  shows "holds_claim until k h (dict_put st k (Some (cache_record_to_json r), expiry))"
  unfolding holds_claim_def using assms cache_record_roundtrip [OF assms(1)] by (auto simp: map_of_dict_put)

lemma other_key_holds: "k' \<noteq> k \<Longrightarrow> holds_claim until k h st \<Longrightarrow> holds_claim until k h (dict_put st k' x)"
  by (simp add: holds_claim_def map_of_dict_put)

text \<open>The operations of the store, by any caller and namespace, at instants before \<open>until\<close>.\<close>

inductive redis_step :: "time \<Rightarrow> redis \<Rightarrow> redis \<Rightarrow> bool" for until where
  claim: "redis_claim ns ttl key h now later st = (x, st') \<Longrightarrow> now < until \<Longrightarrow> later < until \<Longrightarrow> redis_step until st st'"
| increment: "redis_increment_attempt ns key now later st = (y, st') \<Longrightarrow> now < until \<Longrightarrow> later < until \<Longrightarrow> redis_step until st st'"
| finish: "redis_complete ns result key now later st = (y, st') \<Longrightarrow> now < until \<Longrightarrow> later < until \<Longrightarrow> redis_step until st st'"

lemma claim_on_held:
  assumes "holds_claim until (redis_key ns key) h st" "now < until" "later < until"
  shows "\<exists>status r. redis_claim ns ttl key h' now later st = (Inr (status, r), st) \<and> status \<noteq> ClaimNew \<and> ca_payload_hash r = h \<and>
    (status = ClaimConflict \<longleftrightarrow> h' \<noteq> h)"
proof -
  obtain r where "redis_record later (redis_key ns key) st = Inr (Some r)" "ca_payload_hash r = h" using holds_claim_read(2) [OF assms(1,3)] by blast
  then show ?thesis using holds_claim_read(1) [OF assms(1,2)] by (auto simp: redis_claim_def Let_def)
qed

lemma update_keeps_claim:
  assumes "holds_claim until k h st" "now < until" "later < until"
    and "\<And>r. ca_payload_hash (change r) = ca_payload_hash r" "\<And>r. ca_status (change r) \<in> {ca_status r, ''completed''}"
  shows "holds_claim until k h (snd (redis_update ns change key now later st))"
proof (cases "redis_key ns key = k")
  case True
  obtain r where r: "redis_record now k st = Inr (Some r)" "ca_payload_hash r = h" "ca_status r \<in> {''in_progress'', ''completed''}"
    using holds_claim_read(2) [OF assms(1,2)] by blast
  from assms(1) obtain v expiry where v: "map_of st k = Some (v, expiry)" "\<And>t. expiry = Some t \<Longrightarrow> until \<le> t"
    unfolding holds_claim_def by blast
  obtain y where y: "redis_get later k st = Some y" using holds_claim_read(1) [OF assms(1,3)] by blast
  have "snd (redis_update ns change key now later st) = dict_put st k (Some (cache_record_to_json ((change r)\<lparr>ca_updated_at := later\<rparr>)), expiry)"
    using True r(1) v(1) y by (simp add: redis_update_def redis_keepttl_def Let_def)
  moreover have "ca_status ((change r)\<lparr>ca_updated_at := later\<rparr>) \<in> {''in_progress'', ''completed''}" using assms(5) [of r] r(3) by auto
  ultimately show ?thesis using written_holds_claim [of "(change r)\<lparr>ca_updated_at := later\<rparr>" h expiry until k st] v(2) assms(4) r(2) by simp
next
  case False
  then show ?thesis using other_key_holds [OF _ assms(1)] assms(1)
    by (auto simp: redis_update_def redis_keepttl_def Let_def split: sum.split option.split)
qed

lemma redis_step_holds:
  assumes "redis_step until st st'" "holds_claim until k h st"
  shows "holds_claim until k h st'"
  using assms
proof cases
  case (claim ns ttl key h' now later x)
  show ?thesis
  proof (cases "redis_key ns key = k")
    case True
    then show ?thesis using claim_on_held [of until ns key h st now later ttl h'] claim assms(2) by auto
  next
    case False
    then show ?thesis using claim(1) other_key_holds [OF _ assms(2)] assms(2)
      by (auto simp: redis_claim_def redis_set_def Let_def split: if_splits sum.splits option.splits)
  qed
next
  case (increment ns key now later y)
  then show ?thesis using update_keeps_claim [OF assms(2) increment(2,3), of "\<lambda>r. r\<lparr>ca_attempt_count := ca_attempt_count r + 1\<rparr>" ns key]
    by (simp add: redis_increment_attempt_def)
next
  case (finish ns result key now later y)
  then show ?thesis using update_keeps_claim [OF assms(2) finish(2,3), of "\<lambda>r. r\<lparr>ca_status := ''completed'', ca_result := Some (sort result)\<rparr>" ns key]
    by (simp add: redis_complete_def)
qed

section \<open>The ledger and the claims\<close>

text \<open>
  The durable repository implements the ledger. On a table that holds the messages of a ledger, a lookup is the lookup in the ledger; appending
  a transition to an unknown message changes nothing, and for a known one the table then holds the ledger with exactly this message
  replaced by the one returned: its history extended by the transition, in the given state. No state machine guards the step.
\<close>

theorem durable_ledger_refines:
  assumes "represents db l" "dispatch_id \<noteq> Some []" "delivery_id \<noteq> Some []" "error_code \<noteq> Some []" "error_message \<noteq> Some []"
    "append_transition i state reason m retryable dispatch_id delivery_id error_code error_message db = (x, db')"
  shows "get_record now db i = Inr (map_of l i) \<and>
    (case map_of l i of
       None \<Rightarrow> x = Inr None \<and> db' = db
     | Some r \<Rightarrow> \<exists>r' tr. x = Inr (Some r') \<and> represents db' (dict_put l i r') \<and> mr_transitions r' = mr_transitions r @ [tr] \<and> lt_state tr = state \<and>
         mr_state r' = state \<and> mr_created_at r' = mr_created_at r)"
proof (cases "map_of l i")
  case None
  then show ?thesis using assms get_record_represented [OF assms(1)] by (auto simp: append_transition_def Let_def case_prod_beta)
next
  case (Some r)
  define tr where "tr = \<lparr>lt_state = state, lt_changed_at = fst (now_utc (mb_runtime db)), lt_reason_code = reason, lt_message = m, lt_retryable = retryable\<rparr>"
  define r' where "r' = r\<lparr>mr_state := state, mr_dispatch_id := (if dispatch_id = None then mr_dispatch_id r else dispatch_id),
      mr_delivery_id := (if delivery_id = None then mr_delivery_id r else delivery_id), mr_retryable := retryable,
      mr_error_code := error_code, mr_error_message := error_message, mr_transitions := mr_transitions r @ [tr], mr_updated_at := lt_changed_at tr\<rparr>"
  have x: "x = Inr (Some r')" "mb_messages db' = map (\<lambda>row. if sm_ledger_id row = i
      then set_columns tr dispatch_id delivery_id error_code error_message r' row else row) (mb_messages db)"
    using assms(6) get_record_represented [OF assms(1)] Some
    by (auto simp: append_transition_def Let_def case_prod_beta tr_def r'_def)
  have r: "mr_ledger_id r = i" "clean_message r" using assms(1) map_of_SomeD [OF Some] by (auto simp: represents_def list_all_iff)
  have ids: "list_all (\<lambda>(i, r). mr_ledger_id r = i) l" "distinct (map fst l)" using assms(1) by (auto simp: represents_def list_all_iff)
  have "record_to_params r' = set_columns tr dispatch_id delivery_id error_code error_message r' (record_to_params r)"
    by (simp add: record_to_params_def set_columns_def r'_def tr_def)
  from map_dict_put [where f = "set_columns tr dispatch_id delivery_id error_code error_message r'", OF ids(2) Some ids(1) this] x(2)
  have rows: "mb_messages db' = map (record_to_params \<circ> snd) (dict_put l i r')" using assms(1) by (simp only: represents_def)
  have "list_all (\<lambda>(i, r). mr_ledger_id r = i \<and> clean_message r) (dict_put l i r')"
    using assms(1-5) r set_dict_put [OF ids(2), of _ i r'] by (fastforce simp: represents_def list_all_iff clean_message_def r'_def)
  then have "represents db' (dict_put l i r')" using rows ids(2) by (simp add: represents_def distinct_dict_put)
  then show ?thesis using Some x(1) get_record_represented [OF assms(1)] by (auto simp: r'_def tr_def)
qed

text \<open>
  A claimed key stays claimed until it expires. After a new claim, and any claims, attempts and completions by any callers at instants within its
  time to live, the same key is not granted again: a claim with another payload is refused as a conflict, and the record returned is
  that of the first payload.
\<close>

theorem redis_claim_once:
  assumes "redis_claim ns ttl key h now later st = (Inr (ClaimNew, r), st1)" "now \<le> later" "(redis_step (now + ttl))\<^sup>*\<^sup>* st1 st2"
    "now2 < now + ttl" "later2 < now + ttl"
  shows "\<exists>status r2. redis_claim ns ttl2 key h2 now2 later2 st2 = (Inr (status, r2), st2) \<and> status \<noteq> ClaimNew \<and> ca_payload_hash r2 = h \<and>
    (status = ClaimConflict \<longleftrightarrow> h2 \<noteq> h)"
proof -
  have "holds_claim (now + ttl) (redis_key ns key) h st1"
    using assms(1,2) by (auto simp: redis_claim_def redis_set_def Let_def split: if_splits sum.splits option.splits intro!: written_holds_claim)
  with assms(3) have "holds_claim (now + ttl) (redis_key ns key) h st2"
    by (induction rule: rtranclp_induct) (auto intro: redis_step_holds)
  from claim_on_held [OF this assms(4,5)] show ?thesis .
qed

text \<open>An update does not prolong a claim: at the instant at which it would have expired without the update the key is free.\<close>

lemma completion_keeps_expiry:
  assumes "redis_claim ns ttl key h now now [] = (Inr (ClaimNew, r), st1)" "redis_complete ns result key t t st1 = (x, st2)" "t < now + ttl"
  shows "redis_get (now + ttl) (redis_key ns key) st2 = None"
  using assms by (auto simp: redis_claim_def redis_complete_def redis_update_def redis_keepttl_def redis_set_def redis_get_def redis_record_def Let_def
      map_of_dict_put split: if_splits sum.splits option.splits)

end
