(* ===== verification/Discord_Bridge.thy ===== *)
theory Discord_Bridge
  imports Chat_Ingress Agent_Language Write_Tools
begin

text \<open>
  Between the chat service and the endpoint of \<open>Chat_Ingress\<close>.
  \<^item> \<^verbatim>\<open>discord_runtime/bridge.py\<close>: a message becomes a command (\<open>parse_discord_command\<close>), a command a signed payload
    (\<open>build_discord_ingress_payload\<close>), an answer of the endpoint a text (\<open>format_governed_response\<close>);
  \<^item> \<^verbatim>\<open>discord_runtime/role_bot_registry.py\<close>: the configured bots of the roles (\<open>build_role_bot_registry\<close>).

  \<^verbatim>\<open>json.loads\<close> is a parameter, \<open>None\<close> for a text that is no JSON; \<^verbatim>\<open>str()\<close> of numbers, lists and dictionaries is the parameter
  \<open>other\<close>, as in \<open>Agent_Language\<close>; the hash of the canonical JSON text of a payload, and the HMAC, are parameters. Reading a file is
  a function from its path, \<open>None\<close> where the operating system fails.
\<close>

section \<open>Commands\<close>

record parsed_command =
  pd_action :: string
  pd_target :: "string option"
  pd_args :: "string list"
  pd_recipients :: "(string \<times> string) list"
  pd_project_id :: "string option"
  pd_priority :: string

text \<open>The parser's own error, and any other exception, which its caller does not handle.\<close>

datatype parse_failure = CommandParseError string | ParserRaised py_exn

definition runtime_placeholder :: "(string \<times> string) list" where
  "runtime_placeholder = [(''runtime'', ''runtime'')]"

definition infer_command_target :: "string \<Rightarrow> string option \<Rightarrow> string" where
  "infer_command_target action explicit_target =
     (if explicit_target \<noteq> None \<and> py_strip (the explicit_target) \<noteq> [] then py_strip (the explicit_target)
      else let normalized_action = py_lower (py_strip action)
           in if py_startswith normalized_action ''llm_'' then ''llm''
              else if py_startswith normalized_action ''msg_'' then ''communication'' else ''sandbox'')"

text \<open>\<^verbatim>\<open>str(d.get(k, default))\<close>.\<close>

definition get_text :: "(json \<Rightarrow> string) \<Rightarrow> json_object \<Rightarrow> string \<Rightarrow> string \<Rightarrow> string" where
  "get_text other d k missing = (case dict_get d k of None \<Rightarrow> missing | Some v \<Rightarrow> py_str other v)"

definition json_recipient :: "(json \<Rightarrow> string) \<Rightarrow> json \<Rightarrow> string + string \<times> string" where
  "json_recipient other v =
     (case v of
        JObj d \<Rightarrow>
          (let i = py_strip (get_text other d ''recipient_id'' []); t = py_strip (get_text other d ''recipient_type'' [])
           in if i = [] \<or> t = [] then Inl ''JSON recipient entries require recipient_id and recipient_type'' else Inr (i, t))
      | _ \<Rightarrow> Inl ''JSON recipient entries must be objects'')"

definition json_recipients :: "(json \<Rightarrow> string) \<Rightarrow> json option \<Rightarrow> string + (string \<times> string) list" where
  "json_recipients other v =
     (case v of
        None \<Rightarrow> Inr runtime_placeholder
      | Some JNull \<Rightarrow> Inr runtime_placeholder
      | Some (JList (x # xs)) \<Rightarrow> sum_list_map (json_recipient other) (x # xs)
      | Some _ \<Rightarrow> Inl ''JSON recipients must be a non-empty list'')"

definition json_command :: "(json \<Rightarrow> string) \<Rightarrow> json_object \<Rightarrow> string + parsed_command" where
  "json_command other d =
     (let action = py_strip (get_text other d ''action'' [])
      in if action = [] then Inl ''JSON command body requires action''
         else
           let target = (case dict_get d ''target'' of None \<Rightarrow> None | Some JNull \<Rightarrow> None | Some v \<Rightarrow> Some (py_strip (py_str other v)))
           in sum_bind (case dict_get d ''args'' of None \<Rightarrow> Inr [] | Some (JList xs) \<Rightarrow> Inr (map (py_str other) xs) | Some _ \<Rightarrow> Inl ''JSON args must be a list'') (\<lambda>args.
              sum_bind (json_recipients other (dict_get d ''recipients'')) (\<lambda>recipients.
              Inr \<lparr>pd_action = action, pd_target = target, pd_args = args, pd_recipients = recipients,
                   pd_project_id = optional_str other (dict_get d ''project_id''),
                   pd_priority = (let p = py_lower (py_strip (get_text other d ''priority'' ''normal'')) in if p = [] then ''normal'' else p)\<rparr>)))"

definition parse_discord_command ::
  "(string \<Rightarrow> json option) \<Rightarrow> (json \<Rightarrow> string) \<Rightarrow> string \<Rightarrow> string \<Rightarrow> parse_failure + parsed_command option" where
  "parse_discord_command json_loads other content command_prefix =
     (let stripped = py_strip content
      in if \<not> py_startswith stripped command_prefix then Inr None
         else
           let body = py_strip (drop (length command_prefix) stripped)
           in if body = [] then Inl (CommandParseError ''command body is empty'')
              else if py_startswith body ''{''
              then (case json_loads body of
                      None \<Rightarrow> Inl (CommandParseError ''invalid JSON command body'')
                    | Some (JObj d) \<Rightarrow> (case json_command other d of Inl m \<Rightarrow> Inl (CommandParseError m) | Inr c \<Rightarrow> Inr (Some c))
                    | Some _ \<Rightarrow> Inl (CommandParseError ''JSON command body must be an object''))
              else (case shlex_split body of
                      Inl e \<Rightarrow> Inl (ParserRaised e)
                    | Inr [] \<Rightarrow> Inl (CommandParseError ''command body is empty'')
                    | Inr (t # ts) \<Rightarrow>
                        if py_strip t = [] then Inl (CommandParseError ''action token is empty'')
                        else Inr (Some \<lparr>pd_action = py_strip t, pd_target = None, pd_args = filter (\<lambda>a. a \<noteq> []) (map py_strip ts),
                               pd_recipients = runtime_placeholder, pd_project_id = None, pd_priority = ''normal''\<rparr>)))"

section \<open>The signed payload\<close>

definition json_opt_text :: "string option \<Rightarrow> json" where
  "json_opt_text x = (case x of None \<Rightarrow> JNull | Some s \<Rightarrow> JStr s)"

text \<open>What a client reports of a message; identifiers of the chat service are numbers, written in decimals.\<close>

record inbound_event =
  ev_bot_role :: string
  ev_bot_id :: string
  ev_bot_user_id :: string
  ev_parsed_command :: parsed_command
  ev_message_id :: string
  ev_actor_external_id :: string
  ev_actor_role :: string
  ev_content :: string
  ev_guild_id :: string
  ev_channel_id :: string
  ev_channel_type :: string
  ev_chat_class :: string
  ev_project_id :: "string option"
  ev_timestamp :: time
  ev_is_everyone_mention :: bool

definition payload_without_hash :: "inbound_event \<Rightarrow> json_object" where
  "payload_without_hash e =
     (let c = ev_parsed_command e
      in [(''trace_id'', JStr (''trace-discord-'' @ ev_message_id e)), (''external_message_id'', JStr (ev_message_id e)),
          (''actor_external_id'', JStr (ev_actor_external_id e)), (''actor_role'', JStr (ev_actor_role e)),
          (''idempotency_key'', JStr (''idem-discord-'' @ ev_message_id e)), (''timestamp'', JIso (ev_timestamp e)), (''content'', JStr (ev_content e)),
          (''action'', JStr (pd_action c)), (''target'', JStr (infer_command_target (pd_action c) (pd_target c))), (''args'', JList (map JStr (pd_args c))),
          (''recipients'', JList (map (\<lambda>(i, t). JObj [(''recipient_id'', JStr i), (''recipient_type'', JStr t)]) (pd_recipients c))),
          (''project_id'', json_opt_text (or_opt (ev_project_id e) (pd_project_id c))), (''priority'', JStr (pd_priority c)),
          (''guild_id'', JStr (ev_guild_id e)), (''channel_id'', JStr (ev_channel_id e)), (''channel_type'', JStr (ev_channel_type e)),
          (''chat_class'', JStr (ev_chat_class e)), (''bot_role'', JStr (ev_bot_role e)), (''bot_id'', JStr (ev_bot_id e)),
          (''bot_user_id'', JStr (ev_bot_user_id e)), (''is_everyone_mention'', JBool (ev_is_everyone_mention e))])"

definition build_discord_ingress_payload ::
  "(json_object \<Rightarrow> string) \<Rightarrow> (string \<Rightarrow> string \<Rightarrow> string) \<Rightarrow> string \<Rightarrow> inbound_event \<Rightarrow> json_object \<times> string" where
  "build_discord_ingress_payload digest hmac connector_shared_secret e =
     (let raw_payload_hash = digest (payload_without_hash e)
      in (payload_without_hash e @ [(''raw_payload_hash'', JStr raw_payload_hash)], ''sha256='' @ hmac connector_shared_secret raw_payload_hash))"

section \<open>Answers\<close>

definition format_governed_response :: "(json \<Rightarrow> string) \<Rightarrow> nat \<Rightarrow> json_object \<Rightarrow> string" where
  "format_governed_response other status_code body =
     (let trace_id = get_text other body ''trace_id'' ''trace-unknown''; status_value = get_text other body ''status'' ''unknown''
      in if status_value = ''accepted''
         then (case dict_get body ''data'' of
                 Some (JObj data) \<Rightarrow>
                   (let summary = ''[accepted] trace='' @ trace_id @ '' task='' @ get_text other data ''task_id'' ''task-unknown'' @
                          '' command='' @ get_text other data ''command'' ''command-unknown'' @ '' replayed='' @ get_text other data ''replayed'' ''false''
                    in case dict_get data ''llm_execution'' of
                         Some (JObj x) \<Rightarrow>
                           (case (case dict_get x ''generated_text'' of Some v \<Rightarrow> if json_truthy v then Some v else dict_get x ''advisory_response''
                                   | None \<Rightarrow> dict_get x ''advisory_response'') of
                              Some (JStr t) \<Rightarrow> if py_strip t \<noteq> [] then py_strip t else summary
                            | _ \<Rightarrow> summary)
                       | _ \<Rightarrow> summary)
               | _ \<Rightarrow> ''[accepted] trace='' @ trace_id)
         else if status_value \<in> {''denied'', ''error''}
         then (case dict_get body ''error'' of
                 Some (JObj err) \<Rightarrow>
                   (let code = get_text other err ''code'' ''unknown_error'';
                        m = py_strip (map (\<lambda>c. if c = CHR 0x0A then CHR '' '' else c) (get_text other err ''message'' ''request denied''));
                        message = (if 180 < length m then take 177 m @ ''...'' else m)
                    in ''['' @ status_value @ ''] trace='' @ trace_id @ '' code='' @ code @ '' message='' @ message)
               | _ \<Rightarrow> ''['' @ status_value @ ''] trace='' @ trace_id)
         else ''[http_'' @ show_nat status_code @ ''] trace='' @ trace_id @ '' status='' @ status_value)"

definition add_actor_role :: "(json \<Rightarrow> string) \<Rightarrow> string \<times> json \<Rightarrow> kvs \<Rightarrow> kvs" where
  "add_actor_role other kv m =
     (let user_id = py_strip (fst kv); role = py_lower (py_strip (py_str other (snd kv))) in if user_id \<noteq> [] \<and> role \<noteq> [] then dict_put m user_id role else m)"

definition parse_actor_role_map :: "(string \<Rightarrow> json option) \<Rightarrow> (json \<Rightarrow> string) \<Rightarrow> string \<Rightarrow> kvs" where
  "parse_actor_role_map json_loads other raw_json =
     (let normalized = py_strip raw_json
      in if normalized = [] then []
         else case json_loads normalized of Some (JObj d) \<Rightarrow> fold (add_actor_role other) d [] | _ \<Rightarrow> [])"

section \<open>The bots of the roles\<close>

record role_bot_identity =
  rb_role :: string
  rb_bot_id :: string
  rb_token :: string
  rb_guild_allowlist :: "string list"
  rb_status :: string

record role_bot_registry =
  rg_identities_by_role :: "(string \<times> role_bot_identity) list"
  rg_required_roles :: "string list"

text \<open>The settings of \<^verbatim>\<open>shared_kernel/config.py\<close> that the bots use.\<close>

record bot_settings =
  bs_discord_bot_token :: "string option"
  bs_multi_bot_enabled :: bool
  bs_worker_role :: string
  bs_role_bot_tokens_file :: "string option"
  bs_role_bot_tokens_json :: string
  bs_required_role_bots_csv :: string
  bs_control_plane_base_url :: string
  bs_connector_shared_secret :: string
  bs_command_prefix :: string
  bs_actor_role_default :: string
  bs_actor_role_map_json :: string
  bs_allowed_guild_ids_csv :: string
  bs_allowed_channel_ids_csv :: string
  bs_response_chunk_size_chars :: int
  bs_response_retry_attempts :: int
  bs_response_retry_base_delay_seconds :: rat

definition default_required_role_bots :: "string list" where
  "default_required_role_bots = [''administrator'', ''auditor'', ''ceo'', ''cwo'', ''project_manager'']"

text \<open>\<^verbatim>\<open>(item.strip() for item in raw.split(",") if item.strip())\<close>.\<close>

definition csv_items :: "string \<Rightarrow> string list" where
  "csv_items raw = filter (\<lambda>x. x \<noteq> []) (map py_strip (py_split CHR '','' raw))"

definition parse_guild_allowlist :: "(json \<Rightarrow> string) \<Rightarrow> json option \<Rightarrow> py_exn + string list" where
  "parse_guild_allowlist other raw =
     (case raw of
        None \<Rightarrow> Inr []
      | Some JNull \<Rightarrow> Inr []
      | Some (JStr s) \<Rightarrow> Inr (csv_items s)
      | Some (JList xs) \<Rightarrow> Inr (filter (\<lambda>x. x \<noteq> []) (map (\<lambda>v. py_strip (py_str other v)) xs))
      | Some _ \<Rightarrow> Inl (CodedError ''discord_role_bot_guild_allowlist_invalid'' ''role-bot guild_allowlist must be list or comma-separated string''))"

definition token_missing :: "string \<Rightarrow> py_exn" where
  "token_missing role = CodedError ''discord_role_bot_token_missing'' (''role-bot token missing for role: '' @ role)"

definition parse_role_identity :: "(json \<Rightarrow> string) \<Rightarrow> string \<Rightarrow> json \<Rightarrow> py_exn + role_bot_identity" where
  "parse_role_identity other role raw =
     (case raw of
        JStr s \<Rightarrow>
          (if py_strip s = [] then Inl (token_missing role)
           else Inr \<lparr>rb_role = role, rb_bot_id = role, rb_token = py_strip s, rb_guild_allowlist = [], rb_status = ''active''\<rparr>)
      | JObj d \<Rightarrow>
          (let status = (let s = py_lower (py_strip (get_text other d ''status'' ''active'')) in if s = [] then ''active'' else s);
               token = py_strip (get_text other d ''token'' []); bot_id = py_lower (py_strip (get_text other d ''bot_id'' role))
           in if status \<notin> {''active'', ''disabled''}
              then Inl (CodedError ''discord_role_bot_status_invalid'' (''role-bot status must be active|disabled for role: '' @ role))
              else if status = ''active'' \<and> token = [] then Inl (token_missing role)
              else if bot_id = [] then Inl (CodedError ''discord_role_bot_id_invalid'' (''role-bot bot_id must be non-empty for role: '' @ role))
              else sum_bind (parse_guild_allowlist other (dict_get d ''guild_allowlist'')) (\<lambda>guilds.
                Inr \<lparr>rb_role = role, rb_bot_id = bot_id, rb_token = token, rb_guild_allowlist = guilds, rb_status = status\<rparr>))
      | _ \<Rightarrow> Inl (CodedError ''discord_role_bot_json_invalid'' (''role-bot entry for role '' @ role @ '' must be string or object'')))"

fun parse_role_entries ::
  "(json \<Rightarrow> string) \<Rightarrow> json_object \<Rightarrow> (string \<times> role_bot_identity) list \<Rightarrow> py_exn + (string \<times> role_bot_identity) list" where
  "parse_role_entries other [] result = Inr result"
| "parse_role_entries other ((k, v) # d) result =
     (let role = py_lower (py_strip k)
      in if role = [] then Inl (CodedError ''discord_role_bot_role_invalid'' ''role-bot role keys must be non-empty'')
         else sum_bind (parse_role_identity other role v) (\<lambda>i. parse_role_entries other d (dict_put result role i)))"

abbreviation tokens_sources :: string where
  "tokens_sources \<equiv> ''(OPENQILIN_DISCORD_ROLE_BOT_TOKENS_JSON or OPENQILIN_DISCORD_ROLE_BOT_TOKENS_FILE)''"

definition parse_role_identity_map ::
  "(string \<Rightarrow> json option) \<Rightarrow> (json \<Rightarrow> string) \<Rightarrow> string \<Rightarrow> py_exn + (string \<times> role_bot_identity) list" where
  "parse_role_identity_map json_loads other raw =
     (if py_strip raw = [] then Inr []
      else case json_loads (py_strip raw) of
             None \<Rightarrow> Inl (CodedError ''discord_role_bot_json_invalid'' (''role-bot token payload must be valid JSON object '' @ tokens_sources))
           | Some (JObj d) \<Rightarrow> parse_role_entries other d []
           | Some _ \<Rightarrow> Inl (CodedError ''discord_role_bot_json_invalid'' (''role-bot token payload must be a JSON object '' @ tokens_sources)))"

definition resolve_role_bot_payload :: "(string \<Rightarrow> string option) \<Rightarrow> bot_settings \<Rightarrow> py_exn + string" where
  "resolve_role_bot_payload read_text s =
     (let path = py_strip (or_str (bs_role_bot_tokens_file s) [])
      in if path = [] then Inr (bs_role_bot_tokens_json s)
         else case read_text path of
                Some t \<Rightarrow> Inr t
              | None \<Rightarrow> Inl (CodedError ''discord_role_bot_file_unreadable'' (''OPENQILIN_DISCORD_ROLE_BOT_TOKENS_FILE could not be read: '' @ path)))"

fun assert_unique_tokens :: "kvs \<Rightarrow> (string \<times> role_bot_identity) list \<Rightarrow> py_exn option" where
  "assert_unique_tokens owners [] = None"
| "assert_unique_tokens owners ((role, i) # rest) =
     (let token = py_strip (rb_token i)
      in if token = [] then assert_unique_tokens owners rest
         else case map_of owners token of
                Some existing \<Rightarrow>
                  if existing \<noteq> role
                  then Some (CodedError ''discord_role_bot_token_duplicate'' (''discord role-bot tokens must be unique across roles; duplicate token for roles '' @
                         existing @ '' and '' @ role))
                  else assert_unique_tokens (dict_put owners token role) rest
              | None \<Rightarrow> assert_unique_tokens (dict_put owners token role) rest)"

fun assert_unique_bot_ids :: "kvs \<Rightarrow> (string \<times> role_bot_identity) list \<Rightarrow> py_exn option" where
  "assert_unique_bot_ids owners [] = None"
| "assert_unique_bot_ids owners ((role, i) # rest) =
     (case map_of owners (rb_bot_id i) of
        Some existing \<Rightarrow>
          if existing \<noteq> role
          then Some (CodedError ''discord_role_bot_id_duplicate'' (''discord role-bot ids must be unique across roles; duplicate bot_id for roles '' @
                 existing @ '' and '' @ role))
          else assert_unique_bot_ids (dict_put owners (rb_bot_id i) role) rest
      | None \<Rightarrow> assert_unique_bot_ids (dict_put owners (rb_bot_id i) role) rest)"

definition parse_required_roles :: "string \<Rightarrow> string list" where
  "parse_required_roles raw = (let values = map py_lower (csv_items raw) in if values \<noteq> [] then values else default_required_role_bots)"

definition fallback_identities :: "bot_settings \<Rightarrow> (string \<times> role_bot_identity) list" where
  "fallback_identities s =
     (let token = py_strip (or_str (bs_discord_bot_token s) [])
      in if token = [] then []
         else [(''runtime_agent'', \<lparr>rb_role = ''runtime_agent'', rb_bot_id = ''runtime_agent'', rb_token = token, rb_guild_allowlist = [], rb_status = ''active''\<rparr>)])"

definition active_role :: "(string \<times> role_bot_identity) list \<Rightarrow> string \<Rightarrow> bool" where
  "active_role configured role = (case map_of configured role of None \<Rightarrow> False | Some i \<Rightarrow> rb_status i = ''active'')"

definition build_role_bot_registry ::
  "(string \<Rightarrow> json option) \<Rightarrow> (json \<Rightarrow> string) \<Rightarrow> (string \<Rightarrow> string option) \<Rightarrow> bot_settings \<Rightarrow> py_exn + role_bot_registry" where
  "build_role_bot_registry json_loads other read_text s =
     sum_bind (sum_bind (resolve_role_bot_payload read_text s) (parse_role_identity_map json_loads other)) (\<lambda>parsed.
       let configured = (if parsed = [] \<and> \<not> bs_multi_bot_enabled s then fallback_identities s else parsed);
           required_roles = parse_required_roles (bs_required_role_bots_csv s);
           missing = filter (\<lambda>r. \<not> active_role configured r) required_roles
       in if configured = [] then Inl (CodedError ''discord_role_bot_registry_empty'' ''discord role-bot token map is empty'')
          else case assert_unique_tokens [] configured of
                 Some e \<Rightarrow> Inl e
               | None \<Rightarrow>
                   (case assert_unique_bot_ids [] configured of
                      Some e \<Rightarrow> Inl e
                    | None \<Rightarrow>
                        if bs_multi_bot_enabled s \<and> missing \<noteq> []
                        then Inl (CodedError ''discord_role_bot_required_missing'' (''missing required role-bot tokens: '' @ py_join '', '' missing))
                        else Inr \<lparr>rg_identities_by_role = sort_key fst configured, rg_required_roles = required_roles\<rparr>))"

section \<open>What a registry promises\<close>

lemma parse_role_identity_shape:
  "parse_role_identity other role v = Inr i \<Longrightarrow> rb_role i = role \<and> py_strip (rb_token i) = rb_token i \<and> rb_status i \<in> {''active'', ''disabled''} \<and>
     (rb_status i = ''active'' \<longrightarrow> rb_token i \<noteq> [])"
  by (cases v) (auto simp: parse_role_identity_def Let_def sum_bind_def split: if_splits sum.splits)

text \<open>An entry of a configuration: its own role, a token where it is active.\<close>

definition identity_ok :: "string \<times> role_bot_identity \<Rightarrow> bool" where
  "identity_ok = (\<lambda>(role, i). rb_role i = role \<and> py_strip (rb_token i) = rb_token i \<and> (rb_status i = ''active'' \<longrightarrow> rb_token i \<noteq> []))"

lemma parse_role_entries_ok:
  "parse_role_entries other d result = Inr r \<Longrightarrow> list_all identity_ok result \<Longrightarrow> distinct (map fst result) \<Longrightarrow>
     list_all identity_ok r \<and> distinct (map fst r)"
proof (induction other d result rule: parse_role_entries.induct)
  case (2 other k v d result)
  let ?role = "py_lower (py_strip k)"
  from 2(2) obtain i where i: "?role \<noteq> []" "parse_role_identity other ?role v = Inr i" "parse_role_entries other d (dict_put result ?role i) = Inr r"
    by (auto simp: Let_def sum_bind_def split: if_splits sum.splits)
  have "identity_ok (?role, i)" using parse_role_identity_shape [OF i(2)] by (simp add: identity_ok_def)
  then have "list_all identity_ok (dict_put result ?role i)"
    using 2(3) set_dict_put [OF 2(4)] by (metis list_all_iff)
  then show ?case using 2(1) [OF refl i(1) i(3)] 2(4) by (simp add: distinct_dict_put)
qed simp

text \<open>Owners recorded so far are none of the roles still to come; then no token and no identifier occurs twice.\<close>

lemma unique_bot_ids:
  assumes "assert_unique_bot_ids owners xs = None" "distinct (map fst xs)" "\<And>t role. map_of owners t = Some role \<Longrightarrow> role \<notin> fst ` set xs"
  shows "distinct (map (rb_bot_id \<circ> snd) xs) \<and> (\<forall>x\<in>set xs. map_of owners (rb_bot_id (snd x)) = None)"
  using assms
proof (induction owners xs rule: assert_unique_bot_ids.induct)
  case (2 owners role i rest)
  have fresh: "map_of owners (rb_bot_id i) = None"
    using 2(3) 2(5) by (cases "map_of owners (rb_bot_id i)") (auto split: if_splits)
  let ?o = "dict_put owners (rb_bot_id i) role"
  have "assert_unique_bot_ids ?o rest = None" using 2(3) fresh by simp
  moreover have "role' \<notin> fst ` set rest" if "map_of ?o t = Some role'" for t role'
    using that 2(4) 2(5) by (auto simp: map_of_dict_put split: if_splits)
  ultimately have "distinct (map (rb_bot_id \<circ> snd) rest) \<and> (\<forall>x\<in>set rest. map_of ?o (rb_bot_id (snd x)) = None)"
    using 2(1) [OF fresh] 2(4) by (simp add: comp_def)
  then show ?case using fresh by (auto simp: map_of_dict_put comp_def split: if_splits)
qed simp

lemma unique_tokens:
  assumes "assert_unique_tokens owners xs = None" "distinct (map fst xs)" "\<And>t role. map_of owners t = Some role \<Longrightarrow> role \<notin> fst ` set xs"
  shows "distinct (filter (\<lambda>t. t \<noteq> []) (map (py_strip \<circ> rb_token \<circ> snd) xs)) \<and>
    (\<forall>x\<in>set xs. py_strip (rb_token (snd x)) \<noteq> [] \<longrightarrow> map_of owners (py_strip (rb_token (snd x))) = None)"
  using assms
proof (induction owners xs rule: assert_unique_tokens.induct)
  case (2 owners role i rest)
  let ?t = "py_strip (rb_token i)"
  show ?case
  proof (cases "?t = []")
    case True
    then show ?thesis using 2(1) [OF refl True] 2(4-6) by (auto simp: Let_def)
  next
    case False
    have fresh: "map_of owners ?t = None"
      using 2(4) 2(6) False by (cases "map_of owners ?t") (auto simp: Let_def split: if_splits)
    let ?o = "dict_put owners ?t role"
    have "assert_unique_tokens ?o rest = None" using 2(4) fresh False by (simp add: Let_def)
    moreover have "role' \<notin> fst ` set rest" if "map_of ?o t = Some role'" for t role'
      using that 2(5) 2(6) by (auto simp: map_of_dict_put split: if_splits)
    ultimately have "distinct (filter (\<lambda>t. t \<noteq> []) (map (py_strip \<circ> rb_token \<circ> snd) rest)) \<and>
      (\<forall>x\<in>set rest. py_strip (rb_token (snd x)) \<noteq> [] \<longrightarrow> map_of ?o (py_strip (rb_token (snd x))) = None)"
      using 2(2) [OF refl False fresh] 2(5) by (simp add: comp_def)
    then show ?thesis using fresh False by (auto simp: map_of_dict_put comp_def split: if_splits)
  qed
qed simp

lemma registry_parts:
  assumes "build_role_bot_registry json_loads other read_text s = Inr r"
  obtains configured where "rg_identities_by_role r = sort_key fst configured" "configured \<noteq> []" "list_all identity_ok configured"
    "distinct (map fst configured)" "assert_unique_tokens [] configured = None" "assert_unique_bot_ids [] configured = None"
    "rg_required_roles r = parse_required_roles (bs_required_role_bots_csv s)"
    "bs_multi_bot_enabled s \<Longrightarrow> list_all (active_role configured) (rg_required_roles r)"
proof -
  from assms obtain raw parsed where p: "resolve_role_bot_payload read_text s = Inr raw" "parse_role_identity_map json_loads other raw = Inr parsed"
    by (auto simp: build_role_bot_registry_def sum_bind_def split: sum.splits)
  define configured where "configured = (if parsed = [] \<and> \<not> bs_multi_bot_enabled s then fallback_identities s else parsed)"
  have "list_all identity_ok parsed \<and> distinct (map fst parsed)"
    using p(2) parse_role_entries_ok by (auto simp: parse_role_identity_map_def split: if_splits option.splits json.splits)
  then have ok: "list_all identity_ok configured" "distinct (map fst configured)"
    by (auto simp: configured_def fallback_identities_def identity_ok_def Let_def)
  have rest: "configured \<noteq> []" "assert_unique_tokens [] configured = None" "assert_unique_bot_ids [] configured = None"
    "r = \<lparr>rg_identities_by_role = sort_key fst configured, rg_required_roles = parse_required_roles (bs_required_role_bots_csv s)\<rparr>"
    "bs_multi_bot_enabled s \<Longrightarrow> filter (\<lambda>r. \<not> active_role configured r) (parse_required_roles (bs_required_role_bots_csv s)) = []"
    using assms p unfolding build_role_bot_registry_def Let_def by (auto simp: sum_bind_def configured_def split: if_splits option.splits)
  show thesis by (rule that [of configured]) (use ok rest in \<open>auto simp: filter_empty_conv list_all_iff\<close>)
qed

text \<open>
  A registry is sound: every entry stands under its own role, an active one has a token, no two roles share an identifier or a token, and
  where every role has its own bot the required ones are all active.
\<close>

lemma registry_sound:
  assumes "build_role_bot_registry json_loads other read_text s = Inr r"
  shows "rg_identities_by_role r \<noteq> []" "distinct (map fst (rg_identities_by_role r))" "sorted (map fst (rg_identities_by_role r))"
    "list_all identity_ok (rg_identities_by_role r)"
    "(role, i) \<in> set (rg_identities_by_role r) \<Longrightarrow> (role', i') \<in> set (rg_identities_by_role r) \<Longrightarrow> role \<noteq> role' \<Longrightarrow>
       rb_bot_id i \<noteq> rb_bot_id i' \<and> (rb_token i \<noteq> [] \<longrightarrow> rb_token i \<noteq> rb_token i')"
    "bs_multi_bot_enabled s \<Longrightarrow> role \<in> set (rg_required_roles r) \<Longrightarrow> active_role (rg_identities_by_role r) role"
proof -
  from registry_parts [OF assms] obtain configured where c: "rg_identities_by_role r = sort_key fst configured" "configured \<noteq> []"
    "list_all identity_ok configured" "distinct (map fst configured)" "assert_unique_tokens [] configured = None"
    "assert_unique_bot_ids [] configured = None" "bs_multi_bot_enabled s \<Longrightarrow> list_all (active_role configured) (rg_required_roles r)" by metis
  have ids: "distinct (map (rb_bot_id \<circ> snd) configured)" using unique_bot_ids [OF c(6,4)] by simp
  have toks: "distinct (filter (\<lambda>t. t \<noteq> []) (map (py_strip \<circ> rb_token \<circ> snd) configured))" using unique_tokens [OF c(5,4)] by simp
  show "rg_identities_by_role r \<noteq> []" using c(1,2) by (metis set_empty set_sort)
  show "sorted (map fst (rg_identities_by_role r))" "list_all identity_ok (rg_identities_by_role r)"
    using c by (auto simp: list_all_iff)
  show d: "distinct (map fst (rg_identities_by_role r))" using c(1,4) by (metis distinct_map distinct_sort set_sort)
  show "active_role (rg_identities_by_role r) role" if "bs_multi_bot_enabled s" "role \<in> set (rg_required_roles r)"
  proof -
    have "map_of (sort_key fst configured) role = map_of configured role" using d c(1,4) by (metis map_of_eqI map_of_eq_Some_iff not_None_eq option.exhaust set_sort set_map)
    then show ?thesis using c(1,7) that by (simp add: active_role_def list_all_iff)
  qed
  show "rb_bot_id i \<noteq> rb_bot_id i' \<and> (rb_token i \<noteq> [] \<longrightarrow> rb_token i \<noteq> rb_token i')"
    if m: "(role, i) \<in> set (rg_identities_by_role r)" "(role', i') \<in> set (rg_identities_by_role r)" "role \<noteq> role'"
  proof -
    have mem: "(role, i) \<in> set configured" "(role', i') \<in> set configured" using m(1,2) c(1) by simp_all
    have "py_strip (rb_token i) = rb_token i" using mem(1) c(3) by (auto simp: list_all_iff identity_ok_def)
    moreover have "py_strip (rb_token i) \<noteq> py_strip (rb_token i')" if "py_strip (rb_token i) \<noteq> []"
      using toks mem m(3) that by (simp add: filter_map distinct_map inj_on_def comp_def) metis
    moreover have "rb_bot_id i \<noteq> rb_bot_id i'" using ids mem m(3) by (fastforce simp: distinct_map inj_on_def)
    ultimately show ?thesis by auto
  qed
qed

section \<open>Agreement with the endpoint\<close>

text \<open>The bot and the endpoint infer one target from an action.\<close>

lemma infer_command_target_endpoint: "infer_command_target action target = resolve_target action target"
  by (cases target) (simp_all add: infer_command_target_def resolve_target_def truthy_def)

lemma show_nat_no_space: "c \<in> set (show_nat n) \<Longrightarrow> \<not> py_isspace c"
  using show_nat_acc_chars [of c n "[]"] by (auto simp: show_nat_def py_isspace_def Let_def)

lemma no_space_strip: "(\<And>c. c \<in> set s \<Longrightarrow> \<not> py_isspace c) \<Longrightarrow> py_strip s = s"
  by (cases "s = []") (auto intro!: py_strip_inner)

definition text_field :: "json_object \<Rightarrow> string \<Rightarrow> string" where
  "text_field d k = (case dict_get d k of Some (JStr s) \<Rightarrow> s | _ \<Rightarrow> [])"

definition text_list :: "json option \<Rightarrow> string list" where
  "text_list v = (case v of Some (JList xs) \<Rightarrow> List.map_filter (\<lambda>x. case x of JStr s \<Rightarrow> Some s | _ \<Rightarrow> None) xs | _ \<Rightarrow> [])"

definition recipient_entry :: "json \<Rightarrow> recipient option" where
  "recipient_entry v = (case v of JObj r \<Rightarrow> Some \<lparr>rc_recipient_id = text_field r ''recipient_id'', rc_recipient_type = text_field r ''recipient_type''\<rparr> | _ \<Rightarrow> None)"

text \<open>The endpoint's reading of a payload; its record leaves out the instant and the bot's identifiers.\<close>

definition payload_message :: "json_object \<Rightarrow> discord_message" where
  "payload_message d = \<lparr>dm_trace_id = text_field d ''trace_id'', dm_external_message_id = text_field d ''external_message_id'',
     dm_actor_external_id = text_field d ''actor_external_id'', dm_actor_role = text_field d ''actor_role'', dm_idempotency_key = text_field d ''idempotency_key'',
     dm_raw_payload_hash = text_field d ''raw_payload_hash'', dm_content = text_field d ''content'', dm_action = text_field d ''action'',
     dm_target = (case dict_get d ''target'' of Some (JStr s) \<Rightarrow> Some s | _ \<Rightarrow> None), dm_args = text_list (dict_get d ''args''),
     dm_recipients = (case dict_get d ''recipients'' of Some (JList xs) \<Rightarrow>
        List.map_filter recipient_entry xs | _ \<Rightarrow> []),
     dm_project_id = (case dict_get d ''project_id'' of Some (JStr s) \<Rightarrow> Some s | _ \<Rightarrow> None), dm_priority = text_field d ''priority'',
     dm_guild_id = text_field d ''guild_id'', dm_channel_id = text_field d ''channel_id'', dm_channel_type = text_field d ''channel_type'',
     dm_chat_class = text_field d ''chat_class'', dm_bot_role = (case dict_get d ''bot_role'' of Some (JStr s) \<Rightarrow> Some s | _ \<Rightarrow> None),
     dm_is_everyone_mention = (case dict_get d ''is_everyone_mention'' of Some (JBool b) \<Rightarrow> b | _ \<Rightarrow> False)\<rparr>"

definition event_message :: "(json_object \<Rightarrow> string) \<Rightarrow> inbound_event \<Rightarrow> discord_message" where
  "event_message digest e = payload_message (payload_without_hash e @ [(''raw_payload_hash'', JStr (digest (payload_without_hash e)))])"

lemma text_list_texts: "text_list (Some (JList (map JStr xs))) = xs"
  by (induction xs) (simp_all add: text_list_def List.map_filter_def)

lemma recipients_read_back:
  "List.map_filter recipient_entry
     (map (\<lambda>(i, t). JObj [(''recipient_id'', JStr i), (''recipient_type'', JStr t)]) xs) =
   map (\<lambda>(i, t). \<lparr>rc_recipient_id = i, rc_recipient_type = t\<rparr>) xs"
  by (induction xs) (auto simp: List.map_filter_def text_field_def dict_get_def recipient_entry_def)

lemma event_message_fields:
  "event_message digest e = \<lparr>dm_trace_id = ''trace-discord-'' @ ev_message_id e, dm_external_message_id = ev_message_id e,
     dm_actor_external_id = ev_actor_external_id e, dm_actor_role = ev_actor_role e, dm_idempotency_key = ''idem-discord-'' @ ev_message_id e,
     dm_raw_payload_hash = digest (payload_without_hash e), dm_content = ev_content e, dm_action = pd_action (ev_parsed_command e),
     dm_target = Some (infer_command_target (pd_action (ev_parsed_command e)) (pd_target (ev_parsed_command e))), dm_args = pd_args (ev_parsed_command e),
     dm_recipients = map (\<lambda>(i, t). \<lparr>rc_recipient_id = i, rc_recipient_type = t\<rparr>) (pd_recipients (ev_parsed_command e)),
     dm_project_id = or_opt (ev_project_id e) (pd_project_id (ev_parsed_command e)), dm_priority = pd_priority (ev_parsed_command e),
     dm_guild_id = ev_guild_id e, dm_channel_id = ev_channel_id e, dm_channel_type = ev_channel_type e, dm_chat_class = ev_chat_class e,
     dm_bot_role = Some (ev_bot_role e), dm_is_everyone_mention = ev_is_everyone_mention e\<rparr>"
  unfolding event_message_def payload_message_def payload_without_hash_def Let_def
  by (simp add: dict_get_def text_field_def text_list_texts recipients_read_back json_opt_text_def split: option.split)

text \<open>
  What a client signs, the endpoint accepts, where both hold one secret: a digest is a text of hexadecimal digits, and the identifiers of
  author and message are numbers in decimals.
\<close>

lemma signed_payload_accepted:
  assumes "build_discord_ingress_payload digest hmac secret e = (payload, signature)" "ie_hmac (xe_ingress env) = hmac" "ie_secret (xe_ingress env) = secret"
    and "\<And>k h. hmac k h \<noteq> [] \<and> set (hmac k h) \<subseteq> set ''0123456789abcdef''"
    and "ev_actor_external_id e = show_nat u" "ev_message_id e = show_nat n"
  shows "\<exists>ctx. chat_signature env (Some signature) (payload_message payload) = Inr ctx"
proof -
  define h where "h = hmac secret (digest (payload_without_hash e))"
  have hex: "h \<noteq> []" "c \<in> set h \<Longrightarrow> \<not> py_isspace c \<and> (of_char c :: nat) < 128" for c
    using assms(4) [of secret "digest (payload_without_hash e)"] unfolding h_def by (auto simp: py_isspace_def)
  have msg: "payload_message payload = event_message digest e" "signature = ''sha256='' @ h"
    using assms(1) by (auto simp: build_discord_ingress_payload_def event_message_def Let_def h_def)
  have sp: "py_strip signature = signature" unfolding msg(2) by (rule no_space_strip) (use hex(2) in \<open>auto simp: py_isspace_def\<close>)
  have hs: "py_strip h = h" using hex(2) by (blast intro: no_space_strip)
  have "normalize_signature signature = h" unfolding normalize_signature_def Let_def sp using hs by (simp add: msg(2) py_startswith_def)
  moreover have "py_strip (''idem-discord-'' @ show_nat n) = ''idem-discord-'' @ show_nat n"
    by (rule no_space_strip) (use show_nat_no_space in \<open>auto simp: py_isspace_def\<close>)
  moreover have "py_strip (show_nat u) = show_nat u" using show_nat_no_space by (blast intro: no_space_strip)
  moreover have "py_strip ''discord'' = ''discord''" by code_simp
  moreover have "is_ascii h" using hex(2) by (auto simp: is_ascii_def list_all_iff)
  moreover have "signature \<noteq> []" by (simp add: msg(2))
  ultimately show ?thesis
    by (simp add: chat_signature_def validate_connector_auth_def msg(1) event_message_fields assms(2,3,5,6) sp header_differs_def sum_bind_def compare_digest_def flip: h_def)
qed

text \<open>A word with an apostrophe ends the parser with an exception that is not its own.\<close>

lemma apostrophe_raises:
  "parse_discord_command (\<lambda>_. None) (\<lambda>_. []) (''/oq ask ceo what'' @ [CHR 0x27] @ ''s next'') ''/oq'' = Inl (ParserRaised (OtherExn ''No closing quotation''))"
  by code_simp

end
