(* ===== verification/Discord_Worker.thy ===== *)
theory Discord_Worker
  imports Discord_Bridge
begin

text \<open>
  The clients of the chat service, \<^verbatim>\<open>apps/discord_bot_worker.py\<close>: one bot per role reads every message of its channels and decides whether
  to forward it to the endpoint, to answer itself, or to stay silent (\<open>on_message\<close>); answers are cut into chunks and sent with retries, in the
  order of the addressed roles.

  The service itself is outside: a message arrives as a record, a post of the payload and a send to a channel have a result per call. Sets of
  identifiers are lists. The Redis registry of bots is the dictionary it holds, empty where there is no client or it fails. A chunk loop need
  not end for a size of zero, so it is a partial function; sizes are at least 200. The order of answers is kept in objects that tasks share, so
  these have addresses. Log lines, delays and the announcement of a dashboard are left out.
\<close>

section \<open>Configuration\<close>

record bot_config =
  bc_bot_role :: string
  bc_bot_id :: string
  bc_token :: string
  bc_control_plane_base_url :: string
  bc_connector_shared_secret :: string
  bc_command_prefix :: string
  bc_actor_role_default :: string
  bc_actor_role_map :: kvs
  bc_allowed_guild_ids :: "string list"
  bc_allowed_channel_ids :: "string list"
  bc_response_chunk_size_chars :: int
  bc_response_retry_attempts :: int
  bc_response_retry_base_delay_seconds :: rat

record launch_plan =
  lp_configs :: "bot_config list"
  lp_required_roles :: "string list"

definition parse_id_allowlist :: "string \<Rightarrow> string list" where
  "parse_id_allowlist raw = csv_items raw"

definition resolve_worker_role :: "string \<Rightarrow> py_exn + string" where
  "resolve_worker_role raw =
     (let role = py_lower (py_strip raw) in if role = [] then Inl (RuntimeErr ''discord worker role is required for discord_bot_worker'') else Inr role)"

definition registry_failure :: "py_exn \<Rightarrow> py_exn" where
  "registry_failure e = (case e of CodedError code message \<Rightarrow> RuntimeErr (''invalid Discord role-bot registry: '' @ code @ '' '' @ message) | _ \<Rightarrow> e)"

definition no_token :: "string \<Rightarrow> py_exn" where
  "no_token role = RuntimeErr (''discord role-bot identity for worker role '' @ py_repr role @ '' has no token'')"

definition resolve_worker_identity ::
  "(string \<Rightarrow> json option) \<Rightarrow> (json \<Rightarrow> string) \<Rightarrow> (string \<Rightarrow> string option) \<Rightarrow> bot_settings \<Rightarrow> py_exn + string \<times> string \<times> string \<times> string list" where
  "resolve_worker_identity json_loads other read_text s =
     sum_bind (resolve_worker_role (bs_worker_role s)) (\<lambda>role.
       case build_role_bot_registry json_loads other read_text s of
         Inl e \<Rightarrow> Inl (registry_failure e)
       | Inr r \<Rightarrow>
           (case map_of (rg_identities_by_role r) role of
              None \<Rightarrow> Inl (RuntimeErr (''discord role-bot identity missing for worker role '' @ py_repr role))
            | Some i \<Rightarrow>
                if rb_status i \<noteq> ''active'' then Inl (RuntimeErr (''discord role-bot identity for worker role '' @ py_repr role @ '' is not active''))
                else if py_strip (rb_token i) = [] then Inl (no_token role)
                else Inr (role, rb_bot_id i, py_strip (rb_token i), rb_guild_allowlist i)))"

definition merge_guild_allowlists :: "string list \<Rightarrow> string list \<Rightarrow> py_exn + string list" where
  "merge_guild_allowlists worker_allowlist env_allowlist =
     (if worker_allowlist = [] then Inr env_allowlist
      else if env_allowlist = [] then Inr worker_allowlist
      else let merged = filter (\<lambda>g. g \<in> set env_allowlist) worker_allowlist
           in if merged = [] then Inl (RuntimeErr ''discord allowed guild allowlist intersection is empty for configured worker role'') else Inr merged)"

definition build_worker_config_from_identity ::
  "(string \<Rightarrow> json option) \<Rightarrow> (json \<Rightarrow> string) \<Rightarrow> bot_settings \<Rightarrow> string \<Rightarrow> string \<Rightarrow> string \<Rightarrow> string list \<Rightarrow> py_exn + bot_config" where
  "build_worker_config_from_identity json_loads other s role bot_id token worker_allowlist =
     sum_bind (merge_guild_allowlists worker_allowlist (parse_id_allowlist (bs_allowed_guild_ids_csv s))) (\<lambda>guilds.
       Inr \<lparr>bc_bot_role = role, bc_bot_id = bot_id, bc_token = py_strip token, bc_control_plane_base_url = bs_control_plane_base_url s,
            bc_connector_shared_secret = bs_connector_shared_secret s, bc_command_prefix = bs_command_prefix s,
            bc_actor_role_default = bs_actor_role_default s, bc_actor_role_map = parse_actor_role_map json_loads other (bs_actor_role_map_json s),
            bc_allowed_guild_ids = guilds, bc_allowed_channel_ids = parse_id_allowlist (bs_allowed_channel_ids_csv s),
            bc_response_chunk_size_chars = max 200 (bs_response_chunk_size_chars s), bc_response_retry_attempts = max 0 (bs_response_retry_attempts s),
            bc_response_retry_base_delay_seconds = max (1 / 10) (bs_response_retry_base_delay_seconds s)\<rparr>)"

fun multi_configs ::
  "(string \<Rightarrow> json option) \<Rightarrow> (json \<Rightarrow> string) \<Rightarrow> bot_settings \<Rightarrow> (string \<times> role_bot_identity) list \<Rightarrow> py_exn + bot_config list" where
  "multi_configs json_loads other s [] = Inr []"
| "multi_configs json_loads other s ((role, i) # rest) =
     (if rb_status i \<noteq> ''active'' then multi_configs json_loads other s rest
      else if py_strip (rb_token i) = [] then Inl (no_token role)
      else sum_bind (build_worker_config_from_identity json_loads other s role (rb_bot_id i) (py_strip (rb_token i)) (rb_guild_allowlist i)) (\<lambda>c.
           sum_bind (multi_configs json_loads other s rest) (\<lambda>cs. Inr (c # cs))))"

definition build_multi_worker_configs ::
  "(string \<Rightarrow> json option) \<Rightarrow> (json \<Rightarrow> string) \<Rightarrow> (string \<Rightarrow> string option) \<Rightarrow> bot_settings \<Rightarrow> py_exn + bot_config list" where
  "build_multi_worker_configs json_loads other read_text s =
     (case build_role_bot_registry json_loads other read_text s of
        Inl e \<Rightarrow> Inl (registry_failure e)
      | Inr r \<Rightarrow> sum_bind (multi_configs json_loads other s (rg_identities_by_role r)) (\<lambda>cs.
          if cs = [] then Inl (RuntimeErr ''discord multi-bot mode requires at least one active role-bot config'') else Inr cs))"

definition build_worker_config ::
  "(string \<Rightarrow> json option) \<Rightarrow> (json \<Rightarrow> string) \<Rightarrow> (string \<Rightarrow> string option) \<Rightarrow> bot_settings \<Rightarrow> py_exn + bot_config" where
  "build_worker_config json_loads other read_text s =
     sum_bind (resolve_worker_identity json_loads other read_text s) (\<lambda>(role, bot_id, token, allowlist).
       build_worker_config_from_identity json_loads other s role bot_id token allowlist)"

definition build_worker_launch_plan ::
  "(string \<Rightarrow> json option) \<Rightarrow> (json \<Rightarrow> string) \<Rightarrow> (string \<Rightarrow> string option) \<Rightarrow> bot_settings \<Rightarrow> py_exn + launch_plan" where
  "build_worker_launch_plan json_loads other read_text s =
     (if bs_multi_bot_enabled s
      then sum_bind (build_multi_worker_configs json_loads other read_text s) (\<lambda>cs.
             let required = map py_lower (csv_items (bs_required_role_bots_csv s))
             in Inr \<lparr>lp_configs = cs, lp_required_roles = (if required = [] then map bc_bot_role cs else required)\<rparr>)
      else sum_bind (build_worker_config json_loads other read_text s) (\<lambda>c. Inr \<lparr>lp_configs = [c], lp_required_roles = [bc_bot_role c]\<rparr>))"

section \<open>Readiness\<close>

record readiness =
  ry_required_roles :: "string list"
  ry_bot_id_by_role :: kvs
  ry_ready_user_ids_by_role :: kvs
  ry_marker :: bool

definition is_healthy :: "readiness \<Rightarrow> bool" where
  "is_healthy r = (set (ry_required_roles r) \<subseteq> fst ` set (ry_ready_user_ids_by_role r))"

definition sync_ready_marker :: "readiness \<Rightarrow> readiness" where
  "sync_ready_marker r = r\<lparr>ry_marker := is_healthy r\<rparr>"

definition initial_readiness :: "launch_plan \<Rightarrow> bool \<Rightarrow> readiness" where
  "initial_readiness plan marker = \<lparr>ry_required_roles = lp_required_roles plan,
     ry_bot_id_by_role = fold (\<lambda>c d. dict_put d (bc_bot_role c) (bc_bot_id c)) (lp_configs plan) [], ry_ready_user_ids_by_role = [], ry_marker = marker\<rparr>"

definition mark_ready :: "string \<Rightarrow> string \<Rightarrow> readiness \<Rightarrow> readiness" where
  "mark_ready role user_id r = sync_ready_marker (r\<lparr>ry_ready_user_ids_by_role := dict_put (ry_ready_user_ids_by_role r) role user_id\<rparr>)"

definition mark_offline :: "string \<Rightarrow> readiness \<Rightarrow> readiness" where
  "mark_offline role r = sync_ready_marker (r\<lparr>ry_ready_user_ids_by_role := filter (\<lambda>(k, _). k \<noteq> role) (ry_ready_user_ids_by_role r)\<rparr>)"

text \<open>The addressed bots that are ready, in the order of their roles, which are distinct, and the identifiers that are none.\<close>

definition resolve_mentioned_recipients :: "readiness \<Rightarrow> string list \<Rightarrow> py_exn + (string \<times> string) list \<times> string list" where
  "resolve_mentioned_recipients r mentioned =
     sum_bind (sum_list_map (\<lambda>(role, _). case map_of (ry_bot_id_by_role r) role of None \<Rightarrow> Inl key_error | Some b \<Rightarrow> Inr (b, role))
        (filter (\<lambda>(_, user_id). user_id \<in> set mentioned) (ry_ready_user_ids_by_role r))) (\<lambda>recipients.
       Inr (sort_key snd recipients, filter (\<lambda>u. u \<notin> snd ` set (ry_ready_user_ids_by_role r)) mentioned))"

text \<open>A client that connects, known by its user identifier, and one that loses its connection; the first also writes the shared registry.\<close>

definition on_ready :: "bot_config \<Rightarrow> nat option \<Rightarrow> readiness \<Rightarrow> kvs \<Rightarrow> readiness \<times> kvs" where
  "on_ready cfg user r registry =
     (case user of
        None \<Rightarrow> (mark_ready (bc_bot_role cfg) ''unknown'' r, registry)
      | Some u \<Rightarrow> (mark_ready (bc_bot_role cfg) (show_nat u) r, dict_put registry (bc_bot_role cfg) (show_nat u)))"

definition on_disconnect :: "bot_config \<Rightarrow> readiness \<Rightarrow> readiness" where
  "on_disconnect cfg r = mark_offline (bc_bot_role cfg) r"

section \<open>Messages and channels\<close>

datatype channel_kind = DMChannel | GroupChannel | ThreadChannel | TextChannel

record chat_channel =
  cn_id :: nat
  cn_kind :: channel_kind
  cn_name :: string

record chat_user =
  us_id :: nat
  us_bot :: bool
  us_display_name :: string
  us_name :: string

record chat_post =
  ms_id :: nat
  ms_author :: chat_user
  ms_guild :: "nat option"
  ms_channel :: chat_channel
  ms_content :: string
  ms_mentions :: "chat_user list"
  ms_mention_everyone :: bool
  ms_created_at :: time

definition channel_type_name :: "chat_channel \<Rightarrow> string" where
  "channel_type_name c = (case cn_kind c of DMChannel \<Rightarrow> ''dm'' | GroupChannel \<Rightarrow> ''group'' | ThreadChannel \<Rightarrow> ''thread'' | TextChannel \<Rightarrow> ''text'')"

definition undash :: "char \<Rightarrow> char" where
  "undash c = (if c = CHR ''-'' then CHR ''_'' else c)"

definition resolve_chat_class :: "chat_channel \<Rightarrow> string" where
  "resolve_chat_class c =
     (if cn_kind c \<in> {DMChannel, GroupChannel} then ''direct''
      else let normalized = map undash (py_lower (py_strip (cn_name c)))
           in if normalized = ''leadership_council'' \<or> py_startswith normalized ''leadership_council_'' then ''leadership_council''
              else if normalized = ''governance'' \<or> py_startswith normalized ''governance_'' then ''governance''
              else if normalized = ''executive'' \<or> py_startswith normalized ''executive_'' then ''executive''
              else ''project'')"

text \<open>\<^verbatim>\<open>s.strip("_")\<close>.\<close>

definition strip_underscores :: "string \<Rightarrow> string" where
  "strip_underscores s = rev (dropWhile (\<lambda>c. c = CHR ''_'') (rev (dropWhile (\<lambda>c. c = CHR ''_'') s)))"

definition derive_project_id :: "chat_channel \<Rightarrow> string option" where
  "derive_project_id c =
     (let channel_name = py_lower (py_strip (cn_name c))
      in if channel_name = [] then None
         else
           let base = (if py_startswith channel_name ''project-'' \<or> py_startswith channel_name ''project_'' then drop 8 channel_name else channel_name);
               normalized = strip_underscores (map undash (map (\<lambda>x. if is_word_char x \<or> x \<in> {CHR ''_'', CHR ''-''} then x else CHR ''_'') base))
           in or_none normalized)"

text \<open>The pattern \<^verbatim>\<open>^(<@!?\d+>\s*)+\<close>: what follows one mention at the start, and all of them dropped.\<close>

definition is_decimal :: "char \<Rightarrow> bool" where
  "is_decimal c = (c \<in> set ''0123456789'')"

definition mention_rest :: "string \<Rightarrow> string option" where
  "mention_rest s =
     (if py_startswith s ''<@''
      then let s1 = drop 2 s; s2 = (if py_startswith s1 ''!'' then drop 1 s1 else s1); s3 = dropWhile is_decimal s2
           in if takeWhile is_decimal s2 \<noteq> [] \<and> py_startswith s3 ''>'' then Some (dropWhile py_isspace (drop 1 s3)) else None
      else None)"

lemma mention_rest_shorter: "mention_rest s = Some r \<Longrightarrow> length r < length s"
proof -
  assume a: "mention_rest s = Some r"
  define s2 where "s2 = (if py_startswith (drop 2 s) ''!'' then drop 1 (drop 2 s) else drop 2 s)"
  have "r = dropWhile py_isspace (drop 1 (dropWhile is_decimal s2))" "py_startswith s ''<@''"
    using a by (auto simp: mention_rest_def Let_def s2_def split: if_splits)
  moreover have "length s2 \<le> length s - 2" unfolding s2_def by (simp, arith)
  moreover have "2 \<le> length s" using \<open>py_startswith s ''<@''\<close> by (cases s; cases "tl s") (auto simp: py_startswith_def)
  moreover have "length (dropWhile py_isspace (drop 1 (dropWhile is_decimal s2))) \<le> length s2"
    by (rule order_trans [OF length_dropWhile_le]) (use length_dropWhile_le [of is_decimal s2] in simp)
  ultimately show ?thesis by simp
qed

function drop_mentions :: "string \<Rightarrow> string" where
  "drop_mentions s = (case mention_rest s of None \<Rightarrow> s | Some r \<Rightarrow> drop_mentions r)"
  by pat_completeness auto
termination
  by (relation "measure length") (auto simp: mention_rest_shorter)

declare drop_mentions.simps [simp del]

definition strip_leading_mentions :: "string \<Rightarrow> string" where
  "strip_leading_mentions content = py_strip (drop_mentions content)"

definition coerce_free_text_to_ask_command :: "parsed_command option \<Rightarrow> string \<Rightarrow> parsed_command option" where
  "coerce_free_text_to_ask_command parsed message_content =
     (case parsed of
        Some c \<Rightarrow> Some c
      | None \<Rightarrow>
          if py_strip message_content = [] then None
          else Some \<lparr>pd_action = ''ask'', pd_target = None, pd_args = [py_strip message_content], pd_recipients = runtime_placeholder,
                 pd_project_id = None, pd_priority = ''normal''\<rparr>)"

section \<open>Recipients\<close>

definition recipients_equal :: "(string \<times> string) list \<Rightarrow> (string \<times> string) list \<Rightarrow> bool" where
  "recipients_equal left right = (length left = length right \<and> set left = set right)"

definition is_runtime_placeholder_recipients :: "(string \<times> string) list \<Rightarrow> bool" where
  "is_runtime_placeholder_recipients recipients = (recipients = runtime_placeholder)"

definition resolve_discord_recipients ::
  "(string \<times> string) list \<Rightarrow> string \<Rightarrow> string \<Rightarrow> string \<Rightarrow> string list \<Rightarrow> (string \<times> string) list \<Rightarrow> string list \<Rightarrow> py_exn + (string \<times> string) list" where
  "resolve_discord_recipients parsed_recipients chat_class bot_role bot_id mentioned mention_recipients unresolved =
     (if chat_class = ''direct''
      then if \<not> is_runtime_placeholder_recipients parsed_recipients \<and> \<not> recipients_equal parsed_recipients [(bot_id, bot_role)]
           then Inl (CodedError ''recipient_mismatch'' (''direct message recipient mismatch; recipient must match target role bot '' @ bot_role))
           else Inr [(bot_id, bot_role)]
      else if mentioned = []
      then if is_runtime_placeholder_recipients parsed_recipients then Inr runtime_placeholder
           else Inl (CodedError ''recipient_mentions_required'' ''group chat command requires explicit role-bot mention(s)'')
      else if unresolved \<noteq> []
      then Inl (CodedError ''recipient_mention_unresolved'' (''one or more mentioned role bots are not online/registered: '' @ py_join '', '' (py_sorted_set unresolved)))
      else if mention_recipients = []
      then Inl (CodedError ''recipient_mentions_required'' ''group chat command did not resolve any governed role recipient'')
      else if \<not> is_runtime_placeholder_recipients parsed_recipients \<and> \<not> recipients_equal parsed_recipients mention_recipients
      then Inl (CodedError ''recipient_mismatch'' ''recipient list does not match explicitly mentioned role bots'')
      else Inr mention_recipients)"

definition mentioned_bot_users :: "chat_post \<Rightarrow> string list" where
  "mentioned_bot_users m = remdups (map (show_nat \<circ> us_id) (filter us_bot (ms_mentions m)))"

definition client_resolve_recipients :: "bot_config \<Rightarrow> readiness \<Rightarrow> parsed_command \<Rightarrow> string \<Rightarrow> chat_post \<Rightarrow> py_exn + (string \<times> string) list" where
  "client_resolve_recipients cfg r parsed chat_class m =
     sum_bind (resolve_mentioned_recipients r (mentioned_bot_users m)) (\<lambda>(mention_recipients, unresolved).
       resolve_discord_recipients (pd_recipients parsed) chat_class (bc_bot_role cfg) (bc_bot_id cfg) (mentioned_bot_users m) mention_recipients unresolved)"

text \<open>The role in a display name \<^verbatim>\<open>OpenQilin <Role>\<close>.\<close>

definition role_of_display_name :: "chat_user \<Rightarrow> (string \<times> string) option" where
  "role_of_display_name u =
     (let display = py_lower (py_strip (if us_display_name u \<noteq> [] then us_display_name u else us_name u))
      in if py_startswith display ''openqilin '' \<or> py_startswith display ''openqilin_''
         then let role = map undash (map (\<lambda>c. if c = CHR '' '' then CHR ''_'' else c) (drop 10 display))
              in if role \<noteq> [] \<and> role \<noteq> ''runtime'' then Some (show_nat (us_id u), role) else None
         else None)"

definition infer_recipients_from_mentions :: "chat_post \<Rightarrow> (string \<times> string) list" where
  "infer_recipients_from_mentions m =
     (let roles = List.map_filter role_of_display_name (filter us_bot (ms_mentions m)) in if roles = [] then runtime_placeholder else roles)"

section \<open>What a client does with a message\<close>

datatype reaction = Silent | Says string | Forwards inbound_event | Crashes py_exn

definition ask_addressable_roles :: "string list" where
  "ask_addressable_roles = [''ceo'', ''cwo'', ''cso'', ''auditor'', ''administrator'', ''project_manager'', ''secretary'']"

text \<open>The bots a message mentions, by the flag of the user or by the shared registry; and the role its topic belongs to.\<close>

definition mentioned_bot_ids :: "kvs \<Rightarrow> chat_post \<Rightarrow> string list" where
  "mentioned_bot_ids registry m =
     mentioned_bot_users m @ filter (\<lambda>u. u \<in> snd ` set registry) (map (show_nat \<circ> us_id) (ms_mentions m))"

definition tier1_role :: "chat_post \<Rightarrow> string option" where
  "tier1_role m = (if ms_mention_everyone m then None else map_option rd_agent_role (classify_topic topic_routing_table (ms_content m)))"

definition tier1_applies :: "chat_post \<Rightarrow> string \<Rightarrow> bool" where
  "tier1_applies m chat_class =
     (case tier1_role m of None \<Rightarrow> False | Some t \<Rightarrow> t \<noteq> ''secretary'' \<and> \<not> (chat_class = ''project'' \<and> t \<in> {''auditor'', ''administrator''}))"

definition referral_text :: "string \<Rightarrow> string" where
  "referral_text role = ''The **'' @ role_label role @ ''** agent handles that topic but isn'' @ [CHR 0x27] @ ''t available in this channel. Try `/oq ask '' @ role @
     '' <question>` in a channel where they'' @ [CHR 0x27] @ ''re active.''"

text \<open>The gate for free text in a group channel: what the client does instead of going on, if anything.\<close>

definition free_text_gate :: "bot_config \<Rightarrow> readiness \<Rightarrow> kvs \<Rightarrow> nat option \<Rightarrow> chat_post \<Rightarrow> string \<Rightarrow> reaction option" where
  "free_text_gate cfg r registry user m chat_class =
     (let mentioned = mentioned_bot_ids registry m; me = (case user of None \<Rightarrow> [] | Some u \<Rightarrow> show_nat u); role = bc_bot_role cfg
      in if tier1_applies m chat_class
         then let target = the (tier1_role m)
              in if role = target then None
                 else if role = ''secretary'' \<and> map_of (ry_ready_user_ids_by_role r) target = None \<and> dict_get registry target = None
                 then Some (Says (referral_text target))
                 else Some Silent
         else if role = ''secretary''
         then (if (\<exists>u\<in>set mentioned. u \<noteq> me) \<and> \<not> ms_mention_everyone m then Some Silent else None)
         else if (me \<noteq> [] \<and> me \<in> set mentioned) \<or> ms_mention_everyone m then None else Some Silent)"

text \<open>The gate of a group channel once the recipients are known: whether this client forwards.\<close>

definition group_gate :: "bot_config \<Rightarrow> bool \<Rightarrow> parsed_command \<Rightarrow> (string \<times> string) list \<Rightarrow> string option \<Rightarrow> bool" where
  "group_gate cfg explicit parsed recipients tier1 =
     (let this_bot_is_target = (\<exists>(i, t)\<in>set recipients. i = bc_bot_id cfg \<or> t = bc_bot_role cfg)
      in if \<not> explicit then bc_bot_role cfg = ''secretary'' \<or> this_bot_is_target \<or> tier1 = Some (bc_bot_role cfg)
         else
           let first = (case pd_args parsed of [] \<Rightarrow> [] | a # _ \<Rightarrow> py_lower a)
           in if pd_action parsed = ''ask'' \<and> pd_args parsed \<noteq> [] \<and> first \<in> set ask_addressable_roles then first = bc_bot_role cfg
              else this_bot_is_target \<or> is_runtime_placeholder_recipients recipients \<and> bc_bot_role cfg = ''secretary'')"

definition guild_text :: "chat_post \<Rightarrow> string" where
  "guild_text m = (case ms_guild m of None \<Rightarrow> ''dm'' | Some g \<Rightarrow> show_nat g)"

definition inbound_of :: "bot_config \<Rightarrow> nat option \<Rightarrow> chat_post \<Rightarrow> parsed_command \<Rightarrow> (string \<times> string) list \<Rightarrow> inbound_event" where
  "inbound_of cfg user m parsed recipients =
     (let actor = show_nat (us_id (ms_author m)); chat_class = resolve_chat_class (ms_channel m)
      in \<lparr>ev_bot_role = bc_bot_role cfg, ev_bot_id = bc_bot_id cfg, ev_bot_user_id = (case user of None \<Rightarrow> bc_bot_id cfg | Some u \<Rightarrow> show_nat u),
          ev_parsed_command = parsed\<lparr>pd_recipients := recipients\<rparr>, ev_message_id = show_nat (ms_id m), ev_actor_external_id = actor,
          ev_actor_role = (case dict_get (bc_actor_role_map cfg) actor of None \<Rightarrow> bc_actor_role_default cfg | Some x \<Rightarrow> x),
          ev_content = ms_content m, ev_guild_id = guild_text m, ev_channel_id = show_nat (cn_id (ms_channel m)),
          ev_channel_type = channel_type_name (ms_channel m), ev_chat_class = chat_class,
          ev_project_id = (if pd_project_id parsed = None \<and> chat_class = ''project'' then derive_project_id (ms_channel m) else pd_project_id parsed),
          ev_timestamp = ms_created_at m, ev_is_everyone_mention = ms_mention_everyone m\<rparr>)"

definition forward_or_not :: "bot_config \<Rightarrow> readiness \<Rightarrow> nat option \<Rightarrow> chat_post \<Rightarrow> bool \<Rightarrow> parsed_command \<Rightarrow> reaction" where
  "forward_or_not cfg r user m explicit parsed =
     (let chat_class = resolve_chat_class (ms_channel m);
          tier1 = (if chat_class \<noteq> ''direct'' \<and> \<not> explicit then tier1_role m else None);
          go = (\<lambda>recipients. if chat_class \<noteq> ''direct'' \<and> \<not> group_gate cfg explicit parsed recipients tier1 then Silent
                 else Forwards (inbound_of cfg user m parsed recipients))
      in case client_resolve_recipients cfg r parsed chat_class m of
           Inr recipients \<Rightarrow> go recipients
         | Inl (CodedError code message) \<Rightarrow>
             if \<not> explicit \<and> bc_bot_role cfg = ''secretary'' \<and> code = ''recipient_mention_unresolved'' then go (infer_recipients_from_mentions m)
             else Says (''[denied] code='' @ code @ '' message='' @ message)
         | Inl e \<Rightarrow> Crashes e)"

definition listens :: "bot_config \<Rightarrow> chat_post \<Rightarrow> bool" where
  "listens cfg m = (\<not> us_bot (ms_author m) \<and> (bc_allowed_guild_ids cfg = [] \<or> guild_text m \<in> set (bc_allowed_guild_ids cfg)) \<and>
     (bc_allowed_channel_ids cfg = [] \<or> show_nat (cn_id (ms_channel m)) \<in> set (bc_allowed_channel_ids cfg)))"

definition on_message ::
  "(string \<Rightarrow> json option) \<Rightarrow> (json \<Rightarrow> string) \<Rightarrow> bot_config \<Rightarrow> readiness \<Rightarrow> kvs \<Rightarrow> nat option \<Rightarrow> chat_post \<Rightarrow> reaction" where
  "on_message json_loads other cfg r registry user m =
     (if \<not> listens cfg m then Silent
      else
        let content = strip_leading_mentions (ms_content m); explicit = py_startswith content (bc_command_prefix cfg);
            chat_class = resolve_chat_class (ms_channel m)
        in case parse_discord_command json_loads other content (bc_command_prefix cfg) of
             Inl (CommandParseError message) \<Rightarrow> Says (''[error] code=discord_command_parse_error message='' @ message)
           | Inl (ParserRaised e) \<Rightarrow> Crashes e
           | Inr p \<Rightarrow>
               (case coerce_free_text_to_ask_command p (ms_content m) of
                  None \<Rightarrow> Silent
                | Some parsed \<Rightarrow>
                    (case if chat_class \<noteq> ''direct'' \<and> \<not> explicit then free_text_gate cfg r registry user m chat_class else None of
                       Some reaction \<Rightarrow> reaction
                     | None \<Rightarrow> forward_or_not cfg r user m explicit parsed)))"

section \<open>Chunks\<close>

definition py_rstrip :: "string \<Rightarrow> string" where
  "py_rstrip s = rev (py_lstrip (rev s))"

text \<open>\<^verbatim>\<open>s.rfind(c)\<close>.\<close>

definition py_rfind :: "char \<Rightarrow> string \<Rightarrow> int" where
  "py_rfind c s = (if c \<in> set s then int (length s) - 1 - int (length (takeWhile (\<lambda>x. x \<noteq> c) (rev s))) else - 1)"

definition chunk_cut :: "nat \<Rightarrow> string \<Rightarrow> nat" where
  "chunk_cut max_chunk_chars remaining =
     (let window = take (max_chunk_chars + 1) remaining; newline = py_rfind (CHR 0x0A) window;
          cut = (if newline < int (max_chunk_chars div 2) then py_rfind (CHR '' '') window else newline)
      in if cut \<le> 0 then max_chunk_chars else nat cut)"

definition next_chunk :: "nat \<Rightarrow> string \<Rightarrow> string \<times> string" where
  "next_chunk max_chunk_chars remaining =
     (let cut = chunk_cut max_chunk_chars remaining; chunk = py_rstrip (take cut remaining)
      in if chunk = [] then (take max_chunk_chars remaining, py_lstrip (drop max_chunk_chars remaining))
         else (chunk, py_lstrip (drop cut remaining)))"

partial_function (option) chunk_loop :: "nat \<Rightarrow> string \<Rightarrow> string list option" where
  "chunk_loop max_chunk_chars remaining =
     (if remaining = [] then Some []
      else if length remaining \<le> max_chunk_chars then Some [remaining]
      else case next_chunk max_chunk_chars remaining of
             (chunk, rest) \<Rightarrow> Option.bind (chunk_loop max_chunk_chars rest) (\<lambda>chunks. Some (chunk # chunks)))"

definition chunk_discord_message :: "string \<Rightarrow> nat \<Rightarrow> string list option" where
  "chunk_discord_message text max_chunk_chars =
     (let normalized = py_strip text
      in if normalized = [] then Some [''[no content]'']
         else if length normalized \<le> max_chunk_chars then Some [normalized]
         else chunk_loop max_chunk_chars normalized)"

section \<open>Sending\<close>

text \<open>The result of the \<open>n\<close>-th send to a channel: delivered, or an error with its status, if it has one.\<close>

datatype send_result = Delivered | Rejected "int option"

record outbox =
  ob_sends :: nat
  ob_delivered :: "string list"

definition is_transient_delivery_error :: "int option \<Rightarrow> bool" where
  "is_transient_delivery_error status = (case status of None \<Rightarrow> False | Some s \<Rightarrow> s \<in> {429, 500, 502, 503, 504})"

text \<open>One attempt, and as many more as are left, each after a transient error; the flag says whether the message was delivered.\<close>

fun send_with_retry :: "(nat \<Rightarrow> send_result) \<Rightarrow> nat \<Rightarrow> string \<Rightarrow> outbox \<Rightarrow> bool \<times> outbox" where
  "send_with_retry channel left message ob =
     (case channel (ob_sends ob) of
        Delivered \<Rightarrow> (True, ob\<lparr>ob_sends := ob_sends ob + 1, ob_delivered := ob_delivered ob @ [message]\<rparr>)
      | Rejected status \<Rightarrow>
          (case left of
             0 \<Rightarrow> (False, ob\<lparr>ob_sends := ob_sends ob + 1\<rparr>)
           | Suc k \<Rightarrow>
               if is_transient_delivery_error status then send_with_retry channel k message (ob\<lparr>ob_sends := ob_sends ob + 1\<rparr>)
               else (False, ob\<lparr>ob_sends := ob_sends ob + 1\<rparr>)))"

declare send_with_retry.simps [simp del]

fun send_all :: "(nat \<Rightarrow> send_result) \<Rightarrow> nat \<Rightarrow> string list \<Rightarrow> outbox \<Rightarrow> bool \<times> outbox" where
  "send_all channel left [] ob = (True, ob)"
| "send_all channel left (x # xs) ob =
     (case send_with_retry channel left x ob of (True, ob1) \<Rightarrow> send_all channel left xs ob1 | (False, ob1) \<Rightarrow> (False, ob1))"

definition outbound_chunks :: "string \<Rightarrow> string list \<Rightarrow> string list" where
  "outbound_chunks role chunks =
     (if 1 < length chunks
      then map (\<lambda>(i, c). ''['' @ role @ '' '' @ show_nat (i + 1) @ ''/'' @ show_nat (length chunks) @ ''] '' @ c) (enumerate 0 chunks)
      else chunks)"

record fan_in =
  fi_connector_shared_secret :: string
  fi_chunk_size :: int
  fi_retry_attempts :: int

definition new_fan_in :: "bot_config \<Rightarrow> fan_in" where
  "new_fan_in cfg = \<lparr>fi_connector_shared_secret = bc_connector_shared_secret cfg, fi_chunk_size = max 200 (bc_response_chunk_size_chars cfg),
     fi_retry_attempts = max 0 (bc_response_retry_attempts cfg)\<rparr>"

definition deliver_response :: "fan_in \<Rightarrow> (nat \<Rightarrow> send_result) \<Rightarrow> string \<Rightarrow> string \<Rightarrow> outbox \<Rightarrow> (bool \<times> outbox) option" where
  "deliver_response f channel role response_text ob =
     map_option (\<lambda>chunks. send_all channel (nat (fi_retry_attempts f)) (outbound_chunks role chunks) ob) (chunk_discord_message response_text (nat (fi_chunk_size f)))"

text \<open>A post of the payload: an answer with its status and JSON object, if its body is one, or an error of the transport or another.\<close>

datatype post_result = Replied nat "json_object option" | TransportFailed | HttpFailed

fun post_payload :: "(nat \<Rightarrow> post_result) \<Rightarrow> nat \<Rightarrow> nat \<Rightarrow> post_result option" where
  "post_payload post attempt 0 = None"
| "post_payload post attempt (Suc k) = (case post attempt of TransportFailed \<Rightarrow> post_payload post (attempt + 1) k | x \<Rightarrow> Some x)"

abbreviation unreachable_text :: string where
  "unreachable_text \<equiv> ''[error] code=connector_http_error message=failed to reach OpenQilin control plane''"

text \<open>The server gets the payload and its signature, per attempt.\<close>

definition process_event ::
  "(json \<Rightarrow> string) \<Rightarrow> (json_object \<Rightarrow> string) \<Rightarrow> (string \<Rightarrow> string \<Rightarrow> string) \<Rightarrow> fan_in \<Rightarrow> (json_object \<times> string \<Rightarrow> nat \<Rightarrow> post_result) \<Rightarrow>
   (nat \<Rightarrow> send_result) \<Rightarrow> inbound_event \<Rightarrow> outbox \<Rightarrow> (bool \<times> outbox) option" where
  "process_event other digest hmac f server channel e ob =
     (let payload = build_discord_ingress_payload digest hmac (fi_connector_shared_secret f) e
      in case post_payload (server payload) 1 3 of
           Some (Replied code body) \<Rightarrow>
             (let b = (case body of Some b \<Rightarrow> b
                       | None \<Rightarrow> [(''status'', JStr ''error''), (''trace_id'', JStr (''trace-discord-'' @ ev_message_id e)),
                           (''error'', JObj [(''code'', JStr ''connector_response_invalid_json''), (''message'', JStr ''control plane returned invalid JSON'')])])
              in deliver_response f channel (ev_bot_role e) (format_governed_response other code b) ob)
         | _ \<Rightarrow> Some (send_with_retry channel 0 unreachable_text ob))"

section \<open>The order of answers\<close>

definition role_priority :: "string \<Rightarrow> nat" where
  "role_priority role = (case map_of [(''administrator'', 0), (''auditor'', 1), (''ceo'', 2), (''cwo'', 3), (''project_manager'', 4), (''runtime_agent'', 5)]
     (py_lower (py_strip role)) of None \<Rightarrow> 50 | Some n \<Rightarrow> n)"

text \<open>\<^verbatim>\<open>sorted(roles, key=lambda item: (_role_priority(item), item))\<close>: by priority the roles that are sorted by name.\<close>

definition ordered_recipient_roles :: "(string \<times> string) list \<Rightarrow> string \<Rightarrow> string list" where
  "ordered_recipient_roles recipients fallback_role =
     (let roles = map (py_lower \<circ> py_strip \<circ> snd) (filter (\<lambda>(_, t). py_strip t \<noteq> []) recipients) @
            (if py_strip fallback_role \<noteq> [] then [py_lower (py_strip fallback_role)] else [])
      in if roles = [] then [''runtime_agent''] else sort_key role_priority (py_sorted_set roles))"

record order_state =
  os_ordered_roles :: "string list"
  os_completed_roles :: "string list"
  os_next_index :: nat

type_synonym message_key = "string \<times> string \<times> string"

record orders =
  or_objects :: "order_state list"
  or_by_key :: "(message_key \<times> nat) list"

definition order_key :: "inbound_event \<Rightarrow> message_key" where
  "order_key e = (ev_guild_id e, ev_channel_id e, ev_message_id e)"

text \<open>A task enters: the address of the object for its message, a new one if there is none.\<close>

definition enter_response_order :: "inbound_event \<Rightarrow> orders \<Rightarrow> nat \<times> orders" where
  "enter_response_order e w =
     (case map_of (or_by_key w) (order_key e) of
        Some a \<Rightarrow> (a, w)
      | None \<Rightarrow>
          (let a = length (or_objects w);
               s = \<lparr>os_ordered_roles = ordered_recipient_roles (pd_recipients (ev_parsed_command e)) (ev_bot_role e), os_completed_roles = [], os_next_index = 0\<rparr>
           in (a, \<lparr>or_objects = or_objects w @ [s], or_by_key = dict_put (or_by_key w) (order_key e) a\<rparr>)))"

text \<open>It waits, for six seconds at most, while another role is next.\<close>

definition must_wait :: "string \<Rightarrow> order_state \<Rightarrow> bool" where
  "must_wait role s = (os_next_index s < length (os_ordered_roles s) \<and> os_ordered_roles s ! os_next_index s \<noteq> role)"

function advance_index :: "string list \<Rightarrow> string list \<Rightarrow> nat \<Rightarrow> nat" where
  "advance_index roles completed n = (if n < length roles \<and> roles ! n \<in> set completed then advance_index roles completed (n + 1) else n)"
  by pat_completeness auto
termination
  by (relation "measure (\<lambda>(roles, completed, n). length roles - n)") auto

declare advance_index.simps [simp del]

definition complete_role :: "string \<Rightarrow> order_state \<Rightarrow> order_state" where
  "complete_role role s =
     (let completed = List.insert role (os_completed_roles s)
      in s\<lparr>os_completed_roles := completed, os_next_index := advance_index (os_ordered_roles s) completed (os_next_index s)\<rparr>)"

definition order_finished :: "order_state \<Rightarrow> bool" where
  "order_finished s = (length (os_ordered_roles s) \<le> length (os_completed_roles s))"

definition exit_response_order :: "message_key \<Rightarrow> nat \<Rightarrow> string \<Rightarrow> orders \<Rightarrow> orders" where
  "exit_response_order key a role w =
     (let s = complete_role role (or_objects w ! a); w1 = w\<lparr>or_objects := (or_objects w)[a := s]\<rparr>
      in if order_finished s \<and> map_of (or_by_key w1) key = Some a then w1\<lparr>or_by_key := filter (\<lambda>(k, _). k \<noteq> key) (or_by_key w1)\<rparr> else w1)"

section \<open>Chunks carry the whole text\<close>

text \<open>A text without its blanks.\<close>

definition inked :: "string \<Rightarrow> string" where
  "inked s = filter (\<lambda>c. \<not> py_isspace c) s"

lemma inked_append [simp]: "inked (s @ t) = inked s @ inked t"
  and inked_Nil [simp]: "inked [] = []"
  by (simp_all add: inked_def)

lemma inked_lstrip [simp]: "inked (py_lstrip s) = inked s"
  by (induction s) (simp_all add: inked_def py_lstrip_def)

lemma inked_rev: "inked (rev s) = rev (inked s)"
  by (simp add: inked_def rev_filter)

lemma inked_rstrip [simp]: "inked (py_rstrip s) = inked s"
  by (simp add: py_rstrip_def inked_rev)

lemma inked_strip [simp]: "inked (py_strip s) = inked s"
  by (simp add: py_strip_def inked_rev)

lemma length_strips: "length (py_lstrip s) \<le> length s" "length (py_rstrip s) \<le> length s"
  using length_dropWhile_le [of py_isspace s] length_dropWhile_le [of py_isspace "rev s"] by (simp_all add: py_lstrip_def py_rstrip_def)

lemma py_rfind_less: "py_rfind c s < int (length s) \<or> s = []"
  by (simp add: py_rfind_def)

lemma chunk_cut_bounds:
  assumes "0 < m" "m < length s"
  shows "0 < chunk_cut m s \<and> chunk_cut m s \<le> m"
proof -
  have "py_rfind c (take (m + 1) s) \<le> int m" for c using py_rfind_less [of c "take (m + 1) s"] assms by auto
  then show ?thesis using assms by (auto simp: chunk_cut_def Let_def nat_le_iff)
qed

lemma next_chunk_progress:
  assumes "0 < m" "m < length s" "next_chunk m s = (c, rest)"
  shows "c \<noteq> []" "length c \<le> m" "length rest < length s" "inked c @ inked rest = inked s"
proof -
  obtain cut where cut: "0 < cut" "cut \<le> m" "rest = py_lstrip (drop cut s)" "c = py_rstrip (take cut s) \<or> c = take cut s" "c \<noteq> []"
  proof (cases "py_rstrip (take (chunk_cut m s) s) = []")
    case True
    then show thesis using that [of m] assms by (cases s) (auto simp: next_chunk_def Let_def)
  next
    case False
    then show thesis using that [of "chunk_cut m s"] chunk_cut_bounds [OF assms(1,2)] assms(3) by (auto simp: next_chunk_def Let_def)
  qed
  have "inked (take cut s) @ inked (drop cut s) = inked s" by (simp flip: inked_append)
  then show "inked c @ inked rest = inked s" using cut(3,4) by auto
  show "c \<noteq> []" by (rule cut(5))
  show "length c \<le> m" using cut(2,4) length_strips(2) [of "take cut s"] by auto
  show "length rest < length s" using cut(1,3) assms(2) length_strips(1) [of "drop cut s"] by simp
qed

lemma chunk_loop_total:
  assumes "0 < m"
  shows "\<exists>cs. chunk_loop m s = Some cs \<and> list_all (\<lambda>c. c \<noteq> [] \<and> length c \<le> m) cs \<and> inked (concat cs) = inked s \<and> (s \<noteq> [] \<longrightarrow> cs \<noteq> [])"
proof (induction "length s" arbitrary: s rule: less_induct)
  case less
  show ?case
  proof (cases "length s \<le> m")
    case True
    then show ?thesis by (cases "s = []") (simp_all add: chunk_loop.simps)
  next
    case False
    obtain c rest where n: "next_chunk m s = (c, rest)" by (cases "next_chunk m s")
    note p = next_chunk_progress [OF assms _ n]
    from False have "m < length s" by simp
    from less [OF p(3) [OF this]] obtain cs where "chunk_loop m rest = Some cs" "list_all (\<lambda>c. c \<noteq> [] \<and> length c \<le> m) cs" "inked (concat cs) = inked rest" by blast
    then show ?thesis using False p [OF \<open>m < length s\<close>] n by (auto simp: chunk_loop.simps [of m s])
  qed
qed

lemma chunks_total:
  assumes "12 \<le> m"
  shows "\<exists>cs. chunk_discord_message text m = Some cs \<and> cs \<noteq> [] \<and> list_all (\<lambda>c. c \<noteq> [] \<and> length c \<le> m) cs \<and>
    inked (concat cs) = (if py_strip text = [] then inked ''[no content]'' else inked text)"
  using chunk_loop_total [of m "py_strip text"] assms by (auto simp: chunk_discord_message_def Let_def)

section \<open>Sends\<close>

lemma send_with_retry_effect:
  "send_with_retry channel left x ob = (ok, ob') \<Longrightarrow>
     ob_delivered ob' = ob_delivered ob @ (if ok then [x] else []) \<and> ob_sends ob < ob_sends ob' \<and> ob_sends ob' \<le> ob_sends ob + left + 1"
proof (induction left arbitrary: ob)
  case 0
  then show ?case by (subst (asm) send_with_retry.simps) (auto split: send_result.splits)
next
  case (Suc k)
  then show ?case
    by (subst (asm) (2) send_with_retry.simps) (fastforce split: send_result.splits if_splits)
qed

lemma send_all_effect:
  "send_all channel left xs ob = (ok, ob') \<Longrightarrow>
     \<exists>k\<le>length xs. ob_delivered ob' = ob_delivered ob @ take k xs \<and> (ok \<longleftrightarrow> k = length xs) \<and> ob_sends ob' \<le> ob_sends ob + length xs * (left + 1)"
proof (induction xs arbitrary: ob)
  case (Cons x xs)
  obtain ok1 ob1 where 1: "send_with_retry channel left x ob = (ok1, ob1)" by (cases "send_with_retry channel left x ob")
  note e = send_with_retry_effect [OF 1]
  show ?case
  proof (cases ok1)
    case True
    with Cons.prems 1 have "send_all channel left xs ob1 = (ok, ob')" by simp
    from Cons.IH [OF this] obtain k where "k \<le> length xs" "ob_delivered ob' = ob_delivered ob1 @ take k xs" "ok \<longleftrightarrow> k = length xs"
      "ob_sends ob' \<le> ob_sends ob1 + length xs * (left + 1)" by blast
    then show ?thesis using e True by (intro exI [of _ "Suc k"]) auto
  next
    case False
    with Cons.prems 1 have "ok = False" "ob' = ob1" by simp_all
    then show ?thesis using e False by (intro exI [of _ 0]) auto
  qed
qed simp

section \<open>Turns\<close>

lemma advance_index_turn:
  "n \<le> length roles \<Longrightarrow> \<forall>i<n. roles ! i \<in> set completed \<Longrightarrow>
     advance_index roles completed n \<le> length roles \<and> (\<forall>i<advance_index roles completed n. roles ! i \<in> set completed) \<and>
     (advance_index roles completed n < length roles \<longrightarrow> roles ! advance_index roles completed n \<notin> set completed)"
proof (induction roles completed n rule: advance_index.induct)
  case (1 roles completed n)
  show ?case
  proof (cases "n < length roles \<and> roles ! n \<in> set completed")
    case True
    then have "\<forall>i<n + 1. roles ! i \<in> set completed" using 1(3) by (metis add.commute less_Suc_eq plus_1_eq_Suc)
    then show ?thesis using 1(1) [OF True] True by (subst (1 2 3 4) advance_index.simps) simp
  next
    case False
    then have "advance_index roles completed n = n" by (subst advance_index.simps) (simp only: if_False)
    then show ?thesis using False 1(2,3) by auto
  qed
qed

text \<open>The roles before the next one have answered.\<close>

definition order_ok :: "order_state \<Rightarrow> bool" where
  "order_ok s = (os_next_index s \<le> length (os_ordered_roles s) \<and> (\<forall>i<os_next_index s. os_ordered_roles s ! i \<in> set (os_completed_roles s)))"

lemma complete_role_ok: "order_ok s \<Longrightarrow> order_ok (complete_role role s)"
  using advance_index_turn [of "os_next_index s" "os_ordered_roles s" "List.insert role (os_completed_roles s)"]
  by (auto simp: order_ok_def complete_role_def Let_def)

lemma exit_response_order_ok: "list_all order_ok (or_objects w) \<Longrightarrow> a < length (or_objects w) \<Longrightarrow> list_all order_ok (or_objects (exit_response_order key a role w))"
  by (auto simp: exit_response_order_def Let_def list_all_length nth_list_update complete_role_ok)

lemma enter_response_order_ok:
  "list_all order_ok (or_objects w) \<Longrightarrow> enter_response_order e w = (a, w') \<Longrightarrow> list_all order_ok (or_objects w')"
  by (auto simp: enter_response_order_def Let_def order_ok_def split: option.splits)

text \<open>A role that need not wait follows the roles before it: all of them have answered.\<close>

lemma turn_after_predecessors:
  assumes "order_ok s" "\<not> must_wait role s" "os_ordered_roles s = xs @ role # ys" "distinct (os_ordered_roles s)"
  shows "set xs \<subseteq> set (os_completed_roles s)"
proof -
  have "length xs \<le> os_next_index s"
  proof (rule ccontr)
    assume "\<not> length xs \<le> os_next_index s"
    then have l: "os_next_index s < length xs" by simp
    then have "os_ordered_roles s ! os_next_index s \<in> set xs" using assms(3) by (simp add: nth_append)
    then show False using l assms(2-4) by (auto simp: must_wait_def)
  qed
  then show ?thesis using assms(1,3) by (auto simp: order_ok_def in_set_conv_nth) (metis nth_append order_less_le_trans)
qed

text \<open>
  The roles of a message nobody is mentioned in are that of the placeholder, which never answers, and that of the secretary, which comes after it:
  the secretary waits for the whole time, and its object is kept for ever.
\<close>

lemma unaddressed_answer_waits:
  assumes "pd_recipients (ev_parsed_command e) = runtime_placeholder" "ev_bot_role e = ''secretary''" "map_of (or_by_key w) (order_key e) = None"
    "enter_response_order e w = (a, w1)"
  shows "must_wait ''secretary'' (or_objects w1 ! a)" "map_of (or_by_key (exit_response_order (order_key e) a ''secretary'' w1)) (order_key e) = Some a"
proof -
  have roles: "ordered_recipient_roles runtime_placeholder ''secretary'' = [''runtime'', ''secretary'']" by code_simp
  define s where "s = \<lparr>os_ordered_roles = [''runtime'', ''secretary''], os_completed_roles = [], os_next_index = 0\<rparr>"
  have w1: "w1 = \<lparr>or_objects = or_objects w @ [s], or_by_key = dict_put (or_by_key w) (order_key e) a\<rparr>" "a = length (or_objects w)"
    using assms(3,4) by (auto simp: enter_response_order_def Let_def assms(1,2) roles s_def)
  show "must_wait ''secretary'' (or_objects w1 ! a)" by (simp add: w1 must_wait_def s_def)
  have "\<not> order_finished (complete_role ''secretary'' s)" unfolding s_def by code_simp
  then show "map_of (or_by_key (exit_response_order (order_key e) a ''secretary'' w1)) (order_key e) = Some a"
    by (simp add: exit_response_order_def Let_def w1 map_of_dict_put)
qed

section \<open>Identifiers\<close>

definition digit_value :: "nat \<Rightarrow> char \<Rightarrow> nat" where
  "digit_value v c = 10 * v + (of_char c - 48)"

lemma show_nat_acc_value: "foldl digit_value 0 (show_nat_acc n acc) = foldl digit_value n acc"
proof (induction n acc rule: show_nat_acc.induct)
  case (1 n acc)
  have "48 + n mod 10 < 256" using mod_less_divisor [of 10 n] by linarith
  then have "(of_char (char_of (48 + n mod 10) :: char) :: nat) = 48 + n mod 10" by (simp only: of_char_of mod_less)
  then have digit: "digit_value v (char_of (48 + n mod 10)) = 10 * v + n mod 10" for v by (simp only: digit_value_def diff_add_inverse)
  show ?case
  proof (cases "n < 10")
    case True
    then show ?thesis using digit [of 0] by (simp only: show_nat_acc.simps [of n acc] Let_def if_True foldl_Cons) simp
  next
    case False
    then show ?thesis using 1 digit [of "n div 10"] by (simp only: show_nat_acc.simps [of n acc] Let_def if_False foldl_Cons) simp
  qed
qed

lemma show_nat_inject: "show_nat n = show_nat k \<longleftrightarrow> n = k"
  using show_nat_acc_value [of n "[]"] show_nat_acc_value [of k "[]"] unfolding show_nat_def by (metis foldl_Nil)

section \<open>Who answers\<close>

lemma on_message_forwards:
  assumes "on_message json_loads other cfg r registry user m = Forwards e"
  obtains parsed p where "listens cfg m" "parse_discord_command json_loads other (strip_leading_mentions (ms_content m)) (bc_command_prefix cfg) = Inr p"
    "coerce_free_text_to_ask_command p (ms_content m) = Some parsed"
    "resolve_chat_class (ms_channel m) \<noteq> ''direct'' \<Longrightarrow> \<not> py_startswith (strip_leading_mentions (ms_content m)) (bc_command_prefix cfg) \<Longrightarrow>
       free_text_gate cfg r registry user m (resolve_chat_class (ms_channel m)) = None"
    "forward_or_not cfg r user m (py_startswith (strip_leading_mentions (ms_content m)) (bc_command_prefix cfg)) parsed = Forwards e"
proof -
  have gate: "free_text_gate cfg r registry user m k \<noteq> Some (Forwards e)" for k
    by (simp add: free_text_gate_def Let_def)
  show thesis using assms gate that unfolding on_message_def Let_def
    by (auto split: if_splits sum.splits parse_failure.splits option.splits)
qed

lemma forward_or_not_forwards:
  assumes "forward_or_not cfg r user m explicit parsed = Forwards e"
  obtains recipients where "e = inbound_of cfg user m parsed recipients"
    "resolve_chat_class (ms_channel m) \<noteq> ''direct'' \<longrightarrow>
       group_gate cfg explicit parsed recipients (if \<not> explicit then tier1_role m else None)"
    "client_resolve_recipients cfg r parsed (resolve_chat_class (ms_channel m)) m = Inr recipients \<or>
       \<not> explicit \<and> bc_bot_role cfg = ''secretary'' \<and> recipients = infer_recipients_from_mentions m"
  using assms that unfolding forward_or_not_def Let_def
  by (cases "client_resolve_recipients cfg r parsed (resolve_chat_class (ms_channel m)) m") (auto split: py_exn.splits if_splits, blast)

text \<open>A client that goes on with free text in a group channel: its topic, the secretary's turn, or a mention of it.\<close>

lemma free_text_gate_passes:
  assumes "free_text_gate cfg r registry (Some u) m k = None" "\<not> ms_mention_everyone m"
  shows "if tier1_applies m k then bc_bot_role cfg = the (tier1_role m)
    else if bc_bot_role cfg = ''secretary'' then \<forall>x\<in>set (mentioned_bot_ids registry m). x = show_nat u
    else show_nat u \<in> set (mentioned_bot_ids registry m)"
  using assms by (auto simp: free_text_gate_def Let_def split: if_splits)

text \<open>Where no mentioned user carries the flag of a bot, the placeholder is the recipient, and only the secretary or the bot of the topic forwards.\<close>

lemma unflagged_forwarder:
  assumes "on_message json_loads other cfg r registry user m = Forwards e" "resolve_chat_class (ms_channel m) \<noteq> ''direct''"
    "\<not> py_startswith (strip_leading_mentions (ms_content m)) (bc_command_prefix cfg)" "filter us_bot (ms_mentions m) = []"
    "bc_bot_id cfg \<noteq> ''runtime''" "bc_bot_role cfg \<notin> {''runtime'', ''secretary''}"
  shows "tier1_role m = Some (bc_bot_role cfg)"
proof -
  from on_message_forwards [OF assms(1)] obtain parsed where f: "forward_or_not cfg r user m False parsed = Forwards e" using assms(3) by metis
  obtain recipients where "e = inbound_of cfg user m parsed recipients"
    and g: "resolve_chat_class (ms_channel m) \<noteq> ''direct'' \<longrightarrow> group_gate cfg False parsed recipients (if \<not> False then tier1_role m else None)"
    and c: "client_resolve_recipients cfg r parsed (resolve_chat_class (ms_channel m)) m = Inr recipients \<or>
      \<not> False \<and> bc_bot_role cfg = ''secretary'' \<and> recipients = infer_recipients_from_mentions m"
    using forward_or_not_forwards [OF f] by blast
  have rs: "client_resolve_recipients cfg r parsed (resolve_chat_class (ms_channel m)) m = Inr recipients" "group_gate cfg False parsed recipients (tier1_role m)"
    using c assms(2,6) g by simp_all
  have "mentioned_bot_users m = []" by (simp add: mentioned_bot_users_def assms(4))
  with rs(1) assms(2) have "recipients = runtime_placeholder"
    by (auto simp: client_resolve_recipients_def resolve_mentioned_recipients_def resolve_discord_recipients_def sum_bind_def split: if_splits sum.splits)
  with rs(2) assms(5,6) show ?thesis by (auto simp: group_gate_def runtime_placeholder_def)
qed

text \<open>
  A message to everyone is forwarded by no bot but the secretary's, unless it also mentions one; and one that mentions a bot only the
  registry knows by nobody, the secretary included, unless its topic belongs to a role.
\<close>

lemma everyone_reaches_secretary_only:
  assumes "ms_mention_everyone m" "filter us_bot (ms_mentions m) = []" "resolve_chat_class (ms_channel m) \<noteq> ''direct''"
    "\<not> py_startswith (strip_leading_mentions (ms_content m)) (bc_command_prefix cfg)"
    "bc_bot_id cfg \<noteq> ''runtime''" "bc_bot_role cfg \<notin> {''runtime'', ''secretary''}"
  shows "on_message json_loads other cfg r registry user m \<noteq> Forwards e"
  using unflagged_forwarder [OF _ assms(3,4,2,5,6)] assms(1) by (auto simp: tier1_role_def)

lemma registry_mention_unanswered:
  assumes "us \<in> set (ms_mentions m)" "filter us_bot (ms_mentions m) = []" "show_nat (us_id us) \<in> snd ` set registry" "us_id us \<noteq> u"
    "\<not> ms_mention_everyone m" "tier1_role m = None" "resolve_chat_class (ms_channel m) \<noteq> ''direct''"
    "\<not> py_startswith (strip_leading_mentions (ms_content m)) (bc_command_prefix cfg)" "bc_bot_id cfg \<noteq> ''runtime''" "bc_bot_role cfg \<noteq> ''runtime''"
  shows "on_message json_loads other cfg r registry (Some u) m \<noteq> Forwards e"
proof
  assume f: "on_message json_loads other cfg r registry (Some u) m = Forwards e"
  show False
  proof (cases "bc_bot_role cfg = ''secretary''")
    case True
    from on_message_forwards [OF f] assms(7,8) have "free_text_gate cfg r registry (Some u) m (resolve_chat_class (ms_channel m)) = None" by metis
    from free_text_gate_passes [OF this assms(5)] True assms(6) have "\<forall>x\<in>set (mentioned_bot_ids registry m). x = show_nat u" by (simp add: tier1_applies_def)
    moreover have "show_nat (us_id us) \<in> set (mentioned_bot_ids registry m)" using assms(1,3) by (auto simp: mentioned_bot_ids_def)
    ultimately show False using assms(4) show_nat_inject by blast
  next
    case False
    then show False using unflagged_forwarder [OF f assms(7,8,2,9)] assms(6,10) by simp
  qed
qed

text \<open>A bot that a message mentions by name stays silent where the topic of the message belongs to another role.\<close>

lemma topic_overrides_mention:
  assumes "tier1_applies m (resolve_chat_class (ms_channel m))" "the (tier1_role m) \<noteq> bc_bot_role cfg" "resolve_chat_class (ms_channel m) \<noteq> ''direct''"
    "\<not> py_startswith (strip_leading_mentions (ms_content m)) (bc_command_prefix cfg)"
  shows "on_message json_loads other cfg r registry user m \<noteq> Forwards e"
proof
  assume f: "on_message json_loads other cfg r registry user m = Forwards e"
  from on_message_forwards [OF f] assms(3,4) have "free_text_gate cfg r registry user m (resolve_chat_class (ms_channel m)) = None" by metis
  then show False using assms(1,2) by (auto simp: free_text_gate_def Let_def split: if_splits)
qed

text \<open>A command after a mention is a command to the client, and free text to the endpoint, which gets the message with the mention.\<close>

lemma mention_not_stripped:
  assumes "mention_rest (ms_content m) \<noteq> None"
  shows "\<not> py_startswith (py_strip (ms_content m)) ''/oq''"
proof -
  have "py_startswith (ms_content m) ''<@''" using assms by (simp add: mention_rest_def split: if_splits)
  then obtain rest where c: "ms_content m = CHR ''<'' # CHR ''@'' # rest" by (cases "ms_content m"; cases "tl (ms_content m)") (auto simp: py_startswith_def)
  have blanks: "\<not> py_isspace CHR ''<''" by code_simp
  have "py_lstrip (ms_content m) = ms_content m" unfolding c by (simp add: py_lstrip_def blanks)
  moreover obtain z where z: "rev (ms_content m) = z @ py_lstrip (rev (ms_content m))" unfolding py_lstrip_def by (metis takeWhile_dropWhile_id)
  ultimately have split: "ms_content m = py_strip (ms_content m) @ rev z" by (metis py_strip_def rev_append rev_rev_ident)
  then show ?thesis
    using c by (cases "py_strip (ms_content m)") (auto simp: py_startswith_def)
qed

lemma mentioned_command_is_free_text:
  assumes "on_message json_loads other cfg r registry user m = Forwards e" "mention_rest (ms_content m) \<noteq> None"
  shows "submit_discord_message env signature (event_message digest e) st =
    free_text_message env signature (event_message digest e)
      \<lparr>cx_chat_class = ev_chat_class e, cx_channel_id = ev_channel_id e, cx_project_id = resolved_project (event_message digest e) (ch_spaces st)\<rparr>
      (resolve_route (ch_spaces st) (ev_guild_id e) (ev_channel_id e) \<noteq> None) (py_strip (ms_content m)) st"
proof -
  from on_message_forwards [OF assms(1)] obtain explicit parsed where "forward_or_not cfg r user m explicit parsed = Forwards e" by metis
  from forward_or_not_forwards [OF this] have "ev_content e = ms_content m" by (metis inbound_of_def inbound_event.select_convs(8))
  then show ?thesis using mention_not_stripped [OF assms(2)] by (simp add: submit_discord_message_def Let_def event_message_fields)
qed

text \<open>The marker of health is set exactly while every required role is ready.\<close>

lemma marker_healthy: "ry_marker (mark_ready role u r) = is_healthy (mark_ready role u r)" "ry_marker (mark_offline role r) = is_healthy (mark_offline role r)"
  by (simp_all add: mark_ready_def mark_offline_def sync_ready_marker_def is_healthy_def)

text \<open>A plan for all roles has one client per active role, each with a token, and each required role is one of them.\<close>

lemma multi_configs_roles:
  "multi_configs json_loads other s ids = Inr cs \<Longrightarrow> map bc_bot_role cs = map fst (filter (\<lambda>(_, i). rb_status i = ''active'') ids) \<and> list_all (\<lambda>c. bc_token c \<noteq> []) cs"
proof (induction json_loads other s ids arbitrary: cs rule: multi_configs.induct)
  case (2 json_loads other s role i rest)
  then show ?case by (auto simp: sum_bind_def build_worker_config_from_identity_def split: if_splits sum.splits)
qed simp

lemma launch_plan_covers_roles:
  assumes "build_worker_launch_plan json_loads other read_text s = Inr plan" "bs_multi_bot_enabled s" "csv_items (bs_required_role_bots_csv s) \<noteq> []"
  shows "set (lp_required_roles plan) \<subseteq> set (map bc_bot_role (lp_configs plan))" "distinct (map bc_bot_role (lp_configs plan))"
proof -
  from assms obtain r cs where r: "build_role_bot_registry json_loads other read_text s = Inr r" "multi_configs json_loads other s (rg_identities_by_role r) = Inr cs"
    "plan = \<lparr>lp_configs = cs, lp_required_roles = map py_lower (csv_items (bs_required_role_bots_csv s))\<rparr>"
    by (auto simp: build_worker_launch_plan_def build_multi_worker_configs_def sum_bind_def Let_def split: sum.splits if_splits)
  have "rg_required_roles r = map py_lower (csv_items (bs_required_role_bots_csv s))"
    using registry_parts [OF r(1)] assms(3) by (auto simp: parse_required_roles_def Let_def)
  moreover note roles = multi_configs_roles [OF r(2)]
  have "role \<in> set (map bc_bot_role cs)" if "active_role (rg_identities_by_role r) role" for role
  proof -
    from that obtain i where "map_of (rg_identities_by_role r) role = Some i" "rb_status i = ''active''" by (auto simp: active_role_def split: option.splits)
    then have "(role, i) \<in> set (filter (\<lambda>(_, i). rb_status i = ''active'') (rg_identities_by_role r))" by (auto dest: map_of_SomeD)
    then show ?thesis unfolding conjunct1 [OF roles] set_map by (rule image_eqI [rotated]) simp
  qed
  ultimately show "set (lp_required_roles plan) \<subseteq> set (map bc_bot_role (lp_configs plan))"
    using registry_sound(6) [OF r(1) assms(2)] r(3) by auto
  show "distinct (map bc_bot_role (lp_configs plan))"
    using roles registry_sound(2) [OF r(1)] r(3) by (auto simp: distinct_map_filter)
qed

section \<open>Properties\<close>

text \<open>
  C39: an answer is delivered in chunks. Cutting it always ends; no chunk is empty or longer than the configured size, and together the chunks carry
  every character of the answer that is not blank, in order. What the channel gets are the first of the numbered chunks, all of them where no
  error ends the delivery, and each takes at most one send more than the configured retries.
\<close>

theorem answer_delivered_in_chunks:
  "\<exists>chunks ok ob' k. chunk_discord_message answer (nat (fi_chunk_size (new_fan_in cfg))) = Some chunks \<and>
     deliver_response (new_fan_in cfg) channel role answer ob = Some (ok, ob') \<and>
     list_all (\<lambda>c. c \<noteq> [] \<and> int (length c) \<le> fi_chunk_size (new_fan_in cfg)) chunks \<and>
     inked (concat chunks) = (if py_strip answer = [] then inked ''[no content]'' else inked answer) \<and>
     ob_delivered ob' = ob_delivered ob @ take k (outbound_chunks role chunks) \<and> k \<le> length chunks \<and> (ok \<longleftrightarrow> k = length chunks) \<and>
     ob_sends ob' \<le> ob_sends ob + length chunks * (nat (fi_retry_attempts (new_fan_in cfg)) + 1)"
proof -
  let ?f = "new_fan_in cfg"
  have size: "200 \<le> fi_chunk_size ?f" by (simp add: new_fan_in_def)
  then have "12 \<le> nat (fi_chunk_size ?f)" by simp
  from chunks_total [OF this, of answer] obtain chunks where c: "chunk_discord_message answer (nat (fi_chunk_size ?f)) = Some chunks"
    "list_all (\<lambda>c. c \<noteq> [] \<and> length c \<le> nat (fi_chunk_size ?f)) chunks"
    "inked (concat chunks) = (if py_strip answer = [] then inked ''[no content]'' else inked answer)" by blast
  obtain ok ob' where d: "send_all channel (nat (fi_retry_attempts ?f)) (outbound_chunks role chunks) ob = (ok, ob')"
    by (cases "send_all channel (nat (fi_retry_attempts ?f)) (outbound_chunks role chunks) ob")
  have l: "length (outbound_chunks role chunks) = length chunks" by (simp add: outbound_chunks_def)
  from send_all_effect [OF d] obtain k where k: "k \<le> length chunks" "ob_delivered ob' = ob_delivered ob @ take k (outbound_chunks role chunks)"
    "ok \<longleftrightarrow> k = length chunks" "ob_sends ob' \<le> ob_sends ob + length chunks * (nat (fi_retry_attempts ?f) + 1)" unfolding l by blast
  have "list_all (\<lambda>c. c \<noteq> [] \<and> int (length c) \<le> fi_chunk_size ?f) chunks" using c(2) size by (auto simp: list_all_iff)
  moreover have "deliver_response ?f channel role answer ob = Some (ok, ob')" by (simp add: deliver_response_def c(1) d)
  ultimately show ?thesis using c(1,3) k by blast
qed

text \<open>
  C16: one bot answers. Two bots of different roles both forward one free text of a group channel, which is not to everyone, only if the message mentions
  both of them; whatever the readiness each knows of.
\<close>

theorem one_bot_answers:
  assumes "on_message json_loads other cfg1 r1 registry (Some u1) m = Forwards e1" "on_message json_loads other cfg2 r2 registry (Some u2) m = Forwards e2"
    "bc_bot_role cfg1 \<noteq> bc_bot_role cfg2" "u1 \<noteq> u2" "resolve_chat_class (ms_channel m) \<noteq> ''direct''" "\<not> ms_mention_everyone m"
    "\<not> py_startswith (strip_leading_mentions (ms_content m)) (bc_command_prefix cfg1)" "\<not> py_startswith (strip_leading_mentions (ms_content m)) (bc_command_prefix cfg2)"
  shows "show_nat u1 \<in> set (mentioned_bot_ids registry m) \<and> show_nat u2 \<in> set (mentioned_bot_ids registry m)"
proof -
  let ?k = "resolve_chat_class (ms_channel m)"
  have g: "free_text_gate cfg1 r1 registry (Some u1) m ?k = None" "free_text_gate cfg2 r2 registry (Some u2) m ?k = None"
    using on_message_forwards [OF assms(1)] on_message_forwards [OF assms(2)] assms(5,7,8) by metis+
  have "show_nat u1 \<noteq> show_nat u2" using assms(4) show_nat_inject by blast
  then show ?thesis using free_text_gate_passes [OF g(1) assms(6)] free_text_gate_passes [OF g(2) assms(6)] assms(3)
    by (cases "tier1_applies m ?k"; cases "bc_bot_role cfg1 = ''secretary''"; cases "bc_bot_role cfg2 = ''secretary''") auto
qed

text \<open>
  C17: what a bot forwards is an authentic message of a person. Its author is no bot, its server and channel are allowed to this bot, and the endpoint,
  with the same secret, accepts the signature of the payload, in which content and author are those of the message and the author's role is the
  one configured for it.
\<close>

theorem forwarded_message_authentic:
  assumes "on_message json_loads other cfg r registry user m = Forwards e"
    "build_discord_ingress_payload digest hmac (bc_connector_shared_secret cfg) e = (payload, signature)"
    "ie_hmac (xe_ingress env) = hmac" "ie_secret (xe_ingress env) = bc_connector_shared_secret cfg"
    "\<And>k h. hmac k h \<noteq> [] \<and> set (hmac k h) \<subseteq> set ''0123456789abcdef''"
  shows "listens cfg m \<and> (\<exists>ctx. chat_signature env (Some signature) (payload_message payload) = Inr ctx) \<and>
    dm_content (payload_message payload) = ms_content m \<and> dm_actor_external_id (payload_message payload) = show_nat (us_id (ms_author m)) \<and>
    dm_bot_role (payload_message payload) = Some (bc_bot_role cfg) \<and>
    dm_actor_role (payload_message payload) =
      (case dict_get (bc_actor_role_map cfg) (show_nat (us_id (ms_author m))) of None \<Rightarrow> bc_actor_role_default cfg | Some x \<Rightarrow> x)"
proof -
  from on_message_forwards [OF assms(1)] obtain explicit parsed where f: "listens cfg m" "forward_or_not cfg r user m explicit parsed = Forwards e" by metis
  from forward_or_not_forwards [OF f(2)] obtain recipients where e: "e = inbound_of cfg user m parsed recipients" by blast
  have ids: "ev_actor_external_id e = show_nat (us_id (ms_author m))" "ev_message_id e = show_nat (ms_id m)" by (simp_all add: e inbound_of_def Let_def)
  have "payload_message payload = event_message digest e"
    using assms(2) by (auto simp: build_discord_ingress_payload_def event_message_def Let_def)
  then show ?thesis using f(1) signed_payload_accepted [OF assms(2-5) ids] ids(1) by (simp add: event_message_fields) (simp add: e inbound_of_def Let_def)
qed

section \<open>Witnesses\<close>

definition demo_bot :: "string \<Rightarrow> bot_config" where
  "demo_bot role = \<lparr>bc_bot_role = role, bc_bot_id = role, bc_token = ''t'', bc_control_plane_base_url = [], bc_connector_shared_secret = ''k'',
     bc_command_prefix = ''/oq'', bc_actor_role_default = ''owner'', bc_actor_role_map = [], bc_allowed_guild_ids = [], bc_allowed_channel_ids = [],
     bc_response_chunk_size_chars = 1900, bc_response_retry_attempts = 2, bc_response_retry_base_delay_seconds = 1\<rparr>"

definition demo_readiness :: readiness where
  "demo_readiness = \<lparr>ry_required_roles = [], ry_bot_id_by_role = [(''ceo'', ''ceo''), (''cwo'', ''cwo'')],
     ry_ready_user_ids_by_role = [(''ceo'', ''7''), (''cwo'', ''8'')], ry_marker = True\<rparr>"

definition demo_chat_post :: chat_post where
  "demo_chat_post = \<lparr>ms_id = 5, ms_author = \<lparr>us_id = 3, us_bot = False, us_display_name = ''Ann'', us_name = ''ann''\<rparr>, ms_guild = Some 1,
     ms_channel = \<lparr>cn_id = 2, cn_kind = TextChannel, cn_name = ''governance''\<rparr>, ms_content = ''<@7> <@8> hi'',
     ms_mentions = [\<lparr>us_id = 7, us_bot = True, us_display_name = [], us_name = []\<rparr>, \<lparr>us_id = 8, us_bot = True, us_display_name = [], us_name = []\<rparr>],
     ms_mention_everyone = False, ms_created_at = 0\<rparr>"

definition forwards :: "reaction \<Rightarrow> bool" where
  "forwards x = (case x of Forwards _ \<Rightarrow> True | _ \<Rightarrow> False)"

lemma demo_forwards:
  "forwards (on_message (\<lambda>_. None) (\<lambda>_. []) (demo_bot ''ceo'') demo_readiness [] (Some 7) demo_chat_post)"
  "forwards (on_message (\<lambda>_. None) (\<lambda>_. []) (demo_bot ''cwo'') demo_readiness [] (Some 8) demo_chat_post)"
  by code_simp+

theorem one_bot_answers_witness: "show_nat 7 \<in> set (mentioned_bot_ids [] demo_chat_post) \<and> show_nat 8 \<in> set (mentioned_bot_ids [] demo_chat_post)"
proof -
  obtain e1 e2 where f: "on_message (\<lambda>_. None) (\<lambda>_. []) (demo_bot ''ceo'') demo_readiness [] (Some 7) demo_chat_post = Forwards e1"
    "on_message (\<lambda>_. None) (\<lambda>_. []) (demo_bot ''cwo'') demo_readiness [] (Some 8) demo_chat_post = Forwards e2"
    using demo_forwards by (auto simp: forwards_def split: reaction.splits)
  have "bc_bot_role (demo_bot ''ceo'') \<noteq> bc_bot_role (demo_bot ''cwo'')" "resolve_chat_class (ms_channel demo_chat_post) \<noteq> ''direct''"
    "\<not> ms_mention_everyone demo_chat_post" "\<not> py_startswith (strip_leading_mentions (ms_content demo_chat_post)) (bc_command_prefix (demo_bot ''ceo''))"
    "\<not> py_startswith (strip_leading_mentions (ms_content demo_chat_post)) (bc_command_prefix (demo_bot ''cwo''))"
    by code_simp+
  from one_bot_answers [OF f this(1) _ this(2-5)] show ?thesis by simp
qed

definition demo_hmac :: "string \<Rightarrow> string \<Rightarrow> string" where
  "demo_hmac key text = ''0a''"

theorem forwarded_message_authentic_witness:
  "\<exists>e. on_message (\<lambda>_. None) (\<lambda>_. []) (demo_bot ''ceo'') demo_readiness [] (Some 7) demo_chat_post = Forwards e \<and>
     (\<exists>ctx. chat_signature (demo_chat_env\<lparr>xe_ingress := demo_ingress_env\<lparr>ie_hmac := demo_hmac, ie_secret := ''k''\<rparr>\<rparr>)
        (Some (snd (build_discord_ingress_payload (\<lambda>_. ''h'') demo_hmac ''k'' e))) (payload_message (fst (build_discord_ingress_payload (\<lambda>_. ''h'') demo_hmac ''k'' e))) = Inr ctx)"
proof -
  obtain e where e: "on_message (\<lambda>_. None) (\<lambda>_. []) (demo_bot ''ceo'') demo_readiness [] (Some 7) demo_chat_post = Forwards e"
    using demo_forwards(1) by (auto simp: forwards_def split: reaction.splits)
  have k: "bc_connector_shared_secret (demo_bot ''ceo'') = ''k''" by (simp add: demo_bot_def)
  have h: "demo_hmac a b \<noteq> [] \<and> set (demo_hmac a b) \<subseteq> set ''0123456789abcdef''" for a b by (simp add: demo_hmac_def)
  from forwarded_message_authentic [OF e prod.collapse [symmetric], where hmac = demo_hmac and digest = "\<lambda>_. ''h''"
      and env = "demo_chat_env\<lparr>xe_ingress := demo_ingress_env\<lparr>ie_hmac := demo_hmac, ie_secret := ''k''\<rparr>\<rparr>"] h e
  show ?thesis unfolding k by auto
qed

end
