(* ===== verification/Query_API.thy ===== *)
theory Query_API
  imports Governance_API Read_Tools Dispatch
begin

text \<open>
  Two more routers of the control plane.
  \<^item> \<^verbatim>\<open>routers/owner_discussions.py\<close>: \<open>post_proposal_discussion_message\<close>, with its own copies of the checks of \<open>Governance_API\<close>;
  \<^item> \<^verbatim>\<open>routers/queries.py\<close>, \<^verbatim>\<open>handlers/query_handler.py\<close>: \<open>search_artifacts_endpoint\<close>, which asks the policy server and then the retrieval of
    \<open>Read_Tools\<close>, and \<open>get_task_status\<close>.

  The policy client is a function from the request to its answer; identifiers that are drawn are arguments. Pydantic has checked the lengths of
  the fields and the bounds of the limit before.
\<close>

section \<open>Messages on a proposal\<close>

definition discussion_fault :: "string \<Rightarrow> string \<Rightarrow> string \<Rightarrow> kvs \<Rightarrow> api_error_body" where
  "discussion_fault source code message details = \<lparr>ge_code = code, ge_message = message, ge_source_component = source, ge_details = details\<rparr>"

definition discussion_missing :: "string \<Rightarrow> string \<Rightarrow> api_error_body" where
  "discussion_missing code name =
     discussion_fault ''connector_security'' code (''missing required header: '' @ name) [(''required_header'', name)]"

definition discussion_connector_headers :: "api_env \<Rightarrow> api_headers \<Rightarrow> py_exn + api_error_body option" where
  "discussion_connector_headers env h =
     (if blank (gh_channel h) then Inr (Some (discussion_missing ''connector_missing_header'' ''X-External-Channel''))
      else if blank (gh_actor_id h) then Inr (Some (discussion_missing ''connector_missing_header'' ''X-External-Actor-Id''))
      else if blank (gh_idempotency_key h) then Inr (Some (discussion_missing ''idempotency_missing_header'' ''X-Idempotency-Key''))
      else if blank (gh_payload_hash h) then Inr (Some (discussion_missing ''connector_missing_header'' ''X-OpenQilin-Raw-Payload-Hash''))
      else let normalized_hash = py_lower (py_strip (the (gh_payload_hash h)))
           in if length normalized_hash < 64 \<or> 128 < length normalized_hash \<or> list_ex (\<lambda>c. \<not> is_hex_digit c) normalized_hash
              then Inr (Some (discussion_fault ''connector_security'' ''connector_payload_hash_invalid'' ''invalid raw payload hash header format''
                     [(''required_header'', ''X-OpenQilin-Raw-Payload-Hash'')]))
              else if blank (gh_signature h) then Inr (Some (discussion_missing ''connector_signature_missing'' ''X-OpenQilin-Signature''))
              else let actor = (if \<not> blank (gh_actor_external_id h) then py_strip (the (gh_actor_external_id h)) else py_strip (the (gh_actor_id h)))
                   in case validate_connector_auth (gx_hmac env) (gx_secret env) (gh_channel h) (gh_actor_id h) (gh_idempotency_key h)
                             (gh_signature h) (py_strip (the (gh_channel h))) actor (py_strip (the (gh_idempotency_key h))) normalized_hash of
                        Inl (CodedError code message) \<Rightarrow> Inr (Some (discussion_fault ''connector_security'' code message []))
                      | Inl x \<Rightarrow> Inl x
                      | Inr _ \<Rightarrow> Inr None)"

definition discussion_principal :: "api_headers \<Rightarrow> api_error_body + (string \<times> string)" where
  "discussion_principal h =
     (case resolve_principal ([(''x-external-channel'', or_str (gh_channel h) []), (''x-external-actor-id'', or_str (gh_actor_id h) []),
             (''x-openqilin-actor-external-id'', or_str (gh_actor_external_id h) [])] @
             (case gh_role h of None \<Rightarrow> [] | Some r \<Rightarrow> [(''x-openqilin-actor-role'', r)])) NoDirectory of
        Inl (code, message) \<Rightarrow> Inl (discussion_fault ''identity'' code message [])
      | Inr p \<Rightarrow> Inr (pr_principal_id p, pr_principal_role p))"

definition discussion_handler_error :: "string \<Rightarrow> string \<Rightarrow> string \<Rightarrow> api_response" where
  "discussion_handler_error trace_id code message =
     (if code = ''governance_role_forbidden'' then failed_response 403 ''denied'' trace_id (discussion_fault ''governance'' code message [])
      else if code = ''governance_project_missing'' then failed_response 404 ''denied'' trace_id (discussion_fault ''governance_repository'' code message [])
      else if code = ''governance_project_not_proposed'' then failed_response 409 ''denied'' trace_id (discussion_fault ''governance_repository'' code message [])
      else failed_response 400 ''error'' trace_id (discussion_fault ''governance'' code message []))"

definition post_proposal_discussion_message ::
  "api_env \<Rightarrow> api_headers \<Rightarrow> string \<Rightarrow> string \<Rightarrow> string \<Rightarrow> api_state \<Rightarrow> (py_exn, api_response, api_state) run" where
  "post_proposal_discussion_message env h project_id trace_id content st =
     (case discussion_connector_headers env h of
        Inl x \<Rightarrow> (Inl x, st)
      | Inr (Some e) \<Rightarrow> (Inr (failed_response 400 ''error'' trace_id e), st)
      | Inr None \<Rightarrow>
          (case discussion_principal h of
             Inl e \<Rightarrow> (Inr (failed_response 400 ''error'' trace_id e), st)
           | Inr (principal_id, principal_role) \<Rightarrow>
               (case submit_proposal_message project_id principal_id principal_role content trace_id (ga_governance st) of
                  (Inl (CodedError code message), g) \<Rightarrow> (Inr (discussion_handler_error trace_id code message), st\<lparr>ga_governance := g\<rparr>)
                | (Inl x, g) \<Rightarrow> (Inl x, st\<lparr>ga_governance := g\<rparr>)
                | (Inr m, g) \<Rightarrow>
                    audited_ok env ''proposal.message'' trace_id principal_id principal_role None ''proposal discussion message recorded''
                      [(''project_id'', Some project_id), (''message_id'', Some (pm_message_id m)), (''actor_role'', Some principal_role)]
                      (ok_response 201 trace_id [(''project_id'', JStr project_id), (''message_id'', JStr (pm_message_id m)),
                         (''actor_id'', JStr (pm_actor_id m)), (''actor_role'', JStr (pm_actor_role m)), (''status'', JStr ''proposed'')])
                      (st\<lparr>ga_governance := g\<rparr>))))"

section \<open>Search\<close>

record query_headers =
  qh_trace_id :: "string option"
  qh_channel :: "string option"
  qh_actor_id :: "string option"
  qh_actor_external_id :: "string option"
  qh_role :: "string option"
  qh_project_scope :: "string option"

record query_error =
  qe_code :: string
  qe_message :: string
  qe_retryable :: bool
  qe_source_component :: string
  qe_details :: kvs

record query_response =
  qr_http_status :: nat
  qr_trace_id :: string
  qr_status :: string
  qr_policy_version :: "string option"
  qr_policy_hash :: "string option"
  qr_rule_ids :: "string list"
  qr_data :: "json_object option"
  qr_error :: "query_error option"

definition parse_project_scope :: "string option \<Rightarrow> string list" where
  "parse_project_scope header = (case header of None \<Rightarrow> [] | Some v \<Rightarrow> filter (\<lambda>x. x \<noteq> []) (map py_strip (py_split CHR '','' v)))"

definition query_denied ::
  "string \<Rightarrow> string \<Rightarrow> string \<Rightarrow> bool \<Rightarrow> string \<Rightarrow> string \<Rightarrow> string option \<Rightarrow> string option \<Rightarrow> string list \<Rightarrow> query_response" where
  "query_denied trace_id code message retryable source project_id version hash rule_ids =
     \<lparr>qr_http_status = 403, qr_trace_id = trace_id, qr_status = ''denied'', qr_policy_version = version, qr_policy_hash = hash, qr_rule_ids = rule_ids,
      qr_data = None, qr_error = Some \<lparr>qe_code = code, qe_message = message, qe_retryable = retryable, qe_source_component = source,
        qe_details = [(''project_id'', project_id)]\<rparr>\<rparr>"

record handled_search =
  hs_status :: string
  hs_hits :: json
  hs_count :: nat
  hs_error_code :: "string option"
  hs_message :: string
  hs_retryable :: bool

definition search_hit :: "retrieval_hit \<Rightarrow> json" where
  "search_hit h = JObj [(''artifact_id'', JStr (ht_artifact_id h)), (''artifact_type'', JStr (ht_artifact_type h)), (''title'', JStr (ht_title h)),
     (''snippet'', JStr (ht_snippet h)), (''source_ref'', JStr (ht_source_ref h)), (''score'', JNum (ht_score h))]"

definition map_retrieval_result :: "retrieval_result \<Rightarrow> handled_search" where
  "map_retrieval_result r =
     (if rl_decision r = ''ok''
      then \<lparr>hs_status = ''ok'', hs_hits = JList (map search_hit (rl_hits r)), hs_count = length (rl_hits r), hs_error_code = None,
            hs_message = rl_message r, hs_retryable = False\<rparr>
      else \<lparr>hs_status = ''denied'', hs_hits = JList [], hs_count = 0, hs_error_code = Some (or_str (rl_error_code r) ''retrieval_query_denied''),
            hs_message = rl_message r, hs_retryable = rl_retryable r\<rparr>)"

definition query_principal_headers :: "query_headers \<Rightarrow> kvs" where
  "query_principal_headers h =
     [(''x-external-channel'', or_str (qh_channel h) []), (''x-external-actor-id'', or_str (qh_actor_id h) []),
      (''x-openqilin-actor-external-id'', or_str (qh_actor_external_id h) [])] @
     (case qh_role h of None \<Rightarrow> [] | Some r \<Rightarrow> [(''x-openqilin-actor-role'', r)])"

text \<open>The request of a search, with the three identifiers drawn for it.\<close>

record artifact_search_call =
  sc_project_id :: string
  sc_query :: string
  sc_limit :: int
  sc_artifact_type :: "string option"
  sc_trace_uuid :: string
  sc_task_uuid :: string
  sc_request_uuid :: string

definition search_policy_input :: "artifact_search_call \<Rightarrow> string \<Rightarrow> principal \<Rightarrow> policy_input" where
  "search_policy_input c trace_id p =
     \<lparr>pi_task_id = ''query-task-'' @ sc_task_uuid c, pi_request_id = ''query-request-'' @ sc_request_uuid c, pi_trace_id = trace_id,
      pi_principal_id = pr_principal_id p, pi_principal_role = pr_principal_role p, pi_trust_domain = pr_trust_domain p, pi_connector = pr_connector p,
      pi_action = ''query_search_project_artifacts'', pi_target = ''artifact_search'', pi_recipient_types = [], pi_recipient_ids = [],
      pi_args = [sc_query c, or_str (sc_artifact_type c) []], pi_project_id = Some (sc_project_id c)\<rparr>"

definition retrieval_request_of :: "artifact_search_call \<Rightarrow> retrieval_request" where
  "retrieval_request_of c = \<lparr>rq_project_id = sc_project_id c, rq_query = sc_query c, rq_limit = sc_limit c, rq_artifact_type = sc_artifact_type c\<rparr>"

definition search_artifacts_endpoint ::
  "(policy_input \<Rightarrow> py_exn + policy_result) \<Rightarrow> (retrieval_request \<Rightarrow> py_exn + retrieval_hit list) \<Rightarrow> query_headers \<Rightarrow> artifact_search_call \<Rightarrow> query_response" where
  "search_artifacts_endpoint policy search h c =
     (let trace_id = or_str (qh_trace_id h) (''trace-query-'' @ sc_trace_uuid c); project_id = sc_project_id c
      in case resolve_principal (query_principal_headers h) NoDirectory of
           Inl (code, message) \<Rightarrow> query_denied trace_id code message False ''identity'' project_id None None []
         | Inr p \<Rightarrow>
             (let scopes = parse_project_scope (qh_project_scope h)
              in if scopes = [] then query_denied trace_id ''query_scope_missing'' ''missing required header: X-OpenQilin-Project-Scope'' False ''identity'' project_id None None []
                 else if project_id \<notin> set scopes \<and> ''*'' \<notin> set scopes
                 then query_denied trace_id ''query_scope_denied'' ''project is outside caller scope'' False ''policy_runtime'' project_id None None []
                 else
                   let outcome = evaluate_with_fail_closed (policy (search_policy_input c trace_id p));
                       version = (case pf_policy_result outcome of None \<Rightarrow> ''policy-version-unknown'' | Some r \<Rightarrow> po_policy_version r);
                       hash = (case pf_policy_result outcome of None \<Rightarrow> ''policy-hash-unknown'' | Some r \<Rightarrow> po_policy_hash r);
                       rules = (case pf_policy_result outcome of None \<Rightarrow> [] | Some r \<Rightarrow> po_rule_ids r)
                   in if \<not> pf_allowed outcome
                      then query_denied trace_id (or_str (pf_error_code outcome) ''query_policy_denied'') (pf_message outcome) False ''policy_runtime'' project_id (Some version) (Some hash) rules
                      else
                        let handled = map_retrieval_result (search_project_artifacts search (retrieval_request_of c))
                        in if hs_status handled = ''ok''
                           then \<lparr>qr_http_status = 200, qr_trace_id = trace_id, qr_status = ''ok'', qr_policy_version = Some version, qr_policy_hash = Some hash,
                                  qr_rule_ids = rules, qr_data = Some [(''project_id'', JStr project_id), (''result_count'', JNum (of_nat (hs_count handled))),
                                    (''results'', hs_hits handled)], qr_error = None\<rparr>
                           else query_denied trace_id (or_str (hs_error_code handled) ''retrieval_query_denied'') (hs_message handled) (hs_retryable handled)
                                  ''retrieval_runtime'' project_id (Some version) (Some hash) rules))"

section \<open>The status of a task\<close>

definition json_text :: "string option \<Rightarrow> json" where
  "json_text x = (case x of None \<Rightarrow> JNull | Some s \<Rightarrow> JStr s)"

definition llm_execution_data :: "llm_metadata \<Rightarrow> json" where
  "llm_execution_data m =
     (case (lm_usage m, lm_cost m, lm_budget_usage m) of
        ((input_tokens, output_tokens, total_tokens, request_units), (estimated, actual, source), (currency, quota)) \<Rightarrow>
          JObj [(''decision'', JStr (lm_decision m)), (''model_selected'', JStr (lm_model_selected m)), (''routing_profile'', JStr (lm_routing_profile m)),
            (''quota_limit_source'', JStr (lm_quota_limit_source m)),
            (''usage'', JObj [(''input_tokens'', JNum (of_int input_tokens)), (''output_tokens'', JNum (of_int output_tokens)),
               (''total_tokens'', JNum (of_int total_tokens)), (''request_units'', JNum (of_int request_units))]),
            (''cost'', JObj [(''estimated_cost_usd'', JNum estimated), (''actual_cost_usd'', case actual of None \<Rightarrow> JNull | Some x \<Rightarrow> JNum x), (''cost_source'', JStr source)]),
            (''budget_usage'', JObj [(''currency_delta_usd'', JNum currency), (''quota_token_units'', JNum (of_int quota))]),
            (''generated_text'', json_text (lm_generated_text m)), (''recipient_role'', JStr (lm_recipient_role m)), (''recipient_id'', json_text (lm_recipient_id m)),
            (''grounding_sources'', JList (map JStr (lm_grounding_source_ids m)))])"

definition get_task_status :: "task_repo \<Rightarrow> (string \<times> dispatch_outcome) list \<Rightarrow> string \<Rightarrow> nat \<times> json_object" where
  "get_task_status repo outcomes task_id =
     (case get_task_by_id repo task_id of
        None \<Rightarrow> (404, [(''status'', JStr ''not_found''), (''task_id'', JStr task_id)])
      | Some t \<Rightarrow>
          (let details = (case tk_outcome_details t of None \<Rightarrow> [] | Some d \<Rightarrow> d)
           in (200, [(''task_id'', JStr task_id), (''trace_id'', JStr (tk_trace_id t)), (''status'', JStr (tk_status t)), (''principal_id'', JStr (tk_principal_id t)),
                (''principal_role'', JStr (tk_principal_role t)), (''command'', JStr (tk_command t)), (''dispatch_target'', json_text (tk_dispatch_target t)),
                (''dispatch_id'', json_text (tk_dispatch_id t)), (''error_code'', json_text (tk_outcome_error_code t)), (''error_message'', json_text (tk_outcome_message t)),
                (''outcome_source'', json_text (tk_outcome_source t)), (''policy_version'', json_text (dict_get details ''policy_version'')),
                (''policy_hash'', json_text (dict_get details ''policy_hash'')),
                (''rule_ids'', JList (map JStr (if truthy (dict_get details ''rule_ids'') then py_split CHR '','' (the (dict_get details ''rule_ids'')) else []))),
                (''llm_execution'', case Option.bind (map_of outcomes task_id) do_llm_metadata of None \<Rightarrow> JNull | Some m \<Rightarrow> llm_execution_data m)])))"

section \<open>What the routers do\<close>

text \<open>The two routers check headers and principals alike, and answer the errors a message on a proposal can meet alike.\<close>

lemma discussion_checks_agree:
  "discussion_connector_headers env h = validate_connector_headers env h" "discussion_principal h = resolve_api_principal h"
  "code \<in> {''governance_role_forbidden'', ''governance_project_missing'', ''governance_project_not_proposed''} \<Longrightarrow>
     discussion_handler_error trace_id code message = map_handler_error trace_id code message"
proof -
  have faults: "discussion_missing = missing" "discussion_fault ''connector_security'' = connector_error"
    by (simp_all add: fun_eq_iff discussion_missing_def missing_def connector_error_def discussion_fault_def)
  show "discussion_connector_headers env h = validate_connector_headers env h"
    unfolding discussion_connector_headers_def validate_connector_headers_def faults Let_def by (auto simp: list_ex_iff list_all_iff)
  show "discussion_principal h = resolve_api_principal h"
    unfolding discussion_principal_def resolve_api_principal_def api_principal_headers_def discussion_fault_def by (rule refl)
  show "discussion_handler_error trace_id code message = map_handler_error trace_id code message"
    if "code \<in> {''governance_role_forbidden'', ''governance_project_missing'', ''governance_project_not_proposed''}"
    using that by (elim insertE emptyE) (simp_all add: discussion_handler_error_def map_handler_error_def discussion_fault_def conflict_codes_def py_endswith_def Let_def)
qed

text \<open>
  A message is answered with success only if the request is signed and its principal's role is one of the three; the message is then stored and
  the event written.
\<close>

lemma discussion_message_recorded:
  assumes "post_proposal_discussion_message env h project_id trace_id content st = (Inr r, st')" "gr_status r = ''ok''"
  shows "validate_connector_headers env h = Inr None \<and> (\<exists>aid role m. resolve_api_principal h = Inr (aid, role) \<and> norm_role role \<in> set triad \<and>
    submit_proposal_message project_id aid role content trace_id (ga_governance st) = (Inr m, ga_governance st') \<and> ga_spaces st' = ga_spaces st)"
proof -
  have not_ok: "gr_status (failed_response n s t e) \<noteq> ''ok''" if "s \<in> {''error'', ''denied''}" for n s t e using that by (auto simp: failed_response_def)
  have err: "gr_status (discussion_handler_error t c m) \<noteq> ''ok''" for t c m by (simp add: discussion_handler_error_def failed_response_def)
  from assms obtain aid role where a: "discussion_connector_headers env h = Inr None" "discussion_principal h = Inr (aid, role)"
    by (auto simp: post_proposal_discussion_message_def not_ok split: sum.splits option.splits)
  obtain x g where x: "submit_proposal_message project_id aid role content trace_id (ga_governance st) = (x, g)"
    by (cases "submit_proposal_message project_id aid role content trace_id (ga_governance st)")
  with assms a err obtain m where m: "x = Inr m" by (cases x) (auto simp: post_proposal_discussion_message_def split: py_exn.splits)
  have "norm_role role \<in> set triad" using x m by (auto simp: submit_proposal_message_def refuse_def split: if_splits)
  moreover have "ga_governance st' = g" "ga_spaces st' = ga_spaces st"
    using assms(1) a x m by (auto simp: post_proposal_discussion_message_def audited_ok_def split: prod.splits sum.splits)
  ultimately show ?thesis using a x m discussion_checks_agree(1,2) by auto
qed

text \<open>
  A search is answered exactly for a principal that resolves, a project in the scope the caller claims, an allowing decision of the policy on
  this request and a retrieval that does not fail; the results are those of the retrieval. The obligations of the decision play no part.
\<close>

lemma search_answer_exact:
  "qr_status (search_artifacts_endpoint policy search h c) = ''ok'' \<longleftrightarrow>
     (\<exists>p r hits. resolve_principal (query_principal_headers h) NoDirectory = Inr p \<and>
        (sc_project_id c \<in> set (parse_project_scope (qh_project_scope h)) \<or> ''*'' \<in> set (parse_project_scope (qh_project_scope h))) \<and>
        policy (search_policy_input c (or_str (qh_trace_id h) (''trace-query-'' @ sc_trace_uuid c)) p) = Inr r \<and>
        po_decision r \<in> {''allow'', ''allow_with_obligations''} \<and> sc_project_id c \<noteq> [] \<and> search (retrieval_request_of c) = Inr hits \<and>
        qr_data (search_artifacts_endpoint policy search h c) =
          Some [(''project_id'', JStr (sc_project_id c)), (''result_count'', JNum (of_nat (length hits))), (''results'', JList (map search_hit hits))])"
proof (cases "resolve_principal (query_principal_headers h) NoDirectory")
  case (Inl e)
  then show ?thesis by (cases e) (simp add: search_artifacts_endpoint_def query_denied_def Let_def)
next
  case (Inr p)
  let ?t = "or_str (qh_trace_id h) (''trace-query-'' @ sc_trace_uuid c)"
  have req: "rq_project_id (retrieval_request_of c) = sc_project_id c" by (simp add: retrieval_request_of_def)
  have found: "rl_decision (search_project_artifacts search q) = ''ok'' \<longleftrightarrow> (rq_project_id q \<noteq> [] \<and> (\<exists>hits. search q = Inr hits))"
    "search q = Inr hits \<Longrightarrow> rq_project_id q \<noteq> [] \<Longrightarrow> rl_hits (search_project_artifacts search q) = hits" for q hits
    by (auto simp: search_project_artifacts_def split: sum.splits py_exn.splits)
  show ?thesis
  proof (cases "policy (search_policy_input c ?t p)")
    case (Inl e)
    then show ?thesis using Inr by (auto simp: search_artifacts_endpoint_def evaluate_with_fail_closed_def query_denied_def Let_def)
  next
    case d: (Inr r)
    show ?thesis
    proof (cases "po_decision r \<in> {''allow'', ''allow_with_obligations''}")
      case True
      then have pass: "evaluate_with_fail_closed (policy (search_policy_input c ?t p)) = \<lparr>pf_allowed = True, pf_error_code = None, pf_message = ''policy allowed command'', pf_policy_result = Some r\<rparr>"
        unfolding d by (simp add: evaluate_with_fail_closed_def)
      show ?thesis using Inr d True found [of "retrieval_request_of c"] req
        by (auto simp: search_artifacts_endpoint_def pass query_denied_def map_retrieval_result_def Let_def)
    next
      case False
      then have "\<not> pf_allowed (evaluate_with_fail_closed (policy (search_policy_input c ?t p)))" unfolding d by (simp add: evaluate_with_fail_closed_def)
      then show ?thesis using Inr d False by (auto simp: search_artifacts_endpoint_def query_denied_def Let_def)
    qed
  qed
qed

text \<open>The status of a task is told to whoever asks, as it is stored.\<close>

lemma task_status_told:
  "get_task_by_id repo i = Some t \<Longrightarrow> fst (get_task_status repo outcomes i) = 200 \<and> dict_get (snd (get_task_status repo outcomes i)) ''status'' = Some (JStr (tk_status t)) \<and>
     dict_get (snd (get_task_status repo outcomes i)) ''principal_id'' = Some (JStr (tk_principal_id t))"
  "get_task_by_id repo i = None \<Longrightarrow> fst (get_task_status repo outcomes i) = 404"
  by (simp_all add: get_task_status_def dict_get_def Let_def)

end
