(* ===== verification/Spec2Isabelle.thy ===== *)
theory Spec2Isabelle
  imports Orchestration Read_Tools Callbacks Chat_Ingress Governance_API Project_Agents Grounded_Answers Message_Store Discord_Worker Query_API
begin

text \<open>
  A verification development of OpenQilin, a governed runtime for software agents. All paths are below
  \<^verbatim>\<open>src/src/openqilin/\<close>.

  \<^bold>\<open>The program.\<close> An owner submits commands (\<^verbatim>\<open>control_plane\<close>), which are validated, made
  idempotent and stored as tasks (\<^verbatim>\<open>task_orchestrator/admission\<close>). A worker drains the queue: each task runs
  through a graph of three nodes (\<^verbatim>\<open>task_orchestrator/workflow\<close>) that asks the policy server, applies the obligations
  of its decision (audit, owner approval, budget, sandbox profile) and dispatches the task to a sandbox, a language
  model, the communication gateway or the specialist agent. Projects are governed documents with a life cycle,
  approvals and artifacts, changed by governance handlers and by the write tools that agents call.

  \<^bold>\<open>Theories.\<close>
  \<^item> \<open>Prelude\<close>: Python strings, dictionaries, exceptions, sequencing of fallible stateful calls (\<open>and_then\<close>, \<open>run_ok\<close>),
    the supply of identifiers and instants, and the interfaces \<open>status_machine\<close> (a life cycle with terminal states),
    \<open>claim_store\<close> (claims of idempotency keys) and \<open>replay_cache\<close> (answering a repeated call from its first answer).
  \<^item> \<open>Task_State\<close>: \<^verbatim>\<open>state/transition_guard.py\<close>, the task repository, the life-cycle service and \<^verbatim>\<open>loop_control.py\<close>.
  \<^item> \<open>Admission\<close>: the command schema, \<^verbatim>\<open>envelope_validator.py\<close>, ingress claims, idempotent admission, recovery at start-up.
  \<^item> \<open>Policy\<close>, \<open>Budget\<close>, \<open>Audit_Trail\<close>, \<open>Obligations\<close>: \<^verbatim>\<open>policy_runtime_integration\<close>, \<^verbatim>\<open>budget_runtime\<close> with its ledger
    tables, the audit writer, the obligation dispatcher and its four handlers.
  \<^item> \<open>Delivery_Store\<close>, \<open>Publisher\<close>, \<open>Communication\<close>: \<^verbatim>\<open>communication_gateway\<close>: ledger, claims, retries, dead letters,
    the publish loop, envelope and ordering validation, the dispatch adapter; \<open>Message_Store\<close>: the PostgreSQL repository of messages
    and dead letters, and the Redis store of claims.
  \<^item> \<open>Dispatch\<close>: \<^verbatim>\<open>services/task_service.py\<close> with its four targets, and the specialist agent.
  \<^item> \<open>Workflow\<close>: the nodes, the routing functions, the compiled graph and the worker's drain; \<open>Orchestration\<close>: their properties.
  \<^item> \<open>Project_Documents\<close>, \<open>Project_Governance\<close>: the project records and JSON columns, the life cycle, the project
    repository and \<^verbatim>\<open>handlers/governance_handler.py\<close>.
  \<^item> \<open>Artifacts\<close>: the document policy, the file store, the artifact repository and the document-policy enforcer.
  \<^item> \<open>Write_Tools\<close>: \<^verbatim>\<open>execution_sandbox/tools\<close>: access tables and the governed write tools, on projects, artifacts,
    budget and audit trail together.
  \<^item> \<open>Read_Tools\<close>: the eleven governed read tools, retrieval, and the adapter that dispatches tool commands.
  \<^item> \<open>Callbacks\<close>: delivery events that arrive after a dispatch, and the notifier that names them.
  \<^item> \<open>Identity\<close>: the directory of identities, \<^verbatim>\<open>principal_resolver.py\<close>, \<^verbatim>\<open>connector_security.py\<close>,
    \<^verbatim>\<open>discord_governance.py\<close>; \<open>Ingress\<close>: the owner-command endpoint \<^verbatim>\<open>routers/owner_commands.py\<close>, which composes
    them with \<open>Admission\<close>.
  \<^item> \<open>Grammar\<close>: \<^verbatim>\<open>control_plane/grammar\<close> and \<^verbatim>\<open>advisory/topic_router.py\<close>: lexing and parsing of commands, intent
    classes, routing of free text.
  \<^item> \<open>Project_Spaces\<close>: \<^verbatim>\<open>project_spaces\<close>: the chat channels of projects; \<open>Governance_API\<close>: the endpoints
    \<^verbatim>\<open>routers/governance.py\<close>, which compose connector security, principals, handlers, channels and the audit trail.
  \<^item> \<open>Chat_Ingress\<close>: the endpoint \<^verbatim>\<open>routers/discord_ingress.py\<close>, which composes \<open>Grammar\<close>, \<open>Project_Spaces\<close> and \<open>Ingress\<close>
    around the agents.
  \<^item> \<open>Query_API\<close>: \<^verbatim>\<open>routers/queries.py\<close> and \<^verbatim>\<open>routers/owner_discussions.py\<close>: artifact search behind scope and policy, the status of a task,
    messages in the discussion of a proposal.
  \<^item> \<open>Discord_Bridge\<close>, \<open>Discord_Worker\<close>: \<^verbatim>\<open>discord_runtime\<close> and \<^verbatim>\<open>apps/discord_bot_worker.py\<close>: the bots of the roles, which
    read the chat, decide who forwards a message to \<open>Chat_Ingress\<close>, sign it and deliver the answer.
  \<^item> \<open>Oversight\<close>: the agent registry, the administrator (retention, quarantine, cap checks) and the auditor with its enforcement
    service, on tasks, artifacts and audit trail; the interface \<open>growing_log\<close>.
  \<^item> \<open>LLM_Gateway\<close>: \<^verbatim>\<open>llm_gateway\<close>: guard, routing, accounting, the service, and the local, Gemini and DeepSeek adapters, instances of
    \<open>llm_provider\<close>.
  \<^item> \<open>Advisory\<close>: the free-text answers of six agents and the secretary, which the chat endpoint calls, over gateway and conversations.
  \<^item> \<open>Agent_Language\<close>: how agents read and rephrase texts: routing by keywords, decisions and outcomes parsed from answers, command language.
  \<^item> \<open>Executives\<close>: \<^verbatim>\<open>agents/cso\<close>, \<^verbatim>\<open>agents/ceo\<close>, \<^verbatim>\<open>agents/cwo\<close>: reviews, decisions, co-approvals, the proposal flow and the
    initialization of a workforce, on artifacts, registry, projects and gateway.
  \<^item> \<open>Project_Agents\<close>: \<^verbatim>\<open>agents/project_manager\<close>, \<^verbatim>\<open>agents/domain_leader\<close> and the violation report of \<^verbatim>\<open>agents/specialist\<close>; the project
    manager joins the executives' state with the dispatch service.
  \<^item> \<open>LLM_Dispatch\<close>: \<^verbatim>\<open>task_orchestrator/dispatch/llm_dispatch.py\<close>, the adapter that answers dispatched tasks with tools or a language
    model; \<open>Grounded_Answers\<close>: its properties, with \<open>Dispatch\<close>, \<open>Read_Tools\<close> and \<open>Write_Tools\<close> composed.
  \<^item> \<open>Conversation\<close>: the PostgreSQL conversation store and the in-memory one, both instances of \<open>turn_store\<close>.

  \<^bold>\<open>How code became definitions.\<close> A class that keeps state is a record, a method a function that returns its
  result or the exception together with the state reached (\<open>run\<close>); a table is the list of its rows in the order of
  insertion, an SQL statement the function on rows it denotes. Optional values, Python's truthiness and dictionaries
  are those of the prelude. A string is a list of characters of Latin-1; dashes and arrows outside it in message texts
  are written as hyphens. Floats are rational numbers. Log lines, spans and metrics are left out. Parameters are what
  lies outside the repository: the policy server, SHA-256, transports and language models, JSON printing, refusals of the
  operating system, identifiers and the clock, and these database failures: of the insertion of a task, of the ledger of the budget, of
  the audit trail, of the search index and of the conversation store. All other statements, those on tasks after their insertion, projects,
  artifacts, agents and identities, are assumed to be answered: in the code their failure leaves the caller as an exception,
  which no definition shows. Calls are sequential: a history is a sequence of whole requests, and two requests that a server handles at
  once are not interleaved.

  \<^bold>\<open>What is proved.\<close>
  \<^item> Tasks: the repository refines a guarded map from tasks to statuses; terminal tasks never change; one task per
    principal and idempotency key; exactly which envelopes are accepted; what a resubmission does within the
    process, and after a restart, which forgets the claims (\<open>restart_resubmission\<close>).
  \<^item> Decisions: the policy guard passes a command only on an allowing decision document; obligations pass only if each
    was honoured; the ledger never overcommits a project; the decision and effect of a reservation on every branch, database errors included.
  \<^item> Orchestration: with a task table that answers, a drain returns and leaves nothing queued; a task refused at the first question
    reserves and dispatches nothing (at the second one, see \<open>outage_drops_obligations\<close>); final state and task status agree; dispatch outcome and status agree; a repeated dispatch has no effect.
  \<^item> Communication: a delivery ends within the attempt limit if the client raises its own errors only and the audit trail can be
    written; the ledger follows its state machine; a repeated
    delivery returns the stored receipt; accepted streams are in order; the message table refines the ledger; a claim in Redis holds
    until it expires.
  \<^item> Projects: over every history of handler calls every stored project follows its life cycle and was approved and
    completed only with the approvals, report and notification the rules demand; rows are read back as written.
  \<^item> Artifacts and tools: the artifact repository refines an append-only log; file contents stay below the projects root, though
    directories may be made outside it (\<open>directory_outside_root\<close>); caps of
    append-only documents hold; unauthorized calls have no effect; repeated calls are replayed; every sequence of tool
    calls keeps the invariants of projects, artifacts and budget.
  \<^item> Identity and ingress: the directory refines a map from keys to statuses; an external principal that is
    resolved with the directory was verified by the last decision on one of its channels; a request stores a task only if its hash field is
    signed and, for Discord, its actor has a verified identity, its role belongs to the chat class and the channel is not revoked. The role of
    the internal connector is the caller's word (\<open>internal_role_self_asserted\<close>), a pending channel passes (\<open>pending_channel_as_verified\<close>).
  \<^item> Governance API: every change is signed, every ok answer is audited for the principal of the request, and the channel
    of a finished project stays closed. The role is the caller's word (\<open>approval_role_self_asserted\<close>).
  \<^item> Chat: a message stores at most one task, signed, of a verified author, for the project of its channel's active binding or, without
    one, the project it names (\<open>closed_channel_falls_back\<close>); without a signature it has no effect.
  \<^item> Bots: one bot answers a free text unless several are mentioned; what a bot forwards is a person's message whose signature the endpoint
    accepts; an answer arrives in chunks within the configured size that lose nothing but blanks; no two bots share a token.
  \<^item> Reads and callbacks: an ok answer in the scope of a project depends on that project only (a denial may not, \<open>denial_reveals_task\<close>); reported gates are the enforced
    ones; a callback identifier acts at most once.
  \<^item> Oversight: whatever the administrator and the auditor are asked, evidence and audit rows are only added and agents only become
    inactive; a reported pause or quarantine is complete; a behavioral finding is escalated once; the registry stays well formed.
  \<^item> Language models: a served answer is the provider's answer to a guarded request, charged as counted; attempts and delays are
    bounded; an advisory answer adds one exchange to its conversation; the secretary refuses actions.
  \<^item> Answers to tasks: a reasoning task is dispatched only with an answer that cites governed evidence; the evidence depends on the task's
    project only; an answer changes no project; every sequence of dispatches keeps the invariants of projects, artifacts and budget.
  \<^item> Executives and project agents: a workforce is bound only by a request that came after review, approval and completion report were on
    record; a submitted proposal has a review on record, whatever its outcome, and a new approval of the CEO that names it; the project manager's writes stay in its project and its contract. Co-approvals wait for each other, and
    delegation fails after its write.
  \<^item> Commands and channels: printed commands parse back; free text is never a mutation; a text is routed by the strict
    majority of its keywords; a created channel is found by its name.
  \<^item> Conversations: both stores return the same recent turns up to the order within an exchange; closed windows cut the history into equal parts.
  \<^item> Behaviours that contradict the code's intent are theorems as well, e.g. \<open>outage_drops_obligations\<close>,
    \<open>signature_covers_only_hash_field\<close>, \<open>settled_usage_not_charged\<close>, \<open>pause_without_project\<close>, \<open>prod_profile_never_served\<close>, \<open>resume_activates_uninitialized\<close>, \<open>recipient_role_terminates\<close>, \<open>cap_denied_write_succeeds\<close>,
    \<open>unaddressed_answer_waits\<close>, \<open>mentioned_command_is_free_text\<close>.

  \<^bold>\<open>Termination and bounds.\<close> The loop that cuts an answer into chunks is a partial function, which ends for every size but zero
  (\<open>chunk_loop_total\<close>); every other function is total. The publish loop is a \<^verbatim>\<open>function\<close> whose measure is the number of
  attempts left, the loops over mentions and turns have the length of what is left as measure; all other loops are structural recursions
  over the list the code iterates, and the creation of parent directories recurses on the shorter path. No fuel is used. Integers
  are unbounded as in Python; counters of rows are natural numbers.

  \<^bold>\<open>Not modelled.\<close> The wiring of the HTTP application and its dependencies, failures of the task table, interleaved requests, the command line and the
  containers' entry points other than the orchestrator worker and the chat bots (glue and I/O); the wording of the agents' system prompts
  and prompt templates; embeddings of conversation windows; Rego policies (another language); tracing, metrics, alerts and release packaging.
\<close>

end
